(* ===== verification/Prelude.thy ===== *)
theory Prelude
  imports Main "HOL-Library.Word" "HOL-Library.Multiset" "HOL-Library.List_Lexorder"
    "HOL-Library.Char_ord"
begin

text \<open>
  Shared vocabulary of the development.

  Go strings and byte slices are both finite sequences of bytes, so both are modelled as
  \<^typ>\<open>string\<close> (a list of 8-bit characters); a conversion such as \<open>[]byte(s)\<close> is the
  identity. A function that can fail returns a sum, \<open>Inl\<close> carrying the error. Collections the
  code keeps in a Go map are association lists: the list order stands for the map's arbitrary
  iteration order, and the theorems say where that order does not matter.
\<close>

section \<open>Types and lemma collections\<close>

type_synonym bytes = string
type_synonym rune = nat

named_theorems table_simps "facts about association lists used as Go maps and SQL tables"
named_theorems codec_simps "lengths and inverses of the byte encodings"
named_theorems preserve_rules "invariant preservation, one rule per operation"

section \<open>Lists\<close>

lemma filter_cong_keys: "(\<And>x. x \<in> set xs \<Longrightarrow> P x = Q x) \<Longrightarrow> filter P xs = filter Q xs"
  by (rule filter_cong) auto

lemma length_filter_less_pred:
  "x \<in> set xs \<Longrightarrow> \<not> P x \<Longrightarrow> length (filter P xs) < length xs"
  by (induction xs) (auto simp: le_imp_less_Suc length_filter_le)

lemma append_eq_same_length:
  "length a = length b \<Longrightarrow> a @ r = b @ s \<Longrightarrow> a = b \<and> r = s"
  by simp

lemma drop_less_length: "length (drop k bs) < Suc (length bs)"
  by simp

lemma unat_less_word: "unat (w :: 32 word) < 4294967296"
  using unsigned_less [of w] by simp

lemma unat_succ_less: "(w :: 32 word) < u \<Longrightarrow> unat (w + 1) = Suc (unat w)"
  using unat_less_word [of u] by (simp add: unat_plus_if' word_less_nat_alt)

lemma unat_diff_le: "(w :: 32 word) \<le> u \<Longrightarrow> unat (u - w) = unat u - unat w"
  by (simp add: unat_sub_if' word_le_nat_alt)

section \<open>Association lists as Go maps\<close>

text \<open>
  \<open>assoc_get m k\<close> is \<open>v, ok := m[k]\<close>, \<open>assoc_put\<close> is \<open>m[k] = v\<close> and
  \<open>assoc_del\<close> is \<open>delete(m, k)\<close>. An existing key keeps its place, so the list stays
  free of duplicate keys.
\<close>

fun assoc_get :: "('k \<times> 'v) list \<Rightarrow> 'k \<Rightarrow> 'v option" where
  "assoc_get [] k = None"
| "assoc_get ((k', v) # m) k = (if k' = k then Some v else assoc_get m k)"

fun assoc_put :: "('k \<times> 'v) list \<Rightarrow> 'k \<Rightarrow> 'v \<Rightarrow> ('k \<times> 'v) list" where
  "assoc_put [] k v = [(k, v)]"
| "assoc_put ((k', v') # m) k v =
     (if k' = k then (k, v) # m else (k', v') # assoc_put m k v)"

definition assoc_del :: "('k \<times> 'v) list \<Rightarrow> 'k \<Rightarrow> ('k \<times> 'v) list" where
  "assoc_del m k = filter (\<lambda>p. fst p \<noteq> k) m"

definition keys_distinct :: "('k \<times> 'v) list \<Rightarrow> bool" where
  "keys_distinct m \<longleftrightarrow> distinct (map fst m)"

lemma assoc_get_map_of: "assoc_get m k = map_of m k"
  by (induction m k rule: assoc_get.induct) auto

lemma assoc_get_put [table_simps]:
  "assoc_get (assoc_put m k v) k' = (if k' = k then Some v else assoc_get m k')"
  by (induction m k v rule: assoc_put.induct) auto

lemma assoc_get_del [table_simps]:
  "assoc_get (assoc_del m k) k' = (if k' = k then None else assoc_get m k')"
  by (induction m) (auto simp: assoc_del_def)

lemma set_fst_put [table_simps]: "fst ` set (assoc_put m k v) = insert k (fst ` set m)"
  by (induction m k v rule: assoc_put.induct) auto

lemma set_fst_del [table_simps]: "fst ` set (assoc_del m k) = fst ` set m - {k}"
  by (auto simp: assoc_del_def)

lemma keys_distinct_Nil [simp]: "keys_distinct []"
  by (simp add: keys_distinct_def)

lemma keys_distinct_put [simp]: "keys_distinct m \<Longrightarrow> keys_distinct (assoc_put m k v)"
  unfolding keys_distinct_def
proof (induction m k v rule: assoc_put.induct)
  case (2 k' v' m k v)
  have "fst ` set (assoc_put m k v) = insert k (fst ` set m)" by (rule set_fst_put)
  with 2 show ?case by auto
qed simp

lemma keys_distinct_del [simp]: "keys_distinct m \<Longrightarrow> keys_distinct (assoc_del m k)"
  by (simp add: keys_distinct_def assoc_del_def distinct_map_filter)

lemma length_assoc_put [table_simps]:
  "length (assoc_put m k v) = (if k \<in> fst ` set m then length m else Suc (length m))"
  by (induction m k v rule: assoc_put.induct) auto

lemma assoc_get_None_iff [table_simps]: "assoc_get m k = None \<longleftrightarrow> k \<notin> fst ` set m"
  by (induction m k rule: assoc_get.induct) auto

lemma assoc_get_mem: "assoc_get m k = Some v \<Longrightarrow> (k, v) \<in> set m"
  by (induction m k rule: assoc_get.induct) (auto split: if_splits)

lemma assoc_get_distinct:
  "keys_distinct m \<Longrightarrow> (k, v) \<in> set m \<Longrightarrow> assoc_get m k = Some v"
  by (simp add: keys_distinct_def assoc_get_map_of)

section \<open>An interface for step functions with an invariant\<close>

text \<open>
  Every stateful component offers operations that keep its invariant; \<open>ok\<close> says which
  operations it is offered with. A client that runs a sequence of them relies on that law alone.
\<close>

locale preserving =
  fixes step :: "'op \<Rightarrow> 's \<Rightarrow> 's"
    and ok :: "'op \<Rightarrow> bool"
    and inv :: "'s \<Rightarrow> bool"
  assumes step_inv: "ok x \<Longrightarrow> inv s \<Longrightarrow> inv (step x s)"
begin

lemma run_inv: "list_all ok xs \<Longrightarrow> inv s \<Longrightarrow> inv (fold step xs s)"
  by (induction xs arbitrary: s) (auto intro: step_inv)

lemma run_prefix_inv: "list_all ok xs \<Longrightarrow> inv s \<Longrightarrow> inv (fold step (take n xs) s)"
  by (rule run_inv) (auto simp: list_all_iff dest: in_set_takeD)

end

end
