(* ===== verification/Table.thy ===== *)
theory Table
  imports Prelude
begin

text \<open>
  SQL tables as lists of row records in insertion (rowid) order. \<open>row_get\<close> is a lookup by a
  unique column, \<open>row_update\<close> an \<open>UPDATE ... WHERE\<close>, \<open>row_delete\<close> a
  \<open>DELETE ... WHERE\<close>; the number of rows affected is the length of the matching rows. The lemmas
  are what the store's operations need of them.
\<close>

section \<open>Statements\<close>

definition row_get :: "('r \<Rightarrow> 'k) \<Rightarrow> 'k \<Rightarrow> 'r list \<Rightarrow> 'r option" where
  "row_get key k rows = find (\<lambda>r. key r = k) rows"

definition row_update :: "('r \<Rightarrow> bool) \<Rightarrow> ('r \<Rightarrow> 'r) \<Rightarrow> 'r list \<Rightarrow> 'r list" where
  "row_update p f rows = map (\<lambda>r. if p r then f r else r) rows"

definition row_delete :: "('r \<Rightarrow> bool) \<Rightarrow> 'r list \<Rightarrow> 'r list" where
  "row_delete p rows = filter (\<lambda>r. \<not> p r) rows"

definition row_count :: "('r \<Rightarrow> bool) \<Rightarrow> 'r list \<Rightarrow> nat" where
  "row_count p rows = length (filter p rows)"

definition unique_key :: "('r \<Rightarrow> 'k) \<Rightarrow> 'r list \<Rightarrow> bool" where
  "unique_key key rows \<longleftrightarrow> distinct (map key rows)"

named_theorems row_simps "row-level facts about the SQL statements"

section \<open>Lookup\<close>

lemma row_get_None [row_simps]: "row_get key k rows = None \<longleftrightarrow> k \<notin> key ` set rows"
  by (auto simp: row_get_def find_None_iff)

lemma row_get_SomeD: "row_get key k rows = Some r \<Longrightarrow> r \<in> set rows \<and> key r = k"
  by (auto simp: row_get_def find_Some_iff)

lemma row_get_unique:
  "unique_key key rows \<Longrightarrow> r \<in> set rows \<Longrightarrow> row_get key (key r) rows = Some r"
  by (induction rows) (auto simp: row_get_def unique_key_def)

lemma row_get_Some_iff:
  "unique_key key rows \<Longrightarrow> row_get key k rows = Some r \<longleftrightarrow> r \<in> set rows \<and> key r = k"
  using row_get_SomeD row_get_unique by fastforce

lemma row_get_append:
  "row_get key k (xs @ ys) = (case row_get key k xs of Some r \<Rightarrow> Some r | None \<Rightarrow> row_get key k ys)"
  by (induction xs) (auto simp: row_get_def)

lemma row_get_update:
  assumes "\<And>r. key (f r) = key r"
  shows "row_get key k (row_update p f rows) =
    map_option (\<lambda>r. if p r then f r else r) (row_get key k rows)"
  using assms by (induction rows) (auto simp: row_get_def row_update_def)

section \<open>Keys and statements\<close>

lemma list_ex_key [row_simps]: "list_ex (\<lambda>r. key r = k) rows \<longleftrightarrow> k \<in> key ` set rows"
  by (auto simp: list_ex_iff)

lemma list_ex_disj: "list_ex (\<lambda>r. p r \<or> q r) rows \<longleftrightarrow> list_ex p rows \<or> list_ex q rows"
  by (auto simp: list_ex_iff)

lemma row_count_key_0 [row_simps]: "row_count (\<lambda>r. key r = k) rows = 0 \<longleftrightarrow> k \<notin> key ` set rows"
  by (induction rows) (auto simp: row_count_def)

lemma unique_key_Nil [simp]: "unique_key key []"
  by (simp add: unique_key_def)

lemma unique_key_append [row_simps]:
  "unique_key key (rows @ [r]) \<longleftrightarrow> unique_key key rows \<and> key r \<notin> key ` set rows"
  by (auto simp: unique_key_def)

lemma unique_key_update [row_simps]:
  assumes "\<And>r. key (f r) = key r"
  shows "unique_key key (row_update p f rows) = unique_key key rows"
proof -
  have "map key (row_update p f rows) = map key rows" using assms by (simp add: row_update_def)
  then show ?thesis by (simp add: unique_key_def)
qed

lemma unique_key_delete [simp]: "unique_key key rows \<Longrightarrow> unique_key key (row_delete p rows)"
  by (simp add: unique_key_def row_delete_def distinct_map_filter)

lemma set_row_delete [row_simps]: "set (row_delete p rows) = {r \<in> set rows. \<not> p r}"
  by (auto simp: row_delete_def)

lemma set_row_update [row_simps]:
  "set (row_update p f rows) = (\<lambda>r. if p r then f r else r) ` set rows"
  by (simp add: row_update_def)

lemma keys_row_update:
  assumes "\<And>r. key (f r) = key r"
  shows "key ` set (row_update p f rows) = key ` set rows"
proof -
  have "map key (row_update p f rows) = map key rows" using assms by (simp add: row_update_def)
  then have "set (map key (row_update p f rows)) = set (map key rows)" by (rule arg_cong)
  then show ?thesis by simp
qed

lemma row_count_delete_le: "row_count q (row_delete p rows) \<le> row_count q rows"
  by (induction rows) (auto simp: row_count_def row_delete_def)

lemma row_count_append [row_simps]: "row_count q (xs @ ys) = row_count q xs + row_count q ys"
  by (simp add: row_count_def)

lemma row_count_update:
  "(\<And>r. q (f r) = q r) \<Longrightarrow> row_count q (row_update p f rows) = row_count q rows"
  by (induction rows) (auto simp: row_count_def row_update_def)

lemma row_count_pos: "0 < row_count p rows \<longleftrightarrow> (\<exists>r \<in> set rows. p r)"
  by (induction rows) (auto simp: row_count_def)

lemma row_count_0: "row_count p rows = 0 \<longleftrightarrow> (\<forall>r \<in> set rows. \<not> p r)"
  by (induction rows) (auto simp: row_count_def)

text \<open>With a unique column, an update or a delete that names one key touches one row.\<close>

lemma row_count_one_update:
  assumes "unique_key key rows" "r \<in> set rows" "q r" "\<not> q (f r)"
  shows "Suc (row_count q (row_update (\<lambda>x. key x = key r) f rows)) = row_count q rows"
  using assms
proof (induction rows)
  case (Cons a rows)
  show ?case
  proof (cases "key a = key r")
    case True
    with Cons.prems have ar: "a = r" by (auto simp: unique_key_def)
    have ne: "key x \<noteq> key r" if "x \<in> set rows" for x
      using Cons.prems(1) True that by (auto simp: unique_key_def) (metis image_eqI)
    have "row_update (\<lambda>x. key x = key r) f rows = rows"
      unfolding row_update_def using ne by (intro map_idI) simp
    with ar show ?thesis using Cons.prems by (simp add: row_count_def row_update_def)
  next
    case False
    with Cons.prems have "r \<in> set rows" "unique_key key rows" by (auto simp: unique_key_def)
    with Cons.IH Cons.prems False show ?thesis by (auto simp: row_count_def row_update_def)
  qed
qed simp

lemma row_count_one_delete:
  assumes "unique_key key rows" "r \<in> set rows" "q r"
  shows "Suc (row_count q (row_delete (\<lambda>x. key x = key r) rows)) = row_count q rows"
  using assms
proof (induction rows)
  case (Cons a rows)
  show ?case
  proof (cases "key a = key r")
    case True
    with Cons.prems have ar: "a = r" by (auto simp: unique_key_def)
    have ne: "key x \<noteq> key r" if "x \<in> set rows" for x
      using Cons.prems(1) True that by (auto simp: unique_key_def) (metis image_eqI)
    have "row_delete (\<lambda>x. key x = key r) rows = rows"
      unfolding row_delete_def filter_id_conv using ne by simp
    with ar show ?thesis using Cons.prems by (simp add: row_count_def row_delete_def)
  next
    case False
    with Cons.prems have "r \<in> set rows" "unique_key key rows" by (auto simp: unique_key_def)
    with Cons.IH Cons.prems False show ?thesis by (auto simp: row_count_def row_delete_def)
  qed
qed simp

text \<open>An update is invisible to a selection that holds of no touched row, before or after.\<close>

lemma filter_row_update:
  assumes "\<And>r. r \<in> set rows \<Longrightarrow> p r \<Longrightarrow> \<not> q r \<and> \<not> q (f r)"
  shows "filter q (row_update p f rows) = filter q rows"
  using assms by (induction rows) (auto simp: row_update_def)

end
