(* ===== verification/Encoding.thy ===== *)
theory Encoding
  imports Prelude
begin

text \<open>
  The byte encodings of the Go standard library that the signed records and the wire formats
  are built from: big-endian integers (\<open>encoding/binary\<close>), hexadecimal (\<open>encoding/hex\<close>),
  standard base64 (\<open>encoding/base64\<close>) and UTF-8 (the \<open>range\<close> loop over a string and
  \<open>strings.Builder.WriteRune\<close>), with their inverses. The interface of this theory is the
  locale \<open>prefix_code\<close>: an encoding that can be read back from the front of a longer byte
  sequence. Every signed record of the program is a concatenation of prefix codes, and the
  signatures' unambiguity is proved from that law alone.
\<close>

section \<open>Prefix codes\<close>

locale prefix_code =
  fixes enc :: "'a \<Rightarrow> bytes"
    and ok :: "'a \<Rightarrow> bool"
  assumes cancel: "ok x \<Longrightarrow> ok y \<Longrightarrow> enc x @ r = enc y @ s \<Longrightarrow> x = y \<and> r = s"
begin

lemma enc_inject: "ok x \<Longrightarrow> ok y \<Longrightarrow> enc x = enc y \<longleftrightarrow> x = y"
  using cancel [of x y "[]" "[]"] by auto

lemma cancel_iff: "ok x \<Longrightarrow> ok y \<Longrightarrow> enc x @ r = enc y @ s \<longleftrightarrow> x = y \<and> r = s"
  using cancel [of x y r s] by blast

end

locale prefix_code_pair = first: prefix_code enc1 ok1 + second: prefix_code enc2 ok2
  for enc1 :: "'a \<Rightarrow> bytes" and ok1 :: "'a \<Rightarrow> bool"
    and enc2 :: "'b \<Rightarrow> bytes" and ok2 :: "'b \<Rightarrow> bool"
begin

lemma pair_cancel:
  assumes "ok1 x" "ok1 y" "ok2 u" "ok2 v"
    and "enc1 x @ enc2 u @ r = enc1 y @ enc2 v @ s"
  shows "x = y \<and> u = v \<and> r = s"
  using assms by (simp add: first.cancel_iff second.cancel_iff)

end

section \<open>Big-endian integers\<close>

primrec big_endian :: "nat \<Rightarrow> nat \<Rightarrow> bytes" where
  "big_endian 0 n = []"
| "big_endian (Suc k) n = big_endian k (n div 256) @ [char_of (n mod 256)]"

definition from_big_endian :: "bytes \<Rightarrow> nat" where
  "from_big_endian bs = foldl (\<lambda>a c. a * 256 + of_char c) 0 bs"

lemma length_big_endian [simp, codec_simps]: "length (big_endian k n) = k"
  by (induction k arbitrary: n) auto

lemma of_char_char_of_mod [simp]: "(of_char (char_of (n mod 256 :: nat)) :: nat) = n mod 256"
  by (simp add: of_char_of)

lemma from_big_endian_mod: "from_big_endian (big_endian k n) = n mod 256 ^ k"
proof (induction k arbitrary: n)
  case 0
  then show ?case by (simp add: from_big_endian_def)
next
  case (Suc k)
  have "from_big_endian (big_endian (Suc k) n) = (n div 256) mod 256 ^ k * 256 + n mod 256"
    using Suc.IH [of "n div 256"] by (simp add: from_big_endian_def)
  also have "\<dots> = n mod (256 * 256 ^ k)"
    by (simp add: mod_mult2_eq)
  finally show ?case by simp
qed

lemma from_big_endian_inverse [codec_simps]:
  "n < 256 ^ k \<Longrightarrow> from_big_endian (big_endian k n) = n"
  by (simp add: from_big_endian_mod)

interpretation be: prefix_code "big_endian k" "\<lambda>n. n < 256 ^ k"
proof
  fix x y :: nat and r s
  assume "x < 256 ^ k" "y < 256 ^ k" "big_endian k x @ r = big_endian k y @ s"
  then have eq: "big_endian k x = big_endian k y" and "r = s" by auto
  from eq have "from_big_endian (big_endian k x) = from_big_endian (big_endian k y)" by simp
  with \<open>x < 256 ^ k\<close> \<open>y < 256 ^ k\<close> \<open>r = s\<close> show "x = y \<and> r = s"
    by (simp add: from_big_endian_inverse)
qed

section \<open>Fixed-width raw bytes\<close>

definition raw :: "bytes \<Rightarrow> bytes" where
  "raw bs = bs"

interpretation raw: prefix_code raw "\<lambda>bs. length bs = n"
  by unfold_locales (simp add: raw_def)

section \<open>Length-prefixed fields\<close>

text \<open>
  \<open>writeLengthPrefixed\<close>: \<open>uint16(len(data))\<close> in big-endian order, then the data. The
  conversion to \<open>uint16\<close> drops the high bits of a length of 65536 or more, so the field is a
  prefix code only below that length. Every signing package has its own copy of this helper.
\<close>

definition write_length_prefixed :: "bytes \<Rightarrow> bytes" where
  "write_length_prefixed d = big_endian 2 (length d mod 65536) @ d"

definition fits16 :: "bytes \<Rightarrow> bool" where
  "fits16 d \<longleftrightarrow> length d < 65536"

interpretation lp: prefix_code write_length_prefixed fits16
proof
  fix x y r s :: bytes
  assume "fits16 x" "fits16 y" and eq: "write_length_prefixed x @ r = write_length_prefixed y @ s"
  then have len: "length x < 256 ^ 2" "length y < 256 ^ 2" by (auto simp: fits16_def)
  with eq have "big_endian 2 (length x) @ x @ r = big_endian 2 (length y) @ y @ s"
    by (simp add: write_length_prefixed_def)
  with be.cancel [OF len] have "length x = length y" "x @ r = y @ s" by blast+
  then show "x = y \<and> r = s" by (rule append_eq_same_length)
qed

interpretation lp_lp: prefix_code_pair write_length_prefixed fits16 write_length_prefixed fits16
  by unfold_locales

definition write_length_prefixed8 :: "bytes \<Rightarrow> bytes" where
  "write_length_prefixed8 d = big_endian 1 (length d mod 256) @ d"

interpretation lp8: prefix_code write_length_prefixed8 "\<lambda>d. length d < 256"
proof
  fix x y r s :: bytes
  assume len: "length x < 256" "length y < 256"
    and eq: "write_length_prefixed8 x @ r = write_length_prefixed8 y @ s"
  then have "big_endian 1 (length x) @ x @ r = big_endian 1 (length y) @ y @ s"
    by (simp add: write_length_prefixed8_def del: One_nat_def)
  with len be.cancel [of "length x" 1 "length y" "x @ r" "y @ s"]
  have "length x = length y" "x @ r = y @ s" by auto
  then show "x = y \<and> r = s" by (rule append_eq_same_length)
qed

lemma length_write_length_prefixed [simp, codec_simps]:
  "length (write_length_prefixed d) = 2 + length d"
  by (simp add: write_length_prefixed_def)

section \<open>Hexadecimal\<close>

definition hex_digit :: "nat \<Rightarrow> char" where
  "hex_digit n = char_of (if n < 10 then 48 + n else 87 + n)"

definition hex_encode :: "bytes \<Rightarrow> string" where
  "hex_encode bs = concat (map (\<lambda>c. let n = (of_char c :: nat)
     in [hex_digit (n div 16), hex_digit (n mod 16)]) bs)"

definition from_hex_char :: "char \<Rightarrow> nat option" where
  "from_hex_char c = (let n = (of_char c :: nat) in
     if 48 \<le> n \<and> n \<le> 57 then Some (n - 48)
     else if 97 \<le> n \<and> n \<le> 102 then Some (n - 87)
     else if 65 \<le> n \<and> n \<le> 70 then Some (n - 55)
     else None)"

text \<open>\<open>hex.DecodeString\<close>: an odd length or a character outside the two alphabets fails.\<close>

fun hex_decode :: "string \<Rightarrow> bytes option" where
  "hex_decode [] = Some []"
| "hex_decode [c] = None"
| "hex_decode (a # b # cs) =
     (case (from_hex_char a, from_hex_char b) of
        (Some x, Some y) \<Rightarrow> map_option (\<lambda>rest. char_of (x * 16 + y) # rest) (hex_decode cs)
      | _ \<Rightarrow> None)"

lemma hex_digit_back: "n < 16 \<Longrightarrow> from_hex_char (hex_digit n) = Some n"
  by (auto simp: hex_digit_def from_hex_char_def Let_def)

theorem hex_decode_encode [codec_simps]: "hex_decode (hex_encode bs) = Some bs"
proof (induction bs)
  case Nil
  then show ?case by (simp add: hex_encode_def)
next
  case (Cons c bs)
  let ?n = "of_char c :: nat"
  have "hex_encode (c # bs) = hex_digit (?n div 16) # hex_digit (?n mod 16) # hex_encode bs"
    by (simp add: hex_encode_def Let_def)
  moreover have "?n div 16 < 16" by (simp add: div_less_iff_less_mult)
  moreover have "?n div 16 * 16 + ?n mod 16 = ?n" by simp
  ultimately show ?case
    using Cons.IH by (simp add: hex_digit_back)
qed

lemma length_hex_encode [simp, codec_simps]: "length (hex_encode bs) = 2 * length bs"
  by (induction bs) (auto simp: hex_encode_def Let_def)

lemma hex_decode_length: "hex_decode s = Some bs \<Longrightarrow> length s = 2 * length bs"
  by (induction s arbitrary: bs rule: hex_decode.induct)
    (auto split: option.splits)

section \<open>Base64\<close>

text \<open>
  \<open>base64.StdEncoding\<close> (padded) and \<open>base64.RawURLEncoding\<close> (unpadded, with \<open>-\<close>
  and \<open>_\<close>); the flag selects the URL alphabet. The decoders skip carriage returns and line
  feeds and, as Go does outside strict mode, ignore the unused low bits of the last character.
\<close>

definition b64_char :: "bool \<Rightarrow> nat \<Rightarrow> char" where
  "b64_char url n = char_of (if n < 26 then 65 + n else if n < 52 then 71 + n
     else if n < 62 then 48 + (n - 52)
     else if n = 62 then (if url then 45 else 43) else (if url then 95 else 47))"

definition b64_val :: "bool \<Rightarrow> char \<Rightarrow> nat option" where
  "b64_val url c = (let n = (of_char c :: nat) in
     if 65 \<le> n \<and> n \<le> 90 then Some (n - 65)
     else if 97 \<le> n \<and> n \<le> 122 then Some (n - 71)
     else if 48 \<le> n \<and> n \<le> 57 then Some (n - 48 + 52)
     else if n = (if url then 45 else 43) then Some 62
     else if n = (if url then 95 else 47) then Some 63
     else None)"

abbreviation pad :: char where
  "pad \<equiv> CHR ''=''"

definition b64_two :: "bool \<Rightarrow> nat \<Rightarrow> string" where
  "b64_two url a = [b64_char url (a div 4), b64_char url (a mod 4 * 16)]"

definition b64_three :: "bool \<Rightarrow> nat \<Rightarrow> nat \<Rightarrow> string" where
  "b64_three url a b =
     [b64_char url (a div 4), b64_char url (a mod 4 * 16 + b div 16), b64_char url (b mod 16 * 4)]"

fun b64_encode :: "bool \<Rightarrow> bool \<Rightarrow> bytes \<Rightarrow> string" where
  "b64_encode url padded [] = []"
| "b64_encode url padded [x] = b64_two url (of_char x) @ (if padded then [pad, pad] else [])"
| "b64_encode url padded [x, y] =
     b64_three url (of_char x) (of_char y) @ (if padded then [pad] else [])"
| "b64_encode url padded (x # y # z # bs) =
     [b64_char url (of_char x div 4), b64_char url (of_char x mod 4 * 16 + of_char y div 16),
      b64_char url (of_char y mod 16 * 4 + of_char z div 64), b64_char url (of_char z mod 64)]
       @ b64_encode url padded bs"

definition b64_bytes1 :: "nat \<Rightarrow> nat \<Rightarrow> bytes" where
  "b64_bytes1 a b = [char_of (a * 4 + b div 16)]"

definition b64_bytes2 :: "nat \<Rightarrow> nat \<Rightarrow> nat \<Rightarrow> bytes" where
  "b64_bytes2 a b c = [char_of (a * 4 + b div 16), char_of (b mod 16 * 16 + c div 4)]"

definition b64_bytes3 :: "nat \<Rightarrow> nat \<Rightarrow> nat \<Rightarrow> nat \<Rightarrow> bytes" where
  "b64_bytes3 a b c d =
     [char_of (a * 4 + b div 16), char_of (b mod 16 * 16 + c div 4), char_of (c mod 4 * 64 + d)]"

fun b64_quanta :: "bool \<Rightarrow> bool \<Rightarrow> string \<Rightarrow> bytes option" where
  "b64_quanta url padded [] = Some []"
| "b64_quanta url padded [a] = None"
| "b64_quanta url padded [a, b] =
     (if padded then None else
      case (b64_val url a, b64_val url b) of
        (Some x, Some y) \<Rightarrow> Some (b64_bytes1 x y) | _ \<Rightarrow> None)"
| "b64_quanta url padded [a, b, c] =
     (if padded then None else
      case (b64_val url a, b64_val url b, b64_val url c) of
        (Some x, Some y, Some z) \<Rightarrow> Some (b64_bytes2 x y z) | _ \<Rightarrow> None)"
| "b64_quanta url padded (a # b # c # d # cs) =
     (if padded \<and> cs = [] \<and> c = pad \<and> d = pad then
        (case (b64_val url a, b64_val url b) of
           (Some x, Some y) \<Rightarrow> Some (b64_bytes1 x y) | _ \<Rightarrow> None)
      else if padded \<and> cs = [] \<and> d = pad then
        (case (b64_val url a, b64_val url b, b64_val url c) of
           (Some x, Some y, Some z) \<Rightarrow> Some (b64_bytes2 x y z) | _ \<Rightarrow> None)
      else
        (case (b64_val url a, b64_val url b, b64_val url c, b64_val url d) of
           (Some x, Some y, Some z, Some w) \<Rightarrow>
             map_option (\<lambda>rest. b64_bytes3 x y z w @ rest) (b64_quanta url padded cs)
         | _ \<Rightarrow> None))"

definition b64_decode :: "bool \<Rightarrow> bool \<Rightarrow> string \<Rightarrow> bytes option" where
  "b64_decode url padded s =
     b64_quanta url padded (filter (\<lambda>c. c \<noteq> CHR 0x0A \<and> c \<noteq> CHR 0x0D) s)"

abbreviation base64_encode :: "bytes \<Rightarrow> string" where
  "base64_encode \<equiv> b64_encode False True"

abbreviation base64_decode :: "string \<Rightarrow> bytes option" where
  "base64_decode \<equiv> b64_decode False True"

lemma b64_val_char:
  assumes "n < 64"
  shows "b64_val url (b64_char url n) = Some n"
proof -
  consider "n < 26" | "26 \<le> n" "n < 52" | k where "n = 52 + k" "k < 10" | "n = 62" | "n = 63"
    using assms le_Suc_ex [of 52 n] by fastforce
  then show ?thesis by cases (simp_all add: b64_val_def b64_char_def Let_def)
qed

lemma b64_char_plain:
  "n < 64 \<Longrightarrow> b64_char url n \<noteq> pad \<and> b64_char url n \<noteq> CHR 0x0A \<and> b64_char url n \<noteq> CHR 0x0D"
  using b64_val_char [of n url] by (auto simp: b64_val_def Let_def split: if_splits)

lemma b64_six_bits:
  "(of_char x :: nat) div 4 < 64" "(of_char x :: nat) mod 64 < 64"
  "(of_char x :: nat) mod 4 * 16 < 64" "(of_char x :: nat) mod 16 * 4 < 64"
  "(of_char x :: nat) mod 4 * 16 + of_char y div 16 < 64"
  "(of_char x :: nat) mod 16 * 4 + of_char y div 64 < 64"
proof -
  have x: "(of_char x :: nat) < 256" and y: "(of_char y :: nat) < 256" by simp_all
  then have "(of_char y :: nat) div 16 \<le> 15" "(of_char y :: nat) div 64 \<le> 3"
    "(of_char x :: nat) mod 4 \<le> 3" "(of_char x :: nat) mod 16 \<le> 15"
    by (simp_all add: div_le_dividend less_Suc_eq_le [symmetric] div_less_iff_less_mult)
  with x show "(of_char x :: nat) div 4 < 64" "(of_char x :: nat) mod 64 < 64"
    "(of_char x :: nat) mod 4 * 16 < 64" "(of_char x :: nat) mod 16 * 4 < 64"
    "(of_char x :: nat) mod 4 * 16 + of_char y div 16 < 64"
    "(of_char x :: nat) mod 16 * 4 + of_char y div 64 < 64"
    by (simp_all add: div_less_iff_less_mult)
qed

lemmas b64_char_facts = b64_six_bits [THEN b64_val_char] b64_six_bits [THEN b64_char_plain]

lemma b64_encode_no_newline:
  "filter (\<lambda>c. c \<noteq> CHR 0x0A \<and> c \<noteq> CHR 0x0D) (b64_encode url padded bs) = b64_encode url padded bs"
  by (induction url padded bs rule: b64_encode.induct)
    (simp_all add: b64_two_def b64_three_def b64_char_facts)

lemma b64_byte_back:
  "(of_char x :: nat) div 4 * 4 + of_char x mod 4 = of_char x"
  "((of_char x :: nat) mod 4 * 16 + of_char y div 16) mod 16 * 16 + of_char y mod 16 = of_char y"
  "((of_char x :: nat) mod 16 * 4 + of_char y div 64) mod 4 * 64 + of_char y mod 64 = of_char y"
proof -
  have "(of_char y :: nat) < 256" by simp
  then have 1: "(of_char y :: nat) div 16 < 16" and 2: "(of_char y :: nat) div 64 < 4"
    by (simp_all add: div_less_iff_less_mult)
  show "(of_char x :: nat) div 4 * 4 + of_char x mod 4 = of_char x" by simp
  have "((of_char x :: nat) mod 4 * 16 + of_char y div 16) mod 16 = of_char y div 16"
    using 1 by simp
  then show "((of_char x :: nat) mod 4 * 16 + of_char y div 16) mod 16 * 16 + of_char y mod 16
      = of_char y" by simp
  have "((of_char x :: nat) mod 16 * 4 + of_char y div 64) mod 4 = of_char y div 64"
    using 2 by simp
  then show "((of_char x :: nat) mod 16 * 4 + of_char y div 64) mod 4 * 64 + of_char y mod 64
      = of_char y" by simp
qed

lemma b64_div_back:
  "((of_char x :: nat) mod 4 * 16 + of_char y div 16) div 16 = of_char x mod 4"
  "((of_char x :: nat) mod 16 * 4 + of_char y div 64) div 4 = of_char x mod 16"
proof -
  have "(of_char y :: nat) < 256" by simp
  then have "(of_char y :: nat) div 16 < 16" "(of_char y :: nat) div 64 < 4"
    by (simp_all add: div_less_iff_less_mult)
  then show "((of_char x :: nat) mod 4 * 16 + of_char y div 16) div 16 = of_char x mod 4"
    "((of_char x :: nat) mod 16 * 4 + of_char y div 64) div 4 = of_char x mod 16"
    by simp_all
qed

lemma of_char_div16_mod16 [simp]: "(of_char y :: nat) div 16 mod 16 = of_char y div 16"
proof -
  have "(of_char y :: nat) div 16 < 16" by (simp add: div_less_iff_less_mult)
  then show ?thesis by simp
qed

lemma b64_bytes_back:
  "b64_bytes1 (of_char x div 4) (of_char x mod 4 * 16) = [x]"
  "b64_bytes2 (of_char x div 4) (of_char x mod 4 * 16 + of_char y div 16) (of_char y mod 16 * 4)
     = [x, y]"
  "b64_bytes3 (of_char x div 4) (of_char x mod 4 * 16 + of_char y div 16)
     (of_char y mod 16 * 4 + of_char z div 64) (of_char z mod 64) = [x, y, z]"
  unfolding b64_bytes1_def b64_bytes2_def b64_bytes3_def b64_div_back b64_byte_back
  by (simp_all add: b64_byte_back)

theorem b64_decode_encode [codec_simps]:
  "b64_decode url padded (b64_encode url padded bs) = Some bs"
  unfolding b64_decode_def b64_encode_no_newline
  by (induction url padded bs rule: b64_encode.induct)
    (simp_all add: b64_two_def b64_three_def b64_char_facts b64_bytes_back)

section \<open>UTF-8\<close>

text \<open>
  A \<open>for _, c := range s\<close> loop decodes UTF-8; a byte that starts no valid encoding yields
  U+FFFD and advances by one. \<open>decode_rune b bs\<close> gives the rune at the head of \<open>b # bs\<close>
  and the number of continuation bytes it takes.
\<close>

definition cont :: "nat \<Rightarrow> bool" where
  "cont b \<longleftrightarrow> 128 \<le> b \<and> b \<le> 191"

definition rune_error :: rune where
  "rune_error = 65533"

fun decode_rune :: "nat \<Rightarrow> nat list \<Rightarrow> rune \<times> nat" where
  "decode_rune b bs =
     (if b < 128 then (b, 0)
      else if 194 \<le> b \<and> b \<le> 223 then
        (case bs of c # _ \<Rightarrow> if cont c then (b mod 32 * 64 + c mod 64, 1) else (rune_error, 0)
         | [] \<Rightarrow> (rune_error, 0))
      else if 224 \<le> b \<and> b \<le> 239 then
        (case bs of c # d # _ \<Rightarrow>
           if (if b = 224 then 160 else 128) \<le> c \<and> c \<le> (if b = 237 then 159 else 191) \<and> cont d
           then (b mod 16 * 4096 + c mod 64 * 64 + d mod 64, 2) else (rune_error, 0)
         | _ \<Rightarrow> (rune_error, 0))
      else if 240 \<le> b \<and> b \<le> 244 then
        (case bs of c # d # e # _ \<Rightarrow>
           if (if b = 240 then 144 else 128) \<le> c \<and> c \<le> (if b = 244 then 143 else 191)
             \<and> cont d \<and> cont e
           then (b mod 8 * 262144 + c mod 64 * 4096 + d mod 64 * 64 + e mod 64, 3)
           else (rune_error, 0)
         | _ \<Rightarrow> (rune_error, 0))
      else (rune_error, 0))"

declare decode_rune.simps [simp del]

function runes_of :: "nat list \<Rightarrow> rune list" where
  "runes_of [] = []"
| "runes_of (b # bs) =
     fst (decode_rune b bs) # runes_of (drop (snd (decode_rune b bs)) bs)"
  by pat_completeness auto
termination
  by (relation "measure length") auto

definition runes :: "string \<Rightarrow> rune list" where
  "runes s = runes_of (map of_char s)"

text \<open>\<open>WriteRune\<close>: surrogates and values beyond U+10FFFF are written as U+FFFD.\<close>

definition encode_rune :: "rune \<Rightarrow> string" where
  "encode_rune r = map char_of (
     if r < 128 then [r]
     else if r < 2048 then [192 + r div 64, 128 + r mod 64]
     else if 55296 \<le> r \<and> r \<le> 57343 \<or> 1114111 < r then [239, 191, 189]
     else if r < 65536 then [224 + r div 4096, 128 + r div 64 mod 64, 128 + r mod 64]
     else [240 + r div 262144, 128 + r div 4096 mod 64, 128 + r div 64 mod 64, 128 + r mod 64])"

definition ascii :: "string \<Rightarrow> bool" where
  "ascii s \<longleftrightarrow> (\<forall>c \<in> set s. (of_char c :: nat) < 128)"

lemma decode_rune_ascii [simp]: "b < 128 \<Longrightarrow> decode_rune b bs = (b, 0)"
  by (simp add: decode_rune.simps)

lemma runes_ascii [simp]: "ascii s \<Longrightarrow> runes s = map of_char s"
  by (induction s) (auto simp: runes_def ascii_def)

lemma encode_rune_ascii [simp]: "r < 128 \<Longrightarrow> encode_rune r = [char_of r]"
  by (simp add: encode_rune_def)

lemma encode_rune_length: "1 \<le> length (encode_rune r)"
  by (simp add: encode_rune_def)

lemma encode_rune_non_ascii: "128 \<le> r \<Longrightarrow> c \<in> set (encode_rune r) \<Longrightarrow> 128 \<le> (of_char c :: nat)"
proof -
  assume r: "128 \<le> r" and c: "c \<in> set (encode_rune r)"
  have "r div 262144 \<le> 4" if "r \<le> 1114111"
    using div_le_mono [OF that, of 262144] by simp
  moreover have "r div 4096 \<le> 15" if "r < 65536"
    using that by (simp add: less_Suc_eq_le [symmetric] div_less_iff_less_mult)
  moreover have "r div 64 \<le> 31" if "r < 2048"
    using that by (simp add: less_Suc_eq_le [symmetric] div_less_iff_less_mult)
  moreover have "128 + k mod 64 < 256" for k :: nat
    using mod_less_divisor [of 64 k] by linarith
  ultimately show ?thesis
    using r c by (auto simp: encode_rune_def of_char_of split: if_splits)
qed

lemma mod_offset: "k * m \<le> b \<Longrightarrow> b < k * m + m \<Longrightarrow> b mod m = b - k * (m::nat)"
proof -
  assume "k * m \<le> b" "b < k * m + m"
  then have "b = (b - k * m) + k * m" "b - k * m < m" by auto
  then show ?thesis by (metis mod_less mod_mult_self1)
qed

lemma decode_rune_non_ascii: "128 \<le> b \<Longrightarrow> 128 \<le> fst (decode_rune b bs)"
proof -
  assume b: "128 \<le> b"
  have m32: "2 \<le> b mod 32" if "194 \<le> b" "b \<le> 223"
    using that mod_offset [of 6 32 b] by simp
  have m16: "1 \<le> b mod 16" if "225 \<le> b" "b \<le> 239"
    using that mod_offset [of 14 16 b] by simp
  have m8: "1 \<le> b mod 8" if "241 \<le> b" "b \<le> 244"
    using that mod_offset [of 30 8 b] by simp
  have c32: "32 \<le> c mod 64" if "160 \<le> c" "c \<le> 191" for c :: nat
    using that mod_offset [of 2 64 c] by simp
  have c16: "16 \<le> c mod 64" if "144 \<le> c" "c \<le> 191" for c :: nat
    using that mod_offset [of 2 64 c] by simp
  have e3: "128 \<le> b mod 16 * 4096 + c mod 64 * 64 + d mod 64"
    if "224 \<le> b" "b \<le> 239" "(if b = 224 then 160 else 128) \<le> c" "c \<le> 191" for c d
  proof (cases "b = 224")
    case True then show ?thesis using that c32 [of c] by simp
  next
    case False then have "1 \<le> b mod 16" using that m16 by simp
    then show ?thesis by linarith
  qed
  have e4: "128 \<le> b mod 8 * 262144 + c mod 64 * 4096 + d mod 64 * 64 + e mod 64"
    if "240 \<le> b" "b \<le> 244" "(if b = 240 then 144 else 128) \<le> c" "c \<le> 191" for c d e
  proof (cases "b = 240")
    case True then show ?thesis using that c16 [of c] by simp
  next
    case False then have "1 \<le> b mod 8" using that m8 by simp
    then show ?thesis by linarith
  qed
  consider "b < 194" | "194 \<le> b" "b \<le> 223" | "224 \<le> b" "b \<le> 239" | "240 \<le> b" "b \<le> 244" | "245 \<le> b"
    by linarith
  then show ?thesis
  proof cases
    case 2
    have "128 \<le> b mod 32 * 64 + c mod 64" for c using m32 [OF 2] by linarith
    with 2 show ?thesis by (simp add: decode_rune.simps rune_error_def split: list.split)
  next
    case 3
    have c: "c \<le> 191" if "c \<le> (if b = 237 then 159 else 191)" for c :: nat
      using that by (simp split: if_splits)
    show ?thesis using b 3 e3 [OF 3] c
      by (auto simp: decode_rune.simps [of b] rune_error_def simp del: One_nat_def split: list.split)
  next
    case 4
    have c: "c \<le> 191" if "c \<le> (if b = 244 then 143 else 191)" for c :: nat
      using that by (simp split: if_splits)
    show ?thesis using b 4 e4 [OF 4] c
      by (auto simp: decode_rune.simps [of b] rune_error_def simp del: One_nat_def split: list.split)
  qed (use b in \<open>simp_all add: decode_rune.simps rune_error_def\<close>)
qed

lemma ascii_of_runes: "(\<forall>r \<in> set (runes s). r < 128) \<Longrightarrow> ascii s"
proof (induction s)
  case (Cons c s)
  have c: "(of_char c :: nat) < 128"
  proof (rule ccontr)
    assume "\<not> (of_char c :: nat) < 128"
    then have "128 \<le> fst (decode_rune (of_char c) (map of_char s))"
      by (intro decode_rune_non_ascii) simp
    with Cons.prems show False by (simp add: runes_def)
  qed
  then have "runes (c # s) = of_char c # runes s" by (simp add: runes_def)
  with Cons c show ?case by (auto simp: ascii_def)
qed (simp add: ascii_def)

end
