(* ===== verification/Clock.thy ===== *)
theory Clock
  imports Encoding
begin

text \<open>
  Go's \<open>time.Time\<close> as the instant it denotes, in nanoseconds since the Unix epoch; durations
  are nanoseconds too. Time zones only affect how a time prints, and the program prints every
  time after converting it to UTC. \<open>rfc3339\<close> is \<open>t.UTC().Format(time.RFC3339)\<close>, which
  appears inside every signed record; it drops the fraction of a second and is injective on
  whole seconds of the years 0 to 9999, the range \<open>time.Parse(time.RFC3339, s)\<close> can return.
\<close>

section \<open>Instants\<close>

type_synonym time = int
type_synonym duration = int

definition second :: duration where
  "second = 1000000000"

definition minute :: duration where
  "minute = 60 * second"

definition unix_seconds :: "time \<Rightarrow> int" where
  "unix_seconds t = t div second"

definition truncate_second :: "time \<Rightarrow> time" where
  "truncate_second t = t - t mod second"

definition zero_time :: time where
  "zero_time = - 62135596800 * second"

definition whole_second :: "time \<Rightarrow> bool" where
  "whole_second t \<longleftrightarrow> t mod second = 0"

lemma second_pos [simp]: "0 < second"
  by (simp add: second_def)

lemma whole_second_unix: "whole_second t \<Longrightarrow> unix_seconds t * second = t"
  by (auto simp: whole_second_def unix_seconds_def)

lemma whole_second_eqI:
  "whole_second t \<Longrightarrow> whole_second u \<Longrightarrow> unix_seconds t = unix_seconds u \<Longrightarrow> t = u"
  using whole_second_unix by metis

lemma truncate_second_whole [simp]: "whole_second (truncate_second t)"
  by (simp add: whole_second_def truncate_second_def)

lemma truncate_second_id: "truncate_second t = t \<longleftrightarrow> whole_second t"
  by (simp add: whole_second_def truncate_second_def)

section \<open>The calendar\<close>

text \<open>Days are counted from 1 January of year 0; the Unix epoch is day 719528.\<close>

definition days_before_year :: "int \<Rightarrow> int" where
  "days_before_year y = 365 * y + (y + 3) div 4 - (y + 99) div 100 + (y + 399) div 400"

definition leap_year :: "int \<Rightarrow> bool" where
  "leap_year y \<longleftrightarrow> y mod 4 = 0 \<and> (y mod 100 \<noteq> 0 \<or> y mod 400 = 0)"

definition year_of_day :: "int \<Rightarrow> int" where
  "year_of_day n = (let y = 400 * n div 146097 in
     if n < days_before_year y then y - 1
     else if days_before_year (y + 1) \<le> n then y + 1 else y)"

definition month_starts :: "bool \<Rightarrow> int list" where
  "month_starts leap = (let d = if leap then 1 else 0 in
     [0, 31, 59 + d, 90 + d, 120 + d, 151 + d, 181 + d, 212 + d, 243 + d, 273 + d, 304 + d, 334 + d])"

definition month_of_day :: "bool \<Rightarrow> int \<Rightarrow> nat" where
  "month_of_day leap doy = length (takeWhile (\<lambda>d. d \<le> doy) (tl (month_starts leap)))"

definition digit :: "int \<Rightarrow> char" where
  "digit d = char_of (nat (48 + d))"

definition two_digits :: "int \<Rightarrow> string" where
  "two_digits n = [digit (n div 10), digit (n mod 10)]"

definition four_digits :: "int \<Rightarrow> string" where
  "four_digits n = two_digits (n div 100) @ two_digits (n mod 100)"

definition rfc3339 :: "time \<Rightarrow> string" where
  "rfc3339 t = (let s = unix_seconds t; n = s div 86400 + 719528; tod = s mod 86400;
       y = year_of_day n; doy = n - days_before_year y;
       m = month_of_day (leap_year y) doy; d = doy - month_starts (leap_year y) ! m
     in four_digits y @ ''-'' @ two_digits (int m + 1) @ ''-'' @ two_digits (d + 1) @ ''T''
        @ two_digits (tod div 3600) @ '':'' @ two_digits (tod div 60 mod 60) @ '':''
        @ two_digits (tod mod 60) @ ''Z'')"

definition rfc3339_range :: "time \<Rightarrow> bool" where
  "rfc3339_range t \<longleftrightarrow> 0 \<le> unix_seconds t + 62167219200 \<and> unix_seconds t < 253402300800"

section \<open>RFC 3339 text determines the second\<close>

lemma div_round_up_bounds:
  fixes y k :: int
  assumes "0 < k"
  shows "y \<le> k * ((y + (k - 1)) div k)" "k * ((y + (k - 1)) div k) \<le> y + (k - 1)"
proof -
  have "k * ((y + (k - 1)) div k) + (y + (k - 1)) mod k = y + (k - 1)" by simp
  moreover have "0 \<le> (y + (k - 1)) mod k" "(y + (k - 1)) mod k < k" using assms by simp_all
  ultimately show "y \<le> k * ((y + (k - 1)) div k)" "k * ((y + (k - 1)) div k) \<le> y + (k - 1)"
    by linarith+
qed

lemma days_before_year_bounds:
  "400 * days_before_year y \<le> 146097 * y + 700" "146097 * y - 396 \<le> 400 * days_before_year y"
proof -
  define a b c where "a = (y + 3) div 4" and "b = (y + 99) div 100" and "c = (y + 399) div 400"
  have "y \<le> 4 * a" "4 * a \<le> y + 3" "y \<le> 100 * b" "100 * b \<le> y + 99" "y \<le> 400 * c" "400 * c \<le> y + 399"
    using div_round_up_bounds [of 4 y] div_round_up_bounds [of 100 y] div_round_up_bounds [of 400 y]
    by (simp_all add: a_def b_def c_def)
  moreover have "days_before_year y = 365 * y + a - b + c"
    by (simp add: days_before_year_def a_def b_def c_def)
  ultimately show "400 * days_before_year y \<le> 146097 * y + 700"
    "146097 * y - 396 \<le> 400 * days_before_year y"
    by linarith+
qed

lemma year_of_day_spec:
  "days_before_year (year_of_day n) \<le> n" "n < days_before_year (year_of_day n + 1)"
proof -
  define y where "y = 400 * n div 146097"
  have y: "146097 * y \<le> 400 * n" "400 * n < 146097 * y + 146097"
    unfolding y_def by linarith+
  have lo: "days_before_year (y - 1) \<le> n"
    using days_before_year_bounds(1) [of "y - 1"] y by simp
  have hi: "n < days_before_year (y + 2)"
    using days_before_year_bounds(2) [of "y + 2"] y by simp
  show "days_before_year (year_of_day n) \<le> n" "n < days_before_year (year_of_day n + 1)"
    using lo hi by (auto simp: year_of_day_def y_def [symmetric] Let_def add.commute)
qed

lemma div_step_multiple:
  fixes y :: int
  assumes "(y + 1 + 399) div 400 = (y + 399) div 400 + 1"
  shows "y mod 400 = 0"
proof -
  define q r where "q = y div 400" and "r = y mod 400"
  have y: "y = 400 * q + r" "0 \<le> r" "r < 400" by (simp_all add: q_def r_def)
  show ?thesis
  proof (cases "r = 0")
    case False
    then have "(y + 1 + 399) div 400 = q + 1" "(y + 399) div 400 = q + 1"
      using y by (auto simp: div_pos_pos_trivial)
    with assms show ?thesis by simp
  qed (simp add: y)
qed

lemma clock_fields_eq:
  fixes t u :: int
  assumes "t div 3600 = u div 3600" "t div 60 mod 60 = u div 60 mod 60" "t mod 60 = u mod 60"
  shows "t = u"
proof -
  have "x div 60 = 60 * (x div 3600) + x div 60 mod 60" for x :: int
    using zdiv_zmult2_eq [of 60 x 60] by simp
  then have "t div 60 = u div 60" using assms(1,2) by metis
  with assms(3) show ?thesis by (metis mult_div_mod_eq)
qed

lemma days_in_year: "days_before_year (y + 1) \<le> days_before_year y + 366"
proof -
  define a a' b b' c c' where "a = (y + 3) div 4" and "a' = (y + 1 + 3) div 4"
    and "b = (y + 99) div 100" and "b' = (y + 1 + 99) div 100"
    and "c = (y + 399) div 400" and "c' = (y + 1 + 399) div 400"
  have "a' \<le> a + 1" "b \<le> b'" "c' \<le> c + 1"
    unfolding a_def a'_def b_def b'_def c_def c'_def by linarith+
  moreover have "b' = b + 1" if "c' = c + 1"
  proof -
    from that have "y mod 400 = 0" unfolding c_def c'_def by (rule div_step_multiple)
    then obtain k where "y = 400 * k" by auto
    then show ?thesis by (simp add: b_def b'_def)
  qed
  moreover have "days_before_year (y + 1) = 365 * y + 365 + a' - b' + c'"
    "days_before_year y = 365 * y + a - b + c"
    by (simp_all add: days_before_year_def a_def a'_def b_def b'_def c_def c'_def)
  ultimately show ?thesis by linarith
qed

lemma year_range:
  assumes "0 \<le> n" "n < 3652425"
  shows "0 \<le> year_of_day n" "year_of_day n < 10000"
proof -
  let ?y = "year_of_day n"
  have *: "days_before_year ?y \<le> n" "n < days_before_year (?y + 1)"
    by (rule year_of_day_spec)+
  show "0 \<le> ?y"
  proof (rule ccontr)
    assume "\<not> 0 \<le> ?y"
    then have "?y + 1 = 0 \<or> ?y + 1 \<le> -1" by linarith
    then show False
    proof
      assume "?y + 1 = 0"
      with * assms show False by (simp add: days_before_year_def)
    next
      assume "?y + 1 \<le> -1"
      then have "146097 * (?y + 1) \<le> 146097 * -1" by (rule mult_left_mono) simp
      with * assms days_before_year_bounds(1) [of "?y + 1"] show False by linarith
    qed
  qed
  show "?y < 10000"
  proof (rule ccontr)
    assume "\<not> ?y < 10000"
    then have "?y = 10000 \<or> 10000 < ?y" by linarith
    then show False
    proof
      assume "?y = 10000"
      with * assms show False by (simp add: days_before_year_def)
    next
      assume "10000 < ?y"
      then show False using * assms days_before_year_bounds(2) [of ?y] by linarith
    qed
  qed
qed

lemma digit_inject: "0 \<le> a \<Longrightarrow> a < 10 \<Longrightarrow> 0 \<le> b \<Longrightarrow> b < 10 \<Longrightarrow> digit a = digit b \<longleftrightarrow> a = b"
proof -
  assume ab: "0 \<le> a" "a < 10" "0 \<le> b" "b < 10"
  have "of_char (digit a) = nat (48 + a)" "of_char (digit b) = nat (48 + b)"
    using ab by (simp_all add: digit_def of_char_of)
  with ab show ?thesis by (metis add_left_cancel eq_nat_nat_iff add_nonneg_nonneg zero_le_numeral)
qed

lemma two_digits_inject:
  "0 \<le> a \<Longrightarrow> a < 100 \<Longrightarrow> 0 \<le> b \<Longrightarrow> b < 100 \<Longrightarrow> two_digits a = two_digits b \<longleftrightarrow> a = b"
proof -
  assume ab: "0 \<le> a" "a < 100" "0 \<le> b" "b < 100"
  then have "0 \<le> a div 10" "a div 10 < 10" "0 \<le> b div 10" "b div 10 < 10" by linarith+
  moreover have "a div 10 = b div 10 \<Longrightarrow> a mod 10 = b mod 10 \<Longrightarrow> a = b"
    by (metis mult_div_mod_eq)
  ultimately show ?thesis by (auto simp: two_digits_def digit_inject)
qed

lemma four_digits_inject:
  "0 \<le> a \<Longrightarrow> a < 10000 \<Longrightarrow> 0 \<le> b \<Longrightarrow> b < 10000 \<Longrightarrow> four_digits a = four_digits b \<longleftrightarrow> a = b"
proof -
  assume ab: "0 \<le> a" "a < 10000" "0 \<le> b" "b < 10000"
  then have "0 \<le> a div 100" "a div 100 < 100" "0 \<le> b div 100" "b div 100 < 100" by linarith+
  moreover have "a div 100 = b div 100 \<Longrightarrow> a mod 100 = b mod 100 \<Longrightarrow> a = b"
    by (metis mult_div_mod_eq)
  moreover have "length (two_digits x) = 2" for x by (simp add: two_digits_def)
  ultimately show ?thesis by (auto simp: four_digits_def two_digits_inject)
qed

lemma length_digits [simp]: "length (two_digits n) = 2" "length (four_digits n) = 4"
  by (simp_all add: two_digits_def four_digits_def)

lemma length_month_starts [simp]: "length (month_starts leap) = 12"
  by (simp add: month_starts_def Let_def)

lemma month_gap:
  assumes "m < 11"
  shows "month_starts leap ! Suc m - month_starts leap ! m \<le> 31"
proof -
  have "m \<in> set [0..<11]" using assms by simp
  then show ?thesis by (auto simp: upt_rec month_starts_def Let_def)
qed

lemma month_of_day_spec:
  assumes "0 \<le> doy" "doy \<le> 365"
  shows "month_of_day leap doy < 12" "month_starts leap ! month_of_day leap doy \<le> doy"
    "doy - month_starts leap ! month_of_day leap doy \<le> 31"
proof -
  let ?ms = "month_starts leap" and ?m = "month_of_day leap doy"
  let ?pre = "takeWhile (\<lambda>d. d \<le> doy) (tl ?ms)"
  have le: "?m \<le> 11"
    using length_takeWhile_le [of "\<lambda>d. d \<le> doy" "tl ?ms"] by (simp add: month_of_day_def)
  then show "?m < 12" by simp
  show "?ms ! ?m \<le> doy"
  proof (cases ?m)
    case 0
    then show ?thesis using assms by (simp add: month_starts_def Let_def)
  next
    case (Suc k)
    then have k: "k < length ?pre" by (simp add: month_of_day_def)
    then have "?pre ! k \<le> doy" using nth_mem set_takeWhileD by metis
    moreover have "?pre ! k = ?ms ! ?m"
      using k Suc le by (simp add: takeWhile_nth nth_tl)
    ultimately show ?thesis by simp
  qed
  show "doy - ?ms ! ?m \<le> 31"
  proof (cases "?m = 11")
    case True
    then show ?thesis using assms by (simp add: month_starts_def Let_def)
  next
    case False
    with le have m: "?m < 11" by simp
    then have "length ?pre < length (tl ?ms)" by (simp add: month_of_day_def)
    then have "\<not> tl ?ms ! ?m \<le> doy"
      using nth_length_takeWhile [of "\<lambda>d. d \<le> doy" "tl ?ms"] by (simp add: month_of_day_def)
    moreover have "tl ?ms ! ?m = ?ms ! Suc ?m" using m by (simp add: nth_tl)
    ultimately show ?thesis using month_gap [OF m, of leap] by linarith
  qed
qed

lemma length_rfc3339 [simp]: "length (rfc3339 t) = 20"
  by (simp add: rfc3339_def Let_def)

lemma rfc3339_unix_seconds:
  assumes r: "rfc3339_range t" "rfc3339_range u" and eq: "rfc3339 t = rfc3339 u"
  shows "unix_seconds t = unix_seconds u"
proof -
  define day where "day x = unix_seconds x div 86400 + 719528" for x
  define tod where "tod x = unix_seconds x mod 86400" for x
  define yr where "yr x = year_of_day (day x)" for x
  define doy where "doy x = day x - days_before_year (yr x)" for x
  define mo where "mo x = month_of_day (leap_year (yr x)) (doy x)" for x
  define dom where "dom x = doy x - month_starts (leap_year (yr x)) ! mo x" for x
  have dayr: "0 \<le> day x" "day x < 3652425" if "rfc3339_range x" for x
    using that unfolding day_def rfc3339_range_def by linarith+
  have yrr: "0 \<le> yr x" "yr x < 10000" if "rfc3339_range x" for x
    using year_range [OF dayr [OF that]] by (simp_all add: yr_def)
  have doyr: "0 \<le> doy x" "doy x \<le> 365" for x
    using year_of_day_spec [of "day x"] days_in_year [of "yr x"] by (auto simp: doy_def yr_def)
  have mor: "mo x < 12" "0 \<le> dom x" "dom x \<le> 31" for x
    using month_of_day_spec [of "doy x" "leap_year (yr x)"] doyr [of x]
    by (auto simp: mo_def dom_def)
  have todr: "0 \<le> tod x div 3600" "tod x div 3600 < 100" for x
    unfolding tod_def by (simp_all add: pos_imp_zdiv_nonneg_iff)
  have str: "rfc3339 x = four_digits (yr x) @ ''-'' @ two_digits (int (mo x) + 1) @ ''-'' @
      two_digits (dom x + 1) @ ''T'' @ two_digits (tod x div 3600) @ '':'' @
      two_digits (tod x div 60 mod 60) @ '':'' @ two_digits (tod x mod 60) @ ''Z''" for x
    by (simp add: rfc3339_def Let_def day_def tod_def yr_def doy_def mo_def dom_def)
  have fields: "four_digits (yr t) = four_digits (yr u)"
    "two_digits (int (mo t) + 1) = two_digits (int (mo u) + 1)"
    "two_digits (dom t + 1) = two_digits (dom u + 1)"
    "two_digits (tod t div 3600) = two_digits (tod u div 3600)"
    "two_digits (tod t div 60 mod 60) = two_digits (tod u div 60 mod 60)"
    "two_digits (tod t mod 60) = two_digits (tod u mod 60)"
    using eq unfolding str by simp_all
  have y: "yr t = yr u"
    using fields(1) yrr [OF r(1)] yrr [OF r(2)] by (simp add: four_digits_inject)
  have m: "mo t = mo u"
    using fields(2) mor(1) [of t] mor(1) [of u] by (simp add: two_digits_inject)
  have d: "dom t = dom u"
    using fields(3) mor [of t] mor [of u] by (simp add: two_digits_inject)
  have day: "day t = day u"
    using y m d by (simp add: dom_def doy_def mo_def)
  have "tod t div 3600 = tod u div 3600"
    using fields(4) todr [of t] todr [of u] by (simp add: two_digits_inject)
  moreover have "tod t div 60 mod 60 = tod u div 60 mod 60"
    using fields(5) by (simp add: two_digits_inject pos_mod_bound order_less_trans [OF pos_mod_bound])
  moreover have "tod t mod 60 = tod u mod 60"
    using fields(6) by (simp add: two_digits_inject pos_mod_bound order_less_trans [OF pos_mod_bound])
  ultimately have "tod t = tod u" by (rule clock_fields_eq)
  with day show ?thesis unfolding day_def tod_def by (metis add_right_cancel mult_div_mod_eq)
qed

theorem rfc3339_inject:
  "rfc3339_range t \<Longrightarrow> rfc3339_range u \<Longrightarrow> whole_second t \<Longrightarrow> whole_second u \<Longrightarrow>
   rfc3339 t = rfc3339 u \<longleftrightarrow> t = u"
  using rfc3339_unix_seconds whole_second_eqI by blast

lemma fits16_rfc3339 [simp]: "fits16 (rfc3339 t)"
  by (simp add: fits16_def)

end
