(* ===== verification/Platform.thy ===== *)
theory Platform
  imports Clock
begin

text \<open>
  What the program calls and does not define. The record \<open>platform\<close> collects those functions;
  every definition that uses one takes the record as its first argument, and a theorem that
  relies on their documented behaviour names that behaviour as a hypothesis, one predicate per
  law, stated here. The string helpers of the standard library that the sources call (trimming,
  case mapping, cutting) are defined, not assumed: only the case tables beyond ASCII are
  parameters.
\<close>

section \<open>The platform record\<close>

record url =
  url_scheme :: string
  url_host :: string
  url_hostname :: string
  url_port :: string

record platform =
  sha256 :: "bytes \<Rightarrow> bytes"
  ed25519_public :: "bytes \<Rightarrow> bytes"
  ed25519_sign :: "bytes \<Rightarrow> bytes \<Rightarrow> bytes"
  ed25519_verify :: "bytes \<Rightarrow> bytes \<Rightarrow> bytes \<Rightarrow> bool"
  ed25519_from_seed :: "bytes \<Rightarrow> bytes"
  hkdf_sha256 :: "bytes \<Rightarrow> bytes \<Rightarrow> bytes \<Rightarrow> nat \<Rightarrow> bytes"
  hmac_sha256 :: "bytes \<Rightarrow> bytes \<Rightarrow> bytes"
  x25519_public :: "bytes \<Rightarrow> bytes"
  x25519 :: "bytes \<Rightarrow> bytes \<Rightarrow> bytes option"
  gcm_seal :: "bytes \<Rightarrow> bytes \<Rightarrow> bytes \<Rightarrow> bytes \<Rightarrow> bytes"
  gcm_open :: "bytes \<Rightarrow> bytes \<Rightarrow> bytes \<Rightarrow> bytes \<Rightarrow> bytes option"
  unicode_lower :: "rune \<Rightarrow> rune"
  unicode_upper :: "rune \<Rightarrow> rune"
  unicode_fold :: "rune \<Rightarrow> rune"
  url_parse :: "string \<Rightarrow> url option"

abbreviation (input) public_key_size :: nat where
  "public_key_size \<equiv> 32"

abbreviation (input) seed_size :: nat where
  "seed_size \<equiv> 32"

abbreviation (input) signature_size :: nat where
  "signature_size \<equiv> 64"

section \<open>Documented behaviour the theorems may rely on\<close>

definition sha256_size :: "platform \<Rightarrow> bool" where
  "sha256_size P \<longleftrightarrow> (\<forall>m. length (sha256 P m) = 32)"

definition ed25519_correct :: "platform \<Rightarrow> bool" where
  "ed25519_correct P \<longleftrightarrow> (\<forall>priv m. ed25519_verify P (ed25519_public P priv) m (ed25519_sign P priv m)
     \<and> length (ed25519_sign P priv m) = signature_size
     \<and> length (ed25519_public P priv) = public_key_size)"

definition hkdf_size :: "platform \<Rightarrow> bool" where
  "hkdf_size P \<longleftrightarrow> (\<forall>secret salt info n. length (hkdf_sha256 P secret salt info n) = n)"

definition gcm_correct :: "platform \<Rightarrow> bool" where
  "gcm_correct P \<longleftrightarrow> (\<forall>key nonce plain ad. gcm_open P key nonce (gcm_seal P key nonce plain ad) ad = Some plain)"

text \<open>
  Diffie-Hellman of honestly generated keys: the two sides agree, and the operation does not hit
  the all-zero output that \<open>crypto/ecdh\<close> reports as an error.
\<close>

definition x25519_agrees :: "platform \<Rightarrow> bool" where
  "x25519_agrees P \<longleftrightarrow> (\<forall>a b. x25519 P a (x25519_public P b) = x25519 P b (x25519_public P a)
     \<and> x25519 P a (x25519_public P b) \<noteq> None) \<and> (\<forall>a. length (x25519_public P a) = 32)"

section \<open>Case mapping\<close>

definition to_lower :: "platform \<Rightarrow> rune \<Rightarrow> rune" where
  "to_lower P r = (if r < 128 then (if 65 \<le> r \<and> r \<le> 90 then r + 32 else r) else unicode_lower P r)"

definition to_upper :: "platform \<Rightarrow> rune \<Rightarrow> rune" where
  "to_upper P r = (if r < 128 then (if 97 \<le> r \<and> r \<le> 122 then r - 32 else r) else unicode_upper P r)"

definition string_lower :: "platform \<Rightarrow> string \<Rightarrow> string" where
  "string_lower P s = concat (map (\<lambda>r. encode_rune (to_lower P r)) (runes s))"

definition string_upper :: "platform \<Rightarrow> string \<Rightarrow> string" where
  "string_upper P s = concat (map (\<lambda>r. encode_rune (to_upper P r)) (runes s))"

text \<open>
  \<open>strings.EqualFold\<close> compares rune by rune under simple case folding: \<open>fold_rune\<close> gives one
  representative of a rune's folding orbit, the lower-case letter for ASCII.
\<close>

definition fold_rune :: "platform \<Rightarrow> rune \<Rightarrow> rune" where
  "fold_rune P r = (if r < 128 then to_lower P r else unicode_fold P r)"

definition equal_fold :: "platform \<Rightarrow> string \<Rightarrow> string \<Rightarrow> bool" where
  "equal_fold P a b \<longleftrightarrow> map (fold_rune P) (runes a) = map (fold_rune P) (runes b)"

definition ascii_lower :: "char \<Rightarrow> char" where
  "ascii_lower c = (let n = (of_char c :: nat) in if 65 \<le> n \<and> n \<le> 90 then char_of (n + 32) else c)"

lemma concat_map_singleton: "concat (map (\<lambda>x. [f x]) xs) = map f xs"
  by (induction xs) auto

lemma string_lower_ascii: "ascii s \<Longrightarrow> string_lower P s = map ascii_lower s"
proof -
  assume a: "ascii s"
  have "encode_rune (to_lower P (of_char c)) = [ascii_lower c]" if "c \<in> set s" for c
  proof -
    have "(of_char c :: nat) < 128" using a that by (auto simp: ascii_def)
    then show ?thesis by (simp add: to_lower_def ascii_lower_def Let_def)
  qed
  then have "map (\<lambda>r. encode_rune (to_lower P r)) (map of_char s) = map (\<lambda>c. [ascii_lower c]) s"
    by (auto intro: map_cong simp del: encode_rune_ascii)
  with a show ?thesis by (simp only: string_lower_def runes_ascii concat_map_singleton)
qed

section \<open>Trimming and cutting\<close>

text \<open>
  \<open>strings.TrimSpace\<close> removes leading and trailing Unicode white space. A white-space rune
  stands at the front (or back) of a string exactly when its UTF-8 encoding does.
\<close>

definition space_runes :: "rune list" where
  "space_runes = [9, 10, 11, 12, 13, 32, 133, 160, 5760, 8192, 8193, 8194, 8195, 8196, 8197, 8198,
     8199, 8200, 8201, 8202, 8232, 8233, 8239, 8287, 12288]"

definition space_codes :: "string list" where
  "space_codes = map encode_rune space_runes"

fun starts_with :: "string \<Rightarrow> string \<Rightarrow> bool" where
  "starts_with [] s = True"
| "starts_with (p # ps) [] = False"
| "starts_with (p # ps) (c # cs) = (p = c \<and> starts_with ps cs)"

definition leading_code :: "string list \<Rightarrow> string \<Rightarrow> string option" where
  "leading_code codes s = find (\<lambda>e. e \<noteq> [] \<and> starts_with e s) codes"

lemma leading_code_length:
  "leading_code codes s = Some e \<Longrightarrow> length (drop (length e) s) < length s"
proof -
  assume "leading_code codes s = Some e"
  then have e: "e \<noteq> []" "starts_with e s" by (auto simp: leading_code_def find_Some_iff)
  then show ?thesis by (cases s; cases e) auto
qed

function trim_front :: "string list \<Rightarrow> string \<Rightarrow> string" where
  "trim_front codes s =
     (case leading_code codes s of Some e \<Rightarrow> trim_front codes (drop (length e) s) | None \<Rightarrow> s)"
  by pat_completeness auto
termination
  by (relation "measure (\<lambda>(codes, s). length s)") (auto dest: leading_code_length)

declare trim_front.simps [simp del]

definition trim_space :: "string \<Rightarrow> string" where
  "trim_space s = rev (trim_front (map rev space_codes) (rev (trim_front space_codes s)))"

text \<open>\<open>strings.Cut(s, sep)\<close> for a one-character separator.\<close>

fun cut :: "char \<Rightarrow> string \<Rightarrow> string \<times> string" where
  "cut sep [] = ([], [])"
| "cut sep (c # s) = (if c = sep then ([], s) else (c # fst (cut sep s), snd (cut sep s)))"

fun contains :: "string \<Rightarrow> string \<Rightarrow> bool" where
  "contains p [] = (p = [])"
| "contains p (c # s) = (starts_with p (c # s) \<or> contains p s)"

definition trim_right :: "char \<Rightarrow> string \<Rightarrow> string" where
  "trim_right c s = rev (dropWhile (\<lambda>x. x = c) (rev s))"

definition trim_prefix :: "string \<Rightarrow> string \<Rightarrow> string" where
  "trim_prefix p s = (if starts_with p s then drop (length p) s else s)"

lemma starts_with_iff: "starts_with p s \<longleftrightarrow> (\<exists>r. s = p @ r)"
  by (induction p s rule: starts_with.induct) auto

lemma trim_front_none: "leading_code codes s = None \<Longrightarrow> trim_front codes s = s"
  by (simp add: trim_front.simps)

lemma cut_no_sep: "sep \<notin> set s \<Longrightarrow> cut sep (s @ sep # t) = (s, t)"
  by (induction s) auto

lemma cut_absent: "sep \<notin> set s \<Longrightarrow> cut sep s = (s, [])"
  by (induction s) auto

lemma trim_prefix_append [simp]: "trim_prefix p (p @ s) = s"
  by (auto simp: trim_prefix_def starts_with_iff)

lemma leading_code_None_iff:
  "leading_code codes s = None \<longleftrightarrow> (\<forall>e \<in> set codes. e = [] \<or> \<not> starts_with e s)"
  by (auto simp: leading_code_def find_None_iff)

lemma trim_front_length: "length (trim_front codes t) \<le> length t"
  by (induction codes t rule: trim_front.induct) (subst trim_front.simps, fastforce split: option.splits dest: leading_code_length)

lemma trim_front_shrinks: "leading_code codes s = Some e \<Longrightarrow> length (trim_front codes s) < length s"
  using leading_code_length [of codes s e] trim_front_length [of codes "drop (length e) s"]
  by (simp add: trim_front.simps [of codes s] del: length_drop)

lemma trim_front_fixed: "length s \<le> length (trim_front codes s) \<Longrightarrow> leading_code codes s = None"
  by (cases "leading_code codes s") (auto dest: trim_front_shrinks)

lemma trim_space_iff:
  "trim_space s = s \<longleftrightarrow> leading_code space_codes s = None \<and> leading_code (map rev space_codes) (rev s) = None"
proof
  assume s: "trim_space s = s"
  have "length s \<le> length (trim_front space_codes s)"
    using s trim_front_length [of "map rev space_codes" "rev (trim_front space_codes s)"]
    by (metis trim_space_def length_rev)
  then have f: "leading_code space_codes s = None" by (rule trim_front_fixed)
  moreover have "length (rev s) \<le> length (trim_front (map rev space_codes) (rev s))"
    using s f by (metis trim_space_def trim_front_none length_rev order_refl)
  ultimately show "leading_code space_codes s = None \<and> leading_code (map rev space_codes) (rev s) = None"
    by (simp add: trim_front_fixed)
qed (simp add: trim_space_def trim_front_none)

definition graphic :: "char \<Rightarrow> bool" where
  "graphic c \<longleftrightarrow> 33 \<le> (of_char c :: nat) \<and> (of_char c :: nat) < 128"

lemma space_codes_not_graphic: "e \<in> set space_codes \<Longrightarrow> c \<in> set e \<Longrightarrow> \<not> graphic c"
proof -
  assume "e \<in> set space_codes" and c: "c \<in> set e"
  then obtain r where r: "r \<in> set space_runes" "e = encode_rune r" by (auto simp: space_codes_def)
  show "\<not> graphic c"
  proof (cases "r < 128")
    case True
    then have "r \<le> 32" using r(1) by (auto simp: space_runes_def)
    with True c r(2) show ?thesis by (simp add: graphic_def of_char_of)
  next
    case False
    then show ?thesis using encode_rune_non_ascii [of r c] c r(2) by (simp add: graphic_def)
  qed
qed

lemma starts_with_mem: "starts_with e (s @ c # t) \<Longrightarrow> c \<notin> set e \<Longrightarrow> starts_with e s"
  by (induction e s rule: starts_with.induct) auto

lemma trim_space_prepend:
  assumes p: "p \<noteq> []" "graphic (hd p)" and c: "graphic c"
    and h: "leading_code (map rev space_codes) (rev h) = None"
  shows "trim_space (p @ c # h) = p @ c # h"
  unfolding trim_space_iff leading_code_None_iff
proof (intro conjI ballI)
  fix e assume e: "e \<in> set space_codes"
  show "e = [] \<or> \<not> starts_with e (p @ c # h)"
    using space_codes_not_graphic [OF e] p by (cases e; cases p) auto
next
  fix e assume "e \<in> set (map rev space_codes)"
  moreover from this have "c \<notin> set e" using space_codes_not_graphic c by auto
  ultimately show "e = [] \<or> \<not> starts_with e (rev (p @ c # h))"
    using h starts_with_mem [of e "rev h" c "rev p"] by (auto simp: leading_code_None_iff)
qed

lemma trim_space_graphic: "\<forall>c \<in> set s. graphic c \<Longrightarrow> trim_space s = s"
  unfolding trim_space_iff leading_code_None_iff
proof (intro conjI ballI)
  fix e assume s: "\<forall>c \<in> set s. graphic c" and e: "e \<in> set space_codes"
  show "e = [] \<or> \<not> starts_with e s"
    using space_codes_not_graphic [OF e] s by (cases e; cases s) auto
next
  fix e assume s: "\<forall>c \<in> set s. graphic c" and e: "e \<in> set (map rev space_codes)"
  have "\<forall>c \<in> set e. \<not> graphic c" using e space_codes_not_graphic by auto
  then show "e = [] \<or> \<not> starts_with e (rev s)"
    using s by (cases e; cases "rev s") (auto simp: in_set_conv_decomp rev_eq_Cons_iff)
qed

section \<open>A concrete platform\<close>

text \<open>
  An instance of the record for evaluating the model on concrete inputs. It satisfies the laws
  above; its functions are not the real ones.
\<close>

definition pad :: "nat \<Rightarrow> bytes \<Rightarrow> bytes" where
  "pad n bs = take n (bs @ replicate n (CHR 0x00))"

definition sample_url :: "string \<Rightarrow> url option" where
  "sample_url s = (if starts_with ''https://'' s
     then Some \<lparr>url_scheme = ''https'', url_host = drop 8 s, url_hostname = drop 8 s, url_port = []\<rparr>
     else None)"

definition sample_platform :: platform where
  "sample_platform = \<lparr>sha256 = pad 32, ed25519_public = pad 32,
     ed25519_sign = (\<lambda>priv m. pad 64 (pad 32 priv @ m)),
     ed25519_verify = (\<lambda>pub m sig. sig = pad 64 (pub @ m)),
     ed25519_from_seed = (\<lambda>s. s),
     hkdf_sha256 = (\<lambda>secret salt info n. pad n (secret @ salt @ info)),
     hmac_sha256 = (\<lambda>key m. pad 32 (m @ key)), x25519_public = pad 32,
     x25519 = (\<lambda>priv pub. Some (map2 (\<lambda>x y. char_of (of_char x + of_char y :: nat)) (pad 32 priv) (pad 32 pub))),
     gcm_seal = (\<lambda>key nonce plain ad. plain @ key @ ad),
     gcm_open = (\<lambda>key nonce ct ad. let n = length ct - (length key + length ad)
        in if length key + length ad \<le> length ct \<and> drop n ct = key @ ad then Some (take n ct) else None),
     unicode_lower = (\<lambda>r. r), unicode_upper = (\<lambda>r. r), unicode_fold = (\<lambda>r. r),
     url_parse = sample_url\<rparr>"

lemma pad_length [simp]: "length (pad n bs) = n"
  by (simp add: pad_def)

lemma pad_pad [simp]: "pad n (pad n bs) = pad n bs"
  by (simp add: pad_def)

lemma sample_platform_laws: "sha256_size sample_platform" "ed25519_correct sample_platform"
  "hkdf_size sample_platform" "gcm_correct sample_platform" "x25519_agrees sample_platform"
proof -
  have comm: "map2 (\<lambda>x y. char_of (of_char x + of_char y :: nat)) a b
      = map2 (\<lambda>x y. char_of (of_char x + of_char y :: nat)) b (a :: string)" for a b
    by (induction a b rule: list_induct2') (simp_all add: add.commute)
  show "x25519_agrees sample_platform"
    by (simp add: x25519_agrees_def sample_platform_def) (use comm in blast)
qed (auto simp: sample_platform_def sha256_size_def ed25519_correct_def hkdf_size_def gcm_correct_def Let_def)

end
