(* ===== verification/Address.thy ===== *)
theory Address
  imports Platform
begin

unbundle bit_operations_syntax

text \<open>
  \<open>pkg/address\<close>: the bech32m checksum and codec, the self-certifying ids of accounts and
  groups, and the portable form \<open>id*server\<close>. Go's \<open>int\<close> values of this package stay below
  \<open>2^30\<close> and are modelled as unbounded integers.
\<close>

section \<open>bech32m\<close>

definition charset :: string where
  "charset = ''qpzry9x8gf2tvdw0s3jn54khce6mua7l''"

definition bech32mConst :: int where
  "bech32mConst = 0x2bc830a3"

definition generator :: "int list" where
  "generator = [0x3b6a57b2, 0x26508e6d, 0x1ea119fa, 0x3d4233dd, 0x2a1462b3]"

text \<open>One round of the outer loop: shift in a value, then fold in the generators the five
  dropped bits select.\<close>

definition polymod_step :: "int \<Rightarrow> int \<Rightarrow> int" where
  "polymod_step chk v = foldl (\<lambda>c i. if bit (drop_bit 25 chk) i then c XOR generator ! i else c)
     (push_bit 5 (chk AND 0x1ffffff) XOR v) [0, 1, 2, 3, 4]"

definition polymod :: "int list \<Rightarrow> int" where
  "polymod values = foldl polymod_step 1 values"

definition hrpExpand :: "string \<Rightarrow> int list" where
  "hrpExpand hrp = map (\<lambda>r. drop_bit 5 (int r)) (runes hrp) @ [0] @ map (\<lambda>r. int r AND 31) (runes hrp)"

definition verifyChecksum :: "string \<Rightarrow> int list \<Rightarrow> bool" where
  "verifyChecksum hrp data \<longleftrightarrow> polymod (hrpExpand hrp @ data) = bech32mConst"

definition createChecksum :: "string \<Rightarrow> int list \<Rightarrow> int list" where
  "createChecksum hrp data =
     (let m = polymod (hrpExpand hrp @ data @ [0, 0, 0, 0, 0, 0]) XOR bech32mConst
      in map (\<lambda>i. drop_bit (5 * (5 - i)) m AND 31) [0, 1, 2, 3, 4, 5])"

fun index_rune :: "string \<Rightarrow> rune \<Rightarrow> nat option" where
  "index_rune [] r = None"
| "index_rune (c # cs) r = (if of_char c = r then Some 0 else map_option Suc (index_rune cs r))"

datatype address_error =
    BadHrpCharacter | ValueOutOfRange | TooLong | BadStringLength | MixedCase | BadSeparator
  | BadDataCharacter | BadVersion int | BadKeyLength nat | BadIdLength nat | BadCharacter
  | BadChecksum | NoMarker | EmptyAddress | NotAnId | NoServer

definition charset_char :: "int \<Rightarrow> char" where
  "charset_char v = charset ! nat v"

definition EncodeBech32m :: "string \<Rightarrow> int list \<Rightarrow> address_error + string" where
  "EncodeBech32m hrp data =
     (if \<exists>c \<in> set (runes hrp). c < 33 \<or> c > 126 then Inl BadHrpCharacter
      else if \<exists>v \<in> set data. v < 0 \<or> v > 31 then Inl ValueOutOfRange
      else let result = hrp @ ''1'' @ map charset_char (data @ createChecksum hrp data)
           in if length result > 90 then Inl TooLong else Inr result)"

fun last_index :: "char \<Rightarrow> string \<Rightarrow> nat option" where
  "last_index c [] = None"
| "last_index c (x # xs) =
     (case last_index c xs of Some i \<Rightarrow> Some (Suc i) | None \<Rightarrow> if x = c then Some 0 else None)"

definition charset_values :: "string \<Rightarrow> int list option" where
  "charset_values s = map_option (map int) (those (map (index_rune charset) (runes s)))"

definition DecodeBech32m :: "platform \<Rightarrow> string \<Rightarrow> address_error + string \<times> int list" where
  "DecodeBech32m P s =
     (if length s < 8 \<or> length s > 90 then Inl BadStringLength
      else if s \<noteq> string_lower P s \<and> s \<noteq> string_upper P s then Inl MixedCase
      else let t = string_lower P s in
        case last_index (CHR ''1'') t of
          None \<Rightarrow> Inl BadSeparator
        | Some pos \<Rightarrow>
            if pos < 1 \<or> pos + 7 > length t then Inl BadSeparator
            else let hrp = take pos t in
              if \<exists>c \<in> set (runes hrp). c < 33 \<or> c > 126 then Inl BadHrpCharacter
              else case charset_values (drop (pos + 1) t) of
                None \<Rightarrow> Inl BadDataCharacter
              | Some values \<Rightarrow>
                  if \<not> verifyChecksum hrp values then Inl BadChecksum
                  else Inr (hrp, take (length values - 6) values))"

section \<open>Ids\<close>

abbreviation (input) CurrentVersion :: int where
  "CurrentVersion \<equiv> 0"

abbreviation (input) VersionGroup :: int where
  "VersionGroup \<equiv> 1"

abbreviation (input) idLength :: nat where
  "idLength \<equiv> 21"

abbreviation (input) PrefixLength :: nat where
  "PrefixLength \<equiv> 5"

definition domainSeparationTag :: string where
  "domainSeparationTag = ''frz''"

text \<open>The inner loop of \<open>leadingBitGroups\<close>: emit groups while enough bits are buffered.\<close>

function emit_groups :: "nat \<Rightarrow> nat \<Rightarrow> int \<Rightarrow> nat \<Rightarrow> int list \<Rightarrow> nat \<times> int list" where
  "emit_groups numGroups groupSize acc bits groups =
     (if 0 < groupSize \<and> groupSize \<le> bits \<and> length groups < numGroups
      then emit_groups numGroups groupSize acc (bits - groupSize)
             (groups @ [drop_bit (bits - groupSize) acc AND mask groupSize])
      else (bits, groups))"
  by pat_completeness auto
termination
  by (relation "measure (\<lambda>(n, g, acc, bits, groups). bits)") auto

declare emit_groups.simps [simp del]

fun leading_loop :: "nat \<Rightarrow> nat \<Rightarrow> bytes \<Rightarrow> int \<Rightarrow> nat \<Rightarrow> int list \<Rightarrow> int list" where
  "leading_loop numGroups groupSize [] acc bits groups = groups"
| "leading_loop numGroups groupSize (b # data) acc bits groups =
     (if numGroups \<le> length groups then groups
      else let acc' = (push_bit 8 acc OR of_char b) AND mask (8 + groupSize - 1);
               r = emit_groups numGroups groupSize acc' (bits + 8) groups
           in leading_loop numGroups groupSize data acc' (fst r) (snd r))"

definition leadingBitGroups :: "bytes \<Rightarrow> nat \<Rightarrow> nat \<Rightarrow> int list" where
  "leadingBitGroups data numGroups groupSize = leading_loop numGroups groupSize data 0 0 []"

definition DeriveIDVersion :: "platform \<Rightarrow> int \<Rightarrow> bytes \<Rightarrow> address_error + string" where
  "DeriveIDVersion P version rootPubKey =
     (if version < 0 \<or> version \<ge> 32 then Inl (BadVersion version)
      else if length rootPubKey \<noteq> public_key_size then Inl (BadKeyLength (length rootPubKey))
      else let payload = version # leadingBitGroups (sha256 P rootPubKey) 14 5;
               all = payload @ createChecksum domainSeparationTag payload
           in Inr (map charset_char all))"

definition DeriveID :: "platform \<Rightarrow> bytes \<Rightarrow> address_error + string" where
  "DeriveID P rootPubKey = DeriveIDVersion P CurrentVersion rootPubKey"

definition separator_rune :: "rune \<Rightarrow> bool" where
  "separator_rune c \<longleftrightarrow> c \<in> {45, 32, 9, 10, 13}"

definition StripSeparators :: "platform \<Rightarrow> string \<Rightarrow> string" where
  "StripSeparators P ident =
     concat (map (\<lambda>c. encode_rune (to_lower P c)) (filter (\<lambda>c. \<not> separator_rune c) (runes ident)))"

definition ValidCharset :: "string \<Rightarrow> bool" where
  "ValidCharset s \<longleftrightarrow> (\<forall>c \<in> set (runes s). index_rune charset c \<noteq> None)"

definition Normalize :: "platform \<Rightarrow> string \<Rightarrow> address_error + string" where
  "Normalize P ident =
     (let normalized = StripSeparators P ident in
      if length normalized \<noteq> idLength then Inl (BadIdLength (length normalized))
      else case charset_values normalized of
        None \<Rightarrow> Inl BadCharacter
      | Some values \<Rightarrow>
          if verifyChecksum domainSeparationTag values then Inr normalized else Inl BadChecksum)"

definition VerifyVersion :: "platform \<Rightarrow> int \<Rightarrow> string \<Rightarrow> bytes \<Rightarrow> address_error + bool" where
  "VerifyVersion P version ident rootPubKey =
     (case Normalize P ident of Inl e \<Rightarrow> Inl e
      | Inr normalized \<Rightarrow>
          (case DeriveIDVersion P version rootPubKey of Inl e \<Rightarrow> Inl e
           | Inr expected \<Rightarrow> Inr (normalized = expected)))"

definition Verify :: "platform \<Rightarrow> string \<Rightarrow> bytes \<Rightarrow> address_error + bool" where
  "Verify P ident rootPubKey = VerifyVersion P CurrentVersion ident rootPubKey"

definition VersionMarkerOf :: "platform \<Rightarrow> string \<Rightarrow> address_error + nat" where
  "VersionMarkerOf P idOrPrefix =
     (case StripSeparators P idOrPrefix of [] \<Rightarrow> Inl NoMarker
      | c # _ \<Rightarrow> (case index_rune charset (of_char c) of None \<Rightarrow> Inl NoMarker | Some m \<Rightarrow> Inr m))"

definition VersionOf :: "platform \<Rightarrow> string \<Rightarrow> address_error + nat" where
  "VersionOf P ident = (case Normalize P ident of Inl e \<Rightarrow> Inl e | Inr n \<Rightarrow> VersionMarkerOf P n)"

fun group_every :: "nat \<Rightarrow> nat \<Rightarrow> string \<Rightarrow> string" where
  "group_every g i [] = []"
| "group_every g i (c # s) =
     (if i > 0 \<and> i mod g = 0 then CHR ''-'' # c # group_every g (Suc i) s
      else c # group_every g (Suc i) s)"

text \<open>
  \<open>FormatForDisplay\<close> walks the runes of the id with their byte offsets; every id it is
  given is ASCII, where the two walks are the same.
\<close>

definition FormatForDisplay :: "string \<Rightarrow> string" where
  "FormatForDisplay ident = group_every 5 0 ident"

section \<open>The portable form\<close>

record Address =
  ID :: string
  Server :: string

definition localServer :: string where
  "localServer = ''local''"

definition NormalizeServer :: "platform \<Rightarrow> string \<Rightarrow> string" where
  "NormalizeServer P typed =
     (let s = trim_space typed in
      if s = [] \<or> equal_fold P s localServer then []
      else let s' = (if contains ''://'' s then s else ''https://'' @ s) in trim_right (CHR ''/'') s')"

definition Parse :: "platform \<Rightarrow> string \<Rightarrow> address_error + Address" where
  "Parse P input =
     (let txt = trim_space input in
      if txt = [] then Inl EmptyAddress
      else let parts = cut (CHR ''*'') txt; aid = StripSeparators P (fst parts) in
        if aid = [] then Inl EmptyAddress
        else if \<not> ValidCharset aid then Inl NotAnId
        else let server = NormalizeServer P (snd parts) in
          if server \<noteq> [] \<and> (case url_parse P server of None \<Rightarrow> True | Some u \<Rightarrow> url_host u = [])
          then Inl NoServer
          else Inr \<lparr>ID = aid, Server = server\<rparr>)"

definition ParseFull :: "platform \<Rightarrow> string \<Rightarrow> address_error + Address" where
  "ParseFull P input =
     (case Parse P input of Inl e \<Rightarrow> Inl e
      | Inr a \<Rightarrow> (case Normalize P (ID a) of Inl e \<Rightarrow> Inl e | Inr n \<Rightarrow> Inr (a\<lparr>ID := n\<rparr>)))"

definition TrimDefaultScheme :: "string \<Rightarrow> string" where
  "TrimDefaultScheme server = trim_prefix ''https://'' server"

definition address_String :: "Address \<Rightarrow> string" where
  "address_String a = (if Server a = [] then ID a else ID a @ ''*'' @ TrimDefaultScheme (Server a))"

definition address_Display :: "Address \<Rightarrow> string" where
  "address_Display a =
     (if Server a = [] then FormatForDisplay (ID a)
      else FormatForDisplay (ID a) @ ''*'' @ TrimDefaultScheme (Server a))"

definition SameServer :: "platform \<Rightarrow> string \<Rightarrow> string \<Rightarrow> bool" where
  "SameServer P a b =
     (let na = NormalizeServer P a; nb = NormalizeServer P b in
      if na = [] \<or> nb = [] then na = nb
      else case (url_parse P na, url_parse P nb) of
        (Some ua, Some ub) \<Rightarrow>
          equal_fold P (url_hostname ua) (url_hostname ub) \<and> url_port ua = url_port ub
      | _ \<Rightarrow> equal_fold P na nb)"

section \<open>The checksum\<close>

text \<open>One round is linear over GF(2): a shift and a sum of generators selected by the top bits.\<close>

lemma xor_ifs: "(if p \<noteq> q then g else 0) = (if p then g else 0) XOR (if q then (g::int) else 0)"
  by auto

lemma if_xor: "(if c then x XOR g else x) = x XOR (if c then (g::int) else 0)"
  by auto

definition gen_sum :: "int \<Rightarrow> int" where
  "gen_sum b = (if bit b 0 then 0x3b6a57b2 else 0) XOR (if bit b 1 then 0x26508e6d else 0)
     XOR (if bit b 2 then 0x1ea119fa else 0) XOR (if bit b 3 then 0x3d4233dd else 0)
     XOR (if bit b 4 then 0x2a1462b3 else 0)"

lemma polymod_step_eq:
  "polymod_step chk v = push_bit 5 (take_bit 25 chk) XOR v XOR gen_sum (drop_bit 25 chk)"
proof -
  have m: "(0x1ffffff::int) = mask 25" by (simp add: mask_eq_exp_minus_1)
  have t: "chk AND 0x1ffffff = take_bit 25 chk" unfolding m by (simp add: take_bit_eq_mask)
  show ?thesis
    unfolding polymod_step_def gen_sum_def t
    by (simp only: if_xor foldl.simps generator_def nth_Cons_0 nth_Cons_numeral nth_Cons_Suc One_nat_def
       numeral_2_eq_2 numeral_3_eq_3 pred_numeral_simps xor.assoc eval_nat_numeral BitM.simps)
qed

lemma gen_sum_xor: "gen_sum (a XOR b) = gen_sum a XOR gen_sum b"
  unfolding gen_sum_def bit_xor_iff xor_ifs by (simp only: xor.assoc xor.left_commute xor.commute)

lemma polymod_step_xor:
  "polymod_step (a XOR b) (v XOR w) = polymod_step a v XOR polymod_step b w"
  unfolding polymod_step_eq take_bit_xor push_bit_xor drop_bit_xor gen_sum_xor
  by (simp only: xor.assoc xor.left_commute xor.commute)

lemma foldl_step_xor:
  "length vs = length ws \<Longrightarrow>
   foldl polymod_step (a XOR b) (map2 (XOR) vs ws) = foldl polymod_step a vs XOR foldl polymod_step b ws"
  by (induction vs ws arbitrary: a b rule: list_induct2) (simp_all add: polymod_step_xor)

lemma gen_sum_take_bit: "take_bit 30 (gen_sum b) = gen_sum b"
  unfolding gen_sum_def take_bit_xor
  by (auto simp: take_bit_eq_mod)

lemma step_take_bit: "take_bit 30 v = v \<Longrightarrow> take_bit 30 (polymod_step chk v) = polymod_step chk v"
  by (simp add: polymod_step_eq gen_sum_take_bit take_bit_push_bit)

lemma gen_sum_0 [simp]: "gen_sum 0 = 0"
  by (simp add: gen_sum_def)

lemma push_drop_xor: "push_bit n (drop_bit n x) XOR take_bit n x = (x::int)"
  by (rule bit_eqI) (auto simp: bit_simps)

lemma take_bit_30_bits: "take_bit 30 (m::int) = m \<Longrightarrow> bit m k \<Longrightarrow> k < 30"
  by (metis bit_take_bit_iff)

lemma step_groups:
  assumes m: "take_bit 30 m = m"
  shows "polymod_step (drop_bit (n + 5) m) (drop_bit n m AND 31) = drop_bit n m"
proof -
  have d: "drop_bit 25 (drop_bit (n + 5) m) = 0"
    by (rule bit_eqI) (auto simp: bit_simps dest: take_bit_30_bits [OF m])
  have t: "take_bit 25 (drop_bit (n + 5) m) = drop_bit (n + 5) m"
    by (rule bit_eqI) (auto simp: bit_simps dest: take_bit_30_bits [OF m])
  have g: "drop_bit n m AND 31 = take_bit 5 (drop_bit n m)"
    by (simp add: take_bit_eq_mask mask_eq_exp_minus_1)
  have "push_bit 5 (drop_bit (n + 5) m) XOR take_bit 5 (drop_bit n m) = drop_bit n m"
    using push_drop_xor [of 5 "drop_bit n m"] by (simp add: add.commute)
  then show ?thesis
    unfolding polymod_step_eq d t g by simp
qed

lemma checksum_fold:
  assumes m: "take_bit 30 m = m"
  shows "foldl polymod_step 0 (map (\<lambda>i. drop_bit (5 * (5 - i)) m AND 31) [0, 1, 2, 3, 4, 5]) = m"
proof -
  have "drop_bit 30 m = 0" by (rule bit_eqI) (auto simp: bit_simps dest: take_bit_30_bits [OF m])
  then show ?thesis
    using step_groups [OF m, of 25] step_groups [OF m, of 20] step_groups [OF m, of 15]
      step_groups [OF m, of 10] step_groups [OF m, of 5] step_groups [OF m, of 0]
    by simp
qed

lemma verify_create: "verifyChecksum hrp (data @ createChecksum hrp data)"
proof -
  define s where "s = foldl polymod_step 1 (hrpExpand hrp @ data)"
  define z where "z = foldl polymod_step s [0, 0, 0, 0, 0, 0]"
  define m where "m = z XOR bech32mConst"
  have z30: "take_bit 30 z = z"
    by (simp add: z_def step_take_bit)
  have m30: "take_bit 30 m = m"
    by (simp add: m_def take_bit_xor z30) (simp add: bech32mConst_def take_bit_eq_mod)
  define cs where "cs = map (\<lambda>i. drop_bit (5 * (5 - i)) m AND 31) [0, 1, 2, 3, 4, 5]"
  have "createChecksum hrp data = cs"
    by (simp add: createChecksum_def polymod_def cs_def m_def z_def s_def)
  moreover have "foldl polymod_step s cs = z XOR m"
    using foldl_step_xor [of "[0, 0, 0, 0, 0, 0]" cs s 0] checksum_fold [OF m30]
    by (simp add: cs_def z_def)
  moreover have "z XOR m = bech32mConst" by (simp add: m_def xor.assoc [symmetric])
  ultimately show ?thesis by (simp add: verifyChecksum_def polymod_def s_def)
qed

lemma gen_sum_low: "\<forall>b \<in> set [1..31]. take_bit 5 (gen_sum b) \<noteq> 0"
  by code_simp

lemma step_zero_kernel:
  assumes e: "take_bit 30 e = e" and z: "polymod_step e 0 = 0"
  shows "e = 0"
proof -
  define b where "b = drop_bit 25 e"
  have b: "take_bit 5 b = b"
    by (rule bit_eqI) (auto simp: b_def bit_simps dest: take_bit_30_bits [OF e])
  have b': "0 \<le> b" "b < 32" using b take_bit_int_less_exp [of 5 b] take_bit_nonnegative [of 5 b] by auto
  have "take_bit 5 (polymod_step e 0) = take_bit 5 (gen_sum b)"
    by (simp add: polymod_step_eq b_def take_bit_push_bit)
  with z have "take_bit 5 (gen_sum b) = 0" by simp
  then have "b \<notin> set [1..31]" using gen_sum_low by blast
  with b' have b0: "b = 0" by auto
  with z have "push_bit 5 (take_bit 25 e) = 0" by (simp add: polymod_step_eq b_def)
  then have "take_bit 25 e = 0" by simp
  moreover have "e = push_bit 25 (drop_bit 25 e) XOR take_bit 25 e" by (simp add: push_drop_xor)
  ultimately show ?thesis using b0 by (simp add: b_def)
qed

lemma zeros_kernel:
  "take_bit 30 e = e \<Longrightarrow> foldl polymod_step e (replicate n 0) = 0 \<Longrightarrow> e = 0"
proof (induction n arbitrary: e)
  case (Suc n)
  have "take_bit 30 (polymod_step e 0) = polymod_step e 0" by (simp add: step_take_bit)
  with Suc have "polymod_step e 0 = 0" by auto
  with Suc.prems(1) show ?case by (rule step_zero_kernel)
qed simp

lemma map2_xor_self: "map2 (XOR) vs vs = replicate (length vs) (0::int)"
  by (induction vs) simp_all

lemma single_error:
  assumes x: "take_bit 30 x = x" and y: "take_bit 30 y = y"
    and vx: "verifyChecksum hrp (a @ x # b)" and vy: "verifyChecksum hrp (a @ y # b)"
  shows "x = y"
proof -
  define s where "s = foldl polymod_step 1 (hrpExpand hrp @ a)"
  have e: "polymod_step s x XOR polymod_step s y = x XOR y"
    using polymod_step_xor [of s s x y] by (simp add: polymod_step_eq [of 0])
  have "foldl polymod_step (polymod_step s x) b = foldl polymod_step (polymod_step s y) b"
    using vx vy by (simp add: verifyChecksum_def polymod_def s_def)
  then have "foldl polymod_step (x XOR y) (replicate (length b) 0) = 0"
    using foldl_step_xor [of b b "polymod_step s x" "polymod_step s y"] by (simp add: e map2_xor_self)
  moreover have "take_bit 30 (x XOR y) = x XOR y" using x y by simp
  ultimately have "x XOR y = 0" using zeros_kernel by blast
  then show ?thesis by (metis xor.assoc xor_self_eq xor.right_neutral xor.left_neutral)
qed

section \<open>Canonical ids\<close>

lemma index_rune_nth: "distinct xs \<Longrightarrow> n < length xs \<Longrightarrow> index_rune xs (of_char (xs ! n)) = Some n"
proof (induction xs arbitrary: n)
  case (Cons c cs) then show ?case by (cases n) auto
qed simp

lemma index_rune_Some: "index_rune xs r = Some n \<Longrightarrow> n < length xs \<and> of_char (xs ! n) = r"
  by (induction xs arbitrary: n) (auto split: if_splits)

lemma charset_length [simp]: "length charset = 32"
  by (simp add: charset_def)

lemma charset_distinct: "distinct charset"
  by (simp add: charset_def)

lemma charset_char_mem [simp]: "0 \<le> v \<Longrightarrow> v < 32 \<Longrightarrow> charset_char v \<in> set charset"
  by (simp add: charset_char_def)

lemma charset_plain:
  "c \<in> set charset \<Longrightarrow> (of_char c :: nat) < 128 \<and> to_lower P (of_char c) = of_char c
     \<and> \<not> separator_rune (of_char c)"
  by (auto simp: charset_def to_lower_def separator_rune_def)

lemma charset_ascii: "set s \<subseteq> set charset \<Longrightarrow> ascii s"
  using charset_plain by (auto simp: ascii_def)

lemma StripSeparators_charset: "set s \<subseteq> set charset \<Longrightarrow> StripSeparators P s = s"
proof -
  assume s: "set s \<subseteq> set charset"
  have f: "filter (\<lambda>c. \<not> separator_rune c) (map of_char s) = map of_char s"
    using s charset_plain by (auto simp: filter_id_conv)
  have "map (\<lambda>c. encode_rune (to_lower P c)) (map of_char s) = map (\<lambda>c. [c]) s"
    using s charset_plain by (auto simp: encode_rune_ascii)
  then show ?thesis
    unfolding StripSeparators_def runes_ascii [OF charset_ascii [OF s]] f
    by (simp only: concat_map_singleton list.map_ident)
qed

lemma those_map_Some: "(\<forall>x \<in> set xs. f x = Some (g x)) \<Longrightarrow> those (map f xs) = Some (map g xs)"
  by (induction xs) auto

lemma those_Some_iff: "those xs = Some ys \<longleftrightarrow> xs = map Some ys"
  by (induction xs arbitrary: ys) (auto split: option.splits)

lemma charset_values_char:
  "\<forall>v \<in> set vs. 0 \<le> v \<and> v < 32 \<Longrightarrow> charset_values (map charset_char vs) = Some vs"
proof -
  assume vs: "\<forall>v \<in> set vs. 0 \<le> v \<and> v < 32"
  have a: "ascii (map charset_char vs)" using vs by (intro charset_ascii) auto
  have "those (map (\<lambda>v. index_rune charset (of_char (charset_char v))) vs) = Some (map nat vs)"
    using vs by (intro those_map_Some) (auto simp: charset_char_def index_rune_nth charset_distinct)
  then show ?thesis
    using vs by (simp add: charset_values_def runes_ascii [OF a] comp_def map_idI)
qed

lemma charset_values_Some:
  assumes "charset_values s = Some vs"
  shows "s = map charset_char vs" "\<forall>v \<in> set vs. 0 \<le> v \<and> v < 32"
proof -
  obtain ns where ns: "map (index_rune charset) (runes s) = map Some ns" and vs: "vs = map int ns"
    using assms by (auto simp: charset_values_def those_Some_iff)
  have i: "index_rune charset (runes s ! k) = Some (ns ! k)" if "k < length ns" for k
    using ns that by (metis length_map nth_map)
  have l: "length (runes s) = length ns" using ns by (metis length_map)
  have r: "ns ! k < 32 \<and> of_char (charset ! (ns ! k)) = runes s ! k" if "k < length ns" for k
    using index_rune_Some [OF i [OF that]] by simp
  have "\<forall>x \<in> set (runes s). x < 128"
  proof
    fix x assume "x \<in> set (runes s)"
    then obtain k where "k < length ns" "x = runes s ! k" using l by (metis in_set_conv_nth)
    then show "x < 128" using r [of k] charset_plain [of "charset ! (ns ! k)"] by (auto simp: nth_mem)
  qed
  then have a: "ascii s" by (rule ascii_of_runes)
  show "s = map charset_char vs"
  proof (rule nth_equalityI)
    show "length s = length (map charset_char vs)" using l a by (simp add: vs)
    fix k assume k: "k < length s"
    then have "of_char (charset ! (ns ! k)) = (of_char (s ! k) :: nat)" using r [of k] l a by simp
    then show "s ! k = map charset_char vs ! k" using k l a by (simp add: vs charset_char_def)
  qed
  show "\<forall>v \<in> set vs. 0 \<le> v \<and> v < 32" using r by (auto simp: vs in_set_conv_nth)
qed

lemma charset_char_subset: "\<forall>v \<in> set vs. 0 \<le> v \<and> v < 32 \<Longrightarrow> set (map charset_char vs) \<subseteq> set charset"
  by auto

text \<open>What a canonical id is: 21 characters of the charset whose values carry a valid checksum.\<close>

definition canonical_id :: "string \<Rightarrow> bool" where
  "canonical_id s \<longleftrightarrow> length s = 21 \<and>
     (case charset_values s of None \<Rightarrow> False | Some vs \<Rightarrow> verifyChecksum domainSeparationTag vs)"

lemma Normalize_iff: "Normalize P s = Inr n \<longleftrightarrow> n = StripSeparators P s \<and> canonical_id n"
  by (auto simp: Normalize_def canonical_id_def Let_def split: option.splits if_splits)

lemma canonical_id_charset: "canonical_id n \<Longrightarrow> set n \<subseteq> set charset"
proof -
  assume "canonical_id n"
  then obtain vs where "charset_values n = Some vs" by (auto simp: canonical_id_def split: option.splits)
  then show ?thesis using charset_values_Some [of n vs] charset_char_subset [of vs] by simp
qed

lemma Normalize_canonical: "canonical_id n \<Longrightarrow> Normalize P n = Inr n"
  by (simp add: Normalize_iff StripSeparators_charset canonical_id_charset)

lemma emit_groups_spec:
  "emit_groups num g acc bits gs = (bits', gs') \<Longrightarrow> length gs \<le> num \<Longrightarrow> 0 < g \<Longrightarrow>
   length gs' * g + bits' = length gs * g + bits \<and> length gs' \<le> num
   \<and> (bits' < g \<or> length gs' = num) \<and> (\<forall>v \<in> set gs'. v \<in> set gs \<or> 0 \<le> v \<and> v < 2 ^ g)"
proof (induction num g acc bits gs rule: emit_groups.induct)
  case (1 num g acc bits gs)
  show ?case
  proof (cases "0 < g \<and> g \<le> bits \<and> length gs < num")
    case True
    have v: "0 \<le> drop_bit (bits - g) acc AND mask g" "drop_bit (bits - g) acc AND mask g < 2 ^ g"
      by (simp_all add: take_bit_eq_mask [symmetric])
    have "emit_groups num g acc (bits - g) (gs @ [drop_bit (bits - g) acc AND mask g]) = (bits', gs')"
      using 1(2) True by (simp add: emit_groups.simps [of num g acc bits gs])
    from 1(1) [OF True this] show ?thesis using True v by auto
  next
    case False
    then have "bits' = bits" "gs' = gs" using 1(2) by (simp_all add: emit_groups.simps [of num g acc bits gs] split: if_splits)
    then show ?thesis using False 1(3,4) by auto
  qed
qed

lemma leading_loop_spec:
  "length gs \<le> num \<Longrightarrow> 0 < g \<Longrightarrow> num * g \<le> length gs * g + bits + 8 * length data \<Longrightarrow>
   bits < g \<or> length gs = num \<Longrightarrow>
   length (leading_loop num g data acc bits gs) = num
   \<and> (\<forall>v \<in> set (leading_loop num g data acc bits gs). v \<in> set gs \<or> 0 \<le> v \<and> v < 2 ^ g)"
proof (induction data arbitrary: acc bits gs)
  case Nil
  have "num \<le> length gs"
  proof (rule ccontr)
    assume n: "\<not> num \<le> length gs"
    then have "Suc (length gs) * g \<le> num * g" by (intro mult_le_mono1) simp
    with Nil n show False by auto
  qed
  with Nil show ?case by auto
next
  case (Cons b data)
  show ?case
  proof (cases "num \<le> length gs")
    case False
    define a where "a = (push_bit 8 acc OR of_char b) AND mask (8 + g - 1)"
    obtain bits' gs' where e: "emit_groups num g a (bits + 8) gs = (bits', gs')" by fastforce
    note s = emit_groups_spec [OF e Cons.prems(1,2)]
    have "num * g \<le> length gs' * g + bits' + 8 * length data" using s Cons.prems(3) by auto
    moreover have "leading_loop num g (b # data) acc bits gs = leading_loop num g data a bits' gs'"
      using False e by (simp only: leading_loop.simps Let_def a_def [symmetric] if_False fst_conv snd_conv)
    ultimately show ?thesis
      using Cons.IH [of gs' bits' a] s Cons.prems(2) by auto
  qed (use Cons.prems in auto)
qed

lemma leadingBitGroups_spec:
  assumes "0 < g" "num * g \<le> 8 * length data"
  shows "length (leadingBitGroups data num g) = num" "\<forall>v \<in> set (leadingBitGroups data num g). 0 \<le> v \<and> v < 2 ^ g"
  using leading_loop_spec [of "[]" num g 0 data 0] assms by (auto simp: leadingBitGroups_def)

lemma createChecksum_groups:
  "length (createChecksum hrp data) = 6" "\<forall>v \<in> set (createChecksum hrp data). 0 \<le> v \<and> v < 32"
proof -
  have "0 \<le> k AND 31 \<and> k AND 31 < 32" for k :: int
    using take_bit_nonnegative [of 5 k] take_bit_int_less_exp [of 5 k]
    by (simp add: take_bit_eq_mask mask_eq_exp_minus_1)
  then show "length (createChecksum hrp data) = 6" "\<forall>v \<in> set (createChecksum hrp data). 0 \<le> v \<and> v < 32"
    by (auto simp: createChecksum_def Let_def)
qed

lemma canonical_id_values:
  assumes "length vs = 21" "\<forall>v \<in> set vs. 0 \<le> v \<and> v < 32" "verifyChecksum domainSeparationTag vs"
  shows "canonical_id (map charset_char vs)"
  using assms by (simp add: canonical_id_def charset_values_char)

lemma DeriveIDVersion_canonical:
  assumes h: "sha256_size P" and d: "DeriveIDVersion P version key = Inr aid"
  shows "canonical_id aid" "VersionOf P aid = Inr (nat version)" "0 \<le> version" "version < 32"
proof -
  define payload where "payload = version # leadingBitGroups (sha256 P key) 14 5"
  define vs where "vs = payload @ createChecksum domainSeparationTag payload"
  have v: "0 \<le> version" "version < 32" and aid: "aid = map charset_char vs"
    using d by (auto simp: DeriveIDVersion_def vs_def payload_def Let_def split: if_splits)
  have g: "length (leadingBitGroups (sha256 P key) 14 5) = 14"
    "\<forall>v \<in> set (leadingBitGroups (sha256 P key) 14 5). 0 \<le> v \<and> v < 32"
    using leadingBitGroups_spec [of 5 14 "sha256 P key"] h by (auto simp: sha256_size_def)
  have r: "\<forall>v \<in> set vs. 0 \<le> v \<and> v < 32"
    using g v createChecksum_groups(2) by (auto simp: vs_def payload_def)
  have l: "length vs = 21" using g createChecksum_groups(1) by (simp add: vs_def payload_def)
  show c: "canonical_id aid"
    unfolding aid using l r verify_create by (intro canonical_id_values) (auto simp: vs_def)
  have "VersionMarkerOf P aid = Inr (nat version)"
    using v by (simp add: VersionMarkerOf_def StripSeparators_charset canonical_id_charset [OF c])
      (simp add: aid vs_def payload_def charset_char_def index_rune_nth charset_distinct)
  then show "VersionOf P aid = Inr (nat version)"
    by (simp add: VersionOf_def Normalize_canonical [OF c])
  show "0 \<le> version" "version < 32" by fact+
qed

section \<open>Properties\<close>

text \<open>
  an id derived from a root key is accepted by \<open>Normalize\<close> in its canonical form, names the
  version it was derived for and verifies against that key.
\<close>

theorem derived_id_verifies:
  assumes "sha256_size P" and "DeriveIDVersion P version key = Inr aid"
  shows "Normalize P aid = Inr aid \<and> VersionOf P aid = Inr (nat version)
    \<and> VerifyVersion P version aid key = Inr True"
  using DeriveIDVersion_canonical [OF assms] assms(2)
  by (simp_all add: Normalize_canonical VerifyVersion_def)

text \<open>
  an account id and a group id are never the same string, whatever the two root keys.
\<close>

theorem account_group_disjoint:
  assumes "sha256_size P" and "DeriveID P k1 = Inr a" and "DeriveIDVersion P VersionGroup k2 = Inr g"
  shows "a \<noteq> g"
  using DeriveIDVersion_canonical(2) [OF assms(1), of 0 k1 a] assms(2)
    DeriveIDVersion_canonical(2) [OF assms(1,3)]
  by (auto simp: DeriveID_def)

text \<open>
  \<open>Normalize\<close> is a retraction onto the canonical ids: its result is 21 characters of the
  charset and normalizes to itself.
\<close>

theorem normalize_canonical:
  assumes "Normalize P s = Inr n"
  shows "Normalize P n = Inr n \<and> length n = 21 \<and> set n \<subseteq> set charset"
proof (intro conjI)
  have c: "canonical_id n" using assms unfolding Normalize_iff by blast
  show "Normalize P n = Inr n" using c by (rule Normalize_canonical)
  show "length n = 21" using c by (simp add: canonical_id_def)
  show "set n \<subseteq> set charset" using c by (rule canonical_id_charset)
qed

lemma group_every_strip:
  "set s \<subseteq> set charset \<Longrightarrow> StripSeparators P (group_every g i s) = s"
proof -
  assume s: "set s \<subseteq> set charset"
  have "filter (\<lambda>c. \<not> separator_rune (of_char c)) (group_every g i s) = s"
    using s by (induction g i s rule: group_every.induct)
      (use charset_plain in \<open>auto simp: separator_rune_def\<close>)
  moreover have sub: "set (group_every g i s) \<subseteq> insert (CHR ''-'') (set s)"
    by (induction g i s rule: group_every.induct) auto
  moreover have "ascii (group_every g i s)"
    using charset_ascii [OF s] sub by (auto simp: ascii_def)
  moreover have "filter (\<lambda>c. \<not> separator_rune (of_char c)) s = s"
    using s charset_plain by (auto simp: filter_id_conv)
  ultimately have "StripSeparators P (group_every g i s) = StripSeparators P s"
    using charset_ascii [OF s] by (simp add: StripSeparators_def filter_map comp_def)
  then show ?thesis using StripSeparators_charset [OF s] by simp
qed

text \<open>
  the display form of a canonical id normalizes back to that id.
\<close>

theorem display_roundtrip:
  assumes "Normalize P s = Inr n"
  shows "Normalize P (FormatForDisplay n) = Inr n"
  using assms by (auto simp: Normalize_iff FormatForDisplay_def group_every_strip canonical_id_charset)

lemma charset_char_inj: "inj_on charset_char {v. 0 \<le> v \<and> v < 32}"
  using nth_eq_iff_index_eq [OF charset_distinct] by (auto simp: inj_on_def charset_char_def)

lemma charset_char_map_inject:
  "map charset_char vs = map charset_char ws \<Longrightarrow> \<forall>v \<in> set vs. 0 \<le> v \<and> v < 32 \<Longrightarrow>
   \<forall>v \<in> set ws. 0 \<le> v \<and> v < 32 \<Longrightarrow> vs = ws"
  by (rule map_inj_on) (auto intro: inj_on_subset [OF charset_char_inj])

lemma Normalize_values:
  assumes "Normalize P (a @ x # b) = Inr (a @ x # b)"
  obtains va v vb where "a = map charset_char va" "x = charset_char v" "b = map charset_char vb"
    "\<forall>u \<in> set (va @ v # vb). 0 \<le> u \<and> u < 32" "verifyChecksum domainSeparationTag (va @ v # vb)"
proof -
  obtain vs where vs: "charset_values (a @ x # b) = Some vs" "verifyChecksum domainSeparationTag vs"
    using assms by (auto simp: Normalize_iff canonical_id_def split: option.splits)
  moreover obtain va v vb where "vs = va @ v # vb" "a = map charset_char va" "x = charset_char v"
    "b = map charset_char vb"
    using charset_values_Some(1) [OF vs(1)] by (auto simp: append_eq_map_conv Cons_eq_map_conv)
  ultimately show ?thesis using that charset_values_Some(2) [OF vs(1)] by auto
qed

text \<open>
  the checksum catches every single-character substitution: two canonical ids that
  differ in at most one place are the same id.
\<close>

theorem single_substitution_detected:
  assumes nx: "Normalize P (a @ x # b) = Inr (a @ x # b)"
    and ny: "Normalize P (a @ y # b) = Inr (a @ y # b)"
  shows "x = y"
proof (rule Normalize_values [OF nx], rule Normalize_values [OF ny])
  fix va v vb wa w wb
  assume v: "a = map charset_char va" "x = charset_char v" "b = map charset_char vb"
    "\<forall>u \<in> set (va @ v # vb). 0 \<le> u \<and> u < 32" "verifyChecksum domainSeparationTag (va @ v # vb)"
    and w: "a = map charset_char wa" "y = charset_char w" "b = map charset_char wb"
    "\<forall>u \<in> set (wa @ w # wb). 0 \<le> u \<and> u < 32" "verifyChecksum domainSeparationTag (wa @ w # wb)"
  have "va = wa" "vb = wb" using v w by (auto intro!: charset_char_map_inject)
  then have "v = w"
    using v w single_error [of v w domainSeparationTag va vb] by (simp add: take_bit_int_eq_self)
  with v(2) w(2) show ?thesis by simp
qed

lemma charset_graphic: "c \<in> set charset \<Longrightarrow> graphic c \<and> c \<noteq> CHR ''*''"
  by (auto simp: charset_def graphic_def)

text \<open>
  The servers that survive printing: trimmed, without a trailing slash, naming a host, not the
  word \<open>local\<close> once the default scheme is left off, and with a scheme visible in the
  printed form exactly when the scheme is not the default one.
\<close>

definition printable_server :: "platform \<Rightarrow> string \<Rightarrow> bool" where
  "printable_server P s \<longleftrightarrow> s = [] \<or> (let h = TrimDefaultScheme s in
     h \<noteq> [] \<and> trim_space h = h \<and> last h \<noteq> CHR ''/'' \<and> \<not> equal_fold P h localServer
     \<and> contains ''://'' h = (h = s)
     \<and> (case url_parse P s of None \<Rightarrow> False | Some u \<Rightarrow> url_host u \<noteq> []))"

lemma trim_right_last: "s \<noteq> [] \<Longrightarrow> last s \<noteq> c \<Longrightarrow> trim_right c s = s"
  by (cases s rule: rev_cases) (auto simp: trim_right_def)

lemma NormalizeServer_printable:
  assumes "printable_server P s" "s \<noteq> []"
  shows "NormalizeServer P (TrimDefaultScheme s) = s"
proof -
  define h where "h = TrimDefaultScheme s"
  have h: "h \<noteq> []" "trim_space h = h" "last h \<noteq> CHR ''/''" "\<not> equal_fold P h localServer"
    "contains ''://'' h = (h = s)" using assms by (auto simp: printable_server_def h_def Let_def)
  have "s = h \<or> s = ''https://'' @ h"
    by (auto simp: h_def TrimDefaultScheme_def trim_prefix_def starts_with_iff)
  moreover have "last (''https://'' @ h) = last h" using h(1) by simp
  ultimately show ?thesis
    using h trim_right_last [of s "CHR ''/''"] assms(2)
    by (auto simp: NormalizeServer_def h_def [symmetric] Let_def)
qed

lemma Parse_compose:
  assumes g: "fid \<noteq> []" "\<forall>c \<in> set fid. graphic c \<and> c \<noteq> CHR ''*''"
    and i: "StripSeparators P fid = aid" "aid \<noteq> []" "set aid \<subseteq> set charset"
    and s: "printable_server P server"
  shows "Parse P (if server = [] then fid else fid @ ''*'' @ TrimDefaultScheme server)
     = Inr \<lparr>ID = aid, Server = server\<rparr>"
proof -
  have v: "ValidCharset aid"
  proof -
    have "index_rune charset (of_char c) \<noteq> None" if c: "c \<in> set aid" for c
    proof -
      obtain k where "k < length charset" "c = charset ! k"
        using c i(3) by (metis in_set_conv_nth subsetD)
      then show ?thesis by (simp add: index_rune_nth charset_distinct del: charset_length)
    qed
    then show ?thesis by (simp add: ValidCharset_def runes_ascii [OF charset_ascii [OF i(3)]])
  qed
  have star: "CHR ''*'' \<notin> set fid" using g by auto
  show ?thesis
  proof (cases "server = []")
    case True
    have "NormalizeServer P [] = []"
      by (simp add: NormalizeServer_def trim_space_graphic Let_def)
    then show ?thesis
      using True g i v by (simp add: Parse_def trim_space_graphic cut_absent [OF star] Let_def)
  next
    case False
    define h where "h = TrimDefaultScheme server"
    have h: "trim_space h = h" "NormalizeServer P h = server" 
      using s False NormalizeServer_printable [OF s] by (auto simp: printable_server_def h_def Let_def)
    have "trim_space (fid @ CHR ''*'' # h) = fid @ CHR ''*'' # h"
      using g h(1) by (intro trim_space_prepend) (auto simp: trim_space_iff graphic_def)
    then show ?thesis
      using False s i v g h(2) by (simp add: Parse_def cut_no_sep [OF star] Let_def h_def [symmetric]
        printable_server_def split: option.splits)
  qed
qed

lemma group_every_set: "set (group_every g i s) \<subseteq> insert (CHR ''-'') (set s)"
  by (induction g i s rule: group_every.induct) auto

text \<open>
  printing an address, canonically or hyphenated for display, and parsing it gives the
  address back, for a canonical id and a server \<open>String\<close> can print.
\<close>

theorem address_string_roundtrip:
  assumes "Normalize P s = Inr (ID a)" and "printable_server P (Server a)"
  shows "ParseFull P (address_String a) = Inr a \<and> ParseFull P (address_Display a) = Inr a"
proof (intro conjI)
  have c: "canonical_id (ID a)" using assms(1) unfolding Normalize_iff by blast
  note cs = canonical_id_charset [OF c]
  have ne: "ID a \<noteq> []" using c by (auto simp: canonical_id_def)
  have a: "\<lparr>ID = ID a, Server = Server a\<rparr> = a" by simp
  have g: "\<forall>c \<in> set (ID a). graphic c \<and> c \<noteq> CHR ''*''" using cs charset_graphic by blast
  have s1: "Parse P (address_String a) = Inr a"
    using Parse_compose [of "ID a" P "ID a" "Server a"] ne cs g assms(2)
    by (auto simp: address_String_def StripSeparators_charset a)
  have sub: "set (FormatForDisplay (ID a)) \<subseteq> insert (CHR ''-'') (set (ID a))"
    by (simp add: FormatForDisplay_def group_every_set)
  have "\<forall>c \<in> set (FormatForDisplay (ID a)). graphic c \<and> c \<noteq> CHR ''*''"
    using sub cs charset_graphic by (fastforce simp: graphic_def)
  moreover have "FormatForDisplay (ID a) \<noteq> []" using ne by (cases "ID a") (auto simp: FormatForDisplay_def)
  moreover have "StripSeparators P (FormatForDisplay (ID a)) = ID a"
    using cs by (simp add: FormatForDisplay_def group_every_strip)
  ultimately have s2: "Parse P (address_Display a) = Inr a"
    using Parse_compose [of "FormatForDisplay (ID a)" P "ID a" "Server a"] ne cs assms(2)
    by (auto simp: address_Display_def a)
  show "ParseFull P (address_String a) = Inr a" "ParseFull P (address_Display a) = Inr a"
    by (simp_all add: ParseFull_def s1 s2 Normalize_canonical [OF c])
qed


lemma last_index_append: "c \<notin> set t \<Longrightarrow> last_index c (s @ c # t) = Some (length s)"
proof -
  assume "c \<notin> set t"
  then have "last_index c t = None" by (induction t) auto
  then show ?thesis by (induction s) auto
qed

lemma ascii_lower_charset: "c \<in> set charset \<Longrightarrow> ascii_lower c = c"
  by (auto simp: charset_def ascii_lower_def)

text \<open>
  what \<open>EncodeBech32m\<close> returns, \<open>DecodeBech32m\<close> reads back to the same
  human-readable part and data, for a human-readable part that is not empty and has no upper-case letter.
\<close>

theorem bech32m_roundtrip:
  assumes e: "EncodeBech32m hrp data = Inr s" and h: "hrp \<noteq> []" "map ascii_lower hrp = hrp"
  shows "DecodeBech32m P s = Inr (hrp, data)"
proof -
  define vs where "vs = data @ createChecksum hrp data"
  have hr: "\<forall>c \<in> set (runes hrp). 33 \<le> c \<and> c \<le> 126" and dr: "\<forall>v \<in> set data. 0 \<le> v \<and> v < 32"
    and s: "s = hrp @ CHR ''1'' # map charset_char vs" and l: "length s \<le> 90"
    using e by (auto simp: EncodeBech32m_def Let_def vs_def not_less split: if_splits)
  have ah: "ascii hrp" using hr by (intro ascii_of_runes) fastforce
  have vr: "\<forall>v \<in> set vs. 0 \<le> v \<and> v < 32" using dr createChecksum_groups(2) by (auto simp: vs_def)
  note sub = charset_char_subset [OF vr]
  have a: "ascii s" using ah charset_ascii [OF sub] by (auto simp: s ascii_def)
  have low: "string_lower P s = s"
    using h(2) sub ascii_lower_charset by (simp add: string_lower_ascii [OF a])
      (auto simp: s ascii_lower_def [of "CHR ''1''"] intro: map_idI)
  have one: "CHR ''1'' \<notin> set (map charset_char vs)" using sub by (auto simp: charset_def)
  have len: "length vs = length data + 6" by (simp add: vs_def createChecksum_groups)
  have dv: "drop (length hrp + 1) s = map charset_char vs" "take (length hrp) s = hrp" by (simp_all add: s)
  have "verifyChecksum hrp vs" unfolding vs_def by (rule verify_create)
  moreover have "8 \<le> length s" using h(1) by (cases hrp) (simp_all add: s len)
  moreover have "last_index (CHR ''1'') s = Some (length hrp)" unfolding s by (rule last_index_append [OF one])
  moreover have "take (length vs - 6) vs = data" by (simp add: len) (simp add: vs_def)
  moreover have "length hrp + 7 \<le> length s" "1 \<le> length hrp" using h(1) by (cases hrp; simp add: s len)+
  moreover have "\<not> (\<exists>c \<in> set (runes hrp). c < 33 \<or> 126 < c)" using hr by force
  ultimately show ?thesis
    using l h(1) by (simp add: DecodeBech32m_def low Let_def dv charset_values_char [OF vr] del: One_nat_def)
qed

section \<open>Witnesses\<close>

definition sample_key :: bytes where
  "sample_key = pad 32 ''sample root key''"

definition sample_id :: string where
  "sample_id = ''qwdsk6urvv5s8ymz879nc''"

lemma sample_id_derived:
  "DeriveIDVersion sample_platform 0 sample_key = Inr sample_id"
  "DeriveIDVersion sample_platform 1 sample_key = Inr ''pwdsk6urvv5s8ymg2xxjc''"
  by code_simp+

lemma sample_id_normal: "Normalize sample_platform sample_id = Inr sample_id"
  by code_simp

theorem derived_id_verifies_witness:
  "VerifyVersion sample_platform 0 sample_id sample_key = Inr True"
  using derived_id_verifies [OF sample_platform_laws(1) sample_id_derived(1)] by blast

theorem account_group_disjoint_witness: "sample_id \<noteq> ''pwdsk6urvv5s8ymg2xxjc''"
  by (rule account_group_disjoint [OF sample_platform_laws(1) _ sample_id_derived(2), of sample_key])
    (simp add: DeriveID_def sample_id_derived(1))

theorem normalize_canonical_witness: "length sample_id = 21"
  using normalize_canonical [OF sample_id_normal] by blast

theorem display_roundtrip_witness:
  "Normalize sample_platform (FormatForDisplay sample_id) = Inr sample_id"
  by (rule display_roundtrip [OF sample_id_normal])

theorem single_substitution_detected_witness:
  "\<not> Normalize sample_platform ''qwdsk6urvv5s8ymz879nn'' = Inr ''qwdsk6urvv5s8ymz879nn''"
  using single_substitution_detected [of sample_platform "''qwdsk6urvv5s8ymz879n''" "CHR ''c''" "[]" "CHR ''n''"]
    sample_id_normal by (auto simp: sample_id_def)

theorem address_string_roundtrip_witness:
  "ParseFull sample_platform (address_Display \<lparr>ID = sample_id, Server = ''https://chat.example.org''\<rparr>)
     = Inr \<lparr>ID = sample_id, Server = ''https://chat.example.org''\<rparr>"
proof (rule address_string_roundtrip [THEN conjunct2])
  show "Normalize sample_platform sample_id = Inr (ID \<lparr>ID = sample_id, Server = ''https://chat.example.org''\<rparr>)"
    by (simp add: sample_id_normal)
  show "printable_server sample_platform (Server \<lparr>ID = sample_id, Server = ''https://chat.example.org''\<rparr>)"
    by (simp add: printable_server_def TrimDefaultScheme_def trim_prefix_def trim_space_graphic
        graphic_def sample_platform_def sample_url_def equal_fold_def localServer_def runes_ascii
        ascii_def fold_rune_def to_lower_def)
qed

theorem bech32m_roundtrip_witness:
  "DecodeBech32m sample_platform (projr (EncodeBech32m ''frz'' [3, 1, 4])) = Inr (''frz'', [3, 1, 4])"
proof (rule bech32m_roundtrip)
  show "EncodeBech32m ''frz'' [3, 1, 4] = Inr (projr (EncodeBech32m ''frz'' [3, 1, 4]))" by code_simp
qed (simp_all add: ascii_lower_def)

end
