(* ===== verification/Humancode.thy ===== *)
theory Humancode
  imports Address
begin

text \<open>
  \<open>pkg/humancode\<close>: the short hand-typed secrets (setup token, invite codes). \<open>crypto/rand\<close>'s
  output is the argument \<open>rnd\<close> of \<open>Generate\<close>. The main fact is that a generated code,
  shown in groups and typed back in either case, with or without the hyphens, normalizes to itself.
\<close>

unbundle bit_operations_syntax

section \<open>Generate, Normalize, Format\<close>

definition Alphabet :: string where
  "Alphabet = ''0123456789ABCDEFGHJKMNPQRSTVWXYZ''"

fun code_symbols :: "nat \<Rightarrow> 64 word \<Rightarrow> string" where
  "code_symbols 0 acc = []"
| "code_symbols (Suc n) acc =
     code_symbols n (drop_bit 5 acc) @ [Alphabet ! unat (acc AND 31)]"

definition Generate :: "int \<Rightarrow> bytes \<Rightarrow> string option" where
  "Generate symbols rnd =
     (if symbols \<le> 0 \<or> symbols > 12 then None
      else let r = take (nat ((symbols * 5 + 7) div 8)) rnd;
               acc = foldl (\<lambda>a b. push_bit 8 a OR of_nat (of_char b)) 0 r
           in Some (code_symbols (nat symbols) acc))"

definition code_separator :: "rune \<Rightarrow> bool" where
  "code_separator c \<longleftrightarrow> c \<in> {45, 95, 32, 9, 10, 13}"

text \<open>The letters I and L (73, 76) fold onto the digit 1 (49), O (79) onto 0 (48).\<close>

definition confusion :: "rune \<Rightarrow> rune" where
  "confusion u = (if u = 73 \<or> u = 76 then 49 else if u = 79 then 48 else u)"

definition code_Normalize :: "platform \<Rightarrow> string \<Rightarrow> string" where
  "code_Normalize P s =
     concat (map (\<lambda>c. encode_rune (confusion (to_upper P c))) (filter (\<lambda>c. \<not> code_separator c) (runes s)))"

text \<open>\<open>Format\<close> counts byte offsets while walking runes; the codes it is given are ASCII.\<close>

definition code_Format :: "string \<Rightarrow> int \<Rightarrow> string" where
  "code_Format code g =
     (if g \<le> 0 \<or> int (length code) \<le> g then code else group_every (nat g) 0 code)"

section \<open>What a person may type\<close>

text \<open>
  A character spells an alphabet symbol when it is that symbol in either case, or one of the letters
  the alphabet leaves out for it.
\<close>

definition upper_of :: "char \<Rightarrow> char" where
  "upper_of c = (let n = (of_char c :: nat) in if 97 \<le> n \<and> n \<le> 122 then char_of (n - 32) else c)"

definition symbol_of :: "char \<Rightarrow> char" where
  "symbol_of c = (let u = upper_of c in
     if u = CHR ''I'' \<or> u = CHR ''L'' then CHR ''1'' else if u = CHR ''O'' then CHR ''0'' else u)"

definition spelled :: "string \<Rightarrow> string" where
  "spelled s = map symbol_of (filter (\<lambda>c. \<not> code_separator (of_char c)) s)"

lemma length_Alphabet [simp]: "length Alphabet = 32"
  by (simp add: Alphabet_def)

lemma code_symbols_set: "set (code_symbols n acc) \<subseteq> set Alphabet"
proof (induction n arbitrary: acc)
  case (Suc n)
  have "acc AND 31 = take_bit 5 acc"
    by (simp add: take_bit_eq_mask mask_eq_exp_minus_1)
  then have "unat (acc AND 31) < 32"
    using take_bit_nat_less_exp [of 5 "unat acc"] by (simp add: unsigned_take_bit_eq)
  then have "Alphabet ! unat (acc AND 31) \<in> set Alphabet" by (intro nth_mem) simp
  with Suc show ?case by simp
qed simp

lemma code_symbols_length [simp]: "length (code_symbols n acc) = n"
  by (induction n arbitrary: acc) auto

lemma Generate_shape:
  "Generate n rnd = Some code \<Longrightarrow> length code = nat n \<and> set code \<subseteq> set Alphabet"
  using code_symbols_set by (auto simp: Generate_def Let_def split: if_splits)

lemma confusion_symbol:
  assumes "(of_char c :: nat) < 128"
  shows "encode_rune (confusion (to_upper P (of_char c))) = [symbol_of c]"
proof -
  have u: "to_upper P (of_char c) = of_char (upper_of c)"
    using assms by (auto simp: to_upper_def upper_of_def Let_def)
  have lt: "(of_char (upper_of c) :: nat) < 128"
    using assms by (auto simp: upper_of_def Let_def)
  have eqs: "((of_char (upper_of c) :: nat) = 73) = (upper_of c = CHR ''I'')"
    "((of_char (upper_of c) :: nat) = 76) = (upper_of c = CHR ''L'')"
    "((of_char (upper_of c) :: nat) = 79) = (upper_of c = CHR ''O'')"
    using of_char_eq_iff [of "upper_of c" "CHR ''I''", where 'a = nat]
      of_char_eq_iff [of "upper_of c" "CHR ''L''", where 'a = nat]
      of_char_eq_iff [of "upper_of c" "CHR ''O''", where 'a = nat] by simp_all
  have digits: "char_of (48 :: nat) = CHR ''0''" "char_of (49 :: nat) = CHR ''1''"
    by code_simp+
  show ?thesis
    using lt by (auto simp: u confusion_def eqs symbol_of_def Let_def encode_rune_def digits)
qed

lemma code_Normalize_ascii: "ascii s \<Longrightarrow> code_Normalize P s = spelled s"
proof -
  assume a: "ascii s"
  have "code_Normalize P s =
      concat (map (\<lambda>c. encode_rune (confusion (to_upper P (of_char c)))) (filter (\<lambda>c. \<not> code_separator (of_char c)) s))"
    using a by (simp add: code_Normalize_def filter_map comp_def)
  also have "\<dots> = concat (map (\<lambda>c. [symbol_of c]) (filter (\<lambda>c. \<not> code_separator (of_char c)) s))"
    using a by (intro arg_cong [of _ _ concat] map_cong) (auto simp: ascii_def confusion_symbol)
  finally show ?thesis by (simp add: spelled_def concat_map_singleton)
qed

lemma Alphabet_plain:
  "\<forall>c \<in> set Alphabet. symbol_of c = c \<and> \<not> code_separator (of_char c) \<and> (of_char c :: nat) < 128"
  by (simp add: Alphabet_def symbol_of_def upper_of_def code_separator_def)

lemma spelled_alphabet: "set s \<subseteq> set Alphabet \<Longrightarrow> spelled s = s"
  using Alphabet_plain by (auto simp: spelled_def subset_iff filter_True map_idI)

lemma spelled_group_every: "spelled (group_every g i s) = spelled s"
  by (induction g i s rule: group_every.induct) (auto simp: spelled_def code_separator_def)

lemma spelled_Format: "spelled (code_Format s g) = spelled s"
  by (simp add: code_Format_def spelled_group_every)

text \<open>
  A code made by \<open>Generate\<close> has the requested number of alphabet symbols, and whatever is
  typed for it is recognised: any text that spells it up to case, separators and the confusable
  letters I, L and O normalizes to the code itself, and the grouped form \<open>Format\<close> displays is
  such a text.
\<close>

theorem typed_code_recognised:
  assumes "Generate n rnd = Some code"
  shows "length code = nat n \<and> set code \<subseteq> set Alphabet
    \<and> (\<forall>typed. ascii typed \<longrightarrow> (code_Normalize P typed = code \<longleftrightarrow> spelled typed = code))
    \<and> code_Normalize P (code_Format code g) = code"
proof -
  have sh: "length code = nat n" "set code \<subseteq> set Alphabet" using Generate_shape [OF assms] by auto
  have "ascii (code_Format code g)"
    using sh(2) Alphabet_plain group_every_set [of "nat g" 0 code]
    by (auto simp: ascii_def code_Format_def subset_iff split: if_splits)
  then have "code_Normalize P (code_Format code g) = code"
    using sh(2) by (simp add: code_Normalize_ascii spelled_Format spelled_alphabet)
  with sh show ?thesis by (simp add: code_Normalize_ascii)
qed

definition sample_code_random :: bytes where
  "sample_code_random = ''8bytes!!''"

theorem typed_code_recognised_witness:
  "\<exists>code. Generate 12 sample_code_random = Some code \<and> length code = 12
    \<and> code_Normalize sample_platform (code_Format code 4) = code"
proof -
  obtain code where c: "Generate 12 sample_code_random = Some code"
    by (simp add: Generate_def Let_def)
  with typed_code_recognised [OF c, of sample_platform 4] show ?thesis by auto
qed

end
