(* ===== verification/Store.thy ===== *)
theory Store
  imports Table Humancode
begin

text \<open>
  \<open>internal/store\<close>: the SQLite schema and the repository functions, one definition per function.
  A table is a list of row records in rowid order, the database a record of tables; a function takes
  the database and returns an error or the changed database. An SQL statement is atomic and the
  handlers that need more than one statement to be atomic run them in a transaction, which the
  callers model by dropping the changed database on an error.

  Times are stored as RFC 3339 text in UTC. A stored time is modelled by the instant that text
  denotes, the time without its fraction of a second; comparing the texts, as the SQL does, is
  comparing the instants for the years 0 to 9999. Failures of the database driver itself (I/O, a
  locked file) are not modelled; \<open>ErrConstraint\<close> is a violated foreign key, \<open>ErrScan\<close> a
  missing settings row.
\<close>

section \<open>Errors and stored times\<close>

datatype store_error =
    ErrNotFound | ErrConflict | ErrIDPrefixConflict | ErrInvalidToken | ErrInviteAlreadyUsed
  | ErrInviteExpired | ErrQueueFull | ErrNoRecipients | ErrGenerate | ErrConstraint | ErrScan

definition formatTime :: "time \<Rightarrow> time" where
  "formatTime t = truncate_second t"

section \<open>Rows\<close>

definition AccountStatusActive :: string where "AccountStatusActive = ''active''"
definition AccountStatusDisabled :: string where "AccountStatusDisabled = ''disabled''"
definition RoleUser :: string where "RoleUser = ''user''"
definition RoleModerator :: string where "RoleModerator = ''moderator''"
definition RoleAdmin :: string where "RoleAdmin = ''admin''"

definition ParseRole :: "string \<Rightarrow> string option" where
  "ParseRole s = (if s \<in> {RoleUser, RoleModerator, RoleAdmin} then Some s else None)"

record Account =
  acc_ID :: string
  acc_RootPubKey :: bytes
  acc_VersionMarker :: int
  acc_Status :: string
  acc_Role :: string
  acc_CreatedAt :: time

definition DeviceStatusActive :: string where "DeviceStatusActive = ''active''"
definition DeviceStatusRevoked :: string where "DeviceStatusRevoked = ''revoked''"

record PushSubscription =
  ps_Endpoint :: string
  ps_P256dh :: string
  ps_Auth :: string

record PushTarget =
  pt_Platform :: string
  pt_Token :: string

record Device =
  dev_DeviceID :: string
  dev_AccountID :: string
  dev_DevicePubKey :: bytes
  dev_CertIssuedAt :: time
  dev_CertSignature :: bytes
  dev_Status :: string
  dev_RevokedAt :: "time option"
  dev_CreatedAt :: time
  dev_DHIdentityPubKey :: bytes
  dev_DHIdentityIssuedAt :: "time option"
  dev_DHIdentitySignature :: bytes
  dev_Push :: "PushSubscription option"
  dev_PushTarget :: "PushTarget option"

record Message =
  msg_MessageID :: string
  msg_SenderAccountID :: string
  msg_SenderDeviceID :: string
  msg_RecipientAccountID :: string
  msg_RecipientDeviceID :: string
  msg_Payload :: string
  msg_SentAt :: time
  msg_ExpiresAt :: time

record SignedPrekey =
  spk_DeviceID :: string
  spk_KeyID :: "32 word"
  spk_PubKey :: bytes
  spk_Signature :: bytes
  spk_IssuedAt :: time
  spk_CreatedAt :: time

record OneTimePrekeyInput =
  otk_KeyID :: "32 word"
  otk_PubKey :: bytes

text \<open>A row of \<open>one_time_prekeys\<close>; \<open>otp_id\<close> is its \<open>AUTOINCREMENT\<close> key.\<close>

record one_time_prekey =
  otp_id :: nat
  otp_device_id :: string
  otp_key :: OneTimePrekeyInput
  otp_created_at :: time

record InviteCode =
  inv_code_hash :: string
  inv_CreatedByAccountID :: string
  inv_CreatedAt :: time
  inv_ExpiresAt :: "time option"
  inv_UsedAt :: "time option"
  inv_UsedByAccountID :: "string option"

record setup_token =
  tok_hash :: string
  tok_created_at :: time
  tok_used_at :: "time option"
  tok_used_by :: "string option"
  tok_failed_attempts :: nat

record used_nonce =
  un_device_id :: string
  un_nonce :: string
  un_request_timestamp :: time
  un_expires_at :: time

record FederationBlockEntry =
  fb_AccountID :: string
  fb_BlockedAt :: time
  fb_BlockedBy :: string
  fb_Reason :: "string option"

record server_settings =
  set_registration_policy :: string
  set_federation_enabled :: "int option"

record Blob =
  blob_BlobID :: string
  blob_SizeBytes :: int
  blob_CreatedAt :: time
  blob_ExpiresAt :: time

record Report =
  rep_ID :: nat
  rep_ReportedID :: string
  rep_ReportedServer :: string
  rep_ReporterID :: string
  rep_ReporterServer :: string
  rep_Category :: string
  rep_Evidence :: "string option"
  rep_EvidenceVerified :: bool
  rep_State :: string
  rep_CreatedAt :: time
  rep_UpdatedAt :: time
  rep_ResolvedBy :: "string option"
  rep_ResolvedAt :: "time option"

record database =
  db_accounts :: "Account list"
  db_devices :: "Device list"
  db_messages :: "Message list"
  db_signed_prekeys :: "SignedPrekey list"
  db_one_time_prekeys :: "one_time_prekey list"
  db_prekey_sequence :: nat
  db_invite_codes :: "InviteCode list"
  db_setup_token :: "setup_token option"
  db_used_nonces :: "used_nonce list"
  db_blocklist :: "FederationBlockEntry list"
  db_settings :: "server_settings option"
  db_blobs :: "Blob list"
  db_blob_recipients :: "(string \<times> string) list"
  db_reports :: "Report list"

definition empty_database :: database where
  "empty_database = \<lparr>db_accounts = [], db_devices = [], db_messages = [], db_signed_prekeys = [],
     db_one_time_prekeys = [], db_prekey_sequence = 0, db_invite_codes = [], db_setup_token = None,
     db_used_nonces = [], db_blocklist = [], db_settings = None, db_blobs = [],
     db_blob_recipients = [], db_reports = []\<rparr>"

section \<open>accounts.go\<close>

definition idPrefixLength :: nat where
  "idPrefixLength = 5"

text \<open>The \<open>id_prefix\<close> column, written once at insertion from an id that never changes.\<close>

definition id_prefix :: "string \<Rightarrow> string" where
  "id_prefix ident = (if length ident > idPrefixLength then take idPrefixLength ident else ident)"

definition GetAccount :: "database \<Rightarrow> string \<Rightarrow> store_error + Account" where
  "GetAccount db ident =
     (case row_get acc_ID ident (db_accounts db) of None \<Rightarrow> Inl ErrNotFound | Some a \<Rightarrow> Inr a)"

definition GetAccountByPrefix :: "database \<Rightarrow> string \<Rightarrow> store_error + Account" where
  "GetAccountByPrefix db prefix =
     (case row_get (\<lambda>a. id_prefix (acc_ID a)) prefix (db_accounts db) of
        None \<Rightarrow> Inl ErrNotFound | Some a \<Rightarrow> Inr a)"

definition CreateAccount :: "database \<Rightarrow> Account \<Rightarrow> store_error + database" where
  "CreateAccount db acc =
     (let idPrefix = id_prefix (acc_ID acc);
          taken = list_ex (\<lambda>a. acc_ID a = acc_ID acc \<or> id_prefix (acc_ID a) = idPrefix) (db_accounts db)
      in if \<not> taken
         then Inr (db\<lparr>db_accounts := db_accounts db @ [acc\<lparr>acc_CreatedAt := formatTime (acc_CreatedAt acc)\<rparr>]\<rparr>)
         else case GetAccount db (acc_ID acc) of Inr _ \<Rightarrow> Inl ErrConflict
              | Inl _ \<Rightarrow> Inl ErrIDPrefixConflict)"

text \<open>\<open>ORDER BY created_at ASC\<close>; rows with equal times come in rowid order.\<close>

definition ListAccounts :: "database \<Rightarrow> Account list" where
  "ListAccounts db = sort_key acc_CreatedAt (db_accounts db)"

definition SetAccountRole :: "database \<Rightarrow> string \<Rightarrow> string \<Rightarrow> store_error + database" where
  "SetAccountRole db ident role =
     (if row_count (\<lambda>a. acc_ID a = ident) (db_accounts db) = 0 then Inl ErrNotFound
      else Inr (db\<lparr>db_accounts := row_update (\<lambda>a. acc_ID a = ident) (acc_Role_update (\<lambda>_. role)) (db_accounts db)\<rparr>))"

definition SetAccountStatus :: "database \<Rightarrow> string \<Rightarrow> string \<Rightarrow> store_error + database" where
  "SetAccountStatus db ident status =
     (if row_count (\<lambda>a. acc_ID a = ident) (db_accounts db) = 0 then Inl ErrNotFound
      else Inr (db\<lparr>db_accounts := row_update (\<lambda>a. acc_ID a = ident) (acc_Status_update (\<lambda>_. status)) (db_accounts db)\<rparr>))"

text \<open>
  What the foreign keys do when devices and accounts go: rows hanging off a removed device are
  deleted with it, invites an account created are deleted, and the accounts recorded as users of an
  invite or of the setup token are set to NULL.
\<close>

definition cascade_devices :: "(string \<Rightarrow> bool) \<Rightarrow> database \<Rightarrow> database" where
  "cascade_devices gone db = db\<lparr>
     db_messages := row_delete (\<lambda>m. gone (msg_RecipientDeviceID m)) (db_messages db),
     db_signed_prekeys := row_delete (\<lambda>k. gone (spk_DeviceID k)) (db_signed_prekeys db),
     db_one_time_prekeys := row_delete (\<lambda>k. gone (otp_device_id k)) (db_one_time_prekeys db),
     db_blob_recipients := row_delete (\<lambda>r. gone (snd r)) (db_blob_recipients db)\<rparr>"

definition device_of :: "string \<Rightarrow> Device list \<Rightarrow> string \<Rightarrow> bool" where
  "device_of ident ds d = list_ex (\<lambda>v. dev_AccountID v = ident \<and> dev_DeviceID v = d) ds"

definition cascade_account :: "string \<Rightarrow> database \<Rightarrow> database" where
  "cascade_account ident db =
     cascade_devices (device_of ident (db_devices db))
       (db\<lparr>db_devices := row_delete (\<lambda>d. dev_AccountID d = ident) (db_devices db),
           db_invite_codes := row_update (\<lambda>i. inv_UsedByAccountID i = Some ident)
             (inv_UsedByAccountID_update (\<lambda>_. None))
             (row_delete (\<lambda>i. inv_CreatedByAccountID i = ident) (db_invite_codes db)),
           db_setup_token := map_option (\<lambda>t. if tok_used_by t = Some ident
             then t\<lparr>tok_used_by := None\<rparr> else t) (db_setup_token db)\<rparr>)"

definition DeleteReportsForAccount :: "database \<Rightarrow> string \<Rightarrow> database" where
  "DeleteReportsForAccount db accountID =
     db\<lparr>db_reports := row_delete (\<lambda>r. rep_ReportedID r = accountID \<and> rep_ReportedServer r = []
        \<or> rep_ReporterID r = accountID \<and> rep_ReporterServer r = []) (db_reports db)\<rparr>"

definition DeleteAccount :: "database \<Rightarrow> string \<Rightarrow> store_error + database" where
  "DeleteAccount db ident =
     (if row_count (\<lambda>a. acc_ID a = ident) (db_accounts db) = 0 then Inl ErrNotFound
      else Inr (DeleteReportsForAccount
        (cascade_account ident (db\<lparr>db_accounts := row_delete (\<lambda>a. acc_ID a = ident) (db_accounts db)\<rparr>)) ident))"

definition active_admin :: "Account \<Rightarrow> bool" where
  "active_admin a \<longleftrightarrow> acc_Role a = RoleAdmin \<and> acc_Status a = AccountStatusActive"

definition CountActiveAdmins :: "database \<Rightarrow> nat" where
  "CountActiveAdmins db = row_count active_admin (db_accounts db)"

definition CountActiveAccounts :: "database \<Rightarrow> nat" where
  "CountActiveAccounts db = row_count (\<lambda>a. acc_Status a = AccountStatusActive) (db_accounts db)"

section \<open>devices.go\<close>

text \<open>The insert names seven columns; the others take their default, NULL.\<close>

definition device_row :: "Device \<Rightarrow> Device" where
  "device_row d =
     \<lparr>dev_DeviceID = dev_DeviceID d, dev_AccountID = dev_AccountID d,
      dev_DevicePubKey = dev_DevicePubKey d, dev_CertIssuedAt = formatTime (dev_CertIssuedAt d),
      dev_CertSignature = dev_CertSignature d, dev_Status = dev_Status d, dev_RevokedAt = None,
      dev_CreatedAt = formatTime (dev_CreatedAt d), dev_DHIdentityPubKey = [],
      dev_DHIdentityIssuedAt = None, dev_DHIdentitySignature = [], dev_Push = None,
      dev_PushTarget = None\<rparr>"

definition CreateDevice :: "database \<Rightarrow> Device \<Rightarrow> store_error + database" where
  "CreateDevice db d =
     (if list_ex (\<lambda>e. dev_DeviceID e = dev_DeviceID d) (db_devices db) then Inl ErrConflict
      else if \<not> list_ex (\<lambda>a. acc_ID a = dev_AccountID d) (db_accounts db) then Inl ErrConstraint
      else Inr (db\<lparr>db_devices := db_devices db @ [device_row d]\<rparr>))"

text \<open>Reading a row drops the DH identity fields when the key column is NULL or empty.\<close>

definition scanDeviceFields :: "Device \<Rightarrow> Device" where
  "scanDeviceFields d =
     (if dev_DHIdentityPubKey d = [] then d\<lparr>dev_DHIdentityIssuedAt := None, dev_DHIdentitySignature := []\<rparr> else d)"

definition GetDevice :: "database \<Rightarrow> string \<Rightarrow> store_error + Device" where
  "GetDevice db deviceID =
     (case row_get dev_DeviceID deviceID (db_devices db) of
        None \<Rightarrow> Inl ErrNotFound | Some d \<Rightarrow> Inr (scanDeviceFields d))"

definition ListDevicesByAccount :: "database \<Rightarrow> string \<Rightarrow> Device list" where
  "ListDevicesByAccount db accountID =
     map scanDeviceFields (sort_key dev_CreatedAt (filter (\<lambda>d. dev_AccountID d = accountID) (db_devices db)))"

definition RevokeDevice :: "database \<Rightarrow> string \<Rightarrow> string \<Rightarrow> time \<Rightarrow> store_error + database" where
  "RevokeDevice db accountID deviceID revokedAt =
     (let target = (\<lambda>d. dev_DeviceID d = deviceID \<and> dev_AccountID d = accountID \<and> dev_Status d = DeviceStatusActive)
      in if row_count target (db_devices db) = 0 then Inl ErrNotFound
         else Inr (db\<lparr>db_devices := row_update target
           (\<lambda>d. d\<lparr>dev_Status := DeviceStatusRevoked, dev_RevokedAt := Some (formatTime revokedAt)\<rparr>) (db_devices db)\<rparr>))"

definition update_device :: "database \<Rightarrow> string \<Rightarrow> (Device \<Rightarrow> Device) \<Rightarrow> store_error + database" where
  "update_device db deviceID f =
     (if row_count (\<lambda>d. dev_DeviceID d = deviceID) (db_devices db) = 0 then Inl ErrNotFound
      else Inr (db\<lparr>db_devices := row_update (\<lambda>d. dev_DeviceID d = deviceID) f (db_devices db)\<rparr>))"

definition UpsertDHIdentity :: "database \<Rightarrow> string \<Rightarrow> bytes \<Rightarrow> bytes \<Rightarrow> time \<Rightarrow> store_error + database" where
  "UpsertDHIdentity db deviceID pubKey signature issuedAt =
     update_device db deviceID (\<lambda>d. d\<lparr>dev_DHIdentityPubKey := pubKey,
       dev_DHIdentityIssuedAt := Some (formatTime issuedAt), dev_DHIdentitySignature := signature\<rparr>)"

definition SetDevicePushSubscription :: "database \<Rightarrow> string \<Rightarrow> PushSubscription option \<Rightarrow> store_error + database" where
  "SetDevicePushSubscription db deviceID sub =
     update_device db deviceID (\<lambda>d. if sub = None then d\<lparr>dev_Push := None\<rparr>
       else d\<lparr>dev_Push := sub, dev_PushTarget := None\<rparr>)"

definition SetDevicePushTarget :: "database \<Rightarrow> string \<Rightarrow> PushTarget option \<Rightarrow> store_error + database" where
  "SetDevicePushTarget db deviceID target =
     update_device db deviceID (\<lambda>d. if target = None then d\<lparr>dev_PushTarget := None\<rparr>
       else d\<lparr>dev_PushTarget := target, dev_Push := None\<rparr>)"

section \<open>messages.go\<close>

definition CreateMessage :: "database \<Rightarrow> Message \<Rightarrow> store_error + database" where
  "CreateMessage db m =
     (if list_ex (\<lambda>x. msg_MessageID x = msg_MessageID m) (db_messages db) then Inl ErrConflict
      else if \<not> list_ex (\<lambda>d. dev_DeviceID d = msg_RecipientDeviceID m) (db_devices db) then Inl ErrConstraint
      else Inr (db\<lparr>db_messages := db_messages db @
        [m\<lparr>msg_SentAt := formatTime (msg_SentAt m), msg_ExpiresAt := formatTime (msg_ExpiresAt m)\<rparr>]\<rparr>))"

definition CountPendingMessages :: "database \<Rightarrow> string \<Rightarrow> nat" where
  "CountPendingMessages db recipientDeviceID =
     row_count (\<lambda>m. msg_RecipientDeviceID m = recipientDeviceID) (db_messages db)"

definition CreateMessageUnderCap :: "database \<Rightarrow> Message \<Rightarrow> nat \<Rightarrow> store_error + database" where
  "CreateMessageUnderCap db m maxQueued =
     (if CountPendingMessages db (msg_RecipientDeviceID m) \<ge> maxQueued then Inl ErrQueueFull
      else CreateMessage db m)"

definition ListPendingMessages :: "database \<Rightarrow> string \<Rightarrow> Message list" where
  "ListPendingMessages db recipientDeviceID =
     sort_key msg_SentAt (filter (\<lambda>m. msg_RecipientDeviceID m = recipientDeviceID) (db_messages db))"

definition DeleteMessage :: "database \<Rightarrow> string \<Rightarrow> string \<Rightarrow> store_error + database" where
  "DeleteMessage db messageID recipientDeviceID =
     (let target = (\<lambda>m. msg_MessageID m = messageID \<and> msg_RecipientDeviceID m = recipientDeviceID)
      in if row_count target (db_messages db) = 0 then Inl ErrNotFound
         else Inr (db\<lparr>db_messages := row_delete target (db_messages db)\<rparr>))"

definition PurgeExpiredMessages :: "database \<Rightarrow> time \<Rightarrow> database" where
  "PurgeExpiredMessages db now =
     db\<lparr>db_messages := row_delete (\<lambda>m. msg_ExpiresAt m < formatTime now) (db_messages db)\<rparr>"

section \<open>prekeys.go\<close>

text \<open>An upsert replaces the row of the device in place, or appends one.\<close>

definition UpsertSignedPrekey :: "database \<Rightarrow> SignedPrekey \<Rightarrow> store_error + database" where
  "UpsertSignedPrekey db sp =
     (let row = sp\<lparr>spk_IssuedAt := formatTime (spk_IssuedAt sp), spk_CreatedAt := formatTime (spk_CreatedAt sp)\<rparr>
      in if list_ex (\<lambda>k. spk_DeviceID k = spk_DeviceID sp) (db_signed_prekeys db)
         then Inr (db\<lparr>db_signed_prekeys :=
                row_update (\<lambda>k. spk_DeviceID k = spk_DeviceID sp) (\<lambda>_. row) (db_signed_prekeys db)\<rparr>)
         else if \<not> list_ex (\<lambda>d. dev_DeviceID d = spk_DeviceID sp) (db_devices db) then Inl ErrConstraint
         else Inr (db\<lparr>db_signed_prekeys := db_signed_prekeys db @ [row]\<rparr>))"

definition GetSignedPrekey :: "database \<Rightarrow> string \<Rightarrow> store_error + SignedPrekey" where
  "GetSignedPrekey db deviceID =
     (case row_get spk_DeviceID deviceID (db_signed_prekeys db) of None \<Rightarrow> Inl ErrNotFound | Some k \<Rightarrow> Inr k)"

fun AddOneTimePrekeys :: "database \<Rightarrow> string \<Rightarrow> OneTimePrekeyInput list \<Rightarrow> time \<Rightarrow> store_error + database" where
  "AddOneTimePrekeys db deviceID [] now = Inr db"
| "AddOneTimePrekeys db deviceID (k # ks) now =
     (if \<not> list_ex (\<lambda>d. dev_DeviceID d = deviceID) (db_devices db) then Inl ErrConstraint
      else let n = Suc (db_prekey_sequence db) in
        AddOneTimePrekeys (db\<lparr>db_prekey_sequence := n, db_one_time_prekeys := db_one_time_prekeys db @
          [\<lparr>otp_id = n, otp_device_id = deviceID, otp_key = k, otp_created_at = formatTime now\<rparr>]\<rparr>) deviceID ks now)"

definition DeleteOneTimePrekeys :: "database \<Rightarrow> string \<Rightarrow> database" where
  "DeleteOneTimePrekeys db deviceID =
     db\<lparr>db_one_time_prekeys := row_delete (\<lambda>k. otp_device_id k = deviceID) (db_one_time_prekeys db)\<rparr>"

definition CountOneTimePrekeys :: "database \<Rightarrow> string \<Rightarrow> nat" where
  "CountOneTimePrekeys db deviceID = row_count (\<lambda>k. otp_device_id k = deviceID) (db_one_time_prekeys db)"

text \<open>The table is in \<open>id\<close> order, so the first row of the device is the one with the least id.\<close>

definition ClaimOneTimePrekey :: "database \<Rightarrow> string \<Rightarrow> OneTimePrekeyInput option \<times> database" where
  "ClaimOneTimePrekey db deviceID =
     (case row_get otp_device_id deviceID (db_one_time_prekeys db) of
        None \<Rightarrow> (None, db)
      | Some k \<Rightarrow> (Some (otp_key k),
          db\<lparr>db_one_time_prekeys := row_delete (\<lambda>x. otp_id x = otp_id k) (db_one_time_prekeys db)\<rparr>))"

section \<open>setup.go\<close>

definition setupTokenSymbols :: int where "setupTokenSymbols = 8"
definition MaxSetupTokenAttempts :: nat where "MaxSetupTokenAttempts = 10"

definition hashToken :: "platform \<Rightarrow> string \<Rightarrow> string" where
  "hashToken P token = hex_encode (sha256 P token)"

definition generateSetupToken :: "bytes \<Rightarrow> string option" where
  "generateSetupToken rnd = Generate setupTokenSymbols rnd"

definition InitSetupToken :: "platform \<Rightarrow> database \<Rightarrow> bytes \<Rightarrow> time \<Rightarrow> store_error + (string \<times> bool \<times> database)" where
  "InitSetupToken P db rnd now =
     (if db_setup_token db \<noteq> None then Inr ([], False, db)
      else case generateSetupToken rnd of None \<Rightarrow> Inl ErrGenerate
        | Some token \<Rightarrow> Inr (token, True, db\<lparr>db_setup_token := Some \<lparr>tok_hash = hashToken P token,
            tok_created_at = formatTime now, tok_used_at = None, tok_used_by = None, tok_failed_attempts = 0\<rparr>\<rparr>))"

definition NormalizeSetupToken :: "platform \<Rightarrow> string \<Rightarrow> string" where
  "NormalizeSetupToken P token = code_Normalize P token"

definition ResetSetupToken :: "database \<Rightarrow> database" where
  "ResetSetupToken db = db\<lparr>db_setup_token := None\<rparr>"

definition ClaimSetupToken :: "platform \<Rightarrow> database \<Rightarrow> string \<Rightarrow> string \<Rightarrow> time \<Rightarrow> store_error + database" where
  "ClaimSetupToken P db token accountID now =
     (case db_setup_token db of None \<Rightarrow> Inl ErrInvalidToken
      | Some t \<Rightarrow>
          if tok_hash t = hashToken P (NormalizeSetupToken P token) \<and> tok_used_at t = None
             \<and> tok_failed_attempts t < MaxSetupTokenAttempts
          then if \<not> list_ex (\<lambda>a. acc_ID a = accountID) (db_accounts db) then Inl ErrConstraint
               else Inr (db\<lparr>db_setup_token := Some (t\<lparr>tok_used_at := Some (formatTime now), tok_used_by := Some accountID\<rparr>)\<rparr>)
          else Inl ErrInvalidToken)"

definition RecordFailedSetupTokenAttempt :: "database \<Rightarrow> database" where
  "RecordFailedSetupTokenAttempt db = db\<lparr>db_setup_token := map_option (\<lambda>t. if tok_used_at t = None
     then t\<lparr>tok_failed_attempts := Suc (tok_failed_attempts t)\<rparr> else t) (db_setup_token db)\<rparr>"

definition SetupTokenClaimed :: "database \<Rightarrow> bool" where
  "SetupTokenClaimed db = (case db_setup_token db of None \<Rightarrow> False | Some t \<Rightarrow> tok_used_at t \<noteq> None)"

section \<open>invites.go\<close>

definition inviteCodeSymbols :: int where "inviteCodeSymbols = 12"
definition inviteCodeGroup :: int where "inviteCodeGroup = 4"

definition CreateInviteCode ::
    "platform \<Rightarrow> database \<Rightarrow> bytes \<Rightarrow> string \<Rightarrow> time option \<Rightarrow> time \<Rightarrow> store_error + (string \<times> database)" where
  "CreateInviteCode P db rnd createdByAccountID expiresAt now =
     (case Generate inviteCodeSymbols rnd of None \<Rightarrow> Inl ErrGenerate
      | Some code \<Rightarrow>
          if list_ex (\<lambda>i. inv_code_hash i = hashToken P code) (db_invite_codes db) then Inl ErrConstraint
          else if \<not> list_ex (\<lambda>a. acc_ID a = createdByAccountID) (db_accounts db) then Inl ErrConstraint
          else Inr (code_Format code inviteCodeGroup, db\<lparr>db_invite_codes := db_invite_codes db @
            [\<lparr>inv_code_hash = hashToken P code, inv_CreatedByAccountID = createdByAccountID,
              inv_CreatedAt = formatTime now, inv_ExpiresAt = map_option formatTime expiresAt,
              inv_UsedAt = None, inv_UsedByAccountID = None\<rparr>]\<rparr>))"

definition inviteCodeHash :: "platform \<Rightarrow> string \<Rightarrow> string" where
  "inviteCodeHash P code = hashToken P (code_Normalize P code)"

definition PurgeExpiredInviteCodes :: "database \<Rightarrow> time \<Rightarrow> database" where
  "PurgeExpiredInviteCodes db now = db\<lparr>db_invite_codes := row_delete (\<lambda>i. inv_UsedAt i = None
     \<and> (case inv_ExpiresAt i of None \<Rightarrow> False | Some e \<Rightarrow> e \<le> formatTime now)) (db_invite_codes db)\<rparr>"

definition GetInviteCode :: "platform \<Rightarrow> database \<Rightarrow> string \<Rightarrow> store_error + InviteCode" where
  "GetInviteCode P db code =
     (case row_get inv_code_hash (inviteCodeHash P code) (db_invite_codes db) of
        None \<Rightarrow> Inl ErrNotFound | Some i \<Rightarrow> Inr i)"

definition ConsumeInviteCode ::
    "platform \<Rightarrow> database \<Rightarrow> string \<Rightarrow> string \<Rightarrow> time \<Rightarrow> store_error + database" where
  "ConsumeInviteCode P db code usedByAccountID now =
     (let target = (\<lambda>i. inv_code_hash i = inviteCodeHash P code \<and> inv_UsedAt i = None
            \<and> (case inv_ExpiresAt i of None \<Rightarrow> True | Some e \<Rightarrow> formatTime now < e))
      in if row_count target (db_invite_codes db) > 0
         then if \<not> list_ex (\<lambda>a. acc_ID a = usedByAccountID) (db_accounts db) then Inl ErrConstraint
              else Inr (db\<lparr>db_invite_codes := row_update target (\<lambda>i. i\<lparr>inv_UsedAt := Some (formatTime now),
                     inv_UsedByAccountID := Some usedByAccountID\<rparr>) (db_invite_codes db)\<rparr>)
         else case GetInviteCode P db code of Inl e \<Rightarrow> Inl e
              | Inr i \<Rightarrow> if inv_UsedAt i \<noteq> None then Inl ErrInviteAlreadyUsed
                  else if (case inv_ExpiresAt i of None \<Rightarrow> False | Some e \<Rightarrow> e \<le> now) then Inl ErrInviteExpired
                  else Inl ErrInviteAlreadyUsed)"

section \<open>nonces.go\<close>

definition RecordNonce :: "database \<Rightarrow> string \<Rightarrow> string \<Rightarrow> time \<Rightarrow> time \<Rightarrow> bool \<times> database" where
  "RecordNonce db deviceID nonce requestTimestamp expiresAt =
     (if list_ex (\<lambda>n. un_device_id n = deviceID \<and> un_nonce n = nonce) (db_used_nonces db) then (False, db)
      else (True, db\<lparr>db_used_nonces := db_used_nonces db @ [\<lparr>un_device_id = deviceID, un_nonce = nonce,
        un_request_timestamp = formatTime requestTimestamp, un_expires_at = formatTime expiresAt\<rparr>]\<rparr>))"

definition PurgeExpiredNonces :: "database \<Rightarrow> time \<Rightarrow> database" where
  "PurgeExpiredNonces db now =
     db\<lparr>db_used_nonces := row_delete (\<lambda>n. un_expires_at n < formatTime now) (db_used_nonces db)\<rparr>"

section \<open>federation.go and settings.go\<close>

definition IsFederationBlocked :: "database \<Rightarrow> string \<Rightarrow> bool" where
  "IsFederationBlocked db accountID = (row_count (\<lambda>e. fb_AccountID e = accountID) (db_blocklist db) > 0)"

definition BlockFederationSender ::
    "database \<Rightarrow> string \<Rightarrow> string \<Rightarrow> string option \<Rightarrow> time \<Rightarrow> database" where
  "BlockFederationSender db accountID blockedBy reason blockedAt =
     (let row = \<lparr>fb_AccountID = accountID, fb_BlockedAt = formatTime blockedAt, fb_BlockedBy = blockedBy, fb_Reason = reason\<rparr>
      in if list_ex (\<lambda>e. fb_AccountID e = accountID) (db_blocklist db)
         then db\<lparr>db_blocklist := row_update (\<lambda>e. fb_AccountID e = accountID) (\<lambda>_. row) (db_blocklist db)\<rparr>
         else db\<lparr>db_blocklist := db_blocklist db @ [row]\<rparr>)"

definition UnblockFederationSender :: "database \<Rightarrow> string \<Rightarrow> store_error + database" where
  "UnblockFederationSender db accountID =
     (if row_count (\<lambda>e. fb_AccountID e = accountID) (db_blocklist db) = 0 then Inl ErrNotFound
      else Inr (db\<lparr>db_blocklist := row_delete (\<lambda>e. fb_AccountID e = accountID) (db_blocklist db)\<rparr>))"

definition ListFederationBlocklist :: "database \<Rightarrow> FederationBlockEntry list" where
  "ListFederationBlocklist db = sort_key (\<lambda>e. - fb_BlockedAt e) (db_blocklist db)"

definition InitRegistrationPolicy :: "database \<Rightarrow> string \<Rightarrow> database" where
  "InitRegistrationPolicy db defaultPolicy =
     (if db_settings db \<noteq> None then db
      else db\<lparr>db_settings := Some \<lparr>set_registration_policy = defaultPolicy, set_federation_enabled = None\<rparr>\<rparr>)"

definition GetRegistrationPolicy :: "database \<Rightarrow> store_error + string" where
  "GetRegistrationPolicy db =
     (case db_settings db of None \<Rightarrow> Inl ErrScan | Some s \<Rightarrow> Inr (set_registration_policy s))"

definition SetRegistrationPolicy :: "database \<Rightarrow> string \<Rightarrow> database" where
  "SetRegistrationPolicy db policy =
     db\<lparr>db_settings := map_option (set_registration_policy_update (\<lambda>_. policy)) (db_settings db)\<rparr>"

definition boolToInt :: "bool \<Rightarrow> int" where
  "boolToInt b = (if b then 1 else 0)"

definition InitFederationEnabled :: "database \<Rightarrow> bool \<Rightarrow> store_error + database" where
  "InitFederationEnabled db defaultEnabled =
     (case db_settings db of None \<Rightarrow> Inl ErrScan
      | Some s \<Rightarrow> if set_federation_enabled s \<noteq> None then Inr db
          else Inr (db\<lparr>db_settings := Some (s\<lparr>set_federation_enabled := Some (boolToInt defaultEnabled)\<rparr>)\<rparr>))"

definition GetFederationEnabled :: "database \<Rightarrow> store_error + bool" where
  "GetFederationEnabled db =
     (case db_settings db of None \<Rightarrow> Inl ErrScan
      | Some s \<Rightarrow> Inr (case set_federation_enabled s of None \<Rightarrow> True | Some v \<Rightarrow> v \<noteq> 0))"

definition SetFederationEnabled :: "database \<Rightarrow> bool \<Rightarrow> database" where
  "SetFederationEnabled db enabled =
     db\<lparr>db_settings := map_option (set_federation_enabled_update (\<lambda>_. Some (boolToInt enabled))) (db_settings db)\<rparr>"

section \<open>blobs.go\<close>

fun add_blob_recipients :: "database \<Rightarrow> string \<Rightarrow> string list \<Rightarrow> store_error + database" where
  "add_blob_recipients db blobID [] = Inr db"
| "add_blob_recipients db blobID (d # ds) =
     (if (blobID, d) \<in> set (db_blob_recipients db) then Inl ErrConstraint
      else if \<not> list_ex (\<lambda>v. dev_DeviceID v = d) (db_devices db) then Inl ErrConstraint
      else add_blob_recipients (db\<lparr>db_blob_recipients := db_blob_recipients db @ [(blobID, d)]\<rparr>) blobID ds)"

definition CreateBlob :: "database \<Rightarrow> Blob \<Rightarrow> string list \<Rightarrow> store_error + database" where
  "CreateBlob db b recipientDeviceIDs =
     (if recipientDeviceIDs = [] then Inl ErrNoRecipients
      else if list_ex (\<lambda>x. blob_BlobID x = blob_BlobID b) (db_blobs db) then Inl ErrConflict
      else add_blob_recipients (db\<lparr>db_blobs := db_blobs db @ [b\<lparr>blob_CreatedAt := formatTime (blob_CreatedAt b),
        blob_ExpiresAt := formatTime (blob_ExpiresAt b)\<rparr>]\<rparr>) (blob_BlobID b) recipientDeviceIDs)"

text \<open>The join of a device's claims with the blobs they name.\<close>

definition device_blobs :: "database \<Rightarrow> string \<Rightarrow> Blob list" where
  "device_blobs db deviceID = concat (map (\<lambda>r. filter (\<lambda>b. blob_BlobID b = fst r) (db_blobs db))
     (filter (\<lambda>r. snd r = deviceID) (db_blob_recipients db)))"

definition BlobUsage :: "database \<Rightarrow> string \<Rightarrow> nat \<times> int" where
  "BlobUsage db recipientDeviceID =
     (let bs = device_blobs db recipientDeviceID in (length bs, sum_list (map blob_SizeBytes bs)))"

text \<open>
  The loop of \<open>CreateBlobWithQuota\<close> only reads the database, so it splits the candidates by one
  test against the database as it is.
\<close>

definition blob_fits :: "database \<Rightarrow> Blob \<Rightarrow> nat \<Rightarrow> int \<Rightarrow> string \<Rightarrow> bool" where
  "blob_fits db b maxBlobs maxBytesPerDevice deviceID =
     (case BlobUsage db deviceID of (n, totalBytes) \<Rightarrow>
        \<not> (n \<ge> maxBlobs \<or> totalBytes + blob_SizeBytes b > maxBytesPerDevice))"

definition CreateBlobWithQuota :: "database \<Rightarrow> Blob \<Rightarrow> string list \<Rightarrow> nat \<Rightarrow> int
    \<Rightarrow> store_error + (string list \<times> string list \<times> database)" where
  "CreateBlobWithQuota db b candidateDeviceIDs maxBlobs maxBytesPerDevice =
     (let stored = filter (blob_fits db b maxBlobs maxBytesPerDevice) candidateDeviceIDs;
          quotaExceeded = filter (\<lambda>d. \<not> blob_fits db b maxBlobs maxBytesPerDevice d) candidateDeviceIDs
      in if stored = [] then Inr ([], quotaExceeded, db)
         else case CreateBlob db b stored of Inl e \<Rightarrow> Inl e | Inr db' \<Rightarrow> Inr (stored, quotaExceeded, db'))"

definition TotalBlobBytes :: "database \<Rightarrow> int" where
  "TotalBlobBytes db = sum_list (map blob_SizeBytes (db_blobs db))"

definition GetBlobForDevice :: "database \<Rightarrow> string \<Rightarrow> string \<Rightarrow> store_error + Blob" where
  "GetBlobForDevice db blobID recipientDeviceID =
     (if (blobID, recipientDeviceID) \<notin> set (db_blob_recipients db) then Inl ErrNotFound
      else case row_get blob_BlobID blobID (db_blobs db) of None \<Rightarrow> Inl ErrNotFound | Some b \<Rightarrow> Inr b)"

text \<open>Deleting a blob row takes its recipient rows along.\<close>

definition DeleteBlobByID :: "database \<Rightarrow> string \<Rightarrow> database" where
  "DeleteBlobByID db blobID = db\<lparr>db_blobs := row_delete (\<lambda>b. blob_BlobID b = blobID) (db_blobs db),
     db_blob_recipients := row_delete (\<lambda>r. fst r = blobID) (db_blob_recipients db)\<rparr>"

definition DeleteBlobForDevice :: "database \<Rightarrow> string \<Rightarrow> string \<Rightarrow> store_error + (bool \<times> database)" where
  "DeleteBlobForDevice db blobID recipientDeviceID =
     (let target = (\<lambda>r. r = (blobID, recipientDeviceID)) in
      if row_count target (db_blob_recipients db) = 0 then Inl ErrNotFound
      else let db' = db\<lparr>db_blob_recipients := row_delete target (db_blob_recipients db)\<rparr>
           in if row_count (\<lambda>r. fst r = blobID) (db_blob_recipients db') > 0 then Inr (False, db')
              else Inr (True, DeleteBlobByID db' blobID))"

definition ListExpiredBlobs :: "database \<Rightarrow> time \<Rightarrow> nat \<Rightarrow> Blob list" where
  "ListExpiredBlobs db now limit =
     take limit (sort_key blob_ExpiresAt (filter (\<lambda>b. blob_ExpiresAt b < formatTime now) (db_blobs db)))"

definition ListUnreferencedBlobs :: "database \<Rightarrow> nat \<Rightarrow> Blob list" where
  "ListUnreferencedBlobs db limit = take limit (sort_key blob_CreatedAt
     (filter (\<lambda>b. \<not> list_ex (\<lambda>r. fst r = blob_BlobID b) (db_blob_recipients db)) (db_blobs db)))"

definition BlobIDExists :: "database \<Rightarrow> string \<Rightarrow> bool" where
  "BlobIDExists db blobID = (row_count (\<lambda>b. blob_BlobID b = blobID) (db_blobs db) > 0)"

definition BlobRecipients :: "database \<Rightarrow> string \<Rightarrow> string list" where
  "BlobRecipients db blobID = map snd (filter (\<lambda>r. fst r = blobID) (db_blob_recipients db))"

section \<open>reports.go\<close>

definition ReportOpen :: string where "ReportOpen = ''open''"
definition ReportActioned :: string where "ReportActioned = ''actioned''"
definition ReportDismissed :: string where "ReportDismissed = ''dismissed''"
definition ReportAbusive :: string where "ReportAbusive = ''abusive''"

definition ValidReportCategory :: "string \<Rightarrow> bool" where
  "ValidReportCategory c \<longleftrightarrow> c \<in> {''spam'', ''harassment'', ''fraud'', ''other''}"

definition ValidReportOutcome :: "string \<Rightarrow> bool" where
  "ValidReportOutcome c \<longleftrightarrow> c \<in> {ReportActioned, ReportDismissed, ReportAbusive}"

definition report_pair :: "Report \<Rightarrow> string \<times> string \<times> string \<times> string" where
  "report_pair r = (rep_ReporterID r, rep_ReporterServer r, rep_ReportedID r, rep_ReportedServer r)"

definition next_report_id :: "Report list \<Rightarrow> nat" where
  "next_report_id rs = Suc (foldr max (map rep_ID rs) 0)"

definition SaveReport :: "database \<Rightarrow> Report \<Rightarrow> time \<Rightarrow> database" where
  "SaveReport db r now =
     (if list_ex (\<lambda>x. report_pair x = report_pair r) (db_reports db)
      then db\<lparr>db_reports := row_update (\<lambda>x. report_pair x = report_pair r)
        (\<lambda>x. x\<lparr>rep_Category := rep_Category r, rep_Evidence := rep_Evidence r,
           rep_EvidenceVerified := rep_EvidenceVerified r, rep_State := ReportOpen,
           rep_UpdatedAt := formatTime now, rep_ResolvedBy := None, rep_ResolvedAt := None\<rparr>) (db_reports db)\<rparr>
      else db\<lparr>db_reports := db_reports db @ [r\<lparr>rep_ID := next_report_id (db_reports db), rep_State := ReportOpen,
        rep_CreatedAt := formatTime now, rep_UpdatedAt := formatTime now, rep_ResolvedBy := None, rep_ResolvedAt := None\<rparr>]\<rparr>)"

definition WithdrawReport ::
    "database \<Rightarrow> string \<Rightarrow> string \<Rightarrow> string \<Rightarrow> string \<Rightarrow> store_error + database" where
  "WithdrawReport db reporterID reporterServer reportedID reportedServer =
     (let target = (\<lambda>r. report_pair r = (reporterID, reporterServer, reportedID, reportedServer))
      in if row_count target (db_reports db) = 0 then Inl ErrNotFound
         else Inr (db\<lparr>db_reports := row_delete target (db_reports db)\<rparr>))"

definition CountOpenReportsBy :: "database \<Rightarrow> string \<Rightarrow> string \<Rightarrow> nat" where
  "CountOpenReportsBy db reporterID reporterServer = row_count (\<lambda>r. rep_ReporterID r = reporterID
     \<and> rep_ReporterServer r = reporterServer \<and> rep_State r = ReportOpen) (db_reports db)"

definition ResolveReport :: "database \<Rightarrow> nat \<Rightarrow> string \<Rightarrow> string \<Rightarrow> time \<Rightarrow> store_error + database" where
  "ResolveReport db ident outcome resolvedBy now =
     (if row_count (\<lambda>r. rep_ID r = ident) (db_reports db) = 0 then Inl ErrNotFound
      else Inr (db\<lparr>db_reports := row_update (\<lambda>r. rep_ID r = ident) (\<lambda>r. r\<lparr>rep_State := outcome,
        rep_ResolvedBy := Some resolvedBy, rep_ResolvedAt := Some (formatTime now), rep_UpdatedAt := formatTime now\<rparr>)
        (db_reports db)\<rparr>))"

definition GetReport :: "database \<Rightarrow> nat \<Rightarrow> store_error + Report" where
  "GetReport db ident =
     (case row_get rep_ID ident (db_reports db) of None \<Rightarrow> Inl ErrNotFound | Some r \<Rightarrow> Inr r)"

definition ListReports :: "database \<Rightarrow> bool \<Rightarrow> bool \<Rightarrow> Report list" where
  "ListReports db openOnly staffVisible = sort_key (\<lambda>r. - rep_CreatedAt r) (filter (\<lambda>r.
     (openOnly \<longrightarrow> rep_State r = ReportOpen)
     \<and> (\<not> staffVisible \<longrightarrow> \<not> list_ex (\<lambda>a. acc_ID a = rep_ReportedID r \<and> rep_ReportedServer r = []
          \<and> acc_Role a \<in> {RoleModerator, RoleAdmin}) (db_accounts db))) (db_reports db))"

definition PurgeReportsBefore :: "database \<Rightarrow> time \<Rightarrow> database" where
  "PurgeReportsBefore db cutoff =
     db\<lparr>db_reports := row_delete (\<lambda>r. rep_CreatedAt r < formatTime cutoff) (db_reports db)\<rparr>"

lemmas status_defs = AccountStatusActive_def AccountStatusDisabled_def DeviceStatusActive_def
  DeviceStatusRevoked_def RoleUser_def RoleModerator_def RoleAdmin_def ReportOpen_def
  ReportActioned_def ReportDismissed_def ReportAbusive_def

end
