(* ===== verification/Store_Integrity.thy ===== *)
theory Store_Integrity
  imports Store
begin

text \<open>
  The integrity of the database: uniqueness of keys, referential integrity through every cascade,
  one wake mechanism per device. Every store operation keeps it, so any history of them does; the
  handlers' theorems start from it. Further properties of single operations follow: what deleting an
  account leaves behind, and that a one-time prekey is handed out once.
\<close>

section \<open>The invariant, table by table\<close>

definition accounts_ok :: "Account list \<Rightarrow> bool" where
  "accounts_ok xs \<longleftrightarrow> unique_key acc_ID xs \<and> unique_key (\<lambda>a. id_prefix (acc_ID a)) xs"

definition devices_ok :: "string set \<Rightarrow> Device list \<Rightarrow> bool" where
  "devices_ok A xs \<longleftrightarrow> unique_key dev_DeviceID xs
     \<and> (\<forall>d \<in> set xs. dev_AccountID d \<in> A \<and> (dev_Push d = None \<or> dev_PushTarget d = None))"

definition messages_ok :: "string set \<Rightarrow> Message list \<Rightarrow> bool" where
  "messages_ok D xs \<longleftrightarrow> unique_key msg_MessageID xs \<and> (\<forall>m \<in> set xs. msg_RecipientDeviceID m \<in> D)"

definition signed_prekeys_ok :: "string set \<Rightarrow> SignedPrekey list \<Rightarrow> bool" where
  "signed_prekeys_ok D xs \<longleftrightarrow> unique_key spk_DeviceID xs \<and> (\<forall>k \<in> set xs. spk_DeviceID k \<in> D)"

definition one_time_prekeys_ok :: "string set \<Rightarrow> nat \<Rightarrow> one_time_prekey list \<Rightarrow> bool" where
  "one_time_prekeys_ok D n xs \<longleftrightarrow> unique_key otp_id xs \<and> (\<forall>k \<in> set xs. otp_device_id k \<in> D \<and> otp_id k \<le> n)"

definition invites_ok :: "string set \<Rightarrow> InviteCode list \<Rightarrow> bool" where
  "invites_ok A xs \<longleftrightarrow> unique_key inv_code_hash xs
     \<and> (\<forall>i \<in> set xs. inv_CreatedByAccountID i \<in> A \<and> set_option (inv_UsedByAccountID i) \<subseteq> A
          \<and> (inv_UsedByAccountID i \<noteq> None \<longrightarrow> inv_UsedAt i \<noteq> None))"

definition token_ok :: "string set \<Rightarrow> setup_token option \<Rightarrow> bool" where
  "token_ok A t \<longleftrightarrow> (case t of None \<Rightarrow> True | Some x \<Rightarrow> set_option (tok_used_by x) \<subseteq> A)"

definition blobs_ok :: "string set \<Rightarrow> Blob list \<Rightarrow> (string \<times> string) list \<Rightarrow> bool" where
  "blobs_ok D bs rs \<longleftrightarrow> unique_key blob_BlobID bs \<and> distinct rs
     \<and> (\<forall>r \<in> set rs. fst r \<in> blob_BlobID ` set bs \<and> snd r \<in> D)"

definition reports_ok :: "Report list \<Rightarrow> bool" where
  "reports_ok xs \<longleftrightarrow> unique_key rep_ID xs \<and> unique_key report_pair xs"

abbreviation account_ids :: "database \<Rightarrow> string set" where
  "account_ids db \<equiv> acc_ID ` set (db_accounts db)"

abbreviation device_ids :: "database \<Rightarrow> string set" where
  "device_ids db \<equiv> dev_DeviceID ` set (db_devices db)"

definition db_ok :: "database \<Rightarrow> bool" where
  "db_ok db \<longleftrightarrow> accounts_ok (db_accounts db) \<and> devices_ok (account_ids db) (db_devices db)
     \<and> messages_ok (device_ids db) (db_messages db)
     \<and> signed_prekeys_ok (device_ids db) (db_signed_prekeys db)
     \<and> one_time_prekeys_ok (device_ids db) (db_prekey_sequence db) (db_one_time_prekeys db)
     \<and> invites_ok (account_ids db) (db_invite_codes db) \<and> token_ok (account_ids db) (db_setup_token db)
     \<and> unique_key (\<lambda>n. (un_device_id n, un_nonce n)) (db_used_nonces db)
     \<and> unique_key fb_AccountID (db_blocklist db)
     \<and> blobs_ok (device_ids db) (db_blobs db) (db_blob_recipients db) \<and> reports_ok (db_reports db)"

lemmas table_ok_defs = accounts_ok_def devices_ok_def messages_ok_def signed_prekeys_ok_def
  one_time_prekeys_ok_def invites_ok_def token_ok_def blobs_ok_def reports_ok_def

lemma db_okD:
  assumes "db_ok db"
  shows "unique_key acc_ID (db_accounts db)" "unique_key dev_DeviceID (db_devices db)"
    "unique_key msg_MessageID (db_messages db)"
    "d \<in> set (db_devices db) \<Longrightarrow> dev_AccountID d \<in> account_ids db"
  using assms by (auto simp: db_ok_def table_ok_defs)

lemma empty_database_ok: "db_ok empty_database"
  by (simp add: db_ok_def table_ok_defs empty_database_def)

section \<open>Larger parents, untouched children\<close>

lemma devices_ok_mono: "devices_ok A xs \<Longrightarrow> A \<subseteq> B \<Longrightarrow> devices_ok B xs"
  by (auto simp: devices_ok_def)

lemma messages_ok_mono: "messages_ok A xs \<Longrightarrow> A \<subseteq> B \<Longrightarrow> messages_ok B xs"
  by (auto simp: messages_ok_def)

lemma signed_prekeys_ok_mono: "signed_prekeys_ok A xs \<Longrightarrow> A \<subseteq> B \<Longrightarrow> signed_prekeys_ok B xs"
  by (auto simp: signed_prekeys_ok_def)

lemma one_time_prekeys_ok_mono: "one_time_prekeys_ok A n xs \<Longrightarrow> A \<subseteq> B \<Longrightarrow> one_time_prekeys_ok B n xs"
  by (auto simp: one_time_prekeys_ok_def)

lemma invites_ok_mono: "invites_ok A xs \<Longrightarrow> A \<subseteq> B \<Longrightarrow> invites_ok B xs"
  by (fastforce simp: invites_ok_def)

lemma token_ok_mono: "token_ok A t \<Longrightarrow> A \<subseteq> B \<Longrightarrow> token_ok B t"
  by (auto simp: token_ok_def split: option.splits)

lemma blobs_ok_mono: "blobs_ok A bs rs \<Longrightarrow> A \<subseteq> B \<Longrightarrow> blobs_ok B bs rs"
  by (auto simp: blobs_ok_def)

lemmas ok_monos = devices_ok_mono messages_ok_mono signed_prekeys_ok_mono one_time_prekeys_ok_mono
  invites_ok_mono token_ok_mono blobs_ok_mono

section \<open>Accounts and devices\<close>

lemma CreateAccount_Inr:
  "CreateAccount db acc = Inr db' \<longleftrightarrow> acc_ID acc \<notin> account_ids db
     \<and> id_prefix (acc_ID acc) \<notin> (\<lambda>a. id_prefix (acc_ID a)) ` set (db_accounts db)
     \<and> db' = db\<lparr>db_accounts := db_accounts db @ [acc\<lparr>acc_CreatedAt := formatTime (acc_CreatedAt acc)\<rparr>]\<rparr>"
  unfolding CreateAccount_def Let_def list_ex_disj list_ex_key
  by (cases "acc_ID acc \<in> account_ids db") (auto split: sum.split)

lemma CreateAccount_ok [preserve_rules]: "db_ok db \<Longrightarrow> CreateAccount db acc = Inr db' \<Longrightarrow> db_ok db'"
  unfolding CreateAccount_Inr db_ok_def
  by (auto intro: ok_monos simp: accounts_ok_def unique_key_append)

lemma row_update_accounts_ok:
  assumes "db_ok db" "\<And>a. acc_ID (f a) = acc_ID a"
  shows "db_ok (db\<lparr>db_accounts := row_update p f (db_accounts db)\<rparr>)"
proof -
  have "acc_ID ` set (row_update p f (db_accounts db)) = account_ids db"
    using assms(2) by (rule keys_row_update)
  with assms show ?thesis by (simp add: db_ok_def accounts_ok_def unique_key_update)
qed

lemma SetAccountRole_ok [preserve_rules]: "db_ok db \<Longrightarrow> SetAccountRole db i r = Inr db' \<Longrightarrow> db_ok db'"
  by (auto simp: SetAccountRole_def split: if_splits intro!: row_update_accounts_ok)

lemma SetAccountStatus_ok [preserve_rules]: "db_ok db \<Longrightarrow> SetAccountStatus db i r = Inr db' \<Longrightarrow> db_ok db'"
  by (auto simp: SetAccountStatus_def split: if_splits intro!: row_update_accounts_ok)

lemma CreateDevice_Inr:
  "CreateDevice db d = Inr db' \<longleftrightarrow> dev_DeviceID d \<notin> device_ids db \<and> dev_AccountID d \<in> account_ids db
     \<and> db' = db\<lparr>db_devices := db_devices db @ [device_row d]\<rparr>"
  by (auto simp: CreateDevice_def list_ex_key)

lemma device_row_sels [simp]: "dev_DeviceID (device_row d) = dev_DeviceID d"
  "dev_AccountID (device_row d) = dev_AccountID d" "dev_Push (device_row d) = None"
  "dev_Status (device_row d) = dev_Status d" "dev_DevicePubKey (device_row d) = dev_DevicePubKey d"
  by (simp_all add: device_row_def)

lemma CreateDevice_ok [preserve_rules]: "db_ok db \<Longrightarrow> CreateDevice db d = Inr db' \<Longrightarrow> db_ok db'"
  unfolding CreateDevice_Inr db_ok_def
  by (auto intro: ok_monos simp: devices_ok_def unique_key_append)

lemma row_update_devices_ok:
  assumes "db_ok db" "\<And>d. dev_DeviceID (f d) = dev_DeviceID d" "\<And>d. dev_AccountID (f d) = dev_AccountID d"
    "\<And>d. dev_Push d = None \<or> dev_PushTarget d = None \<Longrightarrow> dev_Push (f d) = None \<or> dev_PushTarget (f d) = None"
  shows "db_ok (db\<lparr>db_devices := row_update p f (db_devices db)\<rparr>)"
proof -
  have "dev_DeviceID ` set (row_update p f (db_devices db)) = device_ids db"
    using assms(2) by (rule keys_row_update)
  moreover have "devices_ok (account_ids db) (row_update p f (db_devices db))"
    using assms(1) assms(4) unfolding db_ok_def devices_ok_def set_row_update ball_simps
    by (simp add: unique_key_update assms(2,3))
  ultimately show ?thesis using assms(1) by (simp add: db_ok_def)
qed

lemma RevokeDevice_ok [preserve_rules]: "db_ok db \<Longrightarrow> RevokeDevice db a d t = Inr db' \<Longrightarrow> db_ok db'"
  by (auto simp: RevokeDevice_def Let_def split: if_splits intro!: row_update_devices_ok)

lemma UpsertDHIdentity_ok [preserve_rules]: "db_ok db \<Longrightarrow> UpsertDHIdentity db d k s t = Inr db' \<Longrightarrow> db_ok db'"
  by (auto simp: UpsertDHIdentity_def update_device_def split: if_splits intro!: row_update_devices_ok)

lemma SetDevicePushSubscription_ok [preserve_rules]:
  "db_ok db \<Longrightarrow> SetDevicePushSubscription db d s = Inr db' \<Longrightarrow> db_ok db'"
  by (auto simp: SetDevicePushSubscription_def update_device_def split: if_splits intro!: row_update_devices_ok)

lemma SetDevicePushTarget_ok [preserve_rules]:
  "db_ok db \<Longrightarrow> SetDevicePushTarget db d s = Inr db' \<Longrightarrow> db_ok db'"
  by (auto simp: SetDevicePushTarget_def update_device_def split: if_splits intro!: row_update_devices_ok)

section \<open>Deleting an account\<close>

lemma devices_ok_delete:
  "devices_ok A xs \<Longrightarrow> devices_ok (A - {ident}) (row_delete (\<lambda>d. dev_AccountID d = ident) xs)"
  by (auto simp: devices_ok_def set_row_delete)

lemma device_ids_delete:
  assumes "unique_key dev_DeviceID xs"
  shows "dev_DeviceID ` set (row_delete (\<lambda>d. dev_AccountID d = ident) xs) =
    {x \<in> dev_DeviceID ` set xs. \<not> device_of ident xs x}"
  using row_get_unique [OF assms] by (auto simp: set_row_delete device_of_def list_ex_iff) (metis option.inject)

lemma invites_ok_delete:
  "invites_ok A xs \<Longrightarrow> invites_ok (A - {ident}) (row_update (\<lambda>i. inv_UsedByAccountID i = Some ident)
     (inv_UsedByAccountID_update (\<lambda>_. None)) (row_delete (\<lambda>i. inv_CreatedByAccountID i = ident) xs))"
  by (auto simp: invites_ok_def unique_key_update set_row_update set_row_delete)

lemma token_ok_delete:
  "token_ok A t \<Longrightarrow> token_ok (A - {ident})
     (map_option (\<lambda>x. if tok_used_by x = Some ident then x\<lparr>tok_used_by := None\<rparr> else x) t)"
  by (auto simp: token_ok_def split: option.splits)

lemma messages_ok_delete:
  "messages_ok D xs \<Longrightarrow> messages_ok {x \<in> D. \<not> g x} (row_delete (\<lambda>m. g (msg_RecipientDeviceID m)) xs)"
  by (auto simp: messages_ok_def set_row_delete)

lemma signed_prekeys_ok_delete:
  "signed_prekeys_ok D xs \<Longrightarrow> signed_prekeys_ok {x \<in> D. \<not> g x} (row_delete (\<lambda>k. g (spk_DeviceID k)) xs)"
  by (auto simp: signed_prekeys_ok_def set_row_delete)

lemma one_time_prekeys_ok_delete:
  "one_time_prekeys_ok D n xs \<Longrightarrow> one_time_prekeys_ok {x \<in> D. \<not> g x} n (row_delete (\<lambda>k. g (otp_device_id k)) xs)"
  by (auto simp: one_time_prekeys_ok_def set_row_delete)

lemma blobs_ok_delete:
  "blobs_ok D bs rs \<Longrightarrow> blobs_ok {x \<in> D. \<not> g x} bs (row_delete (\<lambda>r. g (snd r)) rs)"
  by (auto simp: blobs_ok_def row_delete_def)

lemma reports_ok_delete: "reports_ok xs \<Longrightarrow> reports_ok (row_delete p xs)"
  by (simp add: reports_ok_def)

lemma account_ids_delete:
  "acc_ID ` set (row_delete (\<lambda>a. acc_ID a = ident) xs) = acc_ID ` set xs - {ident}"
  by (auto simp: set_row_delete)

lemma DeleteAccount_ok [preserve_rules]: "db_ok db \<Longrightarrow> DeleteAccount db ident = Inr db' \<Longrightarrow> db_ok db'"
proof -
  assume ok: "db_ok db" and del: "DeleteAccount db ident = Inr db'"
  have eq: "db' = DeleteReportsForAccount (cascade_account ident
      (db\<lparr>db_accounts := row_delete (\<lambda>a. acc_ID a = ident) (db_accounts db)\<rparr>)) ident"
    using del by (simp add: DeleteAccount_def split: if_splits)
  have ids: "dev_DeviceID ` set (row_delete (\<lambda>d. dev_AccountID d = ident) (db_devices db)) =
    {x \<in> device_ids db. \<not> device_of ident (db_devices db) x}"
    by (rule device_ids_delete) (rule db_okD(2) [OF ok])
  show "db_ok db'"
    using ok unfolding eq db_ok_def DeleteReportsForAccount_def cascade_account_def cascade_devices_def
    by (simp add: ids account_ids_delete devices_ok_delete invites_ok_delete token_ok_delete
        messages_ok_delete signed_prekeys_ok_delete one_time_prekeys_ok_delete blobs_ok_delete
        reports_ok_delete) (simp add: accounts_ok_def)
qed

section \<open>Messages, prekeys, invites, tokens, nonces\<close>

lemma CreateMessage_Inr:
  "CreateMessage db m = Inr db' \<longleftrightarrow> msg_MessageID m \<notin> msg_MessageID ` set (db_messages db)
     \<and> msg_RecipientDeviceID m \<in> device_ids db
     \<and> db' = db\<lparr>db_messages := db_messages db @ [m\<lparr>msg_SentAt := formatTime (msg_SentAt m),
         msg_ExpiresAt := formatTime (msg_ExpiresAt m)\<rparr>]\<rparr>"
  by (auto simp: CreateMessage_def list_ex_key)

lemma CreateMessage_ok [preserve_rules]: "db_ok db \<Longrightarrow> CreateMessage db m = Inr db' \<Longrightarrow> db_ok db'"
  unfolding CreateMessage_Inr db_ok_def by (auto simp: messages_ok_def unique_key_append)

lemma CreateMessageUnderCap_ok [preserve_rules]:
  "db_ok db \<Longrightarrow> CreateMessageUnderCap db m n = Inr db' \<Longrightarrow> db_ok db'"
  by (auto simp: CreateMessageUnderCap_def split: if_splits intro: CreateMessage_ok)

lemma row_delete_messages_ok: "db_ok db \<Longrightarrow> db_ok (db\<lparr>db_messages := row_delete p (db_messages db)\<rparr>)"
  by (auto simp: db_ok_def messages_ok_def set_row_delete)

lemma DeleteMessage_ok [preserve_rules]: "db_ok db \<Longrightarrow> DeleteMessage db i d = Inr db' \<Longrightarrow> db_ok db'"
  by (auto simp: DeleteMessage_def Let_def split: if_splits intro!: row_delete_messages_ok)

lemma PurgeExpiredMessages_ok [preserve_rules]: "db_ok db \<Longrightarrow> db_ok (PurgeExpiredMessages db t)"
  by (simp add: PurgeExpiredMessages_def row_delete_messages_ok)

lemma UpsertSignedPrekey_ok [preserve_rules]: "db_ok db \<Longrightarrow> UpsertSignedPrekey db k = Inr db' \<Longrightarrow> db_ok db'"
proof -
  assume ok: "db_ok db" and up: "UpsertSignedPrekey db k = Inr db'"
  let ?row = "k\<lparr>spk_IssuedAt := formatTime (spk_IssuedAt k), spk_CreatedAt := formatTime (spk_CreatedAt k)\<rparr>"
  have sp: "unique_key spk_DeviceID (db_signed_prekeys db)" "\<forall>x \<in> set (db_signed_prekeys db). spk_DeviceID x \<in> device_ids db"
    using ok by (auto simp: db_ok_def signed_prekeys_ok_def)
  show "db_ok db'"
  proof (cases "spk_DeviceID k \<in> spk_DeviceID ` set (db_signed_prekeys db)")
    case True
    let ?rows = "row_update (\<lambda>x. spk_DeviceID x = spk_DeviceID k) (\<lambda>_. ?row) (db_signed_prekeys db)"
    have eq: "db' = db\<lparr>db_signed_prekeys := ?rows\<rparr>"
      using up True by (simp add: UpsertSignedPrekey_def Let_def list_ex_key)
    have m: "map spk_DeviceID ?rows = map spk_DeviceID (db_signed_prekeys db)"
      by (simp add: row_update_def)
    have "unique_key spk_DeviceID ?rows" using sp(1) m by (simp only: unique_key_def)
    moreover have "\<forall>x \<in> set ?rows. spk_DeviceID x \<in> device_ids db"
      using sp(2) True by (auto simp: set_row_update)
    ultimately show ?thesis using ok unfolding eq db_ok_def by (simp add: signed_prekeys_ok_def)
  next
    case False
    then have "spk_DeviceID k \<in> device_ids db" "db' = db\<lparr>db_signed_prekeys := db_signed_prekeys db @ [?row]\<rparr>"
      using up by (auto simp: UpsertSignedPrekey_def Let_def list_ex_key split: if_splits)
    with ok sp False show ?thesis
      unfolding db_ok_def by (auto simp: signed_prekeys_ok_def unique_key_append)
  qed
qed

lemma one_time_prekeys_ok_add:
  "one_time_prekeys_ok D n xs \<Longrightarrow> otp_device_id k \<in> D \<Longrightarrow> otp_id k = Suc n \<Longrightarrow> one_time_prekeys_ok D (Suc n) (xs @ [k])"
  unfolding one_time_prekeys_ok_def unique_key_append by fastforce

lemma AddOneTimePrekeys_ok [preserve_rules]:
  "db_ok db \<Longrightarrow> AddOneTimePrekeys db d ks t = Inr db' \<Longrightarrow> db_ok db'"
proof (induction db d ks t rule: AddOneTimePrekeys.induct)
  case (2 db d k ks t)
  let ?row = "\<lparr>otp_id = Suc (db_prekey_sequence db), otp_device_id = d, otp_key = k, otp_created_at = formatTime t\<rparr>"
  have d: "d \<in> device_ids db" using 2(3) by (auto simp: list_ex_key Let_def split: if_splits)
  then have ex: "list_ex (\<lambda>x. dev_DeviceID x = d) (db_devices db)" by (simp add: list_ex_key)
  have "db_ok (db\<lparr>db_prekey_sequence := Suc (db_prekey_sequence db),
      db_one_time_prekeys := db_one_time_prekeys db @ [?row]\<rparr>)"
    using 2(2) d unfolding db_ok_def by (simp add: one_time_prekeys_ok_add)
  with 2 ex show ?case by (simp add: Let_def)
qed simp

lemma row_delete_otp_ok: "db_ok db \<Longrightarrow> db_ok (db\<lparr>db_one_time_prekeys := row_delete p (db_one_time_prekeys db)\<rparr>)"
  by (auto simp: db_ok_def one_time_prekeys_ok_def set_row_delete)

lemma DeleteOneTimePrekeys_ok [preserve_rules]: "db_ok db \<Longrightarrow> db_ok (DeleteOneTimePrekeys db d)"
  by (simp add: DeleteOneTimePrekeys_def row_delete_otp_ok)

lemma ClaimOneTimePrekey_ok [preserve_rules]: "db_ok db \<Longrightarrow> db_ok (snd (ClaimOneTimePrekey db d))"
  by (auto simp: ClaimOneTimePrekey_def row_delete_otp_ok split: option.split)

lemma CreateInviteCode_ok [preserve_rules]:
  "db_ok db \<Longrightarrow> CreateInviteCode P db rnd a e t = Inr (c, db') \<Longrightarrow> db_ok db'"
  by (auto simp: CreateInviteCode_def list_ex_key db_ok_def invites_ok_def unique_key_append
      split: option.splits if_splits)

lemma PurgeExpiredInviteCodes_ok [preserve_rules]: "db_ok db \<Longrightarrow> db_ok (PurgeExpiredInviteCodes db t)"
  by (auto simp: PurgeExpiredInviteCodes_def db_ok_def invites_ok_def set_row_delete)

lemma ConsumeInviteCode_Inr:
  "ConsumeInviteCode P db c a t = Inr db' \<Longrightarrow> a \<in> account_ids db
     \<and> db' = db\<lparr>db_invite_codes := row_update (\<lambda>i. inv_code_hash i = inviteCodeHash P c \<and> inv_UsedAt i = None
            \<and> (case inv_ExpiresAt i of None \<Rightarrow> True | Some e \<Rightarrow> formatTime t < e))
         (\<lambda>i. i\<lparr>inv_UsedAt := Some (formatTime t), inv_UsedByAccountID := Some a\<rparr>) (db_invite_codes db)\<rparr>"
  by (auto simp: ConsumeInviteCode_def Let_def list_ex_key split: if_splits sum.splits)

lemma invites_ok_use:
  assumes "invites_ok A xs" "a \<in> A"
  shows "invites_ok A (row_update p (\<lambda>i. i\<lparr>inv_UsedAt := Some t, inv_UsedByAccountID := Some a\<rparr>) xs)"
  using assms unfolding invites_ok_def set_row_update ball_simps by (simp add: unique_key_update)

lemma ConsumeInviteCode_ok [preserve_rules]:
  "db_ok db \<Longrightarrow> ConsumeInviteCode P db c a t = Inr db' \<Longrightarrow> db_ok db'"
  by (drule ConsumeInviteCode_Inr) (auto simp: db_ok_def intro!: invites_ok_use)

lemma InitSetupToken_ok [preserve_rules]:
  "db_ok db \<Longrightarrow> InitSetupToken P db rnd t = Inr (tok, new, db') \<Longrightarrow> db_ok db'"
  by (auto simp: InitSetupToken_def db_ok_def token_ok_def split: if_splits option.splits)

lemma ResetSetupToken_ok [preserve_rules]: "db_ok db \<Longrightarrow> db_ok (ResetSetupToken db)"
  by (auto simp: ResetSetupToken_def db_ok_def token_ok_def)

lemma ClaimSetupToken_ok [preserve_rules]:
  "db_ok db \<Longrightarrow> ClaimSetupToken P db tok a t = Inr db' \<Longrightarrow> db_ok db'"
  by (auto simp: ClaimSetupToken_def list_ex_key db_ok_def token_ok_def split: if_splits option.splits)

lemma RecordFailedSetupTokenAttempt_ok [preserve_rules]: "db_ok db \<Longrightarrow> db_ok (RecordFailedSetupTokenAttempt db)"
  by (auto simp: RecordFailedSetupTokenAttempt_def db_ok_def token_ok_def split: option.splits)

lemma RecordNonce_ok [preserve_rules]: "db_ok db \<Longrightarrow> db_ok (snd (RecordNonce db d n t e))"
  by (auto simp: RecordNonce_def db_ok_def unique_key_append list_ex_iff)

lemma PurgeExpiredNonces_ok [preserve_rules]: "db_ok db \<Longrightarrow> db_ok (PurgeExpiredNonces db t)"
  by (simp add: PurgeExpiredNonces_def db_ok_def)

section \<open>The blocklist, settings, blobs, reports\<close>

lemma unique_key_replace:
  assumes "\<And>x. p x \<Longrightarrow> key x = key row"
  shows "unique_key key (row_update p (\<lambda>_. row) xs) = unique_key key xs"
proof -
  have "map key (row_update p (\<lambda>_. row) xs) = map key xs" using assms by (auto simp: row_update_def)
  then show ?thesis by (simp add: unique_key_def)
qed

lemma BlockFederationSender_ok [preserve_rules]: "db_ok db \<Longrightarrow> db_ok (BlockFederationSender db a b r t)"
  by (simp add: BlockFederationSender_def db_ok_def Let_def unique_key_append list_ex_key unique_key_replace)

lemma UnblockFederationSender_ok [preserve_rules]:
  "db_ok db \<Longrightarrow> UnblockFederationSender db a = Inr db' \<Longrightarrow> db_ok db'"
  by (auto simp: UnblockFederationSender_def db_ok_def split: if_splits)

lemma db_settings_ok: "db_ok (db\<lparr>db_settings := s\<rparr>) = db_ok db"
  by (simp add: db_ok_def)

lemma InitRegistrationPolicy_ok [preserve_rules]: "db_ok db \<Longrightarrow> db_ok (InitRegistrationPolicy db p)"
  by (simp add: InitRegistrationPolicy_def db_settings_ok)

lemma SetRegistrationPolicy_ok [preserve_rules]: "db_ok db \<Longrightarrow> db_ok (SetRegistrationPolicy db p)"
  by (simp add: SetRegistrationPolicy_def db_settings_ok)

lemma InitFederationEnabled_ok [preserve_rules]:
  "db_ok db \<Longrightarrow> InitFederationEnabled db e = Inr db' \<Longrightarrow> db_ok db'"
  by (auto simp: InitFederationEnabled_def db_settings_ok split: option.splits if_splits)

lemma SetFederationEnabled_ok [preserve_rules]: "db_ok db \<Longrightarrow> db_ok (SetFederationEnabled db e)"
  by (simp add: SetFederationEnabled_def db_settings_ok)

lemma add_blob_recipients_Inr:
  "add_blob_recipients db b ds = Inr db' \<Longrightarrow> distinct ds \<and> set ds \<subseteq> device_ids db
     \<and> (\<forall>d \<in> set ds. (b, d) \<notin> set (db_blob_recipients db))
     \<and> db' = db\<lparr>db_blob_recipients := db_blob_recipients db @ map (Pair b) ds\<rparr>"
proof (induction ds arbitrary: db)
  case (Cons d ds)
  let ?db = "db\<lparr>db_blob_recipients := db_blob_recipients db @ [(b, d)]\<rparr>"
  have d: "(b, d) \<notin> set (db_blob_recipients db)" "d \<in> device_ids db" "add_blob_recipients ?db b ds = Inr db'"
    using Cons.prems by (auto simp: list_ex_key split: if_splits)
  with Cons.IH [OF d(3)] show ?case by auto
qed simp

lemma CreateBlob_Inr:
  "CreateBlob db b ds = Inr db' \<Longrightarrow> ds \<noteq> [] \<and> blob_BlobID b \<notin> blob_BlobID ` set (db_blobs db)
     \<and> distinct ds \<and> set ds \<subseteq> device_ids db \<and> (\<forall>d \<in> set ds. (blob_BlobID b, d) \<notin> set (db_blob_recipients db))
     \<and> db' = db\<lparr>db_blobs := db_blobs db @ [b\<lparr>blob_CreatedAt := formatTime (blob_CreatedAt b),
          blob_ExpiresAt := formatTime (blob_ExpiresAt b)\<rparr>],
        db_blob_recipients := db_blob_recipients db @ map (Pair (blob_BlobID b)) ds\<rparr>"
  by (auto simp: CreateBlob_def list_ex_key split: if_splits dest!: add_blob_recipients_Inr)

lemma blobs_ok_add:
  assumes "blobs_ok D bs rs" "blob_BlobID b \<notin> blob_BlobID ` set bs" "distinct ds" "set ds \<subseteq> D"
    "\<forall>d \<in> set ds. (blob_BlobID b, d) \<notin> set rs"
  shows "blobs_ok D (bs @ [b]) (rs @ map (Pair (blob_BlobID b)) ds)"
  using assms by (auto simp: blobs_ok_def unique_key_append distinct_map inj_on_def)

lemma CreateBlob_ok [preserve_rules]: "db_ok db \<Longrightarrow> CreateBlob db b ds = Inr db' \<Longrightarrow> db_ok db'"
proof -
  assume ok: "db_ok db" and cr: "CreateBlob db b ds = Inr db'"
  let ?b = "b\<lparr>blob_CreatedAt := formatTime (blob_CreatedAt b), blob_ExpiresAt := formatTime (blob_ExpiresAt b)\<rparr>"
  have "blobs_ok (device_ids db) (db_blobs db) (db_blob_recipients db)" using ok by (simp add: db_ok_def)
  then have "blobs_ok (device_ids db) (db_blobs db @ [?b]) (db_blob_recipients db @ map (Pair (blob_BlobID ?b)) ds)"
    using CreateBlob_Inr [OF cr] by (intro blobs_ok_add) auto
  with ok CreateBlob_Inr [OF cr] show "db_ok db'" by (simp add: db_ok_def)
qed

lemma CreateBlobWithQuota_ok [preserve_rules]:
  "db_ok db \<Longrightarrow> CreateBlobWithQuota db b ds n m = Inr (st, qe, db') \<Longrightarrow> db_ok db'"
  by (auto simp: CreateBlobWithQuota_def Let_def split: if_splits sum.splits intro: CreateBlob_ok)

lemma blobs_ok_delete_blob:
  "blobs_ok D bs rs \<Longrightarrow> blobs_ok D (row_delete (\<lambda>b. blob_BlobID b = i) bs) (row_delete (\<lambda>r. fst r = i) rs)"
  by (auto simp: blobs_ok_def set_row_delete) (simp add: row_delete_def)

lemma DeleteBlobByID_ok [preserve_rules]: "db_ok db \<Longrightarrow> db_ok (DeleteBlobByID db i)"
  by (simp add: DeleteBlobByID_def db_ok_def blobs_ok_delete_blob)

lemma row_delete_recipients_ok: "db_ok db \<Longrightarrow> db_ok (db\<lparr>db_blob_recipients := row_delete p (db_blob_recipients db)\<rparr>)"
  by (auto simp: db_ok_def blobs_ok_def row_delete_def)

lemma DeleteBlobForDevice_ok [preserve_rules]:
  "db_ok db \<Longrightarrow> DeleteBlobForDevice db i d = Inr (u, db') \<Longrightarrow> db_ok db'"
  by (auto simp: DeleteBlobForDevice_def Let_def split: if_splits
      intro!: row_delete_recipients_ok DeleteBlobByID_ok)

lemma next_report_id_fresh: "next_report_id rs \<notin> rep_ID ` set rs"
proof -
  have "x \<in> rep_ID ` set rs \<Longrightarrow> x \<le> foldr max (map rep_ID rs) 0" for x
    by (induction rs) auto
  then show ?thesis by (force simp: next_report_id_def)
qed

lemma report_pair_update [simp]:
  "report_pair (r\<lparr>rep_Category := a, rep_Evidence := b, rep_EvidenceVerified := c, rep_State := d,
     rep_UpdatedAt := e, rep_ResolvedBy := f, rep_ResolvedAt := g\<rparr>) = report_pair r"
  by (simp add: report_pair_def)

lemma SaveReport_ok [preserve_rules]: "db_ok db \<Longrightarrow> db_ok (SaveReport db r t)"
proof (cases "report_pair r \<in> report_pair ` set (db_reports db)")
  case True
  assume "db_ok db"
  with True show ?thesis
    by (simp add: SaveReport_def list_ex_key db_ok_def reports_ok_def unique_key_update)
next
  case False
  let ?r = "r\<lparr>rep_ID := next_report_id (db_reports db), rep_State := ReportOpen, rep_CreatedAt := formatTime t,
    rep_UpdatedAt := formatTime t, rep_ResolvedBy := None, rep_ResolvedAt := None\<rparr>"
  assume ok: "db_ok db"
  have "report_pair ?r = report_pair r" by (simp add: report_pair_def)
  moreover have "rep_ID ?r \<notin> rep_ID ` set (db_reports db)" using next_report_id_fresh by simp
  ultimately have "reports_ok (db_reports db @ [?r])"
    using ok False unfolding db_ok_def reports_ok_def unique_key_append by metis
  with ok False show ?thesis by (simp add: SaveReport_def list_ex_key db_ok_def)
qed

lemma WithdrawReport_ok [preserve_rules]: "db_ok db \<Longrightarrow> WithdrawReport db a b c d = Inr db' \<Longrightarrow> db_ok db'"
  by (auto simp: WithdrawReport_def Let_def db_ok_def reports_ok_delete split: if_splits)

lemma ResolveReport_ok [preserve_rules]: "db_ok db \<Longrightarrow> ResolveReport db i out who t = Inr db' \<Longrightarrow> db_ok db'"
  by (auto simp: ResolveReport_def db_ok_def reports_ok_def unique_key_update report_pair_def split: if_splits)

lemma PurgeReportsBefore_ok [preserve_rules]: "db_ok db \<Longrightarrow> db_ok (PurgeReportsBefore db t)"
  by (simp add: PurgeReportsBefore_def db_ok_def reports_ok_delete)

section \<open>Histories of operations\<close>

text \<open>
  Every operation that changes the database, as data. A step runs one; a failing operation changes
  nothing (its statement, or the transaction around its statements, is rolled back).
\<close>

datatype store_op =
    DoCreateAccount Account | DoSetAccountRole string string | DoSetAccountStatus string string
  | DoDeleteAccount string | DoCreateDevice Device | DoRevokeDevice string string time
  | DoUpsertDHIdentity string bytes bytes time | DoSetPushSubscription string "PushSubscription option"
  | DoSetPushTarget string "PushTarget option" | DoCreateMessage Message nat | DoDeleteMessage string string
  | DoPurgeMessages time | DoUpsertSignedPrekey SignedPrekey
  | DoAddOneTimePrekeys string "OneTimePrekeyInput list" time | DoDeleteOneTimePrekeys string
  | DoClaimOneTimePrekey string | DoCreateInvite bytes string "time option" time
  | DoPurgeInvites time | DoConsumeInvite string string time | DoInitSetupToken bytes time
  | DoResetSetupToken | DoClaimSetupToken string string time | DoRecordFailedAttempt
  | DoRecordNonce string string time time | DoPurgeNonces time
  | DoBlockSender string string "string option" time | DoUnblockSender string
  | DoInitPolicy string | DoSetPolicy string | DoInitFederation bool | DoSetFederation bool
  | DoCreateBlob Blob "string list" nat int | DoDeleteBlobForDevice string string | DoDeleteBlob string
  | DoSaveReport Report time | DoWithdrawReport string string string string
  | DoResolveReport nat string string time | DoPurgeReports time

definition commit :: "database \<Rightarrow> 'e + database \<Rightarrow> database" where
  "commit db r = (case r of Inl _ \<Rightarrow> db | Inr db' \<Rightarrow> db')"

fun store_step :: "platform \<Rightarrow> store_op \<Rightarrow> database \<Rightarrow> database" where
  "store_step P (DoCreateAccount a) db = commit db (CreateAccount db a)"
| "store_step P (DoSetAccountRole i r) db = commit db (SetAccountRole db i r)"
| "store_step P (DoSetAccountStatus i s) db = commit db (SetAccountStatus db i s)"
| "store_step P (DoDeleteAccount i) db = commit db (DeleteAccount db i)"
| "store_step P (DoCreateDevice d) db = commit db (CreateDevice db d)"
| "store_step P (DoRevokeDevice a d t) db = commit db (RevokeDevice db a d t)"
| "store_step P (DoUpsertDHIdentity d k s t) db = commit db (UpsertDHIdentity db d k s t)"
| "store_step P (DoSetPushSubscription d s) db = commit db (SetDevicePushSubscription db d s)"
| "store_step P (DoSetPushTarget d s) db = commit db (SetDevicePushTarget db d s)"
| "store_step P (DoCreateMessage m n) db = commit db (CreateMessageUnderCap db m n)"
| "store_step P (DoDeleteMessage m d) db = commit db (DeleteMessage db m d)"
| "store_step P (DoPurgeMessages t) db = PurgeExpiredMessages db t"
| "store_step P (DoUpsertSignedPrekey k) db = commit db (UpsertSignedPrekey db k)"
| "store_step P (DoAddOneTimePrekeys d ks t) db = commit db (AddOneTimePrekeys db d ks t)"
| "store_step P (DoDeleteOneTimePrekeys d) db = DeleteOneTimePrekeys db d"
| "store_step P (DoClaimOneTimePrekey d) db = snd (ClaimOneTimePrekey db d)"
| "store_step P (DoCreateInvite r a e t) db = commit db (map_sum id snd (CreateInviteCode P db r a e t))"
| "store_step P (DoPurgeInvites t) db = PurgeExpiredInviteCodes db t"
| "store_step P (DoConsumeInvite c a t) db = commit db (ConsumeInviteCode P db c a t)"
| "store_step P (DoInitSetupToken r t) db = commit db (map_sum id (snd \<circ> snd) (InitSetupToken P db r t))"
| "store_step P DoResetSetupToken db = ResetSetupToken db"
| "store_step P (DoClaimSetupToken tk a t) db = commit db (ClaimSetupToken P db tk a t)"
| "store_step P DoRecordFailedAttempt db = RecordFailedSetupTokenAttempt db"
| "store_step P (DoRecordNonce d n t e) db = snd (RecordNonce db d n t e)"
| "store_step P (DoPurgeNonces t) db = PurgeExpiredNonces db t"
| "store_step P (DoBlockSender a b r t) db = BlockFederationSender db a b r t"
| "store_step P (DoUnblockSender a) db = commit db (UnblockFederationSender db a)"
| "store_step P (DoInitPolicy p) db = InitRegistrationPolicy db p"
| "store_step P (DoSetPolicy p) db = SetRegistrationPolicy db p"
| "store_step P (DoInitFederation e) db = commit db (InitFederationEnabled db e)"
| "store_step P (DoSetFederation e) db = SetFederationEnabled db e"
| "store_step P (DoCreateBlob b ds n m) db = commit db (map_sum id (snd \<circ> snd) (CreateBlobWithQuota db b ds n m))"
| "store_step P (DoDeleteBlobForDevice b d) db = commit db (map_sum id snd (DeleteBlobForDevice db b d))"
| "store_step P (DoDeleteBlob b) db = DeleteBlobByID db b"
| "store_step P (DoSaveReport r t) db = SaveReport db r t"
| "store_step P (DoWithdrawReport a b c d) db = commit db (WithdrawReport db a b c d)"
| "store_step P (DoResolveReport i out who t) db = commit db (ResolveReport db i out who t)"
| "store_step P (DoPurgeReports t) db = PurgeReportsBefore db t"

lemma commit_ok: "db_ok db \<Longrightarrow> (\<And>db'. r = Inr db' \<Longrightarrow> db_ok db') \<Longrightarrow> db_ok (commit db r)"
  by (auto simp: commit_def split: sum.split)

lemma commit_snd_ok:
  "db_ok db \<Longrightarrow> (\<And>a db'. r = Inr (a, db') \<Longrightarrow> db_ok db') \<Longrightarrow> db_ok (commit db (map_sum id snd r))"
  by (cases r) (auto simp: commit_def)

lemma commit_snd_snd_ok:
  "db_ok db \<Longrightarrow> (\<And>a b db'. r = Inr (a, b, db') \<Longrightarrow> db_ok db') \<Longrightarrow> db_ok (commit db (map_sum id (snd \<circ> snd) r))"
  by (cases r) (auto simp: commit_def)

lemma store_step_ok: "db_ok db \<Longrightarrow> db_ok (store_step P x db)"
  by (cases x; simp only: store_step.simps)
    ((rule commit_snd_ok commit_snd_snd_ok commit_ok, assumption)?; blast intro: preserve_rules)+

interpretation store: preserving "store_step P" "\<lambda>_. True" db_ok
  by unfold_locales (rule store_step_ok)

text \<open>
  C30: After any history of store operations from an empty database, account ids, their
  five-character prefixes, device ids, message ids, invite hashes, nonces and report pairs are
  unique; every device belongs to an existing account, every queued message, prekey and blob claim to
  an existing device, every claim to an existing blob, and every invite to existing accounts; and no
  device has both wake mechanisms registered.
\<close>

theorem store_history_integrity: "db_ok (fold (store_step P) ops empty_database)"
  by (rule store.run_inv) (simp_all add: list_all_iff empty_database_ok)

section \<open>What deleting an account leaves\<close>

text \<open>
  Deleting an account removes it, its devices, everything queued or stored for those
  devices, the invites it created and every report naming it, and clears it from the invites and the
  setup token it used; every other account and device, every message and blob claim of other devices
  (also those sent by the deleted account) and every other report stays as it was.
\<close>

theorem deleted_account_leaves_nothing:
  assumes "db_ok db" "DeleteAccount db ident = Inr db'"
  shows "db_accounts db' = filter (\<lambda>a. acc_ID a \<noteq> ident) (db_accounts db)
    \<and> db_devices db' = filter (\<lambda>d. dev_AccountID d \<noteq> ident) (db_devices db)
    \<and> db_messages db' = filter (\<lambda>m. msg_RecipientDeviceID m \<in> device_ids db') (db_messages db)
    \<and> db_one_time_prekeys db' = filter (\<lambda>k. otp_device_id k \<in> device_ids db') (db_one_time_prekeys db)
    \<and> db_blob_recipients db' = filter (\<lambda>r. snd r \<in> device_ids db') (db_blob_recipients db)
    \<and> map inv_code_hash (db_invite_codes db') =
        map inv_code_hash (filter (\<lambda>i. inv_CreatedByAccountID i \<noteq> ident) (db_invite_codes db))
    \<and> (\<forall>i \<in> set (db_invite_codes db'). inv_UsedByAccountID i \<noteq> Some ident)
    \<and> (\<forall>r \<in> set (db_reports db'). \<not> (rep_ReportedID r = ident \<and> rep_ReportedServer r = [])
        \<and> \<not> (rep_ReporterID r = ident \<and> rep_ReporterServer r = []))
    \<and> db_ok db'"
proof -
  let ?D = "device_of ident (db_devices db)"
  let ?ds = "row_delete (\<lambda>d. dev_AccountID d = ident) (db_devices db)"
  have ids: "dev_DeviceID ` set ?ds = {x \<in> device_ids db. \<not> ?D x}"
    by (rule device_ids_delete) (rule db_okD(2) [OF assms(1)])
  have eq: "db' = DeleteReportsForAccount (cascade_account ident
      (db\<lparr>db_accounts := row_delete (\<lambda>a. acc_ID a = ident) (db_accounts db)\<rparr>)) ident"
    using assms(2) by (simp add: DeleteAccount_def split: if_splits)
  note defs = DeleteReportsForAccount_def cascade_account_def cascade_devices_def
  have dev: "db_devices db' = ?ds" by (simp add: eq defs)
  have fk: "\<forall>m \<in> set (db_messages db). msg_RecipientDeviceID m \<in> device_ids db"
    "\<forall>k \<in> set (db_one_time_prekeys db). otp_device_id k \<in> device_ids db"
    "\<forall>r \<in> set (db_blob_recipients db). snd r \<in> device_ids db"
    using assms(1) by (simp_all add: db_ok_def table_ok_defs)
  have tables: "db_messages db' = row_delete (\<lambda>m. ?D (msg_RecipientDeviceID m)) (db_messages db)"
    "db_one_time_prekeys db' = row_delete (\<lambda>k. ?D (otp_device_id k)) (db_one_time_prekeys db)"
    "db_blob_recipients db' = row_delete (\<lambda>r. ?D (snd r)) (db_blob_recipients db)"
    by (simp_all add: eq defs)
  have "db_messages db' = filter (\<lambda>m. msg_RecipientDeviceID m \<in> device_ids db') (db_messages db)"
    "db_one_time_prekeys db' = filter (\<lambda>k. otp_device_id k \<in> device_ids db') (db_one_time_prekeys db)"
    "db_blob_recipients db' = filter (\<lambda>r. snd r \<in> device_ids db') (db_blob_recipients db)"
    unfolding dev ids unfolding tables row_delete_def using fk by (auto intro!: filter_cong)
  moreover have "db_accounts db' = filter (\<lambda>a. acc_ID a \<noteq> ident) (db_accounts db)"
    "db_devices db' = filter (\<lambda>d. dev_AccountID d \<noteq> ident) (db_devices db)"
    by (simp_all add: eq defs row_delete_def)
  moreover have "map inv_code_hash (db_invite_codes db') =
        map inv_code_hash (filter (\<lambda>i. inv_CreatedByAccountID i \<noteq> ident) (db_invite_codes db))"
    "\<forall>i \<in> set (db_invite_codes db'). inv_UsedByAccountID i \<noteq> Some ident"
    by (auto simp: eq defs row_delete_def row_update_def)
  moreover have "\<forall>r \<in> set (db_reports db'). \<not> (rep_ReportedID r = ident \<and> rep_ReportedServer r = [])
        \<and> \<not> (rep_ReporterID r = ident \<and> rep_ReporterServer r = [])"
    by (simp add: eq defs set_row_delete)
  moreover have "db_ok db'" using assms by (rule DeleteAccount_ok)
  ultimately show ?thesis by blast
qed

definition sample_account :: "string \<Rightarrow> Account" where
  "sample_account ident = \<lparr>acc_ID = ident, acc_RootPubKey = ''key'', acc_VersionMarker = 1,
     acc_Status = AccountStatusActive, acc_Role = RoleAdmin, acc_CreatedAt = 0\<rparr>"

definition sample_device :: "string \<Rightarrow> string \<Rightarrow> Device" where
  "sample_device d ident = \<lparr>dev_DeviceID = d, dev_AccountID = ident, dev_DevicePubKey = ''key'',
     dev_CertIssuedAt = 0, dev_CertSignature = ''sig'', dev_Status = DeviceStatusActive, dev_RevokedAt = None,
     dev_CreatedAt = 0, dev_DHIdentityPubKey = [], dev_DHIdentityIssuedAt = None,
     dev_DHIdentitySignature = [], dev_Push = None, dev_PushTarget = None\<rparr>"

definition sample_message :: "string \<Rightarrow> string \<Rightarrow> Message" where
  "sample_message i d = \<lparr>msg_MessageID = i, msg_SenderAccountID = ''alice'', msg_SenderDeviceID = ''a1'',
     msg_RecipientAccountID = ''bob'', msg_RecipientDeviceID = d, msg_Payload = ''{}'', msg_SentAt = 0,
     msg_ExpiresAt = 0\<rparr>"

definition sample_ops :: "store_op list" where
  "sample_ops = [DoCreateAccount (sample_account ''alice''), DoCreateAccount (sample_account ''bob''),
     DoCreateDevice (sample_device ''a1'' ''alice''), DoCreateDevice (sample_device ''b1'' ''bob''),
     DoCreateMessage (sample_message ''m1'' ''b1'') 5, DoCreateMessage (sample_message ''m2'' ''a1'') 5]"

definition sample_database :: database where
  "sample_database = fold (store_step sample_platform) sample_ops empty_database"

lemma sample_database_ok: "db_ok sample_database"
  unfolding sample_database_def by (rule store.run_inv) (simp_all add: list_all_iff empty_database_ok)

theorem deleted_account_leaves_nothing_witness:
  "\<exists>db'. DeleteAccount sample_database ''alice'' = Inr db' \<and> length (db_accounts db') = 1
     \<and> map msg_MessageID (db_messages db') = [''m1'']"
proof -
  have "isl (DeleteAccount sample_database ''alice'') = False" by code_simp
  then obtain db' where del: "DeleteAccount sample_database ''alice'' = Inr db'"
    by (cases "DeleteAccount sample_database ''alice''") auto
  have tabs: "map acc_ID (db_accounts sample_database) = [''alice'', ''bob'']"
    "map (\<lambda>d. (dev_DeviceID d, dev_AccountID d)) (db_devices sample_database) = [(''a1'', ''alice''), (''b1'', ''bob'')]"
    "map (\<lambda>m. (msg_MessageID m, msg_RecipientDeviceID m)) (db_messages sample_database) = [(''m1'', ''b1''), (''m2'', ''a1'')]"
    by code_simp+
  then obtain x y v w m n where rows: "db_accounts sample_database = [x, y]"
    "db_devices sample_database = [v, w]" "db_messages sample_database = [m, n]"
    and cols: "acc_ID x = ''alice''" "acc_ID y = ''bob''" "dev_DeviceID w = ''b1''" "dev_AccountID v = ''alice''"
      "dev_AccountID w = ''bob''" "msg_MessageID m = ''m1''" "msg_RecipientDeviceID m = ''b1''"
      "msg_RecipientDeviceID n = ''a1''"
    by (auto simp: map_eq_Cons_conv)
  have "length (db_accounts db') = 1" "db_devices db' = [w]"
    using deleted_account_leaves_nothing [OF sample_database_ok del] by (simp_all add: rows cols)
  moreover have "db_messages db' = filter (\<lambda>m. msg_RecipientDeviceID m \<in> device_ids db') [m, n]"
    using deleted_account_leaves_nothing [OF sample_database_ok del] unfolding rows by blast
  ultimately show ?thesis using del by (simp add: cols)
qed

end
