(* ===== verification/Httpsig.thy ===== *)
theory Httpsig
  imports Platform
begin

text \<open>
  \<open>pkg/httpsig\<close>: the canonical string a request signature covers, its signing and
  verification, and the timestamp header with the clock-skew test. Durations are \<open>int64\<close>
  nanoseconds in Go: \<open>Time.Sub\<close> saturates and negation wraps, and both are written out.
\<close>

section \<open>Decimal integers\<close>

fun decimal_digits :: "nat \<Rightarrow> string" where
  "decimal_digits n = (if n < 10 then [char_of (48 + n)] else decimal_digits (n div 10) @ [char_of (48 + n mod 10)])"

declare decimal_digits.simps [simp del]

text \<open>\<open>strconv.FormatInt(i, 10)\<close> and \<open>strconv.ParseInt(s, 10, 64)\<close>.\<close>

definition format_int :: "int \<Rightarrow> string" where
  "format_int i = (if i < 0 then CHR ''-'' # decimal_digits (nat (- i)) else decimal_digits (nat i))"

definition digit_value :: "char \<Rightarrow> nat option" where
  "digit_value c = (let n = (of_char c :: nat) in if 48 \<le> n \<and> n \<le> 57 then Some (n - 48) else None)"

fun digits_value :: "nat \<Rightarrow> string \<Rightarrow> nat option" where
  "digits_value acc [] = Some acc"
| "digits_value acc (c # cs) =
     (case digit_value c of None \<Rightarrow> None | Some d \<Rightarrow> digits_value (acc * 10 + d) cs)"

definition parse_int64 :: "string \<Rightarrow> int option" where
  "parse_int64 s =
     (let (neg, ds) = (case s of [] \<Rightarrow> (False, [])
        | c # cs \<Rightarrow> if c = CHR ''-'' then (True, cs) else if c = CHR ''+'' then (False, cs) else (False, s))
      in if ds = [] then None
         else case digits_value 0 ds of None \<Rightarrow> None
         | Some n \<Rightarrow> if neg then (if int n \<le> 2 ^ 63 then Some (- int n) else None)
                     else (if int n < 2 ^ 63 then Some (int n) else None))"

lemma digits_value_append:
  "digits_value acc (xs @ ys) = (case digits_value acc xs of None \<Rightarrow> None | Some a \<Rightarrow> digits_value a ys)"
  by (induction xs arbitrary: acc) (auto split: option.split)

lemma digit_value_char: "d < 10 \<Longrightarrow> digit_value (char_of (48 + d)) = Some d"
  by (simp add: digit_value_def Let_def)

lemma digits_value_decimal: "digits_value 0 (decimal_digits n) = Some n"
proof (induction n rule: decimal_digits.induct)
  case (1 n)
  show ?case
  proof (cases "n < 10")
    case True
    then show ?thesis by (subst decimal_digits.simps) (simp add: digit_value_char)
  next
    case False
    have "n div 10 * 10 + n mod 10 = n" by simp
    then show ?thesis
      using 1 [OF False] False
      by (subst decimal_digits.simps) (simp add: digits_value_append digit_value_char)
  qed
qed

lemma decimal_digits_ne [simp]: "decimal_digits n \<noteq> []"
  by (subst decimal_digits.simps) simp

lemma decimal_digits_chars: "c \<in> set (decimal_digits n) \<Longrightarrow> 48 \<le> (of_char c :: nat) \<and> (of_char c :: nat) \<le> 57"
proof (induction n rule: decimal_digits.induct)
  case (1 n)
  have m: "n mod 10 < 10" by simp
  show ?case
  proof (cases "n < 10")
    case True
    then have "c = char_of (48 + n)" using 1(2) by (simp add: decimal_digits.simps [of n])
    with True show ?thesis by simp
  next
    case False
    then have "c \<in> set (decimal_digits (n div 10)) \<or> c = char_of (48 + n mod 10)"
      using 1(2) by (auto simp: decimal_digits.simps [of n])
    moreover have "(of_char (char_of (48 + n mod 10)) :: nat) = 48 + n mod 10" using m by simp
    ultimately show ?thesis using 1(1) [OF False] m by auto
  qed
qed

lemma decimal_digits_hd: "decimal_digits n = c # cs \<Longrightarrow> c \<noteq> CHR ''-'' \<and> c \<noteq> CHR ''+''"
  using decimal_digits_chars [of c n] by auto

lemma parse_format_int:
  assumes "- (2 ^ 63) \<le> i" "i < 2 ^ 63"
  shows "parse_int64 (format_int i) = Some i"
proof (cases "i < 0")
  case True
  then show ?thesis
    using assms by (simp add: parse_int64_def format_int_def Let_def digits_value_decimal)
next
  case False
  obtain c cs where d: "decimal_digits (nat i) = c # cs" by (cases "decimal_digits (nat i)") auto
  with decimal_digits_hd [OF d] digits_value_decimal [of "nat i"] False assms show ?thesis
    by (simp add: parse_int64_def format_int_def Let_def)
qed

section \<open>Durations and the skew test\<close>

abbreviation (input) min_duration :: duration where "min_duration \<equiv> - (2 ^ 63)"
abbreviation (input) max_duration :: duration where "max_duration \<equiv> 2 ^ 63 - 1"

text \<open>\<open>t.Sub(u)\<close> saturates at the ends of \<open>int64\<close>; \<open>-d\<close> wraps on the least value.\<close>

definition time_sub :: "time \<Rightarrow> time \<Rightarrow> duration" where
  "time_sub t u = max min_duration (min max_duration (t - u))"

definition neg_duration :: "duration \<Rightarrow> duration" where
  "neg_duration d = (if d = min_duration then min_duration else - d)"

definition WithinSkew :: "time \<Rightarrow> time \<Rightarrow> duration \<Rightarrow> bool" where
  "WithinSkew ts now maxSkew =
     (let diff = time_sub now ts; diff' = (if diff < 0 then neg_duration diff else diff)
      in diff' \<le> maxSkew)"

text \<open>
  \<open>time.Unix(sec, 0)\<close> counts seconds from the year 1 in an \<open>int64\<close>, so the addition of the
  offset wraps.
\<close>

definition wrap64 :: "int \<Rightarrow> int" where
  "wrap64 i = (i + 2 ^ 63) mod 2 ^ 64 - 2 ^ 63"

definition unix_time :: "int \<Rightarrow> time" where
  "unix_time sec = (wrap64 (sec + 62135596800) - 62135596800) * second"

definition FormatTimestamp :: "time \<Rightarrow> string" where
  "FormatTimestamp t = format_int (unix_seconds t)"

definition ParseTimestamp :: "string \<Rightarrow> time option" where
  "ParseTimestamp s = map_option unix_time (parse_int64 s)"

section \<open>The canonical string\<close>

definition newline :: char where
  "newline = CHR 0x0A"

fun join_lines :: "string list \<Rightarrow> string" where
  "join_lines [] = []"
| "join_lines [s] = s"
| "join_lines (s # t # ts) = s @ newline # join_lines (t # ts)"

definition CanonicalStringWithBodyDigest ::
    "string \<Rightarrow> string \<Rightarrow> string \<Rightarrow> string \<Rightarrow> string \<Rightarrow> string \<Rightarrow> string \<Rightarrow> string" where
  "CanonicalStringWithBodyDigest method path rawQuery timestamp nonce keyID bodyDigestHex =
     join_lines [method, path, rawQuery, timestamp, nonce, keyID, bodyDigestHex]"

definition CanonicalString ::
    "platform \<Rightarrow> string \<Rightarrow> string \<Rightarrow> string \<Rightarrow> string \<Rightarrow> string \<Rightarrow> string \<Rightarrow> bytes \<Rightarrow> string" where
  "CanonicalString P method path rawQuery timestamp nonce keyID body =
     CanonicalStringWithBodyDigest method path rawQuery timestamp nonce keyID (hex_encode (sha256 P body))"

record http_request =
  Method :: string
  URLPath :: string
  RawQuery :: string
  Headers :: "(string \<times> string) list"
  Body :: "bytes option"

text \<open>\<open>r.Header.Get\<close>: the header's value, or the empty string; names are stored canonically.\<close>

definition header_get :: "http_request \<Rightarrow> string \<Rightarrow> string" where
  "header_get r h = (case assoc_get (Headers r) h of Some v \<Rightarrow> v | None \<Rightarrow> [])"

definition HeaderKeyID :: string where "HeaderKeyID = ''Signature-Key-Id''"
definition HeaderTimestamp :: string where "HeaderTimestamp = ''Signature-Timestamp''"
definition HeaderNonce :: string where "HeaderNonce = ''Signature-Nonce''"
definition HeaderSignature :: string where "HeaderSignature = ''Signature''"
definition HeaderBodyDigest :: string where "HeaderBodyDigest = ''Blob-Digest''"

record RequestSignatureHeaders =
  h_KeyID :: string
  h_Timestamp :: string
  h_Nonce :: string
  h_Signature :: string

definition ParseRequestHeaders :: "http_request \<Rightarrow> RequestSignatureHeaders option" where
  "ParseRequestHeaders r =
     (let h = \<lparr>h_KeyID = header_get r HeaderKeyID, h_Timestamp = header_get r HeaderTimestamp,
               h_Nonce = header_get r HeaderNonce, h_Signature = header_get r HeaderSignature\<rparr>
      in if h_KeyID h = [] \<or> h_Timestamp h = [] \<or> h_Nonce h = [] \<or> h_Signature h = []
         then None else Some h)"

definition CanonicalStringFromRequest :: "platform \<Rightarrow> http_request \<Rightarrow> RequestSignatureHeaders \<Rightarrow> bytes \<Rightarrow> string" where
  "CanonicalStringFromRequest P r h body =
     CanonicalString P (Method r) (URLPath r) (RawQuery r) (h_Timestamp h) (h_Nonce h) (h_KeyID h) body"

datatype httpsig_error = SignatureNotBase64 | RequestSignatureLength nat | RequestKeyLength nat | RequestSignatureFailed

definition httpsig_Sign ::
    "platform \<Rightarrow> string \<Rightarrow> string \<Rightarrow> string \<Rightarrow> bytes \<Rightarrow> string \<Rightarrow> time \<Rightarrow> string \<Rightarrow> bytes \<Rightarrow> string" where
  "httpsig_Sign P method path rawQuery body keyID timestamp nonce priv =
     base64_encode (ed25519_sign P priv
       (CanonicalString P method path rawQuery (FormatTimestamp timestamp) nonce keyID body))"

definition httpsig_Verify :: "platform \<Rightarrow> string \<Rightarrow> string \<Rightarrow> bytes \<Rightarrow> httpsig_error + unit" where
  "httpsig_Verify P canonical signatureB64 pubKey =
     (case base64_decode signatureB64 of None \<Rightarrow> Inl SignatureNotBase64
      | Some sig \<Rightarrow>
          if length sig \<noteq> signature_size then Inl (RequestSignatureLength (length sig))
          else if length pubKey \<noteq> public_key_size then Inl (RequestKeyLength (length pubKey))
          else if \<not> ed25519_verify P pubKey canonical sig then Inl RequestSignatureFailed
          else Inr ())"

section \<open>Lemmas\<close>

lemma cut_first_eq:
  "(c :: char) \<notin> set a \<Longrightarrow> c \<notin> set b \<Longrightarrow> a @ c # x = b @ c # y \<Longrightarrow> a = b \<and> x = y"
  by (metis cut_no_sep prod.inject)

lemma cut_last_eq:
  "(c :: char) \<notin> set x \<Longrightarrow> c \<notin> set y \<Longrightarrow> a @ c # x = b @ c # y \<Longrightarrow> a = b \<and> x = y"
proof -
  assume c: "c \<notin> set x" "c \<notin> set y" and "a @ c # x = b @ c # y"
  then have "rev (a @ c # x) = rev (b @ c # y)" by simp
  then have "rev x @ c # rev a = rev y @ c # rev b" by simp
  with c show ?thesis using cut_first_eq [of c "rev x" "rev y" "rev a" "rev b"] by simp
qed

lemma WithinSkew_in_range:
  assumes "min_duration < now - ts" "now - ts \<le> max_duration" "maxSkew < 2 ^ 63"
  shows "WithinSkew ts now maxSkew \<longleftrightarrow> \<bar>now - ts\<bar> \<le> maxSkew"
  using assms by (auto simp: WithinSkew_def time_sub_def neg_duration_def Let_def)

lemma wrap64_id: "- (2 ^ 63) \<le> i \<Longrightarrow> i < 2 ^ 63 \<Longrightarrow> wrap64 i = i"
  by (simp add: wrap64_def)

lemma unix_time_id:
  "- (2 ^ 63) \<le> sec + 62135596800 \<Longrightarrow> sec + 62135596800 < 2 ^ 63 \<Longrightarrow> unix_time sec = sec * second"
  by (simp add: unix_time_def wrap64_id)

lemma signed_request_verifies_pair:
  assumes "ed25519_correct P" and "- (2 ^ 62) \<le> unix_seconds t" and "unix_seconds t < 2 ^ 62"
  shows "httpsig_Verify P (CanonicalString P method path q (FormatTimestamp t) nonce keyID body)
      (httpsig_Sign P method path q body keyID t nonce priv) (ed25519_public P priv) = Inr ()"
    "ParseTimestamp (FormatTimestamp t) = Some (truncate_second t)"
proof -
  show "httpsig_Verify P (CanonicalString P method path q (FormatTimestamp t) nonce keyID body)
      (httpsig_Sign P method path q body keyID t nonce priv) (ed25519_public P priv) = Inr ()"
    using assms(1) by (simp add: httpsig_Verify_def httpsig_Sign_def b64_decode_encode ed25519_correct_def)
  have "truncate_second t = unix_seconds t * second"
    by (simp add: truncate_second_def unix_seconds_def minus_mod_eq_div_mult)
  then show "ParseTimestamp (FormatTimestamp t) = Some (truncate_second t)"
    using assms(2,3) by (simp add: ParseTimestamp_def FormatTimestamp_def parse_format_int unix_time_id)
qed

section \<open>Properties\<close>

text \<open>
  the canonical string is unambiguous: when no field but the path contains a newline, two
  requests with the same canonical string agree in every field, the path included.
\<close>

theorem canonical_string_inject:
  assumes "\<forall>s \<in> {m, q, t, n, k, d, m', q', t', n', k', d'}. newline \<notin> set s"
    and "CanonicalStringWithBodyDigest m p q t n k d = CanonicalStringWithBodyDigest m' p' q' t' n' k' d'"
  shows "m = m' \<and> p = p' \<and> q = q' \<and> t = t' \<and> n = n' \<and> k = k' \<and> d = d'"
proof -
  have free: "newline \<notin> set m" "newline \<notin> set m'" "newline \<notin> set q" "newline \<notin> set q'"
    "newline \<notin> set t" "newline \<notin> set t'" "newline \<notin> set n" "newline \<notin> set n'"
    "newline \<notin> set k" "newline \<notin> set k'" "newline \<notin> set d" "newline \<notin> set d'"
    using assms(1) by auto
  have "m @ newline # (p @ newline # q @ newline # t @ newline # n @ newline # k @ newline # d)
      = m' @ newline # (p' @ newline # q' @ newline # t' @ newline # n' @ newline # k' @ newline # d')"
    using assms(2) by (simp add: CanonicalStringWithBodyDigest_def)
  from cut_first_eq [OF free(1,2) this] have m: "m = m'" and
    r: "(p @ newline # q @ newline # t @ newline # n @ newline # k) @ newline # d
      = (p' @ newline # q' @ newline # t' @ newline # n' @ newline # k') @ newline # d'" by simp_all
  from cut_last_eq [OF free(11,12) r] have d: "d = d'" and
    r: "(p @ newline # q @ newline # t @ newline # n) @ newline # k
      = (p' @ newline # q' @ newline # t' @ newline # n') @ newline # k'" by simp_all
  from cut_last_eq [OF free(9,10) r] have k: "k = k'" and
    r: "(p @ newline # q @ newline # t) @ newline # n = (p' @ newline # q' @ newline # t') @ newline # n'" by simp_all
  from cut_last_eq [OF free(7,8) r] have n: "n = n'" and
    r: "(p @ newline # q) @ newline # t = (p' @ newline # q') @ newline # t'" by simp_all
  from cut_last_eq [OF free(5,6) r] have t: "t = t'" and r: "p @ newline # q = p' @ newline # q'" by simp_all
  from cut_last_eq [OF free(3,4) r] m d k n t show ?thesis by simp
qed

text \<open>
  a request signed by the client's \<open>Sign\<close> verifies on the server, and the timestamp the
  client printed is read back as the second it was made in.
\<close>

theorem signed_request_verifies:
  assumes "ed25519_correct P" and "- (2 ^ 62) \<le> unix_seconds t" and "unix_seconds t < 2 ^ 62"
  shows "httpsig_Verify P (CanonicalString P method path q (FormatTimestamp t) nonce keyID body)
      (httpsig_Sign P method path q body keyID t nonce priv) (ed25519_public P priv) = Inr ()
    \<and> ParseTimestamp (FormatTimestamp t) = Some (truncate_second t)"
  using signed_request_verifies_pair [OF assms] by blast

text \<open>
  the clock-skew test is exact while the two clocks are less than \<open>2^63\<close> nanoseconds (about
  292 years) apart, and accepts every timestamp at least that far in the future: the saturated
  difference is the least \<open>int64\<close>, which is its own negation.
\<close>

theorem within_skew_characterised:
  assumes "0 \<le> maxSkew" and "maxSkew < 2 ^ 63 - 1"
  shows "WithinSkew ts now maxSkew \<longleftrightarrow> \<bar>now - ts\<bar> \<le> maxSkew \<or> now + 2 ^ 63 \<le> ts"
  using assms by (auto simp: WithinSkew_def time_sub_def neg_duration_def Let_def min_def max_def split: if_splits)

section \<open>Witnesses\<close>

theorem canonical_string_inject_witness:
  "CanonicalStringWithBodyDigest ''GET'' ''/a'' [] ''1'' ''n'' ''k'' ''d''
     \<noteq> CanonicalStringWithBodyDigest ''GET'' ''/b'' [] ''1'' ''n'' ''k'' ''d''"
  using canonical_string_inject [of "''GET''" "[]" "''1''" "''n''" "''k''" "''d''" "''GET''" "[]" "''1''" "''n''" "''k''" "''d''" "''/a''" "''/b''"]
  by (auto simp: newline_def)

theorem signed_request_verifies_witness:
  "ParseTimestamp (FormatTimestamp (7 * second + 3)) = Some (7 * second)"
proof -
  have "unix_seconds (7 * second + 3) = 7" "truncate_second (7 * second + 3) = 7 * second"
    by (simp_all add: unix_seconds_def truncate_second_def second_def)
  with signed_request_verifies [OF sample_platform_laws(2), of "7 * second + 3"] show ?thesis by simp
qed

theorem within_skew_characterised_witness:
  "WithinSkew (10 * 2 ^ 63) (60 * second) (5 * minute) \<and> \<not> WithinSkew 0 (3600 * second) (5 * minute)"
  using within_skew_characterised [of "5 * minute"] by (simp add: minute_def second_def)

end
