(* ===== verification/Replay_Guard.thy ===== *)
theory Replay_Guard
  imports Store_Integrity Httpsig
begin

text \<open>
  The server remembers the nonces of accepted requests in two places: the sharded in-memory cache of
  \<open>internal/auth/nonce_cache.go\<close> and the \<open>used_nonces\<close> table of \<open>internal/store/nonces.go\<close>.
  The locale \<open>replay_guard\<close> states what their clients rely on, with the one theorem they need; both
  are interpreted on it.
\<close>

unbundle bit_operations_syntax

section \<open>The contract\<close>

text \<open>
  \<open>blocks s k now\<close>: a record of \<open>k\<close> is held that is still in force at \<open>now\<close>. \<open>rec k now e\<close> tries
  to record \<open>k\<close> until \<open>e\<close>, \<open>purge now\<close> drops what has expired.
\<close>

locale replay_guard =
  fixes rec :: "'k \<Rightarrow> time \<Rightarrow> time \<Rightarrow> 's \<Rightarrow> bool \<times> 's"
    and purge :: "time \<Rightarrow> 's \<Rightarrow> 's"
    and ok :: "'s \<Rightarrow> bool"
    and blocks :: "'s \<Rightarrow> 'k \<Rightarrow> time \<Rightarrow> bool"
  assumes rec_ok: "ok s \<Longrightarrow> ok (snd (rec k now e s))"
    and purge_ok: "ok s \<Longrightarrow> ok (purge now s)"
    and refuses: "blocks s k now \<Longrightarrow> \<not> fst (rec k now e s)"
    and remembers: "ok s \<Longrightarrow> fst (rec k now e s) \<Longrightarrow> now' < e \<Longrightarrow> blocks (snd (rec k now e s)) k now'"
    and rec_keeps: "ok s \<Longrightarrow> blocks s k now' \<Longrightarrow> now \<le> now' \<Longrightarrow> blocks (snd (rec j now e s)) k now'"
    and purge_keeps: "ok s \<Longrightarrow> blocks s k now' \<Longrightarrow> now \<le> now' \<Longrightarrow> blocks (purge now s) k now'"
begin

text \<open>What happens between two requests: other records and purges, each at its time.\<close>

primrec guard_run :: "(time \<times> ('k \<times> time) option) list \<Rightarrow> 's \<Rightarrow> 's" where
  "guard_run [] s = s"
| "guard_run (x # xs) s =
     guard_run xs (case snd x of None \<Rightarrow> purge (fst x) s | Some (k, e) \<Rightarrow> snd (rec k (fst x) e s))"

lemma guard_run_ok: "ok s \<Longrightarrow> ok (guard_run xs s)"
  by (induction xs arbitrary: s) (auto simp: rec_ok purge_ok split: option.split)

lemma guard_run_keeps:
  "ok s \<Longrightarrow> blocks s k now' \<Longrightarrow> \<forall>x \<in> set xs. fst x \<le> now' \<Longrightarrow> blocks (guard_run xs s) k now'"
  by (induction xs arbitrary: s) (auto simp: rec_ok purge_ok rec_keeps purge_keeps split: option.split)

lemma replay_refused:
  assumes "ok s" "fst (rec k now e s)" "now' < e" "\<forall>x \<in> set xs. fst x \<le> now'"
  shows "\<not> fst (rec k now' e' (guard_run xs (snd (rec k now e s))))"
  using refuses guard_run_keeps [OF rec_ok [OF assms(1)] remembers [OF assms(1,2,3)] assms(4)] by blast

end

section \<open>The in-memory cache\<close>

definition fnv32a :: "bytes \<Rightarrow> 32 word" where
  "fnv32a bs = foldl (\<lambda>h b. (h XOR of_nat (of_char b)) * 16777619) 2166136261 bs"

definition nonceShards :: nat where
  "nonceShards = 256"

type_synonym nonceCache = "(string \<times> time) list list"

definition newNonceCache :: nonceCache where
  "newNonceCache = replicate nonceShards []"

definition shardFor :: "string \<Rightarrow> nat" where
  "shardFor deviceID = unat (fnv32a deviceID AND (of_nat nonceShards - 1))"

definition nonceKey :: "string \<Rightarrow> string \<Rightarrow> string" where
  "nonceKey deviceID nonce = deviceID @ CHR 0x00 # nonce"

definition nonce_record :: "nonceCache \<Rightarrow> string \<Rightarrow> string \<Rightarrow> time \<Rightarrow> time \<Rightarrow> bool \<times> nonceCache" where
  "nonce_record c deviceID nonce now expiresAt =
     (let key = nonceKey deviceID nonce; i = shardFor deviceID; seen = c ! i in
      case assoc_get seen key of
        Some e \<Rightarrow> if e > now then (False, c) else (True, c[i := assoc_put seen key expiresAt])
      | None \<Rightarrow> (True, c[i := assoc_put seen key expiresAt]))"

definition purgeExpired :: "nonceCache \<Rightarrow> time \<Rightarrow> nat \<times> nonceCache" where
  "purgeExpired c now =
     (sum_list (map (\<lambda>seen. length (filter (\<lambda>p. \<not> snd p > now) seen)) c),
      map (filter (\<lambda>p. snd p > now)) c)"

lemma shardFor_less: "shardFor d < nonceShards"
proof -
  have "fnv32a d AND (of_nat nonceShards - 1) = take_bit 8 (fnv32a d)"
    by (simp add: nonceShards_def take_bit_eq_mask mask_eq_exp_minus_1)
  then show ?thesis
    using take_bit_nat_less_exp [of 8 "unat (fnv32a d)"]
    by (simp add: shardFor_def nonceShards_def unsigned_take_bit_eq)
qed

definition cache_ok :: "nonceCache \<Rightarrow> bool" where
  "cache_ok c \<longleftrightarrow> length c = nonceShards \<and> list_all keys_distinct c"

definition cache_blocks :: "nonceCache \<Rightarrow> string \<times> string \<Rightarrow> time \<Rightarrow> bool" where
  "cache_blocks c k now \<longleftrightarrow>
     (case assoc_get (c ! shardFor (fst k)) (nonceKey (fst k) (snd k)) of None \<Rightarrow> False | Some e \<Rightarrow> e > now)"

definition cache_rec :: "string \<times> string \<Rightarrow> time \<Rightarrow> time \<Rightarrow> nonceCache \<Rightarrow> bool \<times> nonceCache" where
  "cache_rec k now e c = nonce_record c (fst k) (snd k) now e"

definition cache_purge :: "time \<Rightarrow> nonceCache \<Rightarrow> nonceCache" where
  "cache_purge now c = snd (purgeExpired c now)"

lemma newNonceCache_ok: "cache_ok newNonceCache"
  by (simp add: cache_ok_def newNonceCache_def list_all_iff)

lemma cache_ok_nth: "cache_ok c \<Longrightarrow> keys_distinct (c ! shardFor d)"
  using shardFor_less [of d] by (simp add: cache_ok_def list_all_length)

lemma cache_ok_update: "cache_ok c \<Longrightarrow> keys_distinct seen \<Longrightarrow> cache_ok (c[i := seen])"
  by (auto simp: cache_ok_def list_all_iff dest: set_update_subset_insert [THEN subsetD])

lemma nonce_record_ok: "cache_ok c \<Longrightarrow> cache_ok (snd (nonce_record c d n now e))"
  by (auto simp: nonce_record_def Let_def cache_ok_update cache_ok_nth split: option.split)

lemma purge_ok: "cache_ok c \<Longrightarrow> cache_ok (snd (purgeExpired c now))"
  by (auto simp: purgeExpired_def cache_ok_def list_all_iff keys_distinct_def distinct_map_filter)

lemma assoc_get_filter:
  "keys_distinct m \<Longrightarrow> assoc_get m k = Some v \<Longrightarrow> q v \<Longrightarrow> assoc_get (filter (\<lambda>p. q (snd p)) m) k = Some v"
  by (induction m k rule: assoc_get.induct) (auto simp: keys_distinct_def split: if_splits)

lemma shard_length: "cache_ok c \<Longrightarrow> shardFor d < length c"
  using shardFor_less by (simp add: cache_ok_def)

lemma nonce_record_keeps:
  assumes "cache_ok c" "cache_blocks c k now'" "now \<le> now'"
  shows "cache_blocks (snd (nonce_record c d n now e)) k now'"
proof (cases "shardFor (fst k) = shardFor d \<and> nonceKey (fst k) (snd k) = nonceKey d n")
  case True
  then show ?thesis
    using assms(2,3) by (auto simp: cache_blocks_def nonce_record_def Let_def split: option.splits)
next
  case False
  then show ?thesis
    using assms(2) shard_length [OF assms(1)]
    by (auto simp: cache_blocks_def nonce_record_def Let_def nth_list_update assoc_get_put split: option.splits)
qed

lemma cache_purge_keeps:
  assumes "cache_ok c" "cache_blocks c k now'" "now \<le> now'"
  shows "cache_blocks (cache_purge now c) k now'"
proof -
  let ?i = "shardFor (fst k)"
  obtain e where e: "assoc_get (c ! ?i) (nonceKey (fst k) (snd k)) = Some e" "e > now'"
    using assms(2) by (auto simp: cache_blocks_def split: option.splits)
  have "cache_purge now c ! ?i = filter (\<lambda>p. snd p > now) (c ! ?i)"
    using shard_length [OF assms(1)] by (simp add: cache_purge_def purgeExpired_def)
  moreover have "assoc_get (filter (\<lambda>p. snd p > now) (c ! ?i)) (nonceKey (fst k) (snd k)) = Some e"
    using e assms by (intro assoc_get_filter cache_ok_nth) auto
  ultimately show ?thesis using e by (simp add: cache_blocks_def)
qed

lemma cache_remembers:
  assumes "cache_ok c" "fst (cache_rec k now e c)" "now' < e"
  shows "cache_blocks (snd (cache_rec k now e c)) k now'"
  using assms shard_length [OF assms(1)]
  by (auto simp: cache_rec_def cache_blocks_def nonce_record_def Let_def assoc_get_put
      split: option.splits if_splits)

interpretation cache: replay_guard cache_rec cache_purge cache_ok cache_blocks
proof
  fix s k now e
  assume "cache_blocks s k now"
  then show "\<not> fst (cache_rec k now e s)"
    by (auto simp: cache_blocks_def cache_rec_def nonce_record_def Let_def split: option.splits)
qed (simp_all add: cache_rec_def nonce_record_ok cache_purge_def purge_ok nonce_record_keeps
    cache_remembers [unfolded cache_rec_def] cache_purge_keeps [unfolded cache_purge_def])

section \<open>The \<open>used_nonces\<close> table\<close>

text \<open>
  A row blocks its pair for as long as it is there, and \<open>PurgeExpiredNonces\<close> leaves it until the
  second of its expiry has passed. The time of the request itself is only stored along.
\<close>

definition table_rec :: "string \<times> string \<Rightarrow> time \<Rightarrow> time \<Rightarrow> database \<Rightarrow> bool \<times> database" where
  "table_rec k now e db = RecordNonce db (fst k) (snd k) (e - 5 * minute) e"

definition table_purge :: "time \<Rightarrow> database \<Rightarrow> database" where
  "table_purge now db = PurgeExpiredNonces db now"

definition table_blocks :: "database \<Rightarrow> string \<times> string \<Rightarrow> time \<Rightarrow> bool" where
  "table_blocks db k now \<longleftrightarrow> (\<exists>n \<in> set (db_used_nonces db).
     un_device_id n = fst k \<and> un_nonce n = snd k \<and> formatTime now \<le> un_expires_at n)"

lemma formatTime_mono: "t \<le> u \<Longrightarrow> formatTime t \<le> formatTime u"
proof -
  assume "t \<le> u"
  then have "t div second * second \<le> u div second * second" by (simp add: zdiv_mono1)
  then show ?thesis by (simp add: formatTime_def truncate_second_def minus_mod_eq_div_mult)
qed

interpretation table: replay_guard table_rec table_purge "\<lambda>_. True" table_blocks
proof
  fix s and k :: "string \<times> string" and now now' e :: time and j :: "string \<times> string"
  show "\<not> fst (table_rec k now e s)" if "table_blocks s k now"
    using that by (auto simp: table_blocks_def table_rec_def RecordNonce_def list_ex_iff)
  show "table_blocks (snd (table_rec k now e s)) k now'" if "fst (table_rec k now e s)" "now' < e"
    using that formatTime_mono [of now' e]
    by (auto simp: table_blocks_def table_rec_def RecordNonce_def split: if_splits)
  show "table_blocks (snd (table_rec j now e s)) k now'" if "table_blocks s k now'" "now \<le> now'"
    using that by (auto simp: table_blocks_def table_rec_def RecordNonce_def)
  show "table_blocks (table_purge now s) k now'" if "table_blocks s k now'" "now \<le> now'"
    using that formatTime_mono [of now now']
    by (fastforce simp: table_blocks_def table_purge_def PurgeExpiredNonces_def set_row_delete)
qed simp_all

end
