(* ===== verification/Auth.thy ===== *)
theory Auth
  imports Replay_Guard
begin

text \<open>
  \<open>internal/auth\<close>: the middleware that authenticates a request by its Ed25519 signature against a
  registered device. The database is read only; the state it changes is the nonce cache. A request
  body that cannot be read is \<open>None\<close>.
\<close>

section \<open>middleware.go and context.go\<close>

definition MaxClockSkew :: duration where
  "MaxClockSkew = 5 * minute"

record Identity =
  id_AccountID :: string
  id_DeviceID :: string
  id_Role :: string

datatype auth_error =
    HeadersMissing | TimestampMalformed | OutsideSkew | DeviceLookup store_error | DeviceInactive
  | DigestMissing | BodyUnreadable | SignatureRejected httpsig_error | ReplayedNonce
  | AccountLookup store_error | AccountInactive

text \<open>
  \<open>t.Add(d)\<close> adds to the \<open>int64\<close> count of seconds since the year 1, which wraps.
\<close>

definition time_add :: "time \<Rightarrow> duration \<Rightarrow> time" where
  "time_add t d = (wrap64 ((t + d) div second + 62135596800) - 62135596800) * second + (t + d) mod second"

text \<open>An entry without a space names a path for every method.\<close>

definition isStreamedBodyRequest :: "string list \<Rightarrow> http_request \<Rightarrow> bool" where
  "isStreamedBodyRequest paths r = list_ex (\<lambda>entry.
     if CHR '' '' \<in> set entry
     then Method r = fst (cut (CHR '' '') entry) \<and> URLPath r = snd (cut (CHR '' '') entry)
     else URLPath r = entry) paths"

definition request_canonical ::
    "platform \<Rightarrow> string list \<Rightarrow> http_request \<Rightarrow> RequestSignatureHeaders \<Rightarrow> auth_error + string" where
  "request_canonical P paths r headers =
     (if isStreamedBodyRequest paths r
      then let digest = header_get r HeaderBodyDigest in
        if digest = [] then Inl DigestMissing
        else let digest' = string_lower P (trim_prefix ''sha256='' (trim_space digest)) in
          Inr (CanonicalStringWithBodyDigest (Method r) (URLPath r) (RawQuery r) (h_Timestamp headers)
            (h_Nonce headers) (h_KeyID headers) digest')
      else case Body r of None \<Rightarrow> Inl BodyUnreadable
        | Some body \<Rightarrow> Inr (CanonicalStringFromRequest P r headers body))"

definition authenticate :: "platform \<Rightarrow> string list \<Rightarrow> database \<Rightarrow> time \<Rightarrow> http_request \<Rightarrow> nonceCache
    \<Rightarrow> (auth_error + Identity) \<times> nonceCache" where
  "authenticate P paths db now r nonces =
     (case ParseRequestHeaders r of None \<Rightarrow> (Inl HeadersMissing, nonces)
      | Some headers \<Rightarrow>
     (case ParseTimestamp (h_Timestamp headers) of None \<Rightarrow> (Inl TimestampMalformed, nonces)
      | Some ts \<Rightarrow>
      if \<not> WithinSkew ts now MaxClockSkew then (Inl OutsideSkew, nonces)
      else case GetDevice db (h_KeyID headers) of Inl e \<Rightarrow> (Inl (DeviceLookup e), nonces)
      | Inr device \<Rightarrow>
      if dev_Status device \<noteq> DeviceStatusActive then (Inl DeviceInactive, nonces)
      else case request_canonical P paths r headers of Inl e \<Rightarrow> (Inl e, nonces)
      | Inr canonical \<Rightarrow>
     (case httpsig_Verify P canonical (h_Signature headers) (dev_DevicePubKey device) of
        Inl e \<Rightarrow> (Inl (SignatureRejected e), nonces)
      | Inr _ \<Rightarrow>
     (case nonce_record nonces (h_KeyID headers) (h_Nonce headers) now (time_add ts MaxClockSkew) of
        (fresh, nonces') \<Rightarrow>
      if \<not> fresh then (Inl ReplayedNonce, nonces')
      else case GetAccount db (dev_AccountID device) of Inl e \<Rightarrow> (Inl (AccountLookup e), nonces')
      | Inr account \<Rightarrow>
      if acc_Status account \<noteq> AccountStatusActive then (Inl AccountInactive, nonces')
      else (Inr \<lparr>id_AccountID = dev_AccountID device, id_DeviceID = dev_DeviceID device,
                 id_Role = acc_Role account\<rparr>, nonces')))))"

definition HasSignatureHeaders :: "http_request \<Rightarrow> bool" where
  "HasSignatureHeaders r = (ParseRequestHeaders r \<noteq> None)"

text \<open>
  \<open>Require\<close>: the wrapped handler runs for an authenticated request only; every failure gets the
  same 401.
\<close>

definition Require :: "platform \<Rightarrow> string list \<Rightarrow> database \<Rightarrow> time \<Rightarrow> http_request \<Rightarrow> nonceCache
    \<Rightarrow> (Identity \<Rightarrow> (nat \<times> string) + 'a) \<Rightarrow> ((nat \<times> string) + 'a) \<times> nonceCache" where
  "Require P paths db now r nonces next =
     (case authenticate P paths db now r nonces of
        (Inl _, nonces') \<Rightarrow> (Inl (401, ''unauthorized''), nonces')
      | (Inr identity, nonces') \<Rightarrow> (next identity, nonces'))"

section \<open>What an accepted request shows\<close>

lemma time_add_id:
  assumes "- (2 ^ 63) \<le> (t + d) div second + 62135596800" "(t + d) div second + 62135596800 < 2 ^ 63"
  shows "time_add t d = t + d"
  using assms by (simp add: time_add_def wrap64_id)

lemma ParseRequestHeaders_Some:
  "ParseRequestHeaders r = Some h \<Longrightarrow> h_KeyID h = header_get r HeaderKeyID \<and> h_Nonce h = header_get r HeaderNonce
     \<and> h_Timestamp h = header_get r HeaderTimestamp \<and> h_Signature h = header_get r HeaderSignature"
  by (auto simp: ParseRequestHeaders_def Let_def split: if_splits)

lemma authenticate_Inr:
  assumes "authenticate P paths db now r c = (Inr i, c')"
  obtains h ts device canonical account where
    "ParseRequestHeaders r = Some h" "ParseTimestamp (h_Timestamp h) = Some ts" "WithinSkew ts now MaxClockSkew"
    "GetDevice db (h_KeyID h) = Inr device" "dev_Status device = DeviceStatusActive"
    "request_canonical P paths r h = Inr canonical"
    "httpsig_Verify P canonical (h_Signature h) (dev_DevicePubKey device) = Inr ()"
    "nonce_record c (h_KeyID h) (h_Nonce h) now (time_add ts MaxClockSkew) = (True, c')"
    "GetAccount db (dev_AccountID device) = Inr account" "acc_Status account = AccountStatusActive"
    "i = \<lparr>id_AccountID = dev_AccountID device, id_DeviceID = dev_DeviceID device, id_Role = acc_Role account\<rparr>"
  using assms unfolding authenticate_def
  by (auto split: option.splits if_splits sum.splits prod.splits)

lemma GetDevice_Inr:
  "GetDevice db k = Inr d \<Longrightarrow> \<exists>x \<in> set (db_devices db). d = scanDeviceFields x \<and> dev_DeviceID x = k"
  by (auto simp: GetDevice_def split: option.splits dest: row_get_SomeD)

lemma scanDeviceFields_sels [simp]: "dev_DeviceID (scanDeviceFields d) = dev_DeviceID d"
  "dev_AccountID (scanDeviceFields d) = dev_AccountID d" "dev_Status (scanDeviceFields d) = dev_Status d"
  "dev_DevicePubKey (scanDeviceFields d) = dev_DevicePubKey d" "dev_Push (scanDeviceFields d) = dev_Push d"
  "dev_PushTarget (scanDeviceFields d) = dev_PushTarget d"
  by (simp_all add: scanDeviceFields_def)

lemma GetAccount_Inr: "GetAccount db k = Inr a \<Longrightarrow> a \<in> set (db_accounts db) \<and> acc_ID a = k"
  by (auto simp: GetAccount_def split: option.splits dest: row_get_SomeD)

lemma httpsig_Verify_Inr:
  "httpsig_Verify P canonical s k = Inr () \<Longrightarrow> \<exists>sig. base64_decode s = Some sig \<and> ed25519_verify P k canonical sig"
  by (auto simp: httpsig_Verify_def split: option.splits if_splits)


section \<open>Replays\<close>

text \<open>What the middleware does over time: it authenticates requests and purges the cache.\<close>

datatype auth_event = Request database http_request | PurgeNonces

fun auth_step :: "platform \<Rightarrow> string list \<Rightarrow> time \<times> auth_event \<Rightarrow> nonceCache \<Rightarrow> nonceCache" where
  "auth_step P paths (now, Request db r) c = snd (authenticate P paths db now r c)"
| "auth_step P paths (now, PurgeNonces) c = snd (purgeExpired c now)"

lemma authenticate_cache:
  "snd (authenticate P paths db now r c) = c
     \<or> (\<exists>k e. snd (authenticate P paths db now r c) = snd (cache_rec k now e c))"
proof -
  have "fst (nonce_record c d n now e) \<or> snd (nonce_record c d n now e) = c" for d n e
    by (auto simp: nonce_record_def Let_def split: option.split)
  then show ?thesis
    unfolding authenticate_def cache_rec_def
    by (auto split: option.splits sum.splits prod.splits) (metis fst_conv snd_conv)+
qed

lemma authenticate_record:
  assumes "authenticate P paths db now r c = (Inr i, c')"
  shows "\<exists>ts. ParseTimestamp (header_get r HeaderTimestamp) = Some ts \<and> WithinSkew ts now MaxClockSkew
    \<and> cache_rec (header_get r HeaderKeyID, header_get r HeaderNonce) now (time_add ts MaxClockSkew) c = (True, c')"
  using assms by (rule authenticate_Inr) (auto simp: cache_rec_def dest!: ParseRequestHeaders_Some)

lemma auth_step_ok: "cache_ok c \<Longrightarrow> cache_ok (auth_step P paths x c)"
proof -
  assume ok: "cache_ok c"
  obtain now ev where x: "x = (now, ev)" by (cases x)
  show ?thesis
  proof (cases ev)
    case (Request db r)
    then show ?thesis
      using ok x authenticate_cache [of P paths db now r c] by (auto simp: cache.rec_ok)
  qed (simp add: x ok purge_ok)
qed

lemma auth_step_keeps:
  "cache_ok c \<Longrightarrow> cache_blocks c k now' \<Longrightarrow> fst x \<le> now' \<Longrightarrow> cache_blocks (auth_step P paths x c) k now'"
proof -
  assume *: "cache_ok c" "cache_blocks c k now'" "fst x \<le> now'"
  obtain now ev where x: "x = (now, ev)" by (cases x)
  show ?thesis
  proof (cases ev)
    case (Request db r)
    then show ?thesis
      using * x authenticate_cache [of P paths db now r c] by (auto simp: cache.rec_keeps)
  next
    case PurgeNonces
    then show ?thesis using * x cache.purge_keeps by (simp add: cache_purge_def)
  qed
qed

lemma auth_run_keeps:
  "cache_ok c \<Longrightarrow> cache_blocks c k now' \<Longrightarrow> \<forall>x \<in> set evs. fst x \<le> now'
     \<Longrightarrow> cache_blocks (fold (auth_step P paths) evs c) k now'"
  by (induction evs arbitrary: c) (auto simp: auth_step_ok auth_step_keeps)

text \<open>
  C31: Once a request has been accepted, no request with the same key id and nonce is accepted before
  its timestamp plus five minutes, whatever was authenticated and purged in between; so the request
  itself can be accepted a second time only at that very instant, when its nonce record has just
  expired and the skew test still passes.
\<close>

theorem replay_only_at_expiry:
  assumes "cache_ok c" and first: "authenticate P paths db t r c = (Inr i, c')"
    and ts: "ParseTimestamp (header_get r HeaderTimestamp) = Some ts"
    and range: "- (2 ^ 62) \<le> unix_seconds ts" "unix_seconds ts < 2 ^ 62"
    and between: "\<forall>x \<in> set evs. fst x \<le> t'"
    and same: "header_get r' HeaderKeyID = header_get r HeaderKeyID" "header_get r' HeaderNonce = header_get r HeaderNonce"
    and again: "authenticate P paths' db' t' r' (fold (auth_step P paths) evs c') = (Inr i', c'')"
  shows "ts + MaxClockSkew \<le> t'
    \<and> (header_get r' HeaderTimestamp = header_get r HeaderTimestamp \<longrightarrow> t' = ts + MaxClockSkew)"
proof -
  let ?k = "(header_get r HeaderKeyID, header_get r HeaderNonce)"
  let ?e = "time_add ts MaxClockSkew" and ?c = "fold (auth_step P paths) evs c'"
  have e: "?e = ts + MaxClockSkew"
  proof (rule time_add_id)
    have "(ts + MaxClockSkew) div second = unix_seconds ts + 300"
      by (simp add: unix_seconds_def MaxClockSkew_def minute_def second_def)
    with range show "- (2 ^ 63) \<le> (ts + MaxClockSkew) div second + 62135596800"
      "(ts + MaxClockSkew) div second + 62135596800 < 2 ^ 63" by simp_all
  qed
  have rec: "cache_rec ?k t ?e c = (True, c')" using authenticate_record [OF first] ts by auto
  obtain ts' where again': "fst (cache_rec ?k t' (time_add ts' MaxClockSkew) ?c)"
    and ts': "ParseTimestamp (header_get r' HeaderTimestamp) = Some ts'" "WithinSkew ts' t' MaxClockSkew"
    using authenticate_record [OF again] unfolding same by (metis fst_conv)
  have late: "ts + MaxClockSkew \<le> t'"
  proof (rule ccontr)
    assume "\<not> ts + MaxClockSkew \<le> t'"
    then have "cache_blocks c' ?k t'" using cache.remembers [OF assms(1), of ?k t ?e t'] rec e by simp
    moreover have "cache_ok c'" using cache.rec_ok [OF assms(1), of ?k t ?e] rec by simp
    ultimately have "cache_blocks ?c ?k t'" using between by (intro auth_run_keeps)
    then show False using cache.refuses again' by blast
  qed
  moreover have "t' = ts + MaxClockSkew" if "header_get r' HeaderTimestamp = header_get r HeaderTimestamp"
  proof -
    have "WithinSkew ts t' MaxClockSkew" using ts' ts that by simp
    with late show ?thesis
      by (auto simp: WithinSkew_def time_sub_def neg_duration_def Let_def min_def max_def
          MaxClockSkew_def minute_def second_def split: if_splits)
  qed
  ultimately show ?thesis by blast
qed

section \<open>Requests of an honest client\<close>

text \<open>The headers a client adds: its device id, the time, a nonce and the signature over them.\<close>

definition client_request :: "platform \<Rightarrow> bytes \<Rightarrow> string \<Rightarrow> string \<Rightarrow> string \<Rightarrow> string \<Rightarrow> bytes \<Rightarrow> time \<Rightarrow> string
    \<Rightarrow> http_request" where
  "client_request P priv deviceID method path q body t nonce =
     \<lparr>Method = method, URLPath = path, RawQuery = q,
      Headers = [(HeaderKeyID, deviceID), (HeaderTimestamp, FormatTimestamp t), (HeaderNonce, nonce),
        (HeaderSignature, httpsig_Sign P method path q body deviceID t nonce priv)],
      Body = Some body\<rparr>"

lemma client_headers [simp]:
  "header_get (client_request P priv d m p q b t n) HeaderKeyID = d"
  "header_get (client_request P priv d m p q b t n) HeaderTimestamp = FormatTimestamp t"
  "header_get (client_request P priv d m p q b t n) HeaderNonce = n"
  "header_get (client_request P priv d m p q b t n) HeaderSignature = httpsig_Sign P m p q b d t n priv"
  by (simp_all add: header_get_def client_request_def HeaderKeyID_def HeaderTimestamp_def HeaderNonce_def
      HeaderSignature_def)

lemma client_signature_nonempty:
  assumes "ed25519_correct P"
  shows "httpsig_Sign P m p q b d t n priv \<noteq> []"
proof
  let ?sig = "ed25519_sign P priv (CanonicalString P m p q (FormatTimestamp t) n d b)"
  assume "httpsig_Sign P m p q b d t n priv = []"
  then have "base64_decode (base64_encode ?sig) = base64_decode []" by (simp add: httpsig_Sign_def)
  then have "?sig = []" by (simp add: b64_decode_encode) (simp add: b64_decode_def)
  then show False using assms by (metis ed25519_correct_def list.size(3) zero_neq_numeral)
qed

lemma format_int_nonempty [simp]: "format_int i \<noteq> []"
  by (simp add: format_int_def)

lemma client_request_accepted:
  assumes "ed25519_correct P" and "db_ok db" and "cache_ok c"
    and "d \<in> set (db_devices db)" "dev_Status d = DeviceStatusActive" "dev_DevicePubKey d = ed25519_public P priv"
    and "a \<in> set (db_accounts db)" "acc_ID a = dev_AccountID d" "acc_Status a = AccountStatusActive"
    and "dev_DeviceID d \<noteq> []" "nonce \<noteq> []" "\<not> cache_blocks c (dev_DeviceID d, nonce) now"
    and "- (2 ^ 62) \<le> unix_seconds t" "unix_seconds t < 2 ^ 62" "\<bar>now - truncate_second t\<bar> \<le> MaxClockSkew"
    and "\<not> isStreamedBodyRequest paths (client_request P priv (dev_DeviceID d) method path q body t nonce)"
  shows "\<exists>c'. authenticate P paths db now (client_request P priv (dev_DeviceID d) method path q body t nonce) c
      = (Inr \<lparr>id_AccountID = acc_ID a, id_DeviceID = dev_DeviceID d, id_Role = acc_Role a\<rparr>, c') \<and> cache_ok c'"
proof -
  let ?r = "client_request P priv (dev_DeviceID d) method path q body t nonce"
  let ?h = "\<lparr>h_KeyID = dev_DeviceID d, h_Timestamp = FormatTimestamp t, h_Nonce = nonce,
    h_Signature = httpsig_Sign P method path q body (dev_DeviceID d) t nonce priv\<rparr>"
  have h: "ParseRequestHeaders ?r = Some ?h"
    using assms(1,10,11) by (simp add: ParseRequestHeaders_def client_signature_nonempty FormatTimestamp_def)
  note sr = signed_request_verifies_pair [OF assms(1,13,14)]
  have skew: "WithinSkew (truncate_second t) now MaxClockSkew"
    using assms(15) by (auto simp: WithinSkew_def time_sub_def neg_duration_def Let_def MaxClockSkew_def
        minute_def second_def min_def max_def split: if_splits)
  have dev: "GetDevice db (dev_DeviceID d) = Inr (scanDeviceFields d)"
    using row_get_unique [OF db_okD(2) [OF assms(2)] assms(4)] by (simp add: GetDevice_def)
  have acc: "GetAccount db (dev_AccountID d) = Inr a"
    using row_get_unique [OF db_okD(1) [OF assms(2)] assms(7)] assms(8) by (simp add: GetAccount_def)
  have can: "request_canonical P paths ?r ?h =
      Inr (CanonicalString P method path q (FormatTimestamp t) nonce (dev_DeviceID d) body)"
    using assms(16) by (simp add: request_canonical_def client_request_def CanonicalStringFromRequest_def)
  have fresh: "fst (nonce_record c (dev_DeviceID d) nonce now e)" for e
    using assms(12) by (auto simp: cache_blocks_def nonce_record_def Let_def split: option.splits)
  show ?thesis
    using fresh [of "time_add (truncate_second t) MaxClockSkew"] nonce_record_ok [OF assms(3)] assms(5,6,8,9)
    by (cases "nonce_record c (dev_DeviceID d) nonce now (time_add (truncate_second t) MaxClockSkew)")
      (simp add: authenticate_def h sr skew dev acc can, metis snd_conv)
qed

text \<open>
  A request an active device of an active account signs with its registered key is accepted, as
  that device, whenever its timestamp is in the skew window and its nonce has no record in force.
\<close>

theorem honest_request_accepted:
  assumes "ed25519_correct P" and "db_ok db" and "cache_ok c"
    and "d \<in> set (db_devices db)" "dev_Status d = DeviceStatusActive" "dev_DevicePubKey d = ed25519_public P priv"
    and "a \<in> set (db_accounts db)" "acc_ID a = dev_AccountID d" "acc_Status a = AccountStatusActive"
    and "dev_DeviceID d \<noteq> []" "nonce \<noteq> []" "\<not> cache_blocks c (dev_DeviceID d, nonce) now"
    and "- (2 ^ 62) \<le> unix_seconds t" "unix_seconds t < 2 ^ 62" "\<bar>now - truncate_second t\<bar> \<le> MaxClockSkew"
    and "\<not> isStreamedBodyRequest paths (client_request P priv (dev_DeviceID d) method path q body t nonce)"
  shows "\<exists>c'. authenticate P paths db now (client_request P priv (dev_DeviceID d) method path q body t nonce) c
      = (Inr \<lparr>id_AccountID = acc_ID a, id_DeviceID = dev_DeviceID d, id_Role = acc_Role a\<rparr>, c') \<and> cache_ok c'"
  by (rule client_request_accepted [OF assms])

lemma nonce_record_after:
  assumes "cache_ok c" "nonce_record c d n now e = (True, c')"
  shows "fst (nonce_record c' d n e e')"
  using assms shard_length [OF assms(1), of d]
  by (auto simp: nonce_record_def Let_def assoc_get_put split: option.splits if_splits)

lemma expiry_in_range:
  assumes "- (2 ^ 62) \<le> unix_seconds ts" "unix_seconds ts < 2 ^ 62"
  shows "time_add ts MaxClockSkew = ts + MaxClockSkew"
proof (rule time_add_id)
  have "(ts + MaxClockSkew) div second = unix_seconds ts + 300"
    by (simp add: unix_seconds_def MaxClockSkew_def minute_def second_def)
  with assms show "- (2 ^ 63) \<le> (ts + MaxClockSkew) div second + 62135596800"
    "(ts + MaxClockSkew) div second + 62135596800 < 2 ^ 63" by simp_all
qed

lemma accepted_at_expiry:
  assumes "cache_ok c" and first: "authenticate P paths db t r c = (Inr i, c')"
    and ts: "ParseTimestamp (header_get r HeaderTimestamp) = Some ts"
    and range: "- (2 ^ 62) \<le> unix_seconds ts" "unix_seconds ts < 2 ^ 62"
  shows "\<exists>c''. authenticate P paths db (ts + MaxClockSkew) r c' = (Inr i, c'')"
proof -
  let ?t = "ts + MaxClockSkew"
  have skew: "WithinSkew ts ?t MaxClockSkew"
    by (simp add: WithinSkew_def time_sub_def Let_def MaxClockSkew_def minute_def second_def)
  obtain h device canonical account where *: "ParseRequestHeaders r = Some h"
    "ParseTimestamp (h_Timestamp h) = Some ts" "GetDevice db (h_KeyID h) = Inr device"
    "dev_Status device = DeviceStatusActive" "request_canonical P paths r h = Inr canonical"
    "httpsig_Verify P canonical (h_Signature h) (dev_DevicePubKey device) = Inr ()"
    "nonce_record c (h_KeyID h) (h_Nonce h) t (time_add ts MaxClockSkew) = (True, c')"
    "GetAccount db (dev_AccountID device) = Inr account" "acc_Status account = AccountStatusActive"
    "i = \<lparr>id_AccountID = dev_AccountID device, id_DeviceID = dev_DeviceID device, id_Role = acc_Role account\<rparr>"
    using first ts by (elim authenticate_Inr) (auto dest: ParseRequestHeaders_Some)
  have "fst (nonce_record c' (h_KeyID h) (h_Nonce h) ?t e')" for e'
    using nonce_record_after [OF assms(1) *(7)] by (simp add: expiry_in_range [OF range])
  then show ?thesis
    using * skew by (cases "nonce_record c' (h_KeyID h) (h_Nonce h) ?t (time_add ts MaxClockSkew)")
      (simp add: authenticate_def, metis fst_conv)
qed

text \<open>
  At the instant a request's timestamp plus five minutes an accepted request is accepted again:
  the cache treats its record as expired, the skew test is inclusive.
\<close>

theorem expiry_replay_accepted:
  assumes "cache_ok c" and first: "authenticate P paths db t r c = (Inr i, c')"
    and ts: "ParseTimestamp (header_get r HeaderTimestamp) = Some ts"
    and range: "- (2 ^ 62) \<le> unix_seconds ts" "unix_seconds ts < 2 ^ 62"
  shows "\<exists>c''. authenticate P paths db (ts + MaxClockSkew) r c' = (Inr i, c'')"
  by (rule accepted_at_expiry [OF assms])

section \<open>Witnesses\<close>

definition sample_secret :: bytes where
  "sample_secret = ''device secret''"

definition sample_auth_db :: database where
  "sample_auth_db = empty_database\<lparr>db_accounts := [sample_account ''alice''],
     db_devices := [(sample_device ''a1'' ''alice'')\<lparr>dev_DevicePubKey := ed25519_public sample_platform sample_secret\<rparr>]\<rparr>"

definition sample_request :: http_request where
  "sample_request = client_request sample_platform sample_secret ''a1'' ''GET'' ''/v1/messages'' [] [] 0 ''n1''"

definition sample_identity :: Identity where
  "sample_identity = \<lparr>id_AccountID = ''alice'', id_DeviceID = ''a1'', id_Role = RoleAdmin\<rparr>"

lemma sample_auth_db_ok: "db_ok sample_auth_db"
  by (simp add: db_ok_def table_ok_defs sample_auth_db_def empty_database_def sample_account_def
      sample_device_def unique_key_def)

lemma new_cache_free: "\<not> cache_blocks newNonceCache k now"
  by (simp add: cache_blocks_def newNonceCache_def shardFor_less)

abbreviation sample_signer :: Device where
  "sample_signer \<equiv> (sample_device ''a1'' ''alice'')\<lparr>dev_DevicePubKey := ed25519_public sample_platform sample_secret\<rparr>"

lemmas sample_auth_defs = sample_auth_db_def sample_account_def sample_device_def sample_request_def
  sample_identity_def unix_seconds_def truncate_second_def MaxClockSkew_def minute_def second_def
  isStreamedBodyRequest_def

theorem honest_request_accepted_witness:
  "\<exists>c'. authenticate sample_platform [] sample_auth_db 0 sample_request newNonceCache = (Inr sample_identity, c')
    \<and> cache_ok c'"
  using honest_request_accepted [OF sample_platform_laws(2) sample_auth_db_ok newNonceCache_ok, of sample_signer
      sample_secret "sample_account ''alice''" "''n1''" 0 0 "[]" "''GET''" "''/v1/messages''" "[]" "[]"]
  by (simp add: new_cache_free sample_auth_defs)

lemma sample_accepted:
  "\<exists>c'. authenticate sample_platform [] sample_auth_db 0 sample_request newNonceCache = (Inr sample_identity, c')"
  using client_request_accepted [OF sample_platform_laws(2) sample_auth_db_ok newNonceCache_ok, of sample_signer
      sample_secret "sample_account ''alice''" "''n1''" 0 0 "[]" "''GET''" "''/v1/messages''" "[]" "[]"]
  by (auto simp: new_cache_free sample_auth_defs)

lemma sample_timestamp:
  "ParseTimestamp (header_get sample_request HeaderTimestamp) = Some 0" "unix_seconds 0 = 0"
  using signed_request_verifies_pair [OF sample_platform_laws(2), of 0]
  by (simp_all add: sample_request_def unix_seconds_def truncate_second_def)


theorem expiry_replay_accepted_witness:
  "\<exists>c' c''. authenticate sample_platform [] sample_auth_db 0 sample_request newNonceCache = (Inr sample_identity, c')
    \<and> authenticate sample_platform [] sample_auth_db (300 * second) sample_request c' = (Inr sample_identity, c'')"
proof -
  obtain c' where c': "authenticate sample_platform [] sample_auth_db 0 sample_request newNonceCache = (Inr sample_identity, c')"
    using sample_accepted by blast
  have "(0 :: time) + MaxClockSkew = 300 * second" by (simp add: MaxClockSkew_def minute_def)
  with expiry_replay_accepted [OF newNonceCache_ok c' sample_timestamp(1)] c' show ?thesis
    by (auto simp: sample_timestamp(2))
qed

theorem replay_only_at_expiry_witness:
  "\<exists>c' c''. authenticate sample_platform [] sample_auth_db 0 sample_request newNonceCache = (Inr sample_identity, c')
    \<and> authenticate sample_platform [] sample_auth_db (300 * second) sample_request
        (fold (auth_step sample_platform []) [(60 * second, PurgeNonces)] c') = (Inr sample_identity, c'')
    \<and> 300 * second = 0 + MaxClockSkew"
proof -
  let ?purge = "fold (auth_step sample_platform []) [(60 * second, PurgeNonces)]"
  have t: "(0 :: time) + MaxClockSkew = 300 * second" by (simp add: MaxClockSkew_def minute_def)
  obtain c' where c': "authenticate sample_platform [] sample_auth_db 0 sample_request newNonceCache = (Inr sample_identity, c')"
    using sample_accepted by blast
  have rec: "cache_rec (''a1'', ''n1'') 0 (300 * second) newNonceCache = (True, c')"
    using authenticate_record [OF c'] sample_timestamp expiry_in_range [of 0] t by (auto simp: sample_request_def)
  then have ok: "cache_ok (?purge c')" using cache.rec_ok [OF newNonceCache_ok] auth_step_ok by (metis fold_simps snd_conv)
  have "\<not> cache_blocks (?purge c') (''a1'', ''n1'') (300 * second)"
    using rec by (auto simp: cache_rec_def nonce_record_def newNonceCache_def shardFor_less cache_blocks_def
        purgeExpired_def Let_def second_def split: option.splits)
  then obtain c'' where c'': "authenticate sample_platform [] sample_auth_db (300 * second) sample_request (?purge c') = (Inr sample_identity, c'')"
    using client_request_accepted [OF sample_platform_laws(2) sample_auth_db_ok ok, of sample_signer
      sample_secret "sample_account ''alice''" "''n1''" "300 * second" 0 "[]" "''GET''" "''/v1/messages''" "[]" "[]"]
    by (auto simp: sample_auth_defs)
  with replay_only_at_expiry [OF newNonceCache_ok c' sample_timestamp(1), of "[(60 * second, PurgeNonces)]" "300 * second"
      sample_request "[]" sample_auth_db] c' show ?thesis by (auto simp: sample_timestamp(2) second_def)
qed

end
