(* ===== verification/Clock_Parse.thy ===== *)
theory Clock_Parse
  imports Clock
begin

text \<open>
  Go's \<open>time.Parse(time.RFC3339, s)\<close>: four-digit year, two-digit month and day, an hour of one or two
  digits, two-digit minute and second, an optional fraction after a dot or comma of which nine digits
  count, and \<open>Z\<close> or a signed offset. The store's columns are written with \<open>rfc3339\<close> and read with
  it, so the round trip proved here is what reading a stored time gives.
\<close>

section \<open>Fields\<close>

definition digit_val :: "char \<Rightarrow> int option" where
  "digit_val c = (let n = (of_char c :: nat) in if 48 \<le> n \<and> n \<le> 57 then Some (int n - 48) else None)"

fun digits_val :: "int \<Rightarrow> string \<Rightarrow> int option" where
  "digits_val acc [] = Some acc"
| "digits_val acc (c # cs) = (case digit_val c of None \<Rightarrow> None | Some d \<Rightarrow> digits_val (acc * 10 + d) cs)"

definition take_number :: "nat \<Rightarrow> string \<Rightarrow> (int \<times> string) option" where
  "take_number n s = (if length s < n then None
     else map_option (\<lambda>v. (v, drop n s)) (digits_val 0 (take n s)))"

definition take_hour :: "string \<Rightarrow> (int \<times> string) option" where
  "take_hour s = (case take_number 2 s of Some r \<Rightarrow> Some r | None \<Rightarrow> take_number 1 s)"

definition skip_char :: "char \<Rightarrow> string \<Rightarrow> string option" where
  "skip_char c s = (case s of [] \<Rightarrow> None | x # r \<Rightarrow> if x = c then Some r else None)"

definition take_fraction :: "string \<Rightarrow> int \<times> string" where
  "take_fraction s = (case s of
     x # y # r \<Rightarrow>
       if x \<in> {CHR ''.'', CHR '',''} \<and> digit_val y \<noteq> None
       then let ds = takeWhile (\<lambda>c. digit_val c \<noteq> None) (y # r); nine = take 9 ds
            in ((case digits_val 0 nine of Some v \<Rightarrow> v | None \<Rightarrow> 0) * 10 ^ (9 - length nine), drop (length ds) (y # r))
       else (0, s)
   | _ \<Rightarrow> (0, s))"

definition take_zone :: "string \<Rightarrow> int option" where
  "take_zone s =
     (if s = ''Z'' then Some 0
      else case s of
        sign # r \<Rightarrow>
          Option.bind (take_number 2 r) (\<lambda>(hr, r1).
          Option.bind (skip_char (CHR '':'') r1) (\<lambda>r2.
          Option.bind (take_number 2 r2) (\<lambda>(mm, r3).
            if r3 \<noteq> [] \<or> hr > 24 \<or> mm > 60 then None
            else if sign = CHR ''+'' then Some ((hr * 60 + mm) * 60)
            else if sign = CHR ''-'' then Some (- ((hr * 60 + mm) * 60))
            else None)))
      | [] \<Rightarrow> None)"

definition days_in_month :: "int \<Rightarrow> int \<Rightarrow> int" where
  "days_in_month y m = (if m = 12 then 31
     else month_starts (leap_year y) ! nat m - month_starts (leap_year y) ! nat (m - 1))"

definition civil_seconds :: "int \<Rightarrow> int \<Rightarrow> int \<Rightarrow> int \<Rightarrow> int \<Rightarrow> int \<Rightarrow> int" where
  "civil_seconds y m d hh mi ss =
     (days_before_year y + month_starts (leap_year y) ! nat (m - 1) + (d - 1) - 719528) * 86400
       + hh * 3600 + mi * 60 + ss"

definition parse_rfc3339 :: "string \<Rightarrow> time option" where
  "parse_rfc3339 s =
     Option.bind (take_number 4 s) (\<lambda>(y, s1). Option.bind (skip_char (CHR ''-'') s1) (\<lambda>s2.
     Option.bind (take_number 2 s2) (\<lambda>(m, s3). if m < 1 \<or> 12 < m then None else
     Option.bind (skip_char (CHR ''-'') s3) (\<lambda>s4.
     Option.bind (take_number 2 s4) (\<lambda>(d, s5). Option.bind (skip_char (CHR ''T'') s5) (\<lambda>s6.
     Option.bind (take_hour s6) (\<lambda>(hh, s7). if 24 \<le> hh then None else
     Option.bind (skip_char (CHR '':'') s7) (\<lambda>s8.
     Option.bind (take_number 2 s8) (\<lambda>(mi, s9). if 60 \<le> mi then None else
     Option.bind (skip_char (CHR '':'') s9) (\<lambda>s10.
     Option.bind (take_number 2 s10) (\<lambda>(ss, s11). if 60 \<le> ss then None else
     let (ns, s12) = take_fraction s11 in
     Option.bind (take_zone s12) (\<lambda>off.
       if d < 1 \<or> days_in_month y m < d then None
       else Some ((civil_seconds y m d hh mi ss - off) * second + ns)))))))))))))"

section \<open>Reading back what was written\<close>

lemma digit_val_digit: "0 \<le> d \<Longrightarrow> d < 10 \<Longrightarrow> digit_val (digit d) = Some d"
  by (simp add: digit_val_def digit_def Let_def of_char_of nat_add_distrib)

lemma take_two: "0 \<le> n \<Longrightarrow> n < 100 \<Longrightarrow> take_number 2 (two_digits n @ r) = Some (n, r)"
proof -
  assume n: "0 \<le> n" "n < 100"
  then have "0 \<le> n div 10" "n div 10 < 10" by linarith+
  then show ?thesis
    by (simp add: take_number_def two_digits_def numeral_2_eq_2 digit_val_digit)
qed

lemma digits_val_append:
  "digits_val a (xs @ ys) = (case digits_val a xs of None \<Rightarrow> None | Some b \<Rightarrow> digits_val b ys)"
  by (induction xs arbitrary: a) (auto split: option.split)

lemma take_four: "0 \<le> n \<Longrightarrow> n < 10000 \<Longrightarrow> take_number 4 (four_digits n @ r) = Some (n, r)"
proof -
  assume n: "0 \<le> n" "n < 10000"
  define a b where "a = n div 100" and "b = n mod 100"
  have ab: "0 \<le> a" "a < 100" "0 \<le> b" "b < 100" "n = a * 100 + b"
    using n by (auto simp: a_def b_def)
  have two: "digits_val v (two_digits x) = Some (v * 100 + x)" if "0 \<le> x" "x < 100" for v x
  proof -
    have "0 \<le> x div 10" "x div 10 < 10" using that by linarith+
    moreover have "(v * 10 + x div 10) * 10 + x mod 10 = v * 100 + x" by simp
    ultimately show ?thesis by (simp add: two_digits_def digit_val_digit)
  qed
  have "digits_val 0 (four_digits n) = Some n"
    using ab two by (simp add: four_digits_def digits_val_append a_def [symmetric] b_def [symmetric])
  then show ?thesis by (simp add: take_number_def)
qed

lemma ceil_div_step:
  fixes y k :: int
  assumes "0 < k"
  shows "(y + k) div k - (y + (k - 1)) div k = (if y mod k = 0 then 1 else 0)"
proof -
  define q r where "q = y div k" and "r = y mod k"
  have y: "y = q * k + r" "0 \<le> r" "r < k" using assms by (simp_all add: q_def r_def)
  have split: "(q * k + z) div k = q + z div k" for z using assms by (simp add: add.commute)
  have "(y + k) div k = q + 1" using assms div_add_self2 [of k y] by (simp add: q_def)
  moreover have "(y + (k - 1)) div k = q + (r + (k - 1)) div k"
    using split [of "r + (k - 1)"] y(1) by (simp add: add.assoc)
  moreover have "(r + (k - 1)) div k = (if r = 0 then 0 else 1)"
    using y(2,3) by (auto simp: int_div_pos_eq [of _ k 1 "r - 1"])
  ultimately show ?thesis by (simp add: r_def)
qed

lemma ceil_div_pred:
  fixes y :: int
  assumes "(numeral k :: int) - 1 = numeral j"
  shows "(y + numeral k) div numeral k - (y + numeral j) div numeral k = (if y mod numeral k = 0 then 1 else 0)"
  using ceil_div_step [of "numeral k" y] unfolding assms by simp

lemma days_before_next_year:
  "days_before_year (y + 1) = days_before_year y + (if leap_year y then 366 else 365)"
proof -
  have mods: "y mod 400 = 0 \<Longrightarrow> y mod 100 = 0" "y mod 100 = 0 \<Longrightarrow> y mod 4 = 0"
    using dvd_trans [of 100 400 y] dvd_trans [of 4 100 y] by (simp_all add: mod_eq_0_iff_dvd)
  have "days_before_year (y + 1) - days_before_year y = 365 + ((y + 4) div 4 - (y + 3) div 4)
      - ((y + 100) div 100 - (y + 99) div 100) + ((y + 400) div 400 - (y + 399) div 400)"
    by (simp only: days_before_year_def) (simp add: add.commute)
  also have "\<dots> = 365 + (if y mod 4 = 0 then 1 else 0) - (if y mod 100 = 0 then 1 else 0)
      + (if y mod 400 = 0 then 1 else 0)"
    by (subst ceil_div_pred, simp)+ (rule refl)
  finally show ?thesis
    using mods unfolding leap_year_def
    by (cases "y mod 4 = 0"; cases "y mod 100 = 0"; cases "y mod 400 = 0") simp_all
qed

lemma month_length:
  assumes "0 \<le> doy" "doy < (if leap then 366 else 365)" "m = month_of_day leap doy" "\<not> m = 11"
  shows "doy < month_starts leap ! Suc m"
proof -
  let ?ms = "month_starts leap" and ?pre = "takeWhile (\<lambda>d. d \<le> doy) (tl (month_starts leap))"
  have m: "m < 11"
    using assms length_takeWhile_le [of "\<lambda>d. d \<le> doy" "tl ?ms"] by (simp add: month_of_day_def)
  then have "length ?pre < length (tl ?ms)" using assms(3) by (simp add: month_of_day_def)
  then have "\<not> tl ?ms ! m \<le> doy"
    using nth_length_takeWhile [of "\<lambda>d. d \<le> doy" "tl ?ms"] assms(3) by (simp add: month_of_day_def)
  then show ?thesis using m by (simp add: nth_tl)
qed

text \<open>
  \<open>time.Parse\<close> reads back what \<open>Format\<close> wrote, up to the fraction of a second, for every time of
  the years 0 to 9999.
\<close>

theorem stored_time_reads_back:
  assumes "rfc3339_range t"
  shows "parse_rfc3339 (rfc3339 t) = Some (truncate_second t)"
proof -
  define day where "day = unix_seconds t div 86400 + 719528"
  define tod where "tod = unix_seconds t mod 86400"
  define y where "y = year_of_day day"
  define doy where "doy = day - days_before_year y"
  define m where "m = month_of_day (leap_year y) doy"
  define d where "d = doy - month_starts (leap_year y) ! m"
  have dayr: "0 \<le> day" "day < 3652425" using assms unfolding day_def rfc3339_range_def by linarith+
  have yr: "0 \<le> y" "y < 10000" using year_range [OF dayr] by (simp_all add: y_def)
  have doyr: "0 \<le> doy" "doy < (if leap_year y then 366 else 365)"
    using year_of_day_spec [of day] days_before_next_year [of y] by (auto simp: doy_def y_def)
  then have mr: "m < 12" "0 \<le> d" "d \<le> 31"
    using month_of_day_spec [of doy "leap_year y"] by (auto simp: m_def d_def split: if_splits)
  have len: "d < days_in_month y (int m + 1)"
  proof (cases "m = 11")
    case True
    then show ?thesis using doyr by (auto simp: days_in_month_def d_def month_starts_def Let_def split: if_splits)
  next
    case False
    then show ?thesis
      using month_length [OF doyr m_def] mr(1) by (simp add: days_in_month_def d_def nat_add_distrib)
  qed
  define hh mi ss where "hh = tod div 3600" and "mi = tod div 60 mod 60" and "ss = tod mod 60"
  have todr: "0 \<le> tod" "tod < 86400" by (simp_all add: tod_def)
  have hr: "0 \<le> hh" "hh < 24" "0 \<le> mi" "mi < 60" "0 \<le> ss" "ss < 60"
    unfolding hh_def mi_def ss_def using todr by (simp_all add: pos_imp_zdiv_nonneg_iff)
  have sum: "hh * 3600 + mi * 60 + ss = tod"
  proof -
    have "tod div 60 = 60 * (tod div 3600) + tod div 60 mod 60" using zdiv_zmult2_eq [of 60 tod 60] by simp
    moreover have "tod = 60 * (tod div 60) + tod mod 60" by simp
    ultimately show ?thesis unfolding hh_def mi_def ss_def by linarith
  qed
  have str: "rfc3339 t = four_digits y @ CHR ''-'' # two_digits (int m + 1) @ CHR ''-'' # two_digits (d + 1)
      @ CHR ''T'' # two_digits hh @ CHR '':'' # two_digits mi @ CHR '':'' # two_digits ss @ ''Z''"
    by (simp add: rfc3339_def Let_def day_def tod_def y_def doy_def m_def d_def hh_def mi_def ss_def)
  have civil: "civil_seconds y (int m + 1) (d + 1) hh mi ss = unix_seconds t"
  proof -
    have "civil_seconds y (int m + 1) (d + 1) hh mi ss = (day - 719528) * 86400 + tod"
      using sum by (simp add: civil_seconds_def d_def doy_def)
    then show ?thesis by (simp add: day_def tod_def)
  qed
  have "unix_seconds t * second = truncate_second t"
    by (simp add: truncate_second_def unix_seconds_def minus_mod_eq_div_mult)
  then show ?thesis
    unfolding str parse_rfc3339_def using yr mr hr len
    by (simp add: take_four take_two take_hour_def skip_char_def take_fraction_def take_zone_def civil)
qed

definition sample_time :: time where
  "sample_time = 1709210096 * second + 7"

theorem stored_time_reads_back_witness:
  "parse_rfc3339 (rfc3339 sample_time) = Some (1709210096 * second)"
proof -
  have "rfc3339_range sample_time" "truncate_second sample_time = 1709210096 * second"
    by (simp_all add: rfc3339_range_def sample_time_def unix_seconds_def truncate_second_def second_def)
  with stored_time_reads_back [of sample_time] show ?thesis by simp
qed

end
