(* ===== verification/Devicecert.thy ===== *)
theory Devicecert
  imports Platform
begin

text \<open>
  \<open>pkg/devicecert\<close>: the records that tie a device to an account (device certificate and
  revocation, signed by the account's root key) and a device's key-agreement keys to that device
  (DH identity and signed prekey certificates, signed by the device key). The locale
  \<open>signed_record\<close> states what the four have in common and is interpreted on each of them.
\<close>

section \<open>Signing and verifying\<close>

datatype cert_error =
    DeviceIDNotHex | DeviceIDLength nat | DevicePubKeyLength nat | DHPubKeyLength nat
  | PrekeyPubKeyLength nat | SignatureLength nat | SignerKeyLength nat | SignatureFailed

text \<open>
  The tail every \<open>Verify\<close> method of this package shares: the signing bytes first, then the two
  lengths, then the signature itself.
\<close>

definition verify_bytes :: "platform \<Rightarrow> bytes \<Rightarrow> cert_error + bytes \<Rightarrow> bytes \<Rightarrow> cert_error + unit" where
  "verify_bytes P pubKey signing sig =
     (case signing of Inl e \<Rightarrow> Inl e
      | Inr buf \<Rightarrow>
          if length sig \<noteq> signature_size then Inl (SignatureLength (length sig))
          else if length pubKey \<noteq> public_key_size then Inl (SignerKeyLength (length pubKey))
          else if \<not> ed25519_verify P pubKey buf sig then Inl SignatureFailed
          else Inr ())"

lemma verify_bytes_Inr:
  "verify_bytes P pubKey signing sig = Inr () \<longleftrightarrow>
   (\<exists>buf. signing = Inr buf \<and> length sig = 64 \<and> length pubKey = 32 \<and> ed25519_verify P pubKey buf sig)"
  by (auto simp: verify_bytes_def split: sum.splits)

locale signed_record =
  fixes signing :: "'r \<Rightarrow> cert_error + bytes"
    and sig :: "'r \<Rightarrow> bytes"
    and with_sig :: "bytes \<Rightarrow> 'r \<Rightarrow> 'r"
  assumes signing_with: "signing (with_sig s r) = signing r"
    and sig_with: "sig (with_sig s r) = s"
begin

lemma signed_verifies:
  assumes "ed25519_correct P" and "signing r = Inr buf"
  shows "verify_bytes P (ed25519_public P priv) (signing (with_sig (ed25519_sign P priv buf) r))
    (sig (with_sig (ed25519_sign P priv buf) r)) = Inr ()"
  using assms by (simp add: verify_bytes_Inr signing_with sig_with ed25519_correct_def)

lemma tampering_changes_bytes:
  assumes "verify_bytes P pk (signing r) (sig r) = Inr ()" and "\<not> verify_bytes P pk (signing r') (sig r) = Inr ()"
  shows "signing r \<noteq> signing r'"
  using assms by auto

end

section \<open>Device ids\<close>

abbreviation (input) deviceIDBytes :: nat where
  "deviceIDBytes \<equiv> 8"

definition NewDeviceID :: "bytes \<Rightarrow> string" where
  "NewDeviceID rand = hex_encode (take deviceIDBytes rand)"

definition decodeDeviceID :: "string \<Rightarrow> cert_error + bytes" where
  "decodeDeviceID ident =
     (case hex_decode ident of None \<Rightarrow> Inl DeviceIDNotHex
      | Some r \<Rightarrow> if length r \<noteq> deviceIDBytes then Inl (DeviceIDLength (length r)) else Inr r)"

lemma decodeDeviceID_length: "decodeDeviceID d = Inr r \<Longrightarrow> length r = 8"
  by (auto simp: decodeDeviceID_def split: option.splits if_splits)

lemma decode_NewDeviceID: "length rand = 8 \<Longrightarrow> decodeDeviceID (NewDeviceID rand) = Inr rand"
  by (simp add: decodeDeviceID_def NewDeviceID_def hex_decode_encode)

section \<open>Device certificates\<close>

record DeviceCertificate =
  dc_AccountID :: string
  dc_DeviceID :: string
  dc_DevicePubKey :: bytes
  dc_IssuedAt :: time
  dc_Signature :: bytes

definition device_cert_signingBytes :: "DeviceCertificate \<Rightarrow> cert_error + bytes" where
  "device_cert_signingBytes c =
     (case decodeDeviceID (dc_DeviceID c) of Inl e \<Rightarrow> Inl e
      | Inr deviceIDRaw \<Rightarrow>
          if length (dc_DevicePubKey c) \<noteq> public_key_size
          then Inl (DevicePubKeyLength (length (dc_DevicePubKey c)))
          else Inr (write_length_prefixed (dc_AccountID c) @ deviceIDRaw @ dc_DevicePubKey c
                    @ write_length_prefixed (rfc3339 (dc_IssuedAt c))))"

definition SignDeviceCertificate ::
    "platform \<Rightarrow> string \<Rightarrow> string \<Rightarrow> bytes \<Rightarrow> time \<Rightarrow> bytes \<Rightarrow> cert_error + DeviceCertificate" where
  "SignDeviceCertificate P accountID deviceID devicePubKey issuedAt rootPriv =
     (let cert = \<lparr>dc_AccountID = accountID, dc_DeviceID = deviceID, dc_DevicePubKey = devicePubKey,
                  dc_IssuedAt = issuedAt, dc_Signature = []\<rparr>
      in case device_cert_signingBytes cert of Inl e \<Rightarrow> Inl e
         | Inr buf \<Rightarrow> Inr (cert\<lparr>dc_Signature := ed25519_sign P rootPriv buf\<rparr>))"

definition device_cert_Verify :: "platform \<Rightarrow> DeviceCertificate \<Rightarrow> bytes \<Rightarrow> cert_error + unit" where
  "device_cert_Verify P c rootPubKey =
     verify_bytes P rootPubKey (device_cert_signingBytes c) (dc_Signature c)"

interpretation dc: signed_record device_cert_signingBytes dc_Signature "\<lambda>s c. c\<lparr>dc_Signature := s\<rparr>"
  by unfold_locales (simp_all add: device_cert_signingBytes_def split: sum.split)

section \<open>Device revocations\<close>

record DeviceRevocation =
  dr_AccountID :: string
  dr_DeviceID :: string
  dr_RevokedAt :: time
  dr_Signature :: bytes

definition revocation_signingBytes :: "DeviceRevocation \<Rightarrow> cert_error + bytes" where
  "revocation_signingBytes r =
     (case decodeDeviceID (dr_DeviceID r) of Inl e \<Rightarrow> Inl e
      | Inr deviceIDRaw \<Rightarrow> Inr (write_length_prefixed (dr_AccountID r) @ deviceIDRaw
                    @ write_length_prefixed (rfc3339 (dr_RevokedAt r))))"

definition SignDeviceRevocation ::
    "platform \<Rightarrow> string \<Rightarrow> string \<Rightarrow> time \<Rightarrow> bytes \<Rightarrow> cert_error + DeviceRevocation" where
  "SignDeviceRevocation P accountID deviceID revokedAt rootPriv =
     (let rev = \<lparr>dr_AccountID = accountID, dr_DeviceID = deviceID, dr_RevokedAt = revokedAt,
                 dr_Signature = []\<rparr>
      in case revocation_signingBytes rev of Inl e \<Rightarrow> Inl e
         | Inr buf \<Rightarrow> Inr (rev\<lparr>dr_Signature := ed25519_sign P rootPriv buf\<rparr>))"

definition revocation_Verify :: "platform \<Rightarrow> DeviceRevocation \<Rightarrow> bytes \<Rightarrow> cert_error + unit" where
  "revocation_Verify P r rootPubKey =
     verify_bytes P rootPubKey (revocation_signingBytes r) (dr_Signature r)"

interpretation dr: signed_record revocation_signingBytes dr_Signature "\<lambda>s c. c\<lparr>dr_Signature := s\<rparr>"
  by unfold_locales (simp_all add: revocation_signingBytes_def split: sum.split)

section \<open>DH identity certificates\<close>

abbreviation (input) x25519PubKeySize :: nat where
  "x25519PubKeySize \<equiv> 32"

record DHIdentityCertificate =
  dh_AccountID :: string
  dh_DeviceID :: string
  dh_DHPubKey :: bytes
  dh_IssuedAt :: time
  dh_Signature :: bytes

definition dh_identity_signingBytes :: "DHIdentityCertificate \<Rightarrow> cert_error + bytes" where
  "dh_identity_signingBytes c =
     (case decodeDeviceID (dh_DeviceID c) of Inl e \<Rightarrow> Inl e
      | Inr deviceIDRaw \<Rightarrow>
          if length (dh_DHPubKey c) \<noteq> x25519PubKeySize
          then Inl (DHPubKeyLength (length (dh_DHPubKey c)))
          else Inr (write_length_prefixed (dh_AccountID c) @ deviceIDRaw @ dh_DHPubKey c
                    @ write_length_prefixed (rfc3339 (dh_IssuedAt c))))"

definition SignDHIdentityCertificate ::
    "platform \<Rightarrow> string \<Rightarrow> string \<Rightarrow> bytes \<Rightarrow> time \<Rightarrow> bytes \<Rightarrow> cert_error + DHIdentityCertificate" where
  "SignDHIdentityCertificate P accountID deviceID dhPubKey issuedAt devicePriv =
     (let cert = \<lparr>dh_AccountID = accountID, dh_DeviceID = deviceID, dh_DHPubKey = dhPubKey,
                  dh_IssuedAt = issuedAt, dh_Signature = []\<rparr>
      in case dh_identity_signingBytes cert of Inl e \<Rightarrow> Inl e
         | Inr buf \<Rightarrow> Inr (cert\<lparr>dh_Signature := ed25519_sign P devicePriv buf\<rparr>))"

definition dh_identity_Verify :: "platform \<Rightarrow> DHIdentityCertificate \<Rightarrow> bytes \<Rightarrow> cert_error + unit" where
  "dh_identity_Verify P c devicePubKey =
     verify_bytes P devicePubKey (dh_identity_signingBytes c) (dh_Signature c)"

interpretation dh: signed_record dh_identity_signingBytes dh_Signature "\<lambda>s c. c\<lparr>dh_Signature := s\<rparr>"
  by unfold_locales (simp_all add: dh_identity_signingBytes_def split: sum.split)

section \<open>Signed prekey certificates\<close>

record SignedPrekeyCertificate =
  sp_AccountID :: string
  sp_DeviceID :: string
  sp_KeyID :: "32 word"
  sp_DHIdentityPubKey :: bytes
  sp_PrekeyPubKey :: bytes
  sp_IssuedAt :: time
  sp_Signature :: bytes

definition signed_prekey_signingBytes :: "SignedPrekeyCertificate \<Rightarrow> cert_error + bytes" where
  "signed_prekey_signingBytes c =
     (case decodeDeviceID (sp_DeviceID c) of Inl e \<Rightarrow> Inl e
      | Inr deviceIDRaw \<Rightarrow>
          if length (sp_DHIdentityPubKey c) \<noteq> x25519PubKeySize
          then Inl (DHPubKeyLength (length (sp_DHIdentityPubKey c)))
          else if length (sp_PrekeyPubKey c) \<noteq> x25519PubKeySize
          then Inl (PrekeyPubKeyLength (length (sp_PrekeyPubKey c)))
          else Inr (write_length_prefixed (sp_AccountID c) @ deviceIDRaw
                    @ big_endian 4 (unat (sp_KeyID c)) @ sp_DHIdentityPubKey c @ sp_PrekeyPubKey c
                    @ write_length_prefixed (rfc3339 (sp_IssuedAt c))))"

definition SignSignedPrekeyCertificate ::
    "platform \<Rightarrow> string \<Rightarrow> string \<Rightarrow> 32 word \<Rightarrow> bytes \<Rightarrow> bytes \<Rightarrow> time \<Rightarrow> bytes
     \<Rightarrow> cert_error + SignedPrekeyCertificate" where
  "SignSignedPrekeyCertificate P accountID deviceID keyID dhIdentityPubKey prekeyPubKey issuedAt devicePriv =
     (let cert = \<lparr>sp_AccountID = accountID, sp_DeviceID = deviceID, sp_KeyID = keyID,
                  sp_DHIdentityPubKey = dhIdentityPubKey, sp_PrekeyPubKey = prekeyPubKey,
                  sp_IssuedAt = issuedAt, sp_Signature = []\<rparr>
      in case signed_prekey_signingBytes cert of Inl e \<Rightarrow> Inl e
         | Inr buf \<Rightarrow> Inr (cert\<lparr>sp_Signature := ed25519_sign P devicePriv buf\<rparr>))"

definition signed_prekey_Verify :: "platform \<Rightarrow> SignedPrekeyCertificate \<Rightarrow> bytes \<Rightarrow> cert_error + unit" where
  "signed_prekey_Verify P c devicePubKey =
     verify_bytes P devicePubKey (signed_prekey_signingBytes c) (sp_Signature c)"

interpretation sp: signed_record signed_prekey_signingBytes sp_Signature "\<lambda>s c. c\<lparr>sp_Signature := s\<rparr>"
  by unfold_locales (simp_all add: signed_prekey_signingBytes_def split: sum.split)

section \<open>What a signature covers\<close>

text \<open>
  The fields of each record that its signing bytes determine. The device id enters as the eight
  bytes it decodes to, so two spellings of one id that differ in letter case are the same signed
  statement.
\<close>

definition device_cert_content :: "DeviceCertificate \<Rightarrow> string \<times> (cert_error + bytes) \<times> bytes \<times> time" where
  "device_cert_content c =
     (dc_AccountID c, decodeDeviceID (dc_DeviceID c), dc_DevicePubKey c, dc_IssuedAt c)"

definition revocation_content :: "DeviceRevocation \<Rightarrow> string \<times> (cert_error + bytes) \<times> time" where
  "revocation_content r = (dr_AccountID r, decodeDeviceID (dr_DeviceID r), dr_RevokedAt r)"

definition signed_prekey_content ::
    "SignedPrekeyCertificate \<Rightarrow> string \<times> (cert_error + bytes) \<times> 32 word \<times> bytes \<times> bytes \<times> time" where
  "signed_prekey_content c = (sp_AccountID c, decodeDeviceID (sp_DeviceID c), sp_KeyID c,
     sp_DHIdentityPubKey c, sp_PrekeyPubKey c, sp_IssuedAt c)"

definition timestamp_ok :: "time \<Rightarrow> bool" where
  "timestamp_ok t \<longleftrightarrow> rfc3339_range t \<and> whole_second t"

lemma timestamp_inject: "timestamp_ok t \<Longrightarrow> timestamp_ok u \<Longrightarrow> rfc3339 t = rfc3339 u \<longleftrightarrow> t = u"
  by (simp add: timestamp_ok_def rfc3339_inject)

lemma device_cert_bytes_inject:
  assumes "device_cert_signingBytes c = Inr b" "device_cert_signingBytes c' = Inr b"
    "fits16 (dc_AccountID c)" "fits16 (dc_AccountID c')" "timestamp_ok (dc_IssuedAt c)" "timestamp_ok (dc_IssuedAt c')"
  shows "device_cert_content c = device_cert_content c'"
proof -
  obtain d d' where d: "decodeDeviceID (dc_DeviceID c) = Inr d" "decodeDeviceID (dc_DeviceID c') = Inr d'"
    and k: "length (dc_DevicePubKey c) = 32" "length (dc_DevicePubKey c') = 32"
    and b: "b = write_length_prefixed (dc_AccountID c) @ d @ dc_DevicePubKey c
      @ write_length_prefixed (rfc3339 (dc_IssuedAt c))"
     "b = write_length_prefixed (dc_AccountID c') @ d' @ dc_DevicePubKey c'
      @ write_length_prefixed (rfc3339 (dc_IssuedAt c'))"
    using assms(1,2) by (auto simp: device_cert_signingBytes_def split: sum.splits if_splits)
  have l: "length d = length d'" using d by (simp add: decodeDeviceID_length)
  from b have "dc_AccountID c = dc_AccountID c'" "d @ dc_DevicePubKey c @ write_length_prefixed (rfc3339 (dc_IssuedAt c))
      = d' @ dc_DevicePubKey c' @ write_length_prefixed (rfc3339 (dc_IssuedAt c'))"
    using lp.cancel [OF assms(3,4)] by blast+
  with l k assms(5,6) d show ?thesis
    by (simp add: device_cert_content_def lp.enc_inject timestamp_inject)
qed

lemma revocation_bytes_inject:
  assumes "revocation_signingBytes r = Inr b" "revocation_signingBytes r' = Inr b"
    "fits16 (dr_AccountID r)" "fits16 (dr_AccountID r')" "timestamp_ok (dr_RevokedAt r)" "timestamp_ok (dr_RevokedAt r')"
  shows "revocation_content r = revocation_content r'"
proof -
  obtain d d' where d: "decodeDeviceID (dr_DeviceID r) = Inr d" "decodeDeviceID (dr_DeviceID r') = Inr d'"
    and b: "write_length_prefixed (dr_AccountID r) @ d @ write_length_prefixed (rfc3339 (dr_RevokedAt r))
      = write_length_prefixed (dr_AccountID r') @ d' @ write_length_prefixed (rfc3339 (dr_RevokedAt r'))"
    using assms(1,2) by (auto simp: revocation_signingBytes_def split: sum.splits)
  have "length d = length d'" using d by (simp add: decodeDeviceID_length)
  with lp.cancel [OF assms(3,4) b] assms(5,6) d show ?thesis
    by (simp add: revocation_content_def lp.enc_inject timestamp_inject)
qed

text \<open>
  The two records a root key signs can never share signing bytes: after the account id and the
  device id one has 54 bytes left and the other 22.
\<close>

lemma certificate_revocation_bytes_differ:
  assumes "device_cert_signingBytes c = Inr b" "revocation_signingBytes r = Inr b'"
    "fits16 (dc_AccountID c)" "fits16 (dr_AccountID r)"
  shows "b \<noteq> b'"
proof
  assume "b = b'"
  with assms(1,2) obtain d d' where
    d: "decodeDeviceID (dc_DeviceID c) = Inr d" "decodeDeviceID (dr_DeviceID r) = Inr d'"
    and k: "length (dc_DevicePubKey c) = 32"
    and b: "write_length_prefixed (dc_AccountID c) @ d @ dc_DevicePubKey c
        @ write_length_prefixed (rfc3339 (dc_IssuedAt c))
      = write_length_prefixed (dr_AccountID r) @ d' @ write_length_prefixed (rfc3339 (dr_RevokedAt r))"
    by (auto simp: device_cert_signingBytes_def revocation_signingBytes_def split: sum.splits if_splits)
  from lp.cancel [OF assms(3,4) b] have
    "length (d @ dc_DevicePubKey c @ write_length_prefixed (rfc3339 (dc_IssuedAt c)))
     = length (d' @ write_length_prefixed (rfc3339 (dr_RevokedAt r)))" by simp
  then show False using d k by (simp add: decodeDeviceID_length write_length_prefixed_def)
qed

lemma signed_prekey_bytes_inject:
  assumes "signed_prekey_signingBytes c = Inr b" "signed_prekey_signingBytes c' = Inr b"
    "fits16 (sp_AccountID c)" "fits16 (sp_AccountID c')" "timestamp_ok (sp_IssuedAt c)" "timestamp_ok (sp_IssuedAt c')"
  shows "signed_prekey_content c = signed_prekey_content c'"
proof -
  obtain d d' where d: "decodeDeviceID (sp_DeviceID c) = Inr d" "decodeDeviceID (sp_DeviceID c') = Inr d'"
    and k: "length (sp_DHIdentityPubKey c) = 32" "length (sp_DHIdentityPubKey c') = 32"
      "length (sp_PrekeyPubKey c) = 32" "length (sp_PrekeyPubKey c') = 32"
    and b: "write_length_prefixed (sp_AccountID c) @ d @ big_endian 4 (unat (sp_KeyID c))
        @ sp_DHIdentityPubKey c @ sp_PrekeyPubKey c @ write_length_prefixed (rfc3339 (sp_IssuedAt c))
      = write_length_prefixed (sp_AccountID c') @ d' @ big_endian 4 (unat (sp_KeyID c'))
        @ sp_DHIdentityPubKey c' @ sp_PrekeyPubKey c' @ write_length_prefixed (rfc3339 (sp_IssuedAt c'))"
    using assms(1,2) by (auto simp: signed_prekey_signingBytes_def split: sum.splits if_splits)
  have l: "length d = length d'" using d by (simp add: decodeDeviceID_length)
  have u: "unat (sp_KeyID c) < 256 ^ 4" "unat (sp_KeyID c') < 256 ^ 4"
    using unat_less_word [of "sp_KeyID c"] unat_less_word [of "sp_KeyID c'"] by simp_all
  from lp.cancel [OF assms(3,4) b] l have "sp_AccountID c = sp_AccountID c'" "d = d'"
    "big_endian 4 (unat (sp_KeyID c)) = big_endian 4 (unat (sp_KeyID c'))"
    "sp_DHIdentityPubKey c @ sp_PrekeyPubKey c @ write_length_prefixed (rfc3339 (sp_IssuedAt c))
      = sp_DHIdentityPubKey c' @ sp_PrekeyPubKey c' @ write_length_prefixed (rfc3339 (sp_IssuedAt c'))"
    by simp_all
  with k u d assms(5,6) show ?thesis
    by (simp add: signed_prekey_content_def lp.enc_inject timestamp_inject be.enc_inject word_unat_eq_iff)
qed

section \<open>Properties\<close>

lemma device_cert_sign_verify:
  assumes "ed25519_correct P" "SignDeviceCertificate P acc dev pk t priv = Inr c"
  shows "device_cert_Verify P c (ed25519_public P priv) = Inr ()"
  using assms dc.signed_verifies [OF assms(1), of "\<lparr>dc_AccountID = acc, dc_DeviceID = dev, dc_DevicePubKey = pk, dc_IssuedAt = t, dc_Signature = []\<rparr>" _ priv]
  by (auto simp: SignDeviceCertificate_def device_cert_Verify_def Let_def split: sum.splits)

lemma revocation_sign_verify:
  assumes "ed25519_correct P" "SignDeviceRevocation P acc dev t priv = Inr c"
  shows "revocation_Verify P c (ed25519_public P priv) = Inr ()"
  using assms dr.signed_verifies [OF assms(1), of "\<lparr>dr_AccountID = acc, dr_DeviceID = dev, dr_RevokedAt = t, dr_Signature = []\<rparr>" _ priv]
  by (auto simp: SignDeviceRevocation_def revocation_Verify_def Let_def split: sum.splits)

lemma dh_identity_sign_verify:
  assumes "ed25519_correct P" "SignDHIdentityCertificate P acc dev pk t priv = Inr c"
  shows "dh_identity_Verify P c (ed25519_public P priv) = Inr ()"
  using assms dh.signed_verifies [OF assms(1), of "\<lparr>dh_AccountID = acc, dh_DeviceID = dev, dh_DHPubKey = pk, dh_IssuedAt = t, dh_Signature = []\<rparr>" _ priv]
  by (auto simp: SignDHIdentityCertificate_def dh_identity_Verify_def Let_def split: sum.splits)

lemma signed_prekey_sign_verify:
  assumes "ed25519_correct P" "SignSignedPrekeyCertificate P acc dev kid pk pre t priv = Inr c"
  shows "signed_prekey_Verify P c (ed25519_public P priv) = Inr ()"
  using assms sp.signed_verifies [OF assms(1), of "\<lparr>sp_AccountID = acc, sp_DeviceID = dev, sp_KeyID = kid, sp_DHIdentityPubKey = pk, sp_PrekeyPubKey = pre, sp_IssuedAt = t, sp_Signature = []\<rparr>" _ priv]
  by (auto simp: SignSignedPrekeyCertificate_def signed_prekey_Verify_def Let_def split: sum.splits)

text \<open>
  a certificate or revocation made by the signing functions verifies under the public key of
  the key that signed it; this holds for all four record types.
\<close>

theorem signed_records_verify:
  assumes "ed25519_correct P"
  shows "(\<forall>c. SignDeviceCertificate P acc dev pk t priv = Inr c
           \<longrightarrow> device_cert_Verify P c (ed25519_public P priv) = Inr ())
    \<and> (\<forall>r. SignDeviceRevocation P acc dev t priv = Inr r
           \<longrightarrow> revocation_Verify P r (ed25519_public P priv) = Inr ())
    \<and> (\<forall>c. SignDHIdentityCertificate P acc dev pk t priv = Inr c
           \<longrightarrow> dh_identity_Verify P c (ed25519_public P priv) = Inr ())
    \<and> (\<forall>c. SignSignedPrekeyCertificate P acc dev kid pk pre t priv = Inr c
           \<longrightarrow> signed_prekey_Verify P c (ed25519_public P priv) = Inr ())"
  using assms by (auto intro: device_cert_sign_verify revocation_sign_verify
      dh_identity_sign_verify signed_prekey_sign_verify)

text \<open>
  what the root key signs is unambiguous: two device certificates with the same signing
  bytes authorize the same key for the same device of the same account at the same second, two
  revocations with the same signing bytes revoke the same device, and no signature over a
  certificate is one over a revocation.
\<close>

theorem root_statements_unambiguous:
  assumes "device_cert_signingBytes c1 = Inr b1" and "device_cert_signingBytes c2 = Inr b2"
    and "revocation_signingBytes r1 = Inr b3" and "revocation_signingBytes r2 = Inr b4"
    and "\<forall>c \<in> {c1, c2}. fits16 (dc_AccountID c) \<and> timestamp_ok (dc_IssuedAt c)"
    and "\<forall>r \<in> {r1, r2}. fits16 (dr_AccountID r) \<and> timestamp_ok (dr_RevokedAt r)"
  shows "(b1 = b2 \<longrightarrow> device_cert_content c1 = device_cert_content c2)
    \<and> (b3 = b4 \<longrightarrow> revocation_content r1 = revocation_content r2) \<and> b1 \<noteq> b3"
  using device_cert_bytes_inject [of c1 b1 c2] revocation_bytes_inject [of r1 b3 r2]
    certificate_revocation_bytes_differ [OF assms(1,3)] assms by auto

section \<open>Witnesses\<close>

definition sample_cert :: DeviceCertificate where
  "sample_cert = \<lparr>dc_AccountID = ''qwdsk6urvv5s8ymz879nc'', dc_DeviceID = ''0011223344556677'',
     dc_DevicePubKey = pad 32 ''device'', dc_IssuedAt = 0, dc_Signature = []\<rparr>"

definition sample_revocation :: DeviceRevocation where
  "sample_revocation = \<lparr>dr_AccountID = ''qwdsk6urvv5s8ymz879nc'', dr_DeviceID = ''0011223344556677'',
     dr_RevokedAt = 0, dr_Signature = []\<rparr>"

theorem signed_records_verify_witness:
  "\<exists>c. SignDeviceCertificate sample_platform ''acc'' ''0011223344556677'' (pad 32 ''k'') 0 ''root'' = Inr c
     \<and> device_cert_Verify sample_platform c (ed25519_public sample_platform ''root'') = Inr ()"
proof -
  have "decodeDeviceID ''0011223344556677'' = Inr (map char_of [0, 0x11, 0x22, 0x33, 0x44, 0x55, 0x66, 0x77 :: nat])"
    by code_simp
  then obtain c where "SignDeviceCertificate sample_platform ''acc'' ''0011223344556677'' (pad 32 ''k'') 0 ''root'' = Inr c"
    by (simp add: SignDeviceCertificate_def device_cert_signingBytes_def pad_def)
  then show ?thesis using signed_records_verify [OF sample_platform_laws(2)] by blast
qed

theorem root_statements_unambiguous_witness:
  "\<exists>b b'. device_cert_signingBytes sample_cert = Inr b \<and> revocation_signingBytes sample_revocation = Inr b' \<and> b \<noteq> b'"
proof -
  have "decodeDeviceID ''0011223344556677'' = Inr (map char_of [0, 0x11, 0x22, 0x33, 0x44, 0x55, 0x66, 0x77 :: nat])"
    by code_simp
  then obtain b b' where b: "device_cert_signingBytes sample_cert = Inr b"
    "revocation_signingBytes sample_revocation = Inr b'"
    by (simp add: sample_cert_def sample_revocation_def device_cert_signingBytes_def
        revocation_signingBytes_def pad_def)
  have t: "timestamp_ok 0" by (simp add: timestamp_ok_def whole_second_def rfc3339_range_def unix_seconds_def)
  show ?thesis
    using root_statements_unambiguous [OF b(1,1) b(2,2)] t b
    by (simp add: sample_cert_def sample_revocation_def fits16_def)
qed

end
