(* ===== verification/Api_Accounts.thy ===== *)
theory Api_Accounts
  imports Auth Clock_Parse Devicecert
begin

text \<open>
  The account handlers of \<open>internal/api\<close>: registration, the bootstrap claim, the key directory,
  recovery, devices and the admin surface. A handler takes the database, the clock, the authenticated
  identity where it is behind the middleware, and the decoded request, \<open>None\<close> standing for a body
  that is not the JSON it expects; it returns an error (status and code; the human-readable message
  is left out) or the response, with the database after it. Multi-statement handlers run in a
  transaction, so an error leaves the database as it was.
\<close>

section \<open>dto.go and errors.go\<close>

type_synonym api_error = "nat \<times> string"

abbreviation internal_error :: api_error where "internal_error \<equiv> (500, ''internal'')"
abbreviation bad_request :: api_error where "bad_request \<equiv> (400, ''invalid_request'')"

definition decodeBase64Key :: "string \<Rightarrow> nat \<Rightarrow> bytes option" where
  "decodeBase64Key s expectedLen =
     (case base64_decode s of None \<Rightarrow> None
      | Some r \<Rightarrow> if length r \<noteq> expectedLen then None else Some r)"

record registerAccountRequest =
  rq_RootPubKey :: string
  rq_DeviceID :: string
  rq_DevicePubKey :: string
  rq_DeviceCertIssuedAt :: string
  rq_DeviceCertSignature :: string
  rq_InviteCode :: "string option"

record bootstrapClaimRequest =
  bc_SetupToken :: string
  bc_RootPubKey :: string
  bc_DeviceID :: string
  bc_DevicePubKey :: string
  bc_DeviceCertIssuedAt :: string
  bc_DeviceCertSignature :: string

record recoverAccountRequest =
  rc_DeviceID :: string
  rc_DevicePubKey :: string
  rc_DeviceCertIssuedAt :: string
  rc_DeviceCertSignature :: string

record addDeviceRequest =
  ad_AccountID :: string
  ad_DeviceID :: string
  ad_DevicePubKey :: string
  ad_IssuedAt :: string
  ad_Signature :: string

record revokeDeviceRequest =
  rv_AccountID :: string
  rv_DeviceID :: string
  rv_RevokedAt :: string
  rv_Signature :: string

record setPushEndpointRequest =
  pe_Endpoint :: "string option"
  pe_P256dh :: "string option"
  pe_Auth :: "string option"

record setPushTargetRequest =
  pq_Platform :: "string option"
  pq_Token :: "string option"

record deviceResponse =
  dresp_DeviceID :: string
  dresp_DevicePubKey :: string
  dresp_IssuedAt :: string
  dresp_Sig :: string
  dresp_Status :: string
  dresp_Revoked :: "string option"

record accountResponse =
  ar_ID :: string
  ar_RootPubKey :: string
  ar_Devices :: "deviceResponse list"

definition deviceResponseFrom :: "Device \<Rightarrow> deviceResponse" where
  "deviceResponseFrom d = \<lparr>dresp_DeviceID = dev_DeviceID d, dresp_DevicePubKey = base64_encode (dev_DevicePubKey d),
     dresp_IssuedAt = rfc3339 (dev_CertIssuedAt d), dresp_Sig = base64_encode (dev_CertSignature d),
     dresp_Status = dev_Status d, dresp_Revoked = map_option rfc3339 (dev_RevokedAt d)\<rparr>"

definition accountResponseFrom :: "Account \<Rightarrow> Device list \<Rightarrow> accountResponse" where
  "accountResponseFrom acc devices = \<lparr>ar_ID = acc_ID acc, ar_RootPubKey = base64_encode (acc_RootPubKey acc),
     ar_Devices = map deviceResponseFrom devices\<rparr>"

definition PolicyOpen :: string where "PolicyOpen = ''open''"
definition PolicyInvite :: string where "PolicyInvite = ''invite''"
definition PolicyClosed :: string where "PolicyClosed = ''closed''"

section \<open>Decoding a device under a root key\<close>

record certified_device =
  cd_AccountID :: string
  cd_RootPub :: bytes
  cd_DevicePub :: bytes
  cd_IssuedAt :: time
  cd_Sig :: bytes

text \<open>
  The decoding that \<open>handleRegisterAccount\<close> and \<open>handleBootstrapClaim\<close> share word for word: the keys,
  the certificate's time and signature, the derived account id, the certificate's verification.
\<close>

definition decode_registration ::
    "platform \<Rightarrow> string \<Rightarrow> string \<Rightarrow> string \<Rightarrow> string \<Rightarrow> string \<Rightarrow> api_error + certified_device" where
  "decode_registration P rootPubKey deviceID devicePubKey issued signature =
     (case decodeBase64Key rootPubKey public_key_size of None \<Rightarrow> Inl bad_request
      | Some rootPub \<Rightarrow>
     (case decodeBase64Key devicePubKey public_key_size of None \<Rightarrow> Inl bad_request
      | Some devicePub \<Rightarrow>
     (case parse_rfc3339 issued of None \<Rightarrow> Inl bad_request
      | Some issuedAt \<Rightarrow>
     (case decodeBase64Key signature signature_size of None \<Rightarrow> Inl bad_request
      | Some sig \<Rightarrow>
     (case DeriveID P rootPub of Inl _ \<Rightarrow> Inl bad_request
      | Inr accountID \<Rightarrow>
     (case device_cert_Verify P \<lparr>dc_AccountID = accountID, dc_DeviceID = deviceID, dc_DevicePubKey = devicePub,
               dc_IssuedAt = issuedAt, dc_Signature = sig\<rparr> rootPub of
        Inl _ \<Rightarrow> Inl (400, ''invalid_certificate'')
      | Inr _ \<Rightarrow> Inr \<lparr>cd_AccountID = accountID, cd_RootPub = rootPub, cd_DevicePub = devicePub,
               cd_IssuedAt = issuedAt, cd_Sig = sig\<rparr>))))))"

definition new_account :: "certified_device \<Rightarrow> string \<Rightarrow> time \<Rightarrow> Account" where
  "new_account cd role now = \<lparr>acc_ID = cd_AccountID cd, acc_RootPubKey = cd_RootPub cd,
     acc_VersionMarker = CurrentVersion, acc_Status = AccountStatusActive, acc_Role = role, acc_CreatedAt = now\<rparr>"

definition new_device :: "string \<Rightarrow> string \<Rightarrow> bytes \<Rightarrow> time \<Rightarrow> bytes \<Rightarrow> time \<Rightarrow> Device" where
  "new_device deviceID accountID devicePub issuedAt sig now =
     \<lparr>dev_DeviceID = deviceID, dev_AccountID = accountID, dev_DevicePubKey = devicePub,
      dev_CertIssuedAt = issuedAt, dev_CertSignature = sig, dev_Status = DeviceStatusActive, dev_RevokedAt = None,
      dev_CreatedAt = now, dev_DHIdentityPubKey = [], dev_DHIdentityIssuedAt = None, dev_DHIdentitySignature = [],
      dev_Push = None, dev_PushTarget = None\<rparr>"

definition create_account_error :: "store_error \<Rightarrow> api_error" where
  "create_account_error e = (if e = ErrIDPrefixConflict then (409, ''id_prefix_taken'')
     else if e = ErrConflict then (409, ''account_exists'') else internal_error)"

definition create_device_error :: "store_error \<Rightarrow> api_error" where
  "create_device_error e = (if e = ErrConflict then (409, ''device_exists'') else internal_error)"

definition invite_error :: "store_error \<Rightarrow> api_error" where
  "invite_error e = (if e = ErrNotFound then (404, ''invite_not_found'')
     else if e = ErrInviteExpired then (410, ''invite_expired'')
     else if e = ErrInviteAlreadyUsed then (410, ''invite_used'') else internal_error)"

section \<open>accounts.go\<close>

definition handleRegisterAccount :: "platform \<Rightarrow> database \<Rightarrow> time \<Rightarrow> registerAccountRequest option
    \<Rightarrow> (api_error + accountResponse) \<times> database" where
  "handleRegisterAccount P db now body =
     (case body of None \<Rightarrow> (Inl bad_request, db)
      | Some req \<Rightarrow>
     (case decode_registration P (rq_RootPubKey req) (rq_DeviceID req) (rq_DevicePubKey req)
             (rq_DeviceCertIssuedAt req) (rq_DeviceCertSignature req) of
        Inl e \<Rightarrow> (Inl e, db)
      | Inr cd \<Rightarrow>
     (case GetRegistrationPolicy db of Inl _ \<Rightarrow> (Inl internal_error, db)
      | Inr policy \<Rightarrow>
      if policy = PolicyClosed then (Inl (403, ''registration_closed''), db)
      else if policy = PolicyInvite \<and> (rq_InviteCode req = None \<or> rq_InviteCode req = Some [])
      then (Inl (403, ''invite_required''), db)
      else case CreateAccount db (new_account cd RoleUser now) of
        Inl e \<Rightarrow> (Inl (create_account_error e), db)
      | Inr tx1 \<Rightarrow>
     (let device = new_device (rq_DeviceID req) (cd_AccountID cd) (cd_DevicePub cd) (cd_IssuedAt cd) (cd_Sig cd) now
      in case CreateDevice tx1 device of
        Inl e \<Rightarrow> (Inl (create_device_error e), db)
      | Inr tx2 \<Rightarrow>
     (case (if policy = PolicyInvite then ConsumeInviteCode P tx2 (the (rq_InviteCode req)) (cd_AccountID cd) now
            else Inr tx2) of
        Inl e \<Rightarrow> (Inl (invite_error e), db)
      | Inr tx3 \<Rightarrow> (Inr (accountResponseFrom (new_account cd RoleUser now) [device]), tx3))))))"

definition handleGetAccount :: "platform \<Rightarrow> database \<Rightarrow> string \<Rightarrow> api_error + accountResponse" where
  "handleGetAccount P db pathID =
     (let stripped = StripSeparators P pathID;
          found = (if length stripped = 5
            then if \<not> ValidCharset stripped then Inl bad_request
                 else case GetAccountByPrefix db stripped of Inl _ \<Rightarrow> Inl (404, ''not_found'') | Inr a \<Rightarrow> Inr a
            else case Normalize P pathID of Inl _ \<Rightarrow> Inl bad_request
              | Inr normalized \<Rightarrow> (case GetAccount db normalized of Inl _ \<Rightarrow> Inl (404, ''not_found'') | Inr a \<Rightarrow> Inr a))
      in case found of Inl e \<Rightarrow> Inl e
         | Inr acc \<Rightarrow> Inr (accountResponseFrom acc (ListDevicesByAccount db (acc_ID acc))))"

section \<open>bootstrap.go\<close>

definition handleBootstrapClaim :: "platform \<Rightarrow> database \<Rightarrow> time \<Rightarrow> bootstrapClaimRequest option
    \<Rightarrow> (api_error + accountResponse) \<times> database" where
  "handleBootstrapClaim P db now body =
     (case body of None \<Rightarrow> (Inl bad_request, db)
      | Some req \<Rightarrow>
     (case decode_registration P (bc_RootPubKey req) (bc_DeviceID req) (bc_DevicePubKey req)
             (bc_DeviceCertIssuedAt req) (bc_DeviceCertSignature req) of
        Inl e \<Rightarrow> (Inl e, db)
      | Inr cd \<Rightarrow>
     (case CreateAccount db (new_account cd RoleAdmin now) of
        Inl e \<Rightarrow> (Inl (create_account_error e), db)
      | Inr tx1 \<Rightarrow>
     (let device = new_device (bc_DeviceID req) (cd_AccountID cd) (cd_DevicePub cd) (cd_IssuedAt cd) (cd_Sig cd) now
      in case CreateDevice tx1 device of
        Inl e \<Rightarrow> (Inl (create_device_error e), db)
      | Inr tx2 \<Rightarrow>
     (case ClaimSetupToken P tx2 (bc_SetupToken req) (cd_AccountID cd) now of
        Inl e \<Rightarrow> if e = ErrInvalidToken then (Inl (401, ''invalid_token''), RecordFailedSetupTokenAttempt db)
                 else (Inl internal_error, db)
      | Inr tx3 \<Rightarrow> (Inr (accountResponseFrom (new_account cd RoleAdmin now) [device]), tx3))))))"

section \<open>recover.go\<close>

text \<open>
  \<open>readBody\<close>: a body that cannot be read is refused with 400; when the reason is the size limit the
  code answers 413, a distinction the request model does not carry.
\<close>

definition readBody :: "http_request \<Rightarrow> api_error + bytes" where
  "readBody r = (case Body r of None \<Rightarrow> Inl bad_request | Some body \<Rightarrow> Inr body)"

definition verifyRootSignature ::
    "platform \<Rightarrow> database \<Rightarrow> time \<Rightarrow> http_request \<Rightarrow> bytes \<Rightarrow> Account \<Rightarrow> bool \<times> database" where
  "verifyRootSignature P db now r body account =
     (case ParseRequestHeaders r of None \<Rightarrow> (False, db)
      | Some headers \<Rightarrow>
      if h_KeyID headers \<noteq> base64_encode (acc_RootPubKey account) then (False, db)
      else case ParseTimestamp (h_Timestamp headers) of None \<Rightarrow> (False, db)
      | Some ts \<Rightarrow>
      if \<not> WithinSkew ts now MaxClockSkew then (False, db)
      else case httpsig_Verify P (CanonicalStringFromRequest P r headers body) (h_Signature headers)
             (acc_RootPubKey account) of
        Inl _ \<Rightarrow> (False, db)
      | Inr _ \<Rightarrow> RecordNonce db (h_KeyID headers) (h_Nonce headers) ts (time_add ts MaxClockSkew))"

fun revoke_others :: "database \<Rightarrow> string \<Rightarrow> string \<Rightarrow> time \<Rightarrow> Device list \<Rightarrow> store_error + database" where
  "revoke_others db accountID keep now [] = Inr db"
| "revoke_others db accountID keep now (d # ds) =
     (if dev_DeviceID d = keep \<or> dev_Status d \<noteq> DeviceStatusActive then revoke_others db accountID keep now ds
      else case RevokeDevice db accountID (dev_DeviceID d) now of
        Inl e \<Rightarrow> if e = ErrNotFound then revoke_others db accountID keep now ds else Inl e
      | Inr db' \<Rightarrow> revoke_others db' accountID keep now ds)"

definition handleRecoverAccount :: "platform \<Rightarrow> database \<Rightarrow> time \<Rightarrow> http_request \<Rightarrow> string
    \<Rightarrow> (bytes \<Rightarrow> recoverAccountRequest option) \<Rightarrow> (api_error + accountResponse) \<times> database" where
  "handleRecoverAccount P db now r pathID decode =
     (case Normalize P pathID of Inl _ \<Rightarrow> (Inl bad_request, db)
      | Inr ident \<Rightarrow>
     (case GetAccount db ident of Inl _ \<Rightarrow> (Inl (404, ''not_found''), db)
      | Inr account \<Rightarrow>
     (case readBody r of Inl e \<Rightarrow> (Inl e, db)
      | Inr body \<Rightarrow>
     (case decode body of None \<Rightarrow> (Inl bad_request, db)
      | Some req \<Rightarrow>
      if rc_DeviceID req = [] \<or> rc_DevicePubKey req = [] \<or> rc_DeviceCertIssuedAt req = []
         \<or> rc_DeviceCertSignature req = [] then (Inl bad_request, db)
      else case verifyRootSignature P db now r body account of
        (genuine, db1) \<Rightarrow>
      if \<not> genuine then (Inl (401, ''unauthorized''), db1)
      else if acc_Status account \<noteq> AccountStatusActive then (Inl (403, ''forbidden''), db1)
      else case decodeBase64Key (rc_DevicePubKey req) public_key_size of None \<Rightarrow> (Inl bad_request, db1)
      | Some devicePub \<Rightarrow>
     (case parse_rfc3339 (rc_DeviceCertIssuedAt req) of None \<Rightarrow> (Inl bad_request, db1)
      | Some issuedAt \<Rightarrow>
     (case decodeBase64Key (rc_DeviceCertSignature req) signature_size of None \<Rightarrow> (Inl bad_request, db1)
      | Some certSig \<Rightarrow>
     (case device_cert_Verify P \<lparr>dc_AccountID = acc_ID account, dc_DeviceID = rc_DeviceID req, dc_DevicePubKey = devicePub,
               dc_IssuedAt = issuedAt, dc_Signature = certSig\<rparr> (acc_RootPubKey account) of
        Inl _ \<Rightarrow> (Inl (400, ''invalid_certificate''), db1)
      | Inr _ \<Rightarrow>
     (let existing = ListDevicesByAccount db1 (acc_ID account);
          newDevice = new_device (rc_DeviceID req) (acc_ID account) devicePub issuedAt certSig now
      in case CreateDevice db1 newDevice of
        Inl e \<Rightarrow> (Inl (create_device_error e), db1)
      | Inr tx1 \<Rightarrow>
     (case revoke_others tx1 (acc_ID account) (rc_DeviceID req) now existing of
        Inl _ \<Rightarrow> (Inl internal_error, db1)
      | Inr tx2 \<Rightarrow> (Inr (accountResponseFrom account (ListDevicesByAccount tx2 (acc_ID account))), tx2))))))))))"

section \<open>devices.go\<close>

definition handleAddDevice :: "platform \<Rightarrow> database \<Rightarrow> time \<Rightarrow> Identity \<Rightarrow> addDeviceRequest option
    \<Rightarrow> (api_error + deviceResponse) \<times> database" where
  "handleAddDevice P db now identity body =
     (case body of None \<Rightarrow> (Inl bad_request, db)
      | Some req \<Rightarrow>
      if ad_AccountID req \<noteq> id_AccountID identity then (Inl (403, ''forbidden''), db)
      else case decodeBase64Key (ad_DevicePubKey req) public_key_size of None \<Rightarrow> (Inl bad_request, db)
      | Some devicePub \<Rightarrow>
     (case parse_rfc3339 (ad_IssuedAt req) of None \<Rightarrow> (Inl bad_request, db)
      | Some issuedAt \<Rightarrow>
     (case decodeBase64Key (ad_Signature req) signature_size of None \<Rightarrow> (Inl bad_request, db)
      | Some sig \<Rightarrow>
     (case GetAccount db (ad_AccountID req) of Inl _ \<Rightarrow> (Inl (404, ''not_found''), db)
      | Inr account \<Rightarrow>
     (case device_cert_Verify P \<lparr>dc_AccountID = ad_AccountID req, dc_DeviceID = ad_DeviceID req, dc_DevicePubKey = devicePub,
               dc_IssuedAt = issuedAt, dc_Signature = sig\<rparr> (acc_RootPubKey account) of
        Inl _ \<Rightarrow> (Inl (400, ''invalid_certificate''), db)
      | Inr _ \<Rightarrow>
     (let device = new_device (ad_DeviceID req) (ad_AccountID req) devicePub issuedAt sig now
      in case CreateDevice db device of Inl e \<Rightarrow> (Inl (create_device_error e), db)
         | Inr db' \<Rightarrow> (Inr (deviceResponseFrom device), db')))))))"

definition handleRevokeDevice :: "platform \<Rightarrow> database \<Rightarrow> Identity \<Rightarrow> string \<Rightarrow> revokeDeviceRequest option
    \<Rightarrow> (api_error + unit) \<times> database" where
  "handleRevokeDevice P db identity pathDeviceID body =
     (case body of None \<Rightarrow> (Inl bad_request, db)
      | Some req \<Rightarrow>
      if rv_DeviceID req \<noteq> pathDeviceID then (Inl bad_request, db)
      else if rv_AccountID req \<noteq> id_AccountID identity then (Inl (403, ''forbidden''), db)
      else case parse_rfc3339 (rv_RevokedAt req) of None \<Rightarrow> (Inl bad_request, db)
      | Some revokedAt \<Rightarrow>
     (case decodeBase64Key (rv_Signature req) signature_size of None \<Rightarrow> (Inl bad_request, db)
      | Some sig \<Rightarrow>
     (case GetAccount db (rv_AccountID req) of Inl _ \<Rightarrow> (Inl (404, ''not_found''), db)
      | Inr account \<Rightarrow>
     (case revocation_Verify P \<lparr>dr_AccountID = rv_AccountID req, dr_DeviceID = rv_DeviceID req,
               dr_RevokedAt = revokedAt, dr_Signature = sig\<rparr> (acc_RootPubKey account) of
        Inl _ \<Rightarrow> (Inl (400, ''invalid_revocation''), db)
      | Inr _ \<Rightarrow>
     (case RevokeDevice db (id_AccountID identity) (rv_DeviceID req) revokedAt of
        Inl _ \<Rightarrow> (Inl (404, ''not_found''), db)
      | Inr db' \<Rightarrow> (Inr (), db'))))))"

definition handleSetPushEndpoint :: "platform \<Rightarrow> database \<Rightarrow> Identity \<Rightarrow> string \<Rightarrow> setPushEndpointRequest option
    \<Rightarrow> (api_error + unit) \<times> database" where
  "handleSetPushEndpoint P db identity deviceID body =
     (if id_DeviceID identity \<noteq> deviceID then (Inl (403, ''forbidden''), db)
      else case body of None \<Rightarrow> (Inl bad_request, db)
      | Some req \<Rightarrow>
     (case (case (pe_Endpoint req, pe_P256dh req, pe_Auth req) of
         (None, None, None) \<Rightarrow> Inr None
       | (Some endpoint, Some p256dh, Some auth) \<Rightarrow>
           if (case url_parse P endpoint of None \<Rightarrow> True | Some u \<Rightarrow> url_scheme u \<noteq> ''https'' \<or> url_host u = [])
           then Inl bad_request
           else if p256dh = [] \<or> auth = [] then Inl bad_request
           else Inr (Some \<lparr>ps_Endpoint = endpoint, ps_P256dh = p256dh, ps_Auth = auth\<rparr>)
       | _ \<Rightarrow> Inl bad_request) of
        Inl e \<Rightarrow> (Inl e, db)
      | Inr sub \<Rightarrow>
     (case SetDevicePushSubscription db deviceID sub of Inl _ \<Rightarrow> (Inl (404, ''not_found''), db)
      | Inr db' \<Rightarrow> (Inr (), db'))))"

definition handleSetPushTarget :: "database \<Rightarrow> Identity \<Rightarrow> string \<Rightarrow> setPushTargetRequest option
    \<Rightarrow> (api_error + unit) \<times> database" where
  "handleSetPushTarget db identity deviceID body =
     (if id_DeviceID identity \<noteq> deviceID then (Inl (403, ''forbidden''), db)
      else case body of None \<Rightarrow> (Inl bad_request, db)
      | Some req \<Rightarrow>
     (case (case (pq_Platform req, pq_Token req) of
         (None, None) \<Rightarrow> Inr None
       | (Some pf, Some token) \<Rightarrow>
           if pf \<noteq> ''fcm'' \<and> pf \<noteq> ''apns'' then Inl bad_request
           else if token = [] then Inl bad_request
           else Inr (Some \<lparr>pt_Platform = pf, pt_Token = token\<rparr>)
       | _ \<Rightarrow> Inl bad_request) of
        Inl e \<Rightarrow> (Inl e, db)
      | Inr target \<Rightarrow>
     (case SetDevicePushTarget db deviceID target of Inl _ \<Rightarrow> (Inl (404, ''not_found''), db)
      | Inr db' \<Rightarrow> (Inr (), db'))))"

section \<open>admin.go and invites.go\<close>

definition requireAdminOrModerator :: "Identity \<Rightarrow> bool" where
  "requireAdminOrModerator identity \<longleftrightarrow> id_Role identity = RoleAdmin \<or> id_Role identity = RoleModerator"

definition requireAdmin :: "Identity \<Rightarrow> bool" where
  "requireAdmin identity \<longleftrightarrow> id_Role identity = RoleAdmin"

definition wouldRemoveLastActiveAdmin :: "database \<Rightarrow> Account \<Rightarrow> bool" where
  "wouldRemoveLastActiveAdmin db target =
     (if acc_Role target \<noteq> RoleAdmin \<or> acc_Status target \<noteq> AccountStatusActive then False
      else CountActiveAdmins db \<le> 1)"

definition handleSetAccountRole :: "database \<Rightarrow> Identity \<Rightarrow> string \<Rightarrow> string option
    \<Rightarrow> (api_error + unit) \<times> database" where
  "handleSetAccountRole db identity ident body =
     (if \<not> requireAdmin identity then (Inl (403, ''forbidden''), db)
      else case body of None \<Rightarrow> (Inl bad_request, db)
      | Some reqRole \<Rightarrow>
     (case ParseRole reqRole of None \<Rightarrow> (Inl (400, ''invalid_role''), db)
      | Some role \<Rightarrow>
     (case GetAccount db ident of Inl _ \<Rightarrow> (Inl (404, ''not_found''), db)
      | Inr target \<Rightarrow>
      if role \<noteq> RoleAdmin \<and> wouldRemoveLastActiveAdmin db target then (Inl (409, ''last_admin''), db)
      else case SetAccountRole db ident role of Inl _ \<Rightarrow> (Inl internal_error, db)
      | Inr db' \<Rightarrow> (Inr (), db'))))"

definition setAccountStatus :: "database \<Rightarrow> Identity \<Rightarrow> string \<Rightarrow> string \<Rightarrow> (api_error + unit) \<times> database" where
  "setAccountStatus db caller ident status =
     (if \<not> requireAdminOrModerator caller then (Inl (403, ''forbidden''), db)
      else case GetAccount db ident of Inl _ \<Rightarrow> (Inl (404, ''not_found''), db)
      | Inr target \<Rightarrow>
      if id_Role caller \<noteq> RoleAdmin \<and> acc_Role target \<noteq> RoleUser then (Inl (403, ''forbidden''), db)
      else if status \<noteq> AccountStatusActive \<and> wouldRemoveLastActiveAdmin db target
      then (Inl (409, ''last_admin''), db)
      else case SetAccountStatus db ident status of Inl _ \<Rightarrow> (Inl internal_error, db)
      | Inr db' \<Rightarrow> (Inr (), db'))"

definition handleBlockAccount :: "database \<Rightarrow> Identity \<Rightarrow> string \<Rightarrow> (api_error + unit) \<times> database" where
  "handleBlockAccount db caller ident = setAccountStatus db caller ident AccountStatusDisabled"

definition handleUnblockAccount :: "database \<Rightarrow> Identity \<Rightarrow> string \<Rightarrow> (api_error + unit) \<times> database" where
  "handleUnblockAccount db caller ident = setAccountStatus db caller ident AccountStatusActive"

definition handleDeleteAccount :: "database \<Rightarrow> Identity \<Rightarrow> string \<Rightarrow> (api_error + unit) \<times> database" where
  "handleDeleteAccount db identity ident =
     (if \<not> requireAdmin identity then (Inl (403, ''forbidden''), db)
      else case GetAccount db ident of Inl _ \<Rightarrow> (Inl (404, ''not_found''), db)
      | Inr target \<Rightarrow>
      if wouldRemoveLastActiveAdmin db target then (Inl (409, ''last_admin''), db)
      else case DeleteAccount db ident of Inl _ \<Rightarrow> (Inl internal_error, db)
      | Inr db' \<Rightarrow> (Inr (), db'))"

definition handleDeleteOwnAccount :: "database \<Rightarrow> Identity \<Rightarrow> string \<Rightarrow> (api_error + unit) \<times> database" where
  "handleDeleteOwnAccount db identity ident =
     (if ident \<noteq> id_AccountID identity then (Inl (403, ''forbidden''), db)
      else case GetAccount db (id_AccountID identity) of Inl _ \<Rightarrow> (Inl (404, ''not_found''), db)
      | Inr target \<Rightarrow>
      if wouldRemoveLastActiveAdmin db target then (Inl (409, ''last_admin''), db)
      else case DeleteAccount db (id_AccountID identity) of Inl _ \<Rightarrow> (Inl internal_error, db)
      | Inr db' \<Rightarrow> (Inr (), db'))"

definition handleGetRegistrationPolicy :: "database \<Rightarrow> Identity \<Rightarrow> api_error + string" where
  "handleGetRegistrationPolicy db identity =
     (if \<not> requireAdminOrModerator identity then Inl (403, ''forbidden'')
      else case GetRegistrationPolicy db of Inl _ \<Rightarrow> Inl internal_error | Inr policy \<Rightarrow> Inr policy)"

definition handleSetRegistrationPolicy :: "database \<Rightarrow> Identity \<Rightarrow> string option \<Rightarrow> (api_error + string) \<times> database" where
  "handleSetRegistrationPolicy db identity body =
     (if \<not> requireAdmin identity then (Inl (403, ''forbidden''), db)
      else case body of None \<Rightarrow> (Inl bad_request, db)
      | Some policy \<Rightarrow>
      if policy \<notin> {PolicyOpen, PolicyInvite, PolicyClosed} then (Inl (400, ''invalid_policy''), db)
      else (Inr policy, SetRegistrationPolicy db policy))"

definition handleGetFederationEnabled :: "database \<Rightarrow> Identity \<Rightarrow> api_error + bool" where
  "handleGetFederationEnabled db identity =
     (if \<not> requireAdminOrModerator identity then Inl (403, ''forbidden'')
      else case GetFederationEnabled db of Inl _ \<Rightarrow> Inl internal_error | Inr enabled \<Rightarrow> Inr enabled)"

definition handleSetFederationEnabled :: "database \<Rightarrow> Identity \<Rightarrow> bool option \<Rightarrow> (api_error + bool) \<times> database" where
  "handleSetFederationEnabled db identity body =
     (if \<not> requireAdmin identity then (Inl (403, ''forbidden''), db)
      else case body of None \<Rightarrow> (Inl bad_request, db)
      | Some enabled \<Rightarrow> (Inr enabled, SetFederationEnabled db enabled))"

text \<open>
  \<open>addDays\<close> is \<open>now.AddDate(0, 0, days)\<close>, calendar days in the server's time zone; the request's
  body is absent, malformed or carries an optional expiry.
\<close>

datatype 'a json_body = EmptyBody | MalformedBody | Decoded 'a

definition handleCreateInvite :: "platform \<Rightarrow> (time \<Rightarrow> int \<Rightarrow> time) \<Rightarrow> int \<Rightarrow> database \<Rightarrow> time \<Rightarrow> bytes \<Rightarrow> Identity
    \<Rightarrow> string option json_body \<Rightarrow> (api_error + (string \<times> string option)) \<times> database" where
  "handleCreateInvite P addDays inviteExpiryDays db now rnd identity body =
     (if \<not> (id_Role identity = RoleAdmin \<or> id_Role identity = RoleModerator) then (Inl (403, ''forbidden''), db)
      else if body = MalformedBody then (Inl bad_request, db)
      else let req = (case body of Decoded e \<Rightarrow> e | _ \<Rightarrow> None);
               expiry = (if req \<noteq> None \<and> req \<noteq> Some []
                 then (case parse_rfc3339 (the req) of None \<Rightarrow> Inl bad_request | Some t \<Rightarrow> Inr (Some t))
                 else if inviteExpiryDays > 0 then Inr (Some (addDays now inviteExpiryDays)) else Inr None)
           in case expiry of Inl e \<Rightarrow> (Inl e, db)
              | Inr expiresAt \<Rightarrow>
                  (case CreateInviteCode P db rnd (id_AccountID identity) expiresAt now of
                     Inl _ \<Rightarrow> (Inl internal_error, db)
                   | Inr (code, db') \<Rightarrow> (Inr (code, map_option rfc3339 expiresAt), db')))"

end
