(* ===== verification/Config.thy ===== *)
theory Config
  imports Api_Accounts
begin

text \<open>
  \<open>internal/config\<close>: the configuration read from environment variables. \<open>Load\<close> reads
  each variable, takes its default where it is unset, and refuses the whole configuration if a value does
  not parse or the values do not fit together. The environment is a function from names to values, the
  empty value standing for an unset variable; \<open>time.ParseDuration\<close> and \<open>filepath.Join\<close> are
  arguments.
\<close>

section \<open>Reading values\<close>

datatype config_error = Invalid string | Required string | OutOfRange string | TooShort string

definition parse_bool :: "string \<Rightarrow> bool option" where
  "parse_bool s =
     (if s \<in> {''1'', ''t'', ''T'', ''TRUE'', ''true'', ''True''} then Some True
      else if s \<in> {''0'', ''f'', ''F'', ''FALSE'', ''false'', ''False''} then Some False
      else None)"

definition orDefault :: "string \<Rightarrow> string \<Rightarrow> string" where
  "orDefault v def = (if v = [] then def else v)"

datatype log_level = LevelDebug | LevelInfo | LevelWarn | LevelError

definition parseLogLevel :: "platform \<Rightarrow> string \<Rightarrow> config_error + log_level" where
  "parseLogLevel P v =
     (let level = string_lower P (trim_space v) in
      if level = [] then Inr LevelInfo
      else if level = ''debug'' then Inr LevelDebug
      else if level = ''info'' then Inr LevelInfo
      else if level = ''warn'' \<or> level = ''warning'' then Inr LevelWarn
      else if level = ''error'' then Inr LevelError
      else Inl (Invalid ''FREIZONE_LOG_LEVEL''))"

section \<open>The configuration\<close>

record Config =
  cf_Domain :: string
  cf_HTTPAddr :: string
  cf_HTTPSAddr :: string
  cf_TLSMode :: string
  cf_TLSCertFile :: string
  cf_TLSKeyFile :: string
  cf_DataDir :: string
  cf_DBPath :: string
  cf_RegistrationPolicy :: string
  cf_MessageRetentionDays :: int
  cf_InviteExpiryDays :: int
  cf_LogLevel :: log_level
  cf_PushGatewayURL :: string
  cf_PushCoalesceWindow :: duration
  cf_FederationEnabled :: bool
  cf_MaxRequestBodyBytes :: int
  cf_MaxQueuedMessagesPerDevice :: int
  cf_MaxBatchMessages :: int
  cf_MaxStreamsPerDevice :: int
  cf_BlobsEnabled :: bool
  cf_LandingPageEnabled :: bool
  cf_ReportsEnabled :: bool
  cf_ReportRetentionDays :: int
  cf_BlobDir :: string
  cf_MaxBlobBytes :: int
  cf_MaxBlobBytesPerDevice :: int
  cf_MaxBlobsPerDevice :: int
  cf_MaxBlobBytesTotal :: int
  cf_MaxBlobRecipients :: int
  cf_BlobRetentionDays :: int
  cf_Attestation :: string

definition TLSModeOff :: string where "TLSModeOff = ''off''"
definition TLSModeManual :: string where "TLSModeManual = ''manual''"
definition TLSModeAutocert :: string where "TLSModeAutocert = ''autocert''"

definition defaultMessageRetentionDays :: int where "defaultMessageRetentionDays = 14"
definition defaultInviteExpiryDays :: int where "defaultInviteExpiryDays = 14"
definition defaultMaxRequestBodyBytes :: int where "defaultMaxRequestBodyBytes = 512 * 1024"
definition defaultMaxQueuedMessagesPerDevice :: int where "defaultMaxQueuedMessagesPerDevice = 1000"
definition defaultMaxBatchMessages :: int where "defaultMaxBatchMessages = 100"
definition defaultMaxStreamsPerDevice :: int where "defaultMaxStreamsPerDevice = 4"
definition defaultReportRetentionDays :: int where "defaultReportRetentionDays = 90"
definition defaultMaxBlobBytes :: int where "defaultMaxBlobBytes = 8 * 1024 * 1024"
definition defaultMaxBlobBytesPerDevice :: int where "defaultMaxBlobBytesPerDevice = 128 * 1024 * 1024"
definition defaultMaxBlobsPerDevice :: int where "defaultMaxBlobsPerDevice = 200"
definition defaultMaxBlobRecipients :: int where "defaultMaxBlobRecipients = defaultMaxBatchMessages"
definition defaultPushCoalesceWindow :: duration where "defaultPushCoalesceWindow = 3 * second"
definition maxPushCoalesceWindow :: duration where "maxPushCoalesceWindow = minute"

section \<open>Validation\<close>

text \<open>The checks in their order; the first that fails is reported.\<close>

fun first_failed :: "(bool \<times> config_error) list \<Rightarrow> config_error + unit" where
  "first_failed [] = Inr ()"
| "first_failed ((bad, e) # rest) = (if bad then Inl e else first_failed rest)"

definition config_validate :: "Config \<Rightarrow> config_error + unit" where
  "config_validate c = first_failed
     [(cf_TLSMode c \<notin> {TLSModeOff, TLSModeManual, TLSModeAutocert}, Invalid ''FREIZONE_TLS_MODE''),
      (cf_RegistrationPolicy c \<notin> {PolicyOpen, PolicyInvite, PolicyClosed}, Invalid ''FREIZONE_REGISTRATION_POLICY''),
      (cf_TLSMode c = TLSModeAutocert \<and> cf_Domain c = [], Required ''FREIZONE_DOMAIN''),
      (cf_TLSMode c = TLSModeManual \<and> (cf_TLSCertFile c = [] \<or> cf_TLSKeyFile c = []), Required ''FREIZONE_TLS_CERT_FILE''),
      (cf_MessageRetentionDays c \<le> 0, OutOfRange ''FREIZONE_MESSAGE_RETENTION_DAYS''),
      (cf_InviteExpiryDays c < 0, OutOfRange ''FREIZONE_INVITE_EXPIRY_DAYS''),
      (cf_PushCoalesceWindow c < 0, OutOfRange ''FREIZONE_PUSH_COALESCE_WINDOW''),
      (cf_PushCoalesceWindow c > maxPushCoalesceWindow, OutOfRange ''FREIZONE_PUSH_COALESCE_WINDOW''),
      (cf_MaxRequestBodyBytes c \<le> 0, OutOfRange ''FREIZONE_MAX_REQUEST_BODY_BYTES''),
      (cf_MaxQueuedMessagesPerDevice c \<le> 0, OutOfRange ''FREIZONE_MAX_QUEUED_MESSAGES_PER_DEVICE''),
      (cf_MaxBatchMessages c \<le> 0, OutOfRange ''FREIZONE_MAX_BATCH_MESSAGES''),
      (cf_MaxStreamsPerDevice c \<le> 0, OutOfRange ''FREIZONE_MAX_STREAMS_PER_DEVICE''),
      (cf_MaxBlobBytes c \<le> 0, OutOfRange ''FREIZONE_MAX_BLOB_BYTES''),
      (cf_MaxBlobBytesPerDevice c \<le> 0, OutOfRange ''FREIZONE_MAX_BLOB_BYTES_PER_DEVICE''),
      (cf_MaxBlobBytesPerDevice c < cf_MaxBlobBytes c, TooShort ''FREIZONE_MAX_BLOB_BYTES_PER_DEVICE''),
      (cf_MaxBlobRecipients c \<le> 0, OutOfRange ''FREIZONE_MAX_BLOB_RECIPIENTS''),
      (cf_MaxBlobsPerDevice c \<le> 0, OutOfRange ''FREIZONE_MAX_BLOBS_PER_DEVICE''),
      (cf_MaxBlobBytesTotal c < 0, OutOfRange ''FREIZONE_MAX_BLOB_BYTES_TOTAL''),
      (cf_MaxBlobBytesTotal c > 0 \<and> cf_MaxBlobBytesTotal c < cf_MaxBlobBytes c, TooShort ''FREIZONE_MAX_BLOB_BYTES_TOTAL''),
      (cf_BlobRetentionDays c \<le> 0, OutOfRange ''FREIZONE_BLOB_RETENTION_DAYS''),
      (cf_BlobRetentionDays c < cf_MessageRetentionDays c, TooShort ''FREIZONE_BLOB_RETENTION_DAYS'')]"

section \<open>Loading\<close>

type_synonym environment = "string \<Rightarrow> string"

definition read_value :: "environment \<Rightarrow> string \<Rightarrow> (string \<Rightarrow> 'a option) \<Rightarrow> 'a \<Rightarrow> config_error + 'a" where
  "read_value getenv name parse def = (let v = getenv name in if v = [] then Inr def
     else case parse v of None \<Rightarrow> Inl (Invalid name) | Some x \<Rightarrow> Inr x)"

definition and_then :: "config_error + 'a \<Rightarrow> ('a \<Rightarrow> config_error + 'b) \<Rightarrow> config_error + 'b" where
  "and_then r k = (case r of Inl e \<Rightarrow> Inl e | Inr x \<Rightarrow> k x)"

definition positive_days :: "string \<Rightarrow> int option" where
  "positive_days v = (case parse_int64 v of None \<Rightarrow> None | Some n \<Rightarrow> if n < 1 then None else Some n)"

definition trim_suffix_slash :: "string \<Rightarrow> string" where
  "trim_suffix_slash s = (if s \<noteq> [] \<and> last s = CHR ''/'' then butlast s else s)"

definition load_server :: "platform \<Rightarrow> (string \<Rightarrow> duration option) \<Rightarrow> (string \<Rightarrow> string \<Rightarrow> string) \<Rightarrow> environment \<Rightarrow> config_error + Config" where
  "load_server P parseDuration pathJoin getenv =
     (let dataDir = orDefault (getenv ''FREIZONE_DATA_DIR'') ''./data'' in
      and_then (read_value getenv ''FREIZONE_MESSAGE_RETENTION_DAYS'' parse_int64 defaultMessageRetentionDays) (\<lambda>retention.
      and_then (read_value getenv ''FREIZONE_INVITE_EXPIRY_DAYS'' parse_int64 defaultInviteExpiryDays) (\<lambda>inviteExpiry.
      and_then (read_value getenv ''FREIZONE_PUSH_COALESCE_WINDOW'' parseDuration defaultPushCoalesceWindow) (\<lambda>window.
      and_then (parseLogLevel P (getenv ''FREIZONE_LOG_LEVEL'')) (\<lambda>level.
      and_then (read_value getenv ''FREIZONE_FEDERATION_ENABLED'' parse_bool True) (\<lambda>federation.
      and_then (read_value getenv ''FREIZONE_MAX_REQUEST_BODY_BYTES'' parse_int64 defaultMaxRequestBodyBytes) (\<lambda>maxBody.
      and_then (read_value getenv ''FREIZONE_MAX_QUEUED_MESSAGES_PER_DEVICE'' parse_int64 defaultMaxQueuedMessagesPerDevice) (\<lambda>maxQueued.
      and_then (read_value getenv ''FREIZONE_MAX_BATCH_MESSAGES'' parse_int64 defaultMaxBatchMessages) (\<lambda>maxBatch.
      and_then (read_value getenv ''FREIZONE_MAX_STREAMS_PER_DEVICE'' parse_int64 defaultMaxStreamsPerDevice) (\<lambda>maxStreams.
      Inr \<lparr>cf_Domain = getenv ''FREIZONE_DOMAIN'', cf_HTTPAddr = orDefault (getenv ''FREIZONE_HTTP_ADDR'') '':80'',
        cf_HTTPSAddr = orDefault (getenv ''FREIZONE_HTTPS_ADDR'') '':443'', cf_TLSMode = orDefault (getenv ''FREIZONE_TLS_MODE'') TLSModeOff,
        cf_TLSCertFile = getenv ''FREIZONE_TLS_CERT_FILE'', cf_TLSKeyFile = getenv ''FREIZONE_TLS_KEY_FILE'', cf_DataDir = dataDir,
        cf_DBPath = (if getenv ''FREIZONE_DB_PATH'' = [] then pathJoin dataDir ''freizone.db'' else getenv ''FREIZONE_DB_PATH''),
        cf_RegistrationPolicy = orDefault (getenv ''FREIZONE_REGISTRATION_POLICY'') PolicyClosed,
        cf_MessageRetentionDays = retention, cf_InviteExpiryDays = inviteExpiry, cf_LogLevel = level,
        cf_PushGatewayURL = trim_suffix_slash (getenv ''FREIZONE_PUSH_GATEWAY_URL''), cf_PushCoalesceWindow = window,
        cf_FederationEnabled = federation, cf_MaxRequestBodyBytes = maxBody, cf_MaxQueuedMessagesPerDevice = maxQueued,
        cf_MaxBatchMessages = maxBatch, cf_MaxStreamsPerDevice = maxStreams, cf_BlobsEnabled = False, cf_LandingPageEnabled = False,
        cf_ReportsEnabled = False, cf_ReportRetentionDays = 0, cf_BlobDir = [], cf_MaxBlobBytes = 0, cf_MaxBlobBytesPerDevice = 0,
        cf_MaxBlobsPerDevice = 0, cf_MaxBlobBytesTotal = 0, cf_MaxBlobRecipients = 0, cf_BlobRetentionDays = 0,
        cf_Attestation = trim_space (getenv ''FREIZONE_ATTESTATION'')\<rparr>))))))))))"

definition load_storage :: "(string \<Rightarrow> string \<Rightarrow> string) \<Rightarrow> environment \<Rightarrow> Config \<Rightarrow> config_error + Config" where
  "load_storage pathJoin getenv c =
     (and_then (read_value getenv ''FREIZONE_BLOBS_ENABLED'' parse_bool True) (\<lambda>blobs.
      and_then (read_value getenv ''FREIZONE_REPORTS_ENABLED'' parse_bool True) (\<lambda>reports.
      and_then (read_value getenv ''FREIZONE_REPORT_RETENTION_DAYS'' positive_days defaultReportRetentionDays) (\<lambda>reportDays.
      and_then (read_value getenv ''FREIZONE_MAX_BLOB_BYTES'' parse_int64 defaultMaxBlobBytes) (\<lambda>maxBlob.
      and_then (read_value getenv ''FREIZONE_MAX_BLOB_BYTES_PER_DEVICE'' parse_int64 defaultMaxBlobBytesPerDevice) (\<lambda>maxDevice.
      and_then (read_value getenv ''FREIZONE_MAX_BLOBS_PER_DEVICE'' parse_int64 defaultMaxBlobsPerDevice) (\<lambda>maxBlobs.
      and_then (read_value getenv ''FREIZONE_MAX_BLOB_BYTES_TOTAL'' parse_int64 0) (\<lambda>maxTotal.
      and_then (read_value getenv ''FREIZONE_MAX_BLOB_RECIPIENTS'' parse_int64 defaultMaxBlobRecipients) (\<lambda>maxRecipients.
      and_then (read_value getenv ''FREIZONE_BLOB_RETENTION_DAYS'' parse_int64 (cf_MessageRetentionDays c)) (\<lambda>blobDays.
      and_then (read_value getenv ''FREIZONE_LANDING_PAGE_ENABLED'' parse_bool True) (\<lambda>landing.
      Inr (c\<lparr>cf_BlobsEnabled := blobs, cf_ReportsEnabled := reports, cf_ReportRetentionDays := reportDays,
        cf_BlobDir := (if getenv ''FREIZONE_BLOB_DIR'' = [] then pathJoin (cf_DataDir c) ''blobs'' else getenv ''FREIZONE_BLOB_DIR''),
        cf_MaxBlobBytes := maxBlob, cf_MaxBlobBytesPerDevice := maxDevice, cf_MaxBlobsPerDevice := maxBlobs, cf_MaxBlobBytesTotal := maxTotal,
        cf_MaxBlobRecipients := maxRecipients, cf_BlobRetentionDays := blobDays, cf_LandingPageEnabled := landing\<rparr>))))))))))))"

definition Load :: "platform \<Rightarrow> (string \<Rightarrow> duration option) \<Rightarrow> (string \<Rightarrow> string \<Rightarrow> string) \<Rightarrow> environment \<Rightarrow> config_error + Config" where
  "Load P parseDuration pathJoin getenv =
     and_then (load_server P parseDuration pathJoin getenv) (\<lambda>c.
     and_then (load_storage pathJoin getenv c) (\<lambda>c'.
     and_then (config_validate c') (\<lambda>_. Inr c')))"

section \<open>What a loaded configuration promises\<close>

lemma first_failed_Inr: "first_failed checks = Inr () \<longleftrightarrow> list_all (\<lambda>(bad, e). \<not> bad) checks"
  by (induction checks rule: first_failed.induct) auto

lemma and_then_Inr: "and_then r k = Inr y \<longleftrightarrow> (\<exists>x. r = Inr x \<and> k x = Inr y)"
  by (auto simp: and_then_def split: sum.splits)

lemma and_thenE:
  assumes "and_then r k = Inr y"
  obtains x where "r = Inr x" "k x = Inr y"
  using assms by (auto simp: and_then_Inr)

lemma read_positive_days: "read_value getenv name positive_days defaultReportRetentionDays = Inr d \<Longrightarrow> 1 \<le> d"
  by (auto simp: read_value_def positive_days_def defaultReportRetentionDays_def Let_def split: if_splits option.splits)

lemma load_storage_days:
  assumes "load_storage pathJoin getenv c0 = Inr c"
  shows "1 \<le> cf_ReportRetentionDays c"
  using assms unfolding load_storage_def
  apply (elim and_thenE)
  apply (drule read_positive_days)
  apply (drule sum.inject(2) [THEN iffD1])
  apply hypsubst
  apply simp
  done

lemma load_storage_policy:
  assumes "load_storage pathJoin getenv c0 = Inr c"
  shows "cf_RegistrationPolicy c = cf_RegistrationPolicy c0"
  using assms unfolding load_storage_def
  apply (elim and_thenE)
  apply (drule sum.inject(2) [THEN iffD1])
  apply hypsubst
  apply simp
  done

lemma load_server_policy:
  assumes "load_server P parseDuration pathJoin getenv = Inr c"
  shows "cf_RegistrationPolicy c = orDefault (getenv ''FREIZONE_REGISTRATION_POLICY'') PolicyClosed"
  using assms unfolding load_server_def Let_def
  apply (elim and_thenE)
  apply (drule sum.inject(2) [THEN iffD1])
  apply hypsubst
  apply simp
  done

lemma validated:
  assumes "config_validate c = Inr ()"
  shows "cf_RegistrationPolicy c \<in> {PolicyOpen, PolicyInvite, PolicyClosed}"
    "cf_TLSMode c = TLSModeAutocert \<Longrightarrow> cf_Domain c \<noteq> []"
    "cf_TLSMode c = TLSModeManual \<Longrightarrow> cf_TLSCertFile c \<noteq> []"
    "cf_TLSMode c = TLSModeManual \<Longrightarrow> cf_TLSKeyFile c \<noteq> []"
    "0 < cf_MessageRetentionDays c" "0 \<le> cf_PushCoalesceWindow c" "cf_PushCoalesceWindow c \<le> minute"
    "0 < cf_MaxQueuedMessagesPerDevice c" "0 < cf_MaxBatchMessages c" "0 < cf_MaxStreamsPerDevice c"
    "0 < cf_MaxBlobBytes c" "cf_MaxBlobBytes c \<le> cf_MaxBlobBytesPerDevice c" "0 < cf_MaxBlobRecipients c" "0 < cf_MaxBlobsPerDevice c"
    "cf_MaxBlobBytesTotal c = 0 \<or> cf_MaxBlobBytes c \<le> cf_MaxBlobBytesTotal c"
    "cf_MessageRetentionDays c \<le> cf_BlobRetentionDays c"
  using assms unfolding config_validate_def first_failed_Inr list.pred_inject prod.case maxPushCoalesceWindow_def not_le not_less
  by (elim conjE; blast | linarith)+

lemma trim_space_Nil: "trim_space [] = []"
  using trim_space_graphic [of "[]"] by simp

lemma empty_environment_loads:
  "\<exists>c. Load sample_platform (\<lambda>_. None) (\<lambda>a b. a @ ''/'' @ b) (\<lambda>_. []) = Inr c \<and> cf_DBPath c = ''./data/freizone.db''"
proof -
  have level: "parseLogLevel sample_platform [] = Inr LevelInfo"
    by (simp add: parseLogLevel_def trim_space_Nil string_lower_ascii ascii_def)
  show ?thesis
    by (simp add: Load_def load_server_def load_storage_def and_then_def read_value_def Let_def orDefault_def trim_space_Nil level
        config_validate_def TLSModeOff_def TLSModeManual_def TLSModeAutocert_def PolicyClosed_def PolicyOpen_def PolicyInvite_def
        defaultMessageRetentionDays_def defaultInviteExpiryDays_def defaultMaxRequestBodyBytes_def defaultMaxQueuedMessagesPerDevice_def
        defaultMaxBatchMessages_def defaultMaxStreamsPerDevice_def defaultMaxBlobBytes_def defaultMaxBlobBytesPerDevice_def
        defaultMaxBlobsPerDevice_def defaultMaxBlobRecipients_def defaultPushCoalesceWindow_def maxPushCoalesceWindow_def
        second_def minute_def)
qed



end
