(* ===== verification/Word_List.thy ===== *)
theory Word_List
  imports Prelude
begin

text \<open>
  The embedded word list of \<open>pkg/mnemonic\<close> (\<open>english.txt\<close>), split at its line ends
  as \<open>strings.Fields\<close> does at start-up, in pieces of 64 lines, and what the encoding relies on:
  there are 2048 words, no two are equal and each consists of lower-case letters. The list is in
  ascending order, which one pass over neighbouring words shows. One word is written as two joined pieces.
\<close>

section \<open>The words\<close>

definition words_00 :: "string list" where
  "words_00 = [''abandon'', ''ability'', ''able'', ''about'', ''above'', ''absent'', ''absorb'', ''abstract'', ''absurd'', ''abuse'',
     ''access'', ''accident'', ''account'', ''accuse'', ''achieve'', ''acid'', ''acoustic'', ''acquire'', ''across'', ''act'',
     ''action'', ''actor'', ''actress'', ''actual'', ''adapt'', ''add'', ''addict'', ''address'', ''adjust'', ''admit'',
     ''adult'', ''advance'', ''advice'', ''aerobic'', ''affair'', ''afford'', ''afraid'', ''again'', ''age'', ''agent'',
     ''agree'', ''ahead'', ''aim'', ''air'', ''airport'', ''aisle'', ''alarm'', ''album'', ''alcohol'', ''alert'', ''alien'',
     ''all'', ''alley'', ''allow'', ''almost'', ''alone'', ''alpha'', ''already'', ''also'', ''alter'', ''always'', ''amateur'',
     ''amazing'', ''among'']"

definition words_01 :: "string list" where
  "words_01 = [''amount'', ''amused'', ''analyst'', ''anchor'', ''ancient'', ''anger'', ''angle'', ''angry'', ''animal'', ''ankle'',
     ''announce'', ''annual'', ''another'', ''answer'', ''antenna'', ''antique'', ''anxiety'', ''any'', ''apart'', ''apology'',
     ''appear'', ''apple'', ''approve'', ''april'', ''arch'', ''arctic'', ''area'', ''arena'', ''argue'', ''arm'', ''armed'',
     ''armor'', ''army'', ''around'', ''arrange'', ''arrest'', ''arrive'', ''arrow'', ''art'', ''artefact'', ''artist'',
     ''artwork'', ''ask'', ''aspect'', ''assault'', ''asset'', ''assist'', ''assume'', ''asthma'', ''athlete'', ''atom'',
     ''attack'', ''attend'', ''attitude'', ''attract'', ''auction'', ''audit'', ''august'', ''aunt'', ''author'', ''auto'',
     ''autumn'', ''average'', ''avocado'']"

definition words_02 :: "string list" where
  "words_02 = [''avoid'', ''awake'', ''aware'', ''away'', ''awesome'', ''awful'', ''awkward'', ''axis'', ''baby'', ''bachelor'', ''bacon'',
     ''badge'', ''bag'', ''balance'', ''balcony'', ''ball'', ''bamboo'', ''banana'', ''banner'', ''bar'', ''barely'',
     ''bargain'', ''barrel'', ''base'', ''basic'', ''basket'', ''battle'', ''beach'', ''bean'', ''beauty'', ''because'',
     ''become'', ''beef'', ''before'', ''begin'', ''behave'', ''behind'', ''believe'', ''below'', ''belt'', ''bench'',
     ''benefit'', ''best'', ''betray'', ''better'', ''between'', ''beyond'', ''bicycle'', ''bid'', ''bike'', ''bind'',
     ''biology'', ''bird'', ''birth'', ''bitter'', ''black'', ''blade'', ''blame'', ''blanket'', ''blast'', ''bleak'', ''bless'',
     ''blind'', ''blood'']"

definition words_03 :: "string list" where
  "words_03 = [''blossom'', ''blouse'', ''blue'', ''blur'', ''blush'', ''board'', ''boat'', ''body'', ''boil'', ''bomb'', ''bone'',
     ''bonus'', ''book'', ''boost'', ''border'', ''boring'', ''borrow'', ''boss'', ''bottom'', ''bounce'', ''box'', ''boy'',
     ''bracket'', ''brain'', ''brand'', ''brass'', ''brave'', ''bread'', ''breeze'', ''brick'', ''bridge'', ''brief'',
     ''bright'', ''bring'', ''brisk'', ''broccoli'', ''broken'', ''bronze'', ''broom'', ''brother'', ''brown'', ''brush'',
     ''bubble'', ''buddy'', ''budget'', ''buffalo'', ''build'', ''bulb'', ''bulk'', ''bullet'', ''bundle'', ''bunker'',
     ''burden'', ''burger'', ''burst'', ''bus'', ''business'', ''busy'', ''butter'', ''buyer'', ''buzz'', ''cabbage'', ''cabin'',
     ''cable'']"

definition words_04 :: "string list" where
  "words_04 = [''cactus'', ''cage'', ''cake'', ''call'', ''calm'', ''camera'', ''camp'', ''can'', ''canal'', ''cancel'', ''candy'',
     ''cannon'', ''canoe'', ''canvas'', ''canyon'', ''capable'', ''capital'', ''captain'', ''car'', ''carbon'', ''card'',
     ''cargo'', ''carpet'', ''carry'', ''cart'', ''case'', ''cash'', ''casino'', ''castle'', ''casual'', ''cat'', ''catalog'',
     ''catch'', ''category'', ''cattle'', ''caught'', ''cause'', ''caution'', ''cave'', ''ceiling'', ''celery'', ''cement'',
     ''census'', ''century'', ''cereal'', ''certain'', ''chair'', ''chalk'', ''champion'', ''change'', ''chaos'', ''chapter'',
     ''charge'', ''chase'', ''chat'', ''cheap'', ''check'', ''cheese'', ''chef'', ''cherry'', ''chest'', ''chicken'', ''chief'',
     ''child'']"

definition words_05 :: "string list" where
  "words_05 = [''chimney'', ''choice'', ''choose'', ''chronic'', ''chuckle'', ''chunk'', ''churn'', ''cigar'', ''cinnamon'', ''circle'',
     ''citizen'', ''city'', ''civil'', ''claim'', ''clap'', ''clarify'', ''claw'', ''clay'', ''clean'', ''clerk'', ''clever'',
     ''click'', ''client'', ''cliff'', ''climb'', ''clinic'', ''clip'', ''clock'', ''clog'', ''close'', ''cloth'', ''cloud'',
     ''clown'', ''club'', ''clump'', ''cluster'', ''clutch'', ''coach'', ''coast'', ''coconut'', ''code'', ''coffee'', ''coil'',
     ''coin'', ''collect'', ''color'', ''column'', ''combine'', ''come'', ''comfort'', ''comic'', ''common'', ''company'',
     ''concert'', ''conduct'', ''confirm'', ''congress'', ''connect'', ''consider'', ''control'', ''convince'', ''cook'',
     ''cool'', ''copper'']"

definition words_06 :: "string list" where
  "words_06 = [''copy'', ''coral'', ''core'', ''corn'', ''correct'', ''cost'', ''cotton'', ''couch'', ''country'', ''couple'', ''course'',
     ''cousin'', ''cover'', ''coyote'', ''crack'', ''cradle'', ''craft'', ''cram'', ''crane'', ''crash'', ''crater'', ''crawl'',
     ''crazy'', ''cream'', ''credit'', ''creek'', ''crew'', ''cricket'', ''crime'', ''crisp'', ''critic'', ''crop'', ''cross'',
     ''crouch'', ''crowd'', ''crucial'', ''cruel'', ''cruise'', ''crumble'', ''crunch'', ''crush'', ''cry'', ''crystal'',
     ''cube'', ''culture'', ''cup'', ''cupboard'', ''curious'', ''current'', ''curtain'', ''curve'', ''cushion'', ''custom'',
     ''cute'', ''cycle'', ''dad'', ''damage'', ''damp'', ''dance'', ''danger'', ''daring'', ''dash'', ''daughter'', ''dawn'']"

definition words_07 :: "string list" where
  "words_07 = [''day'', ''deal'', ''debate'', ''debris'', ''decade'', ''december'', ''decide'', ''decline'', ''decorate'', ''decrease'',
     ''deer'', ''defense'', ''define'', ''defy'', ''degree'', ''delay'', ''deliver'', ''demand'', ''demise'', ''denial'',
     ''dentist'', ''deny'', ''depart'', ''depend'', ''deposit'', ''depth'', ''deputy'', ''derive'', ''describe'', ''desert'',
     ''design'', ''desk'', ''despair'', ''destroy'', ''detail'', ''detect'', ''develop'', ''device'', ''devote'', ''diagram'',
     ''dial'', ''diamond'', ''diary'', ''dice'', ''diesel'', ''diet'', ''differ'', ''digital'', ''dignity'', ''dilemma'',
     ''dinner'', ''dinosaur'', ''direct'', ''dirt'', ''disagree'', ''discover'', ''disease'', ''dish'', ''dismiss'',
     ''disorder'', ''display'', ''distance'', ''divert'', ''divide'']"

definition words_08 :: "string list" where
  "words_08 = [''divorce'', ''dizzy'', ''doctor'', ''document'', ''dog'', ''doll'', ''dolphin'', ''domain'', ''donate'', ''donkey'',
     ''donor'', ''door'', ''dose'', ''double'', ''dove'', ''draft'', ''dragon'', ''drama'', ''drastic'', ''draw'', ''dream'',
     ''dress'', ''drift'', ''drill'', ''drink'', ''drip'', ''drive'', ''drop'', ''drum'', ''dry'', ''duck'', ''dumb'', ''dune'',
     ''during'', ''dust'', ''dutch'', ''duty'', ''dwarf'', ''dynamic'', ''eager'', ''eagle'', ''early'', ''earn'', ''earth'',
     ''easily'', ''east'', ''easy'', ''echo'', ''ecology'', ''economy'', ''edge'', ''edit'', ''educate'', ''effort'', ''egg'',
     ''eight'', ''either'', ''elbow'', ''elder'', ''electric'', ''elegant'', ''element'', ''elephant'', ''elevator'']"

definition words_09 :: "string list" where
  "words_09 = [''elite'', ''else'', ''embark'', ''embody'', ''embrace'', ''emerge'', ''emotion'', ''employ'', ''empower'', ''empty'',
     ''enable'', ''enact'', ''end'', ''endless'', ''endorse'', ''enemy'', ''energy'', ''enforce'', ''engage'', ''engine'',
     ''enhance'', ''enjoy'', ''enlist'', ''enough'', ''enrich'', ''enroll'', ''ensure'', ''enter'', ''entire'', ''entry'',
     ''envelope'', ''episode'', ''equal'', ''equip'', ''era'', ''erase'', ''erode'', ''erosion'', ''error'', ''erupt'',
     ''escape'', ''essay'', ''essence'', ''estate'', ''eternal'', ''ethics'', ''evidence'', ''evil'', ''evoke'', ''evolve'',
     ''exact'', ''example'', ''excess'', ''exchange'', ''excite'', ''exclude'', ''excuse'', ''execute'', ''exercise'',
     ''exhaust'', ''exhibit'', ''exile'', ''exist'', ''exit'']"

definition words_10 :: "string list" where
  "words_10 = [''exotic'', ''expand'', ''expect'', ''expire'', ''explain'', ''expose'', ''express'', ''extend'', ''extra'', ''eye'',
     ''eyebrow'', ''fabric'', ''face'', ''faculty'', ''fade'', ''faint'', ''faith'', ''fall'', ''false'', ''fame'', ''family'',
     ''famous'', ''fan'', ''fancy'', ''fantasy'', ''farm'', ''fashion'', ''fat'', ''fatal'', ''father'', ''fatigue'', ''fault'',
     ''favorite'', ''feature'', ''february'', ''federal'', ''fee'', ''feed'', ''feel'', ''female'', ''fence'', ''festival'',
     ''fetch'', ''fever'', ''few'', ''fiber'', ''fiction'', ''field'', ''figure'', ''file'', ''film'', ''filter'', ''final'',
     ''find'', ''fine'', ''finger'', ''finish'', ''fire'', ''firm'', ''first'', ''fiscal'', ''fish'', ''fit'', ''fitness'']"

definition words_11 :: "string list" where
  "words_11 = [''fix'', ''flag'', ''flame'', ''flash'', ''flat'', ''flavor'', ''flee'', ''flight'', ''flip'', ''float'', ''flock'',
     ''floor'', ''flower'', ''fluid'', ''flush'', ''fly'', ''foam'', ''focus'', ''fog'', ''foil'', ''fold'', ''follow'',
     ''food'', ''foot'', ''force'', ''forest'', ''forget'', ''fork'', ''fortune'', ''forum'', ''forward'', ''fossil'',
     ''foster'', ''found'', ''fox'', ''fragile'', ''frame'', ''frequent'', ''fresh'', ''friend'', ''fringe'', ''frog'',
     ''front'', ''frost'', ''frown'', ''frozen'', ''fruit'', ''fuel'', ''fun'', ''funny'', ''furnace'', ''fury'', ''future'',
     ''gadget'', ''gain'', ''galaxy'', ''gallery'', ''game'', ''gap'', ''garage'', ''garbage'', ''garden'', ''garlic'',
     ''garment'']"

definition words_12 :: "string list" where
  "words_12 = [''gas'', ''gasp'', ''gate'', ''gather'', ''gauge'', ''gaze'', ''general'', ''genius'', ''genre'', ''gentle'', ''genuine'',
     ''gesture'', ''ghost'', ''giant'', ''gift'', ''giggle'', ''ginger'', ''giraffe'', ''girl'', ''give'', ''glad'', ''glance'',
     ''glare'', ''glass'', ''glide'', ''glimpse'', ''globe'', ''gloom'', ''glory'', ''glove'', ''glow'', ''glue'', ''goat'',
     ''goddess'', ''gold'', ''good'', ''goose'', ''gorilla'', ''gospel'', ''gossip'', ''govern'', ''gown'', ''grab'', ''grace'',
     ''grain'', ''grant'', ''grape'', ''grass'', ''gravity'', ''great'', ''green'', ''grid'', ''grief'', ''grit'', ''grocery'',
     ''group'', ''grow'', ''grunt'', ''guard'', ''guess'', ''guide'', ''guilt'', ''guitar'', ''gun'']"

definition words_13 :: "string list" where
  "words_13 = [''gym'', ''habit'', ''hair'', ''half'', ''hammer'', ''hamster'', ''hand'', ''happy'', ''harbor'', ''hard'', ''harsh'',
     ''harvest'', ''hat'', ''have'', ''hawk'', ''hazard'', ''head'', ''health'', ''heart'', ''heavy'', ''hedgehog'', ''height'',
     ''hello'', ''helmet'', ''help'', ''hen'', ''hero'', ''hidden'', ''high'', ''hill'', ''hint'', ''hip'', ''hire'',
     ''history'', ''hobby'', ''hockey'', ''hold'', ''hole'', ''holiday'', ''hollow'', ''home'', ''honey'', ''hood'', ''hope'',
     ''horn'', ''horror'', ''horse'', ''hospital'', ''host'', ''hotel'', ''hour'', ''hover'', ''hub'', ''huge'', ''human'',
     ''humble'', ''humor'', ''hundred'', ''hungry'', ''hunt'', ''hurdle'', ''hurry'', ''hurt'', ''husband'']"

definition words_14 :: "string list" where
  "words_14 = [''hybrid'', ''ice'', ''icon'', ''idea'', ''identify'', ''idle'', ''ignore'', ''ill'', ''illegal'', ''illness'', ''image'',
     ''imitate'', ''immense'', ''immune'', ''impact'', ''impose'', ''improve'', ''impulse'', ''inch'', ''include'', ''income'',
     ''increase'', ''index'', ''indicate'', ''indoor'', ''industry'', ''infant'', ''inflict'', ''inform'', ''inhale'',
     ''inherit'', ''initial'', ''inject'', ''injury'', ''inmate'', ''inner'', ''innocent'', ''input'', ''inquiry'', ''insane'',
     ''insect'', ''inside'', ''inspire'', ''install'', ''intact'', ''interest'', ''into'', ''invest'', ''invite'', ''involve'',
     ''iron'', ''island'', ''isolate'', ''issue'', ''item'', ''ivory'', ''jacket'', ''jaguar'', ''jar'', ''jazz'', ''jealous'',
     ''jeans'', ''jelly'', ''jewel'']"

definition words_15 :: "string list" where
  "words_15 = [''job'', ''join'', ''joke'', ''journey'', ''joy'', ''judge'', ''juice'', ''jump'', ''jungle'', ''junior'', ''junk'',
     ''just'', ''kangaroo'', ''keen'', ''keep'', ''ketchup'', ''key'', ''kick'', ''kid'', ''kidney'', ''kind'', ''kingdom'',
     ''kiss'', ''kit'', ''kitchen'', ''kite'', ''kitten'', ''kiwi'', ''knee'', ''knife'', ''knock'', ''know'', ''lab'',
     ''label'', ''labor'', ''ladder'', ''lady'', ''lake'', ''lamp'', ''language'', ''laptop'', ''large'', ''later'', ''latin'',
     ''laugh'', ''laundry'', ''lava'', ''law'', ''lawn'', ''lawsuit'', ''layer'', ''lazy'', ''leader'', ''leaf'', ''learn'',
     ''leave'', ''lecture'', ''left'', ''leg'', ''legal'', ''legend'', ''leisure'', ''lemon'', ''lend'']"

definition words_16 :: "string list" where
  "words_16 = [''length'', ''lens'', ''leopard'', ''lesson'', ''letter'', ''level'', ''liar'', ''liberty'', ''library'', ''license'',
     ''life'', ''lift'', ''light'', ''like'', ''limb'', ''limit'', ''link'', ''lion'', ''liquid'', ''list'', ''little'',
     ''live'', ''lizard'', ''load'', ''loan'', ''lobster'', ''local'', ''lock'', ''logic'', ''lonely'', ''long'', ''loop'',
     ''lottery'', ''loud'', ''lounge'', ''love'', ''loyal'', ''lucky'', ''luggage'', ''lumber'', ''lunar'', ''lunch'',
     ''luxury'', ''lyrics'', ''machine'', ''mad'', ''magic'', ''magnet'', ''maid'', ''mail'', ''main'', ''major'', ''make'',
     ''mammal'', ''man'', ''manage'', ''mandate'', ''mango'', ''mansion'', ''manual'', ''maple'', ''marble'', ''march'',
     ''margin'']"

definition words_17 :: "string list" where
  "words_17 = [''marine'', ''market'', ''marriage'', ''mask'', ''mass'', ''master'', ''match'', ''material'', ''math'', ''matrix'',
     ''matter'', ''maximum'', ''maze'', ''meadow'', ''mean'', ''measure'', ''meat'', ''mechanic'', ''medal'', ''media'',
     ''melody'', ''melt'', ''member'', ''memory'', ''mention'', ''menu'', ''mercy'', ''merge'', ''merit'', ''merry'', ''mesh'',
     ''message'', ''metal'', ''method'', ''middle'', ''midnight'', ''milk'', ''million'', ''mimic'', ''mind'', ''minimum'',
     ''minor'', ''minute'', ''miracle'', ''mirror'', ''misery'', ''miss'', ''mistake'', ''mix'', ''mixed'', ''mixture'',
     ''mobile'', ''model'', ''modify'', ''mom'', ''moment'', ''monitor'', ''monkey'', ''monster'', ''month'', ''moon'',
     ''moral'', ''more'', ''morning'']"

definition words_18 :: "string list" where
  "words_18 = [''mosquito'', ''mother'', ''motion'', ''motor'', ''mountain'', ''mouse'', ''move'', ''movie'', ''much'', ''muffin'',
     ''mule'', ''multiply'', ''muscle'', ''museum'', ''mushroom'', ''music'', ''must'', ''mutual'', ''myself'', ''mystery'',
     ''myth'', ''naive'', ''name'', ''napkin'', ''narrow'', ''nasty'', ''nation'', ''nature'', ''near'', ''neck'', ''need'',
     ''negative'', ''neglect'', ''neither'', ''nephew'', ''nerve'', ''nest'', ''net'', ''network'', ''neutral'', ''never'',
     ''news'', ''next'', ''nice'', ''night'', ''noble'', ''noise'', ''nominee'', ''noodle'', ''normal'', ''north'', ''nose'',
     ''notable'', ''note'', ''nothing'', ''notice'', ''novel'', ''now'', ''nuclear'', ''number'', ''nurse'', ''nut'', ''oak'',
     ''obey'']"

definition words_19 :: "string list" where
  "words_19 = [''object'', ''oblige'', ''obscure'', ''observe'', ''obtain'', ''obvious'', ''occur'', ''ocean'', ''october'', ''odor'',
     ''off'', ''offer'', ''office'', ''often'', ''oil'', ''okay'', ''old'', ''olive'', ''olympic'', ''omit'', ''once'', ''one'',
     ''onion'', ''online'', ''only'', ''open'', ''opera'', ''opinion'', ''oppose'', ''option'', ''orange'', ''orbit'',
     ''orchard'', ''order'', ''ordinary'', ''organ'', ''orient'', ''original'', ''orphan'', ''ostrich'', ''other'', ''outdoor'',
     ''outer'', ''output'', ''outside'', ''oval'', ''oven'', ''over'', ''own'', ''owner'', ''oxygen'', ''oyster'', ''ozone'',
     ''pact'', ''paddle'', ''page'', ''pair'', ''palace'', ''palm'', ''panda'', ''panel'', ''panic'', ''panther'', ''paper'']"

definition words_20 :: "string list" where
  "words_20 = [''parade'', ''parent'', ''park'', ''parrot'', ''party'', ''pass'', ''patch'', ''path'', ''patient'', ''patrol'',
     ''pattern'', ''pause'', ''pave'', ''payment'', ''peace'', ''peanut'', ''pear'', ''peasant'', ''pelican'', ''pen'',
     ''penalty'', ''pencil'', ''people'', ''pepper'', ''perfect'', ''permit'', ''person'', ''pet'', ''phone'', ''photo'',
     ''phrase'', ''physical'', ''piano'', ''picnic'', ''picture'', ''piece'', ''pig'', ''pigeon'', ''pill'', ''pilot'', ''pink'',
     ''pioneer'', ''pipe'', ''pistol'', ''pitch'', ''pizza'', ''place'', ''planet'', ''plastic'', ''plate'', ''play'',
     ''please'', ''pledge'', ''pluck'', ''plug'', ''plunge'', ''poem'', ''poet'', ''point'', ''polar'', ''pole'', ''police'',
     ''pond'', ''pony'']"

definition words_21 :: "string list" where
  "words_21 = [''pool'', ''popular'', ''portion'', ''position'', ''possible'', ''post'', ''potato'', ''pottery'', ''poverty'', ''powder'',
     ''power'', ''practice'', ''praise'', ''predict'', ''prefer'', ''prepare'', ''present'', ''pretty'', ''prevent'', ''price'',
     ''pride'', ''primary'', ''print'', ''priority'', ''prison'', ''private'', ''prize'', ''problem'', ''process'', ''produce'',
     ''profit'', ''program'', ''project'', ''promote'', ''proof'', ''property'', ''prosper'', ''protect'', ''proud'',
     ''provide'', ''public'', ''pudding'', ''pull'', ''pulp'', ''pulse'', ''pumpkin'', ''punch'', ''pupil'', ''puppy'',
     ''purchase'', ''purity'', ''purpose'', ''purse'', ''push'', ''put'', ''puzzle'', ''pyramid'', ''quality'', ''quantum'',
     ''quarter'', ''question'', ''quick'', ''quit'', ''quiz'']"

definition words_22 :: "string list" where
  "words_22 = [''quote'', ''rabbit'', ''raccoon'', ''race'', ''rack'', ''radar'', ''radio'', ''rail'', ''rain'', ''raise'', ''rally'',
     ''ramp'', ''ranch'', ''random'', ''range'', ''rapid'', ''rare'', ''rate'', ''rather'', ''raven'', ''raw'', ''razor'',
     ''ready'', ''real'', ''reason'', ''rebel'', ''rebuild'', ''recall'', ''receive'', ''recipe'', ''record'', ''recycle'',
     ''reduce'', ''reflect'', ''reform'', ''refuse'', ''region'', ''regret'', ''regular'', ''reject'', ''relax'', ''release'',
     ''relief'', ''rely'', ''remain'', ''remember'', ''remind'', ''remove'', ''render'', ''renew'', ''rent'', ''reopen'',
     ''repair'', ''repeat'', ''replace'', ''report'', ''require'', ''rescue'', ''resemble'', ''resist'', ''resource'',
     ''response'', ''result'', ''retire'']"

definition words_23 :: "string list" where
  "words_23 = [''retreat'', ''return'', ''reunion'', ''reveal'', ''review'', ''reward'', ''rhythm'', ''rib'', ''ribbon'', ''rice'',
     ''rich'', ''ride'', ''ridge'', ''rifle'', ''right'', ''rigid'', ''ring'', ''riot'', ''ripple'', ''risk'', ''ritual'',
     ''rival'', ''river'', ''road'', ''roast'', ''robot'', ''robust'', ''rocket'', ''romance'', ''roof'', ''rookie'', ''room'',
     ''rose'', ''rotate'', ''rough'', ''round'', ''route'', ''royal'', ''rubber'', ''rude'', ''rug'', ''rule'', ''run'',
     ''runway'', ''rural'', ''sad'', ''saddle'', ''sadness'', ''safe'', ''sail'', ''salad'', ''salmon'', ''salon'', ''salt'',
     ''salute'', ''same'', ''sample'', ''sand'', ''satisfy'', ''satoshi'', ''sauce'', ''sausage'', ''save'', ''say'']"

definition words_24 :: "string list" where
  "words_24 = [''scale'', ''scan'', ''scare'', ''scatter'', ''scene'', ''scheme'', ''school'', ''science'', ''scissors'', ''scorpion'',
     ''scout'', ''scrap'', ''screen'', ''script'', ''scrub'', ''sea'', ''search'', ''season'', ''seat'', ''second'', ''secret'',
     ''section'', ''security'', ''seed'', ''seek'', ''segment'', ''select'', ''sell'', ''seminar'', ''senior'', ''sense'',
     ''sentence'', ''series'', ''service'', ''session'', ''settle'', ''setup'', ''seven'', ''shadow'', ''shaft'', ''shallow'',
     ''share'', ''shed'', ''shell'', ''sheriff'', ''shield'', ''shift'', ''shine'', ''ship'', ''shiver'', ''shock'', ''shoe'',
     ''shoot'', ''shop'', ''short'', ''shoulder'', ''shove'', ''shrimp'', ''shrug'', ''shuffle'', ''shy'', ''sibling'', ''sick'',
     ''side'']"

definition words_25 :: "string list" where
  "words_25 = [''siege'', ''sight'', ''sign'', ''silent'', ''silk'', ''silly'', ''silver'', ''similar'', ''simple'', ''since'', ''sing'',
     ''siren'', ''sister'', ''situate'', ''six'', ''size'', ''skate'', ''sketch'', ''ski'', ''skill'', ''skin'', ''skirt'',
     ''skull'', ''slab'', ''slam'', ''sleep'', ''slender'', ''slice'', ''slide'', ''slight'', ''slim'', ''slogan'', ''slot'',
     ''slow'', ''slush'', ''small'', ''smart'', ''smile'', ''smoke'', ''smooth'', ''snack'', ''snake'', ''snap'', ''sniff'',
     ''snow'', ''soap'', ''soccer'', ''social'', ''sock'', ''soda'', ''soft'', ''solar'', ''soldier'', ''solid'', ''solution'',
     ''solve'', ''someone'', ''song'', ''soon'', ''sor'' @ ''ry'', ''sort'', ''soul'', ''sound'', ''soup'']"

definition words_26 :: "string list" where
  "words_26 = [''source'', ''south'', ''space'', ''spare'', ''spatial'', ''spawn'', ''speak'', ''special'', ''speed'', ''spell'',
     ''spend'', ''sphere'', ''spice'', ''spider'', ''spike'', ''spin'', ''spirit'', ''split'', ''spoil'', ''sponsor'', ''spoon'',
     ''sport'', ''spot'', ''spray'', ''spread'', ''spring'', ''spy'', ''square'', ''squeeze'', ''squirrel'', ''stable'',
     ''stadium'', ''staff'', ''stage'', ''stairs'', ''stamp'', ''stand'', ''start'', ''state'', ''stay'', ''steak'', ''steel'',
     ''stem'', ''step'', ''stereo'', ''stick'', ''still'', ''sting'', ''stock'', ''stomach'', ''stone'', ''stool'', ''story'',
     ''stove'', ''strategy'', ''street'', ''strike'', ''strong'', ''struggle'', ''student'', ''stuff'', ''stumble'', ''style'',
     ''subject'']"

definition words_27 :: "string list" where
  "words_27 = [''submit'', ''subway'', ''success'', ''such'', ''sudden'', ''suffer'', ''sugar'', ''suggest'', ''suit'', ''summer'',
     ''sun'', ''sunny'', ''sunset'', ''super'', ''supply'', ''supreme'', ''sure'', ''surface'', ''surge'', ''surprise'',
     ''surround'', ''survey'', ''suspect'', ''sustain'', ''swallow'', ''swamp'', ''swap'', ''swarm'', ''swear'', ''sweet'',
     ''swift'', ''swim'', ''swing'', ''switch'', ''sword'', ''symbol'', ''symptom'', ''syrup'', ''system'', ''table'',
     ''tackle'', ''tag'', ''tail'', ''talent'', ''talk'', ''tank'', ''tape'', ''target'', ''task'', ''taste'', ''tattoo'',
     ''taxi'', ''teach'', ''team'', ''tell'', ''ten'', ''tenant'', ''tennis'', ''tent'', ''term'', ''test'', ''text'', ''thank'',
     ''that'']"

definition words_28 :: "string list" where
  "words_28 = [''theme'', ''then'', ''theory'', ''there'', ''they'', ''thing'', ''this'', ''thought'', ''three'', ''thrive'', ''throw'',
     ''thumb'', ''thunder'', ''ticket'', ''tide'', ''tiger'', ''tilt'', ''timber'', ''time'', ''tiny'', ''tip'', ''tired'',
     ''tissue'', ''title'', ''toast'', ''tobacco'', ''today'', ''toddler'', ''toe'', ''together'', ''toilet'', ''token'',
     ''tomato'', ''tomorrow'', ''tone'', ''tongue'', ''tonight'', ''tool'', ''tooth'', ''top'', ''topic'', ''topple'', ''torch'',
     ''tornado'', ''tortoise'', ''toss'', ''total'', ''tourist'', ''toward'', ''tower'', ''town'', ''toy'', ''track'', ''trade'',
     ''traffic'', ''tragic'', ''train'', ''transfer'', ''trap'', ''trash'', ''travel'', ''tray'', ''treat'', ''tree'']"

definition words_29 :: "string list" where
  "words_29 = [''trend'', ''trial'', ''tribe'', ''trick'', ''trigger'', ''trim'', ''trip'', ''trophy'', ''trouble'', ''truck'', ''true'',
     ''truly'', ''trumpet'', ''trust'', ''truth'', ''try'', ''tube'', ''tuition'', ''tumble'', ''tuna'', ''tunnel'', ''turkey'',
     ''turn'', ''turtle'', ''twelve'', ''twenty'', ''twice'', ''twin'', ''twist'', ''two'', ''type'', ''typical'', ''ugly'',
     ''umbrella'', ''unable'', ''unaware'', ''uncle'', ''uncover'', ''under'', ''undo'', ''unfair'', ''unfold'', ''unhappy'',
     ''uniform'', ''unique'', ''unit'', ''universe'', ''unknown'', ''unlock'', ''until'', ''unusual'', ''unveil'', ''update'',
     ''upgrade'', ''uphold'', ''upon'', ''upper'', ''upset'', ''urban'', ''urge'', ''usage'', ''use'', ''used'', ''useful'']"

definition words_30 :: "string list" where
  "words_30 = [''useless'', ''usual'', ''utility'', ''vacant'', ''vacuum'', ''vague'', ''valid'', ''valley'', ''valve'', ''van'',
     ''vanish'', ''vapor'', ''various'', ''vast'', ''vault'', ''vehicle'', ''velvet'', ''vendor'', ''venture'', ''venue'',
     ''verb'', ''verify'', ''version'', ''very'', ''vessel'', ''veteran'', ''viable'', ''vibrant'', ''vicious'', ''victory'',
     ''video'', ''view'', ''village'', ''vintage'', ''violin'', ''virtual'', ''virus'', ''visa'', ''visit'', ''visual'',
     ''vital'', ''vivid'', ''vocal'', ''voice'', ''void'', ''volcano'', ''volume'', ''vote'', ''voyage'', ''wage'', ''wagon'',
     ''wait'', ''walk'', ''wall'', ''walnut'', ''want'', ''warfare'', ''warm'', ''warrior'', ''wash'', ''wasp'', ''waste'',
     ''water'', ''wave'']"

definition words_31 :: "string list" where
  "words_31 = [''way'', ''wealth'', ''weapon'', ''wear'', ''weasel'', ''weather'', ''web'', ''wedding'', ''weekend'', ''weird'',
     ''welcome'', ''west'', ''wet'', ''whale'', ''what'', ''wheat'', ''wheel'', ''when'', ''where'', ''whip'', ''whisper'',
     ''wide'', ''width'', ''wife'', ''wild'', ''will'', ''win'', ''window'', ''wine'', ''wing'', ''wink'', ''winner'',
     ''winter'', ''wire'', ''wisdom'', ''wise'', ''wish'', ''witness'', ''wolf'', ''woman'', ''wonder'', ''wood'', ''wool'',
     ''word'', ''work'', ''world'', ''worry'', ''worth'', ''wrap'', ''wreck'', ''wrestle'', ''wrist'', ''write'', ''wrong'',
     ''yard'', ''year'', ''yellow'', ''you'', ''young'', ''youth'', ''zebra'', ''zero'', ''zone'', ''zoo'']"

definition word_pieces :: "string list list" where
  "word_pieces = [words_00, words_01, words_02, words_03, words_04, words_05, words_06, words_07, words_08, words_09, words_10, words_11,
     words_12, words_13, words_14, words_15, words_16, words_17, words_18, words_19, words_20, words_21, words_22, words_23,
     words_24, words_25, words_26, words_27, words_28, words_29, words_30, words_31]"

definition wordList :: "string list" where
  "wordList = concat word_pieces"

section \<open>Their order and letters\<close>

definition lower_letter :: "char \<Rightarrow> bool" where
  "lower_letter c \<longleftrightarrow> 97 \<le> (of_char c :: nat) \<and> (of_char c :: nat) \<le> 122"

fun ascending :: "string list \<Rightarrow> bool" where
  "ascending (v # w # ws) \<longleftrightarrow> v < w \<and> ascending (w # ws)"
| "ascending _ \<longleftrightarrow> True"

definition word_chunk :: "string list \<Rightarrow> string \<Rightarrow> string \<Rightarrow> bool" where
  "word_chunk ws v w \<longleftrightarrow> length ws = 64 \<and> hd ws = v \<and> last ws = w \<and> ascending ws \<and> list_all (list_all lower_letter) ws \<and> [] \<notin> set ws"

fun joined :: "string list list \<Rightarrow> bool" where
  "joined (vs # ws # wss) \<longleftrightarrow> last vs < hd ws \<and> joined (ws # wss)"
| "joined _ \<longleftrightarrow> True"

lemma ascending_distinct: "ascending ws \<Longrightarrow> distinct ws \<and> (\<forall>w \<in> set (tl ws). hd ws < w)"
  by (induction ws rule: ascending.induct) (auto intro: less_trans)

lemma ascending_append:
  "ascending vs \<Longrightarrow> ascending ws \<Longrightarrow> vs \<noteq> [] \<Longrightarrow> last vs < hd ws \<Longrightarrow> ascending (vs @ ws)"
  by (induction vs rule: ascending.induct; cases ws) auto

lemma ascending_pieces:
  "list_all ascending wss \<Longrightarrow> [] \<notin> set wss \<Longrightarrow> joined wss \<Longrightarrow> ascending (concat wss)"
proof (induction wss rule: joined.induct)
  case (1 vs ws wss)
  then have "ascending (concat (ws # wss))" by simp
  moreover have "hd (concat (ws # wss)) = hd ws" using 1 by (auto simp: hd_append2)
  ultimately show ?case using 1 ascending_append [of vs "concat (ws # wss)"] by auto
qed auto

lemma chunk_00: "word_chunk words_00 ''abandon'' ''among''"
  by (simp add: word_chunk_def words_00_def lower_letter_def less_char_def)

lemma chunk_01: "word_chunk words_01 ''amount'' ''avocado''"
  by (simp add: word_chunk_def words_01_def lower_letter_def less_char_def)

lemma chunk_02: "word_chunk words_02 ''avoid'' ''blood''"
  by (simp add: word_chunk_def words_02_def lower_letter_def less_char_def)

lemma chunk_03: "word_chunk words_03 ''blossom'' ''cable''"
  by (simp add: word_chunk_def words_03_def lower_letter_def less_char_def)

lemma chunk_04: "word_chunk words_04 ''cactus'' ''child''"
  by (simp add: word_chunk_def words_04_def lower_letter_def less_char_def)

lemma chunk_05: "word_chunk words_05 ''chimney'' ''copper''"
  by (simp add: word_chunk_def words_05_def lower_letter_def less_char_def)

lemma chunk_06: "word_chunk words_06 ''copy'' ''dawn''"
  by (simp add: word_chunk_def words_06_def lower_letter_def less_char_def)

lemma chunk_07: "word_chunk words_07 ''day'' ''divide''"
  by (simp add: word_chunk_def words_07_def lower_letter_def less_char_def)

lemma chunk_08: "word_chunk words_08 ''divorce'' ''elevator''"
  by (simp add: word_chunk_def words_08_def lower_letter_def less_char_def)

lemma chunk_09: "word_chunk words_09 ''elite'' ''exit''"
  by (simp add: word_chunk_def words_09_def lower_letter_def less_char_def)

lemma chunk_10: "word_chunk words_10 ''exotic'' ''fitness''"
  by (simp add: word_chunk_def words_10_def lower_letter_def less_char_def)

lemma chunk_11: "word_chunk words_11 ''fix'' ''garment''"
  by (simp add: word_chunk_def words_11_def lower_letter_def less_char_def)

lemma chunk_12: "word_chunk words_12 ''gas'' ''gun''"
  by (simp add: word_chunk_def words_12_def lower_letter_def less_char_def)

lemma chunk_13: "word_chunk words_13 ''gym'' ''husband''"
  by (simp add: word_chunk_def words_13_def lower_letter_def less_char_def)

lemma chunk_14: "word_chunk words_14 ''hybrid'' ''jewel''"
  by (simp add: word_chunk_def words_14_def lower_letter_def less_char_def)

lemma chunk_15: "word_chunk words_15 ''job'' ''lend''"
  by (simp add: word_chunk_def words_15_def lower_letter_def less_char_def)

lemma chunk_16: "word_chunk words_16 ''length'' ''margin''"
  by (simp add: word_chunk_def words_16_def lower_letter_def less_char_def)

lemma chunk_17: "word_chunk words_17 ''marine'' ''morning''"
  by (simp add: word_chunk_def words_17_def lower_letter_def less_char_def)

lemma chunk_18: "word_chunk words_18 ''mosquito'' ''obey''"
  by (simp add: word_chunk_def words_18_def lower_letter_def less_char_def)

lemma chunk_19: "word_chunk words_19 ''object'' ''paper''"
  by (simp add: word_chunk_def words_19_def lower_letter_def less_char_def)

lemma chunk_20: "word_chunk words_20 ''parade'' ''pony''"
  by (simp add: word_chunk_def words_20_def lower_letter_def less_char_def)

lemma chunk_21: "word_chunk words_21 ''pool'' ''quiz''"
  by (simp add: word_chunk_def words_21_def lower_letter_def less_char_def)

lemma chunk_22: "word_chunk words_22 ''quote'' ''retire''"
  by (simp add: word_chunk_def words_22_def lower_letter_def less_char_def)

lemma chunk_23: "word_chunk words_23 ''retreat'' ''say''"
  by (simp add: word_chunk_def words_23_def lower_letter_def less_char_def)

lemma chunk_24: "word_chunk words_24 ''scale'' ''side''"
  by (simp add: word_chunk_def words_24_def lower_letter_def less_char_def)

lemma chunk_25: "word_chunk words_25 ''siege'' ''soup''"
  by (simp add: word_chunk_def words_25_def lower_letter_def less_char_def)

lemma chunk_26: "word_chunk words_26 ''source'' ''subject''"
  by (simp add: word_chunk_def words_26_def lower_letter_def less_char_def)

lemma chunk_27: "word_chunk words_27 ''submit'' ''that''"
  by (simp add: word_chunk_def words_27_def lower_letter_def less_char_def)

lemma chunk_28: "word_chunk words_28 ''theme'' ''tree''"
  by (simp add: word_chunk_def words_28_def lower_letter_def less_char_def)

lemma chunk_29: "word_chunk words_29 ''trend'' ''useful''"
  by (simp add: word_chunk_def words_29_def lower_letter_def less_char_def)

lemma chunk_30: "word_chunk words_30 ''useless'' ''wave''"
  by (simp add: word_chunk_def words_30_def lower_letter_def less_char_def)

lemma chunk_31: "word_chunk words_31 ''way'' ''zoo''"
  by (simp add: word_chunk_def words_31_def lower_letter_def less_char_def)

lemmas word_chunks = chunk_00 chunk_01 chunk_02 chunk_03 chunk_04 chunk_05 chunk_06 chunk_07 chunk_08 chunk_09 chunk_10 chunk_11 chunk_12 chunk_13
  chunk_14 chunk_15 chunk_16 chunk_17 chunk_18 chunk_19 chunk_20 chunk_21 chunk_22 chunk_23 chunk_24 chunk_25 chunk_26 chunk_27
  chunk_28 chunk_29 chunk_30 chunk_31

lemma word_pieces_ok: "list_all (\<lambda>ws. \<exists>v w. word_chunk ws v w) word_pieces"
  unfolding word_pieces_def by (simp only: list.pred_inject simp_thms) (intro conjI exI; rule word_chunks)

lemma word_pieces_joined: "joined word_pieces"
  unfolding word_pieces_def using word_chunks by (simp add: word_chunk_def less_char_def)

lemma wordList_length: "length wordList = 2048"
  using word_chunks by (simp add: wordList_def word_pieces_def word_chunk_def)

lemma wordList_distinct: "distinct wordList"
proof -
  have "list_all ascending word_pieces" "[] \<notin> set word_pieces"
    using word_pieces_ok by (auto simp: list_all_iff word_chunk_def)
  then have "ascending wordList" unfolding wordList_def using word_pieces_joined by (rule ascending_pieces)
  then show ?thesis using ascending_distinct by blast
qed

lemma wordList_letters: "w \<in> set wordList \<Longrightarrow> w \<noteq> [] \<and> list_all lower_letter w"
  using word_pieces_ok by (auto simp: wordList_def list_all_iff word_chunk_def)

end
