(* ===== verification/Bit_Buffer.thy ===== *)
theory Bit_Buffer
  imports Prelude
begin

text \<open>
  The bits of a byte buffer, most significant first: \<open>readBits\<close> and \<open>writeBits\<close> of
  \<open>pkg/mnemonic\<close>. A read gives exactly the bits of its range, a write sets exactly the bits of
  its value, and a buffer is determined by its bits.
\<close>

unbundle bit_operations_syntax

section \<open>Reading and writing\<close>

text \<open>
  An index outside the buffer would panic; the callers stay inside (24 times 11 bits in 33 bytes).
\<close>

definition bit_at :: "bytes \<Rightarrow> nat \<Rightarrow> bool" where
  "bit_at b pos \<longleftrightarrow> bit (of_char (b ! (pos div 8)) :: nat) (7 - pos mod 8)"

definition readBits :: "bytes \<Rightarrow> nat \<Rightarrow> nat \<Rightarrow> nat" where
  "readBits b off n = fold (\<lambda>i v. push_bit 1 v OR of_bool (bit_at b (off + i))) [0..<n] 0"

definition set_bit_at :: "nat \<Rightarrow> bytes \<Rightarrow> bytes" where
  "set_bit_at pos b = b[pos div 8 := char_of (of_char (b ! (pos div 8)) OR push_bit (7 - pos mod 8) (1 :: nat))]"

definition writeBits :: "bytes \<Rightarrow> nat \<Rightarrow> nat \<Rightarrow> nat \<Rightarrow> bytes" where
  "writeBits b off n val = fold (\<lambda>i b. if bit val (n - 1 - i) then set_bit_at (off + i) b else b) [0..<n] b"

section \<open>What is read and written\<close>

lemma bit_readBits: "bit (readBits b off n) k \<longleftrightarrow> k < n \<and> bit_at b (off + (n - 1 - k))"
proof (induction n arbitrary: k)
  case 0
  then show ?case by (simp add: readBits_def)
next
  case (Suc n)
  have "readBits b off (Suc n) = push_bit 1 (readBits b off n) OR of_bool (bit_at b (off + n))"
    by (simp add: readBits_def)
  then have "bit (readBits b off (Suc n)) k \<longleftrightarrow> 1 \<le> k \<and> bit (readBits b off n) (k - 1) \<or> k = 0 \<and> bit_at b (off + n)"
    by (simp only: bit_or_iff bit_push_bit_iff bit_of_bool_iff possible_bit_nat) auto
  then show ?case unfolding Suc.IH by (cases k) auto
qed

lemma readBits_less: "readBits b off n < 2 ^ n"
proof -
  have "take_bit n (readBits b off n) = readBits b off n"
    by (rule bit_eqI) (auto simp: bit_take_bit_iff bit_readBits)
  then show ?thesis by (simp add: take_bit_nat_eq_self_iff)
qed

lemma readBits_eqI:
  assumes "v < 2 ^ n" "\<And>k. k < n \<Longrightarrow> bit v k \<longleftrightarrow> bit_at b (off + (n - 1 - k))"
  shows "readBits b off n = v"
proof -
  have "take_bit n (readBits b off n) = take_bit n v"
    by (rule bit_eqI) (use assms(2) in \<open>auto simp: bit_take_bit_iff bit_readBits\<close>)
  then show ?thesis using assms(1) readBits_less by (simp add: take_bit_nat_eq_self)
qed

lemma length_set_bit_at [simp]: "length (set_bit_at pos b) = length b"
  by (simp add: set_bit_at_def)

lemma bit_set_bit_at:
  assumes "pos < 8 * length b"
  shows "bit_at (set_bit_at pos b) q \<longleftrightarrow> q = pos \<or> bit_at b q"
proof -
  have len: "pos div 8 < length b" using assms by (simp add: div_less_iff_less_mult mult.commute)
  show ?thesis
  proof (cases "q div 8 = pos div 8")
    case True
    then have "q = pos \<longleftrightarrow> q mod 8 = pos mod 8" by (metis div_mult_mod_eq)
    moreover have "7 - q mod 8 = 7 - pos mod 8 \<longleftrightarrow> q mod 8 = pos mod 8"
      using mod_less_divisor [of 8 q] mod_less_divisor [of 8 pos] by linarith
    moreover have "bit (of_char (char_of (x OR push_bit j 1) :: char) :: nat) k \<longleftrightarrow> bit x k \<or> k = j" if "k < 8" for x j k :: nat
    proof -
      have "of_char (char_of n :: char) = take_bit 8 n" for n :: nat by (simp add: of_char_of take_bit_eq_mod)
      then show ?thesis using that by (simp only: bit_take_bit_iff bit_or_iff bit_push_bit_iff bit_1_iff) auto
    qed
    from this [of "7 - q mod 8" "of_char (b ! (pos div 8))" "7 - pos mod 8"]
    have "bit_at (set_bit_at pos b) q \<longleftrightarrow> bit_at b q \<or> 7 - q mod 8 = 7 - pos mod 8"
      unfolding bit_at_def set_bit_at_def True by (simp only: nth_list_update_eq [OF len])
    ultimately show ?thesis by blast
  next
    case False
    then show ?thesis using len by (auto simp: bit_at_def set_bit_at_def)
  qed
qed

lemma bits_written:
  assumes "off + m \<le> 8 * length b"
  shows "length (fold (\<lambda>i b. if bit val (n - 1 - i) then set_bit_at (off + i) b else b) [0..<m] b) = length b
    \<and> (bit_at (fold (\<lambda>i b. if bit val (n - 1 - i) then set_bit_at (off + i) b else b) [0..<m] b) q
      \<longleftrightarrow> bit_at b q \<or> (off \<le> q \<and> q < off + m \<and> bit val (n - 1 - (q - off))))"
  using assms
proof (induction m)
  case (Suc m)
  then show ?case by (auto simp: bit_set_bit_at less_Suc_eq)
qed auto

lemma length_writeBits [simp]: "off + n \<le> 8 * length b \<Longrightarrow> length (writeBits b off n val) = length b"
  unfolding writeBits_def using bits_written by blast

lemma bit_writeBits:
  "off + n \<le> 8 * length b \<Longrightarrow>
   bit_at (writeBits b off n val) q \<longleftrightarrow> bit_at b q \<or> (off \<le> q \<and> q < off + n \<and> bit val (n - 1 - (q - off)))"
  unfolding writeBits_def using bits_written by blast

lemma bytes_eqI:
  assumes "length a = length b" "\<And>q. q < 8 * length b \<Longrightarrow> bit_at a q \<longleftrightarrow> bit_at b q"
  shows "a = b"
proof (rule nth_equalityI [OF assms(1)])
  fix i assume i: "i < length a"
  have "bit (of_char (a ! i) :: nat) m \<longleftrightarrow> bit (of_char (b ! i) :: nat) m" if "m < 8" for m
  proof -
    have q: "(8 * i + (7 - m)) div 8 = i" "7 - (8 * i + (7 - m)) mod 8 = m" using that by (simp_all only: mod_mult_self4 div_mult_self4) simp_all
    have "8 * i + (7 - m) < 8 * length b" using i assms(1) by simp
    from assms(2) [OF this] show ?thesis by (simp only: bit_at_def q)
  qed
  then have "take_bit 8 (of_char (a ! i)) = take_bit 8 (of_char (b ! i) :: nat)"
    by (intro bit_eqI) (auto simp: bit_take_bit_iff)
  then have "(of_char (a ! i) :: nat) = of_char (b ! i)" by (simp add: take_bit_eq_mod)
  then show "a ! i = b ! i" by simp
qed

end
