(* ===== verification/Mnemonic.thy ===== *)
theory Mnemonic
  imports Platform Word_List Bit_Buffer
begin

text \<open>
  \<open>pkg/mnemonic\<close>: the root seed of an account as a phrase of 24 words, and back. The seed and
  the first byte of its hash are 264 bits, read eleven at a time as indexes into the word list.
\<close>

section \<open>Phrases\<close>

datatype mnemonic_error = ErrSeedSize | ErrWordCount | ErrUnknownWord string | ErrChecksum

abbreviation (input) SeedSize :: nat where
  "SeedSize \<equiv> 32"

abbreviation (input) WordCount :: nat where
  "WordCount \<equiv> 24"

abbreviation (input) bitsPerWord :: nat where
  "bitsPerWord \<equiv> 11"

text \<open>The map filled at start-up: of equal words the last one would count.\<close>

definition wordIndex :: "string \<Rightarrow> nat option" where
  "wordIndex w = map_of (rev (zip wordList [0..<length wordList])) w"

definition mnemonic_Encode :: "platform \<Rightarrow> bytes \<Rightarrow> mnemonic_error + string list" where
  "mnemonic_Encode P seed =
     (if length seed \<noteq> SeedSize then Inl ErrSeedSize
      else let buf = seed @ [hd (sha256 P seed)]
        in Inr (map (\<lambda>i. wordList ! readBits buf (i * bitsPerWord) bitsPerWord) [0..<WordCount]))"

fun join_words :: "string list \<Rightarrow> string" where
  "join_words [] = []"
| "join_words [w] = w"
| "join_words (w # ws) = w @ CHR '' '' # join_words ws"

definition mnemonic_EncodeString :: "platform \<Rightarrow> bytes \<Rightarrow> mnemonic_error + string" where
  "mnemonic_EncodeString P seed = (case mnemonic_Encode P seed of Inl e \<Rightarrow> Inl e | Inr words \<Rightarrow> Inr (join_words words))"

definition canonical_word :: "platform \<Rightarrow> string \<Rightarrow> string" where
  "canonical_word P w = string_lower P (trim_space w)"

fun decode_words :: "platform \<Rightarrow> nat \<Rightarrow> bytes \<Rightarrow> string list \<Rightarrow> mnemonic_error + bytes" where
  "decode_words P i buf [] = Inr buf"
| "decode_words P i buf (w # ws) = (case wordIndex (canonical_word P w) of
     None \<Rightarrow> Inl (ErrUnknownWord w)
   | Some idx \<Rightarrow> decode_words P (Suc i) (writeBits buf (i * bitsPerWord) bitsPerWord idx) ws)"

definition mnemonic_Decode :: "platform \<Rightarrow> string list \<Rightarrow> mnemonic_error + bytes" where
  "mnemonic_Decode P words =
     (if length words \<noteq> WordCount then Inl ErrWordCount
      else case decode_words P 0 (replicate (SeedSize + 1) (CHR 0x00)) words of Inl e \<Rightarrow> Inl e
      | Inr buf \<Rightarrow> let seed = take SeedSize buf in
          if buf ! SeedSize \<noteq> hd (sha256 P seed) then Inl ErrChecksum else Inr seed)"

definition ValidWord :: "platform \<Rightarrow> string \<Rightarrow> bool" where
  "ValidWord P w \<longleftrightarrow> wordIndex (canonical_word P w) \<noteq> None"

text \<open>
  \<open>strings.Fields\<close>: the maximal runs of bytes at which no white-space rune begins.
\<close>

fun span_word :: "string \<Rightarrow> string \<times> string" where
  "span_word [] = ([], [])"
| "span_word (c # cs) = (if leading_code space_codes (c # cs) \<noteq> None then ([], c # cs)
     else (c # fst (span_word cs), snd (span_word cs)))"

lemma span_word_length: "length (snd (span_word s)) \<le> length s"
  by (induction s) auto

function string_fields :: "string \<Rightarrow> string list" where
  "string_fields s = (case trim_front space_codes s of [] \<Rightarrow> []
     | c # cs \<Rightarrow> (c # fst (span_word cs)) # string_fields (snd (span_word cs)))"
  by pat_completeness auto
termination
proof (relation "measure length")
  fix s c cs
  assume "trim_front space_codes s = c # cs"
  then have "length (c # cs) \<le> length s" using trim_front_length by metis
  then show "(snd (span_word cs), s) \<in> measure length" using span_word_length [of cs] by simp
qed simp

declare string_fields.simps [simp del]

definition mnemonic_DecodeString :: "platform \<Rightarrow> string \<Rightarrow> mnemonic_error + bytes" where
  "mnemonic_DecodeString P phrase = mnemonic_Decode P (string_fields phrase)"

section \<open>The words of a phrase\<close>

lemma wordIndex_nth: "i < 2048 \<Longrightarrow> wordIndex (wordList ! i) = Some i"
proof -
  assume i: "i < 2048"
  have "distinct (map fst (rev (zip wordList [0..<2048])))" by (simp add: rev_map [symmetric] wordList_length wordList_distinct)
  moreover have "(wordList ! i, i) \<in> set (rev (zip wordList [0..<2048]))"
    using i by (auto simp: in_set_zip wordList_length intro!: exI [of _ i])
  ultimately show ?thesis by (simp add: wordIndex_def wordList_length map_of_is_SomeI)
qed

lemma wordIndex_Some: "wordIndex w = Some i \<Longrightarrow> i < 2048 \<and> wordList ! i = w"
  unfolding wordIndex_def wordList_length by (drule map_of_SomeD) (auto simp: set_zip wordList_length)

lemma word_graphic: "w \<in> set wordList \<Longrightarrow> c \<in> set w \<Longrightarrow> graphic c \<and> ascii_lower c = c"
  using wordList_letters [of w] by (force simp: list_all_iff lower_letter_def graphic_def ascii_lower_def Let_def)

lemma canonical_listed: "w \<in> set wordList \<Longrightarrow> canonical_word P w = w"
proof -
  assume w: "w \<in> set wordList"
  have "trim_space w = w" by (rule trim_space_graphic) (use word_graphic [OF w] in blast)
  moreover have "ascii w" using word_graphic [OF w] by (auto simp: ascii_def graphic_def)
  moreover have "map ascii_lower w = w" using word_graphic [OF w] by (intro map_idI) blast
  ultimately show ?thesis by (simp add: canonical_word_def string_lower_ascii)
qed

lemma listed_valid: "w \<in> set wordList \<Longrightarrow> ValidWord P w"
  using wordIndex_nth by (auto simp: ValidWord_def canonical_listed in_set_conv_nth wordList_length)

definition index_of :: "platform \<Rightarrow> string \<Rightarrow> nat" where
  "index_of P w = the (wordIndex (canonical_word P w))"

lemma decode_words_Inr:
  assumes "length buf = 33" "i + length ws \<le> 24"
  shows "decode_words P i buf ws = Inr buf' \<longrightarrow> list_all (ValidWord P) ws \<and> length buf' = 33
    \<and> (\<forall>q. bit_at buf' q \<longleftrightarrow> bit_at buf q \<or> (i * 11 \<le> q \<and> q < (i + length ws) * 11 \<and> bit (index_of P (ws ! (q div 11 - i))) (10 - q mod 11)))"
  using assms
proof (induction ws arbitrary: i buf)
  case (Cons w ws)
  show ?case
  proof
    assume d: "decode_words P i buf (w # ws) = Inr buf'"
    then obtain k where k: "wordIndex (canonical_word P w) = Some k" "decode_words P (Suc i) (writeBits buf (i * 11) 11 k) ws = Inr buf'"
      by (auto split: option.splits)
    let ?b = "writeBits buf (i * 11) 11 k"
    have fits: "i * 11 + 11 \<le> 8 * length buf" "length ?b = 33" "Suc i + length ws \<le> 24" using Cons.prems by simp_all
    have index: "index_of P w = k" by (simp add: index_of_def k)
    have here: "bit_at ?b q \<longleftrightarrow> bit_at buf q \<or> (q div 11 = i \<and> bit k (10 - q mod 11))" for q
    proof -
      have "i * 11 \<le> q \<and> q < i * 11 + 11 \<longleftrightarrow> q div 11 = i" by (auto simp: div_nat_eqI dividend_less_times_div)
      moreover have "q - i * 11 = q mod 11" if "q div 11 = i" using that by (metis minus_div_mult_eq_mod)
      ultimately show ?thesis using bit_writeBits [OF fits(1), of k q] by auto
    qed
    have "bit_at buf' q \<longleftrightarrow> bit_at buf q \<or> (i * 11 \<le> q \<and> q < (i + length (w # ws)) * 11 \<and> bit (index_of P ((w # ws) ! (q div 11 - i))) (10 - q mod 11))" for q
    proof -
      have "bit_at buf' q \<longleftrightarrow> bit_at ?b q \<or> (Suc i * 11 \<le> q \<and> q < (Suc i + length ws) * 11 \<and> bit (index_of P (ws ! (q div 11 - Suc i))) (10 - q mod 11))"
        using Cons.IH [OF fits(2,3)] k(2) by blast
      moreover have "i * 11 \<le> q \<longleftrightarrow> i \<le> q div 11" "q < (i + length (w # ws)) * 11 \<longleftrightarrow> q div 11 < i + length (w # ws)"
        "Suc i * 11 \<le> q \<longleftrightarrow> Suc i \<le> q div 11" "q < (Suc i + length ws) * 11 \<longleftrightarrow> q div 11 < Suc i + length ws"
        by (simp_all only: less_eq_div_iff_mult_less_eq div_less_iff_less_mult zero_less_numeral)
      moreover have "(w # ws) ! (q div 11 - i) = ws ! (q div 11 - Suc i)" if "Suc i \<le> q div 11"
        using that by (simp add: nth_Cons')
      ultimately show ?thesis unfolding here by (cases "q div 11 = i") (auto simp: index)
    qed
    moreover have "ValidWord P w" by (simp add: ValidWord_def k)
    ultimately show "list_all (ValidWord P) (w # ws) \<and> length buf' = 33 \<and> (\<forall>q. bit_at buf' q
        \<longleftrightarrow> bit_at buf q \<or> (i * 11 \<le> q \<and> q < (i + length (w # ws)) * 11 \<and> bit (index_of P ((w # ws) ! (q div 11 - i))) (10 - q mod 11)))"
      using Cons.IH [OF fits(2,3)] k(2) by auto
  qed
qed auto

lemma decode_words_total:
  "list_all (ValidWord P) ws \<Longrightarrow> \<exists>buf'. decode_words P i buf ws = Inr buf'"
  by (induction ws arbitrary: i buf) (auto simp: ValidWord_def)

lemma decode_canonical:
  "set (map (canonical_word P) ws) \<subseteq> set wordList \<Longrightarrow> decode_words P i buf ws = decode_words P i buf (map (canonical_word P) ws)"
proof (induction ws arbitrary: i buf)
  case (Cons w ws)
  then have l: "canonical_word P w \<in> set wordList" by simp
  then obtain k where "wordIndex (canonical_word P w) = Some k" using listed_valid [OF l, of P] by (auto simp: ValidWord_def canonical_listed)
  with Cons l show ?case by (simp add: canonical_listed)
qed simp

lemma zero_bits: "q < 264 \<Longrightarrow> \<not> bit_at (replicate 33 (CHR 0x00)) q"
proof -
  assume "q < 264"
  then have "q div 8 < 33" by (simp add: div_less_iff_less_mult)
  then show ?thesis by (simp add: bit_at_def)
qed

text \<open>
  The buffer \<open>Decode\<close> fills: for 24 known words exactly the bits of their indexes.
\<close>

lemma decoded_buffer:
  assumes "length words = 24"
  shows "(\<exists>e. decode_words P 0 (replicate 33 (CHR 0x00)) words = Inl e) \<or> (\<exists>buf. decode_words P 0 (replicate 33 (CHR 0x00)) words = Inr buf
    \<and> list_all (ValidWord P) words \<and> length buf = 33 \<and> (\<forall>q < 264. bit_at buf q \<longleftrightarrow> bit (index_of P (words ! (q div 11))) (10 - q mod 11)))"
  using decode_words_Inr [of "replicate 33 (CHR 0x00)" 0 words P] assms zero_bits
  by (cases "decode_words P 0 (replicate 33 (CHR 0x00)) words") auto

section \<open>Round trips\<close>

lemma phrase_word:
  assumes "j < 24" "length seed = 32"
  shows "wordList ! readBits (seed @ [h]) (j * 11) 11 \<in> set wordList"
    "index_of P (wordList ! readBits (seed @ [h]) (j * 11) 11) = readBits (seed @ [h]) (j * 11) 11"
proof -
  have i: "readBits (seed @ [h]) (j * 11) 11 < 2048" using readBits_less [of "seed @ [h]" "j * 11" 11] by simp
  then show l: "wordList ! readBits (seed @ [h]) (j * 11) 11 \<in> set wordList" by (simp add: wordList_length)
  show "index_of P (wordList ! readBits (seed @ [h]) (j * 11) 11) = readBits (seed @ [h]) (j * 11) 11"
    by (simp add: index_of_def canonical_listed [OF l] wordIndex_nth [OF i])
qed

lemma decode_encoded:
  assumes seed: "length seed = 32" and e: "mnemonic_Encode P seed = Inr words"
  shows "length words = 24 \<and> set words \<subseteq> set wordList \<and> mnemonic_Decode P words = Inr seed"
proof -
  let ?buf = "seed @ [hd (sha256 P seed)]"
  have words: "words = map (\<lambda>i. wordList ! readBits ?buf (i * 11) 11) [0..<24]"
    using e seed by (simp add: mnemonic_Encode_def Let_def)
  then have len: "length words = 24" and listed: "set words \<subseteq> set wordList" using phrase_word(1) [OF _ seed] by auto
  have "list_all (ValidWord P) words"
    using listed listed_valid by (auto simp: list_all_iff)
  then obtain buf where buf: "decode_words P 0 (replicate 33 (CHR 0x00)) words = Inr buf" "length buf = 33"
    "\<forall>q < 264. bit_at buf q \<longleftrightarrow> bit (index_of P (words ! (q div 11))) (10 - q mod 11)"
    using decoded_buffer [OF len, of P] decode_words_total [of P words 0 "replicate 33 (CHR 0x00)"] by fastforce
  have "buf = ?buf"
  proof (rule bytes_eqI)
    show "length buf = length ?buf" using buf(2) seed by simp
    fix q assume "q < 8 * length ?buf"
    then have q: "q < 264" "q div 11 < 24" using seed by (simp_all add: div_less_iff_less_mult)
    have "words ! (q div 11) = wordList ! readBits ?buf (q div 11 * 11) 11" using words q(2) by simp
    then have "bit_at buf q \<longleftrightarrow> bit (readBits ?buf (q div 11 * 11) 11) (10 - q mod 11)"
      using buf(3) q phrase_word(2) [OF q(2) seed] by simp
    also have "\<dots> \<longleftrightarrow> bit_at ?buf (q div 11 * 11 + q mod 11)"
      unfolding bit_readBits using mod_less_divisor [of 11 q] by (auto simp: diff_diff_right)
    finally show "bit_at buf q \<longleftrightarrow> bit_at ?buf q" by simp
  qed
  then show ?thesis using len listed buf(1) seed by (simp add: mnemonic_Decode_def Let_def nth_append)
qed

lemma encode_decoded:
  assumes d: "mnemonic_Decode P words = Inr seed"
  shows "length seed = 32 \<and> mnemonic_Encode P seed = Inr (map (canonical_word P) words)"
proof -
  have len: "length words = 24" using d by (auto simp: mnemonic_Decode_def split: if_splits)
  obtain buf where buf: "decode_words P 0 (replicate 33 (CHR 0x00)) words = Inr buf" "list_all (ValidWord P) words" "length buf = 33"
    "\<forall>q < 264. bit_at buf q \<longleftrightarrow> bit (index_of P (words ! (q div 11))) (10 - q mod 11)"
    using decoded_buffer [OF len, of P] d len by (auto simp: mnemonic_Decode_def)
  have seed: "seed = take 32 buf" "buf ! 32 = hd (sha256 P seed)"
    using d buf(1) len by (auto simp: mnemonic_Decode_def Let_def split: if_splits)
  have whole: "seed @ [hd (sha256 P seed)] = buf"
    using buf(3) seed take_Suc_conv_app_nth [of 32 buf] by simp
  have word: "wordList ! readBits buf (j * 11) 11 = canonical_word P (words ! j)" if j: "j < 24" for j
  proof -
    have "ValidWord P (words ! j)" using buf(2) j len by (simp add: list_all_length)
    then obtain k where k: "wordIndex (canonical_word P (words ! j)) = Some k" by (auto simp: ValidWord_def)
    have "readBits buf (j * 11) 11 = k"
    proof (rule readBits_eqI)
      show "k < 2 ^ 11" using wordIndex_Some [OF k] by simp
      fix b :: nat assume b: "b < 11"
      have "10 - b < 11" by simp
      then have q: "(j * 11 + (10 - b)) div 11 = j" "(j * 11 + (10 - b)) mod 11 = 10 - b" by (simp_all only: mod_mult_self3 mod_less div_mult_self3)
      have "j * 11 + (10 - b) < 264" using j by simp
      note q = q this
      show "bit k b \<longleftrightarrow> bit_at buf (j * 11 + (11 - 1 - b))"
        using buf(4) q b by (simp add: index_of_def k)
    qed
    then show ?thesis using wordIndex_Some [OF k] by simp
  qed
  have "map (\<lambda>i. wordList ! readBits buf (i * 11) 11) [0..<24] = map (canonical_word P) words"
    using word len by (intro nth_equalityI) simp_all
  moreover have "length seed = 32" using seed(1) buf(3) by simp
  ultimately show ?thesis by (simp add: mnemonic_Encode_def whole)
qed

section \<open>The phrase as one string\<close>

lemma not_leading: "graphic c \<Longrightarrow> leading_code space_codes (c # s) = None"
  unfolding leading_code_None_iff
proof
  fix e assume c: "graphic c" and e: "e \<in> set space_codes"
  show "e = [] \<or> \<not> starts_with e (c # s)" using space_codes_not_graphic [OF e] c by (cases e) auto
qed

lemma leading_space: "leading_code space_codes (CHR '' '' # s) \<noteq> None"
proof -
  have "char_of (32 :: nat) = CHR '' ''" by code_simp
  then have "encode_rune 32 = [CHR '' '']" by simp
  moreover have "encode_rune 32 \<in> set space_codes" by (simp add: space_codes_def space_runes_def)
  ultimately have "[CHR '' ''] \<in> set space_codes" by metis
  then show ?thesis unfolding leading_code_None_iff by force
qed

lemma trim_graphic: "graphic c \<Longrightarrow> trim_front space_codes (c # s) = c # s"
  by (simp add: trim_front_none not_leading)

lemma trim_one_space: "graphic c \<Longrightarrow> trim_front space_codes (CHR '' '' # c # s) = c # s"
proof -
  assume c: "graphic c"
  obtain e where e: "leading_code space_codes (CHR '' '' # c # s) = Some e" using leading_space by fastforce
  then have m: "e \<in> set space_codes" "e \<noteq> []" "starts_with e (CHR '' '' # c # s)" by (auto simp: leading_code_def find_Some_iff)
  obtain e' where "e = CHR '' '' # e'" "starts_with e' (c # s)" using m(2,3) by (cases e) auto
  moreover from this have "e' = []" using space_codes_not_graphic [OF m(1)] c by (cases e') auto
  ultimately show ?thesis using e trim_graphic [OF c] by (subst trim_front.simps) simp
qed

lemma span_graphic: "\<forall>c \<in> set w. graphic c \<Longrightarrow> span_word w = (w, []) \<and> span_word (w @ CHR '' '' # s) = (w, CHR '' '' # s)"
proof (induction w)
  case Nil
  then show ?case using leading_space [of s] by simp
next
  case (Cons c w)
  then show ?case by (simp add: not_leading)
qed

lemma fields_Nil: "string_fields [] = []"
proof -
  have "trim_front space_codes [] = []" using trim_front_length [of space_codes "[]"] by simp
  then show ?thesis by (subst string_fields.simps) simp
qed

lemma fields_join:
  assumes "list_all (\<lambda>w. w \<noteq> [] \<and> (\<forall>c \<in> set w. graphic c)) ws"
  shows "string_fields (join_words ws) = ws \<and> (ws \<noteq> [] \<longrightarrow> string_fields (CHR '' '' # join_words ws) = ws)"
  using assms
proof (induction ws rule: join_words.induct)
  case 1
  then show ?case by (simp add: fields_Nil)
next
  case (2 w)
  then obtain c cs where w: "w = c # cs" "graphic c" "\<forall>c \<in> set cs. graphic c" by (cases w) auto
  show ?case using w span_graphic [OF w(3)]
    by (auto simp: fields_Nil string_fields.simps [of "c # cs"] string_fields.simps [of "CHR '' '' # c # cs"] trim_graphic trim_one_space)
next
  case (3 w v ws)
  then obtain c cs where w: "w = c # cs" "graphic c" "\<forall>c \<in> set cs. graphic c" by (cases w) auto
  show ?case using w 3 span_graphic [OF w(3)]
    by (auto simp: string_fields.simps [of "c # cs @ s" for s] string_fields.simps [of "CHR '' '' # c # cs @ s" for s] trim_graphic trim_one_space)
qed

text \<open>
  C29: the recovery phrase of a root seed restores it and is the only one: every seed of 32 bytes has a
  phrase of 24 listed words, reading the words or the phrase written out gives the seed back, and any
  words that decode to a seed are, but for letter case and surrounding space, the phrase of that seed.
\<close>

theorem recovery_phrase_roundtrip:
  assumes "length seed = 32"
  shows "\<exists>words phrase. mnemonic_Encode P seed = Inr words \<and> length words = 24 \<and> set words \<subseteq> set wordList
    \<and> mnemonic_Decode P words = Inr seed
    \<and> mnemonic_EncodeString P seed = Inr phrase \<and> mnemonic_DecodeString P phrase = Inr seed
    \<and> (\<forall>words'. mnemonic_Decode P words' = Inr seed \<longleftrightarrow> map (canonical_word P) words' = words)"
proof -
  obtain words where e: "mnemonic_Encode P seed = Inr words" using assms by (simp add: mnemonic_Encode_def Let_def)
  have d: "length words = 24" "set words \<subseteq> set wordList" "mnemonic_Decode P words = Inr seed" using decode_encoded [OF assms e] by auto
  have "list_all (\<lambda>w. w \<noteq> [] \<and> (\<forall>c \<in> set w. graphic c)) words"
    using d(2) word_graphic wordList_letters by (auto simp: list_all_iff subset_iff)
  then have "mnemonic_DecodeString P (join_words words) = Inr seed" using fields_join d(3) by (simp add: mnemonic_DecodeString_def)
  moreover have "mnemonic_Decode P words' = Inr seed \<longleftrightarrow> map (canonical_word P) words' = words" for words'
  proof
    assume "mnemonic_Decode P words' = Inr seed"
    then show "map (canonical_word P) words' = words" using encode_decoded [of P words' seed] e by simp
  next
    assume w: "map (canonical_word P) words' = words"
    then have "length words' = 24" using d(1) by auto
    then show "mnemonic_Decode P words' = Inr seed"
      using d(1,3) decode_canonical [of P words'] d(2) w by (simp add: mnemonic_Decode_def)
  qed
  ultimately show ?thesis using e d by (simp add: mnemonic_EncodeString_def)
qed

theorem recovery_phrase_roundtrip_witness:
  "\<exists>words phrase. mnemonic_Encode sample_platform (pad 32 ''root'') = Inr words \<and> length words = 24
     \<and> mnemonic_EncodeString sample_platform (pad 32 ''root'') = Inr phrase \<and> mnemonic_DecodeString sample_platform phrase = Inr (pad 32 ''root'')"
  using recovery_phrase_roundtrip [of "pad 32 ''root''" sample_platform] by auto

end
