(* ===== verification/Attest.thy ===== *)
theory Attest
  imports Httpsig
begin

text \<open>
  \<open>pkg/attest\<close>: signed statements about a server (its domain, a tier, a display name, an
  advisory number of seats and a validity window), the token an operator configures and the reading
  of that token. \<open>internal/api/license.go\<close> decides from it whether the server counts as
  attested. A token that is accepted carries exactly the bytes that were signed.
\<close>

section \<open>Attestations\<close>

datatype attest_error =
    VersionUnsupported int | DomainLength nat | TierLength nat | SubjectLength nat | IssuerKeyLength nat
  | IssuerPrivLength nat | SigLength nat | IssuerNotTrusted | SigFailed
  | WrongDomain | NotYetValid | Expired
  | TokenEncoding | TokenTruncated string | TokenTrailing nat

abbreviation (input) Version1 :: int where
  "Version1 \<equiv> 1"

abbreviation (input) Version2 :: int where
  "Version2 \<equiv> 2"

definition attest_CurrentVersion :: int where
  "attest_CurrentVersion = Version2"

abbreviation (input) maxDomainLen :: nat where
  "maxDomainLen \<equiv> 65535"

abbreviation (input) maxTierLen :: nat where
  "maxTierLen \<equiv> 255"

abbreviation (input) maxSubjectLen :: nat where
  "maxSubjectLen \<equiv> 65535"

record Attestation =
  av_Version :: int
  av_Domain :: string
  av_Tier :: string
  av_Subject :: string
  av_Seats :: "32 word"
  av_IssuedAt :: time
  av_ExpiresAt :: time
  av_IssuerKey :: bytes
  av_Signature :: bytes

section \<open>The signed layout\<close>

definition writeUint32 :: "32 word \<Rightarrow> bytes" where
  "writeUint32 v = big_endian 4 (unat v)"

text \<open>\<open>uint64\<close> of a negative number of seconds is its value modulo \<open>2^64\<close>.\<close>

definition writeUnixSeconds :: "time \<Rightarrow> bytes" where
  "writeUnixSeconds t = big_endian 8 (nat (unix_seconds t mod 2 ^ 64))"

definition attest_signingBytes :: "Attestation \<Rightarrow> attest_error + bytes" where
  "attest_signingBytes a =
     (if av_Version a \<noteq> Version1 \<and> av_Version a \<noteq> Version2 then Inl (VersionUnsupported (av_Version a))
      else if av_Domain a = [] \<or> length (av_Domain a) > maxDomainLen then Inl (DomainLength (length (av_Domain a)))
      else if av_Tier a = [] \<or> length (av_Tier a) > maxTierLen then Inl (TierLength (length (av_Tier a)))
      else if length (av_Subject a) > maxSubjectLen then Inl (SubjectLength (length (av_Subject a)))
      else if length (av_IssuerKey a) \<noteq> public_key_size then Inl (IssuerKeyLength (length (av_IssuerKey a)))
      else Inr (char_of (nat (av_Version a)) # write_length_prefixed (av_Domain a) @ write_length_prefixed8 (av_Tier a)
        @ write_length_prefixed (av_Subject a) @ (if av_Version a \<ge> Version2 then writeUint32 (av_Seats a) else [])
        @ writeUnixSeconds (av_IssuedAt a) @ writeUnixSeconds (av_ExpiresAt a) @ av_IssuerKey a))"

section \<open>Signing, verifying and applying\<close>

definition attest_Sign ::
    "platform \<Rightarrow> string \<Rightarrow> string \<Rightarrow> string \<Rightarrow> 32 word \<Rightarrow> time \<Rightarrow> time \<Rightarrow> bytes \<Rightarrow> attest_error + Attestation" where
  "attest_Sign P domain tier subject seats issuedAt expiresAt issuerPriv =
     (if length issuerPriv \<noteq> 64 then Inl (IssuerPrivLength (length issuerPriv))
      else let a = \<lparr>av_Version = attest_CurrentVersion, av_Domain = string_lower P (trim_space domain), av_Tier = tier, av_Subject = subject,
                av_Seats = seats, av_IssuedAt = issuedAt, av_ExpiresAt = expiresAt,
                av_IssuerKey = ed25519_public P issuerPriv, av_Signature = []\<rparr>
        in case attest_signingBytes a of Inl e \<Rightarrow> Inl e
         | Inr buf \<Rightarrow> Inr (a\<lparr>av_Signature := ed25519_sign P issuerPriv buf\<rparr>))"

definition attest_Verify :: "platform \<Rightarrow> bytes list \<Rightarrow> Attestation \<Rightarrow> attest_error + unit" where
  "attest_Verify P trustedIssuers a =
     (case attest_signingBytes a of Inl e \<Rightarrow> Inl e
      | Inr buf \<Rightarrow>
          if length (av_Signature a) \<noteq> signature_size then Inl (SigLength (length (av_Signature a)))
          else if \<not> list_ex (\<lambda>k. k = av_IssuerKey a) trustedIssuers then Inl IssuerNotTrusted
          else if \<not> ed25519_verify P (av_IssuerKey a) buf (av_Signature a) then Inl SigFailed
          else Inr ())"

definition attest_Valid :: "platform \<Rightarrow> Attestation \<Rightarrow> string \<Rightarrow> time \<Rightarrow> attest_error + unit" where
  "attest_Valid P a domain now =
     (if \<not> equal_fold P (av_Domain a) (trim_space domain) then Inl WrongDomain
      else if now < av_IssuedAt a then Inl NotYetValid
      else if \<not> now < av_ExpiresAt a then Inl Expired
      else Inr ())"

section \<open>The token\<close>

definition attest_Encode :: "Attestation \<Rightarrow> attest_error + string" where
  "attest_Encode a =
     (case attest_signingBytes a of Inl e \<Rightarrow> Inl e
      | Inr body \<Rightarrow> if length (av_Signature a) \<noteq> signature_size then Inl (SigLength (length (av_Signature a)))
          else Inr (b64_encode True False (body @ av_Signature a)))"

text \<open>
  A reader is the bytes that are left. \<open>io.ReadFull\<close> fails unless all bytes are there; the caller
  names the field in its error.
\<close>

definition read_full :: "nat \<Rightarrow> bytes \<Rightarrow> (bytes \<times> bytes) option" where
  "read_full n r = (if length r < n then None else Some (take n r, drop n r))"

definition readUint32 :: "bytes \<Rightarrow> (32 word \<times> bytes) option" where
  "readUint32 r = map_option (\<lambda>(b, r'). (word_of_nat (from_big_endian b), r')) (read_full 4 r)"

abbreviation (input) unixToInternal :: int where
  "unixToInternal \<equiv> 62135596800"

definition readUnixSeconds :: "bytes \<Rightarrow> (time \<times> bytes) option" where
  "readUnixSeconds r = map_option (\<lambda>(b, r'). (unix_time (wrap64 (int (from_big_endian b))), r')) (read_full 8 r)"

definition readLenPrefixed16 :: "bytes \<Rightarrow> (bytes \<times> bytes) option" where
  "readLenPrefixed16 r = (case read_full 2 r of None \<Rightarrow> None | Some (b, r') \<Rightarrow> read_full (from_big_endian b) r')"

definition readLenPrefixed8 :: "bytes \<Rightarrow> (bytes \<times> bytes) option" where
  "readLenPrefixed8 r = (case r of [] \<Rightarrow> None | n # r' \<Rightarrow> read_full (of_char n) r')"

definition or_truncated :: "string \<Rightarrow> ('a \<times> bytes) option \<Rightarrow> ('a \<Rightarrow> bytes \<Rightarrow> attest_error + 'b) \<Rightarrow> attest_error + 'b" where
  "or_truncated what x k = (case x of None \<Rightarrow> Inl (TokenTruncated what) | Some (v, r) \<Rightarrow> k v r)"

definition decode_fields :: "nat \<Rightarrow> bytes \<Rightarrow> attest_error + Attestation" where
  "decode_fields version r =
     or_truncated ''domain'' (readLenPrefixed16 r) (\<lambda>domain r.
     or_truncated ''tier'' (readLenPrefixed8 r) (\<lambda>tier r.
     or_truncated ''subject'' (readLenPrefixed16 r) (\<lambda>subject r.
     or_truncated ''seats'' (if int version \<ge> Version2 then readUint32 r else Some (0, r)) (\<lambda>seats r.
     or_truncated ''issued_at'' (readUnixSeconds r) (\<lambda>issuedAt r.
     or_truncated ''expires_at'' (readUnixSeconds r) (\<lambda>expiresAt r.
     or_truncated ''issuer_key'' (read_full public_key_size r) (\<lambda>issuerKey r.
     or_truncated ''signature'' (read_full signature_size r) (\<lambda>sig r.
     if r \<noteq> [] then Inl (TokenTrailing (length r))
     else Inr \<lparr>av_Version = int version, av_Domain = domain, av_Tier = tier, av_Subject = subject, av_Seats = seats,
            av_IssuedAt = issuedAt, av_ExpiresAt = expiresAt, av_IssuerKey = issuerKey, av_Signature = sig\<rparr>))))))))"

definition attest_Decode :: "string \<Rightarrow> attest_error + Attestation" where
  "attest_Decode token =
     (case b64_decode True False (trim_space token) of None \<Rightarrow> Inl TokenEncoding
      | Some [] \<Rightarrow> Inl (TokenTruncated ''version'')
      | Some (v # r) \<Rightarrow> let version = (of_char v :: nat) in
          if int version \<noteq> Version1 \<and> int version \<noteq> Version2 then Inl (VersionUnsupported (int version))
          else decode_fields version r)"

section \<open>The keys this build trusts\<close>

definition mustDecodeIssuerKey :: "string \<Rightarrow> bytes option" where
  "mustDecodeIssuerKey b64 = (case base64_decode b64 of None \<Rightarrow> None
     | Some key \<Rightarrow> if length key \<noteq> public_key_size then None else Some key)"

text \<open>The key \<open>None\<close> is the panic at start-up; \<open>trusted_issuers_decode\<close> shows that it does not happen.\<close>

definition TrustedIssuers :: "bytes option list" where
  "TrustedIssuers = map mustDecodeIssuerKey
     [''3DtD9hnvC14H1eelBgr4jITrN8HqPHZzGQxJfpEVUOc='', ''QnjvdpMp7420B1xN9+G/Ej2wpZ7zH+t4bVOHk+Vg96s='',
      ''i6d2Umn7X8uQIynzdspuMW2M8++E7vkU4A+tWqsY+zU='', ''wKhG/0jcNmFoHLld0nTTeO7Nm+y3GqW0ofC6TTF6j2E='',
      ''GR7iWl1naQcxxzGgvYHehxOFX8JM1FbFURdl9WKg3Zw='']"

lemma trusted_issuers_decode: "list_all (\<lambda>k. k \<noteq> None) TrustedIssuers"
  unfolding TrustedIssuers_def mustDecodeIssuerKey_def
  by (simp add: b64_decode_def b64_val_def b64_bytes1_def b64_bytes2_def b64_bytes3_def)

section \<open>Fields that read back\<close>

text \<open>
  A field of the token: what is written is read back and leaves the rest, and whatever is read was
  written that way. Both directions of the round trip, and that a layout of such fields is
  unambiguous, follow from these two laws.
\<close>

locale wire_field =
  fixes wr :: "'a \<Rightarrow> bytes" and rd :: "bytes \<Rightarrow> ('a \<times> bytes) option" and ok :: "'a \<Rightarrow> bool"
  assumes rd_wr: "ok x \<Longrightarrow> rd (wr x @ r) = Some (x, r)"
    and wr_rd: "rd b = Some (x, r) \<Longrightarrow> ok x \<and> b = wr x @ r"
begin

lemma field_read: "ok x \<Longrightarrow> or_truncated what (rd (wr x @ r)) k = k x r"
  by (simp add: or_truncated_def rd_wr)

lemma field_Inr: "or_truncated what (rd b) k = Inr y \<longleftrightarrow> (\<exists>x r. ok x \<and> b = wr x @ r \<and> k x r = Inr y)"
proof
  assume "or_truncated what (rd b) k = Inr y"
  then obtain x r where "rd b = Some (x, r)" "k x r = Inr y" by (auto simp: or_truncated_def split: option.splits)
  then show "\<exists>x r. ok x \<and> b = wr x @ r \<and> k x r = Inr y" using wr_rd by blast
qed (auto simp: or_truncated_def rd_wr)

end

sublocale wire_field \<subseteq> prefix_code wr ok
proof
  fix x y r s
  assume "ok x" "ok y" "wr x @ r = wr y @ s"
  then have "Some (x, r) = Some (y, s)" using rd_wr by metis
  then show "x = y \<and> r = s" by simp
qed

lemma read_full_append [simp]: "length b = n \<Longrightarrow> read_full n (b @ r) = Some (b, r)"
  by (simp add: read_full_def)

lemma read_full_Some: "read_full n b = Some (x, r) \<longleftrightarrow> length x = n \<and> b = x @ r"
  by (auto simp: read_full_def)

interpretation fixed: wire_field "\<lambda>b. b" "read_full n" "\<lambda>b. length b = n"
  by unfold_locales (auto simp: read_full_Some)

lemma from_big_endian_back: "length b = k \<Longrightarrow> from_big_endian b < 256 ^ k \<and> big_endian k (from_big_endian b) = b"
proof (induction k arbitrary: b)
  case 0
  then show ?case by (simp add: from_big_endian_def)
next
  case (Suc k)
  then obtain xs c where b: "b = xs @ [c]" "length xs = k" by (metis length_Suc_conv_rev)
  then have v: "from_big_endian b = from_big_endian xs * 256 + of_char c" by (simp add: from_big_endian_def)
  have c: "(of_char c :: nat) < 256" by simp
  have xs: "from_big_endian xs + 1 \<le> 256 ^ k" "big_endian k (from_big_endian xs) = xs" using Suc.IH [OF b(2)] by auto
  then have "(from_big_endian xs + 1) * 256 \<le> 256 ^ Suc k" by simp
  moreover have "from_big_endian b < (from_big_endian xs + 1) * 256" using c v by simp
  ultimately have "from_big_endian b < 256 ^ Suc k" by (rule less_le_trans [rotated])
  then show ?case using c v b xs(2) by (auto simp: mult.commute)
qed

interpretation field16: wire_field write_length_prefixed readLenPrefixed16 "\<lambda>d. length d < 65536"
proof
  show "readLenPrefixed16 (write_length_prefixed x @ r) = Some (x, r)" if "length x < 65536" for x r
    using that by (simp add: readLenPrefixed16_def write_length_prefixed_def from_big_endian_mod)
  show "length x < 65536 \<and> b = write_length_prefixed x @ r" if rd: "readLenPrefixed16 b = Some (x, r)" for b x r
  proof -
    obtain h where h: "length h = 2" "length x = from_big_endian h" "b = h @ x @ r"
      using rd by (auto simp: readLenPrefixed16_def read_full_Some split: option.splits)
    then show ?thesis using from_big_endian_back [OF h(1)] by (simp add: write_length_prefixed_def)
  qed
qed

interpretation field8: wire_field write_length_prefixed8 readLenPrefixed8 "\<lambda>d. length d < 256"
proof
  have one: "big_endian 1 n = [char_of (n mod 256)]" for n by simp
  show "readLenPrefixed8 (write_length_prefixed8 x @ r) = Some (x, r)" if "length x < 256" for x r
    unfolding readLenPrefixed8_def write_length_prefixed8_def one using that by (simp add: of_char_of)
  show "length x < 256 \<and> b = write_length_prefixed8 x @ r" if r: "readLenPrefixed8 b = Some (x, r)" for b x r
  proof -
    obtain c where c: "length x = of_char c" "b = c # x @ r"
      using r by (auto simp: readLenPrefixed8_def read_full_Some split: list.splits)
    have "(of_char c :: nat) < 256" by simp
    with c show ?thesis unfolding write_length_prefixed8_def one by simp
  qed
qed

interpretation field_seats: wire_field "\<lambda>v. if int version \<ge> 2 then writeUint32 v else []" "\<lambda>r. if int version \<ge> 2 then readUint32 r else Some (0, r)"
    "\<lambda>v. int version \<ge> 2 \<or> v = 0" for version
proof
  have seats_back: "writeUint32 (word_of_nat (from_big_endian b)) = b" if "length b = 4" for b
    using from_big_endian_back [OF that] by (simp add: writeUint32_def unat_of_nat)
  show "(if int version \<ge> 2 then readUint32 ((if int version \<ge> 2 then writeUint32 x else []) @ r) else Some (0, (if int version \<ge> 2 then writeUint32 x else []) @ r))
      = Some (x, r)" if "int version \<ge> 2 \<or> x = 0" for x r
    using that unat_less_word [of x] by (auto simp: readUint32_def writeUint32_def from_big_endian_mod)
  show "(int version \<ge> 2 \<or> x = 0) \<and> b = (if int version \<ge> 2 then writeUint32 x else []) @ r"
    if "(if int version \<ge> 2 then readUint32 b else Some (0, b)) = Some (x, r)" for b x r
    using that by (auto simp: readUint32_def read_full_Some seats_back split: if_splits)
qed

text \<open>The instants a \<open>time.Time\<close> can hold, whole seconds.\<close>

definition go_time :: "time \<Rightarrow> bool" where
  "go_time t \<longleftrightarrow> - (2 ^ 63) \<le> unix_seconds t + unixToInternal \<and> unix_seconds t + unixToInternal < 2 ^ 63"

lemma wrap64_mod: "wrap64 n mod 2 ^ 64 = n mod 2 ^ 64"
  unfolding wrap64_def by (metis add_diff_cancel_right' mod_diff_left_eq)

lemma wrap64_range: "- (2 ^ 63) \<le> wrap64 n \<and> wrap64 n < 2 ^ 63"
  using pos_mod_bound [of "2 ^ 64" "n + 2 ^ 63"] by (simp add: wrap64_def)

lemma wrap64_cong: "m mod 2 ^ 64 = n mod 2 ^ 64 \<Longrightarrow> wrap64 m = wrap64 n"
  unfolding wrap64_def by (metis mod_add_left_eq)

lemma time_Unix_back: "whole_second t \<Longrightarrow> go_time t \<Longrightarrow> n mod 2 ^ 64 = unix_seconds t mod 2 ^ 64 \<Longrightarrow> unix_time n = t"
proof -
  assume t: "whole_second t" "go_time t" and n: "n mod 2 ^ 64 = unix_seconds t mod 2 ^ 64"
  have "wrap64 (n + unixToInternal) = wrap64 (unix_seconds t + unixToInternal)"
    by (rule wrap64_cong) (metis n mod_add_left_eq)
  also have "\<dots> = unix_seconds t + unixToInternal" using t(2) by (intro wrap64_id) (auto simp: go_time_def)
  finally show ?thesis using whole_second_unix [OF t(1)] by (simp add: unix_time_def)
qed

lemma time_Unix_ok: "whole_second (unix_time n)" "go_time (unix_time n)" "unix_seconds (unix_time n) mod 2 ^ 64 = n mod 2 ^ 64"
proof -
  have u: "unix_seconds (unix_time n) = wrap64 (n + unixToInternal) - unixToInternal" by (simp add: unix_seconds_def unix_time_def second_def)
  show "whole_second (unix_time n)" by (simp add: whole_second_def unix_time_def)
  show "go_time (unix_time n)" using wrap64_range [of "n + unixToInternal"] by (simp add: go_time_def u)
  show "unix_seconds (unix_time n) mod 2 ^ 64 = n mod 2 ^ 64"
    unfolding u by (metis wrap64_mod mod_diff_left_eq add_diff_cancel_right')
qed

interpretation field_time: wire_field writeUnixSeconds readUnixSeconds "\<lambda>t. whole_second t \<and> go_time t"
proof
  have lt: "nat (m mod 2 ^ 64) < 256 ^ 8" for m :: int
    using pos_mod_bound [of "2 ^ 64" m] by (simp add: nat_less_iff)
  show "readUnixSeconds (writeUnixSeconds x @ r) = Some (x, r)" if "whole_second x \<and> go_time x" for x r
  proof -
    have "unix_time (wrap64 (unix_seconds x mod 2 ^ 64)) = x"
      using that by (intro time_Unix_back) (simp_all only: wrap64_mod mod_mod_trivial)
    then show ?thesis using from_big_endian_inverse [OF lt [of "unix_seconds x"]] by (simp add: readUnixSeconds_def writeUnixSeconds_def)
  qed
  show "(whole_second x \<and> go_time x) \<and> b = writeUnixSeconds x @ r" if rd: "readUnixSeconds b = Some (x, r)" for b x r
  proof -
    obtain h where h: "length h = 8" "b = h @ r" "x = unix_time (wrap64 (int (from_big_endian h)))"
      using rd by (auto simp: readUnixSeconds_def read_full_Some)
    have "unix_seconds x mod 2 ^ 64 = int (from_big_endian h)"
      using from_big_endian_back [OF h(1)] unfolding h(3) time_Unix_ok(3) wrap64_mod by simp
    then have "writeUnixSeconds x = h" using from_big_endian_back [OF h(1)] by (simp add: writeUnixSeconds_def)
    then show ?thesis using h time_Unix_ok by simp
  qed
qed

section \<open>What a token says\<close>

definition statement_bytes :: "Attestation \<Rightarrow> bytes" where
  "statement_bytes a = write_length_prefixed (av_Domain a) @ write_length_prefixed8 (av_Tier a)
     @ write_length_prefixed (av_Subject a) @ (if av_Version a \<ge> Version2 then writeUint32 (av_Seats a) else [])
     @ writeUnixSeconds (av_IssuedAt a) @ writeUnixSeconds (av_ExpiresAt a) @ av_IssuerKey a"

definition token_shaped :: "Attestation \<Rightarrow> bool" where
  "token_shaped a \<longleftrightarrow> (av_Version a = Version1 \<or> av_Version a = Version2)
     \<and> length (av_Domain a) < 65536 \<and> length (av_Tier a) < 256 \<and> length (av_Subject a) < 65536
     \<and> (av_Version a \<ge> Version2 \<or> av_Seats a = 0)
     \<and> (whole_second (av_IssuedAt a) \<and> go_time (av_IssuedAt a)) \<and> (whole_second (av_ExpiresAt a) \<and> go_time (av_ExpiresAt a))
     \<and> length (av_IssuerKey a) = 32 \<and> length (av_Signature a) = 64"

lemmas field_reads = field16.field_Inr field8.field_Inr field_seats.field_Inr field_time.field_Inr fixed.field_Inr

lemma decode_fields_Inr:
  assumes "version = 1 \<or> version = 2"
  shows "decode_fields version r = Inr a \<longleftrightarrow> token_shaped a \<and> av_Version a = int version \<and> r = statement_bytes a @ av_Signature a"
proof
  assume "decode_fields version r = Inr a"
  then show "token_shaped a \<and> av_Version a = int version \<and> r = statement_bytes a @ av_Signature a"
    unfolding decode_fields_def field_reads using assms
    by (elim exE conjE) (auto simp: token_shaped_def statement_bytes_def split: if_splits)
next
  assume a: "token_shaped a \<and> av_Version a = int version \<and> r = statement_bytes a @ av_Signature a"
  then have seats: "int version \<ge> 2 \<or> av_Seats a = 0" by (auto simp: token_shaped_def)
  have key: "read_full 64 (av_Signature a) = Some (av_Signature a, [])" using a by (simp add: token_shaped_def read_full_def)
  from a show "decode_fields version r = Inr a"
    using field_seats.rd_wr [OF seats] assms
    by (auto simp: decode_fields_def statement_bytes_def token_shaped_def or_truncated_def field16.rd_wr field8.rd_wr field_time.rd_wr key)
qed

lemma attest_signingBytes_Inr:
  "attest_signingBytes a = Inr buf \<longleftrightarrow> (av_Version a = Version1 \<or> av_Version a = Version2)
     \<and> av_Domain a \<noteq> [] \<and> length (av_Domain a) < 65536 \<and> av_Tier a \<noteq> [] \<and> length (av_Tier a) < 256 \<and> length (av_Subject a) < 65536
     \<and> length (av_IssuerKey a) = 32 \<and> buf = char_of (nat (av_Version a)) # statement_bytes a"
  by (auto simp: attest_signingBytes_def statement_bytes_def)

lemma attest_Decode_Inr:
  "attest_Decode token = Inr a \<longleftrightarrow> token_shaped a
     \<and> b64_decode True False (trim_space token) = Some (char_of (nat (av_Version a)) # statement_bytes a @ av_Signature a)"
proof
  assume d: "attest_Decode token = Inr a"
  then obtain v r where b: "b64_decode True False (trim_space token) = Some (v # r)" and v: "(of_char v :: nat) = 1 \<or> (of_char v :: nat) = 2"
    and f: "decode_fields (of_char v) r = Inr a"
    by (auto simp: attest_Decode_def Let_def split: option.splits list.splits if_splits)
  from decode_fields_Inr [OF v] f have "token_shaped a" "av_Version a = int (of_char v)" "r = statement_bytes a @ av_Signature a" by blast+
  with b show "token_shaped a \<and> b64_decode True False (trim_space token) = Some (char_of (nat (av_Version a)) # statement_bytes a @ av_Signature a)"
    by simp
next
  assume a: "token_shaped a \<and> b64_decode True False (trim_space token) = Some (char_of (nat (av_Version a)) # statement_bytes a @ av_Signature a)"
  then obtain v :: nat where v: "v = 1 \<or> v = 2" "av_Version a = int v" by (force simp: token_shaped_def)
  then have "decode_fields v (statement_bytes a @ av_Signature a) = Inr a" using decode_fields_Inr [OF v(1)] a by blast
  moreover have "(of_char (char_of v :: char) :: nat) = v" using v(1) by (auto simp: of_char_of)
  ultimately show "attest_Decode token = Inr a" using a v by (auto simp: attest_Decode_def Let_def)
qed

lemma statement_determined:
  assumes a: "token_shaped a" and b: "token_shaped b"
    and e: "(char_of (nat (av_Version a)) # statement_bytes a) @ r = (char_of (nat (av_Version b)) # statement_bytes b :: bytes) @ s"
  shows "b = a\<lparr>av_Signature := av_Signature b\<rparr> \<and> r = s"
proof -
  have v: "av_Version a = av_Version b"
  proof -
    have "(char_of (nat (av_Version a)) :: char) = char_of (nat (av_Version b))" using e by simp
    moreover have "nat (av_Version a) \<in> {1, 2}" "nat (av_Version b) \<in> {1, 2}" using a b by (auto simp: token_shaped_def)
    ultimately have "nat (av_Version a) = nat (av_Version b)" by auto
    then show ?thesis using a b by (auto simp: token_shaped_def)
  qed
  obtain n where n: "av_Version a = int n" using a by (force simp: token_shaped_def)
  note seats = field_seats.cancel_iff [of n "av_Seats a" "av_Seats b"]
  have "av_Domain a = av_Domain b \<and> av_Tier a = av_Tier b \<and> av_Subject a = av_Subject b \<and> av_Seats a = av_Seats b
    \<and> av_IssuedAt a = av_IssuedAt b \<and> av_ExpiresAt a = av_ExpiresAt b \<and> av_IssuerKey a = av_IssuerKey b \<and> r = s"
    using a b e v n seats
    by (simp add: statement_bytes_def token_shaped_def field16.cancel_iff lp8.cancel_iff field_time.cancel_iff del: append_eq_append_conv) auto
  then show ?thesis using v by simp
qed

text \<open>
  C14: a token that is accepted says exactly what a trusted issuer signed: its bytes are the signed
  statement followed by the signature, the signature verifies under a key of the trusted set over that
  statement, and every token carrying the same signed bytes reads as the same statement in every field.
\<close>

theorem attestation_genuine:
  assumes d: "attest_Decode token = Inr a" and v: "attest_Verify P trusted a = Inr ()"
  shows "\<exists>buf. attest_signingBytes a = Inr buf \<and> b64_decode True False (trim_space token) = Some (buf @ av_Signature a)
    \<and> av_IssuerKey a \<in> set trusted \<and> ed25519_verify P (av_IssuerKey a) buf (av_Signature a)
    \<and> (\<forall>token' b sig. b64_decode True False (trim_space token') = Some (buf @ sig) \<and> attest_Decode token' = Inr b \<longrightarrow> b = a\<lparr>av_Signature := sig\<rparr>)"
proof -
  obtain buf where buf: "attest_signingBytes a = Inr buf" "av_IssuerKey a \<in> set trusted" "ed25519_verify P (av_IssuerKey a) buf (av_Signature a)"
    using v by (auto simp: attest_Verify_def list_ex_iff split: sum.splits if_splits)
  then have b: "buf = char_of (nat (av_Version a)) # statement_bytes a" by (simp add: attest_signingBytes_Inr)
  have t: "token_shaped a" "b64_decode True False (trim_space token) = Some (buf @ av_Signature a)"
    using d by (simp_all add: attest_Decode_Inr b)
  have "c = a\<lparr>av_Signature := sig\<rparr>" if c: "b64_decode True False (trim_space token') = Some (buf @ sig)" "attest_Decode token' = Inr c" for token' c sig
  proof -
    have s: "token_shaped c" "buf @ sig = (char_of (nat (av_Version c)) # statement_bytes c) @ av_Signature c"
      using c by (auto simp: attest_Decode_Inr)
    from statement_determined [OF t(1) s(1) s(2) [unfolded b]] show ?thesis by simp
  qed
  then show ?thesis using buf t(2) by blast
qed

section \<open>Signing, encoding, decoding\<close>

lemma b64_char_graphic: "n < 64 \<Longrightarrow> graphic (b64_char url n)"
  by (auto simp: graphic_def b64_char_def of_char_of)

lemma b64_encode_graphic: "c \<in> set (b64_encode url False bs) \<Longrightarrow> graphic c"
  by (induction url False bs rule: b64_encode.induct) (auto simp: b64_two_def b64_three_def intro!: b64_char_graphic b64_six_bits)

lemma set_trim_front: "set (trim_front codes s) \<subseteq> set s"
  by (induction codes s rule: trim_front.induct) (subst trim_front.simps, fastforce split: option.splits dest: in_set_dropD)

lemma ascii_trim: "ascii s \<Longrightarrow> ascii (trim_space s)"
  using set_trim_front [of space_codes s] set_trim_front [of "map rev space_codes" "rev (trim_front space_codes s)"]
  by (force simp: ascii_def trim_space_def)

lemma equal_fold_lower:
  assumes "ascii s"
  shows "equal_fold P (string_lower P s) s"
proof -
  have "fold_rune P (of_char (ascii_lower c)) = fold_rune P (of_char c)" "(of_char (ascii_lower c) :: nat) < 128" if "c \<in> set s" for c
    using assms that by (auto simp: ascii_def ascii_lower_def fold_rune_def to_lower_def Let_def of_char_of)
  moreover from this have "ascii (map ascii_lower s)" by (auto simp: ascii_def)
  ultimately show ?thesis using assms by (simp add: equal_fold_def string_lower_ascii)
qed

lemma truncate_unix [simp]: "unix_seconds (truncate_second t) = unix_seconds t"
  by (simp add: unix_seconds_def truncate_second_def minus_mod_eq_mult_div)

lemma signed_token_reads:
  assumes P: "ed25519_correct P" and s: "attest_Sign P domain tier subject seats issuedAt expiresAt issuerPriv = Inr a"
    and t: "go_time issuedAt" "go_time expiresAt"
  shows "\<exists>token b. attest_Encode a = Inr token \<and> attest_Decode token = Inr b
    \<and> b = a\<lparr>av_IssuedAt := truncate_second issuedAt, av_ExpiresAt := truncate_second expiresAt\<rparr>
    \<and> av_Domain b = string_lower P (trim_space domain) \<and> av_IssuerKey b = ed25519_public P issuerPriv
    \<and> (\<forall>trusted. attest_Verify P trusted b = Inr () \<longleftrightarrow> ed25519_public P issuerPriv \<in> set trusted)"
proof -
  define a0 where "a0 = \<lparr>av_Version = attest_CurrentVersion, av_Domain = string_lower P (trim_space domain), av_Tier = tier, av_Subject = subject,
    av_Seats = seats, av_IssuedAt = issuedAt, av_ExpiresAt = expiresAt, av_IssuerKey = ed25519_public P issuerPriv, av_Signature = []\<rparr>"
  obtain buf where buf: "attest_signingBytes a0 = Inr buf" and a: "a = a0\<lparr>av_Signature := ed25519_sign P issuerPriv buf\<rparr>"
    using s by (auto simp: attest_Sign_def a0_def Let_def split: if_splits sum.splits)
  let ?b = "a\<lparr>av_IssuedAt := truncate_second issuedAt, av_ExpiresAt := truncate_second expiresAt\<rparr>"
  have same: "attest_signingBytes a = Inr buf" "attest_signingBytes ?b = Inr buf"
    using buf by (simp_all add: a attest_signingBytes_Inr statement_bytes_def writeUnixSeconds_def) (simp_all add: a0_def)
  have sig: "length (av_Signature a) = 64" "length (ed25519_public P issuerPriv) = 32"
    using P by (simp_all add: a ed25519_correct_def)
  have e: "attest_Encode a = Inr (b64_encode True False (buf @ av_Signature a))" by (simp add: attest_Encode_def same sig)
  have shaped: "token_shaped ?b"
    using same(2) t sig by (simp add: attest_signingBytes_Inr token_shaped_def) (simp add: a a0_def attest_CurrentVersion_def go_time_def)
  have "trim_space (b64_encode True False (buf @ av_Signature a)) = b64_encode True False (buf @ av_Signature a)"
    by (rule trim_space_graphic) (use b64_encode_graphic in blast)
  then have d: "attest_Decode (b64_encode True False (buf @ av_Signature a)) = Inr ?b"
    using shaped same(2) by (simp add: attest_Decode_Inr b64_decode_encode attest_signingBytes_Inr)
  have "attest_Verify P trusted ?b = Inr () \<longleftrightarrow> ed25519_public P issuerPriv \<in> set trusted" for trusted
    using P same(2) sig by (auto simp: attest_Verify_def list_ex_iff ed25519_correct_def) (simp_all add: a a0_def)
  moreover have "av_Domain ?b = string_lower P (trim_space domain)" "av_IssuerKey ?b = ed25519_public P issuerPriv" by (simp_all add: a a0_def)
  ultimately show ?thesis using e d by blast
qed

text \<open>
  signing, encoding and decoding an attestation gives it back with its times cut to whole seconds;
  what is decoded verifies exactly against the sets that hold the issuer's key, and applies to the domain
  it was signed for, in any letter case, exactly within its window.
\<close>

theorem attestation_roundtrip:
  assumes P: "ed25519_correct P" and s: "attest_Sign P domain tier subject seats issuedAt expiresAt issuerPriv = Inr a"
    and t: "go_time issuedAt" "go_time expiresAt"
  shows "\<exists>token b. attest_Encode a = Inr token \<and> attest_Decode token = Inr b
    \<and> b = a\<lparr>av_IssuedAt := truncate_second issuedAt, av_ExpiresAt := truncate_second expiresAt\<rparr>
    \<and> (\<forall>trusted. attest_Verify P trusted b = Inr () \<longleftrightarrow> ed25519_public P issuerPriv \<in> set trusted)
    \<and> (ascii domain \<longrightarrow> (\<forall>now. attest_Valid P b domain now = Inr () \<longleftrightarrow> truncate_second issuedAt \<le> now \<and> now < truncate_second expiresAt))"
proof -
  obtain token b where b: "attest_Encode a = Inr token" "attest_Decode token = Inr b"
      "b = a\<lparr>av_IssuedAt := truncate_second issuedAt, av_ExpiresAt := truncate_second expiresAt\<rparr>"
    and d: "av_Domain b = string_lower P (trim_space domain)"
    and v: "\<forall>trusted. attest_Verify P trusted b = Inr () \<longleftrightarrow> ed25519_public P issuerPriv \<in> set trusted"
    using signed_token_reads [OF assms] by blast
  have "attest_Valid P b domain now = Inr () \<longleftrightarrow> truncate_second issuedAt \<le> now \<and> now < truncate_second expiresAt" if "ascii domain" for now
    using equal_fold_lower [OF ascii_trim [OF that], of P] by (auto simp: attest_Valid_def d) (simp_all add: b(3))
  then show ?thesis using b v by blast
qed

section \<open>Witnesses\<close>

lemma sample_attestation:
  "\<exists>a. attest_Sign sample_platform ''Example.org'' ''community'' ''Example'' 50 0 (10 * second) (pad 64 ''issuer'') = Inr a \<and> av_IssuerKey a = pad 32 ''issuer''"
proof -
  have "trim_space ''Example.org'' = ''Example.org''" by (rule trim_space_graphic) (simp add: graphic_def)
  moreover have "string_lower sample_platform ''Example.org'' = ''example.org''"
    by (subst string_lower_ascii) (simp add: ascii_def, code_simp)
  ultimately show ?thesis
    by (simp add: attest_Sign_def attest_signingBytes_def attest_CurrentVersion_def sample_platform_def Let_def) (simp add: pad_def)
qed

lemma sample_window: "go_time 0" "go_time (10 * second)" "truncate_second 0 = 0"
  by (simp_all add: go_time_def unix_seconds_def truncate_second_def second_def)

theorem attestation_roundtrip_witness:
  "\<exists>a token b. attest_Sign sample_platform ''Example.org'' ''community'' ''Example'' 50 0 (10 * second) (pad 64 ''issuer'') = Inr a
     \<and> attest_Encode a = Inr token \<and> attest_Decode token = Inr b \<and> attest_Valid sample_platform b ''Example.org'' 1 = Inr ()"
proof -
  obtain a where a: "attest_Sign sample_platform ''Example.org'' ''community'' ''Example'' 50 0 (10 * second) (pad 64 ''issuer'') = Inr a"
    using sample_attestation by blast
  have "ascii ''Example.org''" "truncate_second (10 * second) = 10 * second" by (simp_all add: ascii_def truncate_second_def)
  with attestation_roundtrip [OF sample_platform_laws(2) a sample_window(1,2)] a sample_window(3) show ?thesis by (fastforce simp: second_def)
qed

theorem attestation_genuine_witness:
  "\<exists>token a buf. attest_Decode token = Inr a \<and> attest_Verify sample_platform [pad 32 ''issuer''] a = Inr ()
     \<and> attest_signingBytes a = Inr buf \<and> ed25519_verify sample_platform (pad 32 ''issuer'') buf (av_Signature a)"
proof -
  obtain a where a: "attest_Sign sample_platform ''Example.org'' ''community'' ''Example'' 50 0 (10 * second) (pad 64 ''issuer'') = Inr a"
    "av_IssuerKey a = pad 32 ''issuer''"
    using sample_attestation by blast
  obtain token b where b: "attest_Decode token = Inr b" "av_IssuerKey b = av_IssuerKey a"
    "attest_Verify sample_platform [ed25519_public sample_platform (pad 64 ''issuer'')] b = Inr ()"
    using signed_token_reads [OF sample_platform_laws(2) a(1) sample_window(1,2)] by fastforce
  have "ed25519_public sample_platform (pad 64 ''issuer'') = pad 32 ''issuer''" by (simp add: sample_platform_def) (simp add: pad_def)
  with attestation_genuine [OF b(1,3)] b a(2) show ?thesis by auto
qed

end
