(* ===== verification/Api_License.thy ===== *)
theory Api_License
  imports Attest Api_Accounts
begin

text \<open>
  \<open>internal/api/license.go\<close>: whether the server shows itself as attested to its admins, and
  whether it has more active accounts than the attested number of seats. The same decision is logged
  at start-up by \<open>checkAttestation\<close> in \<open>cmd/server\<close>.
\<close>

section \<open>The status\<close>

record licenseStatusResponse =
  ls_Attested :: bool
  ls_Tier :: string
  ls_Seats :: int
  ls_ExpiresAt :: string
  ls_ActiveAccounts :: nat
  ls_OverLimit :: bool

text \<open>
  The configured token and domain are arguments; a domain that is not configured is empty, and then
  neither the domain nor the window is checked.
\<close>

definition currentAttestation :: "platform \<Rightarrow> bytes list \<Rightarrow> string \<Rightarrow> string \<Rightarrow> time \<Rightarrow> Attestation option" where
  "currentAttestation P trusted token domain now =
     (if token = [] then None
      else case attest_Decode token of Inl _ \<Rightarrow> None
      | Inr a \<Rightarrow>
          if trusted = [] then None
          else if attest_Verify P trusted a \<noteq> Inr () then None
          else if domain = [] then Some a
          else if attest_Valid P a domain now \<noteq> Inr () then None
          else Some a)"

definition handleGetLicenseStatus ::
    "platform \<Rightarrow> bytes list \<Rightarrow> string \<Rightarrow> string \<Rightarrow> time \<Rightarrow> Identity \<Rightarrow> database \<Rightarrow> licenseStatusResponse option" where
  "handleGetLicenseStatus P trusted token domain now caller db =
     (if \<not> requireAdmin caller then None
      else let active = CountActiveAccounts db;
               resp = \<lparr>ls_Attested = False, ls_Tier = [], ls_Seats = 0, ls_ExpiresAt = [], ls_ActiveAccounts = active, ls_OverLimit = False\<rparr>
        in Some (case currentAttestation P trusted token domain now of None \<Rightarrow> resp
           | Some att \<Rightarrow> resp\<lparr>ls_Attested := True, ls_Tier := av_Tier att, ls_Seats := uint (av_Seats att),
               ls_ExpiresAt := rfc3339 (av_ExpiresAt att),
               ls_OverLimit := (av_Seats att > 0 \<and> (word_of_nat active :: 32 word) > av_Seats att)\<rparr>))"

section \<open>What the status shows\<close>

lemma currentAttestation_Some:
  "currentAttestation P trusted token domain now = Some a \<longleftrightarrow> token \<noteq> [] \<and> attest_Decode token = Inr a \<and> trusted \<noteq> []
     \<and> attest_Verify P trusted a = Inr () \<and> (domain = [] \<or> attest_Valid P a domain now = Inr ())"
  by (auto simp: currentAttestation_def split: sum.splits)

text \<open>
  An admin is shown the server as attested only for a token that a trusted issuer signed, and where the
  server knows its domain only for that domain and within the window; the seats count as exceeded exactly
  when there are more active accounts than a positive number of seats, below \<open>2^32\<close> accounts.
\<close>

theorem license_status_genuine:
  assumes h: "handleGetLicenseStatus P trusted token domain now caller db = Some resp" and n: "CountActiveAccounts db < 2 ^ 32"
  shows "id_Role caller = RoleAdmin \<and> ls_ActiveAccounts resp = CountActiveAccounts db
    \<and> (ls_OverLimit resp \<longrightarrow> ls_Attested resp \<and> 0 < ls_Seats resp \<and> ls_Seats resp < int (CountActiveAccounts db))
    \<and> (ls_Attested resp \<longrightarrow> (\<exists>a buf. attest_Decode token = Inr a \<and> attest_signingBytes a = Inr buf \<and> av_IssuerKey a \<in> set trusted
        \<and> ed25519_verify P (av_IssuerKey a) buf (av_Signature a) \<and> ls_Seats resp = uint (av_Seats a)
        \<and> (ls_OverLimit resp \<longleftrightarrow> 0 < uint (av_Seats a) \<and> uint (av_Seats a) < int (CountActiveAccounts db))
        \<and> (domain \<noteq> [] \<longrightarrow> equal_fold P (av_Domain a) (trim_space domain) \<and> av_IssuedAt a \<le> now \<and> now < av_ExpiresAt a)))"
proof -
  have u: "(word_of_nat (CountActiveAccounts db) :: 32 word) > s \<longleftrightarrow> uint s < int (CountActiveAccounts db)" for s :: "32 word"
  proof -
    have "unat (word_of_nat (CountActiveAccounts db) :: 32 word) = CountActiveAccounts db" using n by (simp add: unat_of_nat)
    then have "(word_of_nat (CountActiveAccounts db) :: 32 word) > s \<longleftrightarrow> unat s < CountActiveAccounts db" unfolding word_less_nat_alt by simp
    also have "\<dots> \<longleftrightarrow> uint s < int (CountActiveAccounts db)" unfolding uint_nat by (rule of_nat_less_iff [symmetric])
    finally show ?thesis .
  qed
  have pos: "(0 :: 32 word) < s \<longleftrightarrow> 0 < uint s" for s by (simp add: word_less_def)
  show ?thesis
  proof (cases "currentAttestation P trusted token domain now")
    case None
    then show ?thesis using h by (auto simp: handleGetLicenseStatus_def requireAdmin_def Let_def split: if_splits)
  next
    case (Some a)
    then have a: "attest_Decode token = Inr a" "attest_Verify P trusted a = Inr ()" "domain = [] \<or> attest_Valid P a domain now = Inr ()"
      by (auto simp: currentAttestation_Some)
    then obtain buf where "attest_signingBytes a = Inr buf" "av_IssuerKey a \<in> set trusted" "ed25519_verify P (av_IssuerKey a) buf (av_Signature a)"
      by (auto simp: attest_Verify_def list_ex_iff split: sum.splits if_splits)
    moreover have "domain \<noteq> [] \<longrightarrow> equal_fold P (av_Domain a) (trim_space domain) \<and> av_IssuedAt a \<le> now \<and> now < av_ExpiresAt a"
      using a(3) by (auto simp: attest_Valid_def split: if_splits)
    moreover have "id_Role caller = RoleAdmin" "ls_ActiveAccounts resp = CountActiveAccounts db" "ls_Seats resp = uint (av_Seats a)" "ls_Attested resp"
      "ls_OverLimit resp \<longleftrightarrow> 0 < uint (av_Seats a) \<and> uint (av_Seats a) < int (CountActiveAccounts db)"
      using h Some by (auto simp: handleGetLicenseStatus_def requireAdmin_def Let_def u pos split: if_splits)
    ultimately show ?thesis using a(1) by auto
  qed
qed

text \<open>
  Without a configured domain the window is not looked at, so an attestation that expired long ago is still
  shown as one in force.
\<close>

theorem expired_attestation_shown:
  assumes "attest_Decode token = Inr a" "token \<noteq> []" "trusted \<noteq> []" "attest_Verify P trusted a = Inr ()" "av_ExpiresAt a \<le> now" "id_Role caller = RoleAdmin"
  shows "\<exists>resp. handleGetLicenseStatus P trusted token [] now caller db = Some resp \<and> ls_Attested resp"
  using assms by (simp add: handleGetLicenseStatus_def requireAdmin_def currentAttestation_def Let_def)

end
