(* ===== verification/Store_Prekeys.thy ===== *)
theory Store_Prekeys
  imports Store_Integrity
begin

text \<open>
  One-time prekeys are consumables: along any history of store operations no row of
  \<open>one_time_prekeys\<close> is handed out twice, also across uploads, pool replacements and deletions of
  devices and accounts, because row ids are never reused.
\<close>

section \<open>The rows a history hands out\<close>

definition otp_ids :: "database \<Rightarrow> nat set" where
  "otp_ids db = otp_id ` set (db_one_time_prekeys db)"

fun claim_of :: "store_op \<Rightarrow> database \<Rightarrow> nat list" where
  "claim_of (DoClaimOneTimePrekey d) db =
     (case row_get otp_device_id d (db_one_time_prekeys db) of None \<Rightarrow> [] | Some k \<Rightarrow> [otp_id k])"
| "claim_of x db = []"

fun claimed_ids :: "platform \<Rightarrow> store_op list \<Rightarrow> database \<Rightarrow> nat list" where
  "claimed_ids P [] db = []"
| "claimed_ids P (x # xs) db = claim_of x db @ claimed_ids P xs (store_step P x db)"

text \<open>Rows come only from the sequence, which never goes back.\<close>

definition fresh_rows :: "database \<Rightarrow> database \<Rightarrow> bool" where
  "fresh_rows db db' \<longleftrightarrow> db_prekey_sequence db \<le> db_prekey_sequence db'
     \<and> otp_ids db' \<subseteq> otp_ids db \<union> {n. db_prekey_sequence db < n}"

definition same_prekeys :: "database \<Rightarrow> database \<Rightarrow> bool" where
  "same_prekeys db db' \<longleftrightarrow> db_prekey_sequence db' = db_prekey_sequence db
     \<and> db_one_time_prekeys db' = db_one_time_prekeys db"

lemma same_prekeys_fresh: "same_prekeys db db' \<Longrightarrow> fresh_rows db db'"
  by (simp add: same_prekeys_def fresh_rows_def otp_ids_def)

lemma fresh_rows_delete:
  "fresh_rows db (db\<lparr>db_one_time_prekeys := row_delete p (db_one_time_prekeys db)\<rparr>)"
  by (auto simp: fresh_rows_def otp_ids_def set_row_delete)

lemma fresh_rows_trans: "fresh_rows a b \<Longrightarrow> fresh_rows b c \<Longrightarrow> fresh_rows a c"
  by (fastforce simp: fresh_rows_def)

lemma AddOneTimePrekeys_fresh: "AddOneTimePrekeys db d ks t = Inr db' \<Longrightarrow> fresh_rows db db'"
proof (induction db d ks t rule: AddOneTimePrekeys.induct)
  case (2 db d k ks t)
  let ?db = "db\<lparr>db_prekey_sequence := Suc (db_prekey_sequence db), db_one_time_prekeys := db_one_time_prekeys db @
    [\<lparr>otp_id = Suc (db_prekey_sequence db), otp_device_id = d, otp_key = k, otp_created_at = formatTime t\<rparr>]\<rparr>"
  have "fresh_rows db ?db" by (auto simp: fresh_rows_def otp_ids_def)
  moreover have "fresh_rows ?db db'" using 2 by (auto simp: Let_def split: if_splits)
  ultimately show ?case by (rule fresh_rows_trans)
qed (simp add: fresh_rows_def)

lemma add_blob_recipients_prekeys: "add_blob_recipients db b ds = Inr db' \<Longrightarrow> same_prekeys db db'"
  by (drule add_blob_recipients_Inr) (simp add: same_prekeys_def)

lemma commit_same:
  "(\<And>db'. r = Inr db' \<Longrightarrow> same_prekeys db db') \<Longrightarrow> same_prekeys db (commit db r)"
  by (auto simp: commit_def same_prekeys_def split: sum.split)

lemma commit_same_snd:
  "(\<And>a db'. r = Inr (a, db') \<Longrightarrow> same_prekeys db db') \<Longrightarrow> same_prekeys db (commit db (map_sum id snd r))"
  by (cases r) (auto simp: commit_def same_prekeys_def)

lemma commit_same_snd_snd:
  "(\<And>a b db'. r = Inr (a, b, db') \<Longrightarrow> same_prekeys db db')
     \<Longrightarrow> same_prekeys db (commit db (map_sum id (snd \<circ> snd) r))"
  by (cases r) (auto simp: commit_def same_prekeys_def)

fun touches_prekeys :: "store_op \<Rightarrow> bool" where
  "touches_prekeys (DoDeleteAccount _) = True"
| "touches_prekeys (DoAddOneTimePrekeys _ _ _) = True"
| "touches_prekeys (DoDeleteOneTimePrekeys _) = True"
| "touches_prekeys (DoClaimOneTimePrekey _) = True"
| "touches_prekeys _ = False"

lemmas table_op_defs = CreateAccount_Inr SetAccountRole_def SetAccountStatus_def CreateDevice_Inr
  RevokeDevice_def UpsertDHIdentity_def SetDevicePushSubscription_def SetDevicePushTarget_def
  update_device_def CreateMessageUnderCap_def CreateMessage_Inr DeleteMessage_def
  PurgeExpiredMessages_def UpsertSignedPrekey_def CreateInviteCode_def PurgeExpiredInviteCodes_def
  ConsumeInviteCode_def InitSetupToken_def ResetSetupToken_def ClaimSetupToken_def
  RecordFailedSetupTokenAttempt_def RecordNonce_def PurgeExpiredNonces_def BlockFederationSender_def
  UnblockFederationSender_def InitRegistrationPolicy_def SetRegistrationPolicy_def
  InitFederationEnabled_def SetFederationEnabled_def DeleteBlobForDevice_def DeleteBlobByID_def
  SaveReport_def WithdrawReport_def ResolveReport_def PurgeReportsBefore_def Let_def

lemma other_ops_same: "\<not> touches_prekeys x \<Longrightarrow> same_prekeys db (store_step P x db)"
  by (cases x; simp only: store_step.simps touches_prekeys.simps not_True_eq_False not_False_eq_True)
    ((rule commit_same_snd commit_same_snd_snd commit_same)?;
     auto simp: table_op_defs same_prekeys_def CreateBlobWithQuota_def dest: CreateBlob_Inr
       split: if_splits option.splits sum.splits)+

lemma store_step_fresh: "fresh_rows db (store_step P x db)"
proof (cases "touches_prekeys x")
  case True
  then consider i where "x = DoDeleteAccount i" | d ks t where "x = DoAddOneTimePrekeys d ks t"
    | d where "x = DoDeleteOneTimePrekeys d" | d where "x = DoClaimOneTimePrekey d"
    by (cases x) auto
  then show ?thesis
  proof cases
    case 1
    then show ?thesis
      by (auto simp: commit_def DeleteAccount_def DeleteReportsForAccount_def cascade_account_def
          cascade_devices_def fresh_rows_def otp_ids_def set_row_delete)
  next
    case 2
    then show ?thesis
      using AddOneTimePrekeys_fresh [of db] by (auto simp: commit_def fresh_rows_def split: sum.split)
  next
    case 3
    then show ?thesis by (simp add: DeleteOneTimePrekeys_def fresh_rows_delete)
  next
    case 4
    then show ?thesis
      by (auto simp: ClaimOneTimePrekey_def fresh_rows_delete split: option.split)
        (simp add: fresh_rows_def)
  qed
qed (simp add: other_ops_same same_prekeys_fresh)

section \<open>No row twice\<close>

lemma claim_of_mem: "k \<in> set (claim_of x db) \<Longrightarrow> k \<in> otp_ids db"
  by (cases x) (auto simp: otp_ids_def split: option.splits dest!: row_get_SomeD sym [of "Some _"])

lemma claim_of_gone: "k \<in> set (claim_of x db) \<Longrightarrow> k \<notin> otp_ids (store_step P x db)"
  by (cases x) (auto simp: otp_ids_def ClaimOneTimePrekey_def set_row_delete split: option.splits)

lemma claim_of_distinct: "distinct (claim_of x db)"
  by (cases x) (auto split: option.split)

lemma claimed_ids_later:
  "set (claimed_ids P xs db) \<subseteq> otp_ids db \<union> {n. db_prekey_sequence db < n}"
proof (induction xs arbitrary: db)
  case (Cons x xs)
  let ?db = "store_step P x db"
  have "set (claimed_ids P xs ?db) \<subseteq> otp_ids ?db \<union> {n. db_prekey_sequence ?db < n}" by (rule Cons.IH)
  also have "\<dots> \<subseteq> otp_ids db \<union> {n. db_prekey_sequence db < n}"
    using store_step_fresh [of db P x] by (auto simp: fresh_rows_def)
  finally show ?case using claim_of_mem [of _ x db] by auto
qed simp

lemma otp_ids_bounded: "db_ok db \<Longrightarrow> k \<in> otp_ids db \<Longrightarrow> k \<le> db_prekey_sequence db"
  by (auto simp: db_ok_def one_time_prekeys_ok_def otp_ids_def)

text \<open>
  Along any history of store operations on a consistent database no one-time prekey row is
  handed out twice.
\<close>

theorem one_time_prekeys_claimed_once:
  assumes "db_ok db"
  shows "distinct (claimed_ids P ops db)"
  using assms
proof (induction ops arbitrary: db)
  case (Cons x xs)
  let ?db = "store_step P x db"
  have "db_ok ?db" using Cons.prems by (rule store_step_ok)
  then have "distinct (claimed_ids P xs ?db)" by (rule Cons.IH)
  moreover have "k \<notin> set (claimed_ids P xs ?db)" if k: "k \<in> set (claim_of x db)" for k
  proof
    assume "k \<in> set (claimed_ids P xs ?db)"
    then have "k \<in> otp_ids ?db \<or> db_prekey_sequence ?db < k" using claimed_ids_later [of P xs ?db] by auto
    moreover have "k \<le> db_prekey_sequence db" using otp_ids_bounded Cons.prems claim_of_mem [OF k] by blast
    moreover have "db_prekey_sequence db \<le> db_prekey_sequence ?db"
      using store_step_fresh [of db P x] by (simp add: fresh_rows_def)
    ultimately show False using claim_of_gone [OF k, of P] by auto
  qed
  ultimately show ?case using claim_of_distinct [of x db] by auto
qed simp

definition sample_prekey_ops :: "store_op list" where
  "sample_prekey_ops = [DoAddOneTimePrekeys ''a1'' [\<lparr>otk_KeyID = 7, otk_PubKey = ''p''\<rparr>, \<lparr>otk_KeyID = 8, otk_PubKey = ''q''\<rparr>] 0,
     DoClaimOneTimePrekey ''a1'', DoDeleteOneTimePrekeys ''a1'', DoClaimOneTimePrekey ''a1'',
     DoAddOneTimePrekeys ''a1'' [\<lparr>otk_KeyID = 7, otk_PubKey = ''r''\<rparr>] 0, DoClaimOneTimePrekey ''a1'']"

theorem one_time_prekeys_claimed_once_witness:
  "claimed_ids sample_platform sample_prekey_ops sample_database = [1, 3]
    \<and> distinct (claimed_ids sample_platform sample_prekey_ops sample_database)"
proof -
  have "claimed_ids sample_platform sample_prekey_ops sample_database = [1, 3]" by code_simp
  with one_time_prekeys_claimed_once [OF sample_database_ok, of sample_platform sample_prekey_ops]
  show ?thesis by simp
qed

end
