(* ===== verification/Api_Admin.thy ===== *)
theory Api_Admin
  imports Api_Accounts Store_Prekeys
begin

text \<open>
  What the account handlers guarantee: served one at a time they keep the database consistent and
  never take away the last active admin; served concurrently the last-admin guard can be passed
  twice, because the count and the write are separate statements. Moderators never touch staff, the
  setup token locks after ten wrong guesses, an invite admits one account.
\<close>

section \<open>Requests served one at a time\<close>

datatype account_request =
    RegisterAccount time "registerAccountRequest option"
  | BootstrapClaim time "bootstrapClaimRequest option"
  | RecoverAccount time http_request string "bytes \<Rightarrow> recoverAccountRequest option"
  | AddDevice time Identity "addDeviceRequest option"
  | RevokeDeviceReq Identity string "revokeDeviceRequest option"
  | SetPushEndpoint Identity string "setPushEndpointRequest option"
  | SetPushTargetReq Identity string "setPushTargetRequest option"
  | SetRole Identity string "string option"
  | BlockAccount Identity string
  | UnblockAccount Identity string
  | RemoveAccount Identity string
  | RemoveOwnAccount Identity string
  | SetPolicy Identity "string option"
  | SetFederation Identity "bool option"
  | CreateInvite time bytes Identity "string option json_body"

fun account_step :: "platform \<Rightarrow> (time \<Rightarrow> int \<Rightarrow> time) \<Rightarrow> int \<Rightarrow> account_request \<Rightarrow> database \<Rightarrow> database" where
  "account_step P addDays n (RegisterAccount now body) db = snd (handleRegisterAccount P db now body)"
| "account_step P addDays n (BootstrapClaim now body) db = snd (handleBootstrapClaim P db now body)"
| "account_step P addDays n (RecoverAccount now r path decode) db = snd (handleRecoverAccount P db now r path decode)"
| "account_step P addDays n (AddDevice now identity body) db = snd (handleAddDevice P db now identity body)"
| "account_step P addDays n (RevokeDeviceReq identity path body) db = snd (handleRevokeDevice P db identity path body)"
| "account_step P addDays n (SetPushEndpoint identity path body) db = snd (handleSetPushEndpoint P db identity path body)"
| "account_step P addDays n (SetPushTargetReq identity path body) db = snd (handleSetPushTarget db identity path body)"
| "account_step P addDays n (SetRole identity path body) db = snd (handleSetAccountRole db identity path body)"
| "account_step P addDays n (BlockAccount identity path) db = snd (handleBlockAccount db identity path)"
| "account_step P addDays n (UnblockAccount identity path) db = snd (handleUnblockAccount db identity path)"
| "account_step P addDays n (RemoveAccount identity path) db = snd (handleDeleteAccount db identity path)"
| "account_step P addDays n (RemoveOwnAccount identity path) db = snd (handleDeleteOwnAccount db identity path)"
| "account_step P addDays n (SetPolicy identity body) db = snd (handleSetRegistrationPolicy db identity body)"
| "account_step P addDays n (SetFederation identity body) db = snd (handleSetFederationEnabled db identity body)"
| "account_step P addDays n (CreateInvite now rnd identity body) db =
     snd (handleCreateInvite P addDays n db now rnd identity body)"

text \<open>An account table that no handler but the guarded ones shrinks or demotes.\<close>

definition admins_kept :: "database \<Rightarrow> database \<Rightarrow> bool" where
  "admins_kept db db' \<longleftrightarrow> CountActiveAdmins db \<le> CountActiveAdmins db'"

lemma admins_kept_refl [simp]: "admins_kept db db"
  by (simp add: admins_kept_def)

lemma admins_kept_same: "db_accounts db' = db_accounts db \<Longrightarrow> admins_kept db db'"
  by (simp add: admins_kept_def CountActiveAdmins_def)

lemma admins_kept_trans: "admins_kept a b \<Longrightarrow> admins_kept b c \<Longrightarrow> admins_kept a c"
  by (simp add: admins_kept_def)

lemma CreateAccount_admins: "CreateAccount db a = Inr db' \<Longrightarrow> admins_kept db db'"
  by (auto simp: CreateAccount_Inr admins_kept_def CountActiveAdmins_def row_count_append)

definition served :: "database \<Rightarrow> bool" where
  "served db \<longleftrightarrow> db_ok db \<and> 1 \<le> CountActiveAdmins db"

lemma served_kept: "served db \<Longrightarrow> db_ok db' \<Longrightarrow> admins_kept db db' \<Longrightarrow> served db'"
  by (simp add: served_def admins_kept_def)

text \<open>A handler is a chain of case distinctions; a claim about the database after it holds if it
  holds at the end of every branch.\<close>

lemma handler_option:
  "(x = None \<Longrightarrow> Q (snd a)) \<Longrightarrow> (\<And>y. x = Some y \<Longrightarrow> Q (snd (f y)))
     \<Longrightarrow> Q (snd (case x of None \<Rightarrow> a | Some y \<Rightarrow> f y))"
  by (cases x) auto

lemma handler_sum:
  "(\<And>e. x = Inl e \<Longrightarrow> Q (snd (a e))) \<Longrightarrow> (\<And>y. x = Inr y \<Longrightarrow> Q (snd (f y)))
     \<Longrightarrow> Q (snd (case x of Inl e \<Rightarrow> a e | Inr y \<Rightarrow> f y))"
  by (cases x) auto

lemma handler_prod: "(\<And>a b. x = (a, b) \<Longrightarrow> Q (snd (f a b))) \<Longrightarrow> Q (snd (case x of (a, b) \<Rightarrow> f a b))"
  by (cases x) auto

lemma handler_if: "(b \<Longrightarrow> Q (snd x)) \<Longrightarrow> (\<not> b \<Longrightarrow> Q (snd y)) \<Longrightarrow> Q (snd (if b then x else y))"
  by simp

lemma handler_end: "Q d \<Longrightarrow> Q (snd (r, d))"
  by simp

lemmas served_cases = handler_option [where Q = served] handler_sum [where Q = served]
  handler_prod [where Q = served] handler_if [where Q = served] handler_end [where Q = served]

section \<open>The guarded writes\<close>

lemma GetAccount_mem: "GetAccount db ident = Inr a \<Longrightarrow> a \<in> set (db_accounts db) \<and> acc_ID a = ident"
  by (auto simp: GetAccount_def dest: row_get_SomeD split: option.splits)

lemma guard_passed:
  assumes "\<not> wouldRemoveLastActiveAdmin db a" "active_admin a"
  shows "2 \<le> CountActiveAdmins db"
  using assms by (auto simp: wouldRemoveLastActiveAdmin_def active_admin_def split: if_splits)

lemma update_admins:
  assumes ok: "db_ok db" and get: "GetAccount db ident = Inr a" and some: "1 \<le> CountActiveAdmins db"
    and guard: "active_admin (f a) \<or> \<not> wouldRemoveLastActiveAdmin db a"
    and keeps: "\<And>x. acc_ID (f x) = acc_ID x"
  shows "1 \<le> row_count active_admin (row_update (\<lambda>x. acc_ID x = ident) f (db_accounts db))"
proof (cases "active_admin a \<and> \<not> active_admin (f a)")
  case True
  have a: "a \<in> set (db_accounts db)" "acc_ID a = ident" using GetAccount_mem [OF get] by simp_all
  have "Suc (row_count active_admin (row_update (\<lambda>x. acc_ID x = acc_ID a) f (db_accounts db)))
      = row_count active_admin (db_accounts db)"
    using db_okD(1) [OF ok] a(1) True by (intro row_count_one_update) auto
  moreover have "2 \<le> CountActiveAdmins db" using guard True guard_passed by blast
  ultimately show ?thesis using a(2) by (simp add: CountActiveAdmins_def)
next
  case False
  have uniq: "x = a" if "x \<in> set (db_accounts db)" "acc_ID x = ident" for x
    using row_get_unique [OF db_okD(1) [OF ok] that(1)] that(2) get
    by (auto simp: GetAccount_def split: option.splits)
  obtain x where x: "x \<in> set (db_accounts db)" "active_admin x"
    using some by (auto simp: CountActiveAdmins_def Suc_le_eq row_count_pos)
  have "active_admin (if acc_ID x = ident then f x else x)"
    using False x uniq by (cases "acc_ID x = ident") auto
  then have "\<exists>y \<in> set (row_update (\<lambda>x. acc_ID x = ident) f (db_accounts db)). active_admin y"
    using x(1) unfolding row_update_def set_map by blast
  then show ?thesis by (simp add: Suc_le_eq row_count_pos)
qed

lemma DeleteAccount_accounts:
  "DeleteAccount db ident = Inr db' \<Longrightarrow> db_accounts db' = row_delete (\<lambda>a. acc_ID a = ident) (db_accounts db)"
  by (auto simp: DeleteAccount_def DeleteReportsForAccount_def cascade_account_def cascade_devices_def
      split: if_splits)

lemma delete_admins:
  assumes ok: "db_ok db" and get: "GetAccount db ident = Inr a" and some: "1 \<le> CountActiveAdmins db"
    and guard: "\<not> wouldRemoveLastActiveAdmin db a"
  shows "1 \<le> row_count active_admin (row_delete (\<lambda>x. acc_ID x = ident) (db_accounts db))"
proof (cases "active_admin a")
  case True
  have a: "a \<in> set (db_accounts db)" "acc_ID a = ident" using GetAccount_mem [OF get] by simp_all
  have "Suc (row_count active_admin (row_delete (\<lambda>x. acc_ID x = acc_ID a) (db_accounts db)))
      = row_count active_admin (db_accounts db)"
    using db_okD(1) [OF ok] a(1) True by (intro row_count_one_delete) auto
  then show ?thesis using guard_passed [OF guard True] a(2) by (simp add: CountActiveAdmins_def)
next
  case False
  have uniq: "x = a" if "x \<in> set (db_accounts db)" "acc_ID x = ident" for x
    using row_get_unique [OF db_okD(1) [OF ok] that(1)] that(2) get
    by (auto simp: GetAccount_def split: option.splits)
  obtain x where x: "x \<in> set (db_accounts db)" "active_admin x"
    using some by (auto simp: CountActiveAdmins_def Suc_le_eq row_count_pos)
  then have "\<exists>y \<in> set (row_delete (\<lambda>x. acc_ID x = ident) (db_accounts db)). active_admin y"
    using False uniq by (auto simp: set_row_delete)
  then show ?thesis by (simp add: Suc_le_eq row_count_pos)
qed

lemma SetAccountRole_served:
  assumes "served db" "GetAccount db ident = Inr a" "role = RoleAdmin \<or> \<not> wouldRemoveLastActiveAdmin db a"
    "SetAccountRole db ident role = Inr db'"
  shows "served db'"
proof -
  let ?f = "acc_Role_update (\<lambda>_. role)"
  have "1 \<le> row_count active_admin (row_update (\<lambda>x. acc_ID x = ident) ?f (db_accounts db))"
  proof (cases "active_admin (?f a) \<or> \<not> wouldRemoveLastActiveAdmin db a")
    case True
    with assms show ?thesis by (intro update_admins [of db ident a ?f]) (auto simp: served_def)
  next
    case False
    with assms(3) show ?thesis
      by (auto simp: active_admin_def wouldRemoveLastActiveAdmin_def split: if_splits)
  qed
  with assms show ?thesis
    using SetAccountRole_ok [of db ident role db']
    by (auto simp: served_def SetAccountRole_def CountActiveAdmins_def split: if_splits)
qed

lemma SetAccountStatus_served:
  assumes "served db" "GetAccount db ident = Inr a" "status = AccountStatusActive \<or> \<not> wouldRemoveLastActiveAdmin db a"
    "SetAccountStatus db ident status = Inr db'"
  shows "served db'"
proof -
  let ?f = "acc_Status_update (\<lambda>_. status)"
  have "1 \<le> row_count active_admin (row_update (\<lambda>x. acc_ID x = ident) ?f (db_accounts db))"
  proof (cases "active_admin (?f a) \<or> \<not> wouldRemoveLastActiveAdmin db a")
    case True
    with assms show ?thesis by (intro update_admins [of db ident a ?f]) (auto simp: served_def)
  next
    case False
    with assms(3) show ?thesis
      by (auto simp: active_admin_def wouldRemoveLastActiveAdmin_def split: if_splits)
  qed
  with assms show ?thesis
    using SetAccountStatus_ok [of db ident status db']
    by (auto simp: served_def SetAccountStatus_def CountActiveAdmins_def split: if_splits)
qed

lemma DeleteAccount_served:
  assumes "served db" "GetAccount db ident = Inr a" "\<not> wouldRemoveLastActiveAdmin db a"
    "DeleteAccount db ident = Inr db'"
  shows "served db'"
  using assms delete_admins [of db ident a] DeleteAccount_ok [of db ident db']
  by (simp add: served_def CountActiveAdmins_def DeleteAccount_accounts)

lemma handleSetAccountRole_served: "served db \<Longrightarrow> served (snd (handleSetAccountRole db identity ident body))"
  by (auto simp: handleSetAccountRole_def intro: SetAccountRole_served split: option.split sum.split)

lemma setAccountStatus_served: "served db \<Longrightarrow> served (snd (setAccountStatus db identity ident status))"
  by (auto simp: setAccountStatus_def intro: SetAccountStatus_served split: sum.split)

lemma handleDeleteAccount_served: "served db \<Longrightarrow> served (snd (handleDeleteAccount db identity ident))"
  by (auto simp: handleDeleteAccount_def intro: DeleteAccount_served split: sum.split)

lemma handleDeleteOwnAccount_served: "served db \<Longrightarrow> served (snd (handleDeleteOwnAccount db identity ident))"
  by (auto simp: handleDeleteOwnAccount_def intro: DeleteAccount_served split: sum.split)

section \<open>The other handlers\<close>

text \<open>The store operations that leave the account table alone, and registration, which adds to it.\<close>

lemma served_same: "served db \<Longrightarrow> db_ok db' \<Longrightarrow> db_accounts db' = db_accounts db \<Longrightarrow> served db'"
  by (simp add: served_def CountActiveAdmins_def)

lemma served_db_ok: "served db \<Longrightarrow> db_ok db"
  by (simp add: served_def)

named_theorems served_rules "operations that keep a served database served"

lemma CreateAccount_served [served_rules]: "CreateAccount db a = Inr db' \<Longrightarrow> served db \<Longrightarrow> served db'"
  using served_kept CreateAccount_ok CreateAccount_admins served_db_ok by blast

lemma CreateDevice_served [served_rules]: "CreateDevice db d = Inr db' \<Longrightarrow> served db \<Longrightarrow> served db'"
  using CreateDevice_ok [of db d db'] by (auto simp: CreateDevice_Inr served_def CountActiveAdmins_def)

lemma RevokeDevice_served [served_rules]: "RevokeDevice db a d t = Inr db' \<Longrightarrow> served db \<Longrightarrow> served db'"
  using RevokeDevice_ok [of db a d t db']
  by (auto simp: RevokeDevice_def Let_def served_def CountActiveAdmins_def split: if_splits)

lemma SetDevicePushSubscription_served [served_rules]:
  "SetDevicePushSubscription db d x = Inr db' \<Longrightarrow> served db \<Longrightarrow> served db'"
  using SetDevicePushSubscription_ok [of db d x db']
  by (auto simp: SetDevicePushSubscription_def update_device_def served_def CountActiveAdmins_def split: if_splits)

lemma SetDevicePushTarget_served [served_rules]:
  "SetDevicePushTarget db d x = Inr db' \<Longrightarrow> served db \<Longrightarrow> served db'"
  using SetDevicePushTarget_ok [of db d x db']
  by (auto simp: SetDevicePushTarget_def update_device_def served_def CountActiveAdmins_def split: if_splits)

lemma ConsumeInviteCode_served [served_rules]:
  "ConsumeInviteCode P db c a t = Inr db' \<Longrightarrow> served db \<Longrightarrow> served db'"
  using ConsumeInviteCode_ok [of db P c a t db']
  by (auto simp: ConsumeInviteCode_def Let_def served_def CountActiveAdmins_def split: if_splits sum.splits)

lemma CreateInviteCode_served [served_rules]:
  "CreateInviteCode P db r a e t = Inr (c, db') \<Longrightarrow> served db \<Longrightarrow> served db'"
  using CreateInviteCode_ok [of db P r a e t c db']
  by (auto simp: CreateInviteCode_def served_def CountActiveAdmins_def split: if_splits option.splits)

lemma ClaimSetupToken_served [served_rules]:
  "ClaimSetupToken P db tk a t = Inr db' \<Longrightarrow> served db \<Longrightarrow> served db'"
  using ClaimSetupToken_ok [of db P tk a t db']
  by (auto simp: ClaimSetupToken_def served_def CountActiveAdmins_def split: if_splits option.splits)

lemma RecordFailed_served [served_rules]: "served db \<Longrightarrow> served (RecordFailedSetupTokenAttempt db)"
  using RecordFailedSetupTokenAttempt_ok [of db]
  by (simp add: RecordFailedSetupTokenAttempt_def served_def CountActiveAdmins_def)

lemma RecordNonce_served [served_rules]: "served db \<Longrightarrow> served (snd (RecordNonce db d n t e))"
  using RecordNonce_ok [of db d n t e] by (simp add: served_def RecordNonce_def CountActiveAdmins_def)

lemma settings_served [served_rules]: "served db \<Longrightarrow> served (SetRegistrationPolicy db p)"
  "served db \<Longrightarrow> served (SetFederationEnabled db e)"
  using SetRegistrationPolicy_ok [of db p] SetFederationEnabled_ok [of db e]
  by (simp_all add: SetRegistrationPolicy_def SetFederationEnabled_def served_def CountActiveAdmins_def)

lemma revoke_others_served [served_rules]:
  "revoke_others db a keep t ds = Inr db' \<Longrightarrow> served db \<Longrightarrow> served db'"
  by (induction db a keep t ds rule: revoke_others.induct)
    (auto split: if_splits sum.splits intro: RevokeDevice_served)

lemma verifyRootSignature_served [served_rules]:
  "served db \<Longrightarrow> served (snd (verifyRootSignature P db now r body account))"
  by (auto simp: verifyRootSignature_def intro!: RecordNonce_served split: option.split sum.split)

lemma handleRegisterAccount_served: "served db \<Longrightarrow> served (snd (handleRegisterAccount P db now body))"
  unfolding handleRegisterAccount_def Let_def
  by (intro served_cases) (auto split: if_splits elim!: served_rules)

lemma handleBootstrapClaim_served: "served db \<Longrightarrow> served (snd (handleBootstrapClaim P db now body))"
  unfolding handleBootstrapClaim_def Let_def
  by (intro served_cases) (assumption | erule served_rules)+

lemma handleRecoverAccount_served: "served db \<Longrightarrow> served (snd (handleRecoverAccount P db now r path decode))"
proof -
  assume s: "served db"
  have v: "served db1" if "verifyRootSignature P db now r body acc = (ok, db1)" for body acc ok db1
    using verifyRootSignature_served [OF s, of P now r body acc] that by simp
  show ?thesis
    unfolding handleRecoverAccount_def Let_def
    by (intro served_cases) (assumption | rule s | erule v served_rules)+
qed

lemma handleAddDevice_served: "served db \<Longrightarrow> served (snd (handleAddDevice P db now identity body))"
  unfolding handleAddDevice_def Let_def
  by (intro served_cases) (assumption | erule served_rules)+

lemma handleRevokeDevice_served: "served db \<Longrightarrow> served (snd (handleRevokeDevice P db identity path body))"
  unfolding handleRevokeDevice_def Let_def
  by (intro served_cases) (assumption | erule served_rules)+

lemma handleSetPushEndpoint_served: "served db \<Longrightarrow> served (snd (handleSetPushEndpoint P db identity path body))"
  unfolding handleSetPushEndpoint_def Let_def
  by (intro served_cases) (assumption | erule served_rules)+

lemma handleSetPushTarget_served: "served db \<Longrightarrow> served (snd (handleSetPushTarget db identity path body))"
  unfolding handleSetPushTarget_def Let_def
  by (intro served_cases) (assumption | erule served_rules)+

lemma handleCreateInvite_served:
  "served db \<Longrightarrow> served (snd (handleCreateInvite P addDays n db now rnd identity body))"
  unfolding handleCreateInvite_def Let_def
  by (intro served_cases) (assumption | hypsubst, erule served_rules)+

lemma settings_handlers_served: "served db \<Longrightarrow> served (snd (handleSetRegistrationPolicy db identity pol))
    \<and> served (snd (handleSetFederationEnabled db identity fed))"
  by (simp add: handleSetRegistrationPolicy_def handleSetFederationEnabled_def served_rules split: option.split)

lemma account_step_served: "served db \<Longrightarrow> served (account_step P addDays n x db)"
  by (cases x) (simp_all add: handleRegisterAccount_served handleBootstrapClaim_served
    handleRecoverAccount_served handleAddDevice_served handleRevokeDevice_served
    handleSetPushEndpoint_served handleSetPushTarget_served handleSetAccountRole_served
    handleBlockAccount_def handleUnblockAccount_def setAccountStatus_served handleDeleteAccount_served
    handleDeleteOwnAccount_served settings_handlers_served handleCreateInvite_served)

interpretation accounts_api: preserving "account_step P addDays n" "\<lambda>_. True" served
  by unfold_locales (rule account_step_served)

text \<open>
  Served one after another, no sequence of account requests (registrations, recoveries,
  device changes, role changes, blocks, deletions by an admin or by the owner, settings, invites)
  leaves a consistent database inconsistent, or a server that has an active admin without one.
\<close>

theorem active_admin_remains:
  assumes "db_ok db" "1 \<le> CountActiveAdmins db"
  shows "db_ok (fold (account_step P addDays n) reqs db)
    \<and> 1 \<le> CountActiveAdmins (fold (account_step P addDays n) reqs db)"
  using accounts_api.run_inv [of reqs db P addDays n] assms by (simp add: served_def list_all_iff)

definition admin_identity :: "string \<Rightarrow> Identity" where
  "admin_identity ident = \<lparr>id_AccountID = ident, id_DeviceID = ''a1'', id_Role = RoleAdmin\<rparr>"

definition sample_admin_requests :: "account_request list" where
  "sample_admin_requests = [SetRole (admin_identity ''alice'') ''bob'' (Some ''user''),
     BlockAccount (admin_identity ''alice'') ''alice'', RemoveOwnAccount (admin_identity ''alice'') ''alice'']"

theorem active_admin_remains_witness:
  "CountActiveAdmins sample_database = 2
    \<and> CountActiveAdmins (fold (account_step sample_platform (\<lambda>t d. t) 0) sample_admin_requests sample_database) = 1
    \<and> 1 \<le> CountActiveAdmins (fold (account_step sample_platform (\<lambda>t d. t) 0) sample_admin_requests sample_database)"
proof -
  have "CountActiveAdmins sample_database = 2"
    "CountActiveAdmins (fold (account_step sample_platform (\<lambda>t d. t) 0) sample_admin_requests sample_database) = 1"
    by code_simp+
  with active_admin_remains [OF sample_database_ok, of sample_platform "\<lambda>t d. t" 0 sample_admin_requests]
  show ?thesis by simp
qed

section \<open>The guard and the write are two statements\<close>

text \<open>
  The server handles requests concurrently; one connection serialises the statements, not the
  handlers. A handler of the admin surface is a check, which reads, followed by one write; other
  requests may be served in between.
\<close>

datatype pending_write = WriteRole string string | WriteStatus string string | WriteDelete string

fun perform :: "pending_write \<Rightarrow> database \<Rightarrow> (api_error + unit) \<times> database" where
  "perform (WriteRole ident role) db =
     (case SetAccountRole db ident role of Inl _ \<Rightarrow> (Inl internal_error, db) | Inr db' \<Rightarrow> (Inr (), db'))"
| "perform (WriteStatus ident status) db =
     (case SetAccountStatus db ident status of Inl _ \<Rightarrow> (Inl internal_error, db) | Inr db' \<Rightarrow> (Inr (), db'))"
| "perform (WriteDelete ident) db =
     (case DeleteAccount db ident of Inl _ \<Rightarrow> (Inl internal_error, db) | Inr db' \<Rightarrow> (Inr (), db'))"

definition check_role :: "database \<Rightarrow> Identity \<Rightarrow> string \<Rightarrow> string option \<Rightarrow> api_error + pending_write" where
  "check_role db identity ident body =
     (if \<not> requireAdmin identity then Inl (403, ''forbidden'')
      else case body of None \<Rightarrow> Inl bad_request
      | Some reqRole \<Rightarrow>
     (case ParseRole reqRole of None \<Rightarrow> Inl (400, ''invalid_role'')
      | Some role \<Rightarrow>
     (case GetAccount db ident of Inl _ \<Rightarrow> Inl (404, ''not_found'')
      | Inr target \<Rightarrow>
      if role \<noteq> RoleAdmin \<and> wouldRemoveLastActiveAdmin db target then Inl (409, ''last_admin'')
      else Inr (WriteRole ident role))))"

definition check_status :: "database \<Rightarrow> Identity \<Rightarrow> string \<Rightarrow> string \<Rightarrow> api_error + pending_write" where
  "check_status db caller ident status =
     (if \<not> requireAdminOrModerator caller then Inl (403, ''forbidden'')
      else case GetAccount db ident of Inl _ \<Rightarrow> Inl (404, ''not_found'')
      | Inr target \<Rightarrow>
      if id_Role caller \<noteq> RoleAdmin \<and> acc_Role target \<noteq> RoleUser then Inl (403, ''forbidden'')
      else if status \<noteq> AccountStatusActive \<and> wouldRemoveLastActiveAdmin db target then Inl (409, ''last_admin'')
      else Inr (WriteStatus ident status))"

definition check_delete :: "database \<Rightarrow> Identity \<Rightarrow> string \<Rightarrow> api_error + pending_write" where
  "check_delete db identity ident =
     (if \<not> requireAdmin identity then Inl (403, ''forbidden'')
      else case GetAccount db ident of Inl _ \<Rightarrow> Inl (404, ''not_found'')
      | Inr target \<Rightarrow>
      if wouldRemoveLastActiveAdmin db target then Inl (409, ''last_admin'') else Inr (WriteDelete ident))"

definition undisturbed :: "database \<Rightarrow> api_error + pending_write \<Rightarrow> (api_error + unit) \<times> database" where
  "undisturbed db c = (case c of Inl e \<Rightarrow> (Inl e, db) | Inr w \<Rightarrow> perform w db)"

lemma handlers_undisturbed:
  "handleSetAccountRole db identity ident body = undisturbed db (check_role db identity ident body)"
  "setAccountStatus db identity ident status = undisturbed db (check_status db identity ident status)"
  "handleDeleteAccount db identity ident = undisturbed db (check_delete db identity ident)"
  by (simp_all add: undisturbed_def handleSetAccountRole_def check_role_def setAccountStatus_def
      check_status_def handleDeleteAccount_def check_delete_def split: option.split sum.split)

inductive interleaved :: "database \<times> pending_write list \<Rightarrow> database \<times> pending_write list \<Rightarrow> bool" where
  checked_role: "check_role db identity ident body = Inr w \<Longrightarrow> interleaved (db, ws) (db, w # ws)"
| checked_status: "check_status db identity ident status = Inr w \<Longrightarrow> interleaved (db, ws) (db, w # ws)"
| checked_delete: "check_delete db identity ident = Inr w \<Longrightarrow> interleaved (db, ws) (db, w # ws)"
| written: "w \<in> set ws \<Longrightarrow> interleaved (db, ws) (snd (perform w db), remove1 w ws)"

lemma perform_ok: "db_ok db \<Longrightarrow> db_ok (snd (perform w db))"
  by (cases w) (auto split: sum.split intro: preserve_rules)

lemma interleaved_ok: "interleaved\<^sup>*\<^sup>* s s' \<Longrightarrow> db_ok (fst s) \<Longrightarrow> db_ok (fst s')"
proof (induction rule: rtranclp_induct)
  case (step y z)
  from step.hyps(2) step.IH step.prems show ?case by cases (auto simp: perform_ok)
qed simp

text \<open>
  Two admins demoting each other at the same time both pass the last-admin guard: from a
  consistent database with two active admins an interleaving of two role changes, each of which
  would have been refused after the other, reaches a consistent database with none.
\<close>

theorem last_admin_race:
  "\<exists>db db'. db_ok db \<and> CountActiveAdmins db = 2 \<and> interleaved\<^sup>*\<^sup>* (db, []) (db', [])
     \<and> db_ok db' \<and> CountActiveAdmins db' = 0"
proof -
  let ?db = sample_database
  let ?a = "WriteRole ''bob'' RoleUser" and ?b = "WriteRole ''alice'' RoleUser"
  let ?db1 = "snd (perform ?a ?db)"
  let ?db2 = "snd (perform ?b ?db1)"
  have "check_role ?db (admin_identity ''alice'') ''bob'' (Some ''user'') = Inr ?a"
    "check_role ?db (admin_identity ''bob'') ''alice'' (Some ''user'') = Inr ?b" by code_simp+
  then have "interleaved (?db, []) (?db, [?a])" "interleaved (?db, [?a]) (?db, [?b, ?a])"
    by (blast intro: checked_role)+
  moreover have "interleaved (?db, [?b, ?a]) (?db1, [?b])" "interleaved (?db1, [?b]) (?db2, [])"
    using written [of ?a "[?b, ?a]" ?db] written [of ?b "[?b]" ?db1] by simp_all
  ultimately have run: "interleaved\<^sup>*\<^sup>* (?db, []) (?db2, [])"
    by (meson converse_rtranclp_into_rtranclp rtranclp.rtrancl_refl)
  moreover have "db_ok ?db2" using interleaved_ok [OF run] sample_database_ok by simp
  moreover have "CountActiveAdmins ?db = 2" "CountActiveAdmins ?db2 = 0" by code_simp+
  ultimately show ?thesis using sample_database_ok by blast
qed

section \<open>No escalation\<close>

definition staff :: "database \<Rightarrow> Account set" where
  "staff db = {a \<in> set (db_accounts db). acc_Role a \<noteq> RoleUser}"

text \<open>Requests nobody with the admin role stands behind; the bootstrap claim makes the first admin.\<close>

fun unprivileged :: "account_request \<Rightarrow> bool" where
  "unprivileged (BootstrapClaim _ _) = False"
| "unprivileged (SetRole i _ _) = (id_Role i \<noteq> RoleAdmin)"
| "unprivileged (BlockAccount i _) = (id_Role i \<noteq> RoleAdmin)"
| "unprivileged (UnblockAccount i _) = (id_Role i \<noteq> RoleAdmin)"
| "unprivileged (RemoveAccount i _) = (id_Role i \<noteq> RoleAdmin)"
| "unprivileged (SetPolicy i _) = (id_Role i \<noteq> RoleAdmin)"
| "unprivileged (SetFederation i _) = (id_Role i \<noteq> RoleAdmin)"
| "unprivileged _ = True"

fun leaver :: "account_request \<Rightarrow> string option" where
  "leaver (RemoveOwnAccount i _) = Some (id_AccountID i)"
| "leaver _ = None"

definition staff_kept :: "string set \<Rightarrow> database \<Rightarrow> database \<Rightarrow> bool" where
  "staff_kept gone db db' \<longleftrightarrow> staff db' \<subseteq> staff db \<and> (\<forall>a \<in> staff db. acc_ID a \<notin> gone \<longrightarrow> a \<in> staff db')
     \<and> db_settings db' = db_settings db"

lemma staff_kept_refl: "staff_kept X db db"
  by (simp add: staff_kept_def)

lemma staff_kept_same:
  "db_accounts db' = db_accounts db \<Longrightarrow> db_settings db' = db_settings db \<Longrightarrow> staff_kept X db db'"
  by (simp add: staff_kept_def staff_def)

lemma staff_kept_trans: "staff_kept X a b \<Longrightarrow> staff_kept X b c \<Longrightarrow> staff_kept X a c"
  by (auto simp: staff_kept_def)

lemma staff_kept_mono: "staff_kept X a b \<Longrightarrow> X \<subseteq> Y \<Longrightarrow> staff_kept Y a b"
  by (auto simp: staff_kept_def)

named_theorems staff_rules "operations that keep the staff accounts and the settings"

lemma CreateAccount_staff [staff_rules]:
  "CreateAccount db (new_account cd RoleUser now) = Inr db' \<Longrightarrow> staff_kept {} db db'"
  by (auto simp: CreateAccount_Inr staff_kept_def staff_def new_account_def)

lemma CreateDevice_staff [staff_rules]: "CreateDevice db d = Inr db' \<Longrightarrow> staff_kept {} db db'"
  by (auto simp: CreateDevice_Inr intro: staff_kept_same)

lemma device_update_staff [staff_rules]:
  "RevokeDevice db a d t = Inr db' \<Longrightarrow> staff_kept {} db db'"
  "SetDevicePushSubscription db d s = Inr db' \<Longrightarrow> staff_kept {} db db'"
  "SetDevicePushTarget db d p = Inr db' \<Longrightarrow> staff_kept {} db db'"
  by (auto simp: RevokeDevice_def SetDevicePushSubscription_def SetDevicePushTarget_def update_device_def
      Let_def intro!: staff_kept_same split: if_splits)

lemma invite_staff [staff_rules]:
  "ConsumeInviteCode P db c a t = Inr db' \<Longrightarrow> staff_kept {} db db'"
  "CreateInviteCode P db r a e t = Inr (code, db') \<Longrightarrow> staff_kept {} db db'"
  by (auto simp: ConsumeInviteCode_def CreateInviteCode_def Let_def intro!: staff_kept_same
      split: if_splits sum.splits option.splits)

lemma revoke_others_staff [staff_rules]: "revoke_others db a keep t ds = Inr db' \<Longrightarrow> staff_kept {} db db'"
  by (induction db a keep t ds rule: revoke_others.induct)
    (auto split: if_splits sum.splits intro: staff_kept_refl staff_kept_trans device_update_staff)

lemma verifyRootSignature_staff [staff_rules]:
  "verifyRootSignature P db now r body account = (ok, db') \<Longrightarrow> staff_kept {} db db'"
  by (auto simp: verifyRootSignature_def RecordNonce_def intro!: staff_kept_same
      split: option.splits sum.splits if_splits)

lemma DeleteAccount_staff: "DeleteAccount db ident = Inr db' \<Longrightarrow> staff_kept {ident} db db'"
  by (frule DeleteAccount_accounts)
    (auto simp: DeleteAccount_def DeleteReportsForAccount_def cascade_account_def cascade_devices_def
      staff_kept_def staff_def set_row_delete split: if_splits)

lemma SetAccountStatus_staff:
  assumes "db_ok db" "GetAccount db ident = Inr a" "acc_Role a = RoleUser"
    "SetAccountStatus db ident status = Inr db'"
  shows "staff_kept {} db db'"
proof -
  have role: "acc_Role x = RoleUser" if "x \<in> set (db_accounts db)" "acc_ID x = ident" for x
    using row_get_unique [OF db_okD(1) [OF assms(1)] that(1)] that(2) assms(2,3)
    by (auto simp: GetAccount_def split: option.splits)
  have eq: "db' = db\<lparr>db_accounts := row_update (\<lambda>a. acc_ID a = ident) (acc_Status_update (\<lambda>_. status)) (db_accounts db)\<rparr>"
    using assms(4) by (simp add: SetAccountStatus_def split: if_splits)
  have "filter (\<lambda>a. acc_Role a \<noteq> RoleUser) (db_accounts db') = filter (\<lambda>a. acc_Role a \<noteq> RoleUser) (db_accounts db)"
    unfolding eq using role by (auto intro!: filter_row_update)
  then have "staff db' = staff db" unfolding staff_def set_filter [symmetric] by simp
  then show ?thesis by (simp add: staff_kept_def eq)
qed

lemmas kept_cases = handler_option [where Q = "staff_kept X db" for X db] handler_sum [where Q = "staff_kept X db" for X db]
  handler_prod [where Q = "staff_kept X db" for X db] handler_if [where Q = "staff_kept X db" for X db]
  handler_end [where Q = "staff_kept X db" for X db]

lemma staff_kept_extend: "staff_kept {} b c \<Longrightarrow> staff_kept X a b \<Longrightarrow> staff_kept X a c"
  by (auto simp: staff_kept_def)

lemmas staff_extend = staff_rules [THEN staff_kept_extend]

lemma handleRegisterAccount_staff: "staff_kept {} db (snd (handleRegisterAccount P db now body))"
  unfolding handleRegisterAccount_def Let_def
  by (intro kept_cases staff_kept_refl)
    (auto split: if_splits intro: staff_kept_refl elim!: staff_extend)

lemma handleRecoverAccount_staff: "staff_kept {} db (snd (handleRecoverAccount P db now r path decode))"
  unfolding handleRecoverAccount_def Let_def
  by (intro kept_cases staff_kept_refl) (assumption | rule staff_kept_refl | erule staff_extend)+

lemma device_handlers_staff:
  "staff_kept {} db (snd (handleAddDevice P db now identity add))"
  "staff_kept {} db (snd (handleRevokeDevice P db identity path revocation))"
  "staff_kept {} db (snd (handleSetPushEndpoint P db identity path push))"
  "staff_kept {} db (snd (handleSetPushTarget db identity path target))"
  unfolding handleAddDevice_def handleRevokeDevice_def handleSetPushEndpoint_def handleSetPushTarget_def Let_def
  by (intro kept_cases staff_kept_refl; erule staff_extend; rule staff_kept_refl)+

lemma handleCreateInvite_staff:
  "staff_kept {} db (snd (handleCreateInvite P addDays n db now rnd identity body))"
  unfolding handleCreateInvite_def Let_def
  by (intro kept_cases staff_kept_refl) (hypsubst, erule staff_extend, rule staff_kept_refl)

lemma admin_handlers_staff:
  assumes "db_ok db" "id_Role identity \<noteq> RoleAdmin"
  shows "staff_kept {} db (snd (handleSetAccountRole db identity path body))"
    "staff_kept {} db (snd (setAccountStatus db identity path status))"
    "staff_kept {} db (snd (handleDeleteAccount db identity path))"
    "staff_kept {} db (snd (handleSetRegistrationPolicy db identity policy))"
    "staff_kept {} db (snd (handleSetFederationEnabled db identity enabled))"
  using assms
  by (auto simp: handleSetAccountRole_def setAccountStatus_def handleDeleteAccount_def requireAdmin_def
      handleSetRegistrationPolicy_def handleSetFederationEnabled_def staff_kept_refl
      intro: SetAccountStatus_staff split: sum.split)

lemma handleDeleteOwnAccount_staff:
  "staff_kept {id_AccountID identity} db (snd (handleDeleteOwnAccount db identity path))"
  unfolding handleDeleteOwnAccount_def
  by (intro kept_cases staff_kept_refl) (erule DeleteAccount_staff)

lemma account_step_staff:
  assumes "served db" "unprivileged x"
  shows "staff_kept (set_option (leaver x)) db (account_step P addDays n x db)"
proof -
  have "db_ok db" using assms(1) by (rule served_db_ok)
  with assms(2) show ?thesis
    by (cases x) (simp_all add: handleRegisterAccount_staff handleRecoverAccount_staff device_handlers_staff
      handleCreateInvite_staff admin_handlers_staff handleDeleteOwnAccount_staff handleBlockAccount_def
      handleUnblockAccount_def)
qed

lemma account_steps_staff:
  assumes "served db" "\<forall>x \<in> set reqs. unprivileged x"
  shows "staff_kept {i. \<exists>x \<in> set reqs. leaver x = Some i} db (fold (account_step P addDays n) reqs db)"
  using assms
proof (induction reqs arbitrary: db)
  case (Cons x xs)
  let ?X = "{i. \<exists>y \<in> set (x # xs). leaver y = Some i}" and ?db = "account_step P addDays n x db"
  have "staff_kept ?X db ?db"
    by (rule staff_kept_mono [OF account_step_staff]) (use Cons.prems in auto)
  moreover have "staff_kept {i. \<exists>y \<in> set xs. leaver y = Some i} ?db (fold (account_step P addDays n) xs ?db)"
    using Cons.IH [of ?db] Cons.prems account_step_served by auto
  then have "staff_kept ?X ?db (fold (account_step P addDays n) xs ?db)" by (rule staff_kept_mono) auto
  ultimately show ?case by (simp add: staff_kept_trans)
qed (simp add: staff_kept_refl)

text \<open>
  C20: Whatever users and moderators send, in any order, no account becomes moderator or admin,
  no moderator's or admin's account is demoted, blocked, unblocked or removed except by a member
  of staff removing their own, and the registration policy and the federation switch stay as they
  are.
\<close>

theorem no_escalation_without_admin:
  assumes "db_ok db" "1 \<le> CountActiveAdmins db" "\<forall>x \<in> set reqs. unprivileged x"
    "db' = fold (account_step P addDays n) reqs db"
  shows "staff db' \<subseteq> staff db
    \<and> (\<forall>a \<in> staff db. (\<forall>x \<in> set reqs. leaver x \<noteq> Some (acc_ID a)) \<longrightarrow> a \<in> staff db')
    \<and> db_settings db' = db_settings db"
  using account_steps_staff [of db reqs P addDays n] assms unfolding staff_kept_def served_def by auto

definition moderator_identity :: Identity where
  "moderator_identity = \<lparr>id_AccountID = ''mod'', id_DeviceID = ''m1'', id_Role = RoleModerator\<rparr>"

definition sample_moderator_requests :: "account_request list" where
  "sample_moderator_requests = [SetRole moderator_identity ''mod'' (Some ''admin''),
     BlockAccount moderator_identity ''alice'', RemoveAccount moderator_identity ''bob'']"

definition after_moderator_requests :: database where
  "after_moderator_requests =
     fold (account_step sample_platform (\<lambda>t d. t) 0) sample_moderator_requests sample_database"

theorem no_escalation_without_admin_witness:
  "staff after_moderator_requests \<subseteq> staff sample_database
     \<and> db_settings after_moderator_requests = db_settings sample_database"
proof -
  have a: "1 \<le> CountActiveAdmins sample_database" by code_simp
  have u: "\<forall>x \<in> set sample_moderator_requests. unprivileged x" by code_simp
  from no_escalation_without_admin [OF sample_database_ok a u after_moderator_requests_def]
  show ?thesis by blast
qed

end
