(* ===== verification/Api_Recovery.thy ===== *)
theory Api_Recovery
  imports Api_Admin
begin

text \<open>
  The two ways into an account that need no device: the bootstrap claim of the first admin, whose
  short setup token is protected by a lock-out, and the recovery with the root key, which leaves the
  new device as the only active one.
\<close>

section \<open>The setup token under guessing\<close>

fun bootstrap_run :: "platform \<Rightarrow> (time \<times> bootstrapClaimRequest option) list \<Rightarrow> database
    \<Rightarrow> (api_error + accountResponse) list" where
  "bootstrap_run P [] db = []"
| "bootstrap_run P ((now, body) # xs) db =
     (case handleBootstrapClaim P db now body of (resp, db') \<Rightarrow> resp # bootstrap_run P xs db')"

definition invalid_token :: "(api_error + accountResponse) \<Rightarrow> bool" where
  "invalid_token r \<longleftrightarrow> r = Inl (401, ''invalid_token'')"

text \<open>The guesses left before the lock; none when there is no token or it is used.\<close>

definition guesses_left :: "database \<Rightarrow> nat" where
  "guesses_left db = (case db_setup_token db of None \<Rightarrow> 0
     | Some t \<Rightarrow> if tok_used_at t \<noteq> None then 0 else MaxSetupTokenAttempts - tok_failed_attempts t)"

lemma CreateAccount_token: "CreateAccount db a = Inr db' \<Longrightarrow> db_setup_token db' = db_setup_token db"
  by (auto simp: CreateAccount_Inr)

lemma CreateDevice_token: "CreateDevice db d = Inr db' \<Longrightarrow> db_setup_token db' = db_setup_token db"
  by (auto simp: CreateDevice_Inr)

lemma ClaimSetupToken_guesses:
  "ClaimSetupToken P db token a now = Inr db' \<Longrightarrow> 0 < guesses_left db \<and> guesses_left db' = 0"
  by (auto simp: ClaimSetupToken_def guesses_left_def split: option.splits if_splits)

lemma RecordFailed_guesses: "guesses_left (RecordFailedSetupTokenAttempt db) = guesses_left db - 1"
  by (auto simp: RecordFailedSetupTokenAttempt_def guesses_left_def split: option.split)

lemma bootstrap_guesses:
  assumes "handleBootstrapClaim P db now body = (resp, db')"
  shows "(case resp of Inr _ \<Rightarrow> 0 < guesses_left db \<and> guesses_left db' = 0
    | Inl _ \<Rightarrow> guesses_left db' = guesses_left db - (if invalid_token resp then 1 else 0))"
proof (cases resp)
  case (Inl e)
  with assms show ?thesis
    unfolding handleBootstrapClaim_def invalid_token_def Let_def
    by (auto simp: RecordFailed_guesses create_account_error_def create_device_error_def
        decode_registration_def split: option.splits sum.splits if_splits)
next
  case (Inr a)
  with assms obtain tx1 tx2 cd req token d where chain: "CreateAccount db (new_account cd RoleAdmin now) = Inr tx1"
    "CreateDevice tx1 d = Inr tx2" "ClaimSetupToken P tx2 token (cd_AccountID cd) now = Inr db'"
    unfolding handleBootstrapClaim_def Let_def by (auto split: option.splits sum.splits if_splits)
  then have "guesses_left tx2 = guesses_left db"
    by (simp add: guesses_left_def CreateAccount_token CreateDevice_token)
  with ClaimSetupToken_guesses [OF chain(3)] Inr show ?thesis by simp
qed

lemma bootstrap_run_no_guess: "guesses_left db = 0 \<Longrightarrow> r \<in> set (bootstrap_run P xs db) \<Longrightarrow> isl r"
proof (induction P xs db rule: bootstrap_run.induct)
  case (2 P now body xs db)
  obtain resp db' where h: "handleBootstrapClaim P db now body = (resp, db')" by (cases "handleBootstrapClaim P db now body")
  have "isl resp \<and> guesses_left db' = 0"
    using bootstrap_guesses [OF h] 2(2) by (cases resp) auto
  with 2 h show ?case by auto
qed simp

lemma bootstrap_run_success:
  assumes "i < length (bootstrap_run P xs db)" "\<not> isl (bootstrap_run P xs db ! i)"
  shows "(\<forall>j < i. isl (bootstrap_run P xs db ! j))
    \<and> length (filter invalid_token (take i (bootstrap_run P xs db))) < guesses_left db
    \<and> (\<forall>j < length (bootstrap_run P xs db). i < j \<longrightarrow> isl (bootstrap_run P xs db ! j))"
  using assms
proof (induction P xs db arbitrary: i rule: bootstrap_run.induct)
  case (2 P now body xs db)
  obtain resp db' where h: "handleBootstrapClaim P db now body = (resp, db')" by (cases "handleBootstrapClaim P db now body")
  note step = bootstrap_guesses [OF h]
  show ?case
  proof (cases i)
    case 0
    then have "\<not> isl resp" using 2(3) h by simp
    then have "0 < guesses_left db" "guesses_left db' = 0" using step by (cases resp; simp)+
    then show ?thesis using 0 h bootstrap_run_no_guess [of db' _ P xs] by (auto simp: nth_Cons split: nat.split)
  next
    case (Suc k)
    let ?run = "bootstrap_run P xs db'"
    have k: "k < length ?run" "\<not> isl (?run ! k)" using Suc 2(2,3) h by auto
    have IH: "(\<forall>j < k. isl (?run ! j)) \<and> length (filter invalid_token (take k ?run)) < guesses_left db'
        \<and> (\<forall>j < length ?run. k < j \<longrightarrow> isl (?run ! j))"
      by (rule 2(1) [OF h [symmetric] k])
    have "isl resp" using step IH by (cases resp) auto
    then have "guesses_left db' = guesses_left db - (if invalid_token resp then 1 else 0)"
      using step by (cases resp) auto
    with IH have "length (filter invalid_token (take i (resp # ?run))) < guesses_left db"
      using Suc by (auto split: if_splits)
    with IH \<open>isl resp\<close> show ?thesis using Suc h by (auto simp: nth_Cons split: nat.split)
  qed
qed simp

text \<open>
  Among the answers to any sequence of bootstrap claims at most one is a success, and it comes
  before the tenth refusal for a wrong token: once ten guesses have failed the right token is
  refused too.
\<close>

theorem setup_token_locks:
  assumes "i < length (bootstrap_run P xs db)" "\<not> isl (bootstrap_run P xs db ! i)"
  shows "length (filter invalid_token (take i (bootstrap_run P xs db))) < MaxSetupTokenAttempts
    \<and> (\<forall>j < length (bootstrap_run P xs db). j \<noteq> i \<longrightarrow> isl (bootstrap_run P xs db ! j))"
proof -
  have "guesses_left db \<le> MaxSetupTokenAttempts" by (simp add: guesses_left_def split: option.split)
  then show ?thesis using bootstrap_run_success [OF assms] by (meson less_le_trans linorder_neqE_nat)
qed

text \<open>The decoding accepts what a client makes: a certificate signed with the root key of the account.\<close>

lemma signed_cert_fields:
  assumes "ed25519_correct P" "SignDeviceCertificate P acc d pk t priv = Inr c"
  shows "c = \<lparr>dc_AccountID = acc, dc_DeviceID = d, dc_DevicePubKey = pk, dc_IssuedAt = t, dc_Signature = dc_Signature c\<rparr>
    \<and> length (dc_Signature c) = 64"
  using assms by (auto simp: SignDeviceCertificate_def ed25519_correct_def Let_def split: sum.splits)

lemma decode_honest_registration:
  assumes "ed25519_correct P" "DeriveID P (ed25519_public P priv) = Inr acc" "length pk = 32"
    "SignDeviceCertificate P acc d pk t priv = Inr c" "parse_rfc3339 issued = Some t"
  shows "decode_registration P (base64_encode (ed25519_public P priv)) d (base64_encode pk) issued
      (base64_encode (dc_Signature c)) = Inr \<lparr>cd_AccountID = acc, cd_RootPub = ed25519_public P priv,
      cd_DevicePub = pk, cd_IssuedAt = t, cd_Sig = dc_Signature c\<rparr>"
proof -
  have c: "c = \<lparr>dc_AccountID = acc, dc_DeviceID = d, dc_DevicePubKey = pk, dc_IssuedAt = t, dc_Signature = dc_Signature c\<rparr>"
    and "length (dc_Signature c) = 64"
    using signed_cert_fields [OF assms(1,4)] by blast+
  with device_cert_sign_verify [OF assms(1,4)] assms show ?thesis
    by (simp add: decode_registration_def decodeBase64Key_def b64_decode_encode ed25519_correct_def)
qed

definition sample_root :: bytes where
  "sample_root = ''root secret''"

definition sample_bootstrap_db :: database where
  "sample_bootstrap_db = empty_database\<lparr>db_setup_token := Some \<lparr>tok_hash = hashToken sample_platform ''ABCD2345'',
     tok_created_at = 0, tok_used_at = None, tok_used_by = None, tok_failed_attempts = 0\<rparr>\<rparr>"

definition sample_bootstrap :: "string \<Rightarrow> bootstrapClaimRequest" where
  "sample_bootstrap token =
     (let root = ed25519_public sample_platform sample_root;
          devicePub = ed25519_public sample_platform sample_secret;
          account = projr (DeriveID sample_platform root);
          cert = projr (SignDeviceCertificate sample_platform account ''0011223344556677'' devicePub 0 sample_root)
      in \<lparr>bc_SetupToken = token, bc_RootPubKey = base64_encode root, bc_DeviceID = ''0011223344556677'',
          bc_DevicePubKey = base64_encode devicePub, bc_DeviceCertIssuedAt = ''1970-01-01T00:00:00Z'',
          bc_DeviceCertSignature = base64_encode (dc_Signature cert)\<rparr>)"

lemma sample_registration:
  "\<exists>cd. decode_registration sample_platform (bc_RootPubKey (sample_bootstrap token)) (bc_DeviceID (sample_bootstrap token))
     (bc_DevicePubKey (sample_bootstrap token)) (bc_DeviceCertIssuedAt (sample_bootstrap token))
     (bc_DeviceCertSignature (sample_bootstrap token)) = Inr cd"
proof -
  let ?root = "ed25519_public sample_platform sample_root" and ?pk = "ed25519_public sample_platform sample_secret"
  have "\<not> isl (DeriveID sample_platform ?root)" by code_simp
  then obtain acc where acc: "DeriveID sample_platform ?root = Inr acc"
    by (cases "DeriveID sample_platform ?root") auto
  have len: "length ?pk = 32" by code_simp
  have "\<not> isl (decodeDeviceID ''0011223344556677'')" by code_simp
  with len obtain c where c: "SignDeviceCertificate sample_platform acc ''0011223344556677'' ?pk 0 sample_root = Inr c"
    by (cases "decodeDeviceID ''0011223344556677''")
      (simp_all add: SignDeviceCertificate_def device_cert_signingBytes_def Let_def)
  have "parse_rfc3339 ''1970-01-01T00:00:00Z'' = Some 0" by code_simp
  from decode_honest_registration [OF sample_platform_laws(2) acc len c this] show ?thesis
    by (simp add: sample_bootstrap_def Let_def acc c)
qed

definition sample_claims :: "(time \<times> bootstrapClaimRequest option) list" where
  "sample_claims = [(0, Some (sample_bootstrap ''ABCD2346'')), (second, Some (sample_bootstrap ''abcd-2345''))]"

lemma sample_token_checked:
  "NormalizeSetupToken sample_platform ''abcd-2345'' = ''ABCD2345''"
  "NormalizeSetupToken sample_platform ''ABCD2346'' = ''ABCD2346''"
  "hashToken sample_platform ''ABCD2345'' \<noteq> hashToken sample_platform ''ABCD2346''"
proof -
  have "spelled ''abcd-2345'' = ''ABCD2345''" "spelled ''ABCD2346'' = ''ABCD2346''" by code_simp+
  then show "NormalizeSetupToken sample_platform ''abcd-2345'' = ''ABCD2345''"
    "NormalizeSetupToken sample_platform ''ABCD2346'' = ''ABCD2346''"
    by (simp_all add: NormalizeSetupToken_def code_Normalize_ascii ascii_def)
  have "sha256 sample_platform ''ABCD2345'' \<noteq> sha256 sample_platform ''ABCD2346''" by code_simp
  then show "hashToken sample_platform ''ABCD2345'' \<noteq> hashToken sample_platform ''ABCD2346''"
    by (metis hashToken_def hex_decode_encode option.inject)
qed

lemma sample_claims_run:
  "map isl (bootstrap_run sample_platform sample_claims sample_bootstrap_db) = [True, False]
    \<and> invalid_token (hd (bootstrap_run sample_platform sample_claims sample_bootstrap_db))"
proof -
  obtain cd where cd: "decode_registration sample_platform (bc_RootPubKey (sample_bootstrap token)) (bc_DeviceID (sample_bootstrap token))
     (bc_DevicePubKey (sample_bootstrap token)) (bc_DeviceCertIssuedAt (sample_bootstrap token))
     (bc_DeviceCertSignature (sample_bootstrap token)) = Inr cd" for token
    using sample_registration by (auto simp: sample_bootstrap_def Let_def)
  have tok: "bc_SetupToken (sample_bootstrap token) = token" for token by (simp add: sample_bootstrap_def Let_def)
  show ?thesis
    by (simp add: sample_claims_def handleBootstrapClaim_def cd tok CreateAccount_def CreateDevice_def new_account_def
        new_device_def sample_bootstrap_db_def empty_database_def ClaimSetupToken_def sample_token_checked
        RecordFailedSetupTokenAttempt_def MaxSetupTokenAttempts_def invalid_token_def Let_def)
qed

theorem setup_token_locks_witness:
  "\<not> isl (bootstrap_run sample_platform sample_claims sample_bootstrap_db ! 1)
    \<and> length (filter invalid_token (take 1 (bootstrap_run sample_platform sample_claims sample_bootstrap_db)))
      < MaxSetupTokenAttempts"
proof -
  let ?run = "bootstrap_run sample_platform sample_claims sample_bootstrap_db"
  have run: "map isl ?run = [True, False]" using sample_claims_run by blast
  then have "length ?run = 2" by (metis length_map length_Cons list.size(3) numeral_2_eq_2)
  moreover have "\<not> isl (?run ! 1)" using run calculation nth_map [of 1 ?run isl] by simp
  ultimately show ?thesis using setup_token_locks [of 1 sample_platform sample_claims sample_bootstrap_db] by simp
qed

section \<open>Recovery\<close>

definition active_of :: "database \<Rightarrow> string \<Rightarrow> Device set" where
  "active_of db a = {d \<in> set (db_devices db). dev_AccountID d = a \<and> dev_Status d = DeviceStatusActive}"

text \<open>What revoking leaves: no active device of the account under that id, the rest as it was.\<close>

definition revoked_from :: "string \<Rightarrow> string set \<Rightarrow> database \<Rightarrow> database \<Rightarrow> bool" where
  "revoked_from a ids db db' \<longleftrightarrow> active_of db' a = {d \<in> active_of db a. dev_DeviceID d \<notin> ids}
     \<and> filter (\<lambda>d. dev_AccountID d \<noteq> a) (db_devices db') = filter (\<lambda>d. dev_AccountID d \<noteq> a) (db_devices db)
     \<and> (\<exists>ds. db' = db\<lparr>db_devices := ds\<rparr>)"

lemma revoked_from_trans:
  "revoked_from a X db1 db2 \<Longrightarrow> revoked_from a Y db2 db3 \<Longrightarrow> revoked_from a (X \<union> Y) db1 db3"
  unfolding revoked_from_def by auto

lemma RevokeDevice_from:
  assumes "RevokeDevice db a i t = Inr db'"
  shows "revoked_from a {i} db db'"
proof -
  let ?p = "\<lambda>d. dev_DeviceID d = i \<and> dev_AccountID d = a \<and> dev_Status d = DeviceStatusActive"
  let ?f = "\<lambda>d. d\<lparr>dev_Status := DeviceStatusRevoked, dev_RevokedAt := Some (formatTime t)\<rparr>"
  have eq: "db' = db\<lparr>db_devices := row_update ?p ?f (db_devices db)\<rparr>"
    using assms by (simp add: RevokeDevice_def Let_def split: if_splits)
  have "filter (\<lambda>d. dev_AccountID d \<noteq> a) (row_update ?p ?f (db_devices db)) = filter (\<lambda>d. dev_AccountID d \<noteq> a) (db_devices db)"
    by (rule filter_row_update) auto
  moreover have "active_of db' a = {d \<in> active_of db a. dev_DeviceID d \<notin> {i}}"
  proof -
    let ?q = "\<lambda>d. dev_AccountID d = a \<and> dev_Status d = DeviceStatusActive"
    have "filter (\<lambda>d. ?q d \<and> dev_DeviceID d \<noteq> i) (row_update ?p ?f (db_devices db)) =
        filter (\<lambda>d. ?q d \<and> dev_DeviceID d \<noteq> i) (db_devices db)"
      by (rule filter_row_update) auto
    then have "{d \<in> set (row_update ?p ?f (db_devices db)). ?q d \<and> dev_DeviceID d \<noteq> i} =
        {d \<in> set (db_devices db). ?q d \<and> dev_DeviceID d \<noteq> i}"
      unfolding set_filter [symmetric] by simp
    then have "{d \<in> active_of db' a. dev_DeviceID d \<noteq> i} = {d \<in> active_of db a. dev_DeviceID d \<noteq> i}"
      unfolding active_of_def eq by (simp add: conj_assoc)
    moreover have "\<forall>d \<in> set (row_update ?p ?f (db_devices db)). \<not> ?p d"
      unfolding row_update_def set_map ball_simps by (simp add: status_defs)
    then have "{d \<in> active_of db' a. dev_DeviceID d = i} = {}" unfolding active_of_def eq by auto
    ultimately show ?thesis by blast
  qed
  ultimately show ?thesis unfolding revoked_from_def by (auto simp: eq)
qed

lemma revoke_others_from:
  assumes "revoke_others db a keep t ds = Inr db'"
  shows "revoked_from a {dev_DeviceID d | d. d \<in> set ds \<and> dev_DeviceID d \<noteq> keep \<and> dev_Status d = DeviceStatusActive} db db'"
  using assms
proof (induction db a keep t ds rule: revoke_others.induct)
  case (1 db a keep t)
  then show ?case using exI [of "\<lambda>ds. db = db\<lparr>db_devices := ds\<rparr>" "db_devices db"] by (simp add: revoked_from_def)
next
  case (2 db a keep t d ds)
  let ?X = "\<lambda>ds. {dev_DeviceID d | d. d \<in> set ds \<and> dev_DeviceID d \<noteq> keep \<and> dev_Status d = DeviceStatusActive}"
  show ?case
  proof (cases "dev_DeviceID d = keep \<or> dev_Status d \<noteq> DeviceStatusActive")
    case True
    then have "?X (d # ds) = ?X ds" by auto
    with 2 True show ?thesis by simp
  next
    case False
    then have X: "?X (d # ds) = {dev_DeviceID d} \<union> ?X ds" by auto
    have "\<exists>db1. revoked_from a {dev_DeviceID d} db db1 \<and> revoke_others db1 a keep t ds = Inr db' \<and> revoked_from a (?X ds) db1 db'"
    proof (cases "RevokeDevice db a (dev_DeviceID d) t")
      case (Inl e)
      then have "e = ErrNotFound" and none: "\<not> (\<exists>x \<in> set (db_devices db). dev_DeviceID x = dev_DeviceID d
          \<and> dev_AccountID x = a \<and> dev_Status x = DeviceStatusActive)"
        by (auto simp: RevokeDevice_def Let_def row_count_0 split: if_splits)
      then have "revoked_from a {dev_DeviceID d} db db"
        using exI [of "\<lambda>ds. db = db\<lparr>db_devices := ds\<rparr>" "db_devices db"] by (auto simp: revoked_from_def active_of_def)
      with 2 False Inl \<open>e = ErrNotFound\<close> show ?thesis by auto
    next
      case (Inr db1)
      then show ?thesis using 2 False RevokeDevice_from [OF Inr] by auto
    qed
    then show ?thesis unfolding X using revoked_from_trans by blast
  qed
qed

lemma handleRecoverAccount_Inr:
  assumes "handleRecoverAccount P db now r path decode = (Inr resp, db')"
  obtains account ident body i db1 pk t sig tx where
    "Normalize P path = Inr ident" "GetAccount db ident = Inr account" "readBody r = Inr body"
    "verifyRootSignature P db now r body account = (True, db1)" "acc_Status account = AccountStatusActive"
    "device_cert_Verify P \<lparr>dc_AccountID = acc_ID account, dc_DeviceID = i, dc_DevicePubKey = pk,
       dc_IssuedAt = t, dc_Signature = sig\<rparr> (acc_RootPubKey account) = Inr ()"
    "CreateDevice db1 (new_device (i) (acc_ID account) pk t sig now) = Inr tx"
    "revoke_others tx (acc_ID account) (i) now (ListDevicesByAccount db1 (acc_ID account)) = Inr db'"
  using assms unfolding handleRecoverAccount_def Let_def
  by (auto split: option.splits sum.splits prod.splits if_splits)

lemma verifyRootSignature_True:
  assumes "verifyRootSignature P db now r body account = (True, db')"
  obtains h ts where "ParseRequestHeaders r = Some h" "ParseTimestamp (h_Timestamp h) = Some ts" "WithinSkew ts now MaxClockSkew"
    "httpsig_Verify P (CanonicalStringFromRequest P r h body) (h_Signature h) (acc_RootPubKey account) = Inr ()"
    "RecordNonce db (h_KeyID h) (h_Nonce h) ts (time_add ts MaxClockSkew) = (True, db')"
  using assms unfolding verifyRootSignature_def by (auto split: option.splits sum.splits if_splits)

lemma new_device_sels [simp]:
  "dev_DeviceID (new_device i a pk t sig now) = i" "dev_AccountID (new_device i a pk t sig now) = a"
  "dev_DevicePubKey (new_device i a pk t sig now) = pk" "dev_Status (new_device i a pk t sig now) = DeviceStatusActive"
  "dev_CertSignature (device_row (new_device i a pk t sig now)) = sig"
  by (simp_all add: new_device_def device_row_def)

lemma recovered_devices:
  assumes create: "CreateDevice db (new_device i a pk t sig now) = Inr tx"
    and revoke: "revoke_others tx a i now (ListDevicesByAccount db a) = Inr db'"
  shows "active_of db' a = {device_row (new_device i a pk t sig now)}"
    "filter (\<lambda>d. dev_AccountID d \<noteq> a) (db_devices db') = filter (\<lambda>d. dev_AccountID d \<noteq> a) (db_devices db)"
    "db_accounts db' = db_accounts db" "db_used_nonces db' = db_used_nonces db"
proof -
  let ?new = "device_row (new_device i a pk t sig now)"
  let ?ids = "{dev_DeviceID d | d. d \<in> set (ListDevicesByAccount db a) \<and> dev_DeviceID d \<noteq> i \<and> dev_Status d = DeviceStatusActive}"
  have tx: "tx = db\<lparr>db_devices := db_devices db @ [?new]\<rparr>" and fresh: "i \<notin> device_ids db"
    using create by (simp_all add: CreateDevice_Inr)
  have rv: "revoked_from a ?ids tx db'" by (rule revoke_others_from [OF revoke])
  have listed: "set (ListDevicesByAccount db a) = scanDeviceFields ` {d \<in> set (db_devices db). dev_AccountID d = a}"
    by (simp add: ListDevicesByAccount_def)
  have ids: "?ids = dev_DeviceID ` active_of db a"
    unfolding listed using fresh by (force simp: active_of_def scanDeviceFields_sels)
  have new: "dev_AccountID ?new = a" "dev_Status ?new = DeviceStatusActive" "dev_DeviceID ?new = i"
    by simp_all
  have "active_of tx a = insert ?new (active_of db a)" using new by (auto simp: tx active_of_def)
  moreover have "i \<notin> dev_DeviceID ` active_of db a" using fresh by (auto simp: active_of_def)
  ultimately show "active_of db' a = {?new}" using rv new(3) unfolding revoked_from_def ids by auto
  show "filter (\<lambda>d. dev_AccountID d \<noteq> a) (db_devices db') = filter (\<lambda>d. dev_AccountID d \<noteq> a) (db_devices db)"
    "db_accounts db' = db_accounts db" "db_used_nonces db' = db_used_nonces db"
    using rv new(1) by (auto simp: revoked_from_def tx)
qed

text \<open>
  C19: A recovery that succeeds was signed with the root key of the account named in the path, an
  active account, by a request whose nonce had not been used and now has; the device it adds carries
  a certificate that verifies under the same key and is afterwards the only active device of the
  account, while the devices of all other accounts, and all accounts, are untouched.
\<close>

theorem recovery_takes_over:
  assumes "handleRecoverAccount P db now r path decode = (Inr resp, db')"
  shows "\<exists>account body h d t. account \<in> set (db_accounts db) \<and> Normalize P path = Inr (acc_ID account)
    \<and> acc_Status account = AccountStatusActive \<and> Body r = Some body \<and> ParseRequestHeaders r = Some h
    \<and> httpsig_Verify P (CanonicalStringFromRequest P r h body) (h_Signature h) (acc_RootPubKey account) = Inr ()
    \<and> (h_KeyID h, h_Nonce h) \<notin> (\<lambda>n. (un_device_id n, un_nonce n)) ` set (db_used_nonces db)
    \<and> (h_KeyID h, h_Nonce h) \<in> (\<lambda>n. (un_device_id n, un_nonce n)) ` set (db_used_nonces db')
    \<and> active_of db' (acc_ID account) = {d} \<and> dev_DeviceID d \<notin> device_ids db
    \<and> device_cert_Verify P \<lparr>dc_AccountID = acc_ID account, dc_DeviceID = dev_DeviceID d,
         dc_DevicePubKey = dev_DevicePubKey d, dc_IssuedAt = t, dc_Signature = dev_CertSignature d\<rparr>
         (acc_RootPubKey account) = Inr ()
    \<and> filter (\<lambda>d. dev_AccountID d \<noteq> acc_ID account) (db_devices db') =
        filter (\<lambda>d. dev_AccountID d \<noteq> acc_ID account) (db_devices db)
    \<and> db_accounts db' = db_accounts db"
proof -
  obtain account ident body i db1 pk t sig tx where acc: "Normalize P path = Inr ident" "GetAccount db ident = Inr account"
      "readBody r = Inr body" "acc_Status account = AccountStatusActive"
    and root: "verifyRootSignature P db now r body account = (True, db1)"
    and cert: "device_cert_Verify P \<lparr>dc_AccountID = acc_ID account, dc_DeviceID = i, dc_DevicePubKey = pk,
       dc_IssuedAt = t, dc_Signature = sig\<rparr> (acc_RootPubKey account) = Inr ()"
    and create: "CreateDevice db1 (new_device i (acc_ID account) pk t sig now) = Inr tx"
    and revoke: "revoke_others tx (acc_ID account) i now (ListDevicesByAccount db1 (acc_ID account)) = Inr db'"
    using assms by (elim handleRecoverAccount_Inr)
  obtain h ts where h: "ParseRequestHeaders r = Some h"
    "httpsig_Verify P (CanonicalStringFromRequest P r h body) (h_Signature h) (acc_RootPubKey account) = Inr ()"
    "RecordNonce db (h_KeyID h) (h_Nonce h) ts (time_add ts MaxClockSkew) = (True, db1)"
    using root by (elim verifyRootSignature_True)
  have nonce: "(h_KeyID h, h_Nonce h) \<notin> (\<lambda>n. (un_device_id n, un_nonce n)) ` set (db_used_nonces db)"
    "(h_KeyID h, h_Nonce h) \<in> (\<lambda>n. (un_device_id n, un_nonce n)) ` set (db_used_nonces db1)"
    "db_devices db1 = db_devices db" "db_accounts db1 = db_accounts db"
    using h(3) by (auto simp: RecordNonce_def list_ex_iff split: if_splits)
  let ?d = "device_row (new_device i (acc_ID account) pk t sig now)"
  have "i \<notin> device_ids db" using create nonce(3) by (auto simp: CreateDevice_Inr)
  moreover have "Body r = Some body" using acc(3) by (simp add: readBody_def split: option.splits)
  ultimately show ?thesis
    using GetAccount_mem [OF acc(2)] acc h(1,2) nonce cert recovered_devices [OF create revoke]
    by (intro exI [of _ account] exI [of _ body] exI [of _ h] exI [of _ ?d] exI [of _ t]) simp
qed

text \<open>An owner who holds the root key gets through.\<close>

lemma revoke_others_total: "\<exists>db'. revoke_others db a keep t ds = Inr db'"
  by (induction db a keep t ds rule: revoke_others.induct)
    (auto simp: RevokeDevice_def Let_def split: if_splits)

lemma base64_encode_nonempty: "bs \<noteq> [] \<Longrightarrow> base64_encode bs \<noteq> []"
proof
  assume "bs \<noteq> []" "base64_encode bs = []"
  then have "b64_decode False True (b64_encode False True bs) = b64_decode False True []" by simp
  moreover have "b64_decode False True (b64_encode False True []) = Some []" by (rule b64_decode_encode)
  ultimately show False using \<open>bs \<noteq> []\<close> by (simp add: b64_decode_encode)
qed

lemma verifyRootSignature_honest:
  assumes "ed25519_correct P" "acc_RootPubKey account = ed25519_public P priv" "nonce \<noteq> []"
    "- (2 ^ 62) \<le> unix_seconds t" "unix_seconds t < 2 ^ 62" "WithinSkew (truncate_second t) now MaxClockSkew"
    "(base64_encode (ed25519_public P priv), nonce) \<notin> (\<lambda>n. (un_device_id n, un_nonce n)) ` set (db_used_nonces db)"
  shows "\<exists>n. verifyRootSignature P db now
      (client_request P priv (base64_encode (ed25519_public P priv)) m p q body t nonce) body account
      = (True, db\<lparr>db_used_nonces := db_used_nonces db @ [n]\<rparr>)"
proof -
  let ?key = "base64_encode (ed25519_public P priv)"
  let ?r = "client_request P priv ?key m p q body t nonce"
  let ?h = "\<lparr>h_KeyID = ?key, h_Timestamp = FormatTimestamp t, h_Nonce = nonce,
    h_Signature = httpsig_Sign P m p q body ?key t nonce priv\<rparr>"
  have "ed25519_public P priv \<noteq> []" using assms(1) unfolding ed25519_correct_def
    by (metis list.size(3) zero_neq_numeral)
  then have h: "ParseRequestHeaders ?r = Some ?h"
    using assms(1,3) by (simp add: ParseRequestHeaders_def client_signature_nonempty base64_encode_nonempty FormatTimestamp_def)
  have fresh: "\<not> list_ex (\<lambda>n. un_device_id n = ?key \<and> un_nonce n = nonce) (db_used_nonces db)"
    using assms(7) unfolding list_ex_iff by force
  have can: "CanonicalStringFromRequest P ?r ?h body = CanonicalString P m p q (FormatTimestamp t) nonce ?key body"
    by (simp add: client_request_def CanonicalStringFromRequest_def)
  show ?thesis
    unfolding verifyRootSignature_def h using fresh
    by (simp add: can signed_request_verifies_pair [OF assms(1,4,5)] assms(2,6) RecordNonce_def) (rule exI, rule refl)
qed

lemma honest_recovery:
  assumes "verifyRootSignature P db now r body account = (True, db1)" "db_devices db1 = db_devices db" "db_accounts db1 = db_accounts db"
    and "Normalize P path = Inr ident" "GetAccount db ident = Inr account" "acc_Status account = AccountStatusActive"
    and "Body r = Some body" "decode body = Some \<lparr>rc_DeviceID = i, rc_DevicePubKey = base64_encode pk,
      rc_DeviceCertIssuedAt = issued, rc_DeviceCertSignature = base64_encode sig\<rparr>"
    and "i \<noteq> []" "length pk = 32" "length sig = 64" "issued \<noteq> []" "parse_rfc3339 issued = Some t" "i \<notin> device_ids db"
    and "device_cert_Verify P \<lparr>dc_AccountID = ident, dc_DeviceID = i, dc_DevicePubKey = pk,
       dc_IssuedAt = t, dc_Signature = sig\<rparr> (acc_RootPubKey account) = Inr ()"
  shows "\<exists>resp db'. handleRecoverAccount P db now r path decode = (Inr resp, db')"
proof -
  have acc: "account \<in> set (db_accounts db)" "acc_ID account = ident" using GetAccount_mem [OF assms(5)] by simp_all
  then have "\<exists>tx. CreateDevice db1 (new_device i ident pk t sig now) = Inr tx"
    using assms(2,3,14) by (auto simp: CreateDevice_Inr)
  moreover have "base64_encode pk \<noteq> []" "base64_encode sig \<noteq> []"
    by (rule base64_encode_nonempty, use assms(10,11) in force)+
  moreover have "\<exists>db'. revoke_others tx ident i now ds = Inr db'" for tx ds by (rule revoke_others_total)
  ultimately show ?thesis
    using assms acc unfolding handleRecoverAccount_def readBody_def
    by (auto simp: decodeBase64Key_def b64_decode_encode Let_def split: sum.split) (metis sum.distinct(1))+
qed

definition sample_recovery_device :: DeviceCertificate where
  "sample_recovery_device = projr (SignDeviceCertificate sample_platform sample_id ''0011223344556677''
     (ed25519_public sample_platform sample_secret) 0 ''sample root key'')"

definition sample_recovery_db :: database where
  "sample_recovery_db = empty_database\<lparr>db_accounts := [(sample_account sample_id)\<lparr>acc_RootPubKey := sample_key\<rparr>],
     db_devices := [sample_device ''a1'' sample_id]\<rparr>"

definition sample_recovery :: http_request where
  "sample_recovery = client_request sample_platform ''sample root key'' (base64_encode sample_key) ''POST''
     ''/v1/accounts/recover'' [] ''{}'' 0 ''n1''"

definition sample_recovery_body :: "bytes \<Rightarrow> recoverAccountRequest option" where
  "sample_recovery_body body = Some \<lparr>rc_DeviceID = ''0011223344556677'',
     rc_DevicePubKey = base64_encode (dc_DevicePubKey sample_recovery_device), rc_DeviceCertIssuedAt = ''1970-01-01T00:00:00Z'',
     rc_DeviceCertSignature = base64_encode (dc_Signature sample_recovery_device)\<rparr>"

lemma sample_recovery_cert:
  "SignDeviceCertificate sample_platform sample_id ''0011223344556677'' (ed25519_public sample_platform sample_secret)
     0 ''sample root key'' = Inr sample_recovery_device"
proof -
  have "\<not> isl (decodeDeviceID ''0011223344556677'')" by code_simp
  moreover have "length (ed25519_public sample_platform sample_secret) = 32" by code_simp
  ultimately show ?thesis unfolding sample_recovery_device_def
    by (cases "decodeDeviceID ''0011223344556677''")
      (simp_all add: SignDeviceCertificate_def device_cert_signingBytes_def Let_def)
qed

lemma sample_recovery_succeeds:
  "\<exists>resp db'. handleRecoverAccount sample_platform sample_recovery_db 0 sample_recovery sample_id sample_recovery_body = (Inr resp, db')"
proof -
  let ?acc = "(sample_account sample_id)\<lparr>acc_RootPubKey := sample_key\<rparr>"
  have key: "ed25519_public sample_platform ''sample root key'' = sample_key"
    by (simp add: sample_platform_def sample_key_def)
  have get: "GetAccount sample_recovery_db sample_id = Inr ?acc"
    by (simp add: GetAccount_def row_get_def sample_recovery_db_def sample_account_def)
  have "\<exists>n. verifyRootSignature sample_platform sample_recovery_db 0 sample_recovery ''{}'' ?acc
      = (True, sample_recovery_db\<lparr>db_used_nonces := db_used_nonces sample_recovery_db @ [n]\<rparr>)"
    using verifyRootSignature_honest [OF sample_platform_laws(2), of ?acc "''sample root key''" "''n1''" 0 0
        sample_recovery_db "''POST''" "''/v1/accounts/recover''" "[]" "''{}''"]
    by (simp add: key sample_recovery_def sample_recovery_db_def empty_database_def WithinSkew_def time_sub_def
        unix_seconds_def truncate_second_def second_def MaxClockSkew_def minute_def neg_duration_def)
  then obtain n where n: "verifyRootSignature sample_platform sample_recovery_db 0 sample_recovery ''{}'' ?acc
      = (True, sample_recovery_db\<lparr>db_used_nonces := db_used_nonces sample_recovery_db @ [n]\<rparr>)" by blast
  have c: "sample_recovery_device = \<lparr>dc_AccountID = sample_id, dc_DeviceID = ''0011223344556677'',
      dc_DevicePubKey = ed25519_public sample_platform sample_secret, dc_IssuedAt = 0,
      dc_Signature = dc_Signature sample_recovery_device\<rparr>" and sig: "length (dc_Signature sample_recovery_device) = 64"
    using signed_cert_fields [OF sample_platform_laws(2) sample_recovery_cert] by blast+
  then have pk: "dc_DevicePubKey sample_recovery_device = ed25519_public sample_platform sample_secret"
    by (metis DeviceCertificate.select_convs(3))
  have v: "device_cert_Verify sample_platform \<lparr>dc_AccountID = sample_id, dc_DeviceID = ''0011223344556677'',
      dc_DevicePubKey = ed25519_public sample_platform sample_secret, dc_IssuedAt = 0,
      dc_Signature = dc_Signature sample_recovery_device\<rparr> sample_key = Inr ()"
    using device_cert_sign_verify [OF sample_platform_laws(2) sample_recovery_cert] c key by metis
  have "length (ed25519_public sample_platform sample_secret) = 32" by code_simp
  moreover have "parse_rfc3339 ''1970-01-01T00:00:00Z'' = Some 0" by code_simp
  ultimately show ?thesis
    by (intro honest_recovery [OF n _ _ sample_id_normal get])
      (use v sig pk in \<open>simp_all add: sample_recovery_body_def sample_recovery_def client_request_def sample_account_def
         sample_recovery_db_def sample_device_def\<close>)
qed

theorem recovery_takes_over_witness:
  "\<exists>resp db' d. handleRecoverAccount sample_platform sample_recovery_db 0 sample_recovery sample_id sample_recovery_body = (Inr resp, db')
     \<and> active_of db' sample_id = {d} \<and> dev_DeviceID d \<noteq> ''a1''"
proof -
  obtain resp db' where run: "handleRecoverAccount sample_platform sample_recovery_db 0 sample_recovery sample_id sample_recovery_body = (Inr resp, db')"
    using sample_recovery_succeeds by blast
  obtain account :: Account and d where "Normalize sample_platform sample_id = Inr (acc_ID account)" "active_of db' (acc_ID account) = {d}"
    "dev_DeviceID d \<notin> device_ids sample_recovery_db"
    using recovery_takes_over [OF run] by blast
  then show ?thesis using run by (auto simp: sample_id_normal sample_recovery_db_def sample_device_def)
qed

end
