(* ===== verification/Broker.thy ===== *)
theory Broker
  imports Store_Integrity
begin

text \<open>
  \<open>internal/api/broker.go\<close>: the fan-out of queued messages to the open streams of a device. A
  channel is its identity together with what its buffer holds; the map from devices to their channels
  is an association list. Every operation runs under the broker's mutex, so an operation is a step.
\<close>

section \<open>State and operations\<close>

definition chan_cap :: nat where "chan_cap = 16"

record channel =
  ch_id :: nat
  ch_buf :: "Message list"

record messageBroker =
  br_subs :: "(string \<times> channel list) list"
  br_next :: nat

definition newMessageBroker :: messageBroker where
  "newMessageBroker = \<lparr>br_subs = [], br_next = 0\<rparr>"

text \<open>\<open>b.subs[deviceID]\<close>; a missing key reads as the empty slice.\<close>

definition subs_of :: "messageBroker \<Rightarrow> string \<Rightarrow> channel list" where
  "subs_of b deviceID = (case assoc_get (br_subs b) deviceID of None \<Rightarrow> [] | Some cs \<Rightarrow> cs)"

datatype broker_error = ErrTooManyStreams

text \<open>\<open>br_next\<close> numbers the channels ever made; \<open>make\<close> gives a channel no other is equal to.\<close>

definition subscribe :: "messageBroker \<Rightarrow> string \<Rightarrow> int \<Rightarrow> broker_error + (nat \<times> messageBroker)" where
  "subscribe b deviceID maxPerDevice =
     (if int (length (subs_of b deviceID)) \<ge> maxPerDevice then Inl ErrTooManyStreams
      else let c = br_next b in
        Inr (c, b\<lparr>br_next := Suc c,
                  br_subs := assoc_put (br_subs b) deviceID (subs_of b deviceID @ [\<lparr>ch_id = c, ch_buf = []\<rparr>])\<rparr>))"

fun drop_channel :: "nat \<Rightarrow> channel list \<Rightarrow> channel list" where
  "drop_channel c [] = []"
| "drop_channel c (x # xs) = (if ch_id x = c then xs else x # drop_channel c xs)"

definition unsubscribe :: "messageBroker \<Rightarrow> string \<Rightarrow> nat \<Rightarrow> messageBroker" where
  "unsubscribe b deviceID c =
     (let subs = drop_channel c (subs_of b deviceID) in
      if subs = [] then b\<lparr>br_subs := assoc_del (br_subs b) deviceID\<rparr>
      else b\<lparr>br_subs := assoc_put (br_subs b) deviceID subs\<rparr>)"

definition has_room :: "channel \<Rightarrow> bool" where
  "has_room c \<longleftrightarrow> length (ch_buf c) < chan_cap"

definition hasResponsiveSubscriber :: "messageBroker \<Rightarrow> string \<Rightarrow> bool" where
  "hasResponsiveSubscriber b deviceID = list_ex has_room (subs_of b deviceID)"

fun offer :: "Message \<Rightarrow> channel list \<Rightarrow> bool \<times> channel list" where
  "offer msg [] = (False, [])"
| "offer msg (c # cs) = (case offer msg cs of (delivered, cs') \<Rightarrow>
     if has_room c then (True, c\<lparr>ch_buf := ch_buf c @ [msg]\<rparr> # cs') else (delivered, c # cs'))"

text \<open>Sending to channels changes their contents, not the map, so a device without streams stays absent.\<close>

definition publish :: "messageBroker \<Rightarrow> string \<Rightarrow> Message \<Rightarrow> bool \<times> messageBroker" where
  "publish b deviceID msg =
     (case assoc_get (br_subs b) deviceID of None \<Rightarrow> (False, b)
      | Some cs \<Rightarrow> (case offer msg cs of (delivered, cs') \<Rightarrow> (delivered, b\<lparr>br_subs := assoc_put (br_subs b) deviceID cs'\<rparr>)))"

text \<open>\<open>msg := <-ch\<close> in the stream handler: the oldest buffered message, if there is one.\<close>

definition receive_from :: "messageBroker \<Rightarrow> string \<Rightarrow> nat \<Rightarrow> messageBroker" where
  "receive_from b deviceID c =
     (case assoc_get (br_subs b) deviceID of None \<Rightarrow> b
      | Some cs \<Rightarrow> b\<lparr>br_subs := assoc_put (br_subs b) deviceID
          (map (\<lambda>x. if ch_id x = c then x\<lparr>ch_buf := tl (ch_buf x)\<rparr> else x) cs)\<rparr>)"

section \<open>What an operation does to a device's streams\<close>

named_theorems broker_simps "the streams of a device after an operation"

lemma subscribe_subs [broker_simps]:
  "subscribe b d n = Inr (c, b') \<Longrightarrow>
     subs_of b' e = (if e = d then subs_of b d @ [\<lparr>ch_id = c, ch_buf = []\<rparr>] else subs_of b e)"
  by (auto simp: subscribe_def subs_of_def Let_def assoc_get_put split: if_splits)

lemma unsubscribe_subs [broker_simps]:
  "subs_of (unsubscribe b d c) e = (if e = d then drop_channel c (subs_of b d) else subs_of b e)"
  by (auto simp: unsubscribe_def subs_of_def Let_def assoc_get_put assoc_get_del split: option.split)

lemma publish_subs [broker_simps]:
  "subs_of (snd (publish b d m)) e = (if e = d then snd (offer m (subs_of b d)) else subs_of b e)"
  by (auto simp: publish_def subs_of_def assoc_get_put split: option.split prod.split)

lemma publish_delivered [broker_simps]: "fst (publish b d m) = fst (offer m (subs_of b d))"
  by (auto simp: publish_def subs_of_def split: option.split prod.split)

lemma receive_subs [broker_simps]:
  "subs_of (receive_from b d c) e = (if e = d
     then map (\<lambda>x. if ch_id x = c then x\<lparr>ch_buf := tl (ch_buf x)\<rparr> else x) (subs_of b d) else subs_of b e)"
  by (auto simp: receive_from_def subs_of_def assoc_get_put split: option.split)

lemma offer_fst: "fst (offer m cs) = list_ex has_room cs"
  by (induction cs) (auto split: prod.split)

lemma offer_snd: "snd (offer m cs) = map (\<lambda>c. if has_room c then c\<lparr>ch_buf := ch_buf c @ [m]\<rparr> else c) cs"
  by (induction cs) (auto split: prod.split)

lemma drop_channel_set: "set (drop_channel c cs) \<subseteq> set cs"
  by (induction cs) auto

lemma drop_channel_length: "length (drop_channel c cs) \<le> length cs"
  by (induction cs) auto

section \<open>Histories\<close>

datatype broker_op = Subscribe string | Unsubscribe string nat | Publish string Message | Receive string nat

fun broker_step :: "int \<Rightarrow> broker_op \<Rightarrow> messageBroker \<Rightarrow> messageBroker" where
  "broker_step n (Subscribe d) b = (case subscribe b d n of Inl _ \<Rightarrow> b | Inr (c, b') \<Rightarrow> b')"
| "broker_step n (Unsubscribe d c) b = unsubscribe b d c"
| "broker_step n (Publish d m) b = snd (publish b d m)"
| "broker_step n (Receive d c) b = receive_from b d c"

definition broker_ok :: "int \<Rightarrow> messageBroker \<Rightarrow> bool" where
  "broker_ok n b \<longleftrightarrow> (\<forall>d. int (length (subs_of b d)) \<le> max 0 n
     \<and> (\<forall>c \<in> set (subs_of b d). length (ch_buf c) \<le> chan_cap))"

lemma offer_buf:
  assumes "\<forall>c \<in> set cs. length (ch_buf c) \<le> chan_cap"
  shows "\<forall>c \<in> set (snd (offer m cs)). length (ch_buf c) \<le> chan_cap"
  using assms unfolding offer_snd set_map ball_simps by (simp add: has_room_def)

lemma broker_step_ok: "broker_ok n b \<Longrightarrow> broker_ok n (broker_step n x b)"
proof (cases x)
  case (Subscribe d)
  moreover assume "broker_ok n b"
  ultimately show ?thesis
    by (cases "subscribe b d n") (auto simp: broker_ok_def subscribe_subs, auto simp: subscribe_def split: if_splits)
next
  case (Unsubscribe d c)
  assume ok: "broker_ok n b"
  have "int (length (drop_channel c (subs_of b d))) \<le> max 0 n"
  proof -
    have "int (length (subs_of b d)) \<le> max 0 n" using ok unfolding broker_ok_def by blast
    then show ?thesis using drop_channel_length [of c "subs_of b d"] by linarith
  qed
  moreover have "\<forall>x \<in> set (drop_channel c (subs_of b d)). length (ch_buf x) \<le> chan_cap"
    using ok drop_channel_set [of c "subs_of b d"] unfolding broker_ok_def by blast
  ultimately show ?thesis using ok by (simp add: Unsubscribe broker_ok_def unsubscribe_subs)
next
  case (Publish d m)
  moreover assume ok: "broker_ok n b"
  ultimately show ?thesis
    using offer_buf [of "subs_of b d" m] by (auto simp: broker_ok_def publish_subs offer_snd)
next
  case (Receive d c)
  assume ok: "broker_ok n b"
  let ?f = "\<lambda>x. if ch_id x = c then x\<lparr>ch_buf := tl (ch_buf x)\<rparr> else x"
  have shorter: "length (ch_buf (?f x)) \<le> length (ch_buf x)" for x :: channel by simp
  have "\<forall>x \<in> set (map ?f (subs_of b d)). length (ch_buf x) \<le> chan_cap"
    unfolding set_map ball_simps using ok shorter unfolding broker_ok_def by (meson le_trans)
  with ok show ?thesis unfolding Receive broker_ok_def broker_step.simps receive_subs by simp
qed

interpretation streams: preserving "broker_step n" "\<lambda>_. True" "broker_ok n"
  by unfold_locales (rule broker_step_ok)

text \<open>
  Whatever is subscribed, published, received and closed, in any order, no device ever holds
  more open streams than the configured maximum and no stream buffers more than sixteen messages.
\<close>

theorem streams_bounded:
  "int (length (subs_of (fold (broker_step n) ops newMessageBroker) d)) \<le> max 0 n
    \<and> list_all (\<lambda>c. length (ch_buf c) \<le> chan_cap) (subs_of (fold (broker_step n) ops newMessageBroker) d)"
proof -
  have "broker_ok n newMessageBroker" by (simp add: broker_ok_def newMessageBroker_def subs_of_def)
  then have "broker_ok n (fold (broker_step n) ops newMessageBroker)" by (intro streams.run_inv) (simp add: list_all_iff)
  then show ?thesis by (simp add: broker_ok_def list_all_iff)
qed

text \<open>
  Publishing reports delivery exactly when the device has a stream that keeps up, appends
  the message to every such stream, and changes no other stream of this or any other device.
\<close>

theorem publish_delivers:
  "fst (publish b d m) = hasResponsiveSubscriber b d
    \<and> subs_of (snd (publish b d m)) e = (if e = d
        then map (\<lambda>c. if has_room c then c\<lparr>ch_buf := ch_buf c @ [m]\<rparr> else c) (subs_of b d) else subs_of b e)"
  by (simp add: publish_subs publish_delivered offer_fst offer_snd hasResponsiveSubscriber_def)

end
