(* ===== verification/Wake_Coalesce.thy ===== *)
theory Wake_Coalesce
  imports Auth
begin

text \<open>
  \<open>internal/api/wakecoalesce.go\<close>: at most one push wake per device and window. The coalescer's
  state is its map of windows; beside it the model keeps the timers \<open>afterFunc\<close> has armed and the
  wakes handed to \<open>send\<close>, newest first. A timer runs its function once, at some moment not before
  it is due. Every operation decides under the mutex, so an operation is a step.
\<close>

section \<open>State and operations\<close>

record wakeWindow =
  ww_nextAllowed :: time
  ww_pending :: bool

record wakeCoalescer =
  wc_devices :: "(string \<times> wakeWindow) list"
  wc_timers :: "(time \<times> string) list"
  wc_sent :: "(time \<times> string) list"

definition newWakeCoalescer :: wakeCoalescer where
  "newWakeCoalescer = \<lparr>wc_devices = [], wc_timers = [], wc_sent = []\<rparr>"

definition send_wake :: "time \<Rightarrow> string \<Rightarrow> wakeCoalescer \<Rightarrow> wakeCoalescer" where
  "send_wake now deviceID c = c\<lparr>wc_sent := (now, deviceID) # wc_sent c\<rparr>"

definition wake :: "int \<Rightarrow> time \<Rightarrow> string \<Rightarrow> wakeCoalescer \<Rightarrow> wakeCoalescer" where
  "wake window now deviceID c =
     (if window \<le> 0 then send_wake now deviceID c
      else let w = (case assoc_get (wc_devices c) deviceID of
                 None \<Rightarrow> \<lparr>ww_nextAllowed = zero_time, ww_pending = False\<rparr> | Some w \<Rightarrow> w);
               put = (\<lambda>w. c\<lparr>wc_devices := assoc_put (wc_devices c) deviceID w\<rparr>)
        in if \<not> now < ww_nextAllowed w
           then send_wake now deviceID (put (w\<lparr>ww_nextAllowed := time_add now window\<rparr>))
           else if ww_pending w then put w
           else let c' = put (w\<lparr>ww_pending := True\<rparr>)
                in c'\<lparr>wc_timers := (now + time_sub (ww_nextAllowed w) now, deviceID) # wc_timers c'\<rparr>)"

definition fire :: "int \<Rightarrow> time \<Rightarrow> string \<Rightarrow> wakeCoalescer \<Rightarrow> wakeCoalescer" where
  "fire window now deviceID c =
     (case assoc_get (wc_devices c) deviceID of None \<Rightarrow> c
      | Some w \<Rightarrow> if \<not> ww_pending w then c
          else send_wake now deviceID (c\<lparr>wc_devices := assoc_put (wc_devices c) deviceID
                 (w\<lparr>ww_pending := False, ww_nextAllowed := time_add now window\<rparr>)\<rparr>))"

text \<open>Go's map iteration order is arbitrary; the association list fixes one.\<close>

definition wake_flush :: "time \<Rightarrow> wakeCoalescer \<Rightarrow> wakeCoalescer" where
  "wake_flush now c =
     (let due = map fst (filter (\<lambda>p. ww_pending (snd p)) (wc_devices c));
          c' = c\<lparr>wc_devices := map (\<lambda>p. (fst p, (snd p)\<lparr>ww_pending := False\<rparr>)) (wc_devices c)\<rparr>
      in fold (send_wake now) due c')"

definition evictIdle :: "time \<Rightarrow> wakeCoalescer \<Rightarrow> wakeCoalescer" where
  "evictIdle now c = c\<lparr>wc_devices :=
     filter (\<lambda>p. ww_pending (snd p) \<or> \<not> now > ww_nextAllowed (snd p)) (wc_devices c)\<rparr>"

section \<open>Histories\<close>

datatype wake_event = Wake time string | TimerFires time time string | Flush time | Evict time

fun wake_step :: "int \<Rightarrow> wake_event \<Rightarrow> wakeCoalescer \<Rightarrow> wakeCoalescer" where
  "wake_step window (Wake now d) c = wake window now d c"
| "wake_step window (TimerFires now at d) c =
     (if (at, d) \<in> set (wc_timers c) \<and> at \<le> now
      then fire window now d (c\<lparr>wc_timers := remove1 (at, d) (wc_timers c)\<rparr>) else c)"
| "wake_step window (Flush now) c = wake_flush now c"
| "wake_step window (Evict now) c = evictIdle now c"

definition window_of :: "wakeCoalescer \<Rightarrow> string \<Rightarrow> wakeWindow option" where
  "window_of c d = assoc_get (wc_devices c) d"

definition pending_for :: "wakeCoalescer \<Rightarrow> string \<Rightarrow> bool" where
  "pending_for c d \<longleftrightarrow> (case window_of c d of None \<Rightarrow> False | Some w \<Rightarrow> ww_pending w)"

definition armed_for :: "wakeCoalescer \<Rightarrow> string \<Rightarrow> bool" where
  "armed_for c d \<longleftrightarrow> (\<exists>at. (at, d) \<in> set (wc_timers c))"

text \<open>What the code relies on: a pending flag always has a timer behind it.\<close>

definition wakes_ok :: "wakeCoalescer \<Rightarrow> bool" where
  "wakes_ok c \<longleftrightarrow> keys_distinct (wc_devices c) \<and> (\<forall>d. pending_for c d \<longrightarrow> armed_for c d)"

definition sent_to :: "wakeCoalescer \<Rightarrow> string \<Rightarrow> nat" where
  "sent_to c d = length (filter (\<lambda>p. snd p = d) (wc_sent c))"

section \<open>No wake is lost\<close>

lemma send_wake_sels [simp]: "wc_devices (send_wake t d c) = wc_devices c" "wc_timers (send_wake t d c) = wc_timers c"
  "window_of (send_wake t d c) e = window_of c e" "pending_for (send_wake t d c) e = pending_for c e"
  "armed_for (send_wake t d c) e = armed_for c e"
  "sent_to (send_wake t d c) e = (if e = d then Suc (sent_to c e) else sent_to c e)"
  by (simp_all add: send_wake_def window_of_def pending_for_def armed_for_def sent_to_def)

lemma fold_send_sels [simp]:
  "wc_devices (fold (send_wake t) ds c) = wc_devices c" "wc_timers (fold (send_wake t) ds c) = wc_timers c"
  "sent_to (fold (send_wake t) ds c) e = length (filter (\<lambda>d. d = e) ds) + sent_to c e"
  by (induction ds arbitrary: c) auto

lemma pending_for_put:
  "pending_for (c\<lparr>wc_devices := assoc_put (wc_devices c) d w\<rparr>) e = (if e = d then ww_pending w else pending_for c e)"
  by (simp add: pending_for_def window_of_def assoc_get_put)

lemma armed_for_devices [simp]: "armed_for (c\<lparr>wc_devices := x\<rparr>) e = armed_for c e"
  "armed_for (c\<lparr>wc_timers := (at, d) # wc_timers c\<rparr>) e = (e = d \<or> armed_for c e)"
  by (auto simp: armed_for_def)

lemma pending_for_timers [simp]: "pending_for (c\<lparr>wc_timers := x\<rparr>) e = pending_for c e"
  by (simp add: pending_for_def window_of_def)

lemma sent_to_state [simp]: "sent_to (c\<lparr>wc_devices := x\<rparr>) e = sent_to c e" "sent_to (c\<lparr>wc_timers := y\<rparr>) e = sent_to c e"
  by (simp_all add: sent_to_def)

lemma wake_outcome:
  "sent_to (wake window now d c) d = Suc (sent_to c d) \<or> pending_for (wake window now d c) d"
  by (auto simp: wake_def Let_def pending_for_put split: option.split)

lemma wake_keeps:
  "sent_to c e \<le> sent_to (wake window now d c) e" "pending_for c e \<Longrightarrow> pending_for (wake window now d c) e"
  by (auto simp: wake_def Let_def pending_for_put split: option.split) (auto simp: pending_for_def window_of_def)

lemma fire_keeps:
  "sent_to c e \<le> sent_to (fire window now d c) e"
  "pending_for c e \<Longrightarrow> sent_to c e < sent_to (fire window now d c) e \<or> pending_for (fire window now d c) e"
  by (auto simp: fire_def pending_for_put split: option.split)

lemma fire_clears: "pending_for (fire window now d c) e \<longleftrightarrow> pending_for c e \<and> e \<noteq> d"
  by (auto simp: fire_def pending_for_put split: option.split) (auto simp: pending_for_def window_of_def)

lemma fire_frame: "armed_for (fire window now d c) e = armed_for c e"
  "keys_distinct (wc_devices c) \<Longrightarrow> keys_distinct (wc_devices (fire window now d c))"
  by (auto simp: fire_def split: option.split)

lemma flush_keeps:
  "sent_to c e \<le> sent_to (wake_flush now c) e" "pending_for c e \<Longrightarrow> sent_to c e < sent_to (wake_flush now c) e"
proof -
  show "sent_to c e \<le> sent_to (wake_flush now c) e" by (simp add: wake_flush_def)
  assume "pending_for c e"
  then obtain w where "(e, w) \<in> set (wc_devices c)" "ww_pending w"
    by (auto simp: pending_for_def window_of_def dest: assoc_get_mem split: option.splits)
  then have "e \<in> set (map fst (filter (\<lambda>p. ww_pending (snd p)) (wc_devices c)))" by force
  then have "0 < length (filter (\<lambda>d. d = e) (map fst (filter (\<lambda>p. ww_pending (snd p)) (wc_devices c))))"
    unfolding length_greater_0_conv filter_empty_conv by blast
  then show "sent_to c e < sent_to (wake_flush now c) e" by (simp add: wake_flush_def)
qed

lemma evict_keeps:
  "sent_to (evictIdle now c) e = sent_to c e" "keys_distinct (wc_devices c) \<Longrightarrow> pending_for (evictIdle now c) e = pending_for c e"
proof -
  show "sent_to (evictIdle now c) e = sent_to c e" by (simp add: evictIdle_def)
  assume d: "keys_distinct (wc_devices c)"
  let ?xs = "filter (\<lambda>p. ww_pending (snd p) \<or> \<not> now > ww_nextAllowed (snd p)) (wc_devices c)"
  have d': "keys_distinct ?xs" using d by (simp add: keys_distinct_def distinct_map_filter)
  have mem: "pending_for c' e \<longleftrightarrow> (\<exists>w. (e, w) \<in> set (wc_devices c') \<and> ww_pending w)"
    if k: "keys_distinct (wc_devices c')" for c'
  proof
    assume "pending_for c' e"
    then show "\<exists>w. (e, w) \<in> set (wc_devices c') \<and> ww_pending w"
      by (auto simp: pending_for_def window_of_def dest: assoc_get_mem split: option.splits)
  next
    assume "\<exists>w. (e, w) \<in> set (wc_devices c') \<and> ww_pending w"
    then obtain w where "assoc_get (wc_devices c') e = Some w" "ww_pending w" using assoc_get_distinct [OF k] by blast
    then show "pending_for c' e" by (simp add: pending_for_def window_of_def)
  qed
  show "pending_for (evictIdle now c) e = pending_for c e"
    using mem [OF d] mem [of "evictIdle now c"] d' by (auto simp: evictIdle_def)
qed

lemma wake_step_keeps:
  assumes "keys_distinct (wc_devices c)"
  shows "sent_to c e \<le> sent_to (wake_step window x c) e"
    "pending_for c e \<Longrightarrow> sent_to c e < sent_to (wake_step window x c) e \<or> pending_for (wake_step window x c) e"
  using assms wake_keeps [where c = c and e = e] flush_keeps [where c = c and e = e]
    evict_keeps [where c = c and e = e] fire_keeps [where c = "c\<lparr>wc_timers := remove1 p (wc_timers c)\<rparr>" and e = e for p]
  by (cases x; simp)+

lemma wake_step_ok: "wakes_ok c \<Longrightarrow> wakes_ok (wake_step window x c)"
proof (cases x)
  case (Wake now d)
  assume ok: "wakes_ok c"
  then have "pending_for c d \<Longrightarrow> armed_for c d" by (simp add: wakes_ok_def)
  with ok show ?thesis
    unfolding Wake wake_step.simps wake_def Let_def
    by (auto simp: wakes_ok_def pending_for_put split: option.split)
      (auto simp: pending_for_def window_of_def armed_for_def assoc_get_put split: if_splits)
next
  case (TimerFires now at d)
  assume ok: "wakes_ok c"
  let ?c = "c\<lparr>wc_timers := remove1 (at, d) (wc_timers c)\<rparr>"
  have "armed_for ?c e" if "armed_for c e" "e \<noteq> d" for e
    using that by (auto simp: armed_for_def)
  with ok fire_clears [of window now d ?c] show ?thesis
    unfolding TimerFires wake_step.simps wakes_ok_def by (auto simp: fire_frame)
next
  case (Flush now)
  assume ok: "wakes_ok c"
  let ?xs = "map (\<lambda>p. (fst p, (snd p)\<lparr>ww_pending := False\<rparr>)) (wc_devices c)"
  have "\<not> ww_pending w" if "assoc_get ?xs e = Some w" for e w
    using assoc_get_mem [OF that] by auto
  then have "\<not> pending_for (wake_step window x c) e" for e
    unfolding Flush by (auto simp: pending_for_def window_of_def wake_flush_def Let_def split: option.split)
  then show ?thesis using ok by (simp add: wakes_ok_def Flush wake_flush_def Let_def keys_distinct_def comp_def)
next
  case (Evict now)
  assume ok: "wakes_ok c"
  then have "keys_distinct (wc_devices c)" by (simp add: wakes_ok_def)
  then have "pending_for (evictIdle now c) e = pending_for c e" for e by (rule evict_keeps)
  with ok show ?thesis
    by (auto simp: wakes_ok_def Evict evictIdle_def keys_distinct_def distinct_map_filter armed_for_def)
qed

interpretation wakes: preserving "wake_step window" "\<lambda>_. True" wakes_ok
  by unfold_locales (rule wake_step_ok)

lemma sent_later:
  assumes "wakes_ok c"
  shows "sent_to c d \<le> sent_to (fold (wake_step window) evs c) d"
  using assms
proof (induction evs arbitrary: c)
  case (Cons x evs)
  have "keys_distinct (wc_devices c)" using Cons.prems by (simp add: wakes_ok_def)
  then have "sent_to c d \<le> sent_to (wake_step window x c) d" by (rule wake_step_keeps)
  also have "\<dots> \<le> sent_to (fold (wake_step window) evs (wake_step window x c)) d"
    using wake_step_ok [OF Cons.prems] by (rule Cons.IH)
  finally show ?case by simp
qed simp

lemma pending_until_sent:
  assumes "wakes_ok c" "pending_for c d"
  shows "sent_to c d < sent_to (fold (wake_step window) evs c) d \<or> pending_for (fold (wake_step window) evs c) d"
  using assms
proof (induction evs arbitrary: c)
  case (Cons x evs)
  have k: "keys_distinct (wc_devices c)" using Cons.prems(1) by (simp add: wakes_ok_def)
  have ok: "wakes_ok (wake_step window x c)" using Cons.prems(1) by (rule wake_step_ok)
  show ?case
    using wake_step_keeps [OF k, of d window x] Cons.IH [OF ok] Cons.prems(2) sent_later [OF ok, of d window evs]
    by auto
qed simp

definition wake_history :: "int \<Rightarrow> wake_event list \<Rightarrow> wakeCoalescer" where
  "wake_history window evs = fold (wake_step window) evs newWakeCoalescer"

lemma wake_history_ok: "wakes_ok (wake_history window evs)"
proof -
  have "wakes_ok newWakeCoalescer" by (simp add: wakes_ok_def newWakeCoalescer_def pending_for_def window_of_def)
  then show ?thesis unfolding wake_history_def by (intro wakes.run_inv) (simp_all add: list_all_iff)
qed

lemma fire_sends: "sent_to (fire window t d c) d = sent_to c d + (if pending_for c d then 1 else 0)"
  by (auto simp: fire_def pending_for_def window_of_def split: option.split)

text \<open>
  C32: No wake is lost. Take any history of wakes, timers, flushes and evictions, then a wake for a
  device, then any further history: either a wake has been sent to the device since, or one is
  pending with a timer armed for it; and a timer function, whenever it runs, sends exactly the wake
  that is pending.
\<close>

theorem wake_never_lost:
  "(sent_to (wake_history window evs) d < sent_to (wake_history window (evs @ Wake now d # later)) d
     \<or> pending_for (wake_history window (evs @ Wake now d # later)) d
       \<and> armed_for (wake_history window (evs @ Wake now d # later)) d)
   \<and> sent_to (fire window t d (wake_history window (evs @ Wake now d # later))) d =
       sent_to (wake_history window (evs @ Wake now d # later)) d
         + (if pending_for (wake_history window (evs @ Wake now d # later)) d then 1 else 0)"
proof -
  let ?b = "wake_history window evs" and ?c = "wake_history window (evs @ Wake now d # later)"
  let ?w = "wake_step window (Wake now d) ?b"
  have okw: "wakes_ok ?w" using wake_history_ok by (rule wake_step_ok)
  have c: "?c = fold (wake_step window) later ?w" by (simp add: wake_history_def)
  have "sent_to ?b d < sent_to ?c d \<or> pending_for ?c d"
    using wake_outcome [of window now d ?b] pending_until_sent [OF okw, of d window later] sent_later [OF okw, of d window later]
      wake_keeps(1) [of ?b d window now d] unfolding c by auto
  then show ?thesis using wake_history_ok [of window "evs @ Wake now d # later"] by (auto simp: wakes_ok_def fire_sends)
qed

text \<open>
  The bound of one wake per device and window fails when a wake arrives at the end of the window
  before the armed timer has run: the wake is sent as a leading one and the timer then sends the
  pending one as well, two wakes at the same instant.
\<close>

theorem two_wakes_at_window_end:
  "wc_sent (fold (wake_step (10 * second))
      [Wake 0 d, Wake second d, Wake (10 * second) d, TimerFires (10 * second) (10 * second) d] newWakeCoalescer)
    = [(10 * second, d), (10 * second, d), (0, d)]"
  by (simp add: newWakeCoalescer_def wake_def fire_def send_wake_def Let_def zero_time_def second_def time_sub_def
      time_add_def wrap64_def)

section \<open>Wakes keep their distance when timers run on time\<close>

text \<open>
  The histories the bound holds for: time does not go back, lies between 1970 and the end of
  \<open>time.Time\<close>'s range, a wake never finds the device's timer due but not yet run, and there is no
  flush (the server is not shutting down).
\<close>

fun event_time :: "wake_event \<Rightarrow> time" where
  "event_time (Wake t _) = t"
| "event_time (TimerFires t _ _) = t"
| "event_time (Flush t) = t"
| "event_time (Evict t) = t"

fun on_time :: "wake_event \<Rightarrow> wakeCoalescer \<Rightarrow> bool" where
  "on_time (Wake t d) c = list_all (\<lambda>p. snd p = d \<longrightarrow> t < fst p) (wc_timers c)"
| "on_time (Flush _) c = False"
| "on_time _ c = True"

fun prompt :: "int \<Rightarrow> time \<Rightarrow> wake_event list \<Rightarrow> wakeCoalescer \<Rightarrow> bool" where
  "prompt window clock [] c = True"
| "prompt window clock (x # xs) c = (clock \<le> event_time x \<and> time_add (event_time x) window = event_time x + window
     \<and> on_time x c \<and> prompt window (event_time x) xs (wake_step window x c))"

definition sends_to :: "wakeCoalescer \<Rightarrow> string \<Rightarrow> time list" where
  "sends_to c d = map fst (filter (\<lambda>p. snd p = d) (wc_sent c))"

definition timers_match :: "wakeCoalescer \<Rightarrow> bool" where
  "timers_match c \<longleftrightarrow> distinct (wc_timers c) \<and> (\<forall>at d. (at, d) \<in> set (wc_timers c) \<longrightarrow>
     (\<exists>w. window_of c d = Some w \<and> ww_pending w \<and> ww_nextAllowed w = at))"

text \<open>When the device may be sent to next: the end of its window, or now if it has none.\<close>

definition free_at :: "time \<Rightarrow> wakeCoalescer \<Rightarrow> string \<Rightarrow> time" where
  "free_at clock c d = (case window_of c d of None \<Rightarrow> clock | Some w \<Rightarrow> ww_nextAllowed w)"

definition spaced :: "int \<Rightarrow> time \<Rightarrow> wakeCoalescer \<Rightarrow> bool" where
  "spaced window clock c \<longleftrightarrow> timers_match c
     \<and> (\<forall>d. (\<forall>t \<in> set (sends_to c d). t + window \<le> free_at clock c d) \<and> free_at clock c d \<le> clock + window
          \<and> sorted_wrt (\<lambda>a b. b + window \<le> a) (sends_to c d))"

lemma window_of_put [simp]:
  "window_of (c\<lparr>wc_devices := assoc_put (wc_devices c) d w\<rparr>) e = (if e = d then Some w else window_of c e)"
  "window_of (c\<lparr>wc_timers := ts\<rparr>) e = window_of c e"
  "window_of (c\<lparr>wc_devices := assoc_put (wc_devices c) d w, wc_timers := ts\<rparr>) e = (if e = d then Some w else window_of c e)"
  "window_of (c\<lparr>wc_timers := ts, wc_devices := assoc_put (wc_devices c) d w\<rparr>) e = (if e = d then Some w else window_of c e)"
  by (simp_all add: window_of_def assoc_get_put)

lemma sends_to_simps [simp]: "sends_to (c\<lparr>wc_devices := x\<rparr>) e = sends_to c e" "sends_to (c\<lparr>wc_timers := ts\<rparr>) e = sends_to c e"
  "sends_to (send_wake t d c) e = (if e = d then t # sends_to c e else sends_to c e)"
  by (simp_all add: sends_to_def send_wake_def)

lemma free_at_send [simp]: "free_at clock (send_wake t d c) e = free_at clock c e"
  by (simp add: free_at_def)

lemma spacedD:
  assumes "spaced window clock c"
  shows "timers_match c" "t \<in> set (sends_to c d) \<Longrightarrow> t + window \<le> free_at clock c d"
    "free_at clock c d \<le> clock + window" "sorted_wrt (\<lambda>a b. b + window \<le> a) (sends_to c d)"
  using assms unfolding spaced_def by blast+

lemma spaced_later:
  assumes "spaced window clock c" "clock \<le> now" "0 < window"
  shows "spaced window now c"
proof -
  have "free_at clock c d \<le> free_at now c d" for d using assms(2) by (simp add: free_at_def split: option.split)
  moreover have "free_at now c d \<le> now + window" for d
    using spacedD(3) [OF assms(1), of d] assms(2,3) by (auto simp: free_at_def split: option.splits)
  ultimately show ?thesis
    using spacedD [OF assms(1)] unfolding spaced_def by (meson order_trans)
qed

lemma spaced_send:
  assumes sp: "spaced window clock c" and le: "clock \<le> now" "0 < window" "free_at clock c d \<le> now"
    and ts: "distinct ts" "set ts = {p \<in> set (wc_timers c). snd p \<noteq> d}" and w: "ww_nextAllowed w = now + window"
  shows "spaced window now (send_wake now d (c\<lparr>wc_timers := ts, wc_devices := assoc_put (wc_devices c) d w\<rparr>))"
    (is "spaced window now ?c")
proof -
  note later = spacedD [OF spaced_later [OF sp le(1,2)]]
  have "timers_match ?c"
    using spacedD(1) [OF sp] ts unfolding timers_match_def by auto
  moreover have "(\<forall>t \<in> set (sends_to ?c e). t + window \<le> free_at now ?c e) \<and> free_at now ?c e \<le> now + window
      \<and> sorted_wrt (\<lambda>a b. b + window \<le> a) (sends_to ?c e)" for e
  proof (cases "e = d")
    case True
    have "t + window \<le> now" if "t \<in> set (sends_to c d)" for t
      using spacedD(2) [OF sp that] le(3) by simp
    with True later(4) [of d] w le(2) show ?thesis by (fastforce simp: free_at_def)
  next
    case False
    with later(2-4) [where d = e] show ?thesis by (auto simp: free_at_def)
  qed
  ultimately show ?thesis unfolding spaced_def by blast
qed

lemma spaced_frame:
  assumes "spaced window now c" "timers_match c'" "\<And>d. sends_to c' d = sends_to c d" "\<And>d. free_at now c' d = free_at now c d"
  shows "spaced window now c'"
  using assms unfolding spaced_def by simp

lemma timers_match_rearm:
  assumes "timers_match c" "window_of c d = Some w" "ww_nextAllowed w' = ww_nextAllowed w" "ww_pending w' = ww_pending w"
  shows "timers_match (c\<lparr>wc_devices := assoc_put (wc_devices c) d w'\<rparr>)"
  unfolding timers_match_def
proof (intro conjI allI impI)
  show "distinct (wc_timers (c\<lparr>wc_devices := assoc_put (wc_devices c) d w'\<rparr>))" using assms(1) by (simp add: timers_match_def)
  fix at e
  assume "(at, e) \<in> set (wc_timers (c\<lparr>wc_devices := assoc_put (wc_devices c) d w'\<rparr>))"
  then obtain v where v: "window_of c e = Some v" "ww_pending v" "ww_nextAllowed v = at"
    using assms(1) unfolding timers_match_def by auto
  then show "\<exists>w. window_of (c\<lparr>wc_devices := assoc_put (wc_devices c) d w'\<rparr>) e = Some w \<and> ww_pending w \<and> ww_nextAllowed w = at"
    using assms(2-4) by (cases "e = d") simp_all
qed

lemma timers_match_arm:
  assumes "timers_match c" "window_of c d = Some w" "\<not> ww_pending w"
  shows "timers_match (c\<lparr>wc_devices := assoc_put (wc_devices c) d (w\<lparr>ww_pending := True\<rparr>),
     wc_timers := (ww_nextAllowed w, d) # wc_timers c\<rparr>)" (is "timers_match ?c")
proof -
  have free: "e \<noteq> d" if "(at, e) \<in> set (wc_timers c)" for at e
    using that assms unfolding timers_match_def by fastforce
  then have "distinct (wc_timers ?c)" using assms(1) unfolding timers_match_def by auto
  moreover have "\<exists>v. window_of ?c e = Some v \<and> ww_pending v \<and> ww_nextAllowed v = at" if "(at, e) \<in> set (wc_timers ?c)" for at e
  proof (cases "(at, e) \<in> set (wc_timers c)")
    case True
    then show ?thesis using assms(1) free [OF True] unfolding timers_match_def by auto
  next
    case False
    with that show ?thesis by simp
  qed
  ultimately show ?thesis unfolding timers_match_def by blast
qed

lemma spaced_wake:
  assumes sp: "spaced window clock c" and ok: "wakes_ok c" and le: "clock \<le> now" "0 \<le> now" "0 < window" "window < 2 ^ 63 - 1"
    and add: "time_add now window = now + window" and prompt: "list_all (\<lambda>p. snd p = d \<longrightarrow> now < fst p) (wc_timers c)"
  shows "spaced window now (wake window now d c)"
proof -
  have tm: "timers_match c" by (rule spacedD(1) [OF sp])
  have none: "{p \<in> set (wc_timers c). snd p \<noteq> d} = set (wc_timers c)" if "\<not> pending_for c d"
    using that tm unfolding timers_match_def pending_for_def by (fastforce split: option.splits)
  have zero: "\<not> now < zero_time" using le(2) by (simp add: zero_time_def second_def)
  have idle: "\<not> pending_for c d" if "free_at clock c d \<le> now" "window_of c d \<noteq> None"
  proof
    assume "pending_for c d"
    then obtain at where at: "(at, d) \<in> set (wc_timers c)" using ok by (auto simp: wakes_ok_def armed_for_def)
    then obtain w where "window_of c d = Some w" "ww_nextAllowed w = at" using tm unfolding timers_match_def by blast
    then have "at = free_at clock c d" by (simp add: free_at_def)
    with at prompt that show False by (auto simp: list_all_iff)
  qed
  have lead: "spaced window now (send_wake now d (c\<lparr>wc_devices := assoc_put (wc_devices c) d w\<rparr>))"
    if "free_at clock c d \<le> now" "\<not> pending_for c d" "ww_nextAllowed w = now + window" for w
    using spaced_send [OF sp le(1,3) that(1), of "wc_timers c" w] that(3) none [OF that(2)] tm by (simp add: timers_match_def)
  show ?thesis
  proof (cases "window_of c d")
    case None
    then have "free_at clock c d \<le> now" "\<not> pending_for c d" using le(1) by (simp_all add: free_at_def pending_for_def)
    with lead None zero le(3) add show ?thesis by (simp add: wake_def window_of_def)
  next
    case (Some w)
    note eq = Some [unfolded window_of_def]
    show ?thesis
    proof (cases "now < ww_nextAllowed w")
      case False
      then have "free_at clock c d \<le> now" using Some by (simp add: free_at_def)
      with idle lead Some False le(3) add show ?thesis by (simp add: wake_def eq)
    next
      case early: True
      note later = spaced_later [OF sp le(1,3)]
      show ?thesis
      proof (cases "ww_pending w")
        case True
        then have "spaced window now (c\<lparr>wc_devices := assoc_put (wc_devices c) d w\<rparr>)"
          using timers_match_rearm [OF tm Some] by (intro spaced_frame [OF later]) (simp_all add: free_at_def Some)
        with True early le(3) show ?thesis by (simp add: wake_def eq)
      next
        case idle: False
        have "ww_nextAllowed w \<le> now + window" using spacedD(3) [OF later, of d] Some by (simp add: free_at_def)
        with early le(4) have "now + time_sub (ww_nextAllowed w) now = ww_nextAllowed w"
          by (simp add: time_sub_def min_def max_def)
        moreover have "spaced window now (c\<lparr>wc_devices := assoc_put (wc_devices c) d (w\<lparr>ww_pending := True\<rparr>),
            wc_timers := (ww_nextAllowed w, d) # wc_timers c\<rparr>)"
          using timers_match_arm [OF tm Some idle] by (intro spaced_frame [OF later]) (simp_all add: free_at_def Some)
        ultimately show ?thesis using idle early le(3) by (simp add: wake_def eq Let_def)
      qed
    qed
  qed
qed

lemma spaced_fire:
  assumes sp: "spaced window clock c" and le: "clock \<le> now" "0 < window" and add: "time_add now window = now + window"
    and timer: "(at, d) \<in> set (wc_timers c)" "at \<le> now"
  shows "spaced window now (fire window now d (c\<lparr>wc_timers := remove1 (at, d) (wc_timers c)\<rparr>))"
proof -
  have tm: "distinct (wc_timers c)" "\<forall>at d. (at, d) \<in> set (wc_timers c) \<longrightarrow>
      (\<exists>w. window_of c d = Some w \<and> ww_pending w \<and> ww_nextAllowed w = at)"
    using spacedD(1) [OF sp] by (simp_all add: timers_match_def)
  obtain w where w: "window_of c d = Some w" "ww_pending w" "ww_nextAllowed w = at" using tm(2) timer(1) by blast
  have same: "q = at" if q: "(q, d) \<in> set (wc_timers c)" for q
  proof -
    obtain v where "window_of c d = Some v" "ww_nextAllowed v = q" using tm(2) q by blast
    with w show ?thesis by simp
  qed
  have ts: "set (remove1 (at, d) (wc_timers c)) = {p \<in> set (wc_timers c). snd p \<noteq> d}"
    unfolding set_remove1_eq [OF tm(1)] by (auto dest: same)
  have "free_at clock c d \<le> now" using w timer(2) by (simp add: free_at_def)
  from spaced_send [OF sp le this _ ts, of "w\<lparr>ww_pending := False, ww_nextAllowed := now + window\<rparr>"] tm(1)
  show ?thesis using w by (simp add: fire_def window_of_def add)
qed

lemma window_of_evict:
  assumes "keys_distinct (wc_devices c)"
  shows "window_of (evictIdle now c) d = (case window_of c d of None \<Rightarrow> None
    | Some w \<Rightarrow> if ww_pending w \<or> \<not> now > ww_nextAllowed w then Some w else None)"
proof -
  let ?keep = "\<lambda>p :: string \<times> wakeWindow. ww_pending (snd p) \<or> \<not> now > ww_nextAllowed (snd p)"
  have "map_of (filter ?keep xs) d = (case map_of xs d of None \<Rightarrow> None | Some w \<Rightarrow> if ?keep (d, w) then Some w else None)"
    if "distinct (map fst xs)" for xs
    using that by (induction xs) (auto split: option.splits simp: map_of_eq_None_iff image_iff)
  then show ?thesis
    using assms unfolding window_of_def evictIdle_def keys_distinct_def snd_conv by (simp add: assoc_get_map_of)
qed

lemma spaced_evict:
  assumes sp: "spaced window clock c" and ok: "wakes_ok c" and le: "clock \<le> now" "0 < window"
  shows "spaced window now (evictIdle now c)"
proof -
  note later = spaced_later [OF sp le]
  have win: "window_of (evictIdle now c) d = (case window_of c d of None \<Rightarrow> None
    | Some w \<Rightarrow> if ww_pending w \<or> \<not> now > ww_nextAllowed w then Some w else None)" for d
    using ok by (intro window_of_evict) (simp add: wakes_ok_def)
  have tm: "timers_match (evictIdle now c)"
    using spacedD(1) [OF sp] unfolding timers_match_def win by (fastforce simp: evictIdle_def)
  have "free_at now c d \<le> free_at now (evictIdle now c) d" "free_at now (evictIdle now c) d \<le> now + window" for d
    using spacedD(3) [OF later, of d] le(2) by (auto simp: free_at_def win split: option.split)
  then show ?thesis
    using tm spacedD(2,4) [OF later] unfolding spaced_def evictIdle_def by (simp, meson order_trans)
qed

lemma spaced_run:
  assumes "spaced window clock c" "wakes_ok c" "prompt window clock evs c" "0 \<le> clock" "0 < window" "window < 2 ^ 63 - 1"
  shows "\<exists>clock'. spaced window clock' (fold (wake_step window) evs c)"
  using assms
proof (induction evs arbitrary: clock c)
  case (Cons x evs)
  have "spaced window (event_time x) (wake_step window x c)"
    using Cons.prems spaced_wake [of window clock c "event_time x"] spaced_fire [of window clock c "event_time x"]
      spaced_evict [of window clock c "event_time x"] spaced_later [of window clock c "event_time x"]
    by (cases x) auto
  with Cons.IH [of "event_time x" "wake_step window x c"] Cons.prems wake_step_ok [of c window x] show ?case by simp
qed auto

text \<open>
  While timers run on time and the server is not shutting down, two wakes to the same device are
  at least a window apart: along any such history the times a device was sent to decrease, newest
  first, by at least the window.
\<close>

theorem wakes_one_window_apart:
  assumes "prompt window clock evs newWakeCoalescer" "0 \<le> clock" "0 < window" "window < 2 ^ 63 - 1"
  shows "sorted_wrt (\<lambda>later earlier. earlier + window \<le> later) (sends_to (wake_history window evs) d)"
proof -
  have "spaced window clock newWakeCoalescer"
    using assms(3) by (simp add: spaced_def timers_match_def newWakeCoalescer_def sends_to_def free_at_def window_of_def)
  then obtain clock' where "spaced window clock' (fold (wake_step window) evs newWakeCoalescer)"
    using spaced_run [OF _ _ assms] wake_history_ok [of window "[]"] by (auto simp: wake_history_def)
  then show ?thesis using spacedD(4) by (simp add: wake_history_def)
qed

definition sample_wakes :: "wake_event list" where
  "sample_wakes = [Wake 0 ''d'', Wake second ''d'', Wake (2 * second) ''d'',
     TimerFires (10 * second) (10 * second) ''d'', Evict (30 * second), Wake (40 * second) ''d'']"

theorem wakes_one_window_apart_witness:
  "sends_to (wake_history (10 * second) sample_wakes) ''d'' = [40 * second, 10 * second, 0]
    \<and> sorted_wrt (\<lambda>later earlier. earlier + 10 * second \<le> later) (sends_to (wake_history (10 * second) sample_wakes) ''d'')"
proof -
  have "prompt (10 * second) 0 sample_wakes newWakeCoalescer" by code_simp
  from wakes_one_window_apart [OF this, of "''d''"] have "sorted_wrt (\<lambda>later earlier. earlier + 10 * second \<le> later)
      (sends_to (wake_history (10 * second) sample_wakes) ''d'')" by (simp add: second_def)
  moreover have "sends_to (wake_history (10 * second) sample_wakes) ''d'' = [40 * second, 10 * second, 0]" by code_simp
  ultimately show ?thesis by blast
qed

end
