(* ===== verification/Api_Messages.thy ===== *)
theory Api_Messages
  imports Api_Recovery Broker Wake_Coalesce
begin

text \<open>
  The message handlers of \<open>internal/api\<close>: enqueueing from a local device and from another server,
  batches, polling, acknowledging, opening a stream, the federation blocklist. The state of the
  server is its database, the broker and the wake coalescer. \<open>addDays\<close> is \<open>now.AddDate(0, 0, n)\<close>,
  and a body is given decoded, \<open>None\<close> standing for a body that is not the JSON expected.
\<close>

section \<open>State and requests\<close>

record api_config =
  cfg_MessageRetentionDays :: int
  cfg_MaxQueuedMessagesPerDevice :: int
  cfg_MaxBatchMessages :: int
  cfg_MaxStreamsPerDevice :: int
  cfg_PushGatewayURL :: string
  cfg_PushWakeWindow :: int

record api_state =
  api_db :: database
  api_broker :: messageBroker
  api_wakes :: wakeCoalescer

record enqueueRequest =
  eq_MessageID :: string
  eq_SenderAccountID :: string
  eq_SenderDeviceID :: string
  eq_RecipientAccountID :: string
  eq_RecipientDeviceID :: string
  eq_Payload :: string

record batchMessageItem =
  bm_MessageID :: string
  bm_RecipientAccountID :: string
  bm_RecipientDeviceID :: string
  bm_Payload :: string

record federationDeviceCertDTO =
  fd_DeviceID :: string
  fd_DevicePubKey :: string
  fd_IssuedAt :: string
  fd_Signature :: string

record federationMessageRequest =
  fm_SenderAccountID :: string
  fm_SenderRootPubKey :: string
  fm_SenderDeviceCert :: federationDeviceCertDTO
  fm_Message :: batchMessageItem

record federationMessageBatchRequest =
  fmb_SenderAccountID :: string
  fmb_SenderRootPubKey :: string
  fmb_SenderDeviceCert :: federationDeviceCertDTO
  fmb_Messages :: "batchMessageItem list"

datatype enqueueOutcome =
    EnqueueQueued | EnqueueInvalid | EnqueueUnknownRecipient | EnqueueDuplicate | EnqueueQueueFull
  | EnqueueInternalError

fun asError :: "enqueueOutcome \<Rightarrow> api_error" where
  "asError EnqueueInvalid = (400, ''invalid_request'')"
| "asError EnqueueUnknownRecipient = (404, ''unknown_recipient'')"
| "asError EnqueueDuplicate = (409, ''message_exists'')"
| "asError EnqueueQueueFull = (429, ''recipient_queue_full'')"
| "asError _ = internal_error"

section \<open>Queueing\<close>

definition createMessageUnderCap :: "api_config \<Rightarrow> database \<Rightarrow> Message \<Rightarrow> store_error + database" where
  "createMessageUnderCap cfg db msg = CreateMessageUnderCap db msg (nat (cfg_MaxQueuedMessagesPerDevice cfg))"

definition wakeDevice :: "api_config \<Rightarrow> time \<Rightarrow> Device \<Rightarrow> api_state \<Rightarrow> api_state" where
  "wakeDevice cfg now device s = s\<lparr>api_wakes := wake (cfg_PushWakeWindow cfg) now (dev_DeviceID device) (api_wakes s)\<rparr>"

definition queueAndNotify :: "api_config \<Rightarrow> time \<Rightarrow> Message \<Rightarrow> Device \<Rightarrow> api_state \<Rightarrow> api_state" where
  "queueAndNotify cfg now msg recipientDevice s =
     (case publish (api_broker s) (msg_RecipientDeviceID msg) msg of (delivered, b) \<Rightarrow>
        let s' = s\<lparr>api_broker := b\<rparr> in
        if \<not> delivered then wakeDevice cfg now recipientDevice s' else s')"

datatype wake_dispatch = NoDevice | NothingRegistered | WebPush PushSubscription | ViaGateway PushTarget | NoGateway

definition dispatchWake :: "api_config \<Rightarrow> database \<Rightarrow> string \<Rightarrow> wake_dispatch" where
  "dispatchWake cfg db deviceID =
     (case GetDevice db deviceID of Inl _ \<Rightarrow> NoDevice
      | Inr device \<Rightarrow>
          (case dev_Push device of Some sub \<Rightarrow> WebPush sub
           | None \<Rightarrow> (case dev_PushTarget device of
                 Some target \<Rightarrow> if cfg_PushGatewayURL cfg \<noteq> [] then ViaGateway target else NoGateway
               | None \<Rightarrow> NothingRegistered)))"

definition queued_message :: "api_config \<Rightarrow> (time \<Rightarrow> int \<Rightarrow> time) \<Rightarrow> time \<Rightarrow> enqueueRequest \<Rightarrow> Device \<Rightarrow> Message" where
  "queued_message cfg addDays now req device =
     \<lparr>msg_MessageID = eq_MessageID req, msg_SenderAccountID = eq_SenderAccountID req,
      msg_SenderDeviceID = eq_SenderDeviceID req, msg_RecipientAccountID = dev_AccountID device,
      msg_RecipientDeviceID = eq_RecipientDeviceID req, msg_Payload = eq_Payload req, msg_SentAt = now,
      msg_ExpiresAt = addDays now (cfg_MessageRetentionDays cfg)\<rparr>"

definition enqueueMessage :: "api_config \<Rightarrow> (time \<Rightarrow> int \<Rightarrow> time) \<Rightarrow> time \<Rightarrow> enqueueRequest \<Rightarrow> api_state
    \<Rightarrow> enqueueOutcome \<times> api_state" where
  "enqueueMessage cfg addDays now req s =
     (if eq_MessageID req = [] \<or> eq_RecipientDeviceID req = [] \<or> eq_Payload req = []
         \<or> trim_space (eq_Payload req) = ''null'' then (EnqueueInvalid, s)
      else case GetDevice (api_db s) (eq_RecipientDeviceID req) of Inl _ \<Rightarrow> (EnqueueUnknownRecipient, s)
      | Inr recipientDevice \<Rightarrow>
      if dev_Status recipientDevice \<noteq> DeviceStatusActive then (EnqueueUnknownRecipient, s)
      else if eq_RecipientAccountID req \<noteq> [] \<and> eq_RecipientAccountID req \<noteq> dev_AccountID recipientDevice
      then (EnqueueInvalid, s)
      else case GetAccount (api_db s) (dev_AccountID recipientDevice) of Inl _ \<Rightarrow> (EnqueueUnknownRecipient, s)
      | Inr recipientAccount \<Rightarrow>
      if acc_Status recipientAccount \<noteq> AccountStatusActive then (EnqueueUnknownRecipient, s)
      else let msg = queued_message cfg addDays now req recipientDevice in
        case createMessageUnderCap cfg (api_db s) msg of
          Inl e \<Rightarrow> (if e = ErrQueueFull then EnqueueQueueFull else if e = ErrConflict then EnqueueDuplicate
                   else EnqueueInternalError, s)
        | Inr db' \<Rightarrow> (EnqueueQueued, queueAndNotify cfg now msg recipientDevice (s\<lparr>api_db := db'\<rparr>)))"

definition item_request :: "string \<Rightarrow> string \<Rightarrow> batchMessageItem \<Rightarrow> enqueueRequest" where
  "item_request account device m = \<lparr>eq_MessageID = bm_MessageID m, eq_SenderAccountID = account,
     eq_SenderDeviceID = device, eq_RecipientAccountID = bm_RecipientAccountID m,
     eq_RecipientDeviceID = bm_RecipientDeviceID m, eq_Payload = bm_Payload m\<rparr>"

text \<open>
  The handlers' loop over the items of a batch; the clock is read anew for every item, the \<open>i\<close>-th
  reading being \<open>clock i\<close>.
\<close>

fun enqueue_all :: "api_config \<Rightarrow> (time \<Rightarrow> int \<Rightarrow> time) \<Rightarrow> (nat \<Rightarrow> time) \<Rightarrow> string \<Rightarrow> string \<Rightarrow> batchMessageItem list
    \<Rightarrow> api_state \<Rightarrow> (string \<times> enqueueOutcome) list \<times> api_state" where
  "enqueue_all cfg addDays clock account device [] s = ([], s)"
| "enqueue_all cfg addDays clock account device (m # ms) s =
     (case enqueueMessage cfg addDays (clock 0) (item_request account device m) s of (outcome, s1) \<Rightarrow>
      (case enqueue_all cfg addDays (\<lambda>i. clock (Suc i)) account device ms s1 of (results, s2) \<Rightarrow>
         ((bm_MessageID m, outcome) # results, s2)))"

definition checkBatchSize :: "api_config \<Rightarrow> nat \<Rightarrow> api_error + unit" where
  "checkBatchSize cfg n =
     (if n = 0 then Inl bad_request
      else if int n > cfg_MaxBatchMessages cfg then Inl (400, ''batch_too_large'') else Inr ())"

definition single_response :: "enqueueOutcome \<times> api_state \<Rightarrow> (api_error + unit) \<times> api_state" where
  "single_response r = (if fst r \<noteq> EnqueueQueued then (Inl (asError (fst r)), snd r) else (Inr (), snd r))"

definition handleSendMessage :: "api_config \<Rightarrow> (time \<Rightarrow> int \<Rightarrow> time) \<Rightarrow> time \<Rightarrow> Identity \<Rightarrow> batchMessageItem option
    \<Rightarrow> api_state \<Rightarrow> (api_error + unit) \<times> api_state" where
  "handleSendMessage cfg addDays now identity body s =
     (case body of None \<Rightarrow> (Inl bad_request, s)
      | Some req \<Rightarrow> single_response (enqueueMessage cfg addDays now
          (item_request (id_AccountID identity) (id_DeviceID identity) req) s))"

definition handleSendMessageBatch :: "api_config \<Rightarrow> (time \<Rightarrow> int \<Rightarrow> time) \<Rightarrow> (nat \<Rightarrow> time) \<Rightarrow> Identity
    \<Rightarrow> batchMessageItem list option \<Rightarrow> api_state \<Rightarrow> (api_error + (string \<times> enqueueOutcome) list) \<times> api_state" where
  "handleSendMessageBatch cfg addDays clock identity body s =
     (case body of None \<Rightarrow> (Inl bad_request, s)
      | Some msgs \<Rightarrow>
     (case checkBatchSize cfg (length msgs) of Inl e \<Rightarrow> (Inl e, s)
      | Inr _ \<Rightarrow> (case enqueue_all cfg addDays clock (id_AccountID identity) (id_DeviceID identity) msgs s of
          (results, s') \<Rightarrow> (Inr results, s'))))"

record messageResponse =
  mr_MessageID :: string
  mr_SenderAccountID :: string
  mr_SenderDeviceID :: string
  mr_SentAt :: string
  mr_Payload :: string

definition messageResponseFrom :: "Message \<Rightarrow> messageResponse" where
  "messageResponseFrom m = \<lparr>mr_MessageID = msg_MessageID m, mr_SenderAccountID = msg_SenderAccountID m,
     mr_SenderDeviceID = msg_SenderDeviceID m, mr_SentAt = rfc3339 (msg_SentAt m), mr_Payload = msg_Payload m\<rparr>"

definition handleListMessages :: "Identity \<Rightarrow> api_state \<Rightarrow> messageResponse list" where
  "handleListMessages identity s = map messageResponseFrom (ListPendingMessages (api_db s) (id_DeviceID identity))"

definition handleDeleteMessage :: "Identity \<Rightarrow> string \<Rightarrow> api_state \<Rightarrow> (api_error + unit) \<times> api_state" where
  "handleDeleteMessage identity messageID s =
     (case DeleteMessage (api_db s) messageID (id_DeviceID identity) of
        Inl _ \<Rightarrow> (Inl (404, ''not_found''), s)
      | Inr db' \<Rightarrow> (Inr (), s\<lparr>api_db := db'\<rparr>))"

text \<open>
  Opening a stream: the pending messages are read first, the subscription is taken second, and the
  pending messages are written before anything the channel delivers. The two halves are separate
  steps of the handler; the loop that copies the channel to the client is \<open>receive_from\<close>.
\<close>

definition stream_list :: "Identity \<Rightarrow> api_state \<Rightarrow> Message list" where
  "stream_list identity s = ListPendingMessages (api_db s) (id_DeviceID identity)"

definition stream_subscribe :: "api_config \<Rightarrow> Identity \<Rightarrow> api_state \<Rightarrow> (api_error + nat) \<times> api_state" where
  "stream_subscribe cfg identity s =
     (case subscribe (api_broker s) (id_DeviceID identity) (cfg_MaxStreamsPerDevice cfg) of
        Inl _ \<Rightarrow> (Inl (429, ''too_many_streams''), s)
      | Inr (c, b) \<Rightarrow> (Inr c, s\<lparr>api_broker := b\<rparr>))"

section \<open>What enqueueing does\<close>

definition stored_message :: "Message \<Rightarrow> Message" where
  "stored_message m = m\<lparr>msg_SentAt := formatTime (msg_SentAt m), msg_ExpiresAt := formatTime (msg_ExpiresAt m)\<rparr>"

lemma enqueueMessage_queued:
  assumes "enqueueMessage cfg addDays now req s = (EnqueueQueued, s')"
  obtains device account db' where
    "GetDevice (api_db s) (eq_RecipientDeviceID req) = Inr device" "dev_Status device = DeviceStatusActive"
    "eq_RecipientAccountID req = [] \<or> eq_RecipientAccountID req = dev_AccountID device"
    "GetAccount (api_db s) (dev_AccountID device) = Inr account" "acc_Status account = AccountStatusActive"
    "createMessageUnderCap cfg (api_db s) (queued_message cfg addDays now req device) = Inr db'"
    "s' = queueAndNotify cfg now (queued_message cfg addDays now req device) device (s\<lparr>api_db := db'\<rparr>)"
proof -
  let ?bad = "eq_MessageID req = [] \<or> eq_RecipientDeviceID req = [] \<or> eq_Payload req = [] \<or> trim_space (eq_Payload req) = ''null''"
  have valid: "\<not> ?bad" using assms by (cases ?bad) (simp_all add: enqueueMessage_def)
  obtain device where d: "GetDevice (api_db s) (eq_RecipientDeviceID req) = Inr device"
    using assms valid by (cases "GetDevice (api_db s) (eq_RecipientDeviceID req)") (simp_all add: enqueueMessage_def)
  have active: "dev_Status device = DeviceStatusActive"
    using assms valid d by (cases "dev_Status device = DeviceStatusActive") (simp_all add: enqueueMessage_def)
  have match: "eq_RecipientAccountID req = [] \<or> eq_RecipientAccountID req = dev_AccountID device"
    using assms valid d active
    by (cases "eq_RecipientAccountID req = [] \<or> eq_RecipientAccountID req = dev_AccountID device") (simp_all add: enqueueMessage_def)
  obtain account where a: "GetAccount (api_db s) (dev_AccountID device) = Inr account"
    using assms valid d active match by (cases "GetAccount (api_db s) (dev_AccountID device)") (auto simp: enqueueMessage_def)
  have acc: "acc_Status account = AccountStatusActive"
    using assms valid d active match a by (cases "acc_Status account = AccountStatusActive") (auto simp: enqueueMessage_def)
  let ?m = "queued_message cfg addDays now req device"
  obtain db' where db: "createMessageUnderCap cfg (api_db s) ?m = Inr db'"
    using assms valid d active match a acc
    by (cases "createMessageUnderCap cfg (api_db s) ?m") (auto simp: enqueueMessage_def split: if_splits)
  have "s' = queueAndNotify cfg now ?m device (s\<lparr>api_db := db'\<rparr>)"
    using assms valid d active match a acc db by (auto simp: enqueueMessage_def)
  from that [OF d active match a acc db this] show thesis .
qed

lemma enqueueMessage_refused:
  assumes "enqueueMessage cfg addDays now req s = (outcome, s')" "outcome \<noteq> EnqueueQueued"
  shows "s' = s"
proof -
  have "snd (enqueueMessage cfg addDays now req s) = s \<or> fst (enqueueMessage cfg addDays now req s) = EnqueueQueued"
    unfolding enqueueMessage_def Let_def by (simp split: sum.split)
  with assms show ?thesis by simp
qed

lemma createMessageUnderCap_Inr:
  "createMessageUnderCap cfg db m = Inr db' \<longleftrightarrow>
     int (CountPendingMessages db (msg_RecipientDeviceID m)) < cfg_MaxQueuedMessagesPerDevice cfg
     \<and> msg_MessageID m \<notin> msg_MessageID ` set (db_messages db) \<and> msg_RecipientDeviceID m \<in> device_ids db
     \<and> db' = db\<lparr>db_messages := db_messages db @ [stored_message m]\<rparr>"
  by (auto simp: createMessageUnderCap_def CreateMessageUnderCap_def CreateMessage_Inr stored_message_def)

lemma queueAndNotify_db [simp]: "api_db (queueAndNotify cfg now m d s) = api_db s"
  by (simp add: queueAndNotify_def wakeDevice_def Let_def split: prod.split)

lemma queueAndNotify_notifies:
  assumes "msg_RecipientDeviceID m = i" "dev_DeviceID d = i"
  shows "if hasResponsiveSubscriber (api_broker s) i
     then (\<exists>c \<in> set (subs_of (api_broker (queueAndNotify cfg now m d s)) i). m \<in> set (ch_buf c))
     else sent_to (api_wakes (queueAndNotify cfg now m d s)) i = Suc (sent_to (api_wakes s) i)
       \<or> pending_for (api_wakes (queueAndNotify cfg now m d s)) i"
proof -
  have pub: "fst (publish (api_broker s) i m) = hasResponsiveSubscriber (api_broker s) i"
    "subs_of (snd (publish (api_broker s) i m)) i = map (\<lambda>c. if has_room c then c\<lparr>ch_buf := ch_buf c @ [m]\<rparr> else c) (subs_of (api_broker s) i)"
    by (simp_all add: publish_subs publish_delivered offer_fst offer_snd hasResponsiveSubscriber_def)
  show ?thesis
  proof (cases "hasResponsiveSubscriber (api_broker s) i")
    case True
    then obtain c where c: "c \<in> set (subs_of (api_broker s) i)" "has_room c"
      by (auto simp: hasResponsiveSubscriber_def list_ex_iff)
    let ?f = "\<lambda>c. if has_room c then c\<lparr>ch_buf := ch_buf c @ [m]\<rparr> else c"
    have "?f c \<in> set (map ?f (subs_of (api_broker s) i))" using c(1) unfolding set_map by blast
    moreover have "m \<in> set (ch_buf (?f c))" using c(2) by simp
    ultimately have "\<exists>x \<in> set (subs_of (snd (publish (api_broker s) i m)) i). m \<in> set (ch_buf x)"
      unfolding pub(2) by blast
    with True pub(1) assms show ?thesis
      by (cases "publish (api_broker s) i m") (simp add: queueAndNotify_def Let_def)
  next
    case False
    with pub(1) assms show ?thesis
      using wake_outcome [of "cfg_PushWakeWindow cfg" now i "api_wakes s"]
      by (cases "publish (api_broker s) i m") (auto simp: queueAndNotify_def wakeDevice_def Let_def)
  qed
qed

text \<open>
  C16: A message that is not accepted leaves the server as it was. One that is accepted goes to an
  active device of an active account whose queue was below its cap, under a message id not queued
  before; exactly that message is appended to the database, with the sender the server
  authenticated; and the device is told: the message is in the buffer of one of its streams, or,
  when no stream keeps up, a wake was sent or is pending.
\<close>

theorem enqueue_stores_and_notifies:
  assumes "enqueueMessage cfg addDays now req s = (outcome, s')"
  shows "(outcome \<noteq> EnqueueQueued \<longrightarrow> s' = s) \<and> (outcome = EnqueueQueued \<longrightarrow> (\<exists>device account m.
     device \<in> set (db_devices (api_db s)) \<and> dev_DeviceID device = eq_RecipientDeviceID req \<and> dev_Status device = DeviceStatusActive
     \<and> account \<in> set (db_accounts (api_db s)) \<and> acc_ID account = dev_AccountID device \<and> acc_Status account = AccountStatusActive
     \<and> int (CountPendingMessages (api_db s) (dev_DeviceID device)) < cfg_MaxQueuedMessagesPerDevice cfg
     \<and> msg_MessageID m = eq_MessageID req \<and> msg_MessageID m \<notin> msg_MessageID ` set (db_messages (api_db s))
     \<and> msg_SenderAccountID m = eq_SenderAccountID req \<and> msg_SenderDeviceID m = eq_SenderDeviceID req
     \<and> msg_RecipientDeviceID m = dev_DeviceID device \<and> msg_RecipientAccountID m = dev_AccountID device
     \<and> msg_Payload m = eq_Payload req
     \<and> api_db s' = (api_db s)\<lparr>db_messages := db_messages (api_db s) @ [stored_message m]\<rparr>
     \<and> (if hasResponsiveSubscriber (api_broker s) (dev_DeviceID device)
         then (\<exists>c \<in> set (subs_of (api_broker s') (dev_DeviceID device)). m \<in> set (ch_buf c))
         else sent_to (api_wakes s') (dev_DeviceID device) = Suc (sent_to (api_wakes s) (dev_DeviceID device))
           \<or> pending_for (api_wakes s') (dev_DeviceID device))))"
proof (cases "outcome = EnqueueQueued")
  case True
  obtain device account db' where d: "GetDevice (api_db s) (eq_RecipientDeviceID req) = Inr device"
      "dev_Status device = DeviceStatusActive"
      "GetAccount (api_db s) (dev_AccountID device) = Inr account" "acc_Status account = AccountStatusActive"
      "createMessageUnderCap cfg (api_db s) (queued_message cfg addDays now req device) = Inr db'"
    and s': "s' = queueAndNotify cfg now (queued_message cfg addDays now req device) device (s\<lparr>api_db := db'\<rparr>)"
    by (rule enqueueMessage_queued [OF assms [unfolded True]])
  let ?m = "queued_message cfg addDays now req device"
  obtain row where row: "row \<in> set (db_devices (api_db s))" "device = scanDeviceFields row" "dev_DeviceID row = eq_RecipientDeviceID req"
    using d(1) by (auto simp: GetDevice_def split: option.splits dest: row_get_SomeD)
  have m: "msg_RecipientDeviceID ?m = dev_DeviceID row" "dev_DeviceID device = dev_DeviceID row"
    using row by (simp_all add: queued_message_def)
  have db: "api_db s' = (api_db s)\<lparr>db_messages := db_messages (api_db s) @ [stored_message ?m]\<rparr>"
    "int (CountPendingMessages (api_db s) (dev_DeviceID row)) < cfg_MaxQueuedMessagesPerDevice cfg"
    "msg_MessageID ?m \<notin> msg_MessageID ` set (db_messages (api_db s))"
    using d(5) m(1) by (auto simp: s' createMessageUnderCap_Inr)
  have told: "if hasResponsiveSubscriber (api_broker s) (dev_DeviceID row)
         then (\<exists>c \<in> set (subs_of (api_broker s') (dev_DeviceID row)). ?m \<in> set (ch_buf c))
         else sent_to (api_wakes s') (dev_DeviceID row) = Suc (sent_to (api_wakes s) (dev_DeviceID row))
           \<or> pending_for (api_wakes s') (dev_DeviceID row)"
    using queueAndNotify_notifies [OF m, of "s\<lparr>api_db := db'\<rparr>" cfg now] by (simp add: s' split: if_splits)
  have fields: "msg_MessageID ?m = eq_MessageID req" "msg_SenderAccountID ?m = eq_SenderAccountID req"
    "msg_SenderDeviceID ?m = eq_SenderDeviceID req" "msg_RecipientAccountID ?m = dev_AccountID row" "msg_Payload ?m = eq_Payload req"
    using row(2) by (simp_all add: queued_message_def)
  have acc: "dev_Status row = DeviceStatusActive" "acc_ID account = dev_AccountID row" "account \<in> set (db_accounts (api_db s))"
    using d(2) row(2) GetAccount_mem [OF d(3)] by simp_all
  show ?thesis
    by (rule conjI, use True in simp, rule impI,
      intro exI [of _ row] exI [of _ account] exI [of _ ?m] conjI) (rule row m db told fields acc d)+
qed (use enqueueMessage_refused [OF assms] in simp)

definition sample_config :: api_config where
  "sample_config = \<lparr>cfg_MessageRetentionDays = 30, cfg_MaxQueuedMessagesPerDevice = 2, cfg_MaxBatchMessages = 10,
     cfg_MaxStreamsPerDevice = 4, cfg_PushGatewayURL = [], cfg_PushWakeWindow = 0\<rparr>"

definition sample_state :: api_state where
  "sample_state = \<lparr>api_db = sample_database, api_broker = newMessageBroker, api_wakes = newWakeCoalescer\<rparr>"

definition sample_enqueue :: enqueueRequest where
  "sample_enqueue = \<lparr>eq_MessageID = ''m3'', eq_SenderAccountID = ''alice'', eq_SenderDeviceID = ''a1'',
     eq_RecipientAccountID = ''bob'', eq_RecipientDeviceID = ''b1'', eq_Payload = ''{}''\<rparr>"

lemma sample_enqueued:
  "fst (enqueueMessage sample_config (\<lambda>t n. t) 0 sample_enqueue sample_state) = EnqueueQueued"
proof -
  have p: "trim_space ''{}'' = ''{}''" by (rule trim_space_graphic) (simp add: graphic_def)
  have rows: "GetDevice sample_database ''b1'' = Inr (sample_device ''b1'' ''bob'')"
    "GetAccount sample_database ''bob'' = Inr (sample_account ''bob'')" by code_simp+
  have "\<not> isl (createMessageUnderCap sample_config sample_database
      (queued_message sample_config (\<lambda>t n. t) 0 sample_enqueue (sample_device ''b1'' ''bob'')))" by code_simp
  then obtain db' where c: "createMessageUnderCap sample_config sample_database
      (queued_message sample_config (\<lambda>t n. t) 0 sample_enqueue (sample_device ''b1'' ''bob'')) = Inr db'"
    by (auto simp: isl_def) (metis sum.exhaust)
  have req: "eq_MessageID sample_enqueue = ''m3''" "eq_RecipientDeviceID sample_enqueue = ''b1''"
    "eq_Payload sample_enqueue = ''{}''" "eq_RecipientAccountID sample_enqueue = ''bob''" by (simp_all add: sample_enqueue_def)
  have st: "dev_Status (sample_device ''b1'' ''bob'') = DeviceStatusActive" "dev_AccountID (sample_device ''b1'' ''bob'') = ''bob''"
    "acc_Status (sample_account ''bob'') = AccountStatusActive" "api_db sample_state = sample_database"
    by (simp_all add: sample_device_def sample_account_def sample_state_def)
  show ?thesis by (simp add: enqueueMessage_def req p rows st Let_def c)
qed

theorem enqueue_stores_and_notifies_witness:
  "\<exists>s'. enqueueMessage sample_config (\<lambda>t n. t) 0 sample_enqueue sample_state = (EnqueueQueued, s')
    \<and> length (db_messages (api_db s')) = Suc (length (db_messages (api_db sample_state)))
    \<and> (sent_to (api_wakes s') ''b1'' = 1 \<or> pending_for (api_wakes s') ''b1'')"
proof -
  obtain s' where s': "enqueueMessage sample_config (\<lambda>t n. t) 0 sample_enqueue sample_state = (EnqueueQueued, s')"
    using sample_enqueued by (cases "enqueueMessage sample_config (\<lambda>t n. t) 0 sample_enqueue sample_state") simp
  have "\<not> hasResponsiveSubscriber (api_broker sample_state) ''b1''" "sent_to (api_wakes sample_state) ''b1'' = 0" by code_simp+
  moreover have "eq_RecipientDeviceID sample_enqueue = ''b1''" by (simp add: sample_enqueue_def)
  ultimately show ?thesis
    using enqueue_stores_and_notifies [OF s'] s' by auto
qed

section \<open>The gap between listing and subscribing\<close>

text \<open>
  A message accepted between the two halves of opening a stream is not seen on that stream: it is
  missing from the pending messages, which were read before, and from the channel, which is made
  after. With no other stream of the device open, its buffer is empty.
\<close>

theorem stream_gap:
  assumes "enqueueMessage cfg addDays now req s = (EnqueueQueued, s1)" "eq_RecipientDeviceID req = id_DeviceID identity"
    and "subs_of (api_broker s) (id_DeviceID identity) = []" "0 < cfg_MaxStreamsPerDevice cfg"
  shows "eq_MessageID req \<notin> msg_MessageID ` set (stream_list identity s)
    \<and> (\<exists>c s2. stream_subscribe cfg identity s1 = (Inr c, s2)
      \<and> subs_of (api_broker s2) (id_DeviceID identity) = [\<lparr>ch_id = c, ch_buf = []\<rparr>]
      \<and> eq_MessageID req \<in> msg_MessageID ` set (stream_list identity s2))"
proof -
  obtain device account db' where cap: "createMessageUnderCap cfg (api_db s) (queued_message cfg addDays now req device) = Inr db'"
    and s1: "s1 = queueAndNotify cfg now (queued_message cfg addDays now req device) device (s\<lparr>api_db := db'\<rparr>)"
    by (rule enqueueMessage_queued [OF assms(1)])
  let ?d = "id_DeviceID identity" and ?m = "queued_message cfg addDays now req device"
  have m: "msg_MessageID ?m = eq_MessageID req" "msg_RecipientDeviceID ?m = ?d"
    using assms(2) by (simp_all add: queued_message_def)
  have "subs_of (snd (publish (api_broker s) ?d ?m)) ?d = []" using assms(3) by (simp add: publish_subs offer_snd)
  then have subs: "subs_of (api_broker s1) ?d = []"
    using m(2) by (cases "publish (api_broker s) ?d ?m") (simp add: s1 queueAndNotify_def wakeDevice_def Let_def)
  have new: "eq_MessageID req \<notin> msg_MessageID ` set (stream_list identity s)"
    using cap m(1) by (auto simp: createMessageUnderCap_Inr stream_list_def ListPendingMessages_def)
  have "stored_message ?m \<in> set (stream_list identity s1)"
    using cap m(2) by (auto simp: s1 createMessageUnderCap_Inr stream_list_def ListPendingMessages_def stored_message_def)
  then have listed: "eq_MessageID req \<in> msg_MessageID ` set (stream_list identity s1)"
    using m(1) by (force simp: stored_message_def)
  obtain c b where sub: "subscribe (api_broker s1) ?d (cfg_MaxStreamsPerDevice cfg) = Inr (c, b)"
    using subs assms(4) by (simp add: subscribe_def Let_def)
  then show ?thesis
    using new listed subscribe_subs [OF sub, of ?d] subs
    by (simp add: stream_subscribe_def stream_list_def)
qed

definition sample_reader :: Identity where
  "sample_reader = \<lparr>id_AccountID = ''bob'', id_DeviceID = ''b1'', id_Role = RoleUser\<rparr>"

theorem stream_gap_witness:
  "''m3'' \<notin> msg_MessageID ` set (stream_list sample_reader sample_state)
    \<and> (\<exists>s1 c s2. enqueueMessage sample_config (\<lambda>t n. t) 0 sample_enqueue sample_state = (EnqueueQueued, s1)
      \<and> stream_subscribe sample_config sample_reader s1 = (Inr c, s2)
      \<and> subs_of (api_broker s2) ''b1'' = [\<lparr>ch_id = c, ch_buf = []\<rparr>])"
proof -
  obtain s1 where s1: "enqueueMessage sample_config (\<lambda>t n. t) 0 sample_enqueue sample_state = (EnqueueQueued, s1)"
    using sample_enqueued by (cases "enqueueMessage sample_config (\<lambda>t n. t) 0 sample_enqueue sample_state") simp
  have "eq_RecipientDeviceID sample_enqueue = id_DeviceID sample_reader"
    "subs_of (api_broker sample_state) (id_DeviceID sample_reader) = []" "0 < cfg_MaxStreamsPerDevice sample_config"
    by code_simp+
  from stream_gap [OF s1 this] s1 show ?thesis by (simp add: sample_enqueue_def sample_reader_def) blast
qed

end
