(* ===== verification/Api_Federation.thy ===== *)
theory Api_Federation
  imports Api_Messages
begin

text \<open>
  Federation: authenticating a sender of another server from the material in its request, receiving
  its messages, and the blocklist of remote accounts (\<open>federation_sender.go\<close>, \<open>federation.go\<close>,
  \<open>federation_admin.go\<close>).
\<close>

section \<open>federation\_sender.go\<close>

record federatedSenderClaim =
  fc_AccountID :: string
  fc_RootPubKey :: string
  fc_DeviceCert :: federationDeviceCertDTO
  fc_RequestBody :: bytes
  fc_BodyDigest :: string

record federatedSender =
  fs_AccountID :: string
  fs_DeviceID :: string
  fs_DevicePubKey :: bytes

definition claim_canonical :: "platform \<Rightarrow> http_request \<Rightarrow> RequestSignatureHeaders \<Rightarrow> federatedSenderClaim \<Rightarrow> string" where
  "claim_canonical P r headers claim =
     (if fc_BodyDigest claim \<noteq> []
      then CanonicalStringWithBodyDigest (Method r) (URLPath r) (RawQuery r) (h_Timestamp headers) (h_Nonce headers)
             (h_KeyID headers) (fc_BodyDigest claim)
      else CanonicalStringFromRequest P r headers (fc_RequestBody claim))"

abbreviation unauthorized :: api_error where "unauthorized \<equiv> (401, ''unauthorized'')"

definition verifyFederatedSender :: "platform \<Rightarrow> time \<Rightarrow> http_request \<Rightarrow> federatedSenderClaim \<Rightarrow> database
    \<Rightarrow> (api_error + federatedSender) \<times> database" where
  "verifyFederatedSender P now r claim db =
     (case decodeBase64Key (fc_RootPubKey claim) public_key_size of None \<Rightarrow> (Inl bad_request, db)
      | Some senderRootPub \<Rightarrow>
      if Address.Verify P (fc_AccountID claim) senderRootPub \<noteq> Inr True then (Inl bad_request, db)
      else case Normalize P (fc_AccountID claim) of Inl _ \<Rightarrow> (Inl bad_request, db)
      | Inr canonicalAccountID \<Rightarrow>
     (case decodeBase64Key (fd_DevicePubKey (fc_DeviceCert claim)) public_key_size of None \<Rightarrow> (Inl bad_request, db)
      | Some senderDevicePub \<Rightarrow>
     (case parse_rfc3339 (fd_IssuedAt (fc_DeviceCert claim)) of None \<Rightarrow> (Inl bad_request, db)
      | Some certIssuedAt \<Rightarrow>
     (case decodeBase64Key (fd_Signature (fc_DeviceCert claim)) signature_size of None \<Rightarrow> (Inl bad_request, db)
      | Some certSig \<Rightarrow>
     (let cert = \<lparr>dc_AccountID = fc_AccountID claim, dc_DeviceID = fd_DeviceID (fc_DeviceCert claim),
                  dc_DevicePubKey = senderDevicePub, dc_IssuedAt = certIssuedAt, dc_Signature = certSig\<rparr> in
      case ParseRequestHeaders r of None \<Rightarrow> (Inl unauthorized, db)
      | Some headers \<Rightarrow>
      if h_KeyID headers \<noteq> base64_encode senderDevicePub then (Inl unauthorized, db)
      else case ParseTimestamp (h_Timestamp headers) of None \<Rightarrow> (Inl unauthorized, db)
      | Some ts \<Rightarrow>
      if \<not> WithinSkew ts now MaxClockSkew then (Inl unauthorized, db)
      else case device_cert_Verify P cert senderRootPub of Inl _ \<Rightarrow> (Inl (400, ''invalid_certificate''), db)
      | Inr _ \<Rightarrow>
     (case httpsig_Verify P (claim_canonical P r headers claim) (h_Signature headers) senderDevicePub of
        Inl _ \<Rightarrow> (Inl unauthorized, db)
      | Inr _ \<Rightarrow>
      if IsFederationBlocked db canonicalAccountID then (Inl (403, ''forbidden''), db)
      else case RecordNonce db (h_KeyID headers) (h_Nonce headers) ts (time_add ts MaxClockSkew) of
        (nonceOK, db') \<Rightarrow>
          if \<not> nonceOK then (Inl unauthorized, db')
          else (Inr \<lparr>fs_AccountID = canonicalAccountID, fs_DeviceID = fd_DeviceID (fc_DeviceCert claim),
                     fs_DevicePubKey = senderDevicePub\<rparr>, db')))))))"

section \<open>federation.go\<close>

definition federation_open :: "database \<Rightarrow> api_error + unit" where
  "federation_open db = (case GetFederationEnabled db of Inl _ \<Rightarrow> Inl internal_error
     | Inr enabled \<Rightarrow> if \<not> enabled then Inl (404, ''federation_disabled'') else Inr ())"

definition handleReceiveFederatedMessage :: "platform \<Rightarrow> api_config \<Rightarrow> (time \<Rightarrow> int \<Rightarrow> time) \<Rightarrow> time \<Rightarrow> http_request
    \<Rightarrow> (bytes \<Rightarrow> federationMessageRequest option) \<Rightarrow> api_state \<Rightarrow> (api_error + unit) \<times> api_state" where
  "handleReceiveFederatedMessage P cfg addDays now r decode s =
     (case federation_open (api_db s) of Inl e \<Rightarrow> (Inl e, s)
      | Inr _ \<Rightarrow>
     (case readBody r of Inl e \<Rightarrow> (Inl e, s)
      | Inr body \<Rightarrow>
     (case decode body of None \<Rightarrow> (Inl bad_request, s)
      | Some req \<Rightarrow>
      if fm_SenderAccountID req = [] \<or> fm_SenderRootPubKey req = [] \<or> fd_DeviceID (fm_SenderDeviceCert req) = []
         \<or> bm_RecipientDeviceID (fm_Message req) = [] \<or> bm_MessageID (fm_Message req) = []
         \<or> bm_Payload (fm_Message req) = [] then (Inl bad_request, s)
      else case verifyFederatedSender P now r \<lparr>fc_AccountID = fm_SenderAccountID req, fc_RootPubKey = fm_SenderRootPubKey req,
             fc_DeviceCert = fm_SenderDeviceCert req, fc_RequestBody = body, fc_BodyDigest = []\<rparr> (api_db s) of
        (Inl e, db1) \<Rightarrow> (Inl e, s\<lparr>api_db := db1\<rparr>)
      | (Inr sender, db1) \<Rightarrow> single_response (enqueueMessage cfg addDays now
          (item_request (fs_AccountID sender) (fs_DeviceID sender) (fm_Message req)) (s\<lparr>api_db := db1\<rparr>)))))"

definition handleReceiveFederatedMessageBatch :: "platform \<Rightarrow> api_config \<Rightarrow> (time \<Rightarrow> int \<Rightarrow> time) \<Rightarrow> time \<Rightarrow> (nat \<Rightarrow> time)
    \<Rightarrow> http_request \<Rightarrow> (bytes \<Rightarrow> federationMessageBatchRequest option) \<Rightarrow> api_state
    \<Rightarrow> (api_error + (string \<times> enqueueOutcome) list) \<times> api_state" where
  "handleReceiveFederatedMessageBatch P cfg addDays now clock r decode s =
     (case federation_open (api_db s) of Inl e \<Rightarrow> (Inl e, s)
      | Inr _ \<Rightarrow>
     (case readBody r of Inl e \<Rightarrow> (Inl e, s)
      | Inr body \<Rightarrow>
     (case decode body of None \<Rightarrow> (Inl bad_request, s)
      | Some req \<Rightarrow>
      if fmb_SenderAccountID req = [] \<or> fmb_SenderRootPubKey req = [] \<or> fd_DeviceID (fmb_SenderDeviceCert req) = []
      then (Inl bad_request, s)
      else case checkBatchSize cfg (length (fmb_Messages req)) of Inl e \<Rightarrow> (Inl e, s)
      | Inr _ \<Rightarrow>
     (case verifyFederatedSender P now r \<lparr>fc_AccountID = fmb_SenderAccountID req, fc_RootPubKey = fmb_SenderRootPubKey req,
             fc_DeviceCert = fmb_SenderDeviceCert req, fc_RequestBody = body, fc_BodyDigest = []\<rparr> (api_db s) of
        (Inl e, db1) \<Rightarrow> (Inl e, s\<lparr>api_db := db1\<rparr>)
      | (Inr sender, db1) \<Rightarrow>
          (case enqueue_all cfg addDays clock (fs_AccountID sender) (fs_DeviceID sender) (fmb_Messages req) (s\<lparr>api_db := db1\<rparr>) of
             (results, s') \<Rightarrow> (Inr results, s'))))))"

section \<open>federation\_admin.go\<close>

definition handleListFederationBlocklist :: "database \<Rightarrow> Identity \<Rightarrow> api_error + FederationBlockEntry list" where
  "handleListFederationBlocklist db identity =
     (if \<not> requireAdminOrModerator identity then Inl (403, ''forbidden'') else Inr (ListFederationBlocklist db))"

definition handleBlockFederationSender :: "platform \<Rightarrow> time \<Rightarrow> Identity \<Rightarrow> (string \<times> string option) option
    \<Rightarrow> database \<Rightarrow> (api_error + unit) \<times> database" where
  "handleBlockFederationSender P now identity body db =
     (if \<not> requireAdmin identity then (Inl (403, ''forbidden''), db)
      else case body of None \<Rightarrow> (Inl bad_request, db)
      | Some (accountID, reason) \<Rightarrow>
      if accountID = [] then (Inl bad_request, db)
      else case Normalize P accountID of Inl _ \<Rightarrow> (Inl bad_request, db)
      | Inr canonicalAccountID \<Rightarrow>
          (Inr (), BlockFederationSender db canonicalAccountID (id_AccountID identity) reason now))"

definition handleUnblockFederationSender :: "platform \<Rightarrow> Identity \<Rightarrow> string \<Rightarrow> database \<Rightarrow> (api_error + unit) \<times> database" where
  "handleUnblockFederationSender P identity pathID db =
     (if \<not> requireAdmin identity then (Inl (403, ''forbidden''), db)
      else case Normalize P pathID of Inl _ \<Rightarrow> (Inl (404, ''not_found''), db)
      | Inr canonicalAccountID \<Rightarrow>
     (case UnblockFederationSender db canonicalAccountID of
        Inl _ \<Rightarrow> (Inl (404, ''not_found''), db)
      | Inr db' \<Rightarrow> (Inr (), db')))"

section \<open>Who a federated sender is\<close>

lemma verifyFederatedSender_Inr:
  assumes "verifyFederatedSender P now r claim db = (Inr sender, db')"
  obtains root canon pub t sig h ts where
    "decodeBase64Key (fc_RootPubKey claim) public_key_size = Some root" "Address.Verify P (fc_AccountID claim) root = Inr True"
    "Normalize P (fc_AccountID claim) = Inr canon"
    "device_cert_Verify P \<lparr>dc_AccountID = fc_AccountID claim, dc_DeviceID = fd_DeviceID (fc_DeviceCert claim),
       dc_DevicePubKey = pub, dc_IssuedAt = t, dc_Signature = sig\<rparr> root = Inr ()"
    "ParseRequestHeaders r = Some h" "h_KeyID h = base64_encode pub" "ParseTimestamp (h_Timestamp h) = Some ts"
    "WithinSkew ts now MaxClockSkew" "httpsig_Verify P (claim_canonical P r h claim) (h_Signature h) pub = Inr ()"
    "\<not> IsFederationBlocked db canon"
    "RecordNonce db (h_KeyID h) (h_Nonce h) ts (time_add ts MaxClockSkew) = (True, db')"
    "sender = \<lparr>fs_AccountID = canon, fs_DeviceID = fd_DeviceID (fc_DeviceCert claim), fs_DevicePubKey = pub\<rparr>"
  using assms unfolding verifyFederatedSender_def Let_def
  by (auto split: option.splits sum.splits prod.splits if_splits)

lemma verifyFederatedSender_Inl:
  assumes "verifyFederatedSender P now r claim db = (Inl e, db')"
  shows "db' = db"
proof -
  have "snd (verifyFederatedSender P now r claim db) = db \<or> \<not> isl (fst (verifyFederatedSender P now r claim db))"
    unfolding verifyFederatedSender_def Let_def by (simp split: option.split sum.split prod.split add: RecordNonce_def)
  with assms show ?thesis by simp
qed


section \<open>The blocklist\<close>

lemma blocked_iff: "IsFederationBlocked db x \<longleftrightarrow> x \<in> fb_AccountID ` set (db_blocklist db)"
  by (auto simp: IsFederationBlocked_def row_count_pos)

lemma replace_keys:
  "key row = a \<Longrightarrow> map key (row_update (\<lambda>e. key e = a) (\<lambda>_. row) xs) = map key xs"
  by (induction xs) (simp_all add: row_update_def)

lemma blocked_after: "IsFederationBlocked (BlockFederationSender db a b c t) x \<longleftrightarrow> x = a \<or> IsFederationBlocked db x"
proof -
  let ?row = "\<lparr>fb_AccountID = a, fb_BlockedAt = formatTime t, fb_BlockedBy = b, fb_Reason = c\<rparr>"
  have keys: "fb_AccountID ` set (row_update (\<lambda>e. fb_AccountID e = a) (\<lambda>_. ?row) xs) = fb_AccountID ` set xs" for xs
    using replace_keys [of fb_AccountID ?row a xs] by (metis FederationBlockEntry.select_convs(1) list.set_map)
  show ?thesis
    by (cases "list_ex (\<lambda>e. fb_AccountID e = a) (db_blocklist db)")
      (simp_all add: blocked_iff BlockFederationSender_def Let_def keys, auto simp: list_ex_iff)
qed

lemma unblocked_after:
  "UnblockFederationSender db a = Inr db' \<Longrightarrow> IsFederationBlocked db' x \<longleftrightarrow> x \<noteq> a \<and> IsFederationBlocked db x"
  by (auto simp: IsFederationBlocked_def UnblockFederationSender_def row_count_pos set_row_delete split: if_splits)

text \<open>
  When an admin blocks an account, in whatever spelling, no federated request claiming that
  account in whatever spelling is accepted afterwards, and unblocking it in yet another spelling
  removes it from the blocklist again without touching any other entry.
\<close>

theorem block_covers_every_spelling:
  assumes "handleBlockFederationSender P t identity (Some (typed, reason)) db = (Inr (), db1)"
    and "Normalize P (fc_AccountID claim) = Normalize P typed"
  shows "isl (fst (verifyFederatedSender P now r claim db1))
    \<and> (handleUnblockFederationSender P who spelled_again db1 = (Inr (), db2) \<longrightarrow> Normalize P spelled_again = Normalize P typed
        \<longrightarrow> (\<forall>x. IsFederationBlocked db2 x \<longleftrightarrow> IsFederationBlocked db x \<and> Normalize P typed \<noteq> Inr x))"
proof -
  obtain canon where c: "Normalize P typed = Inr canon" "db1 = BlockFederationSender db canon (id_AccountID identity) reason t"
    using assms(1) by (auto simp: handleBlockFederationSender_def split: if_splits sum.splits)
  have "isl (fst (verifyFederatedSender P now r claim db1))"
  proof (rule ccontr)
    assume "\<not> isl (fst (verifyFederatedSender P now r claim db1))"
    then obtain sender db' where "verifyFederatedSender P now r claim db1 = (Inr sender, db')"
      by (cases "verifyFederatedSender P now r claim db1") (metis fst_conv isl_def sum.exhaust)
    then show False
      by (rule verifyFederatedSender_Inr) (use assms(2) c in \<open>auto simp: blocked_after\<close>)
  qed
  moreover have "IsFederationBlocked db2 x \<longleftrightarrow> IsFederationBlocked db x \<and> Normalize P typed \<noteq> Inr x"
    if "handleUnblockFederationSender P who spelled_again db1 = (Inr (), db2)" "Normalize P spelled_again = Normalize P typed" for x
    using that c unblocked_after [of db1 canon db2 x] blocked_after [of db canon]
    by (auto simp: handleUnblockFederationSender_def split: if_splits sum.splits)
  ultimately show ?thesis by blast
qed

section \<open>Replays\<close>

text \<open>What happens to the nonce table between two deliveries: other federated requests, and purges.\<close>

fun fed_step :: "platform \<Rightarrow> time \<times> (http_request \<times> federatedSenderClaim) option \<Rightarrow> database \<Rightarrow> database" where
  "fed_step P (t, Some (r, claim)) db = snd (verifyFederatedSender P t r claim db)"
| "fed_step P (t, None) db = PurgeExpiredNonces db t"

definition nonce_kept :: "string \<Rightarrow> string \<Rightarrow> time \<Rightarrow> database \<Rightarrow> bool" where
  "nonce_kept k n e db \<longleftrightarrow> (\<exists>u \<in> set (db_used_nonces db). un_device_id u = k \<and> un_nonce u = n \<and> un_expires_at u = formatTime e)"

lemma fed_step_keeps:
  assumes "nonce_kept k n e db" "fst x \<le> e"
  shows "nonce_kept k n e (fed_step P x db)"
proof (cases "snd x")
  case None
  then obtain t where x: "x = (t, None)" by (cases x) auto
  have "formatTime t \<le> formatTime e" using assms(2) x formatTime_mono [of t e] by simp
  with assms(1) show ?thesis by (fastforce simp: x nonce_kept_def PurgeExpiredNonces_def set_row_delete)
next
  case (Some y)
  then obtain t r claim where x: "x = (t, Some (r, claim))" by (cases x; cases y) auto
  have "set (db_used_nonces db) \<subseteq> set (db_used_nonces (snd (verifyFederatedSender P t r claim db)))"
  proof (cases "verifyFederatedSender P t r claim db")
    case (Pair res db')
    show ?thesis
    proof (cases res)
      case (Inl y)
      then show ?thesis using verifyFederatedSender_Inl Pair by fastforce
    next
      case (Inr sender)
      with Pair have "verifyFederatedSender P t r claim db = (Inr sender, db')" by simp
      then show ?thesis
        by (rule verifyFederatedSender_Inr) (auto simp: Pair RecordNonce_def split: if_splits)
    qed
  qed
  with assms(1) show ?thesis unfolding x nonce_kept_def fed_step.simps by blast
qed

lemma fed_steps_keep:
  "nonce_kept k n e db \<Longrightarrow> \<forall>x \<in> set evs. fst x \<le> e \<Longrightarrow> nonce_kept k n e (fold (fed_step P) evs db)"
  by (induction evs arbitrary: db) (auto simp: fed_step_keeps)

text \<open>
  A federated request that was accepted is refused whenever it is sent again, also when other
  federated requests were served and expired nonces purged in between, up to the moment of the
  replay: while its timestamp is acceptable its nonce is still recorded.
\<close>

theorem federated_replay_refused:
  assumes "verifyFederatedSender P t r claim db = (Inr sender, db')"
    and "ParseTimestamp (header_get r HeaderTimestamp) = Some ts" "time_add ts MaxClockSkew = ts + MaxClockSkew"
    and "\<forall>x \<in> set evs. fst x \<le> t2" "ts < t2 + 2 ^ 63"
  shows "isl (fst (verifyFederatedSender P t2 r claim' (fold (fed_step P) evs db')))"
proof (rule ccontr)
  let ?db = "fold (fed_step P) evs db'"
  assume "\<not> isl (fst (verifyFederatedSender P t2 r claim' ?db))"
  then obtain sender' db2 where again: "verifyFederatedSender P t2 r claim' ?db = (Inr sender', db2)"
    by (cases "verifyFederatedSender P t2 r claim' ?db") (metis fst_conv isl_def sum.exhaust)
  obtain h where h: "ParseRequestHeaders r = Some h" "RecordNonce db (h_KeyID h) (h_Nonce h) ts (ts + MaxClockSkew) = (True, db')"
    using assms(1)
  proof (rule verifyFederatedSender_Inr)
    fix h' ts'
    assume "ParseRequestHeaders r = Some h'" "ParseTimestamp (h_Timestamp h') = Some ts'"
      "RecordNonce db (h_KeyID h') (h_Nonce h') ts' (time_add ts' MaxClockSkew) = (True, db')"
    then show thesis using that [of h'] assms(2,3) by (auto simp: ParseRequestHeaders_def Let_def split: if_splits)
  qed
  then have kept: "nonce_kept (h_KeyID h) (h_Nonce h) (ts + MaxClockSkew) db'"
    by (auto simp: RecordNonce_def nonce_kept_def split: if_splits)
  have second: "WithinSkew ts t2 MaxClockSkew" "fst (RecordNonce ?db (h_KeyID h) (h_Nonce h) ts (ts + MaxClockSkew))"
    using again assms(2,3) h(1) by (auto elim!: verifyFederatedSender_Inr simp: ParseRequestHeaders_def Let_def split: if_splits)
  have "t2 \<le> ts + MaxClockSkew"
    using second(1) assms(5) by (auto simp: WithinSkew_def time_sub_def neg_duration_def Let_def MaxClockSkew_def
        minute_def second_def min_def max_def split: if_splits)
  then have "\<forall>x \<in> set evs. fst x \<le> ts + MaxClockSkew" using assms(4) by force
  from fed_steps_keep [OF kept this, of P] second(2) show False
    by (auto simp: RecordNonce_def nonce_kept_def list_ex_iff split: if_splits)
qed

section \<open>Witnesses\<close>

lemma verifyFederatedSender_honest:
  assumes "ed25519_correct P" "Address.Verify P acc root = Inr True" "Normalize P acc = Inr canon" "length root = 32"
    and "device_cert_Verify P \<lparr>dc_AccountID = acc, dc_DeviceID = i, dc_DevicePubKey = ed25519_public P priv, dc_IssuedAt = t0,
       dc_Signature = sig\<rparr> root = Inr ()" "length sig = 64" "parse_rfc3339 issued = Some t0"
    and "nonce \<noteq> []" "- (2 ^ 62) \<le> unix_seconds t" "unix_seconds t < 2 ^ 62" "WithinSkew (truncate_second t) now MaxClockSkew"
    and "\<not> IsFederationBlocked db canon"
    and "(base64_encode (ed25519_public P priv), nonce) \<notin> (\<lambda>n. (un_device_id n, un_nonce n)) ` set (db_used_nonces db)"
  shows "\<exists>n. verifyFederatedSender P now
      (client_request P priv (base64_encode (ed25519_public P priv)) m p q body t nonce)
      \<lparr>fc_AccountID = acc, fc_RootPubKey = base64_encode root, fc_DeviceCert = \<lparr>fd_DeviceID = i,
         fd_DevicePubKey = base64_encode (ed25519_public P priv), fd_IssuedAt = issued, fd_Signature = base64_encode sig\<rparr>,
       fc_RequestBody = body, fc_BodyDigest = []\<rparr> db
      = (Inr \<lparr>fs_AccountID = canon, fs_DeviceID = i, fs_DevicePubKey = ed25519_public P priv\<rparr>,
         db\<lparr>db_used_nonces := db_used_nonces db @ [n]\<rparr>)"
proof -
  let ?key = "base64_encode (ed25519_public P priv)"
  let ?r = "client_request P priv ?key m p q body t nonce"
  let ?h = "\<lparr>h_KeyID = ?key, h_Timestamp = FormatTimestamp t, h_Nonce = nonce,
    h_Signature = httpsig_Sign P m p q body ?key t nonce priv\<rparr>"
  have len: "length (ed25519_public P priv) = 32" using assms(1) by (simp add: ed25519_correct_def)
  then have "ed25519_public P priv \<noteq> []" by auto
  then have h: "ParseRequestHeaders ?r = Some ?h"
    using assms(1,8) by (simp add: ParseRequestHeaders_def client_signature_nonempty base64_encode_nonempty FormatTimestamp_def)
  have fresh: "\<not> list_ex (\<lambda>n. un_device_id n = ?key \<and> un_nonce n = nonce) (db_used_nonces db)"
    using assms(13) unfolding list_ex_iff by force
  have can: "CanonicalStringFromRequest P ?r ?h body = CanonicalString P m p q (FormatTimestamp t) nonce ?key body"
    by (simp add: client_request_def CanonicalStringFromRequest_def)
  show ?thesis
    unfolding verifyFederatedSender_def using fresh
    by (simp add: h claim_canonical_def can signed_request_verifies_pair [OF assms(1,9,10)] assms decodeBase64Key_def
        b64_decode_encode len Let_def RecordNonce_def) (rule exI, rule refl)
qed

definition sample_claim :: federatedSenderClaim where
  "sample_claim = \<lparr>fc_AccountID = sample_id, fc_RootPubKey = base64_encode sample_key,
     fc_DeviceCert = \<lparr>fd_DeviceID = ''0011223344556677'', fd_DevicePubKey = base64_encode (ed25519_public sample_platform sample_secret),
       fd_IssuedAt = ''1970-01-01T00:00:00Z'', fd_Signature = base64_encode (dc_Signature sample_recovery_device)\<rparr>,
     fc_RequestBody = ''{}'', fc_BodyDigest = []\<rparr>"

definition sample_federated_request :: http_request where
  "sample_federated_request = client_request sample_platform sample_secret (base64_encode (ed25519_public sample_platform sample_secret))
     ''POST'' ''/v1/federation/messages'' [] ''{}'' 0 ''n1''"

definition sample_federated_sender :: federatedSender where
  "sample_federated_sender = \<lparr>fs_AccountID = sample_id, fs_DeviceID = ''0011223344556677'',
     fs_DevicePubKey = ed25519_public sample_platform sample_secret\<rparr>"

lemma sample_federated_accepted:
  "\<exists>db'. verifyFederatedSender sample_platform 0 sample_federated_request sample_claim sample_database
     = (Inr sample_federated_sender, db')"
proof -
  have v: "Address.Verify sample_platform sample_id sample_key = Inr True" by code_simp
  have k: "length sample_key = 32" by code_simp
  have issued: "parse_rfc3339 ''1970-01-01T00:00:00Z'' = Some 0" by code_simp
  have key: "ed25519_public sample_platform ''sample root key'' = sample_key"
    by (simp add: sample_platform_def sample_key_def)
  have c: "sample_recovery_device = \<lparr>dc_AccountID = sample_id, dc_DeviceID = ''0011223344556677'',
      dc_DevicePubKey = ed25519_public sample_platform sample_secret, dc_IssuedAt = 0,
      dc_Signature = dc_Signature sample_recovery_device\<rparr>" and sig: "length (dc_Signature sample_recovery_device) = 64"
    using signed_cert_fields [OF sample_platform_laws(2) sample_recovery_cert] by blast+
  have cert: "device_cert_Verify sample_platform \<lparr>dc_AccountID = sample_id, dc_DeviceID = ''0011223344556677'',
      dc_DevicePubKey = ed25519_public sample_platform sample_secret, dc_IssuedAt = 0,
      dc_Signature = dc_Signature sample_recovery_device\<rparr> sample_key = Inr ()"
    using device_cert_sign_verify [OF sample_platform_laws(2) sample_recovery_cert] c key by metis
  have db: "db_blocklist sample_database = []" "db_used_nonces sample_database = []" by code_simp+
  show ?thesis
    using verifyFederatedSender_honest [OF sample_platform_laws(2) v sample_id_normal k cert sig issued, of "''n1''" 0 0 sample_database
        "''POST''" "''/v1/federation/messages''" "[]" "''{}''"]
    by (auto simp: sample_claim_def sample_federated_request_def sample_federated_sender_def blocked_iff db WithinSkew_def time_sub_def
        unix_seconds_def truncate_second_def second_def MaxClockSkew_def minute_def neg_duration_def)
qed


theorem federated_replay_refused_witness:
  "\<exists>db'. verifyFederatedSender sample_platform 0 sample_federated_request sample_claim sample_database
      = (Inr sample_federated_sender, db')
    \<and> isl (fst (verifyFederatedSender sample_platform (300 * second) sample_federated_request sample_claim
         (fold (fed_step sample_platform) [(60 * second, None)] db')))"
proof -
  obtain db' where run: "verifyFederatedSender sample_platform 0 sample_federated_request sample_claim sample_database
      = (Inr sample_federated_sender, db')" using sample_federated_accepted by blast
  have ts: "ParseTimestamp (header_get sample_federated_request HeaderTimestamp) = Some 0"
    using signed_request_verifies_pair [OF sample_platform_laws(2), of 0]
    by (simp add: sample_federated_request_def unix_seconds_def truncate_second_def)
  have "time_add 0 MaxClockSkew = 0 + MaxClockSkew" by code_simp
  from federated_replay_refused [OF run ts this, of "[(60 * second, None)]" "300 * second" sample_claim] run
  show ?thesis by (auto simp: second_def)
qed

theorem block_covers_every_spelling_witness:
  "\<exists>db1. handleBlockFederationSender sample_platform 0 (admin_identity ''alice'') (Some (sample_id, None)) sample_database = (Inr (), db1)
    \<and> isl (fst (verifyFederatedSender sample_platform 0 sample_federated_request sample_claim db1))"
proof -
  let ?db1 = "BlockFederationSender sample_database sample_id ''alice'' None 0"
  have block: "handleBlockFederationSender sample_platform 0 (admin_identity ''alice'') (Some (sample_id, None)) sample_database = (Inr (), ?db1)"
    by (simp add: handleBlockFederationSender_def admin_identity_def requireAdmin_def sample_id_normal) (simp add: sample_id_def)
  from block_covers_every_spelling [OF block, of sample_claim] block show ?thesis by (auto simp: sample_claim_def)
qed

end
