(* ===== verification/Api_Frame.thy ===== *)
theory Api_Frame
  imports Api_Recovery
begin

text \<open>
  What an account request can do to the parts of the database it is not about. The locale
  \<open>account_frame\<close> takes a reflexive and transitive relation that every store operation the account
  handlers call respects, and shows that every account request respects it.
\<close>

locale account_frame =
  fixes R :: "database \<Rightarrow> database \<Rightarrow> bool"
  assumes R_refl: "R db db"
    and R_extend: "R db1 db2 \<Longrightarrow> R db db1 \<Longrightarrow> R db db2"
    and R_CreateAccount: "CreateAccount db acc = Inr db' \<Longrightarrow> R db db'"
    and R_SetAccountRole: "SetAccountRole db i x = Inr db' \<Longrightarrow> R db db'"
    and R_SetAccountStatus: "SetAccountStatus db i x = Inr db' \<Longrightarrow> R db db'"
    and R_CreateDevice: "CreateDevice db d = Inr db' \<Longrightarrow> R db db'"
    and R_RevokeDevice: "RevokeDevice db i j t = Inr db' \<Longrightarrow> R db db'"
    and R_SetDevicePushSubscription: "SetDevicePushSubscription db i sub = Inr db' \<Longrightarrow> R db db'"
    and R_SetDevicePushTarget: "SetDevicePushTarget db i target = Inr db' \<Longrightarrow> R db db'"
    and R_ConsumeInviteCode: "ConsumeInviteCode P db code i t = Inr db' \<Longrightarrow> R db db'"
    and R_CreateInviteCode: "CreateInviteCode P db rnd i e t = Inr (code, db') \<Longrightarrow> R db db'"
    and R_ClaimSetupToken: "ClaimSetupToken P db tk i t = Inr db' \<Longrightarrow> R db db'"
    and R_RecordNonce: "RecordNonce db i nonce t u = (fresh, db') \<Longrightarrow> R db db'"
    and R_DeleteAccount: "DeleteAccount db i = Inr db' \<Longrightarrow> R db db'"
    and R_settings: "R db (SetRegistrationPolicy db policy)" "R db (SetFederationEnabled db enabled)"
      "R db (RecordFailedSetupTokenAttempt db)"
begin

lemmas frame_cases = handler_option [where Q = "R db" for db] handler_sum [where Q = "R db" for db]
  handler_prod [where Q = "R db" for db] handler_if [where Q = "R db" for db] handler_end [where Q = "R db" for db]

lemma R_verifyRootSignature: "verifyRootSignature P db now r body account = (ok, db') \<Longrightarrow> R db db'"
  by (auto simp: verifyRootSignature_def R_refl split: option.splits sum.splits if_splits dest: R_RecordNonce)

lemma R_revoke_others: "revoke_others db a keep t ds = Inr db' \<Longrightarrow> R db db'"
  by (induction db a keep t ds rule: revoke_others.induct)
    (auto split: if_splits sum.splits intro: R_refl R_extend R_RevokeDevice)

lemmas frame_rules = R_CreateAccount R_SetAccountRole R_SetAccountStatus R_CreateDevice R_RevokeDevice
  R_SetDevicePushSubscription R_SetDevicePushTarget R_ConsumeInviteCode R_CreateInviteCode R_ClaimSetupToken
  R_DeleteAccount R_verifyRootSignature R_revoke_others

lemmas frame_extend = frame_rules [THEN R_extend]

lemma registration_frame: "R db (snd (handleRegisterAccount P db now body))"
  "R db (snd (handleBootstrapClaim P db now claim))"
  unfolding handleRegisterAccount_def handleBootstrapClaim_def Let_def
  by (intro frame_cases R_refl R_settings;
      (auto split: if_splits intro: R_refl elim!: frame_extend))+

lemma other_handlers_frame:
  "R db (snd (handleRecoverAccount P db now r path decode))"
  "R db (snd (handleAddDevice P db now identity add))"
  "R db (snd (handleRevokeDevice P db identity path revocation))"
  "R db (snd (handleSetPushEndpoint P db identity path push))"
  "R db (snd (handleSetPushTarget db identity path target))"
  "R db (snd (handleSetAccountRole db identity path role))"
  "R db (snd (setAccountStatus db identity path status))"
  "R db (snd (handleDeleteAccount db identity path))"
  "R db (snd (handleDeleteOwnAccount db identity path))"
  "R db (snd (handleSetRegistrationPolicy db identity policy))"
  "R db (snd (handleSetFederationEnabled db identity enabled))"
  unfolding handleRecoverAccount_def handleAddDevice_def handleRevokeDevice_def handleSetPushEndpoint_def
    handleSetPushTarget_def handleSetAccountRole_def setAccountStatus_def handleDeleteAccount_def
    handleDeleteOwnAccount_def handleSetRegistrationPolicy_def handleSetFederationEnabled_def Let_def
  by (intro frame_cases R_refl R_settings;
      (assumption | rule R_refl | erule frame_extend)+)+

lemma handleCreateInvite_frame: "R db (snd (handleCreateInvite P addDays n db now rnd identity body))"
  unfolding handleCreateInvite_def Let_def
  by (intro frame_cases R_refl) (hypsubst, erule frame_extend, rule R_refl)

lemma account_step_frame: "R db (account_step P addDays n x db)"
  by (cases x) (simp_all add: registration_frame other_handlers_frame handleCreateInvite_frame
    handleBlockAccount_def handleUnblockAccount_def)

end

section \<open>Queues\<close>

text \<open>Account requests never lengthen a message queue.\<close>

definition queues_shrink :: "database \<Rightarrow> database \<Rightarrow> bool" where
  "queues_shrink db db' \<longleftrightarrow> (\<forall>d. CountPendingMessages db' d \<le> CountPendingMessages db d)"

lemma queues_shrink_same: "db_messages db' = db_messages db \<Longrightarrow> queues_shrink db db'"
  by (simp add: queues_shrink_def CountPendingMessages_def)

lemmas store_write_defs = SetAccountRole_def SetAccountStatus_def RevokeDevice_def SetDevicePushSubscription_def
  SetDevicePushTarget_def update_device_def ConsumeInviteCode_def CreateInviteCode_def ClaimSetupToken_def RecordNonce_def
  SetRegistrationPolicy_def SetFederationEnabled_def RecordFailedSetupTokenAttempt_def Let_def

interpretation queues: account_frame queues_shrink
proof unfold_locales
  fix db db' i
  show "DeleteAccount db i = Inr db' \<Longrightarrow> queues_shrink db db'"
    by (auto simp: DeleteAccount_def DeleteReportsForAccount_def cascade_account_def cascade_devices_def queues_shrink_def
        CountPendingMessages_def row_count_delete_le split: if_splits)
  fix b c a
  show "queues_shrink b c \<Longrightarrow> queues_shrink a b \<Longrightarrow> queues_shrink a c"
    unfolding queues_shrink_def by (meson le_trans)
qed (auto simp: CreateAccount_Inr CreateDevice_Inr store_write_defs intro!: queues_shrink_same
     split: if_splits sum.splits option.splits)

section \<open>Blobs\<close>

text \<open>Account requests leave the blobs alone and can only take claims on them away.\<close>

definition blobs_left :: "database \<Rightarrow> database \<Rightarrow> bool" where
  "blobs_left db db' \<longleftrightarrow> db_blobs db' = db_blobs db
     \<and> (\<exists>p. db_blob_recipients db' = filter p (db_blob_recipients db))"

lemma blobs_left_same:
  "db_blobs db' = db_blobs db \<Longrightarrow> db_blob_recipients db' = db_blob_recipients db \<Longrightarrow> blobs_left db db'"
  unfolding blobs_left_def by (rule conjI, assumption, rule exI [of _ "\<lambda>_. True"]) simp

interpretation claims: account_frame blobs_left
proof unfold_locales
  fix db db' i
  show "DeleteAccount db i = Inr db' \<Longrightarrow> blobs_left db db'"
    by (auto simp: DeleteAccount_def DeleteReportsForAccount_def cascade_account_def cascade_devices_def blobs_left_def
        row_delete_def split: if_splits)
  fix b c a
  show "blobs_left b c \<Longrightarrow> blobs_left a b \<Longrightarrow> blobs_left a c"
    unfolding blobs_left_def by (auto simp: filter_filter)
qed (auto simp: CreateAccount_Inr CreateDevice_Inr store_write_defs intro!: blobs_left_same
     split: if_splits sum.splits option.splits)

end
