(* ===== verification/Api_Delivery.thy ===== *)
theory Api_Delivery
  imports Api_Federation Api_Frame
begin

text \<open>
  The server as a whole: every account request, message request, stream and timer event, in any
  order, keeps the database consistent, every device's queue under its cap, its streams under
  theirs, and a timer behind every pending wake.
\<close>

section \<open>The server's events\<close>

datatype api_event =
    Account account_request
  | Send time Identity "batchMessageItem option"
  | SendBatch "nat \<Rightarrow> time" Identity "batchMessageItem list option"
  | ReceiveFederated time http_request "bytes \<Rightarrow> federationMessageRequest option"
  | ReceiveFederatedBatch time "nat \<Rightarrow> time" http_request "bytes \<Rightarrow> federationMessageBatchRequest option"
  | Acknowledge Identity string
  | PurgeMessages time
  | OpenStream Identity
  | StreamEvent broker_op
  | WakeEvent wake_event

fun api_step :: "platform \<Rightarrow> (time \<Rightarrow> int \<Rightarrow> time) \<Rightarrow> int \<Rightarrow> api_config \<Rightarrow> api_event \<Rightarrow> api_state \<Rightarrow> api_state" where
  "api_step P addDays n cfg (Account x) s = s\<lparr>api_db := account_step P addDays n x (api_db s)\<rparr>"
| "api_step P addDays n cfg (Send now identity body) s = snd (handleSendMessage cfg addDays now identity body s)"
| "api_step P addDays n cfg (SendBatch clock identity body) s = snd (handleSendMessageBatch cfg addDays clock identity body s)"
| "api_step P addDays n cfg (ReceiveFederated now r decode) s =
     snd (handleReceiveFederatedMessage P cfg addDays now r decode s)"
| "api_step P addDays n cfg (ReceiveFederatedBatch now clock r decode) s =
     snd (handleReceiveFederatedMessageBatch P cfg addDays now clock r decode s)"
| "api_step P addDays n cfg (Acknowledge identity i) s = snd (handleDeleteMessage identity i s)"
| "api_step P addDays n cfg (PurgeMessages t) s = s\<lparr>api_db := PurgeExpiredMessages (api_db s) t\<rparr>"
| "api_step P addDays n cfg (OpenStream identity) s = snd (stream_subscribe cfg identity s)"
| "api_step P addDays n cfg (StreamEvent x) s = s\<lparr>api_broker := broker_step (cfg_MaxStreamsPerDevice cfg) x (api_broker s)\<rparr>"
| "api_step P addDays n cfg (WakeEvent x) s = s\<lparr>api_wakes := wake_step (cfg_PushWakeWindow cfg) x (api_wakes s)\<rparr>"

definition queues_ok :: "api_config \<Rightarrow> database \<Rightarrow> bool" where
  "queues_ok cfg db \<longleftrightarrow> (\<forall>d. int (CountPendingMessages db d) \<le> max 0 (cfg_MaxQueuedMessagesPerDevice cfg))"

definition api_ok :: "api_config \<Rightarrow> api_state \<Rightarrow> bool" where
  "api_ok cfg s \<longleftrightarrow> served (api_db s) \<and> queues_ok cfg (api_db s)
     \<and> broker_ok (cfg_MaxStreamsPerDevice cfg) (api_broker s) \<and> wakes_ok (api_wakes s)"

lemma queues_ok_shrink: "queues_ok cfg db \<Longrightarrow> queues_shrink db db' \<Longrightarrow> queues_ok cfg db'"
  unfolding queues_ok_def queues_shrink_def by (meson of_nat_mono order_trans)

lemma publish_ok: "broker_ok n b \<Longrightarrow> broker_ok n (snd (publish b d m))"
  using broker_step_ok [of n b "Publish d m"] by simp

lemma queueAndNotify_ok:
  assumes "api_ok cfg (s\<lparr>api_db := db\<rparr>)"
  shows "api_ok cfg (queueAndNotify cfg now m d (s\<lparr>api_db := db\<rparr>))"
  using assms publish_ok [of "cfg_MaxStreamsPerDevice cfg" "api_broker s" "msg_RecipientDeviceID m" m]
    wake_step_ok [of "api_wakes s" "cfg_PushWakeWindow cfg" "Wake now (dev_DeviceID d)"]
  by (cases "publish (api_broker s) (msg_RecipientDeviceID m) m")
    (simp add: api_ok_def queueAndNotify_def wakeDevice_def Let_def)

lemma createMessageUnderCap_ok:
  assumes "served db" "queues_ok cfg db" "createMessageUnderCap cfg db m = Inr db'"
  shows "served db' \<and> queues_ok cfg db'"
proof -
  have db': "db' = db\<lparr>db_messages := db_messages db @ [stored_message m]\<rparr>"
    and room: "int (CountPendingMessages db (msg_RecipientDeviceID m)) < cfg_MaxQueuedMessagesPerDevice cfg"
    using assms(3) by (simp_all add: createMessageUnderCap_Inr)
  have "CountPendingMessages db' d = CountPendingMessages db d + (if d = msg_RecipientDeviceID m then 1 else 0)" for d
    by (simp add: db' CountPendingMessages_def row_count_append row_count_def stored_message_def)
  with assms(2) room have "queues_ok cfg db'" by (auto simp: queues_ok_def)
  moreover have "db_ok db'"
    using assms(1,3) CreateMessageUnderCap_ok by (auto simp: served_def createMessageUnderCap_def)
  ultimately show ?thesis using assms(1) by (simp add: served_def db' CountActiveAdmins_def)
qed

lemma enqueueMessage_ok: "api_ok cfg s \<Longrightarrow> api_ok cfg (snd (enqueueMessage cfg addDays now req s))"
proof (cases "fst (enqueueMessage cfg addDays now req s) = EnqueueQueued")
  case True
  assume ok: "api_ok cfg s"
  obtain s' where run: "enqueueMessage cfg addDays now req s = (EnqueueQueued, s')"
    using True by (cases "enqueueMessage cfg addDays now req s") simp
  then show ?thesis
  proof (rule enqueueMessage_queued)
    fix device account db'
    assume db': "createMessageUnderCap cfg (api_db s) (queued_message cfg addDays now req device) = Inr db'"
      and s': "s' = queueAndNotify cfg now (queued_message cfg addDays now req device) device (s\<lparr>api_db := db'\<rparr>)"
    have "api_ok cfg (s\<lparr>api_db := db'\<rparr>)"
      using ok createMessageUnderCap_ok [OF _ _ db'] by (simp add: api_ok_def)
    then show ?thesis unfolding run s' snd_conv by (rule queueAndNotify_ok)
  qed
next
  case False
  assume "api_ok cfg s"
  with False enqueueMessage_refused [of cfg addDays now req s] show ?thesis
    by (cases "enqueueMessage cfg addDays now req s") simp
qed

lemma enqueue_all_ok: "api_ok cfg s \<Longrightarrow> api_ok cfg (snd (enqueue_all cfg addDays clock a d ms s))"
proof (induction ms arbitrary: s clock)
  case (Cons m ms)
  show ?case
    using enqueueMessage_ok [OF Cons.prems, of addDays "clock 0" "item_request a d m"] Cons.IH
    by (cases "enqueueMessage cfg addDays (clock 0) (item_request a d m) s") (simp split: prod.split, metis snd_conv)
qed simp

lemma verifyFederatedSender_ok:
  assumes "api_ok cfg s" "verifyFederatedSender P now r claim (api_db s) = (res, db')"
  shows "api_ok cfg (s\<lparr>api_db := db'\<rparr>)"
proof (cases res)
  case (Inl e)
  with assms show ?thesis by (auto dest: verifyFederatedSender_Inl)
next
  case (Inr sender)
  obtain k n t e where "db' = snd (RecordNonce (api_db s) k n t e)"
    using assms(2) [unfolded Inr] by (rule verifyFederatedSender_Inr) (metis snd_conv)
  then have "served db'" "queues_shrink (api_db s) db'"
    using assms(1) RecordNonce_served by (auto simp: api_ok_def RecordNonce_def intro: queues_shrink_same)
  then show ?thesis using assms(1) queues_ok_shrink by (auto simp: api_ok_def)
qed

lemma single_response_snd [simp]: "snd (single_response x) = snd x"
  by (simp add: single_response_def)

lemma federated_ok:
  assumes "api_ok cfg s"
  shows "api_ok cfg (snd (handleReceiveFederatedMessage P cfg addDays now r decode s))"
    "api_ok cfg (snd (handleReceiveFederatedMessageBatch P cfg addDays now clock r decode' s))"
  using assms
  by (auto simp: handleReceiveFederatedMessage_def handleReceiveFederatedMessageBatch_def enqueueMessage_ok
      verifyFederatedSender_ok split: sum.split option.split prod.split)
    (metis enqueue_all_ok snd_conv verifyFederatedSender_ok)

lemma message_ops_served:
  "served db \<Longrightarrow> DeleteMessage db i d = Inr db' \<Longrightarrow> served db' \<and> queues_shrink db db'"
  "served db \<Longrightarrow> served (PurgeExpiredMessages db t) \<and> queues_shrink db (PurgeExpiredMessages db t)"
  using DeleteMessage_ok [of db i d db'] PurgeExpiredMessages_ok [of db t]
  by (auto simp: served_def DeleteMessage_def PurgeExpiredMessages_def Let_def CountActiveAdmins_def queues_shrink_def
      CountPendingMessages_def row_count_delete_le split: if_splits)

lemma api_step_ok: "api_ok cfg s \<Longrightarrow> api_ok cfg (api_step P addDays n cfg x s)"
proof -
  assume ok: "api_ok cfg s"
  then have parts: "served (api_db s)" "queues_ok cfg (api_db s)" "broker_ok (cfg_MaxStreamsPerDevice cfg) (api_broker s)"
    "wakes_ok (api_wakes s)" by (simp_all add: api_ok_def)
  show ?thesis
  proof (cases x)
    case (Account y)
    with parts show ?thesis
      using account_step_served queues.account_step_frame queues_ok_shrink by (simp add: api_ok_def)
  next
    case (Send now identity body)
    with ok show ?thesis by (simp add: handleSendMessage_def enqueueMessage_ok split: option.split)
  next
    case (SendBatch clock identity body)
    with ok enqueue_all_ok [OF ok] show ?thesis
      by (simp add: handleSendMessageBatch_def split: option.split sum.split prod.split) (metis snd_conv)
  next
    case (Acknowledge identity i)
    with ok parts show ?thesis
      by (auto simp: handleDeleteMessage_def api_ok_def split: sum.split dest: message_ops_served(1) intro: queues_ok_shrink)
  next
    case (PurgeMessages t)
    with parts message_ops_served(2) [OF parts(1)] show ?thesis by (auto simp: api_ok_def intro: queues_ok_shrink)
  next
    case (OpenStream identity)
    with ok parts broker_step_ok [OF parts(3), of "Subscribe (id_DeviceID identity)"] show ?thesis
      by (auto simp: stream_subscribe_def api_ok_def split: sum.split)
  next
    case (StreamEvent y)
    with parts show ?thesis by (simp add: api_ok_def broker_step_ok)
  next
    case (WakeEvent y)
    with parts show ?thesis by (simp add: api_ok_def wake_step_ok)
  qed (use ok in \<open>simp_all add: federated_ok\<close>)
qed

interpretation api: preserving "api_step P addDays n cfg" "\<lambda>_. True" "api_ok cfg"
  by unfold_locales (rule api_step_ok)


definition sample_item :: "string \<Rightarrow> batchMessageItem" where
  "sample_item i = \<lparr>bm_MessageID = i, bm_RecipientAccountID = [], bm_RecipientDeviceID = ''b1'', bm_Payload = ''{}''\<rparr>"

definition sample_events :: "api_event list" where
  "sample_events = [Send 0 (admin_identity ''alice'') (Some (sample_item ''m3'')), OpenStream sample_reader,
     SendBatch (\<lambda>i. second) (admin_identity ''alice'') (Some [sample_item ''m4'', sample_item ''m5'']),
     Account (BlockAccount (admin_identity ''alice'') ''alice'')]"


end
