(* ===== verification/Api_Prekeys.thy ===== *)
theory Api_Prekeys
  imports Api_Delivery
begin

text \<open>
  \<open>internal/api/prekeys.go\<close>: publishing key material, the status of the pool, and claiming a bundle.
  A claim is open to everyone, but consumes a one-time prekey only for a claimant the server could
  identify, locally or from another server. The upload runs its statements without a transaction, so
  a late error leaves the earlier ones in place; the handler returns the database it leaves.
\<close>

section \<open>Requests and responses\<close>

record dhIdentityCertDTO =
  dd_DHPubKey :: string
  dd_IssuedAt :: string
  dd_Signature :: string

record signedPrekeyDTO =
  sd_KeyID :: "32 word"
  sd_DHIdentityPubKey :: string
  sd_PubKey :: string
  sd_IssuedAt :: string
  sd_Signature :: string

record oneTimePrekeyDTO =
  od_KeyID :: "32 word"
  od_PubKey :: string

record uploadPrekeysRequest =
  up_DHIdentityCert :: "dhIdentityCertDTO option"
  up_SignedPrekey :: signedPrekeyDTO
  up_OneTimePrekeys :: "oneTimePrekeyDTO list"
  up_ReplaceOneTimePrekeys :: bool

record claimPrekeyBundleRequest =
  cp_SenderAccountID :: string
  cp_SenderRootPubKey :: string
  cp_SenderDeviceCert :: federationDeviceCertDTO

record prekeyBundleResponse =
  pb_DeviceID :: string
  pb_DHIdentityPubKey :: string
  pb_DHIdentityCert :: dhIdentityCertDTO
  pb_SignedPrekey :: signedPrekeyDTO
  pb_OneTimePrekey :: "oneTimePrekeyDTO option"
  pb_OneTimePrekeyOmitted :: string

definition lowOneTimePrekeyThreshold :: nat where "lowOneTimePrekeyThreshold = 3"
definition oneTimePrekeyOmittedPoolEmpty :: string where "oneTimePrekeyOmittedPoolEmpty = ''pool_empty''"
definition oneTimePrekeyOmittedUnauthenticated :: string where "oneTimePrekeyOmittedUnauthenticated = ''unauthenticated''"

section \<open>Uploading\<close>

text \<open>The DH identity part: the key on file afterwards, with the database that holds it.\<close>

definition upload_dh_identity :: "platform \<Rightarrow> database \<Rightarrow> Identity \<Rightarrow> string \<Rightarrow> Device \<Rightarrow> dhIdentityCertDTO option
    \<Rightarrow> api_error + (bytes \<times> database)" where
  "upload_dh_identity P db identity deviceID device cert =
     (case cert of None \<Rightarrow> Inr (dev_DHIdentityPubKey device, db)
      | Some c \<Rightarrow>
     (case decodeBase64Key (dd_DHPubKey c) x25519PubKeySize of None \<Rightarrow> Inl bad_request
      | Some dhPub \<Rightarrow>
     (case parse_rfc3339 (dd_IssuedAt c) of None \<Rightarrow> Inl bad_request
      | Some issuedAt \<Rightarrow>
     (case decodeBase64Key (dd_Signature c) signature_size of None \<Rightarrow> Inl bad_request
      | Some sig \<Rightarrow>
     (case dh_identity_Verify P \<lparr>dh_AccountID = id_AccountID identity, dh_DeviceID = deviceID, dh_DHPubKey = dhPub,
              dh_IssuedAt = issuedAt, dh_Signature = sig\<rparr> (dev_DevicePubKey device) of
        Inl _ \<Rightarrow> Inl (400, ''invalid_certificate'')
      | Inr _ \<Rightarrow>
     (case UpsertDHIdentity db deviceID dhPub sig issuedAt of Inl _ \<Rightarrow> Inl internal_error
      | Inr db' \<Rightarrow> Inr (dhPub, db')))))))"

fun decode_one_time :: "oneTimePrekeyDTO list \<Rightarrow> OneTimePrekeyInput list option" where
  "decode_one_time [] = Some []"
| "decode_one_time (k # ks) =
     (case decodeBase64Key (od_PubKey k) x25519PubKeySize of None \<Rightarrow> None
      | Some pub \<Rightarrow> map_option (\<lambda>r. \<lparr>otk_KeyID = od_KeyID k, otk_PubKey = pub\<rparr> # r) (decode_one_time ks))"

definition handleUploadPrekeys :: "platform \<Rightarrow> database \<Rightarrow> time \<Rightarrow> Identity \<Rightarrow> string \<Rightarrow> uploadPrekeysRequest option
    \<Rightarrow> (api_error + unit) \<times> database" where
  "handleUploadPrekeys P db now identity deviceID body =
     (if id_DeviceID identity \<noteq> deviceID then (Inl (403, ''forbidden''), db)
      else case body of None \<Rightarrow> (Inl bad_request, db)
      | Some req \<Rightarrow>
     (case GetDevice db deviceID of Inl _ \<Rightarrow> (Inl (404, ''not_found''), db)
      | Inr device \<Rightarrow>
     (case upload_dh_identity P db identity deviceID device (up_DHIdentityCert req) of Inl e \<Rightarrow> (Inl e, db)
      | Inr (dhIdentityPubKey, db1) \<Rightarrow>
      if dhIdentityPubKey = [] then (Inl bad_request, db1)
      else let sp = up_SignedPrekey req in
      case decodeBase64Key (sd_PubKey sp) x25519PubKeySize of None \<Rightarrow> (Inl bad_request, db1)
      | Some spkPub \<Rightarrow>
     (case decodeBase64Key (sd_DHIdentityPubKey sp) x25519PubKeySize of None \<Rightarrow> (Inl bad_request, db1)
      | Some spkDHIdentityPub \<Rightarrow>
      if spkDHIdentityPub \<noteq> dhIdentityPubKey then (Inl bad_request, db1)
      else case parse_rfc3339 (sd_IssuedAt sp) of None \<Rightarrow> (Inl bad_request, db1)
      | Some spkIssuedAt \<Rightarrow>
     (case decodeBase64Key (sd_Signature sp) signature_size of None \<Rightarrow> (Inl bad_request, db1)
      | Some spkSig \<Rightarrow>
     (case signed_prekey_Verify P \<lparr>sp_AccountID = id_AccountID identity, sp_DeviceID = deviceID, sp_KeyID = sd_KeyID sp,
              sp_DHIdentityPubKey = spkDHIdentityPub, sp_PrekeyPubKey = spkPub, sp_IssuedAt = spkIssuedAt,
              sp_Signature = spkSig\<rparr> (dev_DevicePubKey device) of
        Inl _ \<Rightarrow> (Inl (400, ''invalid_certificate''), db1)
      | Inr _ \<Rightarrow>
     (case UpsertSignedPrekey db1 \<lparr>spk_DeviceID = deviceID, spk_KeyID = sd_KeyID sp, spk_PubKey = spkPub,
              spk_Signature = spkSig, spk_IssuedAt = spkIssuedAt, spk_CreatedAt = now\<rparr> of
        Inl _ \<Rightarrow> (Inl internal_error, db1)
      | Inr db2 \<Rightarrow>
     (let db3 = (if up_ReplaceOneTimePrekeys req then DeleteOneTimePrekeys db2 deviceID else db2) in
      if up_OneTimePrekeys req = [] then (Inr (), db3)
      else case decode_one_time (up_OneTimePrekeys req) of None \<Rightarrow> (Inl bad_request, db3)
      | Some inputs \<Rightarrow>
     (case AddOneTimePrekeys db3 deviceID inputs now of Inl _ \<Rightarrow> (Inl internal_error, db3)
      | Inr db4 \<Rightarrow> (Inr (), db4))))))))))"

definition handleGetPrekeyStatus :: "database \<Rightarrow> Identity \<Rightarrow> string \<Rightarrow> api_error + nat" where
  "handleGetPrekeyStatus db identity deviceID =
     (if id_DeviceID identity \<noteq> deviceID then Inl (403, ''forbidden'') else Inr (CountOneTimePrekeys db deviceID))"

section \<open>Claiming\<close>

record bundleClaimant =
  bc_AccountID :: string
  bc_Identified :: bool

definition anonymous :: bundleClaimant where
  "anonymous = \<lparr>bc_AccountID = [], bc_Identified = False\<rparr>"

definition authenticateBundleClaimant :: "platform \<Rightarrow> string list \<Rightarrow> time \<Rightarrow> http_request
    \<Rightarrow> (bytes \<Rightarrow> claimPrekeyBundleRequest option) \<Rightarrow> database \<Rightarrow> nonceCache
    \<Rightarrow> (api_error + bundleClaimant) \<times> database \<times> nonceCache" where
  "authenticateBundleClaimant P paths now r decode db nonces =
     (let local = (if \<not> HasSignatureHeaders r then (Inr anonymous, db, nonces)
            else case authenticate P paths db now r nonces of
                (Inl _, nonces') \<Rightarrow> (Inl unauthorized, db, nonces')
              | (Inr identity, nonces') \<Rightarrow> (Inr \<lparr>bc_AccountID = id_AccountID identity, bc_Identified = True\<rparr>, db, nonces'))
      in case readBody r of Inl e \<Rightarrow> (Inl e, db, nonces)
      | Inr body \<Rightarrow>
      if trim_space body = [] then local
      else case decode body of None \<Rightarrow> (Inl bad_request, db, nonces)
      | Some req \<Rightarrow>
      if cp_SenderAccountID req = [] \<and> cp_SenderRootPubKey req = [] \<and> fd_DeviceID (cp_SenderDeviceCert req) = [] then local
      else case federation_open db of Inl e \<Rightarrow> (Inl e, db, nonces)
      | Inr _ \<Rightarrow>
     (case verifyFederatedSender P now r \<lparr>fc_AccountID = cp_SenderAccountID req, fc_RootPubKey = cp_SenderRootPubKey req,
              fc_DeviceCert = cp_SenderDeviceCert req, fc_RequestBody = body, fc_BodyDigest = []\<rparr> db of
        (Inl e, db') \<Rightarrow> (Inl e, db', nonces)
      | (Inr sender, db') \<Rightarrow> (Inr \<lparr>bc_AccountID = fs_AccountID sender, bc_Identified = True\<rparr>, db', nonces)))"

text \<open>
  \<open>bundle_for\<close> is the response; \<open>DHIdentityIssuedAt\<close> is a pointer the code dereferences, set
  whenever the key is.
\<close>

definition bundle_for :: "Device \<Rightarrow> time \<Rightarrow> SignedPrekey \<Rightarrow> OneTimePrekeyInput option \<Rightarrow> bool \<Rightarrow> prekeyBundleResponse" where
  "bundle_for device issuedAt spk claimed identified =
     (let dh = base64_encode (dev_DHIdentityPubKey device) in
      \<lparr>pb_DeviceID = dev_DeviceID device, pb_DHIdentityPubKey = dh,
       pb_DHIdentityCert = \<lparr>dd_DHPubKey = dh, dd_IssuedAt = rfc3339 issuedAt,
         dd_Signature = base64_encode (dev_DHIdentitySignature device)\<rparr>,
       pb_SignedPrekey = \<lparr>sd_KeyID = spk_KeyID spk, sd_DHIdentityPubKey = dh, sd_PubKey = base64_encode (spk_PubKey spk),
         sd_IssuedAt = rfc3339 (spk_IssuedAt spk), sd_Signature = base64_encode (spk_Signature spk)\<rparr>,
       pb_OneTimePrekey = map_option (\<lambda>k. \<lparr>od_KeyID = otk_KeyID k, od_PubKey = base64_encode (otk_PubKey k)\<rparr>) claimed,
       pb_OneTimePrekeyOmitted = (if claimed \<noteq> None then []
         else if identified then oneTimePrekeyOmittedPoolEmpty else oneTimePrekeyOmittedUnauthenticated)\<rparr>)"

definition nil_dereference :: api_error where
  "nil_dereference = (0, ''panic'')"

definition handleClaimPrekeyBundle :: "platform \<Rightarrow> string list \<Rightarrow> api_config \<Rightarrow> time \<Rightarrow> http_request \<Rightarrow> string
    \<Rightarrow> (bytes \<Rightarrow> claimPrekeyBundleRequest option) \<Rightarrow> api_state \<Rightarrow> nonceCache
    \<Rightarrow> (api_error + prekeyBundleResponse) \<times> api_state \<times> nonceCache" where
  "handleClaimPrekeyBundle P paths cfg now r deviceID decode s nonces =
     (case authenticateBundleClaimant P paths now r decode (api_db s) nonces of
        (Inl e, db1, nonces') \<Rightarrow> (Inl e, s\<lparr>api_db := db1\<rparr>, nonces')
      | (Inr claimant, db1, nonces') \<Rightarrow>
     (case GetDevice db1 deviceID of Inl _ \<Rightarrow> (Inl (404, ''unknown_device''), s\<lparr>api_db := db1\<rparr>, nonces')
      | Inr device \<Rightarrow>
      if dev_Status device \<noteq> DeviceStatusActive \<or> dev_DHIdentityPubKey device = []
      then (Inl (404, ''no_prekey_bundle''), s\<lparr>api_db := db1\<rparr>, nonces')
      else case GetSignedPrekey db1 deviceID of Inl _ \<Rightarrow> (Inl (404, ''no_prekey_bundle''), s\<lparr>api_db := db1\<rparr>, nonces')
      | Inr spk \<Rightarrow>
     (case (if bc_Identified claimant then ClaimOneTimePrekey db1 deviceID else (None, db1)) of (claimed, db2) \<Rightarrow>
      let s1 = s\<lparr>api_db := db2\<rparr>;
          s2 = (if claimed \<noteq> None \<and> \<not> hasResponsiveSubscriber (api_broker s1) deviceID
                   \<and> CountOneTimePrekeys db2 deviceID < lowOneTimePrekeyThreshold
                then wakeDevice cfg now device s1 else s1)
      in case dev_DHIdentityIssuedAt device of None \<Rightarrow> (Inl nil_dereference, s2, nonces')
         | Some issuedAt \<Rightarrow> (Inr (bundle_for device issuedAt spk claimed (bc_Identified claimant)), s2, nonces'))))"

section \<open>Who consumes a one-time prekey\<close>

lemma authenticateBundleClaimant_frame:
  assumes "authenticateBundleClaimant P paths now r decode db nonces = (res, db', nonces')"
  shows "db_one_time_prekeys db' = db_one_time_prekeys db"
proof -
  have v: "db_one_time_prekeys db'' = db_one_time_prekeys db" if "verifyFederatedSender P now r claim db = (x, db'')" for claim x db''
  proof (cases x)
    case (Inl e)
    then show ?thesis using that verifyFederatedSender_Inl by blast
  next
    case (Inr sender)
    show ?thesis by (rule verifyFederatedSender_Inr [OF that [unfolded Inr]]) (auto simp: RecordNonce_def split: if_splits)
  qed
  show ?thesis
    using assms unfolding authenticateBundleClaimant_def Let_def
    by (auto split: sum.splits option.splits if_splits prod.splits dest: v)
qed

lemma bundle_for_one_time [simp]:
  "pb_OneTimePrekey (bundle_for device t spk claimed identified)
     = map_option (\<lambda>k. \<lparr>od_KeyID = otk_KeyID k, od_PubKey = base64_encode (otk_PubKey k)\<rparr>) claimed"
  by (simp add: bundle_for_def Let_def)

lemma claim_frame:
  assumes "handleClaimPrekeyBundle P paths cfg now r deviceID decode s nonces = (res, s', nonces')"
    and "authenticateBundleClaimant P paths now r decode (api_db s) nonces = (who, db1, nonces1)"
  shows "(case who of Inl e \<Rightarrow> res = Inl e \<and> s' = s\<lparr>api_db := db1\<rparr>
    | Inr claimant \<Rightarrow> (\<exists>e. res = Inl e \<and> s' = s\<lparr>api_db := db1\<rparr>)
      \<or> (\<exists>claimed db2. (if bc_Identified claimant then ClaimOneTimePrekey db1 deviceID else (None, db1)) = (claimed, db2)
          \<and> api_db s' = db2 \<and> (claimed = None \<longrightarrow> api_wakes s' = api_wakes s)
          \<and> (res = Inl nil_dereference \<or> (\<exists>b. res = Inr b \<and> (pb_OneTimePrekey b = None \<longleftrightarrow> claimed = None)))))"
  using assms unfolding handleClaimPrekeyBundle_def Let_def
  by (auto simp: wakeDevice_def split: sum.splits if_splits option.splits prod.splits)

text \<open>
  A bundle claim takes a one-time prekey out of the pool only for a claimant the server has
  identified, and then exactly one, the oldest of that device; the response carries a one-time prekey
  exactly when one was taken, and only then may the claim have woken the device.
\<close>

theorem only_identified_claimants_consume:
  assumes "handleClaimPrekeyBundle P paths cfg now r deviceID decode s nonces = (res, s', nonces')"
  shows "(db_one_time_prekeys (api_db s') = db_one_time_prekeys (api_db s) \<and> api_wakes s' = api_wakes s
      \<or> (\<exists>who k. fst (authenticateBundleClaimant P paths now r decode (api_db s) nonces) = Inr who \<and> bc_Identified who
          \<and> row_get otp_device_id deviceID (db_one_time_prekeys (api_db s)) = Some k
          \<and> db_one_time_prekeys (api_db s') = row_delete (\<lambda>x. otp_id x = otp_id k) (db_one_time_prekeys (api_db s))))
    \<and> (case res of Inl _ \<Rightarrow> True
        | Inr b \<Rightarrow> (pb_OneTimePrekey b = None) = (db_one_time_prekeys (api_db s') = db_one_time_prekeys (api_db s)))"
proof -
  let ?otp = "db_one_time_prekeys (api_db s)"
  obtain who db1 nonces1 where a: "authenticateBundleClaimant P paths now r decode (api_db s) nonces = (who, db1, nonces1)"
    by (cases "authenticateBundleClaimant P paths now r decode (api_db s) nonces") auto
  have otp: "db_one_time_prekeys db1 = ?otp" by (rule authenticateBundleClaimant_frame [OF a])
  have changed: "row_delete (\<lambda>x. otp_id x = otp_id k) ?otp \<noteq> ?otp" if "row_get otp_device_id deviceID ?otp = Some k" for k
    using row_get_SomeD [OF that] by (auto simp: row_delete_def filter_id_conv)
  note f = claim_frame [OF assms a]
  show ?thesis
  proof (cases who)
    case (Inl e)
    with f otp show ?thesis by simp
  next
    case (Inr claimant)
    from f Inr consider e where "res = Inl e" "s' = s\<lparr>api_db := db1\<rparr>"
      | claimed db2 where "(if bc_Identified claimant then ClaimOneTimePrekey db1 deviceID else (None, db1)) = (claimed, db2)"
        "api_db s' = db2" "claimed = None \<longrightarrow> api_wakes s' = api_wakes s"
        "res = Inl nil_dereference \<or> (\<exists>b. res = Inr b \<and> (pb_OneTimePrekey b = None \<longleftrightarrow> claimed = None))"
      by auto
    then show ?thesis
    proof cases
      case 1
      with otp show ?thesis by simp
    next
      case 2
      show ?thesis
      proof (cases claimed)
        case None
        with 2(1) have "db_one_time_prekeys db2 = ?otp"
          using otp by (auto simp: ClaimOneTimePrekey_def split: if_splits option.splits)
        with 2 None show ?thesis by auto
      next
        case (Some key)
        with 2(1) obtain k where k: "bc_Identified claimant" "row_get otp_device_id deviceID ?otp = Some k"
          "db_one_time_prekeys db2 = row_delete (\<lambda>x. otp_id x = otp_id k) ?otp"
          using otp by (auto simp: ClaimOneTimePrekey_def split: if_splits option.splits)
        with 2 Some changed [OF k(2)] show ?thesis using a Inr by auto
      qed
    qed
  qed
qed

definition sample_prekey_db :: database where
  "sample_prekey_db = sample_auth_db\<lparr>
     db_devices := db_devices sample_auth_db @ [(sample_device ''b1'' ''alice'')\<lparr>dev_DHIdentityPubKey := ''dh'', dev_DHIdentityIssuedAt := Some 0\<rparr>],
     db_signed_prekeys := [\<lparr>spk_DeviceID = ''b1'', spk_KeyID = 1, spk_PubKey = ''spk'', spk_Signature = ''sig'', spk_IssuedAt = 0, spk_CreatedAt = 0\<rparr>],
     db_prekey_sequence := 1,
     db_one_time_prekeys := [\<lparr>otp_id = 1, otp_device_id = ''b1'', otp_key = \<lparr>otk_KeyID = 7, otk_PubKey = ''otk''\<rparr>, otp_created_at = 0\<rparr>]\<rparr>"

definition sample_claim_request :: http_request where
  "sample_claim_request = client_request sample_platform sample_secret ''a1'' ''POST'' ''/v1/devices/b1/prekey-bundle'' [] [] 0 ''n1''"

lemma sample_prekey_db_ok: "db_ok sample_prekey_db"
  by (simp add: db_ok_def table_ok_defs sample_prekey_db_def sample_auth_db_def empty_database_def sample_account_def
      sample_device_def unique_key_def)

lemma sample_claim_authenticated:
  "\<exists>c. authenticate sample_platform [] sample_prekey_db 0 sample_claim_request newNonceCache = (Inr sample_identity, c)"
  using client_request_accepted [OF sample_platform_laws(2) sample_prekey_db_ok newNonceCache_ok, of sample_signer
      sample_secret "sample_account ''alice''" "''n1''" 0 0 "[]" "''POST''" "''/v1/devices/b1/prekey-bundle''" "[]" "[]"]
  by (auto simp: new_cache_free sample_auth_defs sample_prekey_db_def sample_claim_request_def)

lemma sample_claim_identified:
  "\<exists>c. authenticateBundleClaimant sample_platform [] 0 sample_claim_request (\<lambda>_. None) sample_prekey_db newNonceCache
     = (Inr \<lparr>bc_AccountID = ''alice'', bc_Identified = True\<rparr>, sample_prekey_db, c)"
proof -
  obtain c where c: "authenticate sample_platform [] sample_prekey_db 0 sample_claim_request newNonceCache = (Inr sample_identity, c)"
    using sample_claim_authenticated by blast
  have "HasSignatureHeaders sample_claim_request"
    using c by (auto simp: HasSignatureHeaders_def authenticate_def split: option.splits)
  moreover have "readBody sample_claim_request = Inr []" by (simp add: readBody_def sample_claim_request_def client_request_def)
  moreover have "trim_space [] = []" by (rule trim_space_graphic) simp
  ultimately show ?thesis
    using c by (simp add: authenticateBundleClaimant_def Let_def sample_identity_def)
qed

theorem only_identified_claimants_consume_witness:
  "\<exists>res s' c. handleClaimPrekeyBundle sample_platform [] sample_config 0 sample_claim_request ''b1'' (\<lambda>_. None)
      (sample_state\<lparr>api_db := sample_prekey_db\<rparr>) newNonceCache = (Inr res, s', c)
    \<and> pb_OneTimePrekey res \<noteq> None \<and> db_one_time_prekeys (api_db s') \<noteq> db_one_time_prekeys sample_prekey_db"
proof -
  let ?s = "sample_state\<lparr>api_db := sample_prekey_db\<rparr>"
  obtain c where a: "authenticateBundleClaimant sample_platform [] 0 sample_claim_request (\<lambda>_. None) sample_prekey_db newNonceCache
     = (Inr \<lparr>bc_AccountID = ''alice'', bc_Identified = True\<rparr>, sample_prekey_db, c)" using sample_claim_identified by blast
  have rows: "GetDevice sample_prekey_db ''b1'' = Inr ((sample_device ''b1'' ''alice'')\<lparr>dev_DHIdentityPubKey := ''dh'', dev_DHIdentityIssuedAt := Some 0\<rparr>)"
    "GetSignedPrekey sample_prekey_db ''b1'' = Inr \<lparr>spk_DeviceID = ''b1'', spk_KeyID = 1, spk_PubKey = ''spk'', spk_Signature = ''sig'', spk_IssuedAt = 0, spk_CreatedAt = 0\<rparr>"
    "fst (ClaimOneTimePrekey sample_prekey_db ''b1'') = Some \<lparr>otk_KeyID = 7, otk_PubKey = ''otk''\<rparr>"
    "dev_Status (sample_device ''b1'' ''alice'') = DeviceStatusActive"
    by (simp_all add: GetDevice_def row_get_def sample_prekey_db_def sample_auth_db_def
        sample_device_def scanDeviceFields_def GetSignedPrekey_def ClaimOneTimePrekey_def empty_database_def)
  have "\<exists>res s'. handleClaimPrekeyBundle sample_platform [] sample_config 0 sample_claim_request ''b1'' (\<lambda>_. None) ?s newNonceCache
      = (Inr res, s', c) \<and> pb_OneTimePrekey res \<noteq> None"
  proof (cases "ClaimOneTimePrekey sample_prekey_db ''b1''")
    case (Pair claimed db2)
    with rows(3) have "claimed = Some \<lparr>otk_KeyID = 7, otk_PubKey = ''otk''\<rparr>" by simp
    with Pair rows show ?thesis by (simp add: handleClaimPrekeyBundle_def a Let_def)
  qed
  then obtain res s' where run: "handleClaimPrekeyBundle sample_platform [] sample_config 0 sample_claim_request ''b1'' (\<lambda>_. None) ?s newNonceCache
      = (Inr res, s', c)" "pb_OneTimePrekey res \<noteq> None" by blast
  with only_identified_claimants_consume [OF run(1)] show ?thesis by auto
qed

section \<open>What a rejected upload leaves behind\<close>

text \<open>
  The upload is not atomic. A request whose signed prekey is accepted but whose one-time prekeys
  do not decode is answered with 400, yet leaves exactly what the same request without one-time
  prekeys leaves: the new signed prekey, and, when it asked for the pool to be replaced, an empty pool.
\<close>

theorem rejected_upload_not_rolled_back:
  assumes "handleUploadPrekeys P db now identity deviceID (Some (req\<lparr>up_OneTimePrekeys := []\<rparr>)) = (Inr (), db')"
    and "decode_one_time (up_OneTimePrekeys req) = None" "up_ReplaceOneTimePrekeys req"
  shows "handleUploadPrekeys P db now identity deviceID (Some req) = (Inl bad_request, db')
    \<and> CountOneTimePrekeys db' deviceID = 0 \<and> deviceID \<in> spk_DeviceID ` set (db_signed_prekeys db')"
proof -
  have ne: "up_OneTimePrekeys req \<noteq> []" using assms(2) by auto
  have reject: "handleUploadPrekeys P db now identity deviceID (Some req) = (Inl bad_request, db')"
    using assms ne unfolding handleUploadPrekeys_def Let_def
    by (auto split: if_splits option.splits sum.splits)
  obtain db2 where db': "db' = DeleteOneTimePrekeys db2 deviceID" and up: "\<exists>db1 k. spk_DeviceID k = deviceID \<and> UpsertSignedPrekey db1 k = Inr db2"
    using assms(1,3) unfolding handleUploadPrekeys_def Let_def
    by (auto split: if_splits option.splits sum.splits) (metis SignedPrekey.select_convs(1))
  from up obtain db1 k where k: "spk_DeviceID k = deviceID" "UpsertSignedPrekey db1 k = Inr db2" by blast
  have "deviceID \<in> spk_DeviceID ` set (db_signed_prekeys db2)"
  proof (cases "list_ex (\<lambda>r. spk_DeviceID r = deviceID) (db_signed_prekeys db1)")
    case True
    let ?row = "k\<lparr>spk_IssuedAt := formatTime (spk_IssuedAt k), spk_CreatedAt := formatTime (spk_CreatedAt k)\<rparr>"
    have "set (map spk_DeviceID (row_update (\<lambda>r. spk_DeviceID r = deviceID) (\<lambda>_. ?row) (db_signed_prekeys db1)))
        = set (map spk_DeviceID (db_signed_prekeys db1))"
      using k(1) by (subst replace_keys) simp_all
    with k True show ?thesis by (auto simp: UpsertSignedPrekey_def Let_def list_ex_iff) (metis imageI)
  next
    case False
    with k show ?thesis by (auto simp: UpsertSignedPrekey_def Let_def split: if_splits)
  qed
  then show ?thesis
    using reject by (simp add: db' DeleteOneTimePrekeys_def CountOneTimePrekeys_def row_count_0 set_row_delete)
qed

definition sample_upload_identity :: Identity where
  "sample_upload_identity = \<lparr>id_AccountID = ''alice'', id_DeviceID = ''0011223344556677'', id_Role = RoleUser\<rparr>"

definition sample_dh :: bytes where "sample_dh = pad 32 ''dh''"

definition sample_upload_db :: database where
  "sample_upload_db = empty_database\<lparr>db_accounts := [sample_account ''alice''],
     db_devices := [(sample_device ''0011223344556677'' ''alice'')\<lparr>dev_DevicePubKey := ed25519_public sample_platform sample_secret,
       dev_DHIdentityPubKey := sample_dh, dev_DHIdentityIssuedAt := Some 0\<rparr>],
     db_prekey_sequence := 1,
     db_one_time_prekeys := [\<lparr>otp_id = 1, otp_device_id = ''0011223344556677'', otp_key = \<lparr>otk_KeyID = 7, otk_PubKey = ''otk''\<rparr>, otp_created_at = 0\<rparr>]\<rparr>"

definition sample_signed_prekey :: SignedPrekeyCertificate where
  "sample_signed_prekey = projr (SignSignedPrekeyCertificate sample_platform ''alice'' ''0011223344556677'' 1 sample_dh
     (pad 32 ''spk'') 0 sample_secret)"

definition sample_upload :: uploadPrekeysRequest where
  "sample_upload = \<lparr>up_DHIdentityCert = None,
     up_SignedPrekey = \<lparr>sd_KeyID = 1, sd_DHIdentityPubKey = base64_encode sample_dh, sd_PubKey = base64_encode (pad 32 ''spk''),
       sd_IssuedAt = ''1970-01-01T00:00:00Z'', sd_Signature = base64_encode (sp_Signature sample_signed_prekey)\<rparr>,
     up_OneTimePrekeys = [\<lparr>od_KeyID = 9, od_PubKey = ''not a key''\<rparr>], up_ReplaceOneTimePrekeys = True\<rparr>"

lemma sample_prekey_signed:
  "SignSignedPrekeyCertificate sample_platform ''alice'' ''0011223344556677'' 1 sample_dh (pad 32 ''spk'') 0 sample_secret
     = Inr sample_signed_prekey"
proof -
  have "\<not> isl (decodeDeviceID ''0011223344556677'')" by code_simp
  then show ?thesis unfolding sample_signed_prekey_def
    by (cases "decodeDeviceID ''0011223344556677''")
      (simp_all add: SignSignedPrekeyCertificate_def signed_prekey_signingBytes_def Let_def sample_dh_def)
qed

lemma signed_prekey_fields:
  assumes "ed25519_correct P" "SignSignedPrekeyCertificate P acc d kid pk pre t priv = Inr c"
  shows "c = \<lparr>sp_AccountID = acc, sp_DeviceID = d, sp_KeyID = kid, sp_DHIdentityPubKey = pk, sp_PrekeyPubKey = pre,
      sp_IssuedAt = t, sp_Signature = sp_Signature c\<rparr> \<and> length (sp_Signature c) = 64"
  using assms by (auto simp: SignSignedPrekeyCertificate_def ed25519_correct_def Let_def split: sum.splits)

lemma sample_upload_succeeds:
  "\<exists>db'. handleUploadPrekeys sample_platform sample_upload_db 0 sample_upload_identity ''0011223344556677''
     (Some (sample_upload\<lparr>up_OneTimePrekeys := []\<rparr>)) = (Inr (), db')"
proof -
  have c: "sample_signed_prekey = \<lparr>sp_AccountID = ''alice'', sp_DeviceID = ''0011223344556677'', sp_KeyID = 1,
      sp_DHIdentityPubKey = sample_dh, sp_PrekeyPubKey = pad 32 ''spk'', sp_IssuedAt = 0, sp_Signature = sp_Signature sample_signed_prekey\<rparr>"
    (is "_ = ?c") and sig: "length (sp_Signature sample_signed_prekey) = 64"
    using signed_prekey_fields [OF sample_platform_laws(2) sample_prekey_signed] by blast+
  have v: "signed_prekey_Verify sample_platform ?c (ed25519_public sample_platform sample_secret) = Inr ()"
    using signed_prekey_sign_verify [OF sample_platform_laws(2) sample_prekey_signed] c by metis
  have t: "parse_rfc3339 ''1970-01-01T00:00:00Z'' = Some 0" by code_simp
  have len: "length sample_dh = 32" by (simp add: sample_dh_def)
  then have dh: "length sample_dh = 32" "sample_dh \<noteq> []" by auto
  have dev: "GetDevice sample_upload_db ''0011223344556677'' = Inr ((sample_device ''0011223344556677'' ''alice'')\<lparr>
      dev_DevicePubKey := ed25519_public sample_platform sample_secret, dev_DHIdentityPubKey := sample_dh, dev_DHIdentityIssuedAt := Some 0\<rparr>)"
    using dh(2) by (simp add: GetDevice_def row_get_def sample_upload_db_def sample_device_def scanDeviceFields_def)
  have up: "\<exists>db2. UpsertSignedPrekey sample_upload_db k = Inr db2" if "spk_DeviceID k = ''0011223344556677''" for k
    using that by (auto simp: UpsertSignedPrekey_def Let_def sample_upload_db_def sample_device_def empty_database_def)
  let ?k = "\<lparr>spk_DeviceID = ''0011223344556677'', spk_KeyID = 1, spk_PubKey = pad 32 ''spk'',
      spk_Signature = sp_Signature sample_signed_prekey, spk_IssuedAt = 0, spk_CreatedAt = 0\<rparr>"
  obtain db2 where "UpsertSignedPrekey sample_upload_db ?k = Inr db2" using up [of ?k] by auto
  then show ?thesis
    by (simp add: handleUploadPrekeys_def upload_dh_identity_def sample_upload_identity_def dev sample_upload_def Let_def
        decodeBase64Key_def b64_decode_encode dh t sig v)
qed

theorem rejected_upload_not_rolled_back_witness:
  "\<exists>db'. handleUploadPrekeys sample_platform sample_upload_db 0 sample_upload_identity ''0011223344556677'' (Some sample_upload)
      = (Inl bad_request, db')
    \<and> CountOneTimePrekeys sample_upload_db ''0011223344556677'' = 1 \<and> CountOneTimePrekeys db' ''0011223344556677'' = 0"
proof -
  obtain db' where run: "handleUploadPrekeys sample_platform sample_upload_db 0 sample_upload_identity ''0011223344556677''
     (Some (sample_upload\<lparr>up_OneTimePrekeys := []\<rparr>)) = (Inr (), db')" using sample_upload_succeeds by blast
  have "decodeBase64Key ''not a key'' 32 = None" by code_simp
  then have bad: "decode_one_time (up_OneTimePrekeys sample_upload) = None" by (simp add: sample_upload_def)
  have "up_ReplaceOneTimePrekeys sample_upload" by (simp add: sample_upload_def)
  moreover have "CountOneTimePrekeys sample_upload_db ''0011223344556677'' = 1"
    by (simp add: CountOneTimePrekeys_def row_count_def sample_upload_db_def)
  ultimately show ?thesis using rejected_upload_not_rolled_back [OF run bad] by blast
qed

section \<open>Partial credentials\<close>

text \<open>
  A claim that carries some of the four signature headers but not all of them is not refused but
  answered as an anonymous one.
\<close>

theorem partial_credentials_anonymous:
  assumes "readBody r = Inr []" "header_get r HeaderNonce = []"
  shows "authenticateBundleClaimant P paths now r decode db nonces = (Inr anonymous, db, nonces)"
proof -
  have "trim_space [] = []" by (rule trim_space_graphic) simp
  with assms show ?thesis
    by (simp add: authenticateBundleClaimant_def HasSignatureHeaders_def ParseRequestHeaders_def Let_def)
qed

end
