(* ===== verification/Api_Push.thy ===== *)
theory Api_Push
  imports Api_Messages
begin

text \<open>
  \<open>internal/api/push.go\<close> and \<open>pushclient.go\<close>: waking a device. A subscription is woken by Web Push
  at an address the device chose, over a client that refuses to connect to internal addresses; a
  target is woken through the operator's gateway with a signed request. A push service that reports a
  registration as gone makes the server forget it. The encryption of Web Push is a library's; its
  outcome, and the JSON of the gateway request, are arguments.
\<close>

section \<open>Addresses (net.IP)\<close>

type_synonym ip = "8 word list"

text \<open>\<open>To4\<close>: the four bytes of an IPv4 address, also of one mapped into IPv6.\<close>

definition To4 :: "ip \<Rightarrow> ip option" where
  "To4 a = (if length a = 4 then Some a
     else if length a = 16 \<and> take 10 a = replicate 10 0 \<and> a ! 10 = 0xFF \<and> a ! 11 = 0xFF then Some (drop 12 a)
     else None)"

definition IsLoopback :: "ip \<Rightarrow> bool" where
  "IsLoopback a = (case To4 a of Some b \<Rightarrow> b ! 0 = 127 | None \<Rightarrow> a = replicate 15 0 @ [1])"

definition IsPrivate :: "ip \<Rightarrow> bool" where
  "IsPrivate a = (case To4 a of
     Some b \<Rightarrow> b ! 0 = 10 \<or> b ! 0 = 172 \<and> and (b ! 1) 0xF0 = 16 \<or> b ! 0 = 192 \<and> b ! 1 = 168
   | None \<Rightarrow> length a = 16 \<and> and (a ! 0) 0xFE = 0xFC)"

definition IsMulticast :: "ip \<Rightarrow> bool" where
  "IsMulticast a = (case To4 a of Some b \<Rightarrow> and (b ! 0) 0xF0 = 0xE0 | None \<Rightarrow> length a = 16 \<and> a ! 0 = 0xFF)"

definition IsInterfaceLocalMulticast :: "ip \<Rightarrow> bool" where
  "IsInterfaceLocalMulticast a \<longleftrightarrow> length a = 16 \<and> a ! 0 = 0xFF \<and> and (a ! 1) 0x0F = 1"

definition IsLinkLocalMulticast :: "ip \<Rightarrow> bool" where
  "IsLinkLocalMulticast a = (case To4 a of Some b \<Rightarrow> b ! 0 = 224 \<and> b ! 1 = 0 \<and> b ! 2 = 0
   | None \<Rightarrow> length a = 16 \<and> a ! 0 = 0xFF \<and> and (a ! 1) 0x0F = 2)"

definition IsLinkLocalUnicast :: "ip \<Rightarrow> bool" where
  "IsLinkLocalUnicast a = (case To4 a of Some b \<Rightarrow> b ! 0 = 169 \<and> b ! 1 = 254
   | None \<Rightarrow> length a = 16 \<and> a ! 0 = 0xFE \<and> and (a ! 1) 0xC0 = 0x80)"

definition IsUnspecified :: "ip \<Rightarrow> bool" where
  "IsUnspecified a = (case To4 a of Some b \<Rightarrow> b = replicate 4 0 | None \<Rightarrow> a = replicate 16 0)"

section \<open>The client for untrusted endpoints (pushclient.go)\<close>

definition isBlockedPushIP :: "ip \<Rightarrow> bool" where
  "isBlockedPushIP a \<longleftrightarrow> IsLoopback a \<or> IsLinkLocalUnicast a \<or> IsLinkLocalMulticast a \<or> IsInterfaceLocalMulticast a
     \<or> IsMulticast a \<or> IsPrivate a \<or> IsUnspecified a"

text \<open>
  The dialer's hook, for the address it is about to connect to as \<open>net.SplitHostPort\<close> and
  \<open>net.ParseIP\<close> read it: \<open>None\<close> is a host that is no address.
\<close>

datatype dial_error = BadHostPort | BlockedPushTarget

definition dial_control :: "ip option option \<Rightarrow> dial_error + unit" where
  "dial_control host = (case host of None \<Rightarrow> Inl BadHostPort | Some None \<Rightarrow> Inl BlockedPushTarget
     | Some (Some a) \<Rightarrow> if isBlockedPushIP a then Inl BlockedPushTarget else Inr ())"

section \<open>Waking (push.go)\<close>

text \<open>An error of the store is logged and otherwise ignored.\<close>

definition dropDeadSubscription :: "string \<Rightarrow> database \<Rightarrow> database" where
  "dropDeadSubscription deviceID db = (case SetDevicePushSubscription db deviceID None of Inl _ \<Rightarrow> db | Inr db' \<Rightarrow> db')"

definition dropDeadPushTarget :: "string \<Rightarrow> database \<Rightarrow> database" where
  "dropDeadPushTarget deviceID db = (case SetDevicePushTarget db deviceID None of Inl _ \<Rightarrow> db | Inr db' \<Rightarrow> db')"

text \<open>What is left to do when the push service has answered, or has not (\<open>None\<close>).\<close>

definition notifyPush :: "string \<Rightarrow> nat option \<Rightarrow> database \<Rightarrow> database" where
  "notifyPush deviceID answer db = (case answer of None \<Rightarrow> db
     | Some status \<Rightarrow> if status = 404 \<or> status = 410 then dropDeadSubscription deviceID db else db)"

definition gateway_path :: string where
  "gateway_path = ''/v1/push/send''"

definition gateway_request :: "platform \<Rightarrow> (PushTarget \<Rightarrow> bytes) \<Rightarrow> bytes \<Rightarrow> bytes \<Rightarrow> time \<Rightarrow> bytes \<Rightarrow> PushTarget \<Rightarrow> http_request" where
  "gateway_request P enc relayPub relayPriv ts rand target =
     (let body = enc target; keyID = base64_encode relayPub; nonce = hex_encode rand in
      \<lparr>Method = ''POST'', URLPath = gateway_path, RawQuery = [],
       Headers = [(''Content-Type'', ''application/json''), (HeaderKeyID, keyID), (HeaderTimestamp, FormatTimestamp ts), (HeaderNonce, nonce),
         (HeaderSignature, httpsig_Sign P ''POST'' gateway_path [] body keyID ts nonce relayPriv)],
       Body = Some body\<rparr>)"

definition notifyPushViaGateway :: "string \<Rightarrow> nat option \<Rightarrow> database \<Rightarrow> database" where
  "notifyPushViaGateway deviceID answer db = (case answer of None \<Rightarrow> db
     | Some status \<Rightarrow> if status = 410 then dropDeadPushTarget deviceID db else db)"

text \<open>
  A wake: the device is read when it starts (\<open>db0\<close>), and the answer is acted on when it comes
  (\<open>db\<close>), which may be ten seconds later.
\<close>

definition finish_wake :: "api_config \<Rightarrow> database \<Rightarrow> string \<Rightarrow> nat option \<Rightarrow> database \<Rightarrow> database" where
  "finish_wake cfg db0 deviceID answer db = (case dispatchWake cfg db0 deviceID of
     WebPush _ \<Rightarrow> notifyPush deviceID answer db
   | ViaGateway _ \<Rightarrow> notifyPushViaGateway deviceID answer db
   | _ \<Rightarrow> db)"

section \<open>What the dialer lets through\<close>

text \<open>An IPv4 address mapped into IPv6 names the same host and is treated the same.\<close>

definition mapped :: "ip \<Rightarrow> ip" where
  "mapped a = replicate 10 0 @ [0xFF, 0xFF] @ a"

lemma To4_mapped: "length a = 4 \<Longrightarrow> To4 (mapped a) = Some a"
  by (simp add: To4_def mapped_def nth_append)

lemma To4_four: "length a = 4 \<Longrightarrow> To4 a = Some a"
  by (simp add: To4_def)

lemma mapped_first: "length a = 4 \<Longrightarrow> mapped a ! 0 = 0"
  by (simp add: mapped_def nth_append)

lemma blocked_mapped: "length a = 4 \<Longrightarrow> isBlockedPushIP (mapped a) = isBlockedPushIP a"
  by (simp add: isBlockedPushIP_def IsLoopback_def IsLinkLocalUnicast_def IsLinkLocalMulticast_def IsInterfaceLocalMulticast_def IsMulticast_def
      IsPrivate_def IsUnspecified_def To4_mapped To4_four mapped_first)

text \<open>An address as a number, and the address blocks of the registries.\<close>

definition ip_value :: "ip \<Rightarrow> nat" where
  "ip_value a = foldl (\<lambda>n b. n * 256 + unat b) 0 a"

definition in_block :: "nat \<Rightarrow> ip \<Rightarrow> nat \<times> nat \<Rightarrow> bool" where
  "in_block width a block = (case block of (base, bits) \<Rightarrow> ip_value a div 2 ^ (width - bits) = base div 2 ^ (width - bits))"

definition internal_v4 :: "(nat \<times> nat) list" where
  "internal_v4 = [(ip_value [127, 0, 0, 0], 8), (ip_value [169, 254, 0, 0], 16), (ip_value [10, 0, 0, 0], 8), (ip_value [172, 16, 0, 0], 12),
     (ip_value [192, 168, 0, 0], 16), (ip_value [224, 0, 0, 0], 4), (ip_value [0, 0, 0, 0], 32)]"

definition internal_v6 :: "(nat \<times> nat) list" where
  "internal_v6 = [(1, 128), (0, 128), (ip_value (0xFE # 0x80 # replicate 14 0), 10), (ip_value (0xFC # replicate 15 0), 7),
     (ip_value (0xFF # replicate 15 0), 8)]"

lemma byte_less: "unat (b :: 8 word) < 256"
  using unsigned_less [of b] by simp

lemma foldl_value: "foldl (\<lambda>n b. n * 256 + unat b) k a = k * 256 ^ length a + ip_value (a :: ip)"
proof (induction a arbitrary: k)
  case (Cons b a)
  have "ip_value (b # a) = foldl (\<lambda>n b. n * 256 + unat b) (unat b) a" by (simp add: ip_value_def)
  then show ?case by (simp only: foldl_Cons Cons) (simp add: algebra_simps)
qed (simp add: ip_value_def)

lemma ip_value_append: "ip_value (a @ b) = ip_value a * 256 ^ length b + ip_value b"
  using foldl_value [of "ip_value a" b] by (simp add: ip_value_def)

lemma ip_value_less: "ip_value a < 256 ^ length a"
proof (induction a rule: rev_induct)
  case (snoc b a)
  have "unat b < 256" by (rule byte_less)
  then show ?case using snoc by (simp add: ip_value_append ip_value_def [of "[b]"])
qed (simp add: ip_value_def)

lemma ip_value_div: "ip_value (a @ b) div 256 ^ length b = ip_value a"
  by (simp add: ip_value_append ip_value_less)

lemma ip_value_snoc: "ip_value (a @ [b]) = ip_value a * 256 + unat b"
  by (simp add: ip_value_def)

lemma digits_eq: "u < k \<Longrightarrow> v < k \<Longrightarrow> m * k + u = n * k + v \<longleftrightarrow> m = n \<and> u = (v :: nat)"
proof -
  assume b: "u < k" "v < k"
  have "(m * k + u) div k = m" "(m * k + u) mod k = u" "(n * k + v) div k = n" "(n * k + v) mod k = v"
    using b by simp_all
  then show ?thesis by metis
qed

lemma ip_value_inject: "length a = length b \<Longrightarrow> ip_value a = ip_value b \<longleftrightarrow> a = b"
proof (induction a arbitrary: b rule: rev_induct)
  case (snoc x xs)
  then obtain y ys where b: "b = ys @ [y]" by (cases b rule: rev_cases) auto
  show ?case using snoc.IH [of ys] snoc.prems unfolding b ip_value_snoc digits_eq [OF byte_less byte_less] by (simp add: word_unat_eq_iff)
qed simp

lemma all_bytes: "list_all (\<lambda>n. Q (word_of_int n)) [0..255] \<Longrightarrow> Q (w :: 8 word)"
proof -
  assume "list_all (\<lambda>n. Q (word_of_int n)) [0..255]"
  moreover have "uint w \<in> set [0..255]" using unsigned_less [of w, where ?'a = int] by simp
  ultimately have "Q (word_of_int (uint w))" unfolding list_all_iff by blast
  then show ?thesis by simp
qed

lemma unat_div_uint: "unat w div n = m \<longleftrightarrow> uint w div int n = int m"
  by (metis of_nat_eq_iff of_nat_unat uint_nat zdiv_int)

lemma masks:
  "and (w :: 8 word) 0xF0 = 16 \<longleftrightarrow> unat w div 16 = 1" "and (w :: 8 word) 0xF0 = 0xE0 \<longleftrightarrow> unat w div 16 = 14"
  "and (w :: 8 word) 0xFE = 0xFC \<longleftrightarrow> unat w div 2 = 126" "and (w :: 8 word) 0xC0 = 0x80 \<longleftrightarrow> unat w div 64 = 2"
  unfolding unat_div_uint of_nat_numeral of_nat_1 by (rule all_bytes, code_simp)+

lemma v4_prefixes:
  assumes "length a = 4"
  shows "ip_value a div 2 ^ 24 = unat (a ! 0)" "ip_value a div 2 ^ 16 = unat (a ! 0) * 256 + unat (a ! 1)"
proof -
  obtain b c d e where a: "a = [b, c, d, e]" using assms by (auto simp: length_Suc_conv eval_nat_numeral)
  show "ip_value a div 2 ^ 24 = unat (a ! 0)" using ip_value_div [of "[b]" "[c, d, e]"] by (simp add: a ip_value_def)
  show "ip_value a div 2 ^ 16 = unat (a ! 0) * 256 + unat (a ! 1)" using ip_value_div [of "[b, c]" "[d, e]"] by (simp add: a ip_value_def)
qed

lemma v6_prefixes:
  assumes "length a = 16"
  shows "ip_value a div 2 ^ 120 = unat (a ! 0)" "ip_value a div 2 ^ 112 = unat (a ! 0) * 256 + unat (a ! 1)"
proof -
  obtain b c r where a: "a = b # c # r" "length r = 14" using assms by (auto simp: length_Suc_conv eval_nat_numeral)
  show "ip_value a div 2 ^ 120 = unat (a ! 0)" using ip_value_div [of "[b]" "c # r"] by (simp add: a ip_value_def)
  show "ip_value a div 2 ^ 112 = unat (a ! 0) * 256 + unat (a ! 1)" using ip_value_div [of "[b, c]" r] by (simp add: a ip_value_def)
qed

lemma v4_blocks:
  assumes a: "length a = 4"
  shows "list_ex (in_block 32 a) internal_v4 \<longleftrightarrow>
    unat (a ! 0) = 127 \<or> unat (a ! 0) = 169 \<and> unat (a ! 1) = 254 \<or> unat (a ! 0) = 10 \<or> unat (a ! 0) = 172 \<and> unat (a ! 1) div 16 = 1
    \<or> unat (a ! 0) = 192 \<and> unat (a ! 1) = 168 \<or> unat (a ! 0) div 16 = 14 \<or> a = replicate 4 0"
proof -
  define x y v where "x = unat (a ! 0)" and "y = unat (a ! 1)" and "v = ip_value a"
  have xy: "x < 256" "y < 256" by (simp_all add: x_def y_def byte_less)
  have p: "v div 16777216 = x" "v div 65536 = x * 256 + y" using v4_prefixes [OF a] by (simp_all add: x_def y_def v_def)
  have "v div 1048576 = v div 65536 div 16" "v div 268435456 = v div 16777216 div 16" by (simp_all add: div_mult2_eq [symmetric])
  moreover have "(x * 256 + y) div 16 = x * 16 + y div 16" by presburger
  ultimately have q: "v div 1048576 = x * 16 + y div 16" "v div 268435456 = x div 16" using p by simp_all
  have z: "v = 0 \<longleftrightarrow> a = replicate 4 0" using ip_value_inject [of a "replicate 4 0"] a by (simp add: v_def ip_value_def eval_nat_numeral)
  have w: "y div 16 < 16" using xy by linarith
  have "list_ex (in_block 32 a) internal_v4 \<longleftrightarrow> v div 16777216 = 127 \<or> v div 65536 = 43518 \<or> v div 16777216 = 10 \<or> v div 1048576 = 2753
      \<or> v div 65536 = 49320 \<or> v div 268435456 = 14 \<or> v = 0"
    by (simp add: internal_v4_def in_block_def ip_value_def [of "[_, _, _, _]"] flip: v_def)
  also have "\<dots> \<longleftrightarrow> x = 127 \<or> x = 169 \<and> y = 254 \<or> x = 10 \<or> x = 172 \<and> y div 16 = 1 \<or> x = 192 \<and> y = 168 \<or> x div 16 = 14 \<or> a = replicate 4 0"
    using digits_eq [of y 256 254 x 169] digits_eq [of y 256 168 x 192] digits_eq [of "y div 16" 16 1 x 172] w xy unfolding p q z by simp
  finally show ?thesis by (simp add: x_def y_def)
qed

lemma v6_bits:
  assumes a: "length a = 16"
  shows "ip_value a div 2 ^ 118 = unat (a ! 0) * 4 + unat (a ! 1) div 64" "ip_value a div 2 ^ 121 = unat (a ! 0) div 2"
proof -
  have "ip_value a div 2 ^ 118 = ip_value a div 2 ^ 112 div 2 ^ 6" "ip_value a div 2 ^ 121 = ip_value a div 2 ^ 120 div 2 ^ 1"
    by (simp_all only: div_mult2_eq [symmetric] power_add [symmetric]) simp_all
  moreover have "(unat (a ! 0) * 256 + unat (a ! 1)) div 64 = unat (a ! 0) * 4 + unat (a ! 1) div 64" by presburger
  ultimately show "ip_value a div 2 ^ 118 = unat (a ! 0) * 4 + unat (a ! 1) div 64" "ip_value a div 2 ^ 121 = unat (a ! 0) div 2"
    using v6_prefixes [OF a] by simp_all
qed

lemma v6_blocks:
  assumes a: "length a = 16"
  shows "list_ex (in_block 128 a) internal_v6 \<longleftrightarrow> a = replicate 15 0 @ [1] \<or> a = replicate 16 0
    \<or> unat (a ! 0) = 254 \<and> unat (a ! 1) div 64 = 2 \<or> unat (a ! 0) div 2 = 126 \<or> unat (a ! 0) = 255"
proof -
  have z: "ip_value a = 0 \<longleftrightarrow> a = replicate 16 0" "ip_value a = 1 \<longleftrightarrow> a = replicate 15 0 @ [1]"
    using ip_value_inject [of a "replicate 16 0"] ip_value_inject [of a "replicate 15 0 @ [1]"] a
    by (simp_all add: ip_value_def eval_nat_numeral)
  have fe: "in_block 128 a (ip_value (0xFE # 0x80 # replicate 14 0), 10) \<longleftrightarrow> unat (a ! 0) * 4 + unat (a ! 1) div 64 = 1018"
    using v6_bits(1) [OF a] v6_bits(1) [of "0xFE # 0x80 # replicate 14 0"] by (simp add: in_block_def)
  have fc: "in_block 128 a (ip_value (0xFC # replicate 15 0), 7) \<longleftrightarrow> unat (a ! 0) div 2 = 126"
    using v6_bits(2) [OF a] v6_bits(2) [of "0xFC # replicate 15 0"] by (simp add: in_block_def)
  have ff: "in_block 128 a (ip_value (0xFF # replicate 15 0), 8) \<longleftrightarrow> unat (a ! 0) = 255"
    using v6_prefixes(1) [OF a] v6_prefixes(1) [of "0xFF # replicate 15 0"] by (simp add: in_block_def)
  have one: "in_block 128 a (1, 128) \<longleftrightarrow> ip_value a = 1" "in_block 128 a (0, 128) \<longleftrightarrow> ip_value a = 0" by (simp_all add: in_block_def)
  have "unat (a ! 1) div 64 < 4" using byte_less [of "a ! 1"] by linarith
  then have "unat (a ! 0) * 4 + unat (a ! 1) div 64 = 1018 \<longleftrightarrow> unat (a ! 0) = 254 \<and> unat (a ! 1) div 64 = 2"
    using digits_eq [of "unat (a ! 1) div 64" 4 2 "unat (a ! 0)" 254] by simp
  moreover
  have "list_ex Q [b, c, d, e, f] \<longleftrightarrow> Q b \<or> Q c \<or> Q d \<or> Q e \<or> Q f" for Q :: "nat \<times> nat \<Rightarrow> bool" and b c d e f by simp
  note five = this
  ultimately show ?thesis unfolding internal_v6_def five one fe fc ff z by argo
qed

lemma byte_eq: "(w :: 8 word) = v \<longleftrightarrow> unat w = unat v"
  by (simp add: word_unat_eq_iff)

text \<open>
  C13: a wake to an endpoint chosen by a device never reaches this host or its internal network. The
  dialer lets exactly those addresses through that lie in none of the loopback, link-local, private,
  multicast and unspecified blocks of IPv4 and IPv6, and an IPv4 address written as a mapped IPv6
  address is treated as the IPv4 address it is.
\<close>

theorem push_reaches_public_only:
  assumes "length a = 4" "length c = 16" "To4 c = None"
  shows "(dial_control (Some (Some a)) = Inr () \<longleftrightarrow> \<not> list_ex (in_block 32 a) internal_v4)
    \<and> dial_control (Some (Some (mapped a))) = dial_control (Some (Some a))
    \<and> (dial_control (Some (Some c)) = Inr () \<longleftrightarrow> \<not> list_ex (in_block 128 c) internal_v6)
    \<and> dial_control (Some None) \<noteq> Inr () \<and> dial_control None \<noteq> Inr ()"
proof (intro conjI)
  have "isBlockedPushIP a \<longleftrightarrow> list_ex (in_block 32 a) internal_v4"
    unfolding v4_blocks [OF assms(1)] isBlockedPushIP_def IsLoopback_def IsLinkLocalUnicast_def IsLinkLocalMulticast_def IsInterfaceLocalMulticast_def
      IsMulticast_def IsPrivate_def IsUnspecified_def To4_four [OF assms(1)] option.case masks
    using assms(1) by (auto simp: byte_eq)
  then show "dial_control (Some (Some a)) = Inr () \<longleftrightarrow> \<not> list_ex (in_block 32 a) internal_v4" by (simp add: dial_control_def)
  show "dial_control (Some (Some (mapped a))) = dial_control (Some (Some a))" using blocked_mapped [OF assms(1)] by (simp add: dial_control_def)
  have "isBlockedPushIP c \<longleftrightarrow> list_ex (in_block 128 c) internal_v6"
    unfolding v6_blocks [OF assms(2)] isBlockedPushIP_def IsLoopback_def IsLinkLocalUnicast_def IsLinkLocalMulticast_def IsInterfaceLocalMulticast_def
      IsMulticast_def IsPrivate_def IsUnspecified_def assms(3) option.case masks
    using assms(2) by (auto simp: byte_eq)
  then show "dial_control (Some (Some c)) = Inr () \<longleftrightarrow> \<not> list_ex (in_block 128 c) internal_v6" by (simp add: dial_control_def)
qed (simp_all add: dial_control_def)

text \<open>The cloud metadata address in either form, and a public address of each family.\<close>

theorem push_reaches_public_only_witness:
  "dial_control (Some (Some [169, 254, 169, 254])) \<noteq> Inr () \<and> dial_control (Some (Some (mapped [169, 254, 169, 254]))) \<noteq> Inr ()
    \<and> dial_control (Some (Some (0x20 # 0x01 # replicate 14 1))) = Inr ()"
proof -
  have t: "To4 (0x20 # 0x01 # replicate 14 1) = None" by (simp add: To4_def eval_nat_numeral)
  have v4: "list_ex (in_block 32 [169, 254, 169, 254]) internal_v4" by (subst v4_blocks) simp_all
  have n: "(0x20 :: 8 word) \<noteq> 0" by simp
  have first: "(replicate 15 0 @ [1 :: 8 word]) ! 0 = 0" "replicate 16 (0 :: 8 word) ! 0 = 0" by (simp_all add: nth_append)
  have "(0x20 # 0x01 # replicate 14 1 :: 8 word list) \<noteq> replicate 15 0 @ [1]" "(0x20 # 0x01 # replicate 14 1 :: 8 word list) \<noteq> replicate 16 0"
    using first n by (metis nth_Cons_0, metis nth_Cons_0)
  then have v6: "\<not> list_ex (in_block 128 (0x20 # 0x01 # replicate 14 1)) internal_v6"
    using v6_blocks [of "0x20 # 0x01 # replicate 14 1"] by simp
  show ?thesis using push_reaches_public_only [of "[169, 254, 169, 254]" "0x20 # 0x01 # replicate 14 1"] t v4 v6 by simp
qed

section \<open>What a wake leaves behind\<close>

text \<open>
  The gateway, which knows the server only by the key it names, can check the request: the key id is
  the relay key, and the signature verifies under it over this request and its body.
\<close>

theorem gateway_request_verifies:
  assumes P: "ed25519_correct P" and k: "relayPub = ed25519_public P relayPriv" and r: "rand \<noteq> []"
    and t: "- (2 ^ 62) \<le> unix_seconds ts" "unix_seconds ts < 2 ^ 62"
  shows "\<exists>h. ParseRequestHeaders (gateway_request P enc relayPub relayPriv ts rand target) = Some h
    \<and> base64_decode (h_KeyID h) = Some relayPub \<and> ParseTimestamp (h_Timestamp h) = Some (truncate_second ts)
    \<and> httpsig_Verify P (CanonicalStringFromRequest P (gateway_request P enc relayPub relayPriv ts rand target) h (enc target)) (h_Signature h) relayPub = Inr ()"
proof -
  let ?key = "base64_encode relayPub" and ?nonce = "hex_encode rand"
  let ?sig = "httpsig_Sign P ''POST'' gateway_path [] (enc target) ?key ts ?nonce relayPriv"
  let ?h = "\<lparr>h_KeyID = ?key, h_Timestamp = FormatTimestamp ts, h_Nonce = ?nonce, h_Signature = ?sig\<rparr>"
  have b: "base64_decode ?key = Some relayPub" by (rule b64_decode_encode)
  have len: "length relayPub = 32" using P by (simp add: ed25519_correct_def k)
  then have ne: "?key \<noteq> []" using b by (auto simp: b64_decode_def)
  have nonce: "?nonce \<noteq> []" using r by (cases rand) (auto simp: hex_encode_def Let_def)
  have "ParseRequestHeaders (gateway_request P enc relayPub relayPriv ts rand target) = Some ?h"
    using ne nonce client_signature_nonempty [OF P] by (simp add: ParseRequestHeaders_def gateway_request_def header_get_def Let_def HeaderKeyID_def
        HeaderTimestamp_def HeaderNonce_def HeaderSignature_def FormatTimestamp_def)
  moreover have "CanonicalStringFromRequest P (gateway_request P enc relayPub relayPriv ts rand target) ?h (enc target)
      = CanonicalString P ''POST'' gateway_path [] (FormatTimestamp ts) ?nonce ?key (enc target)"
    by (simp add: CanonicalStringFromRequest_def gateway_request_def Let_def)
  ultimately show ?thesis using b signed_request_verifies_pair [OF P t] by (simp add: k)
qed

text \<open>A wake changes nothing but the push registration of the device it woke.\<close>

definition without_push :: "string \<Rightarrow> Device \<Rightarrow> Device" where
  "without_push deviceID d = (if dev_DeviceID d = deviceID then d\<lparr>dev_Push := None, dev_PushTarget := None\<rparr> else d)"

lemma update_push_only:
  assumes "update_device db deviceID f = Inr db'" "\<And>d. dev_DeviceID d = deviceID \<Longrightarrow> without_push deviceID (f d) = without_push deviceID d"
  shows "db'\<lparr>db_devices := []\<rparr> = db\<lparr>db_devices := []\<rparr> \<and> map (without_push deviceID) (db_devices db') = map (without_push deviceID) (db_devices db)"
  using assms by (auto simp: update_device_def row_update_def split: if_splits)

theorem wake_touches_push_only:
  "(finish_wake cfg db0 deviceID answer db)\<lparr>db_devices := []\<rparr> = db\<lparr>db_devices := []\<rparr>
    \<and> map (without_push deviceID) (db_devices (finish_wake cfg db0 deviceID answer db)) = map (without_push deviceID) (db_devices db)"
proof -
  have s: "(dropDeadSubscription deviceID db)\<lparr>db_devices := []\<rparr> = db\<lparr>db_devices := []\<rparr>
      \<and> map (without_push deviceID) (db_devices (dropDeadSubscription deviceID db)) = map (without_push deviceID) (db_devices db)"
    unfolding dropDeadSubscription_def SetDevicePushSubscription_def
    by (auto split: sum.split dest!: update_push_only simp: without_push_def)
  have t: "(dropDeadPushTarget deviceID db)\<lparr>db_devices := []\<rparr> = db\<lparr>db_devices := []\<rparr>
      \<and> map (without_push deviceID) (db_devices (dropDeadPushTarget deviceID db)) = map (without_push deviceID) (db_devices db)"
    unfolding dropDeadPushTarget_def SetDevicePushTarget_def
    by (auto split: sum.split dest!: update_push_only simp: without_push_def)
  show ?thesis using s t unfolding finish_wake_def notifyPush_def notifyPushViaGateway_def
    by (simp split: wake_dispatch.split option.split)
qed

text \<open>
  A subscription that replaced the one a wake was sent to is dropped with it: the push service answers
  that the old one is gone, and the server forgets the new one.
\<close>

lemma find_update:
  "(\<And>r. key (f r) = key r) \<Longrightarrow> row_get key k (row_update (\<lambda>r. key r = k) f rows) = map_option f (row_get key k rows)"
  by (induction rows) (simp_all add: row_get_def row_update_def)

theorem fresh_subscription_dropped:
  assumes d: "GetDevice db0 deviceID = Inr d0" "dev_Push d0 = Some old"
    and new: "SetDevicePushSubscription db0 deviceID (Some new) = Inr db1"
  shows "\<exists>d. GetDevice db1 deviceID = Inr d \<and> dev_Push d = Some new"
    "\<exists>d. GetDevice (finish_wake cfg db0 deviceID (Some 410) db1) deviceID = Inr d \<and> dev_Push d = None \<and> dev_PushTarget d = None"
proof -
  obtain r where r: "row_get dev_DeviceID deviceID (db_devices db0) = Some r" using d(1) by (auto simp: GetDevice_def split: option.splits)
  have g1: "row_get dev_DeviceID deviceID (db_devices db1) = Some (r\<lparr>dev_Push := Some new, dev_PushTarget := None\<rparr>)"
    using new r by (auto simp: SetDevicePushSubscription_def update_device_def find_update split: if_splits)
  show "\<exists>d. GetDevice db1 deviceID = Inr d \<and> dev_Push d = Some new" using g1 by (simp add: GetDevice_def scanDeviceFields_def)
  have c: "row_count (\<lambda>d. dev_DeviceID d = deviceID) (db_devices db1) \<noteq> 0"
    using g1 by (auto simp: row_get_def row_count_def find_Some_iff filter_empty_conv)
  have "finish_wake cfg db0 deviceID (Some 410) db1 = dropDeadSubscription deviceID db1"
    using d by (simp add: finish_wake_def dispatchWake_def notifyPush_def)
  then show "\<exists>d. GetDevice (finish_wake cfg db0 deviceID (Some 410) db1) deviceID = Inr d \<and> dev_Push d = None \<and> dev_PushTarget d = None"
    using c g1 by (simp add: dropDeadSubscription_def SetDevicePushSubscription_def update_device_def GetDevice_def find_update scanDeviceFields_def)
qed

end
