(* ===== verification/Replay_Refine.thy ===== *)
theory Replay_Refine
  imports Replay_Guard
begin

text \<open>
  The nonce cache spreads its records over 256 maps by a hash of the device id and joins device id
  and nonce into one key. What it implements is one map from pairs to expiry times: along any history
  of records and purges the cache gives the answers of that map, for device ids without a NUL
  character (an HTTP header value has none).
\<close>

section \<open>The specification\<close>

type_synonym nonce_map = "string \<times> string \<Rightarrow> time option"

definition map_record :: "nonce_map \<Rightarrow> string \<times> string \<Rightarrow> time \<Rightarrow> time \<Rightarrow> bool \<times> nonce_map" where
  "map_record m k now e = (case m k of
     Some x \<Rightarrow> if x > now then (False, m) else (True, m(k \<mapsto> e)) | None \<Rightarrow> (True, m(k \<mapsto> e)))"

definition map_purge :: "nonce_map \<Rightarrow> time \<Rightarrow> nonce_map" where
  "map_purge m now = (\<lambda>k. case m k of Some x \<Rightarrow> if x > now then Some x else None | None \<Rightarrow> None)"

section \<open>The abstraction\<close>

definition no_nul :: "string \<Rightarrow> bool" where
  "no_nul d \<longleftrightarrow> CHR 0x00 \<notin> set d"

definition cache_abs :: "nonceCache \<Rightarrow> nonce_map" where
  "cache_abs c k = (if no_nul (fst k) then assoc_get (c ! shardFor (fst k)) (nonceKey (fst k) (snd k)) else None)"

lemma nonceKey_inject:
  assumes "nonceKey d n = nonceKey d' n'" "no_nul d" "no_nul d'"
  shows "d = d' \<and> n = n'"
proof -
  have "takeWhile (\<lambda>c. c \<noteq> CHR 0x00) (nonceKey x y) = x" if "no_nul x" for x y
    using that unfolding nonceKey_def no_nul_def by (subst takeWhile_append2) auto
  with assms have "d = d'" by metis
  with assms(1) show ?thesis by (simp add: nonceKey_def)
qed

lemma cache_abs_put:
  assumes "cache_ok c" "no_nul d"
  shows "cache_abs (c[shardFor d := assoc_put (c ! shardFor d) (nonceKey d n) e]) = (cache_abs c)((d, n) \<mapsto> e)"
proof
  fix k :: "string \<times> string"
  show "cache_abs (c[shardFor d := assoc_put (c ! shardFor d) (nonceKey d n) e]) k = ((cache_abs c)((d, n) \<mapsto> e)) k"
    using assms shard_length [OF assms(1), of d] nonceKey_inject [of "fst k" "snd k" d n]
    by (cases k) (auto simp: cache_abs_def nth_list_update assoc_get_put)
qed

lemma record_refines:
  assumes "cache_ok c" "no_nul d"
  shows "fst (nonce_record c d n now e) = fst (map_record (cache_abs c) (d, n) now e)
    \<and> cache_abs (snd (nonce_record c d n now e)) = snd (map_record (cache_abs c) (d, n) now e)"
proof -
  have "cache_abs c (d, n) = assoc_get (c ! shardFor d) (nonceKey d n)" using assms(2) by (simp add: cache_abs_def)
  then show ?thesis
    by (auto simp: nonce_record_def map_record_def Let_def cache_abs_put [OF assms] split: option.split)
qed

lemma assoc_get_filter_distinct:
  assumes "keys_distinct m"
  shows "assoc_get (filter (\<lambda>p. q (snd p)) m) k = (case assoc_get m k of None \<Rightarrow> None | Some v \<Rightarrow> if q v then Some v else None)"
proof -
  have "map_of (filter (\<lambda>p. q (snd p)) m) k = (case map_of m k of None \<Rightarrow> None | Some v \<Rightarrow> if q v then Some v else None)"
    if "distinct (map fst m)" using that
    by (induction m) (auto split: option.splits simp: map_of_eq_None_iff image_iff)
  with assms show ?thesis by (simp add: keys_distinct_def assoc_get_map_of)
qed

lemma purge_refines:
  assumes "cache_ok c"
  shows "cache_abs (snd (purgeExpired c now)) = map_purge (cache_abs c) now"
proof
  fix k :: "string \<times> string"
  let ?i = "shardFor (fst k)"
  have "snd (purgeExpired c now) ! ?i = filter (\<lambda>p. snd p > now) (c ! ?i)"
    using shard_length [OF assms] by (simp add: purgeExpired_def)
  then show "cache_abs (snd (purgeExpired c now)) k = map_purge (cache_abs c) now k"
    using assoc_get_filter_distinct [OF cache_ok_nth [OF assms], of "\<lambda>v. v > now" _ "nonceKey (fst k) (snd k)"]
    by (simp add: cache_abs_def map_purge_def)
qed

section \<open>Histories\<close>

datatype nonce_op = RecordOp string string time time | PurgeOp time

fun nul_free :: "nonce_op \<Rightarrow> bool" where
  "nul_free (RecordOp d n now e) = no_nul d"
| "nul_free (PurgeOp now) = True"

fun cache_history :: "nonce_op list \<Rightarrow> nonceCache \<Rightarrow> bool list \<times> nonceCache" where
  "cache_history [] c = ([], c)"
| "cache_history (RecordOp d n now e # xs) c =
     (case nonce_record c d n now e of (answer, c1) \<Rightarrow> (case cache_history xs c1 of (bs, c2) \<Rightarrow> (answer # bs, c2)))"
| "cache_history (PurgeOp now # xs) c = cache_history xs (snd (purgeExpired c now))"

fun map_history :: "nonce_op list \<Rightarrow> nonce_map \<Rightarrow> bool list \<times> nonce_map" where
  "map_history [] m = ([], m)"
| "map_history (RecordOp d n now e # xs) m =
     (case map_record m (d, n) now e of (answer, m1) \<Rightarrow> (case map_history xs m1 of (bs, m2) \<Rightarrow> (answer # bs, m2)))"
| "map_history (PurgeOp now # xs) m = map_history xs (map_purge m now)"

lemma history_refines:
  "cache_ok c \<Longrightarrow> list_all nul_free ops \<Longrightarrow>
     map_history ops (cache_abs c) = map_prod (\<lambda>bs. bs) cache_abs (cache_history ops c)"
proof (induction ops c rule: cache_history.induct)
  case (2 d n now e xs c)
  obtain answer c1 where r: "nonce_record c d n now e = (answer, c1)" by (cases "nonce_record c d n now e")
  have ok: "cache_ok c1" using nonce_record_ok [OF 2(2), of d n now e] r by simp
  have "map_record (cache_abs c) (d, n) now e = (answer, cache_abs c1)"
    using record_refines [OF 2(2), of d n now e] 2(3) r by (simp add: prod_eq_iff)
  with 2(1) [OF r [symmetric]] ok 2(3) r show ?case by (simp split: prod.splits)
next
  case (3 now xs c)
  then show ?case using purge_refines [of c now] purge_ok [of c now] by simp
qed simp

text \<open>
  C33: The sharded cache implements one map from device id and nonce to expiry: along any history of
  records and purges from empty it gives the same answers, and holds the same records, as that map.
\<close>

theorem nonce_cache_refines_map:
  assumes "list_all nul_free ops"
  shows "fst (cache_history ops newNonceCache) = fst (map_history ops Map.empty)
    \<and> cache_abs (snd (cache_history ops newNonceCache)) = snd (map_history ops Map.empty)"
proof -
  have "cache_abs newNonceCache = Map.empty"
    by (rule ext) (simp add: cache_abs_def newNonceCache_def shardFor_less)
  with history_refines [OF newNonceCache_ok assms] show ?thesis by (simp add: map_prod_def split: prod.splits)
qed

definition sample_nonce_ops :: "nonce_op list" where
  "sample_nonce_ops = [RecordOp ''a1'' ''n'' 0 10, RecordOp ''a1'' ''n'' 5 20, PurgeOp 10, RecordOp ''a1'' ''n'' 11 20]"

theorem nonce_cache_refines_map_witness:
  "fst (cache_history sample_nonce_ops newNonceCache) = [True, False, True]"
proof -
  have "list_all nul_free sample_nonce_ops" by (simp add: sample_nonce_ops_def no_nul_def)
  moreover have "fst (map_history sample_nonce_ops Map.empty) = [True, False, True]"
    by (simp add: sample_nonce_ops_def map_record_def map_purge_def)
  ultimately show ?thesis using nonce_cache_refines_map [of sample_nonce_ops] by simp
qed

end
