(* ===== verification/Blobstore.thy ===== *)
theory Blobstore
  imports Httpsig
begin

text \<open>
  \<open>internal/blobstore\<close>: the directory of blob files. A file stands under its path below the root, a
  list of components; the temporary files are those a killed process has left behind, with their
  modification times. Errors of the file system itself are not modelled.

  The locale \<open>file_store\<close> states what the blob handlers and the cleanup rely on.
\<close>

section \<open>Ids and paths\<close>

definition lower_hex :: "char \<Rightarrow> bool" where
  "lower_hex c = (let n = (of_char c :: nat) in 48 \<le> n \<and> n \<le> 57 \<or> 97 \<le> n \<and> n \<le> 102)"

definition validateBlobID :: "string \<Rightarrow> bool" where
  "validateBlobID blobID \<longleftrightarrow> length blobID = 64 \<and> list_all lower_hex blobID"

definition NewBlobID :: "bytes \<Rightarrow> string" where
  "NewBlobID rnd = hex_encode rnd"

definition pathFor :: "string \<Rightarrow> string list" where
  "pathFor blobID = [take 2 blobID, take 2 (drop 2 blobID), blobID]"

definition tmpDirName :: string where
  "tmpDirName = ''tmp''"

section \<open>The directory\<close>

record blob_dir =
  bd_files :: "(string list \<times> bytes) list"
  bd_tmp :: "(string \<times> time) list"

definition empty_dir :: blob_dir where
  "empty_dir = \<lparr>bd_files = [], bd_tmp = []\<rparr>"

text \<open>
  A source delivers its bytes and then ends, or fails: past the limit of \<open>http.MaxBytesReader\<close>, or for
  another reason. \<open>io.LimitReader\<close> stops after its limit without looking further.
\<close>

datatype read_end = EOF | TooLarge | ReadFailed

type_synonym reader = "bytes \<times> read_end"

definition read_limited :: "int \<Rightarrow> reader \<Rightarrow> read_end + bytes" where
  "read_limited n src =
     (if n \<le> int (length (fst src)) then Inr (take (nat n) (fst src))
      else if snd src = EOF then Inr (fst src) else Inl (snd src))"

datatype put_error = InvalidBlobID | WritingFailed read_end | ExceedsLimit | DigestMismatch

definition Put :: "platform \<Rightarrow> blob_dir \<Rightarrow> string \<Rightarrow> reader \<Rightarrow> string \<Rightarrow> int \<Rightarrow> (put_error + int \<times> string) \<times> blob_dir" where
  "Put P dir blobID src expectedDigest maxBytes =
     (if \<not> validateBlobID blobID then (Inl InvalidBlobID, dir)
      else case read_limited (wrap64 (maxBytes + 1)) src of Inl e \<Rightarrow> (Inl (WritingFailed e), dir)
      | Inr content \<Rightarrow>
      if int (length content) > maxBytes then (Inl ExceedsLimit, dir)
      else let digest = hex_encode (sha256 P content) in
        if expectedDigest \<noteq> [] \<and> \<not> equal_fold P digest expectedDigest then (Inl DigestMismatch, dir)
        else (Inr (int (length content), digest),
              dir\<lparr>bd_files := assoc_put (bd_files dir) (pathFor blobID) content\<rparr>))"

text \<open>A process killed while it writes leaves its temporary file.\<close>

definition put_killed :: "blob_dir \<Rightarrow> string \<Rightarrow> time \<Rightarrow> blob_dir" where
  "put_killed dir name modTime = dir\<lparr>bd_tmp := assoc_put (bd_tmp dir) name modTime\<rparr>"

datatype open_error = MalformedID | FileNotFound

definition Open :: "blob_dir \<Rightarrow> string \<Rightarrow> open_error + bytes" where
  "Open dir blobID =
     (if \<not> validateBlobID blobID then Inl MalformedID
      else case assoc_get (bd_files dir) (pathFor blobID) of None \<Rightarrow> Inl FileNotFound | Some content \<Rightarrow> Inr content)"

definition Remove :: "blob_dir \<Rightarrow> string \<Rightarrow> unit option \<times> blob_dir" where
  "Remove dir blobID =
     (if \<not> validateBlobID blobID then (None, dir)
      else (Some (), dir\<lparr>bd_files := assoc_del (bd_files dir) (pathFor blobID)\<rparr>))"

definition SweepTmp :: "blob_dir \<Rightarrow> duration \<Rightarrow> time \<Rightarrow> nat \<times> blob_dir" where
  "SweepTmp dir olderThan now =
     (let young = (\<lambda>f. time_sub now (snd f) \<le> olderThan)
      in (length (filter (\<lambda>f. \<not> young f) (bd_tmp dir)), dir\<lparr>bd_tmp := filter young (bd_tmp dir)\<rparr>))"

definition EachStoredID :: "blob_dir \<Rightarrow> string list" where
  "EachStoredID dir = map (\<lambda>f. last (fst f)) (filter (\<lambda>f. hd (fst f) \<noteq> tmpDirName) (bd_files dir))"

section \<open>The interface\<close>

text \<open>
  What is stored can be read back, removing takes exactly one file away, and the walk finds exactly
  the files that can be read.
\<close>

locale file_store =
  fixes content :: "'s \<Rightarrow> string \<Rightarrow> bytes option"
    and wr :: "'s \<Rightarrow> string \<Rightarrow> bytes \<Rightarrow> 's"
    and del :: "'s \<Rightarrow> string \<Rightarrow> 's"
    and walk :: "'s \<Rightarrow> string list"
    and valid :: "string \<Rightarrow> bool"
    and inv :: "'s \<Rightarrow> bool"
  assumes content_wr: "valid k \<Longrightarrow> content (wr s k b) i = (if i = k then Some b else content s i)"
    and content_del: "content (del s k) i = (if i = k then None else content s i)"
    and walk_content: "inv s \<Longrightarrow> i \<in> set (walk s) \<longleftrightarrow> content s i \<noteq> None"
    and inv_wr: "inv s \<Longrightarrow> valid k \<Longrightarrow> inv (wr s k b)"
    and inv_del: "inv s \<Longrightarrow> inv (del s k)"
begin

definition del_all :: "string list \<Rightarrow> 's \<Rightarrow> 's" where
  "del_all ks s = fold (\<lambda>k s. del s k) ks s"

lemma content_del_all: "content (del_all ks s) i = (if i \<in> set ks then None else content s i)"
  unfolding del_all_def by (induction ks arbitrary: s) (auto simp: content_del)

lemma inv_del_all: "inv s \<Longrightarrow> inv (del_all ks s)"
  unfolding del_all_def by (induction ks arbitrary: s) (auto simp: inv_del)

text \<open>Sweeping the files outside \<open>keep\<close> leaves exactly those inside it.\<close>

lemma sweep_content:
  "inv s \<Longrightarrow> content (del_all (filter (\<lambda>i. \<not> keep i) (walk s)) s) i = (if keep i then content s i else None)"
  by (cases "content s i") (auto simp: content_del_all walk_content)

end

section \<open>The directory provides it\<close>

definition dir_content :: "blob_dir \<Rightarrow> string \<Rightarrow> bytes option" where
  "dir_content dir i = (case Open dir i of Inl _ \<Rightarrow> None | Inr b \<Rightarrow> Some b)"

definition dir_write :: "blob_dir \<Rightarrow> string \<Rightarrow> bytes \<Rightarrow> blob_dir" where
  "dir_write dir i b = dir\<lparr>bd_files := assoc_put (bd_files dir) (pathFor i) b\<rparr>"

definition dir_del :: "blob_dir \<Rightarrow> string \<Rightarrow> blob_dir" where
  "dir_del dir i = snd (Remove dir i)"

definition dir_ok :: "blob_dir \<Rightarrow> bool" where
  "dir_ok dir \<longleftrightarrow> list_all (\<lambda>f. validateBlobID (last (fst f)) \<and> fst f = pathFor (last (fst f))) (bd_files dir)"

lemma last_pathFor [simp]: "last (pathFor i) = i"
  by (simp add: pathFor_def)

lemma pathFor_inject [simp]: "pathFor i = pathFor j \<longleftrightarrow> i = j"
  by (auto simp: pathFor_def)

lemma lower_hex_graphic: "lower_hex c \<Longrightarrow> c \<noteq> CHR ''/'' \<and> c \<noteq> CHR ''.'' \<and> c \<noteq> CHR ''t''"
  by (auto simp: lower_hex_def Let_def)

lemma dir_content_assoc:
  "dir_content dir i = (if validateBlobID i then assoc_get (bd_files dir) (pathFor i) else None)"
  by (simp add: dir_content_def Open_def split: option.split)

lemma empty_dir_ok: "dir_ok empty_dir" "dir_content empty_dir i = None"
  by (simp_all add: dir_ok_def empty_dir_def dir_content_assoc)

lemma fan_out_not_tmp: "validateBlobID i \<Longrightarrow> hd (pathFor i) \<noteq> tmpDirName"
  by (auto simp: pathFor_def tmpDirName_def validateBlobID_def take_Suc_conv_app_nth numeral_2_eq_2)

lemma dir_walk:
  assumes "dir_ok dir"
  shows "i \<in> set (EachStoredID dir) \<longleftrightarrow> dir_content dir i \<noteq> None"
proof -
  have paths: "validateBlobID (last (fst f))" "fst f = pathFor (last (fst f))" if "f \<in> set (bd_files dir)" for f
    using assms that by (auto simp: dir_ok_def list_all_iff)
  have "hd (fst f) \<noteq> tmpDirName" if "f \<in> set (bd_files dir)" for f
    using fan_out_not_tmp [OF paths(1) [OF that]] paths(2) [OF that] by simp
  then have "filter (\<lambda>f. hd (fst f) \<noteq> tmpDirName) (bd_files dir) = bd_files dir" by (simp add: filter_id_conv)
  then have "i \<in> set (EachStoredID dir) \<longleftrightarrow> (\<exists>f \<in> set (bd_files dir). last (fst f) = i)"
    unfolding EachStoredID_def by (simp add: image_iff) metis
  also have "\<dots> \<longleftrightarrow> validateBlobID i \<and> pathFor i \<in> fst ` set (bd_files dir)"
    using paths by (metis image_iff last_pathFor)
  also have "\<dots> \<longleftrightarrow> dir_content dir i \<noteq> None"
    using assoc_get_None_iff [of "bd_files dir" "pathFor i"] by (auto simp: dir_content_assoc)
  finally show ?thesis .
qed

lemma list_all_assoc_put: "list_all (\<lambda>f. q (fst f)) m \<Longrightarrow> q k \<Longrightarrow> list_all (\<lambda>f. q (fst f)) (assoc_put m k v)"
  by (induction m k v rule: assoc_put.induct) auto

lemma dir_ok_write: "dir_ok dir \<Longrightarrow> validateBlobID k \<Longrightarrow> dir_ok (dir_write dir k b)"
  unfolding dir_ok_def dir_write_def by simp (rule list_all_assoc_put; simp)

interpretation blobs: file_store dir_content dir_write dir_del EachStoredID validateBlobID dir_ok
proof unfold_locales
  fix s :: blob_dir and k i b
  show "validateBlobID k \<Longrightarrow> dir_content (dir_write s k b) i = (if i = k then Some b else dir_content s i)"
    by (simp add: dir_content_assoc dir_write_def assoc_get_put)
  show "dir_content (dir_del s k) i = (if i = k then None else dir_content s i)"
    by (auto simp: dir_content_assoc dir_del_def Remove_def assoc_get_del)
  show "dir_ok s \<Longrightarrow> (i \<in> set (EachStoredID s)) = (dir_content s i \<noteq> None)" by (rule dir_walk)
  show "dir_ok s \<Longrightarrow> validateBlobID k \<Longrightarrow> dir_ok (dir_write s k b)"
    by (rule dir_ok_write)
  show "dir_ok s \<Longrightarrow> dir_ok (dir_del s k)"
    by (auto simp: dir_ok_def dir_del_def Remove_def assoc_del_def list_all_iff)
qed

section \<open>Put\<close>

lemma Put_Inr:
  assumes "Put P dir i src expected maxBytes = (Inr (n, digest), dir')"
  obtains content where "validateBlobID i" "n = int (length content)" "n \<le> maxBytes"
    "digest = hex_encode (sha256 P content)" "expected = [] \<or> equal_fold P digest expected"
    "dir' = dir_write dir i content" "read_limited (wrap64 (maxBytes + 1)) src = Inr content"
  using assms by (auto simp: Put_def dir_write_def Let_def split: if_splits sum.splits)

lemma Put_Inl: "Put P dir i src expected maxBytes = (Inl e, dir') \<Longrightarrow> dir' = dir"
  by (auto simp: Put_def Let_def split: if_splits sum.splits)

text \<open>Within the limit the whole source is stored.\<close>

lemma Put_stores:
  assumes "validateBlobID i" "0 \<le> maxBytes" "maxBytes < 2 ^ 63 - 1" "int (length body) \<le> maxBytes"
    "expected = [] \<or> equal_fold P (hex_encode (sha256 P body)) expected"
  shows "Put P dir i (body, EOF) expected maxBytes =
    (Inr (int (length body), hex_encode (sha256 P body)), dir_write dir i body)"
  using assms by (auto simp: Put_def wrap64_id read_limited_def dir_write_def Let_def)

lemma hex_encode_chars: "list_all lower_hex (hex_encode bs)"
proof -
  have "lower_hex (hex_digit n)" if "n < 16" for n
    using that by (auto simp: lower_hex_def hex_digit_def Let_def)
  moreover have "(of_char c :: nat) div 16 < 16" for c :: char
    by (simp add: div_less_iff_less_mult)
  ultimately show ?thesis
    by (induction bs) (auto simp: hex_encode_def Let_def)
qed

lemma NewBlobID_valid: "length rnd = 32 \<Longrightarrow> validateBlobID (NewBlobID rnd)"
  by (simp add: validateBlobID_def NewBlobID_def hex_encode_chars)

end
