(* ===== verification/Api_Blobs.thy ===== *)
theory Api_Blobs
  imports Api_Delivery Blobstore
begin

text \<open>
  Encrypted blobs (\<open>internal/api/blobs.go\<close>) and their cleanup (\<open>cmd/server/main.go\<close>). An upload is three
  steps that other requests can come between: the check of the recipients, the writing of the file,
  and the transaction that records it. \<open>addDays\<close> is \<open>now.AddDate(0, 0, n)\<close>; the bytes of
  \<open>crypto/rand\<close> are an argument.
\<close>

section \<open>Configuration and state\<close>

record blob_config =
  bcf_BlobsEnabled :: bool
  bcf_MaxBlobBytes :: int
  bcf_MaxBlobBytesTotal :: int
  bcf_MaxBlobBytesPerDevice :: int
  bcf_MaxBlobsPerDevice :: int
  bcf_MaxBlobRecipients :: int
  bcf_BlobRetentionDays :: int

record blob_state =
  bl_db :: database
  bl_dir :: blob_dir

datatype blobRecipientOutcome = BlobStored | BlobUnknownRecipient | BlobQuotaExceeded | BlobInternalError

fun blob_asError :: "blobRecipientOutcome \<Rightarrow> api_error" where
  "blob_asError BlobUnknownRecipient = (404, ''unknown_recipient'')"
| "blob_asError BlobQuotaExceeded = (429, ''blob_quota_exceeded'')"
| "blob_asError _ = internal_error"

datatype blob_response =
    UploadRefused api_error
  | UploadFailed "(string \<times> blobRecipientOutcome) list"
  | UploadDone nat string int time "(string \<times> blobRecipientOutcome) list"

section \<open>Reading the request\<close>

definition isHex :: "string \<Rightarrow> bool" where
  "isHex s = list_all (\<lambda>c. let n = (of_char c :: nat) in
     48 \<le> n \<and> n \<le> 57 \<or> 97 \<le> n \<and> n \<le> 102 \<or> 65 \<le> n \<and> n \<le> 70) s"

definition parseBlobDigest :: "platform \<Rightarrow> http_request \<Rightarrow> api_error + string" where
  "parseBlobDigest P r =
     (let given = header_get r HeaderBodyDigest; digest = trim_prefix ''sha256='' (trim_space given)
      in if given = [] then Inl bad_request
         else if length digest \<noteq> 64 \<or> \<not> isHex digest then Inl bad_request
         else Inr (string_lower P digest))"

text \<open>
  \<open>r.URL.Query()[key]\<close>: the pairs of the raw query between ampersands, those with a semicolon or a
  malformed escape left out.
\<close>

fun split_char :: "char \<Rightarrow> string \<Rightarrow> string list" where
  "split_char sep [] = [[]]"
| "split_char sep (c # s) = (if c = sep then [] # split_char sep s
     else case split_char sep s of [] \<Rightarrow> [[c]] | p # ps \<Rightarrow> (c # p) # ps)"

fun query_unescape :: "string \<Rightarrow> string option" where
  "query_unescape [] = Some []"
| "query_unescape (c # s) =
     (if c = CHR ''%'' then (case s of a # b # rest \<Rightarrow>
           (case (from_hex_char a, from_hex_char b) of
              (Some x, Some y) \<Rightarrow> map_option (\<lambda>t. char_of (x * 16 + y) # t) (query_unescape rest) | _ \<Rightarrow> None)
         | _ \<Rightarrow> None)
      else map_option (\<lambda>t. (if c = CHR ''+'' then CHR '' '' else c) # t) (query_unescape s))"

definition query_values :: "string \<Rightarrow> string \<Rightarrow> string list" where
  "query_values rawQuery key = concat (map (\<lambda>piece.
     if CHR '';'' \<in> set piece \<or> piece = [] then []
     else case (query_unescape (fst (cut (CHR ''='') piece)), query_unescape (snd (cut (CHR ''='') piece))) of
        (Some k, Some v) \<Rightarrow> if k = key then [v] else [] | _ \<Rightarrow> []) (split_char (CHR ''&'') rawQuery))"

fun collect_recipients :: "string list \<Rightarrow> string list \<Rightarrow> string list option" where
  "collect_recipients [] ids = Some ids"
| "collect_recipients (v # vs) ids =
     (if v = [] then None
      else if v \<in> set ids then collect_recipients vs ids
      else collect_recipients vs (ids @ [v]))"

definition parseBlobRecipients :: "blob_config \<Rightarrow> http_request \<Rightarrow> api_error + string list" where
  "parseBlobRecipients cfg r =
     (case collect_recipients (query_values (RawQuery r) ''recipient_device_id'') [] of None \<Rightarrow> Inl bad_request
      | Some ids \<Rightarrow> if ids = [] then Inl bad_request
          else if int (length ids) > bcf_MaxBlobRecipients cfg then Inl (400, ''too_many_recipients'')
          else Inr ids)"

section \<open>Checking the recipients\<close>

definition checkBlobRecipient :: "blob_config \<Rightarrow> database \<Rightarrow> string \<Rightarrow> blobRecipientOutcome \<times> int" where
  "checkBlobRecipient cfg db deviceID =
     (case GetDevice db deviceID of
        Inl e \<Rightarrow> (if e = ErrNotFound then BlobUnknownRecipient else BlobInternalError, 0)
      | Inr device \<Rightarrow> if dev_Status device \<noteq> DeviceStatusActive then (BlobUnknownRecipient, 0)
          else case BlobUsage db deviceID of (n, totalBytes) \<Rightarrow>
            if int n \<ge> bcf_MaxBlobsPerDevice cfg \<or> totalBytes \<ge> bcf_MaxBlobBytesPerDevice cfg
            then (BlobQuotaExceeded, 0) else (BlobStored, bcf_MaxBlobBytesPerDevice cfg - totalBytes))"

definition writeBlobUploadFailure :: "string list \<Rightarrow> blobRecipientOutcome list \<Rightarrow> blob_response" where
  "writeBlobUploadFailure recipients outcomes =
     (if length recipients = 1 then UploadRefused (blob_asError (hd outcomes))
      else UploadFailed (zip recipients outcomes))"

text \<open>What is known about an upload before a byte of its body is read.\<close>

record upload_plan =
  pl_Digest :: string
  pl_Recipients :: "string list"
  pl_Outcomes :: "blobRecipientOutcome list"
  pl_MaxBytes :: int

definition pl_Candidates :: "upload_plan \<Rightarrow> string list" where
  "pl_Candidates plan = map fst (filter (\<lambda>x. snd x = BlobStored) (zip (pl_Recipients plan) (pl_Outcomes plan)))"

definition plan_upload :: "platform \<Rightarrow> blob_config \<Rightarrow> database \<Rightarrow> http_request \<Rightarrow> blob_response + upload_plan" where
  "plan_upload P cfg db r =
     (if \<not> bcf_BlobsEnabled cfg then Inl (UploadRefused (404, ''not_found''))
      else if bcf_MaxBlobBytesTotal cfg > 0 \<and> TotalBlobBytes db \<ge> bcf_MaxBlobBytesTotal cfg
      then Inl (UploadRefused (507, ''storage_full''))
      else case parseBlobDigest P r of Inl e \<Rightarrow> Inl (UploadRefused e)
      | Inr digest \<Rightarrow>
     (case parseBlobRecipients cfg r of Inl e \<Rightarrow> Inl (UploadRefused e)
      | Inr recipients \<Rightarrow>
     (let checks = map (checkBlobRecipient cfg db) recipients;
          accepted = filter (\<lambda>x. fst x = BlobStored) checks;
          maxHeadroom = foldl max 0 (map snd accepted)
      in if accepted = [] then Inl (writeBlobUploadFailure recipients (map fst checks))
         else Inr \<lparr>pl_Digest = digest, pl_Recipients = recipients, pl_Outcomes = map fst checks,
                   pl_MaxBytes = (if maxHeadroom < bcf_MaxBlobBytes cfg then maxHeadroom else bcf_MaxBlobBytes cfg)\<rparr>)))"

definition put_refusal :: "put_error \<Rightarrow> api_error" where
  "put_refusal e = (case e of WritingFailed TooLarge \<Rightarrow> (413, ''payload_too_large'')
     | ExceedsLimit \<Rightarrow> (413, ''payload_too_large'') | DigestMismatch \<Rightarrow> (400, ''digest_mismatch'') | _ \<Rightarrow> internal_error)"

section \<open>Recording an upload\<close>

datatype record_error = BlobStorageFull | RecordFailed store_error

definition recordBlobWithQuota :: "blob_config \<Rightarrow> database \<Rightarrow> Blob \<Rightarrow> string list
    \<Rightarrow> record_error + (string list \<times> string list \<times> database)" where
  "recordBlobWithQuota cfg db blob candidates =
     (if bcf_MaxBlobBytesTotal cfg > 0 \<and> TotalBlobBytes db + blob_SizeBytes blob > bcf_MaxBlobBytesTotal cfg
      then Inl BlobStorageFull
      else case CreateBlobWithQuota db blob candidates (nat (bcf_MaxBlobsPerDevice cfg)) (bcf_MaxBlobBytesPerDevice cfg) of
        Inl e \<Rightarrow> Inl (RecordFailed e) | Inr res \<Rightarrow> Inr res)"

definition final_outcomes :: "upload_plan \<Rightarrow> string list \<Rightarrow> blobRecipientOutcome list" where
  "final_outcomes plan quotaExceeded = map (\<lambda>x. if snd x = BlobStored \<and> fst x \<in> set quotaExceeded
     then BlobQuotaExceeded else snd x) (zip (pl_Recipients plan) (pl_Outcomes plan))"

definition record_upload :: "blob_config \<Rightarrow> (time \<Rightarrow> int \<Rightarrow> time) \<Rightarrow> time \<Rightarrow> upload_plan \<Rightarrow> string \<Rightarrow> int \<Rightarrow> blob_state
    \<Rightarrow> blob_response \<times> blob_state" where
  "record_upload cfg addDays now plan blobID written s =
     (let expiresAt = addDays now (bcf_BlobRetentionDays cfg);
          dropped = s\<lparr>bl_dir := snd (Remove (bl_dir s) blobID)\<rparr>
      in case recordBlobWithQuota cfg (bl_db s) \<lparr>blob_BlobID = blobID, blob_SizeBytes = written, blob_CreatedAt = now,
             blob_ExpiresAt = expiresAt\<rparr> (pl_Candidates plan) of
        Inl BlobStorageFull \<Rightarrow> (UploadRefused (507, ''storage_full''), dropped)
      | Inl (RecordFailed _) \<Rightarrow> (UploadRefused internal_error, dropped)
      | Inr (stored, quotaExceeded, db') \<Rightarrow>
          let outcomes = final_outcomes plan quotaExceeded in
          if stored = [] then (writeBlobUploadFailure (pl_Recipients plan) outcomes, dropped\<lparr>bl_db := db'\<rparr>)
          else (UploadDone (if length (pl_Recipients plan) = 1 then 201 else 200) blobID written expiresAt
                  (zip (pl_Recipients plan) outcomes), s\<lparr>bl_db := db'\<rparr>))"

definition storeUploadedBlob :: "platform \<Rightarrow> blob_config \<Rightarrow> (time \<Rightarrow> int \<Rightarrow> time) \<Rightarrow> time \<Rightarrow> bytes \<Rightarrow> http_request \<Rightarrow> reader
    \<Rightarrow> blob_state \<Rightarrow> blob_response \<times> blob_state" where
  "storeUploadedBlob P cfg addDays now rnd r body s =
     (case plan_upload P cfg (bl_db s) r of Inl resp \<Rightarrow> (resp, s)
      | Inr plan \<Rightarrow>
     (case Put P (bl_dir s) (NewBlobID rnd) body (pl_Digest plan) (pl_MaxBytes plan) of
        (Inl e, dir) \<Rightarrow> (UploadRefused (put_refusal e), s\<lparr>bl_dir := dir\<rparr>)
      | (Inr (written, _), dir) \<Rightarrow> record_upload cfg addDays now plan (NewBlobID rnd) written (s\<lparr>bl_dir := dir\<rparr>)))"

section \<open>The routes\<close>

definition handleUploadBlob :: "platform \<Rightarrow> blob_config \<Rightarrow> (time \<Rightarrow> int \<Rightarrow> time) \<Rightarrow> time \<Rightarrow> bytes \<Rightarrow> http_request \<Rightarrow> reader
    \<Rightarrow> Identity option \<Rightarrow> blob_state \<Rightarrow> blob_response \<times> blob_state" where
  "handleUploadBlob P cfg addDays now rnd r body identity s =
     (case identity of None \<Rightarrow> (UploadRefused internal_error, s)
      | Some _ \<Rightarrow> storeUploadedBlob P cfg addDays now rnd r body s)"

definition header_claim :: "http_request \<Rightarrow> string \<Rightarrow> federatedSenderClaim" where
  "header_claim r digest = \<lparr>fc_AccountID = header_get r ''Freizone-Sender-Account-Id'',
     fc_RootPubKey = header_get r ''Freizone-Sender-Root-Pub-Key'',
     fc_DeviceCert = \<lparr>fd_DeviceID = header_get r ''Freizone-Sender-Device-Id'',
       fd_DevicePubKey = header_get r ''Freizone-Sender-Device-Pub-Key'',
       fd_IssuedAt = header_get r ''Freizone-Sender-Cert-Issued-At'',
       fd_Signature = header_get r ''Freizone-Sender-Cert-Signature''\<rparr>,
     fc_RequestBody = [], fc_BodyDigest = digest\<rparr>"

definition handleUploadFederatedBlob :: "platform \<Rightarrow> blob_config \<Rightarrow> (time \<Rightarrow> int \<Rightarrow> time) \<Rightarrow> time \<Rightarrow> bytes \<Rightarrow> http_request
    \<Rightarrow> reader \<Rightarrow> blob_state \<Rightarrow> blob_response \<times> blob_state" where
  "handleUploadFederatedBlob P cfg addDays now rnd r body s =
     (case federation_open (bl_db s) of Inl e \<Rightarrow> (UploadRefused e, s)
      | Inr _ \<Rightarrow>
     (case parseBlobDigest P r of Inl e \<Rightarrow> (UploadRefused e, s)
      | Inr digest \<Rightarrow>
     (case verifyFederatedSender P now r (header_claim r digest) (bl_db s) of
        (Inl e, db') \<Rightarrow> (UploadRefused e, s\<lparr>bl_db := db'\<rparr>)
      | (Inr _, db') \<Rightarrow> storeUploadedBlob P cfg addDays now rnd r body (s\<lparr>bl_db := db'\<rparr>))))"

definition handleDownloadBlob :: "Identity \<Rightarrow> string \<Rightarrow> blob_state \<Rightarrow> api_error + bytes" where
  "handleDownloadBlob identity blobID s =
     (case GetBlobForDevice (bl_db s) blobID (id_DeviceID identity) of
        Inl e \<Rightarrow> Inl (if e = ErrNotFound then (404, ''not_found'') else internal_error)
      | Inr _ \<Rightarrow> (case Open (bl_dir s) blobID of
          Inl e \<Rightarrow> Inl (if e = FileNotFound then (404, ''not_found'') else internal_error)
        | Inr content \<Rightarrow> Inr content))"

definition deleteBlobClaim :: "database \<Rightarrow> string \<Rightarrow> string \<Rightarrow> store_error + (bool \<times> database)" where
  "deleteBlobClaim db blobID deviceID = DeleteBlobForDevice db blobID deviceID"

definition handleDeleteBlob :: "Identity \<Rightarrow> string \<Rightarrow> blob_state \<Rightarrow> (api_error + unit) \<times> blob_state" where
  "handleDeleteBlob identity blobID s =
     (case deleteBlobClaim (bl_db s) blobID (id_DeviceID identity) of
        Inl e \<Rightarrow> (Inl (if e = ErrNotFound then (404, ''not_found'') else internal_error), s)
      | Inr (unreferenced, db') \<Rightarrow>
          (Inr (), s\<lparr>bl_db := db', bl_dir := (if unreferenced then snd (Remove (bl_dir s) blobID) else bl_dir s)\<rparr>))"

section \<open>Cleanup\<close>

definition blobCleanupBatchSize :: nat where "blobCleanupBatchSize = 500"
definition blobTmpMaxAge :: duration where "blobTmpMaxAge = 3600 * second"
definition blobCleanupInterval :: duration where "blobCleanupInterval = 3600 * second"
definition blobOrphanSweepInterval :: duration where "blobOrphanSweepInterval = 24 * 3600 * second"

fun retire_blobs :: "Blob list \<Rightarrow> blob_state \<Rightarrow> blob_state" where
  "retire_blobs [] s = s"
| "retire_blobs (b # bs) s =
     (case Remove (bl_dir s) (blob_BlobID b) of
        (None, _) \<Rightarrow> retire_blobs bs s
      | (Some _, dir) \<Rightarrow> retire_blobs bs (s\<lparr>bl_dir := dir, bl_db := DeleteBlobByID (bl_db s) (blob_BlobID b)\<rparr>))"

definition sweepOrphanBlobs :: "blob_state \<Rightarrow> blob_state" where
  "sweepOrphanBlobs s =
     (let orphans = filter (\<lambda>i. \<not> BlobIDExists (bl_db s) i) (EachStoredID (bl_dir s))
      in s\<lparr>bl_dir := fold (\<lambda>i dir. snd (Remove dir i)) orphans (bl_dir s)\<rparr>)"

definition retire_expired :: "time \<Rightarrow> blob_state \<Rightarrow> blob_state" where
  "retire_expired now s = retire_blobs (ListExpiredBlobs (bl_db s) now blobCleanupBatchSize) s"

definition retire_unreferenced :: "blob_state \<Rightarrow> blob_state" where
  "retire_unreferenced s = retire_blobs (ListUnreferencedBlobs (bl_db s) blobCleanupBatchSize) s"

definition blob_tick :: "time \<Rightarrow> duration \<times> blob_state \<Rightarrow> duration \<times> blob_state" where
  "blob_tick now x =
     (case x of (sinceOrphanSweep, s) \<Rightarrow>
        let s1 = retire_unreferenced (retire_expired now s);
            s2 = s1\<lparr>bl_dir := snd (SweepTmp (bl_dir s1) blobTmpMaxAge now)\<rparr>;
            since = sinceOrphanSweep + blobCleanupInterval
        in if since \<ge> blobOrphanSweepInterval then (0, sweepOrphanBlobs s2) else (since, s2))"

end
