(* ===== verification/Blob_System.thy ===== *)
theory Blob_System
  imports Api_Blobs
begin

text \<open>
  Blob uploads, deletions and cleanup as they run next to each other: every interleaving of their
  steps keeps the quotas, and, as long as the sweep for orphans does not run while an upload stands
  between its file and its row, every blob row has its file. That the proviso is needed is shown by a
  run in which it fails.
\<close>

section \<open>Quotas of the tables\<close>

definition within_quota :: "blob_config \<Rightarrow> database \<Rightarrow> bool" where
  "within_quota cfg db \<longleftrightarrow> (\<forall>d. fst (BlobUsage db d) \<le> nat (bcf_MaxBlobsPerDevice cfg)
       \<and> snd (BlobUsage db d) \<le> max 0 (bcf_MaxBlobBytesPerDevice cfg))
     \<and> (0 < bcf_MaxBlobBytesTotal cfg \<longrightarrow> TotalBlobBytes db \<le> bcf_MaxBlobBytesTotal cfg)"

lemma within_quotaD:
  assumes "within_quota cfg db"
  shows "fst (BlobUsage db d) \<le> nat (bcf_MaxBlobsPerDevice cfg)" "snd (BlobUsage db d) \<le> max 0 (bcf_MaxBlobBytesPerDevice cfg)"
    "0 < bcf_MaxBlobBytesTotal cfg \<Longrightarrow> TotalBlobBytes db \<le> bcf_MaxBlobBytesTotal cfg"
  using assms by (simp_all add: within_quota_def)

definition sized :: "database \<Rightarrow> bool" where
  "sized db \<longleftrightarrow> (\<forall>b \<in> set (db_blobs db). 0 \<le> blob_SizeBytes b)"

definition blob_of :: "database \<Rightarrow> string \<times> string \<Rightarrow> Blob list" where
  "blob_of db r = filter (\<lambda>b. blob_BlobID b = fst r) (db_blobs db)"

lemma sum_list_concat_map: "sum_list (map f (concat xss)) = sum_list (map (\<lambda>xs. sum_list (map f xs)) xss)"
  by (induction xss) auto

lemma sum_list_filter_le:
  fixes f :: "'a \<Rightarrow> 'b :: ordered_comm_monoid_add"
  assumes "\<And>x. x \<in> set xs \<Longrightarrow> 0 \<le> f x"
  shows "sum_list (map f (filter p xs)) \<le> sum_list (map f xs)"
  using assms by (induction xs) (auto intro: add_mono add_increasing)

lemma BlobUsage_sums:
  "fst (BlobUsage db d) = sum_list (map (\<lambda>r. length (blob_of db r)) (filter (\<lambda>r. snd r = d) (db_blob_recipients db)))"
  "snd (BlobUsage db d) = sum_list (map (\<lambda>r. sum_list (map blob_SizeBytes (blob_of db r)))
     (filter (\<lambda>r. snd r = d) (db_blob_recipients db)))"
  by (simp_all add: BlobUsage_def Let_def device_blobs_def blob_of_def length_concat sum_list_concat_map comp_def)

lemma blob_of_nonneg: "sized db \<Longrightarrow> 0 \<le> sum_list (map blob_SizeBytes (blob_of db r))"
  by (rule sum_list_nonneg) (auto simp: sized_def blob_of_def)

text \<open>Rows and claims that go take their share of the usage along.\<close>

lemma quota_shrink:
  assumes "within_quota cfg db" "sized db"
    and blobs: "db_blobs db' = filter q (db_blobs db)" and claims: "db_blob_recipients db' = filter p (db_blob_recipients db)"
    and kept: "\<And>b r. b \<in> set (db_blobs db) \<Longrightarrow> r \<in> set (db_blob_recipients db') \<Longrightarrow> blob_BlobID b = fst r \<Longrightarrow> q b"
  shows "within_quota cfg db' \<and> sized db'"
proof -
  have same: "blob_of db' r = blob_of db r" if "r \<in> set (db_blob_recipients db')" for r
    using kept [OF _ that] unfolding blob_of_def blobs filter_filter by (intro filter_cong) auto
  have flt: "filter (\<lambda>r. snd r = d) (db_blob_recipients db') = filter p (filter (\<lambda>r. snd r = d) (db_blob_recipients db))" for d
    by (simp add: claims conj_commute)
  have shares: "map (\<lambda>r. h (blob_of db' r)) (filter (\<lambda>r. snd r = d) (db_blob_recipients db'))
      = map (\<lambda>r. h (blob_of db r)) (filter p (filter (\<lambda>r. snd r = d) (db_blob_recipients db)))" for h :: "Blob list \<Rightarrow> 'c" and d
    unfolding flt [symmetric] by (rule map_cong) (simp_all add: same)
  have "fst (BlobUsage db' d) \<le> fst (BlobUsage db d)" for d
    unfolding BlobUsage_sums(1) shares [of length] by (rule sum_list_filter_le) simp
  moreover have "snd (BlobUsage db' d) \<le> snd (BlobUsage db d)" for d
    unfolding BlobUsage_sums(2) shares [of "\<lambda>bs. sum_list (map blob_SizeBytes bs)"]
    by (rule sum_list_filter_le) (rule blob_of_nonneg [OF assms(2)])
  moreover have "TotalBlobBytes db' \<le> TotalBlobBytes db"
    unfolding TotalBlobBytes_def blobs by (rule sum_list_filter_le) (use assms(2) in \<open>auto simp: sized_def\<close>)
  moreover have "sized db'" using assms(2) by (auto simp: sized_def blobs)
  ultimately show ?thesis using assms(1) unfolding within_quota_def by (meson order_trans)
qed

text \<open>A new row adds its size once for every device it is recorded for.\<close>

lemma usage_add:
  assumes "i \<notin> blob_BlobID ` set (db_blobs db)" "\<forall>r \<in> set (db_blob_recipients db). fst r \<noteq> i" "distinct ds"
    and b: "blob_BlobID b = i"
    and db': "db_blobs db' = db_blobs db @ [b]" "db_blob_recipients db' = db_blob_recipients db @ map (Pair i) ds"
  shows "BlobUsage db' d = (if d \<in> set ds then (Suc (fst (BlobUsage db d)), snd (BlobUsage db d) + blob_SizeBytes b)
    else BlobUsage db d)"
proof -
  let ?old = "filter (\<lambda>r. snd r = d) (db_blob_recipients db)"
  have none: "filter (\<lambda>x. blob_BlobID x = i) (db_blobs db) = []" using assms(1) by (auto simp: filter_empty_conv)
  have new: "filter (\<lambda>r. snd r = d) (map (Pair i) ds) = (if d \<in> set ds then [(i, d)] else [])"
    using assms(3) by (induction ds) (auto simp: filter_empty_conv)
  have "device_blobs db' d = concat (map (\<lambda>r. filter (\<lambda>x. blob_BlobID x = fst r) (db_blobs db')) ?old)
      @ (if d \<in> set ds then [b] else [])"
    using none b by (simp add: device_blobs_def db' new)
  also have "map (\<lambda>r. filter (\<lambda>x. blob_BlobID x = fst r) (db_blobs db')) ?old
      = map (\<lambda>r. filter (\<lambda>x. blob_BlobID x = fst r) (db_blobs db)) ?old"
    using assms(2) b by (intro map_cong) (auto simp: db')
  finally have "device_blobs db' d = device_blobs db d @ (if d \<in> set ds then [b] else [])"
    by (simp add: device_blobs_def)
  then show ?thesis by (simp add: BlobUsage_def Let_def)
qed

lemma recordBlobWithQuota_Inr:
  assumes "recordBlobWithQuota cfg db b candidates = Inr (stored, exceeded, db')"
  obtains "stored = []" "db' = db" | "stored \<noteq> []" "CreateBlob db b stored = Inr db'"
    "0 < bcf_MaxBlobBytesTotal cfg \<Longrightarrow> TotalBlobBytes db + blob_SizeBytes b \<le> bcf_MaxBlobBytesTotal cfg"
    "\<And>d. d \<in> set stored \<Longrightarrow> blob_fits db b (nat (bcf_MaxBlobsPerDevice cfg)) (bcf_MaxBlobBytesPerDevice cfg) d"
  using assms that by (auto simp: recordBlobWithQuota_def CreateBlobWithQuota_def Let_def split: if_splits sum.splits)

lemma CreateBlob_rows:
  assumes "db_ok db" "CreateBlob db b ds = Inr db'"
  obtains b' where "blob_BlobID b' = blob_BlobID b" "blob_SizeBytes b' = blob_SizeBytes b"
    "db_blobs db' = db_blobs db @ [b']" "db_blob_recipients db' = db_blob_recipients db @ map (Pair (blob_BlobID b)) ds"
    "blob_BlobID b \<notin> blob_BlobID ` set (db_blobs db)" "distinct ds"
    "\<forall>r \<in> set (db_blob_recipients db). fst r \<noteq> blob_BlobID b"
proof -
  have "\<forall>r \<in> set (db_blob_recipients db). fst r \<in> blob_BlobID ` set (db_blobs db)"
    using assms(1) by (auto simp: db_ok_def blobs_ok_def)
  with CreateBlob_Inr [OF assms(2)] show thesis by (intro that) auto
qed

lemma quota_add:
  assumes "within_quota cfg db" "sized db" "db_ok db" "0 \<le> blob_SizeBytes b"
    and "recordBlobWithQuota cfg db b candidates = Inr (stored, exceeded, db')"
  shows "within_quota cfg db' \<and> sized db'"
  using assms(5)
proof (rule recordBlobWithQuota_Inr)
  assume cr: "CreateBlob db b stored = Inr db'"
    and total: "0 < bcf_MaxBlobBytesTotal cfg \<Longrightarrow> TotalBlobBytes db + blob_SizeBytes b \<le> bcf_MaxBlobBytesTotal cfg"
    and fits: "\<And>d. d \<in> set stored \<Longrightarrow> blob_fits db b (nat (bcf_MaxBlobsPerDevice cfg)) (bcf_MaxBlobBytesPerDevice cfg) d"
  obtain b' where b': "blob_BlobID b' = blob_BlobID b" "blob_SizeBytes b' = blob_SizeBytes b"
      "db_blobs db' = db_blobs db @ [b']" "db_blob_recipients db' = db_blob_recipients db @ map (Pair (blob_BlobID b)) stored"
      "blob_BlobID b \<notin> blob_BlobID ` set (db_blobs db)" "distinct stored"
      "\<forall>r \<in> set (db_blob_recipients db). fst r \<noteq> blob_BlobID b"
    using CreateBlob_rows [OF assms(3) cr] .
  have "fst (BlobUsage db' d) \<le> nat (bcf_MaxBlobsPerDevice cfg)
      \<and> snd (BlobUsage db' d) \<le> max 0 (bcf_MaxBlobBytesPerDevice cfg)" for d
    using usage_add [OF b'(5,7,6,1,3,4), of d] fits [of d] within_quotaD(1,2) [OF assms(1), of d]
    by (cases "BlobUsage db d") (auto simp: blob_fits_def b'(2))
  moreover have "TotalBlobBytes db' = TotalBlobBytes db + blob_SizeBytes b" by (simp add: TotalBlobBytes_def b')
  ultimately show ?thesis using total assms(2,4) b' unfolding within_quota_def sized_def by auto
qed (use assms in simp)

section \<open>The system\<close>

text \<open>
  The requests under way, between their steps: an upload whose recipients are checked, one whose file
  is written, a deletion whose file is still to be unlinked. Ids come from \<open>crypto/rand\<close>; that 32 random
  bytes are not drawn twice is part of the rule that draws them. \<open>quiet\<close> asks that the orphan sweep
  runs only while no upload stands between its file and its row.
\<close>

datatype blob_task = Planned upload_plan string | Written upload_plan string int | Unlinking string

fun task_id :: "blob_task \<Rightarrow> string" where
  "task_id (Planned plan i) = i"
| "task_id (Written plan i n) = i"
| "task_id (Unlinking i) = i"

fun is_written :: "blob_task \<Rightarrow> bool" where
  "is_written (Written plan i n) = True"
| "is_written t = False"

type_synonym blob_sys = "blob_state \<times> blob_task list \<times> string set"

inductive blob_system :: "bool \<Rightarrow> platform \<Rightarrow> blob_config \<Rightarrow> (time \<Rightarrow> int \<Rightarrow> time) \<Rightarrow> blob_sys \<Rightarrow> blob_sys \<Rightarrow> bool"
  for quiet P cfg addDays where
  upload_planned: "plan_upload P cfg (bl_db s) r = Inr plan \<Longrightarrow> length rnd = 32 \<Longrightarrow> NewBlobID rnd \<notin> drawn
    \<Longrightarrow> blob_system quiet P cfg addDays (s, ts, drawn)
          (s, Planned plan (NewBlobID rnd) # ts, insert (NewBlobID rnd) drawn)"
| upload_written: "Put P (bl_dir s) i body (pl_Digest plan) (pl_MaxBytes plan) = (Inr (n, digest), dir)
    \<Longrightarrow> blob_system quiet P cfg addDays (s, xs @ Planned plan i # ys, drawn)
          (s\<lparr>bl_dir := dir\<rparr>, xs @ Written plan i n # ys, drawn)"
| upload_recorded: "record_upload cfg addDays now plan i n s = (resp, s')
    \<Longrightarrow> blob_system quiet P cfg addDays (s, xs @ Written plan i n # ys, drawn) (s', xs @ ys, drawn)"
| task_lost: "blob_system quiet P cfg addDays (s, xs @ t # ys, drawn) (s, xs @ ys, drawn)"
| claim_deleted: "deleteBlobClaim (bl_db s) i d = Inr (unreferenced, db')
    \<Longrightarrow> blob_system quiet P cfg addDays (s, ts, drawn)
          (s\<lparr>bl_db := db'\<rparr>, (if unreferenced then Unlinking i # ts else ts), drawn)"
| file_unlinked: "blob_system quiet P cfg addDays (s, xs @ Unlinking i # ys, drawn)
    (s\<lparr>bl_dir := snd (Remove (bl_dir s) i)\<rparr>, xs @ ys, drawn)"
| expired: "blob_system quiet P cfg addDays (s, ts, drawn) (retire_expired now s, ts, drawn)"
| unreferenced: "blob_system quiet P cfg addDays (s, ts, drawn) (retire_unreferenced s, ts, drawn)"
| temporary: "blob_system quiet P cfg addDays (s, ts, drawn)
    (s\<lparr>bl_dir := snd (SweepTmp (bl_dir s) age now)\<rparr>, ts, drawn)"
| killed: "blob_system quiet P cfg addDays (s, ts, drawn) (s\<lparr>bl_dir := put_killed (bl_dir s) name now\<rparr>, ts, drawn)"
| orphans: "quiet \<longrightarrow> \<not> list_ex is_written ts \<Longrightarrow> blob_system quiet P cfg addDays (s, ts, drawn) (sweepOrphanBlobs s, ts, drawn)"
| other_request: "blobs_left (bl_db s) db' \<Longrightarrow> db_ok db'
    \<Longrightarrow> blob_system quiet P cfg addDays (s, ts, drawn) (s\<lparr>bl_db := db'\<rparr>, ts, drawn)"

text \<open>Every account request is such an other request.\<close>

lemma account_request_step:
  "served (bl_db s) \<Longrightarrow> blob_system quiet P cfg addDays (s, ts, drawn)
     (s\<lparr>bl_db := account_step P' addDays' m x (bl_db s)\<rparr>, ts, drawn)"
  using account_step_served [of "bl_db s" P' addDays' m x]
  by (intro other_request claims.account_step_frame) (simp add: served_def)

section \<open>Its invariant\<close>

definition file_of :: "blob_dir \<Rightarrow> string \<Rightarrow> int \<Rightarrow> bool" where
  "file_of dir i n \<longleftrightarrow> (\<exists>content. dir_content dir i = Some content \<and> int (length content) = n)"

fun task_ok :: "bool \<Rightarrow> blob_dir \<Rightarrow> blob_task \<Rightarrow> bool" where
  "task_ok quiet dir (Written plan i n) \<longleftrightarrow> 0 \<le> n \<and> (quiet \<longrightarrow> file_of dir i n)"
| "task_ok quiet dir t \<longleftrightarrow> True"

definition blob_sys_ok :: "bool \<Rightarrow> blob_config \<Rightarrow> blob_sys \<Rightarrow> bool" where
  "blob_sys_ok quiet cfg x \<longleftrightarrow> (case x of (s, ts, drawn) \<Rightarrow>
     db_ok (bl_db s) \<and> within_quota cfg (bl_db s) \<and> sized (bl_db s) \<and> dir_ok (bl_dir s)
     \<and> blob_BlobID ` set (db_blobs (bl_db s)) \<subseteq> drawn \<and> task_id ` set ts \<subseteq> drawn
     \<and> blob_BlobID ` set (db_blobs (bl_db s)) \<inter> task_id ` set ts = {} \<and> distinct (map task_id ts)
     \<and> (\<forall>t \<in> set ts. task_ok quiet (bl_dir s) t)
     \<and> (quiet \<longrightarrow> (\<forall>b \<in> set (db_blobs (bl_db s)). file_of (bl_dir s) (blob_BlobID b) (blob_SizeBytes b))))"

lemma blob_sys_okD:
  assumes "blob_sys_ok quiet cfg (s, ts, drawn)"
  shows "db_ok (bl_db s)" "within_quota cfg (bl_db s)" "sized (bl_db s)" "dir_ok (bl_dir s)"
    "blob_BlobID ` set (db_blobs (bl_db s)) \<subseteq> drawn" "task_id ` set ts \<subseteq> drawn"
    "blob_BlobID ` set (db_blobs (bl_db s)) \<inter> task_id ` set ts = {}" "distinct (map task_id ts)"
    "t \<in> set ts \<Longrightarrow> task_ok quiet (bl_dir s) t"
    "quiet \<Longrightarrow> b \<in> set (db_blobs (bl_db s)) \<Longrightarrow> file_of (bl_dir s) (blob_BlobID b) (blob_SizeBytes b)"
  using assms by (auto simp: blob_sys_ok_def)

lemma task_gone: "blob_sys_ok quiet cfg (s, xs @ t # ys, drawn) \<Longrightarrow> blob_sys_ok quiet cfg (s, xs @ ys, drawn)"
  by (auto simp: blob_sys_ok_def)

lemma rows_gone:
  assumes "blob_sys_ok quiet cfg (s, ts, drawn)" "db_ok db'"
    and "db_blobs db' = filter q (db_blobs (bl_db s))" "db_blob_recipients db' = filter p (db_blob_recipients (bl_db s))"
    and "\<And>b r. b \<in> set (db_blobs (bl_db s)) \<Longrightarrow> r \<in> set (db_blob_recipients db') \<Longrightarrow> blob_BlobID b = fst r \<Longrightarrow> q b"
  shows "blob_sys_ok quiet cfg (s\<lparr>bl_db := db'\<rparr>, ts, drawn)"
  using assms(1,2) quota_shrink [OF blob_sys_okD(2,3) [OF assms(1)] assms(3-5)] assms(3)
  by (auto simp: blob_sys_ok_def)

lemma task_ok_cong: "(\<And>n. file_of dir (task_id t) n \<Longrightarrow> file_of dir' (task_id t) n) \<Longrightarrow> task_ok quiet dir t \<Longrightarrow> task_ok quiet dir' t"
  by (cases t) auto

lemma files_changed:
  assumes "blob_sys_ok quiet cfg (s, ts, drawn)" "dir_ok dir'"
    and rows: "\<And>i n. i \<in> blob_BlobID ` set (db_blobs (bl_db s)) \<Longrightarrow> file_of (bl_dir s) i n \<Longrightarrow> file_of dir' i n"
    and tasks: "\<And>t n. quiet \<Longrightarrow> t \<in> set ts \<Longrightarrow> is_written t \<Longrightarrow> file_of (bl_dir s) (task_id t) n \<Longrightarrow> file_of dir' (task_id t) n"
  shows "blob_sys_ok quiet cfg (s\<lparr>bl_dir := dir'\<rparr>, ts, drawn)"
proof -
  have "task_ok quiet dir' t" if "t \<in> set ts" for t
    using blob_sys_okD(9) [OF assms(1) that] tasks [OF _ that] by (cases t) auto
  with assms(1,2) rows show ?thesis by (auto simp: blob_sys_ok_def)
qed

lemma files_same:
  assumes "blob_sys_ok quiet cfg (s, ts, drawn)" "bd_files dir' = bd_files (bl_dir s)"
  shows "blob_sys_ok quiet cfg (s\<lparr>bl_dir := dir'\<rparr>, ts, drawn)"
proof -
  have "file_of dir' = file_of (bl_dir s)" by (intro ext) (simp add: file_of_def dir_content_assoc assms(2))
  then show ?thesis using blob_sys_okD(4) [OF assms(1)] assms(2) by (intro files_changed [OF assms(1)]) (simp_all add: dir_ok_def)
qed

lemma file_of_del: "file_of (snd (Remove dir k)) i n \<longleftrightarrow> i \<noteq> k \<and> file_of dir i n"
  using blobs.content_del [of dir k i] by (auto simp: file_of_def dir_del_def)

lemma dir_ok_del: "dir_ok dir \<Longrightarrow> dir_ok (snd (Remove dir k))"
  using blobs.inv_del [of dir k] by (simp add: dir_del_def)

lemma file_removed:
  assumes "blob_sys_ok quiet cfg (s, ts, drawn)" "i \<notin> blob_BlobID ` set (db_blobs (bl_db s))" "i \<notin> task_id ` set ts"
  shows "blob_sys_ok quiet cfg (s\<lparr>bl_dir := snd (Remove (bl_dir s) i)\<rparr>, ts, drawn)"
  using assms(2,3) by (intro files_changed [OF assms(1)] dir_ok_del blob_sys_okD(4) [OF assms(1)]) (auto simp: file_of_del)

lemma row_deleted:
  assumes "blob_sys_ok quiet cfg (s, ts, drawn)"
  shows "blob_sys_ok quiet cfg (s\<lparr>bl_db := DeleteBlobByID (bl_db s) i\<rparr>, ts, drawn)"
  by (rule rows_gone [OF assms DeleteBlobByID_ok [OF blob_sys_okD(1) [OF assms]],
        where q = "\<lambda>b. blob_BlobID b \<noteq> i" and p = "\<lambda>r. fst r \<noteq> i"])
    (auto simp: DeleteBlobByID_def row_delete_def)

lemma blob_retired:
  assumes "blob_sys_ok quiet cfg (s, ts, drawn)" "i \<notin> task_id ` set ts"
  shows "blob_sys_ok quiet cfg (s\<lparr>bl_dir := snd (Remove (bl_dir s) i), bl_db := DeleteBlobByID (bl_db s) i\<rparr>, ts, drawn)"
proof -
  have "i \<notin> blob_BlobID ` set (db_blobs (DeleteBlobByID (bl_db s) i))" by (auto simp: DeleteBlobByID_def row_delete_def)
  moreover have "s\<lparr>bl_dir := snd (Remove (bl_dir s) i), bl_db := DeleteBlobByID (bl_db s) i\<rparr>
      = s\<lparr>bl_db := DeleteBlobByID (bl_db s) i, bl_dir := snd (Remove (bl_dir s) i)\<rparr>" by simp
  ultimately show ?thesis using file_removed [OF row_deleted [OF assms(1), of i], of i] assms(2) by (simp only:) simp
qed

lemma retire_blobs_Cons:
  "retire_blobs (b # bs) s = retire_blobs bs (if validateBlobID (blob_BlobID b)
     then s\<lparr>bl_dir := snd (Remove (bl_dir s) (blob_BlobID b)), bl_db := DeleteBlobByID (bl_db s) (blob_BlobID b)\<rparr> else s)"
  by (simp add: Remove_def)

lemma retire_blobs_ok:
  "blob_sys_ok quiet cfg (s, ts, drawn) \<Longrightarrow> blob_BlobID ` set bs \<inter> task_id ` set ts = {}
     \<Longrightarrow> blob_sys_ok quiet cfg (retire_blobs bs s, ts, drawn)"
proof (induction bs arbitrary: s)
  case (Cons b bs)
  then have "blob_sys_ok quiet cfg (s\<lparr>bl_dir := snd (Remove (bl_dir s) (blob_BlobID b)),
      bl_db := DeleteBlobByID (bl_db s) (blob_BlobID b)\<rparr>, ts, drawn)"
    by (intro blob_retired) auto
  with Cons show ?case unfolding retire_blobs_Cons by simp
qed simp

lemma retire_rows_ok:
  assumes "blob_sys_ok quiet cfg (s, ts, drawn)"
  shows "blob_sys_ok quiet cfg (retire_expired now s, ts, drawn)" "blob_sys_ok quiet cfg (retire_unreferenced s, ts, drawn)"
proof -
  have sub: "blob_sys_ok quiet cfg (retire_blobs bs s, ts, drawn)" if "set bs \<subseteq> set (db_blobs (bl_db s))" for bs
    using that blob_sys_okD(7) [OF assms] by (intro retire_blobs_ok [OF assms]) blast
  show "blob_sys_ok quiet cfg (retire_expired now s, ts, drawn)" "blob_sys_ok quiet cfg (retire_unreferenced s, ts, drawn)"
    unfolding retire_expired_def retire_unreferenced_def
    by (rule sub; auto simp: ListExpiredBlobs_def ListUnreferencedBlobs_def dest!: in_set_takeD)+
qed

text \<open>Writing a file for an upload, and recording it.\<close>

lemma upload_written_ok:
  assumes ok: "blob_sys_ok quiet cfg (s, xs @ Planned plan i # ys, drawn)"
    and put: "Put P (bl_dir s) i body digest maxBytes = (Inr (n, got), dir)"
  shows "blob_sys_ok quiet cfg (s\<lparr>bl_dir := dir\<rparr>, xs @ Written plan i n # ys, drawn)"
proof -
  obtain c where c: "validateBlobID i" "n = int (length c)" "dir = dir_write (bl_dir s) i c" using Put_Inr [OF put] by metis
  have fl: "file_of dir j m \<longleftrightarrow> (if j = i then m = n else file_of (bl_dir s) j m)" for j m
    using blobs.content_wr [OF c(1), of "bl_dir s" c j] c by (auto simp: file_of_def)
  have i: "i \<notin> blob_BlobID ` set (db_blobs (bl_db s))" "i \<notin> task_id ` set (xs @ ys)"
    using blob_sys_okD(7,8) [OF ok] by auto
  have "blob_sys_ok quiet cfg (s\<lparr>bl_dir := dir\<rparr>, xs @ ys, drawn)"
    using i blobs.inv_wr [OF blob_sys_okD(4) [OF ok] c(1), of c, folded c(3)]
    by (intro files_changed [OF task_gone [OF ok]]) (auto simp: fl)
  with ok fl [of i n] c(2) i show ?thesis by (auto simp: blob_sys_ok_def)
qed

lemma row_added:
  assumes ok: "blob_sys_ok quiet cfg (s, ts, drawn)" and i: "i \<notin> task_id ` set ts" "i \<in> drawn"
    and fl: "0 \<le> n" "quiet \<Longrightarrow> file_of (bl_dir s) i n" and b: "blob_BlobID b = i" "blob_SizeBytes b = n"
    and rec: "recordBlobWithQuota cfg (bl_db s) b candidates = Inr (stored, exceeded, db')"
  shows "blob_sys_ok quiet cfg (s\<lparr>bl_db := db'\<rparr>, ts, drawn)"
  using rec
proof (rule recordBlobWithQuota_Inr)
  assume cr: "CreateBlob (bl_db s) b stored = Inr db'"
  have "db_ok db'" using CreateBlob_ok [OF blob_sys_okD(1) [OF ok] cr] .
  moreover obtain b' where "blob_BlobID b' = i" "blob_SizeBytes b' = n" "db_blobs db' = db_blobs (bl_db s) @ [b']"
    using CreateBlob_rows [OF blob_sys_okD(1) [OF ok] cr] b by metis
  moreover have "within_quota cfg db' \<and> sized db'"
    using quota_add [OF blob_sys_okD(2,3,1) [OF ok] _ rec] b fl(1) by simp
  ultimately show ?thesis using ok i fl(2) by (auto simp: blob_sys_ok_def)
qed (use ok in simp)

lemma upload_recorded_ok:
  assumes ok: "blob_sys_ok quiet cfg (s, xs @ Written plan i n # ys, drawn)"
    and rec: "record_upload cfg addDays now plan i n s = (resp, s')"
  shows "blob_sys_ok quiet cfg (s', xs @ ys, drawn)"
proof -
  have i: "i \<notin> blob_BlobID ` set (db_blobs (bl_db s))" "i \<notin> task_id ` set (xs @ ys)" "i \<in> drawn"
    using blob_sys_okD(6,7,8) [OF ok] by auto
  have fl: "0 \<le> n" "quiet \<Longrightarrow> file_of (bl_dir s) i n" using blob_sys_okD(9) [OF ok, of "Written plan i n"] by auto
  note gone = task_gone [OF ok]
  have dropped: "blob_sys_ok quiet cfg (s\<lparr>bl_dir := snd (Remove (bl_dir s) i)\<rparr>, xs @ ys, drawn)"
    using i by (intro file_removed [OF gone])
  define b where "b = \<lparr>blob_BlobID = i, blob_SizeBytes = n, blob_CreatedAt = now,
    blob_ExpiresAt = addDays now (bcf_BlobRetentionDays cfg)\<rparr>"
  show ?thesis
  proof (cases "recordBlobWithQuota cfg (bl_db s) b (pl_Candidates plan)")
    case (Inl e)
    with rec dropped show ?thesis by (cases e) (auto simp: record_upload_def b_def Let_def)
  next
    case (Inr res)
    obtain stored exceeded db' where res: "res = (stored, exceeded, db')" by (cases res)
    show ?thesis
    proof (cases "stored = []")
      case True
      then have "db' = bl_db s" using recordBlobWithQuota_Inr [OF Inr [unfolded res]] by metis
      with True Inr res rec dropped show ?thesis by (auto simp: record_upload_def b_def Let_def)
    next
      case False
      have "blob_sys_ok quiet cfg (s\<lparr>bl_db := db'\<rparr>, xs @ ys, drawn)"
        by (rule row_added [OF gone i(2,3) fl _ _ Inr [unfolded res]]) (simp_all add: b_def)
      with False Inr res rec show ?thesis by (auto simp: record_upload_def b_def Let_def)
    qed
  qed
qed

lemma claim_deleted_ok:
  assumes ok: "blob_sys_ok quiet cfg (s, ts, drawn)" and del: "deleteBlobClaim (bl_db s) i d = Inr (unref, db')"
  shows "blob_sys_ok quiet cfg (s\<lparr>bl_db := db'\<rparr>, (if unref then Unlinking i # ts else ts), drawn)"
proof -
  let ?claim = "\<lambda>r. r = (i, d)"
  have mem: "(i, d) \<in> set (db_blob_recipients (bl_db s))"
    using del by (auto simp: deleteBlobClaim_def DeleteBlobForDevice_def Let_def row_count_0 split: if_splits)
  then have row: "i \<in> blob_BlobID ` set (db_blobs (bl_db s))"
    using blob_sys_okD(1) [OF ok] by (auto simp: db_ok_def blobs_ok_def)
  define db1 where "db1 = (bl_db s)\<lparr>db_blob_recipients := row_delete ?claim (db_blob_recipients (bl_db s))\<rparr>"
  have ok1: "blob_sys_ok quiet cfg (s\<lparr>bl_db := db1\<rparr>, ts, drawn)"
    by (rule rows_gone [OF ok, where q = "\<lambda>_. True" and p = "\<lambda>r. \<not> ?claim r"])
      (auto simp: db1_def row_delete_def intro: row_delete_recipients_ok [OF blob_sys_okD(1) [OF ok], unfolded row_delete_def])
  show ?thesis
  proof (cases unref)
    case True
    then have "db' = DeleteBlobByID db1 i"
      using del by (auto simp: deleteBlobClaim_def DeleteBlobForDevice_def db1_def Let_def split: if_splits)
    with row_deleted [OF ok1, of i] have ok2: "blob_sys_ok quiet cfg (s\<lparr>bl_db := db'\<rparr>, ts, drawn)" by simp
    moreover have "i \<notin> blob_BlobID ` set (db_blobs db')"
      using \<open>db' = _\<close> by (auto simp: DeleteBlobByID_def row_delete_def)
    moreover have "i \<in> drawn" "i \<notin> task_id ` set ts" using row blob_sys_okD(5,7) [OF ok] by blast+
    ultimately show ?thesis using True by (auto simp: blob_sys_ok_def)
  next
    case False
    then have "db' = db1" using del by (auto simp: deleteBlobClaim_def DeleteBlobForDevice_def db1_def Let_def split: if_splits)
    with False ok1 show ?thesis by simp
  qed
qed

lemma sweepOrphanBlobs_files:
  assumes "dir_ok (bl_dir s)"
  shows "file_of (bl_dir (sweepOrphanBlobs s)) i n \<longleftrightarrow> BlobIDExists (bl_db s) i \<and> file_of (bl_dir s) i n"
    and "dir_ok (bl_dir (sweepOrphanBlobs s))"
proof -
  have eq: "bl_dir (sweepOrphanBlobs s) =
      blobs.del_all (filter (\<lambda>i. \<not> BlobIDExists (bl_db s) i) (EachStoredID (bl_dir s))) (bl_dir s)"
    by (simp add: sweepOrphanBlobs_def blobs.del_all_def dir_del_def Let_def)
  show "file_of (bl_dir (sweepOrphanBlobs s)) i n \<longleftrightarrow> BlobIDExists (bl_db s) i \<and> file_of (bl_dir s) i n"
    using blobs.sweep_content [OF assms, of "BlobIDExists (bl_db s)" i] by (auto simp: eq file_of_def)
  show "dir_ok (bl_dir (sweepOrphanBlobs s))" using blobs.inv_del_all [OF assms] by (simp add: eq)
qed

lemma sweepOrphanBlobs_ok:
  assumes ok: "blob_sys_ok quiet cfg (s, ts, drawn)" and "quiet \<longrightarrow> \<not> list_ex is_written ts"
  shows "blob_sys_ok quiet cfg (sweepOrphanBlobs s, ts, drawn)"
proof -
  note swept = sweepOrphanBlobs_files [OF blob_sys_okD(4) [OF ok]]
  have "sweepOrphanBlobs s = s\<lparr>bl_dir := bl_dir (sweepOrphanBlobs s)\<rparr>" by (simp add: sweepOrphanBlobs_def Let_def)
  moreover have "blob_sys_ok quiet cfg (s\<lparr>bl_dir := bl_dir (sweepOrphanBlobs s)\<rparr>, ts, drawn)"
    using assms(2) by (intro files_changed [OF ok swept(2)])
      (auto simp: swept(1) BlobIDExists_def row_count_pos list_ex_iff)
  ultimately show ?thesis by simp
qed

lemma blob_system_ok:
  "blob_system quiet P cfg addDays x y \<Longrightarrow> blob_sys_ok quiet cfg x \<Longrightarrow> blob_sys_ok quiet cfg y"
proof (induction rule: blob_system.induct)
  case (file_unlinked s xs i ys drawn)
  then show ?case using blob_sys_okD(7,8) [OF file_unlinked] by (intro file_removed [OF task_gone [OF file_unlinked]]) auto
next
  case (other_request s db' ts drawn)
  then obtain p where "db_blobs db' = db_blobs (bl_db s)" "db_blob_recipients db' = filter p (db_blob_recipients (bl_db s))"
    by (auto simp: blobs_left_def)
  with other_request show ?case by (intro rows_gone [where q = "\<lambda>_. True" and p = p]) auto
next
  case (temporary s ts drawn age now)
  then show ?case by (rule files_same) (simp add: SweepTmp_def Let_def)
next
  case (killed s ts drawn name now)
  then show ?case by (rule files_same) (simp add: put_killed_def)
next
  case (upload_planned s r plan rnd drawn ts)
  then show ?case by (auto simp: blob_sys_ok_def)
qed (blast intro: upload_written_ok upload_recorded_ok task_gone claim_deleted_ok retire_rows_ok sweepOrphanBlobs_ok)+

end
