(* ===== verification/Blob_Delivery.thy ===== *)
theory Blob_Delivery
  imports Blob_System
begin

text \<open>
  What uploads promise: the quotas and the files along every interleaving, and the way of a blob from
  the request its sender signed to the device that downloads it.
\<close>

section \<open>Digests\<close>

lemma lower_hex_ascii: "list_all lower_hex s \<Longrightarrow> ascii s"
  by (auto simp: list_all_iff ascii_def lower_hex_def Let_def)

lemma ascii_lower_hex: "lower_hex c \<Longrightarrow> ascii_lower c = c"
  by (auto simp: ascii_lower_def lower_hex_def Let_def)

lemma string_lower_hex: "list_all lower_hex s \<Longrightarrow> string_lower P s = s"
  by (simp add: string_lower_ascii lower_hex_ascii map_idI list_all_iff ascii_lower_hex)

lemma isHex_lowered:
  assumes "isHex s"
  shows "list_all lower_hex (string_lower P s)" "length (string_lower P s) = length s"
proof -
  note hex = assms
  then have "ascii s" by (auto simp: isHex_def list_all_iff ascii_def Let_def)
  moreover have "lower_hex (ascii_lower c)" if "c \<in> set s" for c
    using hex that by (auto simp: isHex_def list_all_iff Let_def ascii_lower_def lower_hex_def of_char_of)
  ultimately show "list_all lower_hex (string_lower P s)" "length (string_lower P s) = length s"
    by (simp_all add: string_lower_ascii list_all_iff)
qed

lemma fold_rune_lower_hex: "lower_hex c \<Longrightarrow> fold_rune P (of_char c) = of_char c"
  by (auto simp: fold_rune_def to_lower_def lower_hex_def Let_def)

lemma equal_fold_lower_hex:
  assumes "list_all lower_hex a" "list_all lower_hex b"
  shows "equal_fold P a b \<longleftrightarrow> a = b"
proof -
  have "map (fold_rune P) (runes s) = map of_char s" if "list_all lower_hex s" for s
    using that by (auto simp: lower_hex_ascii fold_rune_lower_hex list_all_iff)
  with assms have "equal_fold P a b \<longleftrightarrow> map of_char a = (map of_char b :: nat list)" by (simp add: equal_fold_def)
  also have "\<dots> \<longleftrightarrow> a = b" by (rule inj_map_eq_map) (simp add: inj_def)
  finally show ?thesis .
qed

lemma parseBlobDigest_Inr:
  assumes "parseBlobDigest P r = Inr digest"
  shows "list_all lower_hex digest" "digest \<noteq> []" "header_get r HeaderBodyDigest \<noteq> []"
    "digest = string_lower P (trim_prefix ''sha256='' (trim_space (header_get r HeaderBodyDigest)))"
  using assms isHex_lowered(2) [of "trim_prefix ''sha256='' (trim_space (header_get r HeaderBodyDigest))" P]
  by (auto simp: parseBlobDigest_def Let_def isHex_lowered(1) split: if_splits)

lemma parseBlobDigest_honest:
  assumes "header_get r HeaderBodyDigest = hex_encode hsh" "length hsh = 32"
  shows "parseBlobDigest P r = Inr (hex_encode hsh)"
proof -
  have hex: "\<forall>c \<in> set (hex_encode hsh). lower_hex c" using hex_encode_chars [of hsh] by (simp add: list_all_iff)
  then have "trim_space (hex_encode hsh) = hex_encode hsh"
    by (intro trim_space_graphic) (auto simp: graphic_def lower_hex_def Let_def)
  moreover have "trim_prefix ''sha256='' (hex_encode hsh) = hex_encode hsh"
    using hex by (cases "hex_encode hsh") (auto simp: trim_prefix_def starts_with_iff lower_hex_def)
  moreover have "isHex (hex_encode hsh)" using hex by (auto simp: isHex_def list_all_iff lower_hex_def Let_def)
  moreover have "hex_encode hsh \<noteq> []" using assms(2) length_hex_encode [of hsh] by (cases "hex_encode hsh") auto
  ultimately show ?thesis using assms hex_encode_chars [of hsh] by (simp add: parseBlobDigest_def string_lower_hex)
qed

section \<open>From the upload to the download\<close>

lemma read_whole:
  assumes "read_limited (wrap64 (maxBytes + 1)) src = Inr content" "int (length content) \<le> maxBytes" "maxBytes < 2 ^ 63 - 1"
  shows "src = (content, EOF)"
proof -
  have "0 \<le> maxBytes" using assms(2) by simp
  then have "wrap64 (maxBytes + 1) = maxBytes + 1" using assms(3) by (intro wrap64_id) auto
  with assms(1,2) show ?thesis by (cases src) (auto simp: read_limited_def split: if_splits)
qed

lemma plan_upload_Inr:
  assumes "plan_upload P cfg db r = Inr plan"
  shows "parseBlobDigest P r = Inr (pl_Digest plan)" "pl_MaxBytes plan \<le> bcf_MaxBlobBytes cfg"
    "length (pl_Outcomes plan) = length (pl_Recipients plan)"
  using assms by (auto simp: plan_upload_def Let_def split: if_splits sum.splits)

lemma plan_upload_Inl: "plan_upload P cfg db r \<noteq> Inl (UploadDone st i n t results)"
  by (auto simp: plan_upload_def writeBlobUploadFailure_def Let_def split: if_splits sum.splits)

lemma stored_outcome:
  assumes "(d, BlobStored) \<in> set (zip (pl_Recipients plan) (final_outcomes plan exceeded))"
  shows "d \<in> set (pl_Candidates plan) - set exceeded"
proof -
  let ?rs = "pl_Recipients plan" and ?os = "pl_Outcomes plan"
  obtain k where k: "k < length ?rs" "k < length (final_outcomes plan exceeded)" "?rs ! k = d"
      "final_outcomes plan exceeded ! k = BlobStored" using assms by (auto simp: set_zip)
  then have "k < length ?os" "\<not> (?os ! k = BlobStored \<and> d \<in> set exceeded)" "?os ! k = BlobStored"
    by (auto simp: final_outcomes_def split: if_splits)
  with k show ?thesis by (auto simp: pl_Candidates_def set_zip image_iff)
qed

text \<open>An upload that succeeds has written its file and recorded a claim for every recipient it reports as stored.\<close>

lemma storeUploadedBlob_Done:
  assumes up: "storeUploadedBlob P cfg addDays now rnd r body s = (UploadDone st i n t results, s')"
    and cfg: "bcf_MaxBlobBytes cfg < 2 ^ 63 - 1" and ok: "db_ok (bl_db s)"
  obtains content digest where "body = (content, EOF)" "parseBlobDigest P r = Inr digest"
    "digest = hex_encode (sha256 P content)" "Open (bl_dir s') i = Inr content"
    "\<And>d. (d, BlobStored) \<in> set results \<Longrightarrow> (i, d) \<in> set (db_blob_recipients (bl_db s'))"
    "i \<in> blob_BlobID ` set (db_blobs (bl_db s'))"
proof -
  obtain plan where plan: "plan_upload P cfg (bl_db s) r = Inr plan"
    using up by (auto simp: storeUploadedBlob_def plan_upload_Inl split: sum.splits)
  let ?i = "NewBlobID rnd"
  obtain m hsh dir where put: "Put P (bl_dir s) ?i body (pl_Digest plan) (pl_MaxBytes plan) = (Inr (m, hsh), dir)"
    and rec: "record_upload cfg addDays now plan ?i m (s\<lparr>bl_dir := dir\<rparr>) = (UploadDone st i n t results, s')"
    using up plan by (auto simp: storeUploadedBlob_def split: sum.splits prod.splits)
  obtain content where c: "validateBlobID ?i" "m = int (length content)" "m \<le> pl_MaxBytes plan"
      "hsh = hex_encode (sha256 P content)" "pl_Digest plan = [] \<or> equal_fold P hsh (pl_Digest plan)"
      "dir = dir_write (bl_dir s) ?i content" "read_limited (wrap64 (pl_MaxBytes plan + 1)) body = Inr content"
    using Put_Inr [OF put] .
  define b where "b = \<lparr>blob_BlobID = ?i, blob_SizeBytes = m, blob_CreatedAt = now,
    blob_ExpiresAt = addDays now (bcf_BlobRetentionDays cfg)\<rparr>"
  obtain stored exceeded db' where q: "recordBlobWithQuota cfg (bl_db s) b (pl_Candidates plan) = Inr (stored, exceeded, db')"
      and st: "stored \<noteq> []" "i = ?i" "results = zip (pl_Recipients plan) (final_outcomes plan exceeded)" "s' = s\<lparr>bl_dir := dir, bl_db := db'\<rparr>"
    using rec by (auto simp: record_upload_def b_def Let_def writeBlobUploadFailure_def
        split: sum.splits record_error.splits prod.splits if_splits)
  have cr: "CreateBlob (bl_db s) b stored = Inr db'" using recordBlobWithQuota_Inr [OF q] st(1) by metis
  have set_stored: "set stored = set (pl_Candidates plan) - set exceeded"
    using q by (auto simp: recordBlobWithQuota_def CreateBlobWithQuota_def Let_def filter_empty_conv split: if_splits sum.splits)
  obtain b' where rows: "blob_BlobID b' = ?i" "db_blobs db' = db_blobs (bl_db s) @ [b']"
      "db_blob_recipients db' = db_blob_recipients (bl_db s) @ map (Pair ?i) stored"
    using CreateBlob_rows [OF ok cr] by (auto simp: b_def)
  show thesis
  proof (rule that)
    show "body = (content, EOF)"
      using read_whole [OF c(7)] c(2,3) plan_upload_Inr(2) [OF plan] cfg by simp
    show "parseBlobDigest P r = Inr (pl_Digest plan)" by (rule plan_upload_Inr(1) [OF plan])
    note d = parseBlobDigest_Inr [OF this]
    show "pl_Digest plan = hex_encode (sha256 P content)"
      using c(4,5) d(2) equal_fold_lower_hex [OF hex_encode_chars d(1)] by simp
    show "Open (bl_dir s') i = Inr content"
      using blobs.content_wr [OF c(1), of "bl_dir s" content ?i] c(6) st(2,4) by (auto simp: dir_content_def split: sum.splits)
    show "i \<in> blob_BlobID ` set (db_blobs (bl_db s'))" using rows st by simp
    fix d assume "(d, BlobStored) \<in> set results"
    then have "d \<in> set stored"
      unfolding st(3) set_stored by (rule stored_outcome)
    then show "(i, d) \<in> set (db_blob_recipients (bl_db s'))" using rows st by simp
  qed
qed

lemma handleDownloadBlob_claimed:
  assumes "db_ok (bl_db s)" "(i, id_DeviceID identity) \<in> set (db_blob_recipients (bl_db s))" "Open (bl_dir s) i = Inr content"
  shows "handleDownloadBlob identity i s = Inr content"
proof -
  have "i \<in> blob_BlobID ` set (db_blobs (bl_db s))" using assms(1,2) by (auto simp: db_ok_def blobs_ok_def)
  then obtain b where "row_get blob_BlobID i (db_blobs (bl_db s)) = Some b"
    using row_get_None [of blob_BlobID i "db_blobs (bl_db s)"] by (cases "row_get blob_BlobID i (db_blobs (bl_db s))") auto
  with assms show ?thesis by (simp add: handleDownloadBlob_def GetBlobForDevice_def)
qed

lemma handleDownloadBlob_unclaimed:
  "(i, id_DeviceID identity) \<notin> set (db_blob_recipients (bl_db s)) \<Longrightarrow> handleDownloadBlob identity i s = Inl (404, ''not_found'')"
  by (simp add: handleDownloadBlob_def GetBlobForDevice_def)

text \<open>A recipient's deletion leaves the claims of the others, and the file while there is one.\<close>

lemma handleDeleteBlob_others:
  assumes "(i, d) \<in> set (db_blob_recipients (bl_db s))" "d \<noteq> id_DeviceID who" "s' = snd (handleDeleteBlob who i s)"
  shows "(i, d) \<in> set (db_blob_recipients (bl_db s')) \<and> bl_dir s' = bl_dir s \<and> db_blobs (bl_db s') = db_blobs (bl_db s)"
proof -
  let ?rest = "row_delete (\<lambda>r. r = (i, id_DeviceID who)) (db_blob_recipients (bl_db s))"
  have "(i, d) \<in> set ?rest" using assms(1,2) by (simp add: set_row_delete)
  moreover from this have "0 < row_count (\<lambda>r. fst r = i) ?rest"
    unfolding row_count_pos by (intro bexI [of _ "(i, d)"]) simp_all
  ultimately show ?thesis
    using assms(1,3) by (auto simp: handleDeleteBlob_def deleteBlobClaim_def DeleteBlobForDevice_def Let_def split: sum.splits if_splits)
qed

lemma deleteBlob_db_ok: "db_ok (bl_db s) \<Longrightarrow> db_ok (bl_db (snd (handleDeleteBlob who i s)))"
  by (auto simp: handleDeleteBlob_def deleteBlobClaim_def split: sum.splits prod.splits dest: DeleteBlobForDevice_ok)

lemma storeUploadedBlob_db_ok:
  assumes "db_ok (bl_db s)" "storeUploadedBlob P cfg addDays now rnd r body s = (UploadDone st i n t results, s')"
  shows "db_ok (bl_db s')"
  using assms by (auto simp: storeUploadedBlob_def record_upload_def recordBlobWithQuota_def CreateBlobWithQuota_def
      plan_upload_Inl writeBlobUploadFailure_def Let_def split: sum.splits prod.splits record_error.splits if_splits
      dest: CreateBlob_ok)


section \<open>Every interleaving\<close>

lemma blob_system_start:
  assumes "db_ok (bl_db s)" "db_blobs (bl_db s) = []" "bl_dir s = empty_dir"
  shows "blob_sys_ok quiet cfg (s, [], {})"
proof -
  have "db_blob_recipients (bl_db s) = []" using assms(1,2) by (cases "db_blob_recipients (bl_db s)") (auto simp: db_ok_def blobs_ok_def)
  with assms show ?thesis
    by (simp add: blob_sys_ok_def within_quota_def sized_def BlobUsage_def device_blobs_def TotalBlobBytes_def empty_dir_ok)
qed

lemma blob_system_reach:
  "(blob_system quiet P cfg addDays)\<^sup>*\<^sup>* x y \<Longrightarrow> blob_sys_ok quiet cfg x \<Longrightarrow> blob_sys_ok quiet cfg y"
  by (induction rule: rtranclp_induct) (auto intro: blob_system_ok)

text \<open>
  C37: However uploads, deletions, cleanup passes, crashes and other requests interleave, no device ever
  holds more blobs, or more bytes of them, than its quota, and the blobs together stay within the
  server's cap when there is one.
\<close>

theorem blob_quotas_hold:
  assumes "(blob_system quiet P cfg addDays)\<^sup>*\<^sup>* (s0, [], {}) (s, ts, drawn)"
    and "db_ok (bl_db s0)" "db_blobs (bl_db s0) = []" "bl_dir s0 = empty_dir"
  shows "int (fst (BlobUsage (bl_db s) d)) \<le> max 0 (bcf_MaxBlobsPerDevice cfg)
    \<and> snd (BlobUsage (bl_db s) d) \<le> max 0 (bcf_MaxBlobBytesPerDevice cfg)
    \<and> (0 < bcf_MaxBlobBytesTotal cfg \<longrightarrow> TotalBlobBytes (bl_db s) \<le> bcf_MaxBlobBytesTotal cfg)"
proof -
  have "within_quota cfg (bl_db s)"
    using blob_system_reach [OF assms(1) blob_system_start [OF assms(2-4)]] by (rule blob_sys_okD)
  from within_quotaD(1,2) [OF this, of d] within_quotaD(3) [OF this] show ?thesis by auto
qed


section \<open>A run\<close>

definition sample_blob_config :: blob_config where
  "sample_blob_config = \<lparr>bcf_BlobsEnabled = True, bcf_MaxBlobBytes = 100, bcf_MaxBlobBytesTotal = 1000,
     bcf_MaxBlobBytesPerDevice = 500, bcf_MaxBlobsPerDevice = 10, bcf_MaxBlobRecipients = 5, bcf_BlobRetentionDays = 30\<rparr>"

definition sample_blob_state :: blob_state where
  "sample_blob_state = \<lparr>bl_db = sample_database, bl_dir = empty_dir\<rparr>"

definition sample_blob_request :: http_request where
  "sample_blob_request = \<lparr>Method = ''POST'', URLPath = ''/v1/blobs'', RawQuery = ''recipient_device_id=b1'',
     Headers = [(HeaderBodyDigest, hex_encode (pad 32 ''xyz''))], Body = None\<rparr>"

definition sample_plan :: upload_plan where
  "sample_plan = \<lparr>pl_Digest = hex_encode (pad 32 ''xyz''), pl_Recipients = [''b1''], pl_Outcomes = [BlobStored],
     pl_MaxBytes = 100\<rparr>"

definition sample_blob_random :: bytes where
  "sample_blob_random = pad 32 ''random''"

definition sample_written_state :: blob_state where
  "sample_written_state = sample_blob_state\<lparr>bl_dir := dir_write empty_dir (NewBlobID sample_blob_random) ''xyz''\<rparr>"

definition sample_recorded :: "blob_state \<Rightarrow> blob_response \<times> blob_state" where
  "sample_recorded s = record_upload sample_blob_config (\<lambda>t d. t) 0 sample_plan (NewBlobID sample_blob_random) 3 s"

lemma sample_planned: "plan_upload sample_platform sample_blob_config sample_database sample_blob_request = Inr sample_plan"
proof -
  have "header_get sample_blob_request HeaderBodyDigest = hex_encode (pad 32 ''xyz'')"
    by (simp add: header_get_def sample_blob_request_def)
  from parseBlobDigest_honest [OF this]
  have digest: "parseBlobDigest sample_platform sample_blob_request = Inr (hex_encode (pad 32 ''xyz''))" by simp
  have "cut (CHR ''='') ''recipient_device_id=b1'' = (''recipient_device_id'', ''b1'')"
    using cut_no_sep [of "CHR ''=''" "''recipient_device_id''" "''b1''"] by (simp del: cut.simps)
  moreover have "split_char (CHR ''&'') ''recipient_device_id=b1'' = [''recipient_device_id=b1'']" by simp
  moreover have "query_unescape ''recipient_device_id'' = Some ''recipient_device_id''" "query_unescape ''b1'' = Some ''b1''" by simp_all
  ultimately have "query_values ''recipient_device_id=b1'' ''recipient_device_id'' = [''b1'']"
    by (simp add: query_values_def del: cut.simps query_unescape.simps split_char.simps)
  then have "parseBlobRecipients sample_blob_config sample_blob_request = Inr [''b1'']"
    by (simp add: parseBlobRecipients_def sample_blob_request_def sample_blob_config_def)
  moreover have "checkBlobRecipient sample_blob_config sample_database ''b1'' = (BlobStored, 500)" by code_simp
  moreover have "TotalBlobBytes sample_database = 0" by code_simp
  ultimately show ?thesis by (simp add: plan_upload_def digest sample_blob_config_def sample_plan_def)
qed

lemma sample_put:
  "Put sample_platform empty_dir (NewBlobID sample_blob_random) (''xyz'', EOF) (pl_Digest sample_plan) (pl_MaxBytes sample_plan)
     = (Inr (3, hex_encode (pad 32 ''xyz'')), dir_write empty_dir (NewBlobID sample_blob_random) ''xyz'')"
proof -
  have "validateBlobID (NewBlobID sample_blob_random)" by (rule NewBlobID_valid) (simp add: sample_blob_random_def)
  then show ?thesis
    using Put_stores [of "NewBlobID sample_blob_random" 100 "''xyz''" "pl_Digest sample_plan" sample_platform empty_dir]
    by (simp add: sample_plan_def sample_platform_def equal_fold_def)
qed

lemma sample_run_written:
  "(blob_system quiet sample_platform sample_blob_config (\<lambda>t d. t))\<^sup>*\<^sup>* (sample_blob_state, [], {})
     (sample_written_state, [Written sample_plan (NewBlobID sample_blob_random) 3], {NewBlobID sample_blob_random})"
proof -
  let ?i = "NewBlobID sample_blob_random" and ?step = "blob_system quiet sample_platform sample_blob_config (\<lambda>t d. t)"
  have "?step (sample_blob_state, [], {}) (sample_blob_state, [Planned sample_plan ?i], {?i})"
    by (rule upload_planned [where r = sample_blob_request]) (simp_all add: sample_blob_state_def sample_planned sample_blob_random_def)
  moreover have "?step (sample_blob_state, [] @ Planned sample_plan ?i # [], {?i})
      (sample_blob_state\<lparr>bl_dir := dir_write empty_dir ?i ''xyz''\<rparr>, [] @ Written sample_plan ?i 3 # [], {?i})"
    by (rule upload_written [where body = "(''xyz'', EOF)"]) (simp add: sample_blob_state_def sample_put)
  ultimately show ?thesis unfolding sample_written_state_def by (simp add: converse_rtranclp_into_rtranclp)
qed

lemma sample_step_recorded:
  "blob_system quiet sample_platform sample_blob_config (\<lambda>t d. t)
     (s, [Written sample_plan (NewBlobID sample_blob_random) 3], drawn) (snd (sample_recorded s), [], drawn)"
  using upload_recorded [of sample_blob_config "\<lambda>t d. t" 0 sample_plan "NewBlobID sample_blob_random" 3 s _ _ quiet sample_platform "[]" "[]"]
  by (simp add: sample_recorded_def prod_eq_iff)

lemma sample_run_recorded:
  "(blob_system quiet sample_platform sample_blob_config (\<lambda>t d. t))\<^sup>*\<^sup>* (sample_blob_state, [], {})
     (snd (sample_recorded sample_written_state), [], {NewBlobID sample_blob_random})"
  using sample_run_written sample_step_recorded by (rule rtranclp.rtrancl_into_rtrancl)

lemma sample_blob_tables: "db_blobs sample_database = []" "db_blob_recipients sample_database = []"
  "list_ex (\<lambda>v. dev_DeviceID v = ''b1'') (db_devices sample_database)"
  by code_simp+

lemma sample_recorded_claim:
  "bl_db s = sample_database \<Longrightarrow> (NewBlobID sample_blob_random, ''b1'') \<in> set (db_blob_recipients (bl_db (snd (sample_recorded s))))
     \<and> fst (BlobUsage (bl_db (snd (sample_recorded s))) ''b1'') = 1 \<and> bl_dir (snd (sample_recorded s)) = bl_dir s"
proof -
  assume s: "bl_db s = sample_database"
  have usage: "BlobUsage sample_database ''b1'' = (0, 0)" by (simp add: BlobUsage_def device_blobs_def sample_blob_tables)
  have "pl_Candidates sample_plan = [''b1'']" by (simp add: pl_Candidates_def sample_plan_def)
  with s sample_blob_tables usage show ?thesis
    by (simp add: sample_recorded_def record_upload_def recordBlobWithQuota_def CreateBlobWithQuota_def CreateBlob_def blob_fits_def
        BlobUsage_def device_blobs_def TotalBlobBytes_def sample_blob_config_def Let_def)
qed

lemma sample_blob_start:
  "db_ok (bl_db sample_blob_state)" "db_blobs (bl_db sample_blob_state) = []" "bl_dir sample_blob_state = empty_dir"
  using sample_database_ok by (simp_all add: sample_blob_state_def sample_blob_tables)

lemma sample_written_db [simp]: "bl_db sample_written_state = sample_database"
  by (simp add: sample_written_state_def sample_blob_state_def)

theorem blob_quotas_hold_witness:
  "fst (BlobUsage (bl_db (snd (sample_recorded sample_written_state))) ''b1'') = 1
   \<and> snd (BlobUsage (bl_db (snd (sample_recorded sample_written_state))) ''b1'') \<le> 500"
  using blob_quotas_hold [OF sample_run_recorded [of True] sample_blob_start, of "''b1''"]
    sample_recorded_claim [of sample_written_state] by (simp add: sample_blob_config_def)


lemma sample_uploaded:
  "storeUploadedBlob sample_platform sample_blob_config (\<lambda>t d. t) 0 sample_blob_random sample_blob_request (''xyz'', EOF)
     sample_blob_state = sample_recorded sample_written_state"
  by (simp add: storeUploadedBlob_def sample_blob_state_def sample_planned sample_put sample_recorded_def sample_written_state_def)

lemma sample_recorded_response:
  "\<exists>st n t. fst (sample_recorded sample_written_state) = UploadDone st (NewBlobID sample_blob_random) n t [(''b1'', BlobStored)]"
proof -
  have "pl_Candidates sample_plan = [''b1'']" by (simp add: pl_Candidates_def sample_plan_def)
  with sample_blob_tables show ?thesis
    by (simp add: sample_recorded_def record_upload_def recordBlobWithQuota_def CreateBlobWithQuota_def CreateBlob_def blob_fits_def
        BlobUsage_def device_blobs_def TotalBlobBytes_def sample_blob_config_def sample_plan_def final_outcomes_def Let_def)
qed


text \<open>
  The proviso is needed. When the orphan sweep runs between the writing of an upload's file and the
  recording of its row, the file is swept as an orphan and the row is recorded after it: the sender is
  told the blob is stored, the recipient holds a claim, and the download finds nothing.
\<close>

theorem orphan_sweep_race:
  "\<exists>s. (blob_system False sample_platform sample_blob_config (\<lambda>t d. t))\<^sup>*\<^sup>* (sample_blob_state, [], {}) (s, [], {NewBlobID sample_blob_random})
     \<and> (NewBlobID sample_blob_random, id_DeviceID sample_reader) \<in> set (db_blob_recipients (bl_db s))
     \<and> handleDownloadBlob sample_reader (NewBlobID sample_blob_random) s = Inl (404, ''not_found'')"
proof -
  let ?i = "NewBlobID sample_blob_random"
  let ?swept = "sweepOrphanBlobs sample_written_state"
  let ?final = "snd (sample_recorded ?swept)"
  have valid: "validateBlobID ?i" by (rule NewBlobID_valid) (simp add: sample_blob_random_def)
  have db: "bl_db ?swept = sample_database" by (simp add: sweepOrphanBlobs_def Let_def)
  have "dir_ok (bl_dir sample_written_state)"
    using blobs.inv_wr [OF empty_dir_ok(1) valid] by (simp add: sample_written_state_def)
  then have "\<not> file_of (bl_dir ?swept) ?i n" for n
    by (simp add: sweepOrphanBlobs_files BlobIDExists_def row_count_def sample_blob_tables)
  then have "dir_content (bl_dir ?swept) ?i = None"
    by (cases "dir_content (bl_dir ?swept) ?i") (auto simp: file_of_def)
  then have gone: "Open (bl_dir ?final) ?i = Inl FileNotFound"
    using valid sample_recorded_claim [OF db] by (auto simp: dir_content_assoc Open_def)
  have "blob_system False sample_platform sample_blob_config (\<lambda>t d. t) (sample_written_state, [Written sample_plan ?i 3], {?i})
      (?swept, [Written sample_plan ?i 3], {?i})" by (rule orphans) simp
  then have "(blob_system False sample_platform sample_blob_config (\<lambda>t d. t))\<^sup>*\<^sup>* (sample_blob_state, [], {}) (?final, [], {?i})"
    using sample_run_written sample_step_recorded by (meson rtranclp.rtrancl_into_rtrancl)
  moreover have "(?i, id_DeviceID sample_reader) \<in> set (db_blob_recipients (bl_db ?final))"
    using sample_recorded_claim [OF db] by (simp add: sample_reader_def)
  moreover have "handleDownloadBlob sample_reader ?i ?final = Inl (404, ''not_found'')"
    using gone by (simp add: handleDownloadBlob_def GetBlobForDevice_def split: option.split)
  ultimately show ?thesis by blast
qed

end
