(* ===== verification/Group_Event.thy ===== *)
theory Group_Event
  imports Address Devicecert
begin

text \<open>
  \<open>pkg/group/group.go\<close> and \<open>pkg/group/event.go\<close>: roles, the signed events that describe a
  group, their validation, verification and signing bytes.
\<close>

section \<open>Roles and group ids\<close>

text \<open>A role is a \<open>uint8\<close> that is compared and written as one byte.\<close>

type_synonym Role = nat

abbreviation (input) RoleNone :: Role where "RoleNone \<equiv> 0"
abbreviation (input) RoleMember :: Role where "RoleMember \<equiv> 1"
abbreviation (input) RoleModerator :: Role where "RoleModerator \<equiv> 2"
abbreviation (input) RoleAdmin :: Role where "RoleAdmin \<equiv> 3"
abbreviation (input) RoleFounder :: Role where "RoleFounder \<equiv> 4"
abbreviation (input) NonceSize :: nat where "NonceSize \<equiv> 16"

definition role_String :: "Role \<Rightarrow> string" where
  "role_String r =
     (if r = RoleMember then ''member'' else if r = RoleModerator then ''moderator''
      else if r = RoleAdmin then ''admin'' else if r = RoleFounder then ''founder'' else ''none'')"

definition grantable :: "Role \<Rightarrow> bool" where
  "grantable r \<longleftrightarrow> r = RoleModerator \<or> r = RoleAdmin"

datatype group_error =
    GroupAddressError address_error | GroupCertError cert_error
  | SeedLength nat | NonceLength nat
  | MissingSigner | SignerKeyMismatch | SignerCertForeign
  | UnknownEventType string | NoTimestamp | SubSecondTimestamp | EventSignatureLength nat
  | RootEventWithSigner | DeviceEventWithoutSigner | GenesisKeyLength nat | GenesisNonceLength nat
  | GenesisIDMismatch | UnexpectedRootKey | UnexpectedSubject | MissingServer | UnexpectedServer
  | RoleNotGrantable Role | UnexpectedRole | NameTooLong nat | TopicTooLong nat | UnexpectedMeta
  | NotSignedBySubject | EventSignatureFailed | NotCanonical string
  | NotSignedByRoot | MustBeSignedByRoot

text \<open>A derived root key: the seed HKDF yields, which is the Ed25519 private key's seed.\<close>

definition groupRootKeyInfo :: string where
  "groupRootKeyInfo = ''Freizone-Group-Root-v1''"

definition DeriveRootKey :: "platform \<Rightarrow> bytes \<Rightarrow> bytes \<Rightarrow> group_error + bytes" where
  "DeriveRootKey P accountRootSeed nonce =
     (if length accountRootSeed \<noteq> seed_size then Inl (SeedLength (length accountRootSeed))
      else if length nonce \<noteq> NonceSize then Inl (NonceLength (length nonce))
      else Inr (ed25519_from_seed P (hkdf_sha256 P accountRootSeed [] (groupRootKeyInfo @ nonce) seed_size)))"

definition group_DeriveID :: "platform \<Rightarrow> bytes \<Rightarrow> address_error + string" where
  "group_DeriveID P rootPubKey = DeriveIDVersion P VersionGroup rootPubKey"

definition VerifyID :: "platform \<Rightarrow> string \<Rightarrow> bytes \<Rightarrow> address_error + bool" where
  "VerifyID P ident rootPubKey = VerifyVersion P VersionGroup ident rootPubKey"

section \<open>Events\<close>

datatype EventType =
    EventGenesis | EventRoleGrant | EventRoleRevoke | EventMemberAdd | EventMemberRemove
  | EventJoinAccept | EventLeave | EventMeta | EventDissolve | EventOther string

definition domainTags :: "EventType \<Rightarrow> string option" where
  "domainTags t = (case t of
      EventGenesis \<Rightarrow> Some ''frz-group-genesis-v1''
    | EventRoleGrant \<Rightarrow> Some ''frz-group-role-grant-v1''
    | EventRoleRevoke \<Rightarrow> Some ''frz-group-role-revoke-v1''
    | EventMemberAdd \<Rightarrow> Some ''frz-group-member-add-v1''
    | EventMemberRemove \<Rightarrow> Some ''frz-group-member-remove-v1''
    | EventJoinAccept \<Rightarrow> Some ''frz-group-join-accept-v1''
    | EventLeave \<Rightarrow> Some ''frz-group-leave-v1''
    | EventMeta \<Rightarrow> Some ''frz-group-meta-v1''
    | EventDissolve \<Rightarrow> Some ''frz-group-dissolve-v1''
    | EventOther _ \<Rightarrow> None)"

datatype signingRule = signedByDevice | signedByRoot | signedByEither

definition ruleFor :: "EventType \<Rightarrow> signingRule" where
  "ruleFor t = (case t of EventGenesis \<Rightarrow> signedByRoot | EventDissolve \<Rightarrow> signedByRoot
     | EventRoleGrant \<Rightarrow> signedByEither | EventRoleRevoke \<Rightarrow> signedByEither | _ \<Rightarrow> signedByDevice)"

abbreviation (input) MaxNameLen :: nat where "MaxNameLen \<equiv> 128"
abbreviation (input) MaxTopicLen :: nat where "MaxTopicLen \<equiv> 512"

record Signer =
  s_AccountID :: string
  s_RootPubKey :: bytes
  s_DeviceCert :: DeviceCertificate

definition signer_verify :: "platform \<Rightarrow> Signer option \<Rightarrow> group_error + unit" where
  "signer_verify P so =
     (case so of None \<Rightarrow> Inl MissingSigner
      | Some s \<Rightarrow>
         (case Verify P (s_AccountID s) (s_RootPubKey s) of Inl e \<Rightarrow> Inl (GroupAddressError e)
          | Inr ok \<Rightarrow>
             if \<not> ok then Inl SignerKeyMismatch
             else if dc_AccountID (s_DeviceCert s) \<noteq> s_AccountID s then Inl SignerCertForeign
             else (case device_cert_Verify P (s_DeviceCert s) (s_RootPubKey s) of
                 Inl e \<Rightarrow> Inl (GroupCertError e)
               | Inr _ \<Rightarrow> Inr ())))"

record Event =
  Type :: EventType
  GroupID :: string
  IssuedAt :: time
  RootPubKey :: bytes
  Nonce :: bytes
  Subject :: string
  SubjectServer :: string
  EventRole :: Role
  Name :: string
  Topic :: string
  EventSigner :: "Signer option"
  Signature :: bytes

definition event_signingBytes :: "Event \<Rightarrow> group_error + bytes" where
  "event_signingBytes e =
     (case domainTags (Type e) of None \<Rightarrow> Inl (UnknownEventType (case Type e of EventOther s \<Rightarrow> s | _ \<Rightarrow> []))
      | Some tag \<Rightarrow> Inr (
          write_length_prefixed tag @ write_length_prefixed (GroupID e)
          @ (case Type e of
               EventGenesis \<Rightarrow> RootPubKey e @ Nonce e @ write_length_prefixed (Subject e)
                                @ write_length_prefixed (SubjectServer e)
             | EventRoleGrant \<Rightarrow> char_of (EventRole e) # write_length_prefixed (Subject e)
             | EventRoleRevoke \<Rightarrow> char_of (EventRole e) # write_length_prefixed (Subject e)
             | EventMemberAdd \<Rightarrow> write_length_prefixed (Subject e) @ write_length_prefixed (SubjectServer e)
             | EventMemberRemove \<Rightarrow> write_length_prefixed (Subject e)
             | EventJoinAccept \<Rightarrow> write_length_prefixed (Subject e)
             | EventLeave \<Rightarrow> write_length_prefixed (Subject e)
             | EventMeta \<Rightarrow> write_length_prefixed (Name e) @ write_length_prefixed (Topic e)
             | EventDissolve \<Rightarrow> []
             | EventOther _ \<Rightarrow> [])
          @ write_length_prefixed (rfc3339 (IssuedAt e))))"

definition event_ID :: "platform \<Rightarrow> Event \<Rightarrow> group_error + string" where
  "event_ID P e = (case event_signingBytes e of Inl err \<Rightarrow> Inl err
     | Inr buf \<Rightarrow> Inr (hex_encode (sha256 P (buf @ Signature e))))"

text \<open>The fields a type signs: genesis material, subject, server, role, name and topic.\<close>

record wants =
  wantGenesis :: bool
  wantSubject :: bool
  wantServer :: bool
  wantRole :: bool
  wantMeta :: bool

definition wantedFields :: "EventType \<Rightarrow> wants" where
  "wantedFields t = \<lparr>
     wantGenesis = (t = EventGenesis),
     wantSubject = (t \<in> {EventGenesis, EventRoleGrant, EventRoleRevoke, EventMemberAdd,
                         EventMemberRemove, EventJoinAccept, EventLeave}),
     wantServer = (t \<in> {EventGenesis, EventMemberAdd}),
     wantRole = (t \<in> {EventRoleGrant, EventRoleRevoke}),
     wantMeta = (t = EventMeta)\<rparr>"

text \<open>\<open>check ok err k\<close> is an early return: \<open>if !ok { return err }\<close>, then the rest.\<close>

definition check :: "bool \<Rightarrow> 'e \<Rightarrow> 'e + 'a \<Rightarrow> 'e + 'a" where
  "check ok err k = (if ok then k else Inl err)"

definition validate_genesis :: "platform \<Rightarrow> Event \<Rightarrow> group_error + unit" where
  "validate_genesis P e =
     (if wantGenesis (wantedFields (Type e)) then
        check (length (RootPubKey e) = public_key_size) (GenesisKeyLength (length (RootPubKey e)))
        (check (length (Nonce e) = NonceSize) (GenesisNonceLength (length (Nonce e)))
        (case VerifyID P (GroupID e) (RootPubKey e) of Inl err \<Rightarrow> Inl (GroupAddressError err)
         | Inr ok \<Rightarrow> check ok GenesisIDMismatch (Inr ())))
      else check (RootPubKey e = [] \<and> Nonce e = []) UnexpectedRootKey (Inr ()))"

definition validate_subject :: "platform \<Rightarrow> Event \<Rightarrow> group_error + unit" where
  "validate_subject P e =
     (if wantSubject (wantedFields (Type e)) then
        (case Normalize P (Subject e) of Inl err \<Rightarrow> Inl (GroupAddressError err) | Inr _ \<Rightarrow> Inr ())
      else check (Subject e = []) UnexpectedSubject (Inr ()))"

definition validate_rest :: "Event \<Rightarrow> group_error + unit" where
  "validate_rest e =
     (let w = wantedFields (Type e) in
      check (if wantServer w then SubjectServer e \<noteq> [] else SubjectServer e = [])
            (if wantServer w then MissingServer else UnexpectedServer)
     (check (if wantRole w then grantable (EventRole e) else EventRole e = RoleNone)
            (if wantRole w then RoleNotGrantable (EventRole e) else UnexpectedRole)
     (check (\<not> wantMeta w \<or> length (Name e) \<le> MaxNameLen) (NameTooLong (length (Name e)))
     (check (\<not> wantMeta w \<or> length (Topic e) \<le> MaxTopicLen) (TopicTooLong (length (Topic e)))
     (check (wantMeta w \<or> Name e = [] \<and> Topic e = []) UnexpectedMeta
     (check (Type e \<in> {EventJoinAccept, EventLeave} \<longrightarrow>
               (case EventSigner e of None \<Rightarrow> False | Some s \<Rightarrow> s_AccountID s = Subject e))
            NotSignedBySubject (Inr ())))))))"

definition event_Validate :: "platform \<Rightarrow> Event \<Rightarrow> group_error + unit" where
  "event_Validate P e =
     check (domainTags (Type e) \<noteq> None) (UnknownEventType (case Type e of EventOther s \<Rightarrow> s | _ \<Rightarrow> []))
     (case Normalize P (GroupID e) of Inl err \<Rightarrow> Inl (GroupAddressError err)
      | Inr _ \<Rightarrow>
          check (IssuedAt e \<noteq> zero_time) NoTimestamp
          (check (truncate_second (IssuedAt e) = IssuedAt e) SubSecondTimestamp
          (check (length (Signature e) = signature_size) (EventSignatureLength (length (Signature e)))
          (check (ruleFor (Type e) = signedByRoot \<longrightarrow> EventSigner e = None) RootEventWithSigner
          (check (ruleFor (Type e) = signedByDevice \<longrightarrow> EventSigner e \<noteq> None) DeviceEventWithoutSigner
          (case validate_genesis P e of Inl err \<Rightarrow> Inl err
           | Inr _ \<Rightarrow> (case validate_subject P e of Inl err \<Rightarrow> Inl err
                       | Inr _ \<Rightarrow> validate_rest e)))))))"

definition event_Verify :: "platform \<Rightarrow> Event \<Rightarrow> bytes \<Rightarrow> group_error + unit" where
  "event_Verify P e groupRootPubKey =
     (case event_Validate P e of Inl err \<Rightarrow> Inl err
      | Inr _ \<Rightarrow> (case event_signingBytes e of Inl err \<Rightarrow> Inl err
        | Inr buf \<Rightarrow> (case EventSigner e of
            None \<Rightarrow> check (ed25519_verify P groupRootPubKey buf (Signature e)) EventSignatureFailed (Inr ())
          | Some s \<Rightarrow> (case signer_verify P (Some s) of Inl err \<Rightarrow> Inl err
              | Inr _ \<Rightarrow> check (ed25519_verify P (dc_DevicePubKey (s_DeviceCert s)) buf (Signature e))
                           EventSignatureFailed (Inr ())))))"

definition canonical_field :: "platform \<Rightarrow> string \<Rightarrow> string \<Rightarrow> group_error + unit" where
  "canonical_field P field ident =
     (case Normalize P ident of Inl err \<Rightarrow> Inl (GroupAddressError err)
      | Inr n \<Rightarrow> check (n = ident) (NotCanonical field) (Inr ()))"

definition canonicalIDs :: "platform \<Rightarrow> Event \<Rightarrow> group_error + unit" where
  "canonicalIDs P e =
     (case canonical_field P ''group id'' (GroupID e) of Inl err \<Rightarrow> Inl err
      | Inr _ \<Rightarrow> if Type e \<in> {EventGenesis, EventMemberAdd, EventRoleGrant, EventJoinAccept}
                 then canonical_field P ''subject'' (Subject e) else Inr ())"

definition sign :: "platform \<Rightarrow> Event \<Rightarrow> bytes \<Rightarrow> Signer option \<Rightarrow> group_error + Event" where
  "sign P e0 priv signer =
     (let e = e0\<lparr>EventSigner := signer, Signature := replicate signature_size (CHR 0x00)\<rparr> in
      case event_Validate P e of Inl err \<Rightarrow> Inl err
      | Inr _ \<Rightarrow> (case canonicalIDs P e of Inl err \<Rightarrow> Inl err
        | Inr _ \<Rightarrow> (case event_signingBytes e of Inl err \<Rightarrow> Inl err
          | Inr buf \<Rightarrow> Inr (e\<lparr>Signature := ed25519_sign P priv buf\<rparr>))))"

definition SignRoot :: "platform \<Rightarrow> Event \<Rightarrow> bytes \<Rightarrow> group_error + Event" where
  "SignRoot P e groupRootPriv =
     check (ruleFor (Type e) \<noteq> signedByDevice) NotSignedByRoot (sign P e groupRootPriv None)"

definition SignDevice :: "platform \<Rightarrow> Event \<Rightarrow> Signer \<Rightarrow> bytes \<Rightarrow> group_error + Event" where
  "SignDevice P e signer devicePriv =
     check (ruleFor (Type e) \<noteq> signedByRoot) MustBeSignedByRoot (sign P e devicePriv (Some signer))"

lemma check_Inr [simp]: "check ok err k = Inr x \<longleftrightarrow> ok \<and> k = Inr x"
  by (simp add: check_def)

section \<open>What an event signature covers\<close>

definition event_body :: "Event \<Rightarrow> Event" where
  "event_body e = e\<lparr>EventSigner := None, Signature := []\<rparr>"

definition event_fits :: "Event \<Rightarrow> bool" where
  "event_fits e \<longleftrightarrow> fits16 (GroupID e) \<and> fits16 (Subject e) \<and> fits16 (SubjectServer e)
     \<and> rfc3339_range (IssuedAt e)"

text \<open>What \<open>Validate\<close> guarantees about the fields a type does not sign, and their bounds.\<close>

definition event_shape :: "Event \<Rightarrow> bool" where
  "event_shape e \<longleftrightarrow> domainTags (Type e) \<noteq> None \<and> whole_second (IssuedAt e) \<and> length (Signature e) = 64
     \<and> (if Type e = EventGenesis then length (RootPubKey e) = 32 \<and> length (Nonce e) = 16
        else RootPubKey e = [] \<and> Nonce e = [])
     \<and> (\<not> wantSubject (wantedFields (Type e)) \<longrightarrow> Subject e = [])
     \<and> (\<not> wantServer (wantedFields (Type e)) \<longrightarrow> SubjectServer e = [])
     \<and> (if wantRole (wantedFields (Type e)) then grantable (EventRole e) else EventRole e = 0)
     \<and> (if Type e = EventMeta then length (Name e) \<le> 128 \<and> length (Topic e) \<le> 512
        else Name e = [] \<and> Topic e = [])"

lemma event_Validate_shape: "event_Validate P e = Inr () \<Longrightarrow> event_shape e"
  by (cases "Type e")
    (simp_all add: event_Validate_def event_shape_def validate_genesis_def validate_subject_def
      validate_rest_def Let_def truncate_second_id wantedFields_def split: sum.splits)

lemma domainTags_inject: "domainTags t = domainTags t' \<Longrightarrow> domainTags t \<noteq> None \<Longrightarrow> t = t'"
  by (cases t; cases t') (simp_all add: domainTags_def)

lemma domainTags_fits: "domainTags t = Some a \<Longrightarrow> fits16 a"
  by (cases t) (auto simp: domainTags_def fits16_def)

definition event_fields :: "Event \<Rightarrow> bytes" where
  "event_fields e = (case Type e of
               EventGenesis \<Rightarrow> RootPubKey e @ Nonce e @ write_length_prefixed (Subject e)
                                @ write_length_prefixed (SubjectServer e)
             | EventRoleGrant \<Rightarrow> char_of (EventRole e) # write_length_prefixed (Subject e)
             | EventRoleRevoke \<Rightarrow> char_of (EventRole e) # write_length_prefixed (Subject e)
             | EventMemberAdd \<Rightarrow> write_length_prefixed (Subject e) @ write_length_prefixed (SubjectServer e)
             | EventMemberRemove \<Rightarrow> write_length_prefixed (Subject e)
             | EventJoinAccept \<Rightarrow> write_length_prefixed (Subject e)
             | EventLeave \<Rightarrow> write_length_prefixed (Subject e)
             | EventMeta \<Rightarrow> write_length_prefixed (Name e) @ write_length_prefixed (Topic e)
             | EventDissolve \<Rightarrow> []
             | EventOther _ \<Rightarrow> [])"

lemma event_signingBytes_Inr:
  "event_signingBytes e = Inr b \<longleftrightarrow> (\<exists>tag. domainTags (Type e) = Some tag \<and>
     b = write_length_prefixed tag @ write_length_prefixed (GroupID e) @ event_fields e
       @ write_length_prefixed (rfc3339 (IssuedAt e)))"
  by (auto simp: event_signingBytes_def event_fields_def split: option.splits)

lemma event_fields_cancel:
  assumes v: "event_shape e" "event_shape e'" and f: "event_fits e" "event_fits e'"
    and ty: "Type e' = Type e" and eq: "event_fields e @ r = event_fields e' @ r'"
  shows "RootPubKey e = RootPubKey e'" "Nonce e = Nonce e'" "Subject e = Subject e'"
    "SubjectServer e = SubjectServer e'" "EventRole e = EventRole e'" "Name e = Name e'"
    "Topic e = Topic e'" "r = r'"
proof -
  have fit: "fits16 (Subject e)" "fits16 (Subject e')" "fits16 (SubjectServer e)" "fits16 (SubjectServer e')"
    using f by (auto simp: event_fits_def)
  have meta: "fits16 (Name e)" "fits16 (Name e')" "fits16 (Topic e)" "fits16 (Topic e')"
    using v by (auto simp: event_shape_def fits16_def split: if_splits)
  have role: "k mod 256 = l mod 256 \<longleftrightarrow> k = l" if "grantable k" "grantable l" for k l :: nat
    using that by (auto simp: grantable_def)
  note can = lp.cancel_iff [OF fit(1,2)] lp.cancel_iff [OF fit(3,4)] lp.cancel_iff [OF meta(1,2)]
    lp.cancel_iff [OF meta(3,4)]
  have "RootPubKey e = RootPubKey e' \<and> Nonce e = Nonce e' \<and> Subject e = Subject e' \<and>
    SubjectServer e = SubjectServer e' \<and> EventRole e = EventRole e' \<and> Name e = Name e' \<and>
    Topic e = Topic e' \<and> r = r'"
    using eq v unfolding event_fields_def event_shape_def ty wantedFields_def
    by (cases "Type e") (simp_all add: can role)
  then show "RootPubKey e = RootPubKey e'" "Nonce e = Nonce e'" "Subject e = Subject e'"
    "SubjectServer e = SubjectServer e'" "EventRole e = EventRole e'" "Name e = Name e'"
    "Topic e = Topic e'" "r = r'" by simp_all
qed

lemma event_bytes_inject:
  assumes b: "event_signingBytes e = Inr b" "event_signingBytes e' = Inr b"
    and v: "event_shape e" "event_shape e'" and f: "event_fits e" "event_fits e'"
  shows "event_body e = event_body e'"
proof -
  obtain tag tag' where tags: "domainTags (Type e) = Some tag" "domainTags (Type e') = Some tag'"
    and eq: "write_length_prefixed tag @ write_length_prefixed (GroupID e) @ event_fields e
       @ write_length_prefixed (rfc3339 (IssuedAt e)) =
      write_length_prefixed tag' @ write_length_prefixed (GroupID e') @ event_fields e'
       @ write_length_prefixed (rfc3339 (IssuedAt e'))"
    using b by (auto simp: event_signingBytes_Inr)
  note lp1 = lp_lp.pair_cancel [OF domainTags_fits [OF tags(1)] domainTags_fits [OF tags(2)] _ _ eq]
  have g: "fits16 (GroupID e)" "fits16 (GroupID e')" using f by (auto simp: event_fits_def)
  have ty: "Type e' = Type e" by (rule domainTags_inject) (simp_all add: tags lp1 [OF g])
  note rest = event_fields_cancel [OF v f ty, of "write_length_prefixed (rfc3339 (IssuedAt e))"
      "write_length_prefixed (rfc3339 (IssuedAt e'))"]
  have "rfc3339 (IssuedAt e) = rfc3339 (IssuedAt e')"
    using rest lp1 [OF g] lp.enc_inject [OF fits16_rfc3339 fits16_rfc3339] by blast
  then have "IssuedAt e = IssuedAt e'"
    using v f rfc3339_inject by (auto simp: event_fits_def event_shape_def)
  with rest lp1 [OF g] ty show ?thesis by (simp add: event_body_def)
qed

lemma event_Validate_signature:
  assumes "length s = 64" "length (Signature e) = 64"
  shows "event_Validate P (e\<lparr>Signature := s\<rparr>) = event_Validate P e"
proof -
  have g: "validate_genesis P (e\<lparr>Signature := s\<rparr>) = validate_genesis P e"
    "validate_subject P (e\<lparr>Signature := s\<rparr>) = validate_subject P e"
    "validate_rest (e\<lparr>Signature := s\<rparr>) = validate_rest e"
    by (simp_all add: validate_genesis_def validate_subject_def validate_rest_def Let_def
        cong: sum.case_cong option.case_cong)
  show ?thesis using assms by (simp add: event_Validate_def g cong: sum.case_cong)
qed

lemma event_signingBytes_signature [simp]:
  "event_signingBytes (e\<lparr>Signature := s\<rparr>) = event_signingBytes e"
  "event_signingBytes (e\<lparr>EventSigner := so\<rparr>) = event_signingBytes e"
  by (simp_all add: event_signingBytes_def cong: option.case_cong EventType.case_cong)

lemma sign_result:
  assumes "ed25519_correct P" "sign P e priv so = Inr e'"
  shows "event_Validate P e' = Inr () \<and> EventSigner e' = so \<and> canonicalIDs P e' = Inr () \<and> (\<exists>buf. event_signingBytes e' = Inr buf
    \<and> ed25519_verify P (ed25519_public P priv) buf (Signature e'))"
proof -
  define e0 where "e0 = e\<lparr>EventSigner := so, Signature := replicate 64 (CHR 0x00)\<rparr>"
  obtain buf where s: "event_Validate P e0 = Inr ()" "event_signingBytes e0 = Inr buf"
    "canonicalIDs P e0 = Inr ()" "e' = e0\<lparr>Signature := ed25519_sign P priv buf\<rparr>"
    using assms(2) by (auto simp: sign_def Let_def e0_def split: sum.splits)
  have l: "length (ed25519_sign P priv buf) = 64" "ed25519_verify P (ed25519_public P priv) buf (ed25519_sign P priv buf)"
    using assms(1) by (auto simp: ed25519_correct_def)
  have "event_Validate P e' = Inr ()"
    using s(1,4) l(1) event_Validate_signature [of "ed25519_sign P priv buf" e0 P] by (simp add: e0_def)
  moreover have "canonicalIDs P e' = Inr ()" using s(3,4) by (simp add: canonicalIDs_def cong: sum.case_cong if_cong)
  ultimately show ?thesis using s l by (simp add: e0_def)
qed

lemma event_Verify_Inr:
  "event_Verify P e k = Inr () \<longleftrightarrow> event_Validate P e = Inr () \<and> (\<exists>buf. event_signingBytes e = Inr buf \<and>
     (case EventSigner e of None \<Rightarrow> ed25519_verify P k buf (Signature e)
      | Some s \<Rightarrow> signer_verify P (Some s) = Inr () \<and> ed25519_verify P (dc_DevicePubKey (s_DeviceCert s)) buf (Signature e)))"
  by (auto simp: event_Verify_def split: sum.splits option.splits)

section \<open>Properties\<close>

text \<open>
  an event signed with the group root key verifies under that key's public half, and an
  event signed by a device whose chain is in order verifies under any group root key: the
  signing functions produce exactly what admission accepts.
\<close>

theorem signed_event_verifies:
  assumes "ed25519_correct P"
  shows "(\<forall>e'. SignRoot P e priv = Inr e' \<longrightarrow> event_Verify P e' (ed25519_public P priv) = Inr ())
    \<and> (\<forall>e'. SignDevice P e signer priv = Inr e' \<and> signer_verify P (Some signer) = Inr ()
         \<and> dc_DevicePubKey (s_DeviceCert signer) = ed25519_public P priv
         \<longrightarrow> event_Verify P e' k = Inr ())"
  using sign_result [OF assms, of e priv]
  by (fastforce simp: SignRoot_def SignDevice_def event_Verify_Inr)

text \<open>
  C35: the signing bytes of an event determine everything in it except the signer block and the
  signature: two well-shaped events with the same signing bytes are the same statement.
\<close>

theorem event_signature_unambiguous:
  assumes "event_Validate P e = Inr ()" and "event_Validate P e' = Inr ()"
    and "event_fits e" and "event_fits e'"
    and "event_signingBytes e = event_signingBytes e'"
  shows "event_body e = event_body e'"
proof -
  obtain b where "event_signingBytes e = Inr b"
    using event_Validate_shape [OF assms(1)] by (auto simp: event_signingBytes_Inr event_shape_def)
  then show ?thesis
    using event_bytes_inject [of e b e'] assms by (simp add: event_Validate_shape)
qed
text \<open>
  the signer block is outside the signed bytes and outside the event id: any other account
  whose own certificate names the same device key can be put in its place, and the event still
  verifies, under the same id, as an act of that other account.
\<close>

theorem signer_block_substitutable:
  assumes "event_Verify P e k = Inr ()" and "EventSigner e = Some s"
    and "Type e \<notin> {EventJoinAccept, EventLeave}"
    and "signer_verify P (Some s') = Inr ()"
    and "dc_DevicePubKey (s_DeviceCert s') = dc_DevicePubKey (s_DeviceCert s)"
  shows "event_Verify P (e\<lparr>EventSigner := Some s'\<rparr>) k = Inr ()
    \<and> event_ID P (e\<lparr>EventSigner := Some s'\<rparr>) = event_ID P e"
proof -
  have "validate_genesis P (e\<lparr>EventSigner := Some s'\<rparr>) = validate_genesis P e"
    "validate_subject P (e\<lparr>EventSigner := Some s'\<rparr>) = validate_subject P e"
    "validate_rest (e\<lparr>EventSigner := Some s'\<rparr>) = validate_rest e"
    using assms(2,3) by (simp_all add: validate_genesis_def validate_subject_def validate_rest_def Let_def
        cong: sum.case_cong)
  then have "event_Validate P (e\<lparr>EventSigner := Some s'\<rparr>) = event_Validate P e"
    using assms(2) by (simp add: event_Validate_def cong: sum.case_cong)
  then show ?thesis
    using assms by (auto simp: event_Verify_Inr event_ID_def cong: sum.case_cong)
qed

section \<open>Witnesses\<close>

definition sample_gid :: string where
  "sample_gid = ''pwdsk6urvv5s8ymg2xxjc''"

definition blank_event :: Event where
  "blank_event = \<lparr>Type = EventDissolve, GroupID = sample_gid, IssuedAt = 0, RootPubKey = [], Nonce = [],
     Subject = [], SubjectServer = [], EventRole = 0, Name = [], Topic = [], EventSigner = None,
     Signature = []\<rparr>"

definition root_signed :: "Event \<Rightarrow> Event" where
  "root_signed e = e\<lparr>Signature :=
     ed25519_sign sample_platform ''sample root key'' (projr (event_signingBytes e))\<rparr>"

definition sample_genesis :: Event where
  "sample_genesis = root_signed (blank_event\<lparr>Type := EventGenesis, RootPubKey := sample_key,
     Nonce := replicate 16 (CHR ''n''), Subject := sample_id, SubjectServer := ''s''\<rparr>)"

definition sample_dissolve :: Event where
  "sample_dissolve = root_signed (blank_event\<lparr>IssuedAt := 20 * second\<rparr>)"

lemma sample_gid_facts:
  "Normalize sample_platform sample_gid = Inr sample_gid"
  "VerifyID sample_platform sample_gid sample_key = Inr True"
proof -
  have c: "canonical_id sample_gid"
    using DeriveIDVersion_canonical(1) [OF sample_platform_laws(1) sample_id_derived(2)]
    by (simp add: sample_gid_def)
  show n: "Normalize sample_platform sample_gid = Inr sample_gid" by (rule Normalize_canonical [OF c])
  show "VerifyID sample_platform sample_gid sample_key = Inr True"
    using sample_id_derived(2) by (simp add: VerifyID_def VerifyVersion_def n) (simp add: sample_gid_def)
qed

lemmas sample_event_simps = blank_event_def root_signed_def sign_def event_Validate_def check_def
  domainTags_def zero_time_def second_def truncate_second_def ruleFor_def validate_genesis_def
  validate_subject_def validate_rest_def wantedFields_def canonicalIDs_def canonical_field_def
  event_signingBytes_def sample_gid_facts sample_id_normal Let_def

lemma SignRoot_samples:
  "\<exists>e. SignRoot sample_platform e ''sample root key'' = Inr sample_genesis"
  "\<exists>e. SignRoot sample_platform e ''sample root key'' = Inr sample_dissolve"
proof -
  have "SignRoot sample_platform (blank_event\<lparr>Type := EventGenesis, RootPubKey := sample_key,
     Nonce := replicate 16 (CHR ''n''), Subject := sample_id, SubjectServer := ''s''\<rparr>) ''sample root key''
     = Inr sample_genesis"
    by (simp add: SignRoot_def sample_genesis_def sample_event_simps) (simp add: sample_key_def pad_def)
  then show "\<exists>e. SignRoot sample_platform e ''sample root key'' = Inr sample_genesis" by blast
  have "SignRoot sample_platform (blank_event\<lparr>IssuedAt := 20 * second\<rparr>) ''sample root key''
     = Inr sample_dissolve"
    by (simp add: SignRoot_def sample_dissolve_def sample_event_simps)
  then show "\<exists>e. SignRoot sample_platform e ''sample root key'' = Inr sample_dissolve" by blast
qed

lemma sample_public: "ed25519_public sample_platform ''sample root key'' = sample_key"
  by (simp add: sample_platform_def sample_key_def)

lemma sample_events_verify:
  "event_Verify sample_platform sample_genesis sample_key = Inr ()"
  "event_Verify sample_platform sample_dissolve sample_key = Inr ()"
proof -
  have v: "event_Verify sample_platform e' sample_key = Inr ()"
    if "SignRoot sample_platform e ''sample root key'' = Inr e'" for e e'
    using that sign_result [OF sample_platform_laws(2), of e "''sample root key''" None e']
    by (auto simp: SignRoot_def event_Verify_Inr sample_public)
  then show "event_Verify sample_platform sample_genesis sample_key = Inr ()"
    "event_Verify sample_platform sample_dissolve sample_key = Inr ()" using SignRoot_samples by blast+
qed

theorem signed_event_verifies_witness:
  "event_Verify sample_platform sample_genesis (ed25519_public sample_platform ''sample root key'') = Inr ()"
  using signed_event_verifies [OF sample_platform_laws(2)] SignRoot_samples(1) by blast

theorem event_signature_unambiguous_witness:
  "event_body sample_dissolve = event_body (sample_dissolve\<lparr>Signature := replicate 64 (CHR ''x'')\<rparr>)"
proof (rule event_signature_unambiguous)
  show v: "event_Validate sample_platform sample_dissolve = Inr ()"
    using sample_events_verify(2) by (simp add: event_Verify_Inr)
  show "event_Validate sample_platform (sample_dissolve\<lparr>Signature := replicate 64 (CHR ''x'')\<rparr>) = Inr ()"
    using v event_Validate_shape [OF v]
    by (subst event_Validate_signature) (simp_all add: event_shape_def)
  show "event_signingBytes sample_dissolve = event_signingBytes (sample_dissolve\<lparr>Signature := replicate 64 (CHR ''x'')\<rparr>)"
    by (simp only: event_signingBytes_signature)
qed (simp_all add: sample_dissolve_def root_signed_def blank_event_def event_fits_def fits16_def
    sample_gid_def rfc3339_range_def unix_seconds_def second_def)

text \<open>A second account whose certificate names the first account's device key.\<close>

definition signer_of :: "string \<Rightarrow> string \<Rightarrow> Signer" where
  "signer_of root acc = \<lparr>s_AccountID = acc, s_RootPubKey = pad 32 root, s_DeviceCert =
     projr (SignDeviceCertificate sample_platform acc ''0011223344556677'' (pad 32 ''device'') 0 root)\<rparr>"

lemma other_id_derived:
  "DeriveIDVersion sample_platform 0 (pad 32 ''other root key'') = Inr ''qda6xsetjypex7mhvzy57''"
  by code_simp

lemma sample_device_id:
  "decodeDeviceID ''0011223344556677'' = Inr (map char_of [0, 0x11, 0x22, 0x33, 0x44, 0x55, 0x66, 0x77 :: nat])"
  by code_simp

lemma signer_of_verifies:
  assumes "DeriveIDVersion sample_platform 0 (pad 32 root) = Inr acc"
  shows "signer_verify sample_platform (Some (signer_of root acc)) = Inr ()"
    "dc_DevicePubKey (s_DeviceCert (signer_of root acc)) = pad 32 ''device''"
proof -
  obtain c where c: "SignDeviceCertificate sample_platform acc ''0011223344556677'' (pad 32 ''device'') 0 root = Inr c"
    by (simp add: SignDeviceCertificate_def device_cert_signingBytes_def sample_device_id pad_def)
  then have f: "dc_AccountID c = acc" "dc_DevicePubKey c = pad 32 ''device''"
    by (auto simp: SignDeviceCertificate_def Let_def split: sum.splits)
  have p: "ed25519_public sample_platform root = pad 32 root" by (simp add: sample_platform_def)
  have "Normalize sample_platform acc = Inr acc"
    by (rule Normalize_canonical [OF DeriveIDVersion_canonical(1) [OF sample_platform_laws(1) assms]])
  then show "signer_verify sample_platform (Some (signer_of root acc)) = Inr ()"
    using device_cert_sign_verify [OF sample_platform_laws(2) c] f
    by (simp add: signer_verify_def signer_of_def c Verify_def VerifyVersion_def assms p)
  show "dc_DevicePubKey (s_DeviceCert (signer_of root acc)) = pad 32 ''device''"
    by (simp add: signer_of_def c f)
qed

definition sample_meta :: Event where
  "sample_meta = (let e = blank_event\<lparr>Type := EventMeta, Name := ''n'',
       EventSigner := Some (signer_of ''sample root key'' sample_id)\<rparr>
     in e\<lparr>Signature := ed25519_sign sample_platform ''device'' (projr (event_signingBytes e))\<rparr>)"

lemma sample_meta_verifies: "event_Verify sample_platform sample_meta sample_key = Inr ()"
proof -
  have d: "DeriveIDVersion sample_platform 0 (pad 32 ''sample root key'') = Inr sample_id"
    using sample_id_derived(1) by (simp add: sample_key_def)
  have "sign sample_platform (blank_event\<lparr>Type := EventMeta, Name := ''n''\<rparr>) ''device''
      (Some (signer_of ''sample root key'' sample_id)) = Inr sample_meta"
    by (simp add: sample_meta_def sample_event_simps)
  note s = sign_result [OF sample_platform_laws(2) this]
  have "ed25519_public sample_platform ''device'' = pad 32 ''device''" by (simp add: sample_platform_def)
  with s signer_of_verifies [OF d] show ?thesis by (auto simp: event_Verify_Inr)
qed

theorem signer_block_substitutable_witness:
  "event_Verify sample_platform
     (sample_meta\<lparr>EventSigner := Some (signer_of ''other root key'' ''qda6xsetjypex7mhvzy57'')\<rparr>) sample_key = Inr ()"
proof -
  have d: "DeriveIDVersion sample_platform 0 (pad 32 ''sample root key'') = Inr sample_id"
    using sample_id_derived(1) by (simp add: sample_key_def)
  have f: "EventSigner sample_meta = Some (signer_of ''sample root key'' sample_id)" "Type sample_meta = EventMeta"
    by (simp_all add: sample_meta_def blank_event_def Let_def)
  show ?thesis
    by (rule signer_block_substitutable [OF sample_meta_verifies f(1), THEN conjunct1])
      (simp_all add: f signer_of_verifies [OF d] signer_of_verifies [OF other_id_derived])
qed

end
