(* ===== verification/Group_State.thy ===== *)
theory Group_State
  imports Group_Event "HOL-Library.Product_Lexorder"
begin

text \<open>
  \<open>pkg/group/state.go\<close>: the grow-only set of signed events a member holds of a group, the
  admission of events into it, and the replay that turns the set into the current membership.
  The Go map from event id to event is an association list; the theorems show that its order
  never matters.
\<close>

section \<open>The fact set\<close>

record State =
  groupID :: string
  rootPubKey :: bytes
  events :: "(string \<times> Event) list"

definition RejectNoGenesis :: string where
  "RejectNoGenesis = ''no genesis event yet''"

datatype reason = NilEvent | ReasonError group_error | DifferentGroupGenesis | ReasonNoGenesis | DifferentGroup

record Rejection =
  Index :: nat
  RejectedID :: string
  Reason :: reason

record ApplyResult =
  Applied :: "string list"
  Known :: "string list"
  Rejected :: "Rejection list"

definition NewState :: State where
  "NewState = \<lparr>groupID = [], rootPubKey = [], events = []\<rparr>"

definition state_ids :: "State \<Rightarrow> string list" where
  "state_ids s = sort (map fst (events s))"

definition Events :: "State \<Rightarrow> Event list" where
  "Events s = map (\<lambda>i. the (assoc_get (events s) i)) (state_ids s)"

definition Genesis :: "State \<Rightarrow> Event option" where
  "Genesis s = find (\<lambda>e. Type e = EventGenesis) (map snd (events s))"

section \<open>Admission\<close>

definition admit_reject :: "platform \<Rightarrow> nat \<Rightarrow> Event \<Rightarrow> reason \<Rightarrow> ApplyResult \<Rightarrow> ApplyResult" where
  "admit_reject P index e r result =
     result\<lparr>Rejected := Rejected result @
       [\<lparr>Index = index, RejectedID = (case event_ID P e of Inr i \<Rightarrow> i | Inl _ \<Rightarrow> []), Reason = r\<rparr>]\<rparr>"

text \<open>The checks before an event is stored: the reason to reject it, or \<open>None\<close>.\<close>

definition admit_check :: "platform \<Rightarrow> State \<Rightarrow> Event \<Rightarrow> reason option" where
  "admit_check P s e =
     (if Type e = EventGenesis then
        (case event_Verify P e (RootPubKey e) of Inl err \<Rightarrow> Some (ReasonError err)
         | Inr _ \<Rightarrow> if groupID s \<noteq> [] \<and> groupID s \<noteq> GroupID e then Some DifferentGroupGenesis else None)
      else if groupID s = [] then Some ReasonNoGenesis
      else if GroupID e \<noteq> groupID s then Some DifferentGroup
      else (case event_Verify P e (rootPubKey s) of Inl err \<Rightarrow> Some (ReasonError err) | Inr _ \<Rightarrow> None))"

definition admit :: "platform \<Rightarrow> nat \<Rightarrow> Event \<Rightarrow> State \<times> ApplyResult \<Rightarrow> State \<times> ApplyResult" where
  "admit P index e sr =
     (case sr of (s, result) \<Rightarrow>
        (case admit_check P s e of Some r \<Rightarrow> (s, admit_reject P index e r result)
         | None \<Rightarrow>
            (case event_ID P e of Inl err \<Rightarrow> (s, admit_reject P index e (ReasonError err) result)
             | Inr eid \<Rightarrow>
                if assoc_get (events s) eid \<noteq> None then (s, result\<lparr>Known := Known result @ [eid]\<rparr>)
                else let s' = (if Type e = EventGenesis
                               then s\<lparr>groupID := GroupID e, rootPubKey := RootPubKey e\<rparr> else s)
                     in (s'\<lparr>events := assoc_put (events s') eid e\<rparr>,
                         result\<lparr>Applied := Applied result @ [eid]\<rparr>))))"

text \<open>\<open>Apply\<close> takes a batch whose entries may be nil and walks it twice, genesis events first.\<close>

definition apply_genesis :: "platform \<Rightarrow> nat \<times> Event option \<Rightarrow> State \<times> ApplyResult \<Rightarrow> State \<times> ApplyResult" where
  "apply_genesis P ie sr = (case snd ie of None \<Rightarrow> sr
     | Some e \<Rightarrow> if Type e \<noteq> EventGenesis then sr else admit P (fst ie) e sr)"

definition apply_other :: "platform \<Rightarrow> nat \<times> Event option \<Rightarrow> State \<times> ApplyResult \<Rightarrow> State \<times> ApplyResult" where
  "apply_other P ie sr = (case snd ie of
       None \<Rightarrow> (fst sr, (snd sr)\<lparr>Rejected := Rejected (snd sr)
                   @ [\<lparr>Index = fst ie, RejectedID = [], Reason = NilEvent\<rparr>]\<rparr>)
     | Some e \<Rightarrow> if Type e = EventGenesis then sr else admit P (fst ie) e sr)"

definition Apply :: "platform \<Rightarrow> State \<Rightarrow> Event option list \<Rightarrow> State \<times> ApplyResult" where
  "Apply P s batch =
     (let ies = zip [0..<length batch] batch;
          r0 = \<lparr>Applied = [], Known = [], Rejected = []\<rparr>
      in fold (apply_other P) ies (fold (apply_genesis P) ies (s, r0)))"

definition StateHash :: "platform \<Rightarrow> State \<Rightarrow> string" where
  "StateHash P s = hex_encode (sha256 P
     (concat (map (\<lambda>i. case hex_decode i of Some b \<Rightarrow> b | None \<Rightarrow> []) (state_ids s))))"

section \<open>The replay\<close>

record Member =
  AccountID :: string
  MemberServer :: string
  MemberRole :: Role
  RoleName :: string
  AddedAt :: time
  Joined :: bool

record Resolved =
  ResGroupID :: string
  Founder :: string
  CreatedAt :: time
  ResName :: string
  ResTopic :: string
  Members :: "Member list"
  Dissolved :: bool
  DissolvedAt :: time
  ResStateHash :: string

definition RoleOf :: "Resolved \<Rightarrow> string \<Rightarrow> Role" where
  "RoleOf r accountID = (case find (\<lambda>m. AccountID m = accountID) (Members r) of
     Some m \<Rightarrow> MemberRole m | None \<Rightarrow> RoleNone)"

record member =
  m_server :: string
  m_addedAt :: time
  m_joined :: bool
  m_founder :: bool
  m_granted :: "(Role \<times> bool) list"

definition rank :: "member \<Rightarrow> Role" where
  "rank m = (if m_founder m then RoleFounder
     else fold (\<lambda>(role, ok) best. if ok \<and> best < role then role else best) (m_granted m) RoleMember)"

record fold_state =
  out :: Resolved
  members :: "(string \<times> member) list"

definition rankOf :: "fold_state \<Rightarrow> string \<Rightarrow> Role" where
  "rankOf f accountID = (case assoc_get (members f) accountID of Some m \<Rightarrow> rank m | None \<Rightarrow> RoleNone)"

definition actorRank :: "fold_state \<Rightarrow> Event \<Rightarrow> Role" where
  "actorRank f e = (case EventSigner e of None \<Rightarrow> RoleFounder | Some s \<Rightarrow> rankOf f (s_AccountID s))"

definition has_granted :: "member \<Rightarrow> Role \<Rightarrow> bool" where
  "has_granted m r = (assoc_get (m_granted m) r = Some True)"

definition put_member :: "fold_state \<Rightarrow> string \<Rightarrow> member \<Rightarrow> fold_state" where
  "put_member f k m = f\<lparr>members := assoc_put (members f) k m\<rparr>"

definition del_member :: "fold_state \<Rightarrow> string \<Rightarrow> fold_state" where
  "del_member f k = f\<lparr>members := assoc_del (members f) k\<rparr>"

definition set_granted :: "member \<Rightarrow> Role \<Rightarrow> bool \<Rightarrow> member" where
  "set_granted m r b = m\<lparr>m_granted := assoc_put (m_granted m) r b\<rparr>"

text \<open>\<open>None\<close> is \<open>return false\<close> with the state untouched, \<open>Some f'\<close> is \<open>return true\<close>.\<close>

definition guard :: "bool \<Rightarrow> 'a \<Rightarrow> 'a option" where
  "guard b x = (if b then Some x else None)"

definition apply_event :: "fold_state \<Rightarrow> Event \<Rightarrow> fold_state option" where
  "apply_event f e =
     (if Dissolved (out f) \<and> \<not> IssuedAt e < DissolvedAt (out f) then None
      else if Type e \<noteq> EventGenesis \<and> (Founder (out f) = [] \<or> IssuedAt e < CreatedAt (out f)) then None
      else case Type e of
        EventGenesis \<Rightarrow> guard (Founder (out f) = [])
          (put_member (f\<lparr>out := (out f)\<lparr>Founder := Subject e, CreatedAt := IssuedAt e\<rparr>\<rparr>) (Subject e)
             \<lparr>m_server = SubjectServer e, m_addedAt = IssuedAt e, m_joined = True, m_founder = True,
              m_granted = []\<rparr>)
      | EventMemberAdd \<Rightarrow> guard (RoleModerator \<le> actorRank f e \<and> assoc_get (members f) (Subject e) = None)
          (put_member f (Subject e)
             \<lparr>m_server = SubjectServer e, m_addedAt = IssuedAt e, m_joined = False, m_founder = False,
              m_granted = []\<rparr>)
      | EventJoinAccept \<Rightarrow> (case assoc_get (members f) (Subject e) of None \<Rightarrow> None
          | Some m \<Rightarrow> guard (\<not> m_joined m) (put_member f (Subject e) (m\<lparr>m_joined := True\<rparr>)))
      | EventMemberRemove \<Rightarrow> (case assoc_get (members f) (Subject e) of None \<Rightarrow> None
          | Some target \<Rightarrow> guard (RoleModerator \<le> actorRank f e \<and> rank target < actorRank f e)
              (del_member f (Subject e)))
      | EventLeave \<Rightarrow> (case assoc_get (members f) (Subject e) of None \<Rightarrow> None
          | Some target \<Rightarrow> guard (\<not> m_founder target) (del_member f (Subject e)))
      | EventRoleGrant \<Rightarrow> if actorRank f e \<le> EventRole e then None
          else (case assoc_get (members f) (Subject e) of None \<Rightarrow> None
          | Some m \<Rightarrow> guard (\<not> has_granted m (EventRole e))
              (put_member f (Subject e) (set_granted m (EventRole e) True)))
      | EventRoleRevoke \<Rightarrow> if actorRank f e \<le> EventRole e then None
          else (case assoc_get (members f) (Subject e) of None \<Rightarrow> None
          | Some m \<Rightarrow> guard (has_granted m (EventRole e))
              (put_member f (Subject e) (set_granted m (EventRole e) False)))
      | EventMeta \<Rightarrow> guard (RoleModerator \<le> actorRank f e
              \<and> \<not> (ResName (out f) = Name e \<and> ResTopic (out f) = Topic e))
          (f\<lparr>out := (out f)\<lparr>ResName := Name e, ResTopic := Topic e\<rparr>\<rparr>)
      | EventDissolve \<Rightarrow> Some (f\<lparr>out := (out f)\<lparr>Dissolved := True, DissolvedAt := IssuedAt e\<rparr>\<rparr>)
      | EventOther _ \<Rightarrow> None)"

text \<open>One pass over the pending events of a bucket: the new state and the events that stalled.\<close>

fun bucket_pass :: "fold_state \<Rightarrow> Event list \<Rightarrow> fold_state \<times> Event list" where
  "bucket_pass f [] = (f, [])"
| "bucket_pass f (e # es) = (case apply_event f e of
      Some f' \<Rightarrow> bucket_pass f' es
    | None \<Rightarrow> (fst (bucket_pass f es), e # snd (bucket_pass f es)))"

lemma bucket_pass_length: "length (snd (bucket_pass f es)) \<le> length es"
  by (induction f es rule: bucket_pass.induct) (auto split: option.splits intro: le_SucI)

function resolve_bucket :: "fold_state \<Rightarrow> Event list \<Rightarrow> fold_state" where
  "resolve_bucket f pending =
     (if pending = [] then f
      else if length (snd (bucket_pass f pending)) = length pending then fst (bucket_pass f pending)
      else resolve_bucket (fst (bucket_pass f pending)) (snd (bucket_pass f pending)))"
  by pat_completeness auto
termination
proof (relation "measure (\<lambda>(f, es). length es)", simp)
  fix f :: fold_state and pending :: "Event list"
  assume "length (snd (bucket_pass f pending)) \<noteq> length pending"
  then show "((fst (bucket_pass f pending), snd (bucket_pass f pending)), f, pending)
      \<in> measure (\<lambda>(f, es). length es)"
    using bucket_pass_length [of f pending] by (simp add: case_prod_beta)
qed

declare resolve_bucket.simps [simp del]

definition replay_key :: "string \<times> Event \<Rightarrow> time \<times> string" where
  "replay_key p = (IssuedAt (snd p), fst p)"

definition orderedEvents :: "State \<Rightarrow> Event list" where
  "orderedEvents s = map snd (sort_key replay_key (events s))"

function sameTimestampBuckets :: "Event list \<Rightarrow> Event list list" where
  "sameTimestampBuckets [] = []"
| "sameTimestampBuckets (e # es) =
     (e # takeWhile (\<lambda>x. IssuedAt x = IssuedAt e) es)
     # sameTimestampBuckets (dropWhile (\<lambda>x. IssuedAt x = IssuedAt e) es)"
  by pat_completeness auto
termination
  by (relation "measure length") (auto simp: le_imp_less_Suc length_dropWhile_le)

definition empty_resolved :: "platform \<Rightarrow> State \<Rightarrow> Resolved" where
  "empty_resolved P s = \<lparr>ResGroupID = groupID s, Founder = [], CreatedAt = zero_time, ResName = [],
     ResTopic = [], Members = [], Dissolved = False, DissolvedAt = zero_time,
     ResStateHash = StateHash P s\<rparr>"

definition member_view :: "string \<times> member \<Rightarrow> Member" where
  "member_view p = \<lparr>AccountID = fst p, MemberServer = m_server (snd p), MemberRole = rank (snd p),
     RoleName = role_String (rank (snd p)), AddedAt = m_addedAt (snd p), Joined = m_joined (snd p)\<rparr>"

definition replay :: "fold_state \<Rightarrow> Event list \<Rightarrow> fold_state" where
  "replay f es = foldl resolve_bucket f (sameTimestampBuckets es)"

definition Resolve :: "platform \<Rightarrow> State \<Rightarrow> Resolved" where
  "Resolve P s =
     (let f0 = \<lparr>out = empty_resolved P s, members = []\<rparr> in
      if groupID s = [] then out f0
      else let f = replay f0 (orderedEvents s)
           in (out f)\<lparr>Members := sort_key AccountID (map member_view (members f))\<rparr>)"

section \<open>The persisted form\<close>

datatype load_error = StoredEventsRejected nat reason | StoredStateWithoutGenesis

definition MarshalJSON :: "State \<Rightarrow> Event list" where
  "MarshalJSON s = Events s"

definition UnmarshalJSON :: "platform \<Rightarrow> Event option list \<Rightarrow> load_error + State" where
  "UnmarshalJSON P stored =
     (let (s, result) = Apply P NewState stored in
      if Rejected result \<noteq> [] then Inl (StoredEventsRejected (length (Rejected result)) (Reason (hd (Rejected result))))
      else if groupID s = [] then Inl StoredStateWithoutGenesis
      else Inr s)"

end
