(* ===== verification/Group_Fold.thy ===== *)
theory Group_Fold
  imports Group_State
begin

text \<open>
  The replay of \<open>pkg/group/state.go\<close>: its result depends on the set of facts only, and at every
  step authority follows rank. The locale \<open>replay_invariant\<close> carries any invariant of single
  events through the bucket fixpoint and the whole replay.
\<close>

section \<open>The order of the fact set does not matter\<close>

lemma keys_distinct_inj_on: "keys_distinct m \<Longrightarrow> inj_on fst (set m)"
  by (simp add: keys_distinct_def distinct_map)

lemma sort_key_set_unique:
  assumes "keys_distinct xs" "keys_distinct ys" "set xs = set ys" "inj_on f (set xs)"
  shows "sort_key f xs = sort_key f ys"
proof (rule map_sorted_distinct_set_unique [where f = f])
  show "inj_on f (set (sort_key f xs) \<union> set (sort_key f ys))" using assms by simp
  have "distinct xs" "distinct ys" using assms(1,2) by (auto simp: keys_distinct_def distinct_map)
  then show "distinct (map f (sort_key f xs))" "distinct (map f (sort_key f ys))"
    using assms(3,4) by (simp_all add: distinct_map)
qed (use assms in simp_all)

lemma replay_key_inj: "keys_distinct m \<Longrightarrow> inj_on replay_key (set m)"
  using keys_distinct_inj_on [of m] by (auto simp: inj_on_def replay_key_def)

lemma state_ids_unique:
  assumes "keys_distinct (events s)" "keys_distinct (events s')" "set (events s) = set (events s')"
  shows "state_ids s = state_ids s'"
proof -
  have "set (map fst (events s)) = set (map fst (events s'))" using assms(3) by simp
  with assms(1,2) show ?thesis
    unfolding state_ids_def keys_distinct_def by (metis sorted_list_of_set_sort_remdups distinct_remdups_id)
qed

definition same_facts :: "State \<Rightarrow> State \<Rightarrow> bool" where
  "same_facts s s' \<longleftrightarrow> groupID s = groupID s' \<and> keys_distinct (events s) \<and> keys_distinct (events s')
     \<and> set (events s) = set (events s')"

lemma StateHash_same_facts: "same_facts s s' \<Longrightarrow> StateHash P s = StateHash P s'"
  using state_ids_unique [of s s'] by (simp add: StateHash_def same_facts_def)

lemma orderedEvents_same_facts: "same_facts s s' \<Longrightarrow> orderedEvents s = orderedEvents s'"
  using sort_key_set_unique [of "events s" "events s'" replay_key]
  by (simp add: orderedEvents_def same_facts_def replay_key_inj)

lemma Resolve_same_facts: "same_facts s s' \<Longrightarrow> Resolve P s = Resolve P s'"
  using StateHash_same_facts [of s s' P] orderedEvents_same_facts [of s s']
  by (simp add: Resolve_def Let_def same_facts_def empty_resolved_def)

section \<open>Invariants of the replay\<close>

locale replay_invariant =
  fixes ok :: "Event \<Rightarrow> bool" and inv :: "fold_state \<Rightarrow> bool"
  assumes apply_inv: "ok e \<Longrightarrow> inv f \<Longrightarrow> apply_event f e = Some f' \<Longrightarrow> inv f'"
begin

lemma bucket_pass_inv: "list_all ok es \<Longrightarrow> inv f \<Longrightarrow> inv (fst (bucket_pass f es))"
  by (induction f es rule: bucket_pass.induct) (auto split: option.splits intro: apply_inv)

lemma resolve_bucket_inv: "list_all ok es \<Longrightarrow> inv f \<Longrightarrow> inv (resolve_bucket f es)"
proof (induction f es rule: resolve_bucket.induct)
  case (1 f es)
  have "list_all ok (snd (bucket_pass f es))"
    using 1(2) by (induction f es rule: bucket_pass.induct) (auto split: option.splits)
  with 1 show ?case by (subst resolve_bucket.simps) (simp add: bucket_pass_inv)
qed

lemma replay_inv: "list_all ok es \<Longrightarrow> inv f \<Longrightarrow> inv (replay f es)"
  unfolding replay_def
proof (induction es arbitrary: f rule: sameTimestampBuckets.induct)
  case (2 e es)
  have "list_all ok (e # takeWhile (\<lambda>x. IssuedAt x = IssuedAt e) es)"
    "list_all ok (dropWhile (\<lambda>x. IssuedAt x = IssuedAt e) es)"
    using 2(2) by (auto simp: list_all_iff dest: set_takeWhileD set_dropWhileD)
  then show ?case using 2 by (simp add: resolve_bucket_inv)
qed simp

end

definition granted_ok :: "member \<Rightarrow> bool" where
  "granted_ok m \<longleftrightarrow> keys_distinct (m_granted m) \<and> (\<forall>r \<in> fst ` set (m_granted m). r = 2 \<or> r = 3)"

text \<open>
  The authority invariant of a replay: account ids are unique, the founder is in the member
  list, nobody else carries the founder mark, and the only granted roles are moderator and admin.
\<close>

definition fold_ok :: "fold_state \<Rightarrow> bool" where
  "fold_ok f \<longleftrightarrow> keys_distinct (members f)
     \<and> (if Founder (out f) = [] then members f = [] \<and> \<not> Dissolved (out f)
        else \<exists>m. assoc_get (members f) (Founder (out f)) = Some m \<and> m_founder m \<and> m_joined m)
     \<and> (\<forall>k m. assoc_get (members f) k = Some m \<longrightarrow> granted_ok m \<and> (m_founder m \<longrightarrow> k = Founder (out f)))"

definition event_ok :: "Event \<Rightarrow> bool" where
  "event_ok e \<longleftrightarrow> (Type e = EventGenesis \<longrightarrow> Subject e \<noteq> [])
     \<and> (Type e \<in> {EventRoleGrant, EventRoleRevoke} \<longrightarrow> grantable (EventRole e))"

lemma rank_not_founder:
  assumes "granted_ok m" "\<not> m_founder m"
  shows "rank m = (if has_granted m 3 then 3 else if has_granted m 2 then 2 else 1)"
proof -
  have *: "fold (\<lambda>(role, ok) best. if ok \<and> best < role then role else best) gs b
      = (if (3, True) \<in> set gs \<and> b < 3 then 3 else if (2, True) \<in> set gs \<and> b < 2 then 2 else b)"
    if "\<forall>r \<in> fst ` set gs. r = 2 \<or> r = 3" "b \<le> 3" for gs :: "(nat \<times> bool) list" and b
    using that
  proof (induction gs arbitrary: b)
    case (Cons g gs)
    obtain role okb where g: "g = (role, okb)" by fastforce
    with Cons.prems have "role = 2 \<or> role = 3" by simp
    then show ?case using Cons g by (cases okb) auto
  qed simp
  have g: "(r, True) \<in> set (m_granted m) \<longleftrightarrow> has_granted m r" for r
    using assms(1) assoc_get_distinct [of "m_granted m" r True] assoc_get_mem [of "m_granted m" r True]
    by (auto simp: granted_ok_def has_granted_def)
  show ?thesis using assms by (simp add: rank_def * granted_ok_def g)
qed

lemma rank_founder [simp]: "m_founder m \<Longrightarrow> rank m = 4"
  by (simp add: rank_def)

lemma granted_ok_set: "granted_ok m \<Longrightarrow> r = 2 \<or> r = 3 \<Longrightarrow> granted_ok (set_granted m r b)"
  by (auto simp: granted_ok_def set_granted_def set_fst_put)

lemma granted_ok_Nil [simp]: "m_granted m = [] \<Longrightarrow> granted_ok m"
  by (simp add: granted_ok_def)

lemma apply_event_cases:
  assumes "apply_event f e = Some f'"
  shows "\<not> (Dissolved (out f) \<and> DissolvedAt (out f) \<le> IssuedAt e)"
    "Type e \<noteq> EventGenesis \<Longrightarrow> Founder (out f) \<noteq> [] \<and> CreatedAt (out f) \<le> IssuedAt e"
  using assms by (auto simp: apply_event_def split: if_splits)

definition new_member :: "Event \<Rightarrow> bool \<Rightarrow> member" where
  "new_member e founder = \<lparr>m_server = SubjectServer e, m_addedAt = IssuedAt e, m_joined = founder,
     m_founder = founder, m_granted = []\<rparr>"

text \<open>What a successful \<open>apply_event\<close> implies, by event type.\<close>

lemma apply_genesis_D:
  "apply_event f e = Some f' \<Longrightarrow> Type e = EventGenesis \<Longrightarrow> Founder (out f) = [] \<and>
   f' = put_member (f\<lparr>out := (out f)\<lparr>Founder := Subject e, CreatedAt := IssuedAt e\<rparr>\<rparr>) (Subject e) (new_member e True)"
  by (auto simp: apply_event_def guard_def new_member_def split: if_splits)

lemma apply_member_add_D:
  "apply_event f e = Some f' \<Longrightarrow> Type e = EventMemberAdd \<Longrightarrow> 2 \<le> actorRank f e \<and>
   assoc_get (members f) (Subject e) = None \<and> f' = put_member f (Subject e) (new_member e False)"
  by (auto simp: apply_event_def guard_def new_member_def split: if_splits)

lemma apply_join_accept_D:
  "apply_event f e = Some f' \<Longrightarrow> Type e = EventJoinAccept \<Longrightarrow>
   \<exists>m. assoc_get (members f) (Subject e) = Some m \<and> \<not> m_joined m
     \<and> f' = put_member f (Subject e) (m\<lparr>m_joined := True\<rparr>)"
  by (auto simp: apply_event_def guard_def split: if_splits option.splits)

lemma apply_member_remove_D:
  "apply_event f e = Some f' \<Longrightarrow> Type e = EventMemberRemove \<Longrightarrow>
   \<exists>m. assoc_get (members f) (Subject e) = Some m \<and> 2 \<le> actorRank f e \<and> rank m < actorRank f e
     \<and> f' = del_member f (Subject e)"
  by (auto simp: apply_event_def guard_def split: if_splits option.splits)

lemma apply_leave_D:
  "apply_event f e = Some f' \<Longrightarrow> Type e = EventLeave \<Longrightarrow>
   \<exists>m. assoc_get (members f) (Subject e) = Some m \<and> \<not> m_founder m \<and> f' = del_member f (Subject e)"
  by (auto simp: apply_event_def guard_def split: if_splits option.splits)

lemma apply_role_grant_D:
  "apply_event f e = Some f' \<Longrightarrow> Type e = EventRoleGrant \<Longrightarrow>
   \<exists>m. assoc_get (members f) (Subject e) = Some m \<and> EventRole e < actorRank f e \<and> \<not> has_granted m (EventRole e)
     \<and> f' = put_member f (Subject e) (set_granted m (EventRole e) True)"
  by (auto simp: apply_event_def guard_def split: if_splits option.splits)

lemma apply_role_revoke_D:
  "apply_event f e = Some f' \<Longrightarrow> Type e = EventRoleRevoke \<Longrightarrow>
   \<exists>m. assoc_get (members f) (Subject e) = Some m \<and> EventRole e < actorRank f e \<and> has_granted m (EventRole e)
     \<and> f' = put_member f (Subject e) (set_granted m (EventRole e) False)"
  by (auto simp: apply_event_def guard_def split: if_splits option.splits)

lemma apply_meta_D:
  "apply_event f e = Some f' \<Longrightarrow> Type e = EventMeta \<Longrightarrow> 2 \<le> actorRank f e \<and>
   f' = f\<lparr>out := (out f)\<lparr>ResName := Name e, ResTopic := Topic e\<rparr>\<rparr>"
  by (auto simp: apply_event_def guard_def split: if_splits)

lemma apply_dissolve_D:
  "apply_event f e = Some f' \<Longrightarrow> Type e = EventDissolve \<Longrightarrow>
   f' = f\<lparr>out := (out f)\<lparr>Dissolved := True, DissolvedAt := IssuedAt e\<rparr>\<rparr>"
  by (auto simp: apply_event_def split: if_splits)

lemma apply_other_D: "apply_event f e = Some f' \<Longrightarrow> Type e \<noteq> EventOther t"
  by (auto simp: apply_event_def split: if_splits)

lemmas apply_event_D = apply_genesis_D apply_member_add_D apply_join_accept_D apply_member_remove_D
  apply_leave_D apply_role_grant_D apply_role_revoke_D apply_meta_D apply_dissolve_D

lemma fold_ok_put:
  assumes "fold_ok f" "Founder (out f) \<noteq> []" "granted_ok m" "m_founder m \<longleftrightarrow> k = Founder (out f)"
    "k = Founder (out f) \<longrightarrow> m_joined m"
  shows "fold_ok (put_member f k m)"
  using assms by (auto simp: fold_ok_def put_member_def table_simps)

lemma fold_ok_del:
  assumes "fold_ok f" "Founder (out f) \<noteq> []" "k \<noteq> Founder (out f)"
  shows "fold_ok (del_member f k)"
  using assms by (auto simp: fold_ok_def del_member_def table_simps)

lemma fold_ok_out:
  assumes "fold_ok f" "Founder (out f) \<noteq> []" "Founder o' = Founder (out f)"
  shows "fold_ok (f\<lparr>out := o'\<rparr>)"
  using assms by (auto simp: fold_ok_def)

lemma fold_ok_member:
  assumes "fold_ok f" "assoc_get (members f) k = Some m"
  shows "granted_ok m" "m_founder m \<longleftrightarrow> k = Founder (out f)" "k = Founder (out f) \<longrightarrow> m_joined m"
proof -
  have "members f \<noteq> []" using assms(2) by auto
  then have "Founder (out f) \<noteq> []" using assms(1) by (metis fold_ok_def)
  then obtain m' where "assoc_get (members f) (Founder (out f)) = Some m'" "m_founder m'" "m_joined m'"
    using assms(1) by (metis fold_ok_def)
  moreover have "granted_ok m \<and> (m_founder m \<longrightarrow> k = Founder (out f))"
    using assms by (metis fold_ok_def)
  ultimately show "granted_ok m" "m_founder m \<longleftrightarrow> k = Founder (out f)" "k = Founder (out f) \<longrightarrow> m_joined m"
    using assms(2) by auto
qed

lemma fold_ok_founder:
  assumes "fold_ok f" "Founder (out f) \<noteq> []"
  shows "assoc_get (members f) (Founder (out f)) \<noteq> None"
  using assms by (metis fold_ok_def option.distinct(1))

lemma fold_ok_unfounded: "fold_ok f \<Longrightarrow> Founder (out f) = [] \<Longrightarrow> members f = []"
  by (metis fold_ok_def)

lemma fold_ok_genesis:
  assumes "fold_ok f" "Founder (out f) = []" "Subject e \<noteq> []" "m_founder m" "m_joined m" "m_granted m = []"
  shows "fold_ok (put_member (f\<lparr>out := (out f)\<lparr>Founder := Subject e, CreatedAt := t\<rparr>\<rparr>) (Subject e) m)"
  using assms by (auto simp: fold_ok_def put_member_def keys_distinct_def)

lemma fold_ok_rank:
  assumes "fold_ok f"
  shows "rankOf f k = 4 \<longleftrightarrow> Founder (out f) \<noteq> [] \<and> k = Founder (out f)" "rankOf f k \<le> 4"
proof -
  have "rank m \<le> 3" if "granted_ok m" "\<not> m_founder m" for m
    using rank_not_founder [OF that] by simp
  then have r: "rank m \<noteq> 4 \<and> rank m \<le> 4" if "granted_ok m" "\<not> m_founder m" for m
    using that by fastforce
  show "rankOf f k \<le> 4"
    using fold_ok_member [OF assms, of k] r by (cases "assoc_get (members f) k") (auto simp: rankOf_def)
  show "rankOf f k = 4 \<longleftrightarrow> Founder (out f) \<noteq> [] \<and> k = Founder (out f)"
  proof (cases "assoc_get (members f) k")
    case None
    then show ?thesis using fold_ok_founder [OF assms] by (auto simp: rankOf_def)
  next
    case (Some m)
    then have "Founder (out f) \<noteq> []" using fold_ok_unfounded [OF assms] by auto
    then show ?thesis using fold_ok_member [OF assms Some] r [of m] Some by (auto simp: rankOf_def)
  qed
qed

lemma actorRank_le: "fold_ok f \<Longrightarrow> actorRank f e \<le> 4"
  by (auto simp: actorRank_def fold_ok_rank split: option.splits)

lemma fold_ok_apply:
  assumes e: "event_ok e" and f: "fold_ok f" and a: "apply_event f e = Some f'"
  shows "fold_ok f'"
proof (cases "Type e = EventGenesis")
  case True
  then show ?thesis
    using e f apply_genesis_D [OF a] by (auto simp: event_ok_def new_member_def intro!: fold_ok_genesis)
next
  case False
  then have fd: "Founder (out f) \<noteq> []" using apply_event_cases(2) [OF a] by blast
  have absent: "k \<noteq> Founder (out f)" if "assoc_get (members f) k = None" for k
    using that fold_ok_founder [OF f fd] by auto
  note m = fold_ok_member [OF f]
  have sg: "m_founder (set_granted t r b) = m_founder t" "m_joined (set_granted t r b) = m_joined t" for t r b
    by (simp_all add: set_granted_def)
  have jo: "granted_ok (t\<lparr>m_joined := True\<rparr>) = granted_ok t" for t by (simp add: granted_ok_def)
  show ?thesis
  proof (cases "Type e")
    case EventMemberAdd
    then show ?thesis using apply_member_add_D [OF a] absent f fd by (auto simp: new_member_def intro!: fold_ok_put)
  next
    case EventJoinAccept
    then show ?thesis using apply_join_accept_D [OF a] m f fd by (auto simp: jo intro!: fold_ok_put)
  next
    case EventMemberRemove
    then show ?thesis using apply_member_remove_D [OF a] m f fd actorRank_le [OF f, of e]
      by (fastforce intro!: fold_ok_del)
  next
    case EventLeave
    then show ?thesis using apply_leave_D [OF a] m f fd by (fastforce intro!: fold_ok_del)
  next
    case EventRoleGrant
    then show ?thesis using apply_role_grant_D [OF a] m f fd e
      by (auto simp: sg event_ok_def grantable_def intro!: fold_ok_put granted_ok_set)
  next
    case EventRoleRevoke
    then show ?thesis using apply_role_revoke_D [OF a] m f fd e
      by (auto simp: sg event_ok_def grantable_def intro!: fold_ok_put granted_ok_set)
  next
    case EventMeta
    then show ?thesis using apply_meta_D [OF a] f fd by (auto intro!: fold_ok_out)
  next
    case EventDissolve
    then show ?thesis using apply_dissolve_D [OF a] f fd by (auto intro!: fold_ok_out)
  qed (use False apply_other_D [OF a] in auto)
qed

interpretation authority: replay_invariant event_ok fold_ok
  by unfold_locales (rule fold_ok_apply)

text \<open>
  A rank changes only at the hands of a strictly higher rank, apart from the founding of the
  group and an account's own departure.
\<close>

lemma rank_set_granted:
  assumes g: "granted_ok m" and nf: "\<not> m_founder m" and r: "r = 2 \<or> r = 3" and h: "has_granted m r \<noteq> b"
    and c: "rank (set_granted m r b) \<noteq> rank m"
  shows "rank m \<le> r" "rank (set_granted m r b) \<le> r"
proof -
  have "has_granted (set_granted m r b) q = (if q = r then b else has_granted m q)" for q
    by (simp add: has_granted_def set_granted_def table_simps)
  then show "rank m \<le> r" "rank (set_granted m r b) \<le> r"
    using rank_not_founder [OF g nf] rank_not_founder [OF granted_ok_set [OF g r], of b] nf r h c
    by (auto simp: set_granted_def split: if_splits)
qed

section \<open>Ranks\<close>

lemma rankOf_put: "rankOf (put_member f k m) k' = (if k' = k then rank m else rankOf f k')"
  by (simp add: rankOf_def put_member_def table_simps)

lemma rankOf_del: "rankOf (del_member f k) k' = (if k' = k then 0 else rankOf f k')"
  by (simp add: rankOf_def del_member_def table_simps)

lemma rankOf_out [simp]: "rankOf (f\<lparr>out := o'\<rparr>) k = rankOf f k"
  by (simp add: rankOf_def)

lemma rankOf_get: "assoc_get (members f) k = Some m \<Longrightarrow> rankOf f k = rank m"
  "assoc_get (members f) k = None \<Longrightarrow> rankOf f k = 0"
  by (simp_all add: rankOf_def)

lemma rank_joined [simp]: "rank (m\<lparr>m_joined := b\<rparr>) = rank m"
  by (simp add: rank_def)

lemma rank_granted_founder: "m_founder m \<Longrightarrow> rank (set_granted m r b) = rank m"
  by (simp add: set_granted_def)

text \<open>
  C15: authority follows rank. Whenever replaying an event changes the rank of an account, either
  the event founds the group, or it is that account leaving, or the actor outranks both the rank
  the account had and the rank it gets.
\<close>

theorem rank_changes_need_higher_rank:
  assumes "fold_ok f" and "event_ok e" and "apply_event f e = Some f'"
    and "rankOf f' k \<noteq> rankOf f k"
  shows "Type e = EventGenesis \<or> (Type e = EventLeave \<and> Subject e = k)
    \<or> (rankOf f k < actorRank f e \<and> rankOf f' k < actorRank f e)"
proof (cases "Type e")
  case EventMemberAdd
  then show ?thesis
    using apply_member_add_D [OF assms(3)] assms(4)
    by (auto simp: rankOf_put rankOf_get new_member_def rank_def split: if_splits)
next
  case EventJoinAccept
  then show ?thesis
    using apply_join_accept_D [OF assms(3)] assms(4) by (auto simp: rankOf_put rankOf_get split: if_splits)
next
  case EventMemberRemove
  then show ?thesis
    using apply_member_remove_D [OF assms(3)] assms(4) by (auto simp: rankOf_del rankOf_get split: if_splits)
next
  case EventLeave
  then show ?thesis
    using apply_leave_D [OF assms(3)] assms(4) by (auto simp: rankOf_del split: if_splits)
next
  case EventRoleGrant
  then obtain m where m: "assoc_get (members f) (Subject e) = Some m" "EventRole e < actorRank f e"
    "\<not> has_granted m (EventRole e)" "f' = put_member f (Subject e) (set_granted m (EventRole e) True)"
    using apply_role_grant_D [OF assms(3)] by blast
  show ?thesis
    using m assms(2,4) EventRoleGrant rank_set_granted [OF fold_ok_member(1) [OF assms(1) m(1)], of "EventRole e" True]
      rank_granted_founder [of m]
    by (cases "m_founder m") (auto simp: rankOf_put rankOf_get event_ok_def grantable_def split: if_splits)
next
  case EventRoleRevoke
  then obtain m where m: "assoc_get (members f) (Subject e) = Some m" "EventRole e < actorRank f e"
    "has_granted m (EventRole e)" "f' = put_member f (Subject e) (set_granted m (EventRole e) False)"
    using apply_role_revoke_D [OF assms(3)] by blast
  show ?thesis
    using m assms(2,4) EventRoleRevoke rank_set_granted [OF fold_ok_member(1) [OF assms(1) m(1)], of "EventRole e" False]
      rank_granted_founder [of m]
    by (cases "m_founder m") (auto simp: rankOf_put rankOf_get event_ok_def grantable_def split: if_splits)
next
  case EventMeta
  then show ?thesis using apply_meta_D [OF assms(3)] assms(4) by simp
next
  case EventDissolve
  then show ?thesis using apply_dissolve_D [OF assms(3)] assms(4) by simp
qed (use apply_other_D [OF assms(3)] in auto)

section \<open>What Resolve returns\<close>

definition start_fold :: "platform \<Rightarrow> State \<Rightarrow> fold_state" where
  "start_fold P s = \<lparr>out = empty_resolved P s, members = []\<rparr>"

lemma start_fold_ok: "fold_ok (start_fold P s)"
  by (simp add: fold_ok_def start_fold_def empty_resolved_def)

lemma Resolve_eq:
  "groupID s \<noteq> [] \<Longrightarrow> Resolve P s = (out (replay (start_fold P s) (orderedEvents s)))
     \<lparr>Members := sort_key AccountID (map member_view (members (replay (start_fold P s) (orderedEvents s))))\<rparr>"
  by (simp add: Resolve_def Let_def start_fold_def)

lemma orderedEvents_ok: "list_all event_ok (map snd (events s)) \<Longrightarrow> list_all event_ok (orderedEvents s)"
  by (simp add: orderedEvents_def list_all_iff)

lemma find_unique: "x \<in> set xs \<Longrightarrow> Q x \<Longrightarrow> (\<forall>y \<in> set xs. Q y \<longrightarrow> y = x) \<Longrightarrow> find Q xs = Some x"
proof -
  assume x: "x \<in> set xs" "Q x" and u: "\<forall>y \<in> set xs. Q y \<longrightarrow> y = x"
  obtain y where y: "find Q xs = Some y" using x by (metis find_None_iff option.exhaust)
  then have "y \<in> set xs" "Q y" by (auto simp: find_Some_iff)
  with u y show ?thesis by metis
qed

lemma AccountID_view [simp]: "AccountID (member_view p) = fst p"
  by (simp add: member_view_def)

lemma find_member_view:
  assumes "keys_distinct ms"
  shows "find (\<lambda>m. AccountID m = k) (sort_key AccountID (map member_view ms))
     = map_option (\<lambda>m. member_view (k, m)) (assoc_get ms k)"
proof (cases "assoc_get ms k")
  case None
  then have "k \<notin> fst ` set ms" by (simp add: table_simps)
  then show ?thesis using None by (auto simp: find_None_iff member_view_def)
next
  case (Some m)
  have u: "y = member_view (k, m)" if y: "y \<in> set (sort_key AccountID (map member_view ms))" "AccountID y = k" for y
  proof -
    obtain p where p: "p \<in> set ms" "y = member_view p" using y(1) by auto
    then have "(k, snd p) \<in> set ms" using y(2) by auto
    then have "snd p = m" using assoc_get_distinct [OF assms] Some by simp
    then show ?thesis using p y(2) by (metis AccountID_view prod.collapse)
  qed
  have "member_view (k, m) \<in> set (sort_key AccountID (map member_view ms))"
    using assoc_get_mem [OF Some] by simp
  then have "find (\<lambda>m. AccountID m = k) (sort_key AccountID (map member_view ms)) = Some (member_view (k, m))"
    by (rule find_unique) (use u in auto)
  with Some show ?thesis by simp
qed

lemma RoleOf_Resolve:
  assumes "groupID s \<noteq> []" "list_all event_ok (map snd (events s))"
  shows "RoleOf (Resolve P s) k = rankOf (replay (start_fold P s) (orderedEvents s)) k"
proof -
  have "keys_distinct (members (replay (start_fold P s) (orderedEvents s)))"
    using authority.replay_inv [OF orderedEvents_ok [OF assms(2)] start_fold_ok] by (simp add: fold_ok_def)
  then show ?thesis
    by (simp add: RoleOf_def Resolve_eq [OF assms(1)] find_member_view rankOf_def member_view_def split: option.split)
qed

text \<open>
  the resolved membership is well formed: account ids are strictly increasing (so no account
  is listed twice), and exactly the founder has the founder role once the group is founded.
\<close>

theorem resolve_well_formed:
  assumes "groupID s \<noteq> []" and "list_all event_ok (map snd (events s))"
  shows "sorted_wrt (<) (map AccountID (Members (Resolve P s)))
    \<and> (\<forall>k. RoleOf (Resolve P s) k = 4 \<longleftrightarrow> Founder (Resolve P s) \<noteq> [] \<and> k = Founder (Resolve P s))
    \<and> (\<forall>m \<in> set (Members (Resolve P s)). 1 \<le> MemberRole m \<and> MemberRole m \<le> 4)"
proof -
  define f where "f = replay (start_fold P s) (orderedEvents s)"
  have ok: "fold_ok f"
    unfolding f_def by (rule authority.replay_inv [OF orderedEvents_ok [OF assms(2)] start_fold_ok])
  have m: "Members (Resolve P s) = sort_key AccountID (map member_view (members f))"
    and fd: "Founder (Resolve P s) = Founder (out f)"
    by (simp_all add: Resolve_eq [OF assms(1)] f_def)
  have "distinct (map AccountID (map member_view (members f)))"
    using ok by (simp add: fold_ok_def keys_distinct_def member_view_def comp_def)
  then have "distinct (map AccountID (Members (Resolve P s)))"
    unfolding m by (metis distinct_map mset_sort mset_map mset_eq_imp_distinct_iff)
  then have "sorted_wrt (<) (map AccountID (Members (Resolve P s)))"
    by (simp add: strict_sorted_iff m)
  moreover have "1 \<le> rank x \<and> rank x \<le> 4" if "(k, x) \<in> set (members f)" for k x
  proof -
    have g: "assoc_get (members f) k = Some x"
      using that ok by (intro assoc_get_distinct) (simp_all add: fold_ok_def)
    show ?thesis
      using rank_not_founder [OF fold_ok_member(1) [OF ok g]] by (cases "m_founder x") auto
  qed
  ultimately show ?thesis
    using fold_ok_rank(1) [OF ok] RoleOf_Resolve [OF assms, of P]
    by (auto simp: f_def [symmetric] fd m member_view_def)
qed

section \<open>Dissolution is final\<close>

definition set_hash :: "string \<Rightarrow> fold_state \<Rightarrow> fold_state" where
  "set_hash h f = f\<lparr>out := (out f)\<lparr>ResStateHash := h\<rparr>\<rparr>"

lemma set_hash_simps [simp]:
  "members (set_hash h f) = members f" "Founder (out (set_hash h f)) = Founder (out f)"
  "CreatedAt (out (set_hash h f)) = CreatedAt (out f)" "Dissolved (out (set_hash h f)) = Dissolved (out f)"
  "DissolvedAt (out (set_hash h f)) = DissolvedAt (out f)" "ResName (out (set_hash h f)) = ResName (out f)"
  "ResTopic (out (set_hash h f)) = ResTopic (out f)" "actorRank (set_hash h f) e = actorRank f e"
  "put_member (set_hash h f) k m = set_hash h (put_member f k m)"
  "del_member (set_hash h f) k = set_hash h (del_member f k)"
  by (simp_all add: set_hash_def actorRank_def rankOf_def put_member_def del_member_def cong: option.case_cong)

lemma apply_event_hash: "apply_event (set_hash h f) e = map_option (set_hash h) (apply_event f e)"
  unfolding apply_event_def set_hash_simps
  by (cases "Type e") (auto simp: guard_def put_member_def set_hash_def split: option.split)

lemma bucket_pass_hash:
  "bucket_pass (set_hash h f) es = (set_hash h (fst (bucket_pass f es)), snd (bucket_pass f es))"
  by (induction f es rule: bucket_pass.induct) (simp_all add: apply_event_hash split: option.split)

lemma resolve_bucket_hash: "resolve_bucket (set_hash h f) es = set_hash h (resolve_bucket f es)"
proof (induction f es rule: resolve_bucket.induct)
  case (1 f es)
  then show ?case
    by (subst (1 2) resolve_bucket.simps) (simp add: bucket_pass_hash)
qed

lemma replay_hash: "replay (set_hash h f) es = set_hash h (replay f es)"
proof -
  have "foldl resolve_bucket (set_hash h f) bs = set_hash h (foldl resolve_bucket f bs)" for bs
    by (induction bs arbitrary: f) (simp_all add: resolve_bucket_hash)
  then show ?thesis by (simp add: replay_def)
qed

lemma takeWhile_append_stop:
  "\<forall>y \<in> set ys. \<not> Q y \<Longrightarrow>
   takeWhile Q (xs @ ys) = takeWhile Q xs \<and> dropWhile Q (xs @ ys) = dropWhile Q xs @ ys"
proof (induction xs)
  case Nil
  then show ?case by (cases ys) auto
qed simp

lemma buckets_append:
  "\<forall>x \<in> set xs. \<forall>y \<in> set ys. IssuedAt x \<noteq> IssuedAt y \<Longrightarrow>
   sameTimestampBuckets (xs @ ys) = sameTimestampBuckets xs @ sameTimestampBuckets ys"
proof (induction xs rule: sameTimestampBuckets.induct)
  case (2 e es)
  have t: "takeWhile (\<lambda>x. IssuedAt x = IssuedAt e) (es @ ys) = takeWhile (\<lambda>x. IssuedAt x = IssuedAt e) es
     \<and> dropWhile (\<lambda>x. IssuedAt x = IssuedAt e) (es @ ys) = dropWhile (\<lambda>x. IssuedAt x = IssuedAt e) es @ ys"
    using 2(2) by (intro takeWhile_append_stop) fastforce
  have "\<forall>x \<in> set (dropWhile (\<lambda>x. IssuedAt x = IssuedAt e) es). \<forall>y \<in> set ys. IssuedAt x \<noteq> IssuedAt y"
    using 2(2) by (auto dest: set_dropWhileD)
  note ih = 2(1) [OF this]
  show ?case
    by (simp only: append_Cons sameTimestampBuckets.simps t [THEN conjunct1] t [THEN conjunct2] ih)
qed simp

lemma replay_append:
  "\<forall>x \<in> set xs. \<forall>y \<in> set ys. IssuedAt x \<noteq> IssuedAt y \<Longrightarrow> replay f (xs @ ys) = replay (replay f xs) ys"
  by (simp add: replay_def buckets_append)

lemma bucket_pass_stuck: "\<forall>e \<in> set es. apply_event f e = None \<Longrightarrow> bucket_pass f es = (f, es)"
  by (induction es) auto

lemma replay_stuck: "\<forall>e \<in> set es. apply_event f e = None \<Longrightarrow> replay f es = f"
  unfolding replay_def
proof (induction es rule: sameTimestampBuckets.induct)
  case (2 e es)
  define b where "b = e # takeWhile (\<lambda>x. IssuedAt x = IssuedAt e) es"
  have "\<forall>x \<in> set b. apply_event f x = None" using 2(2) by (auto simp: b_def dest: set_takeWhileD)
  then have "resolve_bucket f b = f"
    by (subst resolve_bucket.simps) (simp add: bucket_pass_stuck)
  moreover have "\<forall>x \<in> set (dropWhile (\<lambda>x. IssuedAt x = IssuedAt e) es). apply_event f x = None"
    using 2(2) by (auto dest: set_dropWhileD)
  ultimately show ?case using 2(1) by (simp add: b_def)
qed simp

lemma apply_event_dissolution:
  assumes "apply_event f e = Some f'"
  shows "Dissolved (out f') = (Dissolved (out f) \<or> Type e = EventDissolve)"
    "DissolvedAt (out f') = (if Type e = EventDissolve then IssuedAt e else DissolvedAt (out f))"
proof -
  have "Dissolved (out f') = (Dissolved (out f) \<or> Type e = EventDissolve)
    \<and> DissolvedAt (out f') = (if Type e = EventDissolve then IssuedAt e else DissolvedAt (out f))"
  proof (cases "Type e")
    case EventGenesis
    then show ?thesis using apply_genesis_D [OF assms] by (simp add: put_member_def)
  next
    case EventMemberAdd
    then show ?thesis using apply_member_add_D [OF assms] by (simp add: put_member_def)
  next
    case EventJoinAccept
    then show ?thesis using apply_join_accept_D [OF assms] by (auto simp: put_member_def)
  next
    case EventMemberRemove
    then show ?thesis using apply_member_remove_D [OF assms] by (auto simp: del_member_def)
  next
    case EventLeave
    then show ?thesis using apply_leave_D [OF assms] by (auto simp: del_member_def)
  next
    case EventRoleGrant
    then show ?thesis using apply_role_grant_D [OF assms] by (auto simp: put_member_def)
  next
    case EventRoleRevoke
    then show ?thesis using apply_role_revoke_D [OF assms] by (auto simp: put_member_def)
  next
    case EventMeta
    then show ?thesis using apply_meta_D [OF assms] by simp
  next
    case EventDissolve
    then show ?thesis using apply_dissolve_D [OF assms] by simp
  qed (use apply_other_D [OF assms] in auto)
  then show "Dissolved (out f') = (Dissolved (out f) \<or> Type e = EventDissolve)"
    "DissolvedAt (out f') = (if Type e = EventDissolve then IssuedAt e else DissolvedAt (out f))"
    by simp_all
qed

interpretation late: replay_invariant "\<lambda>e. d < IssuedAt e" "\<lambda>f. Dissolved (out f) \<longrightarrow> d < DissolvedAt (out f)"
  for d :: time
  by unfold_locales (auto simp: apply_event_dissolution)

interpretation early: replay_invariant "\<lambda>e. IssuedAt e \<le> d" "\<lambda>f. Dissolved (out f) \<longrightarrow> DissolvedAt (out f) \<le> d"
  for d :: time
  by unfold_locales (auto simp: apply_event_dissolution)

definition facts_until :: "time \<Rightarrow> State \<Rightarrow> (string \<times> Event) list" where
  "facts_until d s = filter (\<lambda>p. IssuedAt (snd p) \<le> d) (events s)"

definition ordered_until :: "time \<Rightarrow> State \<Rightarrow> Event list" where
  "ordered_until d s = map snd (sort_key replay_key (facts_until d s))"

lemma sorted_split:
  "sorted (map replay_key xs) \<Longrightarrow>
   xs = filter (\<lambda>p. IssuedAt (snd p) \<le> d) xs @ filter (\<lambda>p. \<not> IssuedAt (snd p) \<le> d) xs"
proof (induction xs)
  case (Cons p xs)
  show ?case
  proof (cases "IssuedAt (snd p) \<le> d")
    case False
    have "\<forall>q \<in> set xs. \<not> IssuedAt (snd q) \<le> d"
      using Cons.prems False by (auto simp: replay_key_def less_eq_prod_def)
    then show ?thesis using False by simp
  qed (use Cons in simp)
qed simp

lemma orderedEvents_split:
  "\<exists>late. orderedEvents s = ordered_until d s @ late \<and> (\<forall>e \<in> set late. d < IssuedAt e)"
proof -
  let ?xs = "sort_key replay_key (events s)"
  have "?xs = filter (\<lambda>p. IssuedAt (snd p) \<le> d) ?xs @ filter (\<lambda>p. \<not> IssuedAt (snd p) \<le> d) ?xs"
    by (rule sorted_split) simp
  moreover have "filter (\<lambda>p. IssuedAt (snd p) \<le> d) ?xs = sort_key replay_key (facts_until d s)"
    by (simp add: filter_sort facts_until_def)
  ultimately have "orderedEvents s = ordered_until d s @ map snd (filter (\<lambda>p. \<not> IssuedAt (snd p) \<le> d) ?xs)"
    by (metis orderedEvents_def ordered_until_def map_append)
  then show ?thesis by fastforce
qed

lemma replay_dissolved:
  assumes "Dissolved (out (replay f0 (orderedEvents s)))" "DissolvedAt (out (replay f0 (orderedEvents s))) = d"
    "\<not> Dissolved (out f0)"
  shows "Dissolved (out (replay f0 (ordered_until d s))) \<and> DissolvedAt (out (replay f0 (ordered_until d s))) \<le> d"
proof -
  obtain late where l: "orderedEvents s = ordered_until d s @ late" "\<forall>e \<in> set late. d < IssuedAt e"
    using orderedEvents_split by blast
  have u: "\<forall>e \<in> set (ordered_until d s). IssuedAt e \<le> d" by (auto simp: ordered_until_def facts_until_def)
  let ?f1 = "replay f0 (ordered_until d s)"
  have r: "replay f0 (orderedEvents s) = replay ?f1 late"
    unfolding l(1) using l(2) u by (intro replay_append) fastforce
  have "Dissolved (out ?f1)"
  proof (rule ccontr)
    assume "\<not> Dissolved (out ?f1)"
    then have "Dissolved (out (replay ?f1 late)) \<longrightarrow> d < DissolvedAt (out (replay ?f1 late))"
      using l(2) by (intro late.replay_inv [of d late ?f1]) (auto simp: list_all_iff)
    with assms r show False by simp
  qed
  moreover have "Dissolved (out ?f1) \<longrightarrow> DissolvedAt (out ?f1) \<le> d"
    using u assms(3) by (intro early.replay_inv) (auto simp: list_all_iff)
  ultimately show ?thesis by simp
qed

lemma replay_until:
  assumes "Dissolved (out (replay f0 (ordered_until d s)))" "DissolvedAt (out (replay f0 (ordered_until d s))) \<le> d"
  shows "replay f0 (orderedEvents s) = replay f0 (ordered_until d s)"
proof -
  obtain late where l: "orderedEvents s = ordered_until d s @ late" "\<forall>e \<in> set late. d < IssuedAt e"
    using orderedEvents_split by blast
  have u: "\<forall>e \<in> set (ordered_until d s). IssuedAt e \<le> d" by (auto simp: ordered_until_def facts_until_def)
  let ?f1 = "replay f0 (ordered_until d s)"
  have "replay f0 (orderedEvents s) = replay ?f1 late"
    unfolding l(1) using l(2) u by (intro replay_append) fastforce
  also have "\<dots> = ?f1" using l(2) assms by (intro replay_stuck) (auto simp: apply_event_def)
  finally show ?thesis .
qed

text \<open>
  a dissolved group stays as it was: any other set of facts that agrees with the first up to
  the second of the dissolution resolves to the same group, members and roles, whatever later
  events it holds; only the fingerprint of the fact set differs.
\<close>

theorem dissolution_final:
  assumes "Dissolved (Resolve P s)" and "groupID s \<noteq> []" and "groupID s' = groupID s"
    and "keys_distinct (events s)" and "keys_distinct (events s')"
    and "set (facts_until (DissolvedAt (Resolve P s)) s') = set (facts_until (DissolvedAt (Resolve P s)) s)"
  shows "Resolve P s' = (Resolve P s)\<lparr>ResStateHash := StateHash P s'\<rparr>"
proof -
  define d where "d = DissolvedAt (Resolve P s)"
  let ?f = "start_fold P s" and ?h = "StateHash P s'"
  have kd: "keys_distinct (facts_until d s)" "keys_distinct (facts_until d s')"
    using assms(4,5) by (auto simp: facts_until_def keys_distinct_def distinct_map_filter)
  have ord: "ordered_until d s' = ordered_until d s"
    using sort_key_set_unique [OF kd(2,1), of replay_key] assms(6) replay_key_inj [OF kd(2)]
    by (simp add: ordered_until_def d_def)
  have start: "start_fold P s' = set_hash ?h ?f"
    using assms(3) by (simp add: start_fold_def set_hash_def empty_resolved_def)
  have dis: "Dissolved (out (replay ?f (ordered_until d s))) \<and> DissolvedAt (out (replay ?f (ordered_until d s))) \<le> d"
    using assms(1) by (intro replay_dissolved)
      (simp_all add: Resolve_eq [OF assms(2)] d_def start_fold_def empty_resolved_def)
  then have "replay ?f (orderedEvents s) = replay ?f (ordered_until d s)" by (intro replay_until) auto
  moreover have "replay (start_fold P s') (orderedEvents s') = replay (start_fold P s') (ordered_until d s')"
    using dis by (intro replay_until) (auto simp: start ord replay_hash)
  ultimately show ?thesis
    using assms(2,3) by (simp add: Resolve_eq start ord replay_hash) (simp add: set_hash_def)
qed

section \<open>Ties within a second\<close>

definition tie_fold :: fold_state where
  "tie_fold = \<lparr>out = \<lparr>ResGroupID = ''g'', Founder = ''f'', CreatedAt = 0, ResName = [], ResTopic = [],
      Members = [], Dissolved = False, DissolvedAt = 0, ResStateHash = []\<rparr>,
    members = [(''f'', \<lparr>m_server = ''s'', m_addedAt = 0, m_joined = True, m_founder = True, m_granted = []\<rparr>),
      (''m'', \<lparr>m_server = ''s'', m_addedAt = 0, m_joined = True, m_founder = False, m_granted = [(2, True)]\<rparr>)]\<rparr>"

definition sample_signer :: "string \<Rightarrow> Signer" where
  "sample_signer a = \<lparr>s_AccountID = a, s_RootPubKey = [], s_DeviceCert =
     \<lparr>dc_AccountID = a, dc_DeviceID = [], dc_DevicePubKey = [], dc_IssuedAt = 0, dc_Signature = []\<rparr>\<rparr>"

definition sample_event :: "EventType \<Rightarrow> string \<Rightarrow> Signer option \<Rightarrow> Event" where
  "sample_event t subject signer = \<lparr>Type = t, GroupID = ''g'', IssuedAt = 10 * second, RootPubKey = [],
     Nonce = [], Subject = subject, SubjectServer = (if t = EventMemberAdd then ''s'' else []),
     EventRole = (if t \<in> {EventRoleGrant, EventRoleRevoke} then 2 else 0),
     Name = [], Topic = [], EventSigner = signer, Signature = replicate 64 (CHR 0x00)\<rparr>"

text \<open>
  events of the same second are not always order-independent. A moderator's invitation and
  the revocation of that moderator's role, both of one second, leave the invitee in the group when
  the invitation is replayed first and out of it when the revocation is, and the replay order
  inside a second is the order of the event hashes.
\<close>

theorem same_second_order_matters:
  "let invite = sample_event EventMemberAdd ''x'' (Some (sample_signer ''m''));
       revoke = sample_event EventRoleRevoke ''m'' None
   in rankOf (resolve_bucket tie_fold [invite, revoke]) ''x'' = 1
      \<and> rankOf (resolve_bucket tie_fold [revoke, invite]) ''x'' = 0"
  by code_simp

section \<open>Witnesses\<close>

lemma tie_fold_ok: "fold_ok tie_fold"
  by (auto simp: fold_ok_def tie_fold_def keys_distinct_def granted_ok_def split: if_splits)

theorem rank_changes_witness:
  "rankOf tie_fold ''m'' < actorRank tie_fold (sample_event EventRoleRevoke ''m'' None)"
proof -
  let ?e = "sample_event EventRoleRevoke ''m'' None"
  have "event_ok ?e" by (simp add: event_ok_def sample_event_def grantable_def)
  moreover have a: "apply_event tie_fold ?e = Some (the (apply_event tie_fold ?e))" by code_simp
  moreover have "rankOf (the (apply_event tie_fold ?e)) ''m'' \<noteq> rankOf tie_fold ''m''" by code_simp
  ultimately show ?thesis
    using rank_changes_need_higher_rank [OF tie_fold_ok, of ?e] by (auto simp: sample_event_def)
qed

definition dissolved_state :: State where
  "dissolved_state = \<lparr>groupID = ''g'', rootPubKey = [], events =
     [(''01'', (sample_event EventGenesis ''f'' None)\<lparr>SubjectServer := ''s''\<rparr>),
      (''02'', sample_event EventMeta [] None \<lparr>Name := ''n''\<rparr>),
      (''03'', sample_event EventDissolve [] None \<lparr>IssuedAt := 20 * second\<rparr>)]\<rparr>"

lemma dissolved_ordered: "orderedEvents dissolved_state = map snd (events dissolved_state)"
proof -
  have "sort_key replay_key (events dissolved_state) = events dissolved_state"
    by (rule sort_key_id_if_sorted)
      (simp add: dissolved_state_def replay_key_def sample_event_def second_def less_eq_char_def less_char_def)
  then show ?thesis by (simp add: orderedEvents_def)
qed

definition blank_fold :: fold_state where
  "blank_fold = \<lparr>out = \<lparr>ResGroupID = ''g'', Founder = [], CreatedAt = zero_time, ResName = [],
     ResTopic = [], Members = [], Dissolved = False, DissolvedAt = zero_time, ResStateHash = []\<rparr>,
     members = []\<rparr>"

lemma dissolved_out:
  "Founder (out (replay blank_fold (map snd (events dissolved_state)))) = ''f''"
  "Dissolved (out (replay blank_fold (map snd (events dissolved_state))))"
  "DissolvedAt (out (replay blank_fold (map snd (events dissolved_state)))) = 20 * second"
  by code_simp+

lemma dissolved_resolve:
  "Founder (Resolve sample_platform dissolved_state) = ''f''"
  "Dissolved (Resolve sample_platform dissolved_state)"
  "DissolvedAt (Resolve sample_platform dissolved_state) = 20 * second"
proof -
  have "start_fold sample_platform dissolved_state
      = set_hash (StateHash sample_platform dissolved_state) blank_fold"
    by (simp add: start_fold_def empty_resolved_def set_hash_def blank_fold_def dissolved_state_def)
  moreover have "groupID dissolved_state \<noteq> []" by (simp add: dissolved_state_def)
  ultimately show "Founder (Resolve sample_platform dissolved_state) = ''f''"
    "Dissolved (Resolve sample_platform dissolved_state)"
    "DissolvedAt (Resolve sample_platform dissolved_state) = 20 * second"
    using dissolved_out by (simp_all add: Resolve_eq dissolved_ordered replay_hash)
qed

theorem resolve_well_formed_witness:
  "RoleOf (Resolve sample_platform dissolved_state) (Founder (Resolve sample_platform dissolved_state)) = 4
     \<and> Founder (Resolve sample_platform dissolved_state) = ''f''"
proof -
  have "groupID dissolved_state \<noteq> []" "list_all event_ok (map snd (events dissolved_state))"
    by (simp_all add: dissolved_state_def event_ok_def sample_event_def)
  from resolve_well_formed [OF this, of sample_platform] show ?thesis by (simp add: dissolved_resolve)
qed

theorem dissolution_final_witness:
  "Resolve sample_platform (dissolved_state\<lparr>events := events dissolved_state
       @ [(''04'', sample_event EventMeta [] None \<lparr>IssuedAt := 30 * second, Name := ''late''\<rparr>)]\<rparr>)
     = (Resolve sample_platform dissolved_state)\<lparr>ResStateHash := StateHash sample_platform
       (dissolved_state\<lparr>events := events dissolved_state
       @ [(''04'', sample_event EventMeta [] None \<lparr>IssuedAt := 30 * second, Name := ''late''\<rparr>)]\<rparr>)\<rparr>"
proof (rule dissolution_final)
  show "Dissolved (Resolve sample_platform dissolved_state)" by (rule dissolved_resolve(2))
  show "set (facts_until (DissolvedAt (Resolve sample_platform dissolved_state))
      (dissolved_state\<lparr>events := events dissolved_state
       @ [(''04'', sample_event EventMeta [] None \<lparr>IssuedAt := 30 * second, Name := ''late''\<rparr>)]\<rparr>))
     = set (facts_until (DissolvedAt (Resolve sample_platform dissolved_state)) dissolved_state)"
    by (simp add: facts_until_def second_def dissolved_resolve(3))
qed (simp_all add: dissolved_state_def keys_distinct_def)

end
