(* ===== verification/Group_Sync.thy ===== *)
theory Group_Sync
  imports Group_Fold
begin

text \<open>
  Admission and persistence of group facts (\<open>Apply\<close>, \<open>MarshalJSON\<close> and \<open>UnmarshalJSON\<close>
  of \<open>pkg/group/state.go\<close>). The abstraction of a state is the set of valid facts among the
  events its member was handed (\<open>holds_facts\<close>): every batch refines the union of fact sets,
  whatever its order, which is what makes replicas converge.
\<close>

section \<open>The facts a batch of events states\<close>

definition valid_fact :: "platform \<Rightarrow> string \<Rightarrow> bytes \<Rightarrow> Event \<Rightarrow> bool" where
  "valid_fact P gid root e \<longleftrightarrow> GroupID e = gid \<and> event_Verify P e root = Inr ()"

definition facts :: "platform \<Rightarrow> string \<Rightarrow> bytes \<Rightarrow> Event set \<Rightarrow> (string \<times> Event) set" where
  "facts P gid root E = {(i, e). e \<in> E \<and> valid_fact P gid root e \<and> event_ID P e = Inr i}"

text \<open>
  The events in circulation are consistent when every genesis event among them that verifies is
  for this group and its root key, and no two of them share an id.
\<close>

definition consistent :: "platform \<Rightarrow> string \<Rightarrow> bytes \<Rightarrow> Event set \<Rightarrow> bool" where
  "consistent P gid root U \<longleftrightarrow> gid \<noteq> []
     \<and> (\<forall>e \<in> U. Type e = EventGenesis \<and> event_Verify P e (RootPubKey e) = Inr () \<longrightarrow> GroupID e = gid)
     \<and> (\<forall>e \<in> U. Type e = EventGenesis \<and> GroupID e = gid \<longrightarrow> RootPubKey e = root)
     \<and> (\<forall>e \<in> U. \<forall>e' \<in> U. event_ID P e = event_ID P e' \<and> valid_fact P gid root e \<and> valid_fact P gid root e' \<longrightarrow> e = e')"

lemma consistentD:
  assumes "consistent P gid root U" "e \<in> U"
  shows "gid \<noteq> []"
    "Type e = EventGenesis \<Longrightarrow> event_Verify P e (RootPubKey e) = Inr () \<Longrightarrow> GroupID e = gid"
    "Type e = EventGenesis \<Longrightarrow> GroupID e = gid \<Longrightarrow> RootPubKey e = root"
    "e' \<in> U \<Longrightarrow> event_ID P e = event_ID P e' \<Longrightarrow> valid_fact P gid root e \<Longrightarrow> valid_fact P gid root e' \<Longrightarrow> e = e'"
  using assms unfolding consistent_def by blast+

text \<open>The abstraction: a state holds exactly the facts of a set of events it was given.\<close>

definition holds_facts :: "platform \<Rightarrow> string \<Rightarrow> bytes \<Rightarrow> Event set \<Rightarrow> State \<Rightarrow> bool" where
  "holds_facts P gid root E s \<longleftrightarrow> keys_distinct (events s) \<and> set (events s) = facts P gid root E
     \<and> (if events s = [] then groupID s = []
        else groupID s = gid \<and> rootPubKey s = root \<and> (\<exists>p \<in> facts P gid root E. Type (snd p) = EventGenesis))"

lemma valid_fact_ID: "valid_fact P gid root e \<Longrightarrow> \<exists>i. event_ID P e = Inr i"
  by (auto simp: valid_fact_def event_Verify_Inr event_ID_def)

lemma facts_insert:
  "facts P gid root (insert e E) = facts P gid root E
     \<union> (if valid_fact P gid root e then {(i, e') | i e'. event_ID P e = Inr i \<and> e' = e} else {})"
  by (auto simp: facts_def)

lemma set_assoc_put_new: "assoc_get m k = None \<Longrightarrow> set (assoc_put m k v) = insert (k, v) (set m)"
  by (induction m k v rule: assoc_put.induct) (auto split: if_splits)

lemma admit_check_None_iff:
  assumes "consistent P gid root U" "e \<in> U" "groupID s = [] \<or> groupID s = gid \<and> rootPubKey s = root"
    "Type e = EventGenesis \<or> groupID s \<noteq> []"
  shows "admit_check P s e = None \<longleftrightarrow> valid_fact P gid root e"
proof (cases "Type e = EventGenesis")
  case True
  then have "admit_check P s e = None \<longleftrightarrow>
      event_Verify P e (RootPubKey e) = Inr () \<and> (groupID s = [] \<or> groupID s = GroupID e)"
    by (simp add: admit_check_def split: sum.split)
  moreover have "event_Verify P e (RootPubKey e) = Inr () \<longrightarrow> GroupID e = gid"
    "GroupID e = gid \<longrightarrow> RootPubKey e = root"
    using consistentD(2,3) [OF assms(1,2) True] by blast+
  ultimately show ?thesis using assms(3) unfolding valid_fact_def by metis
next
  case False
  then have "admit_check P s e = None \<longleftrightarrow> GroupID e = gid \<and> event_Verify P e root = Inr ()"
    using assms(3,4) by (auto simp: admit_check_def split: sum.split)
  then show ?thesis by (simp add: valid_fact_def)
qed

lemma admit_step:
  assumes c: "consistent P gid root U" "e \<in> U" "E \<subseteq> U" and h: "holds_facts P gid root E s"
    and g: "Type e = EventGenesis \<or> groupID s \<noteq> []"
  shows "holds_facts P gid root (insert e E) (fst (admit P i e (s, r)))"
    "valid_fact P gid root e \<Longrightarrow> Rejected (snd (admit P i e (s, r))) = Rejected r"
    "valid_fact P gid root e \<Longrightarrow> groupID (fst (admit P i e (s, r))) = gid"
    "groupID s \<noteq> [] \<Longrightarrow> groupID (fst (admit P i e (s, r))) = gid"
proof -
  have ident: "groupID s = [] \<or> groupID s = gid \<and> rootPubKey s = root"
    using h by (auto simp: holds_facts_def split: if_splits)
  have ne: "groupID s = [] \<longleftrightarrow> events s = []"
    using h consistentD(1) [OF c(1,2)] by (auto simp: holds_facts_def split: if_splits)
  note chk = admit_check_None_iff [OF c(1,2) ident g]
  have "holds_facts P gid root (insert e E) (fst (admit P i e (s, r)))
    \<and> (valid_fact P gid root e \<longrightarrow> Rejected (snd (admit P i e (s, r))) = Rejected r \<and> groupID (fst (admit P i e (s, r))) = gid)
    \<and> (groupID s \<noteq> [] \<longrightarrow> groupID (fst (admit P i e (s, r))) = gid)"
  proof (cases "valid_fact P gid root e")
    case False
    then obtain w where "admit_check P s e = Some w" using chk by auto
    then have "fst (admit P i e (s, r)) = s" by (simp add: admit_def)
    with False h ident show ?thesis by (simp add: holds_facts_def facts_insert)
  next
    case True
    obtain eid where eid: "event_ID P e = Inr eid" using valid_fact_ID [OF True] by blast
    have chk': "admit_check P s e = None" using chk True by simp
    show ?thesis
    proof (cases "assoc_get (events s) eid")
      case (Some e')
      then have m: "(eid, e') \<in> facts P gid root E" using h assoc_get_mem [OF Some] by (simp add: holds_facts_def)
      then have "e' \<in> U" "event_ID P e' = Inr eid" "valid_fact P gid root e'" using c(3) by (auto simp: facts_def)
      then have "e' = e" using consistentD(4) [OF c(1,2), of e'] eid True by simp
      with m have "facts P gid root (insert e E) = facts P gid root E"
        using eid by (auto simp: facts_insert)
      moreover have "admit P i e (s, r) = (s, r\<lparr>Known := Known r @ [eid]\<rparr>)"
        using Some eid chk' by (simp add: admit_def)
      moreover have "events s \<noteq> []" using Some by auto
      ultimately show ?thesis using h ident ne by (simp add: holds_facts_def)
    next
      case None
      have root: "Type e = EventGenesis \<Longrightarrow> GroupID e = gid \<and> RootPubKey e = root"
        using True consistentD(3) [OF c(1,2)] by (simp add: valid_fact_def)
      have gen: "Type e \<noteq> EventGenesis \<Longrightarrow> \<exists>p \<in> facts P gid root E. Type (snd p) = EventGenesis"
        using g ne h by (auto simp: holds_facts_def split: if_splits)
      have "set (assoc_put (events s) eid e) = facts P gid root (insert e E)"
        using set_assoc_put_new [OF None, of e] h True eid by (auto simp: holds_facts_def facts_insert)
      moreover have "keys_distinct (assoc_put (events s) eid e)" using h by (simp add: holds_facts_def)
      moreover have "assoc_put (events s) eid e \<noteq> []" using set_assoc_put_new [OF None, of e] by auto
      moreover have "\<exists>p \<in> facts P gid root (insert e E). Type (snd p) = EventGenesis"
        using gen True eid by (cases "Type e = EventGenesis") (auto simp: facts_insert)
      ultimately show ?thesis
        using None eid chk' root ident g by (auto simp: admit_def holds_facts_def Let_def)
    qed
  qed
  then show "holds_facts P gid root (insert e E) (fst (admit P i e (s, r)))"
    "valid_fact P gid root e \<Longrightarrow> Rejected (snd (admit P i e (s, r))) = Rejected r"
    "valid_fact P gid root e \<Longrightarrow> groupID (fst (admit P i e (s, r))) = gid"
    "groupID s \<noteq> [] \<Longrightarrow> groupID (fst (admit P i e (s, r))) = gid"
    by auto
qed

section \<open>Batches\<close>

definition batch_events :: "Event option list \<Rightarrow> Event set" where
  "batch_events b = {e. Some e \<in> set b}"

definition genesis_of :: "Event option list \<Rightarrow> Event set" where
  "genesis_of b = {e \<in> batch_events b. Type e = EventGenesis}"

lemma batch_events_simps [simp]:
  "batch_events [] = {}" "batch_events (None # b) = batch_events b"
  "batch_events (Some e # b) = insert e (batch_events b)"
  by (auto simp: batch_events_def)

lemma genesis_pass:
  assumes "consistent P gid root U" "batch_events (map snd ies) \<subseteq> U" "E \<subseteq> U" "holds_facts P gid root E (fst sr)"
  shows "holds_facts P gid root (E \<union> genesis_of (map snd ies)) (fst (fold (apply_genesis P) ies sr))
    \<and> ((\<forall>e \<in> genesis_of (map snd ies). valid_fact P gid root e)
        \<longrightarrow> Rejected (snd (fold (apply_genesis P) ies sr)) = Rejected (snd sr))"
  using assms(2-)
proof (induction ies arbitrary: E sr)
  case Nil
  then show ?case by (simp add: genesis_of_def)
next
  case (Cons ie ies)
  obtain s r where sr: "sr = (s, r)" by fastforce
  show ?case
  proof (cases "\<exists>e. snd ie = Some e \<and> Type e = EventGenesis")
    case True
    then obtain e where e: "snd ie = Some e" "Type e = EventGenesis" by blast
    have eU: "e \<in> U" "batch_events (map snd ies) \<subseteq> U" using Cons.prems(1) e by auto
    have g: "genesis_of (map snd (ie # ies)) = insert e (genesis_of (map snd ies))"
      using e by (auto simp: genesis_of_def)
    note st = admit_step [OF assms(1) eU(1) Cons.prems(2), of s "fst ie" r]
    have "insert e E \<subseteq> U" using eU(1) Cons.prems(2) by simp
    note ih = Cons.IH [OF eU(2) this, of "admit P (fst ie) e (s, r)"]
    show ?thesis
      using ih st Cons.prems(3) e sr g by (auto simp: apply_genesis_def Un_insert_left)
  next
    case False
    then have "apply_genesis P ie sr = sr" "genesis_of (map snd (ie # ies)) = genesis_of (map snd ies)"
      by (auto simp: apply_genesis_def genesis_of_def batch_events_def split: option.split)
    moreover have "batch_events (map snd ies) \<subseteq> U" using Cons.prems(1) by (auto simp: batch_events_def)
    ultimately show ?thesis using Cons.IH Cons.prems by simp
  qed
qed

lemma other_pass:
  assumes "consistent P gid root U" "batch_events (map snd ies) \<subseteq> U" "E \<subseteq> U" "holds_facts P gid root E (fst sr)"
    "groupID (fst sr) \<noteq> []"
  shows "holds_facts P gid root (E \<union> (batch_events (map snd ies) - genesis_of (map snd ies))) (fst (fold (apply_other P) ies sr))
    \<and> ((\<forall>e \<in> batch_events (map snd ies). valid_fact P gid root e) \<and> None \<notin> snd ` set ies
        \<longrightarrow> Rejected (snd (fold (apply_other P) ies sr)) = Rejected (snd sr))"
  using assms(2-)
proof (induction ies arbitrary: E sr)
  case Nil
  then show ?case by simp
next
  case (Cons ie ies)
  obtain s r where sr: "sr = (s, r)" by fastforce
  have bU: "batch_events (map snd ies) \<subseteq> U" using Cons.prems(1) by (auto simp: batch_events_def)
  show ?case
  proof (cases "\<exists>e. snd ie = Some e \<and> Type e \<noteq> EventGenesis")
    case True
    then obtain e where e: "snd ie = Some e" "Type e \<noteq> EventGenesis" by blast
    have eU: "e \<in> U" using Cons.prems(1) e by auto
    have g: "batch_events (map snd (ie # ies)) - genesis_of (map snd (ie # ies))
        = insert e (batch_events (map snd ies) - genesis_of (map snd ies))"
      using e by (auto simp: genesis_of_def)
    note st = admit_step [OF assms(1) eU Cons.prems(2), of s "fst ie" r]
    have "insert e E \<subseteq> U" using eU Cons.prems(2) by simp
    note ih = Cons.IH [OF bU this, of "admit P (fst ie) e (s, r)"]
    show ?thesis
      using ih st Cons.prems(3,4) e sr g consistentD(1) [OF assms(1) eU] by (auto simp: apply_other_def)
  next
    case False
    then have f: "fst (apply_other P ie sr) = fst sr" "snd ie \<noteq> None \<Longrightarrow> apply_other P ie sr = sr"
      "batch_events (map snd (ie # ies)) - genesis_of (map snd (ie # ies)) = batch_events (map snd ies) - genesis_of (map snd ies)"
      "batch_events (map snd ies) \<subseteq> batch_events (map snd (ie # ies))"
      by (auto simp: apply_other_def genesis_of_def batch_events_def split: option.split)
    note ih = Cons.IH [OF bU Cons.prems(2), of "apply_other P ie sr"]
    show ?thesis using ih f Cons.prems(3,4) by (cases "snd ie") (auto simp del: batch_events_simps)
  qed
qed

lemma holds_facts_genesis_ident:
  assumes "holds_facts P gid root E s" "consistent P gid root U" "e \<in> U" "e \<in> E" "valid_fact P gid root e"
  shows "groupID s \<noteq> []"
proof -
  have "(projr (event_ID P e), e) \<in> set (events s)"
    using assms valid_fact_ID [OF assms(5)] by (auto simp: holds_facts_def facts_def)
  then have "events s \<noteq> []" by auto
  then show ?thesis using assms(1) consistentD(1) [OF assms(2,3)] by (simp add: holds_facts_def)
qed

lemma Apply_facts:
  assumes c: "consistent P gid root U" "batch_events b \<subseteq> U" "E \<subseteq> U" and h: "holds_facts P gid root E s"
    and g: "groupID s \<noteq> [] \<or> (\<exists>e \<in> genesis_of b. valid_fact P gid root e)"
  shows "holds_facts P gid root (E \<union> batch_events b) (fst (Apply P s b))
    \<and> groupID (fst (Apply P s b)) = gid
    \<and> ((\<forall>e \<in> batch_events b. valid_fact P gid root e) \<and> None \<notin> set b \<longrightarrow> Rejected (snd (Apply P s b)) = [])"
proof -
  define ies where "ies = zip [0..<length b] b"
  have snd_ies: "map snd ies = b" by (simp add: ies_def)
  let ?r0 = "\<lparr>Applied = [], Known = [], Rejected = []\<rparr> :: ApplyResult"
  define sr where "sr = fold (apply_genesis P) ies (s, ?r0)"
  have A: "Apply P s b = fold (apply_other P) ies sr" by (simp add: Apply_def ies_def sr_def Let_def)
  have gb: "genesis_of b \<subseteq> batch_events b" by (auto simp: genesis_of_def)
  have p1: "holds_facts P gid root (E \<union> genesis_of b) (fst sr)"
    "(\<forall>e \<in> genesis_of b. valid_fact P gid root e) \<longrightarrow> Rejected (snd sr) = []"
    using genesis_pass [OF c(1), of ies E "(s, ?r0)"] c(2,3) h by (auto simp: snd_ies sr_def)
  have gid: "groupID (fst sr) \<noteq> []"
  proof (cases "groupID s = []")
    case True
    then obtain e where e: "e \<in> genesis_of b" "valid_fact P gid root e" using g by blast
    then have "e \<in> U" using gb c(2) by auto
    with p1(1) c(1) e show ?thesis by (intro holds_facts_genesis_ident [of P gid root "E \<union> genesis_of b" _ U e]) auto
  next
    case False
    then obtain p where "p \<in> facts P gid root E" "Type (snd p) = EventGenesis"
      using h by (auto simp: holds_facts_def split: if_splits)
    then have p: "snd p \<in> E" "valid_fact P gid root (snd p)" by (auto simp: facts_def)
    with p1(1) c show ?thesis by (intro holds_facts_genesis_ident [of P gid root "E \<union> genesis_of b" _ U "snd p"]) auto
  qed
  have EU: "E \<union> genesis_of b \<subseteq> U" using c(2,3) gb by auto
  have u: "E \<union> genesis_of b \<union> (batch_events b - genesis_of b) = E \<union> batch_events b" using gb by auto
  have p2: "holds_facts P gid root (E \<union> batch_events b) (fst (Apply P s b))"
    "(\<forall>e \<in> batch_events b. valid_fact P gid root e) \<and> None \<notin> snd ` set ies \<longrightarrow> Rejected (snd (Apply P s b)) = Rejected (snd sr)"
    using other_pass [OF c(1) _ EU p1(1) gid, of ies] c(2) u by (simp_all add: snd_ies A)
  have nz: "set b = snd ` set ies" by (metis snd_ies set_map)
  have "events (fst sr) \<noteq> []" using gid p1(1) by (auto simp: holds_facts_def)
  then obtain p where "p \<in> facts P gid root (E \<union> genesis_of b)" using p1(1) by (auto simp: holds_facts_def)
  then have "facts P gid root (E \<union> batch_events b) \<noteq> {}" using gb by (auto simp: facts_def)
  then have "events (fst (Apply P s b)) \<noteq> []" using p2(1) by (auto simp: holds_facts_def)
  then have "groupID (fst (Apply P s b)) = gid" using p2(1) by (simp add: holds_facts_def)
  with p1 p2 gb nz show ?thesis by auto
qed

definition run_batches :: "platform \<Rightarrow> State \<Rightarrow> Event option list list \<Rightarrow> State" where
  "run_batches P s bs = foldl (\<lambda>s b. fst (Apply P s b)) s bs"

lemma run_batches_facts:
  assumes "consistent P gid root U" "\<Union> (batch_events ` set bs) \<subseteq> U" "E \<subseteq> U" "holds_facts P gid root E s"
    "groupID s \<noteq> [] \<or> bs \<noteq> [] \<and> (\<exists>e \<in> genesis_of (hd bs). valid_fact P gid root e)"
  shows "holds_facts P gid root (E \<union> \<Union> (batch_events ` set bs)) (run_batches P s bs)
    \<and> (groupID s = gid \<or> bs \<noteq> [] \<longrightarrow> groupID (run_batches P s bs) = gid)"
  using assms(2-)
proof (induction bs arbitrary: s E)
  case Nil
  then show ?case by (simp add: run_batches_def)
next
  case (Cons b bs)
  have b: "batch_events b \<subseteq> U" "\<Union> (batch_events ` set bs) \<subseteq> U" using Cons.prems(1) by auto
  note a = Apply_facts [OF assms(1) b(1) Cons.prems(2,3)]
  have a': "holds_facts P gid root (E \<union> batch_events b) (fst (Apply P s b))" "groupID (fst (Apply P s b)) = gid"
    using a Cons.prems(4) by auto
  have "gid \<noteq> []" using assms(1) by (simp add: consistent_def)
  then show ?case
    using Cons.IH [OF b(2) _ a'(1)] b(1) Cons.prems(2) a'(2) by (simp add: run_batches_def Un_assoc)
qed

lemma NewState_facts: "holds_facts P gid root {} NewState"
  by (simp add: holds_facts_def NewState_def facts_def)

lemma holds_facts_same:
  assumes "holds_facts P gid root E s" "holds_facts P gid root E s'"
  shows "same_facts s s'"
  using assms by (auto simp: holds_facts_def same_facts_def split: if_splits)


section \<open>Persistence\<close>

lemma set_Events: "keys_distinct (events s) \<Longrightarrow> set (Events s) = snd ` set (events s)"
proof -
  assume k: "keys_distinct (events s)"
  have "the (assoc_get (events s) (fst p)) = snd p" if "p \<in> set (events s)" for p
    using assoc_get_distinct [OF k, of "fst p" "snd p"] that by simp
  then show ?thesis by (force simp: Events_def state_ids_def image_image)
qed

lemma Events_same_facts: "same_facts s s' \<Longrightarrow> Events s = Events s'"
proof -
  assume s: "same_facts s s'"
  have "assoc_get (events s) = assoc_get (events s')"
  proof
    fix k
    have kd: "distinct (map fst (events s))" "distinct (map fst (events s'))" and se: "set (events s) = set (events s')"
      using s by (auto simp: same_facts_def keys_distinct_def)
    show "assoc_get (events s) k = assoc_get (events s') k"
      unfolding assoc_get_map_of using map_of_inject_set [OF kd] se by simp
  qed
  then show ?thesis using s state_ids_unique [of s s'] by (simp add: Events_def same_facts_def)
qed

text \<open>
  a stored state reloads. For the state of a member who was handed any batches, beginning with
  the genesis event, decoding what \<open>MarshalJSON\<close> wrote passes every check of
  \<open>UnmarshalJSON\<close>, gives a state with the same facts and the same resolved membership, and that
  state serializes to the same event list.
\<close>

theorem persisted_state_reloads:
  assumes "consistent P gid root (\<Union> (batch_events ` set bs))"
    and "bs \<noteq> []" and "\<exists>e \<in> genesis_of (hd bs). valid_fact P gid root e"
  shows "\<exists>s'. UnmarshalJSON P (map Some (MarshalJSON (run_batches P NewState bs))) = Inr s'
    \<and> same_facts (run_batches P NewState bs) s'
    \<and> Resolve P s' = Resolve P (run_batches P NewState bs)
    \<and> MarshalJSON s' = MarshalJSON (run_batches P NewState bs)"
proof -
  let ?U = "\<Union> (batch_events ` set bs)" and ?s = "run_batches P NewState bs"
  have h: "holds_facts P gid root ?U ?s" and gid: "groupID ?s = gid"
    using run_batches_facts [OF assms(1) _ _ NewState_facts, of bs] assms(2,3) by auto
  define b where "b = map Some (MarshalJSON ?s)"
  have kd: "keys_distinct (events ?s)" and se: "set (events ?s) = facts P gid root ?U"
    using h by (auto simp: holds_facts_def)
  have be: "batch_events b = snd ` facts P gid root ?U"
    using set_Events [OF kd] se by (auto simp: b_def MarshalJSON_def batch_events_def)
  have val: "\<forall>e \<in> batch_events b. valid_fact P gid root e" by (auto simp: be facts_def)
  have sub: "batch_events b \<subseteq> ?U" by (auto simp: be facts_def)
  obtain e where e: "e \<in> genesis_of (hd bs)" "valid_fact P gid root e" using assms(3) by blast
  have "e \<in> ?U" using e(1) assms(2) by (auto simp: genesis_of_def intro!: bexI [of _ "hd bs"])
  then have "e \<in> genesis_of b"
    using e valid_fact_ID [OF e(2)] by (force simp: genesis_of_def be facts_def)
  then have g: "\<exists>e \<in> genesis_of b. valid_fact P gid root e" using e(2) by blast
  note ap = Apply_facts [OF assms(1) sub _ NewState_facts disjI2 [OF g]]
  define s' where "s' = fst (Apply P NewState b)"
  have a: "holds_facts P gid root (batch_events b) s'" "groupID s' = gid" "Rejected (snd (Apply P NewState b)) = []"
    using ap val by (auto simp: s'_def b_def)
  have "facts P gid root (batch_events b) = facts P gid root ?U" by (force simp: be facts_def)
  then have sf: "same_facts ?s s'"
    using a(1,2) h gid by (simp add: same_facts_def holds_facts_def)
  have "gid \<noteq> []" using assms(1) by (simp add: consistent_def)
  then have "UnmarshalJSON P b = Inr s'"
    using a by (simp add: UnmarshalJSON_def s'_def case_prod_beta Let_def)
  then show ?thesis
    using sf Resolve_same_facts [OF sf, of P] Events_same_facts [OF sf]
    by (intro exI [of _ s']) (simp add: b_def MarshalJSON_def)
qed
section \<open>Witnesses\<close>

lemma sample_events:
  "Type sample_genesis = EventGenesis" "Type sample_dissolve = EventDissolve"
  "GroupID sample_genesis = sample_gid" "GroupID sample_dissolve = sample_gid"
  "RootPubKey sample_genesis = sample_key"
  by (simp_all add: sample_genesis_def sample_dissolve_def root_signed_def blank_event_def)

lemma sample_ids_differ: "event_ID sample_platform sample_genesis \<noteq> event_ID sample_platform sample_dissolve"
proof
  assume "event_ID sample_platform sample_genesis = event_ID sample_platform sample_dissolve"
  then obtain x y where "hex_encode (pad 32 (write_length_prefixed ''frz-group-genesis-v1'' @ x))
      = hex_encode (pad 32 (write_length_prefixed ''frz-group-dissolve-v1'' @ y))"
    by (auto simp: event_ID_def event_signingBytes_def sample_events domainTags_def sample_platform_def)
  then have "pad 32 (write_length_prefixed ''frz-group-genesis-v1'' @ x)
      = pad 32 (write_length_prefixed ''frz-group-dissolve-v1'' @ y)"
    by (metis hex_decode_encode option.inject)
  then show False by (simp add: pad_def write_length_prefixed_def numeral_2_eq_2)
qed

lemma sample_valid: "valid_fact sample_platform sample_gid sample_key sample_genesis"
  "valid_fact sample_platform sample_gid sample_key sample_dissolve"
  by (simp_all add: valid_fact_def sample_events sample_events_verify)

lemma sample_consistent: "consistent sample_platform sample_gid sample_key {sample_genesis, sample_dissolve}"
proof -
  have "sample_gid \<noteq> []" by (simp add: sample_gid_def)
  then show ?thesis using sample_ids_differ by (auto simp: consistent_def sample_events)
qed


theorem persisted_state_reloads_witness:
  "\<exists>s'. UnmarshalJSON sample_platform (map Some (MarshalJSON
      (run_batches sample_platform NewState [[Some sample_genesis], [Some sample_dissolve]]))) = Inr s'"
  using persisted_state_reloads [of sample_platform sample_gid sample_key "[[Some sample_genesis], [Some sample_dissolve]]"]
    sample_consistent sample_valid
  by (simp add: genesis_of_def insert_commute sample_events) blast

end
