(* ===== verification/Log_File.thy ===== *)
theory Log_File
  imports Prelude
begin

text \<open>
  The append-only logs of \<open>pkg/client/store.go\<close>, byte by byte: a record is one line of JSON, appended
  with its newline in one write; a reader skips lines that are not valid JSON. The JSON text of a
  record is a parameter, \<open>enc\<close> with its decoder \<open>dec\<close>.
\<close>

section \<open>Reading and appending\<close>

definition maxLogLine :: nat where "maxLogLine = 4 * 1024 * 1024"

definition containsNewline :: "bytes \<Rightarrow> bool" where
  "containsNewline b \<longleftrightarrow> list_ex (\<lambda>c. c = CHR 0x0A \<or> c = CHR 0x0D) b"

definition drop_cr :: "bytes \<Rightarrow> bytes" where
  "drop_cr l = (if l \<noteq> [] \<and> last l = CHR 0x0D then butlast l else l)"

text \<open>The lines \<open>bufio.ScanLines\<close> splits a file into; a last line need not be terminated.\<close>

fun raw_lines :: "bytes \<Rightarrow> bytes list" where
  "raw_lines [] = []"
| "raw_lines (c # cs) = (if c = CHR 0x0A then [] # raw_lines cs
     else case cs of [] \<Rightarrow> [[c]]
       | d # _ \<Rightarrow> if d = CHR 0x0A then [c] # raw_lines (tl cs)
           else (case raw_lines cs of [] \<Rightarrow> [[c]] | l # ls \<Rightarrow> (c # l) # ls))"

text \<open>
  The scanner gives up, without an error the code looks at, at the first line that does not fit its
  buffer.
\<close>

definition readLines :: "(bytes \<Rightarrow> 'r option) \<Rightarrow> bytes \<Rightarrow> 'r list" where
  "readLines dec f = List.map_filter dec
     (filter (\<lambda>l. l \<noteq> []) (map drop_cr (takeWhile (\<lambda>l. length l < maxLogLine) (raw_lines f))))"

definition appendLine :: "('r \<Rightarrow> bytes) \<Rightarrow> bytes \<Rightarrow> 'r \<Rightarrow> bytes option" where
  "appendLine enc f r = (if enc r = [] \<or> containsNewline (enc r) then None else Some (f @ enc r @ [CHR 0x0A]))"

definition rewriteLog :: "('r \<Rightarrow> bytes) \<Rightarrow> 'r list \<Rightarrow> bytes" where
  "rewriteLog enc rs = concat (map (\<lambda>r. enc r @ [CHR 0x0A]) rs)"

text \<open>An append the process did not live to finish: some of the bytes, not the newline.\<close>

definition torn_append :: "('r \<Rightarrow> bytes) \<Rightarrow> bytes \<Rightarrow> 'r \<Rightarrow> nat \<Rightarrow> bytes" where
  "torn_append enc f r k = f @ take k (enc r)"

section \<open>The lines of a file\<close>

definition line_ok :: "bytes \<Rightarrow> bool" where
  "line_ok l \<longleftrightarrow> l \<noteq> [] \<and> \<not> containsNewline l \<and> length l < maxLogLine"

definition terminated :: "bytes \<Rightarrow> bool" where
  "terminated f \<longleftrightarrow> f = [] \<or> last f = CHR 0x0A"

lemma raw_lines_simps:
  "raw_lines (CHR 0x0A # cs) = [] # raw_lines cs"
  by simp

lemma raw_lines_line:
  "CHR 0x0A \<notin> set l \<Longrightarrow> raw_lines (l @ CHR 0x0A # cs) = l # raw_lines cs"
proof (induction l)
  case (Cons c l)
  then show ?case by (cases l) auto
qed simp

lemma raw_lines_last: "CHR 0x0A \<notin> set l \<Longrightarrow> l \<noteq> [] \<Longrightarrow> raw_lines l = [l]"
proof (induction l)
  case (Cons c l)
  then show ?case by (cases l) auto
qed simp

lemma terminated_induct [consumes 1, case_names Nil Line]:
  assumes "terminated f" "Q []" "\<And>l f. CHR 0x0A \<notin> set l \<Longrightarrow> terminated f \<Longrightarrow> Q f \<Longrightarrow> Q (l @ CHR 0x0A # f)"
  shows "Q f"
  using assms(1)
proof (induction "length f" arbitrary: f rule: less_induct)
  case less
  show ?case
  proof (cases "f = []")
    case True
    with assms(2) show ?thesis by simp
  next
    case False
    with less.prems have "last f = CHR 0x0A" by (simp add: terminated_def)
    with False have "CHR 0x0A \<in> set f" by (metis last_in_set)
    then obtain l g where f: "f = l @ CHR 0x0A # g" "CHR 0x0A \<notin> set l" by (metis split_list_first)
    have "terminated g" using less.prems f by (auto simp: terminated_def split: if_splits)
    moreover have "length g < length f" by (simp add: f)
    ultimately show ?thesis using less.hyps assms(3) f by blast
  qed
qed

lemma raw_lines_append: "terminated f \<Longrightarrow> raw_lines (f @ g) = raw_lines f @ raw_lines g"
  by (induction rule: terminated_induct) (simp_all add: raw_lines_line)

lemma line_ok_simps:
  "line_ok l \<Longrightarrow> CHR 0x0A \<notin> set l" "line_ok l \<Longrightarrow> drop_cr l = l" "line_ok l \<Longrightarrow> length l < maxLogLine" "line_ok l \<Longrightarrow> l \<noteq> []"
  by (auto simp: line_ok_def containsNewline_def list_ex_iff drop_cr_def)

text \<open>Every line of the file fits the reader's buffer.\<close>

definition readable :: "bytes \<Rightarrow> bool" where
  "readable f \<longleftrightarrow> list_all (\<lambda>l. length l < maxLogLine) (raw_lines f)"

lemma readLines_readable:
  "readable f \<Longrightarrow> readLines dec f = List.map_filter dec (filter (\<lambda>l. l \<noteq> []) (map drop_cr (raw_lines f)))"
  by (simp add: readLines_def readable_def list_all_iff takeWhile_eq_all_conv [THEN iffD2])

lemma map_filter_append: "List.map_filter f (xs @ ys) = List.map_filter f xs @ List.map_filter f ys"
  by (simp add: List.map_filter_def)

section \<open>The interface: a log of records\<close>

fun append_all :: "('f \<Rightarrow> 'r \<Rightarrow> 'f option) \<Rightarrow> 'f \<Rightarrow> 'r list \<Rightarrow> 'f option" where
  "append_all app f [] = Some f"
| "append_all app f (r # rs) = (case app f r of None \<Rightarrow> None | Some f' \<Rightarrow> append_all app f' rs)"

text \<open>
  A client of a log sees the records in it. \<open>append\<close> adds one at the end, \<open>rewrite\<close> replaces
  all of them; both keep the file one that can be appended to.
\<close>

locale record_log =
  fixes rd :: "'f \<Rightarrow> 'r list"
    and app :: "'f \<Rightarrow> 'r \<Rightarrow> 'f option"
    and rewr :: "'r list \<Rightarrow> 'f"
    and clean :: "'f \<Rightarrow> bool"
    and fits :: "'r \<Rightarrow> bool"
  assumes app_reads: "clean f \<Longrightarrow> fits r \<Longrightarrow> \<exists>f'. app f r = Some f' \<and> clean f' \<and> rd f' = rd f @ [r]"
    and rewr_reads: "list_all fits rs \<Longrightarrow> clean (rewr rs) \<and> rd (rewr rs) = rs"
begin

lemma append_all_reads:
  "clean f \<Longrightarrow> list_all fits rs \<Longrightarrow> \<exists>f'. append_all app f rs = Some f' \<and> clean f' \<and> rd f' = rd f @ rs"
proof (induction rs arbitrary: f)
  case (Cons r rs)
  then obtain f1 where f1: "app f r = Some f1" "clean f1" "rd f1 = rd f @ [r]" using app_reads by fastforce
  with Cons show ?case by fastforce
qed simp

lemma rewritten_then_appended:
  assumes "list_all fits rs" "list_all fits ss"
  shows "\<exists>f'. append_all app (rewr rs) ss = Some f' \<and> rd f' = rs @ ss"
  using append_all_reads [of "rewr rs" ss] rewr_reads [OF assms(1)] assms(2) by auto

end


section \<open>The files implement it\<close>

definition log_clean :: "bytes \<Rightarrow> bool" where
  "log_clean f \<longleftrightarrow> terminated f \<and> readable f"

definition log_fits :: "('r \<Rightarrow> bytes) \<Rightarrow> (bytes \<Rightarrow> 'r option) \<Rightarrow> 'r \<Rightarrow> bool" where
  "log_fits enc dec r \<longleftrightarrow> line_ok (enc r) \<and> dec (enc r) = Some r"

lemma readLines_append:
  assumes "terminated f" "readable f" "readable g"
  shows "readable (f @ g)" "readLines dec (f @ g) = readLines dec f @ readLines dec g"
proof -
  show r: "readable (f @ g)" using assms by (simp add: readable_def raw_lines_append)
  show "readLines dec (f @ g) = readLines dec f @ readLines dec g"
    using assms r by (simp add: readLines_readable raw_lines_append map_filter_append)
qed

lemma readLines_line:
  assumes "line_ok l"
  shows "readable (l @ [CHR 0x0A])" "readLines dec (l @ [CHR 0x0A]) = (case dec l of None \<Rightarrow> [] | Some r \<Rightarrow> [r])"
proof -
  have "raw_lines (l @ [CHR 0x0A]) = [l]" using raw_lines_line [of l "[]"] line_ok_simps(1) [OF assms] by simp
  then show "readable (l @ [CHR 0x0A])" "readLines dec (l @ [CHR 0x0A]) = (case dec l of None \<Rightarrow> [] | Some r \<Rightarrow> [r])"
    using line_ok_simps [OF assms] by (auto simp: readable_def readLines_def List.map_filter_def split: option.split)
qed

lemma log_append_clean:
  assumes "log_clean f" "line_ok l"
  shows "log_clean (f @ l @ [CHR 0x0A])"
    "readLines dec (f @ l @ [CHR 0x0A]) = readLines dec f @ (case dec l of None \<Rightarrow> [] | Some r \<Rightarrow> [r])"
proof -
  note c = assms(1) [unfolded log_clean_def] and l = readLines_line [OF assms(2)]
  show "log_clean (f @ l @ [CHR 0x0A])"
    using readLines_append(1) [OF c [THEN conjunct1] c [THEN conjunct2] l(1)] by (simp add: log_clean_def terminated_def)
  show "readLines dec (f @ l @ [CHR 0x0A]) = readLines dec f @ (case dec l of None \<Rightarrow> [] | Some r \<Rightarrow> [r])"
    using readLines_append(2) [OF c [THEN conjunct1] c [THEN conjunct2] l(1), of dec] l(2) [of dec] by simp
qed

lemma rewriteLog_clean: "list_all (log_fits enc dec) rs \<Longrightarrow> log_clean (rewriteLog enc rs) \<and> readLines dec (rewriteLog enc rs) = rs"
proof (induction rs rule: rev_induct)
  case (snoc r rs)
  then have c: "log_clean (rewriteLog enc rs)" "readLines dec (rewriteLog enc rs) = rs" and r: "line_ok (enc r)" "dec (enc r) = Some r"
    by (simp_all add: log_fits_def)
  have "rewriteLog enc (rs @ [r]) = rewriteLog enc rs @ enc r @ [CHR 0x0A]" by (simp add: rewriteLog_def)
  with log_append_clean(1) [OF c(1) r(1)] log_append_clean(2) [OF c(1) r(1), of dec] c(2) r(2) show ?case by simp
qed (simp add: rewriteLog_def log_clean_def terminated_def readable_def readLines_def List.map_filter_def)

interpretation files: record_log "readLines dec" "appendLine enc" "rewriteLog enc" log_clean "log_fits enc dec"
proof unfold_locales
  fix f :: bytes and r
  assume c: "log_clean f" and r: "log_fits enc dec r"
  then have "appendLine enc f r = Some (f @ enc r @ [CHR 0x0A])"
    by (simp add: appendLine_def log_fits_def line_ok_def)
  with log_append_clean(1) [OF c, of "enc r"] log_append_clean(2) [OF c, of "enc r" dec] r
  show "\<exists>f'. appendLine enc f r = Some f' \<and> log_clean f' \<and> readLines dec f' = readLines dec f @ [r]"
    by (auto simp: log_fits_def)
qed (rule rewriteLog_clean)

text \<open>
  Appending records one by one to a log that was rewritten before, and reading it, gives the records
  it was rewritten with followed by the appended ones, in order; and an append that was cut off damages
  nothing before it.
\<close>

theorem log_reads_back:
  assumes "list_all (log_fits enc dec) rs" "list_all (log_fits enc dec) ss" "log_fits enc dec r"
    and "k < length (enc r)" "dec (take k (enc r)) = None"
  shows "\<exists>f. append_all (appendLine enc) (rewriteLog enc rs) ss = Some f \<and> readLines dec f = rs @ ss
    \<and> readLines dec (torn_append enc f r k) = rs @ ss"
proof -
  obtain f where f: "append_all (appendLine enc) (rewriteLog enc rs) ss = Some f" "log_clean f" "readLines dec f = rs @ ss"
    using files.append_all_reads [of "rewriteLog enc rs" enc dec ss] rewriteLog_clean [OF assms(1)] assms(2) by auto
  have l: "line_ok (enc r)" using assms(3) by (simp add: log_fits_def)
  define t where "t = take k (enc r)"
  have n: "c \<in> set t \<Longrightarrow> c \<noteq> CHR 0x0A \<and> c \<noteq> CHR 0x0D" for c
    using l in_set_takeD [of c k "enc r"] by (auto simp: t_def line_ok_def containsNewline_def list_ex_iff)
  have "readable t \<and> readLines dec t = []"
  proof (cases "t = []")
    case False
    have "drop_cr t = t" using n last_in_set by (metis drop_cr_def)
    moreover have "length t < maxLogLine" using line_ok_simps(3) [OF l] by (simp add: t_def)
    moreover have "raw_lines t = [t]" using n False by (intro raw_lines_last) blast+
    ultimately show ?thesis
      using assms(5) by (simp add: readable_def readLines_def List.map_filter_def t_def [symmetric])
  qed (simp add: readable_def readLines_def List.map_filter_def)
  with f readLines_append(2) [of f t dec] show ?thesis
    by (simp add: torn_append_def log_clean_def t_def [symmetric])
qed

section \<open>A cut-off append costs the next record too\<close>

text \<open>
  Nothing terminates the remains of a cut-off append, so the next record is written onto the same line.
  That line is not JSON, and the reader skips both.
\<close>

theorem torn_append_costs_next:
  assumes "log_clean f" "log_fits enc dec r'" "\<not> containsNewline (enc r)"
    and "length (take k (enc r) @ enc r') < maxLogLine" "dec (take k (enc r) @ enc r') = None"
  shows "\<exists>f'. appendLine enc (torn_append enc f r k) r' = Some f' \<and> readLines dec f' = readLines dec f"
proof -
  have "line_ok (take k (enc r) @ enc r')"
    using assms(2-4) by (auto simp: line_ok_def log_fits_def containsNewline_def list_ex_iff dest: in_set_takeD)
  from log_append_clean(2) [OF assms(1) this, of dec] assms(2,5) show ?thesis
    by (simp add: appendLine_def torn_append_def log_fits_def line_ok_def)
qed

end
