(* ===== verification/Client_Log.thy ===== *)
theory Client_Log
  imports Log_File Clock
begin

text \<open>
  Transcripts (\<open>pkg/client/messages.go\<close>): a chat is an append-only log of records, and reading it
  replays them. The records a log holds are a list here; \<open>Log_File\<close> relates that list to the bytes
  of the file. Instants are kept as such: their text in RFC 3339 with nanoseconds is lossless.
\<close>

section \<open>Lines and records\<close>

definition MessageNormal :: string where "MessageNormal = ''normal''"
definition MessageSystemInfo :: string where "MessageSystemInfo = ''system_info''"
definition SendPending :: string where "SendPending = ''pending''"
definition SendSent :: string where "SendSent = ''sent''"
definition SendFailed :: string where "SendFailed = ''failed''"

lemmas line_state_defs = MessageNormal_def MessageSystemInfo_def SendPending_def SendSent_def SendFailed_def

record Attachment =
  at_Kind :: string
  at_Algorithm :: string
  at_BlobID :: string
  at_Key :: bytes
  at_MimeType :: string
  at_ByteSize :: int
  at_Width :: int
  at_Height :: int
  at_Thumb :: bytes

record GroupDelivery =
  gd_AccountID :: string
  gd_WireMessageID :: string
  gd_State :: string
  gd_Error :: string
  gd_Detail :: string
  gd_AttachmentSkipped :: bool

record chat_message =
  cm_ID :: string
  cm_Text :: string
  cm_Mine :: bool
  cm_Timestamp :: time
  cm_SenderSentAt :: "time option"
  cm_SenderAccountID :: string
  cm_ReplyToID :: string
  cm_ReplyPreviewText :: string
  cm_ReplyPreviewMine :: "bool option"
  cm_ReplyPreviewAuthorID :: string
  cm_Kind :: string
  cm_SendState :: string
  cm_Attachments :: "Attachment list"
  cm_Deliveries :: "GroupDelivery list"

datatype logRecord =
    RecMessage chat_message
  | RecDelete string
  | RecState string string
  | RecAttach string "Attachment list"
  | RecDelivery string GroupDelivery
  | RecPin string bool
  | RecUnknown string

fun rec_ID :: "logRecord \<Rightarrow> string" where
  "rec_ID (RecMessage m) = cm_ID m"
| "rec_ID (RecDelete i) = i"
| "rec_ID (RecState i st) = i"
| "rec_ID (RecAttach i atts) = i"
| "rec_ID (RecDelivery i d) = i"
| "rec_ID (RecPin i p) = i"
| "rec_ID (RecUnknown i) = i"

section \<open>Replaying a log\<close>

record transcript =
  t_order :: "string list"
  t_messages :: "(string \<times> chat_message) list"
  t_pins :: "string list"
  t_records :: nat

definition empty_transcript :: transcript where
  "empty_transcript = \<lparr>t_order = [], t_messages = [], t_pins = [], t_records = 0\<rparr>"

fun update_delivery :: "GroupDelivery \<Rightarrow> GroupDelivery list \<Rightarrow> GroupDelivery list" where
  "update_delivery r [] = []"
| "update_delivery r (d # ds) =
     (if gd_AccountID d = gd_AccountID r
      then d\<lparr>gd_State := gd_State r, gd_Error := gd_Error r, gd_Detail := gd_Detail r,
             gd_AttachmentSkipped := gd_AttachmentSkipped r,
             gd_WireMessageID := (if gd_WireMessageID r \<noteq> [] then gd_WireMessageID r else gd_WireMessageID d)\<rparr> # ds
      else d # update_delivery r ds)"

definition change_message :: "string \<Rightarrow> (chat_message \<Rightarrow> chat_message) \<Rightarrow> transcript \<Rightarrow> transcript" where
  "change_message i f t = (case assoc_get (t_messages t) i of None \<Rightarrow> t
     | Some m \<Rightarrow> t\<lparr>t_messages := assoc_put (t_messages t) i (f m)\<rparr>)"

fun replay_record :: "logRecord \<Rightarrow> transcript \<Rightarrow> transcript" where
  "replay_record (RecMessage m) t =
     t\<lparr>t_order := (if assoc_get (t_messages t) (cm_ID m) = None then t_order t @ [cm_ID m] else t_order t),
       t_messages := assoc_put (t_messages t) (cm_ID m) m\<rparr>"
| "replay_record (RecDelete i) t =
     (if assoc_get (t_messages t) i = None then t
      else t\<lparr>t_messages := assoc_del (t_messages t) i, t_order := remove1 i (t_order t), t_pins := remove1 i (t_pins t)\<rparr>)"
| "replay_record (RecState i st) t = change_message i (\<lambda>m. m\<lparr>cm_SendState := st\<rparr>) t"
| "replay_record (RecAttach i atts) t = change_message i (\<lambda>m. m\<lparr>cm_Attachments := atts\<rparr>) t"
| "replay_record (RecDelivery i d) t = change_message i (\<lambda>m. m\<lparr>cm_Deliveries := update_delivery d (cm_Deliveries m)\<rparr>) t"
| "replay_record (RecPin i p) t =
     (if assoc_get (t_messages t) i = None then t
      else if p \<and> i \<notin> set (t_pins t) then t\<lparr>t_pins := t_pins t @ [i]\<rparr>
      else if \<not> p \<and> i \<in> set (t_pins t) then t\<lparr>t_pins := remove1 i (t_pins t)\<rparr>
      else t)"
| "replay_record (RecUnknown i) t = t"

definition read_record :: "logRecord \<Rightarrow> transcript \<Rightarrow> transcript" where
  "read_record r t = (if rec_ID r = [] then t else replay_record r (t\<lparr>t_records := Suc (t_records t)\<rparr>))"

definition readTranscript :: "logRecord list \<Rightarrow> transcript" where
  "readTranscript rs = fold read_record rs empty_transcript"

section \<open>Operations\<close>

definition transcript_messages :: "transcript \<Rightarrow> chat_message list" where
  "transcript_messages t = map (\<lambda>i. the (assoc_get (t_messages t) i)) (t_order t)"

definition Messages :: "logRecord list \<Rightarrow> chat_message list" where
  "Messages rs = transcript_messages (readTranscript rs)"

definition MessageExists :: "logRecord list \<Rightarrow> string \<Rightarrow> bool" where
  "MessageExists rs i \<longleftrightarrow> assoc_get (t_messages (readTranscript rs)) i \<noteq> None"

definition PinnedMessageIDs :: "logRecord list \<Rightarrow> string list" where
  "PinnedMessageIDs rs = t_pins (readTranscript rs)"

definition AppendMessage :: "logRecord list \<Rightarrow> chat_message \<Rightarrow> logRecord list option" where
  "AppendMessage rs m =
     (if cm_ID m = [] then None
      else let m1 = (if cm_Kind m = [] then m\<lparr>cm_Kind := MessageNormal\<rparr> else m);
               m2 = (if cm_SendState m1 = [] then m1\<lparr>cm_SendState := SendSent\<rparr> else m1)
           in Some (rs @ [RecMessage m2]))"

definition SetMessageSendState :: "logRecord list \<Rightarrow> string \<Rightarrow> string \<Rightarrow> logRecord list" where
  "SetMessageSendState rs i st = rs @ [RecState i st]"

definition SetMessageAttachments :: "logRecord list \<Rightarrow> string \<Rightarrow> Attachment list \<Rightarrow> logRecord list" where
  "SetMessageAttachments rs i atts = rs @ [RecAttach i atts]"

definition reasonLimit :: nat where "reasonLimit = 200"

text \<open>\<open>runes\<close> of the text are cut in the middle; a text of at most 200 bytes is never cut.\<close>

definition truncateReason :: "string \<Rightarrow> string" where
  "truncateReason reason =
     (if length reason \<le> reasonLimit then reason
      else let r = runes reason in
        if length r \<le> reasonLimit then reason
        else let head = (reasonLimit - 5) * 2 div 3; tail = reasonLimit - 5 - head
             in concat (map encode_rune (take head r)) @ '' ... '' @ concat (map encode_rune (drop (length r - tail) r)))"

definition SetGroupDelivery :: "logRecord list \<Rightarrow> string \<Rightarrow> GroupDelivery \<Rightarrow> logRecord list" where
  "SetGroupDelivery rs i d = rs @ [RecDelivery i (d\<lparr>gd_Error := truncateReason (gd_Error d), gd_Detail := truncateReason (gd_Detail d)\<rparr>)]"

definition PinMessage :: "logRecord list \<Rightarrow> string \<Rightarrow> logRecord list" where
  "PinMessage rs i = rs @ [RecPin i True]"

definition UnpinMessage :: "logRecord list \<Rightarrow> string \<Rightarrow> logRecord list" where
  "UnpinMessage rs i = rs @ [RecPin i False]"

definition compactRatio :: nat where "compactRatio = 3"

definition compacted :: "transcript \<Rightarrow> logRecord list" where
  "compacted t = map (\<lambda>i. RecMessage (the (assoc_get (t_messages t) i))) (t_order t) @ map (\<lambda>i. RecPin i True) (t_pins t)"

definition maybeCompact :: "logRecord list \<Rightarrow> logRecord list" where
  "maybeCompact rs = (let t = readTranscript rs in
     if t_records t \<le> compactRatio * max (length (t_order t)) 1 then rs else compacted t)"

text \<open>The media of the message are files of their own.\<close>

definition DeleteMessage_log :: "logRecord list \<Rightarrow> string \<Rightarrow> logRecord list" where
  "DeleteMessage_log rs i = maybeCompact (rs @ [RecDelete i])"

definition in_flight_records :: "chat_message \<Rightarrow> logRecord list" where
  "in_flight_records m = (if cm_SendState m = SendPending then [RecState (cm_ID m) SendFailed] else [])
     @ map (\<lambda>d. RecDelivery (cm_ID m) \<lparr>gd_AccountID = gd_AccountID d, gd_WireMessageID = [], gd_State = SendFailed,
              gd_Error = [], gd_Detail = [], gd_AttachmentSkipped = False\<rparr>)
         (filter (\<lambda>d. gd_State d = SendPending) (cm_Deliveries m))"

definition failInFlightSends :: "logRecord list \<Rightarrow> logRecord list" where
  "failInFlightSends rs = maybeCompact (rs @ concat (map in_flight_records (Messages rs)))"

section \<open>The newest line, from the tail of the log\<close>

definition apply_later :: "logRecord \<Rightarrow> chat_message \<Rightarrow> chat_message" where
  "apply_later r m = (if rec_ID r \<noteq> cm_ID m then m else case r of
       RecState i st \<Rightarrow> m\<lparr>cm_SendState := st\<rparr>
     | RecDelivery i d \<Rightarrow> m\<lparr>cm_Deliveries := map (\<lambda>x. if gd_AccountID x = gd_AccountID d
          then x\<lparr>gd_State := gd_State d, gd_Error := gd_Error d, gd_AttachmentSkipped := gd_AttachmentSkipped d,
                 gd_WireMessageID := (if gd_WireMessageID d \<noteq> [] then gd_WireMessageID d else gd_WireMessageID x)\<rparr>
          else x) (cm_Deliveries m)\<rparr>
     | _ \<Rightarrow> m)"

definition applyLaterChanges :: "logRecord list \<Rightarrow> chat_message \<Rightarrow> chat_message" where
  "applyLaterChanges newest_first m = fold apply_later (rev newest_first) m"

fun find_newest :: "string list \<Rightarrow> logRecord list \<Rightarrow> chat_message option" where
  "find_newest deleted [] = None"
| "find_newest deleted (r # rs) =
     (if rec_ID r = [] then find_newest deleted rs
      else case r of RecDelete i \<Rightarrow> find_newest (i # deleted) rs
        | RecMessage m \<Rightarrow> if cm_ID m \<in> set deleted then find_newest deleted rs else Some m
        | _ \<Rightarrow> find_newest deleted rs)"

text \<open>\<open>window\<close> is how many records the last half megabyte of the file holds.\<close>

definition LastMessage :: "nat \<Rightarrow> logRecord list \<Rightarrow> chat_message option" where
  "LastMessage window rs =
     (let lines = rev (drop (length rs - window) rs) in
      case find_newest [] lines of Some m \<Rightarrow> Some (applyLaterChanges lines m)
      | None \<Rightarrow> (let ms = Messages rs in if ms = [] then None else Some (last ms)))"

end
