(* ===== verification/Client_Transcript.thy ===== *)
theory Client_Transcript
  imports Client_Log
begin

text \<open>
  What reading a transcript guarantees: its invariant, that compaction changes nothing a reader can see
  now or later, and that nothing is left mid-send when an account is opened.
\<close>

section \<open>The invariant of a replayed log\<close>

definition keyed :: "(string \<times> chat_message) list \<Rightarrow> bool" where
  "keyed ms \<longleftrightarrow> list_all (\<lambda>p. cm_ID (snd p) = fst p \<and> fst p \<noteq> []) ms"

definition transcript_ok :: "transcript \<Rightarrow> bool" where
  "transcript_ok t \<longleftrightarrow> map fst (t_messages t) = t_order t \<and> distinct (t_order t) \<and> distinct (t_pins t)
     \<and> set (t_pins t) \<subseteq> set (t_order t) \<and> keyed (t_messages t)"

lemma map_fst_assoc_put: "map fst (assoc_put m k v) = (if k \<in> fst ` set m then map fst m else map fst m @ [k])"
  by (induction m k v rule: assoc_put.induct) auto

lemma keyed_put: "keyed ms \<Longrightarrow> cm_ID m = k \<Longrightarrow> k \<noteq> [] \<Longrightarrow> keyed (assoc_put ms k m)"
  by (induction ms k m rule: assoc_put.induct) (auto simp: keyed_def)

lemma keyed_del: "keyed ms \<Longrightarrow> keyed (assoc_del ms k)"
  by (simp add: keyed_def assoc_del_def list_all_iff)

lemma keyed_get: "keyed ms \<Longrightarrow> assoc_get ms k = Some m \<Longrightarrow> cm_ID m = k \<and> k \<noteq> [] \<and> k \<in> fst ` set ms"
  by (induction ms k rule: assoc_get.induct) (auto simp: keyed_def split: if_splits)

lemma map_fst_assoc_del: "distinct (map fst m) \<Longrightarrow> map fst (assoc_del m k) = remove1 k (map fst m)"
proof -
  assume d: "distinct (map fst m)"
  have "map fst (assoc_del m k) = filter (\<lambda>x. x \<noteq> k) (map fst m)" by (simp add: assoc_del_def filter_map o_def)
  also have "\<dots> = removeAll k (map fst m)" unfolding removeAll_filter_not_eq by (rule filter_cong) auto
  finally show ?thesis using d by (simp add: distinct_remove1_removeAll)
qed

lemma transcript_keys: "transcript_ok t \<Longrightarrow> assoc_get (t_messages t) i = None \<longleftrightarrow> i \<notin> set (t_order t)"
  unfolding transcript_ok_def assoc_get_None_iff by (metis list.set_map)

lemma transcript_parts:
  assumes "transcript_ok t"
  shows "t_order t = map fst (t_messages t)" "distinct (map fst (t_messages t))" "distinct (t_pins t)"
    "set (t_pins t) \<subseteq> fst ` set (t_messages t)" "keyed (t_messages t)"
  using assms unfolding transcript_ok_def by (metis list.set_map)+

lemma transcript_okI:
  "map fst ms = os \<Longrightarrow> distinct os \<Longrightarrow> distinct ps \<Longrightarrow> set ps \<subseteq> set os \<Longrightarrow> keyed ms
    \<Longrightarrow> transcript_ok \<lparr>t_order = os, t_messages = ms, t_pins = ps, t_records = n\<rparr>"
  by (simp add: transcript_ok_def)

lemma change_message_ok:
  assumes ok: "transcript_ok t" and f: "\<And>m. cm_ID (f m) = cm_ID m"
  shows "transcript_ok (change_message i f t)"
proof (cases "assoc_get (t_messages t) i")
  case (Some m)
  note k = keyed_get [OF transcript_parts(5) [OF ok] Some]
  then have "keyed (assoc_put (t_messages t) i (f m))" by (intro keyed_put transcript_parts [OF ok]) (simp_all add: f)
  with ok k Some show ?thesis by (simp add: change_message_def transcript_ok_def map_fst_assoc_put)
qed (use ok in \<open>simp add: change_message_def\<close>)

lemma replay_message_ok:
  assumes ok: "transcript_ok t" and i: "cm_ID m \<noteq> []"
  shows "transcript_ok (replay_record (RecMessage m) t)"
proof -
  note p = transcript_parts [OF ok]
  have "keyed (assoc_put (t_messages t) (cm_ID m) m)" using p(5) i by (intro keyed_put) simp_all
  moreover have "distinct (map fst (assoc_put (t_messages t) (cm_ID m) m))"
    using p(2) by (auto simp: map_fst_assoc_put)
  ultimately show ?thesis
    using p by (auto simp: transcript_ok_def map_fst_assoc_put assoc_get_None_iff)
qed

lemma replay_delete_ok:
  assumes ok: "transcript_ok t"
  shows "transcript_ok (replay_record (RecDelete i) t)"
proof -
  note p = transcript_parts [OF ok]
  have "set (remove1 i (t_pins t)) \<subseteq> set (remove1 i (map fst (t_messages t)))"
    using p(2-4) by (auto simp: set_remove1_eq)
  with p keyed_del [OF p(5), of i] ok show ?thesis
    by (simp add: transcript_ok_def map_fst_assoc_del)
qed

lemma replay_pin_ok:
  assumes ok: "transcript_ok t"
  shows "transcript_ok (replay_record (RecPin i b) t)"
  using transcript_keys [OF ok, of i] ok
  by (auto simp: transcript_ok_def dest: in_set_remove1 [THEN iffD1] notin_set_remove1)

lemma replay_record_ok:
  "transcript_ok t \<Longrightarrow> rec_ID r \<noteq> [] \<Longrightarrow> transcript_ok (replay_record r t)"
  by (cases r) (simp_all add: change_message_ok replay_message_ok replay_delete_ok replay_pin_ok
      del: replay_record.simps(1,2,6))

lemma read_record_ok: "transcript_ok t \<Longrightarrow> transcript_ok (read_record r t)"
proof -
  assume "transcript_ok t"
  then have "transcript_ok (t\<lparr>t_records := Suc (t_records t)\<rparr>)" by (simp add: transcript_ok_def)
  with \<open>transcript_ok t\<close> show ?thesis by (simp add: read_record_def replay_record_ok)
qed

interpretation transcripts: preserving read_record "\<lambda>_. True" transcript_ok
  by unfold_locales (rule read_record_ok)

lemma readTranscript_ok: "transcript_ok (readTranscript rs)"
proof -
  have "transcript_ok empty_transcript" by (simp add: transcript_ok_def empty_transcript_def keyed_def)
  then show ?thesis unfolding readTranscript_def by (intro transcripts.run_inv) (simp add: list_all_iff)
qed


section \<open>Compaction\<close>

text \<open>All a reader sees of a transcript: not how many records it took.\<close>

definition seen :: "transcript \<Rightarrow> string list \<times> (string \<times> chat_message) list \<times> string list" where
  "seen t = (t_order t, t_messages t, t_pins t)"

lemma seen_change: "seen t = seen t' \<Longrightarrow> seen (change_message i f t) = seen (change_message i f t')"
  by (simp add: seen_def change_message_def split: option.split)

lemma seen_read: "seen t = seen t' \<Longrightarrow> seen (read_record r t) = seen (read_record r t')"
proof -
  assume a: "seen t = seen t'"
  have b: "seen (t\<lparr>t_records := m\<rparr>) = seen (t'\<lparr>t_records := n\<rparr>)" for m n using a by (simp add: seen_def)
  show ?thesis
    using a by (cases r) (auto simp: read_record_def seen_change [OF b], auto simp: seen_def)
qed

lemma seen_reads: "seen t = seen t' \<Longrightarrow> seen (fold read_record rs t) = seen (fold read_record rs t')"
proof (induction rs arbitrary: t t')
  case (Cons r rs)
  from Cons.IH [OF seen_read [OF Cons.prems]] show ?case by simp
qed simp

lemma read_messages:
  "distinct (map fst ms) \<Longrightarrow> keyed ms \<Longrightarrow>
    fold read_record (map (\<lambda>p. RecMessage (snd p)) ms) empty_transcript
      = \<lparr>t_order = map fst ms, t_messages = ms, t_pins = [], t_records = length ms\<rparr>"
proof (induction ms rule: rev_induct)
  case (snoc p ms)
  obtain k m where p: "p = (k, m)" by (cases p)
  have k: "cm_ID m = k" "k \<noteq> []" "k \<notin> fst ` set ms" using snoc.prems by (auto simp: keyed_def p)
  have "assoc_put ms k m = ms @ [(k, m)]"
    using k(3) by (induction ms k m rule: assoc_put.induct) auto
  with snoc k show ?case by (simp add: p read_record_def keyed_def assoc_get_None_iff)
qed (simp add: empty_transcript_def)

lemma read_pins:
  "distinct (t_pins t @ ps) \<Longrightarrow> set ps \<subseteq> fst ` set (t_messages t) \<Longrightarrow> keyed (t_messages t) \<Longrightarrow>
    fold read_record (map (\<lambda>i. RecPin i True) ps) t
      = t\<lparr>t_pins := t_pins t @ ps, t_records := t_records t + length ps\<rparr>"
proof (induction ps arbitrary: t)
  case (Cons i ps)
  have i: "i \<in> fst ` set (t_messages t)" using Cons.prems by simp
  then have "i \<noteq> []" using Cons.prems(3) by (auto simp: keyed_def list_all_iff)
  moreover have "assoc_get (t_messages t) i \<noteq> None" using i by (simp add: assoc_get_None_iff)
  ultimately have "read_record (RecPin i True) t = t\<lparr>t_pins := t_pins t @ [i], t_records := Suc (t_records t)\<rparr>"
    using Cons.prems(1) by (auto simp: read_record_def)
  then show ?case using Cons by simp
qed simp

lemma compacted_reads:
  assumes ok: "transcript_ok t"
  shows "readTranscript (compacted t) = t\<lparr>t_records := length (t_order t) + length (t_pins t)\<rparr>"
proof -
  note p = transcript_parts [OF ok]
  have "map (\<lambda>i. RecMessage (the (assoc_get (t_messages t) i))) (t_order t) = map (\<lambda>q. RecMessage (snd q)) (t_messages t)"
    using p(2) assoc_get_distinct [of "t_messages t"] by (auto simp: p(1) keys_distinct_def)
  then have "readTranscript (compacted t) = fold read_record (map (\<lambda>i. RecPin i True) (t_pins t))
      \<lparr>t_order = map fst (t_messages t), t_messages = t_messages t, t_pins = [], t_records = length (t_messages t)\<rparr>"
    by (simp add: readTranscript_def compacted_def read_messages [OF p(2,5)])
  also have "\<dots> = t\<lparr>t_records := length (t_order t) + length (t_pins t)\<rparr>"
    using p by (subst read_pins) simp_all
  finally show ?thesis .
qed

lemma readTranscript_append: "readTranscript (rs @ ss) = fold read_record ss (readTranscript rs)"
  by (simp add: readTranscript_def)

lemma maybeCompact_seen: "seen (readTranscript (maybeCompact rs @ later)) = seen (readTranscript (rs @ later))"
  unfolding readTranscript_append
  by (rule seen_reads) (simp add: maybeCompact_def Let_def compacted_reads [OF readTranscript_ok] seen_def)

lemma pins_le: "transcript_ok t \<Longrightarrow> length (t_pins t) \<le> length (t_order t)"
  by (metis transcript_ok_def distinct_card card_mono List.finite_set)

text \<open>
  C28: compacting a transcript is invisible: now and after any further records the messages, their order
  and the pins read the same as without it. After a deletion the log holds at most three records per
  message that is left, or three in all.
\<close>

theorem compaction_invisible:
  "Messages (maybeCompact rs @ later) = Messages (rs @ later)
    \<and> PinnedMessageIDs (maybeCompact rs @ later) = PinnedMessageIDs (rs @ later)
    \<and> t_records (readTranscript (DeleteMessage_log rs i)) \<le> 3 * max (length (Messages (DeleteMessage_log rs i))) 1"
proof -
  have "t_records (readTranscript (maybeCompact ss)) \<le> 3 * max (length (t_order (readTranscript (maybeCompact ss)))) 1" for ss
    using pins_le [OF readTranscript_ok [of ss]]
    by (auto simp: maybeCompact_def Let_def compacted_reads [OF readTranscript_ok] compactRatio_def)
  then show ?thesis
    using maybeCompact_seen [of rs later]
    by (auto simp: Messages_def PinnedMessageIDs_def transcript_messages_def seen_def DeleteMessage_log_def)
qed


section \<open>Opening an account\<close>

definition failed_delivery :: "GroupDelivery \<Rightarrow> GroupDelivery" where
  "failed_delivery d = \<lparr>gd_AccountID = gd_AccountID d, gd_WireMessageID = [], gd_State = SendFailed,
     gd_Error = [], gd_Detail = [], gd_AttachmentSkipped = False\<rparr>"

definition settle :: "GroupDelivery \<Rightarrow> GroupDelivery" where
  "settle d = (if gd_State d = SendPending
     then d\<lparr>gd_State := SendFailed, gd_Error := [], gd_Detail := [], gd_AttachmentSkipped := False\<rparr> else d)"

definition settled :: "chat_message \<Rightarrow> chat_message" where
  "settled m = m\<lparr>cm_SendState := (if cm_SendState m = SendPending then SendFailed else cm_SendState m),
     cm_Deliveries := map settle (cm_Deliveries m)\<rparr>"

lemma update_delivery_skip: "gd_AccountID r \<notin> gd_AccountID ` set ds \<Longrightarrow> update_delivery r (ds @ es) = ds @ update_delivery r es"
  by (induction ds) auto

lemma settle_account [simp]: "gd_AccountID (settle d) = gd_AccountID d"
  by (simp add: settle_def)

lemma update_deliveries:
  "distinct (map gd_AccountID (es @ ds)) \<Longrightarrow>
    fold (\<lambda>d. update_delivery (failed_delivery d)) (filter (\<lambda>d. gd_State d = SendPending) ds) (es @ ds) = es @ map settle ds"
proof (induction ds arbitrary: es)
  case (Cons d ds)
  have new: "gd_AccountID d \<notin> gd_AccountID ` set es" using Cons.prems by auto
  have "update_delivery (failed_delivery d) (es @ d # ds) = es @ settle d # ds" if "gd_State d = SendPending"
    using that update_delivery_skip [of "failed_delivery d" es "d # ds"] new by (simp add: failed_delivery_def settle_def)
  moreover have "settle d = d" if "gd_State d \<noteq> SendPending" using that by (simp add: settle_def)
  ultimately show ?case using Cons.IH [of "es @ [settle d]"] Cons.prems by (cases "gd_State d = SendPending") simp_all
qed simp

lemma change_message_same: "assoc_get (t_messages t) i = Some m \<Longrightarrow> f m = m \<Longrightarrow> keys_distinct (t_messages t) \<Longrightarrow> change_message i f t = t"
proof -
  assume a: "assoc_get (t_messages t) i = Some m" "f m = m" "keys_distinct (t_messages t)"
  have "assoc_get ms i = Some m \<Longrightarrow> keys_distinct ms \<Longrightarrow> assoc_put ms i m = ms" for ms
    by (induction ms i m rule: assoc_put.induct) (auto simp: keys_distinct_def split: if_splits)
  with a show ?thesis by (simp add: change_message_def)
qed

lemma assoc_put_put: "assoc_put (assoc_put ms k v) k w = assoc_put ms k w"
  by (induction ms k v rule: assoc_put.induct) auto

lemma read_deliveries:
  assumes "assoc_get (t_messages t) i = Some m" "i \<noteq> []"
  shows "seen (fold read_record (map (\<lambda>d. RecDelivery i (failed_delivery d)) ds) t)
    = (t_order t, if ds = [] then t_messages t else assoc_put (t_messages t) i
        (m\<lparr>cm_Deliveries := fold (\<lambda>d. update_delivery (failed_delivery d)) ds (cm_Deliveries m)\<rparr>), t_pins t)"
  using assms(1)
proof (induction ds arbitrary: t m)
  case (Cons d ds)
  let ?m = "m\<lparr>cm_Deliveries := update_delivery (failed_delivery d) (cm_Deliveries m)\<rparr>"
  let ?t = "read_record (RecDelivery i (failed_delivery d)) t"
  have t: "t_order ?t = t_order t" "t_messages ?t = assoc_put (t_messages t) i ?m" "t_pins ?t = t_pins t"
    using Cons.prems assms(2) by (simp_all add: read_record_def change_message_def)
  have "assoc_get (t_messages ?t) i = Some ?m" by (simp add: t assoc_get_put)
  from Cons.IH [OF this] show ?case by (simp add: t assoc_put_put)
qed (simp add: seen_def)


lemma assoc_put_same: "assoc_get ms i = Some m \<Longrightarrow> assoc_put ms i m = ms"
  by (induction ms i m rule: assoc_put.induct) (auto split: if_splits)

lemma in_flight_settles:
  assumes m: "assoc_get (t_messages t) (cm_ID m) = Some m" "cm_ID m \<noteq> []" "distinct (map gd_AccountID (cm_Deliveries m))"
  shows "seen (fold read_record (in_flight_records m) t) = (t_order t, assoc_put (t_messages t) (cm_ID m) (settled m), t_pins t)"
proof -
  define m' where "m' = m\<lparr>cm_SendState := (if cm_SendState m = SendPending then SendFailed else cm_SendState m)\<rparr>"
  define t' where "t' = fold read_record (if cm_SendState m = SendPending then [RecState (cm_ID m) SendFailed] else []) t"
  have t': "t_order t' = t_order t" "t_pins t' = t_pins t" "t_messages t' = assoc_put (t_messages t) (cm_ID m) m'"
    using m by (simp_all add: t'_def m'_def read_record_def change_message_def assoc_put_same)
  have g: "assoc_get (t_messages t') (cm_ID m) = Some m'" by (simp add: t' assoc_get_put)
  let ?ds = "filter (\<lambda>d. gd_State d = SendPending) (cm_Deliveries m)"
  have ds: "fold (\<lambda>d. update_delivery (failed_delivery d)) ?ds (cm_Deliveries m') = map settle (cm_Deliveries m)"
    using update_deliveries [of "[]" "cm_Deliveries m"] m(3) by (simp add: m'_def)
  have e: "settled m = m'\<lparr>cm_Deliveries := map settle (cm_Deliveries m)\<rparr>" by (simp add: settled_def m'_def)
  have "?ds = [] \<Longrightarrow> map settle (cm_Deliveries m) = cm_Deliveries m"
    by (auto simp: filter_empty_conv settle_def intro!: map_idI)
  then have n: "?ds = [] \<Longrightarrow> settled m = m'" by (simp add: e) (simp add: m'_def)
  have "seen (fold read_record (in_flight_records m) t)
      = seen (fold read_record (map (\<lambda>d. RecDelivery (cm_ID m) (failed_delivery d)) ?ds) t')"
    by (simp add: in_flight_records_def t'_def failed_delivery_def)
  also have "\<dots> = (t_order t, assoc_put (t_messages t) (cm_ID m) (settled m), t_pins t)"
    using read_deliveries [OF g m(2), of ?ds] by (auto simp: ds t' assoc_put_put n e [symmetric])
  finally show ?thesis .
qed

lemma assoc_put_later: "k \<notin> fst ` set es \<Longrightarrow> assoc_put (es @ ms) k v = es @ assoc_put ms k v"
  by (induction es) auto

lemma assoc_get_later: "k \<notin> fst ` set es \<Longrightarrow> assoc_get (es @ ms) k = assoc_get ms k"
  by (induction es) auto

lemma in_flight_all:
  "distinct (map fst (es @ ms)) \<Longrightarrow> keyed ms \<Longrightarrow> t_messages t = es @ ms \<Longrightarrow>
    \<forall>p \<in> set ms. distinct (map gd_AccountID (cm_Deliveries (snd p))) \<Longrightarrow>
    seen (fold read_record (concat (map (\<lambda>p. in_flight_records (snd p)) ms)) t)
      = (t_order t, es @ map (map_prod id settled) ms, t_pins t)"
proof (induction ms arbitrary: es t)
  case (Cons p ms)
  obtain k m where p: "p = (k, m)" by (cases p)
  have k: "cm_ID m = k" "k \<noteq> []" "k \<notin> fst ` set es" using Cons.prems by (auto simp: p keyed_def)
  let ?t = "fold read_record (in_flight_records m) t"
  have g: "assoc_get (t_messages t) (cm_ID m) = Some m" using k Cons.prems(3) by (simp add: p assoc_get_later)
  have "seen ?t = (t_order t, es @ (k, settled m) # ms, t_pins t)"
    using in_flight_settles [OF g] k Cons.prems by (simp add: p assoc_put_later)
  then have t: "t_order ?t = t_order t" "t_messages ?t = (es @ [(k, settled m)]) @ ms" "t_pins ?t = t_pins t"
    by (simp_all add: seen_def)
  have "distinct (map fst ((es @ [(k, settled m)]) @ ms))" "keyed ms" using Cons.prems by (simp_all add: p keyed_def)
  from Cons.IH [OF this t(2)] Cons.prems(4) show ?case by (simp add: p t)
qed (simp add: seen_def)

text \<open>
  When an account is opened, every message a dead process left mid-send is marked failed, and so is
  every copy of a group message: nothing reads as pending any more, and the transcript is otherwise
  unchanged.
\<close>

theorem nothing_pending_after_open:
  assumes "\<forall>m \<in> set (Messages rs). distinct (map gd_AccountID (cm_Deliveries m))"
  shows "Messages (failInFlightSends rs) = map settled (Messages rs)
    \<and> PinnedMessageIDs (failInFlightSends rs) = PinnedMessageIDs rs
    \<and> list_all (\<lambda>m. cm_SendState m \<noteq> SendPending \<and> list_all (\<lambda>d. gd_State d \<noteq> SendPending) (cm_Deliveries m))
        (Messages (failInFlightSends rs))"
proof -
  note ok = readTranscript_ok [of rs]
  note p = transcript_parts [OF ok]
  let ?t = "readTranscript rs"
  have ms: "Messages rs = map snd (t_messages ?t)"
    using p(2) assoc_get_distinct [of "t_messages ?t"]
    by (auto simp: Messages_def transcript_messages_def p(1) keys_distinct_def)
  have "seen (readTranscript (failInFlightSends rs))
      = seen (fold read_record (concat (map (\<lambda>p. in_flight_records (snd p)) (t_messages ?t))) ?t)"
    using maybeCompact_seen [of "rs @ concat (map in_flight_records (Messages rs))" "[]"]
    by (simp add: failInFlightSends_def ms readTranscript_append o_def)
  also have "\<dots> = (t_order ?t, map (map_prod id settled) (t_messages ?t), t_pins ?t)"
    using in_flight_all [of "[]" "t_messages ?t" ?t] p assms by (auto simp: ms)
  finally have s: "t_order (readTranscript (failInFlightSends rs)) = t_order ?t"
    "t_messages (readTranscript (failInFlightSends rs)) = map (map_prod id settled) (t_messages ?t)"
    "t_pins (readTranscript (failInFlightSends rs)) = t_pins ?t" by (simp_all add: seen_def)
  note q = transcript_parts [OF readTranscript_ok [of "failInFlightSends rs"]]
  have "Messages (failInFlightSends rs) = map snd (t_messages (readTranscript (failInFlightSends rs)))"
    using q(2) assoc_get_distinct [of "t_messages (readTranscript (failInFlightSends rs))"]
    by (auto simp: Messages_def transcript_messages_def q(1) keys_distinct_def)
  then have "Messages (failInFlightSends rs) = map settled (Messages rs)" by (simp add: s ms)
  moreover have "list_all (\<lambda>m. cm_SendState m \<noteq> SendPending \<and> list_all (\<lambda>d. gd_State d \<noteq> SendPending) (cm_Deliveries m)) (map settled ms)" for ms
    by (auto simp: list_all_iff settled_def settle_def line_state_defs)
  ultimately show ?thesis by (simp add: PinnedMessageIDs_def s)
qed

end
