(* ===== verification/Profileclaim.thy ===== *)
theory Profileclaim
  imports Devicecert
begin

text \<open>
  \<open>pkg/profileclaim\<close>: the name an account states about itself, signed by one of its devices. A claim
  does not carry the account id on the wire, its signature covers it.
\<close>

section \<open>claim.go\<close>

definition MaxNameBytes :: nat where
  "MaxNameBytes = 64"

record Claim =
  cl_Name :: string
  cl_DeviceID :: string
  cl_IssuedAt :: time
  cl_Signature :: bytes

datatype claim_error =
    NameTooLong | NameSurroundedBySpace | NameLineBreak | NameControl rune | NameBidiControl rune
  | ClaimSignatureLength | ClaimKeyLength | ClaimAccountMissing | ClaimDeviceID cert_error | ClaimSignatureFailed

definition NormalizeName :: "string \<Rightarrow> string" where
  "NormalizeName name = trim_space name"

text \<open>\<open>unicode.IsControl\<close> is category Cc.\<close>

definition is_control :: "rune \<Rightarrow> bool" where
  "is_control r \<longleftrightarrow> r < 32 \<or> 127 \<le> r \<and> r < 160"

definition isBidiControl :: "rune \<Rightarrow> bool" where
  "isBidiControl r \<longleftrightarrow> r = 0x200E \<or> r = 0x200F \<or> 0x202A \<le> r \<and> r \<le> 0x202E \<or> 0x2066 \<le> r \<and> r \<le> 0x2069"

fun validate_runes :: "rune list \<Rightarrow> claim_error + unit" where
  "validate_runes [] = Inr ()"
| "validate_runes (r # rs) =
     (if r = 10 \<or> r = 13 \<or> r = 9 then Inl NameLineBreak
      else if is_control r then Inl (NameControl r)
      else if isBidiControl r then Inl (NameBidiControl r)
      else validate_runes rs)"

definition ValidateName :: "string \<Rightarrow> claim_error + unit" where
  "ValidateName name =
     (if length name > MaxNameBytes then Inl NameTooLong
      else if name \<noteq> trim_space name then Inl NameSurroundedBySpace
      else validate_runes (runes name))"

definition claim_signingBytes :: "Claim \<Rightarrow> string \<Rightarrow> claim_error + bytes" where
  "claim_signingBytes c accountID =
     (if accountID = [] then Inl ClaimAccountMissing
      else case decodeDeviceID (cl_DeviceID c) of Inl e \<Rightarrow> Inl (ClaimDeviceID e)
      | Inr deviceIDRaw \<Rightarrow> Inr (write_length_prefixed accountID @ deviceIDRaw @ write_length_prefixed (cl_Name c)
          @ write_length_prefixed (rfc3339 (cl_IssuedAt c))))"

definition claim_Sign :: "platform \<Rightarrow> string \<Rightarrow> string \<Rightarrow> string \<Rightarrow> time \<Rightarrow> bytes \<Rightarrow> claim_error + Claim" where
  "claim_Sign P accountID deviceID name issuedAt devicePriv =
     (let name' = NormalizeName name in
      case ValidateName name' of Inl e \<Rightarrow> Inl e
      | Inr _ \<Rightarrow>
     (let c = \<lparr>cl_Name = name', cl_DeviceID = deviceID, cl_IssuedAt = truncate_second issuedAt, cl_Signature = []\<rparr> in
      case claim_signingBytes c accountID of Inl e \<Rightarrow> Inl e
      | Inr buf \<Rightarrow> Inr (c\<lparr>cl_Signature := ed25519_sign P devicePriv buf\<rparr>)))"

definition claim_Verify :: "platform \<Rightarrow> Claim \<Rightarrow> string \<Rightarrow> bytes \<Rightarrow> claim_error + unit" where
  "claim_Verify P c accountID devicePubKey =
     (case ValidateName (cl_Name c) of Inl e \<Rightarrow> Inl e
      | Inr _ \<Rightarrow>
      if length (cl_Signature c) \<noteq> signature_size then Inl ClaimSignatureLength
      else if length devicePubKey \<noteq> public_key_size then Inl ClaimKeyLength
      else case claim_signingBytes c accountID of Inl e \<Rightarrow> Inl e
      | Inr buf \<Rightarrow> if \<not> ed25519_verify P devicePubKey buf (cl_Signature c) then Inl ClaimSignatureFailed else Inr ())"

definition IsWithdrawal :: "Claim \<Rightarrow> bool" where
  "IsWithdrawal c \<longleftrightarrow> cl_Name c = []"

definition SupersedesTime :: "Claim \<Rightarrow> time \<Rightarrow> bool" where
  "SupersedesTime c stored \<longleftrightarrow> cl_IssuedAt c > stored"

section \<open>What a claim says\<close>

lemma claim_Verify_Inr:
  "claim_Verify P c acc pub = Inr () \<longleftrightarrow> ValidateName (cl_Name c) = Inr () \<and> length (cl_Signature c) = 64 \<and> length pub = 32
     \<and> (\<exists>buf. claim_signingBytes c acc = Inr buf \<and> ed25519_verify P pub buf (cl_Signature c))"
  by (auto simp: claim_Verify_def split: sum.splits)

lemma claim_signingBytes_with_sig [simp]: "claim_signingBytes (c\<lparr>cl_Signature := s\<rparr>) acc = claim_signingBytes c acc"
  by (simp add: claim_signingBytes_def split: sum.split)

text \<open>A claim a device signs verifies under its key, for the account it was signed for.\<close>

lemma signed_claim_verifies:
  assumes "ed25519_correct P" "claim_Sign P acc d name t priv = Inr c"
  shows "claim_Verify P c acc (ed25519_public P priv) = Inr ()"
  using assms by (auto simp: claim_Sign_def claim_Verify_Inr ed25519_correct_def claim_signingBytes_def Let_def
      split: sum.splits if_splits)

lemma claim_Sign_fields:
  "claim_Sign P acc d name t priv = Inr c
     \<Longrightarrow> cl_Name c = NormalizeName name \<and> cl_DeviceID c = d \<and> cl_IssuedAt c = truncate_second t"
  by (auto simp: claim_Sign_def Let_def split: sum.splits)

lemma validate_runes_plain:
  "\<forall>r \<in> set rs. \<not> is_control r \<and> \<not> isBidiControl r \<Longrightarrow> validate_runes rs = Inr ()"
  by (induction rs) (auto simp: is_control_def)

lemma claim_bytes_inject:
  assumes "claim_signingBytes c acc = Inr b" "claim_signingBytes c' acc' = Inr b" "fits16 acc" "fits16 acc'"
    "fits16 (cl_Name c)" "fits16 (cl_Name c')" "timestamp_ok (cl_IssuedAt c)" "timestamp_ok (cl_IssuedAt c')"
  shows "acc = acc' \<and> decodeDeviceID (cl_DeviceID c) = decodeDeviceID (cl_DeviceID c') \<and> cl_Name c = cl_Name c'
    \<and> cl_IssuedAt c = cl_IssuedAt c'"
proof -
  obtain d d' where d: "decodeDeviceID (cl_DeviceID c) = Inr d" "decodeDeviceID (cl_DeviceID c') = Inr d'"
    and b: "write_length_prefixed acc @ d @ write_length_prefixed (cl_Name c) @ write_length_prefixed (rfc3339 (cl_IssuedAt c))
      = write_length_prefixed acc' @ d' @ write_length_prefixed (cl_Name c') @ write_length_prefixed (rfc3339 (cl_IssuedAt c'))"
    using assms(1,2) by (auto simp: claim_signingBytes_def split: sum.splits if_splits)
  have "length d = length d'" using d by (simp add: decodeDeviceID_length)
  with lp.cancel [OF assms(3,4) b] have *: "acc = acc'" "d = d'" "write_length_prefixed (cl_Name c) @ write_length_prefixed (rfc3339 (cl_IssuedAt c))
      = write_length_prefixed (cl_Name c') @ write_length_prefixed (rfc3339 (cl_IssuedAt c'))" by auto
  with lp.cancel [OF assms(5,6) *(3)] assms(7,8) d show ?thesis by (simp add: lp.enc_inject timestamp_inject)
qed

lemma two_byte_thirty: "big_endian 2 30 = [CHR 0x00, CHR 0x1E]"
  by code_simp

text \<open>
  A device signs profile claims and DH identity certificates with the same key, and the bytes of
  the two are not kept apart: the signature of a claim whose name has thirty bytes is at the same time
  the signature of a DH identity certificate of that device, for the key agreement key 00 1E followed
  by the name. No other claim doubles as such a certificate, and none as a signed prekey certificate.
\<close>

theorem profile_claim_doubles_as_dh_certificate:
  assumes "claim_Verify P c acc pub = Inr ()" "fits16 acc"
  shows "(length (cl_Name c) = 30 \<longrightarrow> dh_identity_Verify P \<lparr>dh_AccountID = acc, dh_DeviceID = cl_DeviceID c,
        dh_DHPubKey = [CHR 0x00, CHR 0x1E] @ cl_Name c, dh_IssuedAt = cl_IssuedAt c, dh_Signature = cl_Signature c\<rparr> pub = Inr ())
    \<and> (\<forall>cert. fits16 (dh_AccountID cert) \<longrightarrow> length (cl_Name c) \<noteq> 30
          \<longrightarrow> dh_identity_signingBytes cert \<noteq> map_sum (\<lambda>_. SignatureFailed) id (claim_signingBytes c acc))
    \<and> (\<forall>cert. fits16 (sp_AccountID cert)
          \<longrightarrow> signed_prekey_signingBytes cert \<noteq> map_sum (\<lambda>_. SignatureFailed) id (claim_signingBytes c acc))"
proof (intro conjI allI impI)
  obtain buf where buf: "claim_signingBytes c acc = Inr buf" "ed25519_verify P pub buf (cl_Signature c)"
    and lens: "length (cl_Signature c) = 64" "length pub = 32" "length (cl_Name c) \<le> 64"
    using assms(1) by (auto simp: claim_Verify_Inr ValidateName_def MaxNameBytes_def split: if_splits)
  obtain d where d: "decodeDeviceID (cl_DeviceID c) = Inr d" and b: "buf = write_length_prefixed acc @ d
      @ write_length_prefixed (cl_Name c) @ write_length_prefixed (rfc3339 (cl_IssuedAt c))"
    using buf(1) by (auto simp: claim_signingBytes_def split: if_splits sum.splits)
  have dl: "length d = 8" using d by (rule decodeDeviceID_length)
  {
    assume n: "length (cl_Name c) = 30"
    then have "write_length_prefixed (cl_Name c) = [CHR 0x00, CHR 0x1E] @ cl_Name c"
      using two_byte_thirty by (simp add: write_length_prefixed_def)
    with n d b buf(2) lens show "dh_identity_Verify P \<lparr>dh_AccountID = acc, dh_DeviceID = cl_DeviceID c,
        dh_DHPubKey = [CHR 0x00, CHR 0x1E] @ cl_Name c, dh_IssuedAt = cl_IssuedAt c, dh_Signature = cl_Signature c\<rparr> pub = Inr ()"
      by (simp add: dh_identity_Verify_def verify_bytes_Inr dh_identity_signingBytes_def)
  next
    fix cert :: DHIdentityCertificate assume f: "fits16 (dh_AccountID cert)" and n: "length (cl_Name c) \<noteq> 30"
    show "dh_identity_signingBytes cert \<noteq> map_sum (\<lambda>_. SignatureFailed) id (claim_signingBytes c acc)"
    proof
      assume "dh_identity_signingBytes cert = map_sum (\<lambda>_. SignatureFailed) id (claim_signingBytes c acc)"
      then obtain e where e: "length e = 8" "length (dh_DHPubKey cert) = 32"
        "write_length_prefixed (dh_AccountID cert) @ e @ dh_DHPubKey cert @ write_length_prefixed (rfc3339 (dh_IssuedAt cert))
         = write_length_prefixed acc @ d @ write_length_prefixed (cl_Name c) @ write_length_prefixed (rfc3339 (cl_IssuedAt c))"
        using buf(1) b by (auto simp: dh_identity_signingBytes_def dest: decodeDeviceID_length split: sum.splits if_splits)
      from lp.cancel [OF f assms(2) e(3)] have
        "length (e @ dh_DHPubKey cert @ write_length_prefixed (rfc3339 (dh_IssuedAt cert)))
         = length (d @ write_length_prefixed (cl_Name c) @ write_length_prefixed (rfc3339 (cl_IssuedAt c)))" by simp
      with e(1,2) dl n show False by simp
    qed
  next
    fix cert :: SignedPrekeyCertificate assume f: "fits16 (sp_AccountID cert)"
    show "signed_prekey_signingBytes cert \<noteq> map_sum (\<lambda>_. SignatureFailed) id (claim_signingBytes c acc)"
    proof
      assume "signed_prekey_signingBytes cert = map_sum (\<lambda>_. SignatureFailed) id (claim_signingBytes c acc)"
      then obtain e where e: "length e = 8" "length (sp_DHIdentityPubKey cert) = 32" "length (sp_PrekeyPubKey cert) = 32"
        "write_length_prefixed (sp_AccountID cert) @ e @ big_endian 4 (unat (sp_KeyID cert)) @ sp_DHIdentityPubKey cert
          @ sp_PrekeyPubKey cert @ write_length_prefixed (rfc3339 (sp_IssuedAt cert))
         = write_length_prefixed acc @ d @ write_length_prefixed (cl_Name c) @ write_length_prefixed (rfc3339 (cl_IssuedAt c))"
        using buf(1) b by (auto simp: signed_prekey_signingBytes_def dest: decodeDeviceID_length split: sum.splits if_splits)
      from lp.cancel [OF f assms(2) e(4)] have
        "length (e @ big_endian 4 (unat (sp_KeyID cert)) @ sp_DHIdentityPubKey cert @ sp_PrekeyPubKey cert
          @ write_length_prefixed (rfc3339 (sp_IssuedAt cert)))
         = length (d @ write_length_prefixed (cl_Name c) @ write_length_prefixed (rfc3339 (cl_IssuedAt c)))" by simp
      with e(1-3) dl lens(3) show False by simp
    qed
  }
qed

definition sample_claim_name :: string where
  "sample_claim_name = replicate 30 (CHR ''x'')"

definition sample_profile_claim :: Claim where
  "sample_profile_claim = (case claim_Sign sample_platform ''acc'' ''0011223344556677'' sample_claim_name 0 ''secret'' of Inr c \<Rightarrow> c)"

lemma sample_claim_signed:
  "claim_Sign sample_platform ''acc'' ''0011223344556677'' sample_claim_name 0 ''secret'' = Inr sample_profile_claim"
proof -
  have "\<forall>c \<in> set sample_claim_name. graphic c" by (simp add: sample_claim_name_def graphic_def)
  then have "trim_space sample_claim_name = sample_claim_name" by (rule trim_space_graphic)
  moreover have "validate_runes (runes sample_claim_name) = Inr ()"
    by (rule validate_runes_plain) (simp add: sample_claim_name_def ascii_def is_control_def isBidiControl_def)
  ultimately have v: "NormalizeName sample_claim_name = sample_claim_name" "ValidateName sample_claim_name = Inr ()"
    by (simp_all add: NormalizeName_def ValidateName_def MaxNameBytes_def sample_claim_name_def)
  have "\<not> isl (decodeDeviceID ''0011223344556677'')" by code_simp
  then show ?thesis
    by (auto simp: sample_profile_claim_def claim_Sign_def v claim_signingBytes_def Let_def split: sum.split)
qed

theorem profile_claim_doubles_as_dh_certificate_witness:
  "dh_identity_Verify sample_platform \<lparr>dh_AccountID = ''acc'', dh_DeviceID = ''0011223344556677'',
     dh_DHPubKey = [CHR 0x00, CHR 0x1E] @ sample_claim_name, dh_IssuedAt = 0, dh_Signature = cl_Signature sample_profile_claim\<rparr>
     (ed25519_public sample_platform ''secret'') = Inr ()"
proof -
  have v: "claim_Verify sample_platform sample_profile_claim ''acc'' (ed25519_public sample_platform ''secret'') = Inr ()"
    by (rule signed_claim_verifies [OF sample_platform_laws(2) sample_claim_signed])
  have fields: "cl_Name sample_profile_claim = sample_claim_name" "cl_DeviceID sample_profile_claim = ''0011223344556677''"
    "cl_IssuedAt sample_profile_claim = 0"
    using claim_Sign_fields [OF sample_claim_signed] trim_space_graphic [of sample_claim_name]
    by (simp_all add: NormalizeName_def sample_claim_name_def graphic_def truncate_second_def)
  from profile_claim_doubles_as_dh_certificate [OF v] show ?thesis
    by (simp add: fields sample_claim_name_def fits16_def)
qed

end
