(* ===== verification/Ratchet.thy ===== *)
theory Ratchet
  imports Platform
begin

text \<open>
  \<open>pkg/ratchet\<close>: the Double Ratchet (\<open>doubleratchet.go\<close>, \<open>session.go\<close>,
  \<open>aead.go\<close>, \<open>failure.go\<close>). Keys are byte strings; a session's private key is \<open>[]\<close>
  where the code has nil. The message counters are 32-bit words. The insertion sequence of the
  skipped-key buffer is a natural number: the 64-bit counter would need \<open>2^64\<close> buffered keys to
  wrap. A freshly generated key pair is an argument of the operation that draws it.
\<close>

section \<open>State\<close>

datatype session_role = RoleInitiator | RoleResponder

record Header =
  DHPub :: bytes
  PN_h :: "32 word"
  N_h :: "32 word"

type_synonym skippedKey = "bytes \<times> 32 word"
type_synonym skippedValue = "bytes \<times> nat"

record Session =
  SRole :: session_role
  AD :: bytes
  DHs :: bytes
  DHr :: "bytes option"
  RK :: bytes
  CKs :: "bytes option"
  CKr :: "bytes option"
  Ns :: "32 word"
  Nr :: "32 word"
  PN :: "32 word"
  Skipped :: "(skippedKey \<times> skippedValue) list"
  skipSeq :: nat

datatype ratchet_error =
    ErrDuplicateMessage | ErrAuthentication | ErrTooManySkipped | ErrNoReceivingChain
  | NoSendingChain | CipherKeyLength nat | BadRemoteKey nat | DHFailed | BadSenderKey nat
  | MissingOneTimePrekey | BadPersistedKey nat

abbreviation (input) maxSkippedMessageKeys :: nat where "maxSkippedMessageKeys \<equiv> 1000"
abbreviation (input) maxTotalSkippedMessageKeys :: nat where "maxTotalSkippedMessageKeys \<equiv> 2000"

definition rootKDFInfo :: string where "rootKDFInfo = ''Freizone-DR-RK-v1''"
definition messageKeyInfo :: string where "messageKeyInfo = ''Freizone-DR-msg-v1''"

section \<open>Key derivation and sealing\<close>

definition header_Bytes :: "Header \<Rightarrow> bytes" where
  "header_Bytes h = DHPub h @ big_endian 4 (unat (PN_h h)) @ big_endian 4 (unat (N_h h))"

definition kdfRK :: "platform \<Rightarrow> bytes \<Rightarrow> bytes \<Rightarrow> bytes \<times> bytes" where
  "kdfRK P rk dhOut = (let out = hkdf_sha256 P dhOut rk rootKDFInfo 64 in (take 32 out, drop 32 out))"

definition kdfCK :: "platform \<Rightarrow> bytes \<Rightarrow> bytes \<times> bytes" where
  "kdfCK P ck = (hmac_sha256 P ck [CHR 0x02], hmac_sha256 P ck [CHR 0x01])"

definition deriveMessageKeyMaterial :: "platform \<Rightarrow> bytes \<Rightarrow> bytes \<times> bytes" where
  "deriveMessageKeyMaterial P mk =
     (let out = hkdf_sha256 P mk [] messageKeyInfo 44 in (take 32 out, drop 32 out))"

text \<open>\<open>aes.NewCipher\<close> accepts keys of 16, 24 and 32 bytes.\<close>

definition gcmFor :: "platform \<Rightarrow> bytes \<Rightarrow> ratchet_error + bytes \<times> bytes" where
  "gcmFor P mk = (let (key, nonce) = deriveMessageKeyMaterial P mk in
     if length key \<notin> {16, 24, 32} then Inl (CipherKeyLength (length key)) else Inr (key, nonce))"

definition sealMessage :: "platform \<Rightarrow> bytes \<Rightarrow> bytes \<Rightarrow> bytes \<Rightarrow> Header \<Rightarrow> ratchet_error + bytes" where
  "sealMessage P mk plaintext sessionAD header =
     (case gcmFor P mk of Inl e \<Rightarrow> Inl e
      | Inr (key, nonce) \<Rightarrow> Inr (gcm_seal P key nonce plaintext (sessionAD @ header_Bytes header)))"

definition openMessage :: "platform \<Rightarrow> bytes \<Rightarrow> bytes \<Rightarrow> bytes \<Rightarrow> Header \<Rightarrow> ratchet_error + bytes" where
  "openMessage P mk ciphertext sessionAD header =
     (case gcmFor P mk of Inl e \<Rightarrow> Inl e
      | Inr (key, nonce) \<Rightarrow>
          (case gcm_open P key nonce ciphertext (sessionAD @ header_Bytes header) of
             None \<Rightarrow> Inl ErrAuthentication | Some plaintext \<Rightarrow> Inr plaintext))"

section \<open>The ratchet steps\<close>

text \<open>
  \<open>dhRatchetStep\<close> with the key it generates as an argument. On an error the receiver may have
  been changed already; \<open>Decrypt\<close> only ever runs it on a copy, so the changed receiver is not
  returned.
\<close>

definition dhRatchetStep :: "platform \<Rightarrow> bytes \<Rightarrow> Session \<Rightarrow> bytes \<Rightarrow> ratchet_error + Session" where
  "dhRatchetStep P newDHs s remoteDHPub =
     (if length remoteDHPub \<noteq> 32 then Inl (BadRemoteKey (length remoteDHPub))
      else case x25519 P (DHs s) remoteDHPub of None \<Rightarrow> Inl DHFailed
      | Some dh \<Rightarrow>
          (let (rk, ckr) = kdfRK P (RK s) dh in
           case x25519 P newDHs remoteDHPub of None \<Rightarrow> Inl DHFailed
           | Some dh2 \<Rightarrow>
               (let (rk2, cks) = kdfRK P rk dh2 in
                Inr (s\<lparr>PN := Ns s, Ns := 0, Nr := 0, DHr := Some remoteDHPub, RK := rk2,
                       CKr := Some ckr, DHs := newDHs, CKs := Some cks\<rparr>))))"

text \<open>The eviction order is by insertion sequence; equal sequences are in map order in the code.\<close>

definition evictOldestSkipped :: "Session \<Rightarrow> nat \<Rightarrow> Session" where
  "evictOldestSkipped s n =
     (if n = 0 \<or> Skipped s = [] then s
      else let all = sort_key (\<lambda>p. snd (snd p)) (Skipped s);
               gone = map fst (take (min n (length all)) all)
           in s\<lparr>Skipped := fold (\<lambda>k m. assoc_del m k) gone (Skipped s)\<rparr>)"

text \<open>The loop of \<open>skipMessageKeys\<close>: derive and buffer keys until the counter is reached.\<close>

function skip_loop :: "platform \<Rightarrow> bytes \<Rightarrow> 32 word \<Rightarrow> bytes \<Rightarrow> Session \<Rightarrow> Session" where
  "skip_loop P dhKey until ck s =
     (if Nr s < until then
        skip_loop P dhKey until (fst (kdfCK P ck))
          (s\<lparr>CKr := Some (fst (kdfCK P ck)),
             Skipped := assoc_put (Skipped s) (dhKey, Nr s) (snd (kdfCK P ck), skipSeq s),
             skipSeq := Suc (skipSeq s), Nr := Nr s + 1\<rparr>)
      else s\<lparr>CKr := Some ck\<rparr>)"
  by pat_completeness auto
termination
proof (relation "measure (\<lambda>(P, dhKey, until, ck, s). unat until - unat (Nr s))", simp)
  fix P dhKey ck and s :: Session and "until" :: "32 word"
  assume a: "Nr s < until"
  then have "unat (Nr s + 1) = Suc (unat (Nr s))" by (rule unat_succ_less)
  with a show "((P, dhKey, until, fst (kdfCK P ck), s\<lparr>CKr := Some (fst (kdfCK P ck)),
             Skipped := assoc_put (Skipped s) (dhKey, Nr s) (snd (kdfCK P ck), skipSeq s),
             skipSeq := Suc (skipSeq s), Nr := Nr s + 1\<rparr>), P, dhKey, until, ck, s)
    \<in> measure (\<lambda>(P, dhKey, until, ck, s). unat until - unat (Nr s))"
    by (simp add: word_less_nat_alt)
qed

declare skip_loop.simps [simp del]

definition skipMessageKeys :: "platform \<Rightarrow> Session \<Rightarrow> 32 word \<Rightarrow> ratchet_error + Session" where
  "skipMessageKeys P s until =
     (if until \<le> Nr s then Inr s
      else if unat (until - Nr s) > maxSkippedMessageKeys then Inl ErrTooManySkipped
      else case CKr s of None \<Rightarrow> Inl ErrNoReceivingChain
      | Some ck \<Rightarrow>
          (let dhKey = (case DHr s of None \<Rightarrow> [] | Some d \<Rightarrow> d);
               s1 = evictOldestSkipped s (length (Skipped s) + unat (until - Nr s) - maxTotalSkippedMessageKeys)
           in Inr (skip_loop P dhKey until ck s1)))"

definition headerMatchesDHr :: "Header \<Rightarrow> bytes option \<Rightarrow> bool" where
  "headerMatchesDHr header dhr = (case dhr of None \<Rightarrow> False | Some d \<Rightarrow> DHPub header = d)"

definition trySkippedMessageKey :: "Session \<Rightarrow> Header \<Rightarrow> (bytes \<times> Session) option" where
  "trySkippedMessageKey s header =
     (case assoc_get (Skipped s) (DHPub header, N_h header) of None \<Rightarrow> None
      | Some (mk, _) \<Rightarrow> Some (mk, s\<lparr>Skipped := assoc_del (Skipped s) (DHPub header, N_h header)\<rparr>))"

section \<open>Encrypt and Decrypt\<close>

definition Encrypt :: "platform \<Rightarrow> Session \<Rightarrow> bytes \<Rightarrow> Session \<times> (ratchet_error + Header \<times> bytes)" where
  "Encrypt P s plaintext =
     (case CKs s of None \<Rightarrow> (s, Inl NoSendingChain)
      | Some cks \<Rightarrow>
          (let (ck, mk) = kdfCK P cks;
               header = \<lparr>DHPub = x25519_public P (DHs s), PN_h = PN s, N_h = Ns s\<rparr>;
               s' = s\<lparr>CKs := Some ck, Ns := Ns s + 1\<rparr>
           in case sealMessage P mk plaintext (AD s) header of Inl e \<Rightarrow> (s', Inl e)
              | Inr ct \<Rightarrow> (s', Inr (header, ct))))"

definition with_session :: "Session \<Rightarrow> ratchet_error + bytes \<Rightarrow> ratchet_error + bytes \<times> Session" where
  "with_session s r = (case r of Inl e \<Rightarrow> Inl e | Inr p \<Rightarrow> Inr (p, s))"

definition decrypt_chain :: "platform \<Rightarrow> Session \<Rightarrow> Header \<Rightarrow> bytes \<Rightarrow> ratchet_error + bytes \<times> Session" where
  "decrypt_chain P s header ciphertext =
     (case skipMessageKeys P s (N_h header) of Inl e \<Rightarrow> Inl e
      | Inr s1 \<Rightarrow>
          (case CKr s1 of None \<Rightarrow> Inl ErrNoReceivingChain
           | Some cur \<Rightarrow>
               (let (ck, mk) = kdfCK P cur; s2 = s1\<lparr>CKr := Some ck, Nr := Nr s1 + 1\<rparr>
                in with_session s2 (openMessage P mk ciphertext (AD s2) header))))"

definition decrypt :: "platform \<Rightarrow> bytes \<Rightarrow> Session \<Rightarrow> Header \<Rightarrow> bytes \<Rightarrow> ratchet_error + bytes \<times> Session" where
  "decrypt P newDHs s header ciphertext =
     (case trySkippedMessageKey s header of
        Some (mk, s') \<Rightarrow> with_session s' (openMessage P mk ciphertext (AD s') header)
      | None \<Rightarrow>
          if headerMatchesDHr header (DHr s) \<and> N_h header < Nr s then Inl ErrDuplicateMessage
          else if headerMatchesDHr header (DHr s) then decrypt_chain P s header ciphertext
          else case (if DHr s \<noteq> None then skipMessageKeys P s (PN_h header) else Inr s) of
            Inl e \<Rightarrow> Inl e
          | Inr s1 \<Rightarrow> (case dhRatchetStep P newDHs s1 (DHPub header) of Inl e \<Rightarrow> Inl e
              | Inr s2 \<Rightarrow> decrypt_chain P s2 header ciphertext))"

text \<open>\<open>Decrypt\<close> works on a clone and commits it only when the message authenticates.\<close>

definition Decrypt :: "platform \<Rightarrow> bytes \<Rightarrow> Session \<Rightarrow> Header \<Rightarrow> bytes \<Rightarrow> Session \<times> (ratchet_error + bytes)" where
  "Decrypt P newDHs s header ciphertext =
     (case decrypt P newDHs s header ciphertext of Inl e \<Rightarrow> (s, Inl e) | Inr (p, work) \<Rightarrow> (work, Inr p))"

section \<open>Failure codes\<close>

definition FailureCode :: "ratchet_error option \<Rightarrow> string" where
  "FailureCode err = (case err of
      Some ErrDuplicateMessage \<Rightarrow> ''duplicate_message''
    | Some ErrAuthentication \<Rightarrow> ''authentication_failed''
    | Some ErrTooManySkipped \<Rightarrow> ''too_many_skipped''
    | Some ErrNoReceivingChain \<Rightarrow> ''no_receiving_chain''
    | _ \<Rightarrow> [])"

definition SuggestsDesync :: "ratchet_error option \<Rightarrow> bool" where
  "SuggestsDesync err \<longleftrightarrow>
     FailureCode err \<in> {''authentication_failed'', ''too_many_skipped'', ''no_receiving_chain''}"

section \<open>Persistence\<close>

record skippedEntryJSON =
  j_DHPub :: bytes
  j_N :: "32 word"
  j_MK :: bytes
  j_Seq :: nat

record sessionJSON =
  j_Role :: session_role
  j_AD :: bytes
  j_DHsPriv :: bytes
  j_DHrPub :: bytes
  j_RK :: bytes
  j_CKs :: bytes
  j_CKr :: bytes
  j_Ns :: "32 word"
  j_Nr :: "32 word"
  j_PN :: "32 word"
  j_Skipped :: "skippedEntryJSON list"

definition bytes_or_nil :: "bytes option \<Rightarrow> bytes" where
  "bytes_or_nil b = (case b of None \<Rightarrow> [] | Some x \<Rightarrow> x)"

definition nil_or_bytes :: "bytes \<Rightarrow> bytes option" where
  "nil_or_bytes b = (if b = [] then None else Some b)"

definition session_MarshalJSON :: "Session \<Rightarrow> sessionJSON" where
  "session_MarshalJSON s = \<lparr>j_Role = SRole s, j_AD = AD s, j_DHsPriv = DHs s,
     j_DHrPub = bytes_or_nil (DHr s), j_RK = RK s, j_CKs = bytes_or_nil (CKs s),
     j_CKr = bytes_or_nil (CKr s), j_Ns = Ns s, j_Nr = Nr s, j_PN = PN s,
     j_Skipped = map (\<lambda>((d, n), (mk, seq)). \<lparr>j_DHPub = d, j_N = n, j_MK = mk, j_Seq = seq\<rparr>) (Skipped s)\<rparr>"

definition load_skipped :: "skippedEntryJSON \<Rightarrow> (skippedKey \<times> skippedValue) list \<times> nat
    \<Rightarrow> (skippedKey \<times> skippedValue) list \<times> nat" where
  "load_skipped e ms = (assoc_put (fst ms) (j_DHPub e, j_N e) (j_MK e, j_Seq e),
     if snd ms \<le> j_Seq e then Suc (j_Seq e) else snd ms)"

definition session_UnmarshalJSON :: "sessionJSON \<Rightarrow> ratchet_error + Session" where
  "session_UnmarshalJSON sj =
     (if j_DHsPriv sj \<noteq> [] \<and> length (j_DHsPriv sj) \<noteq> 32 then Inl (BadPersistedKey (length (j_DHsPriv sj)))
      else if j_DHrPub sj \<noteq> [] \<and> length (j_DHrPub sj) \<noteq> 32 then Inl (BadPersistedKey (length (j_DHrPub sj)))
      else let ms = fold load_skipped (j_Skipped sj) ([], 0) in
        Inr \<lparr>SRole = j_Role sj, AD = j_AD sj, DHs = j_DHsPriv sj, DHr = nil_or_bytes (j_DHrPub sj),
          RK = j_RK sj, CKs = nil_or_bytes (j_CKs sj), CKr = nil_or_bytes (j_CKr sj), Ns = j_Ns sj,
          Nr = j_Nr sj, PN = j_PN sj, Skipped = fst ms, skipSeq = snd ms\<rparr>)"

end
