(* ===== verification/Ratchet_Chain.thy ===== *)
theory Ratchet_Chain
  imports Ratchet
begin

text \<open>
  Correctness of the Double Ratchet's chains: the bound on buffered keys as an invariant of every
  operation (an interpretation of \<open>preserving\<close>), the delivery theorem for one sending chain, and
  the persisted form of a session.
\<close>

section \<open>Chains\<close>

definition chain_key :: "platform \<Rightarrow> bytes \<Rightarrow> nat \<Rightarrow> bytes" where
  "chain_key P ck n = ((\<lambda>c. fst (kdfCK P c)) ^^ n) ck"

definition message_key :: "platform \<Rightarrow> bytes \<Rightarrow> nat \<Rightarrow> bytes" where
  "message_key P ck n = snd (kdfCK P (chain_key P ck n))"

lemma chain_key_simps [simp]:
  "chain_key P ck 0 = ck" "chain_key P (fst (kdfCK P ck)) n = chain_key P ck (Suc n)"
  "fst (kdfCK P (chain_key P ck n)) = chain_key P ck (Suc n)"
  using funpow_swap1 [of "\<lambda>c. fst (kdfCK P c)" n ck] by (simp_all add: chain_key_def)

lemma message_key_simps [simp]:
  "message_key P (fst (kdfCK P ck)) n = message_key P ck (Suc n)"
  "snd (kdfCK P ck) = message_key P ck 0"
  by (simp_all add: message_key_def)

lemma chain_key_add: "chain_key P (chain_key P ck m) n = chain_key P ck (m + n)"
  by (simp add: chain_key_def funpow_add add.commute [of m])

lemma message_key_add: "message_key P (chain_key P ck m) n = message_key P ck (m + n)"
  by (simp add: message_key_def chain_key_add del: message_key_simps)

section \<open>The skip loop\<close>

text \<open>What the loop does to a session, by the number of keys it buffers.\<close>

fun skip_keys :: "platform \<Rightarrow> bytes \<Rightarrow> nat \<Rightarrow> bytes \<Rightarrow> Session \<Rightarrow> Session" where
  "skip_keys P d 0 ck s = s\<lparr>CKr := Some ck\<rparr>"
| "skip_keys P d (Suc k) ck s = skip_keys P d k (fst (kdfCK P ck))
     (s\<lparr>CKr := Some (fst (kdfCK P ck)),
        Skipped := assoc_put (Skipped s) (d, Nr s) (snd (kdfCK P ck), skipSeq s),
        skipSeq := Suc (skipSeq s), Nr := Nr s + 1\<rparr>)"

lemma skip_loop_keys: "skip_loop P d until ck s = skip_keys P d (unat until - unat (Nr s)) ck s"
proof (induction P d until ck s rule: skip_loop.induct)
  case (1 P d until ck s)
  show ?case
  proof (cases "Nr s < until")
    case True
    then have "unat until - unat (Nr s) = Suc (unat until - unat (Nr s + 1))"
      by (simp add: unat_succ_less word_less_nat_alt)
    with True 1 [OF True] show ?thesis by (subst skip_loop.simps) simp
  next
    case False
    then show ?thesis by (subst skip_loop.simps) (simp add: word_less_nat_alt)
  qed
qed

lemma skip_keys_fields [simp]:
  "SRole (skip_keys P d k ck s) = SRole s" "AD (skip_keys P d k ck s) = AD s"
  "DHs (skip_keys P d k ck s) = DHs s" "DHr (skip_keys P d k ck s) = DHr s"
  "RK (skip_keys P d k ck s) = RK s" "CKs (skip_keys P d k ck s) = CKs s"
  "Ns (skip_keys P d k ck s) = Ns s" "PN (skip_keys P d k ck s) = PN s"
  "CKr (skip_keys P d k ck s) = Some (chain_key P ck k)"
  "Nr (skip_keys P d k ck s) = Nr s + of_nat k" "skipSeq (skip_keys P d k ck s) = skipSeq s + k"
  by (induction P d k ck s rule: skip_keys.induct) (simp_all add: add.assoc)

lemma skip_keys_length: "length (Skipped (skip_keys P d k ck s)) \<le> length (Skipped s) + k"
proof (induction P d k ck s rule: skip_keys.induct)
  case (2 P d k ck s)
  then show ?case by (simp add: table_simps split: if_splits)
qed simp

lemma skip_keys_distinct: "keys_distinct (Skipped s) \<Longrightarrow> keys_distinct (Skipped (skip_keys P d k ck s))"
  by (induction P d k ck s rule: skip_keys.induct) simp_all

lemma skip_keys_get:
  assumes "unat (Nr s) + k < 2 ^ 32"
  shows "map_option fst (assoc_get (Skipped (skip_keys P d k ck s)) (d', n)) =
     (if d' = d \<and> unat (Nr s) \<le> unat n \<and> unat n < unat (Nr s) + k
      then Some (message_key P ck (unat n - unat (Nr s)))
      else map_option fst (assoc_get (Skipped s) (d', n)))"
  using assms
proof (induction P d k ck s rule: skip_keys.induct)
  case (2 P d k ck s)
  have u: "unat (Nr s + 1) = Suc (unat (Nr s))"
    using 2(2) by (simp add: unat_plus_if')
  have i: "unat n - unat (Nr s) = Suc (unat n - Suc (unat (Nr s)))" if "Suc (unat (Nr s)) \<le> unat n"
    using that by simp
  show ?case
    using 2 u i by (auto simp: table_simps word_unat_eq_iff)
qed auto

section \<open>Eviction\<close>

lemma length_assoc_del: "keys_distinct m \<Longrightarrow> k \<in> fst ` set m \<Longrightarrow> length (assoc_del m k) = length m - 1"
proof -
  assume d: "keys_distinct m" and "k \<in> fst ` set m"
  then have "length (filter (\<lambda>p. fst p = k) m) = 1"
  proof (induction m)
    case (Cons p m)
    have "filter (\<lambda>q. fst q = fst p) m = []" if "fst p \<notin> fst ` set m"
      using that by (auto simp: filter_empty_conv image_iff)
    with Cons show ?case by (auto simp: keys_distinct_def)
  qed simp
  moreover have "length (filter (\<lambda>p. fst p = k) m) + length (assoc_del m k) = length m"
    unfolding assoc_del_def by (rule sum_length_filter_compl)
  ultimately show ?thesis by simp
qed

lemma length_fold_del:
  "keys_distinct m \<Longrightarrow> distinct ks \<Longrightarrow> set ks \<subseteq> fst ` set m \<Longrightarrow>
   length (fold (\<lambda>k m. assoc_del m k) ks m) = length m - length ks"
proof (induction ks arbitrary: m)
  case (Cons k ks)
  have "set ks \<subseteq> fst ` set (assoc_del m k)" using Cons.prems by (auto simp: set_fst_del)
  then show ?case using Cons by (simp add: length_assoc_del)
qed simp

lemma keys_distinct_fold_del: "keys_distinct m \<Longrightarrow> keys_distinct (fold (\<lambda>k m. assoc_del m k) ks m)"
  by (induction ks arbitrary: m) simp_all

lemma set_fold_del: "set (fold (\<lambda>k m. assoc_del m k) ks m) \<subseteq> set m"
proof (induction ks arbitrary: m)
  case (Cons k ks)
  have "set (assoc_del m k) \<subseteq> set m" by (auto simp: assoc_del_def)
  with Cons [of "assoc_del m k"] show ?case by simp
qed simp

lemma evict_length:
  assumes "keys_distinct (Skipped s)"
  shows "length (Skipped (evictOldestSkipped s n)) = length (Skipped s) - n"
proof -
  define all where "all = sort_key (\<lambda>p. snd (snd p)) (Skipped s)"
  have m: "mset all = mset (Skipped s)" by (simp add: all_def)
  have d: "distinct (map fst all)"
    using assms mset_eq_imp_distinct_iff [of "map fst all" "map fst (Skipped s)"]
    by (simp add: all_def keys_distinct_def)
  have "set (map fst (take (min n (length all)) all)) \<subseteq> fst ` set (Skipped s)"
    using set_take_subset [of "min n (length all)" all] by (auto simp: all_def)
  moreover have "distinct (map fst (take (min n (length all)) all))"
    using d by (simp add: take_map [symmetric] distinct_take)
  ultimately have "length (fold (\<lambda>k m. assoc_del m k) (map fst (take (min n (length all)) all)) (Skipped s))
      = length (Skipped s) - min n (length (Skipped s))"
    using assms by (simp add: length_fold_del all_def)
  then show ?thesis by (simp add: evictOldestSkipped_def all_def Let_def min_def split: if_splits)
qed

lemma evict_fields [simp]:
  "SRole (evictOldestSkipped s n) = SRole s" "AD (evictOldestSkipped s n) = AD s"
  "DHs (evictOldestSkipped s n) = DHs s" "DHr (evictOldestSkipped s n) = DHr s"
  "RK (evictOldestSkipped s n) = RK s" "CKs (evictOldestSkipped s n) = CKs s"
  "CKr (evictOldestSkipped s n) = CKr s" "Nr (evictOldestSkipped s n) = Nr s"
  "Ns (evictOldestSkipped s n) = Ns s" "PN (evictOldestSkipped s n) = PN s"
  "skipSeq (evictOldestSkipped s n) = skipSeq s" "evictOldestSkipped s 0 = s"
  by (simp_all add: evictOldestSkipped_def Let_def)

lemma evict_distinct: "keys_distinct (Skipped s) \<Longrightarrow> keys_distinct (Skipped (evictOldestSkipped s n))"
  by (simp add: evictOldestSkipped_def Let_def keys_distinct_fold_del)

section \<open>The bound on buffered keys\<close>

definition session_ok :: "Session \<Rightarrow> bool" where
  "session_ok s \<longleftrightarrow> keys_distinct (Skipped s) \<and> length (Skipped s) \<le> 2000"

lemma skipMessageKeys_ok:
  assumes "session_ok s" "skipMessageKeys P s until = Inr s'"
  shows "session_ok s'"
proof (cases "until \<le> Nr s")
  case True
  then show ?thesis using assms by (simp add: skipMessageKeys_def)
next
  case False
  then obtain ck where ck: "CKr s = Some ck" and b: "unat (until - Nr s) \<le> 1000"
    and s': "s' = skip_loop P (case DHr s of None \<Rightarrow> [] | Some d \<Rightarrow> d) until ck
      (evictOldestSkipped s (length (Skipped s) + unat (until - Nr s) - 2000))"
    using assms(2) by (auto simp: skipMessageKeys_def Let_def split: if_splits option.splits)
  have d: "unat (until - Nr s) = unat until - unat (Nr s)" using False by (simp add: unat_diff_le)
  let ?e = "evictOldestSkipped s (length (Skipped s) + unat (until - Nr s) - 2000)"
  have kd: "keys_distinct (Skipped ?e)" using assms(1) by (simp add: session_ok_def evict_distinct)
  have "length (Skipped ?e) + unat (until - Nr s) \<le> 2000"
    using assms(1) b evict_length [of s] by (simp add: session_ok_def)
  then show ?thesis
    using skip_keys_length [of P _ "unat (until - Nr s)" ck ?e] skip_keys_distinct [OF kd]
    unfolding s' skip_loop_keys session_ok_def by (simp add: d) (meson le_trans)
qed

lemma length_assoc_del_le: "length (assoc_del m k) \<le> length m"
  by (simp add: assoc_del_def)

lemma dhRatchetStep_Skipped: "dhRatchetStep P new s d = Inr s' \<Longrightarrow> Skipped s' = Skipped s"
  by (auto simp: dhRatchetStep_def Let_def split: if_splits option.splits prod.splits)

lemma decrypt_chain_ok:
  assumes "session_ok s" "decrypt_chain P s h ct = Inr (p, s')"
  shows "session_ok s'"
proof -
  obtain s1 where s1: "skipMessageKeys P s (N_h h) = Inr s1"
    using assms(2) by (auto simp: decrypt_chain_def split: sum.splits)
  then have "Skipped s' = Skipped s1"
    using assms(2) by (auto simp: decrypt_chain_def with_session_def Let_def split: sum.splits option.splits prod.splits)
  then show ?thesis using skipMessageKeys_ok [OF assms(1) s1] by (simp add: session_ok_def)
qed

lemma decrypt_ok:
  assumes "session_ok s" "decrypt P new s h ct = Inr (p, s')"
  shows "session_ok s'"
proof (cases "trySkippedMessageKey s h")
  case (Some ms)
  then obtain mk where "ms = (mk, s')"
    using assms(2) by (cases ms) (auto simp: decrypt_def with_session_def split: sum.splits)
  with Some show ?thesis
    using assms(1) length_assoc_del_le [of "Skipped s" "(DHPub h, N_h h)"]
    by (auto simp: trySkippedMessageKey_def session_ok_def split: option.splits)
next
  case None
  show ?thesis
  proof (cases "headerMatchesDHr h (DHr s)")
    case True
    then show ?thesis
      using None assms decrypt_chain_ok [OF assms(1)] by (auto simp: decrypt_def split: if_splits)
  next
    case False
    then obtain s1 s2 where s1: "(if DHr s \<noteq> None then skipMessageKeys P s (PN_h h) else Inr s) = Inr s1"
      and s2: "dhRatchetStep P new s1 (DHPub h) = Inr s2" and s': "decrypt_chain P s2 h ct = Inr (p, s')"
      using None assms(2) unfolding decrypt_def by (auto split: sum.splits if_splits)
    have "session_ok s1" using s1 assms(1) skipMessageKeys_ok by (metis sum.inject(2))
    then have "session_ok s2" using dhRatchetStep_Skipped [OF s2] by (simp add: session_ok_def)
    then show ?thesis using s' by (rule decrypt_chain_ok)
  qed
qed

datatype session_op = SendOp bytes | ReceiveOp bytes Header bytes

fun session_step :: "platform \<Rightarrow> session_op \<Rightarrow> Session \<Rightarrow> Session" where
  "session_step P (SendOp p) s = fst (Encrypt P s p)"
| "session_step P (ReceiveOp new h ct) s = fst (Decrypt P new s h ct)"

lemma session_step_ok: "session_ok s \<Longrightarrow> session_ok (session_step P op s)"
proof (cases op)
  case (SendOp p)
  assume "session_ok s"
  then show ?thesis
    by (simp add: SendOp Encrypt_def session_ok_def Let_def case_prod_beta split: option.split sum.split)
next
  case (ReceiveOp new h ct)
  assume "session_ok s"
  then show ?thesis
    using decrypt_ok [of s P new h ct] by (simp add: ReceiveOp Decrypt_def split: sum.split)
qed

interpretation ratchet: preserving "session_step P" "\<lambda>_. True" session_ok for P
  by unfold_locales (rule session_step_ok)

section \<open>One sending chain, any delivery order\<close>

fun send_all :: "platform \<Rightarrow> Session \<Rightarrow> bytes list \<Rightarrow> (ratchet_error + Header \<times> bytes) list" where
  "send_all P s [] = []"
| "send_all P s (p # ps) = snd (Encrypt P s p) # send_all P (fst (Encrypt P s p)) ps"

fun receive_all :: "platform \<Rightarrow> Session \<Rightarrow> (bytes \<times> Header \<times> bytes) list \<Rightarrow> (ratchet_error + bytes) list" where
  "receive_all P s [] = []"
| "receive_all P s ((new, h, ct) # ms) =
     snd (Decrypt P new s h ct) # receive_all P (fst (Decrypt P new s h ct)) ms"

text \<open>What at-least-once delivery should give: each plaintext once, later copies refused.\<close>

fun exactly_once :: "bytes list \<Rightarrow> nat set \<Rightarrow> nat list \<Rightarrow> (ratchet_error + bytes) list" where
  "exactly_once ps D [] = []"
| "exactly_once ps D (i # is) =
     (if i \<in> D then Inl ErrDuplicateMessage else Inr (ps ! i)) # exactly_once ps (insert i D) is"

definition seal_with :: "platform \<Rightarrow> bytes \<Rightarrow> bytes \<Rightarrow> bytes \<Rightarrow> Header \<Rightarrow> bytes" where
  "seal_with P mk p ad h = (let (key, nonce) = deriveMessageKeyMaterial P mk in gcm_seal P key nonce p (ad @ header_Bytes h))"

lemma sealMessage_eq: "hkdf_size P \<Longrightarrow> sealMessage P mk p ad h = Inr (seal_with P mk p ad h)"
  by (simp add: sealMessage_def gcmFor_def deriveMessageKeyMaterial_def seal_with_def Let_def hkdf_size_def)

lemma openMessage_seal:
  "hkdf_size P \<Longrightarrow> gcm_correct P \<Longrightarrow> openMessage P mk (seal_with P mk p ad h) ad h = Inr p"
  by (simp add: openMessage_def gcmFor_def deriveMessageKeyMaterial_def seal_with_def Let_def hkdf_size_def gcm_correct_def)

definition chain_header :: "platform \<Rightarrow> Session \<Rightarrow> nat \<Rightarrow> Header" where
  "chain_header P s i = \<lparr>DHPub = x25519_public P (DHs s), PN_h = PN s, N_h = Ns s + of_nat i\<rparr>"

lemma send_all_nth:
  assumes "hkdf_size P" "CKs s = Some ck" "i < length ps"
  shows "send_all P s ps ! i
    = Inr (chain_header P s i, seal_with P (message_key P ck i) (ps ! i) (AD s) (chain_header P s i))"
  using assms(2,3)
proof (induction ps arbitrary: s ck i)
  case (Cons p ps)
  let ?s' = "s\<lparr>CKs := Some (fst (kdfCK P ck)), Ns := Ns s + 1\<rparr>"
  have e: "Encrypt P s p = (?s', Inr (chain_header P s 0, seal_with P (message_key P ck 0) p (AD s) (chain_header P s 0)))"
    using Cons.prems(1) by (simp add: Encrypt_def sealMessage_eq [OF assms(1)] chain_header_def Let_def case_prod_beta)
  show ?case
  proof (cases i)
    case 0
    then show ?thesis by (simp add: e)
  next
    case (Suc j)
    have h: "chain_header P ?s' j = chain_header P s i" by (simp add: chain_header_def Suc add.assoc)
    show ?thesis using Cons.IH [of ?s' "fst (kdfCK P ck)" j] Cons.prems Suc by (simp add: e h)
  qed
qed simp

text \<open>
  The receiver's side of a chain: it has derived the chain up to its counter, and buffers exactly
  the keys below the counter whose messages have not arrived.
\<close>

definition receiving :: "platform \<Rightarrow> bytes \<Rightarrow> bytes \<Rightarrow> bytes \<Rightarrow> nat \<Rightarrow> nat set \<Rightarrow> Session \<Rightarrow> bool" where
  "receiving P d ad ck budget D s \<longleftrightarrow> DHr s = Some d \<and> AD s = ad \<and> CKr s = Some (chain_key P ck (unat (Nr s)))
     \<and> (\<forall>i \<in> D. i < unat (Nr s)) \<and> length (Skipped s) \<le> budget + unat (Nr s)
     \<and> (\<forall>n. map_option fst (assoc_get (Skipped s) (d, n)) =
          (if unat n < unat (Nr s) \<and> unat n \<notin> D then Some (message_key P ck (unat n)) else None))"

definition in_chain :: "bytes \<Rightarrow> nat \<Rightarrow> Header \<Rightarrow> bool" where
  "in_chain d i h \<longleftrightarrow> DHPub h = d \<and> N_h h = of_nat i"

lemma unat_of_nat32: "i < 2 ^ 32 \<Longrightarrow> unat (of_nat i :: 32 word) = i"
  by (simp add: unat_of_nat)

lemma receive_duplicate:
  assumes r: "receiving P d ad ck b D s" and h: "in_chain d i h" and i: "i \<in> D" "i < 2 ^ 32"
  shows "Decrypt P new s h ct = (s, Inl ErrDuplicateMessage)"
proof -
  have n: "unat (N_h h) = i" using h i(2) by (simp add: in_chain_def unat_of_nat32)
  have "map_option fst (assoc_get (Skipped s) (d, N_h h)) = None"
    using r i(1) n by (simp add: receiving_def)
  then have "trySkippedMessageKey s h = None" using h by (simp add: trySkippedMessageKey_def in_chain_def)
  moreover have "headerMatchesDHr h (DHr s)" using r h by (simp add: headerMatchesDHr_def receiving_def in_chain_def)
  moreover have "N_h h < Nr s" using r i(1) n by (simp add: receiving_def word_less_nat_alt)
  ultimately show ?thesis by (simp add: Decrypt_def decrypt_def)
qed

lemma receive_buffered:
  assumes p: "hkdf_size P" "gcm_correct P" and r: "receiving P d ad ck b D s" and h: "in_chain d i h"
    and i: "i \<notin> D" "i < unat (Nr s)" "i < 2 ^ 32"
  shows "\<exists>s'. Decrypt P new s h (seal_with P (message_key P ck i) q ad h) = (s', Inr q)
    \<and> receiving P d ad ck b (insert i D) s' \<and> Nr s' = Nr s"
proof -
  have n: "unat (N_h h) = i" using h i(3) by (simp add: in_chain_def unat_of_nat32)
  have "map_option fst (assoc_get (Skipped s) (d, N_h h)) = Some (message_key P ck i)"
    using r i n by (simp add: receiving_def)
  then obtain sq where g: "assoc_get (Skipped s) (d, N_h h) = Some (message_key P ck i, sq)" by auto
  let ?s' = "s\<lparr>Skipped := assoc_del (Skipped s) (d, N_h h)\<rparr>"
  have t: "trySkippedMessageKey s h = Some (message_key P ck i, ?s')"
    using g h by (simp add: trySkippedMessageKey_def in_chain_def)
  have dec: "Decrypt P new s h (seal_with P (message_key P ck i) q ad h) = (?s', Inr q)"
    using r by (simp add: Decrypt_def decrypt_def t with_session_def openMessage_seal [OF p] receiving_def)
  have "length (assoc_del (Skipped s) (d, N_h h)) \<le> b + unat (Nr s)"
    using r length_assoc_del_le [of "Skipped s" "(d, N_h h)"] by (simp add: receiving_def)
  moreover have "map_option fst (assoc_get (assoc_del (Skipped s) (d, N_h h)) (d, n)) =
      (if unat n < unat (Nr s) \<and> unat n \<notin> insert i D then Some (message_key P ck (unat n)) else None)" for n
  proof (cases "n = N_h h")
    case False
    moreover from this have "unat n \<noteq> i" using n by (metis word_unat_eq_iff)
    moreover have "map_option fst (assoc_get (Skipped s) (d, n)) =
        (if unat n < unat (Nr s) \<and> unat n \<notin> D then Some (message_key P ck (unat n)) else None)"
      using r by (simp add: receiving_def)
    ultimately show ?thesis by (simp add: assoc_get_del)
  qed (simp add: assoc_get_del n)
  ultimately have "receiving P d ad ck b (insert i D) ?s'" using r i by (simp add: receiving_def)
  moreover have "Nr ?s' = Nr s" by simp
  ultimately show ?thesis using dec by blast
qed

lemma receive_ahead:
  assumes p: "hkdf_size P" "gcm_correct P" and r: "receiving P d ad ck b D s" and h: "in_chain d i h"
    and i: "unat (Nr s) \<le> i" "i < m" and m: "m \<le> 1000" "b + m \<le> 2000"
  shows "\<exists>s'. Decrypt P new s h (seal_with P (message_key P ck i) q ad h) = (s', Inr q)
    \<and> receiving P d ad ck b (insert i D) s' \<and> unat (Nr s') \<le> m"
proof -
  have n: "unat (N_h h) = i" using h i m by (simp add: in_chain_def unat_of_nat32)
  have "map_option fst (assoc_get (Skipped s) (d, N_h h)) = None" using r i n by (simp add: receiving_def)
  then have t: "trySkippedMessageKey s h = None" using h by (simp add: trySkippedMessageKey_def in_chain_def)
  have hm: "headerMatchesDHr h (DHr s)" using r h by (simp add: headerMatchesDHr_def receiving_def in_chain_def)
  have nl: "\<not> N_h h < Nr s" using i n by (simp add: word_less_nat_alt)
  let ?k = "i - unat (Nr s)"
  define s1 where "s1 = skip_keys P d ?k (chain_key P ck (unat (Nr s))) s"
  have ckr: "CKr s = Some (chain_key P ck (unat (Nr s)))" "DHr s = Some d" using r by (auto simp: receiving_def)
  have same: "skip_keys P d 0 (chain_key P ck (unat (Nr s))) s = s" using ckr by simp
  have sk: "skipMessageKeys P s (N_h h) = Inr s1"
  proof (cases "N_h h \<le> Nr s")
    case True
    then have "?k = 0" using n i by (simp add: word_le_nat_alt)
    then show ?thesis using True same by (simp add: skipMessageKeys_def s1_def)
  next
    case False
    have k: "unat (N_h h - Nr s) = ?k" using False n by (simp add: unat_diff_le)
    have "length (Skipped s) \<le> b + unat (Nr s)" using r by (simp add: receiving_def)
    then have "length (Skipped s) + ?k \<le> 2000" using i m by linarith
    then show ?thesis
      using False k i m ckr by (simp add: skipMessageKeys_def Let_def skip_loop_keys n s1_def)
  qed
  have c1: "CKr s1 = Some (chain_key P ck i)" using i(1) by (simp add: s1_def chain_key_add)
  have "Nr s1 = Nr s + of_nat ?k" by (simp add: s1_def)
  also have "\<dots> = of_nat i" 
  proof -
    have "of_nat (unat (Nr s) + ?k) = Nr s + of_nat ?k" by simp
    then show ?thesis using i(1) by simp
  qed
  finally have n1: "Nr s1 = of_nat i" .
  let ?s2 = "s1\<lparr>CKr := Some (chain_key P ck (Suc i)), Nr := of_nat i + 1\<rparr>"
  have u: "unat (of_nat i + 1 :: 32 word) = Suc i"
  proof -
    have "(of_nat i + 1 :: 32 word) = of_nat (Suc i)" by simp
    then show ?thesis using i(2) m(1) unat_of_nat32 [of "Suc i"] by (simp del: of_nat_Suc)
  qed
  have mk: "snd (kdfCK P (chain_key P ck i)) = message_key P ck i" by (simp only: message_key_def)
  have ad: "AD s1 = ad" using r by (simp add: s1_def receiving_def)
  have "decrypt_chain P s h (seal_with P (message_key P ck i) q ad h) = Inr (q, ?s2)"
    by (simp add: decrypt_chain_def sk c1 n1 Let_def case_prod_beta mk with_session_def ad
        openMessage_seal [OF p] del: message_key_simps)
  then have "Decrypt P new s h (seal_with P (message_key P ck i) q ad h) = (?s2, Inr q)"
    by (simp add: Decrypt_def decrypt_def t hm nl)
  moreover have "receiving P d ad ck b (insert i D) ?s2"
  proof -
    have "unat (Nr s) + ?k < 2 ^ 32" using i m by simp
    note get = skip_keys_get [OF this, of P d "chain_key P ck (unat (Nr s))" d]
    have "map_option fst (assoc_get (Skipped s1) (d, n)) =
        (if unat n < Suc i \<and> unat n \<notin> insert i D then Some (message_key P ck (unat n)) else None)" for n
    proof -
      have old: "map_option fst (assoc_get (Skipped s) (d, n)) =
          (if unat n < unat (Nr s) \<and> unat n \<notin> D then Some (message_key P ck (unat n)) else None)"
        using r by (simp add: receiving_def)
      have "unat n \<notin> D" if "unat (Nr s) \<le> unat n" using r that by (auto simp: receiving_def)
      then show ?thesis
        unfolding s1_def get [of n] old using i(1) by (auto simp: message_key_add)
    qed
    moreover have "length (Skipped s1) \<le> b + Suc i"
    proof -
      have "length (Skipped s) \<le> b + unat (Nr s)" using r by (simp add: receiving_def)
      then show ?thesis
        using skip_keys_length [of P d ?k "chain_key P ck (unat (Nr s))" s] i(1) by (simp add: s1_def)
    qed
    moreover have "\<forall>j \<in> insert i D. j < Suc i" using r i(1) by (fastforce simp: receiving_def)
    ultimately show ?thesis using r u by (simp add: receiving_def) (simp add: s1_def)
  qed
  ultimately show ?thesis using u i(2) by auto
qed

lemma receive_all_chain:
  assumes p: "hkdf_size P" "gcm_correct P" and m: "length ps \<le> 1000" "b + length ps \<le> 2000"
    and h: "\<And>i. i < length ps \<Longrightarrow> in_chain d i (hdr i)"
  shows "receiving P d ad ck b D s \<Longrightarrow> unat (Nr s) \<le> length ps \<Longrightarrow> \<forall>(i, new) \<in> set is. i < length ps \<Longrightarrow>
    receive_all P s (map (\<lambda>(i, new). (new, hdr i, seal_with P (message_key P ck i) (ps ! i) ad (hdr i))) is)
      = exactly_once ps D (map fst is)"
proof (induction "is" arbitrary: D s)
  case (Cons x "is")
  obtain i new where x: "x = (i, new)" by fastforce
  have i: "i < length ps" "i < 2 ^ 32" using Cons.prems(3) x m(1) by auto
  let ?ct = "seal_with P (message_key P ck i) (ps ! i) ad (hdr i)"
  have rest: "\<forall>(i, new) \<in> set is. i < length ps" using Cons.prems(3) by auto
  have "i \<in> D \<or> i \<notin> D \<and> i < unat (Nr s) \<or> i \<notin> D \<and> unat (Nr s) \<le> i" by auto
  then consider "i \<in> D" | "i \<notin> D" "i < unat (Nr s)" | "i \<notin> D" "unat (Nr s) \<le> i" by blast
  then show ?case
  proof cases
    case 1
    have "Decrypt P new s (hdr i) ?ct = (s, Inl ErrDuplicateMessage)"
      by (rule receive_duplicate [OF Cons.prems(1) h [OF i(1)] 1 i(2)])
    moreover have "insert i D = D" using 1 by auto
    ultimately show ?thesis using Cons.IH [OF Cons.prems(1,2) rest] 1 x by simp
  next
    case 2
    obtain s' where s': "Decrypt P new s (hdr i) ?ct = (s', Inr (ps ! i))" "receiving P d ad ck b (insert i D) s'"
      "Nr s' = Nr s" using receive_buffered [OF p Cons.prems(1) h [OF i(1)] 2 i(2)] by blast
    then show ?thesis using Cons.IH [OF s'(2) _ rest] Cons.prems(2) 2(1) x by simp
  next
    case 3
    obtain s' where "Decrypt P new s (hdr i) ?ct = (s', Inr (ps ! i))" "receiving P d ad ck b (insert i D) s'"
      "unat (Nr s') \<le> length ps"
      using receive_ahead [OF p Cons.prems(1) h [OF i(1)] 3(2) i(1) m] by blast
    then show ?thesis using Cons.IH [of "insert i D" s'] rest 3(1) x by simp
  qed
qed simp

lemma chain_delivery:
  assumes "hkdf_size P" and "gcm_correct P"
    and "CKs S = Some ck" and "Ns S = 0" and "CKr R = Some ck" and "Nr R = 0"
    and "DHr R = Some (x25519_public P (DHs S))" and "AD R = AD S"
    and "\<forall>n. assoc_get (Skipped R) (x25519_public P (DHs S), n) = None"
    and "length ps \<le> 1000" and "length (Skipped R) + length ps \<le> 2000"
    and "\<forall>(i, new) \<in> set is. i < length ps"
  shows "receive_all P R (map (\<lambda>(i, new). (new, projr (send_all P S ps ! i))) is)
    = exactly_once ps {} (map fst is)"
proof -
  let ?d = "x25519_public P (DHs S)"
  have r: "receiving P ?d (AD S) ck (length (Skipped R)) {} R"
    using assms(5-9) by (simp add: receiving_def)
  have "in_chain ?d i (chain_header P S i)" for i
    using assms(4) by (simp add: in_chain_def chain_header_def)
  then have c: "receive_all P R (map (\<lambda>(i, new). (new, chain_header P S i,
      seal_with P (message_key P ck i) (ps ! i) (AD S) (chain_header P S i))) is) = exactly_once ps {} (map fst is)"
    using assms(6) by (intro receive_all_chain [OF assms(1,2,10,11) _ r _ assms(12)]) auto
  have "map (\<lambda>(i, new). (new, projr (send_all P S ps ! i))) is
    = map (\<lambda>(i, new). (new, chain_header P S i, seal_with P (message_key P ck i) (ps ! i) (AD S) (chain_header P S i))) is"
    using assms(12) by (intro map_cong) (auto simp: send_all_nth [OF assms(1,3)])
  then show ?thesis by (simp only: c)
qed

section \<open>Properties\<close>


text \<open>
  C34: the buffer of skipped message keys never grows past 2000 entries, whatever a peer sends:
  the bound holds after every sequence of encryptions and (possibly failing) decryptions.
\<close>

theorem skipped_keys_bounded:
  assumes "Skipped s = []"
  shows "length (Skipped (fold (session_step P) ops s)) \<le> 2000"
proof -
  have "session_ok s" using assms by (simp add: session_ok_def)
  then have "session_ok (fold (session_step P) ops s)"
    by (intro ratchet.run_inv) (simp_all add: list_all_iff)
  then show ?thesis by (simp add: session_ok_def)
qed

section \<open>Persistence\<close>

definition storable :: "Session \<Rightarrow> bool" where
  "storable s \<longleftrightarrow> (DHs s = [] \<or> length (DHs s) = 32) \<and> (case DHr s of None \<Rightarrow> True | Some d \<Rightarrow> length d = 32)
     \<and> CKs s \<noteq> Some [] \<and> CKr s \<noteq> Some [] \<and> keys_distinct (Skipped s)"

lemma assoc_put_append_new: "k \<notin> fst ` set m \<Longrightarrow> assoc_put m k v = m @ [(k, v)]"
  by (induction m k v rule: assoc_put.induct) auto

lemma load_skipped_all:
  "keys_distinct (m0 @ m) \<Longrightarrow>
   fst (fold load_skipped (map (\<lambda>((d, n), (mk, seq)). \<lparr>j_DHPub = d, j_N = n, j_MK = mk, j_Seq = seq\<rparr>) m) (m0, q)) = m0 @ m
   \<and> (\<forall>p \<in> set m. snd (snd p) < snd (fold load_skipped (map (\<lambda>((d, n), (mk, seq)). \<lparr>j_DHPub = d, j_N = n, j_MK = mk, j_Seq = seq\<rparr>) m) (m0, q)))
   \<and> q \<le> snd (fold load_skipped (map (\<lambda>((d, n), (mk, seq)). \<lparr>j_DHPub = d, j_N = n, j_MK = mk, j_Seq = seq\<rparr>) m) (m0, q))"
proof (induction m arbitrary: m0 q)
  case (Cons p m)
  obtain d n mk sq where p: "p = ((d, n), (mk, sq))" by (metis prod.exhaust)
  have "(d, n) \<notin> fst ` set m0" using Cons.prems p by (auto simp: keys_distinct_def)
  then have l: "load_skipped \<lparr>j_DHPub = d, j_N = n, j_MK = mk, j_Seq = sq\<rparr> (m0, q)
      = (m0 @ [p], if q \<le> sq then Suc sq else q)"
    by (simp add: load_skipped_def assoc_put_append_new p)
  have "keys_distinct ((m0 @ [p]) @ m)" using Cons.prems by simp
  from Cons.IH [OF this, of "if q \<le> sq then Suc sq else q"] show ?case
    by (simp add: p l) (auto split: if_splits)
qed simp

text \<open>
  a stored session reloads to the session that was stored: every key, counter and buffered
  message key is back, and the insertion sequence is past all of theirs, so eviction goes on
  oldest first.
\<close>

theorem session_reloads:
  assumes "storable s"
  shows "\<exists>s'. session_UnmarshalJSON (session_MarshalJSON s) = Inr s' \<and> s'\<lparr>skipSeq := skipSeq s\<rparr> = s
    \<and> (\<forall>p \<in> set (Skipped s'). snd (snd p) < skipSeq s')"
proof -
  define ms where "ms = fold load_skipped (j_Skipped (session_MarshalJSON s)) ([], 0)"
  have ms: "fst ms = Skipped s" "\<forall>p \<in> set (Skipped s). snd (snd p) < snd ms"
    using load_skipped_all [of "[]" "Skipped s" 0] assms
    by (simp_all add: ms_def session_MarshalJSON_def storable_def)
  have b: "nil_or_bytes (bytes_or_nil x) = x" if "x \<noteq> Some []" for x
    using that by (auto simp: nil_or_bytes_def bytes_or_nil_def split: option.splits)
  have r: "DHr s \<noteq> Some []" "bytes_or_nil (DHr s) = [] \<or> length (bytes_or_nil (DHr s)) = 32"
    using assms by (auto simp: storable_def bytes_or_nil_def split: option.splits)
  have f: "j_DHsPriv (session_MarshalJSON s) = DHs s" "j_DHrPub (session_MarshalJSON s) = bytes_or_nil (DHr s)"
    "j_Role (session_MarshalJSON s) = SRole s" "j_AD (session_MarshalJSON s) = AD s" "j_RK (session_MarshalJSON s) = RK s"
    "j_CKs (session_MarshalJSON s) = bytes_or_nil (CKs s)" "j_CKr (session_MarshalJSON s) = bytes_or_nil (CKr s)"
    "j_Ns (session_MarshalJSON s) = Ns s" "j_Nr (session_MarshalJSON s) = Nr s" "j_PN (session_MarshalJSON s) = PN s"
    by (simp_all add: session_MarshalJSON_def)
  have "CKs s \<noteq> Some []" "CKr s \<noteq> Some []" "DHs s = [] \<or> length (DHs s) = 32" using assms by (auto simp: storable_def)
  then have "session_UnmarshalJSON (session_MarshalJSON s) = Inr (s\<lparr>Skipped := fst ms, skipSeq := snd ms\<rparr>)"
    using r by (auto simp: session_UnmarshalJSON_def ms_def [symmetric] Let_def f b intro: Session.equality)
  then show ?thesis using ms by simp
qed

section \<open>Witnesses\<close>

definition sample_session :: "bytes option \<Rightarrow> bytes option \<Rightarrow> Session" where
  "sample_session cks ckr = \<lparr>SRole = RoleInitiator, AD = ''ad'', DHs = pad 32 ''dhs'',
     DHr = Some (pad 32 ''dhs''), RK = pad 32 ''rk'', CKs = cks, CKr = ckr, Ns = 0, Nr = 0, PN = 0,
     Skipped = [], skipSeq = 0\<rparr>"


theorem skipped_keys_bounded_witness:
  "length (Skipped (fold (session_step sample_platform) [SendOp ''a'', ReceiveOp [] \<lparr>DHPub = pad 32 ''dhs'', PN_h = 0, N_h = 900\<rparr> ''x'']
     (sample_session (Some ''ck'') (Some ''ck'')))) \<le> 2000"
  by (rule skipped_keys_bounded) (simp add: sample_session_def)

theorem session_reloads_witness:
  "\<exists>s'. session_UnmarshalJSON (session_MarshalJSON (sample_session (Some ''ck'') None)) = Inr s'"
  using session_reloads [of "sample_session (Some ''ck'') None"] by (auto simp: storable_def sample_session_def)

end
