(* ===== verification/X3dh.thy ===== *)
theory X3dh
  imports Ratchet_Chain
begin

text \<open>
  \<open>pkg/ratchet/x3dh.go\<close> and the session constructors of \<open>session.go\<close>: session establishment
  by X3DH on both sides, and its composition with the ratchet. The ephemeral and the first ratchet
  key of the initiator are arguments, as they are drawn at random.
\<close>

section \<open>The two sides\<close>

definition x3dhInfo :: string where "x3dhInfo = ''Freizone-X3DH-v1''"

record RemoteBundle =
  rb_DHIdentityPubKey :: bytes
  rb_SignedPrekeyID :: "32 word"
  rb_SignedPrekeyPub :: bytes
  rb_OneTimePrekeyID :: "32 word option"
  rb_OneTimePrekeyPub :: "bytes option"

record InitialMessage =
  im_SenderDHIdentityPub :: bytes
  im_SenderEphemeralPub :: bytes
  im_SignedPrekeyID :: "32 word"
  im_OneTimePrekeyID :: "32 word option"

definition x3dhIKM :: "bytes \<Rightarrow> bytes \<Rightarrow> bytes \<Rightarrow> bytes \<Rightarrow> bytes" where
  "x3dhIKM dh1 dh2 dh3 dh4 = replicate 32 (CHR 0xFF) @ dh1 @ dh2 @ dh3 @ dh4"

definition deriveX3DHSecret :: "platform \<Rightarrow> bytes \<Rightarrow> bytes" where
  "deriveX3DHSecret P ikm = hkdf_sha256 P ikm (replicate 32 (CHR 0x00)) x3dhInfo 32"

definition sessionAD :: "bytes \<Rightarrow> bytes \<Rightarrow> bytes" where
  "sessionAD initiatorDHPub responderDHPub = initiatorDHPub @ responderDHPub"

definition newInitiatorSession ::
    "platform \<Rightarrow> bytes \<Rightarrow> bytes \<Rightarrow> bytes \<Rightarrow> bytes \<Rightarrow> ratchet_error + Session" where
  "newInitiatorSession P sk ad ratchetPriv remoteSignedPrekeyPub =
     (case x25519 P ratchetPriv remoteSignedPrekeyPub of None \<Rightarrow> Inl DHFailed
      | Some dh \<Rightarrow> (let (rk, cks) = kdfRK P sk dh in
          Inr \<lparr>SRole = RoleInitiator, AD = ad, DHs = ratchetPriv, DHr = Some remoteSignedPrekeyPub,
               RK = rk, CKs = Some cks, CKr = None, Ns = 0, Nr = 0, PN = 0, Skipped = [], skipSeq = 0\<rparr>))"

definition newResponderSession :: "bytes \<Rightarrow> bytes \<Rightarrow> bytes \<Rightarrow> Session" where
  "newResponderSession sk ad signedPrekeyPriv =
     \<lparr>SRole = RoleResponder, AD = ad, DHs = signedPrekeyPriv, DHr = None, RK = sk, CKs = None,
      CKr = None, Ns = 0, Nr = 0, PN = 0, Skipped = [], skipSeq = 0\<rparr>"

definition or_fail :: "'e \<Rightarrow> 'a option \<Rightarrow> ('a \<Rightarrow> 'e + 'b) \<Rightarrow> 'e + 'b" where
  "or_fail e x k = (case x of None \<Rightarrow> Inl e | Some y \<Rightarrow> k y)"

definition InitiateSession ::
    "platform \<Rightarrow> bytes \<Rightarrow> bytes \<Rightarrow> bytes \<Rightarrow> RemoteBundle \<Rightarrow> ratchet_error + Session \<times> InitialMessage" where
  "InitiateSession P ephemeralPriv ratchetPriv localDHIdentityPriv remote =
     or_fail DHFailed (x25519 P localDHIdentityPriv (rb_SignedPrekeyPub remote)) (\<lambda>dh1.
     or_fail DHFailed (x25519 P ephemeralPriv (rb_DHIdentityPubKey remote)) (\<lambda>dh2.
     or_fail DHFailed (x25519 P ephemeralPriv (rb_SignedPrekeyPub remote)) (\<lambda>dh3.
     case (case rb_OneTimePrekeyPub remote of None \<Rightarrow> Inr (x3dhIKM dh1 dh2 dh3 [], None)
           | Some otpk \<Rightarrow> or_fail DHFailed (x25519 P ephemeralPriv otpk)
               (\<lambda>dh4. Inr (x3dhIKM dh1 dh2 dh3 dh4, rb_OneTimePrekeyID remote))) of
       Inl e \<Rightarrow> Inl e
     | Inr (ikm, otpkID) \<Rightarrow>
         (let sk = deriveX3DHSecret P ikm;
              ad = sessionAD (x25519_public P localDHIdentityPriv) (rb_DHIdentityPubKey remote)
          in case newInitiatorSession P sk ad ratchetPriv (rb_SignedPrekeyPub remote) of Inl e \<Rightarrow> Inl e
             | Inr session \<Rightarrow> Inr (session,
                 \<lparr>im_SenderDHIdentityPub = x25519_public P localDHIdentityPriv,
                  im_SenderEphemeralPub = x25519_public P ephemeralPriv,
                  im_SignedPrekeyID = rb_SignedPrekeyID remote, im_OneTimePrekeyID = otpkID\<rparr>)))))"

definition RespondToSession ::
    "platform \<Rightarrow> bytes \<Rightarrow> bytes \<Rightarrow> bytes option \<Rightarrow> InitialMessage \<Rightarrow> ratchet_error + Session" where
  "RespondToSession P localDHIdentityPriv signedPrekeyPriv oneTimePrekeyPriv initial =
     (if length (im_SenderDHIdentityPub initial) \<noteq> 32 then Inl (BadSenderKey (length (im_SenderDHIdentityPub initial)))
      else if length (im_SenderEphemeralPub initial) \<noteq> 32 then Inl (BadSenderKey (length (im_SenderEphemeralPub initial)))
      else
     or_fail DHFailed (x25519 P signedPrekeyPriv (im_SenderDHIdentityPub initial)) (\<lambda>dh1.
     or_fail DHFailed (x25519 P localDHIdentityPriv (im_SenderEphemeralPub initial)) (\<lambda>dh2.
     or_fail DHFailed (x25519 P signedPrekeyPriv (im_SenderEphemeralPub initial)) (\<lambda>dh3.
     case (case im_OneTimePrekeyID initial of None \<Rightarrow> Inr (x3dhIKM dh1 dh2 dh3 [])
           | Some _ \<Rightarrow> or_fail MissingOneTimePrekey oneTimePrekeyPriv (\<lambda>otk.
               or_fail DHFailed (x25519 P otk (im_SenderEphemeralPub initial))
                 (\<lambda>dh4. Inr (x3dhIKM dh1 dh2 dh3 dh4)))) of
       Inl e \<Rightarrow> Inl e
     | Inr ikm \<Rightarrow> Inr (newResponderSession (deriveX3DHSecret P ikm)
           (sessionAD (im_SenderDHIdentityPub initial) (x25519_public P localDHIdentityPriv))
           signedPrekeyPriv)))))"

section \<open>Agreement\<close>

text \<open>The bundle a device with these private keys publishes.\<close>

definition bundle_of :: "platform \<Rightarrow> bytes \<Rightarrow> 32 word \<Rightarrow> bytes \<Rightarrow> (32 word \<times> bytes) option \<Rightarrow> RemoteBundle" where
  "bundle_of P ident spkID spk otk = \<lparr>rb_DHIdentityPubKey = x25519_public P ident, rb_SignedPrekeyID = spkID,
     rb_SignedPrekeyPub = x25519_public P spk, rb_OneTimePrekeyID = map_option fst otk,
     rb_OneTimePrekeyPub = map_option (\<lambda>kp. x25519_public P (snd kp)) otk\<rparr>"

definition x3dh_secret :: "platform \<Rightarrow> bytes \<Rightarrow> bytes \<Rightarrow> bytes \<Rightarrow> bytes \<Rightarrow> (32 word \<times> bytes) option \<Rightarrow> bytes" where
  "x3dh_secret P identA eph identB spk otk = deriveX3DHSecret P (x3dhIKM
     (the (x25519 P identA (x25519_public P spk))) (the (x25519 P eph (x25519_public P identB)))
     (the (x25519 P eph (x25519_public P spk)))
     (case otk of None \<Rightarrow> [] | Some kp \<Rightarrow> the (x25519 P eph (x25519_public P (snd kp)))))"

lemma x25519_pub:
  assumes "x25519_agrees P"
  shows "x25519 P a (x25519_public P b) = Some (the (x25519 P a (x25519_public P b)))"
    "x25519 P a (x25519_public P b) = x25519 P b (x25519_public P a)"
    "length (x25519_public P a) = 32"
  using assms unfolding x25519_agrees_def by (auto simp: option.collapse)

lemma or_fail_Some [simp]: "or_fail e (Some x) k = k x"
  by (simp add: or_fail_def)

definition initiator_session :: "platform \<Rightarrow> bytes \<Rightarrow> bytes \<Rightarrow> bytes \<Rightarrow> bytes \<Rightarrow> Session" where
  "initiator_session P sk ad ratchetPriv spkPub =
     (let (rk, cks) = kdfRK P sk (the (x25519 P ratchetPriv spkPub)) in
      \<lparr>SRole = RoleInitiator, AD = ad, DHs = ratchetPriv, DHr = Some spkPub, RK = rk, CKs = Some cks,
       CKr = None, Ns = 0, Nr = 0, PN = 0, Skipped = [], skipSeq = 0\<rparr>)"

lemma InitiateSession_bundle:
  assumes "x25519_agrees P"
  shows "InitiateSession P eph rat identA (bundle_of P identB spkID spk otk) = Inr (
    initiator_session P (x3dh_secret P identA eph identB spk otk)
      (sessionAD (x25519_public P identA) (x25519_public P identB)) rat (x25519_public P spk),
    \<lparr>im_SenderDHIdentityPub = x25519_public P identA, im_SenderEphemeralPub = x25519_public P eph,
     im_SignedPrekeyID = spkID, im_OneTimePrekeyID = map_option fst otk\<rparr>)"
proof -
  note d = x25519_pub(1) [OF assms]
  obtain d1 d2 d3 d4 d5 where "x25519 P identA (x25519_public P spk) = Some d1"
    "x25519 P eph (x25519_public P identB) = Some d2" "x25519 P eph (x25519_public P spk) = Some d3"
    "x25519 P rat (x25519_public P spk) = Some d4" "x25519 P eph (x25519_public P (snd (the otk))) = Some d5"
    using d by blast
  then show ?thesis
    by (cases otk) (simp_all add: InitiateSession_def bundle_of_def newInitiatorSession_def
        initiator_session_def x3dh_secret_def Let_def case_prod_beta)
qed

lemma RespondToSession_initial:
  assumes "x25519_agrees P"
  shows "RespondToSession P identB spk (map_option snd otk)
      \<lparr>im_SenderDHIdentityPub = x25519_public P identA, im_SenderEphemeralPub = x25519_public P eph,
       im_SignedPrekeyID = spkID, im_OneTimePrekeyID = map_option fst otk\<rparr>
    = Inr (newResponderSession (x3dh_secret P identA eph identB spk otk)
        (sessionAD (x25519_public P identA) (x25519_public P identB)) spk)"
proof -
  note d = x25519_pub(1) [OF assms] and c = x25519_pub(2) [OF assms]
  obtain d1 d2 d3 d4 where x: "x25519 P identA (x25519_public P spk) = Some d1"
    "x25519 P eph (x25519_public P identB) = Some d2" "x25519 P eph (x25519_public P spk) = Some d3"
    "x25519 P eph (x25519_public P (snd (the otk))) = Some d4"
    using d by blast
  then have "x25519 P spk (x25519_public P identA) = Some d1" "x25519 P identB (x25519_public P eph) = Some d2"
    "x25519 P spk (x25519_public P eph) = Some d3" "x25519 P (snd (the otk)) (x25519_public P eph) = Some d4"
    using c [of spk identA] c [of identB eph] c [of spk eph] c [of "snd (the otk)" eph] by simp_all
  with x show ?thesis
    by (cases otk) (simp_all add: RespondToSession_def x3dh_secret_def x25519_pub(3) [OF assms])
qed

section \<open>A turn of the conversation\<close>

text \<open>
  \<open>pending P A B\<close>: \<open>A\<close> has a sending chain that \<open>B\<close> has not seen yet and will derive
  on the first message of it.
\<close>

definition pending :: "platform \<Rightarrow> Session \<Rightarrow> Session \<Rightarrow> bool" where
  "pending P A B \<longleftrightarrow> Ns A = 0 \<and> AD A = AD B
     \<and> CKs A = Some (snd (kdfRK P (RK B) (the (x25519 P (DHs B) (x25519_public P (DHs A))))))
     \<and> DHr B \<noteq> Some (x25519_public P (DHs A)) \<and> (DHr B = None \<or> PN A \<le> Nr B) \<and> Skipped B = []"

definition turned :: "platform \<Rightarrow> bytes \<Rightarrow> bytes \<Rightarrow> Session \<Rightarrow> Session" where
  "turned P new d B =
     (let r = kdfRK P (RK B) (the (x25519 P (DHs B) d)); r2 = kdfRK P (fst r) (the (x25519 P new d))
      in B\<lparr>PN := Ns B, Ns := 0, Nr := 0, DHr := Some d, RK := fst r2, CKr := Some (snd r),
           DHs := new, CKs := Some (snd r2)\<rparr>)"

lemma turned_fields [simp]:
  "AD (turned P new d B) = AD B" "Skipped (turned P new d B) = Skipped B" "Nr (turned P new d B) = 0"
  "Ns (turned P new d B) = 0" "PN (turned P new d B) = Ns B" "DHr (turned P new d B) = Some d"
  "DHs (turned P new d B) = new"
  "CKr (turned P new d B) = Some (snd (kdfRK P (RK B) (the (x25519 P (DHs B) d))))"
  "CKs (turned P new d B) = Some (snd (kdfRK P (fst (kdfRK P (RK B) (the (x25519 P (DHs B) d)))) (the (x25519 P new d))))"
  by (simp_all add: turned_def Let_def)

lemma decrypt_turn:
  assumes x: "x25519_agrees P" and p: "pending P A B" and h: "DHPub h = x25519_public P (DHs A)" "PN_h h = PN A"
  shows "decrypt P new B h ct = decrypt P new (turned P new (x25519_public P (DHs A)) B) h ct"
proof -
  let ?d = "x25519_public P (DHs A)" and ?T = "turned P new (x25519_public P (DHs A)) B"
  have t: "trySkippedMessageKey B h = None" "trySkippedMessageKey ?T h = None"
    using p by (simp_all add: trySkippedMessageKey_def pending_def)
  have n: "\<not> headerMatchesDHr h (DHr B)"
    using p h by (auto simp: headerMatchesDHr_def pending_def split: option.splits)
  have s: "(if DHr B \<noteq> None then skipMessageKeys P B (PN_h h) else Inr B) = Inr B"
    using p h by (auto simp: skipMessageKeys_def pending_def)
  have "dhRatchetStep P new B (DHPub h) = Inr ?T"
  proof -
    obtain d1 d2 where "x25519 P (DHs B) ?d = Some d1" "x25519 P new ?d = Some d2"
      using x25519_pub(1) [OF x] by blast
    then show ?thesis
      by (simp add: dhRatchetStep_def h turned_def Let_def case_prod_beta x25519_pub(3) [OF x])
  qed
  then have "decrypt P new B h ct = decrypt_chain P ?T h ct"
    unfolding decrypt_def t s using n by simp
  moreover have "decrypt P new ?T h ct = decrypt_chain P ?T h ct"
    unfolding decrypt_def t by (simp add: headerMatchesDHr_def h)
  ultimately show ?thesis by simp
qed

lemma receive_turn:
  assumes P: "x25519_agrees P" "hkdf_size P" "gcm_correct P" and p: "pending P A B"
    and l: "length ps \<le> 1000" and i: "\<forall>(i, new) \<in> set is. i < length ps"
  shows "receive_all P B (map (\<lambda>(i, new). (new, projr (send_all P A ps ! i))) is) = exactly_once ps {} (map fst is)"
proof (cases "is")
  case (Cons x rest)
  obtain i0 new where x: "x = (i0, new)" by fastforce
  let ?d = "x25519_public P (DHs A)"
  let ?T = "turned P new ?d B"
  define ck where "ck = snd (kdfRK P (RK B) (the (x25519 P (DHs B) ?d)))"
  have A: "CKs A = Some ck" "Ns A = 0" "AD B = AD A" "Skipped B = []" using p by (auto simp: pending_def ck_def)
  have c: "receive_all P ?T (map (\<lambda>(i, new). (new, projr (send_all P A ps ! i))) is) = exactly_once ps {} (map fst is)"
    using A l i by (intro chain_delivery [OF P(2,3) A(1)]) (auto simp: ck_def)
  obtain hh ct where m: "projr (send_all P A ps ! i0) = (hh, ct)" by fastforce
  have "i0 < length ps" using i Cons x by simp
  then have hd: "hh = chain_header P A i0" using m by (simp add: send_all_nth [OF P(2) A(1)])
  have de: "decrypt P new B hh ct = decrypt P new ?T hh ct"
    by (rule decrypt_turn [OF P(1) p]) (simp_all add: hd chain_header_def)
  have "snd (Decrypt P new ?T hh ct) = Inr (ps ! i0)" using c Cons x m by simp
  then have "Decrypt P new B hh ct = Decrypt P new ?T hh ct"
    using de by (auto simp: Decrypt_def split: sum.splits)
  then show ?thesis using c Cons x m by simp
qed simp

text \<open>After the first message of a turn the other direction is pending.\<close>

lemma pending_turned:
  assumes x: "x25519_agrees P" and ad: "AD A' = AD B" and r: "RK A' = fst (kdfRK P (RK B) (the (x25519 P (DHs B) (x25519_public P (DHs A')))))"
    and d: "DHr A' \<noteq> Some (x25519_public P new)" "DHr A' = None \<or> Ns B \<le> Nr A'" "Skipped A' = []"
    and T: "RK T = RK (turned P new (x25519_public P (DHs A')) B)" "Ns T = 0" "PN T = Ns B" "AD T = AD B" "DHs T = new"
      "CKs T = CKs (turned P new (x25519_public P (DHs A')) B)"
  shows "pending P T A'"
  using assms x25519_pub(2) [OF x, of new "DHs A'"]
  by (simp add: pending_def)

fun send_session :: "platform \<Rightarrow> Session \<Rightarrow> bytes list \<Rightarrow> Session" where
  "send_session P s [] = s"
| "send_session P s (p # ps) = send_session P (fst (Encrypt P s p)) ps"

lemma Encrypt_fields [simp]:
  "AD (fst (Encrypt P s p)) = AD s" "RK (fst (Encrypt P s p)) = RK s" "DHs (fst (Encrypt P s p)) = DHs s"
  "DHr (fst (Encrypt P s p)) = DHr s" "Nr (fst (Encrypt P s p)) = Nr s" "Skipped (fst (Encrypt P s p)) = Skipped s"
  by (simp_all add: Encrypt_def Let_def case_prod_beta split: option.split sum.split)

lemma send_session_fields [simp]:
  "AD (send_session P s ps) = AD s" "RK (send_session P s ps) = RK s" "DHs (send_session P s ps) = DHs s"
  "DHr (send_session P s ps) = DHr s" "Nr (send_session P s ps) = Nr s" "Skipped (send_session P s ps) = Skipped s"
  by (induction P s ps rule: send_session.induct) simp_all

lemma skipMessageKeys_fields:
  "skipMessageKeys P s n = Inr s' \<Longrightarrow> RK s' = RK s \<and> Ns s' = Ns s \<and> PN s' = PN s \<and> AD s' = AD s \<and> DHs s' = DHs s \<and> CKs s' = CKs s"
  by (auto simp: skipMessageKeys_def Let_def skip_loop_keys split: if_splits option.splits)

lemma decrypt_chain_fields:
  "decrypt_chain P s h ct = Inr (q, s') \<Longrightarrow> RK s' = RK s \<and> Ns s' = Ns s \<and> PN s' = PN s \<and> AD s' = AD s \<and> DHs s' = DHs s \<and> CKs s' = CKs s"
  by (auto simp: decrypt_chain_def with_session_def Let_def case_prod_beta dest!: skipMessageKeys_fields
      split: sum.splits option.splits)

section \<open>Properties\<close>

text \<open>
  C2: a session set up by X3DH works in both directions. The initiator's session and the session
  the responder derives from the initial message share their associated data; whatever order the
  initiator's first messages arrive in, and however often, each decrypts exactly once; and once
  one of them has been decrypted, the responder's replies reach the initiator in the same way.
\<close>

theorem x3dh_session_established:
  assumes P: "x25519_agrees P" "hkdf_size P" "gcm_correct P"
    and A: "InitiateSession P eph rat identA (bundle_of P identB spkID spk otk) = Inr (A, initial)"
    and B: "RespondToSession P identB spk (map_option snd otk) initial = Inr B"
    and l: "length ps \<le> 1000" "length qs \<le> 1000"
    and i: "\<forall>(i, new) \<in> set is. i < length ps" and k: "k < length ps" and j: "\<forall>(j, new) \<in> set js. j < length qs"
    and f: "x25519_public P new \<noteq> x25519_public P spk"
  shows "AD A = AD B
    \<and> receive_all P B (map (\<lambda>(i, new). (new, projr (send_all P A ps ! i))) is) = exactly_once ps {} (map fst is)
    \<and> (let B' = fst (case projr (send_all P A ps ! k) of (h, ct) \<Rightarrow> Decrypt P new B h ct) in
       receive_all P (send_session P A ps) (map (\<lambda>(j, new). (new, projr (send_all P B' qs ! j))) js)
         = exactly_once qs {} (map fst js))"
proof -
  define sk where "sk = x3dh_secret P identA eph identB spk otk"
  define ad where "ad = sessionAD (x25519_public P identA) (x25519_public P identB)"
  have A': "A = initiator_session P sk ad rat (x25519_public P spk)"
    and B': "B = newResponderSession sk ad spk"
    using A B RespondToSession_initial [OF P(1), of identB spk otk identA eph spkID]
    by (auto simp: InitiateSession_bundle [OF P(1)] sk_def ad_def)
  have dh: "the (x25519 P rat (x25519_public P spk)) = the (x25519 P spk (x25519_public P rat))"
    using x25519_pub(2) [OF P(1), of rat spk] by simp
  have Af: "AD A = ad" "DHs A = rat" "Ns A = 0" "PN A = 0" "DHr A = Some (x25519_public P spk)" "Nr A = 0" "Skipped A = []"
    "RK A = fst (kdfRK P sk (the (x25519 P spk (x25519_public P rat))))"
    "CKs A = Some (snd (kdfRK P sk (the (x25519 P spk (x25519_public P rat)))))"
    by (simp_all add: A' initiator_session_def Let_def case_prod_beta dh)
  have Bf: "AD B = ad" "DHs B = spk" "Ns B = 0" "DHr B = None" "RK B = sk" "Skipped B = []"
    by (simp_all add: B' newResponderSession_def)
  have pe: "pending P A B" by (simp add: pending_def Af Bf)
  have flight: "receive_all P B (map (\<lambda>(i, new). (new, projr (send_all P A ps ! i))) is) = exactly_once ps {} (map fst is)"
    by (rule receive_turn [OF P pe l(1) i])
  obtain hh ct where m: "projr (send_all P A ps ! k) = (hh, ct)" by fastforce
  have hd: "hh = chain_header P A k" using m k by (simp add: send_all_nth [OF P(2) Af(9)])
  have "receive_all P B (map (\<lambda>(i, new). (new, projr (send_all P A ps ! i))) [(k, new)]) = exactly_once ps {} [k]"
    using receive_turn [OF P pe l(1), of "[(k, new)]"] k by simp
  then have ok: "snd (Decrypt P new B hh ct) = Inr (ps ! k)" using m by simp
  define T where "T = turned P new (x25519_public P rat) B"
  have de: "decrypt P new B hh ct = decrypt_chain P T hh ct"
  proof -
    have "decrypt P new B hh ct = decrypt P new T hh ct"
      using decrypt_turn [OF P(1) pe, of hh new ct] by (simp add: hd chain_header_def Af T_def)
    also have "\<dots> = decrypt_chain P T hh ct"
      by (simp add: decrypt_def trySkippedMessageKey_def headerMatchesDHr_def T_def Bf hd chain_header_def Af)
    finally show ?thesis .
  qed
  obtain S where S: "decrypt_chain P T hh ct = Inr (ps ! k, S)" "fst (Decrypt P new B hh ct) = S"
    using ok de by (auto simp: Decrypt_def split: sum.splits)
  note Sf = decrypt_chain_fields [OF S(1)]
  have "pending P S (send_session P A ps)"
    by (rule pending_turned [OF P(1), of _ B new]) (use Sf f in \<open>simp_all add: Af Bf T_def\<close>)
  then have "receive_all P (send_session P A ps) (map (\<lambda>(j, new). (new, projr (send_all P S qs ! j))) js)
      = exactly_once qs {} (map fst js)"
    by (rule receive_turn [OF P _ l(2) j])
  then show ?thesis using flight by (simp add: Af Bf m S(2) Let_def)
qed

section \<open>Witnesses\<close>

theorem x3dh_session_established_witness:
  "\<exists>A B initial. InitiateSession sample_platform ''eph'' ''rat'' ''ida'' (bundle_of sample_platform ''idb'' 7 ''spk'' (Some (9, ''otk''))) = Inr (A, initial)
     \<and> RespondToSession sample_platform ''idb'' ''spk'' (Some ''otk'') initial = Inr B
     \<and> receive_all sample_platform B (map (\<lambda>(i, new). (new, projr (send_all sample_platform A [''a'', ''b''] ! i))) [(1, ''n''), (0, ''m'')])
       = [Inr ''b'', Inr ''a'']"
proof -
  let ?otk = "Some (9, ''otk'') :: (32 word \<times> bytes) option"
  obtain A initial where A: "InitiateSession sample_platform ''eph'' ''rat'' ''ida'' (bundle_of sample_platform ''idb'' 7 ''spk'' ?otk) = Inr (A, initial)"
    using InitiateSession_bundle [OF sample_platform_laws(5)] by blast
  then obtain B where B: "RespondToSession sample_platform ''idb'' ''spk'' (map_option snd ?otk) initial = Inr B"
    using RespondToSession_initial [OF sample_platform_laws(5), of "''idb''" "''spk''" ?otk "''ida''" "''eph''" 7]
    by (auto simp: InitiateSession_bundle [OF sample_platform_laws(5)])
  have "receive_all sample_platform B (map (\<lambda>(i, new). (new, projr (send_all sample_platform A [''a'', ''b''] ! i))) [(1, ''n''), (0, ''m'')])
     = exactly_once [''a'', ''b''] {} (map fst [(1, ''n''), (0, ''m'')])"
    using x3dh_session_established [OF sample_platform_laws(5,3,4) A B, of "[''a'', ''b'']" "[]" "[(1, ''n''), (0, ''m'')]" 0 "[]" "''new''"]
    by (simp add: sample_platform_def pad_def)
  with A B show ?thesis by auto
qed

end
