(* ===== verification/Wire.thy ===== *)
theory Wire
  imports X3dh
begin

text \<open>
  \<open>pkg/wire\<close>: what a client puts in a message's opaque payload. The JSON text is left to
  \<open>encoding/json\<close>; an envelope here is the value it carries.
\<close>

section \<open>The envelope\<close>

record HeaderDTO =
  hd_DHPub :: string
  hd_PN :: "32 word"
  hd_N :: "32 word"

record PrekeyFields =
  pk_SenderDHIdentityPub :: string
  pk_SenderEphemeralPub :: string
  pk_SignedPrekeyID :: "32 word"
  pk_OneTimePrekeyID :: "32 word option"
  pk_Rekey :: "bool option"

record Envelope =
  env_Prekey :: "PrekeyFields option"
  env_Header :: HeaderDTO
  env_Ciphertext :: string

section \<open>Conversions\<close>

definition HeaderToDTO :: "Header \<Rightarrow> HeaderDTO" where
  "HeaderToDTO h = \<lparr>hd_DHPub = base64_encode (DHPub h), hd_PN = PN_h h, hd_N = N_h h\<rparr>"

definition ToHeader :: "HeaderDTO \<Rightarrow> Header option" where
  "ToHeader d = (case base64_decode (hd_DHPub d) of None \<Rightarrow> None
     | Some dhPub \<Rightarrow> Some \<lparr>DHPub = dhPub, PN_h = hd_PN d, N_h = hd_N d\<rparr>)"

definition InitialMessageToPrekeyFields :: "InitialMessage \<Rightarrow> PrekeyFields" where
  "InitialMessageToPrekeyFields im =
     \<lparr>pk_SenderDHIdentityPub = base64_encode (im_SenderDHIdentityPub im),
      pk_SenderEphemeralPub = base64_encode (im_SenderEphemeralPub im),
      pk_SignedPrekeyID = im_SignedPrekeyID im, pk_OneTimePrekeyID = im_OneTimePrekeyID im, pk_Rekey = None\<rparr>"

definition ToInitialMessage :: "PrekeyFields \<Rightarrow> InitialMessage option" where
  "ToInitialMessage p = (case base64_decode (pk_SenderDHIdentityPub p) of None \<Rightarrow> None
     | Some senderDH \<Rightarrow> (case base64_decode (pk_SenderEphemeralPub p) of None \<Rightarrow> None
       | Some senderEph \<Rightarrow> Some \<lparr>im_SenderDHIdentityPub = senderDH, im_SenderEphemeralPub = senderEph,
           im_SignedPrekeyID = pk_SignedPrekeyID p, im_OneTimePrekeyID = pk_OneTimePrekeyID p\<rparr>))"

definition NewEnvelopeRekey :: "InitialMessage option \<Rightarrow> Header \<Rightarrow> bytes \<Rightarrow> bool option \<Rightarrow> Envelope" where
  "NewEnvelopeRekey initial header ciphertext rekey =
     \<lparr>env_Prekey = map_option (\<lambda>im. (InitialMessageToPrekeyFields im)\<lparr>pk_Rekey := rekey\<rparr>) initial,
      env_Header = HeaderToDTO header, env_Ciphertext = base64_encode ciphertext\<rparr>"

definition NewEnvelope :: "InitialMessage option \<Rightarrow> Header \<Rightarrow> bytes \<Rightarrow> Envelope" where
  "NewEnvelope initial header ciphertext = NewEnvelopeRekey initial header ciphertext None"

definition DecodeCiphertext :: "Envelope \<Rightarrow> bytes option" where
  "DecodeCiphertext e = base64_decode (env_Ciphertext e)"

section \<open>What was put in is what is read\<close>

lemma ToHeader_HeaderToDTO [simp]: "ToHeader (HeaderToDTO h) = Some h"
  by (simp add: ToHeader_def HeaderToDTO_def codec_simps)

lemma ToInitialMessage_fields [simp]:
  "ToInitialMessage ((InitialMessageToPrekeyFields im)\<lparr>pk_Rekey := r\<rparr>) = Some im"
  by (simp add: ToInitialMessage_def InitialMessageToPrekeyFields_def codec_simps)

lemma envelope_reads [simp]:
  "ToHeader (env_Header (NewEnvelopeRekey im h ct r)) = Some h"
  "DecodeCiphertext (NewEnvelopeRekey im h ct r) = Some ct"
  "env_Prekey (NewEnvelopeRekey None h ct r) = None"
  "env_Prekey (NewEnvelopeRekey (Some i) h ct r) = Some ((InitialMessageToPrekeyFields i)\<lparr>pk_Rekey := r\<rparr>)"
  by (simp_all add: NewEnvelopeRekey_def DecodeCiphertext_def codec_simps)

end
