(* ===== verification/Client_State.thy ===== *)
theory Client_State
  imports Client_Log Profileclaim Group_State Wire Httpsig
begin

text \<open>
  One account of \<open>pkg/client\<close>: what its directory holds, and the operations on it that do no
  protocol work of their own (\<open>client.go\<close>, \<open>layout.go\<close>, \<open>dedup.go\<close>,
  \<open>sessions.go\<close>, \<open>peers.go\<close>, \<open>settings.go\<close>, \<open>profile.go\<close>,
  \<open>recovery.go\<close>, \<open>media.go\<close>). A file is the value its JSON carries, so an operation fails only
  where the code itself refuses: an id that is no safe path element, a missing identity, no more random
  bytes. One mutex serialises the operations, so each is one step. What \<open>crypto/rand\<close> returns for
  message ids is part of the state.
\<close>

section \<open>The directory\<close>

record client_identity =
  ci_AccountID :: string
  ci_Server :: string
  ci_RootPub :: bytes
  ci_RootPriv :: bytes
  ci_DeviceID :: string
  ci_DevicePub :: bytes
  ci_DevicePriv :: bytes
  ci_DHIdentityPub :: bytes
  ci_DHIdentityPriv :: bytes
  ci_SignedPrekeyID :: "32 word"
  ci_SignedPrekeyPub :: bytes
  ci_SignedPrekeyPriv :: bytes
  ci_NextSignedPrekeyID :: "32 word"
  ci_NextOneTimePrekeyID :: "32 word"
  ci_RecoveryBackupDone :: bool
  ci_PushRegisteredAt :: "time option"
  ci_PushMechanism :: string

datatype SessionKind = Sending | Inbound

record prekeyFile =
  pf_KeyID :: "32 word"
  pf_Pub :: bytes
  pf_Priv :: bytes

record PeerSessionHealth =
  ph_DesyncEvidence :: nat
  ph_FirstFailureAt :: "time option"
  ph_LastRekeyAt :: "time option"

record Conversation =
  cv_PeerAccountID :: string
  cv_PeerServer :: string
  cv_LastActivityAt :: "time option"
  cv_HasUnread :: bool
  cv_Blocked :: bool
  cv_PendingApproval :: bool
  cv_PeerGone :: bool
  cv_PeerDeliveredUpTo :: "time option"
  cv_PeerReadUpTo :: "time option"
  cv_SentDeliveredReceiptUpTo :: "time option"
  cv_SentReadReceiptUpTo :: "time option"

record peerDeviceFile =
  pd_Server :: string
  pd_DeviceID :: string
  pd_DevicePub :: bytes

record profileFile =
  pr_Claims :: "Claim list"
  pr_Pending :: "Claim list"
  pr_SentAt :: "time option"

record settingsFile =
  sf_ReceiptsDisabled :: bool
  sf_ProfileName :: string
  sf_ProfileNameSetAt :: "time option"

record groupPeers =
  gp_StateHashes :: "(string \<times> string) list"
  gp_Owed :: "string list"
  gp_Answered :: "(string \<times> string) list"
  gp_LastSyncRequest :: "time option"

record MemberReceipt =
  mr_DeliveredUpTo :: "time option"
  mr_ReadUpTo :: "time option"
  mr_SentDeliveredReceiptUpTo :: "time option"
  mr_SentReadReceiptUpTo :: "time option"

record GroupChat =
  gc_GroupID :: string
  gc_LastActivityAt :: "time option"
  gc_HasUnread :: bool
  gc_MemberReceipts :: "(string \<times> MemberReceipt) list"

text \<open>
  \<open>cs_processed_log\<close> is the file, \<open>cs_processedOrder\<close> and \<open>cs_processedLines\<close> the memory
  beside it. The failure counts are written whenever they change, so file and memory are one field.
\<close>

record client =
  cs_identity :: "client_identity option"
  cs_processed_log :: "string list"
  cs_processedOrder :: "string list"
  cs_processedLines :: nat
  cs_failures :: "(string \<times> nat) list"
  cs_failureOrder :: "string list"
  cs_sessions :: "((string \<times> SessionKind) \<times> Session) list"
  cs_prekeys :: "(32 word \<times> prekeyFile) list"
  cs_health :: "(string \<times> PeerSessionHealth) list"
  cs_convos :: "(string \<times> Conversation) list"
  cs_known :: "string list"
  cs_blocked :: "(string \<times> string) list"
  cs_devices :: "(string \<times> peerDeviceFile) list"
  cs_profiles :: "(string \<times> profileFile) list"
  cs_settings :: settingsFile
  cs_logs :: "(string \<times> logRecord list) list"
  cs_media :: "((string \<times> string) \<times> bytes) list"
  cs_groups :: "(string \<times> State) list"
  cs_held :: "(string \<times> Event option list) list"
  cs_group_peers :: "(string \<times> groupPeers) list"
  cs_group_chats :: "(string \<times> GroupChat) list"
  cs_random :: "bytes list"

datatype client_error =
    ErrUnsafePath string
  | ErrNoIdentity
  | ErrRandom
  | ErrNoSessionMaterial
  | ErrRatchet ratchet_error
  | ErrOwnKey string
  | ErrEnvelope string
  | ErrClaimName claim_error
  | ErrPeerBlocked
  | ErrPeerGone
  | ErrFederationDisabled
  | ErrAttachmentNotResendable
  | ErrText string
  | ErrAPI nat string
  | ErrNotFreizone nat
  | ErrEnqueue string
  | ErrBlobUnavailable client_error
  | ErrNetwork
  | ErrAlreadyRegistered
  | ErrReportsUnavailable
  | ErrJoin client_error client_error

section \<open>Operations as state transformers\<close>

text \<open>An operation returns an error or a value, and the state it leaves behind in either case.\<close>

type_synonym ('s, 'a) oper = "'s \<Rightarrow> (client_error + 'a) \<times> 's"
type_synonym 'a client_op = "(client, 'a) oper"

definition ret :: "'a \<Rightarrow> ('s, 'a) oper" where
  "ret x c = (Inr x, c)"

definition fail :: "client_error \<Rightarrow> ('s, 'a) oper" where
  "fail e c = (Inl e, c)"

definition chain :: "('s, 'a) oper \<Rightarrow> ('a \<Rightarrow> ('s, 'b) oper) \<Rightarrow> ('s, 'b) oper" where
  "chain m f c = (case m c of (Inl e, c') \<Rightarrow> (Inl e, c') | (Inr x, c') \<Rightarrow> f x c')"

definition look :: "('s \<Rightarrow> 'a) \<Rightarrow> ('s, 'a) oper" where
  "look f c = (Inr (f c), c)"

definition change :: "('s \<Rightarrow> 's) \<Rightarrow> ('s, unit) oper" where
  "change f c = (Inr (), f c)"

fun each :: "('a \<Rightarrow> ('s, unit) oper) \<Rightarrow> 'a list \<Rightarrow> ('s, unit) oper" where
  "each f [] = ret ()"
| "each f (x # xs) = chain (f x) (\<lambda>_. each f xs)"

lemmas op_defs = ret_def fail_def chain_def look_def change_def

definition safe_element :: "string \<Rightarrow> bool" where
  "safe_element e \<longleftrightarrow> e \<noteq> [] \<and> e \<noteq> ''.'' \<and> e \<noteq> ''..'' \<and> CHR 0x2F \<notin> set e \<and> CHR 0x5C \<notin> set e"

definition safeElement :: "string \<Rightarrow> unit client_op" where
  "safeElement e = (if safe_element e then ret () else fail (ErrUnsafePath e))"

definition newMessageID :: "string client_op" where
  "newMessageID c = (case cs_random c of [] \<Rightarrow> (Inl ErrRandom, c)
     | b # bs \<Rightarrow> (Inr (hex_encode b), c\<lparr>cs_random := bs\<rparr>))"

section \<open>Identity\<close>

definition SetIdentity :: "client_identity \<Rightarrow> unit client_op" where
  "SetIdentity i = change (\<lambda>c. c\<lparr>cs_identity := Some i\<rparr>)"

definition Identity_client :: "client_identity client_op" where
  "Identity_client c = (case cs_identity c of None \<Rightarrow> (Inl ErrNoIdentity, c) | Some i \<Rightarrow> (Inr i, c))"

section \<open>Handled messages and failed ones (dedup.go)\<close>

definition MaxProcessedMessageIDs :: nat where "MaxProcessedMessageIDs = 500"
definition MaxDecryptAttempts :: nat where "MaxDecryptAttempts = 3"
definition processedCompactAt :: nat where "processedCompactAt = 2 * MaxProcessedMessageIDs"

definition evictProcessed :: "client \<Rightarrow> client" where
  "evictProcessed c = (if length (cs_processedOrder c) \<le> MaxProcessedMessageIDs then c
     else c\<lparr>cs_processedOrder := drop (length (cs_processedOrder c) - MaxProcessedMessageIDs) (cs_processedOrder c)\<rparr>)"

definition compactProcessed :: "client \<Rightarrow> client" where
  "compactProcessed c = c\<lparr>cs_processed_log := cs_processedOrder c, cs_processedLines := length (cs_processedOrder c)\<rparr>"

definition load_line :: "string \<Rightarrow> client \<Rightarrow> client" where
  "load_line i c = (if i = [] then c
     else c\<lparr>cs_processedLines := Suc (cs_processedLines c),
            cs_processedOrder := (if i \<in> set (cs_processedOrder c) then cs_processedOrder c else cs_processedOrder c @ [i])\<rparr>)"

definition loadProcessed :: "client \<Rightarrow> client" where
  "loadProcessed c =
     (let c1 = evictProcessed (fold load_line (cs_processed_log c) (c\<lparr>cs_processedOrder := [], cs_processedLines := 0\<rparr>))
      in if cs_processedLines c1 > processedCompactAt then compactProcessed c1 else c1)"

definition WasMessageProcessed :: "string \<Rightarrow> bool client_op" where
  "WasMessageProcessed i = look (\<lambda>c. i \<in> set (cs_processedOrder c))"

definition saveFailures :: "client \<Rightarrow> client" where
  "saveFailures c = c\<lparr>cs_failureOrder := filter (\<lambda>i. assoc_get (cs_failures c) i \<noteq> None) (cs_failureOrder c)\<rparr>"

definition record_processed :: "string \<Rightarrow> client \<Rightarrow> client" where
  "record_processed i c =
     (let c1 = evictProcessed (c\<lparr>cs_processed_log := cs_processed_log c @ [i], cs_processedOrder := cs_processedOrder c @ [i],
                                cs_processedLines := Suc (cs_processedLines c)\<rparr>)
      in if cs_processedLines c1 > processedCompactAt then compactProcessed c1 else c1)"

definition MarkMessageProcessed :: "string \<Rightarrow> unit client_op" where
  "MarkMessageProcessed i = change (\<lambda>c.
     let c1 = (if i \<in> set (cs_processedOrder c) then c else record_processed i c)
     in if assoc_get (cs_failures c1) i = None then c1
        else saveFailures (c1\<lparr>cs_failures := assoc_del (cs_failures c1) i\<rparr>))"

definition CountProcessedMessages :: "nat client_op" where
  "CountProcessedMessages = look (\<lambda>c. length (cs_processedOrder c))"

definition bound_failures :: "client \<Rightarrow> client" where
  "bound_failures c = (let n = length (cs_failureOrder c) - MaxProcessedMessageIDs in
     c\<lparr>cs_failures := fold (\<lambda>i m. assoc_del m i) (take n (cs_failureOrder c)) (cs_failures c),
       cs_failureOrder := drop n (cs_failureOrder c)\<rparr>)"

definition RecordDecryptFailure :: "string \<Rightarrow> bool client_op" where
  "RecordDecryptFailure i c =
     (let attempts = (case assoc_get (cs_failures c) i of None \<Rightarrow> 0 | Some n \<Rightarrow> n) + 1 in
      if attempts \<ge> MaxDecryptAttempts
      then (Inr True, saveFailures (c\<lparr>cs_failures := assoc_del (cs_failures c) i\<rparr>))
      else let c1 = (if assoc_get (cs_failures c) i = None then c\<lparr>cs_failureOrder := cs_failureOrder c @ [i]\<rparr> else c)
           in (Inr False, saveFailures (bound_failures (c1\<lparr>cs_failures := assoc_put (cs_failures c1) i attempts\<rparr>))))"

section \<open>Sessions and one-time prekeys (sessions.go)\<close>

definition client_Session :: "string \<Rightarrow> SessionKind \<Rightarrow> Session option client_op" where
  "client_Session peer kind = chain (safeElement peer) (\<lambda>_. look (\<lambda>c. assoc_get (cs_sessions c) (peer, kind)))"

definition SetSession :: "string \<Rightarrow> SessionKind \<Rightarrow> Session \<Rightarrow> unit client_op" where
  "SetSession peer kind s = chain (safeElement peer)
     (\<lambda>_. change (\<lambda>c. c\<lparr>cs_sessions := assoc_put (cs_sessions c) (peer, kind) s\<rparr>))"

definition DeleteSession :: "string \<Rightarrow> SessionKind \<Rightarrow> unit client_op" where
  "DeleteSession peer kind = chain (safeElement peer)
     (\<lambda>_. change (\<lambda>c. c\<lparr>cs_sessions := assoc_del (cs_sessions c) (peer, kind)\<rparr>))"

definition OneTimePrekey_client :: "32 word \<Rightarrow> prekeyFile option client_op" where
  "OneTimePrekey_client i = look (\<lambda>c. assoc_get (cs_prekeys c) i)"

definition PutOneTimePrekeys :: "prekeyFile list \<Rightarrow> unit client_op" where
  "PutOneTimePrekeys keys = each (\<lambda>k. change (\<lambda>c. c\<lparr>cs_prekeys := assoc_put (cs_prekeys c) (pf_KeyID k) k\<rparr>)) keys"

definition ConsumeOneTimePrekey_client :: "32 word \<Rightarrow> unit client_op" where
  "ConsumeOneTimePrekey_client i = change (\<lambda>c. c\<lparr>cs_prekeys := assoc_del (cs_prekeys c) i\<rparr>)"

definition client_CountOneTimePrekeys :: "nat client_op" where
  "client_CountOneTimePrekeys = look (\<lambda>c. length (cs_prekeys c))"

section \<open>Session health and the re-key policy (peers.go, recovery.go)\<close>

definition Conversation_client :: "string \<Rightarrow> Conversation option client_op" where
  "Conversation_client peer = chain (safeElement peer) (\<lambda>_. look (\<lambda>c. assoc_get (cs_convos c) peer))"

definition get_health :: "string \<Rightarrow> PeerSessionHealth option client_op" where
  "get_health peer = chain (safeElement peer) (\<lambda>_. look (\<lambda>c. assoc_get (cs_health c) peer))"

definition writeHealth :: "string \<Rightarrow> PeerSessionHealth \<Rightarrow> unit client_op" where
  "writeHealth peer h = chain (safeElement peer) (\<lambda>_. change (\<lambda>c. c\<lparr>cs_health := assoc_put (cs_health c) peer h\<rparr>))"

definition blank_health :: PeerSessionHealth where
  "blank_health = \<lparr>ph_DesyncEvidence = 0, ph_FirstFailureAt = None, ph_LastRekeyAt = None\<rparr>"

definition RecordDesyncEvidence :: "string \<Rightarrow> time \<Rightarrow> bool client_op" where
  "RecordDesyncEvidence peer at =
     chain (Conversation_client peer) (\<lambda>convo. case convo of None \<Rightarrow> ret False
     | Some _ \<Rightarrow> chain (get_health peer) (\<lambda>ho.
         let h = (case ho of None \<Rightarrow> blank_health | Some h \<Rightarrow> h);
             h1 = h\<lparr>ph_DesyncEvidence := Suc (ph_DesyncEvidence h),
                    ph_FirstFailureAt := (case ph_FirstFailureAt h of None \<Rightarrow> Some at | Some t \<Rightarrow> Some t)\<rparr>
         in chain (writeHealth peer h1) (\<lambda>_. ret True)))"

definition ClearDesyncEvidence :: "string \<Rightarrow> unit client_op" where
  "ClearDesyncEvidence peer = chain (safeElement peer) (\<lambda>_. change (\<lambda>c. c\<lparr>cs_health := assoc_del (cs_health c) peer\<rparr>))"

definition RecordAutoRekey :: "string \<Rightarrow> time \<Rightarrow> unit client_op" where
  "RecordAutoRekey peer at = writeHealth peer (blank_health\<lparr>ph_LastRekeyAt := Some at\<rparr>)"

definition MinDesyncEvidence :: nat where "MinDesyncEvidence = 1"
definition AutoRekeyResponderGrace :: duration where "AutoRekeyResponderGrace = 5 * minute"
definition MinAutoRekeyInterval :: duration where "MinAutoRekeyInterval = 15 * minute"

definition shouldAutoRekey :: "PeerSessionHealth option \<Rightarrow> string \<Rightarrow> string \<Rightarrow> time \<Rightarrow> bool" where
  "shouldAutoRekey ho myAccountID peerAccountID now =
     (case ho of None \<Rightarrow> False
      | Some h \<Rightarrow>
          if ph_DesyncEvidence h < MinDesyncEvidence then False
          else if (case ph_LastRekeyAt h of None \<Rightarrow> False | Some t \<Rightarrow> time_sub now t < MinAutoRekeyInterval) then False
          else if myAccountID > peerAccountID
            then (case ph_FirstFailureAt h of None \<Rightarrow> False
                  | Some t \<Rightarrow> \<not> time_sub now t < AutoRekeyResponderGrace)
          else True)"

definition ShouldAutoRekey :: "string \<Rightarrow> time \<Rightarrow> bool client_op" where
  "ShouldAutoRekey peer now =
     chain (get_health peer) (\<lambda>health. case health of None \<Rightarrow> ret False
     | Some h \<Rightarrow> chain Identity_client (\<lambda>i. ret (shouldAutoRekey (Some h) (ci_AccountID i) peer now)))"

section \<open>Conversations, known and blocked peers (peers.go)\<close>

definition new_conversation :: "string \<Rightarrow> Conversation" where
  "new_conversation peer = \<lparr>cv_PeerAccountID = peer, cv_PeerServer = [], cv_LastActivityAt = None, cv_HasUnread = False,
     cv_Blocked = False, cv_PendingApproval = False, cv_PeerGone = False, cv_PeerDeliveredUpTo = None,
     cv_PeerReadUpTo = None, cv_SentDeliveredReceiptUpTo = None, cv_SentReadReceiptUpTo = None\<rparr>"

definition PutConversation :: "Conversation \<Rightarrow> unit client_op" where
  "PutConversation v = chain (safeElement (cv_PeerAccountID v))
     (\<lambda>_. change (\<lambda>c. c\<lparr>cs_convos := assoc_put (cs_convos c) (cv_PeerAccountID v) v\<rparr>))"

definition DeleteConversation :: "string \<Rightarrow> unit client_op" where
  "DeleteConversation peer = chain (safeElement peer) (\<lambda>_. change (\<lambda>c. c\<lparr>cs_convos := assoc_del (cs_convos c) peer\<rparr>))"

text \<open>Most recent first, those never active last; ids break ties. The directory is listed by name.\<close>

definition activity_key :: "Conversation \<Rightarrow> nat \<times> int \<times> string" where
  "activity_key v = (case cv_LastActivityAt v of None \<Rightarrow> (1, 0, cv_PeerAccountID v) | Some t \<Rightarrow> (0, - t, cv_PeerAccountID v))"

definition Conversations :: "Conversation list client_op" where
  "Conversations = look (\<lambda>c. sort_key activity_key (map snd (sort_key fst (cs_convos c))))"

definition MarkPeerKnown :: "string \<Rightarrow> unit client_op" where
  "MarkPeerKnown peer = change (\<lambda>c. if peer \<in> set (cs_known c) then c
     else c\<lparr>cs_known := sort (remdups (peer # cs_known c))\<rparr>)"

definition IsPeerKnown :: "string \<Rightarrow> bool client_op" where
  "IsPeerKnown peer = look (\<lambda>c. peer \<in> set (cs_known c))"

definition BlockPeer :: "string \<Rightarrow> string \<Rightarrow> unit client_op" where
  "BlockPeer peer server = change (\<lambda>c. c\<lparr>cs_blocked := sort_key fst (assoc_put (cs_blocked c) peer server)\<rparr>)"

definition UnblockPeer :: "string \<Rightarrow> unit client_op" where
  "UnblockPeer peer = change (\<lambda>c. c\<lparr>cs_blocked := assoc_del (cs_blocked c) peer\<rparr>)"

definition IsPeerBlocked :: "string \<Rightarrow> bool client_op" where
  "IsPeerBlocked peer = look (\<lambda>c. assoc_get (cs_blocked c) peer \<noteq> None)"

section \<open>Transcripts and media on disk (messages.go, media.go)\<close>

definition log_of :: "client \<Rightarrow> string \<Rightarrow> logRecord list" where
  "log_of c chat = (case assoc_get (cs_logs c) chat of None \<Rightarrow> [] | Some rs \<Rightarrow> rs)"

definition update_log :: "string \<Rightarrow> (logRecord list \<Rightarrow> logRecord list) \<Rightarrow> unit client_op" where
  "update_log chat f = chain (safeElement chat)
     (\<lambda>_. change (\<lambda>c. c\<lparr>cs_logs := assoc_put (cs_logs c) chat (f (log_of c chat))\<rparr>))"

definition client_AppendMessage :: "string \<Rightarrow> chat_message \<Rightarrow> unit client_op" where
  "client_AppendMessage chat m =
     (if cm_ID m = [] then fail (ErrText ''refusing to append a message with no id'')
      else update_log chat (\<lambda>rs. case AppendMessage rs m of None \<Rightarrow> rs | Some rs' \<Rightarrow> rs'))"

definition client_SetMessageSendState :: "string \<Rightarrow> string \<Rightarrow> string \<Rightarrow> unit client_op" where
  "client_SetMessageSendState chat i st = update_log chat (\<lambda>rs. SetMessageSendState rs i st)"

definition client_SetMessageAttachments :: "string \<Rightarrow> string \<Rightarrow> Attachment list \<Rightarrow> unit client_op" where
  "client_SetMessageAttachments chat i atts = update_log chat (\<lambda>rs. SetMessageAttachments rs i atts)"

definition client_Messages :: "string \<Rightarrow> chat_message list client_op" where
  "client_Messages chat = chain (safeElement chat) (\<lambda>_. look (\<lambda>c. Messages (log_of c chat)))"

definition client_MessageExists :: "string \<Rightarrow> string \<Rightarrow> bool client_op" where
  "client_MessageExists chat i = chain (safeElement chat) (\<lambda>_. look (\<lambda>c. MessageExists (log_of c chat) i))"

text \<open>How many records the tail window holds depends on their sizes: an argument.\<close>

definition client_LastMessage :: "nat \<Rightarrow> string \<Rightarrow> chat_message option client_op" where
  "client_LastMessage window chat = chain (safeElement chat) (\<lambda>_. look (\<lambda>c. LastMessage window (log_of c chat)))"

definition mediaPath :: "string \<Rightarrow> string \<Rightarrow> string \<Rightarrow> (string \<times> string) client_op" where
  "mediaPath chat i suffix = chain (safeElement chat) (\<lambda>_. chain (safeElement i) (\<lambda>_. ret (chat, i @ suffix)))"

definition thumb_suffix :: string where "thumb_suffix = ''.thumb''"

definition WriteAttachmentFile :: "string \<Rightarrow> string \<Rightarrow> bytes \<Rightarrow> unit client_op" where
  "WriteAttachmentFile chat i data = chain (mediaPath chat i [])
     (\<lambda>p. change (\<lambda>c. c\<lparr>cs_media := assoc_put (cs_media c) p data\<rparr>))"

definition WriteAttachmentThumb :: "string \<Rightarrow> string \<Rightarrow> bytes \<Rightarrow> unit client_op" where
  "WriteAttachmentThumb chat i thumb = (if thumb = [] then ret ()
     else chain (mediaPath chat i thumb_suffix) (\<lambda>p. change (\<lambda>c. c\<lparr>cs_media := assoc_put (cs_media c) p thumb\<rparr>)))"

definition readMedia :: "string \<Rightarrow> string \<Rightarrow> string \<Rightarrow> bytes option client_op" where
  "readMedia chat i suffix = chain (mediaPath chat i suffix) (\<lambda>p. look (\<lambda>c. assoc_get (cs_media c) p))"

definition deleteMessageMedia :: "string \<Rightarrow> string \<Rightarrow> unit client_op" where
  "deleteMessageMedia chat i = each (\<lambda>suffix. chain (mediaPath chat i suffix)
     (\<lambda>p. change (\<lambda>c. c\<lparr>cs_media := assoc_del (cs_media c) p\<rparr>))) [[], thumb_suffix]"

definition DeleteChatMedia :: "string \<Rightarrow> unit client_op" where
  "DeleteChatMedia chat = chain (safeElement chat)
     (\<lambda>_. change (\<lambda>c. c\<lparr>cs_media := filter (\<lambda>e. fst (fst e) \<noteq> chat) (cs_media c)\<rparr>))"

definition client_DeleteMessage :: "string \<Rightarrow> string \<Rightarrow> unit client_op" where
  "client_DeleteMessage chat i =
     chain (update_log chat (\<lambda>rs. rs @ [RecDelete i])) (\<lambda>_.
     chain (deleteMessageMedia chat i) (\<lambda>_. update_log chat maybeCompact))"

definition ClearTranscript :: "string \<Rightarrow> unit client_op" where
  "ClearTranscript chat = chain (safeElement chat) (\<lambda>_. change (\<lambda>c. c\<lparr>cs_logs := assoc_del (cs_logs c) chat\<rparr>))"

definition system_line :: "string \<Rightarrow> string \<Rightarrow> time \<Rightarrow> chat_message" where
  "system_line i text at = \<lparr>cm_ID = i, cm_Text = text, cm_Mine = False, cm_Timestamp = at, cm_SenderSentAt = None,
     cm_SenderAccountID = [], cm_ReplyToID = [], cm_ReplyPreviewText = [], cm_ReplyPreviewMine = None,
     cm_ReplyPreviewAuthorID = [], cm_Kind = MessageSystemInfo, cm_SendState = SendSent, cm_Attachments = [], cm_Deliveries = []\<rparr>"

definition append_system_line :: "string \<Rightarrow> string \<Rightarrow> time \<Rightarrow> unit client_op" where
  "append_system_line chat text at = chain newMessageID (\<lambda>i. client_AppendMessage chat (system_line i text at))"

definition PeerAccountGoneMarker :: string where
  "PeerAccountGoneMarker = ''This account no longer exists on their server, so nothing sent here will ever arrive''"

definition append_system_line_once :: "string \<Rightarrow> string \<Rightarrow> time \<Rightarrow> unit client_op" where
  "append_system_line_once chat text at = chain (client_Messages chat) (\<lambda>msgs.
     if list_ex (\<lambda>m. cm_Kind m = MessageSystemInfo \<and> cm_Text m = text) msgs then ret ()
     else append_system_line chat text at)"

definition markPeerGone :: "string \<Rightarrow> time \<Rightarrow> unit client_op" where
  "markPeerGone peer now = chain (Conversation_client peer) (\<lambda>convo. case convo of None \<Rightarrow> ret ()
     | Some v \<Rightarrow> if cv_PeerGone v then ret ()
         else chain (PutConversation (v\<lparr>cv_PeerGone := True\<rparr>)) (\<lambda>_. append_system_line_once peer PeerAccountGoneMarker now))"

section \<open>Settings (settings.go)\<close>

definition ReceiptsEnabled :: "bool client_op" where
  "ReceiptsEnabled = look (\<lambda>c. \<not> sf_ReceiptsDisabled (cs_settings c))"

definition SetReceiptsEnabled :: "bool \<Rightarrow> unit client_op" where
  "SetReceiptsEnabled enabled = change (\<lambda>c. c\<lparr>cs_settings := (cs_settings c)\<lparr>sf_ReceiptsDisabled := \<not> enabled\<rparr>\<rparr>)"

definition SetProfileName :: "string \<Rightarrow> time \<Rightarrow> unit client_op" where
  "SetProfileName name now = (let n = NormalizeName name in
     case ValidateName n of Inl e \<Rightarrow> fail (ErrClaimName e)
     | Inr _ \<Rightarrow> change (\<lambda>c. let s = cs_settings c in
         if sf_ProfileName s = n \<and> sf_ProfileNameSetAt s \<noteq> None then c
         else let t = truncate_second now;
                  t' = (case sf_ProfileNameSetAt s of None \<Rightarrow> t | Some previous \<Rightarrow> if t > previous then t else previous + second)
              in c\<lparr>cs_settings := s\<lparr>sf_ProfileName := n, sf_ProfileNameSetAt := Some t'\<rparr>\<rparr>))"

section \<open>Profile claims (profile.go)\<close>

definition maxProfileClaims :: nat where "maxProfileClaims = 10"

definition capClaims :: "Claim list \<Rightarrow> Claim list" where
  "capClaims claims = (if length claims > maxProfileClaims then take maxProfileClaims claims else claims)"

definition blank_profile :: profileFile where
  "blank_profile = \<lparr>pr_Claims = [], pr_Pending = [], pr_SentAt = None\<rparr>"

definition profile_of :: "client \<Rightarrow> string \<Rightarrow> profileFile" where
  "profile_of c peer = (case assoc_get (cs_profiles c) peer of None \<Rightarrow> blank_profile | Some f \<Rightarrow> f)"

definition updateProfile :: "string \<Rightarrow> (profileFile \<Rightarrow> profileFile) \<Rightarrow> unit client_op" where
  "updateProfile peer mutate = chain (safeElement peer)
     (\<lambda>_. change (\<lambda>c. c\<lparr>cs_profiles := assoc_put (cs_profiles c) peer (mutate (profile_of c peer))\<rparr>))"

definition current_claim :: "profileFile \<Rightarrow> Claim option" where
  "current_claim f = (case pr_Claims f of [] \<Rightarrow> None | k # _ \<Rightarrow> Some k)"

definition profile_Name :: "profileFile \<Rightarrow> string" where
  "profile_Name f = (case current_claim f of None \<Rightarrow> [] | Some k \<Rightarrow> cl_Name k)"

definition peerDevice :: "string \<Rightarrow> peerDeviceFile option client_op" where
  "peerDevice peer = chain (safeElement peer) (\<lambda>_. look (\<lambda>c. assoc_get (cs_devices c) peer))"

definition holdProfileClaim :: "string \<Rightarrow> Claim \<Rightarrow> unit client_op" where
  "holdProfileClaim peer claim = updateProfile peer (\<lambda>f. f\<lparr>pr_Pending := capClaims (claim # pr_Pending f)\<rparr>)"

definition add_claim :: "Claim \<Rightarrow> profileFile \<Rightarrow> profileFile" where
  "add_claim claim f = f\<lparr>pr_Claims := capClaims (claim # pr_Claims f)\<rparr>"

definition superseded :: "Claim \<Rightarrow> profileFile \<Rightarrow> bool" where
  "superseded claim f = (case current_claim f of None \<Rightarrow> False | Some k \<Rightarrow> \<not> SupersedesTime claim (cl_IssuedAt k))"

definition applyProfileClaim :: "platform \<Rightarrow> string \<Rightarrow> Claim option \<Rightarrow> bool client_op" where
  "applyProfileClaim P peer co = (case co of None \<Rightarrow> ret False
     | Some claim \<Rightarrow> chain (peerDevice peer) (\<lambda>cached.
         case cached of None \<Rightarrow> chain (holdProfileClaim peer claim) (\<lambda>_. ret False)
         | Some d \<Rightarrow>
             if pd_DeviceID d \<noteq> cl_DeviceID claim \<or> pd_DevicePub d = []
             then chain (holdProfileClaim peer claim) (\<lambda>_. ret False)
             else case claim_Verify P claim peer (pd_DevicePub d) of Inl _ \<Rightarrow> ret False
             | Inr _ \<Rightarrow> chain (look (\<lambda>c. profile_of c peer)) (\<lambda>f.
                 if superseded claim f then ret False
                 else chain (updateProfile peer (add_claim claim)) (\<lambda>_. ret (cl_Name claim \<noteq> profile_Name f)))))"

definition promote_claim :: "platform \<Rightarrow> string \<Rightarrow> string \<Rightarrow> bytes \<Rightarrow> Claim \<Rightarrow> profileFile \<Rightarrow> profileFile" where
  "promote_claim P peer deviceID devicePub claim f =
     (if cl_DeviceID claim \<noteq> deviceID \<or> claim_Verify P claim peer devicePub \<noteq> Inr () then f
      else if superseded claim f then f
      else add_claim claim f)"

definition verifyPendingClaims :: "platform \<Rightarrow> string \<Rightarrow> string \<Rightarrow> bytes \<Rightarrow> unit client_op" where
  "verifyPendingClaims P peer deviceID devicePub = chain (safeElement peer) (\<lambda>_. chain (look (\<lambda>c. profile_of c peer)) (\<lambda>f.
     if pr_Pending f = [] then ret ()
     else updateProfile peer (\<lambda>f. (fold (promote_claim P peer deviceID devicePub) (rev (pr_Pending f)) f)\<lparr>pr_Pending := []\<rparr>)))"

definition ownProfileClaim :: "platform \<Rightarrow> Claim option client_op" where
  "ownProfileClaim P = chain (look cs_settings) (\<lambda>s. case sf_ProfileNameSetAt s of None \<Rightarrow> ret None
     | Some setAt \<Rightarrow> chain Identity_client (\<lambda>i.
         case claim_Sign P (ci_AccountID i) (ci_DeviceID i) (sf_ProfileName s) setAt (ci_DevicePriv i) of
           Inl e \<Rightarrow> fail (ErrClaimName e) | Inr k \<Rightarrow> ret (Some k)))"

definition profileClaimFor :: "platform \<Rightarrow> string \<Rightarrow> Claim option client_op" where
  "profileClaimFor P peer = chain (ownProfileClaim P) (\<lambda>co. case co of None \<Rightarrow> ret None
     | Some claim \<Rightarrow> chain (safeElement peer) (\<lambda>_. chain (look (\<lambda>c. profile_of c peer)) (\<lambda>f.
         case pr_SentAt f of None \<Rightarrow> ret (Some claim)
         | Some t \<Rightarrow> if \<not> SupersedesTime claim t then ret None else ret (Some claim))))"

definition profileClaimSent :: "string \<Rightarrow> Claim option \<Rightarrow> unit client_op" where
  "profileClaimSent peer co = (case co of None \<Rightarrow> ret ()
     | Some claim \<Rightarrow> updateProfile peer (\<lambda>f. f\<lparr>pr_SentAt := Some (cl_IssuedAt claim)\<rparr>))"

definition PeerProfileNames :: "(string \<times> string) list client_op" where
  "PeerProfileNames = look (\<lambda>c. filter (\<lambda>e. snd e \<noteq> []) (map (\<lambda>e. (fst e, profile_Name (snd e))) (cs_profiles c)))"

definition writePeerDevice :: "string \<Rightarrow> peerDeviceFile \<Rightarrow> unit client_op" where
  "writePeerDevice peer d = chain (safeElement peer) (\<lambda>_. change (\<lambda>c. c\<lparr>cs_devices := assoc_put (cs_devices c) peer d\<rparr>))"

definition putPeerDevice :: "platform \<Rightarrow> string \<Rightarrow> peerDeviceFile \<Rightarrow> unit client_op" where
  "putPeerDevice P peer d = chain (writePeerDevice peer d)
     (\<lambda>_. verifyPendingClaims P peer (pd_DeviceID d) (pd_DevicePub d))"

definition ForgetPeerDevice :: "string \<Rightarrow> unit client_op" where
  "ForgetPeerDevice peer = chain (safeElement peer) (\<lambda>_.
     chain (change (\<lambda>c. c\<lparr>cs_devices := assoc_del (cs_devices c) peer\<rparr>)) (\<lambda>_.
     chain (DeleteSession peer Sending) (\<lambda>_. DeleteSession peer Inbound)))"

section \<open>Opening an account (client.go)\<close>

definition newClient :: "client \<Rightarrow> client" where
  "newClient c = (let c1 = loadProcessed c in c1\<lparr>cs_logs := map (\<lambda>e. (fst e, failInFlightSends (snd e))) (cs_logs c1)\<rparr>)"

end
