(* ===== verification/Client_Content.thy ===== *)
theory Client_Content
  imports Client_State Clock_Parse
begin

text \<open>
  What is inside a ciphertext (\<open>pkg/client/content.go\<close>, and the encoders of \<open>send.go\<close>). The JSON
  text is a parameter: \<open>dec\<close> is \<open>json.Unmarshal\<close> into \<open>contentWire\<close>, \<open>enc\<close> the
  \<open>json.Marshal\<close> of the bodies the encoders build. A raw attachment entry is the value its own
  unmarshalling gives, if it gives one.
\<close>

section \<open>Content and its wire form\<close>

datatype ContentKind = ContentText | ContentReceipt | ContentRekey | ContentGroupText | ContentGroupControl

datatype ReceiptStatus = ReceiptDelivered | ReceiptRead | ReceiptOther string

datatype RekeyReason = RekeyDecryptFailures | RekeyUserRequested | RekeyUnspecified

datatype GroupControlKind = GroupSnapshot | GroupEvents | GroupSyncRequest

definition versionText :: int where "versionText = 1"
definition versionReceipt :: int where "versionReceipt = 2"
definition versionRekey :: int where "versionRekey = 3"
definition versionGroupText :: int where "versionGroupText = 4"
definition versionGroupControl :: int where "versionGroupControl = 5"

lemmas version_defs = versionText_def versionReceipt_def versionRekey_def versionGroupText_def versionGroupControl_def

definition unsupportedContentText :: string where
  "unsupportedContentText = ''This message uses a newer app feature and can'' @ [CHR 0x27] @ ''t be shown here yet.''"

record replyPreviewWire =
  rp_Text :: string
  rp_Mine :: "bool option"
  rp_Author :: "string option"

record contentWire =
  w_V :: int
  w_Kind :: string
  w_ID :: string
  w_Text :: string
  w_Attachments :: "Attachment option list"
  w_ReplyTo :: string
  w_ReplyPreview :: "replyPreviewWire option"
  w_SenderServer :: string
  w_SentAt :: string
  w_Status :: string
  w_UpToSentAt :: string
  w_Reason :: string
  w_GroupID :: string
  w_StateHash :: string
  w_Events :: "Event option list"
  w_Profile :: "Claim option"

record Content =
  ct_Kind :: ContentKind
  ct_ID :: string
  ct_Text :: string
  ct_SentAt :: "time option"
  ct_SenderServer :: string
  ct_Attachments :: "Attachment list"
  ct_ReplyToID :: string
  ct_ReplyPreviewText :: string
  ct_ReplyPreviewMine :: "bool option"
  ct_ReplyPreviewAuthorID :: string
  ct_ReceiptStatus :: ReceiptStatus
  ct_ReceiptUpTo :: time
  ct_ReceiptGroupID :: string
  ct_RekeyReason :: RekeyReason
  ct_GroupID :: string
  ct_StateHash :: string
  ct_ControlKind :: GroupControlKind
  ct_Events :: "Event option list"
  ct_Profile :: "Claim option"
  ct_Raw :: bytes

section \<open>Decoding\<close>

definition zero_content :: "bytes \<Rightarrow> Content" where
  "zero_content pt = \<lparr>ct_Kind = ContentText, ct_ID = [], ct_Text = [], ct_SentAt = None, ct_SenderServer = [],
     ct_Attachments = [], ct_ReplyToID = [], ct_ReplyPreviewText = [], ct_ReplyPreviewMine = None,
     ct_ReplyPreviewAuthorID = [], ct_ReceiptStatus = ReceiptOther [], ct_ReceiptUpTo = zero_time, ct_ReceiptGroupID = [],
     ct_RekeyReason = RekeyUnspecified, ct_GroupID = [], ct_StateHash = [], ct_ControlKind = GroupEvents,
     ct_Events = [], ct_Profile = None, ct_Raw = pt\<rparr>"

definition legacy_content :: "bytes \<Rightarrow> Content" where
  "legacy_content plaintext = (zero_content plaintext)\<lparr>ct_Text := plaintext\<rparr>"

definition decodeAttachments :: "Attachment option list \<Rightarrow> Attachment list" where
  "decodeAttachments es = filter (\<lambda>a. at_BlobID a \<noteq> [] \<and> at_Key a \<noteq> []) (List.map_filter id es)"

definition status_of :: "string \<Rightarrow> ReceiptStatus" where
  "status_of s = (if s = ''delivered'' then ReceiptDelivered else if s = ''read'' then ReceiptRead else ReceiptOther s)"

definition reason_of :: "string \<Rightarrow> RekeyReason" where
  "reason_of s = (if s = ''decrypt_failures'' then RekeyDecryptFailures
     else if s = ''user_requested'' then RekeyUserRequested else RekeyUnspecified)"

definition control_kind_of :: "string \<Rightarrow> GroupControlKind" where
  "control_kind_of s = (if s = ''snapshot'' then GroupSnapshot else if s = ''sync_request'' then GroupSyncRequest else GroupEvents)"

definition parse_sent_at :: "string \<Rightarrow> time option" where
  "parse_sent_at s = (if s = [] then None else parse_rfc3339 s)"

text \<open>The fields the two text versions share.\<close>

definition text_content :: "contentWire \<Rightarrow> Content \<Rightarrow> Content" where
  "text_content w c = c\<lparr>ct_Text := w_Text w, ct_Profile := w_Profile w, ct_SenderServer := w_SenderServer w,
     ct_ReplyToID := w_ReplyTo w,
     ct_ReplyPreviewText := (case w_ReplyPreview w of None \<Rightarrow> [] | Some p \<Rightarrow> rp_Text p),
     ct_ReplyPreviewMine := (case w_ReplyPreview w of None \<Rightarrow> None | Some p \<Rightarrow> rp_Mine p),
     ct_ReplyPreviewAuthorID := (case w_ReplyPreview w of None \<Rightarrow> []
        | Some p \<Rightarrow> (case rp_Author p of None \<Rightarrow> [] | Some a \<Rightarrow> a)),
     ct_SentAt := parse_sent_at (w_SentAt w), ct_Attachments := decodeAttachments (w_Attachments w)\<rparr>"

definition DecodeContent :: "(bytes \<Rightarrow> contentWire option) \<Rightarrow> bytes \<Rightarrow> Content" where
  "DecodeContent dec plaintext =
     (case dec plaintext of None \<Rightarrow> legacy_content plaintext
      | Some w \<Rightarrow>
          if w_V w = 0 then legacy_content plaintext
          else let c = (zero_content plaintext)\<lparr>ct_ID := w_ID w\<rparr> in
          if w_V w = versionReceipt \<and> w_Kind w = ''receipt'' then
            (case parse_rfc3339 (w_UpToSentAt w) of None \<Rightarrow> legacy_content plaintext
             | Some upTo \<Rightarrow>
                 if w_Status w \<noteq> ''delivered'' \<and> w_Status w \<noteq> ''read'' then legacy_content plaintext
                 else c\<lparr>ct_Kind := ContentReceipt, ct_ReceiptStatus := status_of (w_Status w), ct_ReceiptUpTo := upTo,
                        ct_ReceiptGroupID := w_GroupID w, ct_Profile := w_Profile w\<rparr>)
          else if w_V w = versionRekey \<and> w_Kind w = ''rekey'' then
            c\<lparr>ct_Kind := ContentRekey, ct_RekeyReason := reason_of (w_Reason w)\<rparr>
          else if w_V w = versionGroupControl \<and> w_GroupID w \<noteq> [] then
            c\<lparr>ct_Kind := ContentGroupControl, ct_GroupID := w_GroupID w, ct_StateHash := w_StateHash w,
              ct_Events := w_Events w, ct_ControlKind := control_kind_of (w_Kind w)\<rparr>
          else if w_V w = versionGroupText \<and> w_GroupID w \<noteq> [] then
            text_content w (c\<lparr>ct_Kind := ContentGroupText, ct_GroupID := w_GroupID w, ct_StateHash := w_StateHash w\<rparr>)
          else if w_V w = versionText then text_content w (c\<lparr>ct_Kind := ContentText\<rparr>)
          else if w_V w > versionGroupControl then c\<lparr>ct_Text := unsupportedContentText\<rparr>
          else legacy_content plaintext)"

section \<open>Encoding\<close>

text \<open>\<open>receiptTimeLayout\<close>: three digits of the second, then \<open>Z\<close>.\<close>

definition receiptPrecision :: duration where "receiptPrecision = 1000000"

definition receiptClock :: "time \<Rightarrow> time" where
  "receiptClock t = t - t mod receiptPrecision"

definition receipt_time :: "time \<Rightarrow> string" where
  "receipt_time t = (let ms = t mod second div receiptPrecision in
     butlast (rfc3339 t) @ CHR ''.'' # digit (ms div 100) # two_digits (ms mod 100) @ ''Z'')"

definition blank_wire :: contentWire where
  "blank_wire = \<lparr>w_V = 0, w_Kind = [], w_ID = [], w_Text = [], w_Attachments = [], w_ReplyTo = [], w_ReplyPreview = None,
     w_SenderServer = [], w_SentAt = [], w_Status = [], w_UpToSentAt = [], w_Reason = [], w_GroupID = [], w_StateHash = [],
     w_Events = [], w_Profile = None\<rparr>"

definition reply_fields :: "chat_message \<Rightarrow> contentWire \<Rightarrow> contentWire" where
  "reply_fields line w = (if cm_ReplyToID line = [] then w
     else w\<lparr>w_ReplyTo := cm_ReplyToID line,
            w_ReplyPreview := Some \<lparr>rp_Text = cm_ReplyPreviewText line, rp_Mine = cm_ReplyPreviewMine line,
              rp_Author = (if cm_ReplyPreviewAuthorID line = [] then None else Some (cm_ReplyPreviewAuthorID line))\<rparr>\<rparr>)"

definition text_body :: "chat_message \<Rightarrow> string \<Rightarrow> time \<Rightarrow> Claim option \<Rightarrow> contentWire" where
  "text_body line ownServer sentAt claim =
     reply_fields line (blank_wire\<lparr>w_V := versionText, w_ID := cm_ID line, w_Text := cm_Text line,
       w_SentAt := receipt_time sentAt, w_Profile := claim, w_SenderServer := ownServer,
       w_Attachments := map Some (cm_Attachments line)\<rparr>)"

definition encodeText :: "(contentWire \<Rightarrow> bytes) \<Rightarrow> chat_message \<Rightarrow> string \<Rightarrow> time \<Rightarrow> Claim option \<Rightarrow> bytes" where
  "encodeText enc line ownServer sentAt claim = enc (text_body line ownServer sentAt claim)"

definition status_text :: "ReceiptStatus \<Rightarrow> string" where
  "status_text s = (case s of ReceiptDelivered \<Rightarrow> ''delivered'' | ReceiptRead \<Rightarrow> ''read'' | ReceiptOther t \<Rightarrow> t)"

definition receipt_body :: "ReceiptStatus \<Rightarrow> time \<Rightarrow> Claim option \<Rightarrow> contentWire" where
  "receipt_body status upTo claim = blank_wire\<lparr>w_V := versionReceipt, w_Kind := ''receipt'', w_Status := status_text status,
     w_UpToSentAt := receipt_time upTo, w_Profile := claim\<rparr>"

definition reason_text :: "RekeyReason \<Rightarrow> string" where
  "reason_text r = (case r of RekeyDecryptFailures \<Rightarrow> ''decrypt_failures'' | RekeyUserRequested \<Rightarrow> ''user_requested''
     | RekeyUnspecified \<Rightarrow> ''unspecified'')"

definition rekey_body :: "RekeyReason \<Rightarrow> contentWire" where
  "rekey_body reason = blank_wire\<lparr>w_V := versionRekey, w_Kind := ''rekey'', w_Reason := reason_text reason\<rparr>"

end
