(* ===== verification/Client_Groups.thy ===== *)
theory Client_Groups
  imports Client_Content
begin

text \<open>
  The receiving half of groups on the client (\<open>pkg/client/groups.go\<close>,
  \<open>groupnarration.go\<close>): folding a control envelope into the stored facts, the narration of what
  changed, and the chat state around a group's transcript. The quoting of a name or topic in a
  narration line (\<open>fmt\<close>'s \<open>%q\<close>) is a parameter, \<open>quote\<close>.
\<close>

section \<open>What is known of the members (groups.go)\<close>

definition MaxHeldGroupEvents :: nat where "MaxHeldGroupEvents = 64"
definition GroupSyncRequestCooldown :: duration where "GroupSyncRequestCooldown = 5 * minute"

definition blank_peers :: groupPeers where
  "blank_peers = \<lparr>gp_StateHashes = [], gp_Owed = [], gp_Answered = [], gp_LastSyncRequest = None\<rparr>"

definition group_peers_of :: "client \<Rightarrow> string \<Rightarrow> groupPeers" where
  "group_peers_of c gid = (case assoc_get (cs_group_peers c) gid of None \<Rightarrow> blank_peers | Some p \<Rightarrow> p)"

definition groupPeersFor :: "string \<Rightarrow> groupPeers client_op" where
  "groupPeersFor gid = chain (safeElement gid) (\<lambda>_. look (\<lambda>c. group_peers_of c gid))"

text \<open>\<open>mutate\<close> says with \<open>None\<close> that nothing is written, and returns a result besides.\<close>

definition updateGroupPeers :: "string \<Rightarrow> 'a \<Rightarrow> (groupPeers \<Rightarrow> 'a \<times> groupPeers option) \<Rightarrow> 'a client_op" where
  "updateGroupPeers gid none mutate = (if gid = [] then ret none
     else chain (groupPeersFor gid) (\<lambda>p. case mutate p of (r, None) \<Rightarrow> ret r
       | (r, Some p') \<Rightarrow> chain (change (\<lambda>c. c\<lparr>cs_group_peers := assoc_put (cs_group_peers c) gid p'\<rparr>)) (\<lambda>_. ret r)))"

definition oweGroupSnapshot :: "string \<Rightarrow> string \<Rightarrow> unit client_op" where
  "oweGroupSnapshot gid acc = updateGroupPeers gid () (\<lambda>p. ((), if acc \<in> set (gp_Owed p) then None
     else Some (p\<lparr>gp_Owed := acc # gp_Owed p\<rparr>)))"

definition clearGroupSnapshotDebt :: "string \<Rightarrow> string \<Rightarrow> unit client_op" where
  "clearGroupSnapshotDebt gid acc = updateGroupPeers gid () (\<lambda>p. ((), if acc \<notin> set (gp_Owed p) then None
     else Some (p\<lparr>gp_Owed := removeAll acc (gp_Owed p)\<rparr>)))"

text \<open>A missing entry reads as the empty string, as a Go map does.\<close>

definition answered_hash :: "groupPeers \<Rightarrow> string \<Rightarrow> string" where
  "answered_hash p acc = (case assoc_get (gp_Answered p) acc of None \<Rightarrow> [] | Some h \<Rightarrow> h)"

definition markGroupHashAnswered :: "string \<Rightarrow> string \<Rightarrow> string \<Rightarrow> bool client_op" where
  "markGroupHashAnswered gid acc h = updateGroupPeers gid False (\<lambda>p. if answered_hash p acc = h then (True, None)
     else (False, Some (p\<lparr>gp_Answered := assoc_put (gp_Answered p) acc h\<rparr>)))"

definition markGroupSyncRequested :: "string \<Rightarrow> time \<Rightarrow> bool client_op" where
  "markGroupSyncRequested gid now = updateGroupPeers gid False (\<lambda>p.
     if (case gp_LastSyncRequest p of None \<Rightarrow> False | Some t \<Rightarrow> time_sub now t < GroupSyncRequestCooldown) then (True, None)
     else (False, Some (p\<lparr>gp_LastSyncRequest := Some now\<rparr>)))"

definition stated_hash :: "groupPeers \<Rightarrow> string \<Rightarrow> string" where
  "stated_hash p acc = (case assoc_get (gp_StateHashes p) acc of None \<Rightarrow> [] | Some h \<Rightarrow> h)"

definition RecordGroupPeerStateHash :: "string \<Rightarrow> string \<Rightarrow> string \<Rightarrow> unit client_op" where
  "RecordGroupPeerStateHash gid acc h = (if acc = [] \<or> h = [] then ret ()
     else updateGroupPeers gid () (\<lambda>p. ((), if stated_hash p acc = h then None
       else Some (p\<lparr>gp_StateHashes := assoc_put (gp_StateHashes p) acc h\<rparr>))))"

section \<open>Facts, held events and chat state\<close>

definition GroupState :: "string \<Rightarrow> State option client_op" where
  "GroupState gid = chain (safeElement gid) (\<lambda>_. look (\<lambda>c. assoc_get (cs_groups c) gid))"

definition PutGroupState :: "string \<Rightarrow> State \<Rightarrow> unit client_op" where
  "PutGroupState gid st = chain (safeElement gid) (\<lambda>_. change (\<lambda>c. c\<lparr>cs_groups := assoc_put (cs_groups c) gid st\<rparr>))"

definition Groups :: "string list client_op" where
  "Groups = look (\<lambda>c. sort (remdups (map fst (cs_groups c) @ map fst (cs_held c) @ map fst (cs_group_peers c)
     @ map fst (cs_group_chats c))))"

definition ForgetGroup :: "string \<Rightarrow> unit client_op" where
  "ForgetGroup gid = chain (safeElement gid) (\<lambda>_. change (\<lambda>c.
     c\<lparr>cs_groups := assoc_del (cs_groups c) gid, cs_held := assoc_del (cs_held c) gid,
       cs_group_peers := assoc_del (cs_group_peers c) gid, cs_group_chats := assoc_del (cs_group_chats c) gid\<rparr>))"

definition GroupMembership :: "platform \<Rightarrow> string \<Rightarrow> Resolved option client_op" where
  "GroupMembership P gid = chain (GroupState gid) (\<lambda>st. ret (map_option (Resolve P) st))"

definition heldEvents :: "string \<Rightarrow> Event option list client_op" where
  "heldEvents gid = chain (safeElement gid)
     (\<lambda>_. look (\<lambda>c. case assoc_get (cs_held c) gid of None \<Rightarrow> [] | Some es \<Rightarrow> es))"

definition premature :: "Event option list \<Rightarrow> ApplyResult \<Rightarrow> Event option list" where
  "premature batch result = map (\<lambda>r. batch ! Index r) (filter (\<lambda>r. Index r < length batch)
     (take MaxHeldGroupEvents (filter (\<lambda>r. Reason r = ReasonNoGenesis) (Rejected result))))"

definition holdPremature :: "string \<Rightarrow> Event option list \<Rightarrow> ApplyResult \<Rightarrow> unit client_op" where
  "holdPremature gid batch result = chain (safeElement gid) (\<lambda>_. change (\<lambda>c.
     let keep = premature batch result in
     c\<lparr>cs_held := (if keep = [] then assoc_del (cs_held c) gid else assoc_put (cs_held c) gid keep)\<rparr>))"

definition GroupChat_client :: "string \<Rightarrow> GroupChat option client_op" where
  "GroupChat_client gid = chain (safeElement gid) (\<lambda>_. look (\<lambda>c. assoc_get (cs_group_chats c) gid))"

definition PutGroupChat :: "GroupChat \<Rightarrow> unit client_op" where
  "PutGroupChat g = chain (safeElement (gc_GroupID g))
     (\<lambda>_. change (\<lambda>c. c\<lparr>cs_group_chats := assoc_put (cs_group_chats c) (gc_GroupID g) g\<rparr>))"

definition new_group_chat :: "string \<Rightarrow> GroupChat" where
  "new_group_chat gid = \<lparr>gc_GroupID = gid, gc_LastActivityAt = None, gc_HasUnread = False, gc_MemberReceipts = []\<rparr>"

section \<open>Narration (groupnarration.go)\<close>

definition memberLabel :: "string \<Rightarrow> string" where
  "memberLabel acc = (if length acc > 5 then take 5 acc else acc)"

definition batchHas :: "Event option list \<Rightarrow> EventType \<Rightarrow> string \<Rightarrow> bool" where
  "batchHas batch t subject = list_ex (\<lambda>e. case e of None \<Rightarrow> False | Some ev \<Rightarrow> Type ev = t \<and> Subject ev = subject) batch"

definition pick :: "bool \<Rightarrow> string \<Rightarrow> string \<Rightarrow> string" where
  "pick c yes no = (if c then yes else no)"

definition who :: "string \<Rightarrow> string \<Rightarrow> string" where
  "who me i = (if i = me then ''You'' else memberLabel i)"

definition roleLine :: "string \<Rightarrow> string \<Rightarrow> string \<Rightarrow> Role \<Rightarrow> Role \<Rightarrow> string" where
  "roleLine w has isNow old new =
     (if new = RoleMember then w @ '' '' @ has @ '' no special role any more.''
      else if new > old then w @ '' '' @ isNow @ '' now '' @ role_String new @ ''.''
      else w @ '' '' @ isNow @ '' now '' @ role_String new @ '' (was '' @ role_String old @ '').'')"

definition member_in :: "Member list \<Rightarrow> string \<Rightarrow> Member option" where
  "member_in ms i = find (\<lambda>m. AccountID m = i) (rev ms)"

definition gone_line :: "string \<Rightarrow> Event option list \<Rightarrow> Member list \<Rightarrow> Member \<Rightarrow> string list" where
  "gone_line me batch after m = (let i = AccountID m in
     if member_in after i \<noteq> None then []
     else let left = batchHas batch EventLeave i; removed = batchHas batch EventMemberRemove i in
       if left \<and> \<not> removed then [who me i @ '' left the group.'']
       else if removed \<and> \<not> left then [who me i @ '' '' @ pick (i = me) ''were'' ''was'' @ '' removed from the group.'']
       else [who me i @ '' '' @ pick (i = me) ''are'' ''is'' @ '' no longer a member.''])"

definition arrived_lines :: "string \<Rightarrow> Member list \<Rightarrow> Member \<Rightarrow> string list" where
  "arrived_lines me before now = (let i = AccountID now in
     case member_in before i of
       None \<Rightarrow> (who me i @ '' '' @ pick (i = me) ''were'' ''was'' @ '' invited.'')
                 # (if Joined now then [who me i @ '' joined the group.''] else [])
     | Some prior \<Rightarrow> (if \<not> Joined prior \<and> Joined now then [who me i @ '' joined the group.''] else [])
         @ (if MemberRole prior \<noteq> MemberRole now
            then [roleLine (who me i) (pick (i = me) ''have'' ''has'') (pick (i = me) ''are'' ''is'') (MemberRole prior) (MemberRole now)]
            else []))"

definition groupStateChangeLines ::
    "(string \<Rightarrow> string) \<Rightarrow> Resolved option \<Rightarrow> Resolved \<Rightarrow> string \<Rightarrow> Event option list \<Rightarrow> string list" where
  "groupStateChangeLines quote bo after me batch =
     (case bo of None \<Rightarrow> []
      | Some before \<Rightarrow> if ResGroupID before = [] then []
        else concat (map (gone_line me batch (Members after)) (Members before))
           @ concat (map (arrived_lines me (Members before)) (Members after))
           @ (if ResName before \<noteq> ResName after
              then [if ResName after = [] then ''The group name was removed.''
                    else ''The group is now called '' @ quote (ResName after) @ ''.''] else [])
           @ (if ResTopic before \<noteq> ResTopic after
              then [if ResTopic after = [] then ''The topic was removed.''
                    else ''The topic is now '' @ quote (ResTopic after) @ ''.''] else [])
           @ (if \<not> Dissolved before \<and> Dissolved after then [''The group was dissolved.''] else []))"

section \<open>Folding a control envelope\<close>

record GroupOutcome =
  go_GroupID :: string
  go_PeerStateHash :: string
  go_StateHash :: string
  go_WantsSnapshot :: bool
  go_Invited :: bool
  go_Lines :: "string list"
  go_DeliveredUpTo :: "time option"
  go_ReadUpTo :: "time option"

definition new_outcome :: "string \<Rightarrow> string \<Rightarrow> GroupOutcome" where
  "new_outcome gid h = \<lparr>go_GroupID = gid, go_PeerStateHash = h, go_StateHash = [], go_WantsSnapshot = False,
     go_Invited = False, go_Lines = [], go_DeliveredUpTo = None, go_ReadUpTo = None\<rparr>"

definition memberOf :: "Resolved option \<Rightarrow> string \<Rightarrow> Member option" where
  "memberOf r acc = (case r of None \<Rightarrow> None | Some res \<Rightarrow> find (\<lambda>m. AccountID m = acc) (Members res))"

fun append_lines :: "string \<Rightarrow> time \<Rightarrow> string list \<Rightarrow> unit client_op" where
  "append_lines gid at [] = ret ()"
| "append_lines gid at (l # ls) = chain (append_system_line gid l at) (\<lambda>_. append_lines gid (at + second) ls)"

definition appendGroupSystemLines :: "string \<Rightarrow> string list \<Rightarrow> time \<Rightarrow> unit client_op" where
  "appendGroupSystemLines gid lines at = append_lines gid at lines"

text \<open>The part under the lock: the facts after folding, what was known before, and the batch folded.\<close>

definition fold_control :: "platform \<Rightarrow> Content \<Rightarrow> (State option \<times> State \<times> Event option list) client_op" where
  "fold_control P content =
     chain (GroupState (ct_GroupID content)) (\<lambda>stored.
     chain (heldEvents (ct_GroupID content)) (\<lambda>held.
       let batch = held @ ct_Events content;
           (st, result) = Apply P (case stored of None \<Rightarrow> NewState | Some s \<Rightarrow> s) batch;
           gid = (if groupID st = [] then ct_GroupID content else groupID st)
       in chain (if groupID st \<noteq> [] then PutGroupState gid st else ret ()) (\<lambda>_.
          chain (holdPremature gid batch result) (\<lambda>_. ret (stored, st, batch)))))"

definition invited :: "State option \<Rightarrow> Resolved option \<Rightarrow> Resolved \<Rightarrow> string \<Rightarrow> bool" where
  "invited stored before after me = (case memberOf (Some after) me of None \<Rightarrow> False
     | Some mine \<Rightarrow> \<not> Joined mine \<and> (stored = None \<or> memberOf before me = None))"

definition announce_change ::
    "platform \<Rightarrow> (string \<Rightarrow> string) \<Rightarrow> GroupOutcome \<Rightarrow> State option \<Rightarrow> State \<Rightarrow> Event option list \<Rightarrow> time \<Rightarrow> GroupOutcome client_op" where
  "announce_change P quote out0 stored st batch now =
     (let before = map_option (Resolve P) stored; after = Resolve P st; gid = groupID st in
      chain Identity_client (\<lambda>me.
      chain (GroupChat_client gid) (\<lambda>chat.
        let inv = invited stored before after (ci_AccountID me);
            lines = groupStateChangeLines quote before after (ci_AccountID me) batch;
            g0 = (case chat of None \<Rightarrow> new_group_chat gid | Some g \<Rightarrow> g);
            g1 = (if inv then g0\<lparr>gc_HasUnread := True\<rparr> else g0);
            g2 = (if lines \<noteq> [] then g1\<lparr>gc_LastActivityAt := Some now\<rparr> else g1)
        in chain (appendGroupSystemLines gid lines now) (\<lambda>_.
           chain (PutGroupChat g2) (\<lambda>_.
           ret (out0\<lparr>go_GroupID := gid, go_StateHash := ResStateHash after, go_Invited := inv, go_Lines := lines\<rparr>))))))"

definition ApplyGroupControl :: "platform \<Rightarrow> (string \<Rightarrow> string) \<Rightarrow> Content \<Rightarrow> string \<Rightarrow> time \<Rightarrow> GroupOutcome client_op" where
  "ApplyGroupControl P quote content sender now =
     (let out0 = new_outcome (ct_GroupID content) (ct_StateHash content) in
      if ct_Kind content \<noteq> ContentGroupControl then fail (ErrText ''not a group control envelope'')
      else if ct_ControlKind content = GroupSyncRequest then
        chain (RecordGroupPeerStateHash (ct_GroupID content) sender (ct_StateHash content))
          (\<lambda>_. ret (out0\<lparr>go_WantsSnapshot := True\<rparr>))
      else chain (fold_control P content) (\<lambda>(stored, st, batch).
        if groupID st = [] then
          chain (RecordGroupPeerStateHash (ct_GroupID content) sender (ct_StateHash content)) (\<lambda>_. ret out0)
        else chain (announce_change P quote out0 stored st batch now) (\<lambda>outcome.
          chain (RecordGroupPeerStateHash (groupID st) sender (ct_StateHash content)) (\<lambda>_. ret outcome))))"

section \<open>Group messages and receipts\<close>

definition incoming_line :: "string \<Rightarrow> string \<Rightarrow> Content \<Rightarrow> time \<Rightarrow> chat_message" where
  "incoming_line i sender content now = \<lparr>cm_ID = i, cm_Text = ct_Text content, cm_Mine = False, cm_Timestamp = now,
     cm_SenderSentAt = ct_SentAt content, cm_SenderAccountID = sender, cm_ReplyToID = ct_ReplyToID content,
     cm_ReplyPreviewText = ct_ReplyPreviewText content, cm_ReplyPreviewMine = ct_ReplyPreviewMine content,
     cm_ReplyPreviewAuthorID = ct_ReplyPreviewAuthorID content, cm_Kind = MessageNormal, cm_SendState = SendSent,
     cm_Attachments = ct_Attachments content, cm_Deliveries = []\<rparr>"

definition file_line :: "string \<Rightarrow> chat_message \<Rightarrow> unit client_op" where
  "file_line chat line = chain (client_AppendMessage chat line)
     (\<lambda>_. each (\<lambda>a. WriteAttachmentThumb chat (cm_ID line) (at_Thumb a)) (cm_Attachments line))"

text \<open>The result is the line's id and whether the line is new.\<close>

definition storeGroupMessage :: "Content \<Rightarrow> string \<Rightarrow> time \<Rightarrow> string \<Rightarrow> (string \<times> bool) client_op" where
  "storeGroupMessage content sender now openChat =
     (let gid = ct_GroupID content;
          store = (\<lambda>i. chain (file_line gid (incoming_line i sender content now)) (\<lambda>_.
             chain (GroupChat_client gid) (\<lambda>chat.
               let g0 = (case chat of None \<Rightarrow> new_group_chat gid | Some g \<Rightarrow> g);
                   g1 = g0\<lparr>gc_LastActivityAt := Some now\<rparr>
               in chain (PutGroupChat (if openChat \<noteq> gid then g1\<lparr>gc_HasUnread := True\<rparr> else g1)) (\<lambda>_. ret (i, True)))))
      in if ct_ID content = [] then chain newMessageID store
         else chain (client_MessageExists gid (ct_ID content)) (\<lambda>seen.
           if seen then ret (ct_ID content, False) else store (ct_ID content)))"

definition hidden_line :: "string \<Rightarrow> string" where
  "hidden_line sender = ''A message from '' @ memberLabel sender @ '' was hidden (blocked contact).''"

definition recordBlockedGroupMessage :: "nat \<Rightarrow> string \<Rightarrow> string \<Rightarrow> time \<Rightarrow> unit client_op" where
  "recordBlockedGroupMessage window gid sender now =
     chain (GroupChat_client gid) (\<lambda>chat. case chat of None \<Rightarrow> ret ()
     | Some _ \<Rightarrow> chain (client_LastMessage window gid) (\<lambda>last.
         if (case last of None \<Rightarrow> False | Some m \<Rightarrow> cm_Kind m = MessageSystemInfo \<and> cm_Text m = hidden_line sender) then ret ()
         else append_system_line gid (hidden_line sender) now))"

definition recordMemberGone :: "string \<Rightarrow> string \<Rightarrow> time \<Rightarrow> unit client_op" where
  "recordMemberGone gid acc now = append_system_line_once gid
     (memberLabel acc @ '' no longer exists on their server, so they can no longer receive anything here.'') now"

definition blank_receipt :: MemberReceipt where
  "blank_receipt = \<lparr>mr_DeliveredUpTo = None, mr_ReadUpTo = None, mr_SentDeliveredReceiptUpTo = None, mr_SentReadReceiptUpTo = None\<rparr>"

definition member_receipt :: "GroupChat \<Rightarrow> string \<Rightarrow> MemberReceipt" where
  "member_receipt g acc = (case assoc_get (gc_MemberReceipts g) acc of None \<Rightarrow> blank_receipt | Some r \<Rightarrow> r)"

text \<open>A watermark moves only forward.\<close>

definition advances :: "time option \<Rightarrow> time \<Rightarrow> bool" where
  "advances old upTo = (case old of None \<Rightarrow> True | Some t \<Rightarrow> upTo > t)"

definition recordMemberReceipt :: "string \<Rightarrow> string \<Rightarrow> Content \<Rightarrow> unit client_op" where
  "recordMemberReceipt gid acc content =
     chain (GroupChat_client gid) (\<lambda>chat. case chat of None \<Rightarrow> ret ()
     | Some g \<Rightarrow>
        (let r = member_receipt g acc; upTo = ct_ReceiptUpTo content;
             put = (\<lambda>r'. PutGroupChat (g\<lparr>gc_MemberReceipts := assoc_put (gc_MemberReceipts g) acc r'\<rparr>))
         in case ct_ReceiptStatus content of
              ReceiptDelivered \<Rightarrow> if advances (mr_DeliveredUpTo r) upTo then put (r\<lparr>mr_DeliveredUpTo := Some upTo\<rparr>) else ret ()
            | ReceiptRead \<Rightarrow> if advances (mr_ReadUpTo r) upTo then put (r\<lparr>mr_ReadUpTo := Some upTo\<rparr>) else ret ()
            | ReceiptOther _ \<Rightarrow> ret ()))"

definition IsGroupID :: "platform \<Rightarrow> string \<Rightarrow> bool" where
  "IsGroupID P i = (case VersionOf P i of Inl _ \<Rightarrow> False | Inr v \<Rightarrow> int v = VersionGroup)"

end
