(* ===== verification/Client_Receive.thy ===== *)
theory Client_Receive
  imports Client_Groups
begin

text \<open>
  The receive path of the client (\<open>pkg/client/receive.go\<close>): opening an envelope with one of the
  sessions held for its sender, and everything that follows from it. The payload is the value
  \<open>wire.ParseEnvelope\<close> gives, if it gives one. A decrypt may draw a new ratchet key; \<open>draw n\<close> is the
  key the \<open>n\<close>-th attempt at this envelope draws.
\<close>

section \<open>Results\<close>

record IncomingMessage =
  in_MessageID :: string
  in_SenderAccountID :: string
  in_SenderDeviceID :: string
  in_SentAt :: time
  in_Payload :: "Envelope option"

record sessionEffect =
  se_adoptedPeer :: bool
  se_keepOwnSending :: bool
  se_consumePrekey :: "32 word option"

record ReceiveResult =
  rr_PeerAccountID :: string
  rr_Content :: "Content option"
  rr_Duplicate :: bool
  rr_StoredMessageID :: string
  rr_ShouldNotify :: bool
  rr_DeliveredUpTo :: "time option"
  rr_ReadUpTo :: "time option"
  rr_ProfileRenamed :: bool
  rr_AdoptedPeerSession :: bool
  rr_InboundSessionKept :: bool
  rr_Group :: "GroupOutcome option"
  rr_Blocked :: bool

record DecryptError =
  de_MessageID :: string
  de_PeerAccountID :: string
  de_Err :: client_error
  de_DesyncEvidence :: bool
  de_GaveUp :: bool
  de_RekeyNeeded :: bool

definition blank_result :: "string \<Rightarrow> ReceiveResult" where
  "blank_result peer = \<lparr>rr_PeerAccountID = peer, rr_Content = None, rr_Duplicate = False, rr_StoredMessageID = [],
     rr_ShouldNotify = False, rr_DeliveredUpTo = None, rr_ReadUpTo = None, rr_ProfileRenamed = False,
     rr_AdoptedPeerSession = False, rr_InboundSessionKept = False, rr_Group = None, rr_Blocked = False\<rparr>"

definition no_effect :: sessionEffect where
  "no_effect = \<lparr>se_adoptedPeer = False, se_keepOwnSending = False, se_consumePrekey = None\<rparr>"

definition SessionResetMarker :: string where "SessionResetMarker = ''Secure session was reset''"
definition AutomaticRekeyMarker :: string where "AutomaticRekeyMarker = ''Secure session was re-established automatically''"
definition ProfileNameClearedMarker :: string where "ProfileNameClearedMarker = ''This contact no longer gives a name''"

definition ProfileRenamedMarker :: "string \<Rightarrow> string" where
  "ProfileRenamedMarker name = ''This contact now calls themselves '' @ name"

section \<open>Opening an envelope\<close>

text \<open>\<open>ecdh.X25519().NewPrivateKey\<close> takes 32 bytes.\<close>

definition private_key :: "string \<Rightarrow> bytes \<Rightarrow> bytes client_op" where
  "private_key what b = (if length b = 32 then ret b else fail (ErrOwnKey what))"

record opened_envelope =
  oe_Header :: Header
  oe_Ciphertext :: bytes
  oe_Initial :: "InitialMessage option"
  oe_Rekey :: "bool option"

definition open_envelope :: "Envelope option \<Rightarrow> opened_envelope client_op" where
  "open_envelope eo = (case eo of None \<Rightarrow> fail (ErrEnvelope ''parsing envelope'')
     | Some env \<Rightarrow>
    (case ToHeader (env_Header env) of None \<Rightarrow> fail (ErrEnvelope ''reading envelope header'')
     | Some header \<Rightarrow>
    (case DecodeCiphertext env of None \<Rightarrow> fail (ErrEnvelope ''decoding ciphertext'')
     | Some ciphertext \<Rightarrow>
    (case env_Prekey env of
       None \<Rightarrow> ret \<lparr>oe_Header = header, oe_Ciphertext = ciphertext, oe_Initial = None, oe_Rekey = None\<rparr>
     | Some p \<Rightarrow> (case ToInitialMessage p of None \<Rightarrow> fail (ErrEnvelope ''reading prekey block'')
        | Some im \<Rightarrow> ret \<lparr>oe_Header = header, oe_Ciphertext = ciphertext, oe_Initial = Some im, oe_Rekey = pk_Rekey p\<rparr>)))))"

record own_keys =
  ok_AccountID :: string
  ok_DHPriv :: bytes
  ok_SPKPriv :: bytes
  ok_OneTime :: "(32 word \<times> bytes) option"

text \<open>The one-time prekey is looked up, not consumed.\<close>

definition find_one_time :: "InitialMessage option \<Rightarrow> (32 word \<times> bytes) option client_op" where
  "find_one_time im = (case Option.bind im im_OneTimePrekeyID of None \<Rightarrow> ret None
     | Some i \<Rightarrow> chain (OneTimePrekey_client i) (\<lambda>otpk. case otpk of None \<Rightarrow> ret None
         | Some k \<Rightarrow> chain (private_key ''one-time prekey'' (pf_Priv k)) (\<lambda>priv. ret (Some (pf_KeyID k, priv)))))"

definition load_own_keys :: "InitialMessage option \<Rightarrow> own_keys client_op" where
  "load_own_keys im =
     chain Identity_client (\<lambda>me.
     chain (private_key ''own identity key'' (ci_DHIdentityPriv me)) (\<lambda>dh.
     chain (private_key ''own signed prekey'' (ci_SignedPrekeyPriv me)) (\<lambda>spk.
     chain (find_one_time im) (\<lambda>otpk.
     ret \<lparr>ok_AccountID = ci_AccountID me, ok_DHPriv = dh, ok_SPKPriv = spk, ok_OneTime = otpk\<rparr>))))"

definition respond :: "platform \<Rightarrow> bytes \<Rightarrow> own_keys \<Rightarrow> InitialMessage \<Rightarrow> opened_envelope \<Rightarrow> ratchet_error + bytes \<times> Session" where
  "respond P newDHs keys im env =
     (case RespondToSession P (ok_DHPriv keys) (ok_SPKPriv keys) (map_option snd (ok_OneTime keys)) im of Inl e \<Rightarrow> Inl e
      | Inr fresh \<Rightarrow> Ratchet.decrypt P newDHs fresh (oe_Header env) (oe_Ciphertext env))"

definition joinInitialAttempt :: "client_error option \<Rightarrow> client_error \<Rightarrow> client_error" where
  "joinInitialAttempt initial sessionErr = (case initial of None \<Rightarrow> sessionErr | Some e \<Rightarrow> ErrJoin e sessionErr)"

text \<open>The session the peer was found to use, the plaintext, and what the sessions become.\<close>

type_synonym opened = "bytes \<times> Session \<times> sessionEffect"

definition open_with_held :: "platform \<Rightarrow> (nat \<Rightarrow> bytes) \<Rightarrow> string \<Rightarrow> Session \<Rightarrow> opened_envelope \<Rightarrow> client_error option \<Rightarrow> opened client_op" where
  "open_with_held P draw peer session env initialErr =
     (case Ratchet.decrypt P (draw 1) session (oe_Header env) (oe_Ciphertext env) of
        Inr (plaintext, s') \<Rightarrow> ret (plaintext, s', no_effect)
      | Inl derr \<Rightarrow>
          if derr = ErrDuplicateMessage then fail (ErrRatchet derr)
          else chain (client_Session peer Inbound) (\<lambda>inbound.
            case inbound of None \<Rightarrow> fail (joinInitialAttempt initialErr (ErrRatchet derr))
            | Some s \<Rightarrow> (case Ratchet.decrypt P (draw 2) s (oe_Header env) (oe_Ciphertext env) of
                Inl _ \<Rightarrow> fail (joinInitialAttempt initialErr (ErrRatchet derr))
              | Inr (plaintext, s') \<Rightarrow> ret (plaintext, s', no_effect\<lparr>se_keepOwnSending := True\<rparr>))))"

definition deliberate_rekey :: "(bytes \<Rightarrow> contentWire option) \<Rightarrow> opened_envelope \<Rightarrow> bytes \<Rightarrow> bool" where
  "deliberate_rekey dec env plaintext = (case oe_Rekey env of Some r \<Rightarrow> r
     | None \<Rightarrow> ct_Kind (DecodeContent dec plaintext) = ContentRekey)"

definition choose_session ::
    "platform \<Rightarrow> (bytes \<Rightarrow> contentWire option) \<Rightarrow> (nat \<Rightarrow> bytes) \<Rightarrow> string \<Rightarrow> opened_envelope \<Rightarrow> own_keys \<Rightarrow> Session option \<Rightarrow> opened client_op" where
  "choose_session P dec draw peer env keys held =
     (case (held, oe_Initial env) of
        (None, None) \<Rightarrow> fail ErrNoSessionMaterial
      | (None, Some im) \<Rightarrow> (case respond P (draw 0) keys im env of Inl e \<Rightarrow> fail (ErrRatchet e)
          | Inr (plaintext, fresh) \<Rightarrow> ret (plaintext, fresh, no_effect\<lparr>se_consumePrekey := map_option fst (ok_OneTime keys)\<rparr>))
      | (Some session, None) \<Rightarrow> open_with_held P draw peer session env None
      | (Some session, Some im) \<Rightarrow> (case respond P (draw 0) keys im env of
            Inl e \<Rightarrow> open_with_held P draw peer session env (Some (ErrRatchet e))
          | Inr (plaintext, fresh) \<Rightarrow>
              (let peerWins = peer < ok_AccountID keys;
                   adopt = deliberate_rekey dec env plaintext \<or> Nr session > 0 \<or> peerWins
               in ret (plaintext, fresh, no_effect\<lparr>se_adoptedPeer := adopt, se_keepOwnSending := \<not> adopt,
                    se_consumePrekey := map_option fst (ok_OneTime keys)\<rparr>))))"

definition client_decrypt ::
    "platform \<Rightarrow> (bytes \<Rightarrow> contentWire option) \<Rightarrow> (nat \<Rightarrow> bytes) \<Rightarrow> IncomingMessage \<Rightarrow> (Content \<times> sessionEffect) client_op" where
  "client_decrypt P dec draw msg =
     (let peer = in_SenderAccountID msg in
      chain (open_envelope (in_Payload msg)) (\<lambda>env.
      chain (load_own_keys (oe_Initial env)) (\<lambda>keys.
      chain (client_Session peer Sending) (\<lambda>held.
      chain (choose_session P dec draw peer env keys held) (\<lambda>(plaintext, session, effect).
      chain (SetSession peer (if se_keepOwnSending effect then Inbound else Sending) session) (\<lambda>_.
      ret (DecodeContent dec plaintext, effect)))))))"

text \<open>\<open>errors.Is\<close> looks through joined errors.\<close>

fun err_is :: "ratchet_error \<Rightarrow> client_error \<Rightarrow> bool" where
  "err_is r (ErrRatchet e) = (e = r)"
| "err_is r (ErrJoin a b) = (err_is r a \<or> err_is r b)"
| "err_is r _ = False"

fun is_no_session :: "client_error \<Rightarrow> bool" where
  "is_no_session ErrNoSessionMaterial = True"
| "is_no_session (ErrJoin a b) = (is_no_session a \<or> is_no_session b)"
| "is_no_session _ = False"

section \<open>What follows from an opened envelope\<close>

definition markRekeyInTranscript :: "string \<Rightarrow> Content \<Rightarrow> time \<Rightarrow> unit client_op" where
  "markRekeyInTranscript peer content now = chain (Conversation_client peer) (\<lambda>convo. case convo of None \<Rightarrow> ret ()
     | Some _ \<Rightarrow> append_system_line peer
         (if ct_Kind content = ContentRekey \<and> ct_RekeyReason content = RekeyDecryptFailures then AutomaticRekeyMarker
          else SessionResetMarker) now)"

definition markRenameInTranscript :: "string \<Rightarrow> Claim option \<Rightarrow> time \<Rightarrow> unit client_op" where
  "markRenameInTranscript peer co now = chain (Conversation_client peer) (\<lambda>convo. case convo of None \<Rightarrow> ret ()
     | Some _ \<Rightarrow> append_system_line peer (case co of None \<Rightarrow> ProfileNameClearedMarker
         | Some k \<Rightarrow> if IsWithdrawal k then ProfileNameClearedMarker else ProfileRenamedMarker (cl_Name k)) now)"

definition recordReceipt :: "string \<Rightarrow> Content \<Rightarrow> unit client_op" where
  "recordReceipt peer content = chain (Conversation_client peer) (\<lambda>convo. case convo of None \<Rightarrow> ret ()
     | Some v \<Rightarrow> (let upTo = ct_ReceiptUpTo content in
         case ct_ReceiptStatus content of
           ReceiptDelivered \<Rightarrow> if advances (cv_PeerDeliveredUpTo v) upTo
             then PutConversation (v\<lparr>cv_PeerDeliveredUpTo := Some upTo\<rparr>) else ret ()
         | ReceiptRead \<Rightarrow> if advances (cv_PeerReadUpTo v) upTo
             then PutConversation (v\<lparr>cv_PeerReadUpTo := Some upTo\<rparr>) else ret ()
         | ReceiptOther _ \<Rightarrow> ret ()))"

definition refresh_server :: "string \<Rightarrow> Content \<Rightarrow> Conversation \<Rightarrow> Conversation" where
  "refresh_server ownServer content v = (if ct_SenderServer content = [] then v
     else v\<lparr>cv_PeerServer := (if ct_SenderServer content = ownServer then [] else ct_SenderServer content)\<rparr>)"

definition storeIncomingText ::
    "ReceiveResult \<Rightarrow> IncomingMessage \<Rightarrow> Content \<Rightarrow> string \<Rightarrow> time \<Rightarrow> ReceiveResult client_op" where
  "storeIncomingText res msg content openChat now =
     (let peer = in_SenderAccountID msg in
      chain (IsPeerKnown peer) (\<lambda>known.
      chain (Conversation_client peer) (\<lambda>existing.
      chain Identity_client (\<lambda>me.
        let v0 = (case existing of None \<Rightarrow> (new_conversation peer)\<lparr>cv_PendingApproval := \<not> known \<and> \<not> rr_Blocked res\<rparr> | Some v \<Rightarrow> v);
            v1 = refresh_server (ci_Server me) content (v0\<lparr>cv_Blocked := rr_Blocked res\<rparr>)
        in if rr_Blocked res then chain (PutConversation v1) (\<lambda>_. ret res)
           else chain (if ct_ID content = [] then newMessageID else ret (ct_ID content)) (\<lambda>i.
             chain (file_line peer (incoming_line i [] content now)) (\<lambda>_.
               let v2 = v1\<lparr>cv_LastActivityAt := Some now\<rparr>;
                   v3 = (if peer \<noteq> openChat then v2\<lparr>cv_HasUnread := True\<rparr> else v2);
                   upTo = (case ct_SentAt content of None \<Rightarrow> now | Some t \<Rightarrow> t)
               in chain (PutConversation v3) (\<lambda>_.
                  ret (res\<lparr>rr_StoredMessageID := i,
                    rr_ShouldNotify := peer \<noteq> openChat \<and> (existing = None \<or> \<not> cv_PendingApproval v3),
                    rr_DeliveredUpTo := Some upTo, rr_ReadUpTo := (if peer = openChat then Some upTo else None)\<rparr>)))))))) "

definition receive_group_text ::
    "nat \<Rightarrow> ReceiveResult \<Rightarrow> string \<Rightarrow> Content \<Rightarrow> string \<Rightarrow> time \<Rightarrow> ReceiveResult client_op" where
  "receive_group_text window res peer content openChat now =
     (let gid = ct_GroupID content; g = new_outcome gid (ct_StateHash content) in
      chain (RecordGroupPeerStateHash gid peer (ct_StateHash content)) (\<lambda>_.
        if rr_Blocked res then chain (recordBlockedGroupMessage window gid peer now) (\<lambda>_. ret (res\<lparr>rr_Group := Some g\<rparr>))
        else chain (storeGroupMessage content peer now openChat) (\<lambda>(i, isNew).
          let upTo = Some (case ct_SentAt content of None \<Rightarrow> now | Some t \<Rightarrow> t)
          in ret (res\<lparr>rr_StoredMessageID := i, rr_ShouldNotify := isNew \<and> openChat \<noteq> gid,
               rr_Group := Some (g\<lparr>go_DeliveredUpTo := upTo, go_ReadUpTo := (if openChat = gid then upTo else None)\<rparr>)\<rparr>))))"

definition receive_receipt :: "ReceiveResult \<Rightarrow> string \<Rightarrow> Content \<Rightarrow> ReceiveResult client_op" where
  "receive_receipt res peer content =
     chain ReceiptsEnabled (\<lambda>on.
       if ct_ReceiptGroupID content \<noteq> [] then
         (let res' = res\<lparr>rr_Group := Some (new_outcome (ct_ReceiptGroupID content) [])\<rparr> in
          if \<not> on then ret res'
          else chain (recordMemberReceipt (ct_ReceiptGroupID content) peer content) (\<lambda>_. ret res'))
       else if on then chain (recordReceipt peer content) (\<lambda>_. ret res)
       else ret res)"

definition dispatch ::
    "platform \<Rightarrow> (string \<Rightarrow> string) \<Rightarrow> nat \<Rightarrow> ReceiveResult \<Rightarrow> IncomingMessage \<Rightarrow> Content \<Rightarrow> string \<Rightarrow> time \<Rightarrow> ReceiveResult client_op" where
  "dispatch P quote window res msg content openChat now =
     (let peer = in_SenderAccountID msg in
      case ct_Kind content of
        ContentRekey \<Rightarrow> ret res
      | ContentGroupControl \<Rightarrow> chain (ApplyGroupControl P quote content peer now) (\<lambda>outcome.
          ret (res\<lparr>rr_Group := Some outcome, rr_ShouldNotify := go_Invited outcome \<and> openChat \<noteq> go_GroupID outcome\<rparr>))
      | ContentGroupText \<Rightarrow> receive_group_text window res peer content openChat now
      | ContentReceipt \<Rightarrow> receive_receipt res peer content
      | ContentText \<Rightarrow> storeIncomingText res msg content openChat now)"

text \<open>The bookkeeping for an envelope that was opened, before its content is looked at.\<close>

definition settle_opened ::
    "platform \<Rightarrow> IncomingMessage \<Rightarrow> Content \<Rightarrow> sessionEffect \<Rightarrow> time \<Rightarrow> (bool \<times> bool) client_op" where
  "settle_opened P msg content effect now =
     (let peer = in_SenderAccountID msg in
      chain (MarkMessageProcessed (in_MessageID msg)) (\<lambda>_.
      chain (ClearDesyncEvidence peer) (\<lambda>_.
      chain (case se_consumePrekey effect of None \<Rightarrow> ret () | Some i \<Rightarrow> ConsumeOneTimePrekey_client i) (\<lambda>_.
      chain (IsPeerBlocked peer) (\<lambda>blocked.
      chain (if se_adoptedPeer effect \<and> \<not> blocked then markRekeyInTranscript peer content now else ret ()) (\<lambda>_.
      chain (applyProfileClaim P peer (ct_Profile content)) (\<lambda>renamed.
      chain (if renamed \<and> \<not> blocked then markRenameInTranscript peer (ct_Profile content) now else ret ()) (\<lambda>_.
      ret (blocked, renamed)))))))))"

definition receive ::
    "platform \<Rightarrow> (bytes \<Rightarrow> contentWire option) \<Rightarrow> (string \<Rightarrow> string) \<Rightarrow> nat \<Rightarrow> (nat \<Rightarrow> bytes) \<Rightarrow> IncomingMessage \<Rightarrow> string \<Rightarrow> time \<Rightarrow> ReceiveResult client_op" where
  "receive P dec quote window draw msg openChat now =
     (let res = blank_result (in_SenderAccountID msg) in
      chain (WasMessageProcessed (in_MessageID msg)) (\<lambda>seen.
        if seen then ret (res\<lparr>rr_Duplicate := True\<rparr>)
        else (\<lambda>c. case client_decrypt P dec draw msg c of
            (Inl e, c') \<Rightarrow>
              if err_is ErrDuplicateMessage e
              then chain (MarkMessageProcessed (in_MessageID msg)) (\<lambda>_. ret (res\<lparr>rr_Duplicate := True\<rparr>)) c'
              else (Inl e, c')
          | (Inr (content, effect), c') \<Rightarrow>
              chain (settle_opened P msg content effect now) (\<lambda>(blocked, renamed).
                dispatch P quote window
                  (res\<lparr>rr_AdoptedPeerSession := se_adoptedPeer effect, rr_InboundSessionKept := se_keepOwnSending effect,
                       rr_Blocked := blocked, rr_ProfileRenamed := renamed, rr_Content := Some content\<rparr>)
                  msg content openChat now) c')))"

section \<open>Giving up\<close>

text \<open>A joined error suggests a desync by the first code one of its parts has.\<close>

definition failure_code :: "client_error \<Rightarrow> string" where
  "failure_code e =
     (case find (\<lambda>r. err_is r e) [ErrDuplicateMessage, ErrAuthentication, ErrTooManySkipped, ErrNoReceivingChain] of
        None \<Rightarrow> [] | Some r \<Rightarrow> FailureCode (Some r))"

definition suggests_desync :: "client_error \<Rightarrow> bool" where
  "suggests_desync e \<longleftrightarrow> failure_code e \<in> {''authentication_failed'', ''too_many_skipped'', ''no_receiving_chain''}
     \<or> is_no_session e"

definition giveUpOnEnvelope :: "IncomingMessage \<Rightarrow> time \<Rightarrow> client_error \<Rightarrow> DecryptError client_op" where
  "giveUpOnEnvelope msg now cause =
     (let failure = \<lparr>de_MessageID = in_MessageID msg, de_PeerAccountID = in_SenderAccountID msg, de_Err = cause,
          de_DesyncEvidence = suggests_desync cause, de_GaveUp = False, de_RekeyNeeded = False\<rparr> in
      chain (RecordDecryptFailure (in_MessageID msg)) (\<lambda>giveUp.
        if \<not> giveUp \<or> \<not> de_DesyncEvidence failure then ret (failure\<lparr>de_GaveUp := giveUp\<rparr>)
        else chain (RecordDesyncEvidence (in_SenderAccountID msg) now) (\<lambda>_.
             chain (ShouldAutoRekey (in_SenderAccountID msg) now) (\<lambda>rekey.
             ret (failure\<lparr>de_GaveUp := True, de_RekeyNeeded := rekey\<rparr>)))))"

text \<open>An envelope gives a result, or an error about the attempt; where the accounting itself fails, that error.\<close>

datatype handled = Received ReceiveResult | Failed DecryptError | Broken client_error client_error

definition HandleIncoming ::
    "platform \<Rightarrow> (bytes \<Rightarrow> contentWire option) \<Rightarrow> (string \<Rightarrow> string) \<Rightarrow> nat \<Rightarrow> (nat \<Rightarrow> bytes) \<Rightarrow> IncomingMessage \<Rightarrow> string \<Rightarrow> time
      \<Rightarrow> client \<Rightarrow> handled \<times> client" where
  "HandleIncoming P dec quote window draw msg openChat now0 c =
     (let now = receiptClock now0 in
      case receive P dec quote window draw msg openChat now c of
        (Inr res, c') \<Rightarrow> (Received res, c')
      | (Inl e, c') \<Rightarrow> (case giveUpOnEnvelope msg now e c' of
            (Inr failure, c'') \<Rightarrow> (Failed failure, c'')
          | (Inl e', c'') \<Rightarrow> (Broken e e', c'')))"

end
