(* ===== verification/Client_Frame.thy ===== *)
theory Client_Frame
  imports Client_Receive
begin

text \<open>
  What the operations of the client touch. An operation has a footprint, the files it may change; the
  footprint of a handler is the union of those it calls. A property of the account is kept by an
  operation if its footprint is disjoint from the files the property reads, or by a lemma of its own.
\<close>

section \<open>Footprints\<close>

datatype account_file = FIdentity | FProcessed | FFailures | FSessions | FPrekeys | FHealth | FConvos | FKnown | FBlocked
  | FDevices | FProfiles | FSettings | FLogs | FMedia | FGroups | FHeld | FGroupPeers | FGroupChats | FRandom

fun same_file :: "account_file \<Rightarrow> client \<Rightarrow> client \<Rightarrow> bool" where
  "same_file FIdentity c d = (cs_identity c = cs_identity d)"
| "same_file FProcessed c d = (cs_processed_log c = cs_processed_log d \<and> cs_processedOrder c = cs_processedOrder d
     \<and> cs_processedLines c = cs_processedLines d)"
| "same_file FFailures c d = (cs_failures c = cs_failures d \<and> cs_failureOrder c = cs_failureOrder d)"
| "same_file FSessions c d = (cs_sessions c = cs_sessions d)"
| "same_file FPrekeys c d = (cs_prekeys c = cs_prekeys d)"
| "same_file FHealth c d = (cs_health c = cs_health d)"
| "same_file FConvos c d = (cs_convos c = cs_convos d)"
| "same_file FKnown c d = (cs_known c = cs_known d)"
| "same_file FBlocked c d = (cs_blocked c = cs_blocked d)"
| "same_file FDevices c d = (cs_devices c = cs_devices d)"
| "same_file FProfiles c d = (cs_profiles c = cs_profiles d)"
| "same_file FSettings c d = (cs_settings c = cs_settings d)"
| "same_file FLogs c d = (cs_logs c = cs_logs d)"
| "same_file FMedia c d = (cs_media c = cs_media d)"
| "same_file FGroups c d = (cs_groups c = cs_groups d)"
| "same_file FHeld c d = (cs_held c = cs_held d)"
| "same_file FGroupPeers c d = (cs_group_peers c = cs_group_peers d)"
| "same_file FGroupChats c d = (cs_group_chats c = cs_group_chats d)"
| "same_file FRandom c d = (cs_random c = cs_random d)"

definition only :: "account_file set \<Rightarrow> client \<Rightarrow> client \<Rightarrow> bool" where
  "only F c d \<longleftrightarrow> (\<forall>f. f \<in> F \<or> same_file f c d)"

lemma same_file_refl [simp]: "same_file f c c"
  by (cases f) simp_all

lemma same_file_trans: "same_file f a b \<Longrightarrow> same_file f b c \<Longrightarrow> same_file f a c"
  by (cases f) simp_all

lemma only_refl [simp]: "only F c c"
  by (simp add: only_def)

lemma only_trans: "only F a b \<Longrightarrow> only F b c \<Longrightarrow> only F a c"
  by (auto simp: only_def intro: same_file_trans)

lemma only_mono: "only F c d \<Longrightarrow> F \<subseteq> G \<Longrightarrow> only G c d"
  by (auto simp: only_def)

lemma only_empty: "only {} c d \<longleftrightarrow> c = d"
proof
  assume o: "only {} c d"
  then have s: "same_file f c d" for f by (simp add: only_def)
  show "c = d"
    using s [of FIdentity] s [of FProcessed] s [of FFailures] s [of FSessions] s [of FPrekeys] s [of FHealth] s [of FConvos]
      s [of FKnown] s [of FBlocked] s [of FDevices] s [of FProfiles] s [of FSettings] s [of FLogs] s [of FMedia]
      s [of FGroups] s [of FHeld] s [of FGroupPeers] s [of FGroupChats] s [of FRandom]
    by simp
qed simp

section \<open>The interface: relations operations keep\<close>

definition keeps :: "('s \<Rightarrow> 's \<Rightarrow> bool) \<Rightarrow> ('s, 'a) oper \<Rightarrow> bool" where
  "keeps R m \<longleftrightarrow> (\<forall>c. R c (snd (m c)))"

named_theorems keep_rules "how an operation inherits what its parts keep"

locale client_relation =
  fixes R :: "'s \<Rightarrow> 's \<Rightarrow> bool"
  assumes rel_refl: "R c c" and rel_trans: "R a b \<Longrightarrow> R b c \<Longrightarrow> R a c"
begin

lemma keeps_same: "keeps R (ret x)" "keeps R (fail e)" "keeps R (look f)"
  by (simp_all add: keeps_def op_defs rel_refl)

lemma keeps_chain:
  assumes "keeps R m" "\<And>x. keeps R (f x)"
  shows "keeps R (chain m f)"
  unfolding keeps_def
proof
  fix c
  show "R c (snd (chain m f c))"
  proof (cases "m c")
    case (Pair r c')
    then have "R c c'" using assms(1) by (metis keeps_def snd_conv)
    moreover have "R c' (snd (f x c'))" for x using assms(2) by (simp add: keeps_def)
    ultimately show ?thesis using Pair rel_trans by (auto simp: chain_def split: sum.split)
  qed
qed

lemma keeps_each: "(\<And>x. keeps R (f x)) \<Longrightarrow> keeps R (each f xs)"
  by (induction xs) (simp_all add: keeps_same keeps_chain)

lemma keeps_iterate: "(\<And>f c. f \<in> set fs \<Longrightarrow> R c (f c)) \<Longrightarrow> R c (fold (\<lambda>f. f) fs c)"
proof (induction fs arbitrary: c)
  case (Cons f fs)
  then have "R c (f c)" by simp
  moreover have "R (f c) (fold (\<lambda>f. f) fs (f c))" by (rule Cons.IH) (use Cons.prems in simp)
  ultimately have "R c (fold (\<lambda>f. f) fs (f c))" by (rule rel_trans)
  then show ?case by simp
qed (simp add: rel_refl)

end


lemma keeps_branch [keep_rules]:
  "(b \<Longrightarrow> keeps R m) \<Longrightarrow> (\<not> b \<Longrightarrow> keeps R n) \<Longrightarrow> keeps R (if b then m else n)"
  by simp

lemma keeps_option [keep_rules]:
  "(x = None \<Longrightarrow> keeps R m) \<Longrightarrow> (\<And>y. x = Some y \<Longrightarrow> keeps R (f y)) \<Longrightarrow> keeps R (case x of None \<Rightarrow> m | Some y \<Rightarrow> f y)"
  by (cases x) simp_all

lemma keeps_sum [keep_rules]:
  "(\<And>e. x = Inl e \<Longrightarrow> keeps R (f e)) \<Longrightarrow> (\<And>y. x = Inr y \<Longrightarrow> keeps R (g y)) \<Longrightarrow> keeps R (case x of Inl e \<Rightarrow> f e | Inr y \<Rightarrow> g y)"
  by (cases x) simp_all

lemma keeps_prod [keep_rules]: "(\<And>a b. x = (a, b) \<Longrightarrow> keeps R (f a b)) \<Longrightarrow> keeps R (case x of (a, b) \<Rightarrow> f a b)"
  by (cases x) simp

lemma keeps_Let [keep_rules]: "(\<And>y. y = x \<Longrightarrow> keeps R (f y)) \<Longrightarrow> keeps R (Let x f)"
  by simp

lemma keeps_status [keep_rules]:
  "keeps R m \<Longrightarrow> keeps R n \<Longrightarrow> keeps R p \<Longrightarrow>
     keeps R (case s of ReceiptDelivered \<Rightarrow> m | ReceiptRead \<Rightarrow> n | ReceiptOther t \<Rightarrow> p)"
  by (cases s) simp_all

lemma keeps_change: "(\<And>c. R c (f c)) \<Longrightarrow> keeps R (change f)"
  by (simp add: keeps_def change_def)

interpretation touched: client_relation "only F"
  by unfold_locales (simp, rule only_trans)

lemmas touched_rules = touched.keeps_same touched.keeps_chain touched.keeps_each keep_rules

lemma keeps_weaken: "keeps (only F) m \<Longrightarrow> (\<And>c d. only F c d \<Longrightarrow> R c d) \<Longrightarrow> keeps R m"
  by (simp add: keeps_def)

lemma footprint_mono: "keeps (only F) m \<Longrightarrow> F \<subseteq> G \<Longrightarrow> keeps (only G) m"
  by (auto simp: keeps_def intro: only_mono)

section \<open>The footprints of the operations\<close>

text \<open>A change of a single field.\<close>

lemma only_field:
  "FIdentity \<in> F \<Longrightarrow> only F c (c\<lparr>cs_identity := x1\<rparr>)"
  "FSessions \<in> F \<Longrightarrow> only F c (c\<lparr>cs_sessions := x2\<rparr>)"
  "FPrekeys \<in> F \<Longrightarrow> only F c (c\<lparr>cs_prekeys := x3\<rparr>)"
  "FHealth \<in> F \<Longrightarrow> only F c (c\<lparr>cs_health := x4\<rparr>)"
  "FConvos \<in> F \<Longrightarrow> only F c (c\<lparr>cs_convos := x5\<rparr>)"
  "FProfiles \<in> F \<Longrightarrow> only F c (c\<lparr>cs_profiles := x6\<rparr>)"
  "FLogs \<in> F \<Longrightarrow> only F c (c\<lparr>cs_logs := x7\<rparr>)"
  "FMedia \<in> F \<Longrightarrow> only F c (c\<lparr>cs_media := x8\<rparr>)"
  "FGroups \<in> F \<Longrightarrow> only F c (c\<lparr>cs_groups := x9\<rparr>)"
  "FHeld \<in> F \<Longrightarrow> only F c (c\<lparr>cs_held := x10\<rparr>)"
  "FGroupPeers \<in> F \<Longrightarrow> only F c (c\<lparr>cs_group_peers := x11\<rparr>)"
  "FGroupChats \<in> F \<Longrightarrow> only F c (c\<lparr>cs_group_chats := x12\<rparr>)"
  "FRandom \<in> F \<Longrightarrow> only F c (c\<lparr>cs_random := x13\<rparr>)"
  "FDevices \<in> F \<Longrightarrow> only F c (c\<lparr>cs_devices := x14\<rparr>)"
  "FKnown \<in> F \<Longrightarrow> only F c (c\<lparr>cs_known := x15\<rparr>)"
  "FBlocked \<in> F \<Longrightarrow> only F c (c\<lparr>cs_blocked := x16\<rparr>)"
  "FSettings \<in> F \<Longrightarrow> only F c (c\<lparr>cs_settings := x17\<rparr>)"
  "FFailures \<in> F \<Longrightarrow> only F c (c\<lparr>cs_failures := x18\<rparr>)"
  "FFailures \<in> F \<Longrightarrow> only F c (c\<lparr>cs_failureOrder := x19\<rparr>)"
  "FFailures \<in> F \<Longrightarrow> only F c (c\<lparr>cs_failures := x18, cs_failureOrder := x19\<rparr>)"
  by (auto simp: only_def elim!: same_file.elims)

named_theorems footprints "what an operation may change"

lemma foot_none [footprints]:
  "keeps (only F) (safeElement e)" "keeps (only F) Identity_client" "keeps (only F) (WasMessageProcessed i)"
  "keeps (only F) (client_Session peer k)" "keeps (only F) (OneTimePrekey_client n)" "keeps (only F) (Conversation_client peer)"
  "keeps (only F) (get_health peer)" "keeps (only F) (IsPeerKnown peer)" "keeps (only F) (IsPeerBlocked peer)"
  "keeps (only F) (client_Messages chat)" "keeps (only F) (client_MessageExists chat i)" "keeps (only F) (client_LastMessage w chat)"
  "keeps (only F) (mediaPath chat i suffix)" "keeps (only F) ReceiptsEnabled" "keeps (only F) (peerDevice peer)"
  "keeps (only F) (groupPeersFor gid)" "keeps (only F) (GroupState gid)" "keeps (only F) (heldEvents gid)"
  "keeps (only F) (GroupChat_client gid)"
  by (simp_all add: keeps_def safeElement_def Identity_client_def WasMessageProcessed_def client_Session_def
      OneTimePrekey_client_def Conversation_client_def get_health_def IsPeerKnown_def IsPeerBlocked_def client_Messages_def
      client_MessageExists_def client_LastMessage_def mediaPath_def ReceiptsEnabled_def peerDevice_def groupPeersFor_def
      GroupState_def heldEvents_def GroupChat_client_def op_defs split: sum.split option.split)

lemma foot_random [footprints]: "FRandom \<in> F \<Longrightarrow> keeps (only F) newMessageID"
  by (auto simp: keeps_def newMessageID_def only_field split: list.split)

lemma only_processed: "FProcessed \<in> F \<Longrightarrow> only F c (record_processed i c)"
  by (auto simp: only_def record_processed_def evictProcessed_def compactProcessed_def Let_def elim!: same_file.elims)

lemma only_failures:
  "FFailures \<in> F \<Longrightarrow> only F c (saveFailures c)" "FFailures \<in> F \<Longrightarrow> only F c (bound_failures c)"
  by (simp_all add: saveFailures_def bound_failures_def Let_def only_field)

lemma foot_mark [footprints]: "FProcessed \<in> F \<Longrightarrow> FFailures \<in> F \<Longrightarrow> keeps (only F) (MarkMessageProcessed i)"
  unfolding MarkMessageProcessed_def Let_def
  by (rule keeps_change)
    (auto intro: only_processed only_trans [OF only_field(18) only_failures(1)]
      only_trans [OF only_processed only_trans [OF only_field(18) only_failures(1)]])

lemma foot_failure [footprints]: "FFailures \<in> F \<Longrightarrow> keeps (only F) (RecordDecryptFailure i)"
  by (auto simp: keeps_def RecordDecryptFailure_def Let_def saveFailures_def bound_failures_def only_def elim!: same_file.elims)

lemma foot_sessions [footprints]:
  "FSessions \<in> F \<Longrightarrow> keeps (only F) (SetSession peer k s)" "FSessions \<in> F \<Longrightarrow> keeps (only F) (DeleteSession peer k)"
  "FPrekeys \<in> F \<Longrightarrow> keeps (only F) (ConsumeOneTimePrekey_client n)"
  unfolding SetSession_def DeleteSession_def ConsumeOneTimePrekey_client_def
  by (intro touched_rules footprints keeps_change only_field; assumption)+

lemma foot_health [footprints]:
  "FHealth \<in> F \<Longrightarrow> keeps (only F) (writeHealth peer h)" "FHealth \<in> F \<Longrightarrow> keeps (only F) (ClearDesyncEvidence peer)"
  unfolding writeHealth_def ClearDesyncEvidence_def by (intro touched_rules footprints keeps_change only_field; assumption)+

lemma foot_evidence [footprints]:
  "FHealth \<in> F \<Longrightarrow> keeps (only F) (RecordDesyncEvidence peer at)" "keeps (only F) (ShouldAutoRekey peer now)"
  unfolding RecordDesyncEvidence_def ShouldAutoRekey_def Let_def
  by (intro touched_rules footprints; assumption)+

lemma foot_convos [footprints]: "FConvos \<in> F \<Longrightarrow> keeps (only F) (PutConversation v)"
  unfolding PutConversation_def by (intro touched_rules footprints keeps_change only_field; assumption)

lemma foot_logs [footprints]:
  "FLogs \<in> F \<Longrightarrow> keeps (only F) (update_log chat g)"
  unfolding update_log_def by (intro touched_rules footprints keeps_change only_field; assumption)

lemma foot_append [footprints]: "FLogs \<in> F \<Longrightarrow> keeps (only F) (client_AppendMessage chat m)"
  unfolding client_AppendMessage_def by (intro touched_rules footprints; assumption)

lemma foot_system_line [footprints]:
  "FLogs \<in> F \<Longrightarrow> FRandom \<in> F \<Longrightarrow> keeps (only F) (append_system_line chat text at)"
  unfolding append_system_line_def by (intro touched_rules footprints; assumption)

lemma foot_thumb [footprints]: "FMedia \<in> F \<Longrightarrow> keeps (only F) (WriteAttachmentThumb chat i thumb)"
  unfolding WriteAttachmentThumb_def by (intro touched_rules footprints keeps_change only_field; assumption)

lemma foot_profile [footprints]: "FProfiles \<in> F \<Longrightarrow> keeps (only F) (updateProfile peer g)"
  unfolding updateProfile_def by (intro touched_rules footprints keeps_change only_field; assumption)

lemma foot_claim [footprints]: "FProfiles \<in> F \<Longrightarrow> keeps (only F) (applyProfileClaim P peer co)"
  unfolding applyProfileClaim_def holdProfileClaim_def by (intro touched_rules footprints; assumption)

lemma foot_group_peers [footprints]:
  "FGroupPeers \<in> F \<Longrightarrow> keeps (only F) (updateGroupPeers gid x g)"
  unfolding updateGroupPeers_def
  by (intro touched_rules footprints keeps_change only_field; assumption)

lemma foot_hash [footprints]: "FGroupPeers \<in> F \<Longrightarrow> keeps (only F) (RecordGroupPeerStateHash gid acc h)"
  unfolding RecordGroupPeerStateHash_def by (intro touched_rules footprints; assumption)

lemma foot_groups [footprints]:
  "FGroups \<in> F \<Longrightarrow> keeps (only F) (PutGroupState gid st)" "FHeld \<in> F \<Longrightarrow> keeps (only F) (holdPremature gid batch result)"
  "FGroupChats \<in> F \<Longrightarrow> keeps (only F) (PutGroupChat g)"
  unfolding PutGroupState_def holdPremature_def PutGroupChat_def Let_def
  by (intro touched_rules footprints keeps_change only_field; assumption)+

lemma foot_lines [footprints]: "FLogs \<in> F \<Longrightarrow> FRandom \<in> F \<Longrightarrow> keeps (only F) (appendGroupSystemLines gid ls at)"
  unfolding appendGroupSystemLines_def
  by (induction ls arbitrary: at) (simp_all add: touched.keeps_same touched.keeps_chain foot_system_line)

lemma foot_fold [footprints]: "FGroups \<in> F \<Longrightarrow> FHeld \<in> F \<Longrightarrow> keeps (only F) (fold_control P content)"
  unfolding fold_control_def Let_def by (intro touched_rules footprints; assumption)

lemma foot_announce [footprints]:
  "FLogs \<in> F \<Longrightarrow> FRandom \<in> F \<Longrightarrow> FGroupChats \<in> F \<Longrightarrow> keeps (only F) (announce_change P quote out0 stored st batch now)"
  unfolding announce_change_def Let_def by (intro touched_rules footprints; assumption)

lemma foot_control [footprints]:
  "{FLogs, FRandom, FGroupChats, FGroups, FHeld, FGroupPeers} \<subseteq> F \<Longrightarrow> keeps (only F) (ApplyGroupControl P quote content sender now)"
  unfolding ApplyGroupControl_def Let_def by (intro touched_rules footprints) auto

lemma foot_file_line [footprints]: "FLogs \<in> F \<Longrightarrow> FMedia \<in> F \<Longrightarrow> keeps (only F) (file_line chat line)"
  unfolding file_line_def by (intro touched_rules footprints; assumption)

lemma foot_group_message [footprints]:
  "{FLogs, FRandom, FMedia, FGroupChats} \<subseteq> F \<Longrightarrow> keeps (only F) (storeGroupMessage content sender now openChat)"
  unfolding storeGroupMessage_def Let_def by (intro touched_rules footprints) auto

lemma foot_blocked [footprints]:
  "{FLogs, FRandom} \<subseteq> F \<Longrightarrow> keeps (only F) (recordBlockedGroupMessage w gid sender now)"
  unfolding recordBlockedGroupMessage_def by (intro touched_rules footprints) auto

lemma foot_receipts [footprints]:
  "FGroupChats \<in> F \<Longrightarrow> keeps (only F) (recordMemberReceipt gid acc content)"
  "FConvos \<in> F \<Longrightarrow> keeps (only F) (recordReceipt peer content)"
  unfolding recordMemberReceipt_def recordReceipt_def Let_def by (intro touched_rules footprints; assumption)+

lemma foot_markers [footprints]:
  "FLogs \<in> F \<Longrightarrow> FRandom \<in> F \<Longrightarrow> keeps (only F) (markRekeyInTranscript peer content now)"
  "FLogs \<in> F \<Longrightarrow> FRandom \<in> F \<Longrightarrow> keeps (only F) (markRenameInTranscript peer co now)"
  unfolding markRekeyInTranscript_def markRenameInTranscript_def by (intro touched_rules footprints; assumption)+

lemma foot_store_text [footprints]:
  "{FLogs, FRandom, FMedia, FConvos} \<subseteq> F \<Longrightarrow> keeps (only F) (storeIncomingText res msg content openChat now)"
  unfolding storeIncomingText_def Let_def by (intro touched_rules footprints) auto

lemma foot_group_text [footprints]:
  "{FLogs, FRandom, FMedia, FGroupChats, FGroupPeers} \<subseteq> F \<Longrightarrow> keeps (only F) (receive_group_text w res peer content openChat now)"
  unfolding receive_group_text_def Let_def by (intro touched_rules footprints) auto

lemma foot_receive_receipt [footprints]:
  "{FConvos, FGroupChats} \<subseteq> F \<Longrightarrow> keeps (only F) (receive_receipt res peer content)"
  unfolding receive_receipt_def Let_def by (intro touched_rules footprints) auto

text \<open>Everything the content of an opened envelope may change.\<close>

definition content_files :: "account_file set" where
  "content_files = {FLogs, FRandom, FMedia, FConvos, FGroupChats, FGroupPeers, FGroups, FHeld}"

lemma foot_dispatch [footprints]:
  "content_files \<subseteq> F \<Longrightarrow> keeps (only F) (dispatch P quote w res msg content openChat now)"
  unfolding dispatch_def Let_def content_files_def
  by (cases "ct_Kind content") (auto intro!: touched_rules footprints)

lemma foot_settle [footprints]:
  "{FProcessed, FFailures, FHealth, FPrekeys, FLogs, FRandom, FProfiles} \<subseteq> F \<Longrightarrow>
    keeps (only F) (settle_opened P msg content effect now)"
  unfolding settle_opened_def Let_def by (intro touched_rules footprints) auto

lemma foot_give_up [footprints]: "{FFailures, FHealth} \<subseteq> F \<Longrightarrow> keeps (only F) (giveUpOnEnvelope msg now cause)"
  unfolding giveUpOnEnvelope_def Let_def by (intro touched_rules footprints) auto

section \<open>Opening an envelope changes nothing but one session\<close>

lemma foot_open [footprints]:
  "keeps (only F) (open_envelope eo)" "keeps (only F) (load_own_keys im)" "keeps (only F) (choose_session P dec draw peer env keys held)"
proof -
  have p: "keeps (only F) (private_key what b)" for what b
    unfolding private_key_def by (intro touched_rules)
  show "keeps (only F) (open_envelope eo)"
    unfolding open_envelope_def by (intro touched_rules)
  show "keeps (only F) (load_own_keys im)"
    unfolding load_own_keys_def find_one_time_def by (intro touched_rules footprints p)
  show "keeps (only F) (choose_session P dec draw peer env keys held)"
    unfolding choose_session_def open_with_held_def Let_def by (intro touched_rules footprints)
qed

lemma chain_Inr: "chain m f c = (Inr y, c') \<longleftrightarrow> (\<exists>x c1. m c = (Inr x, c1) \<and> f x c1 = (Inr y, c'))"
  by (auto simp: chain_def split: prod.splits sum.splits)

lemma chain_Inl: "chain m f c = (Inl e, c') \<longleftrightarrow> m c = (Inl e, c') \<or> (\<exists>x c1. m c = (Inr x, c1) \<and> f x c1 = (Inl e, c'))"
  by (auto simp: chain_def split: prod.splits sum.splits)

lemma chain_run: "m c = (Inr x, c') \<Longrightarrow> chain m f c = f x c'"
  by (simp add: chain_def)

lemma chain_stop: "m c = (Inl e, c') \<Longrightarrow> chain m f c = (Inl e, c')"
  by (simp add: chain_def)

lemma only_same: "only F c d \<Longrightarrow> f \<notin> F \<Longrightarrow> same_file f c d"
  by (auto simp: only_def)

lemma unchanged: "keeps (only {}) m \<Longrightarrow> m c = (r, c') \<Longrightarrow> c' = c"
  by (metis keeps_def only_empty snd_conv)

lemma client_Session_Inr:
  "client_Session peer k c = (Inr so, c') \<longleftrightarrow> safe_element peer \<and> c' = c \<and> so = assoc_get (cs_sessions c) (peer, k)"
  by (auto simp: client_Session_def safeElement_def op_defs)

lemma SetSession_safe:
  "safe_element peer \<Longrightarrow> SetSession peer k s c = (Inr (), c\<lparr>cs_sessions := assoc_put (cs_sessions c) (peer, k) s\<rparr>)"
  by (simp add: SetSession_def safeElement_def op_defs)

text \<open>
  An attempt that fails leaves the account exactly as it was; one that succeeds has written one session
  of the sender, the one it names, and nothing else.
\<close>

lemma client_decrypt_Inl:
  assumes "client_decrypt P dec draw msg c = (Inl e, c')"
  shows "c' = c"
proof -
  define peer where "peer = in_SenderAccountID msg"
  note un = unchanged [OF foot_open(1)] unchanged [OF foot_open(2)] unchanged [OF foot_open(3)] unchanged [OF foot_none(4)]
  show ?thesis
    using assms unfolding client_decrypt_def Let_def peer_def [symmetric]
    by (auto simp: chain_Inl SetSession_safe ret_def split: prod.splits dest!: un client_Session_Inr [THEN iffD1])
qed

lemma client_decrypt_Inr:
  assumes "client_decrypt P dec draw msg c = (Inr (content, effect), c')"
  shows "\<exists>env keys plaintext session. open_envelope (in_Payload msg) c = (Inr env, c) \<and> load_own_keys (oe_Initial env) c = (Inr keys, c)
    \<and> choose_session P dec draw (in_SenderAccountID msg) env keys
        (assoc_get (cs_sessions c) (in_SenderAccountID msg, Sending)) c = (Inr (plaintext, session, effect), c)
    \<and> content = DecodeContent dec plaintext \<and> safe_element (in_SenderAccountID msg)
    \<and> c' = c\<lparr>cs_sessions := assoc_put (cs_sessions c)
        (in_SenderAccountID msg, if se_keepOwnSending effect then Inbound else Sending) session\<rparr>"
proof -
  obtain env c1 where e: "open_envelope (in_Payload msg) c = (Inr env, c1)"
    and r1: "chain (load_own_keys (oe_Initial env)) (\<lambda>keys. chain (client_Session (in_SenderAccountID msg) Sending) (\<lambda>held.
      chain (choose_session P dec draw (in_SenderAccountID msg) env keys held) (\<lambda>(plaintext, session, effect).
      chain (SetSession (in_SenderAccountID msg) (if se_keepOwnSending effect then Inbound else Sending) session) (\<lambda>_.
      ret (DecodeContent dec plaintext, effect))))) c1 = (Inr (content, effect), c')"
    using assms unfolding client_decrypt_def Let_def by (auto simp: chain_Inr)
  have c1: "c1 = c" using unchanged [OF foot_open(1) e] .
  obtain keys c2 where k: "load_own_keys (oe_Initial env) c1 = (Inr keys, c2)"
    and r2: "chain (client_Session (in_SenderAccountID msg) Sending) (\<lambda>held.
      chain (choose_session P dec draw (in_SenderAccountID msg) env keys held) (\<lambda>(plaintext, session, effect).
      chain (SetSession (in_SenderAccountID msg) (if se_keepOwnSending effect then Inbound else Sending) session) (\<lambda>_.
      ret (DecodeContent dec plaintext, effect)))) c2 = (Inr (content, effect), c')"
    using r1 by (auto simp: chain_Inr)
  have c2: "c2 = c" using unchanged [OF foot_open(2) k] c1 by simp
  obtain held c3 where h: "client_Session (in_SenderAccountID msg) Sending c = (Inr held, c3)"
    and r3: "chain (choose_session P dec draw (in_SenderAccountID msg) env keys held) (\<lambda>(plaintext, session, effect).
      chain (SetSession (in_SenderAccountID msg) (if se_keepOwnSending effect then Inbound else Sending) session) (\<lambda>_.
      ret (DecodeContent dec plaintext, effect))) c3 = (Inr (content, effect), c')"
    using r2 c2 by (auto simp: chain_Inr)
  from h have h': "safe_element (in_SenderAccountID msg)" "c3 = c" "held = assoc_get (cs_sessions c) (in_SenderAccountID msg, Sending)"
    by (auto simp: client_Session_Inr)
  obtain plaintext session effect' c4 where s: "choose_session P dec draw (in_SenderAccountID msg) env keys held c = (Inr (plaintext, session, effect'), c4)"
    and r4: "chain (SetSession (in_SenderAccountID msg) (if se_keepOwnSending effect' then Inbound else Sending) session) (\<lambda>_.
      ret (DecodeContent dec plaintext, effect')) c4 = (Inr (content, effect), c')"
    using r3 h' by (auto simp: chain_Inr)
  have c4: "c4 = c" using unchanged [OF foot_open(3) s] .
  have "effect' = effect" "content = DecodeContent dec plaintext"
    "c' = c\<lparr>cs_sessions := assoc_put (cs_sessions c) (in_SenderAccountID msg, if se_keepOwnSending effect then Inbound else Sending) session\<rparr>"
    using r4 h'(1) by (auto simp: chain_Inr SetSession_safe ret_def c4)
  then show ?thesis using e k s h' c1 c2 c4 by auto
qed

end
