(* ===== verification/Client_Net.thy ===== *)
theory Client_Net
  imports Client_Receive Devicecert
begin

text \<open>
  One request from the client to a server (\<open>pkg/client/transport.go\<close>, \<open>errors.go\<close>,
  \<open>serverstatus.go\<close>, \<open>messages_api.go\<close>). The world around the client is what the
  network will answer, what \<open>crypto/rand\<close> will give for keys, and the requests made so far. An answer
  is a status and a body, or nothing where the exchange itself failed. The JSON encoding is a parameter:
  the \<open>codec\<close> holds the encoder of each body and the decoder into each wire type, and the text an
  error or a quoted name is printed as. One operation reads the
  clock once: \<open>now\<close> is an argument.
\<close>

section \<open>Wire types\<close>

record deviceWire =
  dw_DeviceID :: string
  dw_DevicePubKey :: string
  dw_IssuedAt :: string
  dw_Signature :: string
  dw_Status :: string

record accountWire =
  aw_ID :: string
  aw_RootPubKey :: string
  aw_Devices :: "deviceWire list"

record dhIdentityCertWire =
  dhw_DHPubKey :: string
  dhw_IssuedAt :: string
  dhw_Signature :: string

record signedPrekeyWire =
  spw_KeyID :: "32 word"
  spw_DHIdentityPubKey :: string
  spw_PubKey :: string
  spw_IssuedAt :: string
  spw_Signature :: string

record oneTimePrekeyWire =
  otw_KeyID :: "32 word"
  otw_PubKey :: string

record uploadPrekeysBody =
  upb_DHIdentityCert :: "dhIdentityCertWire option"
  upb_SignedPrekey :: signedPrekeyWire
  upb_OneTimePrekeys :: "oneTimePrekeyWire list"
  upb_Replace :: bool

record prekeyBundleWire =
  bw_DeviceID :: string
  bw_DHIdentityPubKey :: string
  bw_DHIdentityCert :: dhIdentityCertWire
  bw_SignedPrekey :: signedPrekeyWire
  bw_OneTimePrekey :: "oneTimePrekeyWire option"
  bw_Omitted :: string

record serverStatusWire =
  sw_FederationEnabled :: "bool option"
  sw_BlobsEnabled :: bool
  sw_MaxBlobBytes :: int
  sw_MaxBlobRecipients :: "int option"
  sw_BatchMessages :: bool
  sw_MaxBatchMessages :: int
  sw_ReportsEnabled :: bool

record incomingMessageWire =
  iw_MessageID :: string
  iw_SenderAccountID :: string
  iw_SenderDeviceID :: string
  iw_SentAt :: string
  iw_Payload :: "Envelope option"

text \<open>The self-certifying sender of a federated request.\<close>

record senderCert =
  sc_AccountID :: string
  sc_RootPubKey :: string
  sc_DeviceID :: string
  sc_DevicePubKey :: string
  sc_IssuedAt :: string
  sc_Signature :: string

record outgoing =
  og_MessageID :: string
  og_RecipientAccountID :: string
  og_RecipientDeviceID :: string
  og_Payload :: Envelope

record registerBody =
  rb_RootPubKey :: string
  rb_DeviceID :: string
  rb_DevicePubKey :: string
  rb_DeviceCertIssuedAt :: string
  rb_DeviceCertSignature :: string
  rb_InviteCode :: "string option"

record bootstrapBody =
  bb_SetupToken :: string
  bb_RootPubKey :: string
  bb_DeviceID :: string
  bb_DevicePubKey :: string
  bb_DeviceCertIssuedAt :: string
  bb_DeviceCertSignature :: string

text \<open>The bodies of \<open>reports.go\<close>: filing at home, filing elsewhere with the reporter's home server, and taking back elsewhere.\<close>

record reportBody =
  rpb_reported :: string
  rpb_category :: string
  rpb_evidence :: "Claim list"

datatype request_body =
    BodyUpload uploadPrekeysBody
  | BodyClaim senderCert
  | BodyMessage outgoing
  | BodyFederated senderCert outgoing
  | BodyBatch "senderCert option" "outgoing list"
  | BodyRegister registerBody
  | BodyBootstrap bootstrapBody
  | BodyReport reportBody
  | BodyFederatedReport senderCert string reportBody
  | BodyFederatedWithdraw senderCert

record codec =
  jc_valid :: "bytes \<Rightarrow> bool"
  jc_error :: "bytes \<Rightarrow> string option"
  jc_body :: "request_body \<Rightarrow> bytes"
  jc_account :: "bytes \<Rightarrow> accountWire option"
  jc_bundle :: "bytes \<Rightarrow> prekeyBundleWire option"
  jc_remaining :: "bytes \<Rightarrow> int option"
  jc_status :: "bytes \<Rightarrow> serverStatusWire option"
  jc_messages :: "bytes \<Rightarrow> incomingMessageWire list option"
  jc_results :: "bytes \<Rightarrow> (string \<times> string) list option"
  jc_blob :: "bytes \<Rightarrow> string option"
  jc_content :: "bytes \<Rightarrow> contentWire option"
  jc_encode :: "contentWire \<Rightarrow> bytes"
  jc_error_text :: "client_error \<Rightarrow> string"
  jc_quote :: "string \<Rightarrow> string"

section \<open>The world\<close>

record sent =
  st_Server :: string
  st_Request :: http_request
  st_Value :: "request_body option"

record world =
  wo_client :: client
  wo_replies :: "(nat \<times> bytes) option list"
  wo_keys :: "bytes list"
  wo_sent :: "sent list"

type_synonym 'a net_op = "(world, 'a) oper"

definition on_client :: "'a client_op \<Rightarrow> 'a net_op" where
  "on_client m w = (case m (wo_client w) of (r, c) \<Rightarrow> (r, w\<lparr>wo_client := c\<rparr>))"

text \<open>Runs an operation and goes on with its error as a value.\<close>

definition attempt :: "('s, 'a) oper \<Rightarrow> ('s, client_error + 'a) oper" where
  "attempt m w = (case m w of (r, w') \<Rightarrow> (Inr r, w'))"

definition best_effort :: "('s, 'a) oper \<Rightarrow> ('s, unit) oper" where
  "best_effort m = chain (attempt m) (\<lambda>_. ret ())"

definition drawKey :: "bytes net_op" where
  "drawKey w = (case wo_keys w of [] \<Rightarrow> (Inl ErrRandom, w) | b # bs \<Rightarrow> (Inr b, w\<lparr>wo_keys := bs\<rparr>))"

definition exchange :: "sent \<Rightarrow> (nat \<times> bytes) net_op" where
  "exchange s w = (case wo_replies w of
     [] \<Rightarrow> (Inl ErrNetwork, w\<lparr>wo_sent := wo_sent w @ [s]\<rparr>)
   | None # rs \<Rightarrow> (Inl ErrNetwork, w\<lparr>wo_sent := wo_sent w @ [s], wo_replies := rs\<rparr>)
   | Some r # rs \<Rightarrow> (Inr r, w\<lparr>wo_sent := wo_sent w @ [s], wo_replies := rs\<rparr>))"

section \<open>What an error says (errors.go)\<close>

fun api_error :: "client_error \<Rightarrow> (nat \<times> string) option" where
  "api_error (ErrAPI status code) = Some (status, code)"
| "api_error (ErrBlobUnavailable e) = api_error e"
| "api_error (ErrJoin a b) = (case api_error a of None \<Rightarrow> api_error b | Some x \<Rightarrow> Some x)"
| "api_error _ = None"

definition IsStaleDevice :: "client_error \<Rightarrow> bool" where
  "IsStaleDevice e = (case api_error e of None \<Rightarrow> False
     | Some (status, code) \<Rightarrow> status = 404 \<and> code \<noteq> ''federation_disabled'')"

definition api_status :: "nat \<Rightarrow> client_error \<Rightarrow> bool" where
  "api_status n e = (case api_error e of None \<Rightarrow> False | Some (status, code) \<Rightarrow> status = n)"

fun not_freizone :: "client_error \<Rightarrow> bool" where
  "not_freizone (ErrNotFreizone n) = True"
| "not_freizone (ErrBlobUnavailable e) = not_freizone e"
| "not_freizone (ErrJoin a b) = (not_freizone a \<or> not_freizone b)"
| "not_freizone _ = False"

fun network_error :: "client_error \<Rightarrow> bool" where
  "network_error ErrNetwork = True"
| "network_error (ErrBlobUnavailable e) = network_error e"
| "network_error (ErrJoin a b) = (network_error a \<or> network_error b)"
| "network_error _ = False"

definition IsUnreachable :: "client_error \<Rightarrow> bool" where
  "IsUnreachable e \<longleftrightarrow> api_error e = None \<and> \<not> not_freizone e \<and> network_error e"

definition IsStaleRecipientStatus :: "string \<Rightarrow> bool" where
  "IsStaleRecipientStatus status \<longleftrightarrow> status = ''unknown_recipient''"

definition IsDeliveredStatus :: "string \<Rightarrow> bool" where
  "IsDeliveredStatus status \<longleftrightarrow> status = ''queued'' \<or> status = ''duplicate''"

section \<open>One request (transport.go)\<close>

datatype authMode = authNone | authDevice | authFederated

record request =
  rq_method :: string
  rq_path :: string
  rq_query :: string
  rq_body :: "request_body option"
  rq_server :: string
  rq_auth :: authMode
  rq_noContent :: bool

definition plain_request :: "string \<Rightarrow> string \<Rightarrow> authMode \<Rightarrow> request" where
  "plain_request method path auth = \<lparr>rq_method = method, rq_path = path, rq_query = [], rq_body = None, rq_server = [],
     rq_auth = auth, rq_noContent = False\<rparr>"

definition own_key_id :: "authMode \<Rightarrow> client_identity \<Rightarrow> string" where
  "own_key_id auth i = (if auth = authFederated then base64_encode (ci_DevicePub i) else ci_DeviceID i)"

definition signature_headers :: "string \<Rightarrow> time \<Rightarrow> string \<Rightarrow> string \<Rightarrow> (string \<times> string) list" where
  "signature_headers keyID ts nonce sig =
     [(HeaderKeyID, keyID), (HeaderTimestamp, FormatTimestamp ts), (HeaderNonce, nonce), (HeaderSignature, sig)]"

definition signRequest :: "platform \<Rightarrow> request \<Rightarrow> bytes \<Rightarrow> client_identity \<Rightarrow> time \<Rightarrow> (string \<times> string) list net_op" where
  "signRequest P r body i now = (if rq_auth r = authNone then ret []
     else chain (on_client newMessageID) (\<lambda>nonce.
       let keyID = own_key_id (rq_auth r) i in
       ret (signature_headers keyID now nonce
         (httpsig_Sign P (rq_method r) (rq_path r) (rq_query r) body keyID now nonce (ci_DevicePriv i)))))"

definition looks_like_json :: "codec \<Rightarrow> bytes \<Rightarrow> bool" where
  "looks_like_json J body = (let t = trim_space body in
     t \<noteq> [] \<and> (hd t = CHR 0x7B \<or> hd t = CHR 0x5B) \<and> jc_valid J t)"

definition apiErrorFrom :: "codec \<Rightarrow> nat \<Rightarrow> bytes \<Rightarrow> client_error" where
  "apiErrorFrom J status body = ErrAPI status (case jc_error J body of None \<Rightarrow> [] | Some code \<Rightarrow> code)"

definition success :: "nat \<Rightarrow> bool" where
  "success status \<longleftrightarrow> 200 \<le> status \<and> status \<le> 299"

definition statusOnlyResponse :: "codec \<Rightarrow> nat \<Rightarrow> bytes \<Rightarrow> bytes net_op" where
  "statusOnlyResponse J status body = (if success status then ret body
     else if \<not> looks_like_json J body then fail (ErrNotFreizone status)
     else fail (apiErrorFrom J status (trim_space body)))"

definition decodeResponse :: "codec \<Rightarrow> nat \<Rightarrow> bytes \<Rightarrow> bytes net_op" where
  "decodeResponse J status body = (if \<not> looks_like_json J body then fail (ErrNotFreizone status)
     else if \<not> success status then fail (apiErrorFrom J status (trim_space body))
     else ret body)"

text \<open>The body of a successful answer; what it decodes into is the caller's.\<close>

definition client_do :: "platform \<Rightarrow> codec \<Rightarrow> time \<Rightarrow> request \<Rightarrow> bytes net_op" where
  "client_do P J now r =
     chain (on_client Identity_client) (\<lambda>i.
       let server = (if rq_server r = [] then ci_Server i else rq_server r);
           body = (case rq_body r of None \<Rightarrow> [] | Some b \<Rightarrow> jc_body J b)
       in chain (signRequest P r body i now) (\<lambda>headers.
          chain (exchange \<lparr>st_Server = server,
              st_Request = \<lparr>Method = rq_method r, URLPath = rq_path r, RawQuery = rq_query r,
                Headers = (''Content-Type'', ''application/json'') # headers, Body = Some body\<rparr>,
              st_Value = rq_body r\<rparr>) (\<lambda>(status, answer).
          if rq_noContent r then statusOnlyResponse J status answer else decodeResponse J status answer)))"

definition decoded :: "'a option \<Rightarrow> 'a net_op" where
  "decoded v = (case v of None \<Rightarrow> fail (ErrText ''decoding response'') | Some x \<Rightarrow> ret x)"

definition do_json :: "platform \<Rightarrow> codec \<Rightarrow> time \<Rightarrow> (bytes \<Rightarrow> 'a option) \<Rightarrow> request \<Rightarrow> 'a net_op" where
  "do_json P J now dec r = chain (client_do P J now r) (\<lambda>answer. decoded (dec answer))"

definition do_unit :: "platform \<Rightarrow> codec \<Rightarrow> time \<Rightarrow> request \<Rightarrow> unit net_op" where
  "do_unit P J now r = chain (client_do P J now r) (\<lambda>_. ret ())"

section \<open>A server's capabilities (serverstatus.go)\<close>

record ServerStatus =
  ss_FederationEnabled :: bool
  ss_BlobsEnabled :: bool
  ss_MaxBlobBytes :: int
  ss_MaxBlobRecipients :: int
  ss_BatchMessages :: bool
  ss_MaxBatchMessages :: int
  ss_ReportsEnabled :: bool

definition status_resolve :: "serverStatusWire \<Rightarrow> ServerStatus" where
  "status_resolve w = \<lparr>
     ss_FederationEnabled = (case sw_FederationEnabled w of None \<Rightarrow> True | Some b \<Rightarrow> b),
     ss_BlobsEnabled = sw_BlobsEnabled w, ss_MaxBlobBytes = sw_MaxBlobBytes w,
     ss_MaxBlobRecipients = (case sw_MaxBlobRecipients w of None \<Rightarrow> 1 | Some n \<Rightarrow> n),
     ss_BatchMessages = sw_BatchMessages w, ss_MaxBatchMessages = sw_MaxBatchMessages w,
     ss_ReportsEnabled = sw_ReportsEnabled w\<rparr>"

definition client_ServerStatus :: "platform \<Rightarrow> codec \<Rightarrow> time \<Rightarrow> string \<Rightarrow> ServerStatus net_op" where
  "client_ServerStatus P J now server = chain
     (do_json P J now (jc_status J) ((plain_request ''GET'' ''/v1/server-status'' authNone)\<lparr>rq_server := server\<rparr>))
     (\<lambda>w. ret (status_resolve w))"

section \<open>The queue (messages\_api.go)\<close>

definition message_resolve :: "incomingMessageWire \<Rightarrow> IncomingMessage option" where
  "message_resolve w = (let msg = \<lparr>in_MessageID = iw_MessageID w, in_SenderAccountID = iw_SenderAccountID w,
       in_SenderDeviceID = iw_SenderDeviceID w, in_SentAt = zero_time, in_Payload = iw_Payload w\<rparr> in
     if iw_SentAt w = [] then Some msg
     else case parse_rfc3339 (iw_SentAt w) of None \<Rightarrow> None | Some t \<Rightarrow> Some (msg\<lparr>in_SentAt := t\<rparr>))"

definition conflict_is_success :: "('s, unit) oper \<Rightarrow> nat \<Rightarrow> ('s, unit) oper" where
  "conflict_is_success m n = chain (attempt m) (\<lambda>r. case r of Inr _ \<Rightarrow> ret ()
     | Inl e \<Rightarrow> if api_status n e then ret () else fail e)"

definition SendMessage :: "platform \<Rightarrow> codec \<Rightarrow> time \<Rightarrow> outgoing \<Rightarrow> unit net_op" where
  "SendMessage P J now og = conflict_is_success
     (do_unit P J now ((plain_request ''POST'' ''/v1/messages'' authDevice)\<lparr>rq_body := Some (BodyMessage og)\<rparr>)) 409"

fun resolve_all :: "incomingMessageWire list \<Rightarrow> IncomingMessage list option" where
  "resolve_all [] = Some []"
| "resolve_all (w # ws) = (case message_resolve w of None \<Rightarrow> None
     | Some m \<Rightarrow> (case resolve_all ws of None \<Rightarrow> None | Some ms \<Rightarrow> Some (m # ms)))"

definition FetchMessages :: "platform \<Rightarrow> codec \<Rightarrow> time \<Rightarrow> IncomingMessage list net_op" where
  "FetchMessages P J now = chain (do_json P J now (jc_messages J) (plain_request ''GET'' ''/v1/messages'' authDevice))
     (\<lambda>ws. case resolve_all ws of None \<Rightarrow> fail (ErrText ''parsing sent_at'') | Some ms \<Rightarrow> ret ms)"

definition client_AckMessage :: "platform \<Rightarrow> codec \<Rightarrow> time \<Rightarrow> string \<Rightarrow> unit net_op" where
  "client_AckMessage P J now i = conflict_is_success
     (do_unit P J now (plain_request ''DELETE'' (''/v1/messages/'' @ i) authDevice)) 404"

end
