(* ===== verification/Client_Peers.thy ===== *)
theory Client_Peers
  imports Client_Net
begin

text \<open>
  Finding a device to talk to and the keys to start a session with it
  (\<open>pkg/client/peers_resolve.go\<close>, \<open>prekeys_api.go\<close>), and keeping this device's own prekeys on
  its server.
\<close>

section \<open>From an account to a device (peers\_resolve.go)\<close>

record PeerEndpoint =
  pe_AccountID :: string
  pe_Server :: string
  pe_DeviceID :: string
  pe_DevicePub :: bytes

definition Federated :: "PeerEndpoint \<Rightarrow> bool" where
  "Federated p \<longleftrightarrow> pe_Server p \<noteq> []"

text \<open>A device counts if it is active, readable, and certified by the account's root key.\<close>

definition device_endpoint :: "platform \<Rightarrow> string \<Rightarrow> bytes \<Rightarrow> string \<Rightarrow> deviceWire \<Rightarrow> PeerEndpoint option" where
  "device_endpoint P acc rootPub server d =
     (if dw_Status d \<noteq> ''active'' then None
      else case (base64_decode (dw_DevicePubKey d), parse_rfc3339 (dw_IssuedAt d), base64_decode (dw_Signature d)) of
        (Some devicePub, Some issuedAt, Some sig) \<Rightarrow>
          if device_cert_Verify P \<lparr>dc_AccountID = acc, dc_DeviceID = dw_DeviceID d, dc_DevicePubKey = devicePub,
               dc_IssuedAt = issuedAt, dc_Signature = sig\<rparr> rootPub \<noteq> Inr () then None
          else Some \<lparr>pe_AccountID = acc, pe_Server = server, pe_DeviceID = dw_DeviceID d, pe_DevicePub = devicePub\<rparr>
      | _ \<Rightarrow> None)"

fun first_device :: "platform \<Rightarrow> string \<Rightarrow> bytes \<Rightarrow> string \<Rightarrow> deviceWire list \<Rightarrow> PeerEndpoint option" where
  "first_device P acc rootPub server [] = None"
| "first_device P acc rootPub server (d # ds) = (case device_endpoint P acc rootPub server d of
     Some ep \<Rightarrow> Some ep | None \<Rightarrow> first_device P acc rootPub server ds)"

definition ResolvePeer :: "platform \<Rightarrow> codec \<Rightarrow> time \<Rightarrow> string \<Rightarrow> string \<Rightarrow> PeerEndpoint net_op" where
  "ResolvePeer P J now addressOrPrefix server =
     (let normalised = (case Normalize P addressOrPrefix of Inl _ \<Rightarrow> addressOrPrefix | Inr n \<Rightarrow> n) in
      chain (do_json P J now (jc_account J)
        ((plain_request ''GET'' (''/v1/accounts/'' @ normalised) authNone)\<lparr>rq_server := server\<rparr>)) (\<lambda>acc.
      case base64_decode (aw_RootPubKey acc) of None \<Rightarrow> fail (ErrText ''decoding the root key'')
      | Some rootPub \<Rightarrow> (case Address.Verify P (aw_ID acc) rootPub of
          Inl _ \<Rightarrow> fail (ErrText ''checking the account against its root key'')
        | Inr ok \<Rightarrow> if \<not> ok then fail (ErrText ''the account does not match the root key it was served with'')
            else case first_device P (aw_ID acc) rootPub server (aw_Devices acc) of
              None \<Rightarrow> fail (ErrText ''no active device with a certificate that verifies'')
            | Some ep \<Rightarrow> ret ep)))"

definition cache_endpoint :: "platform \<Rightarrow> PeerEndpoint \<Rightarrow> unit client_op" where
  "cache_endpoint P ep = putPeerDevice P (pe_AccountID ep)
     \<lparr>pd_Server = pe_Server ep, pd_DeviceID = pe_DeviceID ep, pd_DevicePub = pe_DevicePub ep\<rparr>"

definition endpointOn :: "platform \<Rightarrow> codec \<Rightarrow> time \<Rightarrow> string \<Rightarrow> string \<Rightarrow> PeerEndpoint net_op" where
  "endpointOn P J now peer server =
     chain (on_client (peerDevice peer)) (\<lambda>cached.
       let resolve = chain (ResolvePeer P J now peer server) (\<lambda>ep. chain (on_client (cache_endpoint P ep)) (\<lambda>_. ret ep)) in
       case cached of None \<Rightarrow> resolve
       | Some d \<Rightarrow> if pd_DeviceID d \<noteq> [] \<and> pd_DevicePub d \<noteq> []
           then ret \<lparr>pe_AccountID = peer, pe_Server = (if server = [] then pd_Server d else server),
                  pe_DeviceID = pd_DeviceID d, pe_DevicePub = pd_DevicePub d\<rparr>
           else resolve)"

definition peer_server :: "Conversation option \<Rightarrow> string" where
  "peer_server co = (case co of None \<Rightarrow> [] | Some v \<Rightarrow> cv_PeerServer v)"

definition Endpoint :: "platform \<Rightarrow> codec \<Rightarrow> time \<Rightarrow> string \<Rightarrow> PeerEndpoint net_op" where
  "Endpoint P J now peer = chain (on_client (Conversation_client peer)) (\<lambda>convo.
     endpointOn P J now peer (peer_server convo))"

definition StartConversation :: "platform \<Rightarrow> codec \<Rightarrow> time \<Rightarrow> string \<Rightarrow> string \<Rightarrow> Conversation net_op" where
  "StartConversation P J now addressOrPrefix server =
     chain (ResolvePeer P J now addressOrPrefix server) (\<lambda>ep.
     chain (on_client (Conversation_client (pe_AccountID ep))) (\<lambda>existing.
       let v = (case existing of None \<Rightarrow> new_conversation (pe_AccountID ep) | Some v \<Rightarrow> v)
             \<lparr>cv_PeerServer := pe_Server ep, cv_PendingApproval := False\<rparr>
       in chain (on_client (cache_endpoint P ep)) (\<lambda>_.
          chain (on_client (MarkPeerKnown (pe_AccountID ep))) (\<lambda>_.
          chain (on_client (PutConversation v)) (\<lambda>_. ret v)))))"

text \<open>Whether the server that would hold the account still knows it (\<open>groupsend.go\<close>).\<close>

definition accountIsGone :: "platform \<Rightarrow> codec \<Rightarrow> time \<Rightarrow> string \<Rightarrow> string \<Rightarrow> bool net_op" where
  "accountIsGone P J now server accountID =
     chain (on_client Identity_client) (\<lambda>i.
     chain (attempt (ResolvePeer P J now accountID (if server = ci_Server i then [] else server))) (\<lambda>r.
       case r of Inr _ \<Rightarrow> ret False | Inl e \<Rightarrow> if api_status 404 e then ret True else fail e))"

section \<open>Proving who sends (send.go)\<close>

definition signDeviceCert :: "platform \<Rightarrow> client_identity \<Rightarrow> time \<Rightarrow> senderCert net_op" where
  "signDeviceCert P i issuedAt =
     (case SignDeviceCertificate P (ci_AccountID i) (ci_DeviceID i) (ci_DevicePub i) issuedAt (ci_RootPriv i) of
        Inl _ \<Rightarrow> fail (ErrText ''signing device certificate'')
      | Inr cert \<Rightarrow> ret \<lparr>sc_AccountID = ci_AccountID i, sc_RootPubKey = base64_encode (ci_RootPub i),
          sc_DeviceID = ci_DeviceID i, sc_DevicePubKey = base64_encode (ci_DevicePub i),
          sc_IssuedAt = rfc3339 issuedAt, sc_Signature = base64_encode (dc_Signature cert)\<rparr>)"

section \<open>This device's own prekeys (prekeys\_api.go)\<close>

definition OneTimePrekeyBatch :: nat where "OneTimePrekeyBatch = 10"
definition OneTimePrekeyLowWaterMark :: int where "OneTimePrekeyLowWaterMark = 3"

definition signedPrekeyWireFor :: "platform \<Rightarrow> client_identity \<Rightarrow> time \<Rightarrow> signedPrekeyWire net_op" where
  "signedPrekeyWireFor P i now =
     (case SignSignedPrekeyCertificate P (ci_AccountID i) (ci_DeviceID i) (ci_SignedPrekeyID i) (ci_DHIdentityPub i)
         (ci_SignedPrekeyPub i) now (ci_DevicePriv i) of
        Inl _ \<Rightarrow> fail (ErrText ''signing signed prekey certificate'')
      | Inr cert \<Rightarrow> ret \<lparr>spw_KeyID = sp_KeyID cert, spw_DHIdentityPubKey = base64_encode (sp_DHIdentityPubKey cert),
          spw_PubKey = base64_encode (sp_PrekeyPubKey cert), spw_IssuedAt = rfc3339 (sp_IssuedAt cert),
          spw_Signature = base64_encode (sp_Signature cert)\<rparr>)"

definition dhCertWireFor :: "platform \<Rightarrow> client_identity \<Rightarrow> time \<Rightarrow> dhIdentityCertWire net_op" where
  "dhCertWireFor P i now =
     (case SignDHIdentityCertificate P (ci_AccountID i) (ci_DeviceID i) (ci_DHIdentityPub i) now (ci_DevicePriv i) of
        Inl _ \<Rightarrow> fail (ErrText ''signing dh identity certificate'')
      | Inr cert \<Rightarrow> ret \<lparr>dhw_DHPubKey = base64_encode (dh_DHPubKey cert), dhw_IssuedAt = rfc3339 (dh_IssuedAt cert),
          dhw_Signature = base64_encode (dh_Signature cert)\<rparr>)"

definition prekey_wire :: "prekeyFile \<Rightarrow> oneTimePrekeyWire" where
  "prekey_wire k = \<lparr>otw_KeyID = pf_KeyID k, otw_PubKey = base64_encode (pf_Pub k)\<rparr>"

text \<open>The counter is a \<open>uint32\<close>: it wraps.\<close>

fun mint_keys :: "platform \<Rightarrow> nat \<Rightarrow> client_identity \<Rightarrow> (client_identity \<times> prekeyFile list) net_op" where
  "mint_keys P 0 i = ret (i, [])"
| "mint_keys P (Suc n) i = chain drawKey (\<lambda>priv.
     let k = \<lparr>pf_KeyID = ci_NextOneTimePrekeyID i, pf_Pub = x25519_public P priv, pf_Priv = priv\<rparr>
     in chain (mint_keys P n (i\<lparr>ci_NextOneTimePrekeyID := ci_NextOneTimePrekeyID i + 1\<rparr>)) (\<lambda>(i', ks). ret (i', k # ks)))"

definition mintOneTimePrekeys :: "platform \<Rightarrow> client_identity \<Rightarrow> int \<Rightarrow> (client_identity \<times> oneTimePrekeyWire list) net_op" where
  "mintOneTimePrekeys P i n = (if n \<le> 0 then ret (i, [])
     else chain (mint_keys P (nat n) i) (\<lambda>(i', ks).
          chain (on_client (PutOneTimePrekeys ks)) (\<lambda>_. ret (i', map prekey_wire ks))))"

definition uploadPrekeys :: "platform \<Rightarrow> codec \<Rightarrow> time \<Rightarrow> client_identity \<Rightarrow> uploadPrekeysBody \<Rightarrow> unit net_op" where
  "uploadPrekeys P J now i body = do_unit P J now
     ((plain_request ''POST'' (''/v1/devices/'' @ ci_DeviceID i @ ''/prekeys'') authDevice)\<lparr>rq_body := Some (BodyUpload body)\<rparr>)"

definition RemainingOneTimePrekeys :: "platform \<Rightarrow> codec \<Rightarrow> time \<Rightarrow> int net_op" where
  "RemainingOneTimePrekeys P J now = chain (on_client Identity_client) (\<lambda>i.
     do_json P J now (jc_remaining J)
       (plain_request ''GET'' (''/v1/devices/'' @ ci_DeviceID i @ ''/prekey-status'') authDevice))"

definition with_dh_identity :: "platform \<Rightarrow> client_identity \<Rightarrow> time \<Rightarrow> (client_identity \<times> dhIdentityCertWire option) net_op" where
  "with_dh_identity P i now = (if ci_DHIdentityPriv i \<noteq> [] then ret (i, None)
     else chain drawKey (\<lambda>priv.
       let i' = i\<lparr>ci_DHIdentityPub := x25519_public P priv, ci_DHIdentityPriv := priv\<rparr>
       in chain (dhCertWireFor P i' now) (\<lambda>cert. ret (i', Some cert))))"

definition RotatePrekeys :: "platform \<Rightarrow> codec \<Rightarrow> time \<Rightarrow> unit net_op" where
  "RotatePrekeys P J now =
     chain (on_client Identity_client) (\<lambda>i0.
     chain (with_dh_identity P i0 now) (\<lambda>(i1, dhCert).
     chain drawKey (\<lambda>spkPriv.
       let i2 = i1\<lparr>ci_NextSignedPrekeyID := ci_NextSignedPrekeyID i1 + 1, ci_SignedPrekeyID := ci_NextSignedPrekeyID i1,
                   ci_SignedPrekeyPub := x25519_public P spkPriv, ci_SignedPrekeyPriv := spkPriv\<rparr>
       in chain (signedPrekeyWireFor P i2 now) (\<lambda>spk.
          chain (mintOneTimePrekeys P i2 (int OneTimePrekeyBatch)) (\<lambda>(i3, fresh).
          chain (on_client (SetIdentity i3)) (\<lambda>_.
          uploadPrekeys P J now i3 \<lparr>upb_DHIdentityCert = dhCert, upb_SignedPrekey = spk, upb_OneTimePrekeys = fresh,
            upb_Replace = False\<rparr>))))))"

definition publish_prekeys :: "platform \<Rightarrow> codec \<Rightarrow> time \<Rightarrow> client_identity \<Rightarrow> oneTimePrekeyWire list \<Rightarrow> bool \<Rightarrow> unit net_op" where
  "publish_prekeys P J now i keys replace =
     chain (dhCertWireFor P i now) (\<lambda>cert.
     chain (signedPrekeyWireFor P i now) (\<lambda>spk.
     uploadPrekeys P J now i \<lparr>upb_DHIdentityCert = Some cert, upb_SignedPrekey = spk, upb_OneTimePrekeys = keys,
       upb_Replace = replace\<rparr>))"

definition replacePool :: "platform \<Rightarrow> codec \<Rightarrow> time \<Rightarrow> client_identity \<Rightarrow> oneTimePrekeyWire list \<Rightarrow> unit net_op" where
  "replacePool P J now i keys = publish_prekeys P J now i keys True"

definition PurgeAndReplaceOneTimePrekeys :: "platform \<Rightarrow> codec \<Rightarrow> time \<Rightarrow> unit net_op" where
  "PurgeAndReplaceOneTimePrekeys P J now =
     chain (on_client Identity_client) (\<lambda>i.
       if ci_SignedPrekeyPub i = [] then ret ()
       else chain (replacePool P J now i []) (\<lambda>_.
            chain (RemainingOneTimePrekeys P J now) (\<lambda>remaining.
              if remaining > 0 then fail (ErrText ''this server kept one-time prekeys after being asked to replace the pool'')
              else chain (mintOneTimePrekeys P i (int OneTimePrekeyBatch)) (\<lambda>(i', fresh).
                   chain (on_client (SetIdentity i')) (\<lambda>_. replacePool P J now i' fresh)))))"

definition TopUpOneTimePrekeys :: "platform \<Rightarrow> codec \<Rightarrow> time \<Rightarrow> unit net_op" where
  "TopUpOneTimePrekeys P J now =
     chain (on_client Identity_client) (\<lambda>i.
       if ci_SignedPrekeyPub i = [] then ret ()
       else chain (RemainingOneTimePrekeys P J now) (\<lambda>remaining.
            chain (on_client client_CountOneTimePrekeys) (\<lambda>held.
              if remaining > int held then PurgeAndReplaceOneTimePrekeys P J now
              else chain (if remaining < OneTimePrekeyLowWaterMark
                     then chain (mintOneTimePrekeys P i (int OneTimePrekeyBatch - remaining)) (\<lambda>(i', fresh).
                          chain (on_client (SetIdentity i')) (\<lambda>_. ret (i', fresh)))
                     else ret (i, []))
                   (\<lambda>(i', fresh). publish_prekeys P J now i' fresh False))))"

section \<open>A peer's bundle (prekeys\_api.go)\<close>

record Bundle =
  bu_Remote :: RemoteBundle
  bu_ClaimedUnauthenticated :: bool

definition or_error :: "string \<Rightarrow> 'a option \<Rightarrow> ('a \<Rightarrow> client_error + 'b) \<Rightarrow> client_error + 'b" where
  "or_error what x k = (case x of None \<Rightarrow> Inl (ErrText what) | Some y \<Rightarrow> k y)"

definition verified_dh_identity :: "platform \<Rightarrow> prekeyBundleWire \<Rightarrow> PeerEndpoint \<Rightarrow> client_error + bytes" where
  "verified_dh_identity P b peer =
     or_error ''decoding the dh identity key'' (base64_decode (bw_DHIdentityPubKey b)) (\<lambda>dhPub.
     or_error ''parsing dh identity certificate date'' (parse_rfc3339 (dhw_IssuedAt (bw_DHIdentityCert b))) (\<lambda>issuedAt.
     or_error ''decoding dh identity signature'' (base64_decode (dhw_Signature (bw_DHIdentityCert b))) (\<lambda>sig.
     if dh_identity_Verify P \<lparr>dh_AccountID = pe_AccountID peer, dh_DeviceID = pe_DeviceID peer, dh_DHPubKey = dhPub,
          dh_IssuedAt = issuedAt, dh_Signature = sig\<rparr> (pe_DevicePub peer) \<noteq> Inr ()
     then Inl (ErrText ''the dh identity certificate is invalid'') else Inr dhPub)))"

definition verified_signed_prekey :: "platform \<Rightarrow> signedPrekeyWire \<Rightarrow> PeerEndpoint \<Rightarrow> client_error + bytes \<times> bytes" where
  "verified_signed_prekey P s peer =
     or_error ''decoding the signed prekey'' (base64_decode (spw_PubKey s)) (\<lambda>spkPub.
     or_error ''decoding the signed prekey dh identity key'' (base64_decode (spw_DHIdentityPubKey s)) (\<lambda>spkDHPub.
     or_error ''parsing signed prekey certificate date'' (parse_rfc3339 (spw_IssuedAt s)) (\<lambda>issuedAt.
     or_error ''decoding signed prekey signature'' (base64_decode (spw_Signature s)) (\<lambda>sig.
     if signed_prekey_Verify P \<lparr>sp_AccountID = pe_AccountID peer, sp_DeviceID = pe_DeviceID peer, sp_KeyID = spw_KeyID s,
          sp_DHIdentityPubKey = spkDHPub, sp_PrekeyPubKey = spkPub, sp_IssuedAt = issuedAt, sp_Signature = sig\<rparr>
          (pe_DevicePub peer) \<noteq> Inr ()
     then Inl (ErrText ''the signed prekey certificate is invalid'') else Inr (spkPub, spkDHPub)))))"

text \<open>\<open>ecdh.X25519().NewPublicKey\<close> takes 32 bytes.\<close>

definition public_key :: "bytes \<Rightarrow> bytes option" where
  "public_key b = (if length b = 32 then Some b else None)"

definition verifyBundle :: "platform \<Rightarrow> prekeyBundleWire \<Rightarrow> PeerEndpoint \<Rightarrow> client_error + RemoteBundle" where
  "verifyBundle P b peer =
     (case verified_dh_identity P b peer of Inl e \<Rightarrow> Inl e
      | Inr dhPub \<Rightarrow> (case verified_signed_prekey P (bw_SignedPrekey b) peer of Inl e \<Rightarrow> Inl e
      | Inr (spkPub, spkDHPub) \<Rightarrow>
          if spkDHPub \<noteq> dhPub then Inl (ErrText ''the certificates disagree about the dh identity key'')
          else or_error ''reading the dh identity key'' (public_key dhPub) (\<lambda>dhKey.
               or_error ''reading the signed prekey'' (public_key spkPub) (\<lambda>spkKey.
               case bw_OneTimePrekey b of
                 None \<Rightarrow> Inr \<lparr>rb_DHIdentityPubKey = dhKey, rb_SignedPrekeyID = spw_KeyID (bw_SignedPrekey b),
                   rb_SignedPrekeyPub = spkKey, rb_OneTimePrekeyID = None, rb_OneTimePrekeyPub = None\<rparr>
               | Some otk \<Rightarrow>
                   or_error ''decoding the one-time prekey'' (base64_decode (otw_PubKey otk)) (\<lambda>otpkPub.
                   or_error ''reading the one-time prekey'' (public_key otpkPub) (\<lambda>key.
                   Inr \<lparr>rb_DHIdentityPubKey = dhKey, rb_SignedPrekeyID = spw_KeyID (bw_SignedPrekey b),
                     rb_SignedPrekeyPub = spkKey, rb_OneTimePrekeyID = Some (otw_KeyID otk), rb_OneTimePrekeyPub = Some key\<rparr>))))))"

definition of_result :: "client_error + 'a \<Rightarrow> ('s, 'a) oper" where
  "of_result r = (case r of Inl e \<Rightarrow> fail e | Inr x \<Rightarrow> ret x)"

definition ClaimBundle :: "platform \<Rightarrow> codec \<Rightarrow> time \<Rightarrow> PeerEndpoint \<Rightarrow> Bundle net_op" where
  "ClaimBundle P J now peer =
     chain (on_client Identity_client) (\<lambda>i.
       let path = ''/v1/devices/'' @ pe_DeviceID peer @ ''/prekey-bundle'' in
       chain (if Federated peer
              then chain (signDeviceCert P i now) (\<lambda>cert.
                ret ((plain_request ''POST'' path authFederated)\<lparr>rq_server := pe_Server peer, rq_body := Some (BodyClaim cert)\<rparr>))
              else ret (plain_request ''POST'' path authDevice)) (\<lambda>req.
       chain (do_json P J now (jc_bundle J) req) (\<lambda>b.
       chain (of_result (verifyBundle P b peer)) (\<lambda>remote.
       ret \<lparr>bu_Remote = remote, bu_ClaimedUnauthenticated = (bw_Omitted b = ''unauthenticated'')\<rparr>))))"

end
