(* ===== verification/Client_Blobs.thy ===== *)
theory Client_Blobs
  imports Client_Peers
begin

text \<open>
  Attachments on the client (\<open>pkg/client/blobs.go\<close>, \<open>EnsureAttachment\<close> of
  \<open>media.go\<close>): a file is sealed under a key of its own, uploaded for a list of devices, and opened
  with the key the message carries.
\<close>

section \<open>Sealing and opening\<close>

record OutgoingMedia =
  om_Bytes :: bytes
  om_MimeType :: string
  om_Width :: int
  om_Height :: int
  om_Thumb :: bytes
  om_Kind :: string

definition blobAlgorithm :: string where "blobAlgorithm = ''aes-256-gcm''"

abbreviation (input) gcm_nonce_size :: nat where
  "gcm_nonce_size \<equiv> 12"

definition seal_with :: "platform \<Rightarrow> bytes \<Rightarrow> bytes \<Rightarrow> bytes \<Rightarrow> bytes" where
  "seal_with P key nonce plaintext = nonce @ gcm_seal P key nonce plaintext []"

definition sealAttachment :: "platform \<Rightarrow> bytes \<Rightarrow> (bytes \<times> bytes \<times> string) net_op" where
  "sealAttachment P plaintext =
     chain drawKey (\<lambda>key.
     chain drawKey (\<lambda>nonce.
     let ciphertext = seal_with P key nonce plaintext in
     ret (key, ciphertext, hex_encode (sha256 P ciphertext))))"

definition openAttachment :: "platform \<Rightarrow> bytes \<Rightarrow> bytes \<Rightarrow> bytes option" where
  "openAttachment P key ciphertext =
     (if length key \<noteq> 32 then None
      else if length ciphertext < gcm_nonce_size then None
      else gcm_open P key (take gcm_nonce_size ciphertext) (drop gcm_nonce_size ciphertext) [])"

section \<open>Moving the ciphertext\<close>

text \<open>\<open>url.QueryEscape\<close>.\<close>

definition unreserved :: "char \<Rightarrow> bool" where
  "unreserved c = (let n = (of_char c :: nat) in
     (48 \<le> n \<and> n \<le> 57) \<or> (65 \<le> n \<and> n \<le> 90) \<or> (97 \<le> n \<and> n \<le> 122) \<or> c \<in> {CHR ''-'', CHR ''_'', CHR ''.'', CHR ''~''})"

definition upper_hex :: "nat \<Rightarrow> char" where
  "upper_hex n = (if n < 10 then char_of (48 + n) else char_of (55 + n))"

definition QueryEscape :: "string \<Rightarrow> string" where
  "QueryEscape s = concat (map (\<lambda>c. if unreserved c then [c] else if c = CHR '' '' then ''+''
     else [CHR 0x25, upper_hex (of_char c div 16), upper_hex (of_char c mod 16)]) s)"

fun join_params :: "string list \<Rightarrow> string" where
  "join_params [] = []"
| "join_params [p] = p"
| "join_params (p # ps) = p @ CHR 0x26 # join_params ps"

definition recipients_query :: "string list \<Rightarrow> string" where
  "recipients_query ids = join_params (map (\<lambda>d. ''recipient_device_id='' @ QueryEscape d) ids)"

definition sender_headers :: "senderCert \<Rightarrow> (string \<times> string) list" where
  "sender_headers s = [(''Freizone-Sender-Account-Id'', sc_AccountID s), (''Freizone-Sender-Root-Pub-Key'', sc_RootPubKey s),
     (''Freizone-Sender-Device-Id'', sc_DeviceID s), (''Freizone-Sender-Device-Pub-Key'', sc_DevicePubKey s),
     (''Freizone-Sender-Cert-Issued-At'', sc_IssuedAt s), (''Freizone-Sender-Cert-Signature'', sc_Signature s)]"

definition setFederatedSenderHeaders :: "platform \<Rightarrow> bool \<Rightarrow> client_identity \<Rightarrow> time \<Rightarrow> (string \<times> string) list net_op" where
  "setFederatedSenderHeaders P federated i now = (if \<not> federated then ret []
     else chain (signDeviceCert P i now) (\<lambda>cert. ret (sender_headers cert)))"

definition signBodyDigest ::
    "platform \<Rightarrow> string \<Rightarrow> string \<Rightarrow> string \<Rightarrow> string \<Rightarrow> string \<Rightarrow> client_identity \<Rightarrow> time \<Rightarrow> (string \<times> string) list net_op" where
  "signBodyDigest P method path rawQuery keyID digest i now =
     chain (on_client newMessageID) (\<lambda>nonce.
       ret (signature_headers keyID now nonce (base64_encode (ed25519_sign P (ci_DevicePriv i)
         (CanonicalStringWithBodyDigest method path rawQuery (FormatTimestamp now) nonce keyID digest)))))"

definition foreign_to :: "client_identity \<Rightarrow> string \<Rightarrow> bool" where
  "foreign_to i server \<longleftrightarrow> server \<noteq> [] \<and> server \<noteq> ci_Server i"

definition uploadBlob :: "platform \<Rightarrow> codec \<Rightarrow> time \<Rightarrow> string \<Rightarrow> string list \<Rightarrow> bytes \<Rightarrow> string \<Rightarrow> string net_op" where
  "uploadBlob P J now server recipientDeviceIDs ciphertext digest =
     chain (on_client Identity_client) (\<lambda>i.
       let federated = foreign_to i server;
           path = (if federated then ''/v1/federation/blobs'' else ''/v1/blobs'');
           keyID = own_key_id (if federated then authFederated else authDevice) i;
           rawQuery = recipients_query recipientDeviceIDs
       in chain (setFederatedSenderHeaders P federated i now) (\<lambda>who_headers.
          chain (signBodyDigest P ''POST'' path rawQuery keyID digest i now) (\<lambda>sig_headers.
          chain (exchange \<lparr>st_Server = (if federated then server else ci_Server i),
              st_Request = \<lparr>Method = ''POST'', URLPath = path, RawQuery = rawQuery,
                Headers = [(''Content-Type'', ''application/octet-stream''), (HeaderBodyDigest, ''sha256='' @ digest)]
                  @ who_headers @ sig_headers, Body = Some ciphertext\<rparr>, st_Value = None\<rparr>) (\<lambda>(status, answer).
          if status \<noteq> 201 \<and> status \<noteq> 200 then fail (apiErrorFrom J status answer)
          else case jc_blob J answer of None \<Rightarrow> fail (ErrText ''decoding attachment upload response'')
            | Some blobID \<Rightarrow> if blobID = [] then fail (ErrText ''the server accepted the attachment without naming it'')
                else ret blobID))))"

definition downloadBlob :: "platform \<Rightarrow> codec \<Rightarrow> time \<Rightarrow> string \<Rightarrow> string \<Rightarrow> bytes net_op" where
  "downloadBlob P J now server blobID =
     chain (on_client Identity_client) (\<lambda>i.
       let federated = foreign_to i server;
           keyID = own_key_id (if federated then authFederated else authDevice) i;
           path = ''/v1/blobs/'' @ blobID
       in chain (setFederatedSenderHeaders P federated i now) (\<lambda>who_headers.
          chain (on_client newMessageID) (\<lambda>nonce.
          chain (exchange \<lparr>st_Server = (if federated then server else ci_Server i),
              st_Request = \<lparr>Method = ''GET'', URLPath = path, RawQuery = [],
                Headers = who_headers @ signature_headers keyID now nonce
                  (httpsig_Sign P ''GET'' path [] [] keyID now nonce (ci_DevicePriv i)), Body = None\<rparr>,
              st_Value = None\<rparr>) (\<lambda>(status, answer).
          if status = 200 then ret answer
          else if status = 404 \<or> status = 410 then fail (ErrBlobUnavailable (apiErrorFrom J status answer))
          else fail (apiErrorFrom J status answer)))))"

definition DeleteBlob :: "platform \<Rightarrow> codec \<Rightarrow> time \<Rightarrow> string \<Rightarrow> unit net_op" where
  "DeleteBlob P J now blobID = conflict_is_success
     (do_unit P J now ((plain_request ''DELETE'' (''/v1/blobs/'' @ blobID) authDevice)\<lparr>rq_noContent := True\<rparr>)) 404"

section \<open>Attachments\<close>

definition media_kind :: "OutgoingMedia \<Rightarrow> string" where
  "media_kind m = (if om_Kind m = [] then ''image'' else om_Kind m)"

definition UploadAttachment :: "platform \<Rightarrow> codec \<Rightarrow> time \<Rightarrow> PeerEndpoint list \<Rightarrow> OutgoingMedia \<Rightarrow> Attachment net_op" where
  "UploadAttachment P J now recipients media =
     (case recipients of [] \<Rightarrow> fail (ErrText ''an attachment needs at least one recipient device'')
      | r # _ \<Rightarrow>
          if list_ex (\<lambda>q. pe_Server q \<noteq> pe_Server r) recipients
          then fail (ErrText ''recipients for one attachment must share a server'')
          else chain (sealAttachment P (om_Bytes media)) (\<lambda>(key, ciphertext, digest).
               chain (uploadBlob P J now (pe_Server r) (map pe_DeviceID recipients) ciphertext digest) (\<lambda>blobID.
               ret \<lparr>at_Kind = media_kind media, at_Algorithm = blobAlgorithm, at_BlobID = blobID, at_Key = key,
                 at_MimeType = om_MimeType media, at_ByteSize = int (length (om_Bytes media)), at_Width = om_Width media,
                 at_Height = om_Height media, at_Thumb = om_Thumb media\<rparr>)))"

definition DownloadAttachment :: "platform \<Rightarrow> codec \<Rightarrow> time \<Rightarrow> string \<Rightarrow> Attachment \<Rightarrow> bytes net_op" where
  "DownloadAttachment P J now server att =
     (if at_Algorithm att \<noteq> [] \<and> at_Algorithm att \<noteq> blobAlgorithm
      then fail (ErrText ''the attachment uses a cipher this build cannot read'')
      else chain (downloadBlob P J now server (at_BlobID att)) (\<lambda>ciphertext.
           case openAttachment P (at_Key att) ciphertext of
             None \<Rightarrow> fail (ErrBlobUnavailable (ErrText ''attachment did not decrypt''))
           | Some plaintext \<Rightarrow> ret plaintext))"

definition AttachmentFile :: "string \<Rightarrow> string \<Rightarrow> bytes option client_op" where
  "AttachmentFile chat i = readMedia chat i []"

definition EnsureAttachment :: "platform \<Rightarrow> codec \<Rightarrow> time \<Rightarrow> string \<Rightarrow> string \<Rightarrow> string \<Rightarrow> Attachment \<Rightarrow> bytes net_op" where
  "EnsureAttachment P J now chat i server att =
     chain (on_client (AttachmentFile chat i)) (\<lambda>cached.
       case cached of Some data \<Rightarrow> ret data
       | None \<Rightarrow> chain (DownloadAttachment P J now server att) (\<lambda>data.
           chain (on_client (WriteAttachmentFile chat i data)) (\<lambda>_.
           chain (best_effort (DeleteBlob P J now (at_BlobID att))) (\<lambda>_. ret data))))"

definition uploadFor :: "platform \<Rightarrow> codec \<Rightarrow> time \<Rightarrow> string \<Rightarrow> OutgoingMedia \<Rightarrow> Attachment net_op" where
  "uploadFor P J now peer media = chain (Endpoint P J now peer) (\<lambda>ep. UploadAttachment P J now [ep] media)"

definition placeholderFor :: "OutgoingMedia \<Rightarrow> Attachment" where
  "placeholderFor media = \<lparr>at_Kind = media_kind media, at_Algorithm = [], at_BlobID = [], at_Key = [],
     at_MimeType = om_MimeType media, at_ByteSize = int (length (om_Bytes media)), at_Width = om_Width media,
     at_Height = om_Height media, at_Thumb = om_Thumb media\<rparr>"

section \<open>What was sealed opens\<close>

lemma openAttachment_seal:
  assumes "gcm_correct P" "length key = 32" "length nonce = 12"
  shows "openAttachment P key (seal_with P key nonce data) = Some data"
  using assms by (simp add: openAttachment_def seal_with_def gcm_correct_def)

end
