(* ===== verification/Client_Send.thy ===== *)
theory Client_Send
  imports Client_Blobs
begin

text \<open>
  The send path of the client (\<open>pkg/client/send.go\<close>): a session is found or established, the plaintext
  encrypted, the advance written, and taken back when the envelope does not leave. What a failed send
  reports besides its error is not part of the model.
\<close>

section \<open>The session to send on\<close>

definition federationAllowed :: "platform \<Rightarrow> codec \<Rightarrow> time \<Rightarrow> bool net_op" where
  "federationAllowed P J now = chain (client_ServerStatus P J now []) (\<lambda>s. ret (ss_FederationEnabled s))"

text \<open>The error a send ends with, once the question whether the account is gone has been asked.\<close>

definition giveUpOnPeer :: "platform \<Rightarrow> codec \<Rightarrow> time \<Rightarrow> string \<Rightarrow> string \<Rightarrow> client_error \<Rightarrow> client_error net_op" where
  "giveUpOnPeer P J now server accountID cause =
     (if \<not> IsStaleDevice cause then ret cause
      else chain (attempt (accountIsGone P J now server accountID)) (\<lambda>r. case r of
          Inl _ \<Rightarrow> ret cause
        | Inr gone \<Rightarrow> if \<not> gone then ret cause
            else chain (attempt (on_client (markPeerGone accountID now))) (\<lambda>m. case m of
                Inl markErr \<Rightarrow> ret (ErrJoin cause markErr) | Inr _ \<Rightarrow> ret ErrPeerGone)))"

definition give_up_with :: "platform \<Rightarrow> codec \<Rightarrow> time \<Rightarrow> string \<Rightarrow> string \<Rightarrow> client_error \<Rightarrow> 'a net_op" where
  "give_up_with P J now server accountID cause = chain (giveUpOnPeer P J now server accountID cause) fail"

text \<open>A stale device is forgotten, resolved again and asked once more.\<close>

definition heal_and_claim :: "platform \<Rightarrow> codec \<Rightarrow> time \<Rightarrow> PeerEndpoint \<Rightarrow> Bundle net_op" where
  "heal_and_claim P J now peer =
     chain (on_client (ForgetPeerDevice (pe_AccountID peer))) (\<lambda>_.
     chain (attempt (Endpoint P J now (pe_AccountID peer))) (\<lambda>r. case r of
       Inl rerr \<Rightarrow> give_up_with P J now (pe_Server peer) (pe_AccountID peer) rerr
     | Inr fresh \<Rightarrow> chain (attempt (ClaimBundle P J now fresh)) (\<lambda>r2. case r2 of
         Inl err \<Rightarrow> give_up_with P J now (pe_Server fresh) (pe_AccountID fresh) err
       | Inr bundle \<Rightarrow> ret bundle)))"

definition claim_bundle_healing :: "platform \<Rightarrow> codec \<Rightarrow> time \<Rightarrow> PeerEndpoint \<Rightarrow> Bundle net_op" where
  "claim_bundle_healing P J now peer = chain (attempt (ClaimBundle P J now peer)) (\<lambda>r. case r of
     Inr bundle \<Rightarrow> ret bundle
   | Inl err \<Rightarrow> if \<not> IsStaleDevice err then fail err else heal_and_claim P J now peer)"

definition establish :: "platform \<Rightarrow> RemoteBundle \<Rightarrow> (Session \<times> InitialMessage) net_op" where
  "establish P remote =
     chain (on_client Identity_client) (\<lambda>i.
     chain (on_client (private_key ''own identity key'' (ci_DHIdentityPriv i))) (\<lambda>dhPriv.
     chain drawKey (\<lambda>ephemeral.
     chain drawKey (\<lambda>ratchetKey.
     of_result (case InitiateSession P ephemeral ratchetKey dhPriv remote of
         Inl e \<Rightarrow> Inl (ErrRatchet e) | Inr x \<Rightarrow> Inr x)))))"

definition sessionForSending ::
    "platform \<Rightarrow> codec \<Rightarrow> time \<Rightarrow> PeerEndpoint \<Rightarrow> Session option \<Rightarrow> (Session \<times> InitialMessage option \<times> bool) net_op" where
  "sessionForSending P J now peer existing =
     (case existing of Some s \<Rightarrow> ret (s, None, False)
      | None \<Rightarrow> chain (claim_bundle_healing P J now peer) (\<lambda>bundle.
          chain (establish P (bu_Remote bundle)) (\<lambda>(session, initial).
          ret (session, Some initial, rb_OneTimePrekeyID (bu_Remote bundle) = None))))"

definition rollBackSession :: "string \<Rightarrow> Session option \<Rightarrow> unit client_op" where
  "rollBackSession peer previous = (case previous of None \<Rightarrow> DeleteSession peer Sending
     | Some s \<Rightarrow> SetSession peer Sending s)"

section \<open>Posting and delivering\<close>

definition postEnvelope :: "platform \<Rightarrow> codec \<Rightarrow> time \<Rightarrow> PeerEndpoint \<Rightarrow> string \<Rightarrow> Envelope \<Rightarrow> unit net_op" where
  "postEnvelope P J now peer wireMessageID payload =
     (let og = \<lparr>og_MessageID = wireMessageID, og_RecipientAccountID = pe_AccountID peer,
            og_RecipientDeviceID = pe_DeviceID peer, og_Payload = payload\<rparr> in
      if \<not> Federated peer then SendMessage P J now og
      else chain (on_client Identity_client) (\<lambda>i.
           chain (signDeviceCert P i now) (\<lambda>cert.
           conflict_is_success (do_unit P J now ((plain_request ''POST'' ''/v1/federation/messages'' authFederated)
             \<lparr>rq_server := pe_Server peer, rq_body := Some (BodyFederated cert og)\<rparr>)) 409)))"

text \<open>The guards every path into \<open>deliver\<close> passes.\<close>

definition refuse_if_silenced :: "string \<Rightarrow> string client_op" where
  "refuse_if_silenced peer =
     chain (IsPeerBlocked peer) (\<lambda>blocked. if blocked then fail ErrPeerBlocked
       else chain (Conversation_client peer) (\<lambda>convo.
         if (case convo of None \<Rightarrow> False | Some v \<Rightarrow> cv_PeerGone v) then fail ErrPeerGone
         else ret (peer_server convo)))"

definition reachable_endpoint :: "platform \<Rightarrow> codec \<Rightarrow> time \<Rightarrow> string \<Rightarrow> PeerEndpoint net_op" where
  "reachable_endpoint P J now peer =
     chain (on_client (refuse_if_silenced peer)) (\<lambda>knownServer.
     chain (attempt (Endpoint P J now peer)) (\<lambda>r. case r of
       Inl err \<Rightarrow> give_up_with P J now knownServer peer err
     | Inr ep \<Rightarrow> if \<not> Federated ep then ret ep
         else chain (federationAllowed P J now) (\<lambda>allowed. if allowed then ret ep else fail ErrFederationDisabled)))"

definition encrypt_for :: "platform \<Rightarrow> Session \<Rightarrow> bytes \<Rightarrow> (Session \<times> Header \<times> bytes) net_op" where
  "encrypt_for P session plaintext = (case Encrypt P session plaintext of
     (s', Inl e) \<Rightarrow> fail (ErrRatchet e) | (s', Inr (header, ciphertext)) \<Rightarrow> ret (s', header, ciphertext))"

definition take_back :: "string \<Rightarrow> Session option \<Rightarrow> client_error \<Rightarrow> 'a net_op" where
  "take_back peer previous err =
     chain (attempt (on_client (rollBackSession peer previous))) (\<lambda>r. case r of
       Inl rollback \<Rightarrow> fail (ErrJoin err rollback)
     | Inr _ \<Rightarrow> if \<not> IsStaleDevice err then fail err
         else chain (attempt (on_client (ForgetPeerDevice peer))) (\<lambda>r2. case r2 of
           Inl forget \<Rightarrow> fail (ErrJoin err forget) | Inr _ \<Rightarrow> fail err))"

definition seal_and_post ::
    "platform \<Rightarrow> codec \<Rightarrow> time \<Rightarrow> string \<Rightarrow> PeerEndpoint \<Rightarrow> Session option \<Rightarrow> Session \<Rightarrow> InitialMessage option \<Rightarrow> bytes \<Rightarrow> bool \<Rightarrow> unit net_op" where
  "seal_and_post P J now peer ep previous session initial plaintext afterOwnReset =
     chain (encrypt_for P session plaintext) (\<lambda>(s', header, ciphertext).
     chain (on_client (SetSession peer Sending s')) (\<lambda>_.
     chain (on_client newMessageID) (\<lambda>wireID.
     chain (attempt (postEnvelope P J now ep wireID
         (NewEnvelopeRekey initial header ciphertext (map_option (\<lambda>_. afterOwnReset) initial)))) (\<lambda>r. case r of
       Inr _ \<Rightarrow> ret () | Inl err \<Rightarrow> take_back peer previous err))))"

definition deliver :: "platform \<Rightarrow> codec \<Rightarrow> time \<Rightarrow> string \<Rightarrow> bytes \<Rightarrow> bool \<Rightarrow> (bool \<times> bool) net_op" where
  "deliver P J now peer plaintext afterOwnReset =
     chain (reachable_endpoint P J now peer) (\<lambda>ep.
     chain (on_client (client_Session peer Sending)) (\<lambda>previous.
     chain (sessionForSending P J now ep previous) (\<lambda>(session, initial, weak).
     chain (seal_and_post P J now peer ep previous session initial plaintext afterOwnReset) (\<lambda>_.
     ret (initial \<noteq> None, weak)))))"

section \<open>Messages\<close>

record SendOptions =
  so_ReplyToID :: string
  so_ReplyPreviewText :: string
  so_ReplyPreviewMine :: "bool option"
  so_Media :: "OutgoingMedia option"
  so_Attachments :: "Attachment list"

record SendResult =
  sr_Message :: chat_message
  sr_EstablishedSession :: bool
  sr_WithoutOneTimePrekey :: bool

definition own_line :: "string \<Rightarrow> string \<Rightarrow> time \<Rightarrow> SendOptions \<Rightarrow> chat_message" where
  "own_line i txt now opts = \<lparr>cm_ID = i, cm_Text = txt, cm_Mine = True, cm_Timestamp = now, cm_SenderSentAt = None,
     cm_SenderAccountID = [], cm_ReplyToID = so_ReplyToID opts, cm_ReplyPreviewText = so_ReplyPreviewText opts,
     cm_ReplyPreviewMine = so_ReplyPreviewMine opts, cm_ReplyPreviewAuthorID = [], cm_Kind = MessageNormal,
     cm_SendState = SendPending, cm_Attachments = so_Attachments opts, cm_Deliveries = []\<rparr>"

definition touchConversation :: "string \<Rightarrow> time \<Rightarrow> unit client_op" where
  "touchConversation peer now = chain (Conversation_client peer) (\<lambda>convo. case convo of None \<Rightarrow> ret ()
     | Some v \<Rightarrow> PutConversation (v\<lparr>cv_LastActivityAt := Some now\<rparr>))"

text \<open>A failure is recorded on the line, and returned.\<close>

definition or_mark_failed :: "string \<Rightarrow> string \<Rightarrow> 'a net_op \<Rightarrow> 'a net_op" where
  "or_mark_failed chat i m = chain (attempt m) (\<lambda>r. case r of Inr x \<Rightarrow> ret x
     | Inl err \<Rightarrow> chain (attempt (on_client (client_SetMessageSendState chat i SendFailed))) (\<lambda>k. case k of
         Inl markErr \<Rightarrow> fail (ErrJoin err markErr) | Inr _ \<Rightarrow> fail err))"

definition keep_media :: "string \<Rightarrow> string \<Rightarrow> OutgoingMedia \<Rightarrow> chat_message \<Rightarrow> chat_message client_op" where
  "keep_media chat i m line =
     chain (WriteAttachmentFile chat i (om_Bytes m)) (\<lambda>_.
     chain (WriteAttachmentThumb chat i (om_Thumb m)) (\<lambda>_.
     ret (line\<lparr>cm_Attachments := [placeholderFor m]\<rparr>)))"

definition upload_for_line :: "platform \<Rightarrow> codec \<Rightarrow> time \<Rightarrow> string \<Rightarrow> string \<Rightarrow> OutgoingMedia \<Rightarrow> chat_message \<Rightarrow> chat_message net_op" where
  "upload_for_line P J now peer i m line =
     chain (or_mark_failed peer i (uploadFor P J now peer m)) (\<lambda>uploaded.
     chain (on_client (client_SetMessageAttachments peer i [uploaded])) (\<lambda>_.
     ret (line\<lparr>cm_Attachments := [uploaded]\<rparr>)))"

text \<open>What \<open>SendText\<close> and \<open>RetryMessage\<close> share: the claim, the encoding, the delivery and its record.\<close>

definition deliver_line :: "platform \<Rightarrow> codec \<Rightarrow> time \<Rightarrow> string \<Rightarrow> client_identity \<Rightarrow> chat_message \<Rightarrow> time \<Rightarrow> SendResult net_op" where
  "deliver_line P J now peer me line sentAt =
     chain (on_client (profileClaimFor P peer)) (\<lambda>claim.
     chain (or_mark_failed peer (cm_ID line)
       (deliver P J now peer (encodeText (jc_encode J) line (ci_Server me) sentAt claim) False)) (\<lambda>(established, weak).
     chain (on_client (profileClaimSent peer claim)) (\<lambda>_.
     chain (on_client (client_SetMessageSendState peer (cm_ID line) SendSent)) (\<lambda>_.
     ret \<lparr>sr_Message = line\<lparr>cm_SendState := SendSent\<rparr>, sr_EstablishedSession = established,
       sr_WithoutOneTimePrekey = weak\<rparr>))))"

definition SendText :: "platform \<Rightarrow> codec \<Rightarrow> time \<Rightarrow> string \<Rightarrow> string \<Rightarrow> SendOptions \<Rightarrow> SendResult net_op" where
  "SendText P J now0 peer txt opts =
     (let now = receiptClock now0 in
      chain (on_client Identity_client) (\<lambda>me.
      chain (on_client (IsPeerBlocked peer)) (\<lambda>blocked.
        if blocked then fail ErrPeerBlocked
        else if so_Media opts \<noteq> None \<and> so_Attachments opts \<noteq> []
        then fail (ErrText ''a message carries either Media to upload or Attachments already uploaded, not both'')
        else chain (on_client newMessageID) (\<lambda>i.
             chain (case so_Media opts of None \<Rightarrow> ret (own_line i txt now opts)
                    | Some m \<Rightarrow> on_client (keep_media peer i m (own_line i txt now opts))) (\<lambda>line.
             chain (on_client (client_AppendMessage peer line)) (\<lambda>_.
             chain (case so_Media opts of None \<Rightarrow> ret line
                    | Some m \<Rightarrow> upload_for_line P J now0 peer i m line) (\<lambda>line'.
             chain (deliver_line P J now0 peer me line' now) (\<lambda>res.
             chain (on_client (touchConversation peer now)) (\<lambda>_. ret res)))))))))"

definition resendable_media :: "Attachment \<Rightarrow> bytes \<Rightarrow> OutgoingMedia" where
  "resendable_media a bytes = \<lparr>om_Bytes = bytes, om_MimeType = at_MimeType a, om_Width = at_Width a, om_Height = at_Height a,
     om_Thumb = at_Thumb a, om_Kind = at_Kind a\<rparr>"

definition upload_again :: "platform \<Rightarrow> codec \<Rightarrow> time \<Rightarrow> string \<Rightarrow> chat_message \<Rightarrow> chat_message net_op" where
  "upload_again P J now peer line =
     (case cm_Attachments line of
        [a] \<Rightarrow> if at_BlobID a \<noteq> [] then ret line
          else chain (on_client (AttachmentFile peer (cm_ID line))) (\<lambda>bytes. case bytes of
              None \<Rightarrow> fail ErrAttachmentNotResendable
            | Some b \<Rightarrow> chain (uploadFor P J now peer (resendable_media a b)) (\<lambda>uploaded.
                chain (on_client (client_SetMessageAttachments peer (cm_ID line) [uploaded])) (\<lambda>_.
                ret (line\<lparr>cm_Attachments := [uploaded]\<rparr>))))
      | _ \<Rightarrow> ret line)"

definition RetryMessage :: "platform \<Rightarrow> codec \<Rightarrow> time \<Rightarrow> string \<Rightarrow> string \<Rightarrow> SendResult net_op" where
  "RetryMessage P J now peer i =
     chain (on_client (client_Messages peer)) (\<lambda>msgs.
       case find (\<lambda>m. cm_ID m = i) msgs of None \<Rightarrow> fail (ErrText ''no such message in the chat'')
       | Some line \<Rightarrow>
           if cm_SendState line \<noteq> SendFailed then fail (ErrText ''not a failed send'')
           else chain (on_client Identity_client) (\<lambda>me.
                chain (on_client (IsPeerBlocked peer)) (\<lambda>blocked.
                  if blocked then fail ErrPeerBlocked
                  else chain (upload_again P J now peer line) (\<lambda>line'.
                       chain (on_client (client_SetMessageSendState peer i SendPending)) (\<lambda>_.
                       deliver_line P J now peer me line' (cm_Timestamp line'))))))"

section \<open>Receipts\<close>

definition sent_receipt :: "ReceiptStatus \<Rightarrow> Conversation \<Rightarrow> time option" where
  "sent_receipt status v = (if status = ReceiptRead then cv_SentReadReceiptUpTo v else cv_SentDeliveredReceiptUpTo v)"

definition record_sent_receipt :: "ReceiptStatus \<Rightarrow> time \<Rightarrow> Conversation \<Rightarrow> Conversation" where
  "record_sent_receipt status upTo v = (if status = ReceiptRead then v\<lparr>cv_SentReadReceiptUpTo := Some upTo\<rparr>
     else v\<lparr>cv_SentDeliveredReceiptUpTo := Some upTo\<rparr>)"

definition known_status :: "ReceiptStatus \<Rightarrow> bool" where
  "known_status s \<longleftrightarrow> s = ReceiptDelivered \<or> s = ReceiptRead"

definition SendReceipt :: "platform \<Rightarrow> codec \<Rightarrow> time \<Rightarrow> string \<Rightarrow> ReceiptStatus \<Rightarrow> time \<Rightarrow> unit net_op" where
  "SendReceipt P J now peer status upTo =
     chain (on_client ReceiptsEnabled) (\<lambda>on. if \<not> on then ret ()
       else chain (on_client (Conversation_client peer)) (\<lambda>convo. case convo of None \<Rightarrow> ret ()
         | Some v \<Rightarrow>
             if \<not> known_status status then fail (ErrText ''unknown receipt status'')
             else if \<not> advances (sent_receipt status v) upTo then ret ()
             else chain (on_client (profileClaimFor P peer)) (\<lambda>claim.
                  chain (deliver P J now peer (jc_encode J (receipt_body status upTo claim)) False) (\<lambda>_.
                  chain (on_client (profileClaimSent peer claim)) (\<lambda>_.
                  on_client (PutConversation (record_sent_receipt status upTo v)))))))"

section \<open>Re-keying\<close>

definition ResetSession :: "platform \<Rightarrow> codec \<Rightarrow> time \<Rightarrow> string \<Rightarrow> RekeyReason \<Rightarrow> unit net_op" where
  "ResetSession P J now peer reason =
     chain (on_client (DeleteSession peer Sending)) (\<lambda>_.
     chain (on_client (DeleteSession peer Inbound)) (\<lambda>_.
     chain (on_client (if reason = RekeyDecryptFailures then RecordAutoRekey peer now else ClearDesyncEvidence peer)) (\<lambda>_.
     chain (on_client (Conversation_client peer)) (\<lambda>convo.
     chain (case convo of None \<Rightarrow> ret ()
            | Some _ \<Rightarrow> on_client (append_system_line peer
                (if reason = RekeyDecryptFailures then AutomaticRekeyMarker else SessionResetMarker) now)) (\<lambda>_.
     chain (deliver P J now peer (jc_encode J (rekey_body reason)) True) (\<lambda>_. ret ()))))))"

text \<open>The sweep's state: whether the pool was replaced already, and who was re-keyed.\<close>

definition recover_one :: "platform \<Rightarrow> codec \<Rightarrow> time \<Rightarrow> bool \<Rightarrow> Conversation \<Rightarrow> bool \<times> string list \<Rightarrow> (bool \<times> string list) net_op" where
  "recover_one P J now federated v acc =
     (if cv_Blocked v \<or> cv_PendingApproval v then ret acc
      else if cv_PeerServer v \<noteq> [] \<and> \<not> federated then ret acc
      else chain (on_client (ShouldAutoRekey (cv_PeerAccountID v) now)) (\<lambda>due.
        if \<not> due then ret acc
        else chain (if fst acc then ret () else best_effort (PurgeAndReplaceOneTimePrekeys P J now)) (\<lambda>_.
             chain (attempt (ResetSession P J now (cv_PeerAccountID v) RekeyDecryptFailures)) (\<lambda>r. case r of
               Inl _ \<Rightarrow> ret (True, snd acc) | Inr _ \<Rightarrow> ret (True, snd acc @ [cv_PeerAccountID v])))))"

fun recover_all :: "platform \<Rightarrow> codec \<Rightarrow> time \<Rightarrow> bool \<Rightarrow> Conversation list \<Rightarrow> bool \<times> string list \<Rightarrow> (bool \<times> string list) net_op" where
  "recover_all P J now federated [] acc = ret acc"
| "recover_all P J now federated (v # vs) acc =
     chain (recover_one P J now federated v acc) (recover_all P J now federated vs)"

definition RecoverDesyncedSessions :: "platform \<Rightarrow> codec \<Rightarrow> time \<Rightarrow> string list net_op" where
  "RecoverDesyncedSessions P J now =
     chain (on_client Conversations) (\<lambda>convos.
     chain (federationAllowed P J now) (\<lambda>federated.
     chain (recover_all P J now federated convos (False, [])) (\<lambda>(purged, recovered). ret recovered)))"

end
