(* ===== verification/Client_Group_Send.thy ===== *)
theory Client_Group_Send
  imports Client_Send
begin

text \<open>
  The sending half of groups on the client (\<open>pkg/client/groupsend.go\<close>, \<open>groupactions.go\<close>):
  a message is encrypted once per member on that member's own session, posted per server, and what did
  not arrive is recorded per member and owed as a snapshot.
\<close>

section \<open>Bodies\<close>

definition attachmentWires :: "Attachment list \<Rightarrow> Attachment list" where
  "attachmentWires atts = filter (\<lambda>a. at_BlobID a \<noteq> []) atts"

definition group_text_body :: "chat_message \<Rightarrow> string \<Rightarrow> string \<Rightarrow> time \<Rightarrow> Claim option \<Rightarrow> contentWire" where
  "group_text_body line gid stateHash sentAt claim =
     reply_fields line (blank_wire\<lparr>w_V := versionGroupText, w_GroupID := gid, w_StateHash := stateHash, w_ID := cm_ID line,
       w_Text := cm_Text line, w_SentAt := receipt_time sentAt, w_Profile := claim,
       w_Attachments := map Some (attachmentWires (cm_Attachments line))\<rparr>)"

definition control_text :: "GroupControlKind \<Rightarrow> string" where
  "control_text k = (case k of GroupSnapshot \<Rightarrow> ''snapshot'' | GroupEvents \<Rightarrow> ''events'' | GroupSyncRequest \<Rightarrow> ''sync_request'')"

definition group_control_body :: "GroupControlKind \<Rightarrow> string \<Rightarrow> string \<Rightarrow> Event list \<Rightarrow> contentWire" where
  "group_control_body kind gid stateHash es = blank_wire\<lparr>w_V := versionGroupControl, w_Kind := control_text kind,
     w_GroupID := gid, w_StateHash := stateHash, w_Events := map Some es\<rparr>"

definition group_receipt_body :: "ReceiptStatus \<Rightarrow> time \<Rightarrow> string \<Rightarrow> Claim option \<Rightarrow> contentWire" where
  "group_receipt_body status upTo gid claim = (receipt_body status upTo claim)\<lparr>w_GroupID := gid\<rparr>"

text \<open>Each member's copy names the attachment stored on their own server, or none.\<close>

definition groupPlaintextFor ::
    "codec \<Rightarrow> chat_message \<Rightarrow> string \<Rightarrow> string \<Rightarrow> time \<Rightarrow> (string \<times> Attachment) list option \<Rightarrow> Claim option \<Rightarrow> Member \<Rightarrow> bytes" where
  "groupPlaintextFor J line gid stateHash sentAt references claim m =
     (let theirs = (case references of None \<Rightarrow> line
        | Some refs \<Rightarrow> line\<lparr>cm_Attachments := (case assoc_get refs (AccountID m) of None \<Rightarrow> [] | Some a \<Rightarrow> [a])\<rparr>)
      in jc_encode J (group_text_body theirs gid stateHash sentAt claim))"

definition markAttachmentSkipped :: "GroupDelivery list \<Rightarrow> bool \<Rightarrow> (string \<times> Attachment) list \<Rightarrow> GroupDelivery list" where
  "markAttachmentSkipped ds hadMedia refs = (if \<not> hadMedia then ds
     else map (\<lambda>d. if assoc_get refs (gd_AccountID d) = None then d\<lparr>gd_AttachmentSkipped := True\<rparr> else d) ds)"

definition joinedMembers :: "Resolved \<Rightarrow> string \<Rightarrow> Member list" where
  "joinedMembers r except = filter (\<lambda>m. AccountID m \<noteq> except \<and> Joined m) (Members r)"

section \<open>One copy\<close>

record preparedCopy =
  pc_member :: Member
  pc_endpoint :: PeerEndpoint
  pc_messageID :: string
  pc_payload :: Envelope
  pc_established :: bool

text \<open>The session a copy is encrypted with: the one held, or a fresh one.\<close>

definition session_for_copy :: "platform \<Rightarrow> codec \<Rightarrow> time \<Rightarrow> PeerEndpoint \<Rightarrow> Session option \<Rightarrow> (Session \<times> InitialMessage option) net_op" where
  "session_for_copy P J now ep held = (case held of Some s \<Rightarrow> ret (s, None)
     | None \<Rightarrow> chain (ClaimBundle P J now ep) (\<lambda>bundle.
         chain (establish P (bu_Remote bundle)) (\<lambda>(s, initial). ret (s, Some initial))))"

definition prepareCopy :: "platform \<Rightarrow> codec \<Rightarrow> time \<Rightarrow> Member \<Rightarrow> string \<Rightarrow> bytes \<Rightarrow> string \<Rightarrow> preparedCopy net_op" where
  "prepareCopy P J now m ownServer plaintext wireID =
     chain (endpointOn P J now (AccountID m) (if MemberServer m = ownServer then [] else MemberServer m)) (\<lambda>ep.
     chain (on_client (client_Session (AccountID m) Sending)) (\<lambda>held.
     chain (session_for_copy P J now ep held) (\<lambda>(session, initial).
     chain (encrypt_for P session plaintext) (\<lambda>(s', header, ciphertext).
     chain (on_client (SetSession (AccountID m) Sending s')) (\<lambda>_.
     chain (if wireID = [] then on_client newMessageID else ret wireID) (\<lambda>i.
     ret \<lparr>pc_member = m, pc_endpoint = ep, pc_messageID = i,
       pc_payload = NewEnvelopeRekey initial header ciphertext (map_option (\<lambda>_. False) initial),
       pc_established = (initial \<noteq> None)\<rparr>))))))"

section \<open>Posting per server\<close>

text \<open>Per account, \<open>None\<close> for a copy the server took, the refusal otherwise.\<close>

type_synonym posted = "(string \<times> client_error option) list"

definition post_copy :: "platform \<Rightarrow> codec \<Rightarrow> time \<Rightarrow> preparedCopy \<Rightarrow> (client_error option) net_op" where
  "post_copy P J now k = chain (attempt (postEnvelope P J now (pc_endpoint k) (pc_messageID k) (pc_payload k)))
     (\<lambda>r. ret (case r of Inl e \<Rightarrow> Some e | Inr _ \<Rightarrow> None))"

fun post_each :: "platform \<Rightarrow> codec \<Rightarrow> time \<Rightarrow> preparedCopy list \<Rightarrow> posted net_op" where
  "post_each P J now [] = ret []"
| "post_each P J now (k # ks) = chain (post_copy P J now k) (\<lambda>r.
     chain (post_each P J now ks) (\<lambda>rs. ret ((AccountID (pc_member k), r) # rs)))"

definition failAll :: "preparedCopy list \<Rightarrow> client_error \<Rightarrow> posted" where
  "failAll ks e = map (\<lambda>k. (AccountID (pc_member k), Some e)) ks"

definition batch_item :: "preparedCopy \<Rightarrow> outgoing" where
  "batch_item k = \<lparr>og_MessageID = pc_messageID k, og_RecipientAccountID = [],
     og_RecipientDeviceID = pe_DeviceID (pc_endpoint k), og_Payload = pc_payload k\<rparr>"

definition item_outcome :: "string option \<Rightarrow> client_error option" where
  "item_outcome status = (case status of None \<Rightarrow> None | Some s \<Rightarrow> if IsDeliveredStatus s then None else Some (ErrEnqueue s))"

fun read_results :: "(string \<times> string) list \<Rightarrow> preparedCopy list \<Rightarrow> posted net_op" where
  "read_results results [] = ret []"
| "read_results results (k # ks) =
     (let status = assoc_get (rev results) (pc_messageID k); account = AccountID (pc_member k) in
      chain (if (case status of None \<Rightarrow> False | Some s \<Rightarrow> IsStaleRecipientStatus s)
             then best_effort (on_client (ForgetPeerDevice account)) else ret ()) (\<lambda>_.
      chain (read_results results ks) (\<lambda>rs. ret ((account, item_outcome status) # rs))))"

definition batch_request :: "platform \<Rightarrow> time \<Rightarrow> string \<Rightarrow> preparedCopy list \<Rightarrow> request net_op" where
  "batch_request P now server ks = (if server = []
     then ret ((plain_request ''POST'' ''/v1/messages/batch'' authDevice)\<lparr>rq_body := Some (BodyBatch None (map batch_item ks))\<rparr>)
     else chain (on_client Identity_client) (\<lambda>i. chain (signDeviceCert P i now) (\<lambda>cert.
       ret ((plain_request ''POST'' ''/v1/federation/messages/batch'' authFederated)
         \<lparr>rq_server := server, rq_body := Some (BodyBatch (Some cert) (map batch_item ks))\<rparr>))))"

definition sendBatch :: "platform \<Rightarrow> codec \<Rightarrow> time \<Rightarrow> string \<Rightarrow> preparedCopy list \<Rightarrow> posted net_op" where
  "sendBatch P J now server ks =
     chain (attempt (batch_request P now server ks)) (\<lambda>r. case r of Inl e \<Rightarrow> ret (failAll ks e)
     | Inr req \<Rightarrow> chain (attempt (do_json P J now (jc_results J) req)) (\<lambda>answer. case answer of
         Inl _ \<Rightarrow> post_each P J now ks
       | Inr results \<Rightarrow> read_results results ks))"

function chunks :: "nat \<Rightarrow> 'a list \<Rightarrow> 'a list list" where
  "chunks n xs = (if xs = [] \<or> n = 0 then [] else take n xs # chunks n (drop n xs))"
  by pat_completeness auto
termination by (relation "measure (\<lambda>(n, xs). length xs)") auto

declare chunks.simps [simp del]

fun send_batches :: "platform \<Rightarrow> codec \<Rightarrow> time \<Rightarrow> string \<Rightarrow> preparedCopy list list \<Rightarrow> posted net_op" where
  "send_batches P J now server [] = ret []"
| "send_batches P J now server (b # bs) = chain (sendBatch P J now server b) (\<lambda>r.
     chain (send_batches P J now server bs) (\<lambda>rs. ret (r @ rs)))"

definition batch_size :: "platform \<Rightarrow> codec \<Rightarrow> time \<Rightarrow> string \<Rightarrow> nat \<Rightarrow> nat net_op" where
  "batch_size P J now server n = (if n \<le> 1 then ret 1
     else chain (attempt (client_ServerStatus P J now server)) (\<lambda>r. ret (case r of Inl _ \<Rightarrow> 1
       | Inr s \<Rightarrow> if ss_BatchMessages s \<and> ss_MaxBatchMessages s > 0 then nat (ss_MaxBatchMessages s) else 1)))"

definition deliverToServer :: "platform \<Rightarrow> codec \<Rightarrow> time \<Rightarrow> string \<Rightarrow> preparedCopy list \<Rightarrow> posted net_op" where
  "deliverToServer P J now server ks = chain (batch_size P J now server (length ks)) (\<lambda>n.
     if n > 1 then send_batches P J now server (chunks n ks) else post_each P J now ks)"

fun deliver_to_all :: "platform \<Rightarrow> codec \<Rightarrow> time \<Rightarrow> preparedCopy list \<Rightarrow> string list \<Rightarrow> posted net_op" where
  "deliver_to_all P J now ks [] = ret []"
| "deliver_to_all P J now ks (server # servers) =
     chain (deliverToServer P J now server (filter (\<lambda>k. pe_Server (pc_endpoint k) = server) ks)) (\<lambda>r.
     chain (deliver_to_all P J now ks servers) (\<lambda>rs. ret (r @ rs)))"

section \<open>Saying why (groupsend.go)\<close>

fun enqueue_status :: "client_error \<Rightarrow> string option" where
  "enqueue_status (ErrEnqueue s) = Some s"
| "enqueue_status (ErrBlobUnavailable e) = enqueue_status e"
| "enqueue_status (ErrJoin a b) = (case enqueue_status a of None \<Rightarrow> enqueue_status b | Some s \<Rightarrow> Some s)"
| "enqueue_status _ = None"

definition humanFailure :: "client_error \<Rightarrow> string" where
  "humanFailure e = (case enqueue_status e of
     Some s \<Rightarrow> if s = ''unknown_recipient'' then ''Their server no longer knows this account.''
       else if s = ''queue_full'' then ''Their server is full right now. Try again later.''
       else if s = ''invalid'' then ''Their server would not accept the message.''
       else ''Their server could not take the message. Try again later.''
   | None \<Rightarrow> (case api_error e of
       Some (status, code) \<Rightarrow> if code = ''federation_disabled'' then ''Their server does not accept messages from other servers.''
         else if status = 404 then ''Their server no longer knows this account.''
         else if status = 429 then ''Their server is busy right now. Try again later.''
         else if status \<ge> 500 then ''Their server had a problem. Try again later.''
         else ''Their server refused the message.''
     | None \<Rightarrow> if not_freizone e then ''That address is not a Freizone server.''
         else if IsUnreachable e then ''Their server could not be reached.''
         else ''The message could not be sent. Try again.''))"

definition postFailureReason :: "codec \<Rightarrow> client_error option option \<Rightarrow> string \<times> string" where
  "postFailureReason J outcome = (case outcome of
     None \<Rightarrow> (''Not sent. Try again.'', ''their copy was prepared but never posted'')
   | Some None \<Rightarrow> (''Not delivered.'', ''posting their copy failed for no stated reason'')
   | Some (Some e) \<Rightarrow> (humanFailure e, ''posting their copy: '' @ jc_error_text J e))"

section \<open>The fan-out\<close>

definition new_delivery :: "string \<Rightarrow> string \<Rightarrow> string \<Rightarrow> string \<Rightarrow> GroupDelivery" where
  "new_delivery account wireID st err = \<lparr>gd_AccountID = account, gd_WireMessageID = wireID, gd_State = st, gd_Error = err,
     gd_Detail = [], gd_AttachmentSkipped = False\<rparr>"

fun prepare_copies ::
    "platform \<Rightarrow> codec \<Rightarrow> time \<Rightarrow> string \<Rightarrow> (Member \<Rightarrow> bytes) \<Rightarrow> (string \<times> string) list \<Rightarrow> Member list \<Rightarrow> (preparedCopy list \<times> GroupDelivery list) net_op" where
  "prepare_copies P J now ownServer encode wireIDs [] = ret ([], [])"
| "prepare_copies P J now ownServer encode wireIDs (m # ms) =
     chain (on_client (IsPeerBlocked (AccountID m))) (\<lambda>blocked.
       if blocked then prepare_copies P J now ownServer encode wireIDs ms
       else chain (attempt (prepareCopy P J now m ownServer (encode m)
                (case assoc_get wireIDs (AccountID m) of None \<Rightarrow> [] | Some i \<Rightarrow> i))) (\<lambda>r.
            chain (prepare_copies P J now ownServer encode wireIDs ms) (\<lambda>(ks, ds). case r of
              Inl e \<Rightarrow> ret (ks, new_delivery (AccountID m) [] SendFailed (''preparing their copy: '' @ jc_error_text J e) # ds)
            | Inr k \<Rightarrow> ret (k # ks, new_delivery (AccountID m) (pc_messageID k) SendPending [] # ds))))"

definition was_sent :: "posted \<Rightarrow> string \<Rightarrow> bool" where
  "was_sent posted account \<longleftrightarrow> assoc_get (rev posted) account = Some None"

definition drop_unsent_establishments :: "posted \<Rightarrow> preparedCopy list \<Rightarrow> unit client_op" where
  "drop_unsent_establishments posted = each (\<lambda>k. if pc_established k \<and> \<not> was_sent posted (AccountID (pc_member k))
     then DeleteSession (AccountID (pc_member k)) Sending else ret ())"

fun settle_deliveries :: "codec \<Rightarrow> string \<Rightarrow> posted \<Rightarrow> GroupDelivery list \<Rightarrow> GroupDelivery list client_op" where
  "settle_deliveries J gid posted [] = ret []"
| "settle_deliveries J gid posted (d # ds) =
     chain (if gd_State d \<noteq> SendPending then ret d
            else if was_sent posted (gd_AccountID d) then ret (d\<lparr>gd_State := SendSent, gd_Error := [], gd_Detail := []\<rparr>)
            else let (reason, detail) = postFailureReason J (assoc_get (rev posted) (gd_AccountID d)) in
                 chain (oweGroupSnapshot gid (gd_AccountID d)) (\<lambda>_.
                 ret (d\<lparr>gd_State := SendFailed, gd_Error := reason, gd_Detail := detail\<rparr>))) (\<lambda>d'.
     chain (settle_deliveries J gid posted ds) (\<lambda>ds'. ret (d' # ds')))"

definition fanOut ::
    "platform \<Rightarrow> codec \<Rightarrow> time \<Rightarrow> string \<Rightarrow> (Member \<Rightarrow> bytes) \<Rightarrow> Member list \<Rightarrow> (string \<times> string) list \<Rightarrow> GroupDelivery list net_op" where
  "fanOut P J now gid encode recipients wireIDs =
     chain (on_client Identity_client) (\<lambda>i.
     chain (prepare_copies P J now (ci_Server i) encode wireIDs recipients) (\<lambda>(copies, deliveries).
     chain (deliver_to_all P J now copies (sort (remdups (map (\<lambda>k. pe_Server (pc_endpoint k)) copies)))) (\<lambda>posted.
     chain (on_client (drop_unsent_establishments posted copies)) (\<lambda>_.
     on_client (settle_deliveries J gid posted deliveries)))))"

section \<open>Control envelopes\<close>

definition sendGroupControl :: "platform \<Rightarrow> codec \<Rightarrow> time \<Rightarrow> Member \<Rightarrow> string \<Rightarrow> bytes \<Rightarrow> unit net_op" where
  "sendGroupControl P J now m ownServer plaintext =
     chain (on_client (IsPeerBlocked (AccountID m))) (\<lambda>blocked. if blocked then fail ErrPeerBlocked
       else chain (prepareCopy P J now m ownServer plaintext []) (\<lambda>k.
            chain (post_copy P J now k) (\<lambda>r. case r of None \<Rightarrow> ret ()
            | Some e \<Rightarrow> chain (if pc_established k then on_client (DeleteSession (AccountID m) Sending) else ret ()) (\<lambda>_. fail e))))"

fun broadcast_each :: "platform \<Rightarrow> codec \<Rightarrow> time \<Rightarrow> string \<Rightarrow> string \<Rightarrow> bytes \<Rightarrow> Member list \<Rightarrow> unit net_op" where
  "broadcast_each P J now gid ownServer plaintext [] = ret ()"
| "broadcast_each P J now gid ownServer plaintext (m # ms) =
     chain (attempt (sendGroupControl P J now m ownServer plaintext)) (\<lambda>r.
     chain (case r of Inr _ \<Rightarrow> ret () | Inl _ \<Rightarrow> on_client (oweGroupSnapshot gid (AccountID m))) (\<lambda>_.
     broadcast_each P J now gid ownServer plaintext ms))"

definition BroadcastGroupEvents :: "platform \<Rightarrow> codec \<Rightarrow> time \<Rightarrow> string \<Rightarrow> Event list \<Rightarrow> string list \<Rightarrow> unit net_op" where
  "BroadcastGroupEvents P J now gid es skip =
     chain (on_client (GroupMembership P gid)) (\<lambda>membership. case membership of None \<Rightarrow> ret ()
     | Some r \<Rightarrow> chain (on_client Identity_client) (\<lambda>i.
         broadcast_each P J now gid (ci_Server i)
           (jc_encode J (group_control_body GroupEvents gid (ResStateHash r) es))
           (filter (\<lambda>m. AccountID m \<noteq> ci_AccountID i \<and> AccountID m \<notin> set skip) (Members r))))"

definition SendGroupSnapshot :: "platform \<Rightarrow> codec \<Rightarrow> time \<Rightarrow> string \<Rightarrow> string \<Rightarrow> unit net_op" where
  "SendGroupSnapshot P J now gid toAccountID =
     chain (on_client (GroupState gid)) (\<lambda>st. case st of None \<Rightarrow> ret ()
     | Some s \<Rightarrow> (case memberOf (Some (Resolve P s)) toAccountID of None \<Rightarrow> fail (ErrText ''not a member of the group'')
       | Some m \<Rightarrow> chain (on_client Identity_client) (\<lambda>i.
           chain (sendGroupControl P J now m (ci_Server i)
             (jc_encode J (group_control_body GroupSnapshot gid (ResStateHash (Resolve P s)) (Events s)))) (\<lambda>_.
           on_client (clearGroupSnapshotDebt gid toAccountID)))))"

definition bare_member :: "string \<Rightarrow> string \<Rightarrow> Member" where
  "bare_member account server = \<lparr>AccountID = account, MemberServer = server, MemberRole = RoleNone, RoleName = [],
     AddedAt = zero_time, Joined = False\<rparr>"

definition AskForGroupFacts :: "platform \<Rightarrow> codec \<Rightarrow> time \<Rightarrow> string \<Rightarrow> string \<Rightarrow> string \<Rightarrow> unit net_op" where
  "AskForGroupFacts P J now gid peer peerServer =
     chain (on_client (markGroupSyncRequested gid now)) (\<lambda>asked. if asked then ret ()
       else chain (on_client Identity_client) (\<lambda>i.
            chain (if peerServer \<noteq> [] then ret peerServer
                   else chain (attempt (on_client (Conversation_client peer))) (\<lambda>r. ret (case r of
                     Inl _ \<Rightarrow> [] | Inr convo \<Rightarrow> peer_server convo))) (\<lambda>server.
            sendGroupControl P J now (bare_member peer server) (ci_Server i)
              (jc_encode J (group_control_body GroupSyncRequest gid [] [])))))"

definition ReconcileGroup :: "platform \<Rightarrow> codec \<Rightarrow> time \<Rightarrow> GroupOutcome \<Rightarrow> string \<Rightarrow> unit net_op" where
  "ReconcileGroup P J now outcome peer =
     (if go_GroupID outcome = [] then ret ()
      else chain (on_client (GroupState (go_GroupID outcome))) (\<lambda>st. case st of
        None \<Rightarrow> AskForGroupFacts P J now (go_GroupID outcome) peer []
      | Some s \<Rightarrow> (let r = Resolve P s in
          chain (if go_WantsSnapshot outcome then ret False
                 else if go_PeerStateHash outcome = [] \<or> go_PeerStateHash outcome = ResStateHash r then ret True
                 else on_client (markGroupHashAnswered (go_GroupID outcome) peer (go_PeerStateHash outcome))) (\<lambda>settled.
          if settled \<or> memberOf (Some r) peer = None then ret ()
          else chain (attempt (SendGroupSnapshot P J now (go_GroupID outcome) peer)) (\<lambda>sent. case sent of
              Inr _ \<Rightarrow> ret () | Inl _ \<Rightarrow> on_client (oweGroupSnapshot (go_GroupID outcome) peer))))))"

fun sync_target :: "string \<Rightarrow> string \<Rightarrow> Member option \<Rightarrow> Member list \<Rightarrow> Member option" where
  "sync_target founder except fallback [] = fallback"
| "sync_target founder except fallback (m # ms) =
     (if AccountID m = except \<or> \<not> Joined m then sync_target founder except fallback ms
      else if AccountID m = founder then Some m
      else sync_target founder except (case fallback of None \<Rightarrow> Some m | Some f \<Rightarrow> Some f) ms)"

definition syncTargetFor :: "Resolved \<Rightarrow> string \<Rightarrow> Member option" where
  "syncTargetFor r except = sync_target (Founder r) except None (Members r)"

definition groupSyncWorthAsking :: "string \<Rightarrow> string \<Rightarrow> bool client_op" where
  "groupSyncWorthAsking gid ours = (if ours = [] then ret True
     else chain (groupPeersFor gid) (\<lambda>p. let hs = gp_StateHashes p in
       ret (hs = [] \<or> list_ex (\<lambda>h. snd h \<noteq> [] \<and> snd h \<noteq> ours) hs)))"

definition RequestGroupSync :: "platform \<Rightarrow> codec \<Rightarrow> time \<Rightarrow> string \<Rightarrow> unit net_op" where
  "RequestGroupSync P J now gid =
     chain (on_client (GroupMembership P gid)) (\<lambda>membership. case membership of None \<Rightarrow> ret ()
     | Some r \<Rightarrow> if Dissolved r then ret ()
         else chain (on_client Identity_client) (\<lambda>i.
           case syncTargetFor r (ci_AccountID i) of None \<Rightarrow> ret ()
           | Some target \<Rightarrow> chain (on_client (groupSyncWorthAsking gid (ResStateHash r))) (\<lambda>worth.
               if \<not> worth then ret () else AskForGroupFacts P J now gid (AccountID target) (MemberServer target))))"

end
