(* ===== verification/Client_Group_Chat.thy ===== *)
theory Client_Group_Chat
  imports Client_Group_Send
begin

text \<open>
  What a member does in a group (\<open>pkg/client/groupsend.go\<close>, \<open>groupactions.go\<close>): writing
  to it, confirming what was read, settling the facts owed to others, and acting on its membership.
\<close>

section \<open>Attachments for a group\<close>

fun group_endpoints :: "platform \<Rightarrow> codec \<Rightarrow> time \<Rightarrow> string \<Rightarrow> Member list \<Rightarrow> PeerEndpoint list net_op" where
  "group_endpoints P J now ownServer [] = ret []"
| "group_endpoints P J now ownServer (m # ms) =
     chain (attempt (endpointOn P J now (AccountID m) (if MemberServer m = ownServer then [] else MemberServer m))) (\<lambda>r.
     chain (group_endpoints P J now ownServer ms) (\<lambda>eps. ret (case r of Inl _ \<Rightarrow> eps | Inr ep \<Rightarrow> ep # eps)))"

fun upload_per_server ::
    "platform \<Rightarrow> codec \<Rightarrow> time \<Rightarrow> OutgoingMedia \<Rightarrow> PeerEndpoint list \<Rightarrow> string list \<Rightarrow> (string \<times> Attachment) list net_op" where
  "upload_per_server P J now media eps [] = ret []"
| "upload_per_server P J now media eps (server # servers) =
     (let theirs = filter (\<lambda>ep. pe_Server ep = server) eps in
      chain (attempt (UploadAttachment P J now theirs media)) (\<lambda>r.
      chain (upload_per_server P J now media eps servers) (\<lambda>refs. ret (case r of Inl _ \<Rightarrow> refs
        | Inr uploaded \<Rightarrow> map (\<lambda>ep. (pe_AccountID ep, uploaded)) theirs @ refs))))"

definition uploadForGroup :: "platform \<Rightarrow> codec \<Rightarrow> time \<Rightarrow> Member list \<Rightarrow> OutgoingMedia \<Rightarrow> (string \<times> Attachment) list net_op" where
  "uploadForGroup P J now recipients media =
     chain (on_client Identity_client) (\<lambda>i.
     chain (group_endpoints P J now (ci_Server i) recipients) (\<lambda>eps.
       if eps = [] then fail (ErrText ''no reachable recipient for the attachment'')
       else chain (upload_per_server P J now media eps (sort (remdups (map pe_Server eps)))) (\<lambda>refs.
            if refs = [] then fail (ErrText ''no server would store the attachment'') else ret refs)))"

section \<open>Writing to a group\<close>

definition client_SetGroupDelivery :: "string \<Rightarrow> string \<Rightarrow> GroupDelivery \<Rightarrow> unit client_op" where
  "client_SetGroupDelivery chat i d = update_log chat (\<lambda>rs. SetGroupDelivery rs i d)"

definition recordDeliveries :: "string \<Rightarrow> string \<Rightarrow> GroupDelivery list \<Rightarrow> unit client_op" where
  "recordDeliveries gid i ds = each (client_SetGroupDelivery gid i) ds"

fun claim_for_first_behind :: "Claim \<Rightarrow> string list \<Rightarrow> Claim option client_op" where
  "claim_for_first_behind claim [] = ret None"
| "claim_for_first_behind claim (peer # peers) = chain (safeElement peer) (\<lambda>_. chain (look (\<lambda>c. pr_SentAt (profile_of c peer))) (\<lambda>sent.
     if (case sent of None \<Rightarrow> True | Some t \<Rightarrow> SupersedesTime claim t) then ret (Some claim)
     else claim_for_first_behind claim peers))"

definition profileClaimForAny :: "platform \<Rightarrow> string list \<Rightarrow> Claim option client_op" where
  "profileClaimForAny P recipients = chain (ownProfileClaim P) (\<lambda>co. case co of None \<Rightarrow> ret None
     | Some claim \<Rightarrow> claim_for_first_behind claim recipients)"

definition profileClaimDelivered :: "GroupDelivery list \<Rightarrow> Claim option \<Rightarrow> unit client_op" where
  "profileClaimDelivered ds co = (case co of None \<Rightarrow> ret ()
     | Some _ \<Rightarrow> each (\<lambda>d. if gd_State d = SendSent then profileClaimSent (gd_AccountID d) co else ret ()) ds)"

definition overall_state :: "GroupDelivery list \<Rightarrow> string" where
  "overall_state ds = (if list_ex (\<lambda>d. gd_State d = SendSent) ds then SendSent else SendFailed)"

definition open_membership :: "platform \<Rightarrow> string \<Rightarrow> Resolved client_op" where
  "open_membership P gid = chain (GroupMembership P gid) (\<lambda>membership. case membership of
     None \<Rightarrow> fail (ErrText ''no facts about the group'')
   | Some r \<Rightarrow> if Dissolved r then fail (ErrText ''the group has been dissolved'') else ret r)"

definition touchGroup :: "string \<Rightarrow> time \<Rightarrow> unit client_op" where
  "touchGroup gid now = chain (GroupChat_client gid) (\<lambda>chat.
     PutGroupChat ((case chat of None \<Rightarrow> new_group_chat gid | Some g \<Rightarrow> g)\<lparr>gc_LastActivityAt := Some now\<rparr>))"

text \<open>The copies of one line, and the record of what became of each.\<close>

definition send_copies ::
    "platform \<Rightarrow> codec \<Rightarrow> time \<Rightarrow> string \<Rightarrow> Resolved \<Rightarrow> chat_message \<Rightarrow> time \<Rightarrow> Member list \<Rightarrow> (string \<times> Attachment) list option
      \<Rightarrow> (string \<times> string) list \<Rightarrow> (GroupDelivery list net_op \<Rightarrow> GroupDelivery list net_op) \<Rightarrow> GroupDelivery list net_op" where
  "send_copies P J now gid r line sentAt recipients references wireIDs wrap =
     chain (on_client (profileClaimForAny P (map AccountID recipients))) (\<lambda>claim.
     chain (wrap (fanOut P J now gid (groupPlaintextFor J line gid (ResStateHash r) sentAt references claim) recipients wireIDs)) (\<lambda>ds.
     chain (on_client (profileClaimDelivered ds claim)) (\<lambda>_.
       let ds' = markAttachmentSkipped ds (references \<noteq> None) (case references of None \<Rightarrow> [] | Some refs \<Rightarrow> refs)
       in chain (on_client (recordDeliveries gid (cm_ID line) ds')) (\<lambda>_. ret ds'))))"

definition SendGroupText :: "platform \<Rightarrow> codec \<Rightarrow> time \<Rightarrow> string \<Rightarrow> string \<Rightarrow> SendOptions \<Rightarrow> chat_message net_op" where
  "SendGroupText P J now0 gid txt opts =
     (let now = receiptClock now0 in
      chain (on_client Identity_client) (\<lambda>me.
      chain (on_client (open_membership P gid)) (\<lambda>r.
        if (case memberOf (Some r) (ci_AccountID me) of None \<Rightarrow> True | Some m \<Rightarrow> \<not> Joined m)
        then fail (ErrText ''not a joined member of the group'')
        else chain (on_client newMessageID) (\<lambda>i.
          let recipients = joinedMembers r (ci_AccountID me);
              line0 = (own_line i txt now opts)\<lparr>cm_Deliveries := map (\<lambda>m. new_delivery (AccountID m) [] SendPending []) recipients\<rparr>
          in chain (case so_Media opts of None \<Rightarrow> ret line0 | Some m \<Rightarrow> on_client (keep_media gid i m line0)) (\<lambda>line.
             chain (on_client (client_AppendMessage gid line)) (\<lambda>_.
             chain (case so_Media opts of None \<Rightarrow> ret None
                    | Some m \<Rightarrow> chain (or_mark_failed gid i (uploadForGroup P J now0 recipients m)) (\<lambda>refs. ret (Some refs))) (\<lambda>references.
             chain (send_copies P J now0 gid r line now recipients references [] id) (\<lambda>ds.
             chain (on_client (client_SetMessageSendState gid i (overall_state ds))) (\<lambda>_.
             chain (on_client (touchGroup gid now)) (\<lambda>_.
             ret (line\<lparr>cm_Deliveries := ds, cm_SendState := overall_state ds\<rparr>)))))))))))"

text \<open>A copy owed to somebody no longer in the group is settled; the others are sent again.\<close>

fun settle_departed :: "string \<Rightarrow> string \<Rightarrow> Member list \<Rightarrow> GroupDelivery list \<Rightarrow> (GroupDelivery list \<times> Member list) client_op" where
  "settle_departed gid i joined [] = ret ([], [])"
| "settle_departed gid i joined (d # ds) =
     (if gd_State d = SendSent then chain (settle_departed gid i joined ds) (\<lambda>(ds', ms). ret (d # ds', ms))
      else case find (\<lambda>m. AccountID m = gd_AccountID d) joined of
        Some m \<Rightarrow> chain (settle_departed gid i joined ds) (\<lambda>(ds', ms). ret (d # ds', m # ms))
      | None \<Rightarrow> (let d' = d\<lparr>gd_State := SendSent, gd_Error := []\<rparr> in
          chain (client_SetGroupDelivery gid i d') (\<lambda>_.
          chain (settle_departed gid i joined ds) (\<lambda>(ds', ms). ret (d' # ds', ms)))))"

definition upload_again_for_group ::
    "platform \<Rightarrow> codec \<Rightarrow> time \<Rightarrow> string \<Rightarrow> chat_message \<Rightarrow> Member list \<Rightarrow> (string \<times> Attachment) list option net_op" where
  "upload_again_for_group P J now gid line recipients =
     (case cm_Attachments line of
        [a] \<Rightarrow> if at_BlobID a \<noteq> [] then ret None
          else chain (on_client (AttachmentFile gid (cm_ID line))) (\<lambda>bytes. case bytes of
              None \<Rightarrow> fail ErrAttachmentNotResendable
            | Some b \<Rightarrow> chain (uploadForGroup P J now recipients (resendable_media a b)) (\<lambda>refs. ret (Some refs)))
      | _ \<Rightarrow> ret None)"

definition merge_deliveries :: "GroupDelivery list \<Rightarrow> GroupDelivery list \<Rightarrow> GroupDelivery list" where
  "merge_deliveries old new = map (\<lambda>d. case find (\<lambda>n. gd_AccountID n = gd_AccountID d) (rev new) of
     None \<Rightarrow> d | Some n \<Rightarrow> n) old"

definition recorded_wire_ids :: "GroupDelivery list \<Rightarrow> (string \<times> string) list" where
  "recorded_wire_ids ds = rev (map (\<lambda>d. (gd_AccountID d, gd_WireMessageID d)) (filter (\<lambda>d. gd_WireMessageID d \<noteq> []) ds))"

definition retry_copies ::
    "platform \<Rightarrow> codec \<Rightarrow> time \<Rightarrow> string \<Rightarrow> Resolved \<Rightarrow> chat_message \<Rightarrow> Member list \<Rightarrow> chat_message net_op" where
  "retry_copies P J now gid r line recipients =
     chain (upload_again_for_group P J now gid line recipients) (\<lambda>references.
     chain (on_client (client_SetMessageSendState gid (cm_ID line) SendPending)) (\<lambda>_.
     chain (send_copies P J now gid r line (cm_Timestamp line) recipients references (recorded_wire_ids (cm_Deliveries line))
       (or_mark_failed gid (cm_ID line))) (\<lambda>ds.
       let final = merge_deliveries (cm_Deliveries line) ds
       in chain (on_client (client_SetMessageSendState gid (cm_ID line) (overall_state final))) (\<lambda>_.
          ret (line\<lparr>cm_Deliveries := final, cm_SendState := overall_state final\<rparr>)))))"

definition RetryGroupMessage :: "platform \<Rightarrow> codec \<Rightarrow> time \<Rightarrow> string \<Rightarrow> string \<Rightarrow> chat_message net_op" where
  "RetryGroupMessage P J now gid i =
     chain (on_client (client_Messages gid)) (\<lambda>msgs.
       case find (\<lambda>m. cm_ID m = i) msgs of None \<Rightarrow> fail (ErrText ''no such message in the group'')
       | Some line \<Rightarrow> if cm_SendState line = SendPending then fail (ErrText ''the message is still sending'')
         else chain (on_client Identity_client) (\<lambda>me.
              chain (on_client (open_membership P gid)) (\<lambda>r.
              chain (on_client (settle_departed gid i (joinedMembers r (ci_AccountID me)) (cm_Deliveries line))) (\<lambda>(ds, recipients).
                let line' = line\<lparr>cm_Deliveries := ds\<rparr> in
                if recipients = []
                then chain (on_client (client_SetMessageSendState gid i SendSent)) (\<lambda>_. ret (line'\<lparr>cm_SendState := SendSent\<rparr>))
                else retry_copies P J now gid r line' recipients))))"

section \<open>Receipts\<close>

definition sentReceiptUpTo :: "MemberReceipt \<Rightarrow> ReceiptStatus \<Rightarrow> time option" where
  "sentReceiptUpTo r status = (if status = ReceiptRead then mr_SentReadReceiptUpTo r else mr_SentDeliveredReceiptUpTo r)"

definition record_sent_member_receipt :: "ReceiptStatus \<Rightarrow> time \<Rightarrow> MemberReceipt \<Rightarrow> MemberReceipt" where
  "record_sent_member_receipt status upTo r = (if status = ReceiptRead then r\<lparr>mr_SentReadReceiptUpTo := Some upTo\<rparr>
     else r\<lparr>mr_SentDeliveredReceiptUpTo := Some upTo\<rparr>)"

definition SendGroupReceipt :: "platform \<Rightarrow> codec \<Rightarrow> time \<Rightarrow> string \<Rightarrow> string \<Rightarrow> ReceiptStatus \<Rightarrow> time \<Rightarrow> unit net_op" where
  "SendGroupReceipt P J now gid toAccountID status upTo =
     (if \<not> known_status status then fail (ErrText ''unknown receipt status'')
      else chain (on_client ReceiptsEnabled) (\<lambda>on. if \<not> on then ret ()
      else chain (on_client (GroupMembership P gid)) (\<lambda>membership.
        case memberOf membership toAccountID of None \<Rightarrow> ret ()
        | Some m \<Rightarrow> chain (on_client Identity_client) (\<lambda>i.
          chain (on_client (GroupChat_client gid)) (\<lambda>chat.
            if (case chat of None \<Rightarrow> False | Some g \<Rightarrow> \<not> advances (sentReceiptUpTo (member_receipt g toAccountID) status) upTo)
            then ret ()
            else chain (on_client (profileClaimFor P toAccountID)) (\<lambda>claim.
                 chain (sendGroupControl P J now m (ci_Server i) (jc_encode J (group_receipt_body status upTo gid claim))) (\<lambda>_.
                 chain (on_client (profileClaimSent toAccountID claim)) (\<lambda>_.
                 chain (on_client (GroupChat_client gid)) (\<lambda>chat'. case chat' of None \<Rightarrow> ret ()
                 | Some g \<Rightarrow> on_client (PutGroupChat (g\<lparr>gc_MemberReceipts := assoc_put (gc_MemberReceipts g) toAccountID
                     (record_sent_member_receipt status upTo (member_receipt g toAccountID))\<rparr>)))))))))))"

definition receiptAnchorOf :: "chat_message \<Rightarrow> time" where
  "receiptAnchorOf m = (case cm_SenderSentAt m of None \<Rightarrow> cm_Timestamp m | Some t \<Rightarrow> t)"

definition newestFromPeer :: "chat_message list \<Rightarrow> time option" where
  "newestFromPeer msgs = fold (\<lambda>m newest. if cm_Mine m \<or> cm_Kind m \<noteq> MessageNormal then newest
     else if advances newest (receiptAnchorOf m) then Some (receiptAnchorOf m) else newest) msgs None"

definition newestPerGroupAuthor :: "chat_message list \<Rightarrow> (string \<times> time) list" where
  "newestPerGroupAuthor msgs = sort_key fst (fold (\<lambda>m newest.
     if cm_Mine m \<or> cm_SenderAccountID m = [] \<or> cm_Kind m \<noteq> MessageNormal then newest
     else if advances (assoc_get newest (cm_SenderAccountID m)) (receiptAnchorOf m)
     then assoc_put newest (cm_SenderAccountID m) (receiptAnchorOf m) else newest) msgs [])"

definition count_if_sent :: "unit net_op \<Rightarrow> nat \<Rightarrow> nat net_op" where
  "count_if_sent m n = chain (attempt m) (\<lambda>r. ret (case r of Inl _ \<Rightarrow> n | Inr _ \<Rightarrow> Suc n))"

fun resend_convos :: "platform \<Rightarrow> codec \<Rightarrow> time \<Rightarrow> Conversation list \<Rightarrow> nat \<Rightarrow> nat net_op" where
  "resend_convos P J now [] n = ret n"
| "resend_convos P J now (v # vs) n =
     chain (on_client (client_Messages (cv_PeerAccountID v))) (\<lambda>msgs. case newestFromPeer msgs of
       None \<Rightarrow> resend_convos P J now vs n
     | Some upTo \<Rightarrow> chain (count_if_sent (SendReceipt P J now (cv_PeerAccountID v) ReceiptDelivered upTo) n) (\<lambda>n1.
         chain (if cv_HasUnread v then ret n1
                else count_if_sent (SendReceipt P J now (cv_PeerAccountID v) ReceiptRead upTo) n1) (resend_convos P J now vs)))"

fun resend_authors :: "platform \<Rightarrow> codec \<Rightarrow> time \<Rightarrow> string \<Rightarrow> bool \<Rightarrow> (string \<times> time) list \<Rightarrow> nat \<Rightarrow> nat net_op" where
  "resend_authors P J now gid unread [] n = ret n"
| "resend_authors P J now gid unread ((account, upTo) # rest) n =
     chain (count_if_sent (SendGroupReceipt P J now gid account ReceiptDelivered upTo) n) (\<lambda>n1.
     chain (if unread then ret n1 else count_if_sent (SendGroupReceipt P J now gid account ReceiptRead upTo) n1)
       (resend_authors P J now gid unread rest))"

fun resend_groups :: "platform \<Rightarrow> codec \<Rightarrow> time \<Rightarrow> string list \<Rightarrow> nat \<Rightarrow> nat net_op" where
  "resend_groups P J now [] n = ret n"
| "resend_groups P J now (gid # gids) n =
     chain (on_client (client_Messages gid)) (\<lambda>msgs.
     chain (on_client (GroupChat_client gid)) (\<lambda>chat.
     chain (resend_authors P J now gid (case chat of None \<Rightarrow> False | Some g \<Rightarrow> gc_HasUnread g) (newestPerGroupAuthor msgs) n)
       (resend_groups P J now gids)))"

definition ResendPendingReceipts :: "platform \<Rightarrow> codec \<Rightarrow> time \<Rightarrow> nat net_op" where
  "ResendPendingReceipts P J now = chain (on_client ReceiptsEnabled) (\<lambda>on. if \<not> on then ret 0
     else chain (on_client Conversations) (\<lambda>convos.
          chain (resend_convos P J now convos 0) (\<lambda>n.
          chain (on_client Groups) (\<lambda>gids. resend_groups P J now gids n))))"

section \<open>Debts\<close>

definition pay_one ::
    "platform \<Rightarrow> codec \<Rightarrow> time \<Rightarrow> string \<Rightarrow> Resolved option \<Rightarrow> string \<Rightarrow> nat \<times> string list \<Rightarrow> (nat \<times> string list) net_op" where
  "pay_one P J now gid membership account acc =
     (case memberOf membership account of
        None \<Rightarrow> chain (on_client (clearGroupSnapshotDebt gid account)) (\<lambda>_. ret acc)
      | Some m \<Rightarrow> chain (attempt (SendGroupSnapshot P J now gid account)) (\<lambda>r. case r of
          Inr _ \<Rightarrow> ret (Suc (fst acc), snd acc)
        | Inl _ \<Rightarrow> chain (attempt (accountIsGone P J now (MemberServer m) account)) (\<lambda>g. case g of
            Inl _ \<Rightarrow> ret acc
          | Inr absent \<Rightarrow> if \<not> absent then ret acc
              else chain (on_client (clearGroupSnapshotDebt gid account)) (\<lambda>_.
                   chain (on_client (recordMemberGone gid account now)) (\<lambda>_.
                   ret (fst acc, snd acc @ [account]))))))"

fun pay_owed ::
    "platform \<Rightarrow> codec \<Rightarrow> time \<Rightarrow> string \<Rightarrow> Resolved option \<Rightarrow> string list \<Rightarrow> nat \<times> string list \<Rightarrow> (nat \<times> string list) net_op" where
  "pay_owed P J now gid membership [] acc = ret acc"
| "pay_owed P J now gid membership (a # as) acc =
     chain (pay_one P J now gid membership a acc) (pay_owed P J now gid membership as)"

fun pay_groups :: "platform \<Rightarrow> codec \<Rightarrow> time \<Rightarrow> string list \<Rightarrow> nat \<times> string list \<Rightarrow> (nat \<times> string list) net_op" where
  "pay_groups P J now [] acc = ret acc"
| "pay_groups P J now (gid # gids) acc =
     chain (on_client (groupPeersFor gid)) (\<lambda>p.
     chain (on_client (GroupMembership P gid)) (\<lambda>membership.
     chain (pay_owed P J now gid membership (sort (gp_Owed p)) acc) (pay_groups P J now gids)))"

definition PayGroupSnapshotDebts :: "platform \<Rightarrow> codec \<Rightarrow> time \<Rightarrow> (nat \<times> string list) net_op" where
  "PayGroupSnapshotDebts P J now = chain (on_client Groups) (\<lambda>gids. pay_groups P J now gids (0, []))"

section \<open>Acting on a group (groupactions.go)\<close>

definition plain_event :: "EventType \<Rightarrow> Event" where
  "plain_event t = \<lparr>Type = t, GroupID = [], IssuedAt = zero_time, RootPubKey = [], Nonce = [], Subject = [],
     SubjectServer = [], EventRole = RoleNone, Name = [], Topic = [], EventSigner = None, Signature = []\<rparr>"

definition groupNow :: "time \<Rightarrow> time" where
  "groupNow now = truncate_second now"

definition signGroupEvent :: "platform \<Rightarrow> time \<Rightarrow> string \<Rightarrow> Event \<Rightarrow> Event client_op" where
  "signGroupEvent P now gid e = chain Identity_client (\<lambda>i.
     let e' = e\<lparr>GroupID := gid, IssuedAt := (if IssuedAt e = zero_time then groupNow now else IssuedAt e)\<rparr> in
     case SignDeviceCertificate P (ci_AccountID i) (ci_DeviceID i) (ci_DevicePub i) now (ci_RootPriv i) of
       Inl _ \<Rightarrow> fail (ErrText ''signing device certificate'')
     | Inr cert \<Rightarrow> (case SignDevice P e' \<lparr>s_AccountID = ci_AccountID i, s_RootPubKey = ci_RootPub i, s_DeviceCert = cert\<rparr>
           (ci_DevicePriv i) of
         Inl _ \<Rightarrow> fail (ErrText ''signing group event'') | Inr ev \<Rightarrow> ret ev))"

text \<open>What a fold shows, apart from the hash of the facts behind it.\<close>

definition foldPrint :: "platform \<Rightarrow> State \<Rightarrow> Resolved" where
  "foldPrint P st = (Resolve P st)\<lparr>ResStateHash := []\<rparr>"

definition mustTakeEffect :: "Event list \<Rightarrow> bool" where
  "mustTakeEffect es = list_ex (\<lambda>e. Type e \<in> {EventMemberAdd, EventMemberRemove, EventJoinAccept, EventLeave, EventDissolve}) es"

definition applyOwnGroupEvents :: "platform \<Rightarrow> string \<Rightarrow> Event list \<Rightarrow> unit client_op" where
  "applyOwnGroupEvents P gid es = chain (GroupState gid) (\<lambda>so. case so of
     None \<Rightarrow> fail (ErrText ''no facts about the group'')
   | Some st \<Rightarrow> (let (st', res) = Apply P st (map Some es) in
       if Rejected res \<noteq> [] then fail (ErrText ''not allowed'')
       else if mustTakeEffect es \<and> foldPrint P st' = foldPrint P st
       then fail (ErrText ''had no effect: this account is not allowed to do that'')
       else PutGroupState gid st'))"

definition act_on_group :: "platform \<Rightarrow> codec \<Rightarrow> time \<Rightarrow> string \<Rightarrow> Event \<Rightarrow> unit net_op" where
  "act_on_group P J now gid e =
     chain (on_client (signGroupEvent P now gid e)) (\<lambda>signed.
     chain (on_client (applyOwnGroupEvents P gid [signed])) (\<lambda>_. BroadcastGroupEvents P J now gid [signed] []))"

definition SetGroupMeta :: "platform \<Rightarrow> codec \<Rightarrow> time \<Rightarrow> string \<Rightarrow> string \<Rightarrow> string \<Rightarrow> unit net_op" where
  "SetGroupMeta P J now gid name topic = act_on_group P J now gid ((plain_event EventMeta)\<lparr>Name := name, Topic := topic\<rparr>)"

definition SetGroupRole :: "platform \<Rightarrow> codec \<Rightarrow> time \<Rightarrow> string \<Rightarrow> string \<Rightarrow> Role \<Rightarrow> bool \<Rightarrow> unit net_op" where
  "SetGroupRole P J now gid account role grant = act_on_group P J now gid
     ((plain_event (if grant then EventRoleGrant else EventRoleRevoke))\<lparr>Subject := account, EventRole := role\<rparr>)"

definition AcceptGroupInvitation :: "platform \<Rightarrow> codec \<Rightarrow> time \<Rightarrow> string \<Rightarrow> unit net_op" where
  "AcceptGroupInvitation P J now gid = chain (on_client Identity_client) (\<lambda>i.
     act_on_group P J now gid ((plain_event EventJoinAccept)\<lparr>Subject := ci_AccountID i\<rparr>))"

text \<open>A leaver tells the others first: afterwards there would be no member list to tell it to.\<close>

definition LeaveGroup :: "platform \<Rightarrow> codec \<Rightarrow> time \<Rightarrow> string \<Rightarrow> unit net_op" where
  "LeaveGroup P J now gid = chain (on_client Identity_client) (\<lambda>i.
     chain (on_client (signGroupEvent P now gid ((plain_event EventLeave)\<lparr>Subject := ci_AccountID i\<rparr>))) (\<lambda>e.
     chain (BroadcastGroupEvents P J now gid [e] []) (\<lambda>_. on_client (applyOwnGroupEvents P gid [e]))))"

definition sendGroupEventTo :: "platform \<Rightarrow> codec \<Rightarrow> time \<Rightarrow> string \<Rightarrow> string \<Rightarrow> Event list \<Rightarrow> unit net_op" where
  "sendGroupEventTo P J now gid account es =
     chain (on_client (GroupState gid)) (\<lambda>so. case so of None \<Rightarrow> ret ()
     | Some st \<Rightarrow> chain (on_client Identity_client) (\<lambda>i.
         chain (attempt (on_client (Conversation_client account))) (\<lambda>convo.
         chain (attempt (on_client (peerDevice account))) (\<lambda>cached.
           let s0 = (case convo of Inl _ \<Rightarrow> [] | Inr co \<Rightarrow> peer_server co);
               server = (if s0 \<noteq> [] then s0 else case cached of Inr (Some d) \<Rightarrow> pd_Server d | _ \<Rightarrow> [])
           in sendGroupControl P J now (bare_member account server) (ci_Server i)
                (jc_encode J (group_control_body GroupEvents gid (ResStateHash (Resolve P st)) es))))))"

definition RemoveFromGroup :: "platform \<Rightarrow> codec \<Rightarrow> time \<Rightarrow> string \<Rightarrow> string \<Rightarrow> unit net_op" where
  "RemoveFromGroup P J now gid account =
     chain (on_client (signGroupEvent P now gid ((plain_event EventMemberRemove)\<lparr>Subject := account\<rparr>))) (\<lambda>e.
     chain (on_client (applyOwnGroupEvents P gid [e])) (\<lambda>_.
     chain (best_effort (sendGroupEventTo P J now gid account [e])) (\<lambda>_.
     BroadcastGroupEvents P J now gid [e] [account])))"

definition InviteToGroup :: "platform \<Rightarrow> codec \<Rightarrow> time \<Rightarrow> string \<Rightarrow> string \<Rightarrow> string \<Rightarrow> unit net_op" where
  "InviteToGroup P J now gid addressOrPrefix server =
     chain (ResolvePeer P J now addressOrPrefix server) (\<lambda>ep.
     chain (on_client (cache_endpoint P ep)) (\<lambda>_.
     chain (if server = [] then chain (on_client Identity_client) (\<lambda>i. ret (ci_Server i)) else ret server) (\<lambda>memberServer.
     chain (on_client (signGroupEvent P now gid
       ((plain_event EventMemberAdd)\<lparr>Subject := pe_AccountID ep, SubjectServer := memberServer\<rparr>))) (\<lambda>e.
     chain (on_client (applyOwnGroupEvents P gid [e])) (\<lambda>_.
     chain (attempt (SendGroupSnapshot P J now gid (pe_AccountID ep))) (\<lambda>r.
     chain (case r of Inr _ \<Rightarrow> ret () | Inl _ \<Rightarrow> on_client (oweGroupSnapshot gid (pe_AccountID ep))) (\<lambda>_.
     BroadcastGroupEvents P J now gid [e] [pe_AccountID ep])))))))"

text \<open>An account's seed is the first half of its Ed25519 private key.\<close>

definition root_seed :: "client_identity \<Rightarrow> bytes" where
  "root_seed i = take 32 (ci_RootPriv i)"

definition group_result :: "string \<Rightarrow> 'e + 'a \<Rightarrow> ('s, 'a) oper" where
  "group_result what r = (case r of Inl _ \<Rightarrow> fail (ErrText what) | Inr x \<Rightarrow> ret x)"

definition CreateGroup :: "platform \<Rightarrow> codec \<Rightarrow> time \<Rightarrow> string \<Rightarrow> string net_op" where
  "CreateGroup P J now name =
     chain (on_client Identity_client) (\<lambda>i.
     chain drawKey (\<lambda>nonce.
     chain (group_result ''deriving group key'' (DeriveRootKey P (root_seed i) nonce)) (\<lambda>rootPriv.
     chain (group_result ''deriving group id'' (group_DeriveID P (ed25519_public P rootPriv))) (\<lambda>gid.
     chain (group_result ''signing genesis'' (SignRoot P ((plain_event EventGenesis)\<lparr>GroupID := gid, IssuedAt := groupNow now,
         RootPubKey := ed25519_public P rootPriv, Nonce := nonce, Subject := ci_AccountID i, SubjectServer := ci_Server i\<rparr>) rootPriv)) (\<lambda>genesis.
       let (st, res) = Apply P NewState [Some genesis] in
       if Rejected res \<noteq> [] then fail (ErrText ''own genesis rejected'')
       else chain (on_client (PutGroupState gid st)) (\<lambda>_.
            chain (on_client (PutGroupChat (new_group_chat gid))) (\<lambda>_.
            chain (if name = [] then ret () else SetGroupMeta P J now gid name []) (\<lambda>_. ret gid))))))))"

definition DissolveGroup :: "platform \<Rightarrow> codec \<Rightarrow> time \<Rightarrow> string \<Rightarrow> unit net_op" where
  "DissolveGroup P J now gid =
     chain (on_client (GroupState gid)) (\<lambda>so. case so of None \<Rightarrow> fail (ErrText ''no facts about the group'')
     | Some st \<Rightarrow> (case Genesis st of None \<Rightarrow> fail (ErrText ''the group has no genesis'')
       | Some genesis \<Rightarrow> chain (on_client Identity_client) (\<lambda>i.
         chain (group_result ''deriving group key'' (DeriveRootKey P (root_seed i) (Nonce genesis))) (\<lambda>rootPriv.
           if ed25519_public P rootPriv \<noteq> rootPubKey st then fail (ErrText ''only the founder can dissolve the group'')
           else chain (group_result ''signing dissolve'' (SignRoot P
                  ((plain_event EventDissolve)\<lparr>GroupID := gid, IssuedAt := groupNow now\<rparr>) rootPriv)) (\<lambda>e.
                chain (on_client (applyOwnGroupEvents P gid [e])) (\<lambda>_.
                BroadcastGroupEvents P J now gid [e] []))))))"

end
