(* ===== verification/Client_Drain.thy ===== *)
theory Client_Drain
  imports Client_Group_Chat
begin

text \<open>
  What a client owes an envelope and a fresh connection (\<open>pkg/client/drain.go\<close>): acknowledging
  what was handled, confirming it to its sender, and the upkeep that runs on a connection.
\<close>

definition confirm :: "platform \<Rightarrow> codec \<Rightarrow> time \<Rightarrow> ReceiveResult \<Rightarrow> unit net_op" where
  "confirm P J now res = (case rr_Group res of
     Some g \<Rightarrow> (case go_DeliveredUpTo g of None \<Rightarrow> ret ()
       | Some t \<Rightarrow> chain (best_effort (SendGroupReceipt P J now (go_GroupID g) (rr_PeerAccountID res) ReceiptDelivered t)) (\<lambda>_.
           case go_ReadUpTo g of None \<Rightarrow> ret ()
           | Some u \<Rightarrow> best_effort (SendGroupReceipt P J now (go_GroupID g) (rr_PeerAccountID res) ReceiptRead u)))
   | None \<Rightarrow> (case rr_DeliveredUpTo res of None \<Rightarrow> ret ()
       | Some t \<Rightarrow> chain (best_effort (SendReceipt P J now (rr_PeerAccountID res) ReceiptDelivered t)) (\<lambda>_.
           case rr_ReadUpTo res of None \<Rightarrow> ret ()
           | Some u \<Rightarrow> best_effort (SendReceipt P J now (rr_PeerAccountID res) ReceiptRead u))))"

definition gave_up :: "handled \<Rightarrow> bool" where
  "gave_up h = (case h of Received _ \<Rightarrow> False | Failed e \<Rightarrow> de_GaveUp e | Broken _ _ \<Rightarrow> True)"

definition handle_in_world ::
    "platform \<Rightarrow> codec \<Rightarrow> nat \<Rightarrow> (nat \<Rightarrow> bytes) \<Rightarrow> IncomingMessage \<Rightarrow> string \<Rightarrow> time \<Rightarrow> handled net_op" where
  "handle_in_world P J window draw msg openChat now w =
     (case HandleIncoming P (jc_content J) (jc_quote J) window draw msg openChat now (wo_client w) of
        (h, c) \<Rightarrow> (Inr h, w\<lparr>wo_client := c\<rparr>))"

text \<open>The follow-up requests are best effort: the outcome is what the receive path said.\<close>

definition HandleAndAck ::
    "platform \<Rightarrow> codec \<Rightarrow> nat \<Rightarrow> (nat \<Rightarrow> bytes) \<Rightarrow> IncomingMessage \<Rightarrow> string \<Rightarrow> time \<Rightarrow> handled net_op" where
  "HandleAndAck P J window draw msg openChat now =
     chain (handle_in_world P J window draw msg openChat now) (\<lambda>h.
     chain (if (case h of Received _ \<Rightarrow> True | _ \<Rightarrow> gave_up h) then best_effort (client_AckMessage P J now (in_MessageID msg)) else ret ()) (\<lambda>_.
     case h of Received res \<Rightarrow>
         if rr_Duplicate res then ret h
         else chain (confirm P J now res) (\<lambda>_.
              chain (case rr_Group res of None \<Rightarrow> ret ()
                | Some g \<Rightarrow> best_effort (ReconcileGroup P J now g (rr_PeerAccountID res))) (\<lambda>_. ret h))
     | _ \<Rightarrow> ret h))"

record DrainFailure =
  df_MessageID :: string
  df_SenderAccountID :: string
  df_Err :: handled
  df_Acknowledged :: bool

record DrainReport =
  dr_Results :: "ReceiveResult list"
  dr_Failures :: "DrainFailure list"

definition add_outcome :: "IncomingMessage \<Rightarrow> handled \<Rightarrow> DrainReport \<Rightarrow> DrainReport" where
  "add_outcome msg h report = (case h of Received res \<Rightarrow> report\<lparr>dr_Results := res # dr_Results report\<rparr>
     | _ \<Rightarrow> report\<lparr>dr_Failures := \<lparr>df_MessageID = in_MessageID msg, df_SenderAccountID = in_SenderAccountID msg, df_Err = h,
         df_Acknowledged = gave_up h\<rparr> # dr_Failures report\<rparr>)"

fun drain_each ::
    "platform \<Rightarrow> codec \<Rightarrow> nat \<Rightarrow> (nat \<Rightarrow> nat \<Rightarrow> bytes) \<Rightarrow> string \<Rightarrow> time \<Rightarrow> IncomingMessage list \<Rightarrow> DrainReport net_op" where
  "drain_each P J window draws openChat now [] = ret \<lparr>dr_Results = [], dr_Failures = []\<rparr>"
| "drain_each P J window draws openChat now (msg # msgs) =
     chain (HandleAndAck P J window (draws (length msgs)) msg openChat now) (\<lambda>h.
     chain (drain_each P J window draws openChat now msgs) (\<lambda>report. ret (add_outcome msg h report)))"

definition Drain :: "platform \<Rightarrow> codec \<Rightarrow> nat \<Rightarrow> (nat \<Rightarrow> nat \<Rightarrow> bytes) \<Rightarrow> string \<Rightarrow> time \<Rightarrow> DrainReport net_op" where
  "Drain P J window draws openChat now = chain (FetchMessages P J now) (drain_each P J window draws openChat now)"

record MaintenanceReport =
  mt_PrekeysToppedUp :: bool
  mt_DebtsPaid :: nat
  mt_Recovered :: "string list"
  mt_ReceiptsResent :: nat
  mt_GoneMembers :: "string list"
  mt_Problems :: "client_error list"

definition problem :: "client_error + 'a \<Rightarrow> client_error list" where
  "problem r = (case r of Inl e \<Rightarrow> [e] | Inr _ \<Rightarrow> [])"

definition Maintain :: "platform \<Rightarrow> codec \<Rightarrow> time \<Rightarrow> MaintenanceReport net_op" where
  "Maintain P J now =
     chain (attempt (TopUpOneTimePrekeys P J now)) (\<lambda>topped.
     chain (attempt (PayGroupSnapshotDebts P J now)) (\<lambda>paid.
     chain (attempt (RecoverDesyncedSessions P J now)) (\<lambda>recovered.
     chain (attempt (ResendPendingReceipts P J now)) (\<lambda>resent.
     ret \<lparr>mt_PrekeysToppedUp = (case topped of Inl _ \<Rightarrow> False | Inr _ \<Rightarrow> True),
          mt_DebtsPaid = (case paid of Inl _ \<Rightarrow> 0 | Inr x \<Rightarrow> fst x),
          mt_Recovered = (case recovered of Inl _ \<Rightarrow> [] | Inr x \<Rightarrow> x),
          mt_ReceiptsResent = (case resent of Inl _ \<Rightarrow> 0 | Inr x \<Rightarrow> x),
          mt_GoneMembers = (case paid of Inl _ \<Rightarrow> [] | Inr x \<Rightarrow> snd x),
          mt_Problems = problem topped @ problem paid @ problem recovered @ problem resent\<rparr>))))"

end
