(* ===== verification/Client_Net_Frame.thy ===== *)
theory Client_Net_Frame
  imports Client_Frame Client_Drain
begin

text \<open>
  What the operations that talk to a server touch. The footprints of \<open>Client_Frame\<close> are lifted to
  the world: a request changes nothing of the account but its supply of message ids, and looking for a
  peer's device or keys never touches a session of anybody else.
\<close>

section \<open>Relations on the account, lifted to the world\<close>

definition on_world :: "(client \<Rightarrow> client \<Rightarrow> bool) \<Rightarrow> world \<Rightarrow> world \<Rightarrow> bool" where
  "on_world R w w' \<longleftrightarrow> R (wo_client w) (wo_client w')"

text \<open>No session has moved; those with the accounts of \<open>A\<close> may be gone.\<close>

definition dropped :: "string set \<Rightarrow> client \<Rightarrow> client \<Rightarrow> bool" where
  "dropped A c d \<longleftrightarrow> (\<forall>k. assoc_get (cs_sessions d) k = assoc_get (cs_sessions c) k
     \<or> fst k \<in> A \<and> assoc_get (cs_sessions d) k = None)"

lemma dropped_refl [simp]: "dropped A c c"
  by (simp add: dropped_def)

lemma dropped_trans: "dropped A a b \<Longrightarrow> dropped A b c \<Longrightarrow> dropped A a c"
  unfolding dropped_def by metis

lemma dropped_other: "dropped A c d \<Longrightarrow> fst k \<notin> A \<Longrightarrow> assoc_get (cs_sessions d) k = assoc_get (cs_sessions c) k"
  unfolding dropped_def by blast

interpretation reached: client_relation "on_world (only F)"
  by unfold_locales (auto simp: on_world_def intro: only_trans)

interpretation losing: client_relation "on_world (dropped A)"
  by unfold_locales (auto simp: on_world_def intro: dropped_trans)

lemmas reached_rules = reached.keeps_same reached.keeps_chain reached.keeps_each keep_rules
lemmas losing_rules = losing.keeps_same losing.keeps_chain losing.keeps_each keep_rules

lemma keeps_on_client: "keeps R m \<Longrightarrow> keeps (on_world R) (on_client m)"
  by (simp add: keeps_def on_world_def on_client_def split: prod.splits) (metis snd_conv)

lemma keeps_attempt: "keeps R m \<Longrightarrow> keeps R (attempt m)"
  by (simp add: keeps_def attempt_def split: prod.splits) (metis snd_conv)

named_theorems reaches "what an operation on the world may change of the account"

lemma reach_net [reaches]: "keeps (on_world (only F)) drawKey" "keeps (on_world (only F)) (exchange s)"
  by (simp_all add: keeps_def on_world_def drawKey_def exchange_def split: list.split option.split)

lemma reach_result [reaches]: "keeps (on_world (only F)) (of_result r)" "keeps (on_world (only F)) (decoded v)"
  "keeps (on_world (only F)) (statusOnlyResponse J status body)" "keeps (on_world (only F)) (decodeResponse J status body)"
  by (simp_all add: keeps_def on_world_def of_result_def decoded_def statusOnlyResponse_def decodeResponse_def op_defs
      split: sum.split option.split)

lemma reach_attempt [reaches]: "keeps (on_world R) m \<Longrightarrow> keeps (on_world R) (attempt m)"
  by (rule keeps_attempt)

lemma reach_best [reaches]: "keeps (on_world (only F)) m \<Longrightarrow> keeps (on_world (only F)) (best_effort m)"
  unfolding best_effort_def by (intro reached_rules reaches)

lemma reach_none [reaches]:
  "keeps (on_world (only F)) (on_client Identity_client)" "keeps (on_world (only F)) (on_client (peerDevice peer))"
  "keeps (on_world (only F)) (on_client (Conversation_client peer))" "keeps (on_world (only F)) (on_client (IsPeerBlocked peer))"
  "keeps (on_world (only F)) (on_client (client_Session peer k))"
  by (intro keeps_on_client footprints)+

lemma reach_random [reaches]: "FRandom \<in> F \<Longrightarrow> keeps (on_world (only F)) (on_client newMessageID)"
  by (intro keeps_on_client footprints)

lemma reach_sign [reaches]: "FRandom \<in> F \<Longrightarrow> keeps (on_world (only F)) (signRequest P r body i now)"
  unfolding signRequest_def Let_def by (intro reached_rules reaches)

lemma reach_do [reaches]: "FRandom \<in> F \<Longrightarrow> keeps (on_world (only F)) (client_do P J now r)"
  unfolding client_do_def Let_def by (intro reached_rules reaches)

lemma reach_do_json [reaches]: "FRandom \<in> F \<Longrightarrow> keeps (on_world (only F)) (do_json P J now dec r)"
  "FRandom \<in> F \<Longrightarrow> keeps (on_world (only F)) (do_unit P J now r)"
  unfolding do_json_def do_unit_def by (intro reached_rules reaches; assumption)+

lemma reach_conflict [reaches]: "keeps (on_world (only F)) m \<Longrightarrow> keeps (on_world (only F)) (conflict_is_success m n)"
  unfolding conflict_is_success_def by (intro reached_rules reaches)

lemma reach_cert [reaches]: "keeps (on_world (only F)) (signDeviceCert P i now)"
  unfolding signDeviceCert_def by (intro reached_rules)

lemma reach_resolve [reaches]: "FRandom \<in> F \<Longrightarrow> keeps (on_world (only F)) (ResolvePeer P J now a server)"
  unfolding ResolvePeer_def Let_def by (intro reached_rules reaches)

lemma foot_devices [footprints]:
  assumes "FDevices \<in> F" "FProfiles \<in> F"
  shows "keeps (only F) (cache_endpoint P ep)"
  using assms unfolding cache_endpoint_def putPeerDevice_def writePeerDevice_def verifyPendingClaims_def
  by (intro touched_rules footprints keeps_change only_field)

lemma reach_endpoint [reaches]:
  assumes "FRandom \<in> F" "FDevices \<in> F" "FProfiles \<in> F"
  shows "keeps (on_world (only F)) (endpointOn P J now peer server)" "keeps (on_world (only F)) (Endpoint P J now peer)"
proof -
  show e: "keeps (on_world (only F)) (endpointOn P J now peer server)" for peer server
    using assms unfolding endpointOn_def Let_def by (intro reached_rules reaches keeps_on_client foot_devices)
  show "keeps (on_world (only F)) (Endpoint P J now peer)"
    unfolding Endpoint_def by (intro reached_rules reaches e)
qed

lemma reach_status [reaches]: "FRandom \<in> F \<Longrightarrow> keeps (on_world (only F)) (federationAllowed P J now)"
  unfolding federationAllowed_def client_ServerStatus_def by (intro reached_rules reaches)

lemma reach_gone [reaches]: "FRandom \<in> F \<Longrightarrow> keeps (on_world (only F)) (accountIsGone P J now server a)"
  unfolding accountIsGone_def by (intro reached_rules reaches)

lemma foot_gone [footprints]:
  assumes "FConvos \<in> F" "FLogs \<in> F" "FRandom \<in> F"
  shows "keeps (only F) (markPeerGone peer now)"
  using assms unfolding markPeerGone_def append_system_line_once_def by (intro touched_rules footprints)

lemma reach_give_up [reaches]:
  assumes "FConvos \<in> F" "FLogs \<in> F" "FRandom \<in> F"
  shows "keeps (on_world (only F)) (giveUpOnPeer P J now server a cause)" "keeps (on_world (only F)) (give_up_with P J now server a cause)"
proof -
  show g: "keeps (on_world (only F)) (giveUpOnPeer P J now server a cause)"
    using assms unfolding giveUpOnPeer_def by (intro reached_rules reaches keeps_on_client foot_gone)
  show "keeps (on_world (only F)) (give_up_with P J now server a cause)"
    unfolding give_up_with_def by (intro reached_rules g)
qed

lemma reach_claim [reaches]: "FRandom \<in> F \<Longrightarrow> keeps (on_world (only F)) (ClaimBundle P J now ep)"
  unfolding ClaimBundle_def Let_def by (intro reached_rules reaches)

lemma reach_establish [reaches]: "keeps (on_world (only F)) (establish P remote)"
proof -
  have "keeps (only F) (private_key what b)" for what b unfolding private_key_def by (intro touched_rules)
  then show ?thesis unfolding establish_def by (intro reached_rules reaches keeps_on_client)
qed

lemma reach_post [reaches]: "FRandom \<in> F \<Longrightarrow> keeps (on_world (only F)) (postEnvelope P J now ep i env)"
  unfolding postEnvelope_def SendMessage_def Let_def by (intro reached_rules reaches)

section \<open>Looking for a peer drops sessions at most\<close>

definition quiet :: "account_file set" where
  "quiet = {FRandom, FDevices, FProfiles, FConvos, FLogs}"

lemma quiet_in [simp]: "FRandom \<in> quiet" "FDevices \<in> quiet" "FProfiles \<in> quiet" "FConvos \<in> quiet" "FLogs \<in> quiet" "FSessions \<notin> quiet"
  by (simp_all add: quiet_def)

lemma quiet_kept: "only quiet c d \<Longrightarrow> cs_sessions d = cs_sessions c"
  using only_same [of quiet c d FSessions] by simp

lemma quiet_dropped: "keeps (on_world (only quiet)) m \<Longrightarrow> keeps (on_world (dropped A)) m"
  unfolding keeps_def on_world_def dropped_def by (metis quiet_kept)

lemma dropped_forget: "peer \<in> A \<Longrightarrow> keeps (dropped A) (ForgetPeerDevice peer)"
  by (auto simp: keeps_def dropped_def ForgetPeerDevice_def DeleteSession_def safeElement_def op_defs assoc_get_del)

lemma dropped_reachable: "keeps (on_world (dropped A)) (reachable_endpoint P J now peer)"
proof (rule quiet_dropped)
  have "keeps (only F) (refuse_if_silenced peer)" for F unfolding refuse_if_silenced_def by (intro touched_rules footprints)
  then show "keeps (on_world (only quiet)) (reachable_endpoint P J now peer)"
    unfolding reachable_endpoint_def by (intro reached_rules reaches keeps_on_client quiet_in)
qed

lemma dropped_session:
  assumes "pe_AccountID ep \<in> A"
  shows "keeps (on_world (dropped A)) (sessionForSending P J now ep existing)"
proof -
  have q: "keeps (on_world (dropped A)) (attempt (ClaimBundle P J now e))" "keeps (on_world (dropped A)) (attempt (Endpoint P J now a))"
    "keeps (on_world (dropped A)) (give_up_with P J now s a err :: Bundle net_op)" "keeps (on_world (dropped A)) (establish P remote)"
    for e a s err remote
    by (intro quiet_dropped reaches quiet_in)+
  have "keeps (on_world (dropped A)) (heal_and_claim P J now ep)"
    unfolding heal_and_claim_def by (intro losing_rules q keeps_on_client dropped_forget assms)
  then have "keeps (on_world (dropped A)) (claim_bundle_healing P J now ep)"
    unfolding claim_bundle_healing_def by (intro losing_rules q)
  then show ?thesis unfolding sessionForSending_def by (intro losing_rules q)
qed

end
