(* ===== verification/Client_Register.thy ===== *)
theory Client_Register
  imports Client_Net_Frame
begin

text \<open>
  \<open>pkg/client/register.go\<close>: bringing an account into existence. The keys are written before
  the request, under a marker that a registration is in flight; an interrupted attempt is resumed with
  the same keys. The state is the world of the other operations and the marker file. What the process
  leaves behind when it dies between two of its steps is a step of \<open>reg_step\<close>.
\<close>

section \<open>The marker\<close>

record registrar =
  rg_world :: world
  rg_pending :: bool

type_synonym 'a reg_op = "(registrar, 'a) oper"

definition on_net :: "'a net_op \<Rightarrow> 'a reg_op" where
  "on_net m s = (case m (rg_world s) of (r, w) \<Rightarrow> (r, s\<lparr>rg_world := w\<rparr>))"

definition registrationPending :: "bool reg_op" where
  "registrationPending s = (Inr (rg_pending s), s)"

definition markRegistrationPending :: "unit reg_op" where
  "markRegistrationPending s = (Inr (), s\<lparr>rg_pending := True\<rparr>)"

definition finishRegistration :: "unit reg_op" where
  "finishRegistration s = (Inr (), s\<lparr>rg_pending := False\<rparr>)"

section \<open>A new identity\<close>

definition blank_identity :: client_identity where
  "blank_identity = \<lparr>ci_AccountID = [], ci_Server = [], ci_RootPub = [], ci_RootPriv = [], ci_DeviceID = [], ci_DevicePub = [],
     ci_DevicePriv = [], ci_DHIdentityPub = [], ci_DHIdentityPriv = [], ci_SignedPrekeyID = 0, ci_SignedPrekeyPub = [],
     ci_SignedPrekeyPriv = [], ci_NextSignedPrekeyID = 0, ci_NextOneTimePrekeyID = 0, ci_RecoveryBackupDone = False,
     ci_PushRegisteredAt = None, ci_PushMechanism = []\<rparr>"

definition NewIdentity :: "platform \<Rightarrow> string \<Rightarrow> client_identity net_op" where
  "NewIdentity P server =
     chain drawKey (\<lambda>rootPriv.
     chain drawKey (\<lambda>devicePriv.
     chain drawKey (\<lambda>b.
     case DeriveID P (ed25519_public P rootPriv) of Inl _ \<Rightarrow> fail (ErrText ''deriving the account id'')
     | Inr accountID \<Rightarrow> ret (blank_identity\<lparr>ci_AccountID := accountID, ci_Server := server,
         ci_RootPub := ed25519_public P rootPriv, ci_RootPriv := rootPriv, ci_DeviceID := NewDeviceID b,
         ci_DevicePub := ed25519_public P devicePriv, ci_DevicePriv := devicePriv\<rparr>))))"

section \<open>Registering\<close>

definition new_identity_to_register :: "platform \<Rightarrow> string \<Rightarrow> (client_identity \<times> bool) reg_op" where
  "new_identity_to_register P server =
     chain (on_net (NewIdentity P server)) (\<lambda>i.
     chain markRegistrationPending (\<lambda>_.
     chain (on_net (on_client (SetIdentity i))) (\<lambda>_. ret (i, False))))"

definition identityToRegister :: "platform \<Rightarrow> string \<Rightarrow> (client_identity \<times> bool) reg_op" where
  "identityToRegister P server =
     chain (attempt (on_net (on_client Identity_client))) (\<lambda>r. case r of
       Inr existing \<Rightarrow> chain registrationPending (\<lambda>pending.
         if \<not> pending then fail ErrAlreadyRegistered
         else if ci_Server existing \<noteq> server then fail (ErrText ''a registration on another server was interrupted here'')
         else ret (existing, True))
     | Inl e \<Rightarrow> if e \<noteq> ErrNoIdentity then fail e else new_identity_to_register P server)"

definition accountExists :: "platform \<Rightarrow> codec \<Rightarrow> time \<Rightarrow> string \<Rightarrow> string \<Rightarrow> bool net_op" where
  "accountExists P J now server accountID =
     chain (attempt (do_unit P J now ((plain_request ''GET'' (''/v1/accounts/'' @ accountID) authNone)\<lparr>rq_server := server\<rparr>))) (\<lambda>r. case r of
       Inr _ \<Rightarrow> ret True
     | Inl e \<Rightarrow> if api_status 404 e then ret False else fail e)"

definition post_claim ::
    "platform \<Rightarrow> codec \<Rightarrow> time \<Rightarrow> string \<Rightarrow> string \<Rightarrow> (client_identity \<Rightarrow> DeviceCertificate \<Rightarrow> request_body) \<Rightarrow> client_identity \<Rightarrow> client_identity reg_op" where
  "post_claim P J now server path bodyFor i =
     (case SignDeviceCertificate P (ci_AccountID i) (ci_DeviceID i) (ci_DevicePub i) (truncate_second now) (ci_RootPriv i) of
        Inl _ \<Rightarrow> fail (ErrText ''signing the device certificate'')
      | Inr cert \<Rightarrow>
          chain (on_net (do_unit P J now ((plain_request ''POST'' path authNone)\<lparr>rq_server := server, rq_body := Some (bodyFor i cert)\<rparr>))) (\<lambda>_.
          chain finishRegistration (\<lambda>_. ret i)))"

definition client_claim ::
    "platform \<Rightarrow> codec \<Rightarrow> time \<Rightarrow> string \<Rightarrow> string \<Rightarrow> (client_identity \<Rightarrow> DeviceCertificate \<Rightarrow> request_body) \<Rightarrow> client_identity reg_op" where
  "client_claim P J now server path bodyFor =
     (if server = [] then fail (ErrText ''registering needs a server address'')
      else chain (identityToRegister P server) (\<lambda>(i, pending).
        chain (if pending then on_net (accountExists P J now server (ci_AccountID i)) else ret False) (\<lambda>there.
        if there then chain finishRegistration (\<lambda>_. ret i)
        else post_claim P J now server path bodyFor i)))"

definition register_body :: "string \<Rightarrow> client_identity \<Rightarrow> DeviceCertificate \<Rightarrow> request_body" where
  "register_body inviteCode i cert = BodyRegister \<lparr>rb_RootPubKey = base64_encode (ci_RootPub i), rb_DeviceID = ci_DeviceID i,
     rb_DevicePubKey = base64_encode (ci_DevicePub i), rb_DeviceCertIssuedAt = rfc3339 (dc_IssuedAt cert),
     rb_DeviceCertSignature = base64_encode (dc_Signature cert), rb_InviteCode = (if inviteCode \<noteq> [] then Some inviteCode else None)\<rparr>"

definition Register :: "platform \<Rightarrow> codec \<Rightarrow> time \<Rightarrow> string \<Rightarrow> string \<Rightarrow> client_identity reg_op" where
  "Register P J now server inviteCode = client_claim P J now server ''/v1/accounts'' (register_body inviteCode)"

definition bootstrap_body :: "string \<Rightarrow> client_identity \<Rightarrow> DeviceCertificate \<Rightarrow> request_body" where
  "bootstrap_body setupToken i cert = BodyBootstrap \<lparr>bb_SetupToken = setupToken, bb_RootPubKey = base64_encode (ci_RootPub i), bb_DeviceID = ci_DeviceID i,
     bb_DevicePubKey = base64_encode (ci_DevicePub i), bb_DeviceCertIssuedAt = rfc3339 (dc_IssuedAt cert),
     bb_DeviceCertSignature = base64_encode (dc_Signature cert)\<rparr>"

definition ClaimServer :: "platform \<Rightarrow> codec \<Rightarrow> time \<Rightarrow> string \<Rightarrow> string \<Rightarrow> client_identity reg_op" where
  "ClaimServer P J now server setupToken =
     (if setupToken = [] then fail (ErrText ''claiming a server needs its setup token'')
      else client_claim P J now server ''/v1/bootstrap/claim'' (bootstrap_body setupToken))"

section \<open>Attempts, and processes that die\<close>

text \<open>
  An attempt runs to its end against whatever answers; a process dies after the marker and before the
  keys, after the keys and before the request, or after the answer and before the marker is removed. A
  death while the answer is on its way is an attempt whose answer is lost. The answers and the random
  bytes that come next are the environment's.
\<close>

inductive reg_step :: "platform \<Rightarrow> registrar \<Rightarrow> registrar \<Rightarrow> bool" for P where
  attempt_register: "Register P J now server inviteCode s = (r, s') \<Longrightarrow> reg_step P s s'"
| attempt_claim: "ClaimServer P J now server setupToken s = (r, s') \<Longrightarrow> reg_step P s s'"
| died_marked: "cs_identity (wo_client (rg_world s)) = None \<Longrightarrow> reg_step P s (s\<lparr>rg_pending := True\<rparr>)"
| died_with_keys: "identityToRegister P server s = (Inr x, s') \<Longrightarrow> reg_step P s s'"
| died_after_answer: "Register P J now server inviteCode s = (Inr i, s') \<Longrightarrow> reg_step P s (s'\<lparr>rg_pending := True\<rparr>)"
| died_after_claim: "ClaimServer P J now server setupToken s = (Inr i, s') \<Longrightarrow> reg_step P s (s'\<lparr>rg_pending := True\<rparr>)"
| environment: "reg_step P s (s\<lparr>rg_world := (rg_world s)\<lparr>wo_replies := replies, wo_keys := keys\<rparr>\<rparr>)"

definition reg_reaches :: "platform \<Rightarrow> registrar \<Rightarrow> registrar \<Rightarrow> bool" where
  "reg_reaches P = rtranclp (reg_step P)"

section \<open>One account, however often it is tried\<close>

abbreviation reg_identity :: "registrar \<Rightarrow> client_identity option" where
  "reg_identity s \<equiv> cs_identity (wo_client (rg_world s))"

abbreviation reg_sent :: "registrar \<Rightarrow> sent list" where
  "reg_sent s \<equiv> wo_sent (rg_world s)"

text \<open>A request that asks for this account or creates it with these keys.\<close>

definition about_account :: "client_identity \<Rightarrow> sent \<Rightarrow> bool" where
  "about_account i x \<longleftrightarrow> Method (st_Request x) = ''GET'' \<and> URLPath (st_Request x) = ''/v1/accounts/'' @ ci_AccountID i \<and> st_Value x = None
     \<or> Method (st_Request x) = ''POST'' \<and> (\<exists>code cert. st_Value x = Some (register_body code i cert) \<or> st_Value x = Some (bootstrap_body code i cert))"

definition stays :: "client_identity \<Rightarrow> registrar \<Rightarrow> registrar \<Rightarrow> bool" where
  "stays i s s' \<longleftrightarrow> reg_identity s' = Some i \<and> (\<exists>new. reg_sent s' = reg_sent s @ new \<and> list_all (about_account i) new
     \<and> (\<not> rg_pending s \<longrightarrow> new = [] \<and> \<not> rg_pending s'))"

lemma stays_refl: "reg_identity s = Some i \<Longrightarrow> stays i s s"
  by (simp add: stays_def)

lemma stays_trans: "stays i s s' \<Longrightarrow> stays i s' s'' \<Longrightarrow> stays i s s''"
  by (auto simp: stays_def)

lemma anonymous_request:
  assumes "rq_auth rq = authNone" "cs_identity (wo_client w) = Some i"
  shows "\<exists>x rs. snd (do_unit P J now rq w) = w\<lparr>wo_sent := wo_sent w @ [x], wo_replies := rs\<rparr>
    \<and> Method (st_Request x) = rq_method rq \<and> URLPath (st_Request x) = rq_path rq \<and> st_Value x = rq_body rq"
proof -
  have send: "\<exists>x rs. snd (exchange y w) = w\<lparr>wo_sent := wo_sent w @ [x], wo_replies := rs\<rparr> \<and> x = y" for y
    by (rule exI [of _ y], rule exI [of _ "tl (wo_replies w)"], cases w) (auto simp: exchange_def split: list.splits option.splits)
  define y where "y = \<lparr>st_Server = (if rq_server rq = [] then ci_Server i else rq_server rq),
    st_Request = \<lparr>Method = rq_method rq, URLPath = rq_path rq, RawQuery = rq_query rq, Headers = [(''Content-Type'', ''application/json'')],
      Body = Some (case rq_body rq of None \<Rightarrow> [] | Some b \<Rightarrow> jc_body J b)\<rparr>, st_Value = rq_body rq\<rparr>"
  have keep: "w\<lparr>wo_client := wo_client w\<rparr> = w" by (cases w) simp
  have "client_do P J now rq w = chain (exchange y) (\<lambda>(status, answer).
      if rq_noContent rq then statusOnlyResponse J status answer else decodeResponse J status answer) w"
    using assms keep by (simp add: client_do_def chain_def on_client_def Identity_client_def Let_def signRequest_def ret_def y_def)
  moreover have "snd (statusOnlyResponse J status answer v) = v" "snd (decodeResponse J status answer v) = v" for status answer v
    by (simp_all add: statusOnlyResponse_def decodeResponse_def ret_def fail_def)
  ultimately have "snd (client_do P J now rq w) = snd (exchange y w)" by (auto simp: chain_def split: sum.split prod.split)
  then have "snd (do_unit P J now rq w) = snd (exchange y w)"
    unfolding do_unit_def chain_def [of "client_do P J now rq"] by (auto simp: ret_def split: sum.split prod.split)
  with send [of y] obtain rs where "snd (do_unit P J now rq w) = w\<lparr>wo_sent := wo_sent w @ [y], wo_replies := rs\<rparr>" by auto
  moreover have "Method (st_Request y) = rq_method rq" "URLPath (st_Request y) = rq_path rq" "st_Value y = rq_body rq" by (simp_all add: y_def)
  ultimately show ?thesis by blast
qed

lemma account_asked:
  assumes "cs_identity (wo_client w) = Some i"
  shows "\<exists>x rs. snd (accountExists P J now server (ci_AccountID i) w) = w\<lparr>wo_sent := wo_sent w @ [x], wo_replies := rs\<rparr> \<and> about_account i x"
proof -
  let ?rq = "(plain_request ''GET'' (''/v1/accounts/'' @ ci_AccountID i) authNone)\<lparr>rq_server := server\<rparr>"
  obtain x rs where x: "snd (do_unit P J now ?rq w) = w\<lparr>wo_sent := wo_sent w @ [x], wo_replies := rs\<rparr>" "about_account i x"
    using anonymous_request [of ?rq w i P J now] assms by (auto simp: plain_request_def about_account_def)
  have "snd (accountExists P J now server (ci_AccountID i) w) = snd (do_unit P J now ?rq w)"
    by (auto simp: accountExists_def chain_def attempt_def ret_def fail_def split: sum.splits prod.splits)
  with x show ?thesis by auto
qed

lemma claim_posted:
  assumes i: "reg_identity s = Some i" and p: "rg_pending s" and b: "bodyFor = register_body code \<or> bodyFor = bootstrap_body code"
  shows "stays i s (snd (post_claim P J now server path bodyFor i s))"
proof (cases "SignDeviceCertificate P (ci_AccountID i) (ci_DeviceID i) (ci_DevicePub i) (truncate_second now) (ci_RootPriv i)")
  case (Inl e)
  then show ?thesis using i by (simp add: post_claim_def fail_def stays_refl)
next
  case (Inr cert)
  let ?rq = "(plain_request ''POST'' path authNone)\<lparr>rq_server := server, rq_body := Some (bodyFor i cert)\<rparr>"
  obtain x rs where x: "snd (do_unit P J now ?rq (rg_world s)) = (rg_world s)\<lparr>wo_sent := reg_sent s @ [x], wo_replies := rs\<rparr>" "about_account i x"
    using anonymous_request [of ?rq "rg_world s" i P J now] i b by (auto simp: plain_request_def about_account_def)
  have "rg_world (snd (post_claim P J now server path bodyFor i s)) = snd (do_unit P J now ?rq (rg_world s))"
    by (auto simp: post_claim_def Inr chain_def on_net_def finishRegistration_def ret_def split: sum.splits prod.splits)
  with x i p show ?thesis by (auto simp: stays_def)
qed

lemma claim_stays:
  assumes i: "reg_identity s = Some i" and b: "bodyFor = register_body code \<or> bodyFor = bootstrap_body code"
  shows "stays i s (snd (client_claim P J now server path bodyFor s)) \<and> (\<not> rg_pending s \<longrightarrow> (\<exists>e. fst (client_claim P J now server path bodyFor s) = Inl e))"
proof (cases "server = [] \<or> \<not> rg_pending s \<or> ci_Server i \<noteq> server")
  case True
  then have "\<exists>e. client_claim P J now server path bodyFor s = (Inl e, s)"
    using i by (auto simp: client_claim_def identityToRegister_def chain_def attempt_def on_net_def on_client_def Identity_client_def registrationPending_def fail_def)
  then show ?thesis using i by (auto simp: stays_refl)
next
  case False
  have id: "identityToRegister P server s = (Inr (i, True), s)"
    using False i by (simp add: identityToRegister_def chain_def attempt_def on_net_def on_client_def Identity_client_def registrationPending_def ret_def)
  obtain r w where e: "accountExists P J now server (ci_AccountID i) (rg_world s) = (r, w)" by fastforce
  then obtain x rs where w: "w = (rg_world s)\<lparr>wo_sent := reg_sent s @ [x], wo_replies := rs\<rparr>" "about_account i x"
    using account_asked [OF i, of P J now server] by auto
  let ?s1 = "s\<lparr>rg_world := w\<rparr>"
  have s1: "stays i s ?s1" "reg_identity ?s1 = Some i" "rg_pending ?s1" using w i False by (auto simp: stays_def)
  have c: "client_claim P J now server path bodyFor s = (case r of Inl err \<Rightarrow> (Inl err, ?s1)
      | Inr there \<Rightarrow> if there then (Inr i, ?s1\<lparr>rg_pending := False\<rparr>) else post_claim P J now server path bodyFor i ?s1)"
    using False by (simp add: client_claim_def chain_def id on_net_def e finishRegistration_def ret_def split: sum.splits)
  have "stays i s (?s1\<lparr>rg_pending := False\<rparr>)" using s1 False by (auto simp: stays_def)
  moreover have "stays i s (snd (post_claim P J now server path bodyFor i ?s1))"
    using stays_trans [OF s1(1) claim_posted [OF s1(2,3) b]] .
  ultimately show ?thesis using False s1 by (auto simp: c split: sum.splits)
qed

lemma reg_step_stays:
  assumes "reg_step P s s'" "reg_identity s = Some i"
  shows "stays i s s'"
  using assms
proof (induction rule: reg_step.induct)
  case (attempt_register J now server inviteCode s r s')
  then show ?case using claim_stays [of s i "register_body inviteCode" inviteCode P J now server "''/v1/accounts''"] by (simp add: Register_def)
next
  case (attempt_claim J now server setupToken s r s')
  then show ?case using claim_stays [of s i "bootstrap_body setupToken" setupToken P J now server "''/v1/bootstrap/claim''"]
    by (auto simp: ClaimServer_def fail_def stays_refl split: if_splits)
next
  case (died_with_keys server s x s')
  then have "s' = s"
    by (auto simp: identityToRegister_def chain_def attempt_def on_net_def on_client_def Identity_client_def registrationPending_def fail_def ret_def split: if_splits)
  then show ?case using died_with_keys by (simp add: stays_refl)
next
  case (died_after_answer J now server inviteCode s k s')
  then have "stays i s s'" "rg_pending s" using claim_stays [of s i "register_body inviteCode" inviteCode P J now server "''/v1/accounts''"] by (auto simp: Register_def)
  then show ?case by (auto simp: stays_def)
next
  case (died_after_claim J now server setupToken s k s')
  then have "stays i s s'" "rg_pending s" using claim_stays [of s i "bootstrap_body setupToken" setupToken P J now server "''/v1/bootstrap/claim''"]
    by (auto simp: ClaimServer_def fail_def split: if_splits)
  then show ?case by (auto simp: stays_def)
qed (auto simp: stays_def)

section \<open>The first attempt\<close>

definition one_account :: "registrar \<Rightarrow> bool" where
  "one_account s \<longleftrightarrow> (case reg_identity s of None \<Rightarrow> reg_sent s = [] | Some i \<Rightarrow> list_all (about_account i) (reg_sent s))"

lemma NewIdentity_frame: "wo_client (snd (NewIdentity P server w)) = wo_client w \<and> wo_sent (snd (NewIdentity P server w)) = wo_sent w"
  by (auto simp: NewIdentity_def chain_def drawKey_def ret_def fail_def split: list.split sum.split)

lemma fresh_keys:
  assumes s: "reg_identity s = None" and r: "identityToRegister P server s = (r, s')"
  shows "reg_sent s' = reg_sent s \<and> (case r of Inl e \<Rightarrow> reg_identity s' = None | Inr x \<Rightarrow> reg_identity s' = Some (fst x) \<and> rg_pending s' \<and> \<not> snd x)"
proof -
  obtain n w where n: "NewIdentity P server (rg_world s) = (n, w)" by fastforce
  then have w: "wo_client w = wo_client (rg_world s)" "wo_sent w = reg_sent s" using NewIdentity_frame [of P server "rg_world s"] by auto
  have keep: "(rg_world s)\<lparr>wo_client := wo_client (rg_world s)\<rparr> = rg_world s" "s\<lparr>rg_world := rg_world s\<rparr> = s" by (cases "rg_world s", simp) (cases s, simp)
  have "identityToRegister P server s = new_identity_to_register P server s"
    using s by (simp add: identityToRegister_def chain_def attempt_def on_net_def on_client_def Identity_client_def keep)
  then show ?thesis using r s w
    by (auto simp: new_identity_to_register_def chain_def on_net_def n markRegistrationPending_def on_client_def SetIdentity_def change_def ret_def split: sum.splits)
qed

lemma fresh_claim:
  assumes s: "reg_identity s = None" "reg_sent s = []" and b: "bodyFor = register_body code \<or> bodyFor = bootstrap_body code"
  shows "one_account (snd (client_claim P J now server path bodyFor s))"
proof (cases "server = []")
  case True
  then show ?thesis using s by (simp add: client_claim_def fail_def one_account_def)
next
  case False
  obtain r s1 where r: "identityToRegister P server s = (r, s1)" by fastforce
  note k = fresh_keys [OF s(1) r]
  show ?thesis
  proof (cases r)
    case (Inl e)
    then show ?thesis using False k s r by (simp add: client_claim_def chain_def one_account_def)
  next
    case (Inr x)
    then obtain i where i: "x = (i, False)" "reg_identity s1 = Some i" "rg_pending s1" "reg_sent s1 = []" using k s(2) by (cases x) auto
    then have "snd (client_claim P J now server path bodyFor s) = snd (post_claim P J now server path bodyFor i s1)"
      using False r Inr by (simp add: client_claim_def chain_def ret_def)
    with claim_posted [OF i(2,3) b, of P J now server path] i(4) show ?thesis by (auto simp: one_account_def stays_def)
  qed
qed

lemma reg_step_one:
  assumes "reg_step P s s'" "one_account s"
  shows "one_account s'"
proof (cases "reg_identity s")
  case (Some i)
  then have "stays i s s'" using assms(1) reg_step_stays by blast
  then show ?thesis using assms(2) Some by (auto simp: stays_def one_account_def)
next
  case None
  then have s: "reg_identity s = None" "reg_sent s = []" using assms(2) by (auto simp: one_account_def)
  have m: "one_account (t\<lparr>rg_pending := p\<rparr>) \<longleftrightarrow> one_account t" for t p by (simp add: one_account_def split: option.split)
  from assms(1) s show ?thesis
  proof (induction rule: reg_step.induct)
    case (attempt_register J now server inviteCode s r s')
    then show ?case using fresh_claim [of s "register_body inviteCode" inviteCode P J now server "''/v1/accounts''"] by (simp add: Register_def)
  next
    case (attempt_claim J now server setupToken s r s')
    then have "one_account s" by (simp add: one_account_def)
    with attempt_claim show ?case using fresh_claim [of s "bootstrap_body setupToken" setupToken P J now server "''/v1/bootstrap/claim''"]
      by (auto simp: ClaimServer_def fail_def split: if_splits)
  next
    case (died_with_keys server s x s')
    then show ?case using fresh_keys [of s P server "Inr x" s'] by (simp add: one_account_def)
  next
    case (died_after_answer J now server inviteCode s k s')
    then show ?case using fresh_claim [of s "register_body inviteCode" inviteCode P J now server "''/v1/accounts''"] by (simp add: Register_def m)
  next
    case (died_after_claim J now server setupToken s k s')
    then show ?case using fresh_claim [of s "bootstrap_body setupToken" setupToken P J now server "''/v1/bootstrap/claim''"]
      by (auto simp: ClaimServer_def fail_def m split: if_splits)
  qed (auto simp: one_account_def)
qed

lemma reaches_stays: "reg_reaches P s s' \<Longrightarrow> reg_identity s = Some i \<Longrightarrow> stays i s s'"
  unfolding reg_reaches_def
proof (induction rule: rtranclp_induct)
  case base
  then show ?case by (rule stays_refl)
next
  case (step t u)
  then have "reg_identity t = Some i" by (simp add: stays_def)
  with step show ?case using reg_step_stays stays_trans by blast
qed

lemma reaches_one: "reg_reaches P s s' \<Longrightarrow> one_account s \<Longrightarrow> one_account s'"
  unfolding reg_reaches_def by (induction rule: rtranclp_induct) (auto dest: reg_step_one)

text \<open>
  C9: a registration never leaves a second account behind. However often it is tried from an empty
  directory, against whatever answers, and wherever the process dies in between: nothing is sent before
  keys are stored, once they are stored the identity stays the same, every request ever sent asks for
  this account or creates it with these keys, and after the registration has finished no further attempt
  sends anything.
\<close>

theorem registration_keeps_account:
  assumes s: "cs_identity (wo_client (rg_world s)) = None" "wo_sent (rg_world s) = []" and r: "reg_reaches P s t" "reg_reaches P t u"
  shows "(cs_identity (wo_client (rg_world t)) = None \<longrightarrow> wo_sent (rg_world t) = [])
    \<and> (\<forall>i. cs_identity (wo_client (rg_world t)) = Some i \<longrightarrow> cs_identity (wo_client (rg_world u)) = Some i
        \<and> list_all (about_account i) (wo_sent (rg_world u)) \<and> (\<not> rg_pending t \<longrightarrow> wo_sent (rg_world u) = wo_sent (rg_world t)))"
proof -
  have one: "one_account t" "one_account u" using s r reaches_one by (auto simp: one_account_def)
  show ?thesis using one reaches_stays [OF r(2)] by (fastforce simp: one_account_def stays_def)
qed

end
