(* ===== verification/Client_Delivery.thy ===== *)
theory Client_Delivery
  imports Client_Frame
begin

text \<open>
  At-least-once delivery on the client: an envelope that cannot be opened costs nothing, one that was
  opened is recognised when it comes again, also after the account was closed and opened, and one that
  never opens is given up on.
\<close>

section \<open>The ways an envelope is handled\<close>

lemma SetSession_fields:
  "only {FSessions} c (c\<lparr>cs_sessions := s\<rparr>)" by (simp add: only_field)

lemma settle_marks:
  assumes "safe_element (in_SenderAccountID msg)"
  shows "\<exists>c1. only {FProcessed, FFailures} c c1 \<and> snd (MarkMessageProcessed (in_MessageID msg) c) = c1
    \<and> only {FHealth, FPrekeys, FLogs, FRandom, FProfiles} c1 (snd (settle_opened P msg content effect now c))
    \<and> cs_prekeys (snd (settle_opened P msg content effect now c))
        = (case se_consumePrekey effect of None \<Rightarrow> cs_prekeys c | Some i \<Rightarrow> assoc_del (cs_prekeys c) i)"
proof -
  define peer where "peer = in_SenderAccountID msg"
  define c1 where "c1 = snd (MarkMessageProcessed (in_MessageID msg) c)"
  define c2 where "c2 = c1\<lparr>cs_health := assoc_del (cs_health c1) peer\<rparr>"
  define c3 where "c3 = (case se_consumePrekey effect of None \<Rightarrow> c2 | Some i \<Rightarrow> c2\<lparr>cs_prekeys := assoc_del (cs_prekeys c2) i\<rparr>)"
  define rest where "rest = chain (IsPeerBlocked peer) (\<lambda>blocked.
      chain (if se_adoptedPeer effect \<and> \<not> blocked then markRekeyInTranscript peer content now else ret ()) (\<lambda>_.
      chain (applyProfileClaim P peer (ct_Profile content)) (\<lambda>renamed.
      chain (if renamed \<and> \<not> blocked then markRenameInTranscript peer (ct_Profile content) now else ret ()) (\<lambda>_.
      ret (blocked, renamed)))))"
  have m: "MarkMessageProcessed (in_MessageID msg) c = (Inr (), c1)"
    by (simp add: c1_def MarkMessageProcessed_def change_def)
  have o1: "only {FProcessed, FFailures} c c1"
    using foot_mark [of "{FProcessed, FFailures}" "in_MessageID msg"] by (simp add: keeps_def c1_def)
  have h: "ClearDesyncEvidence peer c1 = (Inr (), c2)"
    using assms by (simp add: ClearDesyncEvidence_def safeElement_def op_defs c2_def peer_def)
  have k: "(case se_consumePrekey effect of None \<Rightarrow> ret () | Some i \<Rightarrow> ConsumeOneTimePrekey_client i) c2 = (Inr (), c3)"
    by (simp add: c3_def ConsumeOneTimePrekey_client_def op_defs split: option.split)
  have e: "settle_opened P msg content effect now c = rest c3"
    unfolding settle_opened_def Let_def rest_def peer_def [symmetric]
    by (simp only: chain_def m h k sum.case prod.case)
  have r: "keeps (only {FLogs, FRandom, FProfiles}) rest"
    unfolding rest_def by (intro touched_rules footprints) auto
  then have o3: "only {FLogs, FRandom, FProfiles} c3 (snd (rest c3))" by (simp add: keeps_def)
  have o2: "only {FHealth, FPrekeys} c1 c3"
    by (auto simp: c3_def c2_def only_def elim!: same_file.elims split: option.split)
  have "only {FHealth, FPrekeys, FLogs, FRandom, FProfiles} c1 (snd (rest c3))"
    by (rule only_trans [OF only_mono [OF o2] only_mono [OF o3]]) auto
  moreover have "cs_prekeys (snd (rest c3)) = cs_prekeys c3"
    using only_same [OF o3, of FPrekeys] by simp
  moreover have "cs_prekeys c1 = cs_prekeys c"
    using only_same [OF o1, of FPrekeys] by simp
  ultimately show ?thesis using o1 by (auto simp: e c1_def [symmetric] c3_def c2_def split: option.split)
qed


text \<open>An envelope seen before, one that does not open, one the ratchet has moved past, and one that opens.\<close>

lemma handle_seen:
  assumes "in_MessageID msg \<in> set (cs_processedOrder c)"
  shows "HandleIncoming P dec quote w draw msg openChat now c
    = (Received ((blank_result (in_SenderAccountID msg))\<lparr>rr_Duplicate := True\<rparr>), c)"
  using assms by (simp add: HandleIncoming_def receive_def Let_def WasMessageProcessed_def op_defs)

lemma handle_unopened:
  assumes "in_MessageID msg \<notin> set (cs_processedOrder c)" "client_decrypt P dec draw msg c = (Inl e, c1)"
    and "\<not> err_is ErrDuplicateMessage e"
  shows "HandleIncoming P dec quote w draw msg openChat now c =
    (case giveUpOnEnvelope msg (receiptClock now) e c of
       (Inr failure, c') \<Rightarrow> (Failed failure, c') | (Inl e', c') \<Rightarrow> (Broken e e', c'))"
  using assms client_decrypt_Inl [OF assms(2)]
  by (simp add: HandleIncoming_def receive_def Let_def WasMessageProcessed_def op_defs)

lemma handle_repeated:
  assumes "in_MessageID msg \<notin> set (cs_processedOrder c)" "client_decrypt P dec draw msg c = (Inl e, c1)"
    and "err_is ErrDuplicateMessage e"
  shows "HandleIncoming P dec quote w draw msg openChat now c
    = (Received ((blank_result (in_SenderAccountID msg))\<lparr>rr_Duplicate := True\<rparr>), snd (MarkMessageProcessed (in_MessageID msg) c))"
  using assms client_decrypt_Inl [OF assms(2)]
  by (simp add: HandleIncoming_def receive_def Let_def WasMessageProcessed_def MarkMessageProcessed_def op_defs)

lemma handle_opened:
  assumes "in_MessageID msg \<notin> set (cs_processedOrder c)" "client_decrypt P dec draw msg c = (Inr (content, effect), c1)"
    and "HandleIncoming P dec quote w draw msg openChat now c = (h, c')"
  shows "\<exists>c2. only {FHealth, FPrekeys, FLogs, FRandom, FProfiles} (snd (MarkMessageProcessed (in_MessageID msg) c1)) c2
    \<and> cs_prekeys c2 = (case se_consumePrekey effect of None \<Rightarrow> cs_prekeys c | Some i \<Rightarrow> assoc_del (cs_prekeys c) i)
    \<and> (\<exists>c3. only content_files c2 c3 \<and> ((\<exists>res. h = Received res) \<and> c' = c3
          \<or> (\<exists>e. c' = snd (giveUpOnEnvelope msg (receiptClock now) e c3))))"
proof -
  have safe: "safe_element (in_SenderAccountID msg)" and pk: "cs_prekeys c1 = cs_prekeys c"
    using client_decrypt_Inr [OF assms(2)] by auto
  define body where "body = chain (settle_opened P msg content effect (receiptClock now)) (\<lambda>(blocked, renamed).
                dispatch P quote w
                  ((blank_result (in_SenderAccountID msg))\<lparr>rr_AdoptedPeerSession := se_adoptedPeer effect, rr_InboundSessionKept := se_keepOwnSending effect,
                       rr_Blocked := blocked, rr_ProfileRenamed := renamed, rr_Content := Some content\<rparr>)
                  msg content openChat (receiptClock now))"
  have r: "receive P dec quote w draw msg openChat (receiptClock now) c = body c1"
    using assms(1,2) by (simp add: receive_def Let_def WasMessageProcessed_def look_def chain_def [of "look f" for f] body_def)
  define c2 where "c2 = snd (settle_opened P msg content effect (receiptClock now) c1)"
  obtain r' c3 where b: "body c1 = (r', c3)" by fastforce
  have o: "only content_files c2 c3"
  proof (cases "settle_opened P msg content effect (receiptClock now) c1")
    case (Pair s d)
    then have d: "c2 = d" by (simp add: c2_def)
    show ?thesis
    proof (cases s)
      case (Inl e)
      then show ?thesis using b Pair d by (simp add: body_def chain_def)
    next
      case (Inr br)
      have "keeps (only content_files) (dispatch P quote w res msg content openChat (receiptClock now))" for res
        by (rule foot_dispatch) simp
      then show ?thesis using b Pair d Inr by (cases br) (auto simp: body_def chain_def keeps_def, metis snd_conv)
    qed
  qed
  have h: "(\<exists>res. h = Received res) \<and> c' = c3 \<or> (\<exists>e. c' = snd (giveUpOnEnvelope msg (receiptClock now) e c3))"
  proof (cases r')
    case (Inl e)
    obtain x d where g: "giveUpOnEnvelope msg (receiptClock now) e c3 = (x, d)" by fastforce
    with assms(3) have "c' = d" by (cases x) (auto simp: HandleIncoming_def Let_def r b Inl)
    with g show ?thesis by (metis snd_conv)
  next
    case (Inr res)
    with assms(3) show ?thesis by (auto simp: HandleIncoming_def Let_def r b)
  qed
  from settle_marks [OF safe, of c1 P content effect "receiptClock now"] o h show ?thesis
    unfolding c2_def [symmetric] pk by blast
qed

section \<open>An envelope that does not open\<close>

text \<open>
  An envelope that no session and no prekey opens leaves the account as it was - every session, prekey,
  transcript, conversation and group - except for its failure count and the evidence against the session;
  it is reported as failed, so that it can be tried again.
\<close>

theorem failed_envelope_costs_nothing:
  assumes "in_MessageID msg \<notin> set (cs_processedOrder c)" "client_decrypt P dec draw msg c = (Inl e, c1)"
    and "\<not> err_is ErrDuplicateMessage e" "HandleIncoming P dec quote w draw msg openChat now c = (h, c')"
  shows "only {FFailures, FHealth} c c' \<and> (\<forall>r. h \<noteq> Received r) \<and> c1 = c"
proof -
  have f: "only {FFailures, FHealth} c (snd (giveUpOnEnvelope msg (receiptClock now) e c))"
    using foot_give_up [of "{FFailures, FHealth}" msg "receiptClock now" e] by (simp add: keeps_def)
  obtain x d where g: "giveUpOnEnvelope msg (receiptClock now) e c = (x, d)" by fastforce
  with handle_unopened [OF assms(1-3), of quote w openChat now] assms(4)
  have "c' = d" "\<forall>r. h \<noteq> Received r" by (cases x; auto)+
  with f g client_decrypt_Inl [OF assms(2)] show ?thesis by simp
qed

section \<open>An envelope that opens\<close>

lemma MarkMessageProcessed_in: "in_MessageID msg \<in> set (cs_processedOrder (snd (MarkMessageProcessed (in_MessageID msg) c)))"
proof -
  have "i \<in> set (cs_processedOrder (record_processed i c))" for i and c :: client
    by (simp add: record_processed_def Let_def compactProcessed_def evictProcessed_def MaxProcessedMessageIDs_def)
  then show ?thesis by (simp add: MarkMessageProcessed_def change_def saveFailures_def Let_def)
qed

lemma open_with_held_Inr:
  assumes "open_with_held P draw peer session env x c = (Inr (plaintext, s, effect), c')"
  shows "Ratchet.decrypt P (draw 1) session (oe_Header env) (oe_Ciphertext env) = Inr (plaintext, s) \<and> effect = no_effect
    \<or> (\<exists>inb. assoc_get (cs_sessions c) (peer, Inbound) = Some inb
         \<and> Ratchet.decrypt P (draw 2) inb (oe_Header env) (oe_Ciphertext env) = Inr (plaintext, s)
         \<and> effect = no_effect\<lparr>se_keepOwnSending := True\<rparr>)"
proof (cases "Ratchet.decrypt P (draw 1) session (oe_Header env) (oe_Ciphertext env)")
  case (Inr r)
  then show ?thesis using assms by (cases r) (simp add: open_with_held_def ret_def)
next
  case (Inl e)
  define k :: "Session option \<Rightarrow> (string \<times> Session \<times> sessionEffect) client_op" where "k = (\<lambda>inbound. case inbound of None \<Rightarrow> fail (joinInitialAttempt x (ErrRatchet e))
            | Some s \<Rightarrow> (case Ratchet.decrypt P (draw 2) s (oe_Header env) (oe_Ciphertext env) of
                Inl _ \<Rightarrow> fail (joinInitialAttempt x (ErrRatchet e))
              | Inr (plaintext, s') \<Rightarrow> ret (plaintext, s', no_effect\<lparr>se_keepOwnSending := True\<rparr>)))"
  have "e \<noteq> ErrDuplicateMessage" using assms Inl by (auto simp: open_with_held_def fail_def)
  then have "chain (client_Session peer Inbound) k c = (Inr (plaintext, s, effect), c')"
    using assms Inl by (simp add: open_with_held_def k_def)
  then have k: "k (assoc_get (cs_sessions c) (peer, Inbound)) c = (Inr (plaintext, s, effect), c')"
    by (auto simp: chain_Inr client_Session_Inr)
  then obtain inb where i: "assoc_get (cs_sessions c) (peer, Inbound) = Some inb"
    by (cases "assoc_get (cs_sessions c) (peer, Inbound)") (auto simp: k_def fail_def)
  with k show ?thesis
    by (cases "Ratchet.decrypt P (draw 2) inb (oe_Header env) (oe_Ciphertext env)") (auto simp: k_def fail_def ret_def split: prod.splits)
qed

lemma prekey_spent_by_session:
  assumes "choose_session P dec draw peer env keys held c = (Inr (plaintext, session, effect), c')" "se_consumePrekey effect = Some i"
  shows "\<exists>im priv. oe_Initial env = Some im \<and> ok_OneTime keys = Some (i, priv) \<and> respond P (draw 0) keys im env = Inr (plaintext, session)"
proof -
  have n: "open_with_held P draw peer s env x c \<noteq> (Inr (plaintext, session, effect), c')" for s x
    using open_with_held_Inr [of P draw peer s env x c plaintext session effect c'] assms(2) by (auto simp: no_effect_def)
  obtain im where im: "oe_Initial env = Some im"
    using assms(1) n by (cases "oe_Initial env"; cases held) (auto simp: choose_session_def fail_def)
  have "respond P (draw 0) keys im env = Inr (plaintext, session) \<and> se_consumePrekey effect = map_option fst (ok_OneTime keys)"
    using assms(1) im n unfolding choose_session_def
    by (auto simp: ret_def fail_def no_effect_def Let_def split: option.splits sum.splits prod.splits)
  then show ?thesis using im assms(2) by (cases "ok_OneTime keys") auto
qed

lemma opened_effects:
  assumes "in_MessageID msg \<notin> set (cs_processedOrder c)" "client_decrypt P dec draw msg c = (Inr (content, effect), c1)"
    and "HandleIncoming P dec quote w draw msg openChat now c = (h, c')"
  shows "\<exists>env keys plaintext session.
      choose_session P dec draw (in_SenderAccountID msg) env keys
        (assoc_get (cs_sessions c) (in_SenderAccountID msg, Sending)) c = (Inr (plaintext, session, effect), c)
    \<and> in_MessageID msg \<in> set (cs_processedOrder c')
    \<and> cs_sessions c' = assoc_put (cs_sessions c)
        (in_SenderAccountID msg, if se_keepOwnSending effect then Inbound else Sending) session
    \<and> cs_prekeys c' = (case se_consumePrekey effect of None \<Rightarrow> cs_prekeys c | Some i \<Rightarrow> assoc_del (cs_prekeys c) i)
    \<and> (\<forall>i. se_consumePrekey effect = Some i \<longrightarrow> (\<exists>im priv. oe_Initial env = Some im \<and> ok_OneTime keys = Some (i, priv)
          \<and> respond P (draw 0) keys im env = Inr (plaintext, session)))"
proof -
  obtain env keys plaintext session where d:
    "choose_session P dec draw (in_SenderAccountID msg) env keys
        (assoc_get (cs_sessions c) (in_SenderAccountID msg, Sending)) c = (Inr (plaintext, session, effect), c)"
    "c1 = c\<lparr>cs_sessions := assoc_put (cs_sessions c)
        (in_SenderAccountID msg, if se_keepOwnSending effect then Inbound else Sending) session\<rparr>"
    using client_decrypt_Inr [OF assms(2)] by blast
  define cm where "cm = snd (MarkMessageProcessed (in_MessageID msg) c1)"
  obtain c2 c3 where o: "only {FHealth, FPrekeys, FLogs, FRandom, FProfiles} cm c2" "only content_files c2 c3"
    and pk: "cs_prekeys c2 = (case se_consumePrekey effect of None \<Rightarrow> cs_prekeys c | Some i \<Rightarrow> assoc_del (cs_prekeys c) i)"
    and h: "c' = c3 \<or> (\<exists>e. c' = snd (giveUpOnEnvelope msg (receiptClock now) e c3))"
    using handle_opened [OF assms] unfolding cm_def by blast
  have g: "only {FFailures, FHealth} c3 c'"
    using h foot_give_up [of "{FFailures, FHealth}" msg "receiptClock now"] by (auto simp: keeps_def)
  have m: "only {FProcessed, FFailures} c1 cm"
    using foot_mark [of "{FProcessed, FFailures}" "in_MessageID msg"] by (simp add: keeps_def cm_def)
  have "cs_sessions c' = cs_sessions c1"
    using only_same [OF g, of FSessions] only_same [OF o(2), of FSessions] only_same [OF o(1), of FSessions] only_same [OF m, of FSessions]
    by (simp add: content_files_def)
  moreover have "cs_prekeys c' = cs_prekeys c2"
    using only_same [OF g, of FPrekeys] only_same [OF o(2), of FPrekeys] by (simp add: content_files_def)
  moreover have "cs_processedOrder c' = cs_processedOrder cm"
    using only_same [OF g, of FProcessed] only_same [OF o(2), of FProcessed] only_same [OF o(1), of FProcessed] by (simp add: content_files_def)
  ultimately show ?thesis
    using d pk MarkMessageProcessed_in [of msg c1] prekey_spent_by_session [OF d(1)] unfolding cm_def by auto
qed


section \<open>An envelope that comes again\<close>

definition firsts :: "'a list \<Rightarrow> 'a list" where
  "firsts xs = rev (remdups (rev xs))"

lemma firsts_snoc: "firsts (xs @ [x]) = (if x \<in> set xs then firsts xs else firsts xs @ [x])"
  by (simp add: firsts_def)

lemma set_firsts [simp]: "set (firsts xs) = set xs"
  by (simp add: firsts_def)

lemma firsts_distinct: "distinct xs \<Longrightarrow> firsts xs = xs"
  by (simp add: firsts_def remdups_id_iff_distinct [THEN iffD2])

lemma distinct_firsts: "distinct (firsts xs)"
  by (simp add: firsts_def)

text \<open>How many entries a list has after the last \<open>i\<close>.\<close>

definition behind :: "'a \<Rightarrow> 'a list \<Rightarrow> nat" where
  "behind i xs = length (takeWhile (\<lambda>x. x \<noteq> i) (rev xs))"

lemma behind_snoc: "behind i (xs @ [x]) = (if x = i then 0 else Suc (behind i xs))"
  by (simp add: behind_def)

lemma behind_less: "i \<in> set xs \<Longrightarrow> behind i xs < length xs"
proof (induction xs rule: rev_induct)
  case (snoc x xs)
  then show ?case by (auto simp: behind_snoc)
qed simp

lemma behind_drop:
  "i \<in> set xs \<Longrightarrow> behind i xs < length xs - n \<Longrightarrow> i \<in> set (drop n xs) \<and> behind i (drop n xs) = behind i xs"
proof (induction xs rule: rev_induct)
  case (snoc x xs)
  show ?case
  proof (cases "x = i")
    case True
    with snoc.prems show ?thesis by (simp add: behind_snoc)
  next
    case False
    with snoc have "i \<in> set (drop n xs) \<and> behind i (drop n xs) = behind i xs" by (auto simp: behind_snoc)
    with False snoc.prems show ?thesis by (auto simp: behind_snoc)
  qed
qed simp

lemma behind_filter: "Q i \<Longrightarrow> behind i (filter Q xs) \<le> behind i xs"
  by (induction xs rule: rev_induct) (auto simp: behind_snoc)

text \<open>
  Message \<open>i\<close> was handled, and at most \<open>k\<close> others since: so says the memory, and so will the log
  when it is read again.
\<close>

definition handled_since :: "string \<Rightarrow> nat \<Rightarrow> client \<Rightarrow> bool" where
  "handled_since i k c \<longleftrightarrow> distinct (cs_processedOrder c) \<and> i \<in> set (cs_processedOrder c) \<and> behind i (cs_processedOrder c) \<le> k
     \<and> i \<in> set (cs_processed_log c) \<and> behind i (firsts (filter (\<lambda>x. x \<noteq> []) (cs_processed_log c))) \<le> k"

lemma handled_since_same: "same_file FProcessed c d \<Longrightarrow> handled_since i k c \<Longrightarrow> handled_since i k d"
  by (simp add: handled_since_def)

lemma handled_since_mono: "handled_since i k c \<Longrightarrow> k \<le> m \<Longrightarrow> handled_since i m c"
  by (auto simp: handled_since_def)

lemma handled_since_evict:
  assumes "handled_since i k c" "k < MaxProcessedMessageIDs"
  shows "handled_since i k (evictProcessed c)"
proof (cases "length (cs_processedOrder c) \<le> MaxProcessedMessageIDs")
  case False
  let ?xs = "cs_processedOrder c"
  have "i \<in> set ?xs" "behind i ?xs < length ?xs - (length ?xs - MaxProcessedMessageIDs)"
    using assms False by (auto simp: handled_since_def)
  from behind_drop [OF this] False assms show ?thesis by (auto simp: handled_since_def evictProcessed_def)
qed (use assms in \<open>simp add: evictProcessed_def\<close>)

lemma handled_since_compact:
  assumes "handled_since i k c" "i \<noteq> []"
  shows "handled_since i k (compactProcessed c)"
proof -
  have "distinct (filter (\<lambda>x. x \<noteq> []) (cs_processedOrder c))" using assms by (simp add: handled_since_def)
  from firsts_distinct [OF this] behind_filter [of "\<lambda>x. x \<noteq> []" i "cs_processedOrder c"] assms show ?thesis
    by (auto simp: handled_since_def compactProcessed_def)
qed

lemma handled_since_other:
  assumes "handled_since i k c" "Suc k < MaxProcessedMessageIDs" "i \<noteq> []" "j \<notin> set (cs_processedOrder c)"
  shows "handled_since i (Suc k) (record_processed j c)"
proof -
  let ?c = "c\<lparr>cs_processed_log := cs_processed_log c @ [j], cs_processedOrder := cs_processedOrder c @ [j],
    cs_processedLines := Suc (cs_processedLines c)\<rparr>"
  have "j \<noteq> i" using assms by (auto simp: handled_since_def)
  then have "handled_since i (Suc k) ?c"
    using assms(1,4) by (auto simp: handled_since_def behind_snoc firsts_snoc)
  from handled_since_evict [OF this assms(2)] handled_since_compact [OF _ assms(3)] show ?thesis
    by (auto simp: record_processed_def Let_def)
qed

lemma handled_since_first:
  assumes "i \<notin> set (cs_processedOrder c)" "i \<notin> set (cs_processed_log c)" "i \<noteq> []" "distinct (cs_processedOrder c)"
  shows "handled_since i 0 (record_processed i c)"
proof -
  let ?c = "c\<lparr>cs_processed_log := cs_processed_log c @ [i], cs_processedOrder := cs_processedOrder c @ [i],
    cs_processedLines := Suc (cs_processedLines c)\<rparr>"
  have "handled_since i 0 ?c"
    using assms by (auto simp: handled_since_def behind_snoc firsts_snoc)
  from handled_since_evict [OF this] handled_since_compact [OF _ assms(3)] show ?thesis
    by (auto simp: record_processed_def Let_def MaxProcessedMessageIDs_def)
qed

lemma load_lines:
  "cs_processedOrder (fold load_line xs (c\<lparr>cs_processedOrder := [], cs_processedLines := 0\<rparr>)) = firsts (filter (\<lambda>x. x \<noteq> []) xs)
   \<and> cs_processed_log (fold load_line xs (c\<lparr>cs_processedOrder := [], cs_processedLines := 0\<rparr>)) = cs_processed_log c"
proof (induction xs rule: rev_induct)
  case Nil
  then show ?case by (simp add: firsts_def)
next
  case (snoc x xs)
  then show ?case by (simp add: load_line_def firsts_snoc)
qed

lemma handled_since_reopen:
  assumes "handled_since i k c" "k < MaxProcessedMessageIDs" "i \<noteq> []"
  shows "handled_since i k (newClient c)"
proof -
  let ?c = "fold load_line (cs_processed_log c) (c\<lparr>cs_processedOrder := [], cs_processedLines := 0\<rparr>)"
  have "handled_since i k ?c"
    using assms by (simp add: handled_since_def load_lines distinct_firsts)
  from handled_since_evict [OF this assms(2)] handled_since_compact [OF _ assms(3)]
  have "handled_since i k (loadProcessed c)" by (auto simp: loadProcessed_def Let_def)
  then show ?thesis by (auto simp: newClient_def Let_def intro: handled_since_same [rotated])
qed

text \<open>What handling an envelope does to the record of handled ones.\<close>

lemma mark_processed:
  "same_file FProcessed (if i \<in> set (cs_processedOrder c) then c else record_processed i c) (snd (MarkMessageProcessed i c))"
  by (simp add: MarkMessageProcessed_def change_def saveFailures_def Let_def)

lemma handle_processed:
  assumes "HandleIncoming P dec quote w draw msg openChat now c = (h, c')"
  shows "same_file FProcessed c c'
    \<or> in_MessageID msg \<notin> set (cs_processedOrder c) \<and> same_file FProcessed (record_processed (in_MessageID msg) c) c'"
proof (cases "in_MessageID msg \<in> set (cs_processedOrder c)")
  case True
  then show ?thesis using handle_seen [OF True] assms by simp
next
  case new: False
  note mark = mark_processed [of "in_MessageID msg"]
  obtain r c1 where d: "client_decrypt P dec draw msg c = (r, c1)" by fastforce
  show ?thesis
  proof (cases r)
    case (Inl e)
    show ?thesis
    proof (cases "err_is ErrDuplicateMessage e")
      case True
      then show ?thesis using handle_repeated [OF new] d Inl assms mark [of c] new by simp
    next
      case False
      have "only {FFailures, FHealth} c (snd (giveUpOnEnvelope msg (receiptClock now) e c))"
        using foot_give_up [of "{FFailures, FHealth}" msg "receiptClock now" e] by (simp add: keeps_def)
      moreover have "c' = snd (giveUpOnEnvelope msg (receiptClock now) e c)"
        using handle_unopened [OF new _ False, of P dec draw c1 quote w openChat now] d Inl assms by (auto split: prod.splits sum.splits)
      ultimately show ?thesis using only_same [of "{FFailures, FHealth}" c c' FProcessed] by simp
    qed
  next
    case (Inr ce)
    obtain content effect where ce: "ce = (content, effect)" by (cases ce)
    have c1: "same_file FProcessed c c1" "cs_processedOrder c1 = cs_processedOrder c"
      using client_decrypt_Inr [of P dec draw msg c content effect c1] d Inr ce by auto
    obtain c2 c3 where o: "only {FHealth, FPrekeys, FLogs, FRandom, FProfiles} (snd (MarkMessageProcessed (in_MessageID msg) c1)) c2"
      "only content_files c2 c3" and h: "c' = c3 \<or> (\<exists>e. c' = snd (giveUpOnEnvelope msg (receiptClock now) e c3))"
      using handle_opened [OF new _ assms, of content effect c1] d Inr ce by blast
    have g: "only {FFailures, FHealth} c3 c'"
      using h foot_give_up [of "{FFailures, FHealth}" msg "receiptClock now"] by (auto simp: keeps_def)
    have s1: "same_file FProcessed (snd (MarkMessageProcessed (in_MessageID msg) c1)) c'"
      using only_same [OF g, of FProcessed] only_same [OF o(2), of FProcessed] only_same [OF o(1), of FProcessed] by (simp add: content_files_def)
    have s2: "same_file FProcessed (record_processed (in_MessageID msg) c) (record_processed (in_MessageID msg) c1)"
      using c1 by (auto simp: record_processed_def evictProcessed_def compactProcessed_def Let_def)
    have s3: "same_file FProcessed (record_processed (in_MessageID msg) c1) (snd (MarkMessageProcessed (in_MessageID msg) c1))"
      using mark [of c1] new c1(2) by simp
    from same_file_trans [OF s2 same_file_trans [OF s3 s1]] new show ?thesis by blast
  qed
qed

datatype client_event = Arrive "nat \<Rightarrow> bytes" IncomingMessage string time | Reopen

fun client_step :: "platform \<Rightarrow> (bytes \<Rightarrow> contentWire option) \<Rightarrow> (string \<Rightarrow> string) \<Rightarrow> nat \<Rightarrow> client_event \<Rightarrow> client \<Rightarrow> client" where
  "client_step P dec quote w (Arrive draw msg openChat now) c = snd (HandleIncoming P dec quote w draw msg openChat now c)"
| "client_step P dec quote w Reopen c = newClient c"

lemma handled_since_step:
  assumes "handled_since i k c" "(case ev of Arrive _ _ _ _ \<Rightarrow> Suc k | Reopen \<Rightarrow> k) < MaxProcessedMessageIDs" "i \<noteq> []"
  shows "handled_since i (case ev of Arrive _ _ _ _ \<Rightarrow> Suc k | Reopen \<Rightarrow> k) (client_step P dec quote w ev c)"
proof (cases ev)
  case (Arrive draw msg openChat now)
  then have k: "Suc k < MaxProcessedMessageIDs" using assms(2) by simp
  obtain h c' where h: "HandleIncoming P dec quote w draw msg openChat now c = (h, c')" by fastforce
  have "handled_since i (Suc k) c'"
    using handle_processed [OF h]
  proof
    assume "same_file FProcessed c c'"
    from handled_since_same [OF this handled_since_mono [OF assms(1)]] show ?thesis by simp
  next
    assume n: "in_MessageID msg \<notin> set (cs_processedOrder c) \<and> same_file FProcessed (record_processed (in_MessageID msg) c) c'"
    from handled_since_same [OF n [THEN conjunct2] handled_since_other [OF assms(1) k assms(3) n [THEN conjunct1]]] show ?thesis .
  qed
  then show ?thesis by (simp add: Arrive h)
next
  case Reopen
  then show ?thesis using handled_since_reopen [OF assms(1) _ assms(3)] assms(2) by simp
qed

definition arrivals :: "client_event list \<Rightarrow> nat" where
  "arrivals evs = length (filter (\<lambda>ev. ev \<noteq> Reopen) evs)"

lemma handled_since_run:
  "handled_since i k c \<Longrightarrow> k + arrivals evs < MaxProcessedMessageIDs \<Longrightarrow> i \<noteq> [] \<Longrightarrow>
    handled_since i (k + arrivals evs) (fold (client_step P dec quote w) evs c)"
proof (induction evs arbitrary: k c)
  case (Cons ev evs)
  have "(case ev of Arrive _ _ _ _ \<Rightarrow> Suc k | Reopen \<Rightarrow> k) < MaxProcessedMessageIDs"
    using Cons.prems(2) by (cases ev) (simp_all add: arrivals_def)
  from handled_since_step [OF Cons.prems(1) this Cons.prems(3), of P dec quote w]
  have s: "handled_since i (k + arrivals [ev]) (client_step P dec quote w ev c)"
    by (cases ev) (simp_all add: arrivals_def)
  have "arrivals (ev # evs) = arrivals [ev] + arrivals evs" by (simp add: arrivals_def)
  with Cons.IH [OF s _ Cons.prems(3)] Cons.prems(2) show ?case by (simp add: add.assoc)
qed (simp add: arrivals_def)

lemma received_marks:
  assumes "in_MessageID msg \<notin> set (cs_processedOrder c)" "HandleIncoming P dec quote w draw msg openChat now c = (Received res, c')"
  shows "in_MessageID msg \<in> set (cs_processedOrder c')"
proof -
  obtain r c1 where d: "client_decrypt P dec draw msg c = (r, c1)" by fastforce
  show ?thesis
  proof (cases r)
    case (Inl e)
    obtain x y where g: "giveUpOnEnvelope msg (receiptClock now) e c = (x, y)" by fastforce
    have "err_is ErrDuplicateMessage e"
      using handle_unopened [OF assms(1), of P dec draw e c1 quote w openChat now] d Inl assms(2) g by (cases x) auto
    with handle_repeated [OF assms(1), of P dec draw e c1 quote w openChat now] d Inl assms(2) MarkMessageProcessed_in [of msg c]
    show ?thesis by auto
  next
    case (Inr ce)
    with opened_effects [OF assms(1) _ assms(2)] d show ?thesis by (cases ce) blast
  qed
qed

text \<open>
  C23: an envelope that was handled and is delivered again is recognised as a duplicate and changes nothing
  at all, although the account was closed and opened again any number of times and up to 499 other
  envelopes were handled in between.
\<close>

theorem redelivered_envelope_ignored:
  assumes "HandleIncoming P dec quote w draw msg openChat now c = (Received res, c')"
    and "in_MessageID msg \<noteq> []" "in_MessageID msg \<notin> set (cs_processedOrder c @ cs_processed_log c)" "distinct (cs_processedOrder c)"
    and "arrivals evs < MaxProcessedMessageIDs" "d = fold (client_step P dec quote w) evs c'"
  shows "HandleIncoming P dec quote w draw' msg openChat' now' d
    = (Received ((blank_result (in_SenderAccountID msg))\<lparr>rr_Duplicate := True\<rparr>), d)"
proof -
  have n: "in_MessageID msg \<notin> set (cs_processedOrder c)" "in_MessageID msg \<notin> set (cs_processed_log c)" using assms(3) by simp_all
  have "\<not> same_file FProcessed c c'" using received_marks [OF n(1) assms(1)] n(1) by auto
  with handle_processed [OF assms(1)] have "same_file FProcessed (record_processed (in_MessageID msg) c) c'" by blast
  from handled_since_same [OF this handled_since_first [OF n assms(2,4)]]
  have "handled_since (in_MessageID msg) 0 c'" .
  from handled_since_run [OF this _ assms(2)] assms(5) have "handled_since (in_MessageID msg) (arrivals evs) d"
    unfolding assms(6) by simp
  then have "in_MessageID msg \<in> set (cs_processedOrder d)" by (simp add: handled_since_def)
  then show ?thesis by (rule handle_seen)
qed

section \<open>Reading the log again can forget the newest envelope\<close>

text \<open>
  The log keeps the first place of an id that was forgotten and handled again; when it is read, that place
  decides, and the id handled last is the one that is dropped.
\<close>

theorem remarked_id_forgotten:
  assumes "distinct (i # older)" "length older = MaxProcessedMessageIDs" "[] \<notin> set (i # older)"
    and "cs_processed_log c = i # older" "cs_processedOrder c = older" "cs_processedLines c = Suc MaxProcessedMessageIDs"
  shows "i \<in> set (cs_processedOrder (snd (MarkMessageProcessed i c)))
    \<and> i \<notin> set (cs_processedOrder (newClient (snd (MarkMessageProcessed i c))))"
proof -
  let ?c = "snd (MarkMessageProcessed i c)"
  have m: "same_file FProcessed (record_processed i c) ?c" using mark_processed [of i c] assms(1,5) by simp
  have "cs_processed_log (record_processed i c) = i # older @ [i]" "cs_processedOrder (record_processed i c) = tl older @ [i]"
    using assms by (simp_all add: record_processed_def evictProcessed_def compactProcessed_def Let_def processedCompactAt_def drop_Suc
      MaxProcessedMessageIDs_def)
  with m have l: "cs_processed_log ?c = i # older @ [i]" "cs_processedOrder ?c = tl older @ [i]" by simp_all
  have "firsts (i # older @ [i]) = i # older"
    using firsts_snoc [of "i # older" i] firsts_distinct [OF assms(1)] by simp
  moreover have "filter (\<lambda>x. x \<noteq> []) (i # older @ [i]) = i # older @ [i]"
    using assms(3) by (simp add: filter_id_conv) metis
  ultimately have "firsts (filter (\<lambda>x. x \<noteq> []) (cs_processed_log ?c)) = i # older" by (simp only: l)
  then have "cs_processedOrder (evictProcessed (fold load_line (cs_processed_log ?c) (?c\<lparr>cs_processedOrder := [], cs_processedLines := 0\<rparr>))) = older"
    by (simp add: evictProcessed_def load_lines assms(2) del: fold_simps)
  then have "cs_processedOrder (newClient ?c) = older"
    by (simp add: newClient_def loadProcessed_def Let_def compactProcessed_def)
  then show ?thesis using l assms(1) by simp
qed

section \<open>An envelope that never opens\<close>

text \<open>The order of the failure counts lists exactly the counted ids, each once.\<close>

definition failures_ok :: "client \<Rightarrow> bool" where
  "failures_ok c \<longleftrightarrow> distinct (cs_failureOrder c) \<and> (\<forall>i. i \<in> set (cs_failureOrder c) \<longleftrightarrow> assoc_get (cs_failures c) i \<noteq> None)"

text \<open>Envelope \<open>i\<close> has failed \<open>n\<close> times, and at most \<open>k\<close> others for the first time since.\<close>

definition failed_times :: "string \<Rightarrow> nat \<Rightarrow> nat \<Rightarrow> client \<Rightarrow> bool" where
  "failed_times i n k c \<longleftrightarrow> failures_ok c \<and> assoc_get (cs_failures c) i = (if n = 0 then None else Some n)
     \<and> (n \<noteq> 0 \<longrightarrow> behind i (cs_failureOrder c) \<le> k)"

lemma failed_times_same: "same_file FFailures c d \<Longrightarrow> failed_times i n k c \<Longrightarrow> failed_times i n k d"
  by (simp add: failed_times_def failures_ok_def)

lemma failed_times_mono: "failed_times i n k c \<Longrightarrow> k \<le> m \<Longrightarrow> failed_times i n m c"
  by (auto simp: failed_times_def)

lemma assoc_get_dels: "assoc_get (fold (\<lambda>i m. assoc_del m i) xs m) j = (if j \<in> set xs then None else assoc_get m j)"
  by (induction xs arbitrary: m) (auto simp: assoc_get_del)

lemma saveFailures_id: "failures_ok c \<Longrightarrow> saveFailures c = c"
proof -
  assume "failures_ok c"
  then have "filter (\<lambda>i. assoc_get (cs_failures c) i \<noteq> None) (cs_failureOrder c) = cs_failureOrder c"
    by (simp add: failures_ok_def filter_id_conv)
  then show ?thesis by (simp add: saveFailures_def)
qed

lemma failures_ok_delete: "failures_ok c \<Longrightarrow> failures_ok (saveFailures (c\<lparr>cs_failures := assoc_del (cs_failures c) j\<rparr>))"
  by (auto simp: failures_ok_def saveFailures_def assoc_get_del)

lemma failed_times_delete:
  assumes "failed_times i n k c" "j \<noteq> i"
  shows "failed_times i n k (saveFailures (c\<lparr>cs_failures := assoc_del (cs_failures c) j\<rparr>))"
proof -
  define d where "d = saveFailures (c\<lparr>cs_failures := assoc_del (cs_failures c) j\<rparr>)"
  have ok: "failures_ok d" using assms(1) by (simp add: d_def failed_times_def failures_ok_delete)
  have g: "assoc_get (cs_failures d) i = assoc_get (cs_failures c) i" using assms(2) by (simp add: d_def saveFailures_def assoc_get_del)
  have "behind i (cs_failureOrder d) \<le> behind i (cs_failureOrder c)" if "n \<noteq> 0"
  proof -
    have "assoc_get (assoc_del (cs_failures c) j) i \<noteq> None" using g that assms(1) by (simp add: d_def saveFailures_def failed_times_def)
    then have "behind i (filter (\<lambda>x. assoc_get (assoc_del (cs_failures c) j) x \<noteq> None) (cs_failureOrder c)) \<le> behind i (cs_failureOrder c)"
      by (rule behind_filter)
    then show ?thesis by (simp add: d_def saveFailures_def)
  qed
  then show ?thesis using assms(1) ok g unfolding d_def [symmetric] failed_times_def by (auto intro: order_trans)
qed

lemma bound_failures_ok:
  assumes "failures_ok c"
  shows "failures_ok (bound_failures c)"
    "i \<in> set (drop (length (cs_failureOrder c) - MaxProcessedMessageIDs) (cs_failureOrder c))
      \<longleftrightarrow> i \<in> set (cs_failureOrder c) \<and> i \<notin> set (take (length (cs_failureOrder c) - MaxProcessedMessageIDs) (cs_failureOrder c))"
proof -
  let ?xs = "cs_failureOrder c" and ?n = "length (cs_failureOrder c) - MaxProcessedMessageIDs"
  have ok: "distinct ?xs" "i \<in> set ?xs \<longleftrightarrow> assoc_get (cs_failures c) i \<noteq> None" for i using assms by (auto simp: failures_ok_def)
  have d: "x \<in> set (drop ?n ?xs) \<longleftrightarrow> x \<in> set ?xs \<and> x \<notin> set (take ?n ?xs)" for x
  proof -
    have "set ?xs = set (take ?n ?xs) \<union> set (drop ?n ?xs)" by (metis append_take_drop_id set_append)
    moreover have "set (take ?n ?xs) \<inter> set (drop ?n ?xs) = {}" using ok(1) by (simp add: set_take_disj_set_drop_if_distinct)
    ultimately show ?thesis by blast
  qed
  then show "i \<in> set (drop ?n ?xs) \<longleftrightarrow> i \<in> set ?xs \<and> i \<notin> set (take ?n ?xs)" .
  show "failures_ok (bound_failures c)"
    unfolding failures_ok_def bound_failures_def Let_def using ok d by (auto simp: assoc_get_dels)
qed

lemma failed_times_bound:
  assumes "failed_times i n k c" "k < MaxProcessedMessageIDs"
  shows "failed_times i n k (bound_failures c)"
proof -
  let ?xs = "cs_failureOrder c" and ?n = "length (cs_failureOrder c) - MaxProcessedMessageIDs"
  have ok: "failures_ok c" and mem: "i \<in> set ?xs \<longleftrightarrow> assoc_get (cs_failures c) i \<noteq> None" for i
    using assms(1) by (auto simp: failed_times_def failures_ok_def)
  have "i \<notin> set (take ?n ?xs) \<and> behind i (drop ?n ?xs) \<le> k" if "n \<noteq> 0"
  proof -
    have b: "behind i ?xs \<le> k" "i \<in> set ?xs" using assms(1) that mem by (auto simp: failed_times_def)
    then have "behind i ?xs < length ?xs - ?n" using behind_less [OF b(2)] assms(2) by auto
    from behind_drop [OF b(2) this] b bound_failures_ok(2) [OF ok, of i] show ?thesis by auto
  qed
  with bound_failures_ok(1) [OF ok] show ?thesis
    using assms(1) by (auto simp: failed_times_def bound_failures_def Let_def assoc_get_dels)
qed

text \<open>One more failure, of this envelope or of another.\<close>

lemma count_failure:
  assumes ok: "failures_ok c" and c1: "c1 = (if assoc_get (cs_failures c) j = None then c\<lparr>cs_failureOrder := cs_failureOrder c @ [j]\<rparr> else c)
      \<lparr>cs_failures := assoc_put (cs_failures c) j m\<rparr>"
  shows "failures_ok c1" "failed_times i n k c \<Longrightarrow> i \<noteq> j \<Longrightarrow> failed_times i n (Suc k) c1"
    "failed_times j n k c \<Longrightarrow> m \<noteq> 0 \<Longrightarrow> n \<noteq> 0 \<Longrightarrow> failed_times j m k c1" "failed_times j 0 k c \<Longrightarrow> m \<noteq> 0 \<Longrightarrow> failed_times j m 0 c1"
proof -
  show c1ok: "failures_ok c1" using ok unfolding c1 by (auto simp: failures_ok_def assoc_get_put)
  show "failed_times i n k c \<Longrightarrow> i \<noteq> j \<Longrightarrow> failed_times i n (Suc k) c1"
    using c1ok unfolding c1 by (auto simp: failed_times_def assoc_get_put behind_snoc)
  show "failed_times j n k c \<Longrightarrow> m \<noteq> 0 \<Longrightarrow> n \<noteq> 0 \<Longrightarrow> failed_times j m k c1"
    using c1ok unfolding c1 by (auto simp: failed_times_def assoc_get_put)
  show "failed_times j 0 k c \<Longrightarrow> m \<noteq> 0 \<Longrightarrow> failed_times j m 0 c1"
    using c1ok unfolding c1 by (auto simp: failed_times_def assoc_get_put behind_snoc)
qed

lemma RecordDecryptFailure_other:
  assumes f: "failed_times i n k c" and k: "Suc k < MaxProcessedMessageIDs" and j: "j \<noteq> i"
  shows "failed_times i n (Suc k) (snd (RecordDecryptFailure j c))"
proof -
  define a where "a = (case assoc_get (cs_failures c) j of None \<Rightarrow> 0 | Some n \<Rightarrow> n) + 1"
  define c1 where "c1 = (if assoc_get (cs_failures c) j = None then c\<lparr>cs_failureOrder := cs_failureOrder c @ [j]\<rparr> else c)
    \<lparr>cs_failures := assoc_put (cs_failures c) j a\<rparr>"
  have ok: "failures_ok c" using f by (simp add: failed_times_def)
  have b: "failed_times i n (Suc k) (bound_failures c1)"
    by (rule failed_times_bound [OF count_failure(2) [OF ok c1_def f] k]) (use j in simp)
  have "snd (RecordDecryptFailure j c) = (if a \<ge> MaxDecryptAttempts then saveFailures (c\<lparr>cs_failures := assoc_del (cs_failures c) j\<rparr>)
      else saveFailures (bound_failures c1))"
    by (simp add: RecordDecryptFailure_def a_def c1_def Let_def)
  moreover have "saveFailures (bound_failures c1) = bound_failures c1" using b by (simp add: saveFailures_id failed_times_def)
  ultimately show ?thesis
    using b failed_times_delete [OF failed_times_mono [OF f, of "Suc k"] j] by auto
qed

lemma RecordDecryptFailure_same:
  assumes f: "failed_times i n k c" and k: "k < MaxProcessedMessageIDs"
  shows "Suc n < MaxDecryptAttempts \<Longrightarrow> fst (RecordDecryptFailure i c) = Inr False \<and> failed_times i (Suc n) k (snd (RecordDecryptFailure i c))"
    "Suc n = MaxDecryptAttempts \<Longrightarrow> fst (RecordDecryptFailure i c) = Inr True \<and> failed_times i 0 k (snd (RecordDecryptFailure i c))"
proof -
  have a: "(case assoc_get (cs_failures c) i of None \<Rightarrow> 0 | Some n \<Rightarrow> n) + 1 = Suc n" using f by (simp add: failed_times_def)
  define c1 where "c1 = (if assoc_get (cs_failures c) i = None then c\<lparr>cs_failureOrder := cs_failureOrder c @ [i]\<rparr> else c)
    \<lparr>cs_failures := assoc_put (cs_failures c) i (Suc n)\<rparr>"
  have ok: "failures_ok c" using f by (simp add: failed_times_def)
  have "failed_times i (Suc n) k c1"
    using count_failure(3) [OF ok c1_def f] count_failure(4) [OF ok c1_def, of k] f failed_times_mono [of i "Suc n" 0 c1 k] by (cases n) auto
  then have b: "failed_times i (Suc n) k (bound_failures c1)" using k by (rule failed_times_bound)
  then have s: "saveFailures (bound_failures c1) = bound_failures c1" by (simp add: saveFailures_id failed_times_def)
  show "Suc n < MaxDecryptAttempts \<Longrightarrow> fst (RecordDecryptFailure i c) = Inr False \<and> failed_times i (Suc n) k (snd (RecordDecryptFailure i c))"
  proof -
    assume n: "Suc n < MaxDecryptAttempts"
    have "RecordDecryptFailure i c = (Inr False, saveFailures (bound_failures c1))"
      using n a by (simp add: RecordDecryptFailure_def c1_def Let_def)
    with b s show ?thesis by simp
  qed
  show "Suc n = MaxDecryptAttempts \<Longrightarrow> fst (RecordDecryptFailure i c) = Inr True \<and> failed_times i 0 k (snd (RecordDecryptFailure i c))"
    using failures_ok_delete [OF ok, of i] unfolding RecordDecryptFailure_def Let_def a
    by (simp add: failed_times_def saveFailures_def assoc_get_del)
qed

lemma give_up_failures:
  "same_file FFailures (snd (RecordDecryptFailure (in_MessageID msg) c)) (snd (giveUpOnEnvelope msg now e c))"
proof -
  have "\<exists>b. fst (RecordDecryptFailure (in_MessageID msg) c) = Inr b" by (auto simp: RecordDecryptFailure_def Let_def)
  then obtain b d where r: "RecordDecryptFailure (in_MessageID msg) c = (Inr b, d)" by (metis prod.collapse)
  define rest where "rest = chain (RecordDesyncEvidence (in_SenderAccountID msg) now) (\<lambda>_.
             chain (ShouldAutoRekey (in_SenderAccountID msg) now) (\<lambda>rekey.
             ret (\<lparr>de_MessageID = in_MessageID msg, de_PeerAccountID = in_SenderAccountID msg, de_Err = e,
          de_DesyncEvidence = suggests_desync e, de_GaveUp = False, de_RekeyNeeded = False\<rparr>\<lparr>de_GaveUp := True, de_RekeyNeeded := rekey\<rparr>)))"
  have "keeps (only {FHealth}) rest" unfolding rest_def by (intro touched_rules footprints) auto
  then have "same_file FFailures d (snd (rest d))" using only_same [of "{FHealth}" d "snd (rest d)" FFailures] by (simp add: keeps_def)
  moreover have "giveUpOnEnvelope msg now e c = (if \<not> b \<or> \<not> suggests_desync e then
      ret (\<lparr>de_MessageID = in_MessageID msg, de_PeerAccountID = in_SenderAccountID msg, de_Err = e,
          de_DesyncEvidence = suggests_desync e, de_GaveUp = False, de_RekeyNeeded = False\<rparr>\<lparr>de_GaveUp := b\<rparr>) d else rest d)"
    by (simp add: giveUpOnEnvelope_def chain_def [of "RecordDecryptFailure i" for i] r Let_def rest_def)
  ultimately show ?thesis by (simp add: r ret_def)
qed

lemma mark_failures:
  "same_file FFailures c (snd (MarkMessageProcessed j c))
   \<or> same_file FFailures (saveFailures (c\<lparr>cs_failures := assoc_del (cs_failures c) j\<rparr>)) (snd (MarkMessageProcessed j c))"
proof -
  have "same_file FFailures c (record_processed j c)"
    by (simp add: record_processed_def evictProcessed_def compactProcessed_def Let_def)
  then show ?thesis by (auto simp: MarkMessageProcessed_def change_def Let_def saveFailures_def)
qed

lemma failed_times_mark: "failed_times i n k c \<Longrightarrow> j \<noteq> i \<Longrightarrow> failed_times i n k (snd (MarkMessageProcessed j c))"
  using mark_failures [of c j] failed_times_same failed_times_delete by blast

lemma failed_times_give_up:
  assumes "failed_times i n k c" "Suc k < MaxProcessedMessageIDs" "in_MessageID msg \<noteq> i"
  shows "failed_times i n (Suc k) (snd (giveUpOnEnvelope msg now e c))"
  using failed_times_same [OF give_up_failures RecordDecryptFailure_other [OF assms]] .

lemma failed_times_step:
  assumes f: "failed_times i n k c" and k: "Suc k < MaxProcessedMessageIDs"
    and other: "\<And>draw msg openChat now. ev = Arrive draw msg openChat now \<Longrightarrow> in_MessageID msg \<noteq> i"
  shows "failed_times i n (Suc k) (client_step P dec quote w ev c)"
proof (cases ev)
  case Reopen
  have "same_file FFailures (fold load_line xs d) d" for xs d by (induction xs arbitrary: d) (auto simp: load_line_def)
  then have "same_file FFailures c (newClient c)"
    by (simp add: newClient_def loadProcessed_def Let_def evictProcessed_def compactProcessed_def)
  then show ?thesis using Reopen failed_times_same failed_times_mono [OF f, of "Suc k"] by auto
next
  case (Arrive draw msg openChat now)
  note j = other [OF Arrive]
  obtain h c' where h: "HandleIncoming P dec quote w draw msg openChat now c = (h, c')" by fastforce
  have "failed_times i n (Suc k) c'"
  proof (cases "in_MessageID msg \<in> set (cs_processedOrder c)")
    case True
    then show ?thesis using handle_seen [OF True] h failed_times_mono [OF f, of "Suc k"] by simp
  next
    case new: False
    obtain r c1 where d: "client_decrypt P dec draw msg c = (r, c1)" by fastforce
    show ?thesis
    proof (cases r)
      case (Inl e)
      obtain x y where g: "giveUpOnEnvelope msg (receiptClock now) e c = (x, y)" by fastforce
      have "c' = y" if "\<not> err_is ErrDuplicateMessage e"
        using handle_unopened [OF new _ that, of P dec draw c1 quote w openChat now] d Inl h g by (cases x) auto
      moreover have "c' = snd (MarkMessageProcessed (in_MessageID msg) c)" if "err_is ErrDuplicateMessage e"
        using handle_repeated [OF new _ that, of P dec draw c1 quote w openChat now] d Inl h by simp
      ultimately show ?thesis
        using failed_times_give_up [OF f k j, of "receiptClock now" e] failed_times_mono [OF failed_times_mark [OF f j], of "Suc k"] g
        by (cases "err_is ErrDuplicateMessage e") auto
    next
      case (Inr ce)
      obtain content effect where ce: "ce = (content, effect)" by (cases ce)
      have c1: "same_file FFailures c c1"
        using client_decrypt_Inr [of P dec draw msg c content effect c1] d Inr ce by auto
      obtain c2 c3 where o: "only {FHealth, FPrekeys, FLogs, FRandom, FProfiles} (snd (MarkMessageProcessed (in_MessageID msg) c1)) c2"
        "only content_files c2 c3" and hc: "c' = c3 \<or> (\<exists>e. c' = snd (giveUpOnEnvelope msg (receiptClock now) e c3))"
        using handle_opened [OF new _ h, of content effect c1] d Inr ce by blast
      have "same_file FFailures (snd (MarkMessageProcessed (in_MessageID msg) c1)) c3"
        using only_same [OF o(2), of FFailures] only_same [OF o(1), of FFailures] by (simp add: content_files_def)
      from failed_times_same [OF this failed_times_mark [OF failed_times_same [OF c1 f] j]] have "failed_times i n k c3" .
      then show ?thesis using hc failed_times_give_up [OF _ k j] failed_times_mono [of i n k c3 "Suc k"] by auto
    qed
  qed
  then show ?thesis by (simp add: Arrive h)
qed

definition not_about :: "string \<Rightarrow> client_event \<Rightarrow> bool" where
  "not_about i ev = (case ev of Arrive draw msg openChat now \<Rightarrow> in_MessageID msg \<noteq> i | Reopen \<Rightarrow> True)"

lemma failed_times_run:
  "failed_times i n k c \<Longrightarrow> k + length evs < MaxProcessedMessageIDs \<Longrightarrow> list_all (not_about i) evs \<Longrightarrow>
    failed_times i n (k + length evs) (fold (client_step P dec quote w) evs c)"
proof (induction evs arbitrary: k c)
  case (Cons ev evs)
  have "failed_times i n (Suc k) (client_step P dec quote w ev c)"
    by (rule failed_times_step [OF Cons.prems(1)]) (use Cons.prems(2,3) in \<open>auto simp: not_about_def\<close>)
  from Cons.IH [OF this] Cons.prems show ?case by simp
qed simp

text \<open>Where the cause suggests a desync, the sender and the own identity were fine.\<close>

lemma desync_cause:
  assumes "client_decrypt P dec draw msg c = (Inl e, c1)" "suggests_desync e"
  shows "safe_element (in_SenderAccountID msg) \<and> cs_identity c \<noteq> None"
proof -
  have n: "\<not> suggests_desync (ErrUnsafePath x1)" "\<not> suggests_desync ErrNoIdentity" "\<not> suggests_desync (ErrOwnKey x2)" "\<not> suggests_desync (ErrEnvelope x3)"
    for x1 x2 x3 by (simp_all add: suggests_desync_def failure_code_def)
  have o: "open_envelope p d = (Inl e, d') \<Longrightarrow> False" for p d d'
    using assms(2) n by (auto simp: open_envelope_def fail_def ret_def split: option.splits)
  have k: "load_own_keys im d = (Inl e, d') \<Longrightarrow> False" for im d d'
    using assms(2) n by (auto simp: load_own_keys_def find_one_time_def private_key_def Identity_client_def OneTimePrekey_client_def look_def
        chain_Inl chain_Inr fail_def ret_def split: option.splits if_splits)
  have s: "client_Session peer kind d = (Inl e, d') \<Longrightarrow> False" for peer kind d d'
    using assms(2) n by (auto simp: client_Session_def safeElement_def chain_Inl fail_def ret_def look_def split: if_splits)
  have i: "load_own_keys im d = (Inr keys, d') \<Longrightarrow> cs_identity d \<noteq> None" for im d keys d'
    by (auto simp: load_own_keys_def Identity_client_def chain_Inr split: option.splits)
  define body where "body env keys = chain (client_Session (in_SenderAccountID msg) Sending) (\<lambda>held.
      chain (choose_session P dec draw (in_SenderAccountID msg) env keys held) (\<lambda>(plaintext, session, effect).
      chain (SetSession (in_SenderAccountID msg) (if se_keepOwnSending effect then Inbound else Sending) session) (\<lambda>_.
      ret (DecodeContent dec plaintext, effect))))" for env keys
  obtain env c2 where "chain (load_own_keys (oe_Initial env)) (body env) c2 = (Inl e, c1)" "open_envelope (in_Payload msg) c = (Inr env, c2)"
    using assms(1) o unfolding client_decrypt_def Let_def body_def [abs_def] chain_Inl by blast
  moreover from this(2) have "c2 = c" by (rule unchanged [OF foot_open(1)])
  ultimately obtain keys c3 where b: "body env keys c3 = (Inl e, c1)" and l: "load_own_keys (oe_Initial env) c = (Inr keys, c3)"
    using k unfolding chain_Inl by blast
  from b s have "\<exists>held c4. client_Session (in_SenderAccountID msg) Sending c3 = (Inr held, c4)" unfolding body_def chain_Inl by blast
  with i [OF l] show ?thesis by (auto simp: client_Session_Inr)
qed

lemma desync_recorded:
  assumes "safe_element peer"
  shows "\<exists>b y. RecordDesyncEvidence peer at d = (Inr b, y) \<and> cs_identity y = cs_identity d"
proof (cases "assoc_get (cs_convos d) peer")
  case None
  then show ?thesis using assms by (auto simp: RecordDesyncEvidence_def Conversation_client_def safeElement_def op_defs)
next
  case (Some v)
  then show ?thesis
    using assms by (auto simp: RecordDesyncEvidence_def Conversation_client_def get_health_def writeHealth_def safeElement_def op_defs Let_def)
qed

lemma rekey_decided:
  assumes "safe_element peer" "cs_identity d \<noteq> None"
  shows "\<exists>b y. ShouldAutoRekey peer now d = (Inr b, y)"
  using assms by (cases "assoc_get (cs_health d) peer"; cases "cs_identity d")
    (auto simp: ShouldAutoRekey_def get_health_def Identity_client_def safeElement_def op_defs)

lemma unopened_attempt:
  assumes new: "in_MessageID msg \<notin> set (cs_processedOrder c)" and d: "client_decrypt P dec draw msg c = (Inl e, c1)"
    and e: "\<not> err_is ErrDuplicateMessage e" and f: "failed_times (in_MessageID msg) n k c" and k: "k < MaxProcessedMessageIDs"
    and n: "n < MaxDecryptAttempts" and h: "HandleIncoming P dec quote w draw msg openChat now c = (h, c')"
  shows "\<exists>fl. h = Failed fl \<and> de_GaveUp fl = (Suc n = MaxDecryptAttempts) \<and> de_Err fl = e
    \<and> failed_times (in_MessageID msg) (if Suc n = MaxDecryptAttempts then 0 else Suc n) k c'"
proof -
  let ?fl = "\<lparr>de_MessageID = in_MessageID msg, de_PeerAccountID = in_SenderAccountID msg, de_Err = e,
          de_DesyncEvidence = suggests_desync e, de_GaveUp = False, de_RekeyNeeded = False\<rparr>"
  let ?b = "Suc n = MaxDecryptAttempts"
  obtain d' where r: "RecordDecryptFailure (in_MessageID msg) c = (Inr ?b, d')"
    using RecordDecryptFailure_same [OF f k] n by (metis Suc_lessI prod.collapse)
  have fd: "failed_times (in_MessageID msg) (if ?b then 0 else Suc n) k d'"
    using RecordDecryptFailure_same [OF f k] n r by (auto simp: less_Suc_eq)
  have id: "cs_identity d' = cs_identity c"
    using only_same [of "{FFailures}" c d' FIdentity] foot_failure [of "{FFailures}" "in_MessageID msg"] r by (auto simp: keeps_def dest: spec [of _ c])
  have "\<exists>fl y. giveUpOnEnvelope msg (receiptClock now) e c = (Inr fl, y) \<and> de_GaveUp fl = ?b \<and> de_Err fl = e"
  proof (cases "?b \<and> suggests_desync e")
    case False
    then have "giveUpOnEnvelope msg (receiptClock now) e c = (Inr (?fl\<lparr>de_GaveUp := ?b\<rparr>), d')"
      by (auto simp: giveUpOnEnvelope_def chain_def r Let_def ret_def)
    then show ?thesis by auto
  next
    case True
    from desync_cause [OF d] True id have s: "safe_element (in_SenderAccountID msg)" "cs_identity d' \<noteq> None" by auto
    obtain b y where ev: "RecordDesyncEvidence (in_SenderAccountID msg) (receiptClock now) d' = (Inr b, y)" "cs_identity y = cs_identity d'"
      using desync_recorded [OF s(1)] by blast
    obtain rk z where "ShouldAutoRekey (in_SenderAccountID msg) (receiptClock now) y = (Inr rk, z)"
      using rekey_decided [OF s(1), of y "receiptClock now"] s(2) ev(2) by auto
    with True ev(1) have "giveUpOnEnvelope msg (receiptClock now) e c = (Inr (?fl\<lparr>de_GaveUp := True, de_RekeyNeeded := rk\<rparr>), z)"
      by (auto simp: giveUpOnEnvelope_def chain_def r Let_def ret_def)
    with True show ?thesis by auto
  qed
  then obtain fl y where g: "giveUpOnEnvelope msg (receiptClock now) e c = (Inr fl, y)" "de_GaveUp fl = ?b" "de_Err fl = e" by blast
  have "failed_times (in_MessageID msg) (if ?b then 0 else Suc n) k y"
    using failed_times_same [OF give_up_failures [of msg c "receiptClock now" e]] fd r g(1) by simp
  with handle_unopened [OF new d e, of quote w openChat now] h g show ?thesis by auto
qed


end
