(* ===== verification/Client_Send_Rules.thy ===== *)
theory Client_Send_Rules
  imports Client_Net_Frame Client_Delivery
begin

text \<open>
  What the send path of the client promises about its sessions and its requests: a send that fails
  leaves no session advanced, a peer that is blocked or gone is not talked to, and what the roll-back
  after a failed post means for the message that follows it.
\<close>

section \<open>A failed send leaves no session advanced\<close>

lemma on_client_Inr: "on_client m w = (Inr x, w') \<longleftrightarrow> (\<exists>c. m (wo_client w) = (Inr x, c) \<and> w' = w\<lparr>wo_client := c\<rparr>)"
  by (auto simp: on_client_def split: prod.splits)

lemma on_client_Inl: "on_client m w = (Inl e, w') \<longleftrightarrow> (\<exists>c. m (wo_client w) = (Inl e, c) \<and> w' = w\<lparr>wo_client := c\<rparr>)"
  by (auto simp: on_client_def split: prod.splits)

lemma attempt_result: "attempt m w = (r, w') \<longleftrightarrow> (\<exists>x. m w = (x, w') \<and> r = Inr x)"
  by (auto simp: attempt_def split: prod.splits)

lemma keeps_run: "keeps R m \<Longrightarrow> m c = (r, c') \<Longrightarrow> R c c'"
  by (metis keeps_def snd_conv)

lemma rollBackSession_safe:
  "safe_element peer \<Longrightarrow> \<exists>d. rollBackSession peer previous c = (Inr (), d) \<and> assoc_get (cs_sessions d) (peer, Sending) = previous
     \<and> (\<forall>k. k \<noteq> (peer, Sending) \<longrightarrow> assoc_get (cs_sessions d) k = assoc_get (cs_sessions c) k)"
  by (cases previous) (simp_all add: rollBackSession_def DeleteSession_def SetSession_def safeElement_def op_defs assoc_get_del assoc_get_put)

lemma take_back_sessions:
  assumes safe: "safe_element peer" and t: "take_back peer previous err w = (r, w')"
  shows "r = Inl err \<and> (\<forall>k. assoc_get (cs_sessions (wo_client w')) k = (if k = (peer, Sending) then previous else assoc_get (cs_sessions (wo_client w)) k)
    \<or> IsStaleDevice err \<and> fst k = peer \<and> assoc_get (cs_sessions (wo_client w')) k = None)"
proof -
  obtain d where d: "rollBackSession peer previous (wo_client w) = (Inr (), d)"
      "\<And>k. assoc_get (cs_sessions d) k = (if k = (peer, Sending) then previous else assoc_get (cs_sessions (wo_client w)) k)"
    using rollBackSession_safe [OF safe, of previous "wo_client w"] by auto
  have t': "(if \<not> IsStaleDevice err then fail err
         else chain (attempt (on_client (ForgetPeerDevice peer))) (\<lambda>r2. case r2 of
           Inl forget \<Rightarrow> fail (ErrJoin err forget) | Inr _ \<Rightarrow> fail err)) (w\<lparr>wo_client := d\<rparr>) = (r, w')"
    using t unfolding take_back_def by (simp add: chain_def attempt_def on_client_def d(1))
  show ?thesis
  proof (cases "IsStaleDevice err")
    case False
    then show ?thesis using t' d(2) by (auto simp: fail_def)
  next
    case True
    have "dropped {peer} d (snd (ForgetPeerDevice peer d))" using dropped_forget [of peer "{peer}"] by (simp add: keeps_def)
    moreover have "r = Inl err \<and> wo_client w' = snd (ForgetPeerDevice peer d)"
      using t' True safe by (auto simp: chain_def attempt_def on_client_def ForgetPeerDevice_def DeleteSession_def safeElement_def op_defs)
    ultimately show ?thesis using d(2) True by (auto simp: dropped_def)
  qed
qed

lemma seal_and_post_fails:
  assumes safe: "safe_element peer" and s: "seal_and_post P J now peer ep previous session initial plaintext reset w = (Inl e, w')"
    and r: "e \<noteq> ErrRandom"
  shows "\<forall>k. assoc_get (cs_sessions (wo_client w')) k = assoc_get (cs_sessions (wo_client w)) k
    \<or> k = (peer, Sending) \<and> assoc_get (cs_sessions (wo_client w')) k = previous
    \<or> IsStaleDevice e \<and> fst k = peer \<and> assoc_get (cs_sessions (wo_client w')) k = None"
proof (cases "Encrypt P session plaintext")
  case (Pair s' res)
  show ?thesis
  proof (cases res)
    case (Inl x)
    then show ?thesis using s Pair by (simp add: seal_and_post_def encrypt_for_def chain_def fail_def)
  next
    case (Inr hc)
    obtain header ciphertext where hc: "hc = (header, ciphertext)" by (cases hc)
    define c1 where "c1 = (wo_client w)\<lparr>cs_sessions := assoc_put (cs_sessions (wo_client w)) (peer, Sending) s'\<rparr>"
    obtain b bs where b: "cs_random c1 = b # bs"
      using s r unfolding seal_and_post_def encrypt_for_def Pair Inr hc
      by (cases "cs_random (wo_client w)") (auto simp: chain_def ret_def on_client_def SetSession_safe [OF safe] newMessageID_def c1_def)
    define w2 where "w2 = w\<lparr>wo_client := c1\<lparr>cs_random := bs\<rparr>\<rparr>"
    define post where "post = postEnvelope P J now ep (hex_encode b) (NewEnvelopeRekey initial header ciphertext (map_option (\<lambda>_. reset) initial))"
    obtain x w3 where p: "post w2 = (x, w3)" by fastforce
    obtain err where t: "(take_back peer previous err :: unit net_op) w3 = (Inl e, w')"
      using s p b unfolding seal_and_post_def encrypt_for_def Pair Inr hc
      by (cases x) (auto simp: chain_def ret_def on_client_def SetSession_safe [OF safe] newMessageID_def c1_def attempt_def w2_def post_def)
    have "on_world (only {FRandom}) w2 w3" using p reach_post [of "{FRandom}" P J now ep] unfolding keeps_def post_def by (metis insertI1 snd_conv)
    then have "cs_sessions (wo_client w3) = assoc_put (cs_sessions (wo_client w)) (peer, Sending) s'"
      using only_same [of "{FRandom}" "wo_client w2" "wo_client w3" FSessions] by (simp add: on_world_def w2_def c1_def)
    then have "assoc_get (cs_sessions (wo_client w3)) k = assoc_get (cs_sessions (wo_client w)) k" if "k \<noteq> (peer, Sending)" for k
      using that by (simp add: assoc_get_put)
    then show ?thesis using take_back_sessions [OF safe t] by (metis sum.inject(1))
  qed
qed

lemma cached_endpoint:
  assumes "assoc_get (cs_devices (wo_client w)) peer = Some d" "pd_DeviceID d \<noteq> []" "pd_DevicePub d \<noteq> []" "safe_element peer"
    and r: "reachable_endpoint P J now peer w = (Inr ep, w')"
  shows "pe_AccountID ep = peer"
proof -
  define k where "k r = (case r of Inl err \<Rightarrow> give_up_with P J now (peer_server (assoc_get (cs_convos (wo_client w)) peer)) peer err
     | Inr ep \<Rightarrow> if \<not> Federated ep then ret ep
         else chain (federationAllowed P J now) (\<lambda>allowed. if allowed then ret ep else fail ErrFederationDisabled))" for r
  let ?ep = "\<lparr>pe_AccountID = peer, pe_Server = (if peer_server (assoc_get (cs_convos (wo_client w)) peer) = [] then pd_Server d
       else peer_server (assoc_get (cs_convos (wo_client w)) peer)), pe_DeviceID = pd_DeviceID d, pe_DevicePub = pd_DevicePub d\<rparr>"
  have e: "Endpoint P J now peer w = (Inr ?ep, w)"
    using assms(1-4) by (simp add: Endpoint_def endpointOn_def Conversation_client_def peerDevice_def on_client_def safeElement_def op_defs Let_def)
  have "on_client (refuse_if_silenced peer) w = (Inr (peer_server (assoc_get (cs_convos (wo_client w)) peer)), w) \<or>
      (\<exists>x. on_client (refuse_if_silenced peer) w = (Inl x, w))"
    using assms(4) by (auto simp: refuse_if_silenced_def IsPeerBlocked_def Conversation_client_def on_client_def safeElement_def op_defs)
  then have "k (Inr ?ep) w = (Inr ep, w')"
    using r unfolding reachable_endpoint_def k_def [symmetric] by (auto simp: chain_def attempt_def e k_def [abs_def])
  then have "ep = ?ep"
    unfolding k_def by (auto simp: chain_Inr ret_def fail_def split: if_splits)
  then show ?thesis by simp
qed


section \<open>Nothing is sent to a silenced peer\<close>

definition silenced :: "string \<Rightarrow> client \<Rightarrow> bool" where
  "silenced peer c \<longleftrightarrow> assoc_get (cs_blocked c) peer \<noteq> None
     \<or> (case assoc_get (cs_convos c) peer of None \<Rightarrow> False | Some v \<Rightarrow> cv_PeerGone v)"

lemma deliver_silenced:
  assumes "silenced peer (wo_client w)"
  shows "\<exists>e. deliver P J now peer plaintext reset w = (Inl e, w)"
proof -
  have "\<exists>e. on_client (refuse_if_silenced peer) w = (Inl e, w)"
    using assms by (auto simp: silenced_def refuse_if_silenced_def IsPeerBlocked_def Conversation_client_def on_client_def safeElement_def
        op_defs split: option.splits)
  then show ?thesis by (auto simp: deliver_def reachable_endpoint_def chain_def)
qed

lemma silenced_kept: "only F c d \<Longrightarrow> FBlocked \<notin> F \<Longrightarrow> FConvos \<notin> F \<Longrightarrow> silenced peer c \<Longrightarrow> silenced peer d"
  using only_same [of F c d FBlocked] only_same [of F c d FConvos] by (simp add: silenced_def)

lemma foot_claim_for [footprints]: "keeps (only F) (profileClaimFor P peer)"
  unfolding profileClaimFor_def ownProfileClaim_def by (intro touched_rules footprints)

lemma foot_auto_rekey [footprints]: "FHealth \<in> F \<Longrightarrow> keeps (only F) (RecordAutoRekey peer at)"
  unfolding RecordAutoRekey_def by (rule footprints)

lemma on_client_sent: "wo_sent (snd (on_client m w)) = wo_sent w"
  by (simp add: on_client_def split: prod.split)

text \<open>A step that leaves a silenced peer silenced and makes no request.\<close>

definition mute :: "string \<Rightarrow> world \<Rightarrow> world \<Rightarrow> bool" where
  "mute peer w w' \<longleftrightarrow> (silenced peer (wo_client w) \<longrightarrow> silenced peer (wo_client w') \<and> wo_sent w' = wo_sent w)"

interpretation muted: client_relation "mute peer"
  by unfold_locales (auto simp: mute_def)

lemmas muted_rules = muted.keeps_same muted.keeps_chain keep_rules

lemma mute_on_client: "keeps (only F) m \<Longrightarrow> FBlocked \<notin> F \<Longrightarrow> FConvos \<notin> F \<Longrightarrow> keeps (mute peer) (on_client m)"
  unfolding keeps_def mute_def on_client_sent by (auto simp: on_client_def split: prod.split) (metis silenced_kept snd_conv)

lemma mute_deliver: "keeps (mute peer) (deliver P J now peer b r)"
  unfolding keeps_def mute_def by (metis deliver_silenced snd_conv)

text \<open>
  C26: to a peer that is blocked, or whose account is gone, nothing leaves the device: delivering and
  sending a receipt change nothing at all, and resetting the session makes no request.
\<close>

theorem silenced_peer_gets_nothing:
  assumes "silenced peer (wo_client w)"
  shows "(\<exists>e. deliver P J now peer plaintext reset w = (Inl e, w)) \<and> snd (SendReceipt P J now peer status upTo w) = w
    \<and> wo_sent (snd (ResetSession P J now peer reason w)) = wo_sent w"
proof (intro conjI)
  show "\<exists>e. deliver P J now peer plaintext reset w = (Inl e, w)" using deliver_silenced [OF assms] .
  obtain E where E: "\<And>b r. deliver P J now peer b r w = (Inl (E b r), w)"
    using deliver_silenced [OF assms, of P J now] by metis
  obtain claim where c: "on_client (profileClaimFor P peer) w = (claim, w)"
  proof -
    obtain x c' where x: "profileClaimFor P peer (wo_client w) = (x, c')" by fastforce
    then have "c' = wo_client w" by (rule unchanged [OF foot_claim_for])
    with x that show ?thesis by (simp add: on_client_def)
  qed
  show "snd (SendReceipt P J now peer status upTo w) = w"
    using E c by (auto simp: SendReceipt_def ReceiptsEnabled_def Conversation_client_def safeElement_def on_client_def op_defs
        split: option.splits sum.splits prod.splits)
  have "keeps (mute peer) (ResetSession P J now peer reason)"
    unfolding ResetSession_def
    by (intro muted_rules mute_deliver mute_on_client [of "{FSessions, FHealth, FLogs, FRandom}"] footprints keep_rules) auto
  then show "wo_sent (snd (ResetSession P J now peer reason w)) = wo_sent w" using assms by (simp add: keeps_def mute_def)
qed

section \<open>A post whose answer is lost\<close>

text \<open>
  The device of the peer is on record on this server, the session with it is \<open>s\<close>, and the account
  can send.
\<close>

definition ready :: "string \<Rightarrow> Session \<Rightarrow> client \<Rightarrow> bool" where
  "ready peer s c \<longleftrightarrow> safe_element peer \<and> \<not> silenced peer c \<and> peer_server (assoc_get (cs_convos c) peer) = []
     \<and> (case assoc_get (cs_devices c) peer of None \<Rightarrow> False
        | Some d \<Rightarrow> pd_DeviceID d \<noteq> [] \<and> pd_DevicePub d \<noteq> [] \<and> pd_Server d = [])
     \<and> assoc_get (cs_sessions c) (peer, Sending) = Some s \<and> cs_identity c \<noteq> None \<and> length (cs_random c) \<ge> 2"

definition payload :: "platform \<Rightarrow> Session \<Rightarrow> bytes \<Rightarrow> Envelope" where
  "payload P s plaintext = (case snd (Encrypt P s plaintext) of Inr (header, ciphertext) \<Rightarrow> NewEnvelopeRekey None header ciphertext None)"

definition posted_envelope :: "sent \<Rightarrow> Envelope option" where
  "posted_envelope x = (case st_Value x of Some (BodyMessage og) \<Rightarrow> Some (og_Payload og) | _ \<Rightarrow> None)"

lemma deliver_ready:
  assumes r: "ready peer s (wo_client w)" and e: "Encrypt P s plaintext = (s', Inr (header, ciphertext))"
  defines "w3 \<equiv> w\<lparr>wo_client := (wo_client w)\<lparr>cs_sessions := assoc_put (cs_sessions (wo_client w)) (peer, Sending) s',
      cs_random := drop 2 (cs_random (wo_client w))\<rparr>\<rparr>"
  shows "\<exists>x. posted_envelope x = Some (payload P s plaintext)
    \<and> (\<forall>w4. exchange x w3 = (Inl ErrNetwork, w4) \<longrightarrow>
        deliver P J now peer plaintext reset w = (Inl ErrNetwork, snd ((take_back peer (Some s) ErrNetwork :: unit net_op) w4)))
    \<and> (\<forall>w4 status answer. exchange x w3 = (Inr (status, answer), w4) \<and> decodeResponse J status answer w4 = (Inr answer, w4) \<longrightarrow>
        deliver P J now peer plaintext reset w = (Inr (False, False), w4))"
proof -
  obtain d where d: "assoc_get (cs_devices (wo_client w)) peer = Some d" "pd_DeviceID d \<noteq> []" "pd_DevicePub d \<noteq> []" "pd_Server d = []"
    using r by (auto simp: ready_def split: option.splits)
  obtain i where i: "cs_identity (wo_client w) = Some i" using r by (auto simp: ready_def)
  obtain b1 b2 bs where b: "cs_random (wo_client w) = b1 # b2 # bs"
    using r by (cases "cs_random (wo_client w)"; cases "tl (cs_random (wo_client w))") (auto simp: ready_def)
  define ep where "ep = \<lparr>pe_AccountID = peer, pe_Server = [], pe_DeviceID = pd_DeviceID d, pe_DevicePub = pd_DevicePub d\<rparr>"
  have safe: "safe_element peer" and srv: "peer_server (assoc_get (cs_convos (wo_client w)) peer) = []"
    and s: "assoc_get (cs_sessions (wo_client w)) (peer, Sending) = Some s" using r by (auto simp: ready_def)
  have sil: "on_client (refuse_if_silenced peer) w = (Inr [], w)"
    using r by (auto simp: ready_def silenced_def refuse_if_silenced_def IsPeerBlocked_def Conversation_client_def on_client_def
        safeElement_def op_defs split: option.splits)
  have "Endpoint P J now peer w = (Inr ep, w)"
    using d safe srv by (simp add: Endpoint_def endpointOn_def Conversation_client_def peerDevice_def on_client_def safeElement_def op_defs Let_def ep_def)
  then have reach: "reachable_endpoint P J now peer w = (Inr ep, w)"
    by (simp add: reachable_endpoint_def chain_def sil attempt_def Federated_def ep_def ret_def)
  define og where "og = \<lparr>og_MessageID = hex_encode b1, og_RecipientAccountID = peer, og_RecipientDeviceID = pd_DeviceID d,
    og_Payload = NewEnvelopeRekey None header ciphertext None\<rparr>"
  define body where "body = jc_body J (BodyMessage og)"
  define x where "x = \<lparr>st_Server = ci_Server i, st_Request = \<lparr>Method = ''POST'', URLPath = ''/v1/messages'', RawQuery = [],
      Headers = (''Content-Type'', ''application/json'') # signature_headers (ci_DeviceID i) now (hex_encode b2)
        (httpsig_Sign P ''POST'' ''/v1/messages'' [] body (ci_DeviceID i) now (hex_encode b2) (ci_DevicePriv i)), Body = Some body\<rparr>,
    st_Value = Some (BodyMessage og)\<rparr>"
  define c1 where "c1 = (wo_client w)\<lparr>cs_sessions := assoc_put (cs_sessions (wo_client w)) (peer, Sending) s'\<rparr>"
  have c1: "cs_random c1 = b1 # b2 # bs" "cs_identity c1 = Some i" by (simp_all add: c1_def b i)
  have w3: "w3 = w\<lparr>wo_client := c1\<lparr>cs_random := bs\<rparr>\<rparr>" by (simp add: w3_def c1_def b)
  have do: "client_do P J now ((plain_request ''POST'' ''/v1/messages'' authDevice)\<lparr>rq_body := Some (BodyMessage og)\<rparr>)
      (w\<lparr>wo_client := c1\<lparr>cs_random := b2 # bs\<rparr>\<rparr>) = chain (exchange x) (\<lambda>(status, answer). decodeResponse J status answer) w3"
    using c1 by (simp add: client_do_def chain_def [of "on_client m" for m] on_client_def Identity_client_def plain_request_def signRequest_def newMessageID_def
        own_key_id_def Let_def chain_def [of "chain m f" for m f] ret_def x_def body_def w3)
  have post: "postEnvelope P J now ep (hex_encode b1) (og_Payload og) (w\<lparr>wo_client := c1\<lparr>cs_random := b2 # bs\<rparr>\<rparr>)
      = (case chain (exchange x) (\<lambda>(status, answer). decodeResponse J status answer) w3 of (Inr _, w2) \<Rightarrow> (Inr (), w2)
         | (Inl err, w2) \<Rightarrow> if api_status 409 err then (Inr (), w2) else (Inl err, w2))"
    using do by (simp add: postEnvelope_def Let_def Federated_def ep_def SendMessage_def conflict_is_success_def do_unit_def og_def
        chain_def [of "attempt m" for m] attempt_def chain_def [of "client_do P J now r" for r] ret_def fail_def split: prod.split sum.split)
  have steps: "encrypt_for P s plaintext w = (Inr (s', header, ciphertext), w)"
    "on_client (SetSession peer Sending s') w = (Inr (), w\<lparr>wo_client := c1\<rparr>)"
    "on_client newMessageID (w\<lparr>wo_client := c1\<rparr>) = (Inr (hex_encode b1), w\<lparr>wo_client := c1\<lparr>cs_random := b2 # bs\<rparr>\<rparr>)"
    using c1(1) by (simp_all add: encrypt_for_def e ret_def on_client_def SetSession_safe [OF safe] c1_def [symmetric] newMessageID_def)
  obtain pr w5 where pr: "postEnvelope P J now ep (hex_encode b1) (og_Payload og) (w\<lparr>wo_client := c1\<lparr>cs_random := b2 # bs\<rparr>\<rparr>) = (pr, w5)" by fastforce
  have "seal_and_post P J now peer ep (Some s) s None plaintext reset w = (case pr of Inr _ \<Rightarrow> (Inr (), w5) | Inl err \<Rightarrow> take_back peer (Some s) err w5)"
    using pr by (simp add: seal_and_post_def chain_def [of _ _ w] chain_def [of _ _ "w\<lparr>wo_client := v\<rparr>" for v] steps attempt_def og_def ret_def split: sum.split)
  moreover have "deliver P J now peer plaintext reset w = chain (seal_and_post P J now peer ep (Some s) s None plaintext reset) (\<lambda>_. ret (False, False)) w"
    using s safe by (simp add: deliver_def chain_def [of "reachable_endpoint P J now peer"] reach chain_def [of "on_client m" for m] on_client_def client_Session_def
        safeElement_def look_def sessionForSending_def chain_def [of "ret y" for y] ret_def)
  moreover have "posted_envelope x = Some (payload P s plaintext)" by (simp add: posted_envelope_def x_def og_def payload_def e)
  moreover obtain v where "(take_back peer (Some s) ErrNetwork :: unit net_op) w5 = (Inl ErrNetwork, v)"
    using take_back_sessions [OF safe] by (metis prod.collapse)
  ultimately show ?thesis
    using post pr by (intro exI [of _ x]) (auto simp: chain_def ret_def api_status_def)
qed

lemma take_back_network:
  "safe_element peer \<Longrightarrow> (take_back peer (Some s) ErrNetwork :: unit net_op) w =
     (Inl ErrNetwork, w\<lparr>wo_client := (wo_client w)\<lparr>cs_sessions := assoc_put (cs_sessions (wo_client w)) (peer, Sending) s\<rparr>\<rparr>)"
  by (simp add: take_back_def rollBackSession_def chain_def attempt_def on_client_def SetSession_safe IsStaleDevice_def fail_def)

text \<open>Both copies name the same number, so a ratchet that has opened one takes the other for a repeat.\<close>

lemma same_number_is_duplicate:
  assumes "DHr B = Some (DHPub h)" "N_h h = Nr B" "Nr B + 1 \<noteq> 0" "trySkippedMessageKey B h = None"
    and d: "Ratchet.decrypt P n B h ct = Inr (p, B')"
  shows "Ratchet.decrypt P n' B' h ct' = Inl ErrDuplicateMessage"
proof -
  have "decrypt_chain P B h ct = Inr (p, B')" using d assms(1-4) by (simp add: decrypt_def headerMatchesDHr_def)
  moreover have "skipMessageKeys P B (N_h h) = Inr B" using assms(2) by (simp add: skipMessageKeys_def)
  ultimately have "Nr B' = Nr B + 1" "DHr B' = DHr B" "Skipped B' = Skipped B"
    by (auto simp: decrypt_chain_def with_session_def Let_def case_prod_beta split: option.splits sum.splits)
  moreover have "Nr B < Nr B + 1" using assms(3) by (metis add.commute lessI unatSuc word_less_nat_alt)
  ultimately show ?thesis using assms(1,2,4)
    by (auto simp: decrypt_def headerMatchesDHr_def trySkippedMessageKey_def split: option.splits prod.splits)
qed

lemma held_session_opens:
  assumes safe: "safe_element (in_SenderAccountID msg)" and i: "cs_identity c = Some i" "length (ci_DHIdentityPriv i) = 32" "length (ci_SignedPrekeyPriv i) = 32"
    and s: "assoc_get (cs_sessions c) (in_SenderAccountID msg, Sending) = Some B" and e: "in_Payload msg = Some (NewEnvelopeRekey None h ct None)"
  shows "Ratchet.decrypt P (draw 1) B h ct = Inr (p, B') \<Longrightarrow> client_decrypt P dec draw msg c
      = (Inr (DecodeContent dec p, no_effect), c\<lparr>cs_sessions := assoc_put (cs_sessions c) (in_SenderAccountID msg, Sending) B'\<rparr>)"
    "Ratchet.decrypt P (draw 1) B h ct = Inl ErrDuplicateMessage \<Longrightarrow> client_decrypt P dec draw msg c = (Inl (ErrRatchet ErrDuplicateMessage), c)"
proof -
  let ?env = "\<lparr>oe_Header = h, oe_Ciphertext = ct, oe_Initial = None, oe_Rekey = None\<rparr>"
  have o: "open_envelope (in_Payload msg) c = (Inr ?env, c)" by (simp add: open_envelope_def e ret_def)
  obtain keys where k: "load_own_keys None c = (Inr keys, c)"
    using i by (simp add: load_own_keys_def find_one_time_def private_key_def Identity_client_def op_defs)
  have held: "client_Session (in_SenderAccountID msg) Sending c = (Inr (Some B), c)" using safe s by (simp add: client_Session_Inr)
  note run = client_decrypt_def Let_def chain_def o k held choose_session_def open_with_held_def
  show "Ratchet.decrypt P (draw 1) B h ct = Inr (p, B') \<Longrightarrow> client_decrypt P dec draw msg c
      = (Inr (DecodeContent dec p, no_effect), c\<lparr>cs_sessions := assoc_put (cs_sessions c) (in_SenderAccountID msg, Sending) B'\<rparr>)"
    by (simp add: run ret_def SetSession_safe [OF safe] no_effect_def)
  show "Ratchet.decrypt P (draw 1) B h ct = Inl ErrDuplicateMessage \<Longrightarrow> client_decrypt P dec draw msg c = (Inl (ErrRatchet ErrDuplicateMessage), c)"
    by (simp add: run fail_def)
qed

lemma handle_keeps:
  assumes "in_MessageID msg \<notin> set (cs_processedOrder c)" "client_decrypt P dec draw msg c = (Inr (content, effect), c1)"
    and "HandleIncoming P dec quote w draw msg openChat now c = (h, c')"
  shows "cs_identity c' = cs_identity c1" "cs_sessions c' = cs_sessions c1"
proof -
  define cm where "cm = snd (MarkMessageProcessed (in_MessageID msg) c1)"
  obtain c2 c3 where o: "only {FHealth, FPrekeys, FLogs, FRandom, FProfiles} cm c2" "only content_files c2 c3"
    and h: "c' = c3 \<or> (\<exists>e. c' = snd (giveUpOnEnvelope msg (receiptClock now) e c3))"
    using handle_opened [OF assms] unfolding cm_def by blast
  have g: "only {FFailures, FHealth} c3 c'"
    using h foot_give_up [of "{FFailures, FHealth}" msg "receiptClock now"] by (auto simp: keeps_def)
  have m: "only {FProcessed, FFailures} c1 cm"
    using foot_mark [of "{FProcessed, FFailures}" "in_MessageID msg"] by (simp add: keeps_def cm_def)
  show "cs_identity c' = cs_identity c1"
    using only_same [OF g, of FIdentity] only_same [OF o(2), of FIdentity] only_same [OF o(1), of FIdentity] only_same [OF m, of FIdentity]
    by (simp add: content_files_def)
  show "cs_sessions c' = cs_sessions c1"
    using only_same [OF g, of FSessions] only_same [OF o(2), of FSessions] only_same [OF o(1), of FSessions] only_same [OF m, of FSessions]
    by (simp add: content_files_def)
qed

lemma next_in_chain_opens:
  assumes P: "hkdf_size P" "gcm_correct P" and s: "CKs s = Some ck" and B: "DHr B = Some (x25519_public P (DHs s))" "Nr B = Ns s"
    "CKr B = Some ck" "AD B = AD s" "Skipped B = []"
  shows "\<exists>s' h ct B'. Encrypt P s p = (s', Inr (h, ct)) \<and> Ratchet.decrypt P n B h ct = Inr (p, B') \<and> h = chain_header P s 0"
proof -
  define mk where "mk = snd (kdfCK P ck)"
  have "Encrypt P s p = (s\<lparr>CKs := Some (fst (kdfCK P ck)), Ns := Ns s + 1\<rparr>, Inr (chain_header P s 0, Ratchet_Chain.seal_with P mk p (AD s) (chain_header P s 0)))"
    using s by (simp add: Encrypt_def case_prod_beta Let_def sealMessage_eq [OF P(1)] chain_header_def mk_def)
  moreover have "\<exists>B'. Ratchet.decrypt P n B (chain_header P s 0) (Ratchet_Chain.seal_with P mk p (AD s) (chain_header P s 0)) = Inr (p, B')"
    using B by (simp add: decrypt_def trySkippedMessageKey_def headerMatchesDHr_def chain_header_def decrypt_chain_def skipMessageKeys_def
        case_prod_beta Let_def mk_def with_session_def openMessage_seal [OF P])
  ultimately show ?thesis by blast
qed

text \<open>
  A post that reached the server although its answer was lost is taken back, and the next message to
  the same peer goes out under the same message number, key and nonce. The peer opens the first, takes
  the second for a repeat of it and drops it, while the sender counts it as delivered.
\<close>

theorem message_after_lost_answer_dropped:
  assumes P: "hkdf_size P" "gcm_correct P"
    and r: "ready peer s (wo_client w)" "length (cs_random (wo_client w)) \<ge> 4" and s: "CKs s = Some ck" "Ns s + 1 \<noteq> 0"
    and net: "wo_replies w = None # Some (200, answer) # rs" "looks_like_json J answer"
    and B: "DHr B = Some (x25519_public P (DHs s))" "Nr B = Ns s" "CKr B = Some ck" "AD B = AD s" "Skipped B = []"
    and c: "assoc_get (cs_sessions c) (sender, Sending) = Some B" "safe_element sender" "cs_identity c = Some i"
      "length (ci_DHIdentityPriv i) = 32" "length (ci_SignedPrekeyPriv i) = 32" "m1 \<notin> set (cs_processedOrder c)"
  shows "\<exists>w1 w2 x1 x2 key nonce ad. deliver P J now peer txt1 False w = (Inl ErrNetwork, w1)
    \<and> deliver P J now' peer txt2 False w1 = (Inr (False, False), w2) \<and> wo_sent w2 = wo_sent w @ [x1, x2]
    \<and> DecodeCiphertext (the (posted_envelope x1)) = Some (gcm_seal P key nonce txt1 ad)
    \<and> DecodeCiphertext (the (posted_envelope x2)) = Some (gcm_seal P key nonce txt2 ad)
    \<and> (case HandleIncoming P dec quote window draw1 \<lparr>in_MessageID = m1, in_SenderAccountID = sender, in_SenderDeviceID = d1, in_SentAt = t1,
          in_Payload = posted_envelope x1\<rparr> chat1 now1 c of (h1, c1) \<Rightarrow>
       \<exists>res c2. HandleIncoming P dec quote window draw2 \<lparr>in_MessageID = m2, in_SenderAccountID = sender, in_SenderDeviceID = d2, in_SentAt = t2,
          in_Payload = posted_envelope x2\<rparr> chat2 now2 c1 = (Received res, c2) \<and> rr_Duplicate res \<and> rr_Content res = None \<and> cs_logs c2 = cs_logs c1)"
proof -
  have safe: "safe_element peer" using r(1) by (simp add: ready_def)
  define hd where "hd = chain_header P s 0"
  have hd: "DHPub hd = x25519_public P (DHs s)" "N_h hd = Ns s" by (simp_all add: hd_def chain_header_def)
  obtain s1 ct1 B' where e1: "Encrypt P s txt1 = (s1, Inr (hd, ct1))" "Ratchet.decrypt P (draw1 1) B hd ct1 = Inr (txt1, B')"
    using next_in_chain_opens [OF P s(1) B] unfolding hd_def by blast
  obtain s2 ct2 where e2: "Encrypt P s txt2 = (s2, Inr (hd, ct2))"
    using next_in_chain_opens [OF P s(1) B] unfolding hd_def by blast
  obtain x1 where x1: "posted_envelope x1 = Some (payload P s txt1)" and d1: "\<And>w4. exchange x1 (w\<lparr>wo_client := (wo_client w)\<lparr>cs_sessions := assoc_put (cs_sessions (wo_client w)) (peer, Sending) s1,
      cs_random := drop 2 (cs_random (wo_client w))\<rparr>\<rparr>) = (Inl ErrNetwork, w4) \<Longrightarrow>
    deliver P J now peer txt1 False w = (Inl ErrNetwork, snd ((take_back peer (Some s) ErrNetwork :: unit net_op) w4))"
    using deliver_ready [OF r(1) e1(1), of J now False] by blast
  define w1 where "w1 = w\<lparr>wo_client := (wo_client w)\<lparr>cs_sessions := assoc_put (assoc_put (cs_sessions (wo_client w)) (peer, Sending) s1) (peer, Sending) s,
      cs_random := drop 2 (cs_random (wo_client w))\<rparr>, wo_sent := wo_sent w @ [x1], wo_replies := Some (200, answer) # rs\<rparr>"
  have del1: "deliver P J now peer txt1 False w = (Inl ErrNetwork, w1)"
    using d1 net(1) by (simp add: exchange_def take_back_network [OF safe] w1_def)
  have "ready peer s (wo_client w1)"
    using r by (simp add: ready_def silenced_def w1_def assoc_get_put)
  from deliver_ready [OF this e2, of J now' False] obtain x2 where x2: "posted_envelope x2 = Some (payload P s txt2)"
    and d2: "\<And>w4 status answer. exchange x2 (w1\<lparr>wo_client := (wo_client w1)\<lparr>cs_sessions := assoc_put (cs_sessions (wo_client w1)) (peer, Sending) s2,
      cs_random := drop 2 (cs_random (wo_client w1))\<rparr>\<rparr>) = (Inr (status, answer), w4) \<Longrightarrow> decodeResponse J status answer w4 = (Inr answer, w4) \<Longrightarrow>
    deliver P J now' peer txt2 False w1 = (Inr (False, False), w4)" by blast
  obtain w2 where del2: "deliver P J now' peer txt2 False w1 = (Inr (False, False), w2)" "wo_sent w2 = wo_sent w1 @ [x2]"
    using d2 net(2) by (simp add: exchange_def w1_def decodeResponse_def success_def ret_def)
  have pay: "posted_envelope x1 = Some (NewEnvelopeRekey None hd ct1 None)" "posted_envelope x2 = Some (NewEnvelopeRekey None hd ct2 None)"
    using x1 x2 by (simp_all add: payload_def e1 e2)
  obtain key nonce ad where ct: "ct1 = gcm_seal P key nonce txt1 ad" "ct2 = gcm_seal P key nonce txt2 ad"
    using e1(1) e2 s(1) by (auto simp: Encrypt_def Let_def case_prod_beta sealMessage_eq [OF P(1)] Ratchet_Chain.seal_with_def)
  define msg1 where "msg1 = \<lparr>in_MessageID = m1, in_SenderAccountID = sender, in_SenderDeviceID = d1, in_SentAt = t1, in_Payload = posted_envelope x1\<rparr>"
  define msg2 where "msg2 = \<lparr>in_MessageID = m2, in_SenderAccountID = sender, in_SenderDeviceID = d2, in_SentAt = t2, in_Payload = posted_envelope x2\<rparr>"
  obtain h1 c1 where h1: "HandleIncoming P dec quote window draw1 msg1 chat1 now1 c = (h1, c1)" by fastforce
  have open1: "client_decrypt P dec draw1 msg1 c = (Inr (DecodeContent dec txt1, no_effect), c\<lparr>cs_sessions := assoc_put (cs_sessions c) (sender, Sending) B'\<rparr>)"
    using held_session_opens(1) [of msg1 c i B hd ct1 P draw1 txt1 B' dec] c e1(2) pay by (simp add: msg1_def)
  have n1: "in_MessageID msg1 \<notin> set (cs_processedOrder c)" using c by (simp add: msg1_def)
  have c1: "cs_identity c1 = Some i" using handle_keeps(1) [OF n1 open1 h1] c by simp
  have s1: "assoc_get (cs_sessions c1) (sender, Sending) = Some B'"
    using handle_keeps(2) [OF n1 open1 h1] by (simp add: assoc_get_put)
  have "Ratchet.decrypt P (draw2 1) B' hd ct2 = Inl ErrDuplicateMessage"
    by (rule same_number_is_duplicate [OF _ _ _ _ e1(2)]) (use B hd s(2) in \<open>simp_all add: trySkippedMessageKey_def\<close>)
  with held_session_opens(2) [of msg2 c1 i B' hd ct2 P draw2 dec] c c1 s1 pay
  have open2: "client_decrypt P dec draw2 msg2 c1 = (Inl (ErrRatchet ErrDuplicateMessage), c1)" by (simp add: msg2_def)
  have "\<exists>res c2. HandleIncoming P dec quote window draw2 msg2 chat2 now2 c1 = (Received res, c2) \<and> rr_Duplicate res \<and> rr_Content res = None \<and> cs_logs c2 = cs_logs c1"
  proof (cases "in_MessageID msg2 \<in> set (cs_processedOrder c1)")
    case True
    then show ?thesis using handle_seen [OF True, of P dec quote window draw2 chat2 now2] by (simp add: blank_result_def)
  next
    case False
    have "keeps (only {FProcessed, FFailures}) (MarkMessageProcessed (in_MessageID msg2))" by (rule foot_mark) simp_all
    then have "only {FProcessed, FFailures} c1 (snd (MarkMessageProcessed (in_MessageID msg2) c1))" by (simp add: keeps_def)
    then have "cs_logs (snd (MarkMessageProcessed (in_MessageID msg2) c1)) = cs_logs c1" using only_same [of _ _ _ FLogs] by fastforce
    then show ?thesis using handle_repeated [OF False open2, of quote window chat2 now2] by (simp add: blank_result_def)
  qed
  note dup = this [unfolded msg2_def]
  have sent: "wo_sent w2 = wo_sent w @ [x1, x2]" using del2(2) by (simp add: w1_def)
  show ?thesis
    by (rule exI [of _ w1], rule exI [of _ w2], rule exI [of _ x1], rule exI [of _ x2], rule exI [of _ key], rule exI [of _ nonce],
        rule exI [of _ ad])
      (use del1 del2(1) sent h1 [unfolded msg1_def] dup pay ct in simp)
qed

end
