(* ===== verification/Client_Contact.thy ===== *)
theory Client_Contact
  imports Client_Send_Rules X3dh
begin

text \<open>
  First contact: what the keys a session is opened with are certified by, what the client does not
  check when it looks a peer up, and that the first message sent over an opened session reads at the
  other end.
\<close>

section \<open>The chain of certificates\<close>

lemma first_device_certified:
  assumes "first_device P acc rootPub server ds = Some ep"
  shows "pe_AccountID ep = acc \<and> (\<exists>issuedAt sig. device_cert_Verify P \<lparr>dc_AccountID = acc, dc_DeviceID = pe_DeviceID ep,
    dc_DevicePubKey = pe_DevicePub ep, dc_IssuedAt = issuedAt, dc_Signature = sig\<rparr> rootPub = Inr ())"
  using assms
proof (induction ds)
  case (Cons d ds)
  show ?case
  proof (cases "device_endpoint P acc rootPub server d")
    case None
    with Cons show ?thesis by simp
  next
    case (Some e)
    with Cons.prems have "ep = e" by simp
    with Some show ?thesis unfolding device_endpoint_def by (auto split: option.splits if_splits) blast
  qed
qed simp

lemma or_error_Inr: "or_error what x k = Inr y \<longleftrightarrow> (\<exists>z. x = Some z \<and> k z = Inr y)"
  by (auto simp: or_error_def split: option.splits)

lemma resolved_certified:
  assumes "ResolvePeer P J now a server w = (Inr ep, w1)"
  shows "\<exists>rootPub dc. Address.Verify P (pe_AccountID ep) rootPub = Inr True \<and> device_cert_Verify P dc rootPub = Inr ()
    \<and> dc_AccountID dc = pe_AccountID ep \<and> dc_DeviceID dc = pe_DeviceID ep \<and> dc_DevicePubKey dc = pe_DevicePub ep"
proof -
  define k :: "accountWire \<Rightarrow> PeerEndpoint net_op" where "k acc = (case base64_decode (aw_RootPubKey acc) of None \<Rightarrow> fail (ErrText ''decoding the root key'')
      | Some rootPub \<Rightarrow> (case Address.Verify P (aw_ID acc) rootPub of
          Inl _ \<Rightarrow> fail (ErrText ''checking the account against its root key'')
        | Inr ok \<Rightarrow> if \<not> ok then fail (ErrText ''the account does not match the root key it was served with'')
            else case first_device P (aw_ID acc) rootPub server (aw_Devices acc) of
              None \<Rightarrow> fail (ErrText ''no active device with a certificate that verifies'')
            | Some ep \<Rightarrow> ret ep))" for acc
  obtain acc :: accountWire and w' where a: "k acc w' = (Inr ep, w1)"
    using assms unfolding ResolvePeer_def Let_def k_def [symmetric] chain_Inr by blast
  obtain rootPub where "Address.Verify P (aw_ID acc) rootPub = Inr True" "first_device P (aw_ID acc) rootPub server (aw_Devices acc) = Some ep"
    using a by (auto simp: k_def fail_def ret_def split: option.splits sum.splits if_splits)
  with first_device_certified [OF this(2)] show ?thesis
    by (auto intro!: exI [of _ rootPub])
qed

lemma verified_bundle_certified:
  assumes "verifyBundle P b peer = Inr rb"
  shows "\<exists>dhc spc. dh_identity_Verify P dhc (pe_DevicePub peer) = Inr () \<and> dh_AccountID dhc = pe_AccountID peer
      \<and> dh_DeviceID dhc = pe_DeviceID peer \<and> dh_DHPubKey dhc = rb_DHIdentityPubKey rb
    \<and> signed_prekey_Verify P spc (pe_DevicePub peer) = Inr () \<and> sp_AccountID spc = pe_AccountID peer \<and> sp_DeviceID spc = pe_DeviceID peer
      \<and> sp_KeyID spc = rb_SignedPrekeyID rb \<and> sp_PrekeyPubKey spc = rb_SignedPrekeyPub rb \<and> sp_DHIdentityPubKey spc = rb_DHIdentityPubKey rb"
proof -
  obtain dhPub where dh: "verified_dh_identity P b peer = Inr dhPub" using assms by (auto simp: verifyBundle_def split: sum.splits)
  obtain spkPub where sp: "verified_signed_prekey P (bw_SignedPrekey b) peer = Inr (spkPub, dhPub)"
    and rb: "rb_DHIdentityPubKey rb = dhPub" "rb_SignedPrekeyPub rb = spkPub" "rb_SignedPrekeyID rb = spw_KeyID (bw_SignedPrekey b)"
    using assms dh by (auto simp: verifyBundle_def or_error_Inr public_key_def split: sum.splits if_splits option.splits)
  obtain t sig where d: "dh_identity_Verify P \<lparr>dh_AccountID = pe_AccountID peer, dh_DeviceID = pe_DeviceID peer, dh_DHPubKey = dhPub,
          dh_IssuedAt = t, dh_Signature = sig\<rparr> (pe_DevicePub peer) = Inr ()"
    using dh by (auto simp: verified_dh_identity_def or_error_Inr split: if_splits)
  obtain t' sig' where s: "signed_prekey_Verify P \<lparr>sp_AccountID = pe_AccountID peer, sp_DeviceID = pe_DeviceID peer, sp_KeyID = spw_KeyID (bw_SignedPrekey b),
          sp_DHIdentityPubKey = dhPub, sp_PrekeyPubKey = spkPub, sp_IssuedAt = t', sp_Signature = sig'\<rparr> (pe_DevicePub peer) = Inr ()"
    using sp by (auto simp: verified_signed_prekey_def or_error_Inr split: if_splits)
  show ?thesis using exI [of _ "\<lparr>dh_AccountID = pe_AccountID peer, dh_DeviceID = pe_DeviceID peer, dh_DHPubKey = dhPub, dh_IssuedAt = t, dh_Signature = sig\<rparr>"]
    d s rb by fastforce
qed

text \<open>
  C8: the keys a session is opened with are certified up to an account: the identity key and the
  signed prekey of a claimed bundle are signed, for this account and device and together, by the device
  the peer was resolved to, and the key of that device is certified by a root key the account's id is
  derived from.
\<close>

theorem session_keys_certified:
  assumes r: "ResolvePeer P J now a server w = (Inr ep, w1)" and b: "ClaimBundle P J now' ep w2 = (Inr b, w3)"
  shows "\<exists>rootPub dc dhc spc. Address.Verify P (pe_AccountID ep) rootPub = Inr True \<and> device_cert_Verify P dc rootPub = Inr ()
    \<and> dc_AccountID dc = pe_AccountID ep \<and> dc_DeviceID dc = pe_DeviceID ep
    \<and> dh_identity_Verify P dhc (dc_DevicePubKey dc) = Inr () \<and> dh_AccountID dhc = pe_AccountID ep \<and> dh_DeviceID dhc = pe_DeviceID ep
    \<and> dh_DHPubKey dhc = rb_DHIdentityPubKey (bu_Remote b)
    \<and> signed_prekey_Verify P spc (dc_DevicePubKey dc) = Inr () \<and> sp_AccountID spc = pe_AccountID ep \<and> sp_DeviceID spc = pe_DeviceID ep
    \<and> sp_KeyID spc = rb_SignedPrekeyID (bu_Remote b) \<and> sp_PrekeyPubKey spc = rb_SignedPrekeyPub (bu_Remote b)
    \<and> sp_DHIdentityPubKey spc = rb_DHIdentityPubKey (bu_Remote b)"
proof -
  obtain wb :: prekeyBundleWire where "verifyBundle P wb ep = Inr (bu_Remote b)"
  proof -
    obtain wb :: prekeyBundleWire and w6 w7 :: world where "chain (of_result (verifyBundle P wb ep)) (\<lambda>remote.
       ret \<lparr>bu_Remote = remote, bu_ClaimedUnauthenticated = (bw_Omitted wb = ''unauthenticated'')\<rparr>) w6 = (Inr b, w7)"
      using b unfolding ClaimBundle_def Let_def chain_Inr [of "on_client Identity_client"] chain_Inr [of "do_json P J now' (jc_bundle J) r" for r]
        chain_Inr [of "if c then m else n" for c m n] by blast
    then have "verifyBundle P wb ep = Inr (bu_Remote b)"
      by (cases "verifyBundle P wb ep") (auto simp: chain_def of_result_def fail_def ret_def)
    then show ?thesis by (rule that)
  qed
  from verified_bundle_certified [OF this] resolved_certified [OF r] show ?thesis by (elim exE conjE) metis
qed

section \<open>The account that was asked for\<close>

text \<open>
  Whatever account is asked for, the answer decides which account is talked to: a server that answers
  with the account of somebody else, its root key and its certified device, is believed.
\<close>

theorem resolved_account_unchecked:
  assumes w: "cs_identity (wo_client w) \<noteq> None" "wo_replies w = Some (200, answer) # rs" "looks_like_json J answer"
    and a: "jc_account J answer = Some acc" "base64_decode (aw_RootPubKey acc) = Some rootPub" "Address.Verify P (aw_ID acc) rootPub = Inr True"
      "first_device P (aw_ID acc) rootPub server (aw_Devices acc) = Some ep"
  shows "pe_AccountID ep = aw_ID acc \<and> (\<forall>asked. \<exists>w'. ResolvePeer P J now asked server w = (Inr ep, w'))"
proof (intro conjI allI)
  show "pe_AccountID ep = aw_ID acc" using first_device_certified [OF a(4)] by simp
  fix asked
  obtain i where i: "cs_identity (wo_client w) = Some i" using w(1) by auto
  show "\<exists>w'. ResolvePeer P J now asked server w = (Inr ep, w')"
    using w(2,3) i a by (simp add: ResolvePeer_def Let_def chain_def do_json_def client_do_def on_client_def Identity_client_def plain_request_def
        signRequest_def ret_def exchange_def decodeResponse_def success_def decoded_def)
qed

section \<open>The first message\<close>

lemma initiator_pending:
  assumes "x25519_agrees P"
  shows "pending P (initiator_session P sk ad rat (x25519_public P spk)) (newResponderSession sk ad spk)"
  using x25519_pub(2) [OF assms, of rat spk]
  by (simp add: pending_def initiator_session_def newResponderSession_def case_prod_beta Let_def)

lemma first_message_decrypts:
  assumes P: "x25519_agrees P" "hkdf_size P" "gcm_correct P" and p: "pending P A B" and e: "Encrypt P A p = (A', Inr (h, ct))"
  shows "\<exists>B'. Ratchet.decrypt P new B h ct = Inr (p, B')"
proof -
  have "receive_all P B (map (\<lambda>(i, new). (new, projr (send_all P A [p] ! i))) [(0, new)]) = exactly_once [p] {} (map fst [(0::nat, new)])"
    by (rule receive_turn [OF P p]) auto
  then have "snd (Decrypt P new B h ct) = Inr p" by (simp add: e)
  then show ?thesis by (auto simp: Decrypt_def split: sum.splits prod.splits)
qed

text \<open>The keys of the account that published the bundle, and no session with the sender yet.\<close>

definition awaits :: "string \<Rightarrow> bytes \<Rightarrow> bytes \<Rightarrow> (32 word \<times> bytes) option \<Rightarrow> client \<Rightarrow> bool" where
  "awaits sender ident spk otk c \<longleftrightarrow> safe_element sender \<and> assoc_get (cs_sessions c) (sender, Sending) = None
     \<and> (case cs_identity c of None \<Rightarrow> False | Some i \<Rightarrow> ci_DHIdentityPriv i = ident \<and> ci_SignedPrekeyPriv i = spk)
     \<and> length ident = 32 \<and> length spk = 32
     \<and> (case otk of None \<Rightarrow> True | Some (k, priv) \<Rightarrow> length priv = 32
          \<and> (case assoc_get (cs_prekeys c) k of None \<Rightarrow> False | Some f \<Rightarrow> pf_KeyID f = k \<and> pf_Priv f = priv))"

lemma first_envelope_opens:
  assumes P: "x25519_agrees P" "hkdf_size P" "gcm_correct P" and a: "awaits (in_SenderAccountID msg) identB spk otk c"
    and i: "InitiateSession P eph rat identA (bundle_of P identB spkID spk otk) = Inr (S, im)"
    and e: "Encrypt P S plaintext = (S', Inr (h, ct))" and m: "in_Payload msg = Some (NewEnvelopeRekey (Some im) h ct flag)"
  shows "\<exists>B'. client_decrypt P dec draw msg c = (Inr (DecodeContent dec plaintext, no_effect\<lparr>se_consumePrekey := map_option fst otk\<rparr>),
      c\<lparr>cs_sessions := assoc_put (cs_sessions c) (in_SenderAccountID msg, Sending) B'\<rparr>)"
proof -
  let ?B = "newResponderSession (x3dh_secret P identA eph identB spk otk) (sessionAD (x25519_public P identA) (x25519_public P identB)) spk"
  obtain me where me: "cs_identity c = Some me" "ci_DHIdentityPriv me = identB" "ci_SignedPrekeyPriv me = spk"
    and l: "length identB = 32" "length spk = 32" and safe: "safe_element (in_SenderAccountID msg)"
    and none: "assoc_get (cs_sessions c) (in_SenderAccountID msg, Sending) = None"
    using a by (auto simp: awaits_def split: option.splits)
  have im: "im = \<lparr>im_SenderDHIdentityPub = x25519_public P identA, im_SenderEphemeralPub = x25519_public P eph,
     im_SignedPrekeyID = spkID, im_OneTimePrekeyID = map_option fst otk\<rparr>"
    and S: "S = initiator_session P (x3dh_secret P identA eph identB spk otk) (sessionAD (x25519_public P identA) (x25519_public P identB)) rat (x25519_public P spk)"
    using i by (auto simp: InitiateSession_bundle [OF P(1)])
  define keys where "keys = \<lparr>ok_AccountID = ci_AccountID me, ok_DHPriv = identB, ok_SPKPriv = spk, ok_OneTime = otk\<rparr>"
  have "find_one_time (Some im) c = (Inr otk, c)"
    using a by (cases otk) (auto simp: find_one_time_def im awaits_def OneTimePrekey_client_def private_key_def op_defs split: option.splits prod.splits)
  then have k: "load_own_keys (Some im) c = (Inr keys, c)"
    using me l by (simp add: load_own_keys_def private_key_def Identity_client_def chain_def ret_def keys_def)
  define env where "env = \<lparr>oe_Header = h, oe_Ciphertext = ct, oe_Initial = Some im, oe_Rekey = flag\<rparr>"
  have o: "open_envelope (in_Payload msg) c = (Inr env, c)"
    by (simp add: open_envelope_def m ret_def env_def)
  obtain B' where "Ratchet.decrypt P (draw 0) ?B h ct = Inr (plaintext, B')"
    using first_message_decrypts [OF P initiator_pending [OF P(1)]] e unfolding S by blast
  then have r: "respond P (draw 0) keys im env = Inr (plaintext, B')"
    using RespondToSession_initial [OF P(1), of identB spk otk identA eph spkID] by (simp add: respond_def keys_def im env_def)
  have "client_decrypt P dec draw msg c = (Inr (DecodeContent dec plaintext, no_effect\<lparr>se_consumePrekey := map_option fst otk\<rparr>),
      c\<lparr>cs_sessions := assoc_put (cs_sessions c) (in_SenderAccountID msg, Sending) B'\<rparr>)"
    using safe none k r by (simp add: client_decrypt_def Let_def chain_def o env_def client_Session_def safeElement_def look_def ret_def choose_session_def
        SetSession_safe no_effect_def keys_def)
  then show ?thesis by blast
qed

text \<open>
  C6: the first message to a new peer arrives. Where a session is established on the bundle an
  account published and a line of text is encrypted over it, the client of that account opens the envelope
  and reads the line; the envelope is recorded as handled, a session with the sender is there and the
  one-time prekey is gone.
\<close>

theorem first_message_reads:
  assumes P: "x25519_agrees P" "hkdf_size P" "gcm_correct P"
    and s: "establish P (bundle_of P identB spkID spk otk) w = (Inr (S, im), w1)"
    and e: "encrypt_for P S (encodeText (jc_encode J) line server sentAt claim) w2 = (Inr (S', h, ct), w3)"
    and J: "jc_content J (jc_encode J (text_body line server sentAt claim)) = Some (text_body line server sentAt claim)"
    and a: "awaits (in_SenderAccountID msg) identB spk otk c" "in_MessageID msg \<notin> set (cs_processedOrder c)"
    and m: "in_Payload msg = Some (NewEnvelopeRekey (Some im) h ct flag)"
    and h: "HandleIncoming P (jc_content J) quote window draw msg openChat now c = (res, c')"
  shows "\<exists>content effect. fst (client_decrypt P (jc_content J) draw msg c) = Inr (content, effect)
    \<and> ct_Kind content = ContentText \<and> ct_ID content = cm_ID line \<and> ct_Text content = cm_Text line
    \<and> in_MessageID msg \<in> set (cs_processedOrder c') \<and> assoc_get (cs_sessions c') (in_SenderAccountID msg, Sending) \<noteq> None
    \<and> (\<forall>k priv. otk = Some (k, priv) \<longrightarrow> assoc_get (cs_prekeys c') k = None)"
proof -
  obtain eph rat identA where i: "InitiateSession P eph rat identA (bundle_of P identB spkID spk otk) = Inr (S, im)"
    using s by (auto simp: establish_def chain_Inr of_result_def fail_def ret_def split: sum.splits)
  have en: "Encrypt P S (encodeText (jc_encode J) line server sentAt claim) = (S', Inr (h, ct))"
    using e by (auto simp: encrypt_for_def fail_def ret_def split: prod.splits sum.splits)
  obtain B' where d: "client_decrypt P (jc_content J) draw msg c = (Inr (DecodeContent (jc_content J) (encodeText (jc_encode J) line server sentAt claim),
      no_effect\<lparr>se_consumePrekey := map_option fst otk\<rparr>), c\<lparr>cs_sessions := assoc_put (cs_sessions c) (in_SenderAccountID msg, Sending) B'\<rparr>)"
    using first_envelope_opens [OF P a(1) i en m] by blast
  have "ct_Kind content = ContentText \<and> ct_ID content = cm_ID line \<and> ct_Text content = cm_Text line"
    if "content = DecodeContent (jc_content J) (encodeText (jc_encode J) line server sentAt claim)" for content
  proof -
    have "w_V tb = versionText \<and> w_ID tb = cm_ID line \<and> w_Text tb = cm_Text line" if "tb = text_body line server sentAt claim" for tb
      by (simp add: that text_body_def reply_fields_def blank_wire_def)
    then show ?thesis
      by (simp add: that DecodeContent_def encodeText_def J text_content_def zero_content_def
        versionText_def versionReceipt_def versionRekey_def versionGroupControl_def versionGroupText_def Let_def)
  qed
  moreover from opened_effects [OF a(2) d h] have "in_MessageID msg \<in> set (cs_processedOrder c')"
    "assoc_get (cs_sessions c') (in_SenderAccountID msg, Sending) \<noteq> None" "\<forall>k priv. otk = Some (k, priv) \<longrightarrow> assoc_get (cs_prekeys c') k = None"
    by (auto simp: no_effect_def assoc_get_put assoc_get_del)
  ultimately show ?thesis using d by auto
qed

end
