(* ===== verification/Client_Fan_Out.thy ===== *)
theory Client_Fan_Out
  imports Client_Send_Rules
begin

text \<open>
  The fan-out of a group message (\<open>fanOut\<close> of \<open>pkg/client/groupsend.go\<close>): however many
  servers, batches and refusals it meets, it comes back with one settled delivery for every member it was
  meant for.
\<close>

section \<open>Batches\<close>

text \<open>The slices of a list: each of at most \<open>n\<close> copies, none of them empty, together the list.\<close>

lemma chunks_Nil [simp]: "chunks n [] = []" "chunks 0 xs = []"
  by (simp_all add: chunks.simps)

lemma chunks_cover: "0 < n \<Longrightarrow> concat (chunks n xs) = xs"
proof (induction n xs rule: chunks.induct)
  case (1 n xs)
  then show ?case by (cases "xs = []") (simp_all add: chunks.simps [of n xs])
qed

lemma chunks_sizes: "list_all (\<lambda>b. b \<noteq> [] \<and> length b \<le> n) (chunks n xs)"
proof (induction n xs rule: chunks.induct)
  case (1 n xs)
  then show ?case by (cases "xs = [] \<or> n = 0") (auto simp: chunks.simps [of n xs])
qed

section \<open>Posting always comes back\<close>

definition returns :: "('s, 'a) oper \<Rightarrow> ('a \<Rightarrow> bool) \<Rightarrow> bool" where
  "returns m Q \<longleftrightarrow> (\<forall>w. case m w of (Inl _, _) \<Rightarrow> False | (Inr x, _) \<Rightarrow> Q x)"

lemma returns_run: "returns m Q \<Longrightarrow> \<exists>x w'. m w = (Inr x, w') \<and> Q x"
  by (auto simp: returns_def split: prod.splits sum.splits dest!: spec [of _ w]) (metis sum.exhaust surj_pair)

lemma returns_ret [simp]: "returns (ret x) Q \<longleftrightarrow> Q x"
  by (simp add: returns_def ret_def)

lemma returns_chain: "returns m Q \<Longrightarrow> (\<And>x. Q x \<Longrightarrow> returns (f x) R) \<Longrightarrow> returns (chain m f) R"
  by (fastforce simp: returns_def chain_def split: prod.splits sum.splits)

lemma returns_attempt: "returns (attempt m) (\<lambda>_. True)"
  by (simp add: returns_def attempt_def split: prod.splits)

lemma returns_best: "returns (best_effort m) (\<lambda>_. True)"
  unfolding best_effort_def by (rule returns_chain [OF returns_attempt]) simp

lemma returns_weaken: "returns m Q \<Longrightarrow> (\<And>x. Q x \<Longrightarrow> R x) \<Longrightarrow> returns m R"
  by (fastforce simp: returns_def split: prod.splits sum.splits)

abbreviation accounts :: "preparedCopy list \<Rightarrow> string list" where
  "accounts ks \<equiv> map (\<lambda>k. AccountID (pc_member k)) ks"

lemma post_each_returns: "returns (post_each P J now ks) (\<lambda>rs. map fst rs = accounts ks)"
proof (induction ks)
  case (Cons k ks)
  have "returns (post_copy P J now k) (\<lambda>_. True)"
    unfolding post_copy_def by (rule returns_chain [OF returns_attempt]) simp
  then show ?case by (auto intro!: returns_chain [OF _ returns_chain [OF Cons.IH]])
qed simp

lemma read_results_returns: "returns (read_results results ks) (\<lambda>rs. map fst rs = accounts ks)"
proof (induction ks)
  case (Cons k ks)
  have b: "returns (if b then best_effort m else ret ()) (\<lambda>_. True)" for b and m :: "unit net_op"
    by (simp add: returns_best)
  show ?case unfolding read_results.simps Let_def
    by (rule returns_chain [OF b], rule returns_chain [OF Cons.IH]) simp
qed simp

lemma sendBatch_returns: "returns (sendBatch P J now server ks) (\<lambda>rs. map fst rs = accounts ks)"
  unfolding sendBatch_def
proof (rule returns_chain [OF returns_attempt])
  fix r :: "client_error + request"
  show "returns (case r of Inl e \<Rightarrow> ret (failAll ks e)
     | Inr req \<Rightarrow> chain (attempt (do_json P J now (jc_results J) req)) (\<lambda>answer. case answer of
         Inl _ \<Rightarrow> post_each P J now ks | Inr results \<Rightarrow> read_results results ks)) (\<lambda>rs. map fst rs = accounts ks)"
    by (cases r) (auto simp: failAll_def intro!: returns_chain [OF returns_attempt] post_each_returns read_results_returns split: sum.split)
qed

lemma send_batches_returns: "returns (send_batches P J now server bs) (\<lambda>rs. map fst rs = accounts (concat bs))"
  by (induction bs) (auto intro!: returns_chain [OF sendBatch_returns] intro: returns_chain)

lemma deliverToServer_returns: "returns (deliverToServer P J now server ks) (\<lambda>rs. map fst rs = accounts ks)"
proof -
  have "returns (batch_size P J now server n) (\<lambda>_. True)" for n
    unfolding batch_size_def by (auto intro: returns_chain [OF returns_attempt])
  then show ?thesis unfolding deliverToServer_def
  proof (rule returns_chain)
    fix n
    show "returns (if 1 < n then send_batches P J now server (chunks n ks) else post_each P J now ks) (\<lambda>rs. map fst rs = accounts ks)"
      using send_batches_returns [of P J now server "chunks n ks"] post_each_returns [of P J now ks] by (auto simp: chunks_cover)
  qed
qed

lemma deliver_to_all_returns:
  "returns (deliver_to_all P J now ks servers) (\<lambda>rs. fst ` set rs = set (accounts (filter (\<lambda>k. pe_Server (pc_endpoint k) \<in> set servers) ks)))"
proof (induction servers)
  case (Cons s ss)
  have first: "returns (deliverToServer P J now s (filter (\<lambda>k. pe_Server (pc_endpoint k) = s) ks))
      (\<lambda>rs. fst ` set rs = set (accounts (filter (\<lambda>k. pe_Server (pc_endpoint k) = s) ks)))"
    by (rule returns_weaken [OF deliverToServer_returns]) (metis list.set_map)
  show ?case unfolding deliver_to_all.simps
    by (intro returns_chain [OF first] returns_chain [OF Cons.IH]) (auto simp: image_Un)
qed simp

section \<open>Every member's copy is settled\<close>

lemma blocked_kept: "only F c d \<Longrightarrow> FBlocked \<notin> F \<Longrightarrow> cs_blocked d = cs_blocked c"
  using only_same [of F c d FBlocked] by simp

definition copy_files :: "account_file set" where
  "copy_files = {FRandom, FDevices, FProfiles, FSessions}"

lemma reach_copy: "keeps (on_world (only copy_files)) (prepareCopy P J now m ownServer plaintext wireID)"
proof -
  have e: "keeps (on_world (only F)) (encrypt_for P s plaintext)" for F s
    unfolding encrypt_for_def by (intro reached_rules)
  have s: "keeps (on_world (only copy_files)) (session_for_copy P J now ep held)" for ep held
    unfolding session_for_copy_def by (intro reached_rules reaches) (simp_all add: copy_files_def)
  have p: "keeps (on_world (only copy_files)) (on_client (SetSession a k s'))" for a k s'
    by (intro keeps_on_client footprints) (simp add: copy_files_def)
  show ?thesis
    unfolding prepareCopy_def by (intro reached_rules reaches s e p) (simp_all add: copy_files_def)
qed

lemma prepareCopy_member:
  "prepareCopy P J now m ownServer plaintext wireID w = (Inr k, w') \<Longrightarrow> pc_member k = m \<and> safe_element (AccountID m)"
  by (auto simp: prepareCopy_def chain_Inr ret_def on_client_Inr client_Session_Inr split: prod.splits)

lemma prepare_copies_settled:
  "\<exists>ks ds w'. prepare_copies P J now ownServer encode wireIDs ms w = (Inr (ks, ds), w')
    \<and> map gd_AccountID ds = filter (\<lambda>a. assoc_get (cs_blocked (wo_client w)) a = None) (map AccountID ms)
    \<and> list_all (\<lambda>d. gd_State d \<in> {SendPending, SendFailed}) ds \<and> list_all (\<lambda>k. safe_element (AccountID (pc_member k))) ks"
proof (induction ms arbitrary: w)
  case Nil
  show ?case by (simp add: ret_def)
next
  case (Cons m ms)
  have b: "on_client (IsPeerBlocked (AccountID m)) w = (Inr (assoc_get (cs_blocked (wo_client w)) (AccountID m) \<noteq> None), w)"
    by (simp add: on_client_def IsPeerBlocked_def look_def)
  show ?case
  proof (cases "assoc_get (cs_blocked (wo_client w)) (AccountID m) = None")
    case False
    then show ?thesis using Cons.IH [of w] by (auto simp: chain_def b)
  next
    case True
    obtain r w1 where r: "prepareCopy P J now m ownServer (encode m) (case assoc_get wireIDs (AccountID m) of None \<Rightarrow> [] | Some i \<Rightarrow> i) w = (r, w1)"
      by fastforce
    have "on_world (only copy_files) w w1" using reach_copy r by (metis keeps_def snd_conv)
    then have w1: "cs_blocked (wo_client w1) = cs_blocked (wo_client w)"
      using blocked_kept [of copy_files] by (simp add: on_world_def copy_files_def)
    obtain ks ds w2 where ih: "prepare_copies P J now ownServer encode wireIDs ms w1 = (Inr (ks, ds), w2)"
      "map gd_AccountID ds = filter (\<lambda>a. assoc_get (cs_blocked (wo_client w)) a = None) (map AccountID ms)"
      "list_all (\<lambda>d. gd_State d \<in> {SendPending, SendFailed}) ds" "list_all (\<lambda>k. safe_element (AccountID (pc_member k))) ks"
      using Cons.IH [of w1] unfolding w1 by blast
    show ?thesis
    proof (cases r)
      case (Inl e)
      then show ?thesis using True ih r by (simp add: chain_def b attempt_def ret_def new_delivery_def)
    next
      case (Inr k)
      then show ?thesis using True ih r prepareCopy_member [of P J now m ownServer "encode m" _ w k w1]
        by (simp add: chain_def b attempt_def ret_def new_delivery_def)
    qed
  qed
qed

lemma drop_unsent_returns:
  assumes "list_all (\<lambda>k. safe_element (AccountID (pc_member k))) ks"
  shows "\<exists>c'. drop_unsent_establishments posted ks c = (Inr (), c')"
  using assms unfolding drop_unsent_establishments_def
  by (induction ks arbitrary: c) (auto simp: op_defs DeleteSession_def safeElement_def)

lemma settle_deliveries_settles:
  assumes "gid = [] \<or> safe_element gid"
  shows "\<exists>ds' c'. settle_deliveries J gid posted ds c = (Inr ds', c') \<and> map gd_AccountID ds' = map gd_AccountID ds
    \<and> (list_all (\<lambda>d. gd_State d \<in> {SendPending, SendFailed}) ds \<longrightarrow> list_all (\<lambda>d. gd_State d = SendSent \<and> was_sent posted (gd_AccountID d)
        \<or> gd_State d = SendFailed) ds')"
proof (induction ds arbitrary: c)
  case Nil
  show ?case by (simp add: ret_def)
next
  case (Cons d ds)
  have o: "\<exists>c'. oweGroupSnapshot gid a c = (Inr (), c')" for a c
    using assms by (auto simp: oweGroupSnapshot_def updateGroupPeers_def groupPeersFor_def safeElement_def op_defs)
  obtain reason detail where pr: "postFailureReason J (assoc_get (rev posted) (gd_AccountID d)) = (reason, detail)" by fastforce
  obtain c1 where c1: "oweGroupSnapshot gid (gd_AccountID d) c = (Inr (), c1)" using o by blast
  show ?case
    using Cons.IH [of c] Cons.IH [of c1] pr c1 by (auto simp: chain_def ret_def)
qed


end
