(* ===== verification/Client_Drain_Rules.thy ===== *)
theory Client_Drain_Rules
  imports Client_Fan_Out
begin

text \<open>
  Draining the queue (\<open>pkg/client/drain.go\<close>): when an envelope is acknowledged, and that a drain
  accounts for every envelope it fetched.
\<close>

section \<open>Requests are only ever added\<close>

definition grows :: "world \<Rightarrow> world \<Rightarrow> bool" where
  "grows w w' \<longleftrightarrow> (\<exists>xs. wo_sent w' = wo_sent w @ xs)"

interpretation growing: client_relation grows
  by unfold_locales (auto simp: grows_def)

named_theorems growth "operations that only add requests"

lemmas growing_rules = growing.keeps_same growing.keeps_chain keep_rules keeps_attempt

lemma grows_client [growth]: "keeps grows (on_client m)"
  by (simp add: keeps_def grows_def on_client_sent)

lemma grows_net [growth]: "keeps grows drawKey" "keeps grows (exchange s)"
  by (simp_all add: keeps_def grows_def drawKey_def exchange_def split: list.split option.split)

lemma grows_result [growth]: "keeps grows (of_result r)" "keeps grows (decoded v)" "keeps grows (statusOnlyResponse J status body)"
  "keeps grows (decodeResponse J status body)"
  unfolding of_result_def decoded_def statusOnlyResponse_def decodeResponse_def by (intro growing_rules growth)+

lemma grows_best [growth]: "keeps grows m \<Longrightarrow> keeps grows (best_effort m)"
  unfolding best_effort_def by (intro growing_rules growth)

lemma grows_do [growth]: "keeps grows (client_do P J now r)" "keeps grows (do_json P J now dec r)" "keeps grows (do_unit P J now r)"
  unfolding do_json_def do_unit_def client_do_def signRequest_def Let_def by (intro growing_rules growth)+

lemma grows_conflict [growth]: "keeps grows m \<Longrightarrow> keeps grows (conflict_is_success m n)"
  unfolding conflict_is_success_def by (intro growing_rules growth)

lemma grows_cert [growth]: "keeps grows (signDeviceCert P i now)"
  unfolding signDeviceCert_def by (intro growing_rules growth)

lemma grows_resolve [growth]: "keeps grows (ResolvePeer P J now a server)" "keeps grows (endpointOn P J now a server)"
  "keeps grows (Endpoint P J now a)" "keeps grows (accountIsGone P J now server a)"
proof -
  show r: "keeps grows (ResolvePeer P J now a server)" for a server unfolding ResolvePeer_def Let_def by (intro growing_rules growth)
  show e: "keeps grows (endpointOn P J now a server)" for a server unfolding endpointOn_def Let_def by (intro growing_rules growth r)
  show "keeps grows (Endpoint P J now a)" unfolding Endpoint_def by (intro growing_rules growth e)
  show "keeps grows (accountIsGone P J now server a)" unfolding accountIsGone_def by (intro growing_rules growth r)
qed

lemma grows_claim [growth]: "keeps grows (ClaimBundle P J now ep)" "keeps grows (establish P remote)" "keeps grows (encrypt_for P s p)"
  unfolding ClaimBundle_def establish_def encrypt_for_def Let_def by (intro growing_rules growth)+

lemma grows_give_up [growth]: "keeps grows (give_up_with P J now server a cause)"
  unfolding give_up_with_def giveUpOnPeer_def by (intro growing_rules growth)

lemma grows_post [growth]: "keeps grows (postEnvelope P J now ep i env)"
  unfolding postEnvelope_def SendMessage_def Let_def by (intro growing_rules growth)

lemma grows_deliver [growth]: "keeps grows (deliver P J now peer plaintext reset)"
  unfolding deliver_def reachable_endpoint_def federationAllowed_def client_ServerStatus_def sessionForSending_def claim_bundle_healing_def
    heal_and_claim_def seal_and_post_def take_back_def
  by (intro growing_rules growth)

lemma grows_control [growth]: "keeps grows (sendGroupControl P J now m server plaintext)"
  unfolding sendGroupControl_def prepareCopy_def session_for_copy_def post_copy_def by (intro growing_rules growth)

lemma grows_receipts [growth]: "keeps grows (SendReceipt P J now peer status upTo)" "keeps grows (SendGroupReceipt P J now gid a status upTo)"
  unfolding SendReceipt_def SendGroupReceipt_def by (intro growing_rules growth)+

lemma grows_reconcile [growth]: "keeps grows (ReconcileGroup P J now outcome peer)"
  unfolding ReconcileGroup_def AskForGroupFacts_def SendGroupSnapshot_def Let_def by (intro growing_rules growth)

lemma grows_confirm [growth]: "keeps grows (confirm P J now res)"
  unfolding confirm_def by (intro growing_rules growth)

section \<open>When an envelope is acknowledged\<close>

lemma exchange_adds:
  "chain (exchange x) (\<lambda>(status, answer). decodeResponse J status answer) v = (r, v') \<Longrightarrow> wo_sent v' = wo_sent v @ [x]"
  by (cases "wo_replies v"; cases "hd (wo_replies v)")
    (auto simp: chain_def exchange_def decodeResponse_def fail_def ret_def split: if_splits)

text \<open>What follows the acknowledgement, and that it never fails.\<close>

definition follow_up :: "platform \<Rightarrow> codec \<Rightarrow> time \<Rightarrow> handled \<Rightarrow> handled net_op" where
  "follow_up P J now h = (case h of Received res \<Rightarrow>
         if rr_Duplicate res then ret h
         else chain (confirm P J now res) (\<lambda>_.
              chain (case rr_Group res of None \<Rightarrow> ret ()
                | Some g \<Rightarrow> best_effort (ReconcileGroup P J now g (rr_PeerAccountID res))) (\<lambda>_. ret h))
     | _ \<Rightarrow> ret h)"

lemma returns_confirm: "returns (confirm P J now res) (\<lambda>_. True)"
  unfolding confirm_def by (auto split: option.split intro!: returns_chain [OF returns_best] intro: returns_best)

lemma returns_follow_up: "returns (follow_up P J now h) (\<lambda>r. r = h)"
proof (cases h)
  case (Received res)
  have g: "returns (case rr_Group res of None \<Rightarrow> ret () | Some g \<Rightarrow> best_effort (ReconcileGroup P J now g (rr_PeerAccountID res))) (\<lambda>_. True)"
    by (cases "rr_Group res") (simp_all add: returns_best)
  have "returns (chain (confirm P J now res) (\<lambda>_. chain (case rr_Group res of None \<Rightarrow> ret ()
      | Some g \<Rightarrow> best_effort (ReconcileGroup P J now g (rr_PeerAccountID res))) (\<lambda>_. ret h))) (\<lambda>r. r = h)"
    by (rule returns_chain [OF returns_confirm], rule returns_chain [OF g]) simp
  then show ?thesis by (simp add: follow_up_def Received)
qed (simp_all add: follow_up_def)

lemma grows_follow_up: "keeps grows (follow_up P J now h)"
proof (cases h)
  case (Received res)
  show ?thesis unfolding follow_up_def Received handled.case by (intro growing_rules growth)
qed (simp_all add: follow_up_def growing.keeps_same)

definition settled :: "handled \<Rightarrow> bool" where
  "settled h \<longleftrightarrow> (case h of Received _ \<Rightarrow> True | _ \<Rightarrow> gave_up h)"


end
