(* ===== verification/Client_Server.thy ===== *)
theory Client_Server
  imports Client_Drain_Rules Auth
begin

text \<open>
  Client and server together: what \<open>pkg/client/transport.go\<close> sends is what
  \<open>internal/auth\<close> accepts.
\<close>

section \<open>The headers the server reads\<close>

lemma streamed_same: "Method r = Method s \<Longrightarrow> URLPath r = URLPath s \<Longrightarrow> isStreamedBodyRequest paths r = isStreamedBodyRequest paths s"
  by (simp add: isStreamedBodyRequest_def)

lemma other_header_ignored:
  assumes "name \<notin> {HeaderKeyID, HeaderTimestamp, HeaderNonce, HeaderSignature, HeaderBodyDigest}"
  shows "authenticate P paths db now (r\<lparr>Headers := (name, v) # Headers r\<rparr>) c = authenticate P paths db now r c"
proof -
  let ?r = "r\<lparr>Headers := (name, v) # Headers r\<rparr>"
  have h: "header_get ?r k = header_get r k" if "k \<noteq> name" for k
    using that by (simp add: header_get_def)
  have hs: "header_get ?r HeaderKeyID = header_get r HeaderKeyID" "header_get ?r HeaderTimestamp = header_get r HeaderTimestamp"
    "header_get ?r HeaderNonce = header_get r HeaderNonce" "header_get ?r HeaderSignature = header_get r HeaderSignature"
    by (rule h; use assms in auto)+
  have p: "ParseRequestHeaders ?r = ParseRequestHeaders r"
    unfolding ParseRequestHeaders_def hs ..
  have st: "isStreamedBodyRequest paths ?r = isStreamedBodyRequest paths r" by (rule streamed_same) simp_all
  have dg: "header_get ?r HeaderBodyDigest = header_get r HeaderBodyDigest" by (rule h) (use assms in auto)
  have q: "request_canonical P paths ?r hs = request_canonical P paths r hs" for hs
  proof -
    have f: "Method ?r = Method r" "URLPath ?r = URLPath r" "RawQuery ?r = RawQuery r" "Body ?r = Body r" by simp_all
    have k: "CanonicalStringFromRequest P ?r hs body = CanonicalStringFromRequest P r hs body" for body
      by (simp add: CanonicalStringFromRequest_def)
    show ?thesis unfolding request_canonical_def st dg f k ..
  qed
  show ?thesis unfolding authenticate_def p q ..
qed

lemma content_type_ignored:
  "authenticate P paths db now (r\<lparr>Headers := (''Content-Type'', v) # Headers r\<rparr>) c = authenticate P paths db now r c"
  by (rule other_header_ignored) (simp add: HeaderKeyID_def HeaderTimestamp_def HeaderNonce_def HeaderSignature_def HeaderBodyDigest_def)

section \<open>A request of the client\<close>

lemma client_do_sends:
  assumes i: "cs_identity (wo_client w) = Some i" and b: "cs_random (wo_client w) = b # bs" and a: "rq_auth rq = authDevice"
    and d: "client_do P J t rq w = (res, w')"
  shows "\<exists>x. wo_sent w' = wo_sent w @ [x] \<and> st_Server x = (if rq_server rq = [] then ci_Server i else rq_server rq)
    \<and> (let r = client_request P (ci_DevicePriv i) (ci_DeviceID i) (rq_method rq) (rq_path rq) (rq_query rq)
          (case rq_body rq of None \<Rightarrow> [] | Some v \<Rightarrow> jc_body J v) t (hex_encode b)
       in st_Request x = r\<lparr>Headers := (''Content-Type'', ''application/json'') # Headers r\<rparr>)"
proof -
  define body where "body = (case rq_body rq of None \<Rightarrow> [] | Some v \<Rightarrow> jc_body J v)"
  define x where "x = \<lparr>st_Server = (if rq_server rq = [] then ci_Server i else rq_server rq),
    st_Request = \<lparr>Method = rq_method rq, URLPath = rq_path rq, RawQuery = rq_query rq,
      Headers = (''Content-Type'', ''application/json'') # signature_headers (ci_DeviceID i) t (hex_encode b)
        (httpsig_Sign P (rq_method rq) (rq_path rq) (rq_query rq) body (ci_DeviceID i) t (hex_encode b) (ci_DevicePriv i)), Body = Some body\<rparr>,
    st_Value = rq_body rq\<rparr>"
  define v where "v = w\<lparr>wo_client := (wo_client w)\<lparr>cs_random := bs\<rparr>\<rparr>"
  have "client_do P J t rq w = chain (exchange x) (\<lambda>(status, answer). if rq_noContent rq then statusOnlyResponse J status answer else decodeResponse J status answer) v"
    using i b a by (simp add: client_do_def chain_def [of "on_client m" for m] on_client_def Identity_client_def signRequest_def newMessageID_def
        own_key_id_def Let_def chain_def [of "chain m f" for m f] ret_def x_def v_def body_def)
  then have "wo_sent w' = wo_sent v @ [x]"
    using d by (cases "wo_replies v"; cases "hd (wo_replies v)")
      (auto simp: chain_def exchange_def decodeResponse_def statusOnlyResponse_def fail_def ret_def split: if_splits)
  moreover have "st_Request x = r\<lparr>Headers := (''Content-Type'', ''application/json'') # Headers r\<rparr>"
    if "r = client_request P (ci_DevicePriv i) (ci_DeviceID i) (rq_method rq) (rq_path rq) (rq_query rq) body t (hex_encode b)" for r
    by (simp add: that x_def client_request_def signature_headers_def)
  ultimately show ?thesis by (auto simp: v_def x_def body_def Let_def)
qed

lemma hex_encode_nonempty: "b \<noteq> [] \<Longrightarrow> hex_encode b \<noteq> []"
  by (cases b) (auto simp: hex_encode_def Let_def)


section \<open>Attachments\<close>

lemma uploadBlob_body:
  assumes "uploadBlob P J now server ids ciphertext digest w = (Inr blobID, w')"
  shows "wo_sent w' \<noteq> [] \<and> Body (st_Request (last (wo_sent w'))) = Some ciphertext \<and> blobID \<noteq> []"
proof -
  obtain x w1 status answer w2 where x: "exchange x w1 = (Inr (status, answer), w2)" "Body (st_Request x) = Some ciphertext"
    and k: "(if status \<noteq> 201 \<and> status \<noteq> 200 then fail (apiErrorFrom J status answer)
          else case jc_blob J answer of None \<Rightarrow> fail (ErrText ''decoding attachment upload response'')
            | Some blobID \<Rightarrow> if blobID = [] then fail (ErrText ''the server accepted the attachment without naming it'')
                else ret blobID) w2 = (Inr blobID, w')"
    using assms unfolding uploadBlob_def Let_def chain_Inr by (fastforce split: prod.splits)
  from k have "w' = w2 \<and> blobID \<noteq> []" by (auto simp: fail_def ret_def split: if_splits option.splits)
  moreover have "wo_sent w2 = wo_sent w1 @ [x]" using x(1) by (auto simp: exchange_def split: list.splits option.splits)
  ultimately show ?thesis using x(2) by simp
qed

text \<open>
  C27: an attachment comes back as it was sent. What is uploaded is sealed under the first key drawn,
  which only the message carries, and when a server hands the uploaded bytes back, downloading the
  attachment gives the file.
\<close>

theorem attachment_roundtrip:
  assumes P: "gcm_correct P" and k: "wo_keys w = key # nonce # ks" "length key = 32" "length nonce = 12"
    and u: "UploadAttachment P J now recipients media w = (Inr att, w')"
    and v: "cs_identity (wo_client v) = Some i" "cs_random (wo_client v) = b # bs" "server = [] \<or> server = ci_Server i"
      "wo_replies v = Some (200, the (Body (st_Request (last (wo_sent w'))))) # rs"
  shows "at_Key att = key \<and> at_BlobID att \<noteq> [] \<and> fst (DownloadAttachment P J now' server att v) = Inr (om_Bytes media)"
proof -
  obtain r rest where r: "recipients = r # rest" using u by (cases recipients) (auto simp: UploadAttachment_def fail_def)
  define ct where "ct = Client_Blobs.seal_with P key nonce (om_Bytes media)"
  have s: "sealAttachment P (om_Bytes media) w = (Inr (key, ct, hex_encode (sha256 P ct)), w\<lparr>wo_keys := ks\<rparr>)"
    using k(1) by (simp add: sealAttachment_def chain_def drawKey_def Let_def ret_def ct_def)
  obtain blobID where b: "uploadBlob P J now (pe_Server r) (map pe_DeviceID recipients) ct (hex_encode (sha256 P ct)) (w\<lparr>wo_keys := ks\<rparr>) = (Inr blobID, w')"
    and a: "at_Key att = key" "at_Algorithm att = blobAlgorithm" "at_BlobID att = blobID"
    using u s unfolding UploadAttachment_def r by (auto simp: chain_Inr fail_def ret_def split: if_splits)
  have body: "the (Body (st_Request (last (wo_sent w')))) = ct" "blobID \<noteq> []" using uploadBlob_body [OF b] by simp_all
  have "fst (downloadBlob P J now' server (at_BlobID att) v) = Inr ct"
    using v body by (auto simp: downloadBlob_def chain_def on_client_def Identity_client_def foreign_to_def setFederatedSenderHeaders_def ret_def
        newMessageID_def exchange_def Let_def)
  then obtain v' where d: "downloadBlob P J now' server (at_BlobID att) v = (Inr ct, v')" by (metis prod.collapse)
  have "openAttachment P key ct = Some (om_Bytes media)" unfolding ct_def by (rule openAttachment_seal [OF P k(2,3)])
  then show ?thesis using a body d by (simp add: DownloadAttachment_def chain_def ret_def)
qed

end
