(* ===== verification/Client_Wellformed.thy ===== *)
theory Client_Wellformed
  imports Client_Delivery
begin

text \<open>
  What the files of an account look like whatever arrives: the records of handled and of failed envelopes,
  the group events held back and the names a peer has given are bounded and without repeats, and the
  watermarks of what a peer has received and read only move forward.
\<close>

section \<open>Well-formed accounts\<close>

definition bounded_profiles :: "(string \<times> profileFile) list \<Rightarrow> bool" where
  "bounded_profiles ps \<longleftrightarrow> list_all (\<lambda>e. length (pr_Claims (snd e)) \<le> maxProfileClaims \<and> length (pr_Pending (snd e)) \<le> maxProfileClaims) ps"

definition bounded_held :: "(string \<times> Event option list) list \<Rightarrow> bool" where
  "bounded_held hs \<longleftrightarrow> list_all (\<lambda>e. length (snd e) \<le> MaxHeldGroupEvents) hs"

definition client_wf :: "client \<Rightarrow> bool" where
  "client_wf c \<longleftrightarrow> distinct (cs_processedOrder c) \<and> length (cs_processedOrder c) \<le> MaxProcessedMessageIDs
     \<and> failures_ok c \<and> length (cs_failureOrder c) \<le> MaxProcessedMessageIDs
     \<and> bounded_held (cs_held c) \<and> bounded_profiles (cs_profiles c)"

definition stays_wf :: "client \<Rightarrow> client \<Rightarrow> bool" where
  "stays_wf c d \<longleftrightarrow> (client_wf c \<longrightarrow> client_wf d)"

interpretation formed: client_relation stays_wf
  by unfold_locales (auto simp: stays_wf_def)

lemmas formed_rules = formed.keeps_same formed.keeps_chain formed.keeps_each keep_rules

named_theorems wf_kept "operations that keep an account well-formed"

text \<open>An operation that touches none of the four files keeps the account well-formed.\<close>

definition other_files :: "account_file set" where
  "other_files = {FIdentity, FSessions, FPrekeys, FHealth, FConvos, FKnown, FBlocked, FDevices, FSettings, FLogs, FMedia, FGroups,
     FGroupPeers, FGroupChats, FRandom}"

lemma wf_other: "keeps (only other_files) m \<Longrightarrow> keeps stays_wf m"
proof -
  assume m: "keeps (only other_files) m"
  show ?thesis unfolding keeps_def stays_wf_def
  proof (intro allI impI)
    fix c
    assume c: "client_wf c"
    have o: "only other_files c (snd (m c))" using m by (simp add: keeps_def)
    show "client_wf (snd (m c))"
      using c only_same [OF o, of FProcessed] only_same [OF o, of FFailures] only_same [OF o, of FHeld] only_same [OF o, of FProfiles]
      by (simp add: client_wf_def failures_ok_def other_files_def)
  qed
qed

lemma list_all_put: "list_all Q m \<Longrightarrow> Q (k, v) \<Longrightarrow> list_all Q (assoc_put m k v)"
  by (induction m k v rule: assoc_put.induct) auto

lemma list_all_del: "list_all Q m \<Longrightarrow> list_all Q (assoc_del m k)"
  by (auto simp: assoc_del_def list_all_iff)

section \<open>The four files\<close>

lemma evict_order: "distinct (cs_processedOrder c) \<Longrightarrow> distinct (cs_processedOrder (evictProcessed c))"
  "length (cs_processedOrder (evictProcessed c)) \<le> MaxProcessedMessageIDs"
  by (auto simp: evictProcessed_def)

lemma wf_record: "client_wf c \<Longrightarrow> i \<notin> set (cs_processedOrder c) \<Longrightarrow> client_wf (record_processed i c)"
  using evict_order [of "c\<lparr>cs_processed_log := cs_processed_log c @ [i], cs_processedOrder := cs_processedOrder c @ [i],
                                cs_processedLines := Suc (cs_processedLines c)\<rparr>"]
  by (auto simp: client_wf_def record_processed_def Let_def compactProcessed_def failures_ok_def evictProcessed_def split: if_splits)

lemma wf_delete_failure: "client_wf c \<Longrightarrow> client_wf (saveFailures (c\<lparr>cs_failures := assoc_del (cs_failures c) j\<rparr>))"
  using failures_ok_delete [of c j] by (auto simp: client_wf_def saveFailures_def intro: order_trans [OF length_filter_le])

lemma wf_mark [wf_kept]: "keeps stays_wf (MarkMessageProcessed i)"
  unfolding MarkMessageProcessed_def Let_def
  by (rule keeps_change) (auto simp: stays_wf_def wf_record wf_delete_failure)

lemma wf_failure [wf_kept]: "keeps stays_wf (RecordDecryptFailure i)"
proof -
  have "client_wf (saveFailures (bound_failures c1))"
    if c: "client_wf c" and c1: "c1 = (if assoc_get (cs_failures c) i = None then c\<lparr>cs_failureOrder := cs_failureOrder c @ [i]\<rparr> else c)
      \<lparr>cs_failures := assoc_put (cs_failures c) i m\<rparr>" for c c1 m
  proof -
    have "failures_ok c" using c by (simp add: client_wf_def)
    from bound_failures_ok(1) [OF count_failure(1) [OF this c1]] have ok: "failures_ok (bound_failures c1)" .
    have same: "cs_processedOrder c1 = cs_processedOrder c" "cs_held c1 = cs_held c" "cs_profiles c1 = cs_profiles c" by (simp_all add: c1)
    have len: "length (cs_failureOrder (bound_failures c1)) \<le> MaxProcessedMessageIDs" by (simp add: bound_failures_def Let_def)
    show ?thesis unfolding saveFailures_id [OF ok] using c ok same len by (simp add: client_wf_def bound_failures_def Let_def)
  qed
  note put = this
  show ?thesis unfolding keeps_def stays_wf_def
  proof (intro allI impI)
    fix c
    assume c: "client_wf c"
    define a where "a = (case assoc_get (cs_failures c) i of None \<Rightarrow> 0 | Some n \<Rightarrow> n) + 1"
    have "snd (RecordDecryptFailure i c) = (if a \<ge> MaxDecryptAttempts then saveFailures (c\<lparr>cs_failures := assoc_del (cs_failures c) i\<rparr>)
        else saveFailures (bound_failures ((if assoc_get (cs_failures c) i = None then c\<lparr>cs_failureOrder := cs_failureOrder c @ [i]\<rparr> else c)
          \<lparr>cs_failures := assoc_put (cs_failures c) i a\<rparr>)))"
      by (simp add: RecordDecryptFailure_def a_def Let_def)
    then show "client_wf (snd (RecordDecryptFailure i c))" using put [OF c refl] wf_delete_failure [OF c] by simp
  qed
qed

lemma wf_hold [wf_kept]: "keeps stays_wf (holdPremature gid batch result)"
proof -
  have l: "length (premature batch result) \<le> MaxHeldGroupEvents"
    unfolding premature_def by (auto intro: order_trans [OF length_filter_le])
  have "keeps stays_wf (change (\<lambda>c. let keep = premature batch result in
     c\<lparr>cs_held := (if keep = [] then assoc_del (cs_held c) gid else assoc_put (cs_held c) gid keep)\<rparr>))"
    by (rule keeps_change)
      (use l in \<open>auto simp: stays_wf_def client_wf_def failures_ok_def bounded_held_def Let_def intro: list_all_put list_all_del\<close>)
  moreover have "keeps stays_wf (safeElement gid)" by (rule wf_other) (rule footprints)
  ultimately show ?thesis unfolding holdPremature_def by (intro formed_rules)
qed

lemma capped: "length (capClaims ks) \<le> maxProfileClaims"
  by (simp add: capClaims_def)

lemma profile_bounded: "client_wf c \<Longrightarrow> length (pr_Claims (profile_of c peer)) \<le> maxProfileClaims \<and> length (pr_Pending (profile_of c peer)) \<le> maxProfileClaims"
  by (cases "assoc_get (cs_profiles c) peer")
    (auto simp: profile_of_def blank_profile_def client_wf_def bounded_profiles_def list_all_iff assoc_get_map_of dest!: map_of_SomeD)

lemma wf_profile: 
  assumes "\<And>f. length (pr_Claims f) \<le> maxProfileClaims \<Longrightarrow> length (pr_Pending f) \<le> maxProfileClaims \<Longrightarrow>
    length (pr_Claims (g f)) \<le> maxProfileClaims \<and> length (pr_Pending (g f)) \<le> maxProfileClaims"
  shows "keeps stays_wf (updateProfile peer g)"
proof -
  have "keeps stays_wf (change (\<lambda>c. c\<lparr>cs_profiles := assoc_put (cs_profiles c) peer (g (profile_of c peer))\<rparr>))"
    by (rule keeps_change)
      (use assms profile_bounded in \<open>auto simp: stays_wf_def client_wf_def failures_ok_def bounded_profiles_def intro!: list_all_put\<close>)
  moreover have "keeps stays_wf (safeElement peer)" by (rule wf_other) (rule footprints)
  ultimately show ?thesis unfolding updateProfile_def by (intro formed_rules)
qed

lemma wf_claim [wf_kept]: "keeps stays_wf (applyProfileClaim P peer co)"
proof -
  have d: "keeps stays_wf (peerDevice peer)" by (rule wf_other) (rule footprints)
  have h: "keeps stays_wf (holdProfileClaim peer k)" for k
    unfolding holdProfileClaim_def by (rule wf_profile) (simp add: capped)
  have a: "keeps stays_wf (updateProfile peer (add_claim k))" for k
    by (rule wf_profile) (simp add: add_claim_def capped)
  show ?thesis unfolding applyProfileClaim_def by (intro formed_rules d h a)
qed

section \<open>Whatever arrives\<close>

lemma wf_control [wf_kept]: "keeps stays_wf (ApplyGroupControl P quote content sender now)"
proof -
  have f: "keeps stays_wf (fold_control P content)"
  proof -
    have "keeps stays_wf (GroupState gid)" "keeps stays_wf (heldEvents gid)" "keeps stays_wf (PutGroupState gid st)" for gid st
      by (rule wf_other, rule footprints; simp add: other_files_def)+
    then show ?thesis unfolding fold_control_def Let_def by (intro formed_rules wf_hold)
  qed
  have a: "keeps stays_wf (announce_change P quote out0 stored st batch now)" "keeps stays_wf (RecordGroupPeerStateHash gid acc h)"
    for out0 stored st batch gid acc h
    by (rule wf_other, rule footprints; simp add: other_files_def)+
  show ?thesis unfolding ApplyGroupControl_def Let_def by (intro formed_rules f a)
qed

lemma wf_dispatch [wf_kept]: "keeps stays_wf (dispatch P quote w res msg content openChat now)"
proof -
  have o: "keeps stays_wf (receive_group_text w res peer content openChat now)" "keeps stays_wf (receive_receipt res peer content)"
    "keeps stays_wf (storeIncomingText res msg content openChat now)" for peer
    by (rule wf_other, rule footprints, simp add: other_files_def)+
  show ?thesis unfolding dispatch_def Let_def
    by (cases "ct_Kind content") (auto intro!: formed_rules o wf_control)
qed

lemma wf_settle [wf_kept]: "keeps stays_wf (settle_opened P msg content effect now)"
proof -
  have o: "keeps stays_wf (ClearDesyncEvidence peer)" "keeps stays_wf (ConsumeOneTimePrekey_client i)" "keeps stays_wf (IsPeerBlocked peer)"
    "keeps stays_wf (markRekeyInTranscript peer content now)" "keeps stays_wf (markRenameInTranscript peer co now)" for peer i co
    by (rule wf_other, rule footprints; simp add: other_files_def)+
  show ?thesis unfolding settle_opened_def Let_def by (intro formed_rules o wf_mark wf_claim)
qed

lemma wf_give_up [wf_kept]: "keeps stays_wf (giveUpOnEnvelope msg now cause)"
proof -
  have o: "keeps stays_wf (RecordDesyncEvidence peer at)" "keeps stays_wf (ShouldAutoRekey peer at)" for peer at
    by (rule wf_other, rule footprints; simp add: other_files_def)+
  show ?thesis unfolding giveUpOnEnvelope_def Let_def by (intro formed_rules o wf_failure)
qed

lemma wf_receive: "stays_wf c (snd (receive P dec quote w draw msg openChat now c))"
proof -
  obtain r c1 where d: "client_decrypt P dec draw msg c = (r, c1)" by fastforce
  have c1: "stays_wf c c1"
  proof (cases r)
    case (Inl e)
    then show ?thesis using d client_decrypt_Inl [of P dec draw msg c e c1] by (simp add: stays_wf_def)
  next
    case (Inr x)
    then show ?thesis using d client_decrypt_Inr [of P dec draw msg c "fst x" "snd x" c1] by (auto simp: stays_wf_def client_wf_def failures_ok_def)
  qed
  have m: "stays_wf c1 (snd (chain (MarkMessageProcessed i) (\<lambda>_. ret x) c1))" for i and x :: ReceiveResult
    using formed.keeps_chain [OF wf_mark formed.keeps_same(1), of i "\<lambda>_. x"] by (simp add: keeps_def)
  have k: "stays_wf c1 (snd (chain (settle_opened P msg content effect now) (\<lambda>(blocked, renamed). dispatch P quote w (f blocked renamed) msg content openChat now) c1))"
    for content effect f
    using formed.keeps_chain [OF wf_settle, of "\<lambda>(blocked, renamed). dispatch P quote w (f blocked renamed) msg content openChat now"] wf_dispatch
    by (auto simp: keeps_def split: prod.splits)
  show ?thesis
    using d c1 m k formed.rel_trans [OF c1]
    by (auto simp: receive_def Let_def WasMessageProcessed_def chain_def [of "look f" for f] look_def ret_def formed.rel_refl split: sum.splits prod.splits)
qed

lemma wf_step: "client_wf c \<Longrightarrow> client_wf (client_step P dec quote w ev c)"
proof (cases ev)
  case (Arrive draw msg openChat now)
  assume c: "client_wf c"
  obtain r c1 where r: "receive P dec quote w draw msg openChat (receiptClock now) c = (r, c1)" by fastforce
  with wf_receive c have c1: "client_wf c1" by (metis snd_conv stays_wf_def)
  have g: "giveUpOnEnvelope msg (receiptClock now) e c1 = (x, c2) \<Longrightarrow> client_wf c2" for e x c2
    using wf_give_up [of msg "receiptClock now" e] c1 by (auto simp: keeps_def stays_wf_def dest!: spec [of _ c1])
  have "client_wf (snd (HandleIncoming P dec quote w draw msg openChat now c))"
    using r c1 by (cases r) (auto simp: HandleIncoming_def Let_def split: prod.splits sum.splits dest: g)
  then show ?thesis by (simp add: Arrive)
next
  case Reopen
  assume c: "client_wf c"
  define c0 where "c0 = fold load_line (cs_processed_log c) (c\<lparr>cs_processedOrder := [], cs_processedLines := 0\<rparr>)"
  have d: "distinct (cs_processedOrder (fold load_line xs d))" if "distinct (cs_processedOrder d)" for xs d
    using that by (induction xs arbitrary: d) (auto simp: load_line_def)
  have k: "cs_failures (fold load_line xs d) = cs_failures d \<and> cs_failureOrder (fold load_line xs d) = cs_failureOrder d
      \<and> cs_held (fold load_line xs d) = cs_held d \<and> cs_profiles (fold load_line xs d) = cs_profiles d" for xs d
    by (induction xs arbitrary: d) (auto simp: load_line_def)
  have "distinct (cs_processedOrder c0)" unfolding c0_def by (rule d) simp
  moreover have "cs_failures c0 = cs_failures c \<and> cs_failureOrder c0 = cs_failureOrder c \<and> cs_held c0 = cs_held c \<and> cs_profiles c0 = cs_profiles c"
    unfolding c0_def using k by simp
  ultimately have "client_wf (newClient c)"
    using c evict_order [of c0] unfolding newClient_def loadProcessed_def c0_def [symmetric]
    by (auto simp: client_wf_def Let_def compactProcessed_def failures_ok_def evictProcessed_def split: if_splits)
  then show ?thesis by (simp add: Reopen)
qed

text \<open>
  C21: an account stays well-formed through whatever envelopes arrive and however often it is opened
  again: the handled envelopes on record are distinct and at most 500, so are the failed ones, which are
  exactly those with a count, at most 64 events are held back per group and at most ten names and ten
  unverified names are kept per peer.
\<close>

theorem account_stays_well_formed:
  assumes "client_wf c"
  shows "client_wf (fold (client_step P dec quote w) evs c)"
  using assms by (induction evs arbitrary: c) (simp_all add: wf_step)

end
