(* ===== verification/Client_Witnesses.thy ===== *)
theory Client_Witnesses
  imports Client_Contact Client_Server Client_Wellformed Api_Federation Api_Prekeys
begin

text \<open>
  Runs of the client on concrete accounts, networks and envelopes, to which the properties of
  \<open>Client_Delivery\<close>, \<open>Client_Wellformed\<close>, \<open>Client_Send_Rules\<close>,
  \<open>Client_Contact\<close>, \<open>Client_Fan_Out\<close>, \<open>Client_Drain_Rules\<close> and
  \<open>Client_Server\<close> apply.
\<close>

section \<open>An account, a network and an encoding\<close>

definition sample_own :: client_identity where
  "sample_own = \<lparr>ci_AccountID = ''alice'', ci_Server = ''home'', ci_RootPub = pad 32 ''root'', ci_RootPriv = ''root'',
     ci_DeviceID = ''a1'', ci_DevicePub = pad 32 sample_secret, ci_DevicePriv = sample_secret,
     ci_DHIdentityPub = pad 32 ''idb'', ci_DHIdentityPriv = pad 32 ''idb'', ci_SignedPrekeyID = 7,
     ci_SignedPrekeyPub = pad 32 ''spk'', ci_SignedPrekeyPriv = pad 32 ''spk'', ci_NextSignedPrekeyID = 8,
     ci_NextOneTimePrekeyID = 10, ci_RecoveryBackupDone = False, ci_PushRegisteredAt = None, ci_PushMechanism = []\<rparr>"

definition sample_account_files :: "((string \<times> SessionKind) \<times> Session) list \<Rightarrow> client" where
  "sample_account_files sessions = \<lparr>cs_identity = Some sample_own, cs_processed_log = [], cs_processedOrder = [], cs_processedLines = 0,
     cs_failures = [], cs_failureOrder = [], cs_sessions = sessions,
     cs_prekeys = [(9, \<lparr>pf_KeyID = 9, pf_Pub = pad 32 ''otk'', pf_Priv = pad 32 ''otk''\<rparr>)], cs_health = [], cs_convos = [],
     cs_known = [], cs_blocked = [], cs_devices = [(''bob'', \<lparr>pd_Server = [], pd_DeviceID = ''b1'', pd_DevicePub = pad 32 ''bob''\<rparr>)],
     cs_profiles = [], cs_settings = \<lparr>sf_ReceiptsDisabled = False, sf_ProfileName = [], sf_ProfileNameSetAt = None\<rparr>,
     cs_logs = [], cs_media = [], cs_groups = [], cs_held = [], cs_group_peers = [], cs_group_chats = [],
     cs_random = [''r1'', ''r2'', ''r3'', ''r4'', ''r5'', ''r6'']\<rparr>"

definition sample_world :: "((string \<times> SessionKind) \<times> Session) list \<Rightarrow> (nat \<times> bytes) option list \<Rightarrow> world" where
  "sample_world sessions replies = \<lparr>wo_client = sample_account_files sessions, wo_replies = replies,
     wo_keys = [pad 32 ''k1'', pad 12 ''k2'', pad 32 ''k3''], wo_sent = []\<rparr>"

definition sample_text :: contentWire where
  "sample_text = blank_wire\<lparr>w_V := versionText, w_ID := ''m1'', w_Text := ''hello''\<rparr>"

definition sample_codec :: "contentWire \<Rightarrow> codec" where
  "sample_codec tb = \<lparr>jc_valid = (\<lambda>_. True), jc_error = (\<lambda>_. None), jc_body = (\<lambda>_. ''{}''), jc_account = (\<lambda>_. None), jc_bundle = (\<lambda>_. None),
     jc_remaining = (\<lambda>_. None), jc_status = (\<lambda>_. None), jc_messages = (\<lambda>_. None), jc_results = (\<lambda>_. None),
     jc_blob = (\<lambda>_. Some ''blob''), jc_content = (\<lambda>_. Some tb), jc_encode = (\<lambda>_. ''text''),
     jc_error_text = (\<lambda>_. ''error''), jc_quote = (\<lambda>s. s)\<rparr>"

definition sample_incoming :: "Envelope option \<Rightarrow> IncomingMessage" where
  "sample_incoming eo = \<lparr>in_MessageID = ''e1'', in_SenderAccountID = ''carol'', in_SenderDeviceID = ''c1'', in_SentAt = 0,
     in_Payload = eo\<rparr>"

lemma sample_names [simp]: "safe_element ''bob''" "safe_element ''carol''" "safe_element ''g1''"
  by code_simp+

lemma pad_nonempty [simp]: "pad 32 x \<noteq> []"
  by (metis list.size(3) pad_length zero_neq_numeral)

section \<open>Envelopes that do not open\<close>

lemma sample_unreadable:
  "client_decrypt P dec draw (sample_incoming None) c = (Inl (ErrEnvelope ''parsing envelope''), c)"
  by (simp add: client_decrypt_def Let_def sample_incoming_def open_envelope_def chain_def fail_def)

theorem failed_envelope_costs_nothing_witness:
  "\<exists>h c'. HandleIncoming sample_platform (\<lambda>_. None) (\<lambda>s. s) 1 (\<lambda>_. []) (sample_incoming None) [] 0 (sample_account_files []) = (h, c')
     \<and> only {FFailures, FHealth} (sample_account_files []) c' \<and> (\<forall>r. h \<noteq> Received r)"
proof -
  obtain h c' where h: "HandleIncoming sample_platform (\<lambda>_. None) (\<lambda>s. s) 1 (\<lambda>_. []) (sample_incoming None) [] 0 (sample_account_files []) = (h, c')"
    by fastforce
  have "in_MessageID (sample_incoming None) \<notin> set (cs_processedOrder (sample_account_files []))"
    by (simp add: sample_incoming_def sample_account_files_def)
  from failed_envelope_costs_nothing [OF this sample_unreadable _ h] h show ?thesis by auto
qed

lemma sample_failing:
  assumes "cs_processedOrder c = []" "cs_failures c = (if n = 0 then [] else [(''e1'', n)])" "cs_failureOrder c = (if n = 0 then [] else [''e1''])"
    and "n < 2"
  shows "snd (HandleIncoming P dec quote w draw (sample_incoming None) chat now c) = c\<lparr>cs_failures := [(''e1'', Suc n)], cs_failureOrder := [''e1'']\<rparr>"
proof -
  have "in_MessageID (sample_incoming None) \<notin> set (cs_processedOrder c)" using assms(1) by simp
  then have "HandleIncoming P dec quote w draw (sample_incoming None) chat now c =
    (case giveUpOnEnvelope (sample_incoming None) (receiptClock now) (ErrEnvelope ''parsing envelope'') c of
       (Inr failure, c') \<Rightarrow> (Failed failure, c') | (Inl e', c') \<Rightarrow> (Broken (ErrEnvelope ''parsing envelope'') e', c'))"
    by (rule handle_unopened [OF _ sample_unreadable]) simp
  then show ?thesis
    using assms(2-4)
    by (cases n) (auto simp: giveUpOnEnvelope_def Let_def chain_def ret_def RecordDecryptFailure_def sample_incoming_def suggests_desync_def failure_code_def
        MaxDecryptAttempts_def saveFailures_def bound_failures_def MaxProcessedMessageIDs_def)
qed


theorem account_stays_well_formed_witness:
  "client_wf (sample_account_files []) \<and> client_wf (fold (client_step sample_platform (\<lambda>_. None) (\<lambda>s. s) 1)
     [Arrive (\<lambda>_. []) (sample_incoming None) [] 0, Reopen] (sample_account_files []))"
proof -
  have "client_wf (sample_account_files [])"
    by (simp add: client_wf_def sample_account_files_def failures_ok_def bounded_held_def bounded_profiles_def)
  then show ?thesis using account_stays_well_formed by blast
qed

section \<open>Sending\<close>

lemma sample_encrypts: "\<exists>s' h ct. Encrypt sample_platform (sample_session (Some ''ck'') None) p = (s', Inr (h, ct))"
  by (simp add: Encrypt_def sample_session_def case_prod_beta Let_def sealMessage_eq [OF sample_platform_laws(3)])

lemma sample_ready: "ready ''bob'' s (sample_account_files [((''bob'', Sending), s)])"
  by (simp add: ready_def silenced_def sample_account_files_def peer_server_def)


theorem silenced_peer_gets_nothing_witness:
  "\<exists>w e. silenced ''bob'' (wo_client w) \<and> deliver sample_platform (sample_codec sample_text) 0 ''bob'' ''hi'' False w = (Inl e, w)
     \<and> wo_sent (snd (ResetSession sample_platform (sample_codec sample_text) 0 ''bob'' RekeyUserRequested w)) = wo_sent w"
proof -
  let ?w = "(sample_world [] [])\<lparr>wo_client := (sample_account_files [])\<lparr>cs_blocked := [(''bob'', [])]\<rparr>\<rparr>"
  have "silenced ''bob'' (wo_client ?w)" by (simp add: silenced_def)
  with silenced_peer_gets_nothing [OF this, of sample_platform "sample_codec sample_text" 0 "''hi''" False ReceiptRead 0 RekeyUserRequested]
  show ?thesis by blast
qed

lemma sample_chain: "x25519_public sample_platform (DHs (sample_session a b)) = pad 32 ''dhs''"
  by (simp add: sample_platform_def sample_session_def)

theorem message_after_lost_answer_dropped_witness:
  "\<exists>w1 w2 x1 x2. deliver sample_platform (sample_codec sample_text) 0 ''bob'' ''first'' False
       (sample_world [((''bob'', Sending), sample_session (Some ''ck'') None)] [None, Some (200, ''{}'')]) = (Inl ErrNetwork, w1)
     \<and> deliver sample_platform (sample_codec sample_text) 0 ''bob'' ''second'' False w1 = (Inr (False, False), w2) \<and> wo_sent w2 = [x1, x2]"
proof -
  let ?s = "sample_session (Some ''ck'') None" and ?B = "sample_session None (Some ''ck'')"
  let ?w = "sample_world [((''bob'', Sending), sample_session (Some ''ck'') None)] [None, Some (200, ''{}'')]"
  have r: "ready ''bob'' ?s (wo_client ?w)" using sample_ready by (simp add: sample_world_def)
  have l: "length (cs_random (wo_client ?w)) \<ge> 4" by (simp add: sample_world_def sample_account_files_def)
  have j: "looks_like_json (sample_codec sample_text) ''{}''"
    by (simp add: looks_like_json_def Let_def trim_space_graphic graphic_def sample_codec_def)
  have n: "wo_replies ?w = None # Some (200, ''{}'') # []" by (simp add: sample_world_def)
  have s: "CKs ?s = Some ''ck''" "Ns ?s + 1 \<noteq> 0" by (simp_all add: sample_session_def)
  have B: "DHr ?B = Some (x25519_public sample_platform (DHs ?s))" "Nr ?B = Ns ?s" "CKr ?B = Some ''ck''" "AD ?B = AD ?s" "Skipped ?B = []"
    using sample_chain by (simp_all add: sample_session_def)
  have c: "assoc_get (cs_sessions (sample_account_files [((''carol'', Sending), ?B)])) (''carol'', Sending) = Some ?B" "safe_element ''carol''"
    "cs_identity (sample_account_files [((''carol'', Sending), ?B)]) = Some sample_own" "length (ci_DHIdentityPriv sample_own) = 32"
    "length (ci_SignedPrekeyPriv sample_own) = 32" "''e1'' \<notin> set (cs_processedOrder (sample_account_files [((''carol'', Sending), ?B)]))"
    by (simp_all add: sample_account_files_def sample_own_def)
  have "wo_sent ?w = []" by (simp add: sample_world_def)
  with message_after_lost_answer_dropped [OF sample_platform_laws(3,4) r l s n j B c, of 0 "''first''" 0 "''second''"]
  show ?thesis by fastforce
qed




theorem attachment_roundtrip_witness:
  "\<exists>att w'. UploadAttachment sample_platform (sample_codec sample_text) 0 [\<lparr>pe_AccountID = ''bob'', pe_Server = [], pe_DeviceID = ''b1'', pe_DevicePub = []\<rparr>]
       \<lparr>om_Bytes = ''picture'', om_MimeType = ''image/png'', om_Width = 1, om_Height = 1, om_Thumb = [], om_Kind = []\<rparr>
       (sample_world [] [Some (201, ''{}'')]) = (Inr att, w')
     \<and> fst (DownloadAttachment sample_platform (sample_codec sample_text) 0 [] att
          (sample_world [] [Some (200, the (Body (st_Request (last (wo_sent w')))))])) = Inr ''picture''"
proof -
  let ?r = "\<lparr>pe_AccountID = ''bob'', pe_Server = [], pe_DeviceID = ''b1'', pe_DevicePub = []\<rparr>"
  let ?m = "\<lparr>om_Bytes = ''picture'', om_MimeType = ''image/png'', om_Width = 1, om_Height = 1, om_Thumb = [], om_Kind = []\<rparr>"
  have k: "wo_keys (sample_world [] [Some (201, ''{}'')]) = pad 32 ''k1'' # pad 12 ''k2'' # [pad 32 ''k3'']" by (simp add: sample_world_def)
  obtain att w' where u: "UploadAttachment sample_platform (sample_codec sample_text) 0 [?r] ?m (sample_world [] [Some (201, ''{}'')]) = (Inr att, w')"
    by (simp add: UploadAttachment_def sealAttachment_def drawKey_def chain_def uploadBlob_def on_client_def Identity_client_def sample_world_def
        sample_account_files_def foreign_to_def setFederatedSenderHeaders_def ret_def signBodyDigest_def newMessageID_def exchange_def Let_def sample_codec_def)
  let ?v = "sample_world [] [Some (200, the (Body (st_Request (last (wo_sent w')))))]"
  have v: "cs_identity (wo_client ?v) = Some sample_own" "cs_random (wo_client ?v) = ''r1'' # [''r2'', ''r3'', ''r4'', ''r5'', ''r6'']"
    "[] = [] \<or> [] = ci_Server sample_own" "wo_replies ?v = Some (200, the (Body (st_Request (last (wo_sent w'))))) # []"
    by (simp_all add: sample_world_def sample_account_files_def)
  from attachment_roundtrip [OF sample_platform_laws(4) k _ _ u v] u show ?thesis by auto
qed

section \<open>First contact\<close>

abbreviation sample_otk :: "(32 word \<times> bytes) option" where
  "sample_otk \<equiv> Some (9, pad 32 ''otk'')"

abbreviation sample_bundle :: RemoteBundle where
  "sample_bundle \<equiv> bundle_of sample_platform (pad 32 ''idb'') 7 (pad 32 ''spk'') sample_otk"

lemma sample_awaits: "awaits ''carol'' (pad 32 ''idb'') (pad 32 ''spk'') sample_otk (sample_account_files [])"
  by (simp add: awaits_def sample_account_files_def sample_own_def)

lemma sample_contact:
  "\<exists>S im w1 S' h ct. establish sample_platform sample_bundle (sample_world [] []) = (Inr (S, im), w1)
     \<and> InitiateSession sample_platform (pad 32 ''k1'') (pad 12 ''k2'') (pad 32 ''idb'') sample_bundle = Inr (S, im)
     \<and> Encrypt sample_platform S plaintext = (S', Inr (h, ct))"
proof -
  obtain S im where i: "InitiateSession sample_platform (pad 32 ''k1'') (pad 12 ''k2'') (pad 32 ''idb'') sample_bundle = Inr (S, im)" and "CKs S \<noteq> None"
    by (auto simp: InitiateSession_bundle [OF sample_platform_laws(5)] initiator_session_def Let_def case_prod_beta)
  then obtain ck where "CKs S = Some ck" by auto
  then have "\<exists>S' h ct. Encrypt sample_platform S plaintext = (S', Inr (h, ct))"
    by (simp add: Encrypt_def case_prod_beta Let_def sealMessage_eq [OF sample_platform_laws(3)])
  moreover have "\<exists>w1. establish sample_platform sample_bundle (sample_world [] []) = (Inr (S, im), w1)"
    using i by (simp add: establish_def chain_def on_client_def Identity_client_def sample_world_def sample_account_files_def private_key_def sample_own_def
        drawKey_def of_result_def ret_def)
  ultimately show ?thesis using i by blast
qed

lemma sample_first_opens:
  "\<exists>(env :: Envelope) B. client_decrypt sample_platform (\<lambda>_. None) draw (sample_incoming (Some env)) (sample_account_files [])
     = (Inr (legacy_content ''hello'', no_effect\<lparr>se_consumePrekey := Some 9\<rparr>), sample_account_files [((''carol'', Sending), B)])"
proof -
  obtain S im S' h ct where i: "InitiateSession sample_platform (pad 32 ''k1'') (pad 12 ''k2'') (pad 32 ''idb'') sample_bundle = Inr (S, im)"
    "Encrypt sample_platform S ''hello'' = (S', Inr (h, ct))" using sample_contact by blast
  let ?env = "NewEnvelopeRekey (Some im) h ct (Some False)"
  have "awaits (in_SenderAccountID (sample_incoming (Some ?env))) (pad 32 ''idb'') (pad 32 ''spk'') sample_otk (sample_account_files [])"
    using sample_awaits by (simp add: sample_incoming_def)
  from first_envelope_opens [OF sample_platform_laws(5,3,4) this i] obtain B where
    "client_decrypt sample_platform (\<lambda>_. None) draw (sample_incoming (Some ?env)) (sample_account_files [])
      = (Inr (DecodeContent (\<lambda>_. None) ''hello'', no_effect\<lparr>se_consumePrekey := Some 9\<rparr>),
         (sample_account_files [])\<lparr>cs_sessions := assoc_put [] (''carol'', Sending) B\<rparr>)"
    by (fastforce simp: sample_incoming_def sample_account_files_def)
  then show ?thesis by (auto simp: DecodeContent_def sample_account_files_def)
qed

lemma sample_first_received:
  assumes "client_decrypt P dec draw msg c = (Inr (legacy_content ''hello'', no_effect\<lparr>se_consumePrekey := Some 9\<rparr>), sample_account_files [((''carol'', Sending), B)])"
    and "in_MessageID msg = ''e1''" "in_SenderAccountID msg = ''carol''" "cs_processedOrder c = []"
  shows "\<exists>res c'. HandleIncoming P dec quote w draw msg [] now c = (Received res, c')"
  using assms
  by (simp add: HandleIncoming_def receive_def Let_def WasMessageProcessed_def look_def chain_def ret_def settle_opened_def MarkMessageProcessed_def change_def
      record_processed_def evictProcessed_def compactProcessed_def processedCompactAt_def MaxProcessedMessageIDs_def sample_account_files_def
      ClearDesyncEvidence_def safeElement_def no_effect_def ConsumeOneTimePrekey_client_def IsPeerBlocked_def applyProfileClaim_def legacy_content_def
      zero_content_def dispatch_def storeIncomingText_def IsPeerKnown_def Conversation_client_def Identity_client_def newMessageID_def file_line_def
      client_AppendMessage_def update_log_def WriteAttachmentThumb_def PutConversation_def refresh_server_def incoming_line_def new_conversation_def
      blank_result_def hex_encode_def)


theorem redelivered_envelope_ignored_witness:
  "\<exists>(env :: Envelope) c'. (\<exists>res. HandleIncoming sample_platform (\<lambda>_. None) (\<lambda>s. s) 1 (\<lambda>_. []) (sample_incoming (Some env)) [] 0 (sample_account_files []) = (Received res, c'))
     \<and> HandleIncoming sample_platform (\<lambda>_. None) (\<lambda>s. s) 1 (\<lambda>_. []) (sample_incoming (Some env)) [] 1 (newClient c')
         = (Received ((blank_result ''carol'')\<lparr>rr_Duplicate := True\<rparr>), newClient c')"
proof -
  obtain env :: Envelope and B where d: "client_decrypt sample_platform (\<lambda>_. None) (\<lambda>_. []) (sample_incoming (Some env)) (sample_account_files [])
     = (Inr (legacy_content ''hello'', no_effect\<lparr>se_consumePrekey := Some 9\<rparr>), sample_account_files [((''carol'', Sending), B)])"
    using sample_first_opens by blast
  have m: "in_MessageID (sample_incoming (Some env)) = ''e1''" "in_SenderAccountID (sample_incoming (Some env)) = ''carol''"
    by (simp_all add: sample_incoming_def)
  have p: "cs_processedOrder (sample_account_files []) = []" "cs_processed_log (sample_account_files []) = []" by (simp_all add: sample_account_files_def)
  obtain res c' where h: "HandleIncoming sample_platform (\<lambda>_. None) (\<lambda>s. s) 1 (\<lambda>_. []) (sample_incoming (Some env)) [] 0 (sample_account_files []) = (Received res, c')"
    using sample_first_received [OF d m p(1)] by blast
  have "newClient c' = fold (client_step sample_platform (\<lambda>_. None) (\<lambda>s. s) 1) [Reopen] c'" by simp
  from redelivered_envelope_ignored [OF h _ _ _ _ this, of "\<lambda>_. []" "[]" 1]
  have "HandleIncoming sample_platform (\<lambda>_. None) (\<lambda>s. s) 1 (\<lambda>_. []) (sample_incoming (Some env)) [] 1 (newClient c')
         = (Received ((blank_result ''carol'')\<lparr>rr_Duplicate := True\<rparr>), newClient c')"
    by (simp add: m p arrivals_def MaxProcessedMessageIDs_def)
  with h show ?thesis by (intro exI conjI)
qed

definition sample_line :: chat_message where
  "sample_line = \<lparr>cm_ID = ''m1'', cm_Text = ''hello'', cm_Mine = True, cm_Timestamp = 0, cm_SenderSentAt = None, cm_SenderAccountID = [],
     cm_ReplyToID = [], cm_ReplyPreviewText = [], cm_ReplyPreviewMine = None, cm_ReplyPreviewAuthorID = [], cm_Kind = [],
     cm_SendState = [], cm_Attachments = [], cm_Deliveries = []\<rparr>"

abbreviation sample_line_codec :: codec where
  "sample_line_codec \<equiv> sample_codec (text_body sample_line [] 0 None)"

theorem first_message_reads_witness:
  "\<exists>(env :: Envelope) content effect res c'.
     HandleIncoming sample_platform (jc_content sample_line_codec) (\<lambda>s. s) 1 (\<lambda>_. []) (sample_incoming (Some env)) [] 0 (sample_account_files []) = (res, c')
     \<and> fst (client_decrypt sample_platform (jc_content sample_line_codec) (\<lambda>_. []) (sample_incoming (Some env)) (sample_account_files [])) = Inr (content, effect)
     \<and> ct_Kind content = ContentText \<and> ct_Text content = ''hello''
     \<and> ''e1'' \<in> set (cs_processedOrder c') \<and> cs_sessions c' \<noteq> []"
proof -
  obtain S im w1 S' h ct where s: "establish sample_platform sample_bundle (sample_world [] []) = (Inr (S, im), w1)"
    and e: "Encrypt sample_platform S (encodeText (jc_encode sample_line_codec) sample_line [] 0 None) = (S', Inr (h, ct))"
    using sample_contact by blast
  let ?env = "NewEnvelopeRekey (Some im) h ct (Some False)"
  obtain res c' where r: "HandleIncoming sample_platform (jc_content sample_line_codec) (\<lambda>s. s) 1 (\<lambda>_. []) (sample_incoming (Some ?env)) [] 0 (sample_account_files [])
      = (res, c')" by fastforce
  have en: "encrypt_for sample_platform S (encodeText (jc_encode sample_line_codec) sample_line [] 0 None) w1 = (Inr (S', h, ct), w1)"
    by (simp add: encrypt_for_def e ret_def)
  have J: "jc_content sample_line_codec (jc_encode sample_line_codec (text_body sample_line [] 0 None)) = Some (text_body sample_line [] 0 None)"
    by (simp add: sample_codec_def)
  have a: "awaits (in_SenderAccountID (sample_incoming (Some ?env))) (pad 32 ''idb'') (pad 32 ''spk'') sample_otk (sample_account_files [])"
    using sample_awaits by (simp add: sample_incoming_def)
  have n: "in_MessageID (sample_incoming (Some ?env)) \<notin> set (cs_processedOrder (sample_account_files []))" by (simp add: sample_account_files_def)
  have m: "in_Payload (sample_incoming (Some ?env)) = Some ?env" by (simp add: sample_incoming_def)
  from first_message_reads [OF sample_platform_laws(5,3,4) s en J a n m r] obtain content effect where
    "fst (client_decrypt sample_platform (jc_content sample_line_codec) (\<lambda>_. []) (sample_incoming (Some ?env)) (sample_account_files [])) = Inr (content, effect)"
    "ct_Kind content = ContentText" "ct_Text content = cm_Text sample_line" "in_MessageID (sample_incoming (Some ?env)) \<in> set (cs_processedOrder c')"
    "assoc_get (cs_sessions c') (in_SenderAccountID (sample_incoming (Some ?env)), Sending) \<noteq> None"
    by blast
  note opened = this
  have "cs_sessions c' \<noteq> []" using opened(5) by auto
  moreover have "ct_Text content = ''hello''" "''e1'' \<in> set (cs_processedOrder c')"
    using opened(3,4) by (simp_all add: sample_line_def sample_incoming_def)
  ultimately show ?thesis using r opened(1,2) by (intro exI conjI)
qed

section \<open>Looking a peer up\<close>

abbreviation sample_device_key :: bytes where
  "sample_device_key \<equiv> ed25519_public sample_platform sample_secret"

definition sample_peer :: PeerEndpoint where
  "sample_peer = \<lparr>pe_AccountID = sample_id, pe_Server = [], pe_DeviceID = ''0011223344556677'', pe_DevicePub = sample_device_key\<rparr>"

definition sample_dh_cert :: DHIdentityCertificate where
  "sample_dh_cert = projr (SignDHIdentityCertificate sample_platform sample_id ''0011223344556677'' (pad 32 ''dh'') 0 sample_secret)"

definition sample_spk_cert :: SignedPrekeyCertificate where
  "sample_spk_cert = projr (SignSignedPrekeyCertificate sample_platform sample_id ''0011223344556677'' 7 (pad 32 ''dh'') (pad 32 ''spk'') 0 sample_secret)"

definition sample_account_answer :: accountWire where
  "sample_account_answer = \<lparr>aw_ID = sample_id, aw_RootPubKey = base64_encode sample_key, aw_Devices = [\<lparr>dw_DeviceID = ''0011223344556677'',
     dw_DevicePubKey = base64_encode sample_device_key, dw_IssuedAt = ''1970-01-01T00:00:00Z'',
     dw_Signature = base64_encode (dc_Signature sample_recovery_device), dw_Status = ''active''\<rparr>]\<rparr>"

definition sample_bundle_answer :: prekeyBundleWire where
  "sample_bundle_answer = \<lparr>bw_DeviceID = ''0011223344556677'', bw_DHIdentityPubKey = base64_encode (pad 32 ''dh''),
     bw_DHIdentityCert = \<lparr>dhw_DHPubKey = base64_encode (pad 32 ''dh''), dhw_IssuedAt = ''1970-01-01T00:00:00Z'',
       dhw_Signature = base64_encode (dh_Signature sample_dh_cert)\<rparr>,
     bw_SignedPrekey = \<lparr>spw_KeyID = 7, spw_DHIdentityPubKey = base64_encode (pad 32 ''dh''), spw_PubKey = base64_encode (pad 32 ''spk''),
       spw_IssuedAt = ''1970-01-01T00:00:00Z'', spw_Signature = base64_encode (sp_Signature sample_spk_cert)\<rparr>,
     bw_OneTimePrekey = None, bw_Omitted = []\<rparr>"

abbreviation sample_directory :: codec where
  "sample_directory \<equiv> (sample_codec sample_text)\<lparr>jc_account := \<lambda>_. Some sample_account_answer, jc_bundle := \<lambda>_. Some sample_bundle_answer\<rparr>"

lemma sample_issued: "parse_rfc3339 ''1970-01-01T00:00:00Z'' = Some 0"
  by code_simp

lemma sample_device_certified:
  "device_cert_Verify sample_platform \<lparr>dc_AccountID = sample_id, dc_DeviceID = ''0011223344556677'', dc_DevicePubKey = sample_device_key,
     dc_IssuedAt = 0, dc_Signature = dc_Signature sample_recovery_device\<rparr> sample_key = Inr ()"
proof -
  have "ed25519_public sample_platform ''sample root key'' = sample_key" by (simp add: sample_platform_def sample_key_def)
  moreover from signed_cert_fields [OF sample_platform_laws(2) sample_recovery_cert]
  have "sample_recovery_device = \<lparr>dc_AccountID = sample_id, dc_DeviceID = ''0011223344556677'', dc_DevicePubKey = sample_device_key,
      dc_IssuedAt = 0, dc_Signature = dc_Signature sample_recovery_device\<rparr>" by blast
  ultimately show ?thesis using device_cert_sign_verify [OF sample_platform_laws(2) sample_recovery_cert] by metis
qed

lemma sample_bundle_verifies: "\<exists>rb. verifyBundle sample_platform sample_bundle_answer sample_peer = Inr rb"
proof -
  obtain d where d: "decodeDeviceID ''0011223344556677'' = Inr d"
    by (cases "decodeDeviceID ''0011223344556677''") (use sample_recovery_cert in \<open>auto simp: SignDeviceCertificate_def device_cert_signingBytes_def Let_def\<close>)
  have verifies: "ed25519_verify sample_platform sample_device_key b (ed25519_sign sample_platform sample_secret b)" "length sample_device_key = 32"
    "length (ed25519_sign sample_platform sample_secret b) = 64" for b
    using sample_platform_laws(2) by (simp_all add: ed25519_correct_def)
  have "dh_identity_Verify sample_platform \<lparr>dh_AccountID = sample_id, dh_DeviceID = ''0011223344556677'', dh_DHPubKey = pad 32 ''dh'', dh_IssuedAt = 0,
      dh_Signature = dh_Signature sample_dh_cert\<rparr> sample_device_key = Inr ()"
    using verifies by (simp add: dh_identity_Verify_def verify_bytes_def dh_identity_signingBytes_def d sample_dh_cert_def SignDHIdentityCertificate_def Let_def)
  moreover have "signed_prekey_Verify sample_platform \<lparr>sp_AccountID = sample_id, sp_DeviceID = ''0011223344556677'', sp_KeyID = 7,
      sp_DHIdentityPubKey = pad 32 ''dh'', sp_PrekeyPubKey = pad 32 ''spk'', sp_IssuedAt = 0, sp_Signature = sp_Signature sample_spk_cert\<rparr> sample_device_key = Inr ()"
    using verifies by (simp add: signed_prekey_Verify_def verify_bytes_def signed_prekey_signingBytes_def d sample_spk_cert_def SignSignedPrekeyCertificate_def Let_def)
  ultimately show ?thesis
    by (simp add: verifyBundle_def verified_dh_identity_def verified_signed_prekey_def or_error_def sample_bundle_answer_def sample_peer_def b64_decode_encode
        sample_issued public_key_def)
qed

lemma sample_json: "looks_like_json sample_directory ''{}''"
  by (simp add: looks_like_json_def Let_def trim_space_graphic graphic_def sample_codec_def)

theorem session_keys_certified_witness:
  "\<exists>w1 b w3. ResolvePeer sample_platform sample_directory 0 sample_id [] (sample_world [] [Some (200, ''{}''), Some (200, ''{}'')]) = (Inr sample_peer, w1)
     \<and> ClaimBundle sample_platform sample_directory 0 sample_peer w1 = (Inr b, w3)
     \<and> (\<exists>rootPub. Address.Verify sample_platform sample_id rootPub = Inr True)"
proof -
  let ?w = "sample_world [] [Some (200, ''{}''), Some (200, ''{}'')]"
  have v: "Address.Verify sample_platform sample_id sample_key = Inr True" by code_simp
  have "first_device sample_platform sample_id sample_key [] (aw_Devices sample_account_answer) = Some sample_peer"
    by (simp add: sample_account_answer_def device_endpoint_def sample_issued sample_device_certified sample_peer_def b64_decode_encode)
  then have r: "ResolvePeer sample_platform sample_directory 0 sample_id [] ?w = (Inr sample_peer, ?w\<lparr>wo_replies := [Some (200, ''{}'')],
      wo_sent := wo_sent (snd (ResolvePeer sample_platform sample_directory 0 sample_id [] ?w))\<rparr>)" (is "_ = (_, ?w1)")
    using v sample_json by (simp add: ResolvePeer_def Let_def chain_def do_json_def client_do_def on_client_def Identity_client_def plain_request_def
        signRequest_def ret_def exchange_def decodeResponse_def success_def decoded_def sample_world_def sample_account_files_def sample_account_answer_def b64_decode_encode)
  obtain rb where "verifyBundle sample_platform sample_bundle_answer sample_peer = Inr rb" using sample_bundle_verifies by blast
  then obtain b w3 where b: "ClaimBundle sample_platform sample_directory 0 sample_peer ?w1 = (Inr b, w3)"
    using sample_json by (fastforce simp: ClaimBundle_def Federated_def sample_peer_def Let_def chain_def do_json_def client_do_def on_client_def Identity_client_def
        plain_request_def signRequest_def newMessageID_def ret_def exchange_def decodeResponse_def success_def decoded_def sample_world_def
        sample_account_files_def of_result_def)
  from session_keys_certified [OF r b] r b show ?thesis unfolding sample_peer_def by fastforce
qed

end
