(* ===== verification/Client_Onboarding.thy ===== *)
theory Client_Onboarding
  imports Client_Register Client_Witnesses
begin

text \<open>
  A client's registration at the server it is sent to: the request is accepted and gives the account
  and the device that the client's later requests authenticate as.
\<close>

section \<open>What the server reads\<close>

definition server_registration :: "registerBody \<Rightarrow> registerAccountRequest" where
  "server_registration b = \<lparr>rq_RootPubKey = rb_RootPubKey b, rq_DeviceID = rb_DeviceID b, rq_DevicePubKey = rb_DevicePubKey b,
     rq_DeviceCertIssuedAt = rb_DeviceCertIssuedAt b, rq_DeviceCertSignature = rb_DeviceCertSignature b, rq_InviteCode = rb_InviteCode b\<rparr>"

lemma NewIdentity_Inr:
  assumes "NewIdentity P server w = (Inr i, w')"
  shows "DeriveID P (ed25519_public P (ci_RootPriv i)) = Inr (ci_AccountID i) \<and> ci_RootPub i = ed25519_public P (ci_RootPriv i)
    \<and> ci_DevicePub i = ed25519_public P (ci_DevicePriv i) \<and> ci_Server i = server"
  using assms by (auto simp: NewIdentity_def chain_def drawKey_def ret_def fail_def split: list.splits sum.splits)

text \<open>
  C10: on a server that is open for registration and holds neither the account's id prefix nor the
  device id, the registration of a new identity is accepted: the server then knows the account as active
  under the id the client derived itself, with its device active under the client's device key.
\<close>

theorem registration_accepted:
  assumes P: "ed25519_correct P" and i: "NewIdentity P server w = (Inr i, w')"
    and cert: "SignDeviceCertificate P (ci_AccountID i) (ci_DeviceID i) (ci_DevicePub i) (truncate_second t) (ci_RootPriv i) = Inr cert"
    and body: "register_body inviteCode i cert = BodyRegister b" and t: "rfc3339_range (truncate_second t)"
    and db: "GetRegistrationPolicy db = Inr PolicyOpen" "\<forall>a \<in> set (db_accounts db). id_prefix (acc_ID a) \<noteq> id_prefix (ci_AccountID i)"
      "\<forall>d \<in> set (db_devices db). dev_DeviceID d \<noteq> ci_DeviceID i"
  shows "\<exists>resp db'. handleRegisterAccount P db now (Some (server_registration b)) = (Inr resp, db') \<and> ar_ID resp = ci_AccountID i
    \<and> (\<exists>a \<in> set (db_accounts db'). acc_ID a = ci_AccountID i \<and> acc_Status a = AccountStatusActive \<and> acc_RootPubKey a = ci_RootPub i)
    \<and> (\<exists>d \<in> set (db_devices db'). dev_DeviceID d = ci_DeviceID i \<and> dev_AccountID d = ci_AccountID i \<and> dev_Status d = DeviceStatusActive
        \<and> dev_DevicePubKey d = ed25519_public P (ci_DevicePriv i))"
proof -
  have k: "DeriveID P (ed25519_public P (ci_RootPriv i)) = Inr (ci_AccountID i)" "ci_RootPub i = ed25519_public P (ci_RootPriv i)"
    "ci_DevicePub i = ed25519_public P (ci_DevicePriv i)" using NewIdentity_Inr [OF i] by auto
  have len: "length (ci_DevicePub i) = 32" using P k(3) by (simp add: ed25519_correct_def)
  have issued: "parse_rfc3339 (rfc3339 (truncate_second t)) = Some (truncate_second t)"
    using stored_time_reads_back [OF t] truncate_second_id [of "truncate_second t"] by simp
  have c: "dc_IssuedAt cert = truncate_second t" using signed_cert_fields [OF P cert] by (metis DeviceCertificate.select_convs(4))
  let ?cd = "\<lparr>cd_AccountID = ci_AccountID i, cd_RootPub = ci_RootPub i, cd_DevicePub = ci_DevicePub i, cd_IssuedAt = truncate_second t, cd_Sig = dc_Signature cert\<rparr>"
  have b: "b = \<lparr>rb_RootPubKey = base64_encode (ci_RootPub i), rb_DeviceID = ci_DeviceID i, rb_DevicePubKey = base64_encode (ci_DevicePub i),
      rb_DeviceCertIssuedAt = rfc3339 (truncate_second t), rb_DeviceCertSignature = base64_encode (dc_Signature cert),
      rb_InviteCode = (if inviteCode \<noteq> [] then Some inviteCode else None)\<rparr>"
    using body c by (simp add: register_body_def)
  have "decode_registration P (base64_encode (ci_RootPub i)) (ci_DeviceID i) (base64_encode (ci_DevicePub i)) (rfc3339 (truncate_second t))
      (base64_encode (dc_Signature cert)) = Inr ?cd"
    using decode_honest_registration [OF P k(1) len cert issued] k(2) by simp
  moreover have "\<not> list_ex (\<lambda>a. acc_ID a = ci_AccountID i \<or> id_prefix (acc_ID a) = id_prefix (ci_AccountID i)) (db_accounts db)"
    using db(2) by (auto simp: list_ex_iff)
  moreover have "\<not> list_ex (\<lambda>e. dev_DeviceID e = ci_DeviceID i) (db_devices db)" using db(3) by (auto simp: list_ex_iff)
  ultimately show ?thesis
    using db(1) k by (simp add: handleRegisterAccount_def server_registration_def b CreateAccount_def CreateDevice_def new_account_def new_device_def Let_def
        device_row_def accountResponseFrom_def PolicyOpen_def PolicyClosed_def PolicyInvite_def)
qed

section \<open>Witnesses\<close>

abbreviation sample_new_world :: world where
  "sample_new_world \<equiv> \<lparr>wo_client = (sample_account_files [])\<lparr>cs_identity := None\<rparr>, wo_replies = [None, None],
     wo_keys = [''sample root key'', sample_secret, ''01234567''], wo_sent = []\<rparr>"

abbreviation sample_new_identity :: client_identity where
  "sample_new_identity \<equiv> blank_identity\<lparr>ci_AccountID := sample_id, ci_Server := ''home'', ci_RootPub := sample_key, ci_RootPriv := ''sample root key'',
     ci_DeviceID := NewDeviceID ''01234567'', ci_DevicePub := sample_device_key, ci_DevicePriv := sample_secret\<rparr>"

lemma sample_derives: "ed25519_public sample_platform ''sample root key'' = sample_key" "DeriveID sample_platform sample_key = Inr sample_id"
proof -
  show "ed25519_public sample_platform ''sample root key'' = sample_key" by (simp add: sample_platform_def sample_key_def)
  show "DeriveID sample_platform sample_key = Inr sample_id" by code_simp
qed

lemma sample_new: "NewIdentity sample_platform ''home'' sample_new_world = (Inr sample_new_identity, sample_new_world\<lparr>wo_keys := []\<rparr>)"
  by (simp add: NewIdentity_def chain_def drawKey_def sample_derives ret_def)

theorem registration_keeps_account_witness:
  "\<exists>t u x. reg_reaches sample_platform \<lparr>rg_world = sample_new_world, rg_pending = False\<rparr> t \<and> reg_reaches sample_platform t u
     \<and> cs_identity (wo_client (rg_world u)) = Some sample_new_identity \<and> wo_sent (rg_world u) = [x] \<and> about_account sample_new_identity x"
proof -
  let ?s = "\<lparr>rg_world = sample_new_world, rg_pending = False\<rparr>"
  let ?t = "\<lparr>rg_world = sample_new_world\<lparr>wo_keys := [], wo_client := (sample_account_files [])\<lparr>cs_identity := Some sample_new_identity\<rparr>\<rparr>, rg_pending = True\<rparr>"
  have "identityToRegister sample_platform ''home'' ?s = (Inr (sample_new_identity, False), ?t)"
    by (simp add: identityToRegister_def new_identity_to_register_def chain_def attempt_def on_net_def on_client_def Identity_client_def sample_new
        markRegistrationPending_def SetIdentity_def change_def ret_def)
  then have st: "reg_step sample_platform ?s ?t" by (rule died_with_keys)
  obtain r u where u: "Register sample_platform (sample_codec sample_text) 0 ''home'' [] ?t = (r, u)" by fastforce
  then have tu: "reg_step sample_platform ?t u" by (rule attempt_register)
  have one: "length (wo_sent (rg_world u)) = 1"
    using u by (auto simp: Register_def client_claim_def identityToRegister_def chain_def attempt_def on_net_def on_client_def Identity_client_def
        registrationPending_def ret_def blank_identity_def accountExists_def do_unit_def client_do_def plain_request_def signRequest_def Let_def exchange_def fail_def api_status_def)
  have reach: "reg_reaches sample_platform ?s ?t" "reg_reaches sample_platform ?t u" using st tu by (auto simp: reg_reaches_def)
  have fresh: "cs_identity (wo_client (rg_world ?s)) = None" "wo_sent (rg_world ?s) = []" by simp_all
  from registration_keeps_account [OF fresh reach] have "cs_identity (wo_client (rg_world u)) = Some sample_new_identity"
    "list_all (about_account sample_new_identity) (wo_sent (rg_world u))" by simp_all
  moreover from one obtain x where "wo_sent (rg_world u) = [x]" by (auto simp: length_Suc_conv)
  ultimately show ?thesis using reach by (intro exI [of _ ?t] exI [of _ u] exI [of _ x]) simp
qed

definition sample_open_db :: database where
  "sample_open_db = empty_database\<lparr>db_settings := Some \<lparr>set_registration_policy = PolicyOpen, set_federation_enabled = None\<rparr>\<rparr>"

theorem registration_accepted_witness:
  "\<exists>b resp db'. handleRegisterAccount sample_platform sample_open_db 0 (Some (server_registration b)) = (Inr resp, db') \<and> ar_ID resp = sample_id"
proof -
  have d: "decodeDeviceID (NewDeviceID ''01234567'') = Inr ''01234567''" by (rule decode_NewDeviceID) simp
  have len: "length sample_device_key = 32" using sample_platform_laws(2) by (simp add: ed25519_correct_def)
  obtain cert where cert: "SignDeviceCertificate sample_platform (ci_AccountID sample_new_identity) (ci_DeviceID sample_new_identity)
      (ci_DevicePub sample_new_identity) (truncate_second 0) (ci_RootPriv sample_new_identity) = Inr cert"
    by (simp add: SignDeviceCertificate_def device_cert_signingBytes_def d len Let_def)
  obtain b where b: "register_body [] sample_new_identity cert = BodyRegister b" by (simp add: register_body_def)
  have t: "rfc3339_range (truncate_second 0)" by code_simp
  have db: "GetRegistrationPolicy sample_open_db = Inr PolicyOpen" "db_accounts sample_open_db = []" "db_devices sample_open_db = []"
    by (simp_all add: GetRegistrationPolicy_def sample_open_db_def empty_database_def)
  from registration_accepted [OF sample_platform_laws(2) sample_new cert b t db(1), of 0] show ?thesis by (auto simp: db)
qed

end
