(* ===== verification/Api_Reports.thy ===== *)
theory Api_Reports
  imports Api_Delivery Profileclaim
begin

text \<open>
  Abuse reports (\<open>internal/api/reports.go\<close>): filing one locally or from another server, withdrawing it,
  the moderation queue and its resolution. The decoding of a JSON body and the encoding of the
  evidence are arguments.
\<close>

section \<open>Requests\<close>

definition maxOpenReportsPerReporter :: nat where "maxOpenReportsPerReporter = 20"
definition maxEvidenceClaims :: nat where "maxEvidenceClaims = 10"

record reportRequest =
  rr_Reported :: string
  rr_Category :: string
  rr_Evidence :: "Claim list"

record federatedReportRequest =
  fr_report :: reportRequest
  fr_SenderAccountID :: string
  fr_SenderServer :: string
  fr_SenderRootPubKey :: string
  fr_SenderDeviceCert :: federationDeviceCertDTO

record report_api =
  ra_ReportsEnabled :: bool
  ra_encode :: "Claim list \<Rightarrow> string option"

definition reportsEnabled :: "report_api \<Rightarrow> api_error + unit" where
  "reportsEnabled R = (if ra_ReportsEnabled R then Inr () else Inl (404, ''reports_disabled''))"

definition federationEnabled :: "database \<Rightarrow> api_error + unit" where
  "federationEnabled db = (case GetFederationEnabled db of Inl _ \<Rightarrow> Inl internal_error
     | Inr enabled \<Rightarrow> if \<not> enabled then Inl (404, ''federation_disabled'') else Inr ())"

definition federatedReporter :: "platform \<Rightarrow> string \<Rightarrow> api_error + string" where
  "federatedReporter P claimed =
     (let server = NormalizeServer P claimed in
      if server = [] then Inl bad_request
      else case url_parse P server of None \<Rightarrow> Inl bad_request
      | Some u \<Rightarrow> if url_host u = [] then Inl bad_request else Inr server)"

section \<open>Evidence\<close>

definition claim_checks :: "platform \<Rightarrow> database \<Rightarrow> string \<Rightarrow> Claim \<Rightarrow> bool" where
  "claim_checks P db reportedID c =
     (case row_get dev_DeviceID (cl_DeviceID c) (rev (ListDevicesByAccount db reportedID)) of None \<Rightarrow> False
      | Some d \<Rightarrow> claim_Verify P c reportedID (dev_DevicePubKey d) = Inr ())"

text \<open>The map of device keys keeps the last device of an id; ids are unique anyway.\<close>

definition checkEvidence :: "platform \<Rightarrow> report_api \<Rightarrow> database \<Rightarrow> Address \<Rightarrow> Claim list \<Rightarrow> unit + (string option \<times> bool)" where
  "checkEvidence P R db reported claims =
     (if claims = [] then Inr (None, False)
      else let kept = (if Server reported = [] then filter (claim_checks P db (ID reported)) claims else claims) in
        if Server reported = [] \<and> kept = [] then Inr (None, False)
        else case ra_encode R kept of None \<Rightarrow> Inl () | Some s \<Rightarrow> Inr (Some s, Server reported = []))"

section \<open>Filing\<close>

definition saveReport :: "platform \<Rightarrow> report_api \<Rightarrow> database \<Rightarrow> time \<Rightarrow> reportRequest \<Rightarrow> string \<Rightarrow> string
    \<Rightarrow> (api_error + unit) \<times> database" where
  "saveReport P R db now req reporterID claimedServer =
     (let reporterServer = (if claimedServer \<noteq> [] \<and> \<not> isl (GetAccount db reporterID) then [] else claimedServer) in
      if \<not> ValidReportCategory (rr_Category req) then (Inl bad_request, db)
      else case ParseFull P (rr_Reported req) of Inl _ \<Rightarrow> (Inl bad_request, db)
      | Inr reported \<Rightarrow>
      if ID reported = reporterID \<and> Server reported = reporterServer then (Inl (403, ''forbidden''), db)
      else if length (rr_Evidence req) > maxEvidenceClaims then (Inl bad_request, db)
      else if Server reported = [] \<and> isl (GetAccount db (ID reported)) then (Inl (404, ''not_found''), db)
      else if CountOpenReportsBy db reporterID reporterServer \<ge> maxOpenReportsPerReporter then (Inl (409, ''report_limit''), db)
      else case checkEvidence P R db reported (rr_Evidence req) of Inl _ \<Rightarrow> (Inl internal_error, db)
      | Inr (evidence, verified) \<Rightarrow>
          (Inr (), SaveReport db \<lparr>rep_ID = 0, rep_ReportedID = ID reported, rep_ReportedServer = Server reported,
             rep_ReporterID = reporterID, rep_ReporterServer = reporterServer, rep_Category = rr_Category req,
             rep_Evidence = evidence, rep_EvidenceVerified = verified, rep_State = [], rep_CreatedAt = 0,
             rep_UpdatedAt = 0, rep_ResolvedBy = None, rep_ResolvedAt = None\<rparr> now))"

definition handleCreateReport :: "platform \<Rightarrow> report_api \<Rightarrow> database \<Rightarrow> time \<Rightarrow> http_request
    \<Rightarrow> (bytes \<Rightarrow> reportRequest option) \<Rightarrow> Identity option \<Rightarrow> (api_error + unit) \<times> database" where
  "handleCreateReport P R db now r decode identity =
     (case reportsEnabled R of Inl e \<Rightarrow> (Inl e, db)
      | Inr _ \<Rightarrow>
     (case identity of None \<Rightarrow> (Inl unauthorized, db)
      | Some who \<Rightarrow>
     (case readBody r of Inl e \<Rightarrow> (Inl e, db)
      | Inr body \<Rightarrow>
     (case decode body of None \<Rightarrow> (Inl bad_request, db)
      | Some req \<Rightarrow> saveReport P R db now req (id_AccountID who) []))))"

definition report_claim :: "federatedReportRequest \<Rightarrow> bytes \<Rightarrow> federatedSenderClaim" where
  "report_claim req body = \<lparr>fc_AccountID = fr_SenderAccountID req, fc_RootPubKey = fr_SenderRootPubKey req,
     fc_DeviceCert = fr_SenderDeviceCert req, fc_RequestBody = body, fc_BodyDigest = []\<rparr>"

definition handleCreateFederatedReport :: "platform \<Rightarrow> report_api \<Rightarrow> database \<Rightarrow> time \<Rightarrow> http_request
    \<Rightarrow> (bytes \<Rightarrow> federatedReportRequest option) \<Rightarrow> (api_error + unit) \<times> database" where
  "handleCreateFederatedReport P R db now r decode =
     (case reportsEnabled R of Inl e \<Rightarrow> (Inl e, db)
      | Inr _ \<Rightarrow>
     (case federationEnabled db of Inl e \<Rightarrow> (Inl e, db)
      | Inr _ \<Rightarrow>
     (case readBody r of Inl e \<Rightarrow> (Inl e, db)
      | Inr body \<Rightarrow>
     (case decode body of None \<Rightarrow> (Inl bad_request, db)
      | Some req \<Rightarrow>
      if fr_SenderAccountID req = [] \<or> fr_SenderRootPubKey req = [] \<or> fd_DeviceID (fr_SenderDeviceCert req) = []
      then (Inl bad_request, db)
      else case verifyFederatedSender P now r (report_claim req body) db of
        (Inl e, db1) \<Rightarrow> (Inl e, db1)
      | (Inr sender, db1) \<Rightarrow>
     (case ParseFull P (rr_Reported (fr_report req)) of Inl _ \<Rightarrow> (Inl bad_request, db1)
      | Inr reported \<Rightarrow>
      if Server reported \<noteq> [] then (Inl bad_request, db1)
      else case federatedReporter P (fr_SenderServer req) of Inl e \<Rightarrow> (Inl e, db1)
      | Inr server \<Rightarrow> saveReport P R db1 now (fr_report req) (fs_AccountID sender) server)))))"

section \<open>Withdrawing\<close>

definition withdrawReport :: "platform \<Rightarrow> database \<Rightarrow> string \<Rightarrow> string \<Rightarrow> string \<Rightarrow> (api_error + unit) \<times> database" where
  "withdrawReport P db reportedRaw reporterID reporterServer =
     (case ParseFull P reportedRaw of Inl _ \<Rightarrow> (Inl bad_request, db)
      | Inr reported \<Rightarrow>
     (case WithdrawReport db reporterID reporterServer (ID reported) (Server reported) of
        Inl e \<Rightarrow> (Inl (if e = ErrNotFound then (404, ''not_found'') else internal_error), db)
      | Inr db' \<Rightarrow> (Inr (), db')))"

definition handleWithdrawReport :: "platform \<Rightarrow> report_api \<Rightarrow> database \<Rightarrow> string \<Rightarrow> Identity option
    \<Rightarrow> (api_error + unit) \<times> database" where
  "handleWithdrawReport P R db pathReported identity =
     (case reportsEnabled R of Inl e \<Rightarrow> (Inl e, db)
      | Inr _ \<Rightarrow>
     (case identity of None \<Rightarrow> (Inl unauthorized, db)
      | Some who \<Rightarrow> withdrawReport P db pathReported (id_AccountID who) []))"

definition handleWithdrawFederatedReport :: "platform \<Rightarrow> report_api \<Rightarrow> database \<Rightarrow> time \<Rightarrow> http_request \<Rightarrow> string
    \<Rightarrow> (bytes \<Rightarrow> federatedReportRequest option) \<Rightarrow> (api_error + unit) \<times> database" where
  "handleWithdrawFederatedReport P R db now r pathReported decode =
     (case reportsEnabled R of Inl e \<Rightarrow> (Inl e, db)
      | Inr _ \<Rightarrow>
     (case federationEnabled db of Inl e \<Rightarrow> (Inl e, db)
      | Inr _ \<Rightarrow>
     (case readBody r of Inl e \<Rightarrow> (Inl e, db)
      | Inr body \<Rightarrow>
     (case decode body of None \<Rightarrow> (Inl bad_request, db)
      | Some req \<Rightarrow>
     (case verifyFederatedSender P now r (report_claim req body) db of
        (Inl e, db1) \<Rightarrow> (Inl e, db1)
      | (Inr sender, db1) \<Rightarrow>
     (case federatedReporter P (fr_SenderServer req) of Inl e \<Rightarrow> (Inl e, db1)
      | Inr server \<Rightarrow> withdrawReport P db1 pathReported (fs_AccountID sender) server))))))"

section \<open>Moderation\<close>

definition isLocalStaff :: "database \<Rightarrow> string \<Rightarrow> string \<Rightarrow> bool" where
  "isLocalStaff db ident server \<longleftrightarrow> server = [] \<and> (case GetAccount db ident of Inl _ \<Rightarrow> False
     | Inr a \<Rightarrow> acc_Role a = RoleAdmin \<or> acc_Role a = RoleModerator)"

definition mayActOnReport :: "database \<Rightarrow> Identity \<Rightarrow> Report \<Rightarrow> string \<Rightarrow> bool" where
  "mayActOnReport db identity report outcome \<longleftrightarrow> id_Role identity = RoleAdmin
     \<or> \<not> isLocalStaff db (rep_ReportedID report) (rep_ReportedServer report)
       \<and> \<not> (outcome = ReportAbusive \<and> isLocalStaff db (rep_ReporterID report) (rep_ReporterServer report))"

definition get_report :: "database \<Rightarrow> int \<Rightarrow> store_error + Report" where
  "get_report db ident = (if ident < 0 then Inl ErrNotFound else GetReport db (nat ident))"

definition handleResolveReport :: "report_api \<Rightarrow> database \<Rightarrow> time \<Rightarrow> http_request \<Rightarrow> string \<Rightarrow> (bytes \<Rightarrow> string option)
    \<Rightarrow> Identity \<Rightarrow> (api_error + unit) \<times> database" where
  "handleResolveReport R db now r pathID decode identity =
     (case reportsEnabled R of Inl e \<Rightarrow> (Inl e, db)
      | Inr _ \<Rightarrow>
      if \<not> requireAdminOrModerator identity then (Inl (403, ''forbidden''), db)
      else case parse_int64 pathID of None \<Rightarrow> (Inl bad_request, db)
      | Some ident \<Rightarrow>
     (case readBody r of Inl e \<Rightarrow> (Inl e, db)
      | Inr body \<Rightarrow>
     (case decode body of None \<Rightarrow> (Inl bad_request, db)
      | Some outcome \<Rightarrow>
      if \<not> ValidReportOutcome outcome then (Inl bad_request, db)
      else case get_report db ident of Inl e \<Rightarrow> (Inl (if e = ErrNotFound then (404, ''not_found'') else internal_error), db)
      | Inr report \<Rightarrow>
      if \<not> mayActOnReport db identity report outcome then (Inl (403, ''forbidden''), db)
      else case ResolveReport db (nat ident) outcome (id_AccountID identity) now of
        Inl _ \<Rightarrow> (Inl internal_error, db) | Inr db' \<Rightarrow> (Inr (), db'))))"

record reportResponse =
  rs_ID :: nat
  rs_Reported :: string
  rs_Reporter :: string
  rs_Category :: string
  rs_State :: string
  rs_Evidence :: "string option"
  rs_EvidenceVerified :: bool
  rs_CreatedAt :: string
  rs_UpdatedAt :: string
  rs_ResolvedBy :: "string option"
  rs_ResolvedAt :: "string option"

definition reportResponseFrom :: "Report \<Rightarrow> reportResponse" where
  "reportResponseFrom r = \<lparr>rs_ID = rep_ID r,
     rs_Reported = address_String \<lparr>ID = rep_ReportedID r, Server = rep_ReportedServer r\<rparr>,
     rs_Reporter = address_String \<lparr>ID = rep_ReporterID r, Server = rep_ReporterServer r\<rparr>,
     rs_Category = rep_Category r, rs_State = rep_State r, rs_Evidence = rep_Evidence r,
     rs_EvidenceVerified = rep_EvidenceVerified r, rs_CreatedAt = rfc3339 (rep_CreatedAt r),
     rs_UpdatedAt = rfc3339 (rep_UpdatedAt r), rs_ResolvedBy = rep_ResolvedBy r,
     rs_ResolvedAt = map_option rfc3339 (rep_ResolvedAt r)\<rparr>"

definition handleListReports :: "report_api \<Rightarrow> database \<Rightarrow> string \<Rightarrow> Identity \<Rightarrow> api_error + reportResponse list" where
  "handleListReports R db stateParam identity =
     (case reportsEnabled R of Inl e \<Rightarrow> Inl e
      | Inr _ \<Rightarrow> if \<not> requireAdminOrModerator identity then Inl (403, ''forbidden'')
          else Inr (map reportResponseFrom (ListReports db (stateParam = ReportOpen) (id_Role identity = RoleAdmin))))"

end
