(* ===== verification/Report_Rules.thy ===== *)
theory Report_Rules
  imports Api_Reports
begin

text \<open>
  What the report endpoints guarantee: the reports on file stay well formed whatever is filed,
  withdrawn, resolved or purged and whatever happens to the accounts, and a moderator's reach stops at
  regular members.
\<close>

section \<open>Well-formed reports\<close>

definition report_wf :: "database \<Rightarrow> Report \<Rightarrow> bool" where
  "report_wf db r \<longleftrightarrow> ValidReportCategory (rep_Category r)
     \<and> (rep_State r = ReportOpen \<and> rep_ResolvedBy r = None
        \<or> ValidReportOutcome (rep_State r) \<and> rep_ResolvedBy r \<noteq> None)
     \<and> (rep_ReporterID r, rep_ReporterServer r) \<noteq> (rep_ReportedID r, rep_ReportedServer r)
     \<and> (rep_ReportedServer r = [] \<longrightarrow> rep_ReportedID r \<in> account_ids db)"

definition reports_wf :: "database \<Rightarrow> bool" where
  "reports_wf db \<longleftrightarrow> list_all (report_wf db) (db_reports db)
     \<and> (\<forall>i s. CountOpenReportsBy db i s \<le> maxOpenReportsPerReporter)"

lemma reports_wf_same:
  "reports_wf db \<Longrightarrow> db_reports db' = db_reports db \<Longrightarrow> account_ids db \<subseteq> account_ids db' \<Longrightarrow> reports_wf db'"
  by (auto simp: reports_wf_def report_wf_def CountOpenReportsBy_def list_all_iff)

lemma reports_wf_delete:
  assumes "reports_wf db" "db_reports db' = row_delete p (db_reports db)"
    and "\<And>r. r \<in> set (db_reports db) \<Longrightarrow> \<not> p r \<Longrightarrow> rep_ReportedServer r = [] \<Longrightarrow>
      rep_ReportedID r \<in> account_ids db \<Longrightarrow> rep_ReportedID r \<in> account_ids db'"
  shows "reports_wf db'"
proof -
  have "CountOpenReportsBy db' i s \<le> CountOpenReportsBy db i s" for i s
    by (simp add: CountOpenReportsBy_def assms(2) row_count_delete_le)
  then show ?thesis using assms
    by (simp add: reports_wf_def report_wf_def list_all_iff set_row_delete) (meson le_trans)
qed

section \<open>Account requests\<close>

definition reports_kept :: "database \<Rightarrow> database \<Rightarrow> bool" where
  "reports_kept db db' \<longleftrightarrow> (reports_wf db \<longrightarrow> reports_wf db')"

lemma reports_kept_same:
  "db_reports db' = db_reports db \<Longrightarrow> account_ids db \<subseteq> account_ids db' \<Longrightarrow> reports_kept db db'"
  unfolding reports_kept_def by (blast intro: reports_wf_same)

lemma DeleteAccount_reports:
  "DeleteAccount db i = Inr db' \<Longrightarrow> db_reports db' = row_delete (\<lambda>r. rep_ReportedID r = i \<and> rep_ReportedServer r = []
        \<or> rep_ReporterID r = i \<and> rep_ReporterServer r = []) (db_reports db)"
  by (auto simp: DeleteAccount_def DeleteReportsForAccount_def cascade_account_def cascade_devices_def split: if_splits)

lemma DeleteAccount_reports_kept: "DeleteAccount db i = Inr db' \<Longrightarrow> reports_kept db db'"
  unfolding reports_kept_def
  by (auto simp: DeleteAccount_accounts set_row_delete elim!: reports_wf_delete [OF _ DeleteAccount_reports])

interpretation reports: account_frame reports_kept
proof unfold_locales
  fix b c a
  show "reports_kept b c \<Longrightarrow> reports_kept a b \<Longrightarrow> reports_kept a c" by (simp add: reports_kept_def)
qed (auto simp: CreateAccount_Inr CreateDevice_Inr store_write_defs keys_row_update DeleteAccount_reports_kept
     intro!: reports_kept_same split: if_splits sum.splits option.splits)

section \<open>Filing, withdrawing, resolving, purging\<close>

abbreviation open_by :: "string \<Rightarrow> string \<Rightarrow> Report \<Rightarrow> bool" where
  "open_by i s r \<equiv> rep_ReporterID r = i \<and> rep_ReporterServer r = s \<and> rep_State r = ReportOpen"

lemma row_count_update_le:
  assumes "unique_key key rows" "\<And>r. key r = k \<Longrightarrow> q (f r) \<Longrightarrow> b"
  shows "row_count q (row_update (\<lambda>r. key r = k) f rows) \<le> row_count q rows + (if b then 1 else 0)"
  using assms(1)
proof (induction rows)
  case (Cons a rows)
  show ?case
  proof (cases "key a = k")
    case True
    with Cons.prems have "key x \<noteq> k" if "x \<in> set rows" for x
      using that by (auto simp: unique_key_def) (metis image_eqI)
    then have "row_update (\<lambda>r. key r = k) f rows = rows"
      unfolding row_update_def by (intro map_idI) simp
    with True assms(2) show ?thesis by (auto simp: row_count_def row_update_def)
  next
    case False
    with Cons show ?thesis by (auto simp: row_count_def row_update_def unique_key_def)
  qed
qed (simp add: row_count_def row_update_def)

lemma SaveReport_count:
  assumes "db_ok db"
  shows "CountOpenReportsBy (SaveReport db r t) i s
    \<le> CountOpenReportsBy db i s + (if i = rep_ReporterID r \<and> s = rep_ReporterServer r then 1 else 0)"
proof (cases "list_ex (\<lambda>x. report_pair x = report_pair r) (db_reports db)")
  case True
  have "unique_key report_pair (db_reports db)" using assms by (simp add: db_ok_def reports_ok_def)
  from row_count_update_le [OF this, of "report_pair r" "open_by i s" "\<lambda>x. x\<lparr>rep_Category := rep_Category r,
      rep_Evidence := rep_Evidence r, rep_EvidenceVerified := rep_EvidenceVerified r, rep_State := ReportOpen,
      rep_UpdatedAt := formatTime t, rep_ResolvedBy := None, rep_ResolvedAt := None\<rparr>"
      "i = rep_ReporterID r \<and> s = rep_ReporterServer r"]
  show ?thesis using True by (auto simp: SaveReport_def CountOpenReportsBy_def report_pair_def)
next
  case False
  then show ?thesis by (simp add: SaveReport_def CountOpenReportsBy_def row_count_append) (simp add: row_count_def)
qed

lemma SaveReport_wf:
  assumes "db_ok db" "reports_wf db" "report_wf db (r\<lparr>rep_State := ReportOpen, rep_ResolvedBy := None\<rparr>)"
    and room: "CountOpenReportsBy db (rep_ReporterID r) (rep_ReporterServer r) < maxOpenReportsPerReporter"
  shows "reports_wf (SaveReport db r t)"
proof -
  have "CountOpenReportsBy (SaveReport db r t) i s \<le> maxOpenReportsPerReporter" for i s
  proof (cases "i = rep_ReporterID r \<and> s = rep_ReporterServer r")
    case True
    with SaveReport_count [OF assms(1), of r t i s] room show ?thesis by simp
  next
    case False
    then have "CountOpenReportsBy (SaveReport db r t) i s \<le> CountOpenReportsBy db i s"
      using SaveReport_count [OF assms(1), of r t i s] by auto
    then show ?thesis using assms(2) unfolding reports_wf_def by (meson le_trans)
  qed
  moreover have "list_all (report_wf (SaveReport db r t)) (db_reports (SaveReport db r t))"
    using assms(2,3) by (auto simp: reports_wf_def report_wf_def SaveReport_def list_all_iff set_row_update)
  ultimately show ?thesis by (simp add: reports_wf_def)
qed

lemma ResolveReport_wf:
  assumes "db_ok db" "reports_wf db" "ValidReportOutcome out" "ResolveReport db i out who t = Inr db'"
  shows "reports_wf db'"
proof -
  let ?f = "\<lambda>r. r\<lparr>rep_State := out, rep_ResolvedBy := Some who, rep_ResolvedAt := Some (formatTime t),
    rep_UpdatedAt := formatTime t\<rparr>"
  have db': "db' = db\<lparr>db_reports := row_update (\<lambda>r. rep_ID r = i) ?f (db_reports db)\<rparr>"
    using assms(4) by (simp add: ResolveReport_def split: if_splits)
  have ne: "out \<noteq> ReportOpen" using assms(3) by (auto simp: ValidReportOutcome_def status_defs)
  have "CountOpenReportsBy db' j s \<le> CountOpenReportsBy db j s" for j s
    using row_count_update_le [of rep_ID "db_reports db" i "open_by j s" ?f False] assms(1) ne
    by (simp add: db' CountOpenReportsBy_def db_ok_def reports_ok_def)
  then have "CountOpenReportsBy db' j s \<le> maxOpenReportsPerReporter" for j s
    using assms(2) unfolding reports_wf_def by (meson le_trans)
  moreover have "list_all (report_wf db') (db_reports db')"
    using assms(2,3) ne by (auto simp: reports_wf_def db' list_all_iff set_row_update report_wf_def)
  ultimately show ?thesis by (simp add: reports_wf_def)
qed

section \<open>The moderation surface as steps\<close>

datatype report_event =
    Request account_request
  | FileReport time http_request "bytes \<Rightarrow> reportRequest option" "Identity option"
  | FileFederated time http_request "bytes \<Rightarrow> federatedReportRequest option"
  | Withdraw string "Identity option"
  | WithdrawFederated time http_request string "bytes \<Rightarrow> federatedReportRequest option"
  | Resolve time http_request string "bytes \<Rightarrow> string option" Identity
  | PurgeReports time

fun report_step :: "platform \<Rightarrow> (time \<Rightarrow> int \<Rightarrow> time) \<Rightarrow> int \<Rightarrow> report_api \<Rightarrow> report_event \<Rightarrow> database \<Rightarrow> database" where
  "report_step P addDays n R (Request x) db = account_step P addDays n x db"
| "report_step P addDays n R (FileReport now r decode identity) db = snd (handleCreateReport P R db now r decode identity)"
| "report_step P addDays n R (FileFederated now r decode) db = snd (handleCreateFederatedReport P R db now r decode)"
| "report_step P addDays n R (Withdraw path identity) db = snd (handleWithdrawReport P R db path identity)"
| "report_step P addDays n R (WithdrawFederated now r path decode) db =
     snd (handleWithdrawFederatedReport P R db now r path decode)"
| "report_step P addDays n R (Resolve now r path decode identity) db = snd (handleResolveReport R db now r path decode identity)"
| "report_step P addDays n R (PurgeReports t) db = PurgeReportsBefore db t"

definition reporting_ok :: "database \<Rightarrow> bool" where
  "reporting_ok db \<longleftrightarrow> served db \<and> reports_wf db"

lemmas reporting_cases = handler_option [where Q = reporting_ok] handler_sum [where Q = reporting_ok]
  handler_prod [where Q = reporting_ok] handler_if [where Q = reporting_ok] handler_end [where Q = reporting_ok]

lemma reporting_okI:
  "reporting_ok db \<Longrightarrow> db_ok db' \<Longrightarrow> db_accounts db' = db_accounts db \<Longrightarrow> reports_wf db' \<Longrightarrow> reporting_ok db'"
  unfolding reporting_ok_def by (blast intro: served_same)

lemma reporting_okD: "reporting_ok db \<Longrightarrow> db_ok db \<and> reports_wf db"
  by (simp add: reporting_ok_def served_def)

lemma SaveReport_accounts: "db_accounts (SaveReport db r t) = db_accounts db"
  by (simp add: SaveReport_def)

text \<open>A report that is not refused has passed every check before it is stored.\<close>

lemma saveReport_stored:
  assumes "saveReport P R db now req who server = (res, db')"
  obtains "db' = db" "res \<noteq> Inr ()"
  | r where "db' = SaveReport db r now" "report_wf db (r\<lparr>rep_State := ReportOpen, rep_ResolvedBy := None\<rparr>)"
    "CountOpenReportsBy db (rep_ReporterID r) (rep_ReporterServer r) < maxOpenReportsPerReporter" "rep_ReporterID r = who"
proof (cases "res = Inr ()")
  case True
  have local: "\<not> isl (GetAccount db i) \<Longrightarrow> i \<in> account_ids db" for i
    by (cases "GetAccount db i") (auto dest: GetAccount_mem)
  from assms True show ?thesis
    unfolding saveReport_def Let_def
    by (auto split: if_splits sum.splits simp: report_wf_def intro!: that(2) dest: local)
next
  case False
  with assms show ?thesis unfolding saveReport_def Let_def
    by (intro that(1)) (auto split: if_splits sum.splits)
qed

lemma saveReport_reporting: "reporting_ok db \<Longrightarrow> reporting_ok (snd (saveReport P R db now req who server))"
proof -
  assume ok: "reporting_ok db"
  obtain res db' where run: "saveReport P R db now req who server = (res, db')" by force
  from run show ?thesis
  proof (rule saveReport_stored)
    fix r :: Report
    assume r: "db' = SaveReport db r now" "report_wf db (r\<lparr>rep_State := ReportOpen, rep_ResolvedBy := None\<rparr>)"
      "CountOpenReportsBy db (rep_ReporterID r) (rep_ReporterServer r) < maxOpenReportsPerReporter"
    with ok show ?thesis
      using reporting_okI [OF ok SaveReport_ok SaveReport_accounts SaveReport_wf] reporting_okD [OF ok] run by auto
  qed (use ok run in simp)
qed


lemma verifyFederatedSender_reporting:
  assumes "reporting_ok db" "verifyFederatedSender P now r claim db = (res, db')"
  shows "reporting_ok db'"
proof (cases res)
  case (Inl e)
  with assms show ?thesis by (auto dest: verifyFederatedSender_Inl)
next
  case (Inr sender)
  obtain k n t e where db': "db' = snd (RecordNonce db k n t e)"
    using assms(2) [unfolded Inr] by (rule verifyFederatedSender_Inr) (metis snd_conv)
  then have "served db'" using assms(1) RecordNonce_served by (simp add: reporting_ok_def)
  then show ?thesis using assms(1) by (auto simp: reporting_ok_def db' RecordNonce_def intro: reports_wf_same)
qed

lemma withdrawReport_reporting: "reporting_ok db \<Longrightarrow> reporting_ok (snd (withdrawReport P db path who server))"
proof -
  assume ok: "reporting_ok db"
  have "reporting_ok db'" if "WithdrawReport db a b c d = Inr db'" for a b c d db'
  proof (rule reporting_okI [OF ok])
    show "db_ok db'" using that ok reporting_okD WithdrawReport_ok by blast
    show "db_accounts db' = db_accounts db" using that by (auto simp: WithdrawReport_def Let_def split: if_splits)
    with that ok show "reports_wf db'"
      by (auto simp: WithdrawReport_def Let_def reporting_ok_def split: if_splits elim!: reports_wf_delete)
  qed
  with ok show ?thesis by (auto simp: withdrawReport_def split: sum.split)
qed

lemma handleResolveReport_resolved:
  assumes "handleResolveReport R db now r path decode identity = (res, db')"
  obtains "db' = db" "res \<noteq> Inr ()"
  | ident out report where "ResolveReport db ident out (id_AccountID identity) now = Inr db'" "ValidReportOutcome out"
    "GetReport db ident = Inr report" "mayActOnReport db identity report out" "requireAdminOrModerator identity"
proof (cases "res = Inr ()")
  case True
  with assms show ?thesis
    unfolding handleResolveReport_def
    by (auto simp: get_report_def split: if_splits sum.splits option.splits intro: that(2))
next
  case False
  with assms show ?thesis
    unfolding handleResolveReport_def
    by (intro that(1)) (auto split: if_splits sum.splits option.splits)
qed

lemma handleResolveReport_reporting:
  "reporting_ok db \<Longrightarrow> reporting_ok (snd (handleResolveReport R db now r path decode identity))"
proof -
  assume ok: "reporting_ok db"
  obtain res db' where run: "handleResolveReport R db now r path decode identity = (res, db')" by force
  from run show ?thesis
  proof (rule handleResolveReport_resolved)
    fix ident out report
    assume w: "ResolveReport db ident out (id_AccountID identity) now = Inr db'" "ValidReportOutcome out"
    have "db_accounts db' = db_accounts db" using w(1) by (auto simp: ResolveReport_def split: if_splits)
    with w ok show ?thesis
      using reporting_okI [OF ok ResolveReport_ok _ ResolveReport_wf] reporting_okD [OF ok] run by auto
  qed (use ok run in simp)
qed

lemma federated_reporting:
  "reporting_ok db \<Longrightarrow> reporting_ok (snd (handleCreateFederatedReport P R db now r decode))"
  "reporting_ok db \<Longrightarrow> reporting_ok (snd (handleWithdrawFederatedReport P R db now r path decode))"
  unfolding handleCreateFederatedReport_def handleWithdrawFederatedReport_def
  by (auto split: sum.split option.split prod.split intro: verifyFederatedSender_reporting saveReport_reporting
      withdrawReport_reporting)

lemma report_step_ok: "reporting_ok db \<Longrightarrow> reporting_ok (report_step P addDays n R x db)"
proof (induction x)
  case (Request x)
  then show ?case
    using account_step_served reports.account_step_frame [of db P addDays n x]
    by (simp add: reporting_ok_def reports_kept_def)
next
  case (PurgeReports t)
  then show ?case
    using PurgeReportsBefore_ok [of db t] reporting_okI [of db "PurgeReportsBefore db t"]
    by (auto simp: PurgeReportsBefore_def reporting_ok_def served_def CountActiveAdmins_def elim!: reports_wf_delete)
qed (auto simp: federated_reporting handleResolveReport_reporting handleCreateReport_def handleWithdrawReport_def
    saveReport_reporting withdrawReport_reporting split: sum.split option.split)

interpretation moderation: preserving "report_step P addDays n R" "\<lambda>_. True" reporting_ok
  by unfold_locales (rule report_step_ok)


section \<open>A moderator's reach\<close>

lemma isLocalStaff_mem:
  assumes "db_ok db"
  shows "isLocalStaff db i s \<longleftrightarrow> s = [] \<and> (\<exists>a \<in> set (db_accounts db). acc_ID a = i \<and> acc_Role a \<in> {RoleModerator, RoleAdmin})"
proof -
  have "GetAccount db (acc_ID a) = Inr a" if "a \<in> set (db_accounts db)" for a
    using assms that by (simp add: GetAccount_def db_ok_def accounts_ok_def row_get_unique)
  then show ?thesis by (cases "GetAccount db i") (force simp: isLocalStaff_def dest: GetAccount_mem)+
qed

text \<open>
  A moderator's reach stops at regular members. Whatever resolution a caller who is no admin
  requests, every report about a local moderator or admin stays as it is, no report filed by one becomes
  abusive, and a caller who is not even a moderator changes nothing; the queue a moderator is shown
  holds no report about local staff.
\<close>

theorem moderator_reach:
  assumes "db_ok db" "id_Role identity \<noteq> RoleAdmin" "handleResolveReport R db now r path decode identity = (res, db')"
  shows "(\<forall>x \<in> set (db_reports db). isLocalStaff db (rep_ReportedID x) (rep_ReportedServer x) \<longrightarrow> x \<in> set (db_reports db'))
    \<and> (\<forall>x \<in> set (db_reports db'). isLocalStaff db (rep_ReporterID x) (rep_ReporterServer x) \<and> rep_State x = ReportAbusive
         \<longrightarrow> x \<in> set (db_reports db))
    \<and> (id_Role identity \<noteq> RoleModerator \<longrightarrow> res \<noteq> Inr () \<and> db' = db)
    \<and> (\<forall>shown. handleListReports R db st identity = Inr shown \<longrightarrow> (\<forall>y \<in> set shown. \<exists>x \<in> set (db_reports db).
         y = reportResponseFrom x \<and> \<not> isLocalStaff db (rep_ReportedID x) (rep_ReportedServer x)))"
proof -
  have "y \<in> reportResponseFrom ` {x \<in> set (db_reports db). \<not> isLocalStaff db (rep_ReportedID x) (rep_ReportedServer x)}"
    if "handleListReports R db st identity = Inr shown" "y \<in> set shown" for shown y
    using that assms(2)
    by (auto simp: handleListReports_def ListReports_def list_ex_iff isLocalStaff_mem [OF assms(1)]
        split: sum.splits if_splits)
  then have shown: "\<forall>shown. handleListReports R db st identity = Inr shown \<longrightarrow> (\<forall>y \<in> set shown. \<exists>x \<in> set (db_reports db).
         y = reportResponseFrom x \<and> \<not> isLocalStaff db (rep_ReportedID x) (rep_ReportedServer x))" by blast
  from assms(3) show ?thesis
  proof (rule handleResolveReport_resolved)
    fix ident out report
    assume w: "ResolveReport db ident out (id_AccountID identity) now = Inr db'" "GetReport db ident = Inr report"
      and may: "mayActOnReport db identity report out" "requireAdminOrModerator identity"
    have rep: "report \<in> set (db_reports db)" "rep_ID report = ident"
      using w(2) row_get_SomeD by (force simp: GetReport_def split: option.splits)+
    have "unique_key rep_ID (db_reports db)" using assms(1) by (simp add: db_ok_def reports_ok_def)
    then have only: "x = report" if "x \<in> set (db_reports db)" "rep_ID x = ident" for x
      using that rep row_get_unique [of rep_ID "db_reports db"] by (metis option.inject)
    have lim: "\<not> isLocalStaff db (rep_ReportedID report) (rep_ReportedServer report)"
      "out = ReportAbusive \<Longrightarrow> \<not> isLocalStaff db (rep_ReporterID report) (rep_ReporterServer report)"
      using may assms(2) by (auto simp: mayActOnReport_def)
    have "db_reports db' = row_update (\<lambda>x. rep_ID x = ident) (\<lambda>x. x\<lparr>rep_State := out,
        rep_ResolvedBy := Some (id_AccountID identity), rep_ResolvedAt := Some (formatTime now),
        rep_UpdatedAt := formatTime now\<rparr>) (db_reports db)"
      using w(1) by (auto simp: ResolveReport_def split: if_splits)
    with shown only lim may assms(2) show ?thesis
      by (auto simp: set_row_update requireAdminOrModerator_def)
  qed (use shown in simp)
qed


section \<open>Two ways around the one-report rule\<close>

text \<open>
  A reporter's home server is part of the key a report is filed under, and nothing checks it: an account of
  another server that names a second server files a second report about the same account, and has a
  second allowance of twenty.
\<close>

theorem federated_reporter_multiplies:
  assumes "isl (GetAccount db who)" "ValidReportCategory (rr_Category req)" "rr_Evidence req = []"
    "ParseFull P (rr_Reported req) = Inr target" "Server target = []" "\<not> isl (GetAccount db (ID target))"
    "s1 \<noteq> s2" "s1 \<noteq> []" "s2 \<noteq> []" "db_reports db = []"
  shows "\<exists>db1 db2. saveReport P R db now req who s1 = (Inr (), db1) \<and> saveReport P R db1 now req who s2 = (Inr (), db2)
    \<and> map (\<lambda>r. (rep_ReporterID r, rep_ReportedID r)) (db_reports db2) = [(who, ID target), (who, ID target)]"
  using assms
  by (simp add: saveReport_def checkEvidence_def CountOpenReportsBy_def row_count_def maxOpenReportsPerReporter_def
      SaveReport_def report_pair_def GetAccount_def)

text \<open>
  A local account that reports through the federated route is filed as local, but the federated
  withdrawal looks for the report under the server the request names and does not find it.
\<close>

theorem federated_route_cannot_withdraw:
  assumes "\<not> isl (GetAccount db who)" "server \<noteq> []" "saveReport P R db now req who server = (Inr (), db')"
    and none: "\<forall>r \<in> set (db_reports db). rep_ReporterServer r \<noteq> server"
  shows "withdrawReport P db' (rr_Reported req) who server = (Inl (404, ''not_found''), db')"
proof -
  obtain target r where t: "ParseFull P (rr_Reported req) = Inr target" and db': "db' = SaveReport db r now"
    and r: "rep_ReporterServer r = []"
    using assms(1,2,3) by (auto simp: saveReport_def Let_def split: if_splits sum.splits)
  have "\<forall>x \<in> set (db_reports db'). rep_ReporterServer x \<noteq> server"
    using none r assms(2) by (auto simp: db' SaveReport_def set_row_update)
  then have "row_count (\<lambda>x. report_pair x = (who, server, ID target, Server target)) (db_reports db') = 0"
    by (auto simp: row_count_0 report_pair_def)
  with t show ?thesis by (simp add: withdrawReport_def WithdrawReport_def Let_def)
qed

section \<open>Witnesses\<close>

definition sample_report_api :: report_api where
  "sample_report_api = \<lparr>ra_ReportsEnabled = True, ra_encode = (\<lambda>_. Some ''[]'')\<rparr>"

definition sample_report_db :: database where
  "sample_report_db = (case CreateAccount sample_database (sample_account sample_id) of Inr db \<Rightarrow> db)"

definition sample_report :: reportRequest where
  "sample_report = \<lparr>rr_Reported = sample_id, rr_Category = ''spam'', rr_Evidence = []\<rparr>"

definition sample_report_events :: "report_event list" where
  "sample_report_events = [FileReport 0 sample_federated_request (\<lambda>_. Some sample_report) (Some (admin_identity ''bob'')),
     Resolve 0 sample_federated_request ''1'' (\<lambda>_. Some ''dismissed'') (admin_identity ''alice'')]"

definition sample_filed :: "string \<Rightarrow> string option \<Rightarrow> time option \<Rightarrow> Report" where
  "sample_filed state by at = \<lparr>rep_ID = 1, rep_ReportedID = sample_id, rep_ReportedServer = [],
     rep_ReporterID = ''bob'', rep_ReporterServer = [], rep_Category = ''spam'', rep_Evidence = None,
     rep_EvidenceVerified = False, rep_State = state, rep_CreatedAt = formatTime 0, rep_UpdatedAt = formatTime 0,
     rep_ResolvedBy = by, rep_ResolvedAt = at\<rparr>"

lemma sample_report_target: "ParseFull sample_platform sample_id = Inr \<lparr>ID = sample_id, Server = []\<rparr>"
proof -
  have c: "canonical_id sample_id" using sample_id_normal unfolding Normalize_iff by blast
  have "Parse sample_platform sample_id = Inr \<lparr>ID = sample_id, Server = []\<rparr>"
    using Parse_compose [of sample_id sample_platform sample_id "[]"] canonical_id_charset [OF c] charset_graphic
    by (auto simp: StripSeparators_charset printable_server_def sample_id_def)
  then show ?thesis by (simp add: ParseFull_def sample_id_normal)
qed

lemma sample_report_db_ok: "db_ok sample_report_db" "1 \<le> CountActiveAdmins sample_report_db" "db_reports sample_report_db = []"
proof -
  have "\<not> isl (CreateAccount sample_database (sample_account sample_id))" by code_simp
  then have "CreateAccount sample_database (sample_account sample_id) = Inr sample_report_db"
    by (auto simp: sample_report_db_def isl_def split: sum.split)
  then show "db_ok sample_report_db" using sample_database_ok by (rule CreateAccount_ok [rotated])
  show "1 \<le> CountActiveAdmins sample_report_db" "db_reports sample_report_db = []" by code_simp+
qed


lemma sample_report_account:
  "row_get acc_ID sample_id (db_accounts sample_report_db) = Some (sample_account sample_id)" by code_simp

lemma sample_report_body: "readBody sample_federated_request = Inr ''{}''"
  by (simp add: sample_federated_request_def client_request_def readBody_def)

lemma sample_report_filed:
  "report_step sample_platform (\<lambda>t d. t) 0 sample_report_api (sample_report_events ! 0) sample_report_db
     = sample_report_db\<lparr>db_reports := [sample_filed ReportOpen None None]\<rparr>"
proof -
  have "sample_id \<noteq> ''bob''" "ValidReportCategory ''spam''" by (simp_all add: sample_id_def ValidReportCategory_def)
  then show ?thesis
    by (simp add: sample_report_events_def handleCreateReport_def saveReport_def sample_report_api_def reportsEnabled_def
        sample_report_body admin_identity_def sample_report_def sample_report_target sample_report_account GetAccount_def
        checkEvidence_def CountOpenReportsBy_def row_count_def maxOpenReportsPerReporter_def SaveReport_def
        sample_report_db_ok(3) next_report_id_def sample_filed_def)
qed

lemma sample_report_resolved:
  "report_step sample_platform (\<lambda>t d. t) 0 sample_report_api (sample_report_events ! 1)
       (sample_report_db\<lparr>db_reports := [sample_filed ReportOpen None None]\<rparr>)
     = sample_report_db\<lparr>db_reports := [sample_filed ReportDismissed (Some ''alice'') (Some (formatTime 0))]\<rparr>"
proof -
  have "parse_int64 ''1'' = Some 1" by code_simp
  moreover have "ValidReportOutcome ''dismissed''" by (simp add: ValidReportOutcome_def status_defs)
  ultimately show ?thesis
    by (simp add: sample_report_events_def handleResolveReport_def sample_report_api_def reportsEnabled_def sample_report_body
        admin_identity_def requireAdminOrModerator_def get_report_def GetReport_def row_get_def mayActOnReport_def
        ResolveReport_def row_update_def row_count_def sample_filed_def ReportDismissed_def)
qed

lemma fold_two: "xs = [a, b] \<Longrightarrow> fold f xs s = f b (f a s)"
  by simp

lemma sample_report_run:
  "db_reports (fold (report_step sample_platform (\<lambda>t d. t) 0 sample_report_api) sample_report_events sample_report_db)
     = [sample_filed ReportDismissed (Some ''alice'') (Some (formatTime 0))]"
proof -
  have two: "sample_report_events = [sample_report_events ! 0, sample_report_events ! 1]"
    by (simp add: sample_report_events_def)
  show ?thesis
    unfolding fold_two [OF two] sample_report_filed sample_report_resolved by simp
qed


definition sample_staff_db :: database where
  "sample_staff_db = sample_database\<lparr>db_reports := [\<lparr>rep_ID = 1, rep_ReportedID = ''bob'', rep_ReportedServer = [],
     rep_ReporterID = ''carol'', rep_ReporterServer = ''https://far.example'', rep_Category = ''spam'', rep_Evidence = None,
     rep_EvidenceVerified = False, rep_State = ReportOpen, rep_CreatedAt = 0, rep_UpdatedAt = 0, rep_ResolvedBy = None,
     rep_ResolvedAt = None\<rparr>]\<rparr>"

definition sample_moderator :: Identity where
  "sample_moderator = \<lparr>id_AccountID = ''mod'', id_DeviceID = ''m1'', id_Role = RoleModerator\<rparr>"

theorem moderator_reach_witness:
  "isLocalStaff sample_staff_db ''bob'' [] \<and> db_reports sample_staff_db \<noteq> []
    \<and> set (db_reports sample_staff_db) \<subseteq> set (db_reports (snd (handleResolveReport sample_report_api sample_staff_db 0
        sample_federated_request ''1'' (\<lambda>_. Some ''actioned'') sample_moderator)))"
proof -
  have ok: "db_ok sample_staff_db"
    using sample_database_ok by (simp add: sample_staff_db_def db_ok_def reports_ok_def unique_key_def)
  have role: "id_Role sample_moderator \<noteq> RoleAdmin" by code_simp
  have staff: "isLocalStaff sample_staff_db ''bob'' []" by code_simp
  obtain res db' where run: "handleResolveReport sample_report_api sample_staff_db 0 sample_federated_request ''1''
      (\<lambda>_. Some ''actioned'') sample_moderator = (res, db')" by force
  from moderator_reach [OF ok role run, of "[]"] staff run show ?thesis by (auto simp: sample_staff_db_def)
qed

end
