(* ===== verification/Client_Reports.thy ===== *)
theory Client_Reports
  imports Client_Register Report_Rules
begin

text \<open>
  \<open>pkg/client/reports.go\<close>: telling an operator about a peer, and taking that back. At the
  server of the peer, the requests the client makes for a federated report and its withdrawal are
  refused as they stand: the report names the peer with its server, where only an account of the server
  itself is accepted, and the withdrawal does not name the reporter's home server.
\<close>

section \<open>Reporting\<close>

definition client_ValidReportCategory :: "string \<Rightarrow> bool" where
  "client_ValidReportCategory c \<longleftrightarrow> c = ''spam'' \<or> c = ''harassment'' \<or> c = ''fraud'' \<or> c = ''other''"

text \<open>\<open>reportError\<close> and \<open>ignoreNoSuchReport\<close> map the error of a finished request.\<close>

definition reportError :: "client_error \<Rightarrow> client_error" where
  "reportError e = (case api_error e of Some (status, code) \<Rightarrow> if code = ''reports_disabled'' then ErrReportsUnavailable else e | None \<Rightarrow> e)"

definition no_such_report :: "client_error \<Rightarrow> bool" where
  "no_such_report e = (case api_error e of Some (status, code) \<Rightarrow> status = 404 \<and> code = ''not_found'' | None \<Rightarrow> False)"

definition with_report_error :: "unit net_op \<Rightarrow> unit net_op" where
  "with_report_error m = chain (attempt m) (\<lambda>r. case r of Inr _ \<Rightarrow> ret () | Inl e \<Rightarrow> fail (reportError e))"

definition ignoreNoSuchReport :: "unit net_op \<Rightarrow> unit net_op" where
  "ignoreNoSuchReport m = chain (attempt m) (\<lambda>r. case r of Inr _ \<Rightarrow> ret () | Inl e \<Rightarrow> if no_such_report e then ret () else fail e)"

definition reportEvidence :: "string \<Rightarrow> Claim list client_op" where
  "reportEvidence peer = chain (safeElement peer) (\<lambda>_. look (\<lambda>c. case assoc_get (cs_profiles c) peer of None \<Rightarrow> [] | Some f \<Rightarrow> pr_Claims f))"

definition postFederatedReport :: "platform \<Rightarrow> codec \<Rightarrow> time \<Rightarrow> string \<Rightarrow> reportBody \<Rightarrow> unit net_op" where
  "postFederatedReport P J now server body =
     chain (on_client Identity_client) (\<lambda>i.
     chain (signDeviceCert P i now) (\<lambda>cert.
     do_unit P J now ((plain_request ''POST'' ''/v1/federation/reports'' authFederated)
       \<lparr>rq_server := server, rq_body := Some (BodyFederatedReport cert (ci_Server i) body)\<rparr>)))"

definition Report_client :: "platform \<Rightarrow> codec \<Rightarrow> time \<Rightarrow> string \<Rightarrow> string \<Rightarrow> bool \<Rightarrow> unit net_op" where
  "Report_client P J now peer category alsoTellTheirServer =
     (if \<not> client_ValidReportCategory category then fail (ErrText ''not a reportable category'')
      else chain (Endpoint P J now peer) (\<lambda>endpoint.
        chain (on_client Identity_client) (\<lambda>i.
        if pe_AccountID endpoint = ci_AccountID i then fail (ErrText ''an account cannot report itself'')
        else chain (on_client (reportEvidence peer)) (\<lambda>evidence.
        let body = \<lparr>rpb_reported = address_String \<lparr>ID = pe_AccountID endpoint, Server = pe_Server endpoint\<rparr>, rpb_category = category, rpb_evidence = evidence\<rparr> in
        chain (with_report_error (do_unit P J now ((plain_request ''POST'' ''/v1/reports'' authDevice)\<lparr>rq_body := Some (BodyReport body)\<rparr>))) (\<lambda>_.
        if \<not> alsoTellTheirServer \<or> \<not> Federated endpoint then ret ()
        else with_report_error (postFederatedReport P J now (pe_Server endpoint) body))))))"

definition WithdrawReport_client :: "platform \<Rightarrow> codec \<Rightarrow> time \<Rightarrow> string \<Rightarrow> unit net_op" where
  "WithdrawReport_client P J now peer =
     chain (Endpoint P J now peer) (\<lambda>endpoint.
     let reported = address_String \<lparr>ID = pe_AccountID endpoint, Server = pe_Server endpoint\<rparr> in
     chain (with_report_error (ignoreNoSuchReport (do_unit P J now (plain_request ''DELETE'' (''/v1/reports/'' @ reported) authDevice)))) (\<lambda>_.
     if \<not> Federated endpoint then ret ()
     else chain (on_client Identity_client) (\<lambda>i.
       chain (signDeviceCert P i now) (\<lambda>cert.
       with_report_error (ignoreNoSuchReport (do_unit P J now ((plain_request ''DELETE'' (''/v1/federation/reports/'' @ reported) authFederated)
         \<lparr>rq_server := pe_Server endpoint, rq_body := Some (BodyFederatedWithdraw cert)\<rparr>)))))))"

section \<open>What the other server reads\<close>

definition server_sender_cert :: "senderCert \<Rightarrow> federationDeviceCertDTO" where
  "server_sender_cert cert = \<lparr>fd_DeviceID = sc_DeviceID cert, fd_DevicePubKey = sc_DevicePubKey cert, fd_IssuedAt = sc_IssuedAt cert, fd_Signature = sc_Signature cert\<rparr>"

text \<open>Fields that a body does not have are empty in the struct it is decoded into.\<close>

definition server_report :: "request_body \<Rightarrow> federatedReportRequest option" where
  "server_report b = (case b of
     BodyFederatedReport cert home body \<Rightarrow> Some \<lparr>fr_report = \<lparr>rr_Reported = rpb_reported body, rr_Category = rpb_category body, rr_Evidence = rpb_evidence body\<rparr>,
       fr_SenderAccountID = sc_AccountID cert, fr_SenderServer = home, fr_SenderRootPubKey = sc_RootPubKey cert, fr_SenderDeviceCert = server_sender_cert cert\<rparr>
   | BodyFederatedWithdraw cert \<Rightarrow> Some \<lparr>fr_report = \<lparr>rr_Reported = [], rr_Category = [], rr_Evidence = []\<rparr>,
       fr_SenderAccountID = sc_AccountID cert, fr_SenderServer = [], fr_SenderRootPubKey = sc_RootPubKey cert, fr_SenderDeviceCert = server_sender_cert cert\<rparr>
   | _ \<Rightarrow> None)"

section \<open>Refused\<close>

definition carries :: "codec \<Rightarrow> request_body \<Rightarrow> sent \<Rightarrow> bool" where
  "carries J b x \<longleftrightarrow> st_Value x = Some b \<and> Body (st_Request x) = Some (jc_body J b)"

lemma client_do_carries:
  assumes d: "client_do P J now rq w = (r, w')" and b: "rq_body rq = Some b"
  shows "\<exists>new. wo_sent w' = wo_sent w @ new \<and> list_all (carries J b) new"
proof (cases "cs_identity (wo_client w)")
  case None
  then have "wo_sent w' = wo_sent w" using d by (auto simp: client_do_def chain_def on_client_def Identity_client_def)
  then show ?thesis by simp
next
  case (Some i)
  have keep: "w\<lparr>wo_client := wo_client w\<rparr> = w" by (cases w) simp
  obtain h v where h: "signRequest P rq (jc_body J b) i now w = (h, v)" by fastforce
  have v: "wo_sent v = wo_sent w"
    using h by (auto simp: signRequest_def chain_def on_client_def newMessageID_def ret_def fail_def Let_def split: if_splits sum.splits prod.splits list.splits)
  show ?thesis
  proof (cases h)
    case (Inl e)
    then have "w' = v" using d b Some keep h by (simp add: client_do_def chain_def on_client_def Identity_client_def Let_def)
    then show ?thesis using v by simp
  next
    case (Inr headers)
    define y where "y = \<lparr>st_Server = (if rq_server rq = [] then ci_Server i else rq_server rq),
      st_Request = \<lparr>Method = rq_method rq, URLPath = rq_path rq, RawQuery = rq_query rq, Headers = (''Content-Type'', ''application/json'') # headers,
        Body = Some (jc_body J b)\<rparr>, st_Value = Some b\<rparr>"
    have "client_do P J now rq w = chain (exchange y) (\<lambda>(status, answer).
        if rq_noContent rq then statusOnlyResponse J status answer else decodeResponse J status answer) v"
      using Some keep b Inr h by (simp add: client_do_def chain_def on_client_def Identity_client_def Let_def y_def)
    moreover have "snd (statusOnlyResponse J status answer u) = u" "snd (decodeResponse J status answer u) = u" for status answer u
      by (simp_all add: statusOnlyResponse_def decodeResponse_def ret_def fail_def)
    ultimately have "snd (client_do P J now rq w) = snd (exchange y v)" by (auto simp: chain_def split: sum.split prod.split)
    moreover have "wo_sent (snd (exchange y v)) = wo_sent v @ [y]" by (auto simp: exchange_def split: list.split option.split)
    ultimately have "wo_sent w' = wo_sent w @ [y]" using d v by simp
    then show ?thesis by (auto simp: carries_def y_def)
  qed
qed

lemma do_unit_carries:
  assumes "do_unit P J now rq w = (r, w')" "rq_body rq = Some b"
  shows "\<exists>new. wo_sent w' = wo_sent w @ new \<and> list_all (carries J b) new"
proof -
  obtain r1 w1 where c: "client_do P J now rq w = (r1, w1)" by fastforce
  with assms(1) have "w' = w1" by (auto simp: do_unit_def chain_def ret_def split: sum.splits)
  with client_do_carries [OF c assms(2)] show ?thesis by simp
qed

lemma sender_reports: "verifyFederatedSender P now r claim db = (res, db') \<Longrightarrow> db_reports db' = db_reports db"
proof (cases res)
  case (Inl e)
  moreover assume "verifyFederatedSender P now r claim db = (res, db')"
  ultimately show ?thesis by (auto dest: verifyFederatedSender_Inl)
next
  case (Inr sender)
  moreover assume "verifyFederatedSender P now r claim db = (res, db')"
  ultimately obtain k n t e where "db' = snd (RecordNonce db k n t e)" by (auto elim!: verifyFederatedSender_Inr) (metis snd_conv)
  then show ?thesis by (simp add: RecordNonce_def)
qed

text \<open>
  Every report the client files at the peer's own server is refused there, whoever files it and whatever
  that server holds: it names the peer with its server, which the server takes for an account that does not
  live there. Every withdrawal it sends there is refused too, for want of the reporter's home server.
\<close>

theorem federated_report_refused:
  assumes p: "postFederatedReport P J now (Server a) \<lparr>rpb_reported = address_String a, rpb_category = category, rpb_evidence = evidence\<rparr> w = (res, w')"
    and a: "Server a \<noteq> []" "ParseFull P (address_String a) = Inr a" and d: "\<forall>b. decode (jc_body J b) = server_report b"
  shows "\<exists>new. wo_sent w' = wo_sent w @ new \<and> list_all (\<lambda>x. \<exists>e db'.
      handleCreateFederatedReport P R db now' (st_Request x) decode = (Inl e, db') \<and> db_reports db' = db_reports db) new"
proof -
  have refused: "\<exists>e db'. handleCreateFederatedReport P R db now' (st_Request x) decode = (Inl e, db') \<and> db_reports db' = db_reports db"
    if "carries J (BodyFederatedReport cert home \<lparr>rpb_reported = address_String a, rpb_category = category, rpb_evidence = evidence\<rparr>) x" for x cert home
    using that a d sender_reports
    by (auto simp: handleCreateFederatedReport_def carries_def readBody_def server_report_def split: sum.split prod.split)
  have "\<exists>new cert home. wo_sent w' = wo_sent w @ new
      \<and> list_all (carries J (BodyFederatedReport cert home \<lparr>rpb_reported = address_String a, rpb_category = category, rpb_evidence = evidence\<rparr>)) new"
  proof (cases "cs_identity (wo_client w)")
    case None
    then show ?thesis using p by (intro exI [of _ "[]"]) (auto simp: postFederatedReport_def chain_def on_client_def Identity_client_def)
  next
    case (Some i)
    have keep: "w\<lparr>wo_client := wo_client w\<rparr> = w" by (cases w) simp
    obtain c v where c: "signDeviceCert P i now w = (c, v)" by fastforce
    have v: "v = w" using c by (auto simp: signDeviceCert_def ret_def fail_def split: sum.splits)
    show ?thesis
    proof (cases c)
      case (Inl e)
      then show ?thesis using p Some keep c v by (intro exI [of _ "[]"]) (auto simp: postFederatedReport_def chain_def on_client_def Identity_client_def)
    next
      case (Inr cert)
      let ?rq = "(plain_request ''POST'' ''/v1/federation/reports'' authFederated)\<lparr>rq_server := Server a,
        rq_body := Some (BodyFederatedReport cert (ci_Server i) \<lparr>rpb_reported = address_String a, rpb_category = category, rpb_evidence = evidence\<rparr>)\<rparr>"
      have "do_unit P J now ?rq w = (res, w')"
        using p Some keep c v Inr by (simp add: postFederatedReport_def chain_def on_client_def Identity_client_def)
      from do_unit_carries [OF this, of "BodyFederatedReport cert (ci_Server i) \<lparr>rpb_reported = address_String a, rpb_category = category, rpb_evidence = evidence\<rparr>"]
      show ?thesis by auto
    qed
  qed
  then show ?thesis using refused by (fastforce simp: list_all_iff)
qed

theorem federated_withdrawal_refused:
  assumes "carries J (BodyFederatedWithdraw cert) x" "\<forall>b. decode (jc_body J b) = server_report b"
  shows "\<exists>e db'. handleWithdrawFederatedReport P R db now (st_Request x) path decode = (Inl e, db') \<and> db_reports db' = db_reports db"
proof -
  have "NormalizeServer P [] = []" by (simp add: NormalizeServer_def trim_space_graphic Let_def)
  then have "federatedReporter P [] = Inl bad_request" by (simp add: federatedReporter_def)
  then show ?thesis using assms sender_reports
    by (auto simp: handleWithdrawFederatedReport_def carries_def readBody_def server_report_def split: sum.split prod.split)
qed

end
