(* ===== verification/Message_Stream.thy ===== *)
theory Message_Stream
  imports Client_Witnesses Api_Messages "HOL-Library.Sublist"
begin

text \<open>
  The message stream from both ends. \<open>internal/api/messages.go\<close> writes server-sent events: the
  pending messages, then what the channel of the subscription delivers, and a heartbeat when nothing
  does. \<open>pkg/client/stream.go\<close> reads the lines of the response, takes a message from each data line
  and reconnects when the stream ends. \<open>json.Marshal\<close> and \<open>json.Unmarshal\<close> of a message are
  arguments; the bytes a client receives are a prefix of those written, since a connection may end at
  any of them. A connect that runs into its timeout is a request without an answer, and a stream that
  is torn down after a silence has ended.
\<close>

section \<open>The server's side (messages.go)\<close>

definition writeSSEMessage :: "(messageResponse \<Rightarrow> bytes option) \<Rightarrow> Message \<Rightarrow> bytes option" where
  "writeSSEMessage enc m = map_option (\<lambda>data. ''event: message'' @ newline # ''data: '' @ data @ [newline, newline]) (enc (messageResponseFrom m))"

definition heartbeat :: bytes where
  "heartbeat = '': heartbeat'' @ [newline, newline]"

text \<open>What the select of the loop sees until the request is over.\<close>

datatype stream_tick = Arrives Message | Ticks

fun write_pending :: "(messageResponse \<Rightarrow> bytes option) \<Rightarrow> Message list \<Rightarrow> bytes \<times> bool" where
  "write_pending enc [] = ([], True)"
| "write_pending enc (m # ms) = (case writeSSEMessage enc m of None \<Rightarrow> ([], False)
     | Some text \<Rightarrow> (case write_pending enc ms of (rest, ok) \<Rightarrow> (text @ rest, ok)))"

fun stream_loop :: "(messageResponse \<Rightarrow> bytes option) \<Rightarrow> stream_tick list \<Rightarrow> bytes" where
  "stream_loop enc [] = []"
| "stream_loop enc (Ticks # ts) = heartbeat @ stream_loop enc ts"
| "stream_loop enc (Arrives m # ts) = (case writeSSEMessage enc m of None \<Rightarrow> [] | Some text \<Rightarrow> text @ stream_loop enc ts)"

definition stream_body :: "(messageResponse \<Rightarrow> bytes option) \<Rightarrow> Message list \<Rightarrow> stream_tick list \<Rightarrow> bytes" where
  "stream_body enc queued ticks = (case write_pending enc queued of (text, ok) \<Rightarrow> if ok then text @ stream_loop enc ticks else text)"

section \<open>The client's side (stream.go)\<close>

datatype StreamEvent = StreamConnected | StreamMessage IncomingMessage | StreamDisconnected client_error | StreamFailed client_error

record StreamPolicy =
  sp_ConnectTimeout :: duration
  sp_IdleTimeout :: duration
  sp_InitialRetryDelay :: duration
  sp_MaxRetryDelay :: duration
  sp_QuickRetryDelay :: duration

definition or_positive :: "duration \<Rightarrow> duration \<Rightarrow> duration" where
  "or_positive d def = (if d \<le> 0 then def else d)"

definition withDefaults :: "StreamPolicy \<Rightarrow> StreamPolicy" where
  "withDefaults p = \<lparr>sp_ConnectTimeout = or_positive (sp_ConnectTimeout p) (20 * second), sp_IdleTimeout = or_positive (sp_IdleTimeout p) (60 * second),
     sp_InitialRetryDelay = or_positive (sp_InitialRetryDelay p) (3 * second), sp_MaxRetryDelay = or_positive (sp_MaxRetryDelay p) (30 * second),
     sp_QuickRetryDelay = or_positive (sp_QuickRetryDelay p) (second div 2)\<rparr>"

text \<open>\<open>strings.TrimRight(line, "\r\n")\<close>, and the data of a data line.\<close>

definition trim_line :: "bytes \<Rightarrow> bytes" where
  "trim_line line = rev (dropWhile (\<lambda>c. c = CHR 0x0D \<or> c = newline) (rev line))"

definition frame_message :: "(bytes \<Rightarrow> incomingMessageWire option) \<Rightarrow> bytes \<Rightarrow> IncomingMessage option" where
  "frame_message dec line = (let text = trim_line line in
     if take 6 text \<noteq> ''data: '' then None
     else case dec (drop 6 text) of None \<Rightarrow> None | Some w \<Rightarrow> message_resolve w)"

text \<open>
  The reading loop: \<open>line\<close> holds what has been read of the current line; what is not ended by a
  newline when the connection ends is lost.
\<close>

fun read_frames :: "(bytes \<Rightarrow> incomingMessageWire option) \<Rightarrow> bytes \<Rightarrow> bytes \<Rightarrow> IncomingMessage list" where
  "read_frames dec line [] = []"
| "read_frames dec line (c # cs) = (if c = newline
     then (case frame_message dec (line @ [c]) of None \<Rightarrow> [] | Some m \<Rightarrow> [m]) @ read_frames dec [] cs
     else read_frames dec (line @ [c]) cs)"

definition streamRequest :: "platform \<Rightarrow> client_identity \<Rightarrow> time \<Rightarrow> http_request client_op" where
  "streamRequest P i now = chain newMessageID (\<lambda>nonce.
     ret \<lparr>Method = ''GET'', URLPath = ''/v1/messages/stream'', RawQuery = [],
       Headers = (''Accept'', ''text/event-stream'') # signature_headers (ci_DeviceID i) now nonce
         (httpsig_Sign P ''GET'' ''/v1/messages/stream'' [] [] (ci_DeviceID i) now nonce (ci_DevicePriv i)), Body = Some []\<rparr>)"

definition streamOnce :: "platform \<Rightarrow> (bytes \<Rightarrow> incomingMessageWire option) \<Rightarrow> time \<Rightarrow> (bool \<times> client_error \<times> StreamEvent list) net_op" where
  "streamOnce P dec now =
     chain (attempt (chain (on_client Identity_client) (\<lambda>i.
        chain (on_client (streamRequest P i now)) (\<lambda>rq.
        exchange \<lparr>st_Server = ci_Server i, st_Request = rq, st_Value = None\<rparr>)))) (\<lambda>r.
     ret (case r of Inl e \<Rightarrow> (False, e, [])
       | Inr (status, body) \<Rightarrow> if status \<noteq> 200 then (False, ErrAPI status [], [])
           else (True, ErrText ''message stream ended'', StreamConnected # map StreamMessage (read_frames dec [] body))))"

text \<open>
  The loop over the attempts made until the context is cancelled. Beside the events it gives the waits:
  a wait after a failed attempt is varied by up to a fifth, which is left out.
\<close>

definition next_delay :: "StreamPolicy \<Rightarrow> bool \<Rightarrow> duration \<Rightarrow> duration" where
  "next_delay p established delay = (if established then sp_InitialRetryDelay p else min (delay * 2) (sp_MaxRetryDelay p))"

fun stream_attempts :: "platform \<Rightarrow> (bytes \<Rightarrow> incomingMessageWire option) \<Rightarrow> StreamPolicy \<Rightarrow> duration \<Rightarrow> time list \<Rightarrow> world \<Rightarrow> (StreamEvent list \<times> duration list) \<times> world" where
  "stream_attempts P dec p delay [] w = (([], []), w)"
| "stream_attempts P dec p delay (now # later) w = (case streamOnce P dec now w of
     (Inl _, w') \<Rightarrow> (([], []), w')
   | (Inr (established, err, evs), w') \<Rightarrow>
       (case stream_attempts P dec p (next_delay p established delay) later w' of ((evs', waits), w'') \<Rightarrow>
         ((evs @ (if established then StreamDisconnected err else StreamFailed err) # evs',
           (if established then sp_QuickRetryDelay p else delay) # waits), w'')))"

definition Stream :: "platform \<Rightarrow> (bytes \<Rightarrow> incomingMessageWire option) \<Rightarrow> StreamPolicy \<Rightarrow> time list \<Rightarrow> world \<Rightarrow> (StreamEvent list \<times> duration list) \<times> world" where
  "Stream P dec policy clock w = (let p = withDefaults policy in stream_attempts P dec p (sp_InitialRetryDelay p) clock w)"

text \<open>The channel the events go to holds 32; an event that finds it full is dropped.\<close>

definition stream_send :: "StreamEvent \<Rightarrow> StreamEvent list \<Rightarrow> StreamEvent list" where
  "stream_send e buffer = (if length buffer < 32 then buffer @ [e] else buffer)"

section \<open>What a connection delivers\<close>

text \<open>
  What is assumed of \<open>encoding/json\<close>: the text of a message is one line, and unmarshalling it gives the
  fields back, the payload as \<open>env_of\<close> reads it.
\<close>

definition stream_codec :: "(messageResponse \<Rightarrow> bytes option) \<Rightarrow> (bytes \<Rightarrow> incomingMessageWire option) \<Rightarrow> (string \<Rightarrow> Envelope option) \<Rightarrow> bool" where
  "stream_codec enc dec env_of \<longleftrightarrow> (\<forall>r data. enc r = Some data \<longrightarrow>
     newline \<notin> set data \<and> CHR 0x0D \<notin> set data
     \<and> dec data = Some \<lparr>iw_MessageID = mr_MessageID r, iw_SenderAccountID = mr_SenderAccountID r, iw_SenderDeviceID = mr_SenderDeviceID r,
         iw_SentAt = mr_SentAt r, iw_Payload = env_of (mr_Payload r)\<rparr>)"

definition incoming_of :: "(string \<Rightarrow> Envelope option) \<Rightarrow> Message \<Rightarrow> IncomingMessage" where
  "incoming_of env_of m = \<lparr>in_MessageID = msg_MessageID m, in_SenderAccountID = msg_SenderAccountID m, in_SenderDeviceID = msg_SenderDeviceID m,
     in_SentAt = truncate_second (msg_SentAt m), in_Payload = env_of (msg_Payload m)\<rparr>"

fun live_messages :: "stream_tick list \<Rightarrow> Message list" where
  "live_messages [] = []"
| "live_messages (Ticks # ts) = live_messages ts"
| "live_messages (Arrives m # ts) = m # live_messages ts"

text \<open>The messages written: all of them, up to one that has no JSON text.\<close>

definition written :: "(messageResponse \<Rightarrow> bytes option) \<Rightarrow> Message list \<Rightarrow> stream_tick list \<Rightarrow> Message list" where
  "written enc queued ticks = takeWhile (\<lambda>m. enc (messageResponseFrom m) \<noteq> None) (queued @ live_messages ticks)"

lemma live_messages_append: "live_messages (early @ late) = live_messages early @ live_messages late"
  by (induction early rule: live_messages.induct) simp_all

lemma prefix_takeWhile: "prefix (takeWhile Q xs) (takeWhile Q (xs @ ys))"
  by (induction xs) simp_all

lemma read_frames_cut: "prefix (read_frames dec line a) (read_frames dec line (a @ b))"
  by (induction a arbitrary: line) simp_all

lemma read_frames_line:
  "newline \<notin> set l \<Longrightarrow> read_frames dec line (l @ newline # rest)
     = (case frame_message dec (line @ l @ [newline]) of None \<Rightarrow> [] | Some m \<Rightarrow> [m]) @ read_frames dec [] rest"
  by (induction l arbitrary: line) auto

lemma trim_line_end: "newline \<notin> set l \<Longrightarrow> CHR 0x0D \<notin> set l \<Longrightarrow> trim_line (l @ [newline]) = l"
  by (cases l rule: rev_cases) (auto simp: trim_line_def)

lemma read_other_line:
  "newline \<notin> set l \<Longrightarrow> CHR 0x0D \<notin> set l \<Longrightarrow> take 6 l \<noteq> ''data: '' \<Longrightarrow> read_frames dec [] (l @ newline # rest) = read_frames dec [] rest"
  by (simp add: read_frames_line frame_message_def trim_line_end)

lemma read_heartbeat: "read_frames dec [] (heartbeat @ rest) = read_frames dec [] rest"
  using read_other_line [of "'': heartbeat''" dec "newline # rest"] read_other_line [of "[]" dec rest]
  by (simp add: heartbeat_def newline_def)

lemma read_message:
  assumes J: "stream_codec enc dec env_of" and m: "writeSSEMessage enc m = Some text" "rfc3339_range (msg_SentAt m)"
  shows "read_frames dec [] (text @ rest) = incoming_of env_of m # read_frames dec [] rest"
proof -
  obtain data where d: "enc (messageResponseFrom m) = Some data" "text = ''event: message'' @ newline # (''data: '' @ data) @ newline # [newline]"
    using m(1) by (auto simp: writeSSEMessage_def)
  note j = J [unfolded stream_codec_def, rule_format, OF d(1)]
  have free: "newline \<notin> set (''data: '' @ data)" "CHR 0x0D \<notin> set (''data: '' @ data)" using j by (auto simp: newline_def)
  have shown: "rfc3339 (msg_SentAt m) \<noteq> []" using length_rfc3339 [of "msg_SentAt m"] by (metis list.size(3) zero_neq_numeral)
  have frame: "frame_message dec ((''data: '' @ data) @ [newline]) = Some (incoming_of env_of m)"
    unfolding frame_message_def trim_line_end [OF free] Let_def
    using j stored_time_reads_back [OF m(2)] shown
    by (auto simp: message_resolve_def messageResponseFrom_def incoming_of_def Let_def)
  have "read_frames dec [] (text @ rest) = read_frames dec [] ((''data: '' @ data) @ newline # newline # rest)"
    using read_other_line [of "''event: message''" dec "(''data: '' @ data) @ newline # newline # rest"] by (simp add: d(2) newline_def)
  also have "\<dots> = incoming_of env_of m # read_frames dec [] (newline # rest)"
    using read_frames_line [OF free(1), of dec "[]" "newline # rest"] frame by simp
  also have "read_frames dec [] (newline # rest) = read_frames dec [] rest" using read_other_line [of "[]" dec rest] by simp
  finally show ?thesis .
qed

lemma writeSSEMessage_None: "writeSSEMessage enc m = None \<longleftrightarrow> enc (messageResponseFrom m) = None"
  by (simp add: writeSSEMessage_def)

lemma read_loop:
  assumes J: "stream_codec enc dec env_of" and r: "\<forall>m \<in> set (live_messages ticks). rfc3339_range (msg_SentAt m)"
  shows "read_frames dec [] (stream_loop enc ticks) = map (incoming_of env_of) (written enc [] ticks)"
  using J r
proof (induction enc ticks rule: stream_loop.induct)
  case (3 enc m ts)
  show ?case
  proof (cases "writeSSEMessage enc m")
    case None
    then show ?thesis using writeSSEMessage_None [of enc m] by (simp add: written_def)
  next
    case (Some txt')
    then have e: "enc (messageResponseFrom m) \<noteq> None" using writeSSEMessage_None [of enc m] by simp
    have "read_frames dec [] (txt' @ stream_loop enc ts) = incoming_of env_of m # read_frames dec [] (stream_loop enc ts)"
      by (rule read_message [OF "3.prems"(1) Some]) (use "3.prems"(2) in simp)
    then show ?thesis using "3.IH" [OF Some "3.prems"(1)] "3.prems"(2) by (simp add: Some written_def e del: not_None_eq)
  qed
qed (simp_all add: written_def read_heartbeat)

lemma written_Cons:
  "written enc (m # ms) ticks = (if enc (messageResponseFrom m) = None then [] else m # written enc ms ticks)"
  by (simp add: written_def)

lemma stream_body_Cons:
  "stream_body enc (m # ms) ticks = (case writeSSEMessage enc m of None \<Rightarrow> [] | Some text \<Rightarrow> text @ stream_body enc ms ticks)"
  by (simp add: stream_body_def split: option.split prod.split)

lemma read_body:
  assumes J: "stream_codec enc dec env_of" and r: "\<forall>m \<in> set (queued @ live_messages ticks). rfc3339_range (msg_SentAt m)"
  shows "read_frames dec [] (stream_body enc queued ticks) = map (incoming_of env_of) (written enc queued ticks)"
  using r
proof (induction queued)
  case Nil
  then show ?case using read_loop [OF J, of ticks] by (simp add: stream_body_def)
next
  case (Cons m ms)
  show ?case
  proof (cases "writeSSEMessage enc m")
    case None
    then show ?thesis using writeSSEMessage_None [of enc m] by (simp add: written_Cons stream_body_Cons)
  next
    case (Some txt')
    then have e: "enc (messageResponseFrom m) \<noteq> None" using writeSSEMessage_None [of enc m] by simp
    have "read_frames dec [] (txt' @ stream_body enc ms ticks) = incoming_of env_of m # read_frames dec [] (stream_body enc ms ticks)"
      by (rule read_message [OF J Some]) (use Cons.prems in simp)
    then show ?thesis using Cons.IH Cons.prems by (simp add: Some written_Cons stream_body_Cons e del: not_None_eq)
  qed
qed

lemma stream_loop_append: "prefix (stream_loop enc early) (stream_loop enc (early @ late))"
  by (induction enc early rule: stream_loop.induct) (simp_all split: option.split)

lemma stream_body_append: "prefix (stream_body enc queued early) (stream_body enc queued (early @ late))"
  using stream_loop_append [of enc early late] by (simp add: stream_body_def split: prod.split)

lemma prefix_map_take: "prefix xs (map f ys) \<Longrightarrow> \<exists>n \<le> length ys. xs = map f (take n ys)"
  by (metis length_map prefix_def prefix_length_le take_map append_eq_conv_conj)

lemma streamOnce_opens:
  assumes "cs_identity (wo_client w) = Some i" "cs_random (wo_client w) = b # bs" "wo_replies w = Some (200, body) # rs"
  shows "\<exists>w'. streamOnce P dec now w = (Inr (True, ErrText ''message stream ended'', StreamConnected # map StreamMessage (read_frames dec [] body)), w')"
  using assms by (simp add: streamOnce_def chain_def attempt_def on_client_def Identity_client_def streamRequest_def newMessageID_def ret_def exchange_def)

lemma body_cut:
  assumes J: "stream_codec enc dec env_of" and r: "\<forall>m \<in> set (queued @ live_messages (early @ late)). rfc3339_range (msg_SentAt m)"
    and k: "length (stream_body enc queued early) \<le> k"
  shows "\<exists>n. read_frames dec [] (take k (stream_body enc queued (early @ late))) = map (incoming_of env_of) (take n (written enc queued (early @ late)))
    \<and> prefix (written enc queued early) (take n (written enc queued (early @ late)))"
proof -
  let ?all = "stream_body enc queued (early @ late)" and ?seen = "take k (stream_body enc queued (early @ late))"
  have all: "read_frames dec [] ?all = map (incoming_of env_of) (written enc queued (early @ late))"
    using J r by (intro read_body) simp_all
  have cut: "prefix (read_frames dec [] ?seen) (read_frames dec [] ?all)"
    using read_frames_cut [of dec "[]" ?seen "drop k ?all"] by simp
  obtain n where n: "n \<le> length (written enc queued (early @ late))" "read_frames dec [] ?seen = map (incoming_of env_of) (take n (written enc queued (early @ late)))"
    using prefix_map_take [OF cut [unfolded all]] by blast
  obtain x where x: "?all = stream_body enc queued early @ x" using stream_body_append [of enc queued early late] unfolding prefix_def by blast
  have "prefix (read_frames dec [] (stream_body enc queued early)) (read_frames dec [] ?seen)"
    using k read_frames_cut [of dec "[]" "stream_body enc queued early" "take (k - length (stream_body enc queued early)) x"] by (simp add: x)
  moreover have "read_frames dec [] (stream_body enc queued early) = map (incoming_of env_of) (written enc queued early)"
    using J r by (intro read_body) (auto simp: live_messages_append)
  ultimately have len: "length (written enc queued early) \<le> n" using n by (auto dest!: prefix_length_le)
  have "prefix (written enc queued early) (written enc queued (early @ late))"
    using prefix_takeWhile [of _ "queued @ live_messages early" "live_messages late"] by (simp add: written_def live_messages_append)
  then have "prefix (written enc queued early) (take n (written enc queued (early @ late)))"
    using len n(1) by (metis prefix_def append_eq_conv_conj take_take min.absorb1 take_is_prefix prefix_length_prefix length_take)
  then show ?thesis using n(2) by blast
qed


section \<open>Reconnecting\<close>

text \<open>The server that knows the device lets the stream request through.\<close>

theorem stream_request_authenticated:
  assumes P: "ed25519_correct P" and db: "db_ok db" "cache_ok c"
    and rq: "streamRequest P i t v = (Inr rq, v')" "cs_random v = b # bs" "b \<noteq> []"
    and d: "d \<in> set (db_devices db)" "dev_Status d = DeviceStatusActive" "dev_DeviceID d = ci_DeviceID i" "ci_DeviceID i \<noteq> []"
      "dev_DevicePubKey d = ed25519_public P (ci_DevicePriv i)"
    and acc: "a \<in> set (db_accounts db)" "acc_ID a = dev_AccountID d" "acc_Status a = AccountStatusActive"
    and time: "- (2 ^ 62) \<le> unix_seconds t" "unix_seconds t < 2 ^ 62" "\<bar>now - truncate_second t\<bar> \<le> MaxClockSkew"
    and fresh: "\<not> cache_blocks c (ci_DeviceID i, hex_encode b) now" 
    and plain: "\<not> isStreamedBodyRequest paths \<lparr>Method = ''GET'', URLPath = ''/v1/messages/stream'', RawQuery = [], Headers = [], Body = None\<rparr>"
  shows "\<exists>c'. authenticate P paths db now rq c = (Inr \<lparr>id_AccountID = acc_ID a, id_DeviceID = ci_DeviceID i, id_Role = acc_Role a\<rparr>, c') \<and> cache_ok c'"
proof -
  define r where "r = client_request P (ci_DevicePriv i) (dev_DeviceID d) ''GET'' ''/v1/messages/stream'' [] [] t (hex_encode b)"
  have "rq = r\<lparr>Headers := (''Accept'', ''text/event-stream'') # Headers r\<rparr>"
    using rq(1,2) d(3) by (auto simp: streamRequest_def chain_def newMessageID_def ret_def r_def client_request_def signature_headers_def)
  then have "authenticate P paths db now rq c = authenticate P paths db now r c"
    by (simp add: other_header_ignored HeaderKeyID_def HeaderTimestamp_def HeaderNonce_def HeaderSignature_def HeaderBodyDigest_def)
  moreover have "\<not> isStreamedBodyRequest paths r" 
    using plain streamed_same [of r "\<lparr>Method = ''GET'', URLPath = ''/v1/messages/stream'', RawQuery = [], Headers = [], Body = None\<rparr>" paths]
    by (simp add: r_def client_request_def)
  then have "\<exists>c'. authenticate P paths db now r c
      = (Inr \<lparr>id_AccountID = acc_ID a, id_DeviceID = dev_DeviceID d, id_Role = acc_Role a\<rparr>, c') \<and> cache_ok c'"
    unfolding r_def
    by (intro client_request_accepted [OF P db d(1,2,5) acc _ hex_encode_nonempty [OF rq(3)] _ time]) (use d fresh in simp_all)
  ultimately show ?thesis using d(3) by simp
qed

text \<open>
  Every wait lies between the shorter and the longer of the configured delays, and while no attempt
  gets through each wait is twice the one before, up to the maximum.
\<close>

lemma waits_bounded:
  assumes "lo \<le> delay" "delay \<le> hi" "lo \<le> sp_QuickRetryDelay p" "sp_QuickRetryDelay p \<le> hi"
    "lo \<le> sp_InitialRetryDelay p" "sp_InitialRetryDelay p \<le> hi" "lo \<le> sp_MaxRetryDelay p" "sp_MaxRetryDelay p \<le> hi" "0 \<le> lo"
  shows "\<forall>x \<in> set (snd (fst (stream_attempts P dec p delay clock w))). lo \<le> x \<and> x \<le> hi"
  using assms
proof (induction P dec p delay clock w rule: stream_attempts.induct)
  case (2 P dec p delay now later w)
  obtain r w1 where r: "streamOnce P dec now w = (r, w1)" by fastforce
  show ?case
  proof (cases r)
    case (Inr t)
    obtain est err evs where t: "t = (est, err, evs)" by (cases t)
    have "lo \<le> next_delay p est delay" "next_delay p est delay \<le> hi" using "2.prems" by (auto simp: next_delay_def)
    then show ?thesis using "2.IH" [OF r [symmetric] Inr t [symmetric] refl] "2.prems" by (auto simp: r Inr t split: prod.split)
  qed (simp add: r)
qed simp

lemma min_double:
  assumes "0 \<le> delay" "delay \<le> (most :: int)"
  shows "min (min (delay * 2) most * 2 ^ n) most = min (delay * (2 * 2 ^ n)) most"
proof (cases "delay * 2 \<le> most")
  case False
  have "most * 1 \<le> most * 2 ^ n" using assms by (intro mult_left_mono) simp_all
  moreover have "most * 2 ^ n \<le> delay * 2 * 2 ^ n" using False by (intro mult_right_mono) simp_all
  ultimately have "most \<le> delay * (2 * 2 ^ n)" "most \<le> most * 2 ^ n" by (simp_all only: mult.assoc mult_1_right)
  then show ?thesis using False by (simp add: min_absorb2)
qed (simp add: algebra_simps)

lemma waits_double:
  assumes "wo_replies w = []" "cs_identity (wo_client w) = Some i" "length clock \<le> length (cs_random (wo_client w))" "0 \<le> delay" "delay \<le> sp_MaxRetryDelay p"
  shows "snd (fst (stream_attempts P dec p delay clock w)) = map (\<lambda>n. min (delay * 2 ^ n) (sp_MaxRetryDelay p)) [0..<length clock]"
  using assms
proof (induction clock arbitrary: delay w)
  case (Cons now later)
  then obtain b bs where b: "cs_random (wo_client w) = b # bs" by (cases "cs_random (wo_client w)") auto
  define w1 where "w1 = snd (streamOnce P dec now w)"
  have s: "streamOnce P dec now w = (Inr (False, ErrNetwork, []), w1)" "wo_replies w1 = []" "cs_identity (wo_client w1) = Some i" "cs_random (wo_client w1) = bs"
    using Cons.prems b by (simp_all add: w1_def streamOnce_def chain_def attempt_def on_client_def Identity_client_def streamRequest_def newMessageID_def ret_def exchange_def)
  have "snd (fst (stream_attempts P dec p (next_delay p False delay) later w1))
      = map (\<lambda>n. min (next_delay p False delay * 2 ^ n) (sp_MaxRetryDelay p)) [0..<length later]"
    using Cons.prems b s by (intro Cons.IH) (auto simp: next_delay_def)
  also have "\<dots> = map (\<lambda>n. min (delay * 2 ^ Suc n) (sp_MaxRetryDelay p)) [0..<length later]"
    using Cons.prems(4,5) by (simp add: next_delay_def min_double)
  finally have rest: "snd (fst (stream_attempts P dec p (next_delay p False delay) later w1))
      = map (\<lambda>n. min (delay * 2 ^ n) (sp_MaxRetryDelay p)) (map Suc [0..<length later])" by (simp add: comp_def)
  have "[0..<length (now # later)] = 0 # map Suc [0..<length later]" by (simp add: upt_conv_Cons map_Suc_upt del: upt_Suc)
  then show ?case using Cons.prems(5) rest by (auto simp: s(1) simp del: upt_Suc split: prod.split)
qed simp

section \<open>A connection that breaks off\<close>

text \<open>
  Two messages and a heartbeat; the connection ends within the second message.
\<close>

definition sample_enc :: "messageResponse \<Rightarrow> bytes option" where
  "sample_enc r = (if r = messageResponseFrom (sample_message ''m1'' ''d1'') then Some ''{1}''
     else if r = messageResponseFrom (sample_message ''m2'' ''d1'') then Some ''{2}'' else None)"

definition sample_dec :: "bytes \<Rightarrow> incomingMessageWire option" where
  "sample_dec data = (let wire = \<lambda>r. \<lparr>iw_MessageID = mr_MessageID r, iw_SenderAccountID = mr_SenderAccountID r, iw_SenderDeviceID = mr_SenderDeviceID r,
        iw_SentAt = mr_SentAt r, iw_Payload = None\<rparr> in
     if data = ''{1}'' then Some (wire (messageResponseFrom (sample_message ''m1'' ''d1'')))
     else if data = ''{2}'' then Some (wire (messageResponseFrom (sample_message ''m2'' ''d1''))) else None)"

lemma sample_stream_codec: "stream_codec sample_enc sample_dec (\<lambda>_. None)"
  by (auto simp: stream_codec_def sample_enc_def sample_dec_def newline_def)


end
