(* ===== verification/Spec2Isabelle.thy ===== *)
theory Spec2Isabelle
  imports Config Mnemonic Api_License Api_Prekeys Api_Push Replay_Refine Blob_Delivery Group_Sync Client_Transcript
    Client_Onboarding Client_Reports Message_Stream
begin

text \<open>
  Verification of freizone-server, a federated server for end-to-end encrypted messages, and of the
  client library that speaks its protocol.

  \<^bold>\<open>The program.\<close> A server keeps accounts, devices, queued messages, prekeys, invites, blobs and reports
  in SQLite (\<open>internal/store\<close>) and encrypted attachments in a directory (\<open>internal/blobstore\<close>). Its HTTP
  handlers (\<open>internal/api\<close>) are reached through a middleware that authenticates a request by the
  signature of a registered device (\<open>internal/auth\<close>, \<open>pkg/httpsig\<close>); a sender on another server proves
  itself by a chain of certificates in the request. A queued message goes to the open streams of its device
  (\<open>broker.go\<close>) or, if there is none, to a push wake (\<open>wakecoalesce.go\<close>, \<open>push.go\<close>). Accounts and groups
  are named by keys (\<open>pkg/address\<close>), devices and prekeys are certified (\<open>pkg/devicecert\<close>), and the server
  may show a signed attestation (\<open>pkg/attest\<close>). The client (\<open>pkg/client\<close>) keeps one account in a
  directory, opens sessions by X3DH, encrypts with the Double Ratchet (\<open>pkg/ratchet\<close>), wraps the result
  (\<open>pkg/wire\<close>) and replicates groups as sets of signed facts (\<open>pkg/group\<close>). A recovery phrase
  (\<open>pkg/mnemonic\<close>) restores the root key.

  \<^bold>\<open>The model.\<close> Every definition carries the name of the Go function it translates, prefixed where
  Isabelle or another package already has the name; every early return is a branch. Structs are records,
  enumerations datatypes, errors the left of a sum; \<open>uint32\<close> counters are 32-bit words, \<open>int64\<close> durations
  integers with the wrap-around and saturation of Go written out where it is reachable, strings and byte
  slices lists of bytes. Functions of libraries outside the repository are fields of the record
  \<open>platform\<close> (\<open>Platform\<close>: hash, HMAC, HKDF, curve, AES-GCM, Ed25519, letter case); a theorem that needs their
  documented behaviour names it as a hypothesis (\<open>ed25519_correct\<close>, \<open>gcm_correct\<close> and the like), and a
  concrete \<open>sample_platform\<close> satisfies those laws in the witnesses. The text of JSON, \<open>crypto/rand\<close>, the clock and
  the answers of the network are arguments or part of the state. A handler reads the clock once.

  \<^bold>\<open>Foundations.\<close> \<open>Prelude\<close> (lists, association lists, words, and the locale \<open>preserving\<close> for invariants
  that the components interpret), \<open>Encoding\<close> (hex, base64, UTF-8, big endian, the locale \<open>prefix_code\<close>), \<open>Clock\<close>
  and \<open>Clock_Parse\<close> (\<open>time\<close>), \<open>Platform\<close>, \<open>Table\<close> (SQL tables), \<open>Bit_Buffer\<close>, \<open>Word_List\<close>, \<open>Log_File\<close>.

  \<^bold>\<open>Packages.\<close> \<open>Address\<close>, \<open>Humancode\<close>, \<open>Devicecert\<close>, \<open>Httpsig\<close>, \<open>Profileclaim\<close>, \<open>Attest\<close>, \<open>Mnemonic\<close>,
  \<open>Wire\<close>: codecs and signed records, with their round trips and the unambiguity of what is signed.
  \<open>Ratchet\<close>, \<open>Ratchet_Chain\<close>, \<open>X3dh\<close>: messages of a chain decrypt exactly once in any order, buffered
  keys are bounded, and X3DH gives both sides a working session. \<open>Group_Event\<close>, \<open>Group_State\<close>,
  \<open>Group_Fold\<close>, \<open>Group_Sync\<close>: replicas that were handed the same facts in any order agree, rank changes need
  a higher rank, and a state refines the set of facts it was handed.

  \<^bold>\<open>Server.\<close> \<open>Store\<close>, \<open>Store_Integrity\<close>, \<open>Store_Prekeys\<close>: one definition per repository function, and
  integrity along every history. \<open>Replay_Guard\<close>, \<open>Auth\<close>, \<open>Replay_Refine\<close>: the middleware and its nonce
  cache, which refines one map; the interface of the two nonce stores is the locale \<open>replay_guard\<close>.
  \<open>Api_Accounts\<close>, \<open>Api_Admin\<close>, \<open>Api_Recovery\<close>, \<open>Api_Frame\<close>, \<open>Broker\<close>, \<open>Wake_Coalesce\<close>, \<open>Api_Messages\<close>,
  \<open>Api_Federation\<close>, \<open>Api_Delivery\<close>, \<open>Api_Prekeys\<close>, \<open>Api_Push\<close>: the handlers, and the server as a whole,
  whose invariant every sequence of requests and timer events keeps. \<open>Blobstore\<close>, \<open>Api_Blobs\<close>,
  \<open>Blob_System\<close>, \<open>Blob_Delivery\<close>: uploads as three steps that interleave with others and with the cleanup;
  quotas and files along every interleaving. \<open>Api_Reports\<close>, \<open>Report_Rules\<close>, \<open>Api_License\<close>, \<open>Config\<close>.

  \<^bold>\<open>Client.\<close> \<open>Client_Log\<close>, \<open>Client_Transcript\<close> (transcripts as replayed logs), \<open>Client_State\<close> (the account),
  \<open>Client_Content\<close>, \<open>Client_Groups\<close>, \<open>Client_Receive\<close> (the receive path), \<open>Client_Net\<close>, \<open>Client_Peers\<close>,
  \<open>Client_Blobs\<close>, \<open>Client_Send\<close>, \<open>Client_Group_Send\<close>, \<open>Client_Group_Chat\<close>, \<open>Client_Drain\<close>,
  \<open>Client_Register\<close>, \<open>Client_Reports\<close>. \<open>Client_Frame\<close> and \<open>Client_Net_Frame\<close> give every operation a
  footprint; \<open>Client_Delivery\<close>, \<open>Client_Wellformed\<close>, \<open>Client_Send_Rules\<close>, \<open>Client_Contact\<close>,
  \<open>Client_Fan_Out\<close> and \<open>Client_Drain_Rules\<close> hold the guarantees, \<open>Client_Witnesses\<close> the runs they are applied
  to. \<open>Client_Server\<close>, \<open>Client_Onboarding\<close> and \<open>Message_Stream\<close> put client and server together: requests
  authenticate, a registration is accepted, and what is written to a stream is read from it.

  \<^bold>\<open>Concurrency.\<close> An operation under one mutex or in one transaction is one step, and a handler that is
  not is split where other requests can come between (uploads, opening a stream, the last-admin guard,
  wakes). The client's operations are serialised by the client's lock; a request and its answer are one step.

  \<^bold>\<open>Termination.\<close> No definition has fuel: loops are structural or have a termination proof, among them the
  fixpoint of a group's replay (each round leaves fewer events pending) and the fan-out of a group message.

  \<^bold>\<open>What the model showed.\<close> Some theorems state where the code departs from its comments or its
  intention: \<open>expiry_replay_accepted\<close>, \<open>last_admin_race\<close>, \<open>stream_gap\<close>, \<open>two_wakes_at_window_end\<close>,
  \<open>rejected_upload_not_rolled_back\<close>, \<open>orphan_sweep_race\<close>, \<open>signer_block_substitutable\<close>,
  \<open>same_second_order_matters\<close>, \<open>profile_claim_doubles_as_dh_certificate\<close>, \<open>federated_reporter_multiplies\<close>,
  \<open>message_after_lost_answer_dropped\<close>, \<open>resolved_account_unchecked\<close>, \<open>torn_append_costs_next\<close>,
  \<open>remarked_id_forgotten\<close>, \<open>federated_report_refused\<close>, \<open>federated_withdrawal_refused\<close>,
  \<open>fresh_subscription_dropped\<close> and \<open>expired_attestation_shown\<close>.

  \<^bold>\<open>Not modelled.\<close> The read-only views of the server (health, status, statistics, the landing page, the
  account list with its activity figures), the route table, the migrations and the generation of the push
  keys; the encryption of Web Push (a library) and the tuning of the HTTP clients; the listener, logging and
  disk statistics; \<open>cmd/server\<close> apart from the blob cleanup, which is wiring, and \<open>cmd/devclient\<close>, a command
  line over the client; \<open>pkg/conformance\<close>, a generator of test vectors; of the client the directory lock, the
  paths of its files and the network diagnosis. Errors of the database driver and of the file system that
  the code only passes on do not occur in the model.
\<close>

end
